(* ===== verification/Prelude.thy ===== *)
theory Prelude
  imports Main "HOL-Library.Word" "HOL-Library.Monad_Syntax"
begin

text \<open>
  What every component shares: the fixed-width integer types, the bit-field macros of
  \<^verbatim>\<open>libcpuid_internal.h\<close>, C strings, and generic lemmas.

  Conventions of the whole development:
  \<^item> an unsigned C integer is a word of its width; an \<^verbatim>\<open>int32_t\<close> field whose values
    come from small bit fields is an \<^typ>\<open>int\<close>; an \<^verbatim>\<open>int32_t\<close> used as a bit pattern
    (APIC ids and masks) is a 32-bit word and is read with \<^const>\<open>sint\<close> where C's
    sign matters;
  \<^item> a C string is the list of its characters before the terminating NUL;
  \<^item> undefined behaviour of C (an access outside an array) is the value \<^const>\<open>None\<close>
    of an option result, so that "no undefined behaviour" is a theorem;
  \<^item> debug and warning output (\<^verbatim>\<open>debugf\<close>, \<^verbatim>\<open>warnf\<close>) has no effect on the results
    and is left out, but for the theory of the messages themselves.
\<close>

unbundle bit_operations_syntax

type_synonym u8 = "8 word"
type_synonym u16 = "16 word"
type_synonym u32 = "32 word"
type_synonym u64 = "64 word"

named_theorems id_frame \<open>fields of the CPU identification an operation leaves unchanged\<close>

section \<open>Bit fields\<close>

text \<open>
  \<^verbatim>\<open>EXTRACTS_BIT(reg, bit)\<close> and \<^verbatim>\<open>EXTRACTS_BITS(reg, highbit, lowbit)\<close>: the second
  promotes to \<^verbatim>\<open>unsigned long long\<close> because of its \<^verbatim>\<open>1ULL\<close>.
\<close>

definition EXTRACTS_BIT :: "'a::len word \<Rightarrow> nat \<Rightarrow> 'a word" where
  "EXTRACTS_BIT reg b = drop_bit b reg AND 1"

definition EXTRACTS_BITS :: "'a::len word \<Rightarrow> nat \<Rightarrow> nat \<Rightarrow> u64" where
  "EXTRACTS_BITS reg highbit lowbit =
     ucast (drop_bit lowbit reg) AND (push_bit (highbit - lowbit + 1) 1 - 1)"

lemma EXTRACTS_BIT_eq_1_iff: "EXTRACTS_BIT reg b = 1 \<longleftrightarrow> bit reg b"
  by (simp add: EXTRACTS_BIT_def and_one_eq odd_iff_mod_2_eq_one [symmetric]
      bit_iff_odd_drop_bit)

lemma push_bit_1_minus_1: "push_bit n (1::'a::len word) - 1 = mask n"
  by (simp add: mask_eq_decr_exp push_bit_eq_mult)

lemma EXTRACTS_BITS_take_bit:
  "EXTRACTS_BITS reg highbit lowbit =
     take_bit (highbit - lowbit + 1) (ucast (drop_bit lowbit reg))"
  by (simp only: EXTRACTS_BITS_def push_bit_1_minus_1 take_bit_eq_mask)

lemma EXTRACTS_BITS_less:
  "unat (EXTRACTS_BITS reg highbit lowbit) < 2 ^ (highbit - lowbit + 1)"
  unfolding EXTRACTS_BITS_take_bit unsigned_take_bit_eq by (rule take_bit_nat_less_exp)

lemma unat_EXTRACTS_BITS_32:
  fixes reg :: u32
  shows "unat (EXTRACTS_BITS reg highbit lowbit) =
    unat reg div 2 ^ lowbit mod 2 ^ (highbit - lowbit + 1)"
proof -
  have "unat (ucast (drop_bit lowbit reg) :: u64) = unat (drop_bit lowbit reg)"
    by (simp add: unsigned_ucast_eq take_bit_nat_eq_self_iff
        order_less_trans [OF unsigned_less])
  then show ?thesis
    by (simp only: EXTRACTS_BITS_take_bit unsigned_take_bit_eq unat_drop_bit_eq)
      (simp only: take_bit_eq_mod drop_bit_eq_div)
qed

section \<open>C strings\<close>

text \<open>
  Reading \<^verbatim>\<open>s[i]\<close> of a NUL-terminated string: its characters, then the NUL. The
  models read at \<^verbatim>\<open>i \<le> strlen(s)\<close> only.
\<close>

abbreviation (input) NUL :: char where
  "NUL \<equiv> CHR 0x00"

definition c_at :: "string \<Rightarrow> nat \<Rightarrow> char" where
  "c_at s i = (if i < length s then s ! i else NUL)"

text \<open>\<^verbatim>\<open>tolower\<close>, \<^verbatim>\<open>isdigit\<close> and \<^verbatim>\<open>isspace\<close> in the C locale.\<close>

definition c_tolower :: "char \<Rightarrow> char" where
  "c_tolower c = (if 65 \<le> (of_char c :: nat) \<and> (of_char c :: nat) \<le> 90
     then char_of ((of_char c :: nat) + 32) else c)"

definition c_isdigit :: "char \<Rightarrow> bool" where
  "c_isdigit c \<longleftrightarrow> 48 \<le> (of_char c :: nat) \<and> (of_char c :: nat) \<le> 57"

definition c_isspace :: "char \<Rightarrow> bool" where
  "c_isspace c \<longleftrightarrow> (of_char c :: nat) = 32 \<or> 9 \<le> (of_char c :: nat) \<and> (of_char c :: nat) \<le> 13"

text \<open>
  \<^verbatim>\<open>strncpy(dst, src, n)\<close> into an array of \<^verbatim>\<open>n\<close> characters: at most \<open>n\<close> characters
  are copied. The destination is terminated exactly when the source is shorter than \<open>n\<close>.
\<close>

definition c_strncpy :: "nat \<Rightarrow> string \<Rightarrow> string" where
  "c_strncpy n src = take n src"

lemma c_strncpy_short: "length src < n \<Longrightarrow> c_strncpy n src = src"
  by (simp add: c_strncpy_def)

lemma length_c_strncpy: "length (c_strncpy n src) = min n (length src)"
  by (simp add: c_strncpy_def min.commute)

text \<open>
  \<^verbatim>\<open>strstr(s, pat)\<close>: the position of the first occurrence, from left to right.
\<close>

fun c_prefix :: "string \<Rightarrow> string \<Rightarrow> bool" where
  "c_prefix [] s = True"
| "c_prefix (c # cs) [] = False"
| "c_prefix (c # cs) (d # ds) = (c = d \<and> c_prefix cs ds)"

fun c_strstr :: "string \<Rightarrow> string \<Rightarrow> nat option" where
  "c_strstr [] pat = (if pat = [] then Some 0 else None)"
| "c_strstr (c # cs) pat =
     (if c_prefix pat (c # cs) then Some 0 else map_option Suc (c_strstr cs pat))"

lemma c_prefix_iff: "c_prefix p s \<longleftrightarrow> (\<exists>t. s = p @ t)"
  by (induction p s rule: c_prefix.induct) auto

lemma c_prefix_take: "c_prefix p s \<longleftrightarrow> take (length p) s = p"
  by (induction p s rule: c_prefix.induct) auto

lemma c_strstr_Some:
  assumes "c_strstr s p = Some i"
  shows "\<exists>t. s = take i s @ p @ t" and "i + length p \<le> length s"
proof -
  have "(\<exists>t. s = take i s @ p @ t) \<and> i + length p \<le> length s"
    using assms
  proof (induction s arbitrary: i)
    case Nil
    then show ?case by (simp split: if_splits)
  next
    case (Cons c cs)
    show ?case
    proof (cases "c_prefix p (c # cs)")
      case True
      with Cons.prems obtain t where "i = 0" "c # cs = p @ t"
        by (auto simp: c_prefix_iff)
      then show ?thesis
        by (metis append_Nil le_add1 length_append plus_nat.add_0 take0)
    next
      case False
      with Cons.prems obtain j where "c_strstr cs p = Some j" "i = Suc j" by auto
      with Cons.IH show ?thesis by auto
    qed
  qed
  then show "\<exists>t. s = take i s @ p @ t" and "i + length p \<le> length s" by auto
qed

lemma c_strstr_None: "c_strstr s p = None \<longleftrightarrow> (\<forall>u t. s \<noteq> u @ p @ t)"
proof (induction s)
  case Nil
  then show ?case by auto
next
  case (Cons c cs)
  have "(\<exists>u t. c # cs = u @ p @ t) \<longleftrightarrow>
      c_prefix p (c # cs) \<or> (\<exists>u t. cs = u @ p @ t)"
    by (auto simp: c_prefix_iff Cons_eq_append_conv)
  with Cons show ?case by auto
qed

lemma c_strstr_first:
  assumes "c_strstr s p = Some i" and "j < i"
  shows "\<not> c_prefix p (drop j s)"
  using assms
proof (induction s arbitrary: i j)
  case Nil
  then show ?case by (simp split: if_splits)
next
  case (Cons c cs)
  then show ?case
    by (cases j) (auto split: if_splits)
qed

section \<open>Lists\<close>

lemma find_Some_iff_first:
  "List.find P xs = Some x \<longleftrightarrow>
     (\<exists>i < length xs. P (xs ! i) \<and> x = xs ! i \<and> (\<forall>j < i. \<not> P (xs ! j)))"
  by (auto simp: find_Some_iff)

lemma find_append:
  "List.find P (xs @ ys) = (case List.find P xs of None \<Rightarrow> List.find P ys | Some x \<Rightarrow> Some x)"
  by (induction xs) auto

lemma find_map: "List.find P (map f xs) = map_option f (List.find (P \<circ> f) xs)"
  by (induction xs) auto

lemma find_key_Some:
  assumes "distinct (map f xs)" and "x \<in> set xs"
  shows "List.find (\<lambda>y. f y = f x) xs = Some x"
  using assms by (induction xs) (auto simp: image_iff)

lemma find_key_None: "List.find (\<lambda>y. f y = k) xs = None \<longleftrightarrow> k \<notin> f ` set xs"
  by (induction xs) auto

end
