(* ===== verification/Feature_Ids.thy ===== *)
theory Feature_Ids
  imports Prelude
begin

text \<open>
  The feature identifiers \<^verbatim>\<open>CPU_FEATURE_*\<close> of \<^verbatim>\<open>cpu_feature_t\<close> (\<^verbatim>\<open>libcpuid.h\<close>). The C enum
  numbers them from 0 and uses them only as indices of \<^verbatim>\<open>cpu_id_t.flags\<close>, so an identifier is
  its number, and each name is an input abbreviation of it.
\<close>

type_synonym cpu_feature_t = nat

abbreviation (input) CPU_FEATURE_FPU :: cpu_feature_t where "CPU_FEATURE_FPU \<equiv> 0"
abbreviation (input) CPU_FEATURE_VME :: cpu_feature_t where "CPU_FEATURE_VME \<equiv> 1"
abbreviation (input) CPU_FEATURE_DE :: cpu_feature_t where "CPU_FEATURE_DE \<equiv> 2"
abbreviation (input) CPU_FEATURE_PSE :: cpu_feature_t where "CPU_FEATURE_PSE \<equiv> 3"
abbreviation (input) CPU_FEATURE_TSC :: cpu_feature_t where "CPU_FEATURE_TSC \<equiv> 4"
abbreviation (input) CPU_FEATURE_MSR :: cpu_feature_t where "CPU_FEATURE_MSR \<equiv> 5"
abbreviation (input) CPU_FEATURE_PAE :: cpu_feature_t where "CPU_FEATURE_PAE \<equiv> 6"
abbreviation (input) CPU_FEATURE_MCE :: cpu_feature_t where "CPU_FEATURE_MCE \<equiv> 7"
abbreviation (input) CPU_FEATURE_CX8 :: cpu_feature_t where "CPU_FEATURE_CX8 \<equiv> 8"
abbreviation (input) CPU_FEATURE_APIC :: cpu_feature_t where "CPU_FEATURE_APIC \<equiv> 9"
abbreviation (input) CPU_FEATURE_MTRR :: cpu_feature_t where "CPU_FEATURE_MTRR \<equiv> 10"
abbreviation (input) CPU_FEATURE_SEP :: cpu_feature_t where "CPU_FEATURE_SEP \<equiv> 11"
abbreviation (input) CPU_FEATURE_PGE :: cpu_feature_t where "CPU_FEATURE_PGE \<equiv> 12"
abbreviation (input) CPU_FEATURE_MCA :: cpu_feature_t where "CPU_FEATURE_MCA \<equiv> 13"
abbreviation (input) CPU_FEATURE_CMOV :: cpu_feature_t where "CPU_FEATURE_CMOV \<equiv> 14"
abbreviation (input) CPU_FEATURE_PAT :: cpu_feature_t where "CPU_FEATURE_PAT \<equiv> 15"
abbreviation (input) CPU_FEATURE_PSE36 :: cpu_feature_t where "CPU_FEATURE_PSE36 \<equiv> 16"
abbreviation (input) CPU_FEATURE_PN :: cpu_feature_t where "CPU_FEATURE_PN \<equiv> 17"
abbreviation (input) CPU_FEATURE_CLFLUSH :: cpu_feature_t where "CPU_FEATURE_CLFLUSH \<equiv> 18"
abbreviation (input) CPU_FEATURE_DTS :: cpu_feature_t where "CPU_FEATURE_DTS \<equiv> 19"
abbreviation (input) CPU_FEATURE_ACPI :: cpu_feature_t where "CPU_FEATURE_ACPI \<equiv> 20"
abbreviation (input) CPU_FEATURE_MMX :: cpu_feature_t where "CPU_FEATURE_MMX \<equiv> 21"
abbreviation (input) CPU_FEATURE_FXSR :: cpu_feature_t where "CPU_FEATURE_FXSR \<equiv> 22"
abbreviation (input) CPU_FEATURE_SSE :: cpu_feature_t where "CPU_FEATURE_SSE \<equiv> 23"
abbreviation (input) CPU_FEATURE_SSE2 :: cpu_feature_t where "CPU_FEATURE_SSE2 \<equiv> 24"
abbreviation (input) CPU_FEATURE_SS :: cpu_feature_t where "CPU_FEATURE_SS \<equiv> 25"
abbreviation (input) CPU_FEATURE_HT :: cpu_feature_t where "CPU_FEATURE_HT \<equiv> 26"
abbreviation (input) CPU_FEATURE_TM :: cpu_feature_t where "CPU_FEATURE_TM \<equiv> 27"
abbreviation (input) CPU_FEATURE_IA64 :: cpu_feature_t where "CPU_FEATURE_IA64 \<equiv> 28"
abbreviation (input) CPU_FEATURE_PBE :: cpu_feature_t where "CPU_FEATURE_PBE \<equiv> 29"
abbreviation (input) CPU_FEATURE_PNI :: cpu_feature_t where "CPU_FEATURE_PNI \<equiv> 30"
abbreviation (input) CPU_FEATURE_PCLMUL :: cpu_feature_t where "CPU_FEATURE_PCLMUL \<equiv> 31"
abbreviation (input) CPU_FEATURE_DTS64 :: cpu_feature_t where "CPU_FEATURE_DTS64 \<equiv> 32"
abbreviation (input) CPU_FEATURE_MONITOR :: cpu_feature_t where "CPU_FEATURE_MONITOR \<equiv> 33"
abbreviation (input) CPU_FEATURE_DS_CPL :: cpu_feature_t where "CPU_FEATURE_DS_CPL \<equiv> 34"
abbreviation (input) CPU_FEATURE_VMX :: cpu_feature_t where "CPU_FEATURE_VMX \<equiv> 35"
abbreviation (input) CPU_FEATURE_SMX :: cpu_feature_t where "CPU_FEATURE_SMX \<equiv> 36"
abbreviation (input) CPU_FEATURE_EST :: cpu_feature_t where "CPU_FEATURE_EST \<equiv> 37"
abbreviation (input) CPU_FEATURE_TM2 :: cpu_feature_t where "CPU_FEATURE_TM2 \<equiv> 38"
abbreviation (input) CPU_FEATURE_SSSE3 :: cpu_feature_t where "CPU_FEATURE_SSSE3 \<equiv> 39"
abbreviation (input) CPU_FEATURE_CID :: cpu_feature_t where "CPU_FEATURE_CID \<equiv> 40"
abbreviation (input) CPU_FEATURE_CX16 :: cpu_feature_t where "CPU_FEATURE_CX16 \<equiv> 41"
abbreviation (input) CPU_FEATURE_XTPR :: cpu_feature_t where "CPU_FEATURE_XTPR \<equiv> 42"
abbreviation (input) CPU_FEATURE_PDCM :: cpu_feature_t where "CPU_FEATURE_PDCM \<equiv> 43"
abbreviation (input) CPU_FEATURE_DCA :: cpu_feature_t where "CPU_FEATURE_DCA \<equiv> 44"
abbreviation (input) CPU_FEATURE_SSE4_1 :: cpu_feature_t where "CPU_FEATURE_SSE4_1 \<equiv> 45"
abbreviation (input) CPU_FEATURE_SSE4_2 :: cpu_feature_t where "CPU_FEATURE_SSE4_2 \<equiv> 46"
abbreviation (input) CPU_FEATURE_SYSCALL :: cpu_feature_t where "CPU_FEATURE_SYSCALL \<equiv> 47"
abbreviation (input) CPU_FEATURE_XD :: cpu_feature_t where "CPU_FEATURE_XD \<equiv> 48"
abbreviation (input) CPU_FEATURE_MOVBE :: cpu_feature_t where "CPU_FEATURE_MOVBE \<equiv> 49"
abbreviation (input) CPU_FEATURE_POPCNT :: cpu_feature_t where "CPU_FEATURE_POPCNT \<equiv> 50"
abbreviation (input) CPU_FEATURE_AES :: cpu_feature_t where "CPU_FEATURE_AES \<equiv> 51"
abbreviation (input) CPU_FEATURE_XSAVE :: cpu_feature_t where "CPU_FEATURE_XSAVE \<equiv> 52"
abbreviation (input) CPU_FEATURE_OSXSAVE :: cpu_feature_t where "CPU_FEATURE_OSXSAVE \<equiv> 53"
abbreviation (input) CPU_FEATURE_AVX :: cpu_feature_t where "CPU_FEATURE_AVX \<equiv> 54"
abbreviation (input) CPU_FEATURE_MMXEXT :: cpu_feature_t where "CPU_FEATURE_MMXEXT \<equiv> 55"
abbreviation (input) CPU_FEATURE_3DNOW :: cpu_feature_t where "CPU_FEATURE_3DNOW \<equiv> 56"
abbreviation (input) CPU_FEATURE_3DNOWEXT :: cpu_feature_t where "CPU_FEATURE_3DNOWEXT \<equiv> 57"
abbreviation (input) CPU_FEATURE_NX :: cpu_feature_t where "CPU_FEATURE_NX \<equiv> 58"
abbreviation (input) CPU_FEATURE_FXSR_OPT :: cpu_feature_t where "CPU_FEATURE_FXSR_OPT \<equiv> 59"
abbreviation (input) CPU_FEATURE_RDTSCP :: cpu_feature_t where "CPU_FEATURE_RDTSCP \<equiv> 60"
abbreviation (input) CPU_FEATURE_LM :: cpu_feature_t where "CPU_FEATURE_LM \<equiv> 61"
abbreviation (input) CPU_FEATURE_LAHF_LM :: cpu_feature_t where "CPU_FEATURE_LAHF_LM \<equiv> 62"
abbreviation (input) CPU_FEATURE_CMP_LEGACY :: cpu_feature_t where "CPU_FEATURE_CMP_LEGACY \<equiv> 63"
abbreviation (input) CPU_FEATURE_SVM :: cpu_feature_t where "CPU_FEATURE_SVM \<equiv> 64"
abbreviation (input) CPU_FEATURE_ABM :: cpu_feature_t where "CPU_FEATURE_ABM \<equiv> 65"
abbreviation (input) CPU_FEATURE_MISALIGNSSE :: cpu_feature_t where "CPU_FEATURE_MISALIGNSSE \<equiv> 66"
abbreviation (input) CPU_FEATURE_SSE4A :: cpu_feature_t where "CPU_FEATURE_SSE4A \<equiv> 67"
abbreviation (input) CPU_FEATURE_3DNOWPREFETCH :: cpu_feature_t where "CPU_FEATURE_3DNOWPREFETCH \<equiv> 68"
abbreviation (input) CPU_FEATURE_OSVW :: cpu_feature_t where "CPU_FEATURE_OSVW \<equiv> 69"
abbreviation (input) CPU_FEATURE_IBS :: cpu_feature_t where "CPU_FEATURE_IBS \<equiv> 70"
abbreviation (input) CPU_FEATURE_SSE5 :: cpu_feature_t where "CPU_FEATURE_SSE5 \<equiv> 71"
abbreviation (input) CPU_FEATURE_SKINIT :: cpu_feature_t where "CPU_FEATURE_SKINIT \<equiv> 72"
abbreviation (input) CPU_FEATURE_WDT :: cpu_feature_t where "CPU_FEATURE_WDT \<equiv> 73"
abbreviation (input) CPU_FEATURE_TS :: cpu_feature_t where "CPU_FEATURE_TS \<equiv> 74"
abbreviation (input) CPU_FEATURE_FID :: cpu_feature_t where "CPU_FEATURE_FID \<equiv> 75"
abbreviation (input) CPU_FEATURE_VID :: cpu_feature_t where "CPU_FEATURE_VID \<equiv> 76"
abbreviation (input) CPU_FEATURE_TTP :: cpu_feature_t where "CPU_FEATURE_TTP \<equiv> 77"
abbreviation (input) CPU_FEATURE_TM_AMD :: cpu_feature_t where "CPU_FEATURE_TM_AMD \<equiv> 78"
abbreviation (input) CPU_FEATURE_STC :: cpu_feature_t where "CPU_FEATURE_STC \<equiv> 79"
abbreviation (input) CPU_FEATURE_100MHZSTEPS :: cpu_feature_t where "CPU_FEATURE_100MHZSTEPS \<equiv> 80"
abbreviation (input) CPU_FEATURE_HWPSTATE :: cpu_feature_t where "CPU_FEATURE_HWPSTATE \<equiv> 81"
abbreviation (input) CPU_FEATURE_CONSTANT_TSC :: cpu_feature_t where "CPU_FEATURE_CONSTANT_TSC \<equiv> 82"
abbreviation (input) CPU_FEATURE_XOP :: cpu_feature_t where "CPU_FEATURE_XOP \<equiv> 83"
abbreviation (input) CPU_FEATURE_FMA3 :: cpu_feature_t where "CPU_FEATURE_FMA3 \<equiv> 84"
abbreviation (input) CPU_FEATURE_FMA4 :: cpu_feature_t where "CPU_FEATURE_FMA4 \<equiv> 85"
abbreviation (input) CPU_FEATURE_TBM :: cpu_feature_t where "CPU_FEATURE_TBM \<equiv> 86"
abbreviation (input) CPU_FEATURE_F16C :: cpu_feature_t where "CPU_FEATURE_F16C \<equiv> 87"
abbreviation (input) CPU_FEATURE_RDRAND :: cpu_feature_t where "CPU_FEATURE_RDRAND \<equiv> 88"
abbreviation (input) CPU_FEATURE_X2APIC :: cpu_feature_t where "CPU_FEATURE_X2APIC \<equiv> 89"
abbreviation (input) CPU_FEATURE_CPB :: cpu_feature_t where "CPU_FEATURE_CPB \<equiv> 90"
abbreviation (input) CPU_FEATURE_APERFMPERF :: cpu_feature_t where "CPU_FEATURE_APERFMPERF \<equiv> 91"
abbreviation (input) CPU_FEATURE_PFI :: cpu_feature_t where "CPU_FEATURE_PFI \<equiv> 92"
abbreviation (input) CPU_FEATURE_PA :: cpu_feature_t where "CPU_FEATURE_PA \<equiv> 93"
abbreviation (input) CPU_FEATURE_AVX2 :: cpu_feature_t where "CPU_FEATURE_AVX2 \<equiv> 94"
abbreviation (input) CPU_FEATURE_BMI1 :: cpu_feature_t where "CPU_FEATURE_BMI1 \<equiv> 95"
abbreviation (input) CPU_FEATURE_BMI2 :: cpu_feature_t where "CPU_FEATURE_BMI2 \<equiv> 96"
abbreviation (input) CPU_FEATURE_HLE :: cpu_feature_t where "CPU_FEATURE_HLE \<equiv> 97"
abbreviation (input) CPU_FEATURE_RTM :: cpu_feature_t where "CPU_FEATURE_RTM \<equiv> 98"
abbreviation (input) CPU_FEATURE_AVX512F :: cpu_feature_t where "CPU_FEATURE_AVX512F \<equiv> 99"
abbreviation (input) CPU_FEATURE_AVX512DQ :: cpu_feature_t where "CPU_FEATURE_AVX512DQ \<equiv> 100"
abbreviation (input) CPU_FEATURE_AVX512PF :: cpu_feature_t where "CPU_FEATURE_AVX512PF \<equiv> 101"
abbreviation (input) CPU_FEATURE_AVX512ER :: cpu_feature_t where "CPU_FEATURE_AVX512ER \<equiv> 102"
abbreviation (input) CPU_FEATURE_AVX512CD :: cpu_feature_t where "CPU_FEATURE_AVX512CD \<equiv> 103"
abbreviation (input) CPU_FEATURE_SHA_NI :: cpu_feature_t where "CPU_FEATURE_SHA_NI \<equiv> 104"
abbreviation (input) CPU_FEATURE_AVX512BW :: cpu_feature_t where "CPU_FEATURE_AVX512BW \<equiv> 105"
abbreviation (input) CPU_FEATURE_AVX512VL :: cpu_feature_t where "CPU_FEATURE_AVX512VL \<equiv> 106"
abbreviation (input) CPU_FEATURE_SGX :: cpu_feature_t where "CPU_FEATURE_SGX \<equiv> 107"
abbreviation (input) CPU_FEATURE_RDSEED :: cpu_feature_t where "CPU_FEATURE_RDSEED \<equiv> 108"
abbreviation (input) CPU_FEATURE_ADX :: cpu_feature_t where "CPU_FEATURE_ADX \<equiv> 109"
abbreviation (input) CPU_FEATURE_AVX512VNNI :: cpu_feature_t where "CPU_FEATURE_AVX512VNNI \<equiv> 110"
abbreviation (input) CPU_FEATURE_AVX512VBMI :: cpu_feature_t where "CPU_FEATURE_AVX512VBMI \<equiv> 111"
abbreviation (input) CPU_FEATURE_AVX512VBMI2 :: cpu_feature_t where "CPU_FEATURE_AVX512VBMI2 \<equiv> 112"
abbreviation (input) CPU_FEATURE_HYPERVISOR :: cpu_feature_t where "CPU_FEATURE_HYPERVISOR \<equiv> 113"
abbreviation (input) CPU_FEATURE_SWAP :: cpu_feature_t where "CPU_FEATURE_SWAP \<equiv> 114"
abbreviation (input) CPU_FEATURE_THUMB :: cpu_feature_t where "CPU_FEATURE_THUMB \<equiv> 115"
abbreviation (input) CPU_FEATURE_ADVMULTU :: cpu_feature_t where "CPU_FEATURE_ADVMULTU \<equiv> 116"
abbreviation (input) CPU_FEATURE_ADVMULTS :: cpu_feature_t where "CPU_FEATURE_ADVMULTS \<equiv> 117"
abbreviation (input) CPU_FEATURE_JAZELLE :: cpu_feature_t where "CPU_FEATURE_JAZELLE \<equiv> 118"
abbreviation (input) CPU_FEATURE_DEBUGV6 :: cpu_feature_t where "CPU_FEATURE_DEBUGV6 \<equiv> 119"
abbreviation (input) CPU_FEATURE_DEBUGV6P1 :: cpu_feature_t where "CPU_FEATURE_DEBUGV6P1 \<equiv> 120"
abbreviation (input) CPU_FEATURE_THUMB2 :: cpu_feature_t where "CPU_FEATURE_THUMB2 \<equiv> 121"
abbreviation (input) CPU_FEATURE_DEBUGV7 :: cpu_feature_t where "CPU_FEATURE_DEBUGV7 \<equiv> 122"
abbreviation (input) CPU_FEATURE_DEBUGV7P1 :: cpu_feature_t where "CPU_FEATURE_DEBUGV7P1 \<equiv> 123"
abbreviation (input) CPU_FEATURE_THUMBEE :: cpu_feature_t where "CPU_FEATURE_THUMBEE \<equiv> 124"
abbreviation (input) CPU_FEATURE_DIVIDE :: cpu_feature_t where "CPU_FEATURE_DIVIDE \<equiv> 125"
abbreviation (input) CPU_FEATURE_LPAE :: cpu_feature_t where "CPU_FEATURE_LPAE \<equiv> 126"
abbreviation (input) CPU_FEATURE_PMUV1 :: cpu_feature_t where "CPU_FEATURE_PMUV1 \<equiv> 127"
abbreviation (input) CPU_FEATURE_PMUV2 :: cpu_feature_t where "CPU_FEATURE_PMUV2 \<equiv> 128"
abbreviation (input) CPU_FEATURE_ASID16 :: cpu_feature_t where "CPU_FEATURE_ASID16 \<equiv> 129"
abbreviation (input) CPU_FEATURE_ADVSIMD :: cpu_feature_t where "CPU_FEATURE_ADVSIMD \<equiv> 130"
abbreviation (input) CPU_FEATURE_CRC32 :: cpu_feature_t where "CPU_FEATURE_CRC32 \<equiv> 131"
abbreviation (input) CPU_FEATURE_CSV2_1P1 :: cpu_feature_t where "CPU_FEATURE_CSV2_1P1 \<equiv> 132"
abbreviation (input) CPU_FEATURE_CSV2_1P2 :: cpu_feature_t where "CPU_FEATURE_CSV2_1P2 \<equiv> 133"
abbreviation (input) CPU_FEATURE_CSV2_2 :: cpu_feature_t where "CPU_FEATURE_CSV2_2 \<equiv> 134"
abbreviation (input) CPU_FEATURE_CSV2_3 :: cpu_feature_t where "CPU_FEATURE_CSV2_3 \<equiv> 135"
abbreviation (input) CPU_FEATURE_DOUBLELOCK :: cpu_feature_t where "CPU_FEATURE_DOUBLELOCK \<equiv> 136"
abbreviation (input) CPU_FEATURE_ETS2 :: cpu_feature_t where "CPU_FEATURE_ETS2 \<equiv> 137"
abbreviation (input) CPU_FEATURE_FP :: cpu_feature_t where "CPU_FEATURE_FP \<equiv> 138"
abbreviation (input) CPU_FEATURE_MIXEDEND :: cpu_feature_t where "CPU_FEATURE_MIXEDEND \<equiv> 139"
abbreviation (input) CPU_FEATURE_MIXEDENDEL0 :: cpu_feature_t where "CPU_FEATURE_MIXEDENDEL0 \<equiv> 140"
abbreviation (input) CPU_FEATURE_PMULL :: cpu_feature_t where "CPU_FEATURE_PMULL \<equiv> 141"
abbreviation (input) CPU_FEATURE_PMUV3 :: cpu_feature_t where "CPU_FEATURE_PMUV3 \<equiv> 142"
abbreviation (input) CPU_FEATURE_SHA1 :: cpu_feature_t where "CPU_FEATURE_SHA1 \<equiv> 143"
abbreviation (input) CPU_FEATURE_SHA256 :: cpu_feature_t where "CPU_FEATURE_SHA256 \<equiv> 144"
abbreviation (input) CPU_FEATURE_NTLBPA :: cpu_feature_t where "CPU_FEATURE_NTLBPA \<equiv> 145"
abbreviation (input) CPU_FEATURE_HAFDBS :: cpu_feature_t where "CPU_FEATURE_HAFDBS \<equiv> 146"
abbreviation (input) CPU_FEATURE_HPDS :: cpu_feature_t where "CPU_FEATURE_HPDS \<equiv> 147"
abbreviation (input) CPU_FEATURE_LOR :: cpu_feature_t where "CPU_FEATURE_LOR \<equiv> 148"
abbreviation (input) CPU_FEATURE_LSE :: cpu_feature_t where "CPU_FEATURE_LSE \<equiv> 149"
abbreviation (input) CPU_FEATURE_PAN :: cpu_feature_t where "CPU_FEATURE_PAN \<equiv> 150"
abbreviation (input) CPU_FEATURE_PMUV3P1 :: cpu_feature_t where "CPU_FEATURE_PMUV3P1 \<equiv> 151"
abbreviation (input) CPU_FEATURE_RDM :: cpu_feature_t where "CPU_FEATURE_RDM \<equiv> 152"
abbreviation (input) CPU_FEATURE_VHE :: cpu_feature_t where "CPU_FEATURE_VHE \<equiv> 153"
abbreviation (input) CPU_FEATURE_VMID16 :: cpu_feature_t where "CPU_FEATURE_VMID16 \<equiv> 154"
abbreviation (input) CPU_FEATURE_AA32HPD :: cpu_feature_t where "CPU_FEATURE_AA32HPD \<equiv> 155"
abbreviation (input) CPU_FEATURE_AA32I8MM :: cpu_feature_t where "CPU_FEATURE_AA32I8MM \<equiv> 156"
abbreviation (input) CPU_FEATURE_DPB :: cpu_feature_t where "CPU_FEATURE_DPB \<equiv> 157"
abbreviation (input) CPU_FEATURE_DEBUGV8P2 :: cpu_feature_t where "CPU_FEATURE_DEBUGV8P2 \<equiv> 158"
abbreviation (input) CPU_FEATURE_F32MM :: cpu_feature_t where "CPU_FEATURE_F32MM \<equiv> 159"
abbreviation (input) CPU_FEATURE_F64MM :: cpu_feature_t where "CPU_FEATURE_F64MM \<equiv> 160"
abbreviation (input) CPU_FEATURE_FP16 :: cpu_feature_t where "CPU_FEATURE_FP16 \<equiv> 161"
abbreviation (input) CPU_FEATURE_HPDS2 :: cpu_feature_t where "CPU_FEATURE_HPDS2 \<equiv> 162"
abbreviation (input) CPU_FEATURE_I8MM :: cpu_feature_t where "CPU_FEATURE_I8MM \<equiv> 163"
abbreviation (input) CPU_FEATURE_IESB :: cpu_feature_t where "CPU_FEATURE_IESB \<equiv> 164"
abbreviation (input) CPU_FEATURE_LPA :: cpu_feature_t where "CPU_FEATURE_LPA \<equiv> 165"
abbreviation (input) CPU_FEATURE_LSMAOC :: cpu_feature_t where "CPU_FEATURE_LSMAOC \<equiv> 166"
abbreviation (input) CPU_FEATURE_LVA :: cpu_feature_t where "CPU_FEATURE_LVA \<equiv> 167"
abbreviation (input) CPU_FEATURE_PAN2 :: cpu_feature_t where "CPU_FEATURE_PAN2 \<equiv> 168"
abbreviation (input) CPU_FEATURE_RAS :: cpu_feature_t where "CPU_FEATURE_RAS \<equiv> 169"
abbreviation (input) CPU_FEATURE_SHA3 :: cpu_feature_t where "CPU_FEATURE_SHA3 \<equiv> 170"
abbreviation (input) CPU_FEATURE_SHA512 :: cpu_feature_t where "CPU_FEATURE_SHA512 \<equiv> 171"
abbreviation (input) CPU_FEATURE_SM3 :: cpu_feature_t where "CPU_FEATURE_SM3 \<equiv> 172"
abbreviation (input) CPU_FEATURE_SM4 :: cpu_feature_t where "CPU_FEATURE_SM4 \<equiv> 173"
abbreviation (input) CPU_FEATURE_SPE :: cpu_feature_t where "CPU_FEATURE_SPE \<equiv> 174"
abbreviation (input) CPU_FEATURE_SVE :: cpu_feature_t where "CPU_FEATURE_SVE \<equiv> 175"
abbreviation (input) CPU_FEATURE_TTCNP :: cpu_feature_t where "CPU_FEATURE_TTCNP \<equiv> 176"
abbreviation (input) CPU_FEATURE_UAO :: cpu_feature_t where "CPU_FEATURE_UAO \<equiv> 177"
abbreviation (input) CPU_FEATURE_XNX :: cpu_feature_t where "CPU_FEATURE_XNX \<equiv> 178"
abbreviation (input) CPU_FEATURE_CCIDX :: cpu_feature_t where "CPU_FEATURE_CCIDX \<equiv> 179"
abbreviation (input) CPU_FEATURE_CONSTPACFIELD :: cpu_feature_t where "CPU_FEATURE_CONSTPACFIELD \<equiv> 180"
abbreviation (input) CPU_FEATURE_EPAC :: cpu_feature_t where "CPU_FEATURE_EPAC \<equiv> 181"
abbreviation (input) CPU_FEATURE_FCMA :: cpu_feature_t where "CPU_FEATURE_FCMA \<equiv> 182"
abbreviation (input) CPU_FEATURE_FPAC :: cpu_feature_t where "CPU_FEATURE_FPAC \<equiv> 183"
abbreviation (input) CPU_FEATURE_FPACCOMBINE :: cpu_feature_t where "CPU_FEATURE_FPACCOMBINE \<equiv> 184"
abbreviation (input) CPU_FEATURE_JSCVT :: cpu_feature_t where "CPU_FEATURE_JSCVT \<equiv> 185"
abbreviation (input) CPU_FEATURE_LRCPC :: cpu_feature_t where "CPU_FEATURE_LRCPC \<equiv> 186"
abbreviation (input) CPU_FEATURE_PACIMP :: cpu_feature_t where "CPU_FEATURE_PACIMP \<equiv> 187"
abbreviation (input) CPU_FEATURE_PACQARMA3 :: cpu_feature_t where "CPU_FEATURE_PACQARMA3 \<equiv> 188"
abbreviation (input) CPU_FEATURE_PACQARMA5 :: cpu_feature_t where "CPU_FEATURE_PACQARMA5 \<equiv> 189"
abbreviation (input) CPU_FEATURE_PAUTH :: cpu_feature_t where "CPU_FEATURE_PAUTH \<equiv> 190"
abbreviation (input) CPU_FEATURE_SPEV1P1 :: cpu_feature_t where "CPU_FEATURE_SPEV1P1 \<equiv> 191"
abbreviation (input) CPU_FEATURE_AMUV1 :: cpu_feature_t where "CPU_FEATURE_AMUV1 \<equiv> 192"
abbreviation (input) CPU_FEATURE_BBM :: cpu_feature_t where "CPU_FEATURE_BBM \<equiv> 193"
abbreviation (input) CPU_FEATURE_DIT :: cpu_feature_t where "CPU_FEATURE_DIT \<equiv> 194"
abbreviation (input) CPU_FEATURE_DEBUGV8P4 :: cpu_feature_t where "CPU_FEATURE_DEBUGV8P4 \<equiv> 195"
abbreviation (input) CPU_FEATURE_DOTPROD :: cpu_feature_t where "CPU_FEATURE_DOTPROD \<equiv> 196"
abbreviation (input) CPU_FEATURE_DOUBLEFAULT :: cpu_feature_t where "CPU_FEATURE_DOUBLEFAULT \<equiv> 197"
abbreviation (input) CPU_FEATURE_FHM :: cpu_feature_t where "CPU_FEATURE_FHM \<equiv> 198"
abbreviation (input) CPU_FEATURE_FLAGM :: cpu_feature_t where "CPU_FEATURE_FLAGM \<equiv> 199"
abbreviation (input) CPU_FEATURE_IDST :: cpu_feature_t where "CPU_FEATURE_IDST \<equiv> 200"
abbreviation (input) CPU_FEATURE_LRCPC2 :: cpu_feature_t where "CPU_FEATURE_LRCPC2 \<equiv> 201"
abbreviation (input) CPU_FEATURE_LSE2 :: cpu_feature_t where "CPU_FEATURE_LSE2 \<equiv> 202"
abbreviation (input) CPU_FEATURE_MPAM :: cpu_feature_t where "CPU_FEATURE_MPAM \<equiv> 203"
abbreviation (input) CPU_FEATURE_PMUV3P4 :: cpu_feature_t where "CPU_FEATURE_PMUV3P4 \<equiv> 204"
abbreviation (input) CPU_FEATURE_RASV1P1 :: cpu_feature_t where "CPU_FEATURE_RASV1P1 \<equiv> 205"
abbreviation (input) CPU_FEATURE_S2FWB :: cpu_feature_t where "CPU_FEATURE_S2FWB \<equiv> 206"
abbreviation (input) CPU_FEATURE_SEL2 :: cpu_feature_t where "CPU_FEATURE_SEL2 \<equiv> 207"
abbreviation (input) CPU_FEATURE_TLBIOS :: cpu_feature_t where "CPU_FEATURE_TLBIOS \<equiv> 208"
abbreviation (input) CPU_FEATURE_TLBIRANGE :: cpu_feature_t where "CPU_FEATURE_TLBIRANGE \<equiv> 209"
abbreviation (input) CPU_FEATURE_TRF :: cpu_feature_t where "CPU_FEATURE_TRF \<equiv> 210"
abbreviation (input) CPU_FEATURE_TTL :: cpu_feature_t where "CPU_FEATURE_TTL \<equiv> 211"
abbreviation (input) CPU_FEATURE_TTST :: cpu_feature_t where "CPU_FEATURE_TTST \<equiv> 212"
abbreviation (input) CPU_FEATURE_BTI :: cpu_feature_t where "CPU_FEATURE_BTI \<equiv> 213"
abbreviation (input) CPU_FEATURE_CSV2 :: cpu_feature_t where "CPU_FEATURE_CSV2 \<equiv> 214"
abbreviation (input) CPU_FEATURE_CSV3 :: cpu_feature_t where "CPU_FEATURE_CSV3 \<equiv> 215"
abbreviation (input) CPU_FEATURE_DPB2 :: cpu_feature_t where "CPU_FEATURE_DPB2 \<equiv> 216"
abbreviation (input) CPU_FEATURE_E0PD :: cpu_feature_t where "CPU_FEATURE_E0PD \<equiv> 217"
abbreviation (input) CPU_FEATURE_EVT :: cpu_feature_t where "CPU_FEATURE_EVT \<equiv> 218"
abbreviation (input) CPU_FEATURE_EXS :: cpu_feature_t where "CPU_FEATURE_EXS \<equiv> 219"
abbreviation (input) CPU_FEATURE_FRINTTS :: cpu_feature_t where "CPU_FEATURE_FRINTTS \<equiv> 220"
abbreviation (input) CPU_FEATURE_FLAGM2 :: cpu_feature_t where "CPU_FEATURE_FLAGM2 \<equiv> 221"
abbreviation (input) CPU_FEATURE_MTE :: cpu_feature_t where "CPU_FEATURE_MTE \<equiv> 222"
abbreviation (input) CPU_FEATURE_MTE2 :: cpu_feature_t where "CPU_FEATURE_MTE2 \<equiv> 223"
abbreviation (input) CPU_FEATURE_PMUV3P5 :: cpu_feature_t where "CPU_FEATURE_PMUV3P5 \<equiv> 224"
abbreviation (input) CPU_FEATURE_RNG :: cpu_feature_t where "CPU_FEATURE_RNG \<equiv> 225"
abbreviation (input) CPU_FEATURE_RNG_TRAP :: cpu_feature_t where "CPU_FEATURE_RNG_TRAP \<equiv> 226"
abbreviation (input) CPU_FEATURE_SB :: cpu_feature_t where "CPU_FEATURE_SB \<equiv> 227"
abbreviation (input) CPU_FEATURE_SPECRES :: cpu_feature_t where "CPU_FEATURE_SPECRES \<equiv> 228"
abbreviation (input) CPU_FEATURE_SSBS :: cpu_feature_t where "CPU_FEATURE_SSBS \<equiv> 229"
abbreviation (input) CPU_FEATURE_SSBS2 :: cpu_feature_t where "CPU_FEATURE_SSBS2 \<equiv> 230"
abbreviation (input) CPU_FEATURE_AA32BF16 :: cpu_feature_t where "CPU_FEATURE_AA32BF16 \<equiv> 231"
abbreviation (input) CPU_FEATURE_AMUV1P1 :: cpu_feature_t where "CPU_FEATURE_AMUV1P1 \<equiv> 232"
abbreviation (input) CPU_FEATURE_BF16 :: cpu_feature_t where "CPU_FEATURE_BF16 \<equiv> 233"
abbreviation (input) CPU_FEATURE_DGH :: cpu_feature_t where "CPU_FEATURE_DGH \<equiv> 234"
abbreviation (input) CPU_FEATURE_ECV :: cpu_feature_t where "CPU_FEATURE_ECV \<equiv> 235"
abbreviation (input) CPU_FEATURE_FGT :: cpu_feature_t where "CPU_FEATURE_FGT \<equiv> 236"
abbreviation (input) CPU_FEATURE_HPMN0 :: cpu_feature_t where "CPU_FEATURE_HPMN0 \<equiv> 237"
abbreviation (input) CPU_FEATURE_MPAMV0P1 :: cpu_feature_t where "CPU_FEATURE_MPAMV0P1 \<equiv> 238"
abbreviation (input) CPU_FEATURE_MPAMV1P1 :: cpu_feature_t where "CPU_FEATURE_MPAMV1P1 \<equiv> 239"
abbreviation (input) CPU_FEATURE_MTPMU :: cpu_feature_t where "CPU_FEATURE_MTPMU \<equiv> 240"
abbreviation (input) CPU_FEATURE_PAUTH2 :: cpu_feature_t where "CPU_FEATURE_PAUTH2 \<equiv> 241"
abbreviation (input) CPU_FEATURE_TWED :: cpu_feature_t where "CPU_FEATURE_TWED \<equiv> 242"
abbreviation (input) CPU_FEATURE_AFP :: cpu_feature_t where "CPU_FEATURE_AFP \<equiv> 243"
abbreviation (input) CPU_FEATURE_EBF16 :: cpu_feature_t where "CPU_FEATURE_EBF16 \<equiv> 244"
abbreviation (input) CPU_FEATURE_HCX :: cpu_feature_t where "CPU_FEATURE_HCX \<equiv> 245"
abbreviation (input) CPU_FEATURE_LPA2 :: cpu_feature_t where "CPU_FEATURE_LPA2 \<equiv> 246"
abbreviation (input) CPU_FEATURE_LS64 :: cpu_feature_t where "CPU_FEATURE_LS64 \<equiv> 247"
abbreviation (input) CPU_FEATURE_LS64_ACCDATA :: cpu_feature_t where "CPU_FEATURE_LS64_ACCDATA \<equiv> 248"
abbreviation (input) CPU_FEATURE_LS64_V :: cpu_feature_t where "CPU_FEATURE_LS64_V \<equiv> 249"
abbreviation (input) CPU_FEATURE_MTE3 :: cpu_feature_t where "CPU_FEATURE_MTE3 \<equiv> 250"
abbreviation (input) CPU_FEATURE_MTE_ASYM_FAULT :: cpu_feature_t where "CPU_FEATURE_MTE_ASYM_FAULT \<equiv> 251"
abbreviation (input) CPU_FEATURE_PAN3 :: cpu_feature_t where "CPU_FEATURE_PAN3 \<equiv> 252"
abbreviation (input) CPU_FEATURE_PMUV3P7 :: cpu_feature_t where "CPU_FEATURE_PMUV3P7 \<equiv> 253"
abbreviation (input) CPU_FEATURE_RPRES :: cpu_feature_t where "CPU_FEATURE_RPRES \<equiv> 254"
abbreviation (input) CPU_FEATURE_SPEV1P2 :: cpu_feature_t where "CPU_FEATURE_SPEV1P2 \<equiv> 255"
abbreviation (input) CPU_FEATURE_WFXT :: cpu_feature_t where "CPU_FEATURE_WFXT \<equiv> 256"
abbreviation (input) CPU_FEATURE_XS :: cpu_feature_t where "CPU_FEATURE_XS \<equiv> 257"
abbreviation (input) CPU_FEATURE_CMOW :: cpu_feature_t where "CPU_FEATURE_CMOW \<equiv> 258"
abbreviation (input) CPU_FEATURE_DEBUGV8P8 :: cpu_feature_t where "CPU_FEATURE_DEBUGV8P8 \<equiv> 259"
abbreviation (input) CPU_FEATURE_HBC :: cpu_feature_t where "CPU_FEATURE_HBC \<equiv> 260"
abbreviation (input) CPU_FEATURE_MOPS :: cpu_feature_t where "CPU_FEATURE_MOPS \<equiv> 261"
abbreviation (input) CPU_FEATURE_NMI :: cpu_feature_t where "CPU_FEATURE_NMI \<equiv> 262"
abbreviation (input) CPU_FEATURE_PMUV3P8 :: cpu_feature_t where "CPU_FEATURE_PMUV3P8 \<equiv> 263"
abbreviation (input) CPU_FEATURE_SCTLR2 :: cpu_feature_t where "CPU_FEATURE_SCTLR2 \<equiv> 264"
abbreviation (input) CPU_FEATURE_SPEV1P3 :: cpu_feature_t where "CPU_FEATURE_SPEV1P3 \<equiv> 265"
abbreviation (input) CPU_FEATURE_TCR2 :: cpu_feature_t where "CPU_FEATURE_TCR2 \<equiv> 266"
abbreviation (input) CPU_FEATURE_TIDCP1 :: cpu_feature_t where "CPU_FEATURE_TIDCP1 \<equiv> 267"
abbreviation (input) CPU_FEATURE_ADERR :: cpu_feature_t where "CPU_FEATURE_ADERR \<equiv> 268"
abbreviation (input) CPU_FEATURE_AIE :: cpu_feature_t where "CPU_FEATURE_AIE \<equiv> 269"
abbreviation (input) CPU_FEATURE_ANERR :: cpu_feature_t where "CPU_FEATURE_ANERR \<equiv> 270"
abbreviation (input) CPU_FEATURE_ATS1A :: cpu_feature_t where "CPU_FEATURE_ATS1A \<equiv> 271"
abbreviation (input) CPU_FEATURE_CLRBHB :: cpu_feature_t where "CPU_FEATURE_CLRBHB \<equiv> 272"
abbreviation (input) CPU_FEATURE_CSSC :: cpu_feature_t where "CPU_FEATURE_CSSC \<equiv> 273"
abbreviation (input) CPU_FEATURE_DEBUGV8P9 :: cpu_feature_t where "CPU_FEATURE_DEBUGV8P9 \<equiv> 274"
abbreviation (input) CPU_FEATURE_DOUBLEFAULT2 :: cpu_feature_t where "CPU_FEATURE_DOUBLEFAULT2 \<equiv> 275"
abbreviation (input) CPU_FEATURE_ECBHB :: cpu_feature_t where "CPU_FEATURE_ECBHB \<equiv> 276"
abbreviation (input) CPU_FEATURE_FGT2 :: cpu_feature_t where "CPU_FEATURE_FGT2 \<equiv> 277"
abbreviation (input) CPU_FEATURE_HAFT :: cpu_feature_t where "CPU_FEATURE_HAFT \<equiv> 278"
abbreviation (input) CPU_FEATURE_LRCPC3 :: cpu_feature_t where "CPU_FEATURE_LRCPC3 \<equiv> 279"
abbreviation (input) CPU_FEATURE_MTE4 :: cpu_feature_t where "CPU_FEATURE_MTE4 \<equiv> 280"
abbreviation (input) CPU_FEATURE_MTE_ASYNC :: cpu_feature_t where "CPU_FEATURE_MTE_ASYNC \<equiv> 281"
abbreviation (input) CPU_FEATURE_MTE_CANONICAL_TAGS :: cpu_feature_t where "CPU_FEATURE_MTE_CANONICAL_TAGS \<equiv> 282"
abbreviation (input) CPU_FEATURE_MTE_NO_ADDRESS_TAGS :: cpu_feature_t where "CPU_FEATURE_MTE_NO_ADDRESS_TAGS \<equiv> 283"
abbreviation (input) CPU_FEATURE_MTE_PERM :: cpu_feature_t where "CPU_FEATURE_MTE_PERM \<equiv> 284"
abbreviation (input) CPU_FEATURE_MTE_STORE_ONLY :: cpu_feature_t where "CPU_FEATURE_MTE_STORE_ONLY \<equiv> 285"
abbreviation (input) CPU_FEATURE_MTE_TAGGED_FAR :: cpu_feature_t where "CPU_FEATURE_MTE_TAGGED_FAR \<equiv> 286"
abbreviation (input) CPU_FEATURE_PFAR :: cpu_feature_t where "CPU_FEATURE_PFAR \<equiv> 287"
abbreviation (input) CPU_FEATURE_PMUV3_ICNTR :: cpu_feature_t where "CPU_FEATURE_PMUV3_ICNTR \<equiv> 288"
abbreviation (input) CPU_FEATURE_PMUV3_SS :: cpu_feature_t where "CPU_FEATURE_PMUV3_SS \<equiv> 289"
abbreviation (input) CPU_FEATURE_PMUV3P9 :: cpu_feature_t where "CPU_FEATURE_PMUV3P9 \<equiv> 290"
abbreviation (input) CPU_FEATURE_PRFMSLC :: cpu_feature_t where "CPU_FEATURE_PRFMSLC \<equiv> 291"
abbreviation (input) CPU_FEATURE_RASV2 :: cpu_feature_t where "CPU_FEATURE_RASV2 \<equiv> 292"
abbreviation (input) CPU_FEATURE_RPRFM :: cpu_feature_t where "CPU_FEATURE_RPRFM \<equiv> 293"
abbreviation (input) CPU_FEATURE_S1PIE :: cpu_feature_t where "CPU_FEATURE_S1PIE \<equiv> 294"
abbreviation (input) CPU_FEATURE_S1POE :: cpu_feature_t where "CPU_FEATURE_S1POE \<equiv> 295"
abbreviation (input) CPU_FEATURE_S2PIE :: cpu_feature_t where "CPU_FEATURE_S2PIE \<equiv> 296"
abbreviation (input) CPU_FEATURE_S2POE :: cpu_feature_t where "CPU_FEATURE_S2POE \<equiv> 297"
abbreviation (input) CPU_FEATURE_SPECRES2 :: cpu_feature_t where "CPU_FEATURE_SPECRES2 \<equiv> 298"
abbreviation (input) CPU_FEATURE_SPE_DPFZS :: cpu_feature_t where "CPU_FEATURE_SPE_DPFZS \<equiv> 299"
abbreviation (input) CPU_FEATURE_SPEV1P4 :: cpu_feature_t where "CPU_FEATURE_SPEV1P4 \<equiv> 300"
abbreviation (input) CPU_FEATURE_SPMU :: cpu_feature_t where "CPU_FEATURE_SPMU \<equiv> 301"
abbreviation (input) CPU_FEATURE_THE :: cpu_feature_t where "CPU_FEATURE_THE \<equiv> 302"
abbreviation (input) CPU_FEATURE_SVE2 :: cpu_feature_t where "CPU_FEATURE_SVE2 \<equiv> 303"
abbreviation (input) CPU_FEATURE_SVE_AES :: cpu_feature_t where "CPU_FEATURE_SVE_AES \<equiv> 304"
abbreviation (input) CPU_FEATURE_SVE_BITPERM :: cpu_feature_t where "CPU_FEATURE_SVE_BITPERM \<equiv> 305"
abbreviation (input) CPU_FEATURE_SVE_PMULL128 :: cpu_feature_t where "CPU_FEATURE_SVE_PMULL128 \<equiv> 306"
abbreviation (input) CPU_FEATURE_SVE_SHA3 :: cpu_feature_t where "CPU_FEATURE_SVE_SHA3 \<equiv> 307"
abbreviation (input) CPU_FEATURE_SVE_SM4 :: cpu_feature_t where "CPU_FEATURE_SVE_SM4 \<equiv> 308"
abbreviation (input) CPU_FEATURE_TME :: cpu_feature_t where "CPU_FEATURE_TME \<equiv> 309"
abbreviation (input) CPU_FEATURE_TRBE :: cpu_feature_t where "CPU_FEATURE_TRBE \<equiv> 310"
abbreviation (input) CPU_FEATURE_BRBE :: cpu_feature_t where "CPU_FEATURE_BRBE \<equiv> 311"
abbreviation (input) CPU_FEATURE_RME :: cpu_feature_t where "CPU_FEATURE_RME \<equiv> 312"
abbreviation (input) CPU_FEATURE_SME :: cpu_feature_t where "CPU_FEATURE_SME \<equiv> 313"
abbreviation (input) CPU_FEATURE_SME_F64F64 :: cpu_feature_t where "CPU_FEATURE_SME_F64F64 \<equiv> 314"
abbreviation (input) CPU_FEATURE_SME_FA64 :: cpu_feature_t where "CPU_FEATURE_SME_FA64 \<equiv> 315"
abbreviation (input) CPU_FEATURE_SME_I16I64 :: cpu_feature_t where "CPU_FEATURE_SME_I16I64 \<equiv> 316"
abbreviation (input) CPU_FEATURE_BRBEV1P1 :: cpu_feature_t where "CPU_FEATURE_BRBEV1P1 \<equiv> 317"
abbreviation (input) CPU_FEATURE_MEC :: cpu_feature_t where "CPU_FEATURE_MEC \<equiv> 318"
abbreviation (input) CPU_FEATURE_SME2 :: cpu_feature_t where "CPU_FEATURE_SME2 \<equiv> 319"
abbreviation (input) CPU_FEATURE_ABLE :: cpu_feature_t where "CPU_FEATURE_ABLE \<equiv> 320"
abbreviation (input) CPU_FEATURE_BWE :: cpu_feature_t where "CPU_FEATURE_BWE \<equiv> 321"
abbreviation (input) CPU_FEATURE_D128 :: cpu_feature_t where "CPU_FEATURE_D128 \<equiv> 322"
abbreviation (input) CPU_FEATURE_EBEP :: cpu_feature_t where "CPU_FEATURE_EBEP \<equiv> 323"
abbreviation (input) CPU_FEATURE_GCS :: cpu_feature_t where "CPU_FEATURE_GCS \<equiv> 324"
abbreviation (input) CPU_FEATURE_ITE :: cpu_feature_t where "CPU_FEATURE_ITE \<equiv> 325"
abbreviation (input) CPU_FEATURE_LSE128 :: cpu_feature_t where "CPU_FEATURE_LSE128 \<equiv> 326"
abbreviation (input) CPU_FEATURE_LVA3 :: cpu_feature_t where "CPU_FEATURE_LVA3 \<equiv> 327"
abbreviation (input) CPU_FEATURE_SEBEP :: cpu_feature_t where "CPU_FEATURE_SEBEP \<equiv> 328"
abbreviation (input) CPU_FEATURE_SME2P1 :: cpu_feature_t where "CPU_FEATURE_SME2P1 \<equiv> 329"
abbreviation (input) CPU_FEATURE_SME_F16F16 :: cpu_feature_t where "CPU_FEATURE_SME_F16F16 \<equiv> 330"
abbreviation (input) CPU_FEATURE_SVE2P1 :: cpu_feature_t where "CPU_FEATURE_SVE2P1 \<equiv> 331"
abbreviation (input) CPU_FEATURE_SVE_B16B16 :: cpu_feature_t where "CPU_FEATURE_SVE_B16B16 \<equiv> 332"
abbreviation (input) CPU_FEATURE_SYSINSTR128 :: cpu_feature_t where "CPU_FEATURE_SYSINSTR128 \<equiv> 333"
abbreviation (input) CPU_FEATURE_SYSREG128 :: cpu_feature_t where "CPU_FEATURE_SYSREG128 \<equiv> 334"
abbreviation (input) CPU_FEATURE_TRBE_EXT :: cpu_feature_t where "CPU_FEATURE_TRBE_EXT \<equiv> 335"
abbreviation (input) CPU_FEATURE_ASID2 :: cpu_feature_t where "CPU_FEATURE_ASID2 \<equiv> 336"
abbreviation (input) CPU_FEATURE_BWE2 :: cpu_feature_t where "CPU_FEATURE_BWE2 \<equiv> 337"
abbreviation (input) CPU_FEATURE_CPA :: cpu_feature_t where "CPU_FEATURE_CPA \<equiv> 338"
abbreviation (input) CPU_FEATURE_CPA2 :: cpu_feature_t where "CPU_FEATURE_CPA2 \<equiv> 339"
abbreviation (input) CPU_FEATURE_E2H0 :: cpu_feature_t where "CPU_FEATURE_E2H0 \<equiv> 340"
abbreviation (input) CPU_FEATURE_E3DSE :: cpu_feature_t where "CPU_FEATURE_E3DSE \<equiv> 341"
abbreviation (input) CPU_FEATURE_ETS3 :: cpu_feature_t where "CPU_FEATURE_ETS3 \<equiv> 342"
abbreviation (input) CPU_FEATURE_FAMINMAX :: cpu_feature_t where "CPU_FEATURE_FAMINMAX \<equiv> 343"
abbreviation (input) CPU_FEATURE_FGWTE3 :: cpu_feature_t where "CPU_FEATURE_FGWTE3 \<equiv> 344"
abbreviation (input) CPU_FEATURE_FP8 :: cpu_feature_t where "CPU_FEATURE_FP8 \<equiv> 345"
abbreviation (input) CPU_FEATURE_FP8DOT2 :: cpu_feature_t where "CPU_FEATURE_FP8DOT2 \<equiv> 346"
abbreviation (input) CPU_FEATURE_FP8DOT4 :: cpu_feature_t where "CPU_FEATURE_FP8DOT4 \<equiv> 347"
abbreviation (input) CPU_FEATURE_FP8FMA :: cpu_feature_t where "CPU_FEATURE_FP8FMA \<equiv> 348"
abbreviation (input) CPU_FEATURE_FPMR :: cpu_feature_t where "CPU_FEATURE_FPMR \<equiv> 349"
abbreviation (input) CPU_FEATURE_HACDBS :: cpu_feature_t where "CPU_FEATURE_HACDBS \<equiv> 350"
abbreviation (input) CPU_FEATURE_HDBSS :: cpu_feature_t where "CPU_FEATURE_HDBSS \<equiv> 351"
abbreviation (input) CPU_FEATURE_LUT :: cpu_feature_t where "CPU_FEATURE_LUT \<equiv> 352"
abbreviation (input) CPU_FEATURE_PAUTH_LR :: cpu_feature_t where "CPU_FEATURE_PAUTH_LR \<equiv> 353"
abbreviation (input) CPU_FEATURE_RME_GPC2 :: cpu_feature_t where "CPU_FEATURE_RME_GPC2 \<equiv> 354"
abbreviation (input) CPU_FEATURE_SME_F8F16 :: cpu_feature_t where "CPU_FEATURE_SME_F8F16 \<equiv> 355"
abbreviation (input) CPU_FEATURE_SME_F8F32 :: cpu_feature_t where "CPU_FEATURE_SME_F8F32 \<equiv> 356"
abbreviation (input) CPU_FEATURE_SME_LUTV2 :: cpu_feature_t where "CPU_FEATURE_SME_LUTV2 \<equiv> 357"
abbreviation (input) CPU_FEATURE_SPMU2 :: cpu_feature_t where "CPU_FEATURE_SPMU2 \<equiv> 358"
abbreviation (input) CPU_FEATURE_SSVE_FP8DOT2 :: cpu_feature_t where "CPU_FEATURE_SSVE_FP8DOT2 \<equiv> 359"
abbreviation (input) CPU_FEATURE_SSVE_FP8DOT4 :: cpu_feature_t where "CPU_FEATURE_SSVE_FP8DOT4 \<equiv> 360"
abbreviation (input) CPU_FEATURE_SSVE_FP8FMA :: cpu_feature_t where "CPU_FEATURE_SSVE_FP8FMA \<equiv> 361"
abbreviation (input) CPU_FEATURE_STEP2 :: cpu_feature_t where "CPU_FEATURE_STEP2 \<equiv> 362"
abbreviation (input) CPU_FEATURE_TLBIW :: cpu_feature_t where "CPU_FEATURE_TLBIW \<equiv> 363"

abbreviation (input) NUM_CPU_FEATURES :: nat where "NUM_CPU_FEATURES \<equiv> 364"

text \<open>\<^verbatim>\<open>CPU_FLAGS_MAX\<close>, the length of the flags array.\<close>

abbreviation (input) CPU_FLAGS_MAX :: nat where "CPU_FLAGS_MAX \<equiv> 384"

end
