(* ===== verification/Cpuid_Types.thy ===== *)
theory Cpuid_Types
  imports Feature_Ids
begin

text \<open>
  The data of libcpuid (\<^verbatim>\<open>libcpuid.h\<close>, \<^verbatim>\<open>libcpuid_constants.h\<close>, \<^verbatim>\<open>libcpuid_internal.h\<close>): the enums
  as datatypes and the structs as records, with the constructors and the initial values
  that \<^verbatim>\<open>cpuid_main.c\<close> gives them.

  An enum's terminating \<^verbatim>\<open>NUM_*\<close> constant is no value of it and is left out of the datatype. The
  library is modelled as built with \<^verbatim>\<open>LIBCPUID_DISABLE_DEPRECATED\<close>, which removes the duplicated
  deprecated fields of \<^verbatim>\<open>cpu_id_t\<close>. The anonymous union of \<^verbatim>\<open>x86_id_t\<close> and \<^verbatim>\<open>arm_id_t\<close> is two
  fields: the code writes the member its architecture selects and reads no other.
\<close>

section \<open>Enumerations\<close>

datatype cpu_vendor_t =
  VENDOR_INTEL | VENDOR_AMD | VENDOR_CYRIX | VENDOR_NEXGEN | VENDOR_TRANSMETA | VENDOR_UMC |
    VENDOR_CENTAUR | VENDOR_RISE | VENDOR_SIS | VENDOR_NSC | VENDOR_HYGON | VENDOR_ARM |
    VENDOR_BROADCOM | VENDOR_CAVIUM | VENDOR_DEC | VENDOR_FUJITSU | VENDOR_HISILICON |
    VENDOR_INFINEON | VENDOR_FREESCALE | VENDOR_NVIDIA | VENDOR_APM | VENDOR_QUALCOMM |
    VENDOR_SAMSUNG | VENDOR_MARVELL | VENDOR_APPLE | VENDOR_FARADAY | VENDOR_MICROSOFT |
    VENDOR_PHYTIUM | VENDOR_AMPERE | VENDOR_UNKNOWN

datatype cpu_architecture_t =
  ARCHITECTURE_X86 | ARCHITECTURE_ARM | ARCHITECTURE_UNKNOWN

datatype cpu_feature_level_t =
  FEATURE_LEVEL_I386 | FEATURE_LEVEL_I486 | FEATURE_LEVEL_I586 | FEATURE_LEVEL_I686 |
    FEATURE_LEVEL_X86_64_V1 | FEATURE_LEVEL_X86_64_V2 | FEATURE_LEVEL_X86_64_V3 |
    FEATURE_LEVEL_X86_64_V4 | FEATURE_LEVEL_ARM_V1 | FEATURE_LEVEL_ARM_V2 |
    FEATURE_LEVEL_ARM_V3 | FEATURE_LEVEL_ARM_V4 | FEATURE_LEVEL_ARM_V4T |
    FEATURE_LEVEL_ARM_V5 | FEATURE_LEVEL_ARM_V5T | FEATURE_LEVEL_ARM_V5TE |
    FEATURE_LEVEL_ARM_V5TEJ | FEATURE_LEVEL_ARM_V6 | FEATURE_LEVEL_ARM_V6_M |
    FEATURE_LEVEL_ARM_V7_A | FEATURE_LEVEL_ARM_V7_M | FEATURE_LEVEL_ARM_V7_R |
    FEATURE_LEVEL_ARM_V7E_M | FEATURE_LEVEL_ARM_V8_0_A | FEATURE_LEVEL_ARM_V8_0_M |
    FEATURE_LEVEL_ARM_V8_0_R | FEATURE_LEVEL_ARM_V8_1_A | FEATURE_LEVEL_ARM_V8_1_M |
    FEATURE_LEVEL_ARM_V8_2_A | FEATURE_LEVEL_ARM_V8_3_A | FEATURE_LEVEL_ARM_V8_4_A |
    FEATURE_LEVEL_ARM_V8_5_A | FEATURE_LEVEL_ARM_V8_6_A | FEATURE_LEVEL_ARM_V8_7_A |
    FEATURE_LEVEL_ARM_V8_8_A | FEATURE_LEVEL_ARM_V8_9_A | FEATURE_LEVEL_ARM_V9_0_A |
    FEATURE_LEVEL_ARM_V9_1_A | FEATURE_LEVEL_ARM_V9_2_A | FEATURE_LEVEL_ARM_V9_3_A |
    FEATURE_LEVEL_ARM_V9_4_A | FEATURE_LEVEL_ARM_V9_5_A | FEATURE_LEVEL_UNKNOWN

datatype cpu_purpose_t =
  PURPOSE_GENERAL | PURPOSE_PERFORMANCE | PURPOSE_EFFICIENCY | PURPOSE_LP_EFFICIENCY |
    PURPOSE_U_PERFORMANCE

datatype hypervisor_vendor_t =
  HYPERVISOR_NONE | HYPERVISOR_BHYVE | HYPERVISOR_HYPERV | HYPERVISOR_KVM |
    HYPERVISOR_PARALLELS | HYPERVISOR_QEMU | HYPERVISOR_VIRTUALBOX | HYPERVISOR_VMWARE |
    HYPERVISOR_XEN | HYPERVISOR_UNKNOWN

datatype cpu_error_t =
  ERR_OK | ERR_NO_CPUID | ERR_NO_RDTSC | ERR_NO_MEM | ERR_OPEN | ERR_BADFMT | ERR_NOT_IMP |
    ERR_CPU_UNKN | ERR_NO_RDMSR | ERR_NO_DRIVER | ERR_NO_PERMS | ERR_EXTRACT | ERR_HANDLE |
    ERR_INVMSR | ERR_INVCNB | ERR_HANDLE_R | ERR_INVRANGE | ERR_NOT_FOUND | ERR_IOCTL |
    ERR_REQUEST

datatype cache_type_t = L1I | L1D | L2 | L3 | L4

text \<open>
  The numeric values of \<^verbatim>\<open>cpu_feature_level_t\<close>: the x86 levels start at 0, the ARM versions at
  100, and the unknown level is -1. C orders the levels by these numbers.
\<close>

fun feature_level_code :: "cpu_feature_level_t \<Rightarrow> int" where
  "feature_level_code FEATURE_LEVEL_I386 = 0"
| "feature_level_code FEATURE_LEVEL_I486 = 1"
| "feature_level_code FEATURE_LEVEL_I586 = 2"
| "feature_level_code FEATURE_LEVEL_I686 = 3"
| "feature_level_code FEATURE_LEVEL_X86_64_V1 = 4"
| "feature_level_code FEATURE_LEVEL_X86_64_V2 = 5"
| "feature_level_code FEATURE_LEVEL_X86_64_V3 = 6"
| "feature_level_code FEATURE_LEVEL_X86_64_V4 = 7"
| "feature_level_code FEATURE_LEVEL_ARM_V1 = 100"
| "feature_level_code FEATURE_LEVEL_ARM_V2 = 101"
| "feature_level_code FEATURE_LEVEL_ARM_V3 = 102"
| "feature_level_code FEATURE_LEVEL_ARM_V4 = 103"
| "feature_level_code FEATURE_LEVEL_ARM_V4T = 104"
| "feature_level_code FEATURE_LEVEL_ARM_V5 = 105"
| "feature_level_code FEATURE_LEVEL_ARM_V5T = 106"
| "feature_level_code FEATURE_LEVEL_ARM_V5TE = 107"
| "feature_level_code FEATURE_LEVEL_ARM_V5TEJ = 108"
| "feature_level_code FEATURE_LEVEL_ARM_V6 = 109"
| "feature_level_code FEATURE_LEVEL_ARM_V6_M = 110"
| "feature_level_code FEATURE_LEVEL_ARM_V7_A = 111"
| "feature_level_code FEATURE_LEVEL_ARM_V7_M = 112"
| "feature_level_code FEATURE_LEVEL_ARM_V7_R = 113"
| "feature_level_code FEATURE_LEVEL_ARM_V7E_M = 114"
| "feature_level_code FEATURE_LEVEL_ARM_V8_0_A = 115"
| "feature_level_code FEATURE_LEVEL_ARM_V8_0_M = 116"
| "feature_level_code FEATURE_LEVEL_ARM_V8_0_R = 117"
| "feature_level_code FEATURE_LEVEL_ARM_V8_1_A = 118"
| "feature_level_code FEATURE_LEVEL_ARM_V8_1_M = 119"
| "feature_level_code FEATURE_LEVEL_ARM_V8_2_A = 120"
| "feature_level_code FEATURE_LEVEL_ARM_V8_3_A = 121"
| "feature_level_code FEATURE_LEVEL_ARM_V8_4_A = 122"
| "feature_level_code FEATURE_LEVEL_ARM_V8_5_A = 123"
| "feature_level_code FEATURE_LEVEL_ARM_V8_6_A = 124"
| "feature_level_code FEATURE_LEVEL_ARM_V8_7_A = 125"
| "feature_level_code FEATURE_LEVEL_ARM_V8_8_A = 126"
| "feature_level_code FEATURE_LEVEL_ARM_V8_9_A = 127"
| "feature_level_code FEATURE_LEVEL_ARM_V9_0_A = 128"
| "feature_level_code FEATURE_LEVEL_ARM_V9_1_A = 129"
| "feature_level_code FEATURE_LEVEL_ARM_V9_2_A = 130"
| "feature_level_code FEATURE_LEVEL_ARM_V9_3_A = 131"
| "feature_level_code FEATURE_LEVEL_ARM_V9_4_A = 132"
| "feature_level_code FEATURE_LEVEL_ARM_V9_5_A = 133"
| "feature_level_code FEATURE_LEVEL_UNKNOWN = -1"

lemma feature_level_code_inj: "feature_level_code a = feature_level_code b \<longleftrightarrow> a = b"
  by (cases a; simp; cases b; simp)

instantiation cpu_feature_level_t :: linorder
begin

definition less_eq_cpu_feature_level_t :: "cpu_feature_level_t \<Rightarrow> cpu_feature_level_t \<Rightarrow> bool" where
  "less_eq_cpu_feature_level_t a b \<longleftrightarrow> feature_level_code a \<le> feature_level_code b"

definition less_cpu_feature_level_t :: "cpu_feature_level_t \<Rightarrow> cpu_feature_level_t \<Rightarrow> bool" where
  "less_cpu_feature_level_t a b \<longleftrightarrow> feature_level_code a < feature_level_code b"

instance
  by standard (auto simp: less_eq_cpu_feature_level_t_def less_cpu_feature_level_t_def
      feature_level_code_inj)

end

section \<open>Limits\<close>

text \<open>The array sizes of \<^verbatim>\<open>libcpuid_constants.h\<close>.\<close>

abbreviation (input) VENDOR_STR_MAX :: nat where "VENDOR_STR_MAX \<equiv> 16"
abbreviation (input) BRAND_STR_MAX :: nat where "BRAND_STR_MAX \<equiv> 64"
abbreviation (input) CODENAME_STR_MAX :: nat where "CODENAME_STR_MAX \<equiv> 64"
abbreviation (input) TECHNOLOGY_STR_MAX :: nat where "TECHNOLOGY_STR_MAX \<equiv> 16"
abbreviation (input) MAX_CPUID_LEVEL :: nat where "MAX_CPUID_LEVEL \<equiv> 32"
abbreviation (input) MAX_EXT_CPUID_LEVEL :: nat where "MAX_EXT_CPUID_LEVEL \<equiv> 32"
abbreviation (input) MAX_INTELFN4_LEVEL :: nat where "MAX_INTELFN4_LEVEL \<equiv> 8"
abbreviation (input) MAX_INTELFN11_LEVEL :: nat where "MAX_INTELFN11_LEVEL \<equiv> 4"
abbreviation (input) MAX_INTELFN12H_LEVEL :: nat where "MAX_INTELFN12H_LEVEL \<equiv> 4"
abbreviation (input) MAX_INTELFN14H_LEVEL :: nat where "MAX_INTELFN14H_LEVEL \<equiv> 4"
abbreviation (input) MAX_AMDFN8000001DH_LEVEL :: nat where "MAX_AMDFN8000001DH_LEVEL \<equiv> 4"
abbreviation (input) MAX_AMDFN80000026H_LEVEL :: nat where "MAX_AMDFN80000026H_LEVEL \<equiv> 4"
abbreviation (input) MAX_ARM_ID_AFR_REGS :: nat where "MAX_ARM_ID_AFR_REGS \<equiv> 1"
abbreviation (input) MAX_ARM_ID_DFR_REGS :: nat where "MAX_ARM_ID_DFR_REGS \<equiv> 2"
abbreviation (input) MAX_ARM_ID_ISAR_REGS :: nat where "MAX_ARM_ID_ISAR_REGS \<equiv> 7"
abbreviation (input) MAX_ARM_ID_MMFR_REGS :: nat where "MAX_ARM_ID_MMFR_REGS \<equiv> 6"
abbreviation (input) MAX_ARM_ID_PFR_REGS :: nat where "MAX_ARM_ID_PFR_REGS \<equiv> 3"
abbreviation (input) MAX_ARM_ID_AA64AFR_REGS :: nat where "MAX_ARM_ID_AA64AFR_REGS \<equiv> 2"
abbreviation (input) MAX_ARM_ID_AA64DFR_REGS :: nat where "MAX_ARM_ID_AA64DFR_REGS \<equiv> 3"
abbreviation (input) MAX_ARM_ID_AA64FPFR_REGS :: nat where "MAX_ARM_ID_AA64FPFR_REGS \<equiv> 1"
abbreviation (input) MAX_ARM_ID_AA64ISAR_REGS :: nat where "MAX_ARM_ID_AA64ISAR_REGS \<equiv> 4"
abbreviation (input) MAX_ARM_ID_AA64MMFR_REGS :: nat where "MAX_ARM_ID_AA64MMFR_REGS \<equiv> 5"
abbreviation (input) MAX_ARM_ID_AA64PFR_REGS :: nat where "MAX_ARM_ID_AA64PFR_REGS \<equiv> 3"
abbreviation (input) MAX_ARM_ID_AA64SMFR_REGS :: nat where "MAX_ARM_ID_AA64SMFR_REGS \<equiv> 1"
abbreviation (input) MAX_ARM_ID_AA64ZFR_REGS :: nat where "MAX_ARM_ID_AA64ZFR_REGS \<equiv> 1"
abbreviation (input) CPU_HINTS_MAX :: nat where "CPU_HINTS_MAX \<equiv> 16"
abbreviation (input) SGX_FLAGS_MAX :: nat where "SGX_FLAGS_MAX \<equiv> 14"

abbreviation (input) UNKN_STR :: string where "UNKN_STR \<equiv> ''unknown''"

section \<open>Raw CPUID data\<close>

text \<open>One CPUID result, \<^verbatim>\<open>uint32_t[NUM_REGS]\<close> indexed by \<^verbatim>\<open>cpu_registers_t\<close>.\<close>

record cpu_regs_t =
  EAX :: u32
  EBX :: u32
  ECX :: u32
  EDX :: u32

definition regs_zero :: cpu_regs_t where
  "regs_zero = \<lparr>EAX = 0, EBX = 0, ECX = 0, EDX = 0\<rparr>"

lemma regs_zero_simps [simp]:
  "EAX regs_zero = 0" "EBX regs_zero = 0" "ECX regs_zero = 0" "EDX regs_zero = 0"
  by (simp_all add: regs_zero_def)

record cpu_raw_data_t =
  basic_cpuid :: "cpu_regs_t list"
  ext_cpuid :: "cpu_regs_t list"
  intel_fn4 :: "cpu_regs_t list"
  intel_fn11 :: "cpu_regs_t list"
  intel_fn12h :: "cpu_regs_t list"
  intel_fn14h :: "cpu_regs_t list"
  amd_fn8000001dh :: "cpu_regs_t list"
  amd_fn80000026h :: "cpu_regs_t list"
  arm_midr :: u64
  arm_mpidr :: u64
  arm_revidr :: u64
  arm_id_afr :: "u32 list"
  arm_id_dfr :: "u32 list"
  arm_id_isar :: "u32 list"
  arm_id_mmfr :: "u32 list"
  arm_id_pfr :: "u32 list"
  arm_id_aa64afr :: "u64 list"
  arm_id_aa64dfr :: "u64 list"
  arm_id_aa64fpfr :: "u64 list"
  arm_id_aa64isar :: "u64 list"
  arm_id_aa64mmfr :: "u64 list"
  arm_id_aa64pfr :: "u64 list"
  arm_id_aa64smfr :: "u64 list"
  arm_id_aa64zfr :: "u64 list"

text \<open>The lengths that C fixes in the type of each array.\<close>

definition wf_raw :: "cpu_raw_data_t \<Rightarrow> bool" where
  "wf_raw raw \<longleftrightarrow>
     length (basic_cpuid raw) = MAX_CPUID_LEVEL \<and>
     length (ext_cpuid raw) = MAX_EXT_CPUID_LEVEL \<and>
     length (intel_fn4 raw) = MAX_INTELFN4_LEVEL \<and>
     length (intel_fn11 raw) = MAX_INTELFN11_LEVEL \<and>
     length (intel_fn12h raw) = MAX_INTELFN12H_LEVEL \<and>
     length (intel_fn14h raw) = MAX_INTELFN14H_LEVEL \<and>
     length (amd_fn8000001dh raw) = MAX_AMDFN8000001DH_LEVEL \<and>
     length (amd_fn80000026h raw) = MAX_AMDFN80000026H_LEVEL \<and>
     length (arm_id_afr raw) = MAX_ARM_ID_AFR_REGS \<and>
     length (arm_id_dfr raw) = MAX_ARM_ID_DFR_REGS \<and>
     length (arm_id_isar raw) = MAX_ARM_ID_ISAR_REGS \<and>
     length (arm_id_mmfr raw) = MAX_ARM_ID_MMFR_REGS \<and>
     length (arm_id_pfr raw) = MAX_ARM_ID_PFR_REGS \<and>
     length (arm_id_aa64afr raw) = MAX_ARM_ID_AA64AFR_REGS \<and>
     length (arm_id_aa64dfr raw) = MAX_ARM_ID_AA64DFR_REGS \<and>
     length (arm_id_aa64fpfr raw) = MAX_ARM_ID_AA64FPFR_REGS \<and>
     length (arm_id_aa64isar raw) = MAX_ARM_ID_AA64ISAR_REGS \<and>
     length (arm_id_aa64mmfr raw) = MAX_ARM_ID_AA64MMFR_REGS \<and>
     length (arm_id_aa64pfr raw) = MAX_ARM_ID_AA64PFR_REGS \<and>
     length (arm_id_aa64smfr raw) = MAX_ARM_ID_AA64SMFR_REGS \<and>
     length (arm_id_aa64zfr raw) = MAX_ARM_ID_AA64ZFR_REGS"

definition raw_data_t_constructor :: cpu_raw_data_t where
  "raw_data_t_constructor = \<lparr>
     basic_cpuid = replicate MAX_CPUID_LEVEL regs_zero,
     ext_cpuid = replicate MAX_EXT_CPUID_LEVEL regs_zero,
     intel_fn4 = replicate MAX_INTELFN4_LEVEL regs_zero,
     intel_fn11 = replicate MAX_INTELFN11_LEVEL regs_zero,
     intel_fn12h = replicate MAX_INTELFN12H_LEVEL regs_zero,
     intel_fn14h = replicate MAX_INTELFN14H_LEVEL regs_zero,
     amd_fn8000001dh = replicate MAX_AMDFN8000001DH_LEVEL regs_zero,
     amd_fn80000026h = replicate MAX_AMDFN80000026H_LEVEL regs_zero,
     arm_midr = 0, arm_mpidr = 0, arm_revidr = 0,
     arm_id_afr = replicate MAX_ARM_ID_AFR_REGS 0,
     arm_id_dfr = replicate MAX_ARM_ID_DFR_REGS 0,
     arm_id_isar = replicate MAX_ARM_ID_ISAR_REGS 0,
     arm_id_mmfr = replicate MAX_ARM_ID_MMFR_REGS 0,
     arm_id_pfr = replicate MAX_ARM_ID_PFR_REGS 0,
     arm_id_aa64afr = replicate MAX_ARM_ID_AA64AFR_REGS 0,
     arm_id_aa64dfr = replicate MAX_ARM_ID_AA64DFR_REGS 0,
     arm_id_aa64fpfr = replicate MAX_ARM_ID_AA64FPFR_REGS 0,
     arm_id_aa64isar = replicate MAX_ARM_ID_AA64ISAR_REGS 0,
     arm_id_aa64mmfr = replicate MAX_ARM_ID_AA64MMFR_REGS 0,
     arm_id_aa64pfr = replicate MAX_ARM_ID_AA64PFR_REGS 0,
     arm_id_aa64smfr = replicate MAX_ARM_ID_AA64SMFR_REGS 0,
     arm_id_aa64zfr = replicate MAX_ARM_ID_AA64ZFR_REGS 0\<rparr>"

lemma wf_raw_data_t_constructor [simp]: "wf_raw raw_data_t_constructor"
  by (simp add: wf_raw_def raw_data_t_constructor_def)

lemma wf_rawD:
  assumes "wf_raw raw"
  shows "length (basic_cpuid raw) = 32" "length (ext_cpuid raw) = 32"
    "length (intel_fn4 raw) = 8" "length (intel_fn11 raw) = 4"
    "length (intel_fn12h raw) = 4" "length (intel_fn14h raw) = 4"
    "length (amd_fn8000001dh raw) = 4" "length (amd_fn80000026h raw) = 4"
  using assms by (simp_all add: wf_raw_def)

text \<open>
  A register of a raw table, read at a subleaf that a loop computes: outside the array the
  access is undefined behaviour.
\<close>

definition regs_at :: "cpu_regs_t list \<Rightarrow> nat \<Rightarrow> cpu_regs_t option" where
  "regs_at tab i = (if i < length tab then Some (tab ! i) else None)"

lemma regs_at_less [simp]: "i < length tab \<Longrightarrow> regs_at tab i = Some (tab ! i)"
  by (simp add: regs_at_def)

lemma regs_at_ge [simp]: "length tab \<le> i \<Longrightarrow> regs_at tab i = None"
  by (simp add: regs_at_def)

record cpu_raw_data_array_t =
  with_affinity :: bool
  num_raw :: u16
  raw_items :: "cpu_raw_data_t list"

section \<open>Identification results\<close>

text \<open>
  \<^verbatim>\<open>cpu_affinity_mask_t\<close>: one bit for each value of \<^verbatim>\<open>logical_cpu_t\<close>, in bytes.
\<close>

type_synonym logical_cpu_t = u16
type_synonym cpu_affinity_mask_t = "u8 list"

abbreviation (input) MASK_NCPUBITS :: nat where "MASK_NCPUBITS \<equiv> 8"
abbreviation (input) MASK_SETSIZE :: nat where "MASK_SETSIZE \<equiv> 8192"

record cpu_sgx_t =
  sgx_present :: u32
  max_enclave_32bit :: u8
  max_enclave_64bit :: u8
  sgx_flags :: "nat \<Rightarrow> bool"
  num_epc_sections :: int
  misc_select :: u32
  secs_attributes :: u64
  secs_xfrm :: u64

definition sgx_zero :: cpu_sgx_t where
  "sgx_zero = \<lparr>sgx_present = 0, max_enclave_32bit = 0, max_enclave_64bit = 0,
     sgx_flags = (\<lambda>_. False), num_epc_sections = 0, misc_select = 0,
     secs_attributes = 0, secs_xfrm = 0\<rparr>"

abbreviation (input) INTEL_SGX1 :: nat where "INTEL_SGX1 \<equiv> 0"
abbreviation (input) INTEL_SGX2 :: nat where "INTEL_SGX2 \<equiv> 1"

record x86_id_t =
  family :: int
  model :: int
  stepping :: int
  ext_family :: int
  ext_model :: int
  sse_size :: int
  sgx :: cpu_sgx_t

record arm_id_t =
  implementer :: u8
  variant :: u8
  part_num :: u16
  revision :: u8

record cpu_id_t =
  architecture :: cpu_architecture_t
  feature_level :: cpu_feature_level_t
  vendor_str :: string
  brand_str :: string
  vendor :: cpu_vendor_t
  flags :: "cpu_feature_t \<Rightarrow> bool"
  x86 :: x86_id_t
  arm :: arm_id_t
  num_cores :: int
  num_logical_cpus :: int
  total_logical_cpus :: int
  l1_data_cache :: int
  l1_instruction_cache :: int
  l2_cache :: int
  l3_cache :: int
  l4_cache :: int
  l1_data_assoc :: int
  l1_instruction_assoc :: int
  l2_assoc :: int
  l3_assoc :: int
  l4_assoc :: int
  l1_data_cacheline :: int
  l1_instruction_cacheline :: int
  l2_cacheline :: int
  l3_cacheline :: int
  l4_cacheline :: int
  l1_data_instances :: int
  l1_instruction_instances :: int
  l2_instances :: int
  l3_instances :: int
  l4_instances :: int
  cpu_codename :: string
  detection_hints :: "nat \<Rightarrow> bool"
  affinity_mask :: cpu_affinity_mask_t
  purpose :: cpu_purpose_t
  technology_node :: string

abbreviation (input) CPU_HINT_SSE_SIZE_AUTH :: nat where "CPU_HINT_SSE_SIZE_AUTH \<equiv> 0"

definition init_affinity_mask :: cpu_affinity_mask_t where
  "init_affinity_mask = replicate MASK_SETSIZE 0"

definition cpu_id_t_constructor :: cpu_id_t where
  "cpu_id_t_constructor = \<lparr>
     architecture = ARCHITECTURE_UNKNOWN,
     feature_level = FEATURE_LEVEL_UNKNOWN,
     vendor_str = [], brand_str = [],
     vendor = VENDOR_UNKNOWN,
     flags = (\<lambda>_. False),
     x86 = \<lparr>family = 0, model = 0, stepping = 0, ext_family = 0, ext_model = 0,
       sse_size = -1, sgx = sgx_zero\<rparr>,
     arm = \<lparr>implementer = 0, variant = 0, part_num = 0, revision = 0\<rparr>,
     num_cores = 0, num_logical_cpus = 0, total_logical_cpus = 0,
     l1_data_cache = -1, l1_instruction_cache = -1, l2_cache = -1, l3_cache = -1, l4_cache = -1,
     l1_data_assoc = -1, l1_instruction_assoc = -1, l2_assoc = -1, l3_assoc = -1, l4_assoc = -1,
     l1_data_cacheline = -1, l1_instruction_cacheline = -1, l2_cacheline = -1,
     l3_cacheline = -1, l4_cacheline = -1,
     l1_data_instances = -1, l1_instruction_instances = -1, l2_instances = -1,
     l3_instances = -1, l4_instances = -1,
     cpu_codename = [], detection_hints = (\<lambda>_. False),
     affinity_mask = init_affinity_mask,
     purpose = PURPOSE_GENERAL,
     technology_node = []\<rparr>"

record system_id_t =
  num_cpu_types :: u8
  cpu_types :: "cpu_id_t list"
  l1_data_total_instances :: int
  l1_instruction_total_instances :: int
  l2_total_instances :: int
  l3_total_instances :: int
  l4_total_instances :: int

definition system_id_t_constructor :: system_id_t where
  "system_id_t_constructor = \<lparr>num_cpu_types = 0, cpu_types = [],
     l1_data_total_instances = -1, l1_instruction_total_instances = -1,
     l2_total_instances = -1, l3_total_instances = -1, l4_total_instances = -1\<rparr>"

section \<open>Internal state of the identification\<close>

text \<open>
  \<^verbatim>\<open>libcpuid_internal.h\<close>. Arrays indexed by \<^verbatim>\<open>cache_type_t\<close> are lists of length
  \<^verbatim>\<open>NUM_CACHE_TYPES\<close>, because the code also indexes them with numbers.
\<close>

abbreviation (input) NUM_CACHE_TYPES :: nat where "NUM_CACHE_TYPES \<equiv> 5"

record internal_id_info_t =
  id_score :: int
  cache_mask :: "u32 list"

record internal_topology_t =
  apic_id :: u32
  package_id :: u32
  core_id :: u32
  smt_id :: u32
  cache_id :: "u32 list"
  logical_cpu :: logical_cpu_t

definition topology_t_constructor :: "logical_cpu_t \<Rightarrow> internal_topology_t" where
  "topology_t_constructor cpu = \<lparr>apic_id = -1, package_id = -1, core_id = -1, smt_id = -1,
     cache_id = replicate NUM_CACHE_TYPES 0, logical_cpu = cpu\<rparr>"

record internal_entry_id_t =
  entry_num_logical_cpu :: logical_cpu_t
  entry_id :: u32

definition entry_zero :: internal_entry_id_t where
  "entry_zero = \<lparr>entry_num_logical_cpu = 0, entry_id = 0\<rparr>"

abbreviation (input) CORES_HTABLE_SIZE :: nat where "CORES_HTABLE_SIZE \<equiv> 256"
abbreviation (input) CACHES_HTABLE_SIZE :: nat where "CACHES_HTABLE_SIZE \<equiv> 256"

record internal_core_instances_t =
  core_count :: u8
  core_htable :: "internal_entry_id_t list"

record internal_cache_instances_t =
  cache_counts :: "u8 list"
  cache_htable :: "internal_entry_id_t list list"

definition core_instances_t_constructor :: internal_core_instances_t where
  "core_instances_t_constructor =
     \<lparr>core_count = 0, core_htable = replicate CORES_HTABLE_SIZE entry_zero\<rparr>"

definition cache_instances_t_constructor :: internal_cache_instances_t where
  "cache_instances_t_constructor =
     \<lparr>cache_counts = replicate NUM_CACHE_TYPES 0,
      cache_htable = replicate NUM_CACHE_TYPES (replicate CACHES_HTABLE_SIZE entry_zero)\<rparr>"

record internal_type_info_t =
  ti_purpose :: cpu_purpose_t
  ti_package_id :: u32
  ti_id_info :: internal_id_info_t
  ti_core_instances :: internal_core_instances_t
  ti_cache_instances :: internal_cache_instances_t

record internal_type_info_array_t =
  ti_num :: u8
  ti_data :: "internal_type_info_t list"

definition type_info_array_t_constructor :: internal_type_info_array_t where
  "type_info_array_t_constructor = \<lparr>ti_num = 0, ti_data = []\<rparr>"

section \<open>Match tables\<close>

record feature_map_t =
  fm_bit :: nat
  fm_feature :: cpu_feature_t

record match_entry_t =
  me_family :: int
  me_model :: int
  me_stepping :: int
  me_ext_family :: int
  me_ext_model :: int
  me_ncores :: int
  me_l2cache :: int
  me_l3cache :: int
  me_pattern :: string
  me_score :: int
  me_name :: string
  me_technology :: string

end
