(* ===== verification/Code_Tables.thy ===== *)
theory Code_Tables
  imports Cpuid_Types
begin

text \<open>
  The functions of \<^verbatim>\<open>cpuid_main.c\<close> that name a value of an enum: \<^verbatim>\<open>cpu_architecture_str\<close>,
  \<^verbatim>\<open>cpu_feature_level_str\<close>, \<^verbatim>\<open>cpu_purpose_str\<close>, \<^verbatim>\<open>cpu_feature_str\<close> and \<^verbatim>\<open>cpuid_error\<close>. Each scans
  a table from its first row and returns a default for a value it does not list; the warning
  about a table of the wrong size is a theorem here (the tables are complete). The locale
  \<open>code_table\<close> states what a table must satisfy for its function to be an injective naming,
  and is interpreted on each of them.
\<close>

section \<open>The scan and its contract\<close>

fun code_str :: "('k \<times> string) list \<Rightarrow> string \<Rightarrow> 'k \<Rightarrow> string" where
  "code_str [] dflt k = dflt"
| "code_str ((k', name) # rows) dflt k = (if k' = k then name else code_str rows dflt k)"

locale code_table =
  fixes tab :: "('k \<times> string) list" and dflt :: string
  assumes keys_distinct: "distinct (map fst tab)"
    and names_distinct: "distinct (map snd tab)"
    and dflt_fresh: "dflt \<notin> set (map snd tab)"
begin

lemma lookup_row: "(k, name) \<in> set tab \<Longrightarrow> code_str tab dflt k = name"
  using keys_distinct by (induction tab) (auto simp: image_iff)

lemma lookup_missing: "k \<notin> fst ` set tab \<Longrightarrow> code_str tab dflt k = dflt"
  by (induction tab) auto

lemma lookup_in: "k \<in> fst ` set tab \<Longrightarrow> (k, code_str tab dflt k) \<in> set tab"
  using lookup_row by fastforce

lemma lookup_eq_dflt: "code_str tab dflt k = dflt \<longleftrightarrow> k \<notin> fst ` set tab"
  using lookup_in lookup_missing dflt_fresh by force

lemma names_inj: "(a, name) \<in> set tab \<Longrightarrow> (b, name) \<in> set tab \<Longrightarrow> a = b"
  using names_distinct by (force simp: distinct_map inj_on_def)

lemma lookup_inj:
  "k \<in> fst ` set tab \<Longrightarrow> code_str tab dflt k = code_str tab dflt k' \<Longrightarrow> k = k'"
  by (metis lookup_eq_dflt lookup_in names_inj)

end

section \<open>The tables\<close>

definition architecture_names :: "(cpu_architecture_t \<times> string) list" where
  "architecture_names = [
     (ARCHITECTURE_UNKNOWN, UNKN_STR),
     (ARCHITECTURE_X86, ''x86''),
     (ARCHITECTURE_ARM, ''ARM'')]"

definition cpu_architecture_str :: "cpu_architecture_t \<Rightarrow> string" where
  "cpu_architecture_str a = code_str architecture_names [] a"

definition feature_level_names :: "(cpu_feature_level_t \<times> string) list" where
  "feature_level_names = [
     (FEATURE_LEVEL_UNKNOWN, UNKN_STR),
     (FEATURE_LEVEL_I386, ''i386''),
     (FEATURE_LEVEL_I486, ''i486''),
     (FEATURE_LEVEL_I586, ''i586''),
     (FEATURE_LEVEL_I686, ''i686''),
     (FEATURE_LEVEL_X86_64_V1, ''x86-64-v1''),
     (FEATURE_LEVEL_X86_64_V2, ''x86-64-v2''),
     (FEATURE_LEVEL_X86_64_V3, ''x86-64-v3''),
     (FEATURE_LEVEL_X86_64_V4, ''x86-64-v4''),
     (FEATURE_LEVEL_ARM_V1, ''ARMv1''),
     (FEATURE_LEVEL_ARM_V2, ''ARMv2''),
     (FEATURE_LEVEL_ARM_V3, ''ARMv3''),
     (FEATURE_LEVEL_ARM_V4, ''ARMv4''),
     (FEATURE_LEVEL_ARM_V4T, ''ARMv4T''),
     (FEATURE_LEVEL_ARM_V5, ''ARMv5''),
     (FEATURE_LEVEL_ARM_V5T, ''ARMv5T''),
     (FEATURE_LEVEL_ARM_V5TE, ''ARMv5TE''),
     (FEATURE_LEVEL_ARM_V5TEJ, ''ARMv5TEJ''),
     (FEATURE_LEVEL_ARM_V6, ''ARMv6''),
     (FEATURE_LEVEL_ARM_V6_M, ''ARMv6-M''),
     (FEATURE_LEVEL_ARM_V7_A, ''ARMv7-A''),
     (FEATURE_LEVEL_ARM_V7_M, ''ARMv7-M''),
     (FEATURE_LEVEL_ARM_V7_R, ''ARMv7-R''),
     (FEATURE_LEVEL_ARM_V7E_M, ''ARMv7E-M''),
     (FEATURE_LEVEL_ARM_V8_0_A, ''ARMv8.0-A''),
     (FEATURE_LEVEL_ARM_V8_0_M, ''ARMv8.0-M''),
     (FEATURE_LEVEL_ARM_V8_0_R, ''ARMv8.0-R''),
     (FEATURE_LEVEL_ARM_V8_1_A, ''ARMv8.1-A''),
     (FEATURE_LEVEL_ARM_V8_1_M, ''ARMv8.1-M''),
     (FEATURE_LEVEL_ARM_V8_2_A, ''ARMv8.2-A''),
     (FEATURE_LEVEL_ARM_V8_3_A, ''ARMv8.3-A''),
     (FEATURE_LEVEL_ARM_V8_4_A, ''ARMv8.4-A''),
     (FEATURE_LEVEL_ARM_V8_5_A, ''ARMv8.5-A''),
     (FEATURE_LEVEL_ARM_V8_6_A, ''ARMv8.6-A''),
     (FEATURE_LEVEL_ARM_V8_7_A, ''ARMv8.7-A''),
     (FEATURE_LEVEL_ARM_V8_8_A, ''ARMv8.8-A''),
     (FEATURE_LEVEL_ARM_V8_9_A, ''ARMv8.9-A''),
     (FEATURE_LEVEL_ARM_V9_0_A, ''ARMv9.0-A''),
     (FEATURE_LEVEL_ARM_V9_1_A, ''ARMv9.1-A''),
     (FEATURE_LEVEL_ARM_V9_2_A, ''ARMv9.2-A''),
     (FEATURE_LEVEL_ARM_V9_3_A, ''ARMv9.3-A''),
     (FEATURE_LEVEL_ARM_V9_4_A, ''ARMv9.4-A''),
     (FEATURE_LEVEL_ARM_V9_5_A, ''ARMv9.5-A'')]"

definition cpu_feature_level_str :: "cpu_feature_level_t \<Rightarrow> string" where
  "cpu_feature_level_str l = code_str feature_level_names [] l"

definition purpose_names :: "(cpu_purpose_t \<times> string) list" where
  "purpose_names = [
     (PURPOSE_GENERAL, ''general''),
     (PURPOSE_PERFORMANCE, ''performance''),
     (PURPOSE_EFFICIENCY, ''efficiency''),
     (PURPOSE_LP_EFFICIENCY, ''low-power efficiency''),
     (PURPOSE_U_PERFORMANCE, ''ultimate performance'')]"

definition cpu_purpose_str :: "cpu_purpose_t \<Rightarrow> string" where
  "cpu_purpose_str p = code_str purpose_names [] p"

definition error_names :: "(cpu_error_t \<times> string) list" where
  "error_names = [
     (ERR_OK, ''No error''),
     (ERR_NO_CPUID, ''CPUID instruction is not supported''),
     (ERR_NO_RDTSC, ''RDTSC instruction is not supported''),
     (ERR_NO_MEM, ''Memory allocation failed''),
     (ERR_OPEN, ''File open operation failed''),
     (ERR_BADFMT, ''Bad file format''),
     (ERR_NOT_IMP, ''Not implemented''),
     (ERR_CPU_UNKN, ''Unsupported processor''),
     (ERR_NO_RDMSR, ''RDMSR instruction is not supported''),
     (ERR_NO_DRIVER, ''RDMSR driver error (generic)''),
     (ERR_NO_PERMS, ''No permissions to install RDMSR driver''),
     (ERR_EXTRACT, ''Cannot extract RDMSR driver (read only media?)''),
     (ERR_HANDLE, ''Bad handle''),
     (ERR_INVMSR, ''Invalid MSR''),
     (ERR_INVCNB, ''Invalid core number''),
     (ERR_HANDLE_R, ''Error on handle read''),
     (ERR_INVRANGE, ''Invalid given range''),
     (ERR_NOT_FOUND, ''Requested type not found''),
     (ERR_IOCTL, ''Error on ioctl''),
     (ERR_REQUEST, ''Invalid request'')]"

text \<open>The scan of \<^verbatim>\<open>cpuid_error\<close> reads the error from the thread's \<^verbatim>\<open>_libcpuid_errno\<close>.\<close>

definition cpuid_error :: "cpu_error_t \<Rightarrow> string" where
  "cpuid_error errno = code_str error_names ''Unknown error'' errno"

definition feature_names_1 :: "(cpu_feature_t \<times> string) list" where
  "feature_names_1 = [
     (CPU_FEATURE_FPU, ''fpu''),
     (CPU_FEATURE_VME, ''vme''),
     (CPU_FEATURE_DE, ''de''),
     (CPU_FEATURE_PSE, ''pse''),
     (CPU_FEATURE_TSC, ''tsc''),
     (CPU_FEATURE_MSR, ''msr''),
     (CPU_FEATURE_PAE, ''pae''),
     (CPU_FEATURE_MCE, ''mce''),
     (CPU_FEATURE_CX8, ''cx8''),
     (CPU_FEATURE_APIC, ''apic''),
     (CPU_FEATURE_MTRR, ''mtrr''),
     (CPU_FEATURE_SEP, ''sep''),
     (CPU_FEATURE_PGE, ''pge''),
     (CPU_FEATURE_MCA, ''mca''),
     (CPU_FEATURE_CMOV, ''cmov''),
     (CPU_FEATURE_PAT, ''pat''),
     (CPU_FEATURE_PSE36, ''pse36''),
     (CPU_FEATURE_PN, ''pn''),
     (CPU_FEATURE_CLFLUSH, ''clflush''),
     (CPU_FEATURE_DTS, ''dts''),
     (CPU_FEATURE_ACPI, ''acpi''),
     (CPU_FEATURE_MMX, ''mmx''),
     (CPU_FEATURE_FXSR, ''fxsr''),
     (CPU_FEATURE_SSE, ''sse''),
     (CPU_FEATURE_SSE2, ''sse2''),
     (CPU_FEATURE_SS, ''ss''),
     (CPU_FEATURE_HT, ''ht''),
     (CPU_FEATURE_TM, ''tm''),
     (CPU_FEATURE_IA64, ''ia64''),
     (CPU_FEATURE_PBE, ''pbe''),
     (CPU_FEATURE_PNI, ''pni''),
     (CPU_FEATURE_PCLMUL, ''pclmul''),
     (CPU_FEATURE_DTS64, ''dts64''),
     (CPU_FEATURE_MONITOR, ''monitor''),
     (CPU_FEATURE_DS_CPL, ''ds_cpl''),
     (CPU_FEATURE_VMX, ''vmx''),
     (CPU_FEATURE_SMX, ''smx''),
     (CPU_FEATURE_EST, ''est''),
     (CPU_FEATURE_TM2, ''tm2''),
     (CPU_FEATURE_SSSE3, ''ssse3''),
     (CPU_FEATURE_CID, ''cid''),
     (CPU_FEATURE_CX16, ''cx16''),
     (CPU_FEATURE_XTPR, ''xtpr''),
     (CPU_FEATURE_PDCM, ''pdcm''),
     (CPU_FEATURE_DCA, ''dca''),
     (CPU_FEATURE_SSE4_1, ''sse4_1''),
     (CPU_FEATURE_SSE4_2, ''sse4_2''),
     (CPU_FEATURE_SYSCALL, ''syscall''),
     (CPU_FEATURE_XD, ''xd''),
     (CPU_FEATURE_X2APIC, ''x2apic''),
     (CPU_FEATURE_MOVBE, ''movbe''),
     (CPU_FEATURE_POPCNT, ''popcnt''),
     (CPU_FEATURE_AES, ''aes''),
     (CPU_FEATURE_XSAVE, ''xsave''),
     (CPU_FEATURE_OSXSAVE, ''osxsave''),
     (CPU_FEATURE_AVX, ''avx''),
     (CPU_FEATURE_MMXEXT, ''mmxext''),
     (CPU_FEATURE_3DNOW, ''3dnow''),
     (CPU_FEATURE_3DNOWEXT, ''3dnowext''),
     (CPU_FEATURE_NX, ''nx''),
     (CPU_FEATURE_FXSR_OPT, ''fxsr_opt''),
     (CPU_FEATURE_RDTSCP, ''rdtscp''),
     (CPU_FEATURE_LM, ''lm''),
     (CPU_FEATURE_LAHF_LM, ''lahf_lm''),
     (CPU_FEATURE_CMP_LEGACY, ''cmp_legacy''),
     (CPU_FEATURE_SVM, ''svm''),
     (CPU_FEATURE_SSE4A, ''sse4a''),
     (CPU_FEATURE_MISALIGNSSE, ''misalignsse''),
     (CPU_FEATURE_ABM, ''abm''),
     (CPU_FEATURE_3DNOWPREFETCH, ''3dnowprefetch''),
     (CPU_FEATURE_OSVW, ''osvw''),
     (CPU_FEATURE_IBS, ''ibs''),
     (CPU_FEATURE_SSE5, ''sse5''),
     (CPU_FEATURE_SKINIT, ''skinit''),
     (CPU_FEATURE_WDT, ''wdt''),
     (CPU_FEATURE_TS, ''ts''),
     (CPU_FEATURE_FID, ''fid''),
     (CPU_FEATURE_VID, ''vid''),
     (CPU_FEATURE_TTP, ''ttp''),
     (CPU_FEATURE_TM_AMD, ''tm_amd''),
     (CPU_FEATURE_STC, ''stc''),
     (CPU_FEATURE_100MHZSTEPS, ''100mhzsteps''),
     (CPU_FEATURE_HWPSTATE, ''hwpstate''),
     (CPU_FEATURE_CONSTANT_TSC, ''constant_tsc''),
     (CPU_FEATURE_XOP, ''xop''),
     (CPU_FEATURE_FMA3, ''fma3''),
     (CPU_FEATURE_FMA4, ''fma4''),
     (CPU_FEATURE_TBM, ''tbm''),
     (CPU_FEATURE_F16C, ''f16c''),
     (CPU_FEATURE_RDRAND, ''rdrand''),
     (CPU_FEATURE_CPB, ''cpb''),
     (CPU_FEATURE_APERFMPERF, ''aperfmperf''),
     (CPU_FEATURE_PFI, ''pfi''),
     (CPU_FEATURE_PA, ''pa''),
     (CPU_FEATURE_AVX2, ''avx2''),
     (CPU_FEATURE_BMI1, ''bmi1''),
     (CPU_FEATURE_BMI2, ''bmi2''),
     (CPU_FEATURE_HLE, ''hle''),
     (CPU_FEATURE_RTM, ''rtm''),
     (CPU_FEATURE_AVX512F, ''avx512f''),
     (CPU_FEATURE_AVX512DQ, ''avx512dq''),
     (CPU_FEATURE_AVX512PF, ''avx512pf''),
     (CPU_FEATURE_AVX512ER, ''avx512er''),
     (CPU_FEATURE_AVX512CD, ''avx512cd''),
     (CPU_FEATURE_SHA_NI, ''sha_ni''),
     (CPU_FEATURE_AVX512BW, ''avx512bw''),
     (CPU_FEATURE_AVX512VL, ''avx512vl''),
     (CPU_FEATURE_SGX, ''sgx''),
     (CPU_FEATURE_RDSEED, ''rdseed''),
     (CPU_FEATURE_ADX, ''adx''),
     (CPU_FEATURE_AVX512VNNI, ''avx512vnni''),
     (CPU_FEATURE_AVX512VBMI, ''avx512vbmi''),
     (CPU_FEATURE_AVX512VBMI2, ''avx512vbmi2''),
     (CPU_FEATURE_HYPERVISOR, ''hypervisor''),
     (CPU_FEATURE_SWAP, ''swap''),
     (CPU_FEATURE_THUMB, ''thumb''),
     (CPU_FEATURE_ADVMULTU, ''advmultu''),
     (CPU_FEATURE_ADVMULTS, ''advmults''),
     (CPU_FEATURE_JAZELLE, ''jazelle''),
     (CPU_FEATURE_DEBUGV6, ''debugv6''),
     (CPU_FEATURE_DEBUGV6P1, ''debugv6p1''),
     (CPU_FEATURE_THUMB2, ''thumb2''),
     (CPU_FEATURE_DEBUGV7, ''debugv7''),
     (CPU_FEATURE_DEBUGV7P1, ''debugv7p1''),
     (CPU_FEATURE_THUMBEE, ''thumbee''),
     (CPU_FEATURE_DIVIDE, ''divide''),
     (CPU_FEATURE_LPAE, ''lpae''),
     (CPU_FEATURE_PMUV1, ''pmuv1''),
     (CPU_FEATURE_PMUV2, ''pmuv2''),
     (CPU_FEATURE_ASID16, ''asid16'')]"

definition feature_names_2 :: "(cpu_feature_t \<times> string) list" where
  "feature_names_2 = [
     (CPU_FEATURE_ADVSIMD, ''advsimd''),
     (CPU_FEATURE_CRC32, ''crc32''),
     (CPU_FEATURE_CSV2_1P1, ''csv2_1p1''),
     (CPU_FEATURE_CSV2_1P2, ''csv2_1p2''),
     (CPU_FEATURE_CSV2_2, ''csv2_2''),
     (CPU_FEATURE_CSV2_3, ''csv2_3''),
     (CPU_FEATURE_DOUBLELOCK, ''doublelock''),
     (CPU_FEATURE_ETS2, ''ets2''),
     (CPU_FEATURE_FP, ''fp''),
     (CPU_FEATURE_MIXEDEND, ''mixedend''),
     (CPU_FEATURE_MIXEDENDEL0, ''mixedendel0''),
     (CPU_FEATURE_PMULL, ''pmull''),
     (CPU_FEATURE_PMUV3, ''pmuv3''),
     (CPU_FEATURE_SHA1, ''sha1''),
     (CPU_FEATURE_SHA256, ''sha256''),
     (CPU_FEATURE_NTLBPA, ''ntlbpa''),
     (CPU_FEATURE_HAFDBS, ''hafdbs''),
     (CPU_FEATURE_HPDS, ''hpds''),
     (CPU_FEATURE_LOR, ''lor''),
     (CPU_FEATURE_LSE, ''lse''),
     (CPU_FEATURE_PAN, ''pan''),
     (CPU_FEATURE_PMUV3P1, ''pmuv3p1''),
     (CPU_FEATURE_RDM, ''rdm''),
     (CPU_FEATURE_VHE, ''vhe''),
     (CPU_FEATURE_VMID16, ''vmid16''),
     (CPU_FEATURE_AA32HPD, ''aa32hpd''),
     (CPU_FEATURE_AA32I8MM, ''aa32i8mm''),
     (CPU_FEATURE_DPB, ''dpb''),
     (CPU_FEATURE_DEBUGV8P2, ''debugv8p2''),
     (CPU_FEATURE_F32MM, ''f32mm''),
     (CPU_FEATURE_F64MM, ''f64mm''),
     (CPU_FEATURE_FP16, ''fp16''),
     (CPU_FEATURE_HPDS2, ''hpds2''),
     (CPU_FEATURE_I8MM, ''i8mm''),
     (CPU_FEATURE_IESB, ''iesb''),
     (CPU_FEATURE_LPA, ''lpa''),
     (CPU_FEATURE_LSMAOC, ''lsmaoc''),
     (CPU_FEATURE_LVA, ''lva''),
     (CPU_FEATURE_PAN2, ''pan2''),
     (CPU_FEATURE_RAS, ''ras''),
     (CPU_FEATURE_SHA3, ''sha3''),
     (CPU_FEATURE_SHA512, ''sha512''),
     (CPU_FEATURE_SM3, ''sm3''),
     (CPU_FEATURE_SM4, ''sm4''),
     (CPU_FEATURE_SPE, ''spe''),
     (CPU_FEATURE_SVE, ''sve''),
     (CPU_FEATURE_TTCNP, ''ttcnp''),
     (CPU_FEATURE_UAO, ''uao''),
     (CPU_FEATURE_XNX, ''xnx''),
     (CPU_FEATURE_CCIDX, ''ccidx''),
     (CPU_FEATURE_CONSTPACFIELD, ''constpacfield''),
     (CPU_FEATURE_EPAC, ''epac''),
     (CPU_FEATURE_FCMA, ''fcma''),
     (CPU_FEATURE_FPAC, ''fpac''),
     (CPU_FEATURE_FPACCOMBINE, ''fpaccombine''),
     (CPU_FEATURE_JSCVT, ''jscvt''),
     (CPU_FEATURE_LRCPC, ''lrcpc''),
     (CPU_FEATURE_PACIMP, ''pacimp''),
     (CPU_FEATURE_PACQARMA3, ''pacqarma3''),
     (CPU_FEATURE_PACQARMA5, ''pacqarma5''),
     (CPU_FEATURE_PAUTH, ''pauth''),
     (CPU_FEATURE_SPEV1P1, ''spev1p1''),
     (CPU_FEATURE_AMUV1, ''amuv1''),
     (CPU_FEATURE_BBM, ''bbm''),
     (CPU_FEATURE_DIT, ''dit''),
     (CPU_FEATURE_DEBUGV8P4, ''debugv8p4''),
     (CPU_FEATURE_DOTPROD, ''dotprod''),
     (CPU_FEATURE_DOUBLEFAULT, ''doublefault''),
     (CPU_FEATURE_FHM, ''fhm''),
     (CPU_FEATURE_FLAGM, ''flagm''),
     (CPU_FEATURE_IDST, ''idst''),
     (CPU_FEATURE_LRCPC2, ''lrcpc2''),
     (CPU_FEATURE_LSE2, ''lse2''),
     (CPU_FEATURE_MPAM, ''mpam''),
     (CPU_FEATURE_PMUV3P4, ''pmuv3p4''),
     (CPU_FEATURE_RASV1P1, ''rasv1p1''),
     (CPU_FEATURE_S2FWB, ''s2fwb''),
     (CPU_FEATURE_SEL2, ''sel2''),
     (CPU_FEATURE_TLBIOS, ''tlbios''),
     (CPU_FEATURE_TLBIRANGE, ''tlbirange''),
     (CPU_FEATURE_TRF, ''trf''),
     (CPU_FEATURE_TTL, ''ttl''),
     (CPU_FEATURE_TTST, ''ttst''),
     (CPU_FEATURE_BTI, ''bti''),
     (CPU_FEATURE_CSV2, ''csv2''),
     (CPU_FEATURE_CSV3, ''csv3''),
     (CPU_FEATURE_DPB2, ''dpb2''),
     (CPU_FEATURE_E0PD, ''e0pd''),
     (CPU_FEATURE_EVT, ''evt''),
     (CPU_FEATURE_EXS, ''exs''),
     (CPU_FEATURE_FRINTTS, ''frintts''),
     (CPU_FEATURE_FLAGM2, ''flagm2''),
     (CPU_FEATURE_MTE, ''mte''),
     (CPU_FEATURE_MTE2, ''mte2''),
     (CPU_FEATURE_PMUV3P5, ''pmuv3p5''),
     (CPU_FEATURE_RNG, ''rng''),
     (CPU_FEATURE_RNG_TRAP, ''rng_trap''),
     (CPU_FEATURE_SB, ''sb''),
     (CPU_FEATURE_SPECRES, ''specres''),
     (CPU_FEATURE_SSBS, ''ssbs''),
     (CPU_FEATURE_SSBS2, ''ssbs2''),
     (CPU_FEATURE_AA32BF16, ''aa32bf16''),
     (CPU_FEATURE_AMUV1P1, ''amuv1p1''),
     (CPU_FEATURE_BF16, ''bf16''),
     (CPU_FEATURE_DGH, ''dgh''),
     (CPU_FEATURE_ECV, ''ecv''),
     (CPU_FEATURE_FGT, ''fgt''),
     (CPU_FEATURE_HPMN0, ''hpmn0''),
     (CPU_FEATURE_MPAMV0P1, ''mpamv0p1''),
     (CPU_FEATURE_MPAMV1P1, ''mpamv1p1''),
     (CPU_FEATURE_MTPMU, ''mtpmu''),
     (CPU_FEATURE_PAUTH2, ''pauth2''),
     (CPU_FEATURE_TWED, ''twed''),
     (CPU_FEATURE_AFP, ''afp''),
     (CPU_FEATURE_EBF16, ''ebf16''),
     (CPU_FEATURE_HCX, ''hcx''),
     (CPU_FEATURE_LPA2, ''lpa2''),
     (CPU_FEATURE_LS64, ''ls64''),
     (CPU_FEATURE_LS64_ACCDATA, ''ls64_accdata''),
     (CPU_FEATURE_LS64_V, ''ls64_v''),
     (CPU_FEATURE_MTE3, ''mte3''),
     (CPU_FEATURE_MTE_ASYM_FAULT, ''mte_asym_fault''),
     (CPU_FEATURE_PAN3, ''pan3''),
     (CPU_FEATURE_PMUV3P7, ''pmuv3p7''),
     (CPU_FEATURE_RPRES, ''rpres''),
     (CPU_FEATURE_SPEV1P2, ''spev1p2''),
     (CPU_FEATURE_WFXT, ''wfxt''),
     (CPU_FEATURE_XS, ''xs''),
     (CPU_FEATURE_CMOW, ''cmow''),
     (CPU_FEATURE_DEBUGV8P8, ''debugv8p8'')]"

definition feature_names_3 :: "(cpu_feature_t \<times> string) list" where
  "feature_names_3 = [
     (CPU_FEATURE_HBC, ''hbc''),
     (CPU_FEATURE_MOPS, ''mops''),
     (CPU_FEATURE_NMI, ''nmi''),
     (CPU_FEATURE_PMUV3P8, ''pmuv3p8''),
     (CPU_FEATURE_SCTLR2, ''sctlr2''),
     (CPU_FEATURE_SPEV1P3, ''spev1p3''),
     (CPU_FEATURE_TCR2, ''tcr2''),
     (CPU_FEATURE_TIDCP1, ''tidcp1''),
     (CPU_FEATURE_ADERR, ''aderr''),
     (CPU_FEATURE_AIE, ''aie''),
     (CPU_FEATURE_ANERR, ''anerr''),
     (CPU_FEATURE_ATS1A, ''ats1a''),
     (CPU_FEATURE_CLRBHB, ''clrbhb''),
     (CPU_FEATURE_CSSC, ''cssc''),
     (CPU_FEATURE_DEBUGV8P9, ''debugv8p9''),
     (CPU_FEATURE_DOUBLEFAULT2, ''doublefault2''),
     (CPU_FEATURE_ECBHB, ''ecbhb''),
     (CPU_FEATURE_FGT2, ''fgt2''),
     (CPU_FEATURE_HAFT, ''haft''),
     (CPU_FEATURE_LRCPC3, ''lrcpc3''),
     (CPU_FEATURE_MTE4, ''mte4''),
     (CPU_FEATURE_MTE_ASYNC, ''mte_async''),
     (CPU_FEATURE_MTE_CANONICAL_TAGS, ''mte_canonical_tags''),
     (CPU_FEATURE_MTE_NO_ADDRESS_TAGS, ''mte_no_address_tags''),
     (CPU_FEATURE_MTE_PERM, ''mte_perm''),
     (CPU_FEATURE_MTE_STORE_ONLY, ''mte_store_only''),
     (CPU_FEATURE_MTE_TAGGED_FAR, ''mte_tagged_far''),
     (CPU_FEATURE_PFAR, ''pfar''),
     (CPU_FEATURE_PMUV3_ICNTR, ''pmuv3_icntr''),
     (CPU_FEATURE_PMUV3_SS, ''pmuv3_ss''),
     (CPU_FEATURE_PMUV3P9, ''pmuv3p9''),
     (CPU_FEATURE_PRFMSLC, ''prfmslc''),
     (CPU_FEATURE_RASV2, ''rasv2''),
     (CPU_FEATURE_RPRFM, ''rprfm''),
     (CPU_FEATURE_S1PIE, ''s1pie''),
     (CPU_FEATURE_S1POE, ''s1poe''),
     (CPU_FEATURE_S2PIE, ''s2pie''),
     (CPU_FEATURE_S2POE, ''s2poe''),
     (CPU_FEATURE_SPECRES2, ''specres2''),
     (CPU_FEATURE_SPE_DPFZS, ''spe_dpfzs''),
     (CPU_FEATURE_SPEV1P4, ''spev1p4''),
     (CPU_FEATURE_SPMU, ''spmu''),
     (CPU_FEATURE_THE, ''the''),
     (CPU_FEATURE_SVE2, ''sve2''),
     (CPU_FEATURE_SVE_AES, ''sve_aes''),
     (CPU_FEATURE_SVE_BITPERM, ''sve_bitperm''),
     (CPU_FEATURE_SVE_PMULL128, ''sve_pmull128''),
     (CPU_FEATURE_SVE_SHA3, ''sve_sha3''),
     (CPU_FEATURE_SVE_SM4, ''sve_sm4''),
     (CPU_FEATURE_TME, ''tme''),
     (CPU_FEATURE_TRBE, ''trbe''),
     (CPU_FEATURE_BRBE, ''brbe''),
     (CPU_FEATURE_RME, ''rme''),
     (CPU_FEATURE_SME, ''sme''),
     (CPU_FEATURE_SME_F64F64, ''sme_f64f64''),
     (CPU_FEATURE_SME_FA64, ''sme_fa64''),
     (CPU_FEATURE_SME_I16I64, ''sme_i16i64''),
     (CPU_FEATURE_BRBEV1P1, ''brbev1p1''),
     (CPU_FEATURE_MEC, ''mec''),
     (CPU_FEATURE_SME2, ''sme2''),
     (CPU_FEATURE_ABLE, ''able''),
     (CPU_FEATURE_BWE, ''bwe''),
     (CPU_FEATURE_D128, ''d128''),
     (CPU_FEATURE_EBEP, ''ebep''),
     (CPU_FEATURE_GCS, ''gcs''),
     (CPU_FEATURE_ITE, ''ite''),
     (CPU_FEATURE_LSE128, ''lse128''),
     (CPU_FEATURE_LVA3, ''lva3''),
     (CPU_FEATURE_SEBEP, ''sebep''),
     (CPU_FEATURE_SME2P1, ''sme2p1''),
     (CPU_FEATURE_SME_F16F16, ''sme_f16f16''),
     (CPU_FEATURE_SVE2P1, ''sve2p1''),
     (CPU_FEATURE_SVE_B16B16, ''sve_b16b16''),
     (CPU_FEATURE_SYSINSTR128, ''sysinstr128''),
     (CPU_FEATURE_SYSREG128, ''sysreg128''),
     (CPU_FEATURE_TRBE_EXT, ''trbe_ext''),
     (CPU_FEATURE_ASID2, ''asid2''),
     (CPU_FEATURE_BWE2, ''bwe2''),
     (CPU_FEATURE_CPA, ''cpa''),
     (CPU_FEATURE_CPA2, ''cpa2''),
     (CPU_FEATURE_E2H0, ''e2h0''),
     (CPU_FEATURE_E3DSE, ''e3dse''),
     (CPU_FEATURE_ETS3, ''ets3''),
     (CPU_FEATURE_FAMINMAX, ''faminmax''),
     (CPU_FEATURE_FGWTE3, ''fgwte3''),
     (CPU_FEATURE_FP8, ''fp8''),
     (CPU_FEATURE_FP8DOT2, ''fp8dot2''),
     (CPU_FEATURE_FP8DOT4, ''fp8dot4''),
     (CPU_FEATURE_FP8FMA, ''fp8fma''),
     (CPU_FEATURE_FPMR, ''fpmr''),
     (CPU_FEATURE_HACDBS, ''hacdbs''),
     (CPU_FEATURE_HDBSS, ''hdbss''),
     (CPU_FEATURE_LUT, ''lut''),
     (CPU_FEATURE_PAUTH_LR, ''pauth_lr''),
     (CPU_FEATURE_RME_GPC2, ''rme_gpc2''),
     (CPU_FEATURE_SME_F8F16, ''sme_f8f16''),
     (CPU_FEATURE_SME_F8F32, ''sme_f8f32''),
     (CPU_FEATURE_SME_LUTV2, ''sme_lutv2''),
     (CPU_FEATURE_SPMU2, ''spmu2''),
     (CPU_FEATURE_SSVE_FP8DOT2, ''ssve_fp8dot2''),
     (CPU_FEATURE_SSVE_FP8DOT4, ''ssve_fp8dot4''),
     (CPU_FEATURE_SSVE_FP8FMA, ''ssve_fp8fma''),
     (CPU_FEATURE_STEP2, ''step2''),
     (CPU_FEATURE_TLBIW, ''tlbiw'')]"

definition feature_names :: "(cpu_feature_t \<times> string) list" where
  "feature_names = feature_names_1 @ feature_names_2 @ feature_names_3"

definition cpu_feature_str :: "cpu_feature_t \<Rightarrow> string" where
  "cpu_feature_str f = code_str feature_names [] f"

section \<open>Deciding that a table of strings has no duplicates\<close>

text \<open>
  A quadratic comparison is too slow for the feature table, so its names go into a trie, and
  an insertion fails on a name that is already there.
\<close>

datatype trie = Trie bool "(char \<times> trie) list"

fun trie_add :: "string \<Rightarrow> trie \<Rightarrow> trie option"
  and kids_add :: "char \<Rightarrow> string \<Rightarrow> (char \<times> trie) list \<Rightarrow> (char \<times> trie) list option" where
  "trie_add [] (Trie b ts) = (if b then None else Some (Trie True ts))"
| "trie_add (c # cs) (Trie b ts) = map_option (Trie b) (kids_add c cs ts)"
| "kids_add c cs [] = map_option (\<lambda>t. [(c, t)]) (trie_add cs (Trie False []))"
| "kids_add c cs ((d, t) # ts) =
     (if c = d then map_option (\<lambda>t'. (d, t') # ts) (trie_add cs t)
      else map_option ((#) (d, t)) (kids_add c cs ts))"

fun trie_mem :: "string \<Rightarrow> trie \<Rightarrow> bool"
  and kids_mem :: "char \<Rightarrow> string \<Rightarrow> (char \<times> trie) list \<Rightarrow> bool" where
  "trie_mem [] (Trie b ts) = b"
| "trie_mem (c # cs) (Trie b ts) = kids_mem c cs ts"
| "kids_mem c cs [] = False"
| "kids_mem c cs ((d, t) # ts) = (if c = d then trie_mem cs t else kids_mem c cs ts)"

lemma trie_mem_empty [simp]: "\<not> trie_mem s (Trie False [])"
  by (cases s) auto

lemma trie_add_mem:
  "trie_add s t = Some t' \<Longrightarrow> trie_mem u t' \<longleftrightarrow> u = s \<or> trie_mem u t"
  "kids_add c s ts = Some ts' \<Longrightarrow> kids_mem d u ts' \<longleftrightarrow> (d = c \<and> u = s) \<or> kids_mem d u ts"
proof (induction s t and c s ts arbitrary: u t' and u d ts' rule: trie_add_kids_add.induct)
  case (1 b ts)
  then show ?case by (cases u) (auto split: if_splits)
next
  case (2 c cs b ts)
  then show ?case by (cases u) auto
next
  case (3 c cs)
  then show ?case by (auto split: if_splits)
next
  case (4 c cs d' t ts)
  then show ?case by (auto split: if_splits)
qed

lemma trie_add_None:
  "trie_add s t = None \<longleftrightarrow> trie_mem s t"
  "kids_add c s ts = None \<longleftrightarrow> kids_mem c s ts"
  by (induction s t and c s ts rule: trie_add_kids_add.induct) auto

lemma trie_add_fresh: "trie_add s t = Some t' \<Longrightarrow> \<not> trie_mem s t"
  by (metis option.simps(3) trie_add_None(1))

fun trie_distinct :: "trie \<Rightarrow> string list \<Rightarrow> bool" where
  "trie_distinct t [] = True"
| "trie_distinct t (s # ss) =
     (case trie_add s t of None \<Rightarrow> False | Some t' \<Rightarrow> trie_distinct t' ss)"

lemma trie_distinct_iff:
  "trie_distinct t ss \<longleftrightarrow> distinct ss \<and> (\<forall>s \<in> set ss. \<not> trie_mem s t)"
  by (induction t ss rule: trie_distinct.induct)
    (auto split: option.splits simp: trie_add_None trie_add_mem(1) dest: trie_add_fresh)

lemma distinct_strings: "trie_distinct (Trie False []) ss \<Longrightarrow> distinct ss"
  by (simp add: trie_distinct_iff)

section \<open>The tables meet the contract\<close>

interpretation arch_tab: code_table architecture_names "[]"
  by unfold_locales (simp_all add: architecture_names_def)

interpretation level_tab: code_table feature_level_names "[]"
  by unfold_locales (simp_all add: feature_level_names_def)

interpretation purpose_tab: code_table purpose_names "[]"
  by unfold_locales (simp_all add: purpose_names_def)

interpretation error_tab: code_table error_names "''Unknown error''"
  by unfold_locales (simp_all add: error_names_def)

lemmas feature_names_all =
  feature_names_def feature_names_1_def feature_names_2_def feature_names_3_def

lemma feature_names_sorted: "sort (map fst feature_names) = 0 # 1 # [2..<NUM_CPU_FEATURES]"
  by (simp add: feature_names_all)

lemma feature_names_keys: "fst ` set feature_names = {0..<NUM_CPU_FEATURES}"
proof -
  have "fst ` set feature_names = set (sort (map fst feature_names))" by simp
  also have "\<dots> = {0..<NUM_CPU_FEATURES}"
    unfolding feature_names_sorted by (auto simp del: upt_rec_numeral)
  finally show ?thesis .
qed

interpretation feature_tab: code_table feature_names "[]"
proof unfold_locales
  have "distinct (sort (map fst feature_names))"
    unfolding feature_names_sorted by (simp del: upt_rec_numeral)
  then show "distinct (map fst feature_names)" by simp
  show "distinct (map snd feature_names)"
    by (rule distinct_strings) code_simp
  show "[] \<notin> set (map snd feature_names)"
    by (simp add: feature_names_all)
qed

section \<open>The naming functions\<close>

lemma architecture_names_total: "a \<in> fst ` set architecture_names"
  by (cases a) (simp_all add: architecture_names_def)

lemma feature_level_names_total: "l \<in> fst ` set feature_level_names"
  by (cases l) (simp_all add: feature_level_names_def)

lemma purpose_names_total: "p \<in> fst ` set purpose_names"
  by (cases p) (simp_all add: purpose_names_def)

lemma error_names_total: "e \<in> fst ` set error_names"
  by (cases e) (simp_all add: error_names_def)

text \<open>
  \<^verbatim>\<open>cpu_feature_str\<close> gives every feature identifier a name of its own, and returns the
  empty string exactly for a number that is no identifier: the table is complete and has no
  duplicate, in spite of its 364 rows not being in the order of the enum.
\<close>

theorem cpu_feature_str_inj:
  "inj_on cpu_feature_str {0..<NUM_CPU_FEATURES} \<and>
   (\<forall>f. cpu_feature_str f = [] \<longleftrightarrow> NUM_CPU_FEATURES \<le> f)"
proof
  show "inj_on cpu_feature_str {0..<NUM_CPU_FEATURES}"
    unfolding cpu_feature_str_def
    by (intro inj_onI) (rule feature_tab.lookup_inj, simp_all only: feature_names_keys)
  show "\<forall>f. cpu_feature_str f = [] \<longleftrightarrow> NUM_CPU_FEATURES \<le> f"
    by (simp add: cpu_feature_str_def feature_tab.lookup_eq_dflt feature_names_keys not_less)
qed

text \<open>
  the other naming functions are injective and never fall through to their default:
  every architecture, feature level, purpose and error code has a row in its table, and no two
  of them share a text.
\<close>

theorem enum_names_inj:
  "inj cpu_architecture_str \<and> inj cpu_feature_level_str \<and> inj cpu_purpose_str \<and>
   inj cpuid_error \<and>
   (\<forall>a. cpu_architecture_str a \<noteq> []) \<and> (\<forall>l. cpu_feature_level_str l \<noteq> []) \<and>
   (\<forall>p. cpu_purpose_str p \<noteq> []) \<and> (\<forall>e. cpuid_error e \<noteq> ''Unknown error'')"
proof (intro conjI)
  show "inj cpu_architecture_str"
    unfolding cpu_architecture_str_def
    by (intro injI arch_tab.lookup_inj) (rule architecture_names_total)
  show "inj cpu_feature_level_str"
    unfolding cpu_feature_level_str_def
    by (intro injI level_tab.lookup_inj) (rule feature_level_names_total)
  show "inj cpu_purpose_str"
    unfolding cpu_purpose_str_def
    by (intro injI purpose_tab.lookup_inj) (rule purpose_names_total)
  show "inj cpuid_error"
    unfolding cpuid_error_def
    by (intro injI error_tab.lookup_inj) (rule error_names_total)
qed (simp_all only: cpu_architecture_str_def cpu_feature_level_str_def cpu_purpose_str_def
    cpuid_error_def arch_tab.lookup_eq_dflt level_tab.lookup_eq_dflt
    purpose_tab.lookup_eq_dflt error_tab.lookup_eq_dflt architecture_names_total
    feature_level_names_total purpose_names_total error_names_total not_not simp_thms)

end
