(* ===== verification/Pattern_Match.thy ===== *)
theory Pattern_Match
  imports Prelude
begin

text \<open>
  The brand-string patterns of the match tables (\<^verbatim>\<open>xmatch_entry\<close> and \<^verbatim>\<open>match_pattern\<close> of
  \<^verbatim>\<open>libcpuid_util.c\<close>). A pattern is a string with the metacharacters \<open>.\<close> (any character),
  \<open>#\<close> (a digit) and \<open>[...]\<close> (one of the characters listed). The specification parses a pattern
  into tokens, one for each character of the match; the code never builds them.
\<close>

section \<open>The code\<close>

text \<open>The scan for the closing bracket, \<^verbatim>\<open>while (p[j] && p[j] != ']') j++\<close>.\<close>

function bracket_end :: "string \<Rightarrow> nat \<Rightarrow> nat" where
  "bracket_end p j =
     (if c_at p j \<noteq> NUL \<and> c_at p j \<noteq> CHR '']'' then bracket_end p (Suc j) else j)"
  by pat_completeness auto
termination
  by (relation "measure (\<lambda>(p, j). length p - j)") (auto simp: c_at_def split: if_splits)

declare bracket_end.simps [simp del]

text \<open>
  How far one pattern element at the head of \<open>p\<close> that matches the character \<open>c\<close> reaches, or
  \<^const>\<open>None\<close> for the result -1.
\<close>

definition xmatch_entry :: "char \<Rightarrow> string \<Rightarrow> nat option" where
  "xmatch_entry c p =
     (if c = NUL then None
      else if c_tolower c = c_tolower (c_at p 0) then Some 1
      else if c_at p 0 = CHR ''.'' then Some 1
      else if c_at p 0 = CHR ''#'' \<and> c_isdigit c then Some 1
      else if c_at p 0 = CHR ''['' then
        (let j = bracket_end p 1 in
          if c_at p j = NUL then None
          else if list_ex (\<lambda>i. c_tolower (c_at p i) = c_tolower c) [1..<j] then Some (j + 1)
          else None)
      else None)"

lemma xmatch_entry_pos: "xmatch_entry c p = Some d \<Longrightarrow> 0 < d"
  by (auto simp: xmatch_entry_def Let_def split: if_splits)

text \<open>
  The inner loop of \<^verbatim>\<open>match_pattern\<close>: from position \<open>pos\<close> of \<open>s\<close> and \<open>j\<close> of \<open>p\<close>, the value of
  \<open>j\<close> where it stops.
\<close>

function match_here :: "string \<Rightarrow> string \<Rightarrow> nat \<Rightarrow> nat \<Rightarrow> nat" where
  "match_here s p pos j =
     (if j < length p then
        (case xmatch_entry (c_at s pos) (drop j p) of
           None \<Rightarrow> j
         | Some dj \<Rightarrow> match_here s p (Suc pos) (j + dj))
      else j)"
  by pat_completeness auto
termination
  by (relation "measure (\<lambda>(s, p, pos, j). length p - j)") (auto dest: xmatch_entry_pos)

declare match_here.simps [simp del]

function match_from :: "string \<Rightarrow> string \<Rightarrow> nat \<Rightarrow> nat" where
  "match_from s p i =
     (if i < length s then
        (if xmatch_entry (c_at s i) p \<noteq> None \<and> match_here s p i 0 = length p then i + 1
         else match_from s p (Suc i))
      else 0)"
  by pat_completeness auto
termination
  by (relation "measure (\<lambda>(s, p, i). length s - i)") auto

declare match_from.simps [simp del]

definition match_pattern :: "string \<Rightarrow> string \<Rightarrow> nat" where
  "match_pattern s p = match_from s p 0"

section \<open>Patterns as token lists\<close>

datatype ptoken = PChar char | PAny | PDigit | PSet string

fun token_ok :: "ptoken \<Rightarrow> char \<Rightarrow> bool" where
  "token_ok (PChar p) c \<longleftrightarrow> c_tolower c = c_tolower p"
| "token_ok PAny c \<longleftrightarrow> True"
| "token_ok PDigit c \<longleftrightarrow> c_isdigit c \<or> c = CHR ''#''"
| "token_ok (PSet cs) c \<longleftrightarrow> list_ex (\<lambda>x. c_tolower x = c_tolower c) cs"

text \<open>The tokens of a pattern; \<^const>\<open>None\<close> for a bracket that is never closed.\<close>

fun split_bracket :: "string \<Rightarrow> (string \<times> string) option" where
  "split_bracket [] = None"
| "split_bracket (c # cs) =
     (if c = CHR '']'' then Some ([], cs)
      else map_option (\<lambda>(a, b). (c # a, b)) (split_bracket cs))"

lemma split_bracket_Some:
  "split_bracket cs = Some (a, b) \<Longrightarrow> cs = a @ CHR '']'' # b \<and> CHR '']'' \<notin> set a"
  by (induction cs arbitrary: a) (auto split: if_splits)

lemma split_bracket_None: "split_bracket cs = None \<longleftrightarrow> CHR '']'' \<notin> set cs"
  by (induction cs) auto

function parse_pattern :: "string \<Rightarrow> ptoken list option" where
  "parse_pattern [] = Some []"
| "parse_pattern (c # cs) =
     (if c = CHR ''.'' then map_option ((#) PAny) (parse_pattern cs)
      else if c = CHR ''#'' then map_option ((#) PDigit) (parse_pattern cs)
      else if c = CHR ''['' then
        (case split_bracket cs of
           None \<Rightarrow> None
         | Some (a, b) \<Rightarrow> map_option ((#) (PSet a)) (parse_pattern b))
      else map_option ((#) (PChar c)) (parse_pattern cs))"
  by pat_completeness auto
termination
  by (relation "measure length") (auto dest!: split_bracket_Some)

text \<open>A token list matches a string from its beginning on.\<close>

fun tokens_match :: "ptoken list \<Rightarrow> string \<Rightarrow> bool" where
  "tokens_match [] s = True"
| "tokens_match (t # ts) [] = False"
| "tokens_match (t # ts) (c # cs) = (token_ok t c \<and> tokens_match ts cs)"

lemma tokens_match_iff:
  "tokens_match ts s \<longleftrightarrow>
     length ts \<le> length s \<and> list_all2 token_ok ts (take (length ts) s)"
  by (induction ts s rule: tokens_match.induct) auto

section \<open>The code follows the tokens\<close>

lemma bracket_end_split:
  assumes "split_bracket cs = Some (a, b)" and "NUL \<notin> set cs"
  shows "bracket_end (pre @ cs) (length pre) = length pre + length a"
  using assms
proof (induction cs arbitrary: pre a)
  case Nil
  then show ?case by simp
next
  case (Cons c cs)
  show ?case
  proof (cases "c = CHR '']''")
    case True
    with Cons.prems show ?thesis
      by (subst bracket_end.simps) (simp add: c_at_def)
  next
    case False
    with Cons.prems obtain a' where a': "split_bracket cs = Some (a', b)" "a = c # a'"
      by auto
    from Cons.IH [of a' "pre @ [c]"] a' Cons.prems False show ?thesis
      by (subst bracket_end.simps) (auto simp: c_at_def)
  qed
qed

lemma bracket_end_unclosed:
  assumes "CHR '']'' \<notin> set (drop j p)" and "j \<le> length p"
  shows "c_at p (bracket_end p j) = NUL"
  using assms
proof (induction p j rule: bracket_end.induct)
  case (1 p j)
  show ?case
  proof (cases "j < length p \<and> p ! j \<noteq> NUL")
    case True
    then have "p ! j \<in> set (drop j p)"
      by (simp add: Cons_nth_drop_Suc [symmetric])
    with 1(2) have "p ! j \<noteq> CHR '']''" by metis
    moreover from 1(2) have "CHR '']'' \<notin> set (drop (Suc j) p)"
      using set_drop_subset_set_drop [of j "Suc j" p] by auto
    ultimately show ?thesis
      using 1 True by (subst bracket_end.simps) (simp add: c_at_def)
  next
    case False
    then have "c_at p j = NUL" by (simp add: c_at_def)
    then show ?thesis by (subst bracket_end.simps) simp
  qed
qed

lemma c_tolower_NUL [simp]: "c_tolower NUL = NUL"
  by (simp add: c_tolower_def)

lemma c_tolower_eq_fixed:
  assumes "c_tolower d = d" and "\<not> (97 \<le> (of_char d :: nat) \<and> (of_char d :: nat) \<le> 122)"
  shows "c_tolower c = d \<longleftrightarrow> c = d"
proof
  assume eq: "c_tolower c = d"
  show "c = d"
  proof (cases "65 \<le> (of_char c :: nat) \<and> (of_char c :: nat) \<le> 90")
    case True
    with eq have "d = char_of ((of_char c :: nat) + 32)" by (simp add: c_tolower_def)
    then have "(of_char d :: nat) = (of_char c + 32) mod 256" by simp
    with True assms(2) show ?thesis by simp
  qed (use eq in \<open>auto simp: c_tolower_def split: if_splits\<close>)
qed (use assms in simp)

lemma c_tolower_meta [simp]:
  "c_tolower (CHR ''['') = CHR ''[''" "c_tolower (CHR ''.'') = CHR ''.''"
  "c_tolower (CHR ''#'') = CHR ''#''"
  by (simp_all add: c_tolower_def)

lemma c_tolower_eq_meta [simp]:
  "c_tolower c = CHR ''['' \<longleftrightarrow> c = CHR ''[''"
  "c_tolower c = CHR ''.'' \<longleftrightarrow> c = CHR ''.''"
  "c_tolower c = CHR ''#'' \<longleftrightarrow> c = CHR ''#''"
  "c_tolower c = NUL \<longleftrightarrow> c = NUL"
  by (rule c_tolower_eq_fixed; simp)+

lemma list_ex_bracket:
  "list_ex (\<lambda>i. P (c_at (x # a @ y) i)) [1..<Suc (length a)] \<longleftrightarrow> list_ex P a"
proof -
  have *: "set [1..<Suc (length a)] = Suc ` {0..<length a}"
    by (simp del: upt_Suc add: image_Suc_atLeastLessThan)
  have "c_at (x # a @ y) (Suc i) = a ! i" if "i < length a" for i
    using that by (simp add: c_at_def nth_append)
  then show ?thesis
    by (simp only: list_ex_iff * bex_simps) (auto simp: Bex_def in_set_conv_nth)
qed

text \<open>
  One step: on a character that is neither NUL nor \<open>[\<close>, \<^const>\<open>xmatch_entry\<close> succeeds exactly
  when the first token accepts the character, and it advances to the next token.
\<close>

lemma xmatch_entry_token:
  assumes "parse_pattern p = Some ts" and "p \<noteq> []" and "NUL \<notin> set p"
    and "c \<noteq> NUL" and "c \<noteq> CHR ''[''"
  obtains t ts' d where "ts = t # ts'" and "0 < d" and "d \<le> length p"
    and "parse_pattern (drop d p) = Some ts'"
    and "xmatch_entry c p = (if token_ok t c then Some d else None)"
proof -
  from assms(2) obtain x xs where p: "p = x # xs" by (cases p) auto
  show thesis
  proof (cases "x = CHR ''[''")
    case False
    then obtain t ts' where "ts = t # ts'" "parse_pattern xs = Some ts'"
      "xmatch_entry c p = (if token_ok t c then Some 1 else None)"
      using assms p by (auto simp: xmatch_entry_def c_at_def split: if_splits)
    with that [of t ts' 1] p show thesis by simp
  next
    case True
    with assms(1) p obtain a b ts' where split: "split_bracket xs = Some (a, b)"
      and ts: "ts = PSet a # ts'" "parse_pattern b = Some ts'"
      by (auto split: option.splits)
    from split_bracket_Some [OF split] have xs: "xs = a @ CHR '']'' # b" by simp
    have e: "bracket_end p 1 = Suc (length a)"
      using bracket_end_split [OF split, of "[x]"] assms(3) p by simp
    have "c_at p (Suc (length a)) = CHR '']''"
      using p xs by (simp add: c_at_def nth_append)
    moreover have "list_ex (\<lambda>i. c_tolower (c_at p i) = c_tolower c) [Suc 0..<Suc (length a)]
        \<longleftrightarrow> token_ok (PSet a) c"
      unfolding p xs token_ok.simps by (rule list_ex_bracket [unfolded One_nat_def])
    moreover have "c_at p 0 = CHR ''[''" using p True by (simp add: c_at_def)
    ultimately have "xmatch_entry c p =
        (if token_ok (PSet a) c then Some (length a + 2) else None)"
      using assms(4,5) by (simp add: xmatch_entry_def e [simplified] Let_def del: upt_Suc)
    with that [of "PSet a" ts' "length a + 2"] ts p xs show thesis by simp
  qed
qed

lemma match_here_stuck: "c_at s pos = NUL \<Longrightarrow> match_here s p pos j = j"
  by (subst match_here.simps) (simp add: xmatch_entry_def)

lemma match_here_tokens:
  assumes "parse_pattern (drop j p) = Some ts" and "j \<le> length p" and "NUL \<notin> set p"
    and "NUL \<notin> set s" and "CHR ''['' \<notin> set s"
  shows "match_here s p pos j = length p \<longleftrightarrow> tokens_match ts (drop pos s)"
  using assms(1,2)
proof (induction "length p - j" arbitrary: j pos ts rule: less_induct)
  case less
  consider "j = length p" | "j < length p" "length s \<le> pos" | "j < length p" "pos < length s"
    using less.prems by linarith
  then show ?case
  proof cases
    case 1
    with less.prems show ?thesis by (subst match_here.simps) simp
  next
    case 2
    then have "drop j p \<noteq> []" by simp
    with less.prems have "ts \<noteq> []"
      by (cases "drop j p") (auto split: if_splits option.splits)
    with 2 show ?thesis
      by (cases ts) (simp_all add: match_here_stuck c_at_def)
  next
    case 3
    let ?c = "s ! pos"
    have c: "?c \<noteq> NUL" "?c \<noteq> CHR ''[''"
      using assms(4,5) 3(2) nth_mem by metis+
    have ne: "drop j p \<noteq> []" and nn: "NUL \<notin> set (drop j p)"
      using 3 assms(3) by (auto dest: in_set_dropD)
    from xmatch_entry_token [OF less.prems(1) ne nn c]
    obtain t ts' d where t: "ts = t # ts'" "0 < d" "d \<le> length p - j"
      "parse_pattern (drop (d + j) p) = Some ts'"
      "xmatch_entry ?c (drop j p) = (if token_ok t ?c then Some d else None)"
      by auto
    have split: "drop pos s = ?c # drop (Suc pos) s"
      using 3 by (simp add: Cons_nth_drop_Suc)
    show ?thesis
    proof (cases "token_ok t ?c")
      case True
      have "match_here s p pos j = match_here s p (Suc pos) (j + d)"
        using 3 t True by (subst match_here.simps) (simp add: c_at_def)
      also have "\<dots> = length p \<longleftrightarrow> tokens_match ts' (drop (Suc pos) s)"
        using 3 t by (intro less.hyps) (auto simp: add.commute)
      finally show ?thesis using t True split by simp
    next
      case False
      then have "match_here s p pos j = j"
        using 3 t by (subst match_here.simps) (simp add: c_at_def)
      with 3 t False split show ?thesis by simp
    qed
  qed
qed

text \<open>\<^const>\<open>match_from\<close> finds the first position where the pattern matches.\<close>

lemma match_from_find:
  "match_from s p i =
     (case List.find (\<lambda>k. xmatch_entry (c_at s k) p \<noteq> None \<and> match_here s p k 0 = length p)
        [i..<length s] of None \<Rightarrow> 0 | Some k \<Rightarrow> Suc k)"
proof (induction s p i rule: match_from.induct)
  case (1 s p i)
  show ?case
  proof (cases "i < length s")
    case True
    then have "[i..<length s] = i # [Suc i..<length s]" by (simp add: upt_conv_Cons)
    with 1 True show ?thesis by (subst match_from.simps) simp
  next
    case False
    then show ?thesis by (subst match_from.simps) simp
  qed
qed

lemma match_here_head:
  "p \<noteq> [] \<Longrightarrow> match_here s p k 0 = length p \<Longrightarrow> xmatch_entry (c_at s k) p \<noteq> None"
  by (subst (asm) match_here.simps) (auto split: option.splits)

lemma match_pattern_find:
  assumes "parse_pattern p = Some ts" and "p \<noteq> []" and "NUL \<notin> set p"
    and "NUL \<notin> set s" and "CHR ''['' \<notin> set s"
  shows "match_pattern s p =
    (case List.find (\<lambda>i. tokens_match ts (drop i s)) [0..<length s] of
       None \<Rightarrow> 0 | Some i \<Rightarrow> Suc i)"
proof -
  have "xmatch_entry (c_at s k) p \<noteq> None \<and> match_here s p k 0 = length p \<longleftrightarrow>
      tokens_match ts (drop k s)" for k
    using match_here_tokens [of 0 p ts s k] match_here_head [of p s k] assms by auto
  then show ?thesis by (simp add: match_pattern_def match_from_find)
qed

text \<open>
  C31: on a haystack without an opening bracket, \<^verbatim>\<open>match_pattern\<close> returns one more than the
  first position where the tokens of the pattern match one character each, and 0 when there
  is none: the loops that walk the pattern text agree with the documented meaning of the
  metacharacters, never read past either terminating NUL, and terminate.
\<close>

theorem match_pattern_tokens:
  assumes "parse_pattern p = Some ts" and "p \<noteq> []" and "NUL \<notin> set p"
    and "NUL \<notin> set s" and "CHR ''['' \<notin> set s"
  shows "match_pattern s p =
    (case List.find (\<lambda>i. tokens_match ts (drop i s)) [0..<length s] of
       None \<Rightarrow> 0 | Some i \<Rightarrow> Suc i)"
  using assms by (rule match_pattern_find)

theorem match_pattern_tokens_witness:
  "match_pattern ''Core i7-8550U'' ''[ei]#.8'' = 6"
  using match_pattern_tokens [of "''[ei]#.8''" "[PSet ''ei'', PDigit, PAny, PChar (CHR ''8'')]"
      "''Core i7-8550U''"]
  by (simp add: c_tolower_def c_isdigit_def upt_rec)

text \<open>Whether the tokens match somewhere.\<close>

fun found_at :: "ptoken list \<Rightarrow> string \<Rightarrow> bool" where
  "found_at ts [] \<longleftrightarrow> False"
| "found_at ts (c # cs) \<longleftrightarrow> tokens_match ts (c # cs) \<or> found_at ts cs"

lemma found_at_drop: "found_at ts s \<longleftrightarrow> (\<exists>i < length s. tokens_match ts (drop i s))"
proof (induction s)
  case (Cons c cs)
  have "(\<exists>i < Suc (length cs). tokens_match ts (drop i (c # cs))) \<longleftrightarrow>
      tokens_match ts (c # cs) \<or> (\<exists>i < length cs. tokens_match ts (drop i cs))"
    by (auto simp: less_Suc_eq_0_disj)
  with Cons show ?case by simp
qed simp

lemma match_pattern_found:
  assumes "parse_pattern p = Some ts" and "p \<noteq> []" and "NUL \<notin> set p"
    and "NUL \<notin> set s" and "CHR ''['' \<notin> set s"
  shows "match_pattern s p \<noteq> 0 \<longleftrightarrow> found_at ts s"
  unfolding match_pattern_find [OF assms] found_at_drop
  by (auto split: option.split simp: find_None_iff find_Some_iff) 

text \<open>A pattern without metacharacters is searched for as a substring, ignoring case.\<close>

lemma parse_pattern_plain:
  "set p \<inter> {CHR ''.'', CHR ''#'', CHR ''[''} = {} \<Longrightarrow> parse_pattern p = Some (map PChar p)"
  by (induction p) auto

lemma tokens_match_plain:
  "tokens_match (map PChar p) s \<longleftrightarrow> c_prefix (map c_tolower p) (map c_tolower s)"
  by (induction "map PChar p" s arbitrary: p rule: tokens_match.induct) auto

lemma find_c_strstr:
  "p \<noteq> [] \<Longrightarrow> List.find (\<lambda>i. c_prefix p (drop i s)) [0..<length s] = c_strstr s p"
proof (induction s)
  case Nil
  then show ?case by simp
next
  case (Cons c cs)
  have "[0..<length (c # cs)] = 0 # map Suc [0..<length cs]"
    by (simp add: upt_conv_Cons map_Suc_upt del: upt_Suc)
  with Cons show ?case
    by (auto simp: find_map comp_def simp del: upt_Suc)
qed

text \<open>
  for a pattern without metacharacters \<^verbatim>\<open>match_pattern\<close> is a case-insensitive \<^verbatim>\<open>strstr\<close>.
\<close>

theorem match_pattern_plain:
  assumes "p \<noteq> []" and "set p \<inter> {NUL, CHR ''.'', CHR ''#'', CHR ''[''} = {}"
    and "NUL \<notin> set s" and "CHR ''['' \<notin> set s"
  shows "match_pattern s p =
    (case c_strstr (map c_tolower s) (map c_tolower p) of None \<Rightarrow> 0 | Some i \<Rightarrow> Suc i)"
proof -
  have "parse_pattern p = Some (map PChar p)"
    using assms(2) by (intro parse_pattern_plain) auto
  with assms have "match_pattern s p =
      (case List.find (\<lambda>i. tokens_match (map PChar p) (drop i s)) [0..<length s] of
         None \<Rightarrow> 0 | Some i \<Rightarrow> Suc i)"
    by (intro match_pattern_find) auto
  then show ?thesis
    using find_c_strstr [of "map c_tolower p" "map c_tolower s"] assms(1)
    by (simp add: tokens_match_plain drop_map)
qed

theorem match_pattern_plain_witness: "match_pattern ''AMD Ryzen 7'' ''RYZEN'' = 5"
proof -
  have "c_strstr (map c_tolower ''AMD Ryzen 7'') (map c_tolower ''RYZEN'') = Some 4"
    by code_simp
  then show ?thesis
    using match_pattern_plain [of "''RYZEN''" "''AMD Ryzen 7''"] by simp
qed

end
