(* ===== verification/String_Util.thy ===== *)
theory String_Util
  imports Prelude
begin

text \<open>
  The string helpers of \<^verbatim>\<open>libcpuid_util.c\<close> that clean the brand string before it is matched:
  \<^verbatim>\<open>remove_substring\<close> and \<^verbatim>\<open>collapse_spaces\<close>. The second works in place, with a read index
  ahead of a write index; it is modelled on the array and shown to compute the list function
  \<open>squeeze\<close>.
\<close>

section \<open>Removing a substring\<close>

definition remove_substring :: "string \<Rightarrow> string \<Rightarrow> string" where
  "remove_substring s sub =
     (case c_strstr s sub of
        None \<Rightarrow> s
      | Some pos \<Rightarrow> take pos s @ drop (pos + length sub) s)"

text \<open>
  \<^verbatim>\<open>remove_substring\<close> removes the first occurrence of the substring and nothing else, and
  leaves a string without an occurrence as it is.
\<close>

theorem remove_substring_first:
  "(remove_substring s sub = s \<and> (\<forall>u t. s \<noteq> u @ sub @ t)) \<or>
   (\<exists>u t. s = u @ sub @ t \<and> remove_substring s sub = u @ t \<and>
      \<not> (\<exists>j. j < length u \<and> c_prefix sub (drop j s)))"
proof (cases "c_strstr s sub")
  case None
  then have "remove_substring s sub = s" by (simp add: remove_substring_def)
  with None show ?thesis by (simp add: c_strstr_None)
next
  case (Some i)
  from c_strstr_Some [OF Some] obtain t where t: "s = take i s @ sub @ t"
    and le: "i + length sub \<le> length s" by blast
  define u where "u = take i s"
  have s: "s = u @ sub @ t" and i: "i = length u" using t le by (simp_all add: u_def)
  have "remove_substring s sub = u @ t"
    using Some by (simp add: remove_substring_def) (simp add: s i)
  moreover have "\<not> (\<exists>j. j < length u \<and> c_prefix sub (drop j s))"
    using c_strstr_first [OF Some] i by auto
  ultimately show ?thesis using s by blast
qed

lemma length_remove_substring: "length (remove_substring s sub) \<le> length s"
  by (auto simp: remove_substring_def split: option.splits dest: c_strstr_Some(2))

lemma set_remove_substring: "set (remove_substring s sub) \<subseteq> set s"
  by (auto simp: remove_substring_def split: option.splits dest: in_set_takeD in_set_dropD)

section \<open>Collapsing white space\<close>

text \<open>
  The loop of \<^verbatim>\<open>collapse_spaces\<close> on the character array \<open>buf\<close>: it returns the array and the final
  write index \<open>j\<close>. The array has \<^verbatim>\<open>len\<close> characters and the NUL.
\<close>

function collapse_loop :: "nat \<Rightarrow> string \<Rightarrow> nat \<Rightarrow> nat \<Rightarrow> bool \<Rightarrow> string \<times> nat" where
  "collapse_loop len buf i j in_space =
     (if i < len then
        (if c_isspace (buf ! i) then
           (if \<not> in_space then collapse_loop len (buf[j := CHR '' '']) (Suc i) (Suc j) True
            else collapse_loop len buf (Suc i) j in_space)
         else collapse_loop len (buf[j := buf ! i]) (Suc i) (Suc j) False)
      else (buf, j))"
  by pat_completeness auto
termination
  by (relation "measure (\<lambda>(len, buf, i, j, sp). len - i)") auto

declare collapse_loop.simps [simp del]

definition collapse_spaces :: "string \<Rightarrow> string" where
  "collapse_spaces s =
     (let (buf, j) = collapse_loop (length s) (s @ [NUL]) 0 0 False
      in takeWhile (\<lambda>c. c \<noteq> NUL) (buf[j := NUL]))"

text \<open>The same as a list function: a run of white space becomes one blank.\<close>

fun squeeze :: "bool \<Rightarrow> string \<Rightarrow> string" where
  "squeeze in_space [] = []"
| "squeeze in_space (c # cs) =
     (if c_isspace c then (if in_space then squeeze True cs else CHR '' '' # squeeze True cs)
      else c # squeeze False cs)"

lemma collapse_loop_squeeze:
  assumes "j \<le> i" and "i \<le> len" and "length buf = Suc len"
    and "collapse_loop len buf i j sp = (buf', j')"
  shows "take j' buf' = take j buf @ squeeze sp (drop i (take len buf)) \<and>
    length buf' = Suc len \<and> j' \<le> len"
  using assms
proof (induction len buf i j sp rule: collapse_loop.induct)
  case (1 len buf i j sp)
  show ?case
  proof (cases "i < len")
    case False
    with "1.prems" show ?thesis by (simp add: collapse_loop.simps)
  next
    case True
    let ?rest = "drop (Suc i) (take len buf)"
    have split: "drop i (take len buf) = buf ! i # ?rest"
      using True "1.prems" by (simp add: Cons_nth_drop_Suc [symmetric])
    have upd: "take (Suc j) (buf[j := c]) = take j buf @ [c]" for c
      using True "1.prems" by (simp add: take_Suc_conv_app_nth)
    have rest: "drop (Suc i) (take len (buf[j := c])) = ?rest" for c
      using "1.prems" by (simp add: take_update_swap drop_update_cancel)
    show ?thesis
    proof (cases "c_isspace (buf ! i)")
      case space: True
      show ?thesis
      proof (cases sp)
        case sp: True
        have "collapse_loop len buf (Suc i) j sp = (buf', j')"
          using "1.prems"(4) True space sp by (simp add: collapse_loop.simps [of len buf i])
        with "1.IH"(2) [OF True space] "1.prems" True sp show ?thesis
          by (simp add: split space)
      next
        case sp: False
        have "collapse_loop len (buf[j := CHR '' '']) (Suc i) (Suc j) True = (buf', j')"
          using "1.prems"(4) True space sp by (simp add: collapse_loop.simps [of len buf i])
        with "1.IH"(1) [OF True space] "1.prems" True sp show ?thesis
          by (simp add: split space upd rest)
      qed
    next
      case nospace: False
      have "collapse_loop len (buf[j := buf ! i]) (Suc i) (Suc j) False = (buf', j')"
        using "1.prems"(4) True nospace by (simp add: collapse_loop.simps [of len buf i])
      with "1.IH"(3) [OF True nospace] "1.prems" True show ?thesis
        by (simp add: split nospace upd rest)
    qed
  qed
qed

lemma squeeze_NUL: "NUL \<notin> set s \<Longrightarrow> NUL \<notin> set (squeeze sp s)"
  by (induction sp s rule: squeeze.induct) auto

lemma takeWhile_terminated:
  assumes "j < length buf" and "NUL \<notin> set (take j buf)"
  shows "takeWhile (\<lambda>c. c \<noteq> NUL) (buf[j := NUL]) = take j buf"
proof -
  have "buf[j := NUL] = take j buf @ NUL # drop (Suc j) buf"
    using assms(1) by (rule upd_conv_take_nth_drop)
  moreover have "takeWhile (\<lambda>c. c \<noteq> NUL) (take j buf @ NUL # drop (Suc j) buf) =
      take j buf @ takeWhile (\<lambda>c. c \<noteq> NUL) (NUL # drop (Suc j) buf)"
    using assms(2) by (intro takeWhile_append2) auto
  ultimately show ?thesis by simp
qed

lemma collapse_squeeze:
  assumes "NUL \<notin> set s"
  shows "collapse_spaces s = squeeze False s"
proof -
  obtain buf j where loop: "collapse_loop (length s) (s @ [NUL]) 0 0 False = (buf, j)"
    by fastforce
  from collapse_loop_squeeze [OF _ _ _ loop]
  have "take j buf = squeeze False s" and "length buf = Suc (length s)" and "j \<le> length s"
    by simp_all
  then show ?thesis
    using squeeze_NUL [OF assms, of False]
    by (simp add: collapse_spaces_def loop takeWhile_terminated)
qed

text \<open>
  the in-place loop of \<^verbatim>\<open>collapse_spaces\<close> computes \<open>squeeze\<close>: its write index never
  overtakes its read index, so no character is overwritten before it is read, and the NUL it
  stores stays inside the array.
\<close>

theorem collapse_spaces_squeeze:
  assumes "NUL \<notin> set s"
  shows "collapse_spaces s = squeeze False s"
  using assms by (rule collapse_squeeze)

theorem collapse_spaces_squeeze_witness:
  "collapse_spaces ''  Intel   Core '' = '' Intel Core ''"
  using collapse_spaces_squeeze [of "''  Intel   Core ''"] by (simp add: c_isspace_def)

lemma c_isspace_blank [simp]: "c_isspace (CHR '' '')"
  by (simp add: c_isspace_def)

text \<open>White space that is left is a blank, and no two blanks are adjacent.\<close>

fun single_spaced :: "bool \<Rightarrow> string \<Rightarrow> bool" where
  "single_spaced in_space [] \<longleftrightarrow> True"
| "single_spaced in_space (c # cs) \<longleftrightarrow>
     (if c_isspace c then c = CHR '' '' \<and> \<not> in_space \<and> single_spaced True cs
      else single_spaced False cs)"

lemma squeeze_single_spaced: "single_spaced sp (squeeze sp s)"
  by (induction sp s rule: squeeze.induct) auto

lemma squeeze_id: "single_spaced sp s \<Longrightarrow> squeeze sp s = s"
  by (induction sp s rule: squeeze.induct) (auto split: if_splits)

lemma squeeze_nonspace: "filter (\<lambda>c. \<not> c_isspace c) (squeeze sp s) = filter (\<lambda>c. \<not> c_isspace c) s"
  by (induction sp s rule: squeeze.induct) auto

lemma length_squeeze: "length (squeeze sp s) \<le> length s"
  by (induction sp s rule: squeeze.induct) auto

text \<open>
  after \<^verbatim>\<open>collapse_spaces\<close> the string has no two adjacent white-space characters and no
  white space but blanks, keeps every other character in order, is not longer, and a second
  call changes nothing.
\<close>

theorem collapse_spaces_normal:
  assumes "NUL \<notin> set s"
  shows "single_spaced False (collapse_spaces s) \<and>
    filter (\<lambda>c. \<not> c_isspace c) (collapse_spaces s) = filter (\<lambda>c. \<not> c_isspace c) s \<and>
    length (collapse_spaces s) \<le> length s \<and>
    collapse_spaces (collapse_spaces s) = collapse_spaces s"
  using assms
  by (simp add: collapse_squeeze squeeze_NUL squeeze_single_spaced squeeze_nonspace
      length_squeeze squeeze_id)

theorem collapse_spaces_normal_witness:
  "collapse_spaces ''Xeon  E5'' = ''Xeon E5'' \<and>
   collapse_spaces (collapse_spaces ''Xeon  E5'') = ''Xeon E5''"
  using collapse_spaces_normal [of "''Xeon  E5''"] collapse_squeeze [of "''Xeon  E5''"]
  by (simp add: c_isspace_def)

end
