(* ===== verification/Codename_Match.thy ===== *)
theory Codename_Match
  imports Cpuid_Types Pattern_Match String_Util
begin

text \<open>
  How a processor is named (\<^verbatim>\<open>score\<close> and \<^verbatim>\<open>match_cpu_codename\<close> of \<^verbatim>\<open>libcpuid_util.c\<close>): every entry
  of a vendor's table gets a score from the family, model, stepping, core count, cache sizes
  and brand pattern that agree with the processor, and the first entry with the highest score
  gives the code name and the technology node.
\<close>

section \<open>The score of an entry\<close>

text \<open>The rows of the local \<^verbatim>\<open>array\<close>: what the entry asks, what the processor has, the weight.\<close>

definition score_rows :: "match_entry_t \<Rightarrow> cpu_id_t \<Rightarrow> (int \<times> int \<times> int) list" where
  "score_rows entry data = [
     (me_family entry, family (x86 data), 2),
     (me_model entry, model (x86 data), 2),
     (me_stepping entry, stepping (x86 data), 2),
     (me_ext_family entry, ext_family (x86 data), 2),
     (me_ext_model entry, ext_model (x86 data), 2),
     (me_ncores entry, num_cores data, 2),
     (me_l2cache entry, l2_cache data, 1),
     (me_l3cache entry, l3_cache data, 1)]"

fun score_loop :: "(int \<times> int \<times> int) list \<Rightarrow> int \<Rightarrow> int" where
  "score_loop [] res = res"
| "score_loop ((want, got, weight) # rows) res =
     score_loop rows (if want \<ge> 0 \<and> want = got then res + weight else res)"

text \<open>The brand string with its useless parts removed.\<close>

definition clean_brand :: "cpu_id_t \<Rightarrow> string" where
  "clean_brand data =
     collapse_spaces
       (remove_substring
         (remove_substring (c_strncpy BRAND_STR_MAX (brand_str data)) ''CPU'') ''Processor'')"

definition score :: "match_entry_t \<Rightarrow> cpu_id_t \<Rightarrow> int" where
  "score entry data =
     (let res = score_loop (score_rows entry data) 0
      in if me_score entry > 0 \<and> length (me_pattern entry) > 0 then
           (if match_pattern (clean_brand data) (me_pattern entry) \<noteq> 0
            then res + me_score entry else res)
         else res)"

lemma score_loop_bounds:
  assumes "\<forall>r \<in> set rows. 0 \<le> snd (snd r)"
  shows "res \<le> score_loop rows res \<and>
    score_loop rows res \<le> res + sum_list (map (\<lambda>r. snd (snd r)) rows)"
  using assms
proof (induction rows res rule: score_loop.induct)
  case (1 res)
  then show ?case by simp
next
  case (2 want got weight rows res)
  let ?res = "if 0 \<le> want \<and> want = got then res + weight else res"
  have "?res \<le> score_loop rows ?res \<and>
      score_loop rows ?res \<le> ?res + sum_list (map (\<lambda>r. snd (snd r)) rows)"
    using 2(2) by (intro 2(1)) simp
  moreover have "res \<le> ?res" and "?res \<le> res + weight"
    using 2(2) by auto
  ultimately show ?case by (simp only: score_loop.simps list.map sum_list.Cons snd_conv) linarith
qed

lemma score_rows_bounds:
  "0 \<le> score_loop (score_rows entry data) 0 \<and> score_loop (score_rows entry data) 0 \<le> 14"
  using score_loop_bounds [of "score_rows entry data" 0] by (simp add: score_rows_def)

text \<open>
  a score is never negative, and it is at most 14 for the numeric fields plus the brand
  score of the entry: no signed overflow, and every entry beats the initial best score of -1.
\<close>

theorem score_bounds: "0 \<le> score entry data \<and> score entry data \<le> 14 + max 0 (me_score entry)"
  using score_rows_bounds [of entry data] by (auto simp: score_def Let_def)

lemma score_le: "score entry data \<le> 14 + max 0 (me_score entry)"
  using score_rows_bounds [of entry data] by (auto simp: score_def Let_def)

lemma score_nonneg: "0 \<le> score entry data"
  using score_rows_bounds [of entry data] by (simp add: score_def Let_def)

text \<open>
  An entry that constrains nothing scores zero. These are the catch-all rows at the start of the
  tables.
\<close>

lemma score_loop_unconstrained:
  "(\<And>w h k. (w, h, k) \<in> set rows \<Longrightarrow> w < 0) \<Longrightarrow> score_loop rows res = res"
  by (induction rows res rule: score_loop.induct) force+

section \<open>The best entry\<close>

text \<open>The loop over the table, from entry \<open>i\<close> on, with the best score and index so far.\<close>

fun best_loop :: "cpu_id_t \<Rightarrow> match_entry_t list \<Rightarrow> nat \<Rightarrow> int \<Rightarrow> nat \<Rightarrow> int \<times> nat" where
  "best_loop data [] i bestscore bestindex = (bestscore, bestindex)"
| "best_loop data (e # es) i bestscore bestindex =
     (let t = score e data
      in if t > bestscore then best_loop data es (Suc i) t i
         else best_loop data es (Suc i) bestscore bestindex)"

text \<open>
  \<^verbatim>\<open>match_cpu_codename\<close> returns the score and the data; on an empty table the code would read
  \<^verbatim>\<open>matchtable[0]\<close>.
\<close>

definition match_cpu_codename :: "match_entry_t list \<Rightarrow> cpu_id_t \<Rightarrow> (int \<times> cpu_id_t) option" where
  "match_cpu_codename tab data =
     (let (bestscore, bestindex) = best_loop data tab 0 (- 1) 0
      in if bestindex < length tab then
           Some (bestscore,
             data\<lparr>cpu_codename := c_strncpy CODENAME_STR_MAX (me_name (tab ! bestindex)),
               technology_node := c_strncpy TECHNOLOGY_STR_MAX (me_technology (tab ! bestindex))\<rparr>)
         else None)"

text \<open>The entry at \<open>k\<close> is the first of the highest score.\<close>

definition first_best :: "cpu_id_t \<Rightarrow> match_entry_t list \<Rightarrow> nat \<Rightarrow> bool" where
  "first_best data tab k \<longleftrightarrow> k < length tab \<and>
     (\<forall>j < length tab. score (tab ! j) data \<le> score (tab ! k) data) \<and>
     (\<forall>j < k. score (tab ! j) data < score (tab ! k) data)"

lemma best_loop_first:
  assumes "best_loop data es (length pre) bs bi = (bs', bi')"
    and "bs = -1 \<and> pre = [] \<or> first_best data pre bi \<and> bs = score (pre ! bi) data"
    and "pre @ es \<noteq> []"
  shows "first_best data (pre @ es) bi' \<and> bs' = score ((pre @ es) ! bi') data"
  using assms
proof (induction es arbitrary: pre bs bi)
  case Nil
  then show ?case by simp
next
  case (Cons e es)
  let ?pre = "pre @ [e]"
  show ?case
  proof (cases "score e data > bs")
    case True
    have "first_best data ?pre (length pre)"
      using Cons.prems(2) True by (auto simp: first_best_def nth_append less_Suc_eq)
    with Cons.IH [of ?pre "score e data" "length pre"] Cons.prems(1) True show ?thesis
      by simp
  next
    case False
    with Cons.prems(2) score_nonneg [of e data] have *: "first_best data pre bi"
      "bs = score (pre ! bi) data" by auto
    with False have "first_best data ?pre bi"
      by (auto simp: first_best_def nth_append less_Suc_eq)
    moreover have "bs = score (?pre ! bi) data"
      using * by (auto simp: first_best_def nth_append)
    ultimately show ?thesis
      using Cons.IH [of ?pre bs bi] Cons.prems(1) False by simp
  qed
qed

lemma first_best_unique: "first_best data tab k \<Longrightarrow> first_best data tab k' \<Longrightarrow> k = k'"
  unfolding first_best_def by (metis linorder_neqE_nat not_less)

lemma match_cpu_codename_first:
  assumes "tab \<noteq> []"
  shows "\<exists>k. first_best data tab k \<and>
    match_cpu_codename tab data = Some (score (tab ! k) data,
      data\<lparr>cpu_codename := take CODENAME_STR_MAX (me_name (tab ! k)),
        technology_node := take TECHNOLOGY_STR_MAX (me_technology (tab ! k))\<rparr>)"
proof -
  obtain bs bi where loop: "best_loop data tab 0 (- 1) 0 = (bs, bi)" by fastforce
  from best_loop_first [of data tab "[]" "-1" 0 bs bi] loop assms
  have "first_best data tab bi" "bs = score (tab ! bi) data" by auto
  then show ?thesis
    by (intro exI [of _ bi]) (auto simp: match_cpu_codename_def loop c_strncpy_def first_best_def)
qed

lemma match_cpu_codename_total:
  assumes "tab \<noteq> []"
  obtains e s where "e \<in> set tab" and "s = score e data"
    and "match_cpu_codename tab data = Some (s,
      data\<lparr>cpu_codename := take CODENAME_STR_MAX (me_name e),
        technology_node := take TECHNOLOGY_STR_MAX (me_technology e)\<rparr>)"
proof -
  obtain bs bi where loop: "best_loop data tab 0 (- 1) 0 = (bs, bi)" by fastforce
  from best_loop_first [of data tab "[]" "-1" 0 bs bi] loop assms
  have "first_best data tab bi" "bs = score (tab ! bi) data" by auto
  then show thesis
    by (intro that [of "tab ! bi" bs])
      (auto simp: match_cpu_codename_def loop c_strncpy_def first_best_def)
qed

text \<open>
  C6: on a non-empty table \<^verbatim>\<open>match_cpu_codename\<close> selects the first entry with the highest
  score, returns that score and stores that entry's name and technology, truncated to their
  fields, and changes nothing else.
\<close>

theorem match_cpu_codename_best:
  assumes "tab \<noteq> []"
  shows "\<exists>k. first_best data tab k \<and>
    match_cpu_codename tab data = Some (score (tab ! k) data,
      data\<lparr>cpu_codename := take CODENAME_STR_MAX (me_name (tab ! k)),
        technology_node := take TECHNOLOGY_STR_MAX (me_technology (tab ! k))\<rparr>)"
  using assms by (rule match_cpu_codename_first)

end
