(* ===== verification/Cpu_Lists.thy ===== *)
theory Cpu_Lists
  imports Cpuid_Types
begin

text \<open>
  Lists of processor names (\<^verbatim>\<open>struct cpu_list_t\<close>): \<^verbatim>\<open>generic_get_cpu_list\<close> of \<^verbatim>\<open>libcpuid_util.c\<close>,
  which extracts the names of a match table, and \<^verbatim>\<open>make_list_from_string\<close> and
  \<^verbatim>\<open>cpuid_free_cpu_list\<close> of \<^verbatim>\<open>cpuid_main.c\<close>.

  Memory allocation is a parameter \<open>alloc\<close>: \<open>alloc n\<close> tells whether the \<open>n\<close>-th request of the
  call succeeds. The thread's \<^verbatim>\<open>_libcpuid_errno\<close> is threaded through; a NULL array is \<^const>\<open>None\<close>.
\<close>

record cpu_list_t =
  num_entries :: int
  names :: "string list option"

text \<open>The lists the code leaves behind: the array holds exactly \<^const>\<open>num_entries\<close> names.\<close>

definition wf_list :: "cpu_list_t \<Rightarrow> bool" where
  "wf_list l \<longleftrightarrow>
     (case names l of None \<Rightarrow> num_entries l = 0 | Some ns \<Rightarrow> num_entries l = int (length ns))"

section \<open>Names of a match table\<close>

text \<open>
  The loop: \<open>n\<close> requests made so far, \<open>acc\<close> the names stored so far. A failing \<^verbatim>\<open>strdup\<close> frees
  everything, which is the result \<^const>\<open>None\<close>.
\<close>

fun list_loop :: "(nat \<Rightarrow> bool) \<Rightarrow> match_entry_t list \<Rightarrow> string list \<Rightarrow> string list option" where
  "list_loop alloc [] acc = Some acc"
| "list_loop alloc (e # es) acc =
     (if c_strstr (me_name e) ''Unknown'' \<noteq> None then list_loop alloc es acc
      else if me_name e \<in> set acc then list_loop alloc es acc
      else if alloc (Suc (length acc)) then list_loop alloc es (acc @ [me_name e])
      else None)"

definition generic_get_cpu_list ::
    "(nat \<Rightarrow> bool) \<Rightarrow> match_entry_t list \<Rightarrow> cpu_error_t \<Rightarrow> cpu_list_t \<times> cpu_error_t" where
  "generic_get_cpu_list alloc tab errno =
     (if \<not> alloc 0 then (\<lparr>num_entries = 0, names = None\<rparr>, ERR_NO_MEM)
      else
        (case list_loop alloc tab [] of
           None \<Rightarrow> (\<lparr>num_entries = 0, names = None\<rparr>, ERR_NO_MEM)
         | Some ns \<Rightarrow> (\<lparr>num_entries = int (length ns), names = Some ns\<rparr>, errno)))"

text \<open>The distinct elements of a list, in the order of their first occurrences.\<close>

fun nub :: "'a list \<Rightarrow> 'a list" where
  "nub [] = []"
| "nub (x # xs) = x # filter (\<lambda>y. y \<noteq> x) (nub xs)"

lemma set_nub [simp]: "set (nub xs) = set xs"
  by (induction xs) auto

lemma distinct_nub [simp]: "distinct (nub xs)"
  by (induction xs) auto

lemma nub_append: "nub (xs @ ys) = nub xs @ filter (\<lambda>y. y \<notin> set xs) (nub ys)"
  by (induction xs) (auto simp: conj_commute)

definition known_names :: "match_entry_t list \<Rightarrow> string list" where
  "known_names tab = filter (\<lambda>s. c_strstr s ''Unknown'' = None) (map me_name tab)"

lemma list_loop_nub:
  assumes "\<And>n. alloc n" and "distinct acc"
  shows "list_loop alloc es acc = Some (acc @ filter (\<lambda>y. y \<notin> set acc) (nub (known_names es)))"
  using assms(2)
proof (induction es arbitrary: acc)
  case Nil
  then show ?case by (simp add: known_names_def)
next
  case (Cons e es)
  show ?case
  proof (cases "c_strstr (me_name e) ''Unknown'' = None \<and> me_name e \<notin> set acc")
    case True
    with Cons.IH [of "acc @ [me_name e]"] Cons.prems show ?thesis
      by (auto simp: known_names_def assms(1) intro!: filter_cong)
  next
    case False
    then have "list_loop alloc (e # es) acc = list_loop alloc es acc" by auto
    with False Cons show ?thesis
      by (auto simp: known_names_def intro!: filter_cong)
  qed
qed

text \<open>
  with enough memory, \<^verbatim>\<open>generic_get_cpu_list\<close> returns the distinct names of the table that do
  not contain "Unknown", in the order of their first rows, and leaves the error code alone;
  when an allocation fails it returns the empty list, no array and \<^const>\<open>ERR_NO_MEM\<close>. In both cases
  \<^const>\<open>num_entries\<close> is the number of names stored.
\<close>

theorem generic_get_cpu_list_names:
  "((\<exists>n. \<not> alloc n) \<or>
     generic_get_cpu_list alloc tab errno =
       (\<lparr>num_entries = int (length (nub (known_names tab))),
         names = Some (nub (known_names tab))\<rparr>, errno)) \<and>
   wf_list (fst (generic_get_cpu_list alloc tab errno)) \<and>
   (names (fst (generic_get_cpu_list alloc tab errno)) = None \<longleftrightarrow>
     generic_get_cpu_list alloc tab errno = (\<lparr>num_entries = 0, names = None\<rparr>, ERR_NO_MEM))"
proof (intro conjI)
  show "(\<exists>n. \<not> alloc n) \<or>
     generic_get_cpu_list alloc tab errno =
       (\<lparr>num_entries = int (length (nub (known_names tab))),
         names = Some (nub (known_names tab))\<rparr>, errno)"
    by (cases "\<exists>n. \<not> alloc n") (simp_all add: generic_get_cpu_list_def list_loop_nub)
qed (auto simp: generic_get_cpu_list_def wf_list_def split: option.splits)

section \<open>Names of a comma-separated string\<close>

text \<open>
  The second loop of \<^verbatim>\<open>make_list_from_string\<close>: \<open>i\<close> is the position, \<open>start\<close> is \<^verbatim>\<open>last + 1\<close>. The
  entry \<^verbatim>\<open>names[n]\<close> is \<open>csv[start .. i - 1]\<close>.
\<close>

function csv_loop ::
    "(nat \<Rightarrow> bool) \<Rightarrow> string \<Rightarrow> nat \<Rightarrow> nat \<Rightarrow> string list \<Rightarrow> string list option" where
  "csv_loop alloc csv i start acc =
     (if i \<le> length csv then
        (if i = length csv \<or> c_at csv i = CHR '','' then
           (if alloc (Suc (length acc)) then
              csv_loop alloc csv (Suc i) (Suc i) (acc @ [take (i - start) (drop start csv)])
            else None)
         else csv_loop alloc csv (Suc i) start acc)
      else Some acc)"
  by pat_completeness auto
termination
  by (relation "measure (\<lambda>(alloc, csv, i, start, acc). Suc (length csv) - i)") auto

declare csv_loop.simps [simp del]

definition make_list_from_string ::
    "(nat \<Rightarrow> bool) \<Rightarrow> string \<Rightarrow> cpu_error_t \<Rightarrow> cpu_list_t \<times> cpu_error_t" where
  "make_list_from_string alloc csv errno =
     (let n = length (filter (\<lambda>c. c = CHR '','') csv) + 1
      in if \<not> alloc 0 then (\<lparr>num_entries = 0, names = None\<rparr>, ERR_NO_MEM)
         else
           (case csv_loop alloc csv 0 0 [] of
              None \<Rightarrow> (\<lparr>num_entries = 0, names = None\<rparr>, ERR_NO_MEM)
            | Some ns \<Rightarrow> (\<lparr>num_entries = int n, names = Some ns\<rparr>, errno)))"

text \<open>Splitting at the commas, as a list function.\<close>

fun split_commas :: "string \<Rightarrow> string \<Rightarrow> string list" where
  "split_commas cur [] = [cur]"
| "split_commas cur (c # cs) =
     (if c = CHR '','' then cur # split_commas [] cs else split_commas (cur @ [c]) cs)"

fun join_commas :: "string list \<Rightarrow> string" where
  "join_commas [] = []"
| "join_commas [s] = s"
| "join_commas (s # t # ss) = s @ CHR '','' # join_commas (t # ss)"

lemma split_commas_not_Nil [simp]: "split_commas cur cs \<noteq> []"
  by (induction cur cs rule: split_commas.induct) auto

lemma join_commas_Cons: "ss \<noteq> [] \<Longrightarrow> join_commas (s # ss) = s @ CHR '','' # join_commas ss"
  by (cases ss) auto

lemma join_split: "join_commas (split_commas cur cs) = cur @ cs"
  by (induction cur cs rule: split_commas.induct) (auto simp: join_commas_Cons)

lemma length_split: "length (split_commas cur cs) = length (filter (\<lambda>c. c = CHR '','') cs) + 1"
  by (induction cur cs rule: split_commas.induct) auto

lemma split_no_comma:
  "CHR '','' \<notin> set cur \<Longrightarrow> s \<in> set (split_commas cur cs) \<Longrightarrow> CHR '','' \<notin> set s"
  by (induction cur cs rule: split_commas.induct) (auto split: if_splits)

lemma csv_loop_split:
  assumes "\<And>n. alloc n" and "start \<le> i" and "i \<le> length csv"
  shows "csv_loop alloc csv i start acc =
    Some (acc @ split_commas (take (i - start) (drop start csv)) (drop i csv))"
  using assms(2,3)
proof (induction "length csv - i" arbitrary: i start acc)
  case 0
  then have "csv_loop alloc csv i start acc =
      csv_loop alloc csv (Suc i) (Suc i) (acc @ [take (i - start) (drop start csv)])"
    by (subst csv_loop.simps) (simp add: assms(1))
  also have "\<dots> = Some (acc @ [take (i - start) (drop start csv)])"
    using 0 by (subst csv_loop.simps) simp
  finally show ?case using 0 by simp
next
  case (Suc k)
  then have i: "i < length csv" by simp
  then have split: "drop i csv = csv ! i # drop (Suc i) csv" by (simp add: Cons_nth_drop_Suc)
  show ?case
  proof (cases "csv ! i = CHR '',''")
    case True
    then have "csv_loop alloc csv i start acc =
        csv_loop alloc csv (Suc i) (Suc i) (acc @ [take (i - start) (drop start csv)])"
      using i by (subst csv_loop.simps) (simp add: assms(1) c_at_def)
    with Suc.hyps(1) [of "Suc i" "Suc i"] Suc.hyps(2) i split True show ?thesis by simp
  next
    case False
    then have "csv_loop alloc csv i start acc = csv_loop alloc csv (Suc i) start acc"
      using i by (subst csv_loop.simps) (simp add: c_at_def)
    moreover have "take (Suc i - start) (drop start csv) =
        take (i - start) (drop start csv) @ [csv ! i]"
      using i Suc.prems by (simp add: Suc_diff_le take_Suc_conv_app_nth)
    ultimately show ?thesis
      using Suc.hyps(1) [of "Suc i" start] Suc.hyps(2) Suc.prems i split False by simp
  qed
qed

text \<open>
  with enough memory \<^verbatim>\<open>make_list_from_string\<close> stores one name for each comma and one more,
  so exactly as many as it allocated room for; no name contains a comma, and joining the
  names with commas gives the string back.
\<close>

theorem make_list_from_string_roundtrip:
  assumes "\<And>n. alloc n"
  shows "\<exists>ns. make_list_from_string alloc csv errno =
      (\<lparr>num_entries = int (length ns), names = Some ns\<rparr>, errno) \<and>
    length ns = length (filter (\<lambda>c. c = CHR '','') csv) + 1 \<and>
    (\<forall>s \<in> set ns. CHR '','' \<notin> set s) \<and> join_commas ns = csv"
proof (intro exI conjI)
  let ?ns = "split_commas [] csv"
  have "csv_loop alloc csv 0 0 [] = Some ?ns"
    using csv_loop_split [of alloc 0 0 csv "[]"] assms by simp
  then show "make_list_from_string alloc csv errno =
      (\<lparr>num_entries = int (length ?ns), names = Some ?ns\<rparr>, errno)"
    by (simp add: make_list_from_string_def assms length_split)
  show "length ?ns = length (filter (\<lambda>c. c = CHR '','') csv) + 1" by (rule length_split)
  show "\<forall>s \<in> set ?ns. CHR '','' \<notin> set s" using split_no_comma [of "[]"] by auto
  show "join_commas ?ns = csv" by (simp add: join_split)
qed

theorem make_list_from_string_roundtrip_witness:
  "\<exists>ns. make_list_from_string (\<lambda>_. True) ''Crusoe,Efficeon'' ERR_OK =
      (\<lparr>num_entries = int (length ns), names = Some ns\<rparr>, ERR_OK) \<and>
    length ns = 2 \<and> join_commas ns = ''Crusoe,Efficeon''"
  using make_list_from_string_roundtrip [of "\<lambda>_. True" "''Crusoe,Efficeon''" ERR_OK] by auto

section \<open>Releasing a list\<close>

definition cpuid_free_cpu_list :: "cpu_list_t \<Rightarrow> cpu_list_t" where
  "cpuid_free_cpu_list l =
     (if num_entries l \<le> 0 then l else l\<lparr>names := None, num_entries := 0\<rparr>)"

lemma cpuid_free_cpu_list_wf: "wf_list l \<Longrightarrow> wf_list (cpuid_free_cpu_list l)"
  by (auto simp: wf_list_def cpuid_free_cpu_list_def split: option.splits)

end
