(* ===== verification/Affinity_Mask.thy ===== *)
theory Affinity_Mask
  imports Cpuid_Types
begin

text \<open>
  \<^verbatim>\<open>cpu_affinity_mask_t\<close>: the bit operations of \<^verbatim>\<open>libcpuid_util.c\<close>, which refine the operations on sets
  of logical CPUs, and \<^verbatim>\<open>affinity_mask_str_r\<close> and \<^verbatim>\<open>affinity_mask_str\<close> of \<^verbatim>\<open>cpuid_main.c\<close>, which print a
  mask in hexadecimal into a caller's buffer.
\<close>

section \<open>Bits\<close>

definition copy_affinity_mask :: "cpu_affinity_mask_t \<Rightarrow> cpu_affinity_mask_t \<Rightarrow> cpu_affinity_mask_t" where
  "copy_affinity_mask dest src = take MASK_SETSIZE src @ drop MASK_SETSIZE dest"

definition set_affinity_mask_bit :: "logical_cpu_t \<Rightarrow> cpu_affinity_mask_t \<Rightarrow> cpu_affinity_mask_t" where
  "set_affinity_mask_bit cpu msk =
     (let i = unat cpu div MASK_NCPUBITS
      in msk[i := (msk ! i) OR push_bit (unat cpu mod MASK_NCPUBITS) 1])"

definition get_affinity_mask_bit :: "logical_cpu_t \<Rightarrow> cpu_affinity_mask_t \<Rightarrow> bool" where
  "get_affinity_mask_bit cpu msk \<longleftrightarrow>
     msk ! (unat cpu div MASK_NCPUBITS) AND push_bit (unat cpu mod MASK_NCPUBITS) 1 \<noteq> 0"

definition clear_affinity_mask_bit :: "logical_cpu_t \<Rightarrow> cpu_affinity_mask_t \<Rightarrow> cpu_affinity_mask_t" where
  "clear_affinity_mask_bit cpu msk =
     (let i = unat cpu div MASK_NCPUBITS
      in msk[i := (msk ! i) AND NOT (push_bit (unat cpu mod MASK_NCPUBITS) 1)])"

text \<open>Every value of \<^verbatim>\<open>logical_cpu_t\<close> has its byte inside the array.\<close>

definition wf_mask :: "cpu_affinity_mask_t \<Rightarrow> bool" where
  "wf_mask msk \<longleftrightarrow> length msk = MASK_SETSIZE"

lemma mask_index_less: "unat (cpu :: logical_cpu_t) div 8 < 8192"
proof -
  have "unat cpu < 2 ^ 16" by (rule order_less_le_trans [OF unsigned_less]) simp
  then show ?thesis by simp
qed

lemma wf_init [simp]: "wf_mask init_affinity_mask"
  by (simp add: wf_mask_def init_affinity_mask_def)

lemma wf_set [simp]: "wf_mask msk \<Longrightarrow> wf_mask (set_affinity_mask_bit cpu msk)"
  by (simp add: wf_mask_def set_affinity_mask_bit_def Let_def)

lemma wf_clear [simp]: "wf_mask msk \<Longrightarrow> wf_mask (clear_affinity_mask_bit cpu msk)"
  by (simp add: wf_mask_def clear_affinity_mask_bit_def Let_def)

lemma and_push_bit_1_iff: "(w :: 'a::len word) AND push_bit n 1 \<noteq> 0 \<longleftrightarrow> bit w n"
  by (simp add: push_bit_eq_mult and_exp_eq_0_iff_not_bit)

lemma get_bit_iff: "get_affinity_mask_bit cpu msk \<longleftrightarrow> bit (msk ! (unat cpu div 8)) (unat cpu mod 8)"
  by (simp only: get_affinity_mask_bit_def and_push_bit_1_iff)

text \<open>The set of CPUs a mask stands for.\<close>

definition cpus_of :: "cpu_affinity_mask_t \<Rightarrow> logical_cpu_t set" where
  "cpus_of msk = {cpu. get_affinity_mask_bit cpu msk}"

lemma unat_div_mod_eq:
  "unat (a :: logical_cpu_t) div 8 = unat b div 8 \<Longrightarrow> unat a mod 8 = unat b mod 8 \<Longrightarrow> a = b"
  by (metis div_mult_mod_eq word_unat_eq_iff)

lemma bit_single: "m < 8 \<Longrightarrow> n < 8 \<Longrightarrow> bit (push_bit n 1 :: u8) m \<longleftrightarrow> m = n"
  by (auto simp: bit_exp_iff possible_bit_word)

lemma same_byte:
  fixes a b :: logical_cpu_t
  assumes "unat b div 8 = unat a div 8"
  shows "bit (push_bit (unat a mod 8) 1 :: u8) (unat b mod 8) \<longleftrightarrow> b = a"
  using unat_div_mod_eq [of a b] assms by (subst bit_single) auto

lemma get_set:
  assumes "wf_mask msk"
  shows "get_affinity_mask_bit b (set_affinity_mask_bit a msk) \<longleftrightarrow>
    b = a \<or> get_affinity_mask_bit b msk"
proof (cases "unat b div 8 = unat a div 8")
  case True
  with assms mask_index_less [of a] same_byte [OF True] show ?thesis
    unfolding get_bit_iff set_affinity_mask_bit_def Let_def wf_mask_def True
    by (simp only: nth_list_update_eq bit_or_iff) blast
next
  case False
  then show ?thesis unfolding get_bit_iff set_affinity_mask_bit_def Let_def by auto
qed

lemma get_clear:
  assumes "wf_mask msk"
  shows "get_affinity_mask_bit b (clear_affinity_mask_bit a msk) \<longleftrightarrow>
    b \<noteq> a \<and> get_affinity_mask_bit b msk"
proof (cases "unat b div 8 = unat a div 8")
  case True
  have "unat b mod 8 < LENGTH(8)" by simp
  with assms mask_index_less [of a] same_byte [OF True] show ?thesis
    unfolding get_bit_iff clear_affinity_mask_bit_def Let_def wf_mask_def True
    by (simp only: nth_list_update_eq bit_and_iff bit_not_iff possible_bit_word) blast
next
  case False
  then show ?thesis unfolding get_bit_iff clear_affinity_mask_bit_def Let_def by auto
qed

lemma cpus_of_set [simp]:
  "wf_mask msk \<Longrightarrow> cpus_of (set_affinity_mask_bit cpu msk) = insert cpu (cpus_of msk)"
  by (auto simp: cpus_of_def get_set)

lemma cpus_of_clear [simp]:
  "wf_mask msk \<Longrightarrow> cpus_of (clear_affinity_mask_bit cpu msk) = cpus_of msk - {cpu}"
  by (auto simp: cpus_of_def get_clear)

lemma cpus_of_init [simp]: "cpus_of init_affinity_mask = {}"
  using mask_index_less by (simp add: cpus_of_def get_bit_iff init_affinity_mask_def)

text \<open>
  C39: masks refine sets of logical CPUs: \<^verbatim>\<open>init_affinity_mask\<close> is the empty set,
  \<^verbatim>\<open>set_affinity_mask_bit\<close> and \<^verbatim>\<open>clear_affinity_mask_bit\<close> insert and remove one CPU and no other,
  \<^verbatim>\<open>get_affinity_mask_bit\<close> is membership, \<^verbatim>\<open>copy_affinity_mask\<close> copies, and every operation keeps the
  array's size, for all of the 65536 values of \<^verbatim>\<open>logical_cpu_t\<close>.
\<close>

theorem affinity_mask_refines_set:
  assumes "wf_mask msk" and "wf_mask other"
  shows "cpus_of init_affinity_mask = {} \<and>
    cpus_of (set_affinity_mask_bit cpu msk) = insert cpu (cpus_of msk) \<and>
    cpus_of (clear_affinity_mask_bit cpu msk) = cpus_of msk - {cpu} \<and>
    (get_affinity_mask_bit cpu msk \<longleftrightarrow> cpu \<in> cpus_of msk) \<and>
    copy_affinity_mask other msk = msk \<and>
    wf_mask (set_affinity_mask_bit cpu msk) \<and> wf_mask (clear_affinity_mask_bit cpu msk)"
proof (intro conjI)
  show "cpus_of init_affinity_mask = {}" by (rule cpus_of_init)
  show "copy_affinity_mask other msk = msk"
    using assms by (simp add: copy_affinity_mask_def wf_mask_def)
qed (use assms in \<open>simp_all add: cpus_of_def [of msk]\<close>)

theorem affinity_mask_refines_set_witness:
  "cpus_of (set_affinity_mask_bit 65535 init_affinity_mask) = {65535}"
  using affinity_mask_refines_set [of init_affinity_mask init_affinity_mask 65535] by simp

text \<open>A mask is determined by its set.\<close>

lemma cpus_of_inj:
  assumes "wf_mask m" and "wf_mask m'" and "cpus_of m = cpus_of m'"
  shows "m = m'"
proof (rule nth_equalityI)
  show "length m = length m'" using assms by (simp add: wf_mask_def)
  fix i assume i: "i < length m"
  have "bit (m ! i) n \<longleftrightarrow> bit (m' ! i) n" if n: "n < 8" for n
  proof -
    define c where "c = (word_of_nat (8 * i + n) :: logical_cpu_t)"
    have "8 * i + n < 2 ^ LENGTH(16)" using i n assms(1) by (simp add: wf_mask_def)
    then have "unat c = 8 * i + n" by (simp only: c_def unsigned_of_nat of_nat_id take_bit_nat_eq_self)
    moreover have "c \<in> cpus_of m \<longleftrightarrow> c \<in> cpus_of m'" using assms(3) by simp
    ultimately show ?thesis using n by (simp add: cpus_of_def get_bit_iff)
  qed
  then show "m ! i = m' ! i" by (auto intro!: bit_word_eqI)
qed

section \<open>Printing\<close>

text \<open>\<^verbatim>\<open>%02X\<close>.\<close>

definition hex2 :: "u8 \<Rightarrow> string" where
  "hex2 b = [''0123456789ABCDEF'' ! (unat b div 16), ''0123456789ABCDEF'' ! (unat b mod 16)]"

lemma length_hex2 [simp]: "length (hex2 b) = 2"
  by (simp add: hex2_def)

text \<open>Storing characters in an array; outside the array it is undefined behaviour.\<close>

definition buf_write :: "string \<Rightarrow> nat \<Rightarrow> string \<Rightarrow> string option" where
  "buf_write buf i s =
     (if i + length s \<le> length buf then Some (take i buf @ s @ drop (i + length s) buf) else None)"

text \<open>
  The loop of \<^verbatim>\<open>affinity_mask_str_r\<close>. \<^verbatim>\<open>snprintf(&buffer[str_index], 3, "%02X", ...)\<close> stores two digits
  and a NUL.
\<close>

fun mask_str_loop ::
    "cpu_affinity_mask_t \<Rightarrow> nat \<Rightarrow> nat \<Rightarrow> nat \<Rightarrow> bool \<Rightarrow> string \<Rightarrow> (string \<times> nat) option" where
  "mask_str_loop msk buffer_len mask_index str_index do_print buf =
     (if str_index + 1 < buffer_len then
        (if do_print \<or> mask_index < 4 \<or> msk ! mask_index \<noteq> 0 then
           (case buf_write buf str_index (hex2 (msk ! mask_index) @ [NUL]) of
              None \<Rightarrow> None
            | Some buf' \<Rightarrow>
                (if mask_index = 0 then Some (buf', str_index + 2)
                 else mask_str_loop msk buffer_len (mask_index - 1) (str_index + 2) True buf'))
         else
           (if mask_index = 0 then Some (buf, str_index)
            else mask_str_loop msk buffer_len (mask_index - 1) str_index do_print buf))
      else Some (buf, str_index))"

declare mask_str_loop.simps [simp del]

definition affinity_mask_str_r :: "cpu_affinity_mask_t \<Rightarrow> string \<Rightarrow> nat \<Rightarrow> string option" where
  "affinity_mask_str_r msk buffer buffer_len =
     (case mask_str_loop msk buffer_len (MASK_SETSIZE - 1) 0 False buffer of
        None \<Rightarrow> None
      | Some (buf, str_index) \<Rightarrow> buf_write buf str_index [NUL])"

text \<open>The string in a buffer: what precedes the NUL.\<close>

definition c_str :: "string \<Rightarrow> string" where
  "c_str buf = takeWhile (\<lambda>c. c \<noteq> NUL) buf"

definition affinity_mask_str :: "cpu_affinity_mask_t \<Rightarrow> string option" where
  "affinity_mask_str msk =
     map_option c_str
       (affinity_mask_str_r msk (replicate (MASK_SETSIZE + 1) NUL) (MASK_SETSIZE + 1))"

text \<open>
  What should be printed: the bytes from the most significant one, without leading zero bytes
  but at least four of them.
\<close>

fun skip_zeros :: "u8 list \<Rightarrow> u8 list" where
  "skip_zeros [] = []"
| "skip_zeros (b # bs) = (if length bs < 4 \<or> b \<noteq> 0 then b # bs else skip_zeros bs)"

definition mask_digits :: "cpu_affinity_mask_t \<Rightarrow> string" where
  "mask_digits msk = concat (map hex2 (skip_zeros (rev msk)))"

text \<open>The bytes still to be printed when the loop is at index \<open>k\<close>.\<close>

definition todo_bytes :: "cpu_affinity_mask_t \<Rightarrow> bool \<Rightarrow> nat \<Rightarrow> u8 list" where
  "todo_bytes msk do_print k =
     (if do_print then rev (take (Suc k) msk) else skip_zeros (rev (take (Suc k) msk)))"

lemma rev_take_Suc: "k < length msk \<Longrightarrow> rev (take (Suc k) msk) = msk ! k # rev (take k msk)"
  by (simp add: take_Suc_conv_app_nth)

lemma todo_bytes_print:
  assumes "k < length msk" and "do_print \<or> k < 4 \<or> msk ! k \<noteq> 0"
  shows "todo_bytes msk do_print k = msk ! k # rev (take k msk)"
  using assms by (auto simp: todo_bytes_def rev_take_Suc)

lemma todo_bytes_skip:
  assumes "k < length msk" and "\<not> (do_print \<or> k < 4 \<or> msk ! k \<noteq> 0)"
  shows "k \<noteq> 0" and "todo_bytes msk do_print k = todo_bytes msk do_print (k - 1)"
  using assms by (auto simp: todo_bytes_def rev_take_Suc)

lemma length_hex_concat [simp]: "length (concat (map hex2 bs)) = 2 * length bs"
  by (induction bs) auto

lemma buf_write_Some:
  "i + length s \<le> length buf \<Longrightarrow>
   \<exists>buf'. buf_write buf i s = Some buf' \<and> length buf' = length buf \<and>
     (\<forall>j \<le> length s. take (i + j) buf' = take i buf @ take j s)"
  by (auto simp: buf_write_def)

text \<open>
  What the loop returns from write index \<open>si\<close> on, when the digits \<open>D\<close> are to come: it overflows
  the \<open>n\<close> bytes, or it stores \<open>D\<close>, or as much of \<open>D\<close> as leaves room for the NUL, after \<open>pre\<close>.
\<close>

definition loop_result ::
    "nat \<Rightarrow> nat \<Rightarrow> string \<Rightarrow> string \<Rightarrow> (string \<times> nat) option \<Rightarrow> bool" where
  "loop_result n si D pre r \<longleftrightarrow>
     (if n \<le> si + length D \<and> even (n - si) then r = None
      else \<exists>buf'. r = Some (buf', min (si + length D) (n - 1)) \<and> length buf' = n \<and>
        take (min (si + length D) (n - 1)) buf' = pre @ take (n - 1 - si) D)"

lemma loop_result_step:
  assumes "loop_result n (si + 2) D (pre @ x) r" and "length x = 2" and "si + 2 < n"
  shows "loop_result n si (x @ D) pre r"
proof -
  have "even (n - (si + 2)) = even (n - si)" and "n - 1 - si = 2 + (n - 1 - (si + 2))"
    using assms(3) by auto
  with assms show ?thesis by (auto simp: loop_result_def)
qed

lemma mask_str_loop_result:
  assumes "k < length msk" and "length buf = n" and "si < n"
  shows "loop_result n si (concat (map hex2 (todo_bytes msk do_print k))) (take si buf)
    (mask_str_loop msk n k si do_print buf)"
  using assms
proof (induction k arbitrary: si do_print buf rule: less_induct)
  case (less k)
  consider (full) "si + 1 = n" | (print_) "si + 1 < n" "do_print \<or> k < 4 \<or> msk ! k \<noteq> 0"
    | (skip) "si + 1 < n" "\<not> (do_print \<or> k < 4 \<or> msk ! k \<noteq> 0)"
    using less.prems by linarith
  then show ?case
  proof cases
    case full
    then show ?thesis
      using less.prems by (auto simp: mask_str_loop.simps [of msk n k si] loop_result_def min_def)
  next
    case skip
    note k = todo_bytes_skip [OF less.prems(1) skip(2)]
    have "mask_str_loop msk n k si do_print buf = mask_str_loop msk n (k - 1) si do_print buf"
      using skip k by (subst mask_str_loop.simps) simp
    with less.IH [of "k - 1" buf si do_print] less.prems k show ?thesis by simp
  next
    case print_
    let ?D = "concat (map hex2 (rev (take k msk)))"
    have D: "concat (map hex2 (todo_bytes msk do_print k)) = hex2 (msk ! k) @ ?D"
      using todo_bytes_print [OF less.prems(1) print_(2)] by simp
    show ?thesis
    proof (cases "si + 2 = n")
      case True
      then have "mask_str_loop msk n k si do_print buf = None"
        using print_ less.prems by (subst mask_str_loop.simps) (simp add: buf_write_def)
      moreover have "even (n - si)" using True by auto
      ultimately show ?thesis unfolding D using True by (simp add: loop_result_def)
    next
      case False
      with print_ less.prems have room: "si + 2 < n"
        and "si + length (hex2 (msk ! k) @ [NUL]) \<le> length buf" by simp_all
      from buf_write_Some [OF this(2)] obtain buf' where
        w: "buf_write buf si (hex2 (msk ! k) @ [NUL]) = Some buf'" and l: "length buf' = n"
        and t': "\<forall>j \<le> length (hex2 (msk ! k) @ [NUL]). take (si + j) buf' =
          take si buf @ take j (hex2 (msk ! k) @ [NUL])"
        using less.prems by auto
      from t' [rule_format, of 2] have t: "take (si + 2) buf' = take si buf @ hex2 (msk ! k)"
        by simp
      show ?thesis
      proof (cases k)
        case 0
        then have "mask_str_loop msk n k si do_print buf = Some (buf', si + 2)"
          using print_ w by (subst mask_str_loop.simps) simp
        moreover have "hex2 (msk ! k) @ ?D = hex2 (msk ! k)" using 0 by simp
        ultimately show ?thesis
          unfolding D using room l t by (simp add: loop_result_def min_def del: append_self_conv)
      next
        case (Suc k')
        then have step: "mask_str_loop msk n k si do_print buf =
            mask_str_loop msk n k' (si + 2) True buf'"
          using print_ w by (subst mask_str_loop.simps) simp
        have "?D = concat (map hex2 (todo_bytes msk True k'))"
          using Suc by (simp add: todo_bytes_def)
        with less.IH [of k' buf' "si + 2" True] less.prems Suc l t room
        have "loop_result n (si + 2) ?D (take si buf @ hex2 (msk ! k))
            (mask_str_loop msk n k' (si + 2) True buf')" by simp
        then show ?thesis unfolding D step by (rule loop_result_step) (use room in simp_all)
      qed
    qed
  qed
qed

lemma hex2_no_NUL: "NUL \<notin> set (hex2 b)"
proof -
  have "unat b < 256" using unsigned_less [of b] by simp
  then have "unat b div 16 < 16" by simp
  moreover have "''0123456789ABCDEF'' ! n \<in> set ''0123456789ABCDEF''" if "n < 16" for n
    using that by (intro nth_mem) simp
  moreover have "NUL \<notin> set ''0123456789ABCDEF''" by simp
  ultimately have "''0123456789ABCDEF'' ! (unat b div 16) \<noteq> NUL"
    and "''0123456789ABCDEF'' ! (unat b mod 16) \<noteq> NUL"
    by (metis mod_less_divisor zero_less_numeral)+
  then show ?thesis by (simp add: hex2_def)
qed

lemma mask_str_result:
  assumes "wf_mask msk"
  shows "map_option c_str (affinity_mask_str_r msk buf (length buf)) =
    (if length buf = 0 \<or> length buf \<le> length (mask_digits msk) \<and> even (length buf) then None
     else Some (take (length buf - 1) (mask_digits msk)))"
proof (cases "length buf = 0")
  case True
  then show ?thesis
    by (simp add: affinity_mask_str_r_def mask_str_loop.simps [of msk 0] buf_write_def)
next
  case False
  let ?n = "length buf" and ?D = "mask_digits msk"
  have todo: "todo_bytes msk False 8191 = skip_zeros (rev msk)"
    using assms by (simp add: todo_bytes_def wf_mask_def)
  have res: "loop_result ?n 0 ?D [] (mask_str_loop msk ?n (MASK_SETSIZE - 1) 0 False buf)"
    using mask_str_loop_result [of "MASK_SETSIZE - 1" msk buf ?n 0 False] False assms
    by (simp add: todo wf_mask_def mask_digits_def)
  show ?thesis
  proof (cases "?n \<le> length ?D \<and> even ?n")
    case True
    with res have "mask_str_loop msk ?n (MASK_SETSIZE - 1) 0 False buf = None"
      by (simp add: loop_result_def)
    with True show ?thesis by (simp add: affinity_mask_str_r_def)
  next
    case fits: False
    let ?j = "min (length ?D) (?n - 1)"
    from res fits obtain buf' where
      loop: "mask_str_loop msk ?n (MASK_SETSIZE - 1) 0 False buf = Some (buf', ?j)"
      and l: "length buf' = ?n" and t: "take ?j buf' = take (?n - 1) ?D"
      by (auto simp: loop_result_def)
    have j: "?j < length buf'" using False l by (auto simp: min_less_iff_disj)
    have "NUL \<notin> set (take (?n - 1) ?D)"
      using hex2_no_NUL by (auto simp: mask_digits_def dest: in_set_takeD)
    then have "c_str (take ?j buf' @ NUL # drop (Suc ?j) buf') = take (?n - 1) ?D"
      unfolding t c_str_def by (subst takeWhile_append2) auto
    with fits False loop j show ?thesis
      by (simp add: affinity_mask_str_r_def buf_write_def)
  qed
qed

lemma skip_zeros_replicate: "skip_zeros (replicate n 0) = replicate (min n 4) 0"
  by (induction n) (auto simp: min_def)

text \<open>
  C40: printing a mask into a buffer of \<open>n\<close> bytes (and \<open>buffer_len = n\<close>): when its digits fit, the
  buffer holds them all; when they do not and \<open>n\<close> is odd, it holds the first \<open>n - 1\<close> of them; and
  when they do not and \<open>n\<close> is even, or \<open>n\<close> is zero, the call writes past the end of the buffer,
  because the loop admits two more digits when only one byte besides them is left.
\<close>

theorem affinity_mask_str_r_spec:
  assumes "wf_mask msk"
  shows "map_option c_str (affinity_mask_str_r msk buf (length buf)) =
    (if length buf = 0 \<or> length buf \<le> length (mask_digits msk) \<and> even (length buf) then None
     else Some (take (length buf - 1) (mask_digits msk)))"
  using assms by (rule mask_str_result)

text \<open>The empty mask has eight digits; a caller's buffer of eight bytes is overrun by one.\<close>

theorem affinity_mask_str_r_spec_witness:
  "map_option c_str (affinity_mask_str_r init_affinity_mask (replicate 8 NUL) 8) = None \<and>
   map_option c_str (affinity_mask_str_r init_affinity_mask (replicate 9 NUL) 9) =
     Some ''00000000''"
proof -
  have d: "mask_digits init_affinity_mask = ''00000000''"
    by (simp add: mask_digits_def init_affinity_mask_def skip_zeros_replicate hex2_def)
      (simp add: numeral_eq_Suc)
  show ?thesis
    using affinity_mask_str_r_spec [of init_affinity_mask "replicate 8 NUL"]
      affinity_mask_str_r_spec [of init_affinity_mask "replicate 9 NUL"]
    by (simp add: d)
qed

lemma length_skip_zeros:
  "4 \<le> k \<Longrightarrow> length (skip_zeros bs) \<le> k \<longleftrightarrow> (\<forall>b \<in> set (take (length bs - k) bs). b = 0)"
proof (induction bs)
  case Nil
  then show ?case by simp
next
  case (Cons b bs)
  show ?case
  proof (cases "length (b # bs) \<le> k")
    case True
    have "length (skip_zeros cs) \<le> length cs" for cs by (induction cs) auto
    from this [of "b # bs"] True show ?thesis by simp
  next
    case False
    then have "length (b # bs) - k = Suc (length bs - k)" by simp
    with False Cons show ?thesis by auto
  qed
qed

lemma set_drop_nth: "set (drop k xs) = {xs ! i | i. k \<le> i \<and> i < length xs}"
proof -
  have "set (drop k xs) = {xs ! (k + i) | i. i < length xs - k}"
    by (auto simp: set_conv_nth)
  also have "\<dots> = {xs ! i | i. k \<le> i \<and> i < length xs}"
    by (auto simp: less_diff_conv2 intro: exI [of _ "i - k" for i])
      (metis add_diff_inverse_nat diff_less_mono not_le)+
  finally show ?thesis .
qed

lemma byte_zero_iff:
  assumes "wf_mask msk" and "i < 8192"
  shows "msk ! i = 0 \<longleftrightarrow> (\<forall>cpu \<in> cpus_of msk. unat cpu div 8 \<noteq> i)"
proof
  assume zero: "\<forall>cpu \<in> cpus_of msk. unat cpu div 8 \<noteq> i"
  have "\<not> bit (msk ! i) n" if n: "n < 8" for n
  proof -
    define c where "c = (word_of_nat (8 * i + n) :: logical_cpu_t)"
    have "8 * i + n < 2 ^ LENGTH(16)" using assms(2) n by simp
    then have "unat c = 8 * i + n"
      by (simp only: c_def unsigned_of_nat of_nat_id take_bit_nat_eq_self)
    then have "unat c div 8 = i" and "unat c mod 8 = n" using n by simp_all
    then show ?thesis using zero by (auto simp: cpus_of_def get_bit_iff)
  qed
  then show "msk ! i = 0" by (auto intro!: bit_word_eqI)
qed (auto simp: cpus_of_def get_bit_iff)

text \<open>
  \<^verbatim>\<open>affinity_mask_str\<close> never writes outside its static buffer, but the buffer has room
  for only half of the 16384 digits: it prints the whole mask exactly when the mask contains no
  CPU from 32768 on, and the most significant 8192 digits of it otherwise.
\<close>

theorem affinity_mask_str_truncates:
  assumes "wf_mask msk"
  shows "affinity_mask_str msk = Some (take 8192 (mask_digits msk)) \<and>
    (affinity_mask_str msk = Some (mask_digits msk) \<longleftrightarrow>
      (\<forall>cpu \<in> cpus_of msk. unat cpu < 32768))"
proof -
  let ?buf = "replicate (MASK_SETSIZE + 1) NUL"
  have str: "affinity_mask_str msk = Some (take 8192 (mask_digits msk))"
    using mask_str_result [OF assms, of ?buf]
    by (simp add: affinity_mask_str_def)
  have "take 8192 (mask_digits msk) = mask_digits msk \<longleftrightarrow> length (skip_zeros (rev msk)) \<le> 4096"
    by (simp add: mask_digits_def take_all_iff)
  also have "\<dots> \<longleftrightarrow> (\<forall>b \<in> set (drop 4096 msk). b = 0)"
    using assms by (subst length_skip_zeros) (simp_all add: wf_mask_def take_rev)
  also have "\<dots> \<longleftrightarrow> (\<forall>i < 8192. 4096 \<le> i \<longrightarrow> msk ! i = 0)"
    using assms set_drop_nth [of 4096 msk] by (auto simp: wf_mask_def)
  also have "\<dots> \<longleftrightarrow> (\<forall>cpu \<in> cpus_of msk. unat cpu < 32768)"
  proof (intro iffI ballI allI impI)
    fix cpu assume *: "\<forall>i < 8192. 4096 \<le> i \<longrightarrow> msk ! i = 0" and cpu: "cpu \<in> cpus_of msk"
    have "msk ! (unat cpu div 8) \<noteq> 0"
      using byte_zero_iff [OF assms mask_index_less [of cpu]] cpu by auto
    with * mask_index_less [of cpu] have "unat cpu div 8 < 4096" by (meson not_less)
    then show "unat cpu < 32768" by simp
  next
    fix i :: nat
    assume *: "\<forall>cpu \<in> cpus_of msk. unat cpu < 32768" and i: "i < 8192" "4096 \<le> i"
    have "unat cpu div 8 \<noteq> i" if "cpu \<in> cpus_of msk" for cpu
    proof -
      have "unat cpu < 32768" using * that by simp
      then have "unat cpu div 8 < 4096" by simp
      with i show ?thesis by simp
    qed
    then show "msk ! i = 0" using byte_zero_iff [OF assms i(1)] by blast
  qed
  finally show ?thesis using str by auto
qed

text \<open>CPU 32768 is the first one whose mask loses its last digits.\<close>

theorem affinity_mask_str_truncates_witness:
  "affinity_mask_str (set_affinity_mask_bit 32767 init_affinity_mask) =
     Some (mask_digits (set_affinity_mask_bit 32767 init_affinity_mask)) \<and>
   affinity_mask_str (set_affinity_mask_bit 32768 init_affinity_mask) \<noteq>
     Some (mask_digits (set_affinity_mask_bit 32768 init_affinity_mask))"
proof -
  let ?a = "set_affinity_mask_bit 32767 init_affinity_mask"
  let ?b = "set_affinity_mask_bit 32768 init_affinity_mask"
  have "\<forall>cpu \<in> cpus_of ?a. unat cpu < 32768" and "\<not> (\<forall>cpu \<in> cpus_of ?b. unat cpu < 32768)"
    by simp_all
  with affinity_mask_str_truncates [of ?a] affinity_mask_str_truncates [of ?b] wf_init
  show ?thesis by (metis wf_set)
qed

end
