(* ===== verification/Cache_Info.thy ===== *)
theory Cache_Info
  imports Cpuid_Types
begin

text \<open>
  Cache information of x86 processors (\<^verbatim>\<open>libcpuid_util.c\<close>): \<^verbatim>\<open>get_count_order\<close>,
  \<^verbatim>\<open>assign_cache_data\<close> and \<^verbatim>\<open>decode_deterministic_cache_info_x86\<close>, which decodes the subleaves of
  CPUID leaf 4 (Intel) or 8000001Dh (AMD).
\<close>

section \<open>The order of a count\<close>

text \<open>One of the five halving steps: if the top \<open>s\<close> bits of \<open>x\<close> are zero, shift by \<open>s\<close>.\<close>

definition order_step :: "u32 \<Rightarrow> nat \<Rightarrow> u32 \<times> int \<Rightarrow> u32 \<times> int" where
  "order_step hi s = (\<lambda>(x, r). if x AND hi = 0 then (push_bit s x, r - int s) else (x, r))"

definition get_count_order :: "u32 \<Rightarrow> int" where
  "get_count_order x =
     (if x = 0 then -1
      else let x = x - 1 in
        if x = 0 then 0
        else snd (order_step 0x80000000 1 (order_step 0xc0000000 2 (order_step 0xf0000000 4
          (order_step 0xff000000 8 (order_step 0xffff0000 16 (x, 32)))))))"

lemma and_high_zero_iff:
  fixes x :: u32
  assumes "n \<le> 32"
  shows "x AND NOT (Bit_Operations.mask n) = 0 \<longleftrightarrow> unat x < 2 ^ n"
proof -
  have "x AND NOT (Bit_Operations.mask n) = 0 \<longleftrightarrow> take_bit n x = x"
    by (auto simp: bit_eq_iff bit_simps) 
  also have "\<dots> \<longleftrightarrow> take_bit n (unat x) = unat x"
    by (metis unsigned_take_bit_eq word_unat_eq_iff)
  finally show ?thesis by (simp add: take_bit_nat_eq_self_iff)
qed

text \<open>The invariant of the steps: \<open>x\<close> is the value at the start shifted by \<open>32 - r\<close>.\<close>

definition order_inv :: "nat \<Rightarrow> nat \<Rightarrow> u32 \<times> int \<Rightarrow> bool" where
  "order_inv n low = (\<lambda>(x, r). 1 \<le> r \<and> r \<le> 32 \<and> 2 ^ low \<le> unat x \<and> unat x = n * 2 ^ nat (32 - r))"

lemma order_step_inv:
  assumes inv: "order_inv n low (x, r)" and hi: "hi = NOT (Bit_Operations.mask (32 - s))"
    and s: "low + 2 * s \<le> 32" and n: "n > 0"
  shows "order_inv n (low + s) (order_step hi s (x, r))"
proof (cases "unat x < 2 ^ (32 - s)")
  case True
  then have step: "order_step hi s (x, r) = (push_bit s x, r - int s)"
    using hi by (simp add: order_step_def and_high_zero_iff)
  have i: "1 \<le> r" "r \<le> 32" "2 ^ low \<le> unat x" "unat x = n * 2 ^ nat (32 - r)"
    using inv by (auto simp: order_inv_def)
  have "unat x * 2 ^ s < 2 ^ (32 - s) * 2 ^ s" using True by simp
  also have "\<dots> = 2 ^ 32" using s by (simp flip: power_add)
  finally have less: "unat x * 2 ^ s < 2 ^ 32" .
  then have u: "unat (push_bit s x) = unat x * 2 ^ s"
    by (simp add: unsigned_push_bit_eq push_bit_nat_def take_bit_nat_eq_self)
  have e: "nat (32 - (r - int s)) = nat (32 - r) + s" using i by simp
  have "n * 2 ^ (nat (32 - r) + s) < 2 ^ 32"
    using less i(4) by (simp add: power_add mult.assoc)
  moreover have "1 * 2 ^ (nat (32 - r) + s) \<le> n * 2 ^ (nat (32 - r) + s)"
    using n by (intro mult_le_mono1) simp
  ultimately have "(2::nat) ^ (nat (32 - r) + s) < 2 ^ 32" by linarith
  then have "nat (32 - r) + s < 32" by (rule power_less_imp_less_exp [rotated]) simp
  with i have "1 \<le> r - int s" by simp
  moreover have "2 ^ (low + s) \<le> unat x * 2 ^ s" using i(3) by (simp only: power_add mult_le_mono1)
  moreover have "unat (push_bit s x) = n * 2 ^ nat (32 - (r - int s))"
    unfolding u e i(4) power_add by simp
  ultimately show ?thesis unfolding step order_inv_def prod.case using i(2) u by simp
next
  case False
  then have "order_step hi s (x, r) = (x, r)"
    using hi by (simp add: order_step_def and_high_zero_iff)
  moreover have "(2::nat) ^ (low + s) \<le> 2 ^ (32 - s)" using s by (intro power_increasing) auto
  with False have "2 ^ (low + s) \<le> unat x" by linarith
  ultimately show ?thesis using inv by (simp add: order_inv_def)
qed

lemma order_steps_inv:
  assumes "order_inv n 0 p" and "n > 0"
  shows "order_inv n 31 (order_step 0x80000000 1 (order_step 0xc0000000 2
      (order_step 0xf0000000 4 (order_step 0xff000000 8 (order_step 0xffff0000 16 p)))))"
proof -
  have step: "order_inv n (low + s) (order_step hi s q)"
    if "order_inv n low q" and "hi = NOT (Bit_Operations.mask (32 - s))" and "low + 2 * s \<le> 32"
    for low s hi q
    using order_step_inv [of n low "fst q" "snd q" hi s] that assms(2) by simp
  have "order_inv n (0 + 16) (order_step 0xffff0000 16 p)"
    by (rule step [OF assms(1)]) (simp_all add: mask_eq_decr_exp)
  then have "order_inv n (16 + 8) (order_step 0xff000000 8 (order_step 0xffff0000 16 p))"
    by (intro step) (simp_all add: mask_eq_decr_exp)
  then have "order_inv n (24 + 4) (order_step 0xf0000000 4
      (order_step 0xff000000 8 (order_step 0xffff0000 16 p)))"
    by (intro step) (simp_all add: mask_eq_decr_exp)
  then have "order_inv n (28 + 2) (order_step 0xc0000000 2 (order_step 0xf0000000 4
      (order_step 0xff000000 8 (order_step 0xffff0000 16 p))))"
    by (intro step) (simp_all add: mask_eq_decr_exp)
  then have "order_inv n (30 + 1) (order_step 0x80000000 1 (order_step 0xc0000000 2
      (order_step 0xf0000000 4 (order_step 0xff000000 8 (order_step 0xffff0000 16 p)))))"
    by (intro step) (simp_all add: mask_eq_decr_exp)
  then show ?thesis by simp
qed

lemma count_order_least:
  assumes "x \<noteq> 0"
  shows "0 \<le> get_count_order x \<and> get_count_order x \<le> 32 \<and>
    unat x \<le> 2 ^ nat (get_count_order x) \<and>
    (\<forall>k. unat x \<le> 2 ^ k \<longrightarrow> nat (get_count_order x) \<le> k)"
proof (cases "x = 1")
  case True
  then show ?thesis by (simp add: get_count_order_def)
next
  case False
  define n where "n = unat (x - 1)"
  have x: "unat x = n + 1"
    using assms by (simp add: n_def unat_minus_one)
      (metis Suc_pred unat_gt_0)
  have n: "n > 0" using False assms by (simp add: n_def unat_gt_0)
  obtain y r where steps: "order_step 0x80000000 1 (order_step 0xc0000000 2 (order_step 0xf0000000 4
      (order_step 0xff000000 8 (order_step 0xffff0000 16 (x - 1, 32))))) = (y, r)"
    by fastforce
  have "order_inv n 0 (x - 1, 32)" using n by (simp add: order_inv_def n_def [symmetric])
  then have "order_inv n 31 (order_step 0x80000000 1 (order_step 0xc0000000 2
      (order_step 0xf0000000 4 (order_step 0xff000000 8 (order_step 0xffff0000 16 (x - 1, 32))))))"
    using n order_steps_inv by blast
  then have inv: "1 \<le> r" "r \<le> 32" "2 ^ 31 \<le> unat y" "unat y = n * 2 ^ nat (32 - r)"
    unfolding steps order_inv_def by auto
  define k where "k = nat r"
  have k: "1 \<le> k" "k \<le> 32" "r = int k" using inv by (auto simp: k_def)
  have y: "unat y = n * 2 ^ (32 - k)" using inv(4) k by (simp add: nat_diff_distrib)
  have "unat y < 2 ^ 32" by (rule order_less_le_trans [OF unsigned_less]) simp
  then have "n * 2 ^ (32 - k) < 2 ^ k * 2 ^ (32 - k)"
    using y k by (simp flip: power_add)
  then have up: "n < 2 ^ k" by simp
  have "2 ^ (k - 1) * 2 ^ (32 - k) \<le> n * (2::nat) ^ (32 - k)"
    using inv(3) y k by (simp flip: power_add)
  then have low: "2 ^ (k - 1) \<le> n" by simp
  have res: "get_count_order x = int k"
    unfolding get_count_order_def Let_def steps using False assms k by simp
  have "k \<le> j" if "unat x \<le> 2 ^ j" for j
  proof -
    have "(2::nat) ^ (k - 1) < 2 ^ j" using that low x by linarith
    then have "k - 1 < j" by (rule power_less_imp_less_exp [rotated]) simp
    then show ?thesis by simp
  qed
  then show ?thesis using res k up x by simp
qed

text \<open>
  \<^verbatim>\<open>get_count_order\<close> is -1 for 0, and for every other 32-bit value the least \<open>r\<close> with
  \<open>x \<le> 2 ^ r\<close>: the number of APIC-id bits needed to tell \<open>x\<close> sharing processors apart.
\<close>

theorem get_count_order_least:
  "get_count_order 0 = -1 \<and>
   (x = 0 \<or> 0 \<le> get_count_order x \<and> get_count_order x \<le> 32 \<and>
     unat x \<le> 2 ^ nat (get_count_order x) \<and>
     (\<forall>k. unat x \<le> 2 ^ k \<longrightarrow> nat (get_count_order x) \<le> k))"
  using count_order_least [of x] by (cases "x = 0") (auto simp: get_count_order_def)

theorem get_count_order_least_witness:
  "0 \<le> get_count_order 12 \<and> nat (get_count_order 12) \<le> 4"
  using get_count_order_least [of 12] by simp

section \<open>Storing the data of a cache\<close>

definition assign_cache_data ::
    "u8 \<Rightarrow> cache_type_t \<Rightarrow> int \<Rightarrow> int \<Rightarrow> int \<Rightarrow> cpu_id_t \<Rightarrow> cpu_id_t" where
  "assign_cache_data on cache sz assoc linesize data =
     (if on = 0 then data
      else case cache of
        L1I \<Rightarrow> data\<lparr>l1_instruction_cache := sz, l1_instruction_assoc := assoc,
                 l1_instruction_cacheline := linesize\<rparr>
      | L1D \<Rightarrow> data\<lparr>l1_data_cache := sz, l1_data_assoc := assoc,
                 l1_data_cacheline := linesize\<rparr>
      | L2 \<Rightarrow> data\<lparr>l2_cache := sz, l2_assoc := assoc, l2_cacheline := linesize\<rparr>
      | L3 \<Rightarrow> data\<lparr>l3_cache := sz, l3_assoc := assoc, l3_cacheline := linesize\<rparr>
      | L4 \<Rightarrow> data\<lparr>l4_cache := sz, l4_assoc := assoc, l4_cacheline := linesize\<rparr>)"

text \<open>Reading it back: size, associativity and line size of a cache.\<close>

definition cache_data :: "cache_type_t \<Rightarrow> cpu_id_t \<Rightarrow> int \<times> int \<times> int" where
  "cache_data cache data =
     (case cache of
        L1I \<Rightarrow> (l1_instruction_cache data, l1_instruction_assoc data, l1_instruction_cacheline data)
      | L1D \<Rightarrow> (l1_data_cache data, l1_data_assoc data, l1_data_cacheline data)
      | L2 \<Rightarrow> (l2_cache data, l2_assoc data, l2_cacheline data)
      | L3 \<Rightarrow> (l3_cache data, l3_assoc data, l3_cacheline data)
      | L4 \<Rightarrow> (l4_cache data, l4_assoc data, l4_cacheline data))"

lemma cache_data_assign:
  "cache_data c (assign_cache_data on c' s a l data) =
     (if on \<noteq> 0 \<and> c = c' then (s, a, l) else cache_data c data)"
  by (cases c; cases c') (simp_all add: cache_data_def assign_cache_data_def)

text \<open>The fields of \<^typ>\<open>cpu_id_t\<close> that are no cache data.\<close>

definition non_cache :: "cpu_id_t \<Rightarrow> cpu_id_t" where
  "non_cache data = data\<lparr>
     l1_data_cache := 0, l1_instruction_cache := 0, l2_cache := 0, l3_cache := 0, l4_cache := 0,
     l1_data_assoc := 0, l1_instruction_assoc := 0, l2_assoc := 0, l3_assoc := 0, l4_assoc := 0,
     l1_data_cacheline := 0, l1_instruction_cacheline := 0, l2_cacheline := 0,
     l3_cacheline := 0, l4_cacheline := 0\<rparr>"

lemma non_cache_assign [id_frame]:
  "non_cache (assign_cache_data on c s a l data) = non_cache data"
  by (cases c) (simp_all add: non_cache_def assign_cache_data_def)

section \<open>Deterministic cache parameters\<close>

text \<open>Which cache a subleaf describes, from its level and type fields.\<close>

definition subleaf_level :: "cpu_regs_t \<Rightarrow> u32" where
  "subleaf_level r = ucast (EXTRACTS_BITS (EAX r) 7 5)"

definition subleaf_type :: "cpu_regs_t \<Rightarrow> u32" where
  "subleaf_type r = ucast (EXTRACTS_BITS (EAX r) 4 0)"

definition subleaf_cache :: "cpu_regs_t \<Rightarrow> cache_type_t option" where
  "subleaf_cache r =
     (let cache_level = subleaf_level r; cache_type = subleaf_type r in
      if cache_level = 1 \<and> cache_type = 1 then Some L1D
      else if cache_level = 1 \<and> cache_type = 2 then Some L1I
      else if cache_level = 2 \<and> cache_type = 3 then Some L2
      else if cache_level = 3 \<and> cache_type = 3 then Some L3
      else if cache_level = 4 \<and> cache_type = 3 then Some L4
      else None)"

text \<open>
  The quantities of a subleaf. \<^verbatim>\<open>EXTRACTS_BITS(...) + 1\<close> is computed in 64 bits and stored in 32,
  and the product that gives the size is computed in 32 bits.
\<close>

definition sub_sharing :: "cpu_regs_t \<Rightarrow> u32" where
  "sub_sharing r = ucast (EXTRACTS_BITS (EAX r) 25 14 + 1)"

definition sub_ways :: "cpu_regs_t \<Rightarrow> u32" where
  "sub_ways r = ucast (EXTRACTS_BITS (EBX r) 31 22 + 1)"

definition sub_partitions :: "cpu_regs_t \<Rightarrow> u32" where
  "sub_partitions r = ucast (EXTRACTS_BITS (EBX r) 21 12 + 1)"

definition sub_linesize :: "cpu_regs_t \<Rightarrow> u32" where
  "sub_linesize r = ucast (EXTRACTS_BITS (EBX r) 11 0 + 1)"

definition sub_sets :: "cpu_regs_t \<Rightarrow> u32" where
  "sub_sets r = ucast (EXTRACTS_BITS (ECX r) 31 0 + 1)"

definition sub_size :: "cpu_regs_t \<Rightarrow> u32" where
  "sub_size r = sub_ways r * sub_partitions r * sub_linesize r * sub_sets r div 1024"

definition sub_mask :: "cpu_regs_t \<Rightarrow> u32" where
  "sub_mask r = NOT (push_bit (nat (get_count_order (sub_sharing r))) 1 - 1)"

text \<open>
  The loop over the subleaves. The mask is stored at the index \<open>i\<close> of the subleaf, in an array
  that has one element for each type of cache; an index outside it is undefined behaviour.
\<close>

function cache_info_loop ::
    "cpu_regs_t list \<Rightarrow> nat \<Rightarrow> nat \<Rightarrow> cpu_id_t \<Rightarrow> internal_id_info_t \<Rightarrow>
      (cpu_id_t \<times> internal_id_info_t) option" where
  "cache_info_loop cache_regs subleaf_count i data internal =
     (if i < subleaf_count then
        (case regs_at cache_regs i of
           None \<Rightarrow> None
         | Some r \<Rightarrow>
             if subleaf_level r = 0 \<or> subleaf_type r = 0 then Some (data, internal)
             else
               (case subleaf_cache r of
                  None \<Rightarrow> cache_info_loop cache_regs subleaf_count (Suc i) data internal
                | Some type \<Rightarrow>
                    if i < length (cache_mask internal) then
                      cache_info_loop cache_regs subleaf_count (Suc i)
                        (assign_cache_data 1 type (sint (sub_size r)) (sint (sub_ways r))
                          (sint (sub_linesize r)) data)
                        (internal\<lparr>cache_mask := (cache_mask internal)[i := sub_mask r]\<rparr>)
                    else None))
      else Some (data, internal))"
  by pat_completeness auto
termination
  by (relation "measure (\<lambda>(regs, n, i, d, t). n - i)") auto

declare cache_info_loop.simps [simp del]

definition decode_deterministic_cache_info_x86 ::
    "cpu_regs_t list \<Rightarrow> u8 \<Rightarrow> cpu_id_t \<Rightarrow> internal_id_info_t \<Rightarrow>
      (cpu_id_t \<times> internal_id_info_t) option" where
  "decode_deterministic_cache_info_x86 cache_regs subleaf_count data internal =
     cache_info_loop cache_regs (unat subleaf_count) 0 data internal"

section \<open>What the loop computes\<close>

text \<open>The subleaves it looks at: up to the first one without level or type.\<close>

definition valid_subleaf :: "cpu_regs_t \<Rightarrow> bool" where
  "valid_subleaf r \<longleftrightarrow> subleaf_level r \<noteq> 0 \<and> subleaf_type r \<noteq> 0"

definition listed_subleaves :: "cpu_regs_t list \<Rightarrow> nat \<Rightarrow> cpu_regs_t list" where
  "listed_subleaves regs n = takeWhile valid_subleaf (take n regs)"

text \<open>The last listed subleaf of a cache decides; without one the data stay.\<close>

definition cache_from :: "cache_type_t \<Rightarrow> cpu_regs_t list \<Rightarrow> cpu_id_t \<Rightarrow> int \<times> int \<times> int" where
  "cache_from c rs data =
     (case List.find (\<lambda>r. subleaf_cache r = Some c) (rev rs) of
        None \<Rightarrow> cache_data c data
      | Some r \<Rightarrow> (sint (sub_size r), sint (sub_ways r), sint (sub_linesize r)))"

lemma cache_from_Cons:
  "cache_from c (r # rs) data =
     cache_from c rs (if subleaf_cache r = Some c' then
       assign_cache_data 1 c' (sint (sub_size r)) (sint (sub_ways r)) (sint (sub_linesize r)) data
       else data)"
  if "subleaf_cache r \<in> {None, Some c'}"
  using that by (auto simp: cache_from_def find_append cache_data_assign split: option.splits)

text \<open>
  The subleaf at some index from \<open>i\<close> on describes a cache and its mask has no room in the array
  of \<open>len\<close> masks.
\<close>

definition overrun :: "cpu_regs_t list \<Rightarrow> nat \<Rightarrow> nat \<Rightarrow> nat \<Rightarrow> bool" where
  "overrun regs n i len \<longleftrightarrow>
     (\<exists>j. i \<le> j \<and> len \<le> j \<and> j < n \<and> subleaf_cache (regs ! j) \<noteq> None \<and>
        (\<forall>k. i \<le> k \<and> k \<le> j \<longrightarrow> valid_subleaf (regs ! k)))"

lemma overrun_end: "n \<le> i \<Longrightarrow> \<not> overrun regs n i len"
  by (auto simp: overrun_def)

lemma overrun_invalid: "\<not> valid_subleaf (regs ! i) \<Longrightarrow> \<not> overrun regs n i len"
  by (auto simp: overrun_def)

lemma overrun_step:
  assumes "i < n" and "valid_subleaf (regs ! i)"
  shows "overrun regs n i len \<longleftrightarrow>
    subleaf_cache (regs ! i) \<noteq> None \<and> len \<le> i \<or> overrun regs n (Suc i) len"
proof
  assume "overrun regs n i len"
  then obtain j where j: "i \<le> j" "len \<le> j" "j < n" "subleaf_cache (regs ! j) \<noteq> None"
    "\<forall>k. i \<le> k \<and> k \<le> j \<longrightarrow> valid_subleaf (regs ! k)"
    by (auto simp: overrun_def)
  then show "subleaf_cache (regs ! i) \<noteq> None \<and> len \<le> i \<or> overrun regs n (Suc i) len"
    by (cases "i = j") (auto simp: overrun_def intro!: exI [of _ j])
next
  assume "subleaf_cache (regs ! i) \<noteq> None \<and> len \<le> i \<or> overrun regs n (Suc i) len"
  then show "overrun regs n i len"
  proof
    assume "subleaf_cache (regs ! i) \<noteq> None \<and> len \<le> i"
    with assms show ?thesis by (auto simp: overrun_def intro!: exI [of _ i])
  next
    assume "overrun regs n (Suc i) len"
    then obtain j where "Suc i \<le> j" "len \<le> j" "j < n" "subleaf_cache (regs ! j) \<noteq> None"
      "\<forall>k. Suc i \<le> k \<and> k \<le> j \<longrightarrow> valid_subleaf (regs ! k)"
      by (auto simp: overrun_def)
    with assms(2) show ?thesis
      unfolding overrun_def by (intro exI [of _ j]) (metis Suc_leD Suc_leI le_neq_implies_less)
  qed
qed

text \<open>What is to be shown of a run from subleaf \<open>i\<close> on.\<close>

definition info_result ::
    "cpu_regs_t list \<Rightarrow> nat \<Rightarrow> nat \<Rightarrow> cpu_id_t \<Rightarrow> internal_id_info_t \<Rightarrow>
      (cpu_id_t \<times> internal_id_info_t) option \<Rightarrow> bool" where
  "info_result regs n i data internal res \<longleftrightarrow>
     (case res of
        None \<Rightarrow> overrun regs n i (length (cache_mask internal))
      | Some (data', internal') \<Rightarrow>
          \<not> overrun regs n i (length (cache_mask internal)) \<and>
          (\<forall>c. cache_data c data' =
             cache_from c (takeWhile valid_subleaf (drop i (take n regs))) data) \<and>
          non_cache data' = non_cache data \<and>
          id_score internal' = id_score internal \<and>
          length (cache_mask internal') = length (cache_mask internal))"

lemma info_result_step:
  assumes "info_result regs n (Suc i) data' internal' res"
    and "takeWhile valid_subleaf (drop i (take n regs)) =
      regs ! i # takeWhile valid_subleaf (drop (Suc i) (take n regs))"
    and "\<And>c rs. cache_from c (regs ! i # rs) data = cache_from c rs data'"
    and "non_cache data' = non_cache data" and "id_score internal' = id_score internal"
    and "length (cache_mask internal') = length (cache_mask internal)"
    and "overrun regs n i (length (cache_mask internal)) \<longleftrightarrow>
      overrun regs n (Suc i) (length (cache_mask internal))"
  shows "info_result regs n i data internal res"
  using assms by (auto simp: info_result_def split: option.splits)

lemma cache_info_loop_result:
  assumes "n \<le> length regs" and "i \<le> n"
  shows "info_result regs n i data internal (cache_info_loop regs n i data internal)"
  using assms
proof (induction regs n i data internal rule: cache_info_loop.induct)
  case (1 regs n i data internal)
  show ?case
  proof (cases "i < n")
    case False
    with 1 show ?thesis
      by (subst cache_info_loop.simps) (simp add: info_result_def cache_from_def overrun_end)
  next
    case i: True
    let ?r = "regs ! i" and ?rest = "takeWhile valid_subleaf (drop (Suc i) (take n regs))"
    have at: "regs_at regs i = Some ?r" using i "1.prems" by simp
    have split: "drop i (take n regs) = ?r # drop (Suc i) (take n regs)"
      using i "1.prems" by (simp add: Cons_nth_drop_Suc [symmetric])
    show ?thesis
    proof (cases "valid_subleaf ?r")
      case False
      with overrun_invalid [OF False] show ?thesis
        using i at split
        by (subst cache_info_loop.simps) (auto simp: valid_subleaf_def cache_from_def info_result_def)
    next
      case valid: True
      then have nz: "\<not> (subleaf_level ?r = 0 \<or> subleaf_type ?r = 0)"
        by (simp add: valid_subleaf_def)
      have tw: "takeWhile valid_subleaf (drop i (take n regs)) = ?r # ?rest"
        using valid split by simp
      note over = overrun_step [OF i valid]
      show ?thesis
      proof (cases "subleaf_cache ?r")
        case None
        then have step: "cache_info_loop regs n i data internal =
            cache_info_loop regs n (Suc i) data internal"
          using i nz at by (subst cache_info_loop.simps) simp
        show ?thesis
          unfolding step
          by (rule info_result_step [where data' = data and internal' = internal, OF _ tw])
            (use "1.IH"(1) [OF i at nz None] "1.prems" i None cache_from_Cons [of ?r] over
              in simp_all)
      next
        case (Some c)
        let ?data = "assign_cache_data 1 c (sint (sub_size ?r)) (sint (sub_ways ?r))
          (sint (sub_linesize ?r)) data"
        let ?internal = "internal\<lparr>cache_mask := (cache_mask internal)[i := sub_mask ?r]\<rparr>"
        show ?thesis
        proof (cases "i < length (cache_mask internal)")
          case True
          then have step: "cache_info_loop regs n i data internal =
              cache_info_loop regs n (Suc i) ?data ?internal"
            using i nz at Some by (subst cache_info_loop.simps) simp
          show ?thesis
            unfolding step
            by (rule info_result_step [where data' = ?data and internal' = ?internal, OF _ tw])
              (use "1.IH"(2) [OF i at nz Some True] "1.prems" i Some True
                cache_from_Cons [of ?r c] over in \<open>simp_all add: non_cache_assign\<close>)
        next
          case False
          then have "cache_info_loop regs n i data internal = None"
            using i nz at Some by (subst cache_info_loop.simps) simp
          with False Some over show ?thesis by (simp add: info_result_def)
        qed
      qed
    qed
  qed
qed

text \<open>
  C36: on an array that holds the subleaves asked for,
  \<^verbatim>\<open>decode_deterministic_cache_info_x86\<close> gives every cache the size, associativity and line size of
  the last subleaf that describes it, among those before the first empty subleaf, and leaves
  every other field as it was. It fails exactly when the subleaf at an index from 5 on
  describes a cache: the store \<^verbatim>\<open>cache_mask[i]\<close> is then outside the array of five masks, which
  Intel's limit of eight subleaves admits.
\<close>

theorem decode_deterministic_cache_info_spec:
  assumes "unat subleaf_count \<le> length regs" and "length (cache_mask internal) = NUM_CACHE_TYPES"
  shows "case decode_deterministic_cache_info_x86 regs subleaf_count data internal of
      None \<Rightarrow> overrun regs (unat subleaf_count) 0 NUM_CACHE_TYPES
    | Some (data', internal') \<Rightarrow>
        \<not> overrun regs (unat subleaf_count) 0 NUM_CACHE_TYPES \<and>
        (\<forall>c. cache_data c data' = cache_from c (listed_subleaves regs (unat subleaf_count)) data) \<and>
        non_cache data' = non_cache data"
  using cache_info_loop_result [of "unat subleaf_count" regs 0 data internal] assms
  by (auto simp: info_result_def decode_deterministic_cache_info_x86_def listed_subleaves_def
      split: option.splits)

text \<open>Leaf 4 of a client processor: L1D, L1I, L2 and L3.\<close>

definition sample_leaf4 :: "cpu_regs_t list" where
  "sample_leaf4 = [
     \<lparr>EAX = 0x1c004121, EBX = 0x01c0003f, ECX = 0x3f, EDX = 0\<rparr>,
     \<lparr>EAX = 0x1c004122, EBX = 0x01c0003f, ECX = 0x3f, EDX = 0\<rparr>,
     \<lparr>EAX = 0x1c004143, EBX = 0x00c0003f, ECX = 0x3ff, EDX = 0\<rparr>,
     \<lparr>EAX = 0x1c03c163, EBX = 0x03c0003f, ECX = 0x1fff, EDX = 6\<rparr>]"

lemma sample_leaf4_L3:
  "cache_from L3 (listed_subleaves sample_leaf4 4) cpu_id_t_constructor = (8192, 16, 64)"
  by code_simp

theorem decode_deterministic_cache_info_spec_witness:
  "case decode_deterministic_cache_info_x86 sample_leaf4 4
       cpu_id_t_constructor \<lparr>id_score = 0, cache_mask = replicate 5 0\<rparr> of
     None \<Rightarrow> False
   | Some (data, internal) \<Rightarrow> cache_data L3 data = (8192, 16, 64)"
proof -
  have "\<not> overrun sample_leaf4 4 0 5" by (auto simp: overrun_def)
  moreover have "unat (4 :: u8) \<le> length sample_leaf4" by (simp add: sample_leaf4_def)
  ultimately show ?thesis
    using decode_deterministic_cache_info_spec [of 4 sample_leaf4
        "\<lparr>id_score = 0, cache_mask = replicate 5 0\<rparr>" cpu_id_t_constructor]
    by (auto simp: sample_leaf4_L3 split: option.splits)
qed

text \<open>
  Six data cache subleaves on an Intel processor are enough for the store outside the array.
\<close>

lemma decode_deterministic_cache_info_overrun:
  assumes "length regs = 8" and "length (cache_mask internal) = 5"
    and "\<forall>k \<le> 5. valid_subleaf (regs ! k)" and "subleaf_cache (regs ! 5) \<noteq> None"
  shows "decode_deterministic_cache_info_x86 regs 8 data internal = None"
proof -
  have "overrun regs 8 0 5" using assms(3,4) by (auto simp: overrun_def intro!: exI [of _ 5])
  then show ?thesis
    using cache_info_loop_result [of 8 regs 0 data internal] assms(1,2)
    by (auto simp: info_result_def decode_deterministic_cache_info_x86_def split: option.splits)
qed

text \<open>At most five subleaves never leave the array of masks.\<close>

lemma non_cache_fields:
  assumes "non_cache d = non_cache d'"
  shows "flags d = flags d'" "vendor d = vendor d'" "x86 d = x86 d'" "num_cores d = num_cores d'"
    "num_logical_cpus d = num_logical_cpus d'" "feature_level d = feature_level d'"
  using arg_cong [OF assms, of flags] arg_cong [OF assms, of vendor] arg_cong [OF assms, of x86]
    arg_cong [OF assms, of num_cores] arg_cong [OF assms, of num_logical_cpus]
    arg_cong [OF assms, of feature_level]
  by (simp_all add: non_cache_def)

lemma decode_deterministic_small:
  assumes "unat n \<le> 5" and "unat n \<le> length regs" and "length (cache_mask internal) = NUM_CACHE_TYPES"
  shows "\<exists>d i. decode_deterministic_cache_info_x86 regs n data internal = Some (d, i) \<and>
    flags d = flags data \<and> vendor d = vendor data \<and> length (cache_mask i) = NUM_CACHE_TYPES"
proof -
  have "\<not> overrun regs (unat n) 0 NUM_CACHE_TYPES" using assms(1) by (auto simp: overrun_def)
  with cache_info_loop_result [OF assms(2), of 0 data internal] assms(3) show ?thesis
    by (auto simp: info_result_def decode_deterministic_cache_info_x86_def
        intro: non_cache_fields split: option.splits)
qed

end
