(* ===== verification/X86_Common.thy ===== *)
theory X86_Common
  imports Cpuid_Types
begin

text \<open>
  What all x86 processors share: \<^verbatim>\<open>match_features\<close> of \<^verbatim>\<open>libcpuid_util.c\<close>, and from
  \<^verbatim>\<open>cpuid_main.c\<close> the generic feature bits (\<^verbatim>\<open>load_features_common\<close>), the vendor string
  (\<^verbatim>\<open>cpuid_vendor_identify\<close>), the family, model and brand string (\<^verbatim>\<open>cpuid_basic_identify\<close>), the
  choice of the architecture (\<^verbatim>\<open>cpuid_architecture_identify\<close>) and the hypervisor signature
  (\<^verbatim>\<open>cpuid_get_hypervisor\<close>).

  The leaves are read at constant indices below 32, inside the arrays of every raw data
  record. The number of CPUs of the system (\<^verbatim>\<open>get_total_cpus\<close>) and the hypervisor leaf that is
  executed on the spot are parameters.
\<close>

section \<open>Feature bits\<close>

abbreviation (input) fm :: "nat \<Rightarrow> cpu_feature_t \<Rightarrow> feature_map_t" where
  "fm b f \<equiv> \<lparr>fm_bit = b, fm_feature = f\<rparr>"

fun match_features :: "feature_map_t list \<Rightarrow> u32 \<Rightarrow> cpu_id_t \<Rightarrow> cpu_id_t" where
  "match_features [] reg data = data"
| "match_features (e # es) reg data =
     match_features es reg
       (if reg AND push_bit (fm_bit e) 1 \<noteq> 0
        then data\<lparr>flags := (flags data)(fm_feature e := True)\<rparr> else data)"

text \<open>The features of a table whose bit is set.\<close>

definition features_in :: "feature_map_t list \<Rightarrow> u32 \<Rightarrow> cpu_feature_t set" where
  "features_in tab reg = fm_feature ` {e \<in> set tab. bit reg (fm_bit e)}"

lemma word_and_bit_iff: "(w :: 'a::len word) AND push_bit n 1 \<noteq> 0 \<longleftrightarrow> bit w n"
  by (simp add: push_bit_eq_mult and_exp_eq_0_iff_not_bit)

lemma features_in_simps [simp]:
  "features_in [] reg = {}"
  "features_in (e # es) reg =
     (if bit reg (fm_bit e) then insert (fm_feature e) (features_in es reg) else features_in es reg)"
  by (auto simp: features_in_def)

lemma set_flag_cong: "(\<And>f. F f = G f) \<Longrightarrow> data\<lparr>flags := F\<rparr> = data\<lparr>flags := G\<rparr>"
  by (rule arg_cong [of F G "\<lambda>H. data\<lparr>flags := H\<rparr>"]) (rule ext)

lemma match_features_flags:
  "match_features tab reg data = data\<lparr>flags := \<lambda>f. flags data f \<or> f \<in> features_in tab reg\<rparr>"
proof (induction tab reg data rule: match_features.induct)
  case (1 reg data)
  then show ?case by simp
next
  case (2 e es reg data)
  show ?case
    unfolding match_features.simps word_and_bit_iff "2.IH" [unfolded word_and_bit_iff]
    by (cases "bit reg (fm_bit e)") (auto intro!: set_flag_cong)
qed

subsection \<open>The tables of \<^verbatim>\<open>load_features_common\<close>\<close>

definition matchtable_edx1 :: "feature_map_t list" where
  "matchtable_edx1 = [
     fm 0 CPU_FEATURE_FPU,
     fm 1 CPU_FEATURE_VME,
     fm 2 CPU_FEATURE_DE,
     fm 3 CPU_FEATURE_PSE,
     fm 4 CPU_FEATURE_TSC,
     fm 5 CPU_FEATURE_MSR,
     fm 6 CPU_FEATURE_PAE,
     fm 7 CPU_FEATURE_MCE,
     fm 8 CPU_FEATURE_CX8,
     fm 9 CPU_FEATURE_APIC,
     fm 11 CPU_FEATURE_SEP,
     fm 12 CPU_FEATURE_MTRR,
     fm 13 CPU_FEATURE_PGE,
     fm 14 CPU_FEATURE_MCA,
     fm 15 CPU_FEATURE_CMOV,
     fm 16 CPU_FEATURE_PAT,
     fm 17 CPU_FEATURE_PSE36,
     fm 19 CPU_FEATURE_CLFLUSH,
     fm 23 CPU_FEATURE_MMX,
     fm 24 CPU_FEATURE_FXSR,
     fm 25 CPU_FEATURE_SSE,
     fm 26 CPU_FEATURE_SSE2,
     fm 28 CPU_FEATURE_HT]"

definition matchtable_ecx1 :: "feature_map_t list" where
  "matchtable_ecx1 = [
     fm 0 CPU_FEATURE_PNI,
     fm 1 CPU_FEATURE_PCLMUL,
     fm 3 CPU_FEATURE_MONITOR,
     fm 9 CPU_FEATURE_SSSE3,
     fm 12 CPU_FEATURE_FMA3,
     fm 13 CPU_FEATURE_CX16,
     fm 19 CPU_FEATURE_SSE4_1,
     fm 20 CPU_FEATURE_SSE4_2,
     fm 21 CPU_FEATURE_X2APIC,
     fm 22 CPU_FEATURE_MOVBE,
     fm 23 CPU_FEATURE_POPCNT,
     fm 25 CPU_FEATURE_AES,
     fm 26 CPU_FEATURE_XSAVE,
     fm 27 CPU_FEATURE_OSXSAVE,
     fm 28 CPU_FEATURE_AVX,
     fm 29 CPU_FEATURE_F16C,
     fm 30 CPU_FEATURE_RDRAND,
     fm 31 CPU_FEATURE_HYPERVISOR]"

definition matchtable_ebx7 :: "feature_map_t list" where
  "matchtable_ebx7 = [
     fm 3 CPU_FEATURE_BMI1,
     fm 5 CPU_FEATURE_AVX2,
     fm 8 CPU_FEATURE_BMI2,
     fm 16 CPU_FEATURE_AVX512F,
     fm 17 CPU_FEATURE_AVX512DQ,
     fm 18 CPU_FEATURE_RDSEED,
     fm 19 CPU_FEATURE_ADX,
     fm 28 CPU_FEATURE_AVX512CD,
     fm 29 CPU_FEATURE_SHA_NI,
     fm 30 CPU_FEATURE_AVX512BW,
     fm 31 CPU_FEATURE_AVX512VL]"

definition matchtable_ecx7 :: "feature_map_t list" where
  "matchtable_ecx7 = [
     fm 1 CPU_FEATURE_AVX512VBMI,
     fm 6 CPU_FEATURE_AVX512VBMI2,
     fm 11 CPU_FEATURE_AVX512VNNI]"

definition matchtable_edx81 :: "feature_map_t list" where
  "matchtable_edx81 = [
     fm 11 CPU_FEATURE_SYSCALL,
     fm 27 CPU_FEATURE_RDTSCP,
     fm 29 CPU_FEATURE_LM]"

definition matchtable_ecx81 :: "feature_map_t list" where
  "matchtable_ecx81 = [
     fm 0 CPU_FEATURE_LAHF_LM,
     fm 5 CPU_FEATURE_ABM]"

definition matchtable_edx87 :: "feature_map_t list" where
  "matchtable_edx87 = [
     fm 8 CPU_FEATURE_CONSTANT_TSC]"

text \<open>The feature bits, and the guess of the width of the SSE unit that follows.\<close>

definition load_common_flags :: "cpu_raw_data_t \<Rightarrow> cpu_id_t \<Rightarrow> cpu_id_t" where
  "load_common_flags raw data =
     (let basic = \<lambda>i. basic_cpuid raw ! i; ext = \<lambda>i. ext_cpuid raw ! i;
        data = (if EAX (basic 0) \<ge> 1 then
            match_features matchtable_ecx1 (ECX (basic 1))
              (match_features matchtable_edx1 (EDX (basic 1)) data) else data);
        data = (if EAX (basic 0) \<ge> 7 then
            match_features matchtable_ecx7 (ECX (basic 7))
              (match_features matchtable_ebx7 (EBX (basic 7)) data) else data);
        data = (if EAX (ext 0) \<ge> 0x80000001 then
            match_features matchtable_ecx81 (ECX (ext 1))
              (match_features matchtable_edx81 (EDX (ext 1)) data) else data)
      in if EAX (ext 0) \<ge> 0x80000007 then
           match_features matchtable_edx87 (EDX (ext 7)) data else data)"

definition guess_sse_size :: "cpu_id_t \<Rightarrow> cpu_id_t" where
  "guess_sse_size data =
     (if flags data CPU_FEATURE_SSE then
        (case vendor data of
           VENDOR_AMD \<Rightarrow>
             data\<lparr>x86 := (x86 data)\<lparr>sse_size :=
               (if ext_family (x86 data) \<ge> 16 \<and> ext_family (x86 data) \<noteq> 17 then 128 else 64)\<rparr>\<rparr>
         | VENDOR_INTEL \<Rightarrow>
             data\<lparr>x86 := (x86 data)\<lparr>sse_size :=
               (if family (x86 data) = 6 \<and> ext_model (x86 data) \<ge> 15 then 128 else 64)\<rparr>\<rparr>
         | _ \<Rightarrow> data)
      else data)"

definition load_features_common :: "cpu_raw_data_t \<Rightarrow> cpu_id_t \<Rightarrow> cpu_id_t" where
  "load_features_common raw data = guess_sse_size (load_common_flags raw data)"

text \<open>The registers that are consulted: the tables whose leaf the processor reports.\<close>

definition common_sources :: "cpu_raw_data_t \<Rightarrow> (feature_map_t list \<times> u32) list" where
  "common_sources raw =
     (let basic = \<lambda>i. basic_cpuid raw ! i; ext = \<lambda>i. ext_cpuid raw ! i in
      (if EAX (basic 0) \<ge> 1 then
         [(matchtable_edx1, EDX (basic 1)), (matchtable_ecx1, ECX (basic 1))] else []) @
      (if EAX (basic 0) \<ge> 7 then
         [(matchtable_ebx7, EBX (basic 7)), (matchtable_ecx7, ECX (basic 7))] else []) @
      (if EAX (ext 0) \<ge> 0x80000001 then
         [(matchtable_edx81, EDX (ext 1)), (matchtable_ecx81, ECX (ext 1))] else []) @
      (if EAX (ext 0) \<ge> 0x80000007 then [(matchtable_edx87, EDX (ext 7))] else []))"

definition features_from :: "(feature_map_t list \<times> u32) list \<Rightarrow> cpu_feature_t set" where
  "features_from srcs = (\<Union>(tab, reg) \<in> set srcs. features_in tab reg)"

lemma features_from_simps [simp]:
  "features_from [] = {}"
  "features_from ((tab, reg) # srcs) = features_in tab reg \<union> features_from srcs"
  "features_from (srcs @ srcs') = features_from srcs \<union> features_from srcs'"
  by (auto simp: features_from_def)

lemma load_common_flags_sources:
  "load_common_flags raw data =
     data\<lparr>flags := \<lambda>f. flags data f \<or> f \<in> features_from (common_sources raw)\<rparr>"
  unfolding load_common_flags_def common_sources_def Let_def match_features_flags
  by (cases "EAX (basic_cpuid raw ! 0) \<ge> 1"; cases "EAX (basic_cpuid raw ! 0) \<ge> 7";
      cases "EAX (ext_cpuid raw ! 0) \<ge> 0x80000001"; cases "EAX (ext_cpuid raw ! 0) \<ge> 0x80000007")
    (auto intro!: set_flag_cong)

lemma guess_sse_size_cases:
  "\<exists>w. guess_sse_size data = data\<lparr>x86 := (x86 data)\<lparr>sse_size := w\<rparr>\<rparr> \<and>
     (w = sse_size (x86 data) \<or>
      w \<in> {64, 128} \<and> vendor data \<in> {VENDOR_AMD, VENDOR_INTEL} \<and> flags data CPU_FEATURE_SSE)"
proof (cases "flags data CPU_FEATURE_SSE \<and> vendor data \<in> {VENDOR_AMD, VENDOR_INTEL}")
  case True
  then show ?thesis by (auto simp: guess_sse_size_def)
next
  case False
  then have "guess_sse_size data = data"
    unfolding guess_sse_size_def by (cases "vendor data") auto
  then show ?thesis by (auto intro!: exI [of _ "sse_size (x86 data)"])
qed

lemma load_features_common_frame:
  "\<exists>w. load_features_common raw data = data\<lparr>
     flags := \<lambda>f. flags data f \<or> f \<in> features_from (common_sources raw),
     x86 := (x86 data)\<lparr>sse_size := w\<rparr>\<rparr>"
  using guess_sse_size_cases [of "load_common_flags raw data"]
  by (auto simp: load_features_common_def load_common_flags_sources)

lemma flags_load_features_common:
  "flags (load_features_common raw data) f \<longleftrightarrow>
     flags data f \<or> f \<in> features_from (common_sources raw)"
  using load_features_common_frame [of raw data] by auto

lemma load_features_common_fields [simp]:
  "vendor (load_features_common raw data) = vendor data"
  "family (x86 (load_features_common raw data)) = family (x86 data)"
  "model (x86 (load_features_common raw data)) = model (x86 data)"
  "stepping (x86 (load_features_common raw data)) = stepping (x86 data)"
  "ext_family (x86 (load_features_common raw data)) = ext_family (x86 data)"
  "ext_model (x86 (load_features_common raw data)) = ext_model (x86 data)"
  "brand_str (load_features_common raw data) = brand_str data"
  "vendor_str (load_features_common raw data) = vendor_str data"
  "num_cores (load_features_common raw data) = num_cores data"
  using load_features_common_frame [of raw data] by auto

text \<open>
  \<^verbatim>\<open>load_features_common\<close> reports a feature exactly when it was reported before or its bit is
  set in a leaf that the processor supports; it never clears one, and beside the flags it
  changes at most the guessed SSE unit size, and that only for an AMD or Intel processor with SSE.
\<close>

theorem load_features_common_spec:
  "(\<exists>w. load_features_common raw data = data\<lparr>
     flags := \<lambda>f. flags data f \<or> f \<in> features_from (common_sources raw),
     x86 := (x86 data)\<lparr>sse_size := w\<rparr>\<rparr> \<and>
     (w = sse_size (x86 data) \<or> w \<in> {64, 128} \<and> vendor data \<in> {VENDOR_AMD, VENDOR_INTEL} \<and>
       (flags data CPU_FEATURE_SSE \<or> CPU_FEATURE_SSE \<in> features_from (common_sources raw))))"
  using guess_sse_size_cases [of "load_common_flags raw data"]
  by (auto simp: load_features_common_def load_common_flags_sources)

section \<open>The vendor\<close>

text \<open>The bytes of a register in memory order, and the C string of the first three registers.\<close>

definition word_chars :: "u32 \<Rightarrow> string" where
  "word_chars w = map (\<lambda>k. char_of (unat (drop_bit (8 * k) w))) [0, 1, 2, 3]"

definition c_string :: "string \<Rightarrow> string" where
  "c_string buf = takeWhile (\<lambda>c. c \<noteq> NUL) buf"

text \<open>
  The table has \<^verbatim>\<open>NUM_CPU_VENDORS\<close> (29) rows; the 18 rows after the initialised ones are zero,
  which is \<^const>\<open>VENDOR_INTEL\<close> with an empty string.
\<close>

definition vendor_matchtable :: "(cpu_vendor_t \<times> string) list" where
  "vendor_matchtable = [
     (VENDOR_INTEL, ''GenuineIntel''),
     (VENDOR_AMD, ''AuthenticAMD''),
     (VENDOR_CYRIX, ''CyrixInstead''),
     (VENDOR_NEXGEN, ''NexGenDriven''),
     (VENDOR_TRANSMETA, ''GenuineTMx86''),
     (VENDOR_UMC, ''UMC UMC UMC ''),
     (VENDOR_CENTAUR, ''CentaurHauls''),
     (VENDOR_RISE, ''RiseRiseRise''),
     (VENDOR_SIS, ''SiS SiS SiS ''),
     (VENDOR_NSC, ''Geode by NSC''),
     (VENDOR_HYGON, ''HygonGenuine'')] @ replicate 18 (VENDOR_INTEL, [])"

definition cpuid_vendor_identify :: "cpu_regs_t \<Rightarrow> cpu_vendor_t \<times> string" where
  "cpuid_vendor_identify raw_vendor =
     (let vendor_str = c_string
        (word_chars (EBX raw_vendor) @ word_chars (EDX raw_vendor) @ word_chars (ECX raw_vendor))
      in (case List.find (\<lambda>(v, match). vendor_str = match) vendor_matchtable of
            None \<Rightarrow> VENDOR_UNKNOWN
          | Some (v, match) \<Rightarrow> v,
          vendor_str))"

text \<open>The rows that the source initialises.\<close>

definition vendor_strings :: "(cpu_vendor_t \<times> string) list" where
  "vendor_strings = take 11 vendor_matchtable"

lemma vendor_matchtable_split:
  "vendor_matchtable = vendor_strings @ replicate 18 (VENDOR_INTEL, [])"
  by (simp add: vendor_strings_def vendor_matchtable_def)

lemma vendor_strings_nonempty: "(v, s) \<in> set vendor_strings \<Longrightarrow> s \<noteq> [] \<and> v \<noteq> VENDOR_UNKNOWN"
  by (auto simp: vendor_strings_def vendor_matchtable_def)

lemma vendor_strings_distinct: "distinct (map snd vendor_strings)"
  by (simp add: vendor_strings_def vendor_matchtable_def)

definition vendor_of_string :: "string \<Rightarrow> cpu_vendor_t" where
  "vendor_of_string s =
     (case List.find (\<lambda>(v, match). s = match) vendor_matchtable of
        None \<Rightarrow> VENDOR_UNKNOWN | Some (v, match) \<Rightarrow> v)"

lemma vendor_of_empty: "vendor_of_string [] = VENDOR_INTEL"
proof -
  have "replicate 18 x = x # replicate 17 x" for x :: "cpu_vendor_t \<times> string"
    by (simp flip: replicate_Suc)
  then show ?thesis by (simp add: vendor_of_string_def vendor_matchtable_def)
qed

lemma vendor_of_string_cases:
  assumes "s \<noteq> []"
  shows "if s \<in> snd ` set vendor_strings then (vendor_of_string s, s) \<in> set vendor_strings
    else vendor_of_string s = VENDOR_UNKNOWN"
proof -
  have none: "List.find (\<lambda>(v, match). s = match) (replicate 18 (VENDOR_INTEL, [])) = None"
    using assms by (auto simp: find_None_iff)
  show ?thesis
  proof (cases "List.find (\<lambda>(v, match). s = match) vendor_strings")
    case None
    then have "s \<notin> snd ` set vendor_strings" by (auto simp: find_None_iff)
    moreover have "List.find (\<lambda>(v, match). s = match) vendor_matchtable = None"
      using None none by (auto simp: vendor_matchtable_split find_None_iff)
    ultimately show ?thesis by (simp add: vendor_of_string_def)
  next
    case (Some p)
    then have "List.find (\<lambda>(v, match). s = match) vendor_matchtable = Some p"
      by (simp add: vendor_matchtable_split find_append)
    moreover have "p \<in> set vendor_strings" "snd p = s"
      using Some by (auto simp: find_Some_iff in_set_conv_nth)
    ultimately show ?thesis
      by (cases p) (auto simp: vendor_of_string_def image_iff intro: bexI [where x = p])
  qed
qed

text \<open>
  \<^verbatim>\<open>cpuid_vendor_identify\<close> returns the vendor whose string the registers EBX, EDX and ECX
  spell, and \<^const>\<open>VENDOR_UNKNOWN\<close> for any other string, except the empty one: the 18 zeroed rows
  at the end of the table make an empty vendor string an Intel processor.
\<close>

theorem cpuid_vendor_identify_spec:
  "let (v, s) = cpuid_vendor_identify r in
     s = c_string (word_chars (EBX r) @ word_chars (EDX r) @ word_chars (ECX r)) \<and>
     (if s = [] then v = VENDOR_INTEL
      else if s \<in> snd ` set vendor_strings then (v, s) \<in> set vendor_strings
      else v = VENDOR_UNKNOWN)"
proof -
  define s where "s = c_string (word_chars (EBX r) @ word_chars (EDX r) @ word_chars (ECX r))"
  have "cpuid_vendor_identify r = (vendor_of_string s, s)"
    by (simp add: cpuid_vendor_identify_def vendor_of_string_def s_def Let_def)
  then show ?thesis
    unfolding s_def [symmetric]
    using vendor_of_string_cases [of s] vendor_of_empty by (cases "s = []") simp_all
qed

lemmas word_chars_eval = word_chars_def char_of_def bit_0

lemma vendor_GenuineIntel:
  "cpuid_vendor_identify \<lparr>EAX = a, EBX = 0x756e6547, ECX = 0x6c65746e, EDX = 0x49656e69\<rparr> =
     (VENDOR_INTEL, ''GenuineIntel'')"
  by (simp add: cpuid_vendor_identify_def word_chars_eval c_string_def vendor_matchtable_def)

lemma vendor_AuthenticAMD:
  "cpuid_vendor_identify \<lparr>EAX = a, EBX = 0x68747541, ECX = 0x444d4163, EDX = 0x69746e65\<rparr> =
     (VENDOR_AMD, ''AuthenticAMD'')"
  by (simp add: cpuid_vendor_identify_def word_chars_eval c_string_def vendor_matchtable_def)

section \<open>Family, model and brand string\<close>

definition cpuid_architecture_identify :: "cpu_raw_data_t \<Rightarrow> cpu_architecture_t" where
  "cpuid_architecture_identify raw =
     (let r = basic_cpuid raw ! 0 in
      if EAX r \<noteq> 0 \<or> EBX r \<noteq> 0 \<or> ECX r \<noteq> 0 \<or> EDX r \<noteq> 0 then ARCHITECTURE_X86
      else if arm_midr raw \<noteq> 0 then ARCHITECTURE_ARM
      else ARCHITECTURE_UNKNOWN)"

text \<open>A field of \<open>n\<close> bits at position \<open>k\<close>, \<^verbatim>\<open>(reg >> k) & (2^n - 1)\<close>, as an \<^verbatim>\<open>int\<close>.\<close>

definition reg_field :: "u32 \<Rightarrow> nat \<Rightarrow> u32 \<Rightarrow> int" where
  "reg_field reg k msk = uint (drop_bit k reg AND msk)"

text \<open>The signature of leaf 1.\<close>

definition decode_signature :: "u32 \<Rightarrow> cpu_id_t \<Rightarrow> cpu_id_t" where
  "decode_signature eax data =
     (let fam = reg_field eax 8 0xf; md = reg_field eax 4 0xf; step = reg_field eax 0 0xf;
        xmodel = reg_field eax 16 0xf; xfamily = reg_field eax 20 0xff
      in data\<lparr>x86 := (x86 data)\<lparr>
           family := fam, model := md, stepping := step,
           ext_family :=
             (if vendor data = VENDOR_AMD \<and> fam < 0xf then fam else fam + xfamily),
           ext_model := md + xmodel * 16\<rparr>\<rparr>)"

text \<open>
  The 48 characters of the extended leaves 2 to 4, without the blanks at the front.
\<close>

definition brand_chars :: "cpu_raw_data_t \<Rightarrow> string" where
  "brand_chars raw = concat (map (\<lambda>i.
     let r = ext_cpuid raw ! (2 + i) in
     word_chars (EAX r) @ word_chars (EBX r) @ word_chars (ECX r) @ word_chars (EDX r)) [0, 1, 2])"

definition decode_brand :: "cpu_raw_data_t \<Rightarrow> string" where
  "decode_brand raw =
     take 48 (c_strncpy BRAND_STR_MAX (dropWhile (\<lambda>c. c = CHR '' '') (c_string (brand_chars raw))))"

text \<open>
  The result is the error code, which is also stored in \<^verbatim>\<open>_libcpuid_errno\<close>, and the data.
  \<^verbatim>\<open>basic\<close> and \<^verbatim>\<open>ext\<close> are signed.
\<close>

definition cpuid_basic_identify ::
    "int \<Rightarrow> cpu_raw_data_t \<Rightarrow> cpu_id_t \<Rightarrow> cpu_error_t \<times> cpu_id_t" where
  "cpuid_basic_identify total_cpus raw data =
     (let (v, s) = cpuid_vendor_identify (basic_cpuid raw ! 0);
        data = data\<lparr>vendor := v, vendor_str := s\<rparr>
      in if v = VENDOR_UNKNOWN then (ERR_CPU_UNKN, data)
         else
           let basic = sint (EAX (basic_cpuid raw ! 0));
             data = (if basic \<ge> 1 then decode_signature (EAX (basic_cpuid raw ! 1)) data else data);
             ext = sint (EAX (ext_cpuid raw ! 0) - 0x80000000);
             data = (if ext \<ge> 4 then data\<lparr>brand_str := decode_brand raw\<rparr> else data);
             data = load_features_common raw data
           in (ERR_OK, data\<lparr>total_logical_cpus := total_cpus\<rparr>))"

lemma reg_field_eq: "reg_field reg k (Bit_Operations.mask n) = uint reg div 2 ^ k mod 2 ^ n"
proof -
  have "uint reg mod 2 ^ 32 = uint reg"
    using uint_bounded [of reg] by (intro mod_pos_pos_trivial) auto
  then show ?thesis
    unfolding reg_field_def take_bit_eq_mask [symmetric] unsigned_take_bit_eq
      unsigned_drop_bit_eq
    by (simp add: take_bit_eq_mod drop_bit_eq_div)
qed

lemma reg_field_nibble: "reg_field reg k 0xf = uint reg div 2 ^ k mod 16"
  using reg_field_eq [of reg k 4] by (simp add: mask_eq_decr_exp)

lemma reg_field_byte: "reg_field reg k 0xff = uint reg div 2 ^ k mod 256"
  using reg_field_eq [of reg k 8] by (simp add: mask_eq_decr_exp)

text \<open>
  the fields that \<^verbatim>\<open>cpuid_basic_identify\<close> extracts from EAX of leaf 1 are within their
  documented ranges, the extended model has the model as its low nibble, the extended family is
  the family alone only for an AMD processor below family 15, and together the fields determine
  the bits 0 to 11 and 16 to 27 of the register again.
\<close>

theorem decode_signature_fields:
  "let x = x86 (decode_signature eax data) in
     0 \<le> family x \<and> family x < 16 \<and> 0 \<le> model x \<and> model x < 16 \<and>
     0 \<le> stepping x \<and> stepping x < 16 \<and>
     family x \<le> ext_family x \<and> ext_family x \<le> 270 \<and>
     model x \<le> ext_model x \<and> ext_model x < 256 \<and> ext_model x mod 16 = model x \<and>
     uint eax mod 2 ^ 12 = family x * 256 + model x * 16 + stepping x \<and>
     uint eax div 2 ^ 16 mod 16 = ext_model x div 16 \<and>
     (if vendor data = VENDOR_AMD \<and> family x < 15 then ext_family x = family x
      else uint eax div 2 ^ 20 mod 256 = ext_family x - family x)"
proof -
  define e where "e = uint eax"
  define f m st xm xf where "f = e div 256 mod 16" and "m = e div 16 mod 16" and "st = e mod 16"
    and "xm = e div 65536 mod 16" and "xf = e div 1048576 mod 256"
  have b: "0 \<le> f" "f < 16" "0 \<le> m" "m < 16" "0 \<le> st" "st < 16" "0 \<le> xm" "xm < 16"
    "0 \<le> xf" "xf < 256"
    by (simp_all add: f_def m_def st_def xm_def xf_def)
  have low: "e mod 4096 = f * 256 + m * 16 + st"
    using zmod_zmult2_eq [of 16 e 256] zmod_zmult2_eq [of 16 e 16]
    by (simp add: f_def m_def st_def)
  have x: "x86 (decode_signature eax data) = (x86 data)\<lparr>family := f, model := m, stepping := st,
      ext_family := (if vendor data = VENDOR_AMD \<and> f < 15 then f else f + xf),
      ext_model := m + xm * 16\<rparr>"
    by (simp add: decode_signature_def Let_def reg_field_nibble reg_field_byte f_def m_def st_def
        xm_def xf_def e_def)
  have up: "(m + xm * 16) mod 16 = m" "(m + xm * 16) div 16 = xm"
    using b by simp_all
  have hi: "e div 2 ^ 16 mod 16 = xm" "e div 2 ^ 20 mod 256 = xf" "e mod 2 ^ 12 = f * 256 + m * 16 + st"
    using low by (simp_all add: xm_def xf_def)
  have ef: "f \<le> (if vendor data = VENDOR_AMD \<and> f < 15 then f else f + xf)"
    "(if vendor data = VENDOR_AMD \<and> f < 15 then f else f + xf) \<le> 270"
    using b by auto
  show ?thesis
    unfolding x e_def [symmetric] hi Let_def x86_id_t.simps up
    using b ef by auto
qed

lemma c_string_no_NUL: "NUL \<notin> set (c_string s)"
  by (auto simp: c_string_def dest: set_takeWhileD)

lemma set_dropWhile_sub: "x \<in> set (dropWhile P xs) \<Longrightarrow> x \<in> set xs"
  by (metis UnCI set_append takeWhile_dropWhile_id)

lemma decode_brand_ok:
  "length (decode_brand raw) \<le> 48" "NUL \<notin> set (decode_brand raw)"
  "decode_brand raw \<noteq> [] \<Longrightarrow> hd (decode_brand raw) \<noteq> CHR '' ''"
proof -
  let ?s = "dropWhile (\<lambda>c. c = CHR '' '') (c_string (brand_chars raw))"
  have d: "decode_brand raw = take 48 ?s"
    by (simp add: decode_brand_def c_strncpy_def take_take min_def)
  show "length (decode_brand raw) \<le> 48" by (simp add: d)
  show "NUL \<notin> set (decode_brand raw)"
    unfolding d using c_string_no_NUL by (auto dest!: in_set_takeD set_dropWhile_sub)
  show "hd (decode_brand raw) \<noteq> CHR '' ''" if "decode_brand raw \<noteq> []"
    using that hd_dropWhile [of "\<lambda>c. c = CHR '' ''" "c_string (brand_chars raw)"]
    unfolding d by (cases ?s) auto
qed

text \<open>The brand string a processor may have: at most 48 characters, no NUL inside.\<close>

definition brand_ok :: "string \<Rightarrow> bool" where
  "brand_ok s \<longleftrightarrow> length s \<le> 48 \<and> NUL \<notin> set s"

lemma decode_signature_keeps [simp]:
  "flags (decode_signature eax data) = flags data"
  "vendor (decode_signature eax data) = vendor data"
  "vendor_str (decode_signature eax data) = vendor_str data"
  "brand_str (decode_signature eax data) = brand_str data"
  "num_cores (decode_signature eax data) = num_cores data"
  by (simp_all add: decode_signature_def Let_def)

lemma basic_identify_unknown:
  assumes "fst (cpuid_vendor_identify (basic_cpuid raw ! 0)) = VENDOR_UNKNOWN"
  shows "cpuid_basic_identify total_cpus raw data =
    (ERR_CPU_UNKN, data\<lparr>vendor := VENDOR_UNKNOWN,
       vendor_str := snd (cpuid_vendor_identify (basic_cpuid raw ! 0))\<rparr>)"
  using assms
  by (cases "cpuid_vendor_identify (basic_cpuid raw ! 0)") (simp add: cpuid_basic_identify_def)

lemma basic_identify_known:
  assumes "fst (cpuid_vendor_identify (basic_cpuid raw ! 0)) \<noteq> VENDOR_UNKNOWN"
  obtains d where "cpuid_basic_identify total_cpus raw data = (ERR_OK, d)"
    and "vendor d = fst (cpuid_vendor_identify (basic_cpuid raw ! 0))"
    and "total_logical_cpus d = total_cpus"
    and "flags d = (\<lambda>f. flags data f \<or> f \<in> features_from (common_sources raw))"
    and "brand_str d = brand_str data \<or> brand_str d = decode_brand raw"
proof -
  obtain v s where v: "cpuid_vendor_identify (basic_cpuid raw ! 0) = (v, s)" by fastforce
  define d1 where "d1 = data\<lparr>vendor := v, vendor_str := s\<rparr>"
  define d2 where "d2 = (if sint (EAX (basic_cpuid raw ! 0)) \<ge> 1
    then decode_signature (EAX (basic_cpuid raw ! 1)) d1 else d1)"
  define d3 where "d3 = (if sint (EAX (ext_cpuid raw ! 0) - 0x80000000) \<ge> 4
    then d2\<lparr>brand_str := decode_brand raw\<rparr> else d2)"
  have "cpuid_basic_identify total_cpus raw data =
      (ERR_OK, (load_features_common raw d3)\<lparr>total_logical_cpus := total_cpus\<rparr>)"
    using assms v by (simp add: cpuid_basic_identify_def Let_def d1_def d2_def d3_def)
  moreover have "flags d3 = flags data" "vendor d3 = v"
    "brand_str d3 = brand_str data \<or> brand_str d3 = decode_brand raw"
    by (auto simp: d1_def d2_def d3_def)
  ultimately show thesis
    using v by (intro that [of "(load_features_common raw d3)\<lparr>total_logical_cpus := total_cpus\<rparr>"])
      (simp_all add: flags_load_features_common fun_eq_iff)
qed

text \<open>
  \<^verbatim>\<open>cpuid_basic_identify\<close> fails with \<^const>\<open>ERR_CPU_UNKN\<close> exactly for an unknown vendor, and then
  has stored the vendor and its string and nothing else. Otherwise it reports exactly the generic
  features of the leaves the processor supports, in addition to those already set, and it
  leaves a brand string of at most 48 characters.
\<close>

theorem cpuid_basic_identify_spec:
  "let (err, d) = cpuid_basic_identify total_cpus raw data in
     (err = ERR_OK \<and> vendor d \<noteq> VENDOR_UNKNOWN \<and> total_logical_cpus d = total_cpus \<and>
        flags d = (\<lambda>f. flags data f \<or> f \<in> features_from (common_sources raw)) \<and>
        (brand_str d = brand_str data \<or> brand_ok (brand_str d)) \<or>
      err = ERR_CPU_UNKN \<and> vendor d = VENDOR_UNKNOWN \<and>
        d = data\<lparr>vendor := VENDOR_UNKNOWN, vendor_str := vendor_str d\<rparr>)"
proof (cases "fst (cpuid_vendor_identify (basic_cpuid raw ! 0)) = VENDOR_UNKNOWN")
  case True
  then show ?thesis by (simp add: basic_identify_unknown)
next
  case False
  then obtain d where "cpuid_basic_identify total_cpus raw data = (ERR_OK, d)"
    "vendor d \<noteq> VENDOR_UNKNOWN" "total_logical_cpus d = total_cpus"
    "flags d = (\<lambda>f. flags data f \<or> f \<in> features_from (common_sources raw))"
    "brand_str d = brand_str data \<or> brand_str d = decode_brand raw"
    using basic_identify_known [of raw total_cpus data] by metis
  then show ?thesis using decode_brand_ok [of raw] by (auto simp: brand_ok_def)
qed

section \<open>The hypervisor signature\<close>

text \<open>
  The table has \<^verbatim>\<open>NUM_HYPERVISOR_VENDORS\<close> (9) rows, of which the last is zero: \<^const>\<open>HYPERVISOR_NONE\<close>
  with an empty string. The strings end at their first NUL.
\<close>

definition hypervisor_matchtable :: "(hypervisor_vendor_t \<times> string) list" where
  "hypervisor_matchtable = [
     (HYPERVISOR_BHYVE, ''bhyve bhyve''),
     (HYPERVISOR_HYPERV, ''Microsoft Hv''),
     (HYPERVISOR_KVM, ''KVMKVMKVM''),
     (HYPERVISOR_PARALLELS, ''prl hyperv''),
     (HYPERVISOR_QEMU, ''TCGTCGTCGTCG''),
     (HYPERVISOR_VIRTUALBOX, ''VBoxVBoxVBox''),
     (HYPERVISOR_VMWARE, ''VMwareVMware''),
     (HYPERVISOR_XEN, ''XenVMMXenVMM''),
     (HYPERVISOR_NONE, [])]"

text \<open>
  \<^verbatim>\<open>cpuid_get_hypervisor\<close> after its \<open>data\<close> is known: \<open>leaf\<close> is what CPUID 40000000h returns.
\<close>

definition hypervisor_of :: "cpu_regs_t \<Rightarrow> cpu_id_t \<Rightarrow> hypervisor_vendor_t" where
  "hypervisor_of leaf data =
     (if vendor data \<notin> {VENDOR_AMD, VENDOR_INTEL} then HYPERVISOR_UNKNOWN
      else if \<not> flags data CPU_FEATURE_HYPERVISOR then HYPERVISOR_NONE
      else
        let hypervisor_str = c_string
          (word_chars (EBX leaf) @ word_chars (ECX leaf) @ word_chars (EDX leaf))
        in (case List.find (\<lambda>(h, match). hypervisor_str = match) hypervisor_matchtable of
              None \<Rightarrow> HYPERVISOR_UNKNOWN | Some (h, match) \<Rightarrow> h))"

text \<open>
  with the hypervisor bit set, an AMD or Intel processor is reported to run under no
  hypervisor exactly when the signature is empty, which the zeroed last row of the table matches;
  without the bit no signature is looked at.
\<close>

theorem hypervisor_none_iff:
  "hypervisor_of leaf data = HYPERVISOR_NONE \<longleftrightarrow>
     vendor data \<in> {VENDOR_AMD, VENDOR_INTEL} \<and>
     \<not> (flags data CPU_FEATURE_HYPERVISOR \<and>
       c_string (word_chars (EBX leaf) @ word_chars (ECX leaf) @ word_chars (EDX leaf)) \<noteq> [])"
  by (auto simp: hypervisor_of_def Let_def hypervisor_matchtable_def)

end
