(* ===== verification/X86_Levels.thy ===== *)
theory X86_Levels
  imports Cpuid_Types
begin

text \<open>
  The generic core count and the microarchitecture level of x86 processors
  (\<^verbatim>\<open>decode_number_of_cores_x86\<close> and \<^verbatim>\<open>decode_architecture_version_x86\<close> of \<^verbatim>\<open>libcpuid_util.c\<close>).
\<close>

section \<open>Number of cores\<close>

definition decode_number_of_cores_x86 :: "cpu_raw_data_t \<Rightarrow> cpu_id_t \<Rightarrow> cpu_id_t" where
  "decode_number_of_cores_x86 raw data =
     (let max_leaf = EAX (basic_cpuid raw ! 0);
        logical_cpus = (if max_leaf \<ge> 1
          then uint (drop_bit 16 (EBX (basic_cpuid raw ! 1)) AND 0xff) else -1);
        cores = (if max_leaf \<ge> 1 \<and> max_leaf \<ge> 4
          then 1 + uint (drop_bit 26 (EAX (basic_cpuid raw ! 4)) AND 0x3f) else -1);
        at_least_one = (if logical_cpus \<ge> 1 then logical_cpus else 1)
      in if flags data CPU_FEATURE_HT then
           (if cores > 1 then data\<lparr>num_cores := cores, num_logical_cpus := logical_cpus\<rparr>
            else
              let data = data\<lparr>num_cores := 1, num_logical_cpus := at_least_one\<rparr>
              in if num_logical_cpus data = 1
                 then data\<lparr>flags := (flags data)(CPU_FEATURE_HT := False)\<rparr> else data)
         else data\<lparr>num_cores := at_least_one, num_logical_cpus := at_least_one\<rparr>)"

lemma and_0xff_less: "uint ((w :: u32) AND 0xff) < 256"
proof -
  have "w AND 0xff = take_bit 8 w" by (simp add: take_bit_eq_mask mask_eq_decr_exp)
  then have "uint (w AND 0xff) = take_bit 8 (uint w)" by (simp only: unsigned_take_bit_eq)
  then show ?thesis using take_bit_int_less_exp [of 8 "uint w"] by simp
qed

lemma and_0x3f_less: "uint ((w :: u32) AND 0x3f) < 64"
proof -
  have "w AND 0x3f = take_bit 6 w" by (simp add: take_bit_eq_mask mask_eq_decr_exp)
  then have "uint (w AND 0x3f) = take_bit 6 (uint w)" by (simp only: unsigned_take_bit_eq)
  then show ?thesis using take_bit_int_less_exp [of 6 "uint w"] by simp
qed

lemma decode_number_of_cores_facts:
  "let d = decode_number_of_cores_x86 raw data in
     1 \<le> num_cores d \<and> num_cores d \<le> 255 \<and> -1 \<le> num_logical_cpus d \<and> num_logical_cpus d \<le> 255 \<and>
     (\<forall>f. f = CPU_FEATURE_HT \<or> flags d f = flags data f) \<and>
     (flags d CPU_FEATURE_HT \<longleftrightarrow>
        flags data CPU_FEATURE_HT \<and> \<not> (num_cores d = 1 \<and> num_logical_cpus d = 1)) \<and>
     (num_logical_cpus d < num_cores d \<longleftrightarrow>
        flags data CPU_FEATURE_HT \<and> EAX (basic_cpuid raw ! 0) \<ge> 4 \<and>
        uint (drop_bit 16 (EBX (basic_cpuid raw ! 1)) AND 0xff) <
          1 + uint (drop_bit 26 (EAX (basic_cpuid raw ! 4)) AND 0x3f) \<and>
        1 \<le> uint (drop_bit 26 (EAX (basic_cpuid raw ! 4)) AND 0x3f))"
proof -
  define l c where "l = uint (drop_bit 16 (EBX (basic_cpuid raw ! 1)) AND 0xff)"
    and "c = uint (drop_bit 26 (EAX (basic_cpuid raw ! 4)) AND 0x3f)"
  have "0 \<le> l" "l < 256" "0 \<le> c" "c < 64"
    using and_0xff_less and_0x3f_less by (simp_all add: l_def c_def)
  moreover have "(1 :: u32) \<le> 4" by (simp add: word_le_nat_alt)
  then have "EAX (basic_cpuid raw ! 0) \<ge> 4 \<Longrightarrow> EAX (basic_cpuid raw ! 0) \<ge> 1"
    by (rule order_trans)
  ultimately show ?thesis
    unfolding decode_number_of_cores_x86_def Let_def l_def [symmetric] c_def [symmetric]
    by (cases "EAX (basic_cpuid raw ! 0) \<ge> 4"; cases "EAX (basic_cpuid raw ! 0) \<ge> 1";
        cases "flags data CPU_FEATURE_HT"; cases "c \<ge> 1"; cases "l > 1") auto
qed

text \<open>
  \<^verbatim>\<open>decode_number_of_cores_x86\<close> reports between 1 and 255 cores and at most 255 logical
  processors; it clears the hyper-threading flag exactly when that flag stands on a processor
  with a single logical one, and changes no other flag. With hyper-threading and several cores
  the logical count is the raw field of leaf 1, which nothing relates to the number of cores.
\<close>

theorem decode_number_of_cores_spec:
  "let d = decode_number_of_cores_x86 raw data in
     1 \<le> num_cores d \<and> num_cores d \<le> 255 \<and> -1 \<le> num_logical_cpus d \<and> num_logical_cpus d \<le> 255 \<and>
     (\<forall>f. f = CPU_FEATURE_HT \<or> flags d f = flags data f) \<and>
     (flags d CPU_FEATURE_HT \<longleftrightarrow>
        flags data CPU_FEATURE_HT \<and> \<not> (num_cores d = 1 \<and> num_logical_cpus d = 1)) \<and>
     (num_logical_cpus d < num_cores d \<longleftrightarrow>
        flags data CPU_FEATURE_HT \<and> EAX (basic_cpuid raw ! 0) \<ge> 4 \<and>
        uint (drop_bit 16 (EBX (basic_cpuid raw ! 1)) AND 0xff) <
          1 + uint (drop_bit 26 (EAX (basic_cpuid raw ! 4)) AND 0x3f) \<and>
        1 \<le> uint (drop_bit 26 (EAX (basic_cpuid raw ! 4)) AND 0x3f))"
  by (rule decode_number_of_cores_facts)

section \<open>Microarchitecture levels\<close>

definition architecture_matchtable_ia_32 :: "(int \<times> cpu_feature_level_t) list" where
  "architecture_matchtable_ia_32 = [
     (3, FEATURE_LEVEL_I386),
     (4, FEATURE_LEVEL_I486),
     (5, FEATURE_LEVEL_I586),
     (6, FEATURE_LEVEL_I686),
     (15, FEATURE_LEVEL_I686)]"

definition architecture_x86_64_v1 :: "cpu_feature_t list" where
  "architecture_x86_64_v1 = [CPU_FEATURE_CMOV, CPU_FEATURE_CX8, CPU_FEATURE_FPU,
     CPU_FEATURE_FXSR, CPU_FEATURE_MMX, CPU_FEATURE_SSE, CPU_FEATURE_SSE2]"

definition architecture_x86_64_v2 :: "cpu_feature_t list" where
  "architecture_x86_64_v2 = [CPU_FEATURE_CX16, CPU_FEATURE_LAHF_LM, CPU_FEATURE_POPCNT,
     CPU_FEATURE_PNI, CPU_FEATURE_SSE4_1, CPU_FEATURE_SSE4_2, CPU_FEATURE_SSSE3]"

definition architecture_x86_64_v3 :: "cpu_feature_t list" where
  "architecture_x86_64_v3 = [CPU_FEATURE_AVX, CPU_FEATURE_AVX2, CPU_FEATURE_BMI1,
     CPU_FEATURE_BMI2, CPU_FEATURE_F16C, CPU_FEATURE_FMA3, CPU_FEATURE_ABM, CPU_FEATURE_MOVBE,
     CPU_FEATURE_OSXSAVE]"

definition architecture_x86_64_v4 :: "cpu_feature_t list" where
  "architecture_x86_64_v4 = [CPU_FEATURE_AVX512F, CPU_FEATURE_AVX512BW, CPU_FEATURE_AVX512CD,
     CPU_FEATURE_AVX512DQ, CPU_FEATURE_AVX512VL]"

definition architecture_matchtable_x86_64 :: "(cpu_feature_t list \<times> cpu_feature_level_t) list" where
  "architecture_matchtable_x86_64 = [
     (architecture_x86_64_v1, FEATURE_LEVEL_X86_64_V1),
     (architecture_x86_64_v2, FEATURE_LEVEL_X86_64_V2),
     (architecture_x86_64_v3, FEATURE_LEVEL_X86_64_V3),
     (architecture_x86_64_v4, FEATURE_LEVEL_X86_64_V4)]"

fun ia_32_level :: "(int \<times> cpu_feature_level_t) list \<Rightarrow> int \<Rightarrow> cpu_feature_level_t" where
  "ia_32_level [] fam = FEATURE_LEVEL_UNKNOWN"
| "ia_32_level ((f, l) # rows) fam = (if fam = f then l else ia_32_level rows fam)"

text \<open>
  The inner loop over the features of a level, up to the terminating -1: the variables
  \<^verbatim>\<open>is_compliant\<close> and \<^verbatim>\<open>has_all_features\<close>.
\<close>

fun compliance_loop :: "(cpu_feature_t \<Rightarrow> bool) \<Rightarrow> cpu_feature_t list \<Rightarrow> bool \<Rightarrow> bool \<Rightarrow> bool \<times> bool" where
  "compliance_loop fl [] is_compliant has_all = (is_compliant, has_all)"
| "compliance_loop fl (f # fs) is_compliant has_all =
     compliance_loop fl fs (fl f) (has_all \<and> fl f)"

text \<open>
  The outer loop. It tests \<^verbatim>\<open>is_compliant\<close>, not \<^verbatim>\<open>has_all_features\<close>, which is computed and not
  used.
\<close>

fun x86_64_level ::
    "(cpu_feature_t \<Rightarrow> bool) \<Rightarrow> (cpu_feature_t list \<times> cpu_feature_level_t) list \<Rightarrow>
      bool \<Rightarrow> cpu_feature_level_t \<Rightarrow> cpu_feature_level_t" where
  "x86_64_level fl [] is_compliant level = level"
| "x86_64_level fl ((fs, l) # rows) is_compliant level =
     (let (is_compliant, has_all_features) = compliance_loop fl fs is_compliant True
      in if is_compliant then x86_64_level fl rows is_compliant l else level)"

definition decode_architecture_version_x86 :: "cpu_id_t \<Rightarrow> cpu_id_t" where
  "decode_architecture_version_x86 data = data\<lparr>feature_level :=
     (if \<not> flags data CPU_FEATURE_LM
      then ia_32_level architecture_matchtable_ia_32 (family (x86 data))
      else x86_64_level (flags data) architecture_matchtable_x86_64 False FEATURE_LEVEL_UNKNOWN)\<rparr>"

text \<open>
  The documented meaning: a level requires all its features, and all of the levels below it.
\<close>

fun full_level ::
    "(cpu_feature_t \<Rightarrow> bool) \<Rightarrow> (cpu_feature_t list \<times> cpu_feature_level_t) list \<Rightarrow>
      cpu_feature_level_t \<Rightarrow> cpu_feature_level_t" where
  "full_level fl [] level = level"
| "full_level fl ((fs, l) # rows) level =
     (if list_all fl fs then full_level fl rows l else level)"

lemma compliance_loop_last:
  "compliance_loop fl fs c a = (if fs = [] then c else fl (last fs), a \<and> list_all fl fs)"
  by (induction fl fs c a rule: compliance_loop.induct) auto

lemma x86_64_level_ge_full:
  assumes "sorted_wrt (\<lambda>a b. snd a \<le> snd b) rows" and "\<forall>r \<in> set rows. level \<le> snd r \<and> fst r \<noteq> []"
  shows "full_level fl rows level \<le> x86_64_level fl rows c level \<and> level \<le> x86_64_level fl rows c level"
  using assms
proof (induction fl rows c level rule: x86_64_level.induct)
  case (1 fl c level)
  then show ?case by simp
next
  case (2 fl fs l rows c level)
  have IH: "full_level fl rows l \<le> x86_64_level fl rows True l \<and> l \<le> x86_64_level fl rows True l"
    if "fl (last fs)"
    using "2.IH" [of "compliance_loop fl fs c True" "fl (last fs)" "list_all fl fs"] "2.prems" that
    by (auto simp: compliance_loop_last)
  have l: "level \<le> l" and ne: "fs \<noteq> []" using "2.prems" by auto
  have "fl (last fs)" if "list_all fl fs" using that ne by (auto simp: list_all_iff)
  with IH l ne show ?case
    by (auto simp: compliance_loop_last intro: order_trans)
qed

lemma x86_64_level_eq_full:
  assumes "\<forall>r \<in> set rows. fst r \<noteq> [] \<and> (fl (last (fst r)) \<longrightarrow> list_all fl (fst r))"
  shows "x86_64_level fl rows c level = full_level fl rows level"
  using assms
proof (induction fl rows c level rule: x86_64_level.induct)
  case (1 fl c level)
  then show ?case by simp
next
  case (2 fl fs l rows c level)
  have "fl (last fs) \<longleftrightarrow> list_all fl fs" using "2.prems" by (auto simp: list_all_iff)
  with 2 show ?case by (auto simp: compliance_loop_last)
qed

lemmas x86_64_tables = architecture_matchtable_x86_64_def architecture_x86_64_v1_def
  architecture_x86_64_v2_def architecture_x86_64_v3_def architecture_x86_64_v4_def

text \<open>
  C35: the level of a 64-bit processor is never below the documented one, and it is the documented
  one whenever the last feature listed for a level implies the others. Because the loop tests
  only that last feature, it can be higher: a processor that lacks AVX2 but has OSXSAVE (and the
  features of the levels below) is reported to be x86-64-v3.
\<close>

theorem x86_64_level_spec:
  fixes fl
  defines "doc \<equiv> full_level fl architecture_matchtable_x86_64 FEATURE_LEVEL_UNKNOWN"
    and "code \<equiv> x86_64_level fl architecture_matchtable_x86_64 False FEATURE_LEVEL_UNKNOWN"
  shows "doc \<le> code \<and>
    (code = doc \<or> (\<exists>(fs, l) \<in> set architecture_matchtable_x86_64. fl (last fs) \<and> \<not> list_all fl fs)) \<and>
    (\<exists>fl'. \<not> fl' CPU_FEATURE_AVX2 \<and>
       full_level fl' architecture_matchtable_x86_64 FEATURE_LEVEL_UNKNOWN = FEATURE_LEVEL_X86_64_V2 \<and>
       x86_64_level fl' architecture_matchtable_x86_64 False FEATURE_LEVEL_UNKNOWN =
         FEATURE_LEVEL_X86_64_V3)"
proof (intro conjI)
  show "doc \<le> code"
    unfolding doc_def code_def
    by (rule x86_64_level_ge_full [THEN conjunct1])
      (simp_all add: x86_64_tables less_eq_cpu_feature_level_t_def)
  show "code = doc \<or> (\<exists>(fs, l) \<in> set architecture_matchtable_x86_64. fl (last fs) \<and> \<not> list_all fl fs)"
  proof (cases "\<exists>(fs, l) \<in> set architecture_matchtable_x86_64. fl (last fs) \<and> \<not> list_all fl fs")
    case False
    then have "code = doc"
      unfolding doc_def code_def
      by (intro x86_64_level_eq_full) (auto simp: x86_64_tables)
    then show ?thesis ..
  qed blast
  show "\<exists>fl'. \<not> fl' CPU_FEATURE_AVX2 \<and>
       full_level fl' architecture_matchtable_x86_64 FEATURE_LEVEL_UNKNOWN = FEATURE_LEVEL_X86_64_V2 \<and>
       x86_64_level fl' architecture_matchtable_x86_64 False FEATURE_LEVEL_UNKNOWN =
         FEATURE_LEVEL_X86_64_V3"
    by (intro exI [of _ "\<lambda>f. f \<noteq> CPU_FEATURE_AVX2 \<and> f \<noteq> CPU_FEATURE_AVX512VL"])
      (simp add: x86_64_tables)
qed

end
