(* ===== verification/Match_Tables.thy ===== *)
theory Match_Tables
  imports Codename_Match Cpu_Lists
begin

text \<open>
  The processor tables of the x86 recognizers: \<^verbatim>\<open>cpudb_amd\<close> of \<^verbatim>\<open>recog_amd.c\<close>, \<^verbatim>\<open>cpudb_intel\<close> of
  \<^verbatim>\<open>recog_intel.c\<close> and \<^verbatim>\<open>cpudb_centaur\<close> of \<^verbatim>\<open>recog_centaur.c\<close>, row by row. The columns are those
  of \<^verbatim>\<open>struct match_entry_t\<close>; the bytes of a character outside ASCII are written as their codes.
\<close>

abbreviation (input) entry ::
    "int \<Rightarrow> int \<Rightarrow> int \<Rightarrow> int \<Rightarrow> int \<Rightarrow> int \<Rightarrow> int \<Rightarrow> int \<Rightarrow> string \<Rightarrow> int \<Rightarrow> string \<Rightarrow> string \<Rightarrow>
      match_entry_t" where
  "entry f m s ef em nc l2 l3 pat sc name tech \<equiv>
     \<lparr>me_family = f, me_model = m, me_stepping = s, me_ext_family = ef, me_ext_model = em,
      me_ncores = nc, me_l2cache = l2, me_l3cache = l3, me_pattern = pat, me_score = sc,
      me_name = name, me_technology = tech\<rparr>"

section \<open>AMD\<close>

definition cpudb_amd_1 :: "match_entry_t list" where
  "cpudb_amd_1 = [
     entry (-1) (-1) (-1) (-1) (-1) 1 (-1) (-1) '''' 0 ''Unknown AMD CPU'' UNKN_STR,
     entry 4 (-1) (-1) (-1) (-1) 1 (-1) (-1) '''' 0 ''Unknown 486'' UNKN_STR,
     entry 4 3 (-1) (-1) (-1) 1 (-1) (-1) '''' 0 ''AMD 486DX2'' UNKN_STR,
     entry 4 7 (-1) (-1) (-1) 1 (-1) (-1) '''' 0 ''AMD 486DX2WB'' UNKN_STR,
     entry 4 8 (-1) (-1) (-1) 1 (-1) (-1) '''' 0 ''AMD 486DX4'' UNKN_STR,
     entry 4 9 (-1) (-1) (-1) 1 (-1) (-1) '''' 0 ''AMD 486DX4WB'' UNKN_STR,
     entry 5 (-1) (-1) (-1) (-1) 1 (-1) (-1) '''' 0 ''Unknown K5'' UNKN_STR,
     entry 5 0 (-1) (-1) (-1) 1 (-1) (-1) '''' 0 ''K5 (SSA/5)'' UNKN_STR,
     entry 5 1 (-1) (-1) (-1) 1 (-1) (-1) ''K5(tm)'' 2 ''K5 (5k86)'' ''350 nm'',
     entry 5 2 (-1) (-1) (-1) 1 (-1) (-1) ''K5(tm)'' 2 ''K5 (5k86)'' ''350 nm'',
     entry 5 3 (-1) (-1) (-1) 1 (-1) (-1) ''K5(tm)'' 2 ''K5 (5k86)'' ''350 nm'',
     entry 5 (-1) (-1) (-1) (-1) 1 (-1) (-1) '''' 0 ''Unknown K6'' UNKN_STR,
     entry 5 6 (-1) (-1) (-1) 1 (-1) (-1) ''K6'' 2 ''K6'' ''350 nm'',
     entry 5 7 (-1) (-1) (-1) 1 (-1) (-1) ''K6'' 2 ''K6 (Little Foot)'' ''250 nm'',
     entry 5 8 0 (-1) (-1) 1 (-1) (-1) ''K6(tm)'' 2 ''K6-2 (Chomper)'' ''250 nm'',
     entry 5 8 12 (-1) (-1) 1 (-1) (-1) ''K6(tm)'' 2 ''K6-2 (Chomper Extended)'' ''250 nm'',
     entry 5 9 (-1) (-1) (-1) 1 (-1) (-1) ''K6(tm)'' 2 ''K6-III (Sharptooth)'' ''250 nm'',
     entry 5 13 (-1) (-1) (-1) 1 (-1) (-1) ''K6(tm)'' 2 ''K6-2+'' ''180 nm'',
     entry 5 13 (-1) (-1) (-1) 1 (-1) (-1) ''K6(tm)-III '' 4 ''K6-III+'' ''180 nm'',
     entry 6 (-1) (-1) 15 (-1) 1 (-1) (-1) '''' 0 ''Unknown K7'' UNKN_STR,
     entry 6 1 (-1) (-1) (-1) 1 (-1) (-1) ''K7(tm)'' 0 ''Athlon (Argon)'' ''250 nm'',
     entry 6 2 (-1) (-1) (-1) 1 (-1) (-1) ''Athlon(tm)'' 0 ''Athlon (Pluto/Orion)'' ''180 nm'',
     entry 6 3 (-1) (-1) (-1) 1 (-1) (-1) ''Duron(tm)'' 2 ''Duron (Spitfire)'' ''180 nm'',
     entry 6 3 (-1) (-1) (-1) 1 (-1) (-1) ''Duron(tm) M'' 4 ''Mobile Duron (Spitfire)'' ''180 nm'',
     entry 6 4 (-1) (-1) (-1) 1 (-1) (-1) ''Athlon(tm)'' 2 ''Athlon (ThunderBird)'' ''180 nm'',
     entry 6 6 (-1) (-1) (-1) 1 (-1) (-1) ''Athlon XP'' 4 ''Athlon (Palomino)'' ''180 nm'',
     entry 6 6 (-1) (-1) (-1) 1 (-1) (-1) ''Athlon(tm) MP'' 4 ''Athlon MP (Palomino)'' ''180 nm'',
     entry 6 6 (-1) (-1) (-1) 1 (-1) (-1) ''Duron(tm)'' 2 ''Duron (Palomino)'' ''180 nm'',
     entry 6 7 (-1) (-1) (-1) 1 (-1) (-1) ''Duron(tm)'' 2 ''Duron (Morgan)'' ''180 nm'',
     entry 6 7 (-1) (-1) (-1) 1 (-1) (-1) ''Duron(tm) M'' 4 ''Mobile Duron (Camaro)'' ''180 nm'',
     entry 6 8 (-1) (-1) (-1) 1 (-1) (-1) ''Athlon'' 2 ''Athlon XP (Thoroughbred)'' ''130 nm'',
     entry 6 8 (-1) (-1) (-1) 1 (-1) (-1) ''Athlon(tm) XP'' 4 ''Athlon XP (Thoroughbred)'' ''130 nm'',
     entry 6 8 (-1) (-1) (-1) 1 (-1) (-1) ''Duron(tm)'' 2 ''Duron (Applebred)'' ''130 nm'',
     entry 6 8 (-1) (-1) (-1) 1 (-1) (-1) ''Sempron(tm)'' 2 ''Sempron (Thoroughbred)'' ''130 nm'',
     entry 6 8 (-1) (-1) (-1) 1 128 (-1) ''Sempron(tm)'' 2 ''Sempron (Thoroughbred)'' ''130 nm'',
     entry 6 8 (-1) (-1) (-1) 1 256 (-1) ''Sempron(tm)'' 2 ''Sempron (Thoroughbred)'' ''130 nm'',
     entry 6 8 (-1) (-1) (-1) 1 (-1) (-1) ''Athlon(tm) MP'' 4 ''Athlon MP (Thoroughbred)'' ''130 nm'',
     entry 6 8 (-1) (-1) (-1) 1 (-1) (-1) ''Athlon(tm) XP-M'' 6 ''Mobile Athlon (Thoroughbred)'' ''130 nm'',
     entry 6 10 (-1) (-1) (-1) 1 512 (-1) ''Athlon(tm) XP'' 4 ''Athlon XP (Barton)'' ''130 nm'',
     entry 6 10 (-1) (-1) (-1) 1 512 (-1) ''Sempron(tm)'' 2 ''Sempron (Barton)'' ''130 nm'',
     entry 6 10 (-1) (-1) (-1) 1 256 (-1) ''Sempron(tm)'' 2 ''Sempron (Thorton)'' ''130 nm'',
     entry 6 10 (-1) (-1) (-1) 1 256 (-1) ''Athlon(tm) XP'' 4 ''Athlon XP (Thorton)'' ''130 nm'',
     entry 6 10 (-1) (-1) (-1) 1 (-1) (-1) ''Athlon(tm) MP'' 4 ''Athlon MP (Barton)'' ''130 nm'',
     entry 6 10 (-1) (-1) (-1) 1 (-1) (-1) ''Athlon(tm) XP-M'' 6 ''Mobile Athlon (Barton)'' ''130 nm'',
     entry 15 (-1) (-1) 15 (-1) 1 (-1) (-1) '''' 0 ''Unknown K8'' UNKN_STR,
     entry 15 (-1) (-1) 16 (-1) 1 (-1) (-1) '''' 0 ''Unknown K9'' UNKN_STR,
     entry 15 (-1) (-1) 15 (-1) 1 (-1) (-1) '''' 0 ''Unknown A64'' UNKN_STR,
     entry 15 (-1) (-1) 15 (-1) 1 (-1) (-1) ''Opteron(tm)'' 2 ''Opteron'' UNKN_STR,
     entry 15 (-1) (-1) 15 (-1) 2 (-1) (-1) ''Dual Core AMD Opteron'' 8 ''Opteron (Dual Core)'' UNKN_STR,
     entry 15 1 (-1) 15 65 2 (-1) (-1) ''Opteron(tm) 22##'' 6 ''Opteron (Santa Rosa)'' ''90 nm'',
     entry 15 3 (-1) 15 (-1) 1 (-1) (-1) ''Opteron(tm)'' 2 ''Opteron'' UNKN_STR,
     entry 15 3 (-1) 15 (-1) 2 (-1) (-1) ''Dual Core AMD Opteron'' 8 ''Opteron (Dual Core)'' UNKN_STR,
     entry 15 5 (-1) 15 5 (-1) (-1) (-1) ''Opteron(tm) [128]##'' 4 ''Opteron (SledgeHammer)'' ''130 nm'',
     entry 15 (-1) (-1) 15 (-1) 1 512 (-1) ''Athlon(tm) 64'' 4 ''Athlon 64 (512K)'' UNKN_STR,
     entry 15 (-1) (-1) 15 (-1) 1 1024 (-1) ''Athlon(tm) 64'' 4 ''Athlon 64 (1024K)'' UNKN_STR,
     entry 15 (-1) (-1) 15 (-1) 1 (-1) (-1) ''Athlon(tm) FX'' 4 ''Athlon FX'' UNKN_STR,
     entry 15 (-1) (-1) 15 (-1) 1 (-1) (-1) ''Athlon(tm) 64 FX'' 6 ''Athlon 64 FX'' UNKN_STR,
     entry 15 3 (-1) 15 35 2 (-1) (-1) ''Athlon(tm) 64 FX'' 6 ''Athlon 64 FX X2 (Toledo)'' ''90 nm'',
     entry 15 (-1) (-1) 15 (-1) 2 512 (-1) ''Athlon(tm) 64 X2'' 6 ''Athlon 64 X2 (512K)'' UNKN_STR,
     entry 15 (-1) (-1) 15 (-1) 2 1024 (-1) ''Athlon(tm) 64 X2'' 6 ''Athlon 64 X2 (1024K)'' UNKN_STR,
     entry 15 (-1) (-1) 15 (-1) 1 512 (-1) ''Turion(tm) 64'' 4 ''Turion 64 (512K)'' UNKN_STR,
     entry 15 (-1) (-1) 15 (-1) 1 1024 (-1) ''Turion(tm) 64'' 4 ''Turion 64 (1024K)'' UNKN_STR,
     entry 15 (-1) (-1) 15 (-1) 2 512 (-1) ''Turion(tm) X2'' 4 ''Turion 64 X2 (512K)'' UNKN_STR,
     entry 15 (-1) (-1) 15 (-1) 2 1024 (-1) ''Turion(tm) X2'' 4 ''Turion 64 X2 (1024K)'' UNKN_STR,
     entry 15 (-1) (-1) 15 (-1) 1 128 (-1) ''Sempron(tm)'' 2 ''A64 Sempron (128K)'' UNKN_STR,
     entry 15 (-1) (-1) 15 (-1) 1 256 (-1) ''Sempron(tm)'' 2 ''A64 Sempron (256K)'' UNKN_STR,
     entry 15 (-1) (-1) 15 (-1) 1 512 (-1) ''Sempron(tm)'' 2 ''A64 Sempron (512K)'' UNKN_STR,
     entry 15 (-1) (-1) 15 0x4f 1 512 (-1) ''Athlon(tm) 64'' 4 ''Athlon 64 (Orleans/512K)'' ''90 nm'',
     entry 15 (-1) (-1) 15 0x5f 1 512 (-1) ''Athlon(tm) 64'' 4 ''Athlon 64 (Orleans/512K)'' ''90 nm'',
     entry 15 (-1) (-1) 15 0x2f 1 512 (-1) ''Athlon(tm) 64'' 4 ''Athlon 64 (Venice/512K)'' ''90 nm'',
     entry 15 (-1) (-1) 15 0x2c 1 512 (-1) ''Athlon(tm) 64'' 4 ''Athlon 64 (Venice/512K)'' ''90 nm'',
     entry 15 (-1) (-1) 15 0x1f 1 512 (-1) ''Athlon(tm) 64'' 4 ''Athlon 64 (Winchester/512K)'' ''90 nm'',
     entry 15 (-1) (-1) 15 0x0c 1 512 (-1) ''Athlon(tm) 64'' 4 ''Athlon 64 (Newcastle/512K)'' ''130 nm'',
     entry 15 (-1) (-1) 15 0x27 1 512 (-1) ''Athlon(tm) 64'' 4 ''Athlon 64 (San Diego/512K)'' ''90 nm'',
     entry 15 (-1) (-1) 15 0x37 1 512 (-1) ''Athlon(tm) 64'' 4 ''Athlon 64 (San Diego/512K)'' ''90 nm'',
     entry 15 (-1) (-1) 15 0x04 1 512 (-1) ''Athlon(tm) 64'' 4 ''Athlon 64 (ClawHammer/512K)'' ''130 nm'',
     entry 15 (-1) (-1) 15 0x5f 1 1024 (-1) ''Athlon(tm) 64'' 4 ''Athlon 64 (Orleans/1024K)'' ''90 nm'',
     entry 15 (-1) (-1) 15 0x27 1 1024 (-1) ''Athlon(tm) 64'' 4 ''Athlon 64 (San Diego/1024K)'' ''90 nm'',
     entry 15 (-1) (-1) 15 0x04 1 1024 (-1) ''Athlon(tm) 64'' 4 ''Athlon 64 (ClawHammer/1024K)'' ''130 nm'',
     entry 15 (-1) (-1) 15 0x4b 2 256 (-1) ''Athlon(tm) 64 X2'' 6 ''Athlon 64 X2 (Windsor/256K)'' ''90 nm'',
     entry 15 (-1) (-1) 15 0x23 2 512 (-1) ''Athlon(tm) 64 X2'' 6 ''Athlon 64 X2 (Toledo/512K)'' ''90 nm'',
     entry 15 (-1) (-1) 15 0x4b 2 512 (-1) ''Athlon(tm) 64 X2'' 6 ''Athlon 64 X2 (Windsor/512K)'' ''90 nm'',
     entry 15 (-1) (-1) 15 0x43 2 512 (-1) ''Athlon(tm) 64 X2'' 6 ''Athlon 64 X2 (Windsor/512K)'' ''90 nm'',
     entry 15 (-1) (-1) 15 0x6b 2 512 (-1) ''Athlon(tm) 64 X2'' 6 ''Athlon 64 X2 (Brisbane/512K)'' ''65 nm'',
     entry 15 (-1) (-1) 15 0x2b 2 512 (-1) ''Athlon(tm) 64 X2'' 6 ''Athlon 64 X2 (Manchester/512K)'' ''90 nm'',
     entry 15 (-1) (-1) 15 0x23 2 1024 (-1) ''Athlon(tm) 64 X2'' 6 ''Athlon 64 X2 (Toledo/1024K)'' ''90 nm'',
     entry 15 (-1) (-1) 15 0x43 2 1024 (-1) ''Athlon(tm) 64 X2'' 6 ''Athlon 64 X2 (Windsor/1024K)'' ''90 nm'',
     entry 15 (-1) (-1) 15 0x08 1 128 (-1) ''Mobile AMD Sempron(tm)'' 6 ''Mobile Sempron 64 (Dublin/128K)'' ''130 nm'',
     entry 15 (-1) (-1) 15 0x08 1 256 (-1) ''Mobile AMD Sempron(tm)'' 6 ''Mobile Sempron 64 (Dublin/256K)'' ''130 nm'',
     entry 15 (-1) (-1) 15 0x0c 1 256 (-1) ''Sempron(tm)'' 2 ''Sempron 64 (Paris)'' ''130 nm'',
     entry 15 (-1) (-1) 15 0x1c 1 128 (-1) ''Sempron(tm)'' 2 ''Sempron 64 (Palermo/128K)'' ''90 nm'',
     entry 15 (-1) (-1) 15 0x1c 1 256 (-1) ''Sempron(tm)'' 2 ''Sempron 64 (Palermo/256K)'' ''90 nm'',
     entry 15 (-1) (-1) 15 0x1c 1 128 (-1) ''Mobile AMD Sempron(tm)'' 6 ''Mobile Sempron 64 (Sonora/128K)'' ''90 nm'',
     entry 15 (-1) (-1) 15 0x1c 1 256 (-1) ''Mobile AMD Sempron(tm)'' 6 ''Mobile Sempron 64 (Sonora/256K)'' ''90 nm'',
     entry 15 (-1) (-1) 15 0x2c 1 128 (-1) ''Sempron(tm)'' 2 ''Sempron 64 (Palermo/128K)'' ''90 nm'',
     entry 15 (-1) (-1) 15 0x2c 1 256 (-1) ''Sempron(tm)'' 2 ''Sempron 64 (Palermo/256K)'' ''90 nm'',
     entry 15 (-1) (-1) 15 0x2c 1 128 (-1) ''Mobile AMD Sempron(tm)'' 6 ''Mobile Sempron 64 (Albany/128K)'' ''90 nm'',
     entry 15 (-1) (-1) 15 0x2c 1 256 (-1) ''Mobile AMD Sempron(tm)'' 6 ''Mobile Sempron 64 (Albany/256K)'' ''90 nm'',
     entry 15 (-1) (-1) 15 0x2f 1 128 (-1) ''Sempron(tm)'' 2 ''Sempron 64 (Palermo/128K)'' ''90 nm'',
     entry 15 (-1) (-1) 15 0x2f 1 256 (-1) ''Sempron(tm)'' 2 ''Sempron 64 (Palermo/256K)'' ''90 nm'',
     entry 15 (-1) (-1) 15 0x4f 1 128 (-1) ''Sempron(tm)'' 2 ''Sempron 64 (Manila/128K)'' ''90 nm'',
     entry 15 (-1) (-1) 15 0x4f 1 256 (-1) ''Sempron(tm)'' 2 ''Sempron 64 (Manila/256K)'' ''90 nm'',
     entry 15 (-1) (-1) 15 0x5f 1 128 (-1) ''Sempron(tm)'' 2 ''Sempron 64 (Manila/128K)'' ''90 nm'',
     entry 15 (-1) (-1) 15 0x5f 1 256 (-1) ''Sempron(tm)'' 2 ''Sempron 64 (Manila/256K)'' ''90 nm'',
     entry 15 (-1) (-1) 15 0x6b 2 256 (-1) ''Sempron(tm)'' 2 ''Sempron 64 Dual (Sherman/256K)'' ''65 nm'',
     entry 15 (-1) (-1) 15 0x6b 2 512 (-1) ''Sempron(tm)'' 2 ''Sempron 64 Dual (Sherman/512K)'' ''65 nm'',
     entry 15 (-1) (-1) 15 0x7c 1 512 (-1) ''Athlon(tm) 64'' 4 ''Athlon 64 (Sherman/512K)'' ''65 nm'',
     entry 15 (-1) (-1) 15 0x7f 1 256 (-1) ''Sempron(tm)'' 2 ''Sempron 64 (Sparta/256K)'' ''65 nm'',
     entry 15 (-1) (-1) 15 0x7f 1 512 (-1) ''Sempron(tm)'' 2 ''Sempron 64 (Sparta/512K)'' ''65 nm'',
     entry 15 (-1) (-1) 15 0x4c 1 256 (-1) ''Mobile AMD Sempron(tm)'' 6 ''Mobile Sempron 64 (Keene/256K)'' ''90 nm'',
     entry 15 (-1) (-1) 15 0x4c 1 512 (-1) ''Mobile AMD Sempron(tm)'' 6 ''Mobile Sempron 64 (Keene/512K)'' ''90 nm'',
     entry 15 (-1) (-1) 15 0x24 1 512 (-1) ''Turion(tm) 64'' 4 ''Turion 64 (Lancaster/512K)'' ''90 nm'',
     entry 15 (-1) (-1) 15 0x24 1 1024 (-1) ''Turion(tm) 64'' 4 ''Turion 64 (Lancaster/1024K)'' ''90 nm'',
     entry 15 (-1) (-1) 15 0x48 2 256 (-1) ''Turion(tm) X2'' 4 ''Turion X2 (Taylor)'' ''90 nm'',
     entry 15 (-1) (-1) 15 0x48 2 512 (-1) ''Turion(tm) X2'' 4 ''Turion X2 (Trinidad)'' ''90 nm'',
     entry 15 (-1) (-1) 15 0x4c 1 512 (-1) ''Turion(tm) 64'' 4 ''Turion 64 (Richmond)'' ''90 nm'',
     entry 15 (-1) (-1) 15 0x68 2 256 (-1) ''Turion(tm) X2'' 4 ''Turion X2 (Tyler/256K)'' ''65 nm'',
     entry 15 (-1) (-1) 15 0x68 2 512 (-1) ''Turion(tm) X2'' 4 ''Turion X2 (Tyler/512K)'' ''65 nm'',
     entry 15 (-1) (-1) 17 3 2 512 (-1) ''Turion(tm) X2'' 4 ''Turion X2 (Griffin/512K)'' ''65 nm'',
     entry 15 (-1) (-1) 17 3 2 1024 (-1) ''Turion(tm) X2'' 4 ''Turion X2 (Griffin/1024K)'' ''65 nm'',
     entry 15 2 (-1) 16 (-1) 3 (-1) (-1) ''Phenom(tm)'' 2 ''Phenom X3 (Toliman)'' ''65 nm'',
     entry 15 2 (-1) 16 (-1) 4 (-1) (-1) ''Phenom(tm)'' 2 ''Phenom X4 (Agena)'' ''65 nm'']"

definition cpudb_amd_2 :: "match_entry_t list" where
  "cpudb_amd_2 = [
     entry 15 2 (-1) 16 (-1) 3 512 (-1) ''Phenom(tm)'' 2 ''Phenom X3 (Toliman/256K)'' ''65 nm'',
     entry 15 2 (-1) 16 (-1) 3 512 (-1) ''Phenom(tm)'' 2 ''Phenom X3 (Toliman/512K)'' ''65 nm'',
     entry 15 2 (-1) 16 (-1) 4 128 (-1) ''Phenom(tm)'' 2 ''Phenom X4 (Agena/128K)'' ''65 nm'',
     entry 15 2 (-1) 16 (-1) 4 256 (-1) ''Phenom(tm)'' 2 ''Phenom X4 (Agena/256K)'' ''65 nm'',
     entry 15 2 (-1) 16 (-1) 4 512 (-1) ''Phenom(tm)'' 2 ''Phenom X4 (Agena/512K)'' ''65 nm'',
     entry 15 2 (-1) 16 (-1) 2 512 (-1) ''Athlon(tm) 64 X2'' 6 ''Athlon X2 (Kuma)'' ''65 nm'',
     entry 15 4 (-1) 16 (-1) 1 1024 (-1) ''Sempron(tm)'' 2 ''Sempron (Sargas)'' ''45 nm'',
     entry 15 4 (-1) 16 (-1) 2 512 (-1) ''Phenom(tm) II'' 4 ''Phenom II X2 (Callisto)'' ''45 nm'',
     entry 15 4 (-1) 16 (-1) 3 512 (-1) ''Phenom(tm) II'' 4 ''Phenom II X3 (Heka)'' ''45 nm'',
     entry 15 4 (-1) 16 4 4 512 (-1) ''Phenom(tm) II'' 4 ''Phenom II X4 (Deneb)'' ''45 nm'',
     entry 15 5 (-1) 16 5 4 512 (-1) ''Phenom(tm) II'' 4 ''Phenom II X4 (Deneb)'' ''45 nm'',
     entry 15 4 (-1) 16 10 4 512 (-1) ''Phenom(tm) II'' 4 ''Phenom II X4 (Zosma)'' ''45 nm'',
     entry 15 4 (-1) 16 10 6 512 (-1) ''Phenom(tm) II'' 4 ''Phenom II X6 (Thuban)'' ''45 nm'',
     entry 15 6 (-1) 16 6 2 512 (-1) ''Athlon(tm) II'' 4 ''Athlon II (Champlain)'' ''45 nm'',
     entry 15 6 (-1) 16 6 2 512 (-1) ''Athlon(tm) II X2'' 6 ''Athlon II X2 (Regor)'' ''45 nm'',
     entry 15 6 (-1) 16 6 2 1024 (-1) ''Athlon(tm) II X2'' 6 ''Athlon II X2 (Regor)'' ''45 nm'',
     entry 15 5 (-1) 16 5 3 512 (-1) ''Athlon(tm) II X3'' 6 ''Athlon II X3 (Rana)'' ''45 nm'',
     entry 15 5 (-1) 16 5 4 512 (-1) ''Athlon(tm) X4'' 4 ''Athlon II X4 (Propus)'' ''45 nm'',
     entry 15 5 (-1) 16 5 4 512 (-1) ''Athlon(tm) II X4'' 6 ''Athlon II X4 (Propus)'' ''45 nm'',
     entry 15 2 (-1) 16 2 (-1) (-1) (-1) ''Opteron(tm) [28]3##'' 4 ''Opteron (Barcelona)'' ''45 nm'',
     entry 15 4 (-1) 16 4 (-1) (-1) (-1) ''Opteron(tm) [28]3##'' 4 ''Opteron (Shanghai)'' ''45 nm'',
     entry 15 8 (-1) 16 8 (-1) (-1) (-1) ''Opteron(tm) [28]4##'' 4 ''Opteron (Istanbul)'' ''45 nm'',
     entry 15 8 (-1) 16 8 (-1) (-1) (-1) ''Opteron(tm) 41##'' 4 ''Opteron (Lisbon)'' ''45 nm'',
     entry 15 9 (-1) 16 9 8 (-1) (-1) ''Opteron(tm) 64##'' 4 ''Opteron (Magny-Cours)'' ''45 nm'',
     entry 15 1 (-1) 18 1 4 (-1) (-1) ''Athlon(tm) II X4 6##'' 6 ''Athlon II X4 (Llano)'' ''GF 32SHP'',
     entry 15 1 (-1) 18 1 2 (-1) (-1) ''Athlon(tm) II X2 2##'' 6 ''Athlon II X2 (Llano)'' ''GF 32SHP'',
     entry 15 1 (-1) 18 1 2 (-1) (-1) ''Sempron(tm) X2 1##'' 6 ''Sempron X2 (Llano)'' ''GF 32SHP'',
     entry 15 1 (-1) 18 1 (-1) (-1) (-1) ''E2-3###'' 4 ''E-Series (Llano)'' ''GF 32SHP'',
     entry 15 1 (-1) 18 1 (-1) (-1) (-1) ''A[468]-3###'' 4 ''A-Series (Llano)'' ''GF 32SHP'',
     entry 15 1 (-1) 20 (-1) (-1) (-1) (-1) ''C-[356]#'' 4 ''C-Series (Ontario)'' ''TSMC N40'',
     entry 15 1 (-1) 20 (-1) (-1) (-1) (-1) ''E-[234]##'' 4 ''E-Series (Zacate)'' ''TSMC N40'',
     entry 15 1 (-1) 20 (-1) (-1) (-1) (-1) ''G-T##[LRNE]'' 6 ''G-Series (Zacate)'' ''TSMC N40'',
     entry 15 1 (-1) 20 (-1) (-1) (-1) (-1) ''Z-##'' 4 ''Z-Series (Desna)'' ''TSMC N40'',
     entry 15 (-1) (-1) 21 0 (-1) (-1) (-1) ''FX(tm)-[468]###'' 4 ''FX (Zambezi)'' ''GF 32SHP'',
     entry 15 (-1) (-1) 21 1 (-1) (-1) (-1) ''FX(tm)-[468]###'' 4 ''FX (Zambezi)'' ''GF 32SHP'',
     entry 15 (-1) (-1) 21 1 (-1) (-1) (-1) ''Opteron(tm)'' 2 ''Opteron (Interlagos)'' ''GF 32SHP'',
     entry 15 (-1) (-1) 21 2 (-1) (-1) (-1) ''FX(tm)-[4689]###'' 4 ''FX (Vishera)'' ''GF 32SHP'',
     entry 15 0 (-1) 21 16 4 (-1) (-1) ''Athlon(tm) X4 7##'' 6 ''Athlon X4 (Trinity)'' ''GF 32SHP'',
     entry 15 0 (-1) 21 16 2 (-1) (-1) ''Athlon(tm) X2 3##'' 6 ''Athlon X2 (Trinity)'' ''GF 32SHP'',
     entry 15 0 (-1) 21 16 2 (-1) (-1) ''Sempron(tm) X2 2##'' 6 ''Sempron X2 (Trinity)'' ''GF 32SHP'',
     entry 15 0 (-1) 21 16 (-1) (-1) (-1) ''A[468]-5###'' 4 ''A-Series (Trinity)'' ''GF 32SHP'',
     entry 15 0 (-1) 21 16 (-1) (-1) (-1) ''A10-5###'' 4 ''A-Series (Trinity)'' ''GF 32SHP'',
     entry 15 0 (-1) 21 16 (-1) (-1) (-1) ''A[468]-4###M'' 6 ''A-Series (Trinity)'' ''GF 32SHP'',
     entry 15 0 (-1) 21 16 (-1) (-1) (-1) ''A10-4###M'' 6 ''A-Series (Trinity)'' ''GF 32SHP'',
     entry 15 0 (-1) 21 19 (-1) (-1) (-1) ''FX(tm)-6##K'' 6 ''FX (Richland)'' ''GF 32SHP'',
     entry 15 0 (-1) 21 19 4 (-1) (-1) ''Athlon(tm) X4 7##'' 6 ''Athlon X4 (Richland)'' ''GF 32SHP'',
     entry 15 0 (-1) 21 19 2 (-1) (-1) ''Athlon(tm) X2 3##'' 6 ''Athlon X2 (Richland)'' ''GF 32SHP'',
     entry 15 0 (-1) 21 19 2 (-1) (-1) ''Sempron(tm) X2 2##'' 6 ''Sempron X2 (Richland)'' ''GF 32SHP'',
     entry 15 0 (-1) 21 19 (-1) (-1) (-1) ''A4 PRO-7###B'' 8 ''A-Series (Richland)'' ''GF 32SHP'',
     entry 15 0 (-1) 21 19 (-1) (-1) (-1) ''A[468]-[467]###'' 4 ''A-Series (Richland)'' ''GF 32SHP'',
     entry 15 0 (-1) 21 19 (-1) (-1) (-1) ''A10-6###'' 4 ''A-Series (Richland)'' ''GF 32SHP'',
     entry 15 0 (-1) 21 19 (-1) (-1) (-1) ''A[468]-5###M'' 6 ''A-Series (Richland)'' ''GF 32SHP'',
     entry 15 0 (-1) 21 19 (-1) (-1) (-1) ''A10-5###M'' 6 ''A-Series (Richland)'' ''GF 32SHP'',
     entry 15 2 (-1) 21 2 (-1) (-1) (-1) ''Opteron(tm)'' 2 ''Opteron (Abu Dhabi)'' ''GF 32SHP'',
     entry 15 8 (-1) 21 48 (-1) (-1) (-1) ''FX(tm)-7##K'' 6 ''FX (Kaveri)'' ''TSMC N28'',
     entry 15 8 (-1) 21 48 (-1) (-1) (-1) ''FX(tm)-7###'' 4 ''FX (Kaveri)'' ''TSMC N28'',
     entry 15 8 (-1) 21 48 4 (-1) (-1) ''Athlon(tm) X4 8##'' 6 ''Athlon X4 (Kaveri)'' ''TSMC N28'',
     entry 15 8 (-1) 21 48 2 (-1) (-1) ''Athlon(tm) X2 4##'' 6 ''Athlon X2 (Kaveri)'' ''TSMC N28'',
     entry 15 8 (-1) 21 48 (-1) (-1) (-1) ''A[468] PRO-[78]###B'' 8 ''A-Series (Kaveri)'' ''TSMC N28'',
     entry 15 8 (-1) 21 48 (-1) (-1) (-1) ''A[468]-7###'' 4 ''A-Series (Kaveri)'' ''TSMC N28'',
     entry 15 8 (-1) 21 48 (-1) (-1) (-1) ''A10 PRO-[78]###B'' 8 ''A-Series (Kaveri)'' ''TSMC N28'',
     entry 15 8 (-1) 21 48 (-1) (-1) (-1) ''A10-7###'' 4 ''A-Series (Kaveri)'' ''TSMC N28'',
     entry 15 8 (-1) 21 56 (-1) (-1) (-1) ''A[468]-[78]###'' 4 ''A-Series (Godavari)'' ''TSMC N28'',
     entry 15 8 (-1) 21 56 (-1) (-1) (-1) ''A10-[78]###'' 4 ''A-Series (Godavari)'' ''TSMC N28'',
     entry 15 8 (-1) 21 56 4 (-1) (-1) ''Athlon(tm) X4 8##'' 6 ''Athlon X4 (Godavari)'' ''TSMC N28'',
     entry 15 0 (-1) 21 48 (-1) (-1) (-1) ''RX-###'' 4 ''R-Series (Bald Eagle)'' ''TSMC N28'',
     entry 15 0 (-1) 21 96 (-1) (-1) (-1) ''FX-8###P'' 6 ''FX (Carrizo)'' ''GF 28SHP'',
     entry 15 0 (-1) 21 96 4 (-1) (-1) ''Athlon(tm) X4 8##'' 6 ''Athlon X4 (Carrizo)'' ''GF 28SHP'',
     entry 15 0 (-1) 21 96 (-1) (-1) (-1) ''A[68] PRO-8###'' 6 ''A-Series (Carrizo)'' ''GF 28SHP'',
     entry 15 0 (-1) 21 96 (-1) (-1) (-1) ''A[68]-[78]###'' 4 ''A-Series (Carrizo)'' ''GF 28SHP'',
     entry 15 0 (-1) 21 96 (-1) (-1) (-1) ''A1[02] PRO-8###'' 6 ''A-Series (Carrizo)'' ''GF 28SHP'',
     entry 15 0 (-1) 21 96 (-1) (-1) (-1) ''A1[02]-8###'' 4 ''A-Series (Carrizo)'' ''GF 28SHP'',
     entry 15 5 (-1) 21 101 (-1) (-1) (-1) ''FX-9###P'' 6 ''FX (Bristol Ridge)'' ''GF 28SHP'',
     entry 15 5 (-1) 21 101 (-1) (-1) (-1) ''Athlon(tm) X4 9##'' 6 ''Athlon X4 (Bristol Ridge)'' ''GF 28SHP'',
     entry 15 5 (-1) 21 101 (-1) (-1) (-1) ''A[68] PRO-9###'' 6 ''A-Series (Bristol Ridge)'' ''GF 28SHP'',
     entry 15 5 (-1) 21 101 (-1) (-1) (-1) ''A[68]-9###'' 4 ''A-Series (Bristol Ridge)'' ''GF 28SHP'',
     entry 15 5 (-1) 21 101 (-1) (-1) (-1) ''A1[02] PRO-9###'' 6 ''A-Series (Bristol Ridge)'' ''GF 28SHP'',
     entry 15 5 (-1) 21 101 (-1) (-1) (-1) ''A1[02]-9###'' 4 ''A-Series (Bristol Ridge)'' ''GF 28SHP'',
     entry 15 0 (-1) 21 112 2 (-1) (-1) ''A[469]-9###'' 4 ''A-Series (Stoney Ridge)'' ''GF 28SHP'',
     entry 15 0 (-1) 21 112 (-1) (-1) (-1) ''E2-9###'' 4 ''E-Series (Stoney Ridge)'' ''GF 28SHP'',
     entry 15 0 (-1) 21 96 (-1) (-1) (-1) ''Opteron(tm) X3###'' 6 ''Opteron (Toronto)'' ''GF 28SHP'',
     entry 15 0 (-1) 22 0 4 (-1) (-1) ''Athlon(tm) X4 5##'' 6 ''Athlon X4 (Kabini)'' ''TSMC N28'',
     entry 15 0 (-1) 22 0 4 (-1) (-1) ''Athlon(tm) 5###'' 4 ''Athlon X4 (Kabini)'' ''TSMC N28'',
     entry 15 0 (-1) 22 0 (-1) (-1) (-1) ''Sempron(tm) [23]###'' 4 ''Sempron (Kabini)'' ''TSMC N28'',
     entry 15 0 (-1) 22 0 (-1) (-1) (-1) ''E1-2###'' 4 ''E-Series (Kabini)'' ''TSMC N28'',
     entry 15 0 (-1) 22 0 (-1) (-1) (-1) ''E2-3###'' 4 ''E-Series (Kabini)'' ''TSMC N28'',
     entry 15 0 (-1) 22 0 (-1) (-1) (-1) ''A4 PRO-3###'' 6 ''A-Series (Kabini)'' ''TSMC N28'',
     entry 15 0 (-1) 22 0 (-1) (-1) (-1) ''A[46]-5###'' 4 ''A-Series (Kabini)'' ''TSMC N28'',
     entry 15 0 (-1) 22 48 2 (-1) (-1) ''E1 Micro-62##T'' 8 ''E-Series (Mullins)'' ''GF 28SHP'',
     entry 15 0 (-1) 22 48 4 (-1) (-1) ''A4 Micro-64##T'' 8 ''A-Series (Mullins)'' ''GF 28SHP'',
     entry 15 0 (-1) 22 48 4 (-1) (-1) ''A10 Micro-67##T'' 8 ''A-Series (Mullins)'' ''GF 28SHP'',
     entry 15 0 1 22 48 (-1) (-1) (-1) ''E[12]-6###'' 4 ''E-Series (Beema)'' ''GF 28SHP'',
     entry 15 0 1 22 48 (-1) (-1) (-1) ''A[468]-6###'' 4 ''A-Series (Beema)'' ''GF 28SHP'',
     entry 15 0 1 22 48 (-1) (-1) (-1) ''GX-###'' 4 ''G-Series (Steppe Eagle)'' ''GF 28SHP'',
     entry 15 (-1) (-1) 23 1 (-1) (-1) (-1) ''EPYC 7##1'' 4 ''EPYC (Naples)'' ''GF 14LP'',
     entry 15 (-1) (-1) 23 1 (-1) (-1) (-1) ''Threadripper 1###'' 4 ''Threadripper (Whitehaven)'' ''GF 14LP'',
     entry 15 (-1) (-1) 23 1 (-1) (-1) (-1) ''Ryzen 7 PRO 1###'' 8 ''Ryzen 7 PRO (Summit Ridge)'' ''GF 14LP'',
     entry 15 (-1) (-1) 23 1 (-1) (-1) (-1) ''Ryzen 7 1###'' 6 ''Ryzen 7 (Summit Ridge)'' ''GF 14LP'',
     entry 15 (-1) (-1) 23 1 (-1) (-1) (-1) ''Ryzen 5 PRO 1###'' 8 ''Ryzen 5 PRO (Summit Ridge)'' ''GF 14LP'',
     entry 15 (-1) (-1) 23 1 (-1) (-1) (-1) ''Ryzen 5 1###'' 6 ''Ryzen 5 (Summit Ridge)'' ''GF 14LP'',
     entry 15 (-1) (-1) 23 1 (-1) (-1) (-1) ''Ryzen 3 PRO 1###'' 8 ''Ryzen 3 PRO (Summit Ridge)'' ''GF 14LP'',
     entry 15 (-1) (-1) 23 1 (-1) (-1) (-1) ''Ryzen 3 1###'' 6 ''Ryzen 3 (Summit Ridge)'' ''GF 14LP'',
     entry 15 (-1) (-1) 23 17 (-1) (-1) (-1) ''Ryzen PRO 7 2###'' 8 ''Ryzen 7 PRO (Raven Ridge)'' ''GF 14LP'',
     entry 15 (-1) (-1) 23 17 (-1) (-1) (-1) ''Ryzen 7 2###'' 6 ''Ryzen 7 (Raven Ridge)'' ''GF 14LP'',
     entry 15 (-1) (-1) 23 17 (-1) (-1) (-1) ''Ryzen PRO 5 2###'' 8 ''Ryzen 5 PRO (Raven Ridge)'' ''GF 14LP'',
     entry 15 (-1) (-1) 23 17 (-1) (-1) (-1) ''Ryzen 5 2###'' 6 ''Ryzen 5 (Raven Ridge)'' ''GF 14LP'',
     entry 15 (-1) (-1) 23 17 (-1) (-1) (-1) ''Ryzen PRO 3 2###'' 8 ''Ryzen 3 PRO (Raven Ridge)'' ''GF 14LP'',
     entry 15 (-1) (-1) 23 17 (-1) (-1) (-1) ''Ryzen 3 2###'' 6 ''Ryzen 3 (Raven Ridge)'' ''GF 14LP'',
     entry 15 (-1) (-1) 23 17 (-1) (-1) (-1) ''Athlon'' 2 ''Athlon (Raven Ridge)'' ''GF 14LP'',
     entry 15 (-1) (-1) 23 32 (-1) (-1) (-1) ''Ryzen 3 3###'' 6 ''Ryzen 3 (Dali)'' ''GF 14LP'',
     entry 15 (-1) (-1) 23 32 (-1) (-1) (-1) ''Athlon'' 2 ''Athlon (Dali)'' ''GF 14LP'',
     entry 15 (-1) 1 23 32 (-1) (-1) (-1) '''' 0 ''Dali'' ''GF 14LP'',
     entry 15 (-1) (-1) 23 8 (-1) (-1) (-1) ''Threadripper 2###'' 4 ''Threadripper (Colfax)'' ''GF 12LP'',
     entry 15 (-1) (-1) 23 8 (-1) (-1) (-1) ''Ryzen 7 PRO 2###'' 8 ''Ryzen 7 PRO (Pinnacle Ridge)'' ''GF 12LP'',
     entry 15 (-1) (-1) 23 8 (-1) (-1) (-1) ''Ryzen 7 2###'' 6 ''Ryzen 7 (Pinnacle Ridge)'' ''GF 12LP'',
     entry 15 (-1) (-1) 23 8 (-1) (-1) (-1) ''Ryzen 5 PRO 2###'' 8 ''Ryzen 5 PRO (Pinnacle Ridge)'' ''GF 12LP'',
     entry 15 (-1) (-1) 23 8 (-1) (-1) (-1) ''Ryzen 5 2###'' 6 ''Ryzen 5 (Pinnacle Ridge)'' ''GF 12LP'',
     entry 15 (-1) (-1) 23 8 (-1) (-1) (-1) ''Ryzen 3 PRO 2###'' 8 ''Ryzen 3 PRO (Pinnacle Ridge)'' ''GF 12LP'',
     entry 15 (-1) (-1) 23 8 (-1) (-1) (-1) ''Ryzen 3 2###'' 6 ''Ryzen 3 (Pinnacle Ridge)'' ''GF 12LP'',
     entry 15 (-1) (-1) 23 24 (-1) (-1) (-1) ''Ryzen 7 PRO 3###'' 8 ''Ryzen 7 PRO (Picasso)'' ''GF 12LP'',
     entry 15 (-1) (-1) 23 24 (-1) (-1) (-1) ''Ryzen 7 3###'' 6 ''Ryzen 7 (Picasso)'' ''GF 12LP'',
     entry 15 (-1) (-1) 23 24 (-1) (-1) (-1) ''Ryzen 5 PRO 3###'' 8 ''Ryzen 5 PRO (Picasso)'' ''GF 12LP'',
     entry 15 (-1) (-1) 23 24 (-1) (-1) (-1) ''Ryzen 5 3###'' 6 ''Ryzen 5 (Picasso)'' ''GF 12LP'',
     entry 15 (-1) (-1) 23 24 (-1) (-1) (-1) ''Ryzen 3 PRO 3###'' 8 ''Ryzen 3 PRO (Picasso)'' ''GF 12LP'',
     entry 15 (-1) (-1) 23 24 (-1) (-1) (-1) ''Ryzen 3 3###'' 6 ''Ryzen 3 (Picasso)'' ''GF 12LP'',
     entry 15 (-1) (-1) 23 24 (-1) (-1) (-1) ''Athlon'' 2 ''Athlon (Picasso)'' ''GF 12LP'',
     entry 15 (-1) (-1) 23 49 (-1) (-1) (-1) ''EPYC 7##2'' 4 ''EPYC (Rome)'' ''TSMC N7FF'',
     entry 15 (-1) (-1) 23 49 (-1) (-1) (-1) ''Threadripper PRO 3###WX'' 10 ''Threadripper PRO (Castle Peak)'' ''TSMC N7FF'']"

definition cpudb_amd_3 :: "match_entry_t list" where
  "cpudb_amd_3 = [
     entry 15 (-1) (-1) 23 49 (-1) (-1) (-1) ''Threadripper 3###X'' 6 ''Threadripper (Castle Peak)'' ''TSMC N7FF'',
     entry 15 (-1) (-1) 23 113 (-1) (-1) (-1) ''Ryzen 9 PRO 3###'' 8 ''Ryzen 9 PRO (Matisse)'' ''TSMC N7FF'',
     entry 15 (-1) (-1) 23 113 (-1) (-1) (-1) ''Ryzen 9 3###'' 6 ''Ryzen 9 (Matisse)'' ''TSMC N7FF'',
     entry 15 (-1) (-1) 23 113 (-1) (-1) (-1) ''Ryzen 7 PRO 3###'' 8 ''Ryzen 7 PRO (Matisse)'' ''TSMC N7FF'',
     entry 15 (-1) (-1) 23 113 (-1) (-1) (-1) ''Ryzen 7 3###'' 6 ''Ryzen 7 (Matisse)'' ''TSMC N7FF'',
     entry 15 (-1) (-1) 23 113 (-1) (-1) (-1) ''Ryzen 5 PRO 3###'' 8 ''Ryzen 5 PRO (Matisse)'' ''TSMC N7FF'',
     entry 15 (-1) (-1) 23 113 (-1) (-1) (-1) ''Ryzen 5 3###'' 6 ''Ryzen 5 (Matisse)'' ''TSMC N7FF'',
     entry 15 (-1) (-1) 23 113 (-1) (-1) (-1) ''Ryzen 3 PRO 3###'' 8 ''Ryzen 3 PRO (Matisse)'' ''TSMC N7FF'',
     entry 15 (-1) (-1) 23 113 (-1) (-1) (-1) ''Ryzen 3 3###'' 6 ''Ryzen 3 (Matisse)'' ''TSMC N7FF'',
     entry 15 (-1) (-1) 23 96 (-1) (-1) (-1) ''Ryzen 9 PRO 4###'' 8 ''Ryzen 9 PRO (Renoir)'' ''TSMC N7FF'',
     entry 15 (-1) (-1) 23 96 (-1) (-1) (-1) ''Ryzen 9 4###'' 6 ''Ryzen 9 (Renoir)'' ''TSMC N7FF'',
     entry 15 (-1) (-1) 23 96 (-1) (-1) (-1) ''Ryzen 7 PRO 4###'' 8 ''Ryzen 7 PRO (Renoir)'' ''TSMC N7FF'',
     entry 15 (-1) (-1) 23 96 (-1) (-1) (-1) ''Ryzen 7 4###'' 6 ''Ryzen 7 (Renoir)'' ''TSMC N7FF'',
     entry 15 (-1) (-1) 23 96 (-1) (-1) (-1) ''Ryzen 5 PRO 4###'' 8 ''Ryzen 5 PRO (Renoir)'' ''TSMC N7FF'',
     entry 15 (-1) (-1) 23 96 (-1) (-1) (-1) ''Ryzen 5 4###'' 6 ''Ryzen 5 (Renoir)'' ''TSMC N7FF'',
     entry 15 (-1) (-1) 23 96 (-1) (-1) (-1) ''Ryzen 3 PRO 4###'' 8 ''Ryzen 3 PRO (Renoir)'' ''TSMC N7FF'',
     entry 15 (-1) (-1) 23 96 (-1) (-1) (-1) ''Ryzen 3 4###'' 6 ''Ryzen 3 (Renoir)'' ''TSMC N7FF'',
     entry 15 (-1) (-1) 23 104 (-1) (-1) (-1) ''Ryzen 7 5###'' 6 ''Ryzen 7 (Lucienne)'' ''TSMC N7FF'',
     entry 15 (-1) (-1) 23 104 (-1) (-1) (-1) ''Ryzen 5 5###'' 6 ''Ryzen 5 (Lucienne)'' ''TSMC N7FF'',
     entry 15 (-1) (-1) 23 104 (-1) (-1) (-1) ''Ryzen 3 5###'' 6 ''Ryzen 3 (Lucienne)'' ''TSMC N7FF'',
     entry 15 (-1) (-1) 23 71 (-1) (-1) (-1) ''Desktop Kit'' 4 ''Desktop Kit (Zen 2)'' ''TSMC N7FF'',
     entry 15 (-1) (-1) 23 132 (-1) (-1) (-1) ''Desktop Kit'' 4 ''Desktop Kit (Zen 2)'' ''TSMC N7FF'',
     entry 15 (-1) 2 23 144 (-1) (-1) (-1) ''Custom APU'' 4 ''Van Gogh'' ''TSMC N7FF'',
     entry 15 (-1) 0 23 145 (-1) (-1) (-1) ''Custom APU'' 4 ''Van Gogh'' ''TSMC N7FF'',
     entry 15 (-1) (-1) 23 160 (-1) (-1) (-1) ''Ryzen 5 7###'' 6 ''Ryzen 5 (Mendocino)'' ''TSMC N6'',
     entry 15 (-1) (-1) 23 160 (-1) (-1) (-1) ''Ryzen 3 7###'' 6 ''Ryzen 3 (Mendocino)'' ''TSMC N6'',
     entry 15 (-1) (-1) 23 160 (-1) (-1) (-1) ''Athlon'' 2 ''Athlon (Mendocino)'' ''TSMC N6'',
     entry 15 (-1) (-1) 24 0 (-1) (-1) (-1) ''C86'' 2 ''C86 (Dhyana)'' UNKN_STR,
     entry 15 (-1) (-1) 25 1 (-1) (-1) (-1) ''EPYC 7##3'' 4 ''EPYC (Milan)'' ''TSMC N7FF'',
     entry 15 (-1) (-1) 25 8 (-1) (-1) (-1) ''Threadripper PRO 5###WX'' 10 ''Threadripper PRO (Chagall)'' ''TSMC N7FF'',
     entry 15 (-1) (-1) 25 33 (-1) (-1) (-1) ''Ryzen 9 PRO 5###'' 8 ''Ryzen 9 PRO (Vermeer)'' ''TSMC N7FF'',
     entry 15 (-1) (-1) 25 33 (-1) (-1) (-1) ''Ryzen 9 5###'' 6 ''Ryzen 9 (Vermeer)'' ''TSMC N7FF'',
     entry 15 (-1) (-1) 25 33 (-1) (-1) (-1) ''Ryzen 7 PRO 5###'' 8 ''Ryzen 7 PRO (Vermeer)'' ''TSMC N7FF'',
     entry 15 (-1) (-1) 25 33 (-1) (-1) (-1) ''Ryzen 7 5###'' 6 ''Ryzen 7 (Vermeer)'' ''TSMC N7FF'',
     entry 15 (-1) (-1) 25 33 (-1) (-1) (-1) ''Ryzen 5 PRO 5###'' 8 ''Ryzen 5 PRO (Vermeer)'' ''TSMC N7FF'',
     entry 15 (-1) (-1) 25 33 (-1) (-1) (-1) ''Ryzen 5 5###'' 6 ''Ryzen 5 (Vermeer)'' ''TSMC N7FF'',
     entry 15 (-1) (-1) 25 33 (-1) (-1) (-1) ''Ryzen 3 PRO 5###'' 8 ''Ryzen 3 PRO (Vermeer)'' ''TSMC N7FF'',
     entry 15 (-1) (-1) 25 33 (-1) (-1) (-1) ''Ryzen 3 5###'' 6 ''Ryzen 3 (Vermeer)'' ''TSMC N7FF'',
     entry 15 (-1) (-1) 25 80 (-1) (-1) (-1) ''Ryzen 9 PRO 5##0[HU]'' 10 ''Ryzen 9 PRO (Cezanne)'' ''TSMC N7FF'',
     entry 15 (-1) (-1) 25 80 (-1) (-1) (-1) ''Ryzen 9 5##0[HU]'' 8 ''Ryzen 9 (Cezanne)'' ''TSMC N7FF'',
     entry 15 (-1) (-1) 25 80 (-1) (-1) (-1) ''Ryzen 7 PRO 5##0[HU]'' 10 ''Ryzen 7 PRO (Cezanne)'' ''TSMC N7FF'',
     entry 15 (-1) (-1) 25 80 (-1) (-1) (-1) ''Ryzen 7 5##0[HU]'' 8 ''Ryzen 7 (Cezanne)'' ''TSMC N7FF'',
     entry 15 (-1) (-1) 25 80 (-1) (-1) (-1) ''Ryzen 5 PRO 5##0[HU]'' 10 ''Ryzen 5 PRO (Cezanne)'' ''TSMC N7FF'',
     entry 15 (-1) (-1) 25 80 (-1) (-1) (-1) ''Ryzen 5 5##0[HU]'' 8 ''Ryzen 5 (Cezanne)'' ''TSMC N7FF'',
     entry 15 (-1) (-1) 25 80 (-1) (-1) (-1) ''Ryzen 3 PRO 5##0[HU]'' 10 ''Ryzen 3 PRO (Cezanne)'' ''TSMC N7FF'',
     entry 15 (-1) (-1) 25 80 (-1) (-1) (-1) ''Ryzen 3 5##0[HU]'' 8 ''Ryzen 3 (Cezanne)'' ''TSMC N7FF'',
     entry 15 (-1) (-1) 25 80 (-1) (-1) (-1) ''Ryzen 7 5##5U'' 8 (''Ryzen 7 (Barcel'' @ [CHR 0xC3] @ [CHR 0xB3] @ '')'') ''TSMC N7FF'',
     entry 15 (-1) (-1) 25 80 (-1) (-1) (-1) ''Ryzen 5 5##5U'' 8 (''Ryzen 5 (Barcel'' @ [CHR 0xC3] @ [CHR 0xB3] @ '')'') ''TSMC N7FF'',
     entry 15 (-1) (-1) 25 80 (-1) (-1) (-1) ''Ryzen 3 PRO 5##5U'' 10 (''Ryzen 3 PRO (Barcel'' @ [CHR 0xC3] @ [CHR 0xB3] @ '')'') ''TSMC N7FF'',
     entry 15 (-1) (-1) 25 80 (-1) (-1) (-1) ''Ryzen 3 5##5C'' 8 (''Ryzen 3 (Barcel'' @ [CHR 0xC3] @ [CHR 0xB3] @ '')'') ''TSMC N7FF'',
     entry 15 (-1) (-1) 25 68 (-1) (-1) (-1) ''Ryzen 9 PRO 6###'' 8 ''Ryzen 9 PRO (Rembrandt)'' ''TSMC N6'',
     entry 15 (-1) (-1) 25 68 (-1) (-1) (-1) ''Ryzen 9 6###'' 6 ''Ryzen 9 (Rembrandt)'' ''TSMC N6'',
     entry 15 (-1) (-1) 25 68 (-1) (-1) (-1) ''Ryzen 7 PRO 6###'' 8 ''Ryzen 7 PRO (Rembrandt)'' ''TSMC N6'',
     entry 15 (-1) (-1) 25 68 (-1) (-1) (-1) ''Ryzen 7 6###'' 6 ''Ryzen 7 (Rembrandt)'' ''TSMC N6'',
     entry 15 (-1) (-1) 25 68 (-1) (-1) (-1) ''Ryzen 5 PRO 6###'' 8 ''Ryzen 5 PRO (Rembrandt)'' ''TSMC N6'',
     entry 15 (-1) (-1) 25 68 (-1) (-1) (-1) ''Ryzen 5 6###'' 6 ''Ryzen 5 (Rembrandt)'' ''TSMC N6'',
     entry 15 (-1) (-1) 25 68 (-1) (-1) (-1) ''Ryzen 3 PRO 6###'' 8 ''Ryzen 3 PRO (Rembrandt)'' ''TSMC N6'',
     entry 15 (-1) (-1) 25 68 (-1) (-1) (-1) ''Ryzen 3 6###'' 6 ''Ryzen 3 (Rembrandt)'' ''TSMC N6'',
     entry 15 (-1) (-1) 25 68 (-1) (-1) (-1) ''Ryzen 7 7###'' 6 ''Ryzen 7 (Rembrandt-R)'' ''TSMC N6'',
     entry 15 (-1) (-1) 25 68 (-1) (-1) (-1) ''Ryzen 5 7###'' 6 ''Ryzen 5 (Rembrandt-R)'' ''TSMC N6'',
     entry 15 (-1) (-1) 25 68 (-1) (-1) (-1) ''Ryzen 3 7###'' 6 ''Ryzen 3 (Rembrandt-R)'' ''TSMC N6'',
     entry 15 (-1) (-1) 25 17 (-1) (-1) (-1) ''EPYC 9##4'' 4 ''EPYC (Genoa)'' ''TSMC N5'',
     entry 15 (-1) (-1) 25 24 (-1) (-1) (-1) ''Threadripper PRO 7###WX'' 10 ''Threadripper PRO (Storm Peak)'' ''TSMC N5'',
     entry 15 (-1) (-1) 25 24 (-1) (-1) (-1) ''Threadripper 7###X'' 6 ''Threadripper (Storm Peak)'' ''TSMC N5'',
     entry 15 (-1) 2 25 97 (-1) (-1) (-1) ''Ryzen 9 7###'' 6 ''Ryzen 9 (Raphael)'' ''TSMC N5'',
     entry 15 (-1) 2 25 97 (-1) (-1) (-1) ''Ryzen 7 7###'' 6 ''Ryzen 7 (Raphael)'' ''TSMC N5'',
     entry 15 (-1) 2 25 97 (-1) (-1) (-1) ''Ryzen 5 7###'' 6 ''Ryzen 5 (Raphael)'' ''TSMC N5'',
     entry 15 (-1) 2 25 97 (-1) (-1) (-1) ''Ryzen 3 7###'' 6 ''Ryzen 3 (Raphael)'' ''TSMC N5'',
     entry 15 (-1) (-1) 25 97 (-1) (-1) (-1) ''Ryzen 9 7###H'' 8 ''Ryzen 9 (Dragon Range)'' ''TSMC N5'',
     entry 15 (-1) (-1) 25 97 (-1) (-1) (-1) ''Ryzen 7 7###H'' 8 ''Ryzen 7 (Dragon Range)'' ''TSMC N5'',
     entry 15 (-1) (-1) 25 97 (-1) (-1) (-1) ''Ryzen 5 7###H'' 8 ''Ryzen 5 (Dragon Range)'' ''TSMC N5'',
     entry 15 (-1) (-1) 25 116 (-1) (-1) (-1) ''Ryzen 9 PRO 7###[HU]'' 10 ''Ryzen 9 PRO (Phoenix)'' ''TSMC N4'',
     entry 15 (-1) (-1) 25 116 (-1) (-1) (-1) ''Ryzen 9 7###[HU]'' 8 ''Ryzen 9 (Phoenix)'' ''TSMC N4'',
     entry 15 (-1) (-1) 25 116 (-1) (-1) (-1) ''Ryzen 7 PRO 7###[HU]'' 10 ''Ryzen 7 PRO (Phoenix)'' ''TSMC N4'',
     entry 15 (-1) (-1) 25 116 (-1) (-1) (-1) ''Ryzen 7 7###[HU]'' 8 ''Ryzen 7 (Phoenix)'' ''TSMC N4'',
     entry 15 (-1) (-1) 25 116 (-1) (-1) (-1) ''Ryzen 5 PRO 7###[HU]'' 10 ''Ryzen 5 PRO (Phoenix)'' ''TSMC N4'',
     entry 15 (-1) (-1) 25 116 (-1) (-1) (-1) ''Ryzen 5 7###[HU]'' 8 ''Ryzen 5 (Phoenix)'' ''TSMC N4'',
     entry 15 (-1) (-1) 25 116 (-1) (-1) (-1) ''Ryzen 3 PRO 7###[HU]'' 10 ''Ryzen 3 PRO (Phoenix)'' ''TSMC N4'',
     entry 15 (-1) (-1) 25 116 (-1) (-1) (-1) ''Ryzen 3 7###[HU]'' 8 ''Ryzen 3 (Phoenix)'' ''TSMC N4'',
     entry 15 (-1) (-1) 25 116 (-1) (-1) (-1) ''Ryzen Z1'' 4 ''Ryzen Z1 (Phoenix)'' ''TSMC N4'',
     entry 15 (-1) (-1) 25 117 (-1) (-1) (-1) ''Ryzen 7 8###F'' 8 ''Ryzen 7 (Phoenix)'' ''TSMC N4'',
     entry 15 (-1) (-1) 25 117 (-1) (-1) (-1) ''Ryzen 5 8###F'' 8 ''Ryzen 5 (Phoenix)'' ''TSMC N4'',
     entry 15 (-1) (-1) 25 117 (-1) (-1) (-1) ''Ryzen 9 PRO 8###G'' 10 ''Ryzen 9 PRO (Phoenix)'' ''TSMC N4'',
     entry 15 (-1) (-1) 25 117 (-1) (-1) (-1) ''Ryzen 9 8###G'' 8 ''Ryzen 9 (Phoenix)'' ''TSMC N4'',
     entry 15 (-1) (-1) 25 117 (-1) (-1) (-1) ''Ryzen 7 PRO 8###G'' 10 ''Ryzen 7 PRO (Phoenix)'' ''TSMC N4'',
     entry 15 (-1) (-1) 25 117 (-1) (-1) (-1) ''Ryzen 7 8###G'' 8 ''Ryzen 7 (Phoenix)'' ''TSMC N4'',
     entry 15 (-1) (-1) 25 117 (-1) (-1) (-1) ''Ryzen 5 PRO 8###G'' 10 ''Ryzen 5 PRO (Phoenix)'' ''TSMC N4'',
     entry 15 (-1) (-1) 25 117 (-1) (-1) (-1) ''Ryzen 5 8###G'' 8 ''Ryzen 5 (Phoenix)'' ''TSMC N4'',
     entry 15 (-1) (-1) 25 117 (-1) (-1) (-1) ''Ryzen 3 PRO 8###G'' 10 ''Ryzen 3 PRO (Phoenix)'' ''TSMC N4'',
     entry 15 (-1) (-1) 25 117 (-1) (-1) (-1) ''Ryzen 3 8###G'' 8 ''Ryzen 3 (Phoenix)'' ''TSMC N4'',
     entry 15 (-1) (-1) 25 117 (-1) (-1) (-1) ''Ryzen 9 PRO 8###[HU]'' 10 ''Ryzen 9 PRO (Hawk Point)'' ''TSMC N4'',
     entry 15 (-1) (-1) 25 117 (-1) (-1) (-1) ''Ryzen 9 8###[HU]'' 8 ''Ryzen 9 (Hawk Point)'' ''TSMC N4'',
     entry 15 (-1) (-1) 25 117 (-1) (-1) (-1) ''Ryzen 7 PRO 8###[HU]'' 10 ''Ryzen 7 PRO (Hawk Point)'' ''TSMC N4'',
     entry 15 (-1) (-1) 25 117 (-1) (-1) (-1) ''Ryzen 7 8###[HU]'' 8 ''Ryzen 7 (Hawk Point)'' ''TSMC N4'',
     entry 15 (-1) (-1) 25 117 (-1) (-1) (-1) ''Ryzen 5 PRO 8###[HU]'' 10 ''Ryzen 5 PRO (Hawk Point)'' ''TSMC N4'',
     entry 15 (-1) (-1) 25 117 (-1) (-1) (-1) ''Ryzen 5 8###[HU]'' 8 ''Ryzen 5 (Hawk Point)'' ''TSMC N4'',
     entry 15 (-1) (-1) 25 117 (-1) (-1) (-1) ''Ryzen 3 PRO 8###[HU]'' 10 ''Ryzen 3 PRO (Hawk Point)'' ''TSMC N4'',
     entry 15 (-1) (-1) 25 117 (-1) (-1) (-1) ''Ryzen 3 8###[HU]'' 8 ''Ryzen 3 (Hawk Point)'' ''TSMC N4'',
     entry 15 (-1) (-1) 26 2 (-1) (-1) (-1) ''EPYC 9##5'' 4 ''EPYC (Turin)'' ''TSMC N4X'',
     entry 15 (-1) (-1) 26 17 (-1) (-1) (-1) ''EPYC 9##5'' 4 ''EPYC (Turin Dense)'' ''TSMC N3E'',
     entry 15 (-1) (-1) 26 8 (-1) (-1) (-1) ''Threadripper PRO 9###WX'' 10 ''Threadripper PRO (Shimada Peak)'' ''TSMC N4'',
     entry 15 (-1) (-1) 26 8 (-1) (-1) (-1) ''Threadripper 9###X'' 6 ''Threadripper (Shimada Peak)'' ''TSMC N4'',
     entry 15 (-1) (-1) 26 68 (-1) (-1) (-1) ''Ryzen 9 PRO 9###'' 8 ''Ryzen 9 PRO (Granite Ridge)'' ''TSMC N4'',
     entry 15 (-1) (-1) 26 68 (-1) (-1) (-1) ''Ryzen 9 9###'' 6 ''Ryzen 9 (Granite Ridge)'' ''TSMC N4'',
     entry 15 (-1) (-1) 26 68 (-1) (-1) (-1) ''Ryzen 7 PRO 9###'' 8 ''Ryzen 7 PRO (Granite Ridge)'' ''TSMC N4'',
     entry 15 (-1) (-1) 26 68 (-1) (-1) (-1) ''Ryzen 7 9###'' 6 ''Ryzen 7 (Granite Ridge)'' ''TSMC N4'',
     entry 15 (-1) (-1) 26 68 (-1) (-1) (-1) ''Ryzen 5 PRO 9###'' 8 ''Ryzen 5 PRO (Granite Ridge)'' ''TSMC N4'',
     entry 15 (-1) (-1) 26 68 (-1) (-1) (-1) ''Ryzen 5 9###'' 6 ''Ryzen 5 (Granite Ridge)'' ''TSMC N4'',
     entry 15 (-1) (-1) 26 68 (-1) (-1) (-1) ''Ryzen 3 PRO 9###'' 8 ''Ryzen 3 PRO (Granite Ridge)'' ''TSMC N4'',
     entry 15 (-1) (-1) 26 68 (-1) (-1) (-1) ''Ryzen 3 9###'' 6 ''Ryzen 3 (Granite Ridge)'' ''TSMC N4'',
     entry 15 (-1) (-1) 26 36 (-1) (-1) (-1) ''Ryzen AI 9 HX PRO'' 10 ''Ryzen AI 9 PRO (Strix Point)'' ''TSMC N4P'',
     entry 15 (-1) (-1) 26 36 (-1) (-1) (-1) ''Ryzen AI 9'' 6 ''Ryzen AI 9 (Strix Point)'' ''TSMC N4P'',
     entry 15 (-1) (-1) 26 36 (-1) (-1) (-1) ''Ryzen AI 7 PRO'' 8 ''Ryzen AI 7 PRO (Strix Point)'' ''TSMC N4P'',
     entry 15 (-1) (-1) 26 96 (-1) (-1) (-1) ''Ryzen AI 7 PRO'' 8 ''Ryzen AI 7 PRO (Krackan Point)'' ''TSMC N4P'',
     entry 15 (-1) (-1) 26 96 (-1) (-1) (-1) ''Ryzen AI 7'' 6 ''Ryzen AI 7 (Krackan Point)'' ''TSMC N4P'',
     entry 15 (-1) (-1) 26 96 (-1) (-1) (-1) ''Ryzen AI 5 PRO'' 8 ''Ryzen AI 5 PRO (Krackan Point)'' ''TSMC N4P'',
     entry 15 (-1) (-1) 26 96 (-1) (-1) (-1) ''Ryzen AI 5'' 6 ''Ryzen AI 5 (Krackan Point)'' ''TSMC N4P'',
     entry 15 (-1) (-1) 26 112 (-1) (-1) (-1) ''Ryzen AI MAX+ PRO'' 10 ''Ryzen AI MAX+ PRO (Strix Halo)'' ''TSMC N4P'',
     entry 15 (-1) (-1) 26 112 (-1) (-1) (-1) ''Ryzen AI MAX+'' 8 ''Ryzen AI MAX+ (Strix Halo)'' ''TSMC N4P'',
     entry 15 (-1) (-1) 26 112 (-1) (-1) (-1) ''Ryzen AI MAX PRO'' 8 ''Ryzen AI MAX PRO (Strix Halo)'' ''TSMC N4P'',
     entry 15 (-1) (-1) 26 112 (-1) (-1) (-1) ''Ryzen AI MAX'' 6 ''Ryzen AI MAX (Strix Halo)'' ''TSMC N4P'']"

definition cpudb_amd :: "match_entry_t list" where
  "cpudb_amd = cpudb_amd_1 @ cpudb_amd_2 @ cpudb_amd_3"

section \<open>Intel\<close>

definition cpudb_intel_1 :: "match_entry_t list" where
  "cpudb_intel_1 = [
     entry (-1) (-1) (-1) (-1) (-1) 1 (-1) (-1) '''' 0 ''Unknown Intel CPU'' UNKN_STR,
     entry 4 (-1) (-1) (-1) (-1) 1 (-1) (-1) '''' 0 ''Unknown i486'' UNKN_STR,
     entry 4 0 (-1) (-1) (-1) 1 (-1) (-1) '''' 0 ''i486 DX-25/33'' (''1 '' @ [CHR 0xC2] @ [CHR 0xB5] @ ''m''),
     entry 4 1 (-1) (-1) (-1) 1 (-1) (-1) '''' 0 ''i486 DX-50'' (''0.8 '' @ [CHR 0xC2] @ [CHR 0xB5] @ ''m''),
     entry 4 2 (-1) (-1) (-1) 1 (-1) (-1) '''' 0 ''i486 SX'' UNKN_STR,
     entry 4 3 (-1) (-1) (-1) 1 (-1) (-1) '''' 0 ''i486 DX2'' UNKN_STR,
     entry 4 4 (-1) (-1) (-1) 1 (-1) (-1) '''' 0 ''i486 SL'' (''0.8 '' @ [CHR 0xC2] @ [CHR 0xB5] @ ''m''),
     entry 4 5 (-1) (-1) (-1) 1 (-1) (-1) '''' 0 ''i486 SX2'' UNKN_STR,
     entry 4 7 (-1) (-1) (-1) 1 (-1) (-1) '''' 0 ''i486 DX2 WriteBack'' UNKN_STR,
     entry 4 8 (-1) (-1) (-1) 1 (-1) (-1) '''' 0 ''i486 DX4'' (''0.6 '' @ [CHR 0xC2] @ [CHR 0xB5] @ ''m''),
     entry 4 9 (-1) (-1) (-1) 1 (-1) (-1) '''' 0 ''i486 DX4 WriteBack'' (''0.6 '' @ [CHR 0xC2] @ [CHR 0xB5] @ ''m''),
     entry 5 0 (-1) (-1) (-1) 1 (-1) (-1) ''Pentium(R)'' 2 ''Pentium A-Step'' UNKN_STR,
     entry 5 1 (-1) (-1) (-1) 1 (-1) (-1) ''Pentium(R)'' 2 ''Pentium 1'' (''0.8 '' @ [CHR 0xC2] @ [CHR 0xB5] @ ''m''),
     entry 5 2 (-1) (-1) (-1) 1 (-1) (-1) ''Pentium(R)'' 2 ''Pentium 1'' (''0.35 '' @ [CHR 0xC2] @ [CHR 0xB5] @ ''m''),
     entry 5 3 (-1) (-1) (-1) 1 (-1) (-1) ''Pentium(R)'' 2 ''Pentium OverDrive'' UNKN_STR,
     entry 5 4 (-1) (-1) (-1) 1 (-1) (-1) ''Pentium(R)'' 2 ''Pentium 1'' (''0.35 '' @ [CHR 0xC2] @ [CHR 0xB5] @ ''m''),
     entry 5 7 (-1) (-1) (-1) 1 (-1) (-1) ''Pentium(R)'' 2 ''Pentium 1'' (''0.35 '' @ [CHR 0xC2] @ [CHR 0xB5] @ ''m''),
     entry 5 8 (-1) (-1) (-1) 1 (-1) (-1) ''Pentium(R)'' 2 ''Pentium MMX'' (''0.25 '' @ [CHR 0xC2] @ [CHR 0xB5] @ ''m''),
     entry 6 0 (-1) (-1) (-1) 1 (-1) (-1) ''Pentium(R)'' 2 ''Pentium Pro'' UNKN_STR,
     entry 6 1 (-1) (-1) (-1) 1 (-1) (-1) ''Pentium(R)'' 2 ''Pentium Pro'' UNKN_STR,
     entry 6 3 (-1) (-1) (-1) 1 (-1) (-1) ''Pentium(R)'' 2 ''Pentium II (Klamath)'' (''0.18 '' @ [CHR 0xC2] @ [CHR 0xB5] @ ''m''),
     entry 6 5 (-1) (-1) (-1) 1 (-1) (-1) ''Pentium(R)'' 2 ''Pentium II (Deschutes)'' (''0.18 '' @ [CHR 0xC2] @ [CHR 0xB5] @ ''m''),
     entry 6 5 (-1) (-1) (-1) 1 (-1) (-1) ''Pentium(R) M'' 4 ''Mobile Pentium II (Tonga)'' (''0.18 '' @ [CHR 0xC2] @ [CHR 0xB5] @ ''m''),
     entry 6 6 (-1) (-1) (-1) 1 (-1) (-1) ''Pentium(R)'' 2 ''Pentium II (Dixon)'' (''0.25 '' @ [CHR 0xC2] @ [CHR 0xB5] @ ''m''),
     entry 6 3 (-1) (-1) (-1) 1 (-1) (-1) ''Xeon(TM)'' 2 ''P-II Xeon (Klamath)'' (''0.35 '' @ [CHR 0xC2] @ [CHR 0xB5] @ ''m''),
     entry 6 5 (-1) (-1) (-1) 1 (-1) (-1) ''Xeon(TM)'' 2 ''P-II Xeon (Drake)'' (''0.25 '' @ [CHR 0xC2] @ [CHR 0xB5] @ ''m''),
     entry 6 6 (-1) (-1) (-1) 1 (-1) (-1) ''Xeon(TM)'' 2 ''P-II Xeon (Dixon)'' (''0.25 '' @ [CHR 0xC2] @ [CHR 0xB5] @ ''m''),
     entry 6 5 (-1) (-1) (-1) 1 (-1) (-1) ''Celeron(R)'' 2 ''P-II Celeron (Covington)'' (''0.25 '' @ [CHR 0xC2] @ [CHR 0xB5] @ ''m''),
     entry 6 6 (-1) (-1) (-1) 1 (-1) (-1) ''Celeron(R)'' 2 ''P-II Celeron (Mendocino)'' (''0.25 '' @ [CHR 0xC2] @ [CHR 0xB5] @ ''m''),
     entry 6 7 (-1) (-1) (-1) 1 (-1) (-1) ''Pentium(R)'' 2 ''Pentium III (Katmai)'' (''0.25 '' @ [CHR 0xC2] @ [CHR 0xB5] @ ''m''),
     entry 6 8 (-1) (-1) (-1) 1 (-1) (-1) ''Pentium(R)'' 2 ''Pentium III (Coppermine)'' (''0.18 '' @ [CHR 0xC2] @ [CHR 0xB5] @ ''m''),
     entry 6 10 (-1) (-1) (-1) 1 (-1) (-1) ''Pentium(R)'' 2 ''Pentium III (Coppermine)'' (''0.18 '' @ [CHR 0xC2] @ [CHR 0xB5] @ ''m''),
     entry 6 11 (-1) (-1) (-1) 1 (-1) (-1) ''Pentium(R)'' 2 ''Pentium III (Tualatin)'' (''0.13 '' @ [CHR 0xC2] @ [CHR 0xB5] @ ''m''),
     entry 6 11 (-1) (-1) (-1) 1 512 (-1) ''Pentium(R)'' 2 ''Pentium III (Tualatin)'' (''0.13 '' @ [CHR 0xC2] @ [CHR 0xB5] @ ''m''),
     entry 6 7 (-1) (-1) (-1) 1 (-1) (-1) ''Xeon(TM)'' 2 ''P-III Xeon (Tanner)'' (''0.25 '' @ [CHR 0xC2] @ [CHR 0xB5] @ ''m''),
     entry 6 8 (-1) (-1) (-1) 1 (-1) (-1) ''Xeon(TM)'' 2 ''P-III Xeon (Cascades)'' (''0.18 '' @ [CHR 0xC2] @ [CHR 0xB5] @ ''m''),
     entry 6 10 (-1) (-1) (-1) 1 (-1) (-1) ''Xeon(TM)'' 2 ''P-III Xeon (Cascades)'' (''0.18 '' @ [CHR 0xC2] @ [CHR 0xB5] @ ''m''),
     entry 6 11 (-1) (-1) (-1) 1 (-1) (-1) ''Xeon(TM)'' 2 ''P-III Xeon (Tualatin)'' (''0.13 '' @ [CHR 0xC2] @ [CHR 0xB5] @ ''m''),
     entry 6 7 (-1) (-1) (-1) 1 128 (-1) ''Celeron(R)'' 2 ''P-III Celeron (Katmai)'' (''0.25 '' @ [CHR 0xC2] @ [CHR 0xB5] @ ''m''),
     entry 6 8 (-1) (-1) (-1) 1 128 (-1) ''Celeron(R)'' 2 ''P-III Celeron (Coppermine)'' (''0.18 '' @ [CHR 0xC2] @ [CHR 0xB5] @ ''m''),
     entry 6 10 (-1) (-1) (-1) 1 128 (-1) ''Celeron(R)'' 2 ''P-III Celeron (Coppermine)'' (''0.18 '' @ [CHR 0xC2] @ [CHR 0xB5] @ ''m''),
     entry 6 11 (-1) (-1) (-1) 1 256 (-1) ''Celeron(R)'' 2 ''P-III Celeron (Tualatin)'' (''0.13 '' @ [CHR 0xC2] @ [CHR 0xB5] @ ''m''),
     entry 15 0 (-1) 15 (-1) 1 (-1) (-1) ''Pentium(R)'' 2 ''Pentium 4 (Willamette)'' (''0.18 '' @ [CHR 0xC2] @ [CHR 0xB5] @ ''m''),
     entry 15 1 (-1) 15 (-1) 1 (-1) (-1) ''Pentium(R)'' 2 ''Pentium 4 (Willamette)'' (''0.18 '' @ [CHR 0xC2] @ [CHR 0xB5] @ ''m''),
     entry 15 0 (-1) 15 (-1) 1 (-1) (-1) ''Pentium(R) 4 - M'' 6 ''Mobile P-4 (Willamette)'' (''0.18 '' @ [CHR 0xC2] @ [CHR 0xB5] @ ''m''),
     entry 15 1 (-1) 15 (-1) 1 (-1) (-1) ''Pentium(R) 4 - M'' 6 ''Mobile P-4 (Willamette)'' (''0.18 '' @ [CHR 0xC2] @ [CHR 0xB5] @ ''m''),
     entry 15 1 (-1) 15 (-1) 1 (-1) (-1) ''Celeron(R)'' 2 ''P-4 Celeron (Willamette)'' (''0.18 '' @ [CHR 0xC2] @ [CHR 0xB5] @ ''m''),
     entry 15 0 (-1) 15 (-1) 1 (-1) (-1) ''Xeon(TM)'' 2 ''Xeon (Foster)'' (''0.18 '' @ [CHR 0xC2] @ [CHR 0xB5] @ ''m''),
     entry 15 1 (-1) 15 (-1) 1 (-1) (-1) ''Xeon(TM)'' 2 ''Xeon (Foster)'' (''0.18 '' @ [CHR 0xC2] @ [CHR 0xB5] @ ''m''),
     entry 15 2 (-1) 15 (-1) 1 (-1) (-1) ''Pentium(R) 4'' 2 ''Pentium 4 (Northwood)'' (''0.13 '' @ [CHR 0xC2] @ [CHR 0xB5] @ ''m''),
     entry 15 2 (-1) 15 (-1) 1 (-1) (-1) ''Pentium(R) 4 - M'' 6 ''Mobile P-4 (Northwood)'' (''0.13 '' @ [CHR 0xC2] @ [CHR 0xB5] @ ''m''),
     entry 15 2 (-1) 15 (-1) 1 (-1) (-1) ''Celeron(R)'' 2 ''P-4 Celeron (Northwood)'' (''0.13 '' @ [CHR 0xC2] @ [CHR 0xB5] @ ''m''),
     entry 6 9 (-1) (-1) (-1) 1 (-1) (-1) ''Pentium(R)'' 2 ''Pentium M (Banias)'' (''0.13 '' @ [CHR 0xC2] @ [CHR 0xB5] @ ''m''),
     entry 6 9 (-1) (-1) (-1) 1 (-1) (-1) ''Pentium(R) 4 - M'' 6 ''Pentium M (Banias)'' (''0.13 '' @ [CHR 0xC2] @ [CHR 0xB5] @ ''m''),
     entry 6 9 (-1) (-1) (-1) 1 (-1) (-1) ''Celeron(R)'' 2 ''Celeron M (Banias)'' (''0.13 '' @ [CHR 0xC2] @ [CHR 0xB5] @ ''m''),
     entry 6 9 (-1) (-1) (-1) 1 (-1) (-1) ''Celeron(R) M'' 4 ''Celeron M (Banias)'' (''0.13 '' @ [CHR 0xC2] @ [CHR 0xB5] @ ''m''),
     entry 6 9 (-1) (-1) (-1) 1 0 (-1) ''Celeron(R)'' 2 ''Celeron M (Shelton)'' (''0.13 '' @ [CHR 0xC2] @ [CHR 0xB5] @ ''m''),
     entry 15 2 (-1) 15 (-1) 1 (-1) (-1) ''Xeon(TM)'' 2 ''Xeon (Prestonia)'' (''0.13 '' @ [CHR 0xC2] @ [CHR 0xB5] @ ''m''),
     entry 15 2 (-1) 15 (-1) 1 (-1) (-1) ''Xeon(TM) MP'' 4 ''Xeon (Gallatin)'' (''0.13 '' @ [CHR 0xC2] @ [CHR 0xB5] @ ''m''),
     entry 15 3 (-1) 15 (-1) 1 (-1) (-1) ''Pentium(R) 4'' 4 ''Pentium 4 (Prescott)'' ''90 nm'',
     entry 15 4 (-1) 15 (-1) 1 (-1) (-1) ''Pentium(R) 4'' 4 ''Pentium 4 (Prescott)'' ''90 nm'',
     entry 15 3 (-1) 15 (-1) 1 (-1) (-1) ''Pentium(R) 4 - M'' 6 ''Mobile P-4 (Prescott)'' ''90 nm'',
     entry 15 4 (-1) 15 (-1) 1 (-1) (-1) ''Pentium(R) 4 - M'' 6 ''Mobile P-4 (Prescott)'' ''90 nm'',
     entry 15 3 (-1) 15 (-1) 1 (-1) (-1) ''Celeron(R)'' 2 ''P-4 Celeron D (Prescott)'' ''90 nm'',
     entry 15 4 (-1) 15 (-1) 1 (-1) (-1) ''Celeron(R)'' 2 ''P-4 Celeron D (Prescott)'' ''90 nm'',
     entry 15 4 (-1) 15 (-1) 1 (-1) (-1) ''Pentium(R) D'' 4 ''Pentium D (SmithField)'' ''90 nm'',
     entry 6 13 (-1) (-1) (-1) 1 (-1) (-1) ''Pentium(R) M'' 4 ''Pentium M (Dothan)'' ''90 nm'',
     entry 6 13 (-1) (-1) (-1) 1 (-1) (-1) ''Pentium(R) 4 - M'' 6 ''Pentium M (Dothan)'' ''90 nm'',
     entry 6 13 (-1) (-1) (-1) 1 (-1) (-1) ''Celeron(R)'' 2 ''Celeron M (Dothan)'' ''90 nm'',
     entry 6 13 (-1) (-1) (-1) 1 (-1) (-1) ''Celeron(R) M'' 4 ''Celeron M (Dothan)'' ''90 nm'',
     entry 15 3 (-1) 15 (-1) 1 (-1) (-1) ''Xeon(TM)'' 2 ''Xeon (Nocona)'' ''90 nm'',
     entry 15 4 (-1) 15 (-1) 1 (-1) (-1) ''Xeon(TM)'' 2 ''Xeon (Nocona)'' ''90 nm'',
     entry 15 4 3 15 (-1) 1 (-1) (-1) ''Xeon(TM)'' 2 ''Xeon (Irwindale)'' ''90 nm'',
     entry 15 4 10 15 (-1) 1 (-1) (-1) ''Xeon(TM)'' 2 ''Xeon (Irwindale)'' ''90 nm'',
     entry 15 4 1 15 (-1) 1 (-1) (-1) ''Xeon(TM)'' 2 ''Xeon (Cranford)'' ''90 nm'',
     entry 15 4 (-1) 15 (-1) 1 (-1) (-1) ''Xeon(TM)'' 2 ''Xeon (Potomac)'' ''90 nm'',
     entry 15 4 8 15 (-1) 1 (-1) (-1) ''Xeon(TM)'' 2 ''Xeon (Paxville)'' ''90 nm'',
     entry 15 6 (-1) 15 (-1) 1 (-1) (-1) ''Pentium(R)'' 2 ''Pentium 4 (Cedar Mill)'' ''65 nm'',
     entry 15 6 (-1) 15 (-1) 1 (-1) (-1) ''Pentium(R) 4 - M'' 6 ''Mobile P-4 (Cedar Mill)'' ''65 nm'',
     entry 15 6 (-1) 15 (-1) 1 (-1) (-1) ''Celeron(R) D'' 4 ''P-4 Celeron D (Cedar Mill)'' ''65 nm'',
     entry 6 14 (-1) 14 (-1) 1 (-1) (-1) ''Core(TM) [UT]1#[05]0'' 6 ''Core Solo (Yonah)'' ''65 nm'',
     entry 6 14 (-1) 14 (-1) 1 (-1) (-1) ''Core(TM) 1#[05]0'' 4 ''Core Solo (Yonah)'' ''65 nm'',
     entry 6 14 (-1) 14 (-1) 2 (-1) (-1) ''Core(TM) Duo [UTL]2#[05]#'' 6 ''Core Duo (Yonah)'' ''65 nm'',
     entry 6 14 (-1) 14 (-1) 2 (-1) (-1) ''Core(TM) Duo 2#[05]#'' 4 ''Core Duo (Yonah)'' ''65 nm'',
     entry 6 14 (-1) 14 (-1) (-1) (-1) (-1) ''Celeron(R) 215'' 6 ''Celeron (Yonah-512)'' ''65 nm'',
     entry 6 14 (-1) 14 (-1) (-1) (-1) (-1) ''Celeron(R) M'' 4 ''Celeron (Yonah-1024)'' ''65 nm'',
     entry 15 6 (-1) 15 (-1) 1 (-1) (-1) ''Pentium(R) D'' 4 ''Pentium D (Presler)'' ''65 nm'',
     entry 15 6 2 15 (-1) 1 (-1) (-1) ''Pentium(R)'' 2 ''Pentium Extreme Edition (Presler)'' ''65 nm'',
     entry 15 6 4 15 (-1) 1 (-1) (-1) ''Xeon(TM)'' 2 ''Xeon (Dempsey)'' ''65 nm'',
     entry 15 6 6 15 (-1) 1 (-1) (-1) ''Xeon(TM)'' 2 ''Xeon (Tulsa)'' ''65 nm'',
     entry 15 6 8 15 (-1) 1 (-1) (-1) ''Xeon(TM)'' 2 ''Xeon (Tulsa)'' ''65 nm'',
     entry 6 15 (-1) (-1) (-1) 2 2048 (-1) ''Core(TM)2 Duo E6###'' 8 ''Core 2 Duo (Conroe-2M)'' ''65 nm'',
     entry 6 15 (-1) (-1) (-1) 2 4096 (-1) ''Core(TM)2 Duo E6###'' 8 ''Core 2 Duo (Conroe)'' ''65 nm'',
     entry 6 15 (-1) (-1) (-1) 2 4096 (-1) ''Core(TM)2 6###'' 4 ''Core 2 Duo (Conroe)'' ''65 nm'',
     entry 6 15 (-1) (-1) (-1) 2 4096 (-1) ''Core(TM)2 X6###'' 6 ''Core 2 Extreme (Conroe XE)'' ''65 nm'',
     entry 6 15 (-1) (-1) (-1) 4 4096 (-1) ''Core(TM)2 Quad Q6###'' 8 ''Core 2 Quad (Kentsfield)'' ''65 nm'',
     entry 6 15 (-1) (-1) (-1) 2 2048 (-1) ''Core(TM)2 Duo E4###'' 8 ''Core 2 Duo (Allendale)'' ''65 nm'',
     entry 6 15 (-1) (-1) 15 2 2048 (-1) ''Core(TM)2 U7###'' 6 ''Core 2 Duo (Merom-2M)'' ''65 nm'',
     entry 6 15 (-1) (-1) 15 2 2048 (-1) ''Core(TM)2 T[57]###'' 6 ''Core 2 Duo (Merom-2M)'' ''65 nm'',
     entry 6 15 (-1) (-1) 15 2 4096 (-1) ''Core(TM)2 T7###'' 6 ''Core 2 Duo (Merom)'' ''65 nm'',
     entry 6 15 (-1) (-1) 15 2 4096 (-1) ''Core(TM)2 S[LP]7###'' 6 ''Core 2 Duo (Merom)'' ''65 nm'',
     entry 6 15 (-1) (-1) 15 2 4096 (-1) ''Core(TM)2 L7###'' 6 ''Core 2 Duo (Merom)'' ''65 nm'',
     entry 6 15 (-1) (-1) 15 2 (-1) (-1) ''Pentium(R) Dual E2###'' 8 ''Pentium Dual-Core (Allendale)'' ''65 nm'',
     entry 6 15 (-1) (-1) 15 2 (-1) (-1) ''Celeron(R) E1###'' 6 ''Celeron (Allendale)'' ''65 nm'',
     entry 6 6 (-1) (-1) 22 1 (-1) (-1) ''Celeron(R) [24]##'' 4 ''Celeron (Conroe-L)'' ''65 nm'',
     entry 6 14 (-1) (-1) 14 1 (-1) (-1) ''Xeon(R) 51##'' 4 ''Xeon LV (Woodcrest)'' ''65 nm'',
     entry 6 15 (-1) (-1) 15 2 (-1) (-1) ''Xeon(R) 51##'' 4 ''Xeon (Woodcrest)'' ''65 nm'',
     entry 6 15 (-1) (-1) 15 2 (-1) (-1) ''Xeon(R) 30##'' 4 ''Xeon (Conroe)'' ''65 nm'',
     entry 6 15 (-1) (-1) 15 4 (-1) (-1) ''Xeon(R) X32##'' 6 ''Xeon (Kentsfield)'' ''65 nm'',
     entry 6 15 (-1) (-1) 15 4 (-1) (-1) ''Xeon(R) [EXL]53##'' 6 ''Xeon (Clovertown)'' ''65 nm'',
     entry 6 7 (-1) (-1) 23 2 1024 (-1) ''Celeron(R) E3###'' 6 ''Celeron (Wolfdale-3M)'' ''45 nm'',
     entry 6 7 (-1) (-1) 23 2 1024 (-1) ''Pentium(R) E2###'' 6 ''Celeron (Wolfdale-3M)'' ''45 nm'',
     entry 6 7 (-1) (-1) 23 2 2048 (-1) ''Pentium(R) E[56]###'' 6 ''Pentium (Wolfdale-3M)'' ''45 nm'',
     entry 6 7 (-1) (-1) 23 2 3072 (-1) ''Core(TM)2 Duo E7###'' 8 ''Core 2 Duo (Wolfdale-3M)'' ''45 nm'',
     entry 6 7 (-1) (-1) 23 2 6144 (-1) ''Core(TM)2 Duo E8###'' 8 ''Core 2 Duo (Wolfdale)'' ''45 nm'',
     entry 6 7 (-1) (-1) 23 2 1024 (-1) ''Pentium(R) Dual-Core T4###'' 8 ''Pentium Dual-Core (Penryn-L)'' ''45 nm'',
     entry 6 7 (-1) (-1) 23 1 1024 (-1) ''Celeron(R) [79]##'' 4 ''Celeron (Penryn-L)'' ''45 nm'',
     entry 6 7 (-1) (-1) 23 2 3072 (-1) ''Core(TM)2 Duo SU[78]###'' 8 ''Core 2 Duo (Penryn-3M)'' ''45 nm'',
     entry 6 7 (-1) (-1) 23 2 3072 (-1) ''Core(TM)2 Duo P[78]###'' 8 ''Core 2 Duo (Penryn-3M)'' ''45 nm'',
     entry 6 7 (-1) (-1) 23 2 2048 (-1) ''Core(TM)2 Duo T6###'' 8 ''Core 2 Duo (Penryn-3M)'' ''45 nm'',
     entry 6 7 (-1) (-1) 23 2 3072 (-1) ''Core(TM)2 Duo T8###'' 8 ''Core 2 Duo (Penryn-3M)'' ''45 nm'',
     entry 6 7 (-1) (-1) 23 2 6144 (-1) ''Core(TM)2 Duo S[LP]9###'' 8 ''Core 2 Duo (Penryn)'' ''45 nm'',
     entry 6 7 (-1) (-1) 23 2 6144 (-1) ''Core(TM)2 Duo [PT]9###'' 8 ''Core 2 Duo (Penryn)'' ''45 nm'',
     entry 6 7 (-1) (-1) 23 2 6144 (-1) ''Core(TM)2 Duo E8###'' 8 ''Core 2 Duo (Penryn)'' ''45 nm'',
     entry 6 7 (-1) (-1) 23 4 2048 (-1) ''Core(TM)2 Quad Q8###'' 8 ''Core 2 Quad (Yorkfield-6M)'' ''45 nm'',
     entry 6 7 (-1) (-1) 23 4 3072 (-1) ''Core(TM)2 Quad Q9#0#'' 8 ''Core 2 Quad (Yorkfield-6M)'' ''45 nm'',
     entry 6 7 (-1) (-1) 23 4 6144 (-1) ''Core(TM)2 Quad Q9#5#'' 8 ''Core 2 Quad (Yorkfield)'' ''45 nm'',
     entry 6 7 (-1) (-1) 23 2 (-1) (-1) ''Xeon(R) [EL]31##'' 6 ''Xeon (Wolfdale)'' ''45 nm'',
     entry 6 7 (-1) (-1) 23 2 (-1) (-1) ''Xeon(R) [EXL]52##'' 6 ''Xeon (Wolfdale DP)'' ''45 nm'',
     entry 6 7 (-1) (-1) 23 4 (-1) (-1) ''Xeon(R) [EXL]54##'' 6 ''Xeon (Harpertown)'' ''45 nm'',
     entry 6 7 (-1) (-1) 23 4 (-1) (-1) ''Xeon(R) [XL]33##'' 6 ''Xeon (Yorkfield)'' ''45 nm'',
     entry 6 13 (-1) (-1) 29 (-1) (-1) (-1) ''Xeon(R) [EXL]74##'' 6 ''Xeon (Dunnington)'' ''45 nm'']"

definition cpudb_intel_2 :: "match_entry_t list" where
  "cpudb_intel_2 = [
     entry 6 10 (-1) (-1) 26 (-1) (-1) (-1) ''Xeon(R) [WELX]5###'' 6 ''Xeon (Gainestown)'' ''45 nm'',
     entry 6 10 (-1) (-1) 26 (-1) (-1) (-1) ''Xeon(R) [WELX]3###'' 6 ''Xeon (Bloomfield)'' ''45 nm'',
     entry 6 10 (-1) (-1) 26 (-1) (-1) (-1) ''Core(TM) i7 9#5'' 8 ''Core i7 Extreme (Bloomfield)'' ''45 nm'',
     entry 6 10 (-1) (-1) 26 (-1) (-1) (-1) ''Core(TM) i7 9#0'' 8 ''Core i7 (Bloomfield)'' ''45 nm'',
     entry 6 14 (-1) (-1) 30 (-1) (-1) (-1) ''Core(TM) i7 8##'' 8 ''Core i7 (Lynnfield)'' ''45 nm'',
     entry 6 14 (-1) (-1) 30 (-1) (-1) (-1) ''Core(TM) i5 7##'' 8 ''Core i5 (Lynnfield)'' ''45 nm'',
     entry 6 14 (-1) (-1) 30 (-1) (-1) (-1) ''Core(TM) i7 [QX] [789]##'' 10 ''Core i7 (Clarksfield)'' ''45 nm'',
     entry 6 14 (-1) (-1) 30 (-1) (-1) (-1) ''Core(TM) [QX] [789]##'' 8 ''Core i7 (Clarksfield)'' ''45 nm'',
     entry 6 6 (-1) (-1) 38 (-1) (-1) (-1) ''Atom(TM) E6##T'' 8 ''Atom (Tunnel Creek)'' ''45 nm'',
     entry 6 6 (-1) (-1) 38 (-1) (-1) (-1) ''Atom(TM) E6##'' 6 ''Atom (Tunnel Creek)'' ''45 nm'',
     entry 6 6 (-1) (-1) 38 (-1) (-1) (-1) ''Atom(TM) E6##C'' 8 ''Atom (Stellarton)'' ''45 nm'',
     entry 6 12 (-1) (-1) 28 (-1) (-1) (-1) ''Atom(TM) Z5##'' 6 ''Atom (Silverthorne)'' ''45 nm'',
     entry 6 12 (-1) (-1) 28 (-1) (-1) (-1) ''Atom(TM) N2##'' 6 ''Atom (Diamondville)'' ''45 nm'',
     entry 6 12 (-1) (-1) 28 (-1) (-1) (-1) ''Atom(TM) [23]##'' 6 ''Atom (Diamondville)'' ''45 nm'',
     entry 6 6 (-1) (-1) 38 (-1) (-1) (-1) ''Atom(TM) Z6##'' 6 ''Atom (Lincroft)'' ''45 nm'',
     entry 6 12 (-1) (-1) 28 (-1) (-1) (-1) ''Atom(TM) Z6##'' 6 ''Atom (Lincroft)'' ''45 nm'',
     entry 6 12 (-1) (-1) 28 (-1) (-1) (-1) ''Atom(TM) [ND][45]##'' 6 ''Atom (Pineview)'' ''45 nm'',
     entry 6 14 (-1) (-1) 46 (-1) (-1) (-1) ''Xeon(R) [EXL]75##'' 6 ''Xeon 7000 (Beckton)'' ''32 nm'',
     entry 6 14 (-1) (-1) 46 (-1) (-1) (-1) ''Xeon(R) E65##'' 6 ''Xeon 6000 (Beckton)'' ''32 nm'',
     entry 6 14 (-1) (-1) 46 (-1) (-1) (-1) ''Xeon(R) [XELW]5[56]##'' 6 ''Xeon 5000 (Beckton)'' ''32 nm'',
     entry 6 14 (-1) (-1) 46 (-1) (-1) (-1) ''Xeon(R) [XLW]3[456]###'' 6 ''Xeon 3000 (Beckton)'' ''32 nm'',
     entry 6 15 (-1) (-1) 47 (-1) (-1) (-1) ''Xeon(R) E7-#8##'' 6 ''Xeon E7 (Westmere-EX)'' ''32 nm'',
     entry 6 12 (-1) (-1) 44 (-1) (-1) (-1) ''Xeon(R) [XEL]5###'' 6 ''Xeon (Westmere-EP)'' ''32 nm'',
     entry 6 12 (-1) (-1) 44 (-1) (-1) (-1) ''Xeon(R) W3###'' 6 ''Xeon (Gulftown)'' ''32 nm'',
     entry 6 12 (-1) (-1) 44 (-1) (-1) (-1) ''Core(TM) i7 X 9##'' 10 ''Core i7 Extreme (Gulftown)'' ''32 nm'',
     entry 6 12 (-1) (-1) 44 (-1) (-1) (-1) ''Core(TM) i7 9##'' 8 ''Core i7 (Gulftown)'' ''32 nm'',
     entry 6 5 (-1) (-1) 37 (-1) (-1) (-1) ''Xeon(R) L3###'' 6 ''Xeon (Clarkdale)'' ''32 nm'',
     entry 6 5 (-1) (-1) 37 (-1) (-1) (-1) ''Core(TM) i5 6##'' 8 ''Core i5 (Clarkdale)'' ''32 nm'',
     entry 6 5 (-1) (-1) 37 (-1) (-1) (-1) ''Core(TM) i3 5##'' 8 ''Core i3 (Clarkdale)'' ''32 nm'',
     entry 6 5 (-1) (-1) 37 (-1) (-1) (-1) ''Pentium(R) G6###'' 6 ''Pentium (Clarkdale)'' ''32 nm'',
     entry 6 5 (-1) (-1) 37 (-1) (-1) (-1) ''Celeron(R) G1###'' 6 ''Celeron (Clarkdale)'' ''32 nm'',
     entry 6 5 (-1) (-1) 37 (-1) (-1) (-1) ''Core(TM) i7 M 6##'' 8 ''Core i7 (Arrandale)'' ''32 nm'',
     entry 6 5 (-1) (-1) 37 (-1) (-1) (-1) ''Core(TM) i5 M [45]##'' 8 ''Core i5 (Arrandale)'' ''32 nm'',
     entry 6 5 (-1) (-1) 37 (-1) (-1) (-1) ''Core(TM) i3 M 3##'' 8 ''Core i3 (Arrandale)'' ''32 nm'',
     entry 6 5 (-1) (-1) 37 (-1) (-1) (-1) ''Pentium(R) P6###'' 6 ''Pentium (Arrandale)'' ''32 nm'',
     entry 6 5 (-1) (-1) 37 (-1) (-1) (-1) ''Pentium(R) 5U###'' 6 ''Pentium (Arrandale)'' ''32 nm'',
     entry 6 5 (-1) (-1) 37 (-1) (-1) (-1) ''Celeron(R) P4###'' 6 ''Celeron (Arrandale)'' ''32 nm'',
     entry 6 5 (-1) (-1) 37 (-1) (-1) (-1) ''Celeron(R) U3###'' 6 ''Celeron (Arrandale)'' ''32 nm'',
     entry 6 12 (-1) (-1) (-1) (-1) (-1) (-1) ''Atom(TM) [ND]2###'' 6 ''Atom (Cedarview)'' ''32 nm'',
     entry 6 6 (-1) (-1) 54 (-1) (-1) (-1) ''Atom(TM) [ND]2###'' 6 ''Atom (Cedarview)'' ''32 nm'',
     entry 6 7 (-1) (-1) 39 (-1) (-1) (-1) ''Atom(TM) Z2###'' 6 ''Atom (Penwell)'' ''32 nm'',
     entry 6 10 (-1) (-1) 42 (-1) (-1) (-1) ''Xeon(R) E5####[LW]'' 8 ''Xeon E5 (Sandy Bridge)'' ''32 nm'',
     entry 6 10 (-1) (-1) 42 (-1) (-1) (-1) ''Xeon(R) E5####'' 6 ''Xeon E5 (Sandy Bridge)'' ''32 nm'',
     entry 6 10 (-1) (-1) 42 (-1) (-1) (-1) ''Xeon(R) E3####[CL]'' 8 ''Xeon E3 (Sandy Bridge)'' ''32 nm'',
     entry 6 10 (-1) (-1) 42 (-1) (-1) (-1) ''Xeon(R) E3####'' 6 ''Xeon E3 (Sandy Bridge)'' ''32 nm'',
     entry 6 10 (-1) (-1) 42 (-1) (-1) (-1) ''Core(TM) i7-2###'' 8 ''Core i7 (Sandy Bridge)'' ''32 nm'',
     entry 6 10 (-1) (-1) 42 (-1) (-1) (-1) ''Core(TM) i5-2###'' 8 ''Core i5 (Sandy Bridge)'' ''32 nm'',
     entry 6 10 (-1) (-1) 42 (-1) (-1) (-1) ''Core(TM) i3-2###'' 8 ''Core i3 (Sandy Bridge)'' ''32 nm'',
     entry 6 10 (-1) (-1) 42 (-1) (-1) (-1) ''Pentium(R) G[68]##'' 6 ''Pentium (Sandy Bridge)'' ''32 nm'',
     entry 6 10 (-1) (-1) 42 (-1) (-1) (-1) ''Celeron(R) G[45]##'' 6 ''Celeron (Sandy Bridge)'' ''32 nm'',
     entry 6 13 (-1) (-1) 45 (-1) (-1) (-1) ''Core(TM) i7-3###[KX]'' 10 ''Core i7 Extreme (Sandy Bridge-E)'' ''32 nm'',
     entry 6 13 (-1) (-1) 45 (-1) (-1) (-1) ''Xeon(R) E5-####'' 4 ''Xeon E5 (Sandy Bridge-E)'' ''32 nm'',
     entry 6 13 (-1) (-1) 45 (-1) (-1) (-1) ''Xeon(R) E3-####'' 4 ''Xeon E3 (Sandy Bridge-E)'' ''32 nm'',
     entry 6 10 (-1) (-1) 58 (-1) (-1) (-1) ''Xeon(R) E7-####L v2'' 8 ''Xeon E7 (Ivy Bridge)'' ''22 nm'',
     entry 6 10 (-1) (-1) 58 (-1) (-1) (-1) ''Xeon(R) E7-#### v2'' 6 ''Xeon E7 (Ivy Bridge)'' ''22 nm'',
     entry 6 10 (-1) (-1) 58 (-1) (-1) (-1) ''Xeon(R) E5-####[LW] v2'' 8 ''Xeon E5 (Ivy Bridge)'' ''22 nm'',
     entry 6 10 (-1) (-1) 58 (-1) (-1) (-1) ''Xeon(R) E5-#### v2'' 6 ''Xeon E5 (Ivy Bridge)'' ''22 nm'',
     entry 6 10 (-1) (-1) 58 (-1) (-1) (-1) ''Xeon(R) E3-####[CL] v2'' 8 ''Xeon E3 (Ivy Bridge)'' ''22 nm'',
     entry 6 10 (-1) (-1) 58 (-1) (-1) (-1) ''Xeon(R) E3-#### v2'' 6 ''Xeon E3 (Ivy Bridge)'' ''22 nm'',
     entry 6 10 (-1) (-1) 58 (-1) (-1) (-1) ''Core(TM) i7-3###'' 8 ''Core i7 (Ivy Bridge)'' ''22 nm'',
     entry 6 10 (-1) (-1) 58 (-1) (-1) (-1) ''Core(TM) i5-3###'' 8 ''Core i5 (Ivy Bridge)'' ''22 nm'',
     entry 6 10 (-1) (-1) 58 (-1) (-1) (-1) ''Core(TM) i3-3###'' 8 ''Core i3 (Ivy Bridge)'' ''22 nm'',
     entry 6 10 (-1) (-1) 58 (-1) (-1) (-1) ''Pentium(R) G2###'' 6 ''Pentium (Ivy Bridge)'' ''22 nm'',
     entry 6 10 (-1) (-1) 58 (-1) (-1) (-1) ''Celeron(R) G1###'' 6 ''Celeron (Ivy Bridge)'' ''22 nm'',
     entry 6 14 (-1) (-1) 62 (-1) (-1) (-1) ''Xeon(R) E7-#### v2'' 6 ''Xeon E7 (Ivy Bridge-E)'' ''22 nm'',
     entry 6 14 (-1) (-1) 62 (-1) (-1) (-1) ''Xeon(R) E5-#### v2'' 6 ''Xeon E5 (Ivy Bridge-E)'' ''22 nm'',
     entry 6 14 (-1) (-1) 62 (-1) (-1) (-1) ''Xeon(R) E3-#### v2'' 6 ''Xeon E3 (Ivy Bridge-E)'' ''22 nm'',
     entry 6 14 (-1) (-1) 62 (-1) (-1) (-1) ''Core(TM) i7-4###X'' 10 ''Core i7 Extreme (Ivy Bridge-E)'' ''22 nm'',
     entry 6 14 (-1) (-1) 62 (-1) (-1) (-1) ''Core(TM) i7-4###K'' 8 ''Core i7 (Ivy Bridge-E)'' ''22 nm'',
     entry 6 7 (-1) (-1) 55 (-1) (-1) (-1) ''Pentium(R) J2###'' 6 ''Pentium (Bay Trail-D)'' ''22 nm'',
     entry 6 7 (-1) (-1) 55 (-1) (-1) (-1) ''Celeron(R) J1###'' 6 ''Celeron (Bay Trail-D)'' ''22 nm'',
     entry 6 7 (-1) (-1) 55 (-1) (-1) (-1) ''Pentium(R) N3###'' 6 ''Pentium (Bay Trail-M)'' ''22 nm'',
     entry 6 7 (-1) (-1) 55 (-1) (-1) (-1) ''Celeron(R) N2###'' 6 ''Celeron (Bay Trail-M)'' ''22 nm'',
     entry 6 7 (-1) (-1) 55 (-1) (-1) (-1) ''Atom(TM) Z3###'' 6 ''Atom (Bay Trail-T)'' ''22 nm'',
     entry 6 7 (-1) (-1) 55 (-1) (-1) (-1) ''Atom(TM) E3###'' 6 ''Atom (Bay Trail-I)'' ''22 nm'',
     entry 6 13 (-1) (-1) 77 (-1) (-1) (-1) ''Atom(TM) C2##0'' 8 ''Atom (Avoton)'' ''22 nm'',
     entry 6 13 (-1) (-1) 77 (-1) (-1) (-1) ''Atom(TM) C2##[68]'' 8 ''Atom (Rangeley)'' ''22 nm'',
     entry 6 12 (-1) (-1) 60 (-1) (-1) (-1) ''Xeon(R) E7-####L v3'' 8 ''Xeon E7 (Haswell)'' ''22 nm'',
     entry 6 12 (-1) (-1) 60 (-1) (-1) (-1) ''Xeon(R) E7-#### v3'' 6 ''Xeon E7 (Haswell)'' ''22 nm'',
     entry 6 12 (-1) (-1) 60 (-1) (-1) (-1) ''Xeon(R) E5-####[ABLW] v3'' 8 ''Xeon E5 (Haswell)'' ''22 nm'',
     entry 6 12 (-1) (-1) 60 (-1) (-1) (-1) ''Xeon(R) E5-#### v3'' 6 ''Xeon E5 (Haswell)'' ''22 nm'',
     entry 6 12 (-1) (-1) 60 (-1) (-1) (-1) ''Xeon(R) E3-####L v3'' 8 ''Xeon E3 (Haswell)'' ''22 nm'',
     entry 6 12 (-1) (-1) 60 (-1) (-1) (-1) ''Xeon(R) E3-#### v3'' 6 ''Xeon E3 (Haswell)'' ''22 nm'',
     entry 6 12 (-1) (-1) 60 (-1) (-1) (-1) ''Core(TM) i7-4###'' 8 ''Core i7 (Haswell)'' ''22 nm'',
     entry 6 12 (-1) (-1) 60 (-1) (-1) (-1) ''Core(TM) i5-4###'' 8 ''Core i5 (Haswell)'' ''22 nm'',
     entry 6 12 (-1) (-1) 60 (-1) (-1) (-1) ''Core(TM) i3-4###'' 8 ''Core i3 (Haswell)'' ''22 nm'',
     entry 6 12 (-1) (-1) 60 (-1) (-1) (-1) ''Pentium(R) G3###'' 6 ''Pentium (Haswell)'' ''22 nm'',
     entry 6 12 (-1) (-1) 60 (-1) (-1) (-1) ''Celeron(R) G1###'' 6 ''Celeron (Haswell)'' ''22 nm'',
     entry 6 15 (-1) (-1) 63 (-1) (-1) (-1) ''Core(TM) i7-5###[KX]'' 8 ''Core i7 Extreme (Haswell)'' ''22 nm'',
     entry 6 5 (-1) (-1) 69 (-1) (-1) (-1) ''Core(TM) i7-4###'' 8 ''Core i7 (Haswell)'' ''22 nm'',
     entry 6 5 (-1) (-1) 69 (-1) (-1) (-1) ''Core(TM) i5-4###'' 8 ''Core i5 (Haswell)'' ''22 nm'',
     entry 6 5 (-1) (-1) 69 (-1) (-1) (-1) ''Core(TM) i3-4###'' 8 ''Core i3 (Haswell)'' ''22 nm'',
     entry 6 6 (-1) (-1) 70 (-1) (-1) (-1) ''Core(TM) i7-4###R'' 10 ''Core i7 (Haswell-H)'' ''22 nm'',
     entry 6 6 (-1) (-1) 70 (-1) (-1) (-1) ''Core(TM) i5-4###R'' 10 ''Core i5 (Haswell-H)'' ''22 nm'',
     entry 6 5 (-1) (-1) 69 (-1) (-1) (-1) ''Core(TM) i7-4###U'' 10 ''Core i7 (Haswell-ULT)'' ''22 nm'',
     entry 6 5 (-1) (-1) 69 (-1) (-1) (-1) ''Core(TM) i5-4###U'' 10 ''Core i5 (Haswell-ULT)'' ''22 nm'',
     entry 6 5 (-1) (-1) 69 (-1) (-1) (-1) ''Core(TM) i3-4###U'' 10 ''Core i3 (Haswell-ULT)'' ''22 nm'',
     entry 6 5 (-1) (-1) 69 (-1) (-1) (-1) ''Core(TM) i7-4###Y'' 10 ''Core i7 (Haswell-ULX)'' ''22 nm'',
     entry 6 5 (-1) (-1) 69 (-1) (-1) (-1) ''Core(TM) i5-4###Y'' 10 ''Core i5 (Haswell-ULX)'' ''22 nm'',
     entry 6 5 (-1) (-1) 69 (-1) (-1) (-1) ''Core(TM) i3-4###Y'' 10 ''Core i3 (Haswell-ULX)'' ''22 nm'',
     entry 6 6 (-1) (-1) 86 (-1) (-1) (-1) ''Xeon(R) D-15##'' 6 ''Xeon D (Broadwell)'' ''14 nm'',
     entry 6 6 (-1) (-1) 86 (-1) (-1) (-1) ''Pentium(R) D15##'' 6 ''Pentium D (Broadwell)'' ''14 nm'',
     entry 6 7 (-1) (-1) 71 4 (-1) (-1) ''Core(TM) i7-5###[CR]'' 10 ''Core i7 (Broadwell-H)'' ''14 nm'',
     entry 6 7 (-1) (-1) 71 4 (-1) (-1) ''Core(TM) i5-5###[CR]'' 10 ''Core i5 (Broadwell-H)'' ''14 nm'',
     entry 6 13 (-1) (-1) 61 4 (-1) (-1) ''Core(TM) i7-5###HQ'' 12 ''Core i7 (Broadwell-U)'' ''14 nm'',
     entry 6 13 (-1) (-1) 61 2 (-1) (-1) ''Core(TM) i7-5###U'' 10 ''Core i7 (Broadwell-U)'' ''14 nm'',
     entry 6 13 (-1) (-1) 61 2 (-1) (-1) ''Core(TM) i5-5###[HU]'' 10 ''Core i5 (Broadwell-U)'' ''14 nm'',
     entry 6 13 (-1) (-1) 61 2 (-1) (-1) ''Core(TM) i3-5###U'' 10 ''Core i3 (Broadwell-U)'' ''14 nm'',
     entry 6 13 (-1) (-1) 61 2 (-1) (-1) ''Pentium(R) 3###U'' 6 ''Pentium (Broadwell-U)'' ''14 nm'',
     entry 6 13 (-1) (-1) 61 2 (-1) (-1) ''Celeron(R) 3###U'' 6 ''Celeron (Broadwell-U)'' ''14 nm'',
     entry 6 13 (-1) (-1) 61 2 (-1) (-1) ''5Y##'' 4 ''Core M (Broadwell-Y)'' ''14 nm'',
     entry 6 15 (-1) (-1) 79 (-1) (-1) (-1) ''Xeon(R) E7-#### v4'' 6 ''Xeon E7 (Broadwell)'' ''14 nm'',
     entry 6 15 (-1) (-1) 79 (-1) (-1) (-1) ''Xeon(R) E5-####[ACLPRW] v4'' 8 ''Xeon E5 (Broadwell)'' ''14 nm'',
     entry 6 15 (-1) (-1) 79 (-1) (-1) (-1) ''Xeon(R) E5-#### v4'' 6 ''Xeon E5 (Broadwell)'' ''14 nm'',
     entry 6 15 (-1) (-1) 79 (-1) (-1) (-1) ''Xeon(R) E3-####L v4'' 8 ''Xeon E3 (Broadwell)'' ''14 nm'',
     entry 6 15 (-1) (-1) 79 (-1) (-1) (-1) ''Xeon(R) E3-#### v4'' 6 ''Xeon E3 (Broadwell)'' ''14 nm'',
     entry 6 15 (-1) (-1) 79 4 (-1) (-1) ''Core(TM) i7-6###[KX]'' 10 ''Core i7 (Broadwell-E)'' ''14 nm'',
     entry 6 12 (-1) (-1) 76 (-1) (-1) (-1) ''Pentium(R) [JN]3###'' 6 ''Pentium (Braswell)'' ''14 nm'',
     entry 6 12 (-1) (-1) 76 (-1) (-1) (-1) ''Celeron(R) [JN]3###'' 6 ''Celeron (Braswell)'' ''14 nm'',
     entry 6 12 (-1) (-1) 76 4 (-1) (-1) ''Atom(TM) x7-Z8###'' 8 ''Atom x7 (Cherry Trail)'' ''14 nm'',
     entry 6 12 (-1) (-1) 76 4 (-1) (-1) ''Atom(TM) x5-Z8###'' 8 ''Atom x5 (Cherry Trail)'' ''14 nm'',
     entry 6 5 (-1) (-1) 117 (-1) (-1) (-1) ''Spreadtrum'' 2 ''Spreadtrum (Airmont)'' ''14 nm'',
     entry 6 14 (-1) (-1) 94 4 (-1) (-1) ''Core(TM) i7-6###'' 8 ''Core i7 (Skylake)'' ''14 nm'',
     entry 6 14 (-1) (-1) 94 4 (-1) (-1) ''Core(TM) i5-6###'' 8 ''Core i5 (Skylake)'' ''14 nm'',
     entry 6 14 (-1) (-1) 94 2 (-1) (-1) ''Core(TM) i3-6###'' 8 ''Core i3 (Skylake)'' ''14 nm'',
     entry 6 14 (-1) (-1) 94 2 (-1) (-1) ''Pentium(R) G4###'' 6 ''Pentium (Skylake)'' ''14 nm'',
     entry 6 14 (-1) (-1) 94 2 (-1) (-1) ''Celeron(R) G3###'' 6 ''Celeron (Skylake)'' ''14 nm'',
     entry 6 14 (-1) (-1) 78 2 (-1) (-1) ''Core(TM) m7-6Y##'' 8 ''Core m7 (Skylake)'' ''14 nm'']"

definition cpudb_intel_3 :: "match_entry_t list" where
  "cpudb_intel_3 = [
     entry 6 14 (-1) (-1) 78 2 (-1) (-1) ''Core(TM) m5-6Y##'' 8 ''Core m5 (Skylake)'' ''14 nm'',
     entry 6 14 (-1) (-1) 78 2 (-1) (-1) ''Core(TM) m3-6Y##'' 8 ''Core m3 (Skylake)'' ''14 nm'',
     entry 6 14 (-1) (-1) 78 2 (-1) (-1) ''Pentium(R) 4###[UY]'' 6 ''Pentium (Skylake)'' ''14 nm'',
     entry 6 14 (-1) (-1) 78 2 (-1) (-1) ''Celeron(R) 3###U'' 6 ''Celeron (Skylake)'' ''14 nm'',
     entry 6 14 (-1) (-1) 78 2 (-1) (-1) ''Celeron(R) G3###E'' 8 ''Celeron (Skylake)'' ''14 nm'',
     entry 6 5 (-1) (-1) 85 (-1) (-1) (-1) ''Core(TM) i9-7###X'' 10 ''Core i9 (Skylake-X)'' ''14 nm'',
     entry 6 5 (-1) (-1) 85 (-1) (-1) (-1) ''Core(TM) i7-7###X'' 10 ''Core i7 (Skylake-X)'' ''14 nm'',
     entry 6 5 (-1) (-1) 85 (-1) (-1) (-1) ''Core(TM) i9-9###X'' 10 ''Core i9 (Skylake-X)'' ''14 nm'',
     entry 6 5 (-1) (-1) 85 (-1) (-1) (-1) ''Core(TM) i7-9###X'' 10 ''Core i7 (Skylake-X)'' ''14 nm'',
     entry 6 14 (-1) (-1) 94 (-1) (-1) (-1) ''Xeon(R) W-#1##X'' 8 ''Xeon (Skylake-X)'' ''14 nm'',
     entry 6 5 (-1) (-1) 85 (-1) (-1) (-1) ''Xeon(R) D-#1##'' 6 ''Xeon D (Skylake-D)'' ''14 nm'',
     entry 6 5 (-1) (-1) 85 (-1) (-1) (-1) ''Xeon(R) E3-####[ML] v5'' 8 ''Xeon E3 (Skylake-S)'' ''14 nm'',
     entry 6 5 (-1) (-1) 85 (-1) (-1) (-1) ''Xeon(R) E3-#### v5'' 6 ''Xeon E3 (Skylake-S)'' ''14 nm'',
     entry 6 5 (-1) (-1) 85 (-1) (-1) (-1) ''Xeon(R) W-#1##'' 6 ''Xeon W (Skylake-W)'' ''14 nm'',
     entry 6 5 (-1) (-1) 85 (-1) (-1) (-1) ''Xeon(R) Platinum #1##'' 6 ''Xeon Platinum (Skylake-SP)'' ''14 nm'',
     entry 6 5 (-1) (-1) 85 (-1) (-1) (-1) ''Xeon(R) Gold #1##'' 6 ''Xeon Gold (Skylake-SP)'' ''14 nm'',
     entry 6 5 (-1) (-1) 85 (-1) (-1) (-1) ''Xeon(R) Silver #1##'' 6 ''Xeon Silver (Skylake-SP)'' ''14 nm'',
     entry 6 5 (-1) (-1) 85 (-1) (-1) (-1) ''Xeon(R) Bronze #1##'' 6 ''Xeon Bronze (Skylake-SP)'' ''14 nm'',
     entry 6 5 (-1) (-1) 85 (-1) (-1) (-1) ''Montage(R) Jintide(R)'' 4 ''Jintide (Skylake-SP)'' ''14 nm'',
     entry 6 14 (-1) (-1) 158 4 (-1) (-1) ''Core(TM) i7-7###'' 8 ''Core i7 (Kaby Lake)'' ''14+ nm'',
     entry 6 14 (-1) (-1) 158 4 (-1) (-1) ''Core(TM) i5-7###'' 8 ''Core i5 (Kaby Lake)'' ''14+ nm'',
     entry 6 14 (-1) (-1) 158 2 (-1) (-1) ''Core(TM) i3-7###'' 8 ''Core i3 (Kaby Lake)'' ''14+ nm'',
     entry 6 14 (-1) (-1) 158 2 (-1) (-1) ''Pentium(R) G4###'' 6 ''Pentium (Kaby Lake)'' ''14+ nm'',
     entry 6 14 (-1) (-1) 158 2 (-1) (-1) ''Celeron(R) G3###'' 6 ''Celeron (Kaby Lake)'' ''14+ nm'',
     entry 6 14 (-1) (-1) 158 4 (-1) (-1) ''Core(TM) i7-7###X'' 10 ''Core i7 (Kaby Lake-X)'' ''14+ nm'',
     entry 6 14 (-1) (-1) 158 4 (-1) (-1) ''Core(TM) i5-7###X'' 10 ''Core i5 (Kaby Lake-X)'' ''14+ nm'',
     entry 6 14 (-1) (-1) 142 2 (-1) (-1) ''Core(TM) i7-7.##'' 8 ''Core i7 (Kaby Lake-U)'' ''14+ nm'',
     entry 6 14 (-1) (-1) 142 2 (-1) (-1) ''Core(TM) i5-7.##'' 8 ''Core i5 (Kaby Lake-U)'' ''14+ nm'',
     entry 6 14 (-1) (-1) 142 2 (-1) (-1) ''Core(TM) i3-7.##'' 8 ''Core i3 (Kaby Lake-U)'' ''14+ nm'',
     entry 6 14 (-1) (-1) 142 2 (-1) (-1) ''Core(TM) m3-7.##'' 8 ''Core m3 (Kaby Lake-U)'' ''14+ nm'',
     entry 6 14 (-1) (-1) 142 2 (-1) (-1) ''Pentium(R) 441#[UY]'' 8 ''Pentium Gold (Kaby Lake-U)'' ''14+ nm'',
     entry 6 14 (-1) (-1) 142 2 (-1) (-1) ''Celeron(R) 3###[UY]'' 6 ''Celeron (Kaby Lake-U)'' ''14+ nm'',
     entry 6 14 (-1) (-1) 158 4 (-1) (-1) ''Core(TM) i7-8###G'' 10 ''Core i7 (Kaby Lake-G)'' ''14+ nm'',
     entry 6 14 (-1) (-1) 158 4 (-1) (-1) ''Core(TM) i5-8###G'' 10 ''Core i5 (Kaby Lake-G)'' ''14+ nm'',
     entry 6 14 (-1) (-1) 142 4 (-1) (-1) ''Core(TM) i7-8##0U'' 10 ''Core i7 (Kaby Lake-R)'' ''14+ nm'',
     entry 6 14 (-1) (-1) 142 4 (-1) (-1) ''Core(TM) i5-8##0U'' 10 ''Core i5 (Kaby Lake-R)'' ''14+ nm'',
     entry 6 14 (-1) (-1) 142 2 (-1) (-1) ''Core(TM) i3-8##0U'' 10 ''Core i3 (Kaby Lake-R)'' ''14+ nm'',
     entry 6 14 (-1) (-1) 142 2 (-1) (-1) ''Pentium(R) 4###U'' 6 ''Pentium Gold (Kaby Lake-R)'' ''14+ nm'',
     entry 6 14 (-1) (-1) 142 2 (-1) (-1) ''Celeron(R) 3###U'' 6 ''Celeron (Kaby Lake-R)'' ''14+ nm'',
     entry 6 14 (-1) (-1) 158 6 (-1) (-1) ''Core(TM) i7-8###'' 8 ''Core i7 (Coffee Lake-S)'' ''14++ nm'',
     entry 6 14 (-1) (-1) 158 6 (-1) (-1) ''Core(TM) i5-8###'' 8 ''Core i5 (Coffee Lake-S)'' ''14++ nm'',
     entry 6 14 (-1) (-1) 158 4 (-1) (-1) ''Core(TM) i3-8###'' 8 ''Core i3 (Coffee Lake-S)'' ''14++ nm'',
     entry 6 14 (-1) (-1) 158 2 (-1) (-1) ''Pentium(R) G5###'' 6 ''Pentium Gold (Coffee Lake-S)'' ''14++ nm'',
     entry 6 14 (-1) (-1) 158 2 (-1) (-1) ''Celeron(R) G4###'' 6 ''Celeron (Coffee Lake-S)'' ''14++ nm'',
     entry 6 14 (-1) (-1) 158 6 (-1) (-1) ''Xeon(R) E-21##M'' 8 ''Xeon E (Coffee Lake-H)'' ''14++ nm'',
     entry 6 14 (-1) (-1) 158 6 (-1) (-1) ''Core(TM) i9-8###[HB]'' 10 ''Core i9 (Coffee Lake-H)'' ''14++ nm'',
     entry 6 14 (-1) (-1) 158 6 (-1) (-1) ''Core(TM) i7-8###[HB]'' 10 ''Core i7 (Coffee Lake-H)'' ''14++ nm'',
     entry 6 14 (-1) (-1) 158 4 (-1) (-1) ''Core(TM) i5-8###[HB]'' 10 ''Core i5 (Coffee Lake-H)'' ''14++ nm'',
     entry 6 14 (-1) (-1) 158 4 (-1) (-1) ''Core(TM) i5-8###[HB]'' 10 ''Core i5 (Coffee Lake-H)'' ''14++ nm'',
     entry 6 14 (-1) (-1) 158 4 (-1) (-1) ''Core(TM) i3-8###[HB]'' 10 ''Core i3 (Coffee Lake-H)'' ''14++ nm'',
     entry 6 14 (-1) (-1) 158 4 (-1) (-1) ''Core(TM) i7-8###U'' 10 ''Core i7 (Coffee Lake-U)'' ''14++ nm'',
     entry 6 14 (-1) (-1) 158 4 (-1) (-1) ''Core(TM) i5-8###U'' 10 ''Core i5 (Coffee Lake-U)'' ''14++ nm'',
     entry 6 14 (-1) (-1) 158 2 (-1) (-1) ''Core(TM) i3-8###U'' 10 ''Core i3 (Coffee Lake-U)'' ''14++ nm'',
     entry 6 14 (-1) (-1) 158 8 (-1) (-1) ''Xeon(R) E-2###'' 6 ''Xeon E (Coffee Lake-S WS)'' ''14++ nm'',
     entry 6 14 (-1) (-1) 158 8 (-1) (-1) ''CC###'' 4 ''CC (Coffee Lake)'' ''14++ nm'',
     entry 6 14 (-1) (-1) 158 8 (-1) (-1) ''Core(TM) i9-9###'' 8 ''Core i9 (Coffee Lake-S)'' ''14++ nm'',
     entry 6 14 (-1) (-1) 158 8 (-1) (-1) ''Core(TM) i7-9###'' 8 ''Core i7 (Coffee Lake-S)'' ''14++ nm'',
     entry 6 14 (-1) (-1) 158 6 (-1) (-1) ''Core(TM) i5-9###'' 8 ''Core i5 (Coffee Lake-S)'' ''14++ nm'',
     entry 6 14 (-1) (-1) 158 4 (-1) (-1) ''Core(TM) i3-9###'' 8 ''Core i3 (Coffee Lake-S)'' ''14++ nm'',
     entry 6 14 (-1) (-1) 158 2 (-1) (-1) ''Pentium(R) Gold G5###'' 8 ''Pentium Gold (Coffee Lake-S)'' ''14++ nm'',
     entry 6 14 (-1) (-1) 158 2 (-1) (-1) ''Celeron(R) G4###'' 6 ''Celeron (Coffee Lake-S)'' ''14++ nm'',
     entry 6 14 (-1) (-1) 158 (-1) (-1) (-1) ''Xeon(R) E-22##M'' 8 ''Xeon E (Coffee Lake-H Refresh)'' ''14++ nm'',
     entry 6 14 (-1) (-1) 158 8 (-1) (-1) ''Core(TM) i9-9###H'' 10 ''Core i9 (Coffee Lake-H Refresh)'' ''14++ nm'',
     entry 6 14 (-1) (-1) 158 6 (-1) (-1) ''Core(TM) i7-9###H'' 10 ''Core i7 (Coffee Lake-H Refresh)'' ''14++ nm'',
     entry 6 14 (-1) (-1) 158 4 (-1) (-1) ''Core(TM) i5-9###H'' 10 ''Core i5 (Coffee Lake-H Refresh)'' ''14++ nm'',
     entry 6 14 (-1) (-1) 142 4 (-1) (-1) ''Core(TM) i7-8##5U'' 10 ''Core i7 (Whiskey Lake-U)'' ''14++ nm'',
     entry 6 14 (-1) (-1) 142 4 (-1) (-1) ''Core(TM) i5-8##5U'' 10 ''Core i5 (Whiskey Lake-U)'' ''14++ nm'',
     entry 6 14 (-1) (-1) 142 2 (-1) (-1) ''Core(TM) i3-8##5U'' 10 ''Core i3 (Whiskey Lake-U)'' ''14++ nm'',
     entry 6 14 (-1) (-1) 142 2 (-1) (-1) ''Pentium(R) 5###U'' 6 ''Pentium Gold (Whiskey Lake-U)'' ''14++ nm'',
     entry 6 14 (-1) (-1) 142 2 (-1) (-1) ''Celeron(R) 4###U'' 6 ''Celeron (Whiskey Lake-U)'' ''14++ nm'',
     entry 6 14 (-1) (-1) 142 4 (-1) (-1) ''Core(TM) i7-8###Y'' 10 ''Core i7 (Amber Lake-Y)'' ''14+ nm'',
     entry 6 14 (-1) (-1) 142 4 (-1) (-1) ''Core(TM) i5-8###Y'' 10 ''Core i5 (Amber Lake-Y)'' ''14+ nm'',
     entry 6 14 (-1) (-1) 142 2 (-1) (-1) ''Core(TM) m3-8###Y'' 10 ''Core m3 (Amber Lake-Y)'' ''14+ nm'',
     entry 6 14 (-1) (-1) 142 2 (-1) (-1) ''Pentium(R) 442#Y'' 8 ''Pentium Gold (Amber Lake-Y)'' ''14+ nm'',
     entry 6 14 (-1) (-1) 142 4 (-1) (-1) ''Core(TM) i7-10###Y'' 10 ''Core i7 (Amber Lake-Y)'' ''14+ nm'',
     entry 6 14 (-1) (-1) 142 4 (-1) (-1) ''Core(TM) i5-10###Y'' 10 ''Core i5 (Amber Lake-Y)'' ''14+ nm'',
     entry 6 14 (-1) (-1) 142 2 (-1) (-1) ''Core(TM) i3-10###Y'' 10 ''Core i3 (Amber Lake-Y)'' ''14+ nm'',
     entry 6 14 (-1) (-1) 142 2 (-1) (-1) ''Pentium(R) 65##Y'' 6 ''Pentium Gold (Amber Lake-Y)'' ''14+ nm'',
     entry 6 5 7 (-1) 85 (-1) (-1) (-1) ''Core(TM) i9-10###X'' 10 ''Core i9 (Cascade Lake-X)'' ''14++ nm'',
     entry 6 5 (-1) (-1) 85 (-1) (-1) (-1) ''Xeon(R) W-#[23]##'' 6 ''Xeon W (Cascade Lake-W)'' ''14++ nm'',
     entry 6 5 (-1) (-1) 85 (-1) (-1) (-1) ''Xeon(R) Platinum #2##'' 6 ''Xeon Platinum (Cascade Lake-SP)'' ''14++ nm'',
     entry 6 5 (-1) (-1) 85 (-1) (-1) (-1) ''Xeon(R) Gold #2##'' 6 ''Xeon Gold (Cascade Lake-SP)'' ''14++ nm'',
     entry 6 5 (-1) (-1) 85 (-1) (-1) (-1) ''Xeon(R) Silver #2##'' 6 ''Xeon Silver (Cascade Lake-SP)'' ''14++ nm'',
     entry 6 5 (-1) (-1) 85 (-1) (-1) (-1) ''Xeon(R) Bronze #2##'' 6 ''Xeon Bronze (Cascade Lake-SP)'' ''14++ nm'',
     entry 6 5 (-1) (-1) 165 (-1) (-1) (-1) ''Xeon(R) W-12##'' 6 ''Xeon W (Comet Lake-S)'' ''14++ nm'',
     entry 6 5 (-1) (-1) 165 10 (-1) (-1) ''Core(TM) i9-10###'' 8 ''Core i9 (Comet Lake-S)'' ''14++ nm'',
     entry 6 5 (-1) (-1) 165 8 (-1) (-1) ''Core(TM) i7-10###'' 8 ''Core i7 (Comet Lake-S)'' ''14++ nm'',
     entry 6 5 (-1) (-1) 165 6 (-1) (-1) ''Core(TM) i5-10###'' 8 ''Core i5 (Comet Lake-S)'' ''14++ nm'',
     entry 6 5 (-1) (-1) 165 4 (-1) (-1) ''Core(TM) i3-10###'' 8 ''Core i3 (Comet Lake-S)'' ''14++ nm'',
     entry 6 5 (-1) (-1) 165 2 (-1) (-1) ''Pentium(R) Gold G6###'' 8 ''Pentium Gold (Comet Lake-S)'' ''14++ nm'',
     entry 6 5 (-1) (-1) 165 2 (-1) (-1) ''Celeron(R) G5###'' 6 ''Celeron (Comet Lake-S)'' ''14++ nm'',
     entry 6 6 (-1) (-1) 166 6 (-1) (-1) ''Core(TM) i7-10###U'' 10 ''Core i7 (Comet Lake-U)'' ''14++ nm'',
     entry 6 14 12 (-1) 142 6 (-1) (-1) ''Core(TM) i7-10###U'' 10 ''Core i7 (Comet Lake-U)'' ''14++ nm'',
     entry 6 14 12 (-1) 142 4 (-1) (-1) ''Core(TM) i7-10###U'' 10 ''Core i7 (Comet Lake-U)'' ''14++ nm'',
     entry 6 14 12 (-1) 142 4 (-1) (-1) ''Core(TM) i5-10###U'' 10 ''Core i5 (Comet Lake-U)'' ''14++ nm'',
     entry 6 14 12 (-1) 142 4 (-1) (-1) ''Core(TM) i3-10###U'' 10 ''Core i3 (Comet Lake-U)'' ''14++ nm'',
     entry 6 14 12 (-1) 142 2 (-1) (-1) ''Pentium(R) Gold 6###U'' 8 ''Pentium Gold (Comet Lake-U)'' ''14++ nm'',
     entry 6 14 12 (-1) 142 2 (-1) (-1) ''Celeron(R) 5###U'' 6 ''Celeron (Comet Lake-U)'' ''14++ nm'',
     entry 6 5 (-1) (-1) 165 (-1) (-1) (-1) ''Xeon(R) W-10###M'' 10 ''Xeon W (Comet Lake-H)'' ''14++ nm'',
     entry 6 5 (-1) (-1) 165 (-1) (-1) (-1) ''Core(TM) i9-10###H'' 10 ''Core i9 (Comet Lake-H)'' ''14++ nm'',
     entry 6 5 (-1) (-1) 165 (-1) (-1) (-1) ''Core(TM) i7-10###H'' 10 ''Core i7 (Comet Lake-H)'' ''14++ nm'',
     entry 6 5 (-1) (-1) 165 (-1) (-1) (-1) ''Core(TM) i5-10###H'' 10 ''Core i5 (Comet Lake-H)'' ''14++ nm'',
     entry 6 12 (-1) (-1) 92 (-1) (-1) (-1) ''Pentium(R) J4###'' 6 ''Pentium (Apollo Lake)'' ''14 nm'',
     entry 6 12 (-1) (-1) 92 (-1) (-1) (-1) ''Celeron(R) J3###'' 6 ''Celeron (Apollo Lake)'' ''14 nm'',
     entry 6 12 (-1) (-1) 92 (-1) (-1) (-1) ''Pentium(R) N4###'' 6 ''Pentium (Apollo Lake)'' ''14 nm'',
     entry 6 12 (-1) (-1) 92 (-1) (-1) (-1) ''Celeron(R) N3###'' 6 ''Celeron (Apollo Lake)'' ''14 nm'',
     entry 6 12 (-1) (-1) 92 (-1) (-1) (-1) ''Atom(TM) E39##'' 6 ''Atom (Apollo Lake)'' ''14 nm'',
     entry 6 15 (-1) (-1) 95 (-1) (-1) (-1) ''Atom(TM) C39##'' 6 ''Atom (Denverton)'' ''14 nm'',
     entry 6 10 (-1) (-1) 122 (-1) (-1) (-1) ''Pentium(R) Silver [JN]5###'' 8 ''Pentium Silver (Gemini Lake)'' ''14 nm'',
     entry 6 10 (-1) (-1) 122 (-1) (-1) (-1) ''Celeron(R) [JN]4###'' 6 ''Celeron (Gemini Lake)'' ''14 nm'',
     entry 6 6 (-1) (-1) 102 2 (-1) (-1) ''Core(TM) i3-8###U'' 10 ''Core i3 (Cannon Lake-U)'' ''14++ nm'',
     entry 6 6 (-1) (-1) 102 2 (-1) (-1) ''Core(TM) m3-8###Y'' 10 ''Core m3 (Cannon Lake-Y)'' ''14++ nm'',
     entry 6 14 (-1) (-1) 126 4 (-1) (-1) ''Core(TM) i7-10##NG7'' 10 ''Core i7 (Ice Lake)'' ''10 nm'',
     entry 6 14 (-1) (-1) 126 4 (-1) (-1) ''Core(TM) i7-10##G7'' 10 ''Core i7 (Ice Lake)'' ''10 nm'',
     entry 6 14 (-1) (-1) 126 4 (-1) (-1) ''Core(TM) i5-10##NG7'' 10 ''Core i5 (Ice Lake)'' ''10 nm'',
     entry 6 14 (-1) (-1) 126 4 (-1) (-1) ''Core(TM) i5-10##G[741]'' 10 ''Core i5 (Ice Lake)'' ''10 nm'',
     entry 6 14 (-1) (-1) 126 2 (-1) (-1) ''Core(TM) i3-10##G[14]'' 10 ''Core i3 (Ice Lake)'' ''10 nm'',
     entry 6 14 (-1) (-1) 126 2 (-1) (-1) ''Core(TM) i3-10##NG4'' 10 ''Core i3 (Ice Lake)'' ''10 nm'',
     entry 6 14 (-1) (-1) 126 2 (-1) (-1) ''Pentium(R) 68##'' 4 ''Pentium (Ice Lake)'' ''10 nm'',
     entry 6 12 (-1) (-1) 108 (-1) (-1) (-1) ''Xeon(R) D-[12]7##'' 6 ''Xeon D (Ice Lake-D)'' ''10 nm'',
     entry 6 10 (-1) (-1) 106 (-1) (-1) (-1) ''Xeon(R) W-#3##'' 6 ''Xeon W (Ice Lake-W)'' ''10 nm'',
     entry 6 10 (-1) (-1) 106 (-1) (-1) (-1) ''Xeon(R) Platinum #3##'' 6 ''Xeon Platinum (Ice Lake-SP)'' ''10 nm'',
     entry 6 10 (-1) (-1) 106 (-1) (-1) (-1) ''Xeon(R) Gold #3##'' 6 ''Xeon Gold (Ice Lake-SP)'' ''10 nm'',
     entry 6 10 (-1) (-1) 106 (-1) (-1) (-1) ''Xeon(R) Silver #3##'' 6 ''Xeon Silver (Ice Lake-SP)'' ''10 nm'',
     entry 6 10 (-1) (-1) 106 (-1) (-1) (-1) ''Xeon(R) Bronze #3##'' 6 ''Xeon Bronze (Ice Lake-SP)'' ''10 nm'',
     entry 6 6 (-1) (-1) 150 (-1) (-1) (-1) ''Pentium(R) [JN]6###'' 6 ''Pentium (Elkhart Lake)'' ''10 nm'',
     entry 6 6 (-1) (-1) 150 (-1) (-1) (-1) ''Celeron(R) [JN]6###'' 6 ''Celeron (Elkhart Lake)'' ''10 nm'',
     entry 6 6 (-1) (-1) 150 (-1) (-1) (-1) ''Atom(TM) x6###'' 6 ''Atom (Elkhart Lake)'' ''10 nm'',
     entry 6 10 (-1) (-1) 138 (-1) (-1) (-1) ''Core(TM) i5-L##G7'' 12 ''Core i5 (Lakefield)'' ''10 nm'']"

definition cpudb_intel_4 :: "match_entry_t list" where
  "cpudb_intel_4 = [
     entry 6 10 (-1) (-1) 138 (-1) (-1) (-1) ''Core(TM) i3-L##G4'' 12 ''Core i3 (Lakefield)'' ''10 nm'',
     entry 6 12 (-1) (-1) 156 (-1) (-1) (-1) ''Pentium(R) Silver N6###'' 8 ''Pentium Silver (Jasper Lake)'' ''10 nm'',
     entry 6 12 (-1) (-1) 156 (-1) (-1) (-1) ''Celeron(R) N[45]###'' 6 ''Celeron (Jasper Lake)'' ''10 nm'',
     entry 6 12 (-1) (-1) 140 (-1) (-1) (-1) ''Core(TM) i7-11#5G7'' 12 ''Core i7 (Tiger Lake-UP3)'' ''10SF'',
     entry 6 12 (-1) (-1) 140 (-1) (-1) (-1) ''Core(TM) i5-11#5G7'' 12 ''Core i5 (Tiger Lake-UP3)'' ''10SF'',
     entry 6 12 (-1) (-1) 140 (-1) (-1) (-1) ''Core(TM) i3-11#5G4'' 12 ''Core i3 (Tiger Lake-UP3)'' ''10SF'',
     entry 6 12 (-1) (-1) 140 2 (-1) (-1) ''Pentium(R) Gold 7##5'' 6 ''Pentium Gold (Tiger Lake-UP3)'' ''10SF'',
     entry 6 12 (-1) (-1) 140 2 (-1) (-1) ''Celeron(R) 6##5'' 4 ''Celeron (Tiger Lake-UP3)'' ''10SF'',
     entry 6 12 (-1) (-1) 140 (-1) (-1) (-1) ''Core(TM) i7-11#0G7'' 12 ''Core i7 (Tiger Lake-UP4)'' ''10SF'',
     entry 6 12 (-1) (-1) 140 (-1) (-1) (-1) ''Core(TM) i5-11#0G7'' 12 ''Core i5 (Tiger Lake-UP4)'' ''10SF'',
     entry 6 12 (-1) (-1) 140 (-1) (-1) (-1) ''Core(TM) i3-11#0G4'' 12 ''Core i3 (Tiger Lake-UP4)'' ''10SF'',
     entry 6 12 (-1) (-1) 140 (-1) (-1) (-1) ''Core(TM) i7-11###H'' 10 ''Core i7 (Tiger Lake-H35)'' ''10SF'',
     entry 6 12 (-1) (-1) 140 (-1) (-1) (-1) ''Core(TM) i5-11###H'' 10 ''Core i5 (Tiger Lake-H35)'' ''10SF'',
     entry 6 13 (-1) (-1) 141 (-1) (-1) (-1) ''Xeon(R) W-11###M'' 10 ''Xeon W (Tiger Lake-H)'' ''10SF'',
     entry 6 13 (-1) (-1) 141 (-1) (-1) (-1) ''Core(TM) i9-11###H'' 10 ''Core i9 (Tiger Lake-H)'' ''10SF'',
     entry 6 13 (-1) (-1) 141 (-1) (-1) (-1) ''Core(TM) i7-11###H'' 10 ''Core i7 (Tiger Lake-H)'' ''10SF'',
     entry 6 13 (-1) (-1) 141 (-1) (-1) (-1) ''Core(TM) i5-11###H'' 10 ''Core i5 (Tiger Lake-H)'' ''10SF'',
     entry 6 13 (-1) (-1) 141 (-1) (-1) (-1) ''Core(TM) i9-11###KB'' 12 ''Core i9 (Tiger Lake-B)'' ''10SF'',
     entry 6 13 (-1) (-1) 141 (-1) (-1) (-1) ''Core(TM) i7-11###B'' 10 ''Core i7 (Tiger Lake-B)'' ''10SF'',
     entry 6 13 (-1) (-1) 141 (-1) (-1) (-1) ''Core(TM) i5-11###B'' 10 ''Core i5 (Tiger Lake-B)'' ''10SF'',
     entry 6 13 (-1) (-1) 141 (-1) (-1) (-1) ''Core(TM) i5-11###B'' 10 ''Core i5 (Tiger Lake-B)'' ''10SF'',
     entry 6 7 (-1) (-1) 167 (-1) (-1) (-1) ''Core(TM) i9-11###'' 8 ''Core i9 (Rocket Lake-S)'' ''14++ nm'',
     entry 6 7 (-1) (-1) 167 (-1) (-1) (-1) ''Core(TM) i7-11###'' 8 ''Core i7 (Rocket Lake-S)'' ''14++ nm'',
     entry 6 7 (-1) (-1) 167 (-1) (-1) (-1) ''Core(TM) i5-11###'' 8 ''Core i5 (Rocket Lake-S)'' ''14++ nm'',
     entry 6 7 (-1) (-1) 167 (-1) (-1) (-1) ''Xeon(R) E-23##'' 6 ''Xeon E (Rocket Lake)'' ''14++ nm'',
     entry 6 7 (-1) (-1) 151 (-1) (-1) (-1) ''Core(TM) i9-12###'' 8 ''Core i9 (Alder Lake-S)'' ''Intel 7'',
     entry 6 7 (-1) (-1) 151 (-1) (-1) (-1) ''Core(TM) i7-12###'' 8 ''Core i7 (Alder Lake-S)'' ''Intel 7'',
     entry 6 7 (-1) (-1) 151 (-1) (-1) (-1) ''Core(TM) i5-12###'' 8 ''Core i5 (Alder Lake-S)'' ''Intel 7'',
     entry 6 7 (-1) (-1) 151 (-1) (-1) (-1) ''Core(TM) i3-12###'' 8 ''Core i3 (Alder Lake-S)'' ''Intel 7'',
     entry 6 7 (-1) (-1) 151 (-1) (-1) (-1) ''Pentium(R) Gold G7###'' 8 ''Pentium Gold (Alder Lake-S)'' ''Intel 7'',
     entry 6 7 (-1) (-1) 151 (-1) (-1) (-1) ''Celeron(R) G6###'' 6 ''Celeron (Alder Lake-S)'' ''Intel 7'',
     entry 6 7 (-1) (-1) 151 (-1) (-1) (-1) ''Core(TM) i9-12###HX'' 12 ''Core i9 (Alder Lake-HX)'' ''Intel 7'',
     entry 6 7 (-1) (-1) 151 (-1) (-1) (-1) ''Core(TM) i7-12###HX'' 12 ''Core i7 (Alder Lake-HX)'' ''Intel 7'',
     entry 6 7 (-1) (-1) 151 (-1) (-1) (-1) ''Core(TM) i5-12###HX'' 12 ''Core i5 (Alder Lake-HX)'' ''Intel 7'',
     entry 6 10 (-1) (-1) 154 (-1) (-1) (-1) ''Core(TM) i7-12##P'' 10 ''Core i7 (Alder Lake-P)'' ''Intel 7'',
     entry 6 10 (-1) (-1) 154 (-1) (-1) (-1) ''Core(TM) i5-12##P'' 10 ''Core i5 (Alder Lake-P)'' ''Intel 7'',
     entry 6 10 (-1) (-1) 154 (-1) (-1) (-1) ''Core(TM) i3-12##P'' 10 ''Core i3 (Alder Lake-P)'' ''Intel 7'',
     entry 6 10 (-1) (-1) 154 (-1) (-1) (-1) ''Core(TM) i7-12##U'' 10 ''Core i7 (Alder Lake-U)'' ''Intel 7'',
     entry 6 10 (-1) (-1) 154 (-1) (-1) (-1) ''Core(TM) i5-12##U'' 10 ''Core i5 (Alder Lake-U)'' ''Intel 7'',
     entry 6 10 (-1) (-1) 154 (-1) (-1) (-1) ''Core(TM) i3-12##U'' 10 ''Core i3 (Alder Lake-U)'' ''Intel 7'',
     entry 6 10 (-1) (-1) 154 (-1) (-1) (-1) ''Pentium(R) Gold 8###'' 6 ''Pentium Gold (Alder Lake-U)'' ''Intel 7'',
     entry 6 10 (-1) (-1) 154 (-1) (-1) (-1) ''Celeron(R) 7###'' 4 ''Celeron (Alder Lake-U)'' ''Intel 7'',
     entry 6 10 (-1) (-1) 154 (-1) (-1) (-1) ''Core(TM) i9-12###H'' 10 ''Core i9 (Alder Lake-H)'' ''Intel 7'',
     entry 6 10 (-1) (-1) 154 (-1) (-1) (-1) ''Core(TM) i7-12###H'' 10 ''Core i7 (Alder Lake-H)'' ''Intel 7'',
     entry 6 10 (-1) (-1) 154 (-1) (-1) (-1) ''Core(TM) i5-12###H'' 10 ''Core i5 (Alder Lake-H)'' ''Intel 7'',
     entry 6 10 (-1) (-1) 154 (-1) (-1) (-1) ''Core(TM) i7-12##UL'' 12 ''Core i7 (Alder Lake-PS)'' ''Intel 7'',
     entry 6 10 (-1) (-1) 154 (-1) (-1) (-1) ''Core(TM) i5-12##UL'' 12 ''Core i5 (Alder Lake-PS)'' ''Intel 7'',
     entry 6 10 (-1) (-1) 154 (-1) (-1) (-1) ''Core(TM) i3-12##UL'' 12 ''Core i3 (Alder Lake-PS)'' ''Intel 7'',
     entry 6 10 (-1) (-1) 154 (-1) (-1) (-1) ''Celeron(R) 7###L'' 6 ''Celeron (Alder Lake-PS)'' ''Intel 7'',
     entry 6 10 (-1) (-1) 154 (-1) (-1) (-1) ''Core(TM) i7-12###HL'' 12 ''Core i7 (Alder Lake-PS)'' ''Intel 7'',
     entry 6 10 (-1) (-1) 154 (-1) (-1) (-1) ''Core(TM) i5-12###HL'' 12 ''Core i5 (Alder Lake-PS)'' ''Intel 7'',
     entry 6 10 (-1) (-1) 154 (-1) (-1) (-1) ''Core(TM) i3-12###HL'' 12 ''Core i3 (Alder Lake-PS)'' ''Intel 7'',
     entry 6 15 (-1) (-1) 143 (-1) (-1) (-1) ''Xeon(R) w9-#4##'' 6 ''Xeon w9 (Sapphire Rapids-WS)'' ''Intel 7'',
     entry 6 15 (-1) (-1) 143 (-1) (-1) (-1) ''Xeon(R) w7-#4##'' 6 ''Xeon w7 (Sapphire Rapids-WS)'' ''Intel 7'',
     entry 6 15 (-1) (-1) 143 (-1) (-1) (-1) ''Xeon(R) w5-#4##'' 6 ''Xeon w5 (Sapphire Rapids-WS)'' ''Intel 7'',
     entry 6 15 (-1) (-1) 143 (-1) (-1) (-1) ''Xeon(R) w3-#4##'' 6 ''Xeon w3 (Sapphire Rapids-WS)'' ''Intel 7'',
     entry 6 15 (-1) (-1) 143 (-1) (-1) (-1) ''Xeon(R) Max #4##'' 6 ''Xeon Max (Sapphire Rapids-HBM)'' ''Intel 7'',
     entry 6 15 (-1) (-1) 143 (-1) (-1) (-1) ''Xeon(R) Platinum #4##'' 6 ''Xeon Platinum (Sapphire Rapids-SP)'' ''Intel 7'',
     entry 6 15 (-1) (-1) 143 (-1) (-1) (-1) ''Xeon(R) Gold #4##'' 6 ''Xeon Gold (Sapphire Rapids-SP)'' ''Intel 7'',
     entry 6 15 (-1) (-1) 143 (-1) (-1) (-1) ''Xeon(R) Silver #4##'' 6 ''Xeon Silver (Sapphire Rapids-SP)'' ''Intel 7'',
     entry 6 15 (-1) (-1) 143 (-1) (-1) (-1) ''Xeon(R) Bronze #4##'' 6 ''Xeon Bronze (Sapphire Rapids-SP)'' ''Intel 7'',
     entry 6 14 (-1) (-1) 190 (-1) (-1) (-1) ''Core(TM) i3-N3##'' 10 ''Core i3 (Alder Lake-N)'' ''Intel 7'',
     entry 6 14 (-1) (-1) 190 4 (-1) (-1) ''N##'' 2 ''Intel Processor (Alder Lake-N)'' ''Intel 7'',
     entry 6 14 (-1) (-1) 190 2 (-1) (-1) ''N##'' 2 ''Intel Processor (Alder Lake-N)'' ''Intel 7'',
     entry 6 14 (-1) (-1) 190 (-1) (-1) (-1) ''Atom(TM) x7###E'' 8 ''Atom (Alder Lake-N)'' ''Intel 7'',
     entry 6 14 (-1) (-1) 190 8 (-1) (-1) ''Core(TM) 3 N#5#'' 8 ''Core 3 (Twin Lake-N)'' ''Intel 7'',
     entry 6 14 (-1) (-1) 190 4 (-1) (-1) ''N#5#'' 4 ''Intel Processor (Twin Lake-N)'' ''Intel 7'',
     entry 6 15 (-1) (-1) 191 (-1) (-1) (-1) ''Core(TM) i5-13###'' 8 ''Core i5 (Raptor Lake-S)'' ''Intel 7'',
     entry 6 15 (-1) (-1) 191 (-1) (-1) (-1) ''Core(TM) i3-13###'' 8 ''Core i3 (Raptor Lake-S)'' ''Intel 7'',
     entry 6 7 (-1) (-1) 183 (-1) (-1) (-1) ''Core(TM) i9-13###'' 8 ''Core i9 (Raptor Lake-S)'' ''Intel 7'',
     entry 6 7 (-1) (-1) 183 (-1) (-1) (-1) ''Core(TM) i7-13###'' 8 ''Core i7 (Raptor Lake-S)'' ''Intel 7'',
     entry 6 7 (-1) (-1) 183 (-1) (-1) (-1) ''Core(TM) i5-13###'' 8 ''Core i5 (Raptor Lake-S)'' ''Intel 7'',
     entry 6 7 (-1) (-1) 183 (-1) (-1) (-1) ''Core(TM) i3-13###'' 8 ''Core i3 (Raptor Lake-S)'' ''Intel 7'',
     entry 6 7 (-1) (-1) 183 (-1) (-1) (-1) ''Core(TM) i9-13###HX'' 12 ''Core i9 (Raptor Lake-HX)'' ''Intel 7'',
     entry 6 7 (-1) (-1) 183 (-1) (-1) (-1) ''Core(TM) i7-13###HX'' 12 ''Core i7 (Raptor Lake-HX)'' ''Intel 7'',
     entry 6 7 (-1) (-1) 183 (-1) (-1) (-1) ''Core(TM) i5-13###HX'' 12 ''Core i5 (Raptor Lake-HX)'' ''Intel 7'',
     entry 6 10 2 (-1) 186 (-1) (-1) (-1) ''Core(TM) i7-13###P'' 10 ''Core i7 (Raptor Lake-P)'' ''Intel 7'',
     entry 6 10 2 (-1) 186 (-1) (-1) (-1) ''Core(TM) i5-13###P'' 10 ''Core i5 (Raptor Lake-P)'' ''Intel 7'',
     entry 6 10 3 (-1) 186 (-1) (-1) (-1) ''Core(TM) i7-13###U'' 10 ''Core i7 (Raptor Lake-U)'' ''Intel 7'',
     entry 6 10 3 (-1) 186 (-1) (-1) (-1) ''Core(TM) i5-13###U'' 10 ''Core i5 (Raptor Lake-U)'' ''Intel 7'',
     entry 6 10 3 (-1) 186 (-1) (-1) (-1) ''Core(TM) i3-13###U'' 10 ''Core i3 (Raptor Lake-U)'' ''Intel 7'',
     entry 6 10 3 (-1) 186 (-1) (-1) (-1) ''U300'' 4 ''Intel Processor (Raptor Lake-U)'' ''Intel 7'',
     entry 6 10 (-1) (-1) 186 (-1) (-1) (-1) ''Core(TM) i9-13###H'' 10 ''Core i9 (Raptor Lake-H)'' ''Intel 7'',
     entry 6 10 (-1) (-1) 186 (-1) (-1) (-1) ''Core(TM) i7-13###H'' 10 ''Core i7 (Raptor Lake-H)'' ''Intel 7'',
     entry 6 10 (-1) (-1) 186 (-1) (-1) (-1) ''Core(TM) i5-13###H'' 10 ''Core i5 (Raptor Lake-H)'' ''Intel 7'',
     entry 6 15 (-1) (-1) 207 (-1) (-1) (-1) ''Xeon(R) Platinum #5##'' 6 ''Xeon Platinum (Emerald Rapids-SP)'' ''Intel 7'',
     entry 6 15 (-1) (-1) 207 (-1) (-1) (-1) ''Xeon(R) Gold #5##'' 6 ''Xeon Gold (Emerald Rapids-SP)'' ''Intel 7'',
     entry 6 15 (-1) (-1) 207 (-1) (-1) (-1) ''Xeon(R) Silver #5##'' 6 ''Xeon Silver (Emerald Rapids-SP)'' ''Intel 7'',
     entry 6 15 (-1) (-1) 207 (-1) (-1) (-1) ''Xeon(R) Bronze #5##'' 6 ''Xeon Bronze (Emerald Rapids-SP)'' ''Intel 7'',
     entry 6 7 (-1) (-1) 183 (-1) (-1) (-1) ''Core(TM) i9-14###'' 8 ''Core i9 (Raptor Lake-S)'' ''Intel 7'',
     entry 6 7 (-1) (-1) 183 (-1) (-1) (-1) ''Core(TM) i7-14###'' 8 ''Core i7 (Raptor Lake-S)'' ''Intel 7'',
     entry 6 7 (-1) (-1) 183 (-1) (-1) (-1) ''Core(TM) i5-14###'' 8 ''Core i5 (Raptor Lake-S)'' ''Intel 7'',
     entry 6 7 (-1) (-1) 183 (-1) (-1) (-1) ''Core(TM) i3-14###'' 8 ''Core i3 (Raptor Lake-S)'' ''Intel 7'',
     entry 6 7 (-1) (-1) 183 2 (-1) (-1) ''300'' 2 ''Intel Processor (Raptor Lake-S)'' ''Intel 7'',
     entry 6 7 (-1) (-1) 183 (-1) (-1) (-1) ''Core(TM) i9-14###HX'' 12 ''Core i9 (Raptor Lake-HX)'' ''Intel 7'',
     entry 6 7 (-1) (-1) 183 (-1) (-1) (-1) ''Core(TM) i7-14###HX'' 12 ''Core i7 (Raptor Lake-HX)'' ''Intel 7'',
     entry 6 7 (-1) (-1) 183 (-1) (-1) (-1) ''Core(TM) i5-14###HX'' 12 ''Core i5 (Raptor Lake-HX)'' ''Intel 7'',
     entry 6 7 (-1) (-1) 183 (-1) (-1) (-1) ''Xeon(R) E-24##'' 6 ''Xeon E (Raptor Lake)'' ''Intel 7'',
     entry 6 7 (-1) (-1) 183 (-1) (-1) (-1) ''Core(TM) 7 1##U'' 8 ''Core 7 (Raptor Lake-U)'' ''Intel 7'',
     entry 6 7 (-1) (-1) 183 (-1) (-1) (-1) ''Core(TM) 5 1##U'' 8 ''Core 5 (Raptor Lake-U)'' ''Intel 7'',
     entry 6 7 (-1) (-1) 183 (-1) (-1) (-1) ''Core(TM) 3 1##U'' 8 ''Core 3 (Raptor Lake-U)'' ''Intel 7'',
     entry 6 7 (-1) (-1) 183 (-1) (-1) (-1) ''Core(TM) 7 2##U'' 8 ''Core 7 (Raptor Lake-U)'' ''Intel 7'',
     entry 6 7 (-1) (-1) 183 (-1) (-1) (-1) ''Core(TM) 5 2##U'' 8 ''Core 5 (Raptor Lake-U)'' ''Intel 7'',
     entry 6 7 (-1) (-1) 183 (-1) (-1) (-1) ''Core(TM) 9 2##H'' 8 ''Core 9 (Raptor Lake-H)'' ''Intel 7'',
     entry 6 7 (-1) (-1) 183 (-1) (-1) (-1) ''Core(TM) 7 2##H'' 8 ''Core 7 (Raptor Lake-H)'' ''Intel 7'',
     entry 6 7 (-1) (-1) 183 (-1) (-1) (-1) ''Core(TM) 5 2##H'' 8 ''Core 5 (Raptor Lake-H)'' ''Intel 7'',
     entry 6 10 (-1) (-1) 170 (-1) (-1) (-1) ''Core(TM) Ultra 9 1##H'' 10 ''Core Ultra 9 (Meteor Lake-H)'' ''Intel 4'',
     entry 6 10 (-1) (-1) 170 (-1) (-1) (-1) ''Core(TM) Ultra 7 1##H'' 10 ''Core Ultra 7 (Meteor Lake-H)'' ''Intel 4'',
     entry 6 10 (-1) (-1) 170 (-1) (-1) (-1) ''Core(TM) Ultra 5 1##H'' 10 ''Core Ultra 5 (Meteor Lake-H)'' ''Intel 4'',
     entry 6 10 (-1) (-1) 170 (-1) (-1) (-1) ''Core(TM) Ultra 7 1##U'' 10 ''Core Ultra 7 (Meteor Lake-U)'' ''Intel 4'',
     entry 6 10 (-1) (-1) 170 (-1) (-1) (-1) ''Core(TM) Ultra 5 1##U'' 10 ''Core Ultra 5 (Meteor Lake-U)'' ''Intel 4'',
     entry 6 13 (-1) (-1) 173 (-1) (-1) (-1) ''Xeon(R) 6[57]##P'' 6 ''Xeon 6 (Granite Rapids-SP)'' ''Intel 3'',
     entry 6 6 (-1) (-1) 198 (-1) (-1) (-1) ''Core(TM) Ultra 9 2##'' 8 ''Core Ultra 9 (Arrow Lake-S)'' ''TSMC N3B'',
     entry 6 6 (-1) (-1) 198 (-1) (-1) (-1) ''Core(TM) Ultra 7 2##'' 8 ''Core Ultra 7 (Arrow Lake-S)'' ''TSMC N3B'',
     entry 6 6 (-1) (-1) 198 (-1) (-1) (-1) ''Core(TM) Ultra 5 2##'' 8 ''Core Ultra 5 (Arrow Lake-S)'' ''TSMC N3B'',
     entry 6 6 (-1) (-1) 181 (-1) (-1) (-1) ''Core(TM) Ultra 7 2##U'' 10 ''Core Ultra 7 (Arrow Lake-U)'' ''TSMC N3B'',
     entry 6 6 (-1) (-1) 181 (-1) (-1) (-1) ''Core(TM) Ultra 5 2##U'' 10 ''Core Ultra 5 (Arrow Lake-U)'' ''TSMC N3B'',
     entry 6 6 (-1) (-1) 197 (-1) (-1) (-1) ''Core(TM) Ultra 9 2##H'' 10 ''Core Ultra 9 (Arrow Lake-H)'' ''TSMC N3B'',
     entry 6 6 (-1) (-1) 197 (-1) (-1) (-1) ''Core(TM) Ultra 7 2##H'' 10 ''Core Ultra 7 (Arrow Lake-H)'' ''TSMC N3B'',
     entry 6 6 (-1) (-1) 197 (-1) (-1) (-1) ''Core(TM) Ultra 5 2##H'' 10 ''Core Ultra 5 (Arrow Lake-H)'' ''TSMC N3B'',
     entry 6 6 (-1) (-1) 197 (-1) (-1) (-1) ''Core(TM) Ultra 9 2##HX'' 12 ''Core Ultra 9 (Arrow Lake-HX)'' ''TSMC N3B'',
     entry 6 6 (-1) (-1) 197 (-1) (-1) (-1) ''Core(TM) Ultra 7 2##HX'' 12 ''Core Ultra 7 (Arrow Lake-HX)'' ''TSMC N3B'',
     entry 6 6 (-1) (-1) 197 (-1) (-1) (-1) ''Core(TM) Ultra 5 2##HX'' 12 ''Core Ultra 5 (Arrow Lake-HX)'' ''TSMC N3B'',
     entry 6 13 (-1) (-1) 189 (-1) (-1) (-1) ''Core(TM) Ultra 9 2##V'' 10 ''Core Ultra 9 (Lunar Lake-V)'' ''TSMC N3B'',
     entry 6 13 (-1) (-1) 189 (-1) (-1) (-1) ''Core(TM) Ultra 7 2##V'' 10 ''Core Ultra 7 (Lunar Lake-V)'' ''TSMC N3B'',
     entry 6 13 (-1) (-1) 189 (-1) (-1) (-1) ''Core(TM) Ultra 5 2##V'' 10 ''Core Ultra 5 (Lunar Lake-V)'' ''TSMC N3B'']"

definition cpudb_intel_5 :: "match_entry_t list" where
  "cpudb_intel_5 = [
     entry 7 (-1) (-1) (-1) (-1) 1 (-1) (-1) '''' 0 ''Itanium'' UNKN_STR,
     entry 15 (-1) (-1) 16 (-1) 1 (-1) (-1) '''' 0 ''Itanium 2'' UNKN_STR]"

definition cpudb_intel :: "match_entry_t list" where
  "cpudb_intel = cpudb_intel_1 @ cpudb_intel_2 @ cpudb_intel_3 @ cpudb_intel_4 @ cpudb_intel_5"

section \<open>Centaur and Zhaoxin\<close>

definition cpudb_centaur :: "match_entry_t list" where
  "cpudb_centaur = [
     entry (-1) (-1) (-1) (-1) (-1) (-1) (-1) (-1) '''' 0 ''Unknown Centaur CPU'' '''',
     entry 6 (-1) (-1) (-1) (-1) (-1) (-1) (-1) ''VIA'' 2 ''Unknown VIA CPU'' '''',
     entry 6 6 (-1) (-1) (-1) (-1) (-1) (-1) ''VIA Samuel'' 4 ''VIA Cyrix III (Samuel)'' ''180 nm'',
     entry 6 7 (-1) (-1) (-1) (-1) (-1) (-1) ''VIA Samuel 2'' 6 ''VIA C3 (Samuel 2)'' ''150 nm'',
     entry 6 7 (-1) (-1) (-1) (-1) (-1) (-1) ''VIA Ezra'' 4 ''VIA C3 (Ezra)'' ''130 nm'',
     entry 6 8 (-1) (-1) (-1) (-1) (-1) (-1) ''VIA C3 Ezra'' 6 ''VIA C3 (Ezra-T)'' ''130 nm'',
     entry 6 9 (-1) (-1) (-1) (-1) (-1) (-1) ''VIA Nehemiah'' 4 ''VIA C3 (Nehemiah)'' ''130 nm'',
     entry 6 10 (-1) (-1) (-1) (-1) (-1) (-1) ''VIA Esther'' 4 ''VIA C7 (Esther)'' ''90 nm'',
     entry 6 13 (-1) (-1) (-1) (-1) (-1) (-1) ''VIA C7-M'' 4 ''VIA C7-M (Esther)'' ''90 nm'',
     entry 6 15 (-1) (-1) (-1) (-1) (-1) (-1) ''VIA Nano'' 4 ''VIA Nano (Isaiah)'' ''65 nm'',
     entry 6 15 (-1) (-1) (-1) 1 (-1) (-1) ''VIA Nano'' 4 ''VIA Nano (Isaiah)'' ''65 nm'',
     entry 6 15 (-1) (-1) (-1) 2 (-1) (-1) ''VIA Nano'' 4 ''VIA Nano X2 (Isaiah)'' ''65 nm'',
     entry 6 15 (-1) (-1) (-1) (-1) (-1) (-1) ''VIA QuadCore'' 4 ''VIA Nano X4 (Isaiah)'' ''65 nm'',
     entry 6 15 (-1) (-1) (-1) 4 (-1) (-1) ''VIA Eden X4'' 6 ''VIA Eden X4 (Isaiah)'' ''65 nm'',
     entry 7 (-1) (-1) (-1) (-1) (-1) (-1) (-1) ''ZHAOXIN'' 2 ''Unknown Zhaoxin CPU'' '''',
     entry 7 (-1) (-1) (-1) 15 (-1) (-1) (-1) ''ZHAOXIN KaisHeng KH-C'' 8 ''Zhaoxin KaisHeng (ZhangJiang)'' ''28 nm'',
     entry 7 (-1) (-1) (-1) 15 (-1) (-1) (-1) ''ZHAOXIN KaiXian ZX-C'' 8 ''Zhaoxin KaiXian (ZhangJiang)'' ''28 nm'',
     entry 7 (-1) (-1) (-1) 27 (-1) (-1) (-1) ''ZHAOXIN KaisHeng KH-20###'' 8 ''Zhaoxin KaisHeng (WuDaoKou)'' ''28 nm'',
     entry 7 (-1) (-1) (-1) 27 (-1) (-1) (-1) ''ZHAOXIN KaiXian KX-5###'' 8 ''Zhaoxin KaiXian (WuDaoKou)'' ''28 nm'',
     entry 7 (-1) (-1) (-1) 27 (-1) (-1) (-1) ''ZHAOXIN KaiXian KX-U5###'' 8 ''Zhaoxin KaiXian (WuDaoKou)'' ''28 nm'',
     entry 7 (-1) (-1) (-1) 59 (-1) (-1) (-1) ''ZHAOXIN KaisHeng KH-30###'' 8 ''Zhaoxin KaisHeng (LuJiaZui)'' ''16 nm'',
     entry 7 (-1) (-1) (-1) 59 (-1) (-1) (-1) ''ZHAOXIN KaiXian KX-6###'' 8 ''Zhaoxin KaiXian (LuJiaZui)'' ''16 nm'',
     entry 7 (-1) (-1) (-1) 59 (-1) (-1) (-1) ''ZHAOXIN KaiXian KX-U6###'' 8 ''Zhaoxin KaiXian (LuJiaZui)'' ''16 nm'',
     entry 7 (-1) (-1) (-1) 91 (-1) (-1) (-1) ''ZHAOXIN KaisHeng KH-40###'' 8 ''Zhaoxin KaisHeng (Yongfeng)'' ''16 nm'',
     entry 7 (-1) (-1) (-1) 91 (-1) (-1) (-1) ''ZHAOXIN KaiXian KX-7###'' 8 ''Zhaoxin KaiXian (Yongfeng)'' ''16 nm'']"

section \<open>Tables that fit\<close>

text \<open>
  The strings of a row are shorter than the arrays they initialise and the brand scores are
  small and not negative, so every string is terminated and \<^verbatim>\<open>strncpy\<close> copies the whole name and
  technology of the row that is selected.
\<close>

definition entry_fits :: "match_entry_t \<Rightarrow> bool" where
  "entry_fits e \<longleftrightarrow> length (me_pattern e) < BRAND_STR_MAX \<and> length (me_name e) < CODENAME_STR_MAX \<and>
     length (me_technology e) < TECHNOLOGY_STR_MAX \<and> 0 \<le> me_score e \<and> me_score e \<le> 12 \<and>
     me_name e \<noteq> []"

text \<open>What the recognizer asks of a row; two rows with the same criteria always score the same.\<close>

definition criteria ::
    "match_entry_t \<Rightarrow> (int \<times> int \<times> int \<times> int \<times> int) \<times> (int \<times> int \<times> int) \<times> string \<times> int" where
  "criteria e = ((me_family e, me_model e, me_stepping e, me_ext_family e, me_ext_model e),
     (me_ncores e, me_l2cache e, me_l3cache e), me_pattern e, me_score e)"

lemma same_criteria_score: "criteria e = criteria e' \<Longrightarrow> score e data = score e' data"
proof -
  assume c: "criteria e = criteria e'"
  then have "score_rows e data = score_rows e' data" by (simp add: criteria_def score_rows_def)
  moreover from c have "me_pattern e = me_pattern e'" "me_score e = me_score e'"
    by (simp_all add: criteria_def)
  ultimately show ?thesis by (simp only: score_def)
qed

text \<open>
  Every row named \<open>nm\<close> has the criteria \<open>c\<close>, and the first row with these criteria has another
  name.
\<close>

definition shadowed :: "string \<Rightarrow> match_entry_t \<Rightarrow> match_entry_t list \<Rightarrow> bool" where
  "shadowed nm a db \<longleftrightarrow> list_all (\<lambda>e. me_name e = nm \<longrightarrow> criteria e = criteria a) db \<and>
     List.find (\<lambda>e. criteria e = criteria a) db = Some a \<and> me_name a \<noteq> nm"

lemma shadowed_earlier:
  assumes "shadowed nm a db" and "k < length db" and "me_name (db ! k) = nm"
  shows "\<exists>i < k. criteria (db ! i) = criteria (db ! k)"
proof -
  from assms have c: "criteria (db ! k) = criteria a" by (simp add: shadowed_def list_all_length)
  from assms(1) obtain i where i: "i < length db" "db ! i = a"
    "\<forall>j < i. criteria (db ! j) \<noteq> criteria a" and nm: "me_name a \<noteq> nm"
    by (auto simp: shadowed_def find_Some_iff)
  have "i \<le> k" using i(3) c by (meson not_le)
  moreover have "i \<noteq> k" using i(2) nm assms(3) by auto
  ultimately show ?thesis using i(2) c by (intro exI [of _ i]) auto
qed

locale match_db =
  fixes db :: "match_entry_t list"
  assumes db_nonempty: "db \<noteq> []" and db_fits: "list_all entry_fits db"
begin

text \<open>The first row of the highest score is selected whole.\<close>

lemma match_first:
  obtains k where "first_best data db k" and "match_cpu_codename db data = Some (score (db ! k) data,
     data\<lparr>cpu_codename := me_name (db ! k), technology_node := me_technology (db ! k)\<rparr>)"
proof -
  obtain k where k: "first_best data db k" and m: "match_cpu_codename db data = Some (score (db ! k) data,
      data\<lparr>cpu_codename := take CODENAME_STR_MAX (me_name (db ! k)),
        technology_node := take TECHNOLOGY_STR_MAX (me_technology (db ! k))\<rparr>)"
    using match_cpu_codename_first [OF db_nonempty] by blast
  have "entry_fits (db ! k)" using k db_fits by (simp add: first_best_def list_all_length)
  with m show thesis by (intro that [OF k]) (simp add: entry_fits_def)
qed

lemma match_selects:
  "\<exists>e \<in> set db. match_cpu_codename db data = Some (score e data,
     data\<lparr>cpu_codename := me_name e, technology_node := me_technology e\<rparr>)"
proof -
  obtain k where "first_best data db k" and "match_cpu_codename db data = Some (score (db ! k) data,
      data\<lparr>cpu_codename := me_name (db ! k), technology_node := me_technology (db ! k)\<rparr>)"
    by (rule match_first)
  then show ?thesis by (intro bexI [of _ "db ! k"]) (auto simp: first_best_def)
qed

lemma score_range: "e \<in> set db \<Longrightarrow> 0 \<le> score e data \<and> score e data \<le> 26"
  using score_nonneg [of e data] score_le [of e data] db_fits
  by (auto simp: list_all_iff entry_fits_def dest: bspec)

lemma match_defined: "match_cpu_codename db data \<noteq> None"
  using match_selects [of data] by auto

lemma match_score_range:
  "match_cpu_codename db data = Some (s, d) \<Longrightarrow> 0 \<le> s \<and> s \<le> 26"
proof -
  assume m: "match_cpu_codename db data = Some (s, d)"
  obtain e where e: "e \<in> set db" "s = score e data" using match_selects [of data] m by auto
  have "me_score e \<le> 12" using e db_fits by (simp add: list_all_iff entry_fits_def)
  then show ?thesis using score_nonneg [of e data] score_le [of e data] e(2) by simp
qed

lemma shadowed_unreachable:
  assumes "shadowed nm a db" and "match_cpu_codename db data = Some (s, d)"
  shows "cpu_codename d \<noteq> nm"
proof
  assume nm: "cpu_codename d = nm"
  obtain k where k: "first_best data db k"
    and d: "cpu_codename d = take CODENAME_STR_MAX (me_name (db ! k))"
    using match_cpu_codename_first [OF db_nonempty, of data] assms(2) by auto
  have "k < length db" using k by (simp add: first_best_def)
  with d nm db_fits have "me_name (db ! k) = nm"
    by (auto simp: list_all_length entry_fits_def)
  with shadowed_earlier [of nm a db k] assms(1) \<open>k < length db\<close>
  obtain i where "i < k" "criteria (db ! i) = criteria (db ! k)" by auto
  with k same_criteria_score [of "db ! i" "db ! k" data] show False
    by (auto simp: first_best_def)
qed

end

lemma cpudb_amd_1_fits: "list_all entry_fits cpudb_amd_1"
  by (simp add: cpudb_amd_1_def entry_fits_def)

lemma cpudb_amd_2_fits: "list_all entry_fits cpudb_amd_2"
  by (simp add: cpudb_amd_2_def entry_fits_def)

lemma cpudb_amd_3_fits: "list_all entry_fits cpudb_amd_3"
  by (simp add: cpudb_amd_3_def entry_fits_def)

interpretation amd_db: match_db cpudb_amd
proof unfold_locales
  show "cpudb_amd \<noteq> []" by (simp add: cpudb_amd_def cpudb_amd_1_def)
  show "list_all entry_fits cpudb_amd"
    by (simp add: cpudb_amd_def cpudb_amd_1_fits cpudb_amd_2_fits cpudb_amd_3_fits)
qed

lemma cpudb_intel_1_fits: "list_all entry_fits cpudb_intel_1"
  by (simp add: cpudb_intel_1_def entry_fits_def)

lemma cpudb_intel_2_fits: "list_all entry_fits cpudb_intel_2"
  by (simp add: cpudb_intel_2_def entry_fits_def)

lemma cpudb_intel_3_fits: "list_all entry_fits cpudb_intel_3"
  by (simp add: cpudb_intel_3_def entry_fits_def)

lemma cpudb_intel_4_fits: "list_all entry_fits cpudb_intel_4"
  by (simp add: cpudb_intel_4_def entry_fits_def)

lemma cpudb_intel_5_fits: "list_all entry_fits cpudb_intel_5"
  by (simp add: cpudb_intel_5_def entry_fits_def)

interpretation intel_db: match_db cpudb_intel
proof unfold_locales
  show "cpudb_intel \<noteq> []" by (simp add: cpudb_intel_def cpudb_intel_1_def)
  show "list_all entry_fits cpudb_intel"
    by (simp add: cpudb_intel_def cpudb_intel_1_fits cpudb_intel_2_fits cpudb_intel_3_fits cpudb_intel_4_fits cpudb_intel_5_fits)
qed

lemma cpudb_centaur_fits: "list_all entry_fits cpudb_centaur"
  by (simp add: cpudb_centaur_def entry_fits_def)

interpretation centaur_db: match_db cpudb_centaur
proof unfold_locales
  show "cpudb_centaur \<noteq> []" by (simp add: cpudb_centaur_def)
qed (rule cpudb_centaur_fits)

definition amd_toliman_256 :: match_entry_t where
  "amd_toliman_256 = entry 15 2 (-1) 16 (-1) 3 512 (-1) ''Phenom(tm)'' 2 ''Phenom X3 (Toliman/256K)'' ''65 nm''"

definition intel_nocona :: match_entry_t where
  "intel_nocona = entry 15 4 (-1) 15 (-1) 1 (-1) (-1) ''Xeon(TM)'' 2 ''Xeon (Nocona)'' ''90 nm''"

lemma amd_toliman: "shadowed ''Phenom X3 (Toliman/512K)'' amd_toliman_256 cpudb_amd"
proof -
  have "list_all (\<lambda>e. me_name e = ''Phenom X3 (Toliman/512K)'' \<longrightarrow> criteria e = criteria amd_toliman_256) db"
    if "db \<in> {cpudb_amd_1, cpudb_amd_3}" for db
    using that by (auto simp: cpudb_amd_1_def cpudb_amd_3_def)
  moreover have "list_all (\<lambda>e. me_name e = ''Phenom X3 (Toliman/512K)'' \<longrightarrow>
      criteria e = criteria amd_toliman_256) cpudb_amd_2"
    by (simp add: cpudb_amd_2_def criteria_def amd_toliman_256_def)
  moreover have "List.find (\<lambda>e. criteria e = criteria amd_toliman_256) cpudb_amd_1 = None"
    by (simp add: cpudb_amd_1_def criteria_def amd_toliman_256_def)
  moreover have "List.find (\<lambda>e. criteria e = criteria amd_toliman_256) cpudb_amd_2 = Some amd_toliman_256"
    by (simp add: cpudb_amd_2_def criteria_def amd_toliman_256_def)
  ultimately show ?thesis
    by (simp add: shadowed_def cpudb_amd_def find_append) (simp add: amd_toliman_256_def)
qed

lemma intel_potomac: "shadowed ''Xeon (Potomac)'' intel_nocona cpudb_intel"
proof -
  have "list_all (\<lambda>e. me_name e = ''Xeon (Potomac)'' \<longrightarrow> criteria e = criteria intel_nocona) db"
    if "db \<in> {cpudb_intel_2, cpudb_intel_3, cpudb_intel_4, cpudb_intel_5}" for db
    using that
    by (auto simp: cpudb_intel_2_def cpudb_intel_3_def cpudb_intel_4_def cpudb_intel_5_def)
  moreover have "list_all (\<lambda>e. me_name e = ''Xeon (Potomac)'' \<longrightarrow>
      criteria e = criteria intel_nocona) cpudb_intel_1"
    by (simp add: cpudb_intel_1_def criteria_def intel_nocona_def)
  moreover have "List.find (\<lambda>e. criteria e = criteria intel_nocona) cpudb_intel_1 = Some intel_nocona"
    by (simp add: cpudb_intel_1_def criteria_def intel_nocona_def)
  ultimately show ?thesis
    by (simp add: shadowed_def cpudb_intel_def find_append) (simp add: intel_nocona_def)
qed

lemma known_toliman: "''Phenom X3 (Toliman/512K)'' \<in> set (known_names cpudb_amd)"
proof -
  have "''Phenom X3 (Toliman/512K)'' \<in> set (map me_name cpudb_amd_2)"
    by (simp add: cpudb_amd_2_def)
  then show ?thesis by (auto simp: known_names_def cpudb_amd_def)
qed

lemma known_potomac: "''Xeon (Potomac)'' \<in> set (known_names cpudb_intel)"
proof -
  have "''Xeon (Potomac)'' \<in> set (map me_name cpudb_intel_1)"
    by (simp add: cpudb_intel_1_def)
  then show ?thesis by (auto simp: known_names_def cpudb_intel_def)
qed

text \<open>A family 6, model 9 processor and the rows of the Centaur table.\<close>

theorem match_cpu_codename_best_witness:
  "\<exists>k. first_best (cpu_id_t_constructor\<lparr>x86 := (x86 cpu_id_t_constructor)\<lparr>family := 6, model := 9\<rparr>\<rparr>)
     cpudb_centaur k \<and> k < 25"
proof -
  have "cpudb_centaur \<noteq> []" and "length cpudb_centaur = 25" by (simp_all add: cpudb_centaur_def)
  then show ?thesis
    using match_cpu_codename_best [of cpudb_centaur
        "cpu_id_t_constructor\<lparr>x86 := (x86 cpu_id_t_constructor)\<lparr>family := 6, model := 9\<rparr>\<rparr>"]
    by (auto simp: first_best_def)
qed

end
