(* ===== verification/Table_Names.thy ===== *)
theory Table_Names
  imports Match_Tables
begin

text \<open>
  What the tables name: the row that the recognizer selects for a processor, the rows of the Centaur table for the
  processors they describe, and the names that are listed and never reported.
\<close>

section \<open>The processor a row describes\<close>

definition sample_text :: "string \<Rightarrow> string" where
  "sample_text p = map (\<lambda>c. if c = CHR ''#'' then CHR ''0'' else c) p"

definition described :: "match_entry_t \<Rightarrow> cpu_id_t" where
  "described e = cpu_id_t_constructor\<lparr>
     x86 := (x86 cpu_id_t_constructor)\<lparr>family := me_family e, model := me_model e, stepping := me_stepping e,
       ext_family := me_ext_family e, ext_model := me_ext_model e\<rparr>,
     num_cores := me_ncores e, l2_cache := me_l2cache e, l3_cache := me_l3cache e,
     brand_str := sample_text (me_pattern e)\<rparr>"

text \<open>The part of a score that comes from the numbers, and the part that comes from the brand.\<close>

definition number_score :: "match_entry_t \<Rightarrow> match_entry_t \<Rightarrow> int" where
  "number_score e e' = score_loop (score_rows e (described e')) 0"

definition brand_found :: "match_entry_t \<Rightarrow> match_entry_t \<Rightarrow> bool" where
  "brand_found e e' \<longleftrightarrow> (case parse_pattern (me_pattern e) of None \<Rightarrow> False
     | Some ts \<Rightarrow> found_at ts (sample_text (me_pattern e')))"

definition plain_brand :: "match_entry_t \<Rightarrow> bool" where
  "plain_brand e \<longleftrightarrow> clean_brand (described e) = sample_text (me_pattern e) \<and> NUL \<notin> set (me_pattern e) \<and>
     CHR ''['' \<notin> set (me_pattern e) \<and> 0 \<le> me_score e \<and> (me_score e = 0 \<longleftrightarrow> me_pattern e = [])"

lemma parse_no_bracket: "CHR ''['' \<notin> set p \<Longrightarrow> parse_pattern p \<noteq> None"
  by (induction p) auto

lemma score_described:
  assumes "plain_brand e" and "plain_brand e'"
  shows "score e (described e') = number_score e e' + (if me_score e > 0 \<and> brand_found e e' then me_score e else 0)"
proof (cases "me_pattern e = []")
  case True
  then show ?thesis using assms by (simp add: score_def number_score_def plain_brand_def)
next
  case False
  obtain ts where ts: "parse_pattern (me_pattern e) = Some ts"
    using parse_no_bracket assms(1) by (auto simp: plain_brand_def)
  have "NUL \<notin> set (sample_text (me_pattern e'))" "CHR ''['' \<notin> set (sample_text (me_pattern e'))"
    using assms(2) by (auto simp: sample_text_def plain_brand_def)
  with match_pattern_found [OF ts False] assms(1)
  have "match_pattern (sample_text (me_pattern e')) (me_pattern e) \<noteq> 0 \<longleftrightarrow> brand_found e e'"
    by (simp add: brand_found_def ts plain_brand_def)
  then show ?thesis
    using assms False by (simp add: score_def number_score_def plain_brand_def Let_def)
qed

definition loses :: "match_entry_t \<Rightarrow> match_entry_t \<Rightarrow> int \<Rightarrow> bool" where
  "loses e e' t \<longleftrightarrow>
     (if number_score e e' + me_score e < t then True
      else if number_score e e' < t then \<not> brand_found e e' else False)"

definition tidy :: "string \<Rightarrow> bool" where
  "tidy b \<longleftrightarrow> length b < BRAND_STR_MAX \<and> c_strstr b ''CPU'' = None \<and> c_strstr b ''Processor'' = None \<and>
     squeeze False b = b \<and> NUL \<notin> set b \<and> CHR ''['' \<notin> set b"

lemma tidy_plain:
  assumes "tidy (me_pattern e)" and "tidy (sample_text (me_pattern e))" and "0 \<le> me_score e"
    and "me_score e = 0 \<longleftrightarrow> me_pattern e = []"
  shows "plain_brand e"
  using assms by (simp add: plain_brand_def clean_brand_def described_def tidy_def c_strncpy_def remove_substring_def collapse_squeeze)

lemma centaur_plain: "list_all plain_brand cpudb_centaur"
proof -
  have "list_all (\<lambda>e. tidy (me_pattern e)) cpudb_centaur"
    unfolding cpudb_centaur_def by (simp add: tidy_def c_isspace_def)
  moreover have "list_all (\<lambda>e. tidy (sample_text (me_pattern e))) cpudb_centaur"
    unfolding cpudb_centaur_def by (simp add: tidy_def sample_text_def c_isspace_def)
  moreover have "list_all (\<lambda>e. 0 \<le> me_score e \<and> (me_score e = 0 \<longleftrightarrow> me_pattern e = [])) cpudb_centaur"
    by (simp add: cpudb_centaur_def)
  ultimately show ?thesis by (simp add: list_all_iff tidy_plain)
qed

text \<open>A row wins against the rows before and after it with the score \<open>t\<close>.\<close>

fun row_wins :: "match_entry_t list \<Rightarrow> match_entry_t \<Rightarrow> match_entry_t list \<Rightarrow> int \<Rightarrow> bool" where
  "row_wins pre e post t \<longleftrightarrow>
     list_all (\<lambda>x. loses x e t) pre \<and> list_all (\<lambda>x. loses x e (t + 1)) post \<and> (0 < me_score e \<longrightarrow> brand_found e e)"

fun rows_win :: "match_entry_t list \<Rightarrow> match_entry_t list \<Rightarrow> bool" where
  "rows_win pre [] \<longleftrightarrow> True"
| "rows_win pre (e # es) \<longleftrightarrow> row_wins pre e es (number_score e e + me_score e) \<and> rows_win (e # pre) es"

lemma loses_score:
  assumes "loses x e t" and "plain_brand x" and "plain_brand e"
  shows "score x (described e) < t"
  using assms(1) score_described [OF assms(2,3)] assms(2)
  by (auto simp: loses_def plain_brand_def split: if_splits)

lemma row_wins_first:
  assumes "row_wins pre e post (number_score e e + me_score e)" and "list_all plain_brand (rev pre @ e # post)"
  shows "first_best (described e) (rev pre @ e # post) (length pre)"
proof -
  let ?tab = "rev pre @ e # post" and ?t = "number_score e e + me_score e"
  have e: "plain_brand e" using assms(2) by simp
  have t: "score e (described e) = ?t" using assms(1) e score_described [OF e e] by (auto simp: plain_brand_def)
  have before: "score x (described e) < ?t" if "x \<in> set pre" for x
    using that assms loses_score [of x e ?t] e by (simp add: list_all_iff)
  have after: "score x (described e) \<le> ?t" if "x \<in> set post" for x
    using that assms loses_score [of x e "?t + 1"] e by (fastforce simp: list_all_iff)
  have "score (?tab ! j) (described e) < ?t" if "j < length pre" for j
    using that before [of "rev pre ! j"] nth_mem [of j "rev pre"] by (simp add: nth_append)
  moreover have "score x (described e) \<le> ?t" if "x \<in> set ?tab" for x
    using that before [of x] after [of x] t by auto
  then have "score (?tab ! j) (described e) \<le> ?t" if "j < length ?tab" for j
    using that nth_mem by blast
  moreover have "score (?tab ! length pre) (described e) = ?t" using t by (simp add: nth_append)
  ultimately show ?thesis by (simp only: first_best_def) simp
qed

lemma rows_win_first:
  "rows_win pre es \<Longrightarrow> list_all plain_brand (rev pre @ es) \<Longrightarrow> k < length es \<Longrightarrow>
    first_best (described (es ! k)) (rev pre @ es) (length pre + k)"
proof (induction es arbitrary: pre k)
  case (Cons e es)
  show ?case
  proof (cases k)
    case 0
    then show ?thesis using row_wins_first [of pre e es] Cons.prems by simp
  next
    case (Suc k')
    then show ?thesis using Cons.IH [of "e # pre" k'] Cons.prems by simp
  qed
qed simp

lemma number_score_rows:
  "number_score e e' = score_loop [(me_family e, me_family e', 2), (me_model e, me_model e', 2),
     (me_stepping e, me_stepping e', 2), (me_ext_family e, me_ext_family e', 2), (me_ext_model e, me_ext_model e', 2),
     (me_ncores e, me_ncores e', 2), (me_l2cache e, me_l2cache e', 1), (me_l3cache e, me_l3cache e', 1)] 0"
  by (simp add: number_score_def score_rows_def described_def)

text \<open>Lower case on the bits of a character.\<close>

lemma lower_bits:
  "c_tolower (Char b0 b1 b2 b3 b4 b5 b6 b7) =
     (if \<not> b7 \<and> b6 \<and> \<not> b5 \<and> (b0 \<or> b1 \<or> b2 \<or> b3 \<or> b4) \<and> \<not> (b4 \<and> b3 \<and> (b2 \<or> b1 \<and> b0))
      then Char b0 b1 b2 b3 b4 True b6 b7 else Char b0 b1 b2 b3 b4 b5 b6 b7)"
  by (cases b0; cases b1; cases b2; cases b3; cases b4; cases b5; cases b6; cases b7)
    (simp_all add: c_tolower_def char_of_def bit_0)

lemma centaur_rows_win: "rows_win [] cpudb_centaur"
  by (simp add: cpudb_centaur_def loses_def number_score_rows brand_found_def sample_text_def lower_bits c_isdigit_def)

section \<open>The names\<close>

text \<open>A row is stored with its whole name and technology.\<close>

definition stores_row :: "match_entry_t list \<Rightarrow> nat \<Rightarrow> cpu_id_t \<Rightarrow> bool" where
  "stores_row db k data \<longleftrightarrow> k < length db \<and> match_cpu_codename db data =
     Some (score (db ! k) data,
       data\<lparr>cpu_codename := me_name (db ! k), technology_node := me_technology (db ! k)\<rparr>)"

context match_db begin

lemma stores_first_best:
  assumes "first_best data db k"
  shows "stores_row db k data"
proof -
  obtain k' where k': "first_best data db k'" and m: "match_cpu_codename db data = Some (score (db ! k') data,
      data\<lparr>cpu_codename := me_name (db ! k'), technology_node := me_technology (db ! k')\<rparr>)"
    by (rule match_first)
  have "k' = k" by (rule first_best_unique [OF k' assms])
  then show ?thesis using m assms by (simp only: stores_row_def first_best_def)
qed

lemma selects_first_best: "\<exists>k. first_best data db k \<and> stores_row db k data"
  using match_first [of data] stores_first_best by metis

end

lemma centaur_own_row:
  "k < length cpudb_centaur \<Longrightarrow> stores_row cpudb_centaur k (described (cpudb_centaur ! k))"
  using rows_win_first [OF centaur_rows_win, of k] centaur_plain by (intro centaur_db.stores_first_best) simp

text \<open>
  C22: on each of the three tables the recognizer stores the whole name and technology of the first row of the highest
  score. Every row of the Centaur table is the one selected for the processor it describes. In the other two tables some rows can
  never be selected, because an earlier row has the same criteria: no AMD processor is ever reported as "Phenom X3
  (Toliman/512K)" (the row before it, named "Phenom X3 (Toliman/256K)", asks for 512 KB of level-2 cache as well), and no Intel
  processor as "Xeon (Potomac)", though both names are in the lists of known processors.
\<close>

theorem tables_name_processors:
  "(\<forall>db \<in> {cpudb_amd, cpudb_intel, cpudb_centaur}. \<exists>k. first_best data db k \<and> stores_row db k data) \<and>
   (\<forall>k < length cpudb_centaur. stores_row cpudb_centaur k (described (cpudb_centaur ! k))) \<and>
   (\<forall>s d. match_cpu_codename cpudb_amd data = Some (s, d) \<longrightarrow> cpu_codename d \<noteq> ''Phenom X3 (Toliman/512K)'') \<and>
   (\<forall>s d. match_cpu_codename cpudb_intel data = Some (s, d) \<longrightarrow> cpu_codename d \<noteq> ''Xeon (Potomac)'') \<and>
   ''Phenom X3 (Toliman/512K)'' \<in> set (known_names cpudb_amd) \<and>
   ''Xeon (Potomac)'' \<in> set (known_names cpudb_intel)"
  using amd_db.selects_first_best [of data] intel_db.selects_first_best [of data] centaur_db.selects_first_best [of data]
    centaur_own_row amd_db.shadowed_unreachable [OF amd_toliman] intel_db.shadowed_unreachable [OF intel_potomac]
    known_toliman known_potomac
  by blast

text \<open>A processor of the 22nd row, a KaiXian KX-6000.\<close>

theorem tables_name_processors_witness:
  "\<exists>s d. match_cpu_codename cpudb_centaur (described (cpudb_centaur ! 21)) = Some (s, d) \<and>
     cpu_codename d = ''Zhaoxin KaiXian (LuJiaZui)'' \<and> technology_node d = ''16 nm''"
proof -
  have "21 < length cpudb_centaur" "me_name (cpudb_centaur ! 21) = ''Zhaoxin KaiXian (LuJiaZui)''"
      "me_technology (cpudb_centaur ! 21) = ''16 nm''"
    by (simp_all add: cpudb_centaur_def)
  then show ?thesis
    using tables_name_processors [of cpu_id_t_constructor] by (auto simp: stores_row_def)
qed

end
