(* ===== verification/Recog_Amd.thy ===== *)
theory Recog_Amd
  imports Match_Tables Cache_Info X86_Common X86_Levels
begin

text \<open>
  The AMD and Hygon recognizer (\<^verbatim>\<open>recog_amd.c\<close>): feature bits, caches, cores, the purpose of a core
  of a heterogeneous processor, and \<^verbatim>\<open>cpuid_identify_amd\<close>, which calls them in turn. Undefined
  behaviour (a subleaf read outside its array) is \<^const>\<open>None\<close>.
\<close>

section \<open>Features\<close>

definition amd_matchtable_edx81 :: "feature_map_t list" where
  "amd_matchtable_edx81 = [
     fm 20 CPU_FEATURE_NX,
     fm 22 CPU_FEATURE_MMXEXT,
     fm 25 CPU_FEATURE_FXSR_OPT,
     fm 30 CPU_FEATURE_3DNOWEXT,
     fm 31 CPU_FEATURE_3DNOW]"

definition amd_matchtable_ecx81 :: "feature_map_t list" where
  "amd_matchtable_ecx81 = [
     fm 1 CPU_FEATURE_CMP_LEGACY,
     fm 2 CPU_FEATURE_SVM,
     fm 6 CPU_FEATURE_SSE4A,
     fm 7 CPU_FEATURE_MISALIGNSSE,
     fm 8 CPU_FEATURE_3DNOWPREFETCH,
     fm 9 CPU_FEATURE_OSVW,
     fm 10 CPU_FEATURE_IBS,
     fm 11 CPU_FEATURE_XOP,
     fm 12 CPU_FEATURE_SKINIT,
     fm 13 CPU_FEATURE_WDT,
     fm 16 CPU_FEATURE_FMA4,
     fm 21 CPU_FEATURE_TBM]"

definition amd_matchtable_edx87 :: "feature_map_t list" where
  "amd_matchtable_edx87 = [
     fm 0 CPU_FEATURE_TS,
     fm 1 CPU_FEATURE_FID,
     fm 2 CPU_FEATURE_VID,
     fm 3 CPU_FEATURE_TTP,
     fm 4 CPU_FEATURE_TM_AMD,
     fm 5 CPU_FEATURE_STC,
     fm 6 CPU_FEATURE_100MHZSTEPS,
     fm 7 CPU_FEATURE_HWPSTATE,
     fm 9 CPU_FEATURE_CPB,
     fm 10 CPU_FEATURE_APERFMPERF,
     fm 11 CPU_FEATURE_PFI,
     fm 12 CPU_FEATURE_PA]"

definition load_amd_flags :: "cpu_raw_data_t \<Rightarrow> cpu_id_t \<Rightarrow> cpu_id_t" where
  "load_amd_flags raw data =
     (let ext = \<lambda>i. ext_cpuid raw ! i;
        data = (if EAX (ext 0) \<ge> 0x80000001 then
            match_features amd_matchtable_ecx81 (ECX (ext 1))
              (match_features amd_matchtable_edx81 (EDX (ext 1)) data) else data)
      in if EAX (ext 0) \<ge> 0x80000007 then
           match_features amd_matchtable_edx87 (EDX (ext 7)) data else data)"

definition load_amd_sse_size :: "cpu_raw_data_t \<Rightarrow> cpu_id_t \<Rightarrow> cpu_id_t" where
  "load_amd_sse_size raw data =
     (if EAX (ext_cpuid raw ! 0) \<ge> 0x8000001a then
        let eax = EAX (ext_cpuid raw ! 0x1a) in
        data\<lparr>detection_hints := (detection_hints data)(CPU_HINT_SSE_SIZE_AUTH := True),
          x86 := (x86 data)\<lparr>sse_size :=
            (if drop_bit 2 eax AND 1 \<noteq> 0 then 256 else if eax AND 1 \<noteq> 0 then 128 else 64)\<rparr>\<rparr>
      else data)"

definition load_amd_features :: "cpu_raw_data_t \<Rightarrow> cpu_id_t \<Rightarrow> cpu_id_t" where
  "load_amd_features raw data = load_amd_sse_size raw (load_amd_flags raw data)"

section \<open>Caches\<close>

definition assoc_table :: "int list" where
  "assoc_table = [0, 1, 2, 0, 4, 0, 8, 0, 16, 16, 32, 48, 64, 96, 128, 255]"

definition decode_amd_l1 :: "cpu_raw_data_t \<Rightarrow> cpu_id_t \<Rightarrow> cpu_id_t" where
  "decode_amd_l1 raw data =
     (let ecx = ECX (ext_cpuid raw ! 5); edx = EDX (ext_cpuid raw ! 5) in
      data\<lparr>l1_data_cache := uint (EXTRACTS_BITS ecx 31 24),
        l1_data_assoc := uint (EXTRACTS_BITS ecx 23 16),
        l1_data_cacheline := uint (EXTRACTS_BITS ecx 7 0),
        l1_instruction_cache := uint (EXTRACTS_BITS edx 31 24),
        l1_instruction_assoc := uint (EXTRACTS_BITS edx 23 16),
        l1_instruction_cacheline := uint (EXTRACTS_BITS edx 7 0)\<rparr>)"

definition decode_amd_l2_l3 :: "cpu_raw_data_t \<Rightarrow> cpu_id_t \<Rightarrow> cpu_id_t" where
  "decode_amd_l2_l3 raw data =
     (let ecx = ECX (ext_cpuid raw ! 6); edx = EDX (ext_cpuid raw ! 6);
        data = data\<lparr>l2_cache := reg_field ecx 16 0xffff,
          l2_assoc := assoc_table ! nat (reg_field ecx 12 0xf),
          l2_cacheline := reg_field ecx 0 0xff\<rparr>;
        l3_result = uint (drop_bit 18 edx)
      in if l3_result > 0 then
           data\<lparr>l3_cache := l3_result * 512, l3_assoc := assoc_table ! nat (reg_field edx 12 0xf),
             l3_cacheline := reg_field edx 0 0xff\<rparr>
         else data\<lparr>l3_cache := -1\<rparr>)"

definition decode_amd_cache_info :: "cpu_raw_data_t \<Rightarrow> cpu_id_t \<Rightarrow> cpu_id_t" where
  "decode_amd_cache_info raw data =
     (let n = EAX (ext_cpuid raw ! 0);
        data = (if n \<ge> 0x80000005 then decode_amd_l1 raw data else data)
      in if n \<ge> 0x80000006 then decode_amd_l2_l3 raw data else data)"

section \<open>Cores\<close>

text \<open>
  The conditions on \<^verbatim>\<open>ext_cpuid[0][EAX]\<close> compare it with 8 and 30, not with the leaf numbers
  80000008h and 8000001Eh. The division truncates.
\<close>

definition decode_amd_number_of_cores :: "cpu_raw_data_t \<Rightarrow> cpu_id_t \<Rightarrow> cpu_id_t" where
  "decode_amd_number_of_cores raw data =
     (let max_leaf = EAX (basic_cpuid raw ! 0); max_ext = EAX (ext_cpuid raw ! 0);
        logical_cpus = (if max_leaf \<ge> 1 then reg_field (EBX (basic_cpuid raw ! 1)) 16 0xff else -1);
        cores = (if max_leaf \<ge> 1 \<and> max_ext \<ge> 8
          then 1 + reg_field (ECX (ext_cpuid raw ! 8)) 0 0xff else -1)
      in if flags data CPU_FEATURE_HT then
           (if cores > 1 then
              data\<lparr>num_cores :=
                (if ext_family (x86 data) \<ge> 23 \<and> max_ext \<ge> 30
                 then cores div (reg_field (EBX (ext_cpuid raw ! 30)) 8 0xff + 1) else cores),
                num_logical_cpus := logical_cpus\<rparr>
            else data\<lparr>num_cores := 1,
                num_logical_cpus := (if logical_cpus \<ge> 2 then logical_cpus else 2)\<rparr>)
         else data\<lparr>num_cores := 1, num_logical_cpus := 1\<rparr>)"

section \<open>Purpose\<close>

text \<open>The loop over the subleaves of leaf 80000026h: the bound is tested after the reads.\<close>

function purpose_amd_loop :: "cpu_regs_t list \<Rightarrow> nat \<Rightarrow> cpu_purpose_t option" where
  "purpose_amd_loop tab i =
     (case regs_at tab i of
        None \<Rightarrow> None
      | Some r \<Rightarrow>
          if EBX r \<noteq> 0 \<and> ECX r \<noteq> 0 \<and> i < MAX_AMDFN80000026H_LEVEL then
            (if EXTRACTS_BIT (EAX r) 30 = 1 \<and> EXTRACTS_BITS (ECX r) 15 8 = 1 then
               Some (if EXTRACTS_BITS (EBX r) 31 28 = 0 then PURPOSE_PERFORMANCE
                     else if EXTRACTS_BITS (EBX r) 31 28 = 1 then PURPOSE_EFFICIENCY
                     else PURPOSE_GENERAL)
             else purpose_amd_loop tab (Suc i))
          else Some PURPOSE_GENERAL)"
  by pat_completeness auto
termination
  by (relation "measure (\<lambda>(tab, i). length tab - i)") (auto simp: regs_at_def split: if_splits)

declare purpose_amd_loop.simps [simp del]

definition cpuid_identify_purpose_amd :: "cpu_raw_data_t \<Rightarrow> cpu_purpose_t option" where
  "cpuid_identify_purpose_amd raw =
     (if EAX (amd_fn80000026h raw ! 0) = 0 then Some PURPOSE_GENERAL
      else purpose_amd_loop (amd_fn80000026h raw) 0)"

section \<open>Identification\<close>

definition cpuid_identify_amd ::
    "cpu_raw_data_t \<Rightarrow> cpu_id_t \<Rightarrow> internal_id_info_t \<Rightarrow> (cpu_id_t \<times> internal_id_info_t) option" where
  "cpuid_identify_amd raw data internal = do {
     let data = load_amd_features raw data;
     (data, internal) \<leftarrow>
       (if EXTRACTS_BIT (ECX (ext_cpuid raw ! 1)) 22 = 1 \<and>
           EXTRACTS_BITS (EAX (amd_fn8000001dh raw ! 0)) 4 0 \<noteq> 0
        then decode_deterministic_cache_info_x86 (amd_fn8000001dh raw)
          (of_nat MAX_AMDFN8000001DH_LEVEL) data internal
        else Some (decode_amd_cache_info raw data, internal));
     let data = decode_amd_number_of_cores raw data;
     let data = decode_architecture_version_x86 data;
     p \<leftarrow> cpuid_identify_purpose_amd raw;
     let data = data\<lparr>purpose := p\<rparr>;
     (s, data) \<leftarrow> match_cpu_codename cpudb_amd data;
     Some (data, internal\<lparr>id_score := s\<rparr>)
   }"

definition cpuid_get_list_amd :: "(nat \<Rightarrow> bool) \<Rightarrow> cpu_error_t \<Rightarrow> cpu_list_t \<times> cpu_error_t" where
  "cpuid_get_list_amd alloc errno = generic_get_cpu_list alloc cpudb_amd errno"

section \<open>Properties\<close>

subsection \<open>Features\<close>

definition amd_sources :: "cpu_raw_data_t \<Rightarrow> (feature_map_t list \<times> u32) list" where
  "amd_sources raw =
     (let ext = \<lambda>i. ext_cpuid raw ! i in
      (if EAX (ext 0) \<ge> 0x80000001 then
         [(amd_matchtable_edx81, EDX (ext 1)), (amd_matchtable_ecx81, ECX (ext 1))] else []) @
      (if EAX (ext 0) \<ge> 0x80000007 then [(amd_matchtable_edx87, EDX (ext 7))] else []))"

lemma load_amd_flags_sources:
  "load_amd_flags raw data =
     data\<lparr>flags := \<lambda>f. flags data f \<or> f \<in> features_from (amd_sources raw)\<rparr>"
  unfolding load_amd_flags_def amd_sources_def Let_def match_features_flags
  by (cases "EAX (ext_cpuid raw ! 0) \<ge> 0x80000001"; cases "EAX (ext_cpuid raw ! 0) \<ge> 0x80000007")
    (auto intro!: set_flag_cong)

lemma load_amd_sse_size_keeps [id_frame]:
  "flags (load_amd_sse_size raw data) = flags data"
  "vendor (load_amd_sse_size raw data) = vendor data"
  "ext_family (x86 (load_amd_sse_size raw data)) = ext_family (x86 data)"
  by (simp_all add: load_amd_sse_size_def Let_def)

lemma flags_load_amd_features:
  "flags (load_amd_features raw data) = (\<lambda>f. flags data f \<or> f \<in> features_from (amd_sources raw))"
  by (simp add: load_amd_features_def id_frame load_amd_flags_sources)

subsection \<open>Cores\<close>

lemma reg_field_range:
  "0 \<le> reg_field reg k 0xff \<and> reg_field reg k 0xff < 256"
  "0 \<le> reg_field reg k 0xf \<and> reg_field reg k 0xf < 16"
  by (simp_all add: reg_field_byte reg_field_nibble)

lemma decode_amd_number_of_cores_keeps [id_frame]:
  "flags (decode_amd_number_of_cores raw data) = flags data"
  "vendor (decode_amd_number_of_cores raw data) = vendor data"
  by (simp_all add: decode_amd_number_of_cores_def Let_def)

text \<open>
  \<^verbatim>\<open>decode_amd_number_of_cores\<close> reports at most 256 cores, and no cores at all exactly when
  a family 17h or later processor with hyper-threading claims more threads per core (leaf
  8000001Eh) than logical processors (leaf 80000008h): the division is not guarded as it is in
  the Intel recognizer.
\<close>

theorem decode_amd_number_of_cores_spec:
  "let d = decode_amd_number_of_cores raw data in
     0 \<le> num_cores d \<and> num_cores d \<le> 256 \<and>
     (num_cores d = 0 \<longleftrightarrow>
        flags data CPU_FEATURE_HT \<and> ext_family (x86 data) \<ge> 23 \<and>
        EAX (basic_cpuid raw ! 0) \<ge> 1 \<and> EAX (ext_cpuid raw ! 0) \<ge> 30 \<and>
        1 \<le> reg_field (ECX (ext_cpuid raw ! 8)) 0 0xff \<and>
        reg_field (ECX (ext_cpuid raw ! 8)) 0 0xff < reg_field (EBX (ext_cpuid raw ! 30)) 8 0xff)"
proof -
  define c t l where "c = reg_field (ECX (ext_cpuid raw ! 8)) 0 0xff"
    and "t = reg_field (EBX (ext_cpuid raw ! 30)) 8 0xff"
    and "l = reg_field (EBX (basic_cpuid raw ! 1)) 16 0xff"
  have r: "0 \<le> c" "c < 256" "0 \<le> t" using reg_field_range by (simp_all add: c_def t_def)
  have "(8 :: u32) \<le> 30" by (simp add: word_le_nat_alt)
  then have le: "EAX (ext_cpuid raw ! 0) \<ge> 30 \<Longrightarrow> EAX (ext_cpuid raw ! 0) \<ge> 8" by (rule order_trans)
  have "(1 + c) div (t + 1) = 0 \<longleftrightarrow> c < t" and "0 \<le> (1 + c) div (t + 1)"
    and "(1 + c) div (t + 1) \<le> 256"
    using r zdiv_eq_0_iff [of "1 + c" "t + 1"] pos_imp_zdiv_nonneg_iff [of "t + 1" "1 + c"]
      zdiv_mono2 [of "1 + c" 1 "t + 1"] by auto
  with r le show ?thesis
    unfolding decode_amd_number_of_cores_def Let_def c_def [symmetric] t_def [symmetric]
      l_def [symmetric]
    by (cases "EAX (ext_cpuid raw ! 0) \<ge> 30"; cases "EAX (ext_cpuid raw ! 0) \<ge> 8";
        cases "EAX (basic_cpuid raw ! 0) \<ge> 1"; cases "c \<ge> 1"; cases "ext_family (x86 data) \<ge> 23")
      auto
qed

subsection \<open>Purpose\<close>

text \<open>The subleaves that describe a level, and those that describe cores of one type among others.\<close>

definition live_subleaf :: "cpu_regs_t \<Rightarrow> bool" where
  "live_subleaf r \<longleftrightarrow> EBX r \<noteq> 0 \<and> ECX r \<noteq> 0"

definition core_subleaf :: "cpu_regs_t \<Rightarrow> bool" where
  "core_subleaf r \<longleftrightarrow> EXTRACTS_BIT (EAX r) 30 = 1 \<and> EXTRACTS_BITS (ECX r) 15 8 = 1"

definition core_type_purpose :: "cpu_regs_t \<Rightarrow> cpu_purpose_t" where
  "core_type_purpose r =
     (if EXTRACTS_BITS (EBX r) 31 28 = 0 then PURPOSE_PERFORMANCE
      else if EXTRACTS_BITS (EBX r) 31 28 = 1 then PURPOSE_EFFICIENCY else PURPOSE_GENERAL)"

lemma purpose_amd_loop_spec:
  assumes "length tab = 4" and "i \<le> 4"
  shows "purpose_amd_loop tab i =
    (case List.find core_subleaf (takeWhile live_subleaf (drop i tab)) of
       Some r \<Rightarrow> Some (core_type_purpose r)
     | None \<Rightarrow> if list_all live_subleaf (drop i tab) then None else Some PURPOSE_GENERAL)"
  using assms
proof (induction tab i rule: purpose_amd_loop.induct)
  case (1 tab i)
  show ?case
  proof (cases "i < 4")
    case False
    with 1 show ?thesis by (subst purpose_amd_loop.simps) simp
  next
    case True
    then have at: "regs_at tab i = Some (tab ! i)" and split: "drop i tab = tab ! i # drop (Suc i) tab"
      using 1 by (simp_all add: Cons_nth_drop_Suc)
    have IH: "live_subleaf (tab ! i) \<Longrightarrow> \<not> core_subleaf (tab ! i) \<Longrightarrow> purpose_amd_loop tab (Suc i) =
      (case List.find core_subleaf (takeWhile live_subleaf (drop (Suc i) tab)) of
         Some r \<Rightarrow> Some (core_type_purpose r)
       | None \<Rightarrow> if list_all live_subleaf (drop (Suc i) tab) then None else Some PURPOSE_GENERAL)"
      using "1.IH" [OF at] "1.prems" True live_subleaf_def [of "tab ! i"] core_subleaf_def [of "tab ! i"]
      by auto
    show ?thesis
      using IH True at
      by (subst purpose_amd_loop.simps)
        (auto simp: split live_subleaf_def [of "tab ! i"] core_subleaf_def [of "tab ! i"]
          core_type_purpose_def)
  qed
qed

text \<open>
  the purpose is that of the first subleaf of leaf 80000026h that describes cores of a
  heterogeneous level, among the subleaves before the first empty one, and general without
  one; the search reads outside the array exactly when all four subleaves are in use and none
  describes such cores.
\<close>

theorem cpuid_identify_purpose_amd_spec:
  assumes "wf_raw raw"
  shows "cpuid_identify_purpose_amd raw =
    (if EAX (amd_fn80000026h raw ! 0) = 0 then Some PURPOSE_GENERAL
     else
       (case List.find core_subleaf (takeWhile live_subleaf (amd_fn80000026h raw)) of
          Some r \<Rightarrow> Some (core_type_purpose r)
        | None \<Rightarrow>
            if list_all live_subleaf (amd_fn80000026h raw) then None else Some PURPOSE_GENERAL))"
  using purpose_amd_loop_spec [of "amd_fn80000026h raw" 0] wf_rawD [OF assms]
  by (simp add: cpuid_identify_purpose_amd_def)

text \<open>Four levels of a homogeneous processor: the loop leaves the array.\<close>

theorem cpuid_identify_purpose_amd_spec_witness:
  "cpuid_identify_purpose_amd (raw_data_t_constructor\<lparr>amd_fn80000026h :=
     replicate 4 \<lparr>EAX = 1, EBX = 2, ECX = 0x100, EDX = 0\<rparr>\<rparr>) = None"
proof -
  let ?r = "\<lparr>EAX = 1, EBX = 2, ECX = 0x100, EDX = 0\<rparr> :: cpu_regs_t"
  let ?raw = "raw_data_t_constructor\<lparr>amd_fn80000026h := replicate 4 ?r\<rparr>"
  have "wf_raw ?raw" using wf_raw_data_t_constructor by (simp add: wf_raw_def)
  moreover have "\<not> core_subleaf ?r" by (simp add: core_subleaf_def EXTRACTS_BIT_def)
  then have "List.find core_subleaf (replicate 4 ?r) = None" by (simp add: find_None_iff)
  moreover have "live_subleaf ?r" by (simp add: live_subleaf_def)
  then have "takeWhile live_subleaf (replicate 4 ?r) = replicate 4 ?r"
    and "list_all live_subleaf (replicate 4 ?r)"
    by (simp_all add: takeWhile_eq_all_conv list_all_iff)
  moreover have "EAX (replicate 4 ?r ! 0) \<noteq> 0" by simp
  ultimately show ?thesis
    using cpuid_identify_purpose_amd_spec [of ?raw] by simp
qed

subsection \<open>The recognizer\<close>

text \<open>
  What each part of the identity has to be, from the registers read as numbers. The caches come from leaf 8000001Dh when the
  processor has the topology extensions, otherwise from the older leaves, of which each is read only when it exists.
\<close>

definition topology_extensions :: "cpu_raw_data_t \<Rightarrow> bool" where
  "topology_extensions raw \<longleftrightarrow>
     bit (ECX (ext_cpuid raw ! 1)) 22 \<and> uint (EAX (amd_fn8000001dh raw ! 0)) mod 32 \<noteq> 0"

definition legacy_cache :: "cpu_raw_data_t \<Rightarrow> cache_type_t \<Rightarrow> int \<times> int \<times> int \<Rightarrow> int \<times> int \<times> int" where
  "legacy_cache raw c old =
     (let n = uint (EAX (ext_cpuid raw ! 0));
        l1d = uint (ECX (ext_cpuid raw ! 5)); l1i = uint (EDX (ext_cpuid raw ! 5));
        l2 = uint (ECX (ext_cpuid raw ! 6)); l3 = uint (EDX (ext_cpuid raw ! 6));
        l1 = \<lambda>r. (r div 2 ^ 24, r div 2 ^ 16 mod 256, r mod 256);
        ways = \<lambda>r. assoc_table ! nat (r div 2 ^ 12 mod 16)
      in case c of
        L1D \<Rightarrow> if n \<ge> 0x80000005 then l1 l1d else old
      | L1I \<Rightarrow> if n \<ge> 0x80000005 then l1 l1i else old
      | L2 \<Rightarrow> if n \<ge> 0x80000006 then (l2 div 2 ^ 16, ways l2, l2 mod 256) else old
      | L3 \<Rightarrow> if n < 0x80000006 then old
          else if l3 < 2 ^ 18 then (-1, snd old) else (l3 div 2 ^ 18 * 512, ways l3, l3 mod 256)
      | L4 \<Rightarrow> old)"

definition amd_cache :: "cpu_raw_data_t \<Rightarrow> cpu_id_t \<Rightarrow> cache_type_t \<Rightarrow> int \<times> int \<times> int" where
  "amd_cache raw data c =
     (if topology_extensions raw then cache_from c (listed_subleaves (amd_fn8000001dh raw) 4) data
      else legacy_cache raw c (cache_data c data))"

text \<open>The numbers of cores and of logical processors.\<close>

definition amd_cores :: "cpu_raw_data_t \<Rightarrow> bool \<Rightarrow> int \<Rightarrow> int \<times> int" where
  "amd_cores raw ht fam =
     (let leaves = uint (EAX (basic_cpuid raw ! 0)); ext = uint (EAX (ext_cpuid raw ! 0));
        logical = uint (EBX (basic_cpuid raw ! 1)) div 2 ^ 16 mod 256;
        cores = uint (ECX (ext_cpuid raw ! 8)) mod 256 + 1;
        threads = uint (EBX (ext_cpuid raw ! 30)) div 2 ^ 8 mod 256 + 1
      in if \<not> ht then (1, 1)
         else if leaves = 0 then (1, 2)
         else if ext < 8 \<or> cores = 1 then (1, max 2 logical)
         else (if fam \<ge> 23 \<and> ext \<ge> 30 then cores div threads else cores, logical))"

definition amd_sse_size :: "cpu_raw_data_t \<Rightarrow> int \<Rightarrow> int" where
  "amd_sse_size raw old =
     (let eax = EAX (ext_cpuid raw ! 0x1a)
      in if uint (EAX (ext_cpuid raw ! 0)) < 0x8000001a then old
         else if bit eax 2 then 256 else if bit eax 0 then 128 else 64)"

text \<open>
  The purpose cannot be read when all four subleaves of leaf 80000026h are in use and none of them describes the cores of a
  heterogeneous level: the search then leaves the array.
\<close>

definition amd_undefined :: "cpu_raw_data_t \<Rightarrow> bool" where
  "amd_undefined raw \<longleftrightarrow> EAX (amd_fn80000026h raw ! 0) \<noteq> 0 \<and>
     list_all (\<lambda>r. live_subleaf r \<and> \<not> core_subleaf r) (amd_fn80000026h raw)"

definition amd_purpose :: "cpu_raw_data_t \<Rightarrow> cpu_purpose_t" where
  "amd_purpose raw =
     (if EAX (amd_fn80000026h raw ! 0) = 0 then PURPOSE_GENERAL
      else case List.find core_subleaf (takeWhile live_subleaf (amd_fn80000026h raw)) of
          None \<Rightarrow> PURPOSE_GENERAL
        | Some r \<Rightarrow> core_type_purpose r)"

lemma amd_purpose_result:
  assumes "wf_raw raw"
  shows "cpuid_identify_purpose_amd raw = (if amd_undefined raw then None else Some (amd_purpose raw))"
proof -
  let ?tab = "amd_fn80000026h raw"
  have none: "List.find core_subleaf (takeWhile live_subleaf ?tab) = None \<and> list_all live_subleaf ?tab \<longleftrightarrow>
      list_all (\<lambda>r. live_subleaf r \<and> \<not> core_subleaf r) ?tab"
    by (auto simp: find_None_iff list_all_iff dest: set_takeWhileD)
      (metis (mono_tags, lifting) takeWhile_eq_all_conv)
  show ?thesis
    using none purpose_amd_loop_spec [of ?tab 0] wf_rawD [OF assms]
    by (auto simp: cpuid_identify_purpose_amd_def amd_undefined_def amd_purpose_def split: option.splits)
qed

text \<open>The parts of the code give these values.\<close>

lemma uint_extracted: "uint (EXTRACTS_BITS (r :: u32) h l) = uint r div 2 ^ l mod 2 ^ (h - l + 1)"
  unfolding uint_nat unat_EXTRACTS_BITS_32 by (simp add: zdiv_int zmod_int)

lemma u32_and_one: "drop_bit n (w :: u32) AND 1 = 0 \<longleftrightarrow> \<not> bit w n" "w AND 1 = 0 \<longleftrightarrow> \<not> bit w 0"
  by (simp_all add: and_one_eq bit_iff_odd_drop_bit bit_0 even_iff_mod_2_eq_zero)

lemma load_amd_features_facts:
  "cache_data c (load_amd_features raw data) = cache_data c data"
  "x86 (load_amd_features raw data) = (x86 data)\<lparr>sse_size := amd_sse_size raw (sse_size (x86 data))\<rparr>"
proof -
  show "cache_data c (load_amd_features raw data) = cache_data c data"
    by (cases c) (simp_all add: load_amd_features_def load_amd_sse_size_def load_amd_flags_sources cache_data_def Let_def)
  have ge: "0x8000001a \<le> w \<longleftrightarrow> \<not> uint w < 0x8000001a" for w :: u32 by (simp add: word_le_def not_less)
  show "x86 (load_amd_features raw data) = (x86 data)\<lparr>sse_size := amd_sse_size raw (sse_size (x86 data))\<rparr>"
    by (simp only: load_amd_features_def load_amd_sse_size_def load_amd_flags_sources amd_sse_size_def Let_def
        u32_and_one(1) u32_and_one(2) [of "EAX (ext_cpuid raw ! 26)"] ge) simp
qed

lemma decode_amd_cache_info_result:
  "cache_data c (decode_amd_cache_info raw data) = legacy_cache raw c (cache_data c data)"
  "non_cache (decode_amd_cache_info raw data) = non_cache data"
proof -
  have top_field: "uint r div 2 ^ 24 mod 256 = uint r div 2 ^ 24" "uint r div 2 ^ 16 mod 65536 = uint r div 2 ^ 16" for r :: u32
    using uint_bounded [of r] pos_imp_zdiv_nonneg_iff [of "2 ^ 24" "uint r"] pos_imp_zdiv_nonneg_iff [of "2 ^ 16" "uint r"]
    by (intro mod_pos_pos_trivial; simp)+
  have byte: "uint (EXTRACTS_BITS (r :: u32) 31 24) = uint r div 2 ^ 24" "uint (EXTRACTS_BITS r 23 16) = uint r div 2 ^ 16 mod 256"
      "uint (EXTRACTS_BITS r 7 0) = uint r mod 256" for r
    using top_field [of r] by (simp_all add: uint_extracted)
  have half: "reg_field (r :: u32) 16 0xffff = uint r div 2 ^ 16" for r
    using reg_field_eq [of r 16 16] top_field [of r] by (simp add: mask_eq_decr_exp)
  have top: "uint (drop_bit 18 (r :: u32)) = uint r div 2 ^ 18" for r
    by (simp add: drop_bit_eq_div uint_div_distrib)
  have pos: "0 < uint (r :: u32) div 262144 \<longleftrightarrow> \<not> uint r < 262144" for r
    using pos_imp_zdiv_pos_iff [of 262144 "uint r"] by (simp add: not_less)
  show "cache_data c (decode_amd_cache_info raw data) = legacy_cache raw c (cache_data c data)"
    by (cases c) (simp_all add: decode_amd_cache_info_def decode_amd_l1_def decode_amd_l2_l3_def legacy_cache_def
        cache_data_def Let_def byte half top pos reg_field_nibble reg_field_byte word_le_def)
  show "non_cache (decode_amd_cache_info raw data) = non_cache data"
    by (simp add: decode_amd_cache_info_def decode_amd_l1_def decode_amd_l2_l3_def non_cache_def Let_def)
qed

lemma amd_caches_result:
  assumes "wf_raw raw" and "length (cache_mask internal) = NUM_CACHE_TYPES"
  shows "\<exists>d i. (if EXTRACTS_BIT (ECX (ext_cpuid raw ! 1)) 22 = 1 \<and>
          EXTRACTS_BITS (EAX (amd_fn8000001dh raw ! 0)) 4 0 \<noteq> 0
        then decode_deterministic_cache_info_x86 (amd_fn8000001dh raw) (of_nat MAX_AMDFN8000001DH_LEVEL) data internal
        else Some (decode_amd_cache_info raw data, internal)) = Some (d, i) \<and>
    (\<forall>c. cache_data c d = amd_cache raw data c) \<and> non_cache d = non_cache data"
proof -
  have "uint (EXTRACTS_BITS (r :: u32) 4 0) = uint r mod 32" for r
    by (simp add: uint_extracted)
  then have "EXTRACTS_BITS (EAX (amd_fn8000001dh raw ! 0)) 4 0 \<noteq> 0 \<longleftrightarrow> uint (EAX (amd_fn8000001dh raw ! 0)) mod 32 \<noteq> 0"
    by (metis unsigned_eq_0_iff)
  then have b: "EXTRACTS_BIT (ECX (ext_cpuid raw ! 1)) 22 = 1 \<and> EXTRACTS_BITS (EAX (amd_fn8000001dh raw ! 0)) 4 0 \<noteq> 0
      \<longleftrightarrow> topology_extensions raw"
    by (simp add: topology_extensions_def EXTRACTS_BIT_eq_1_iff)
  have "\<not> overrun (amd_fn8000001dh raw) 4 0 NUM_CACHE_TYPES" by (auto simp: overrun_def)
  then have "\<exists>d i. decode_deterministic_cache_info_x86 (amd_fn8000001dh raw) (of_nat MAX_AMDFN8000001DH_LEVEL) data internal =
        Some (d, i) \<and>
      (\<forall>c. cache_data c d = cache_from c (listed_subleaves (amd_fn8000001dh raw) 4) data) \<and> non_cache d = non_cache data"
    using cache_info_loop_result [of 4 "amd_fn8000001dh raw" 0 data internal] wf_rawD [OF assms(1)] assms(2)
    by (auto simp: info_result_def decode_deterministic_cache_info_x86_def listed_subleaves_def split: option.splits)
  then show ?thesis
    unfolding b by (auto simp: amd_cache_def decode_amd_cache_info_result)
qed

lemma decode_amd_number_of_cores_frame:
  "decode_amd_number_of_cores raw data = data\<lparr>
     num_cores := fst (amd_cores raw (flags data CPU_FEATURE_HT) (ext_family (x86 data))),
     num_logical_cpus := snd (amd_cores raw (flags data CPU_FEATURE_HT) (ext_family (x86 data)))\<rparr>"
proof -
  let ?leaves = "EAX (basic_cpuid raw ! 0)" and ?ext = "EAX (ext_cpuid raw ! 0)"
  define c t l where "c = reg_field (ECX (ext_cpuid raw ! 8)) 0 0xff"
    and "t = reg_field (EBX (ext_cpuid raw ! 30)) 8 0xff" and "l = reg_field (EBX (basic_cpuid raw ! 1)) 16 0xff"
  have fields: "uint (ECX (ext_cpuid raw ! 8)) mod 256 = c" "uint (EBX (ext_cpuid raw ! 30)) div 2 ^ 8 mod 256 = t"
      "uint (EBX (basic_cpuid raw ! 1)) div 2 ^ 16 mod 256 = l"
    by (simp_all add: c_def t_def l_def reg_field_byte)
  have c: "0 \<le> c" using reg_field_range by (simp add: c_def)
  have "1 \<le> uint w \<longleftrightarrow> uint w \<noteq> 0" for w :: u32 using uint_ge_0 [of w] by arith
  then have ge: "1 \<le> w \<longleftrightarrow> uint w \<noteq> 0" "8 \<le> w \<longleftrightarrow> \<not> uint w < 8" "30 \<le> w \<longleftrightarrow> \<not> uint w < 30" for w :: u32
    by (simp_all only: word_le_def uint_1) (simp_all add: not_less)
  show ?thesis
    unfolding decode_amd_number_of_cores_def amd_cores_def Let_def fields c_def [symmetric] t_def [symmetric] l_def [symmetric] ge
    using c by (cases "flags data CPU_FEATURE_HT"; cases "uint ?leaves = 0"; cases "uint ?ext < 8"; cases "c = 0")
      (simp_all add: add.commute)
qed

lemma score_named: "score e (data\<lparr>cpu_codename := nm, technology_node := tn\<rparr>) = score e data"
proof -
  let ?d = "data\<lparr>cpu_codename := nm, technology_node := tn\<rparr>"
  have "brand_str ?d = brand_str data" by simp
  then have "clean_brand ?d = clean_brand data" by (simp only: clean_brand_def)
  moreover have "score_rows e ?d = score_rows e data" by (simp add: score_rows_def)
  ultimately show ?thesis by (simp only: score_def)
qed

lemma cpuid_identify_amd_whole:
  assumes "wf_raw raw" and "length (cache_mask internal) = NUM_CACHE_TYPES"
  shows "case cpuid_identify_amd raw data internal of
      None \<Rightarrow> amd_undefined raw
    | Some (d, i) \<Rightarrow> \<not> amd_undefined raw \<and>
        flags d = (\<lambda>f. flags data f \<or> f \<in> features_from (amd_sources raw)) \<and>
        x86 d = (x86 data)\<lparr>sse_size := amd_sse_size raw (sse_size (x86 data))\<rparr> \<and>
        (\<forall>c. cache_data c d = amd_cache raw data c) \<and>
        (num_cores d, num_logical_cpus d) = amd_cores raw (flags d CPU_FEATURE_HT) (ext_family (x86 data)) \<and>
        feature_level d =
          (if flags d CPU_FEATURE_LM then x86_64_level (flags d) architecture_matchtable_x86_64 False FEATURE_LEVEL_UNKNOWN
           else ia_32_level architecture_matchtable_ia_32 (family (x86 data))) \<and>
        purpose d = amd_purpose raw \<and>
        (\<exists>k. first_best d cpudb_amd k \<and> id_score i = score (cpudb_amd ! k) d \<and>
          cpu_codename d = me_name (cpudb_amd ! k) \<and> technology_node d = me_technology (cpudb_amd ! k))"
proof -
  define d0 where "d0 = load_amd_features raw data"
  obtain d1 i1 where caches: "(if EXTRACTS_BIT (ECX (ext_cpuid raw ! 1)) 22 = 1 \<and>
          EXTRACTS_BITS (EAX (amd_fn8000001dh raw ! 0)) 4 0 \<noteq> 0
        then decode_deterministic_cache_info_x86 (amd_fn8000001dh raw) (of_nat MAX_AMDFN8000001DH_LEVEL) d0 internal
        else Some (decode_amd_cache_info raw d0, internal)) = Some (d1, i1)"
    and c1: "\<And>c. cache_data c d1 = amd_cache raw d0 c" and n1: "non_cache d1 = non_cache d0"
    using amd_caches_result [OF assms, of d0] by blast
  define d2 where "d2 = (decode_architecture_version_x86 (decode_amd_number_of_cores raw d1))\<lparr>purpose := amd_purpose raw\<rparr>"
  have d0: "cache_data c d0 = cache_data c data" "x86 d0 = (x86 data)\<lparr>sse_size := amd_sse_size raw (sse_size (x86 data))\<rparr>"
      "flags d0 = (\<lambda>f. flags data f \<or> f \<in> features_from (amd_sources raw))" for c
    by (simp_all only: d0_def flags_load_amd_features load_amd_features_facts)
  have amd_cache0: "amd_cache raw d0 c = amd_cache raw data c" for c
    by (simp add: amd_cache_def cache_from_def d0 split: option.splits)
  have d1: "flags d1 = flags d0" "x86 d1 = x86 d0"
    by (rule non_cache_fields [OF n1])+
  obtain k where k: "first_best d2 cpudb_amd k" and m: "match_cpu_codename cpudb_amd d2 = Some (score (cpudb_amd ! k) d2,
      d2\<lparr>cpu_codename := me_name (cpudb_amd ! k), technology_node := me_technology (cpudb_amd ! k)\<rparr>)"
    by (rule amd_db.match_first)
  have run: "cpuid_identify_amd raw data internal = (if amd_undefined raw then None else
      Some (d2\<lparr>cpu_codename := me_name (cpudb_amd ! k), technology_node := me_technology (cpudb_amd ! k)\<rparr>,
        i1\<lparr>id_score := score (cpudb_amd ! k) d2\<rparr>))"
    unfolding cpuid_identify_amd_def Let_def d0_def [symmetric] caches
    by (simp add: amd_purpose_result [OF assms(1)] m flip: d2_def)
  let ?d = "d2\<lparr>cpu_codename := me_name (cpudb_amd ! k), technology_node := me_technology (cpudb_amd ! k)\<rparr>"
  have best: "first_best ?d cpudb_amd k" using k by (simp add: first_best_def score_named)
  have caches: "cache_data c ?d = amd_cache raw data c" for c
    unfolding amd_cache0 [symmetric] c1 [symmetric]
    by (cases c) (simp_all add: d2_def decode_architecture_version_x86_def decode_amd_number_of_cores_frame cache_data_def)
  have fields: "flags ?d = (\<lambda>f. flags data f \<or> f \<in> features_from (amd_sources raw))"
      "x86 ?d = (x86 data)\<lparr>sse_size := amd_sse_size raw (sse_size (x86 data))\<rparr>"
      "(num_cores ?d, num_logical_cpus ?d) = amd_cores raw (flags ?d CPU_FEATURE_HT) (ext_family (x86 data))"
      "feature_level ?d =
        (if flags ?d CPU_FEATURE_LM then x86_64_level (flags ?d) architecture_matchtable_x86_64 False FEATURE_LEVEL_UNKNOWN
         else ia_32_level architecture_matchtable_ia_32 (family (x86 data)))"
      "purpose ?d = amd_purpose raw"
    by (simp_all add: d2_def decode_architecture_version_x86_def decode_amd_number_of_cores_frame d1 d0)
  show ?thesis
  proof (cases "amd_undefined raw")
    case True
    then show ?thesis by (simp only: run if_True option.case)
  next
    case False
    show ?thesis
      unfolding run by (simp only: False if_False option.case prod.case not_False_eq_True simp_thms)
        (intro conjI allI exI [of _ k]; (fact caches fields best | simp add: score_named))
  qed
qed

text \<open>What the other parts of the library need of it.\<close>

lemma decode_amd_cache_info_keeps [id_frame]:
  "flags (decode_amd_cache_info raw data) = flags data"
  "vendor (decode_amd_cache_info raw data) = vendor data"
  by (simp_all add: decode_amd_cache_info_def decode_amd_l1_def decode_amd_l2_l3_def Let_def)

lemma decode_architecture_version_keeps [id_frame]:
  "flags (decode_architecture_version_x86 data) = flags data"
  "vendor (decode_architecture_version_x86 data) = vendor data"
  "num_cores (decode_architecture_version_x86 data) = num_cores data"
  by (simp_all add: decode_architecture_version_x86_def)

lemma amd_caches_defined:
  assumes "wf_raw raw" and "length (cache_mask internal) = NUM_CACHE_TYPES"
  shows "\<exists>d i. (if b then decode_deterministic_cache_info_x86 (amd_fn8000001dh raw)
        (of_nat MAX_AMDFN8000001DH_LEVEL) data internal
      else Some (decode_amd_cache_info raw data, internal)) = Some (d, i) \<and>
    flags d = flags data \<and> vendor d = vendor data \<and> length (cache_mask i) = NUM_CACHE_TYPES"
proof (cases b)
  case True
  then show ?thesis
    using decode_deterministic_small [of 4 "amd_fn8000001dh raw" internal data]
      wf_rawD [OF assms(1)] assms(2) by auto
next
  case False
  then show ?thesis using assms(2) by (simp add: id_frame)
qed

lemma cpuid_identify_amd_result:
  assumes "wf_raw raw" and "length (cache_mask internal) = NUM_CACHE_TYPES"
    and "cpuid_identify_purpose_amd raw = Some p"
  shows "\<exists>d i. cpuid_identify_amd raw data internal = Some (d, i) \<and>
    flags d = (\<lambda>f. flags data f \<or> f \<in> features_from (amd_sources raw)) \<and>
    purpose d = p \<and> cpu_codename d \<in> me_name ` set cpudb_amd \<and>
    0 \<le> id_score i \<and> id_score i \<le> 26"
proof -
  obtain d1 i1 where caches: "(if EXTRACTS_BIT (ECX (ext_cpuid raw ! 1)) 22 = 1 \<and>
           EXTRACTS_BITS (EAX (amd_fn8000001dh raw ! 0)) 4 0 \<noteq> 0
        then decode_deterministic_cache_info_x86 (amd_fn8000001dh raw)
          (of_nat MAX_AMDFN8000001DH_LEVEL) (load_amd_features raw data) internal
        else Some (decode_amd_cache_info raw (load_amd_features raw data), internal)) = Some (d1, i1)"
    and fl: "flags d1 = flags (load_amd_features raw data)"
    using amd_caches_defined [OF assms(1,2)] by metis
  define d2 where "d2 = (decode_architecture_version_x86 (decode_amd_number_of_cores raw d1))\<lparr>purpose := p\<rparr>"
  have fl2: "flags d2 = flags (load_amd_features raw data)" by (simp add: d2_def id_frame fl)
  obtain e where e: "e \<in> set cpudb_amd" "match_cpu_codename cpudb_amd d2 = Some (score e d2,
      d2\<lparr>cpu_codename := me_name e, technology_node := me_technology e\<rparr>)"
    using amd_db.match_selects [of d2] by blast
  have "cpuid_identify_amd raw data internal =
      Some (d2\<lparr>cpu_codename := me_name e, technology_node := me_technology e\<rparr>,
        i1\<lparr>id_score := score e d2\<rparr>)"
    unfolding cpuid_identify_amd_def Let_def caches by (simp add: assms(3) e(2) flip: d2_def)
  then show ?thesis
    using e amd_db.match_score_range [OF e(2)] fl2 flags_load_amd_features [of raw data]
    by (auto simp: d2_def)
qed

text \<open>
  C23: on well-formed raw data \<^verbatim>\<open>cpuid_identify_amd\<close> fails exactly when the search for the purpose leaves its array. Otherwise it
  reports, besides the flags that were set before, exactly the AMD features whose leaf is supported; the SSE size; every cache, from
  the listed subleaves of leaf 8000001Dh or from the older leaves; the number of cores and of logical processors; the
  architecture level; the purpose; and the name, technology and score of the first row of \<^verbatim>\<open>cpudb_amd\<close> with the highest score.
\<close>

theorem cpuid_identify_amd_total:
  assumes "wf_raw raw" and "length (cache_mask internal) = NUM_CACHE_TYPES"
  shows "case cpuid_identify_amd raw data internal of
      None \<Rightarrow> amd_undefined raw
    | Some (d, i) \<Rightarrow> \<not> amd_undefined raw \<and>
        flags d = (\<lambda>f. flags data f \<or> f \<in> features_from (amd_sources raw)) \<and>
        x86 d = (x86 data)\<lparr>sse_size := amd_sse_size raw (sse_size (x86 data))\<rparr> \<and>
        (\<forall>c. cache_data c d = amd_cache raw data c) \<and>
        (num_cores d, num_logical_cpus d) = amd_cores raw (flags d CPU_FEATURE_HT) (ext_family (x86 data)) \<and>
        feature_level d =
          (if flags d CPU_FEATURE_LM then x86_64_level (flags d) architecture_matchtable_x86_64 False FEATURE_LEVEL_UNKNOWN
           else ia_32_level architecture_matchtable_ia_32 (family (x86 data))) \<and>
        purpose d = amd_purpose raw \<and>
        (\<exists>k. first_best d cpudb_amd k \<and> id_score i = score (cpudb_amd ! k) d \<and>
          cpu_codename d = me_name (cpudb_amd ! k) \<and> technology_node d = me_technology (cpudb_amd ! k))"
  using assms by (rule cpuid_identify_amd_whole)

text \<open>A processor with 16 threads in eight cores and 512 KB of level-2 cache.\<close>

definition ryzen_raw :: cpu_raw_data_t where
  "ryzen_raw = raw_data_t_constructor\<lparr>
     basic_cpuid := (basic_cpuid raw_data_t_constructor)[0 := \<lparr>EAX = 13, EBX = 0, ECX = 0, EDX = 0\<rparr>,
       1 := \<lparr>EAX = 0, EBX = 0x00100000, ECX = 0, EDX = 0\<rparr>],
     ext_cpuid := (ext_cpuid raw_data_t_constructor)[0 := \<lparr>EAX = 0x8000001f, EBX = 0, ECX = 0, EDX = 0\<rparr>,
       6 := \<lparr>EAX = 0, EBX = 0, ECX = 0x02006140, EDX = 0\<rparr>,
       8 := \<lparr>EAX = 0, EBX = 0, ECX = 0x0f, EDX = 0\<rparr>,
       30 := \<lparr>EAX = 0, EBX = 0x0100, ECX = 0, EDX = 0\<rparr>]\<rparr>"

theorem cpuid_identify_amd_total_witness:
  "\<exists>d i. cpuid_identify_amd ryzen_raw (cpu_id_t_constructor\<lparr>flags := (\<lambda>f. f = CPU_FEATURE_HT),
        x86 := (x86 cpu_id_t_constructor)\<lparr>ext_family := 23\<rparr>\<rparr>)
      \<lparr>id_score = 0, cache_mask = replicate 5 0\<rparr> = Some (d, i) \<and>
    num_cores d = 8 \<and> num_logical_cpus d = 16 \<and> cache_data L2 d = (512, 8, 64) \<and> l3_cache d = -1 \<and>
    sse_size (x86 d) = 64 \<and> purpose d = PURPOSE_GENERAL"
proof -
  let ?data = "cpu_id_t_constructor\<lparr>flags := (\<lambda>f. f = CPU_FEATURE_HT),
        x86 := (x86 cpu_id_t_constructor)\<lparr>ext_family := 23\<rparr>\<rparr>"
  have lengths: "length (basic_cpuid raw_data_t_constructor) = 32" "length (ext_cpuid raw_data_t_constructor) = 32"
    using wf_rawD [OF wf_raw_data_t_constructor] by simp_all
  have wf: "wf_raw ryzen_raw" using wf_raw_data_t_constructor by (simp add: wf_raw_def ryzen_raw_def)
  have zero: "EAX (amd_fn80000026h ryzen_raw ! 0) = 0" "EAX (amd_fn8000001dh ryzen_raw ! 0) = 0" "EAX (ext_cpuid ryzen_raw ! 26) = 0"
    by (simp_all add: ryzen_raw_def raw_data_t_constructor_def)
  then have "\<not> amd_undefined ryzen_raw" "amd_purpose ryzen_raw = PURPOSE_GENERAL" "\<not> topology_extensions ryzen_raw"
    by (simp_all add: amd_undefined_def amd_purpose_def topology_extensions_def)
  moreover have "legacy_cache ryzen_raw L2 (cache_data L2 ?data) = (512, 8, 64)"
      "fst (legacy_cache ryzen_raw L3 (cache_data L3 ?data)) = -1"
      "amd_cores ryzen_raw True 23 = (8, 16)" "amd_sse_size ryzen_raw s = 64" for s
    by (simp_all add: legacy_cache_def amd_cores_def amd_sse_size_def Let_def assoc_table_def zero)
      (simp_all add: ryzen_raw_def lengths nth_list_update)
  moreover have "l3_cache d = fst (cache_data L3 d)" for d by (simp add: cache_data_def)
  ultimately show ?thesis
    using cpuid_identify_amd_total [OF wf, of "\<lparr>id_score = 0, cache_mask = replicate 5 0\<rparr>" ?data]
    by (auto simp: amd_cache_def split: option.splits)
qed

end
