(* ===== verification/Recog_Intel.thy ===== *)
theory Recog_Intel
  imports Match_Tables Cache_Info X86_Common X86_Levels
begin

text \<open>
  The Intel recognizer (\<^verbatim>\<open>recog_intel.c\<close>): feature bits, the cache descriptors of leaf 2, the
  topology of leaf 11, the SGX leaf and its enclave page cache sections, the purpose of a core of
  a hybrid processor, and \<^verbatim>\<open>cpuid_identify_intel\<close>. The CPUID instruction that
  \<^verbatim>\<open>cpuid_get_epc\<close> executes for sections beyond the stored ones is a parameter. Undefined behaviour
  (a division by zero, an index outside an array) is \<^const>\<open>None\<close>.
\<close>

section \<open>Features\<close>

definition intel_matchtable_edx1 :: "feature_map_t list" where
  "intel_matchtable_edx1 = [
     fm 18 CPU_FEATURE_PN,
     fm 21 CPU_FEATURE_DTS,
     fm 22 CPU_FEATURE_ACPI,
     fm 27 CPU_FEATURE_SS,
     fm 29 CPU_FEATURE_TM,
     fm 30 CPU_FEATURE_IA64,
     fm 31 CPU_FEATURE_PBE]"

definition intel_matchtable_ecx1 :: "feature_map_t list" where
  "intel_matchtable_ecx1 = [
     fm 2 CPU_FEATURE_DTS64,
     fm 4 CPU_FEATURE_DS_CPL,
     fm 5 CPU_FEATURE_VMX,
     fm 6 CPU_FEATURE_SMX,
     fm 7 CPU_FEATURE_EST,
     fm 8 CPU_FEATURE_TM2,
     fm 10 CPU_FEATURE_CID,
     fm 14 CPU_FEATURE_XTPR,
     fm 15 CPU_FEATURE_PDCM,
     fm 18 CPU_FEATURE_DCA]"

definition intel_matchtable_edx81 :: "feature_map_t list" where
  "intel_matchtable_edx81 = [
     fm 20 CPU_FEATURE_XD]"

definition intel_matchtable_ebx7 :: "feature_map_t list" where
  "intel_matchtable_ebx7 = [
     fm 2 CPU_FEATURE_SGX,
     fm 4 CPU_FEATURE_HLE,
     fm 11 CPU_FEATURE_RTM,
     fm 26 CPU_FEATURE_AVX512PF,
     fm 27 CPU_FEATURE_AVX512ER]"

definition load_intel_features :: "cpu_raw_data_t \<Rightarrow> cpu_id_t \<Rightarrow> cpu_id_t" where
  "load_intel_features raw data =
     (let b = \<lambda>i. basic_cpuid raw ! i;
        data = (if EAX (b 0) \<ge> 1 then
            match_features intel_matchtable_ecx1 (ECX (b 1))
              (match_features intel_matchtable_edx1 (EDX (b 1)) data) else data);
        data = (if EAX (ext_cpuid raw ! 0) \<ge> 1 then
            match_features intel_matchtable_edx81 (EDX (ext_cpuid raw ! 1)) data else data)
      in if EAX (b 0) \<ge> 7 then match_features intel_matchtable_ebx7 (EBX (b 7)) data else data)"

section \<open>Cache descriptors\<close>

text \<open>The array \<^verbatim>\<open>f\<close> of 256 flags: each of the four bytes of a register marks its descriptor.\<close>

fun mark_bytes :: "nat \<Rightarrow> u32 \<Rightarrow> u8 list \<Rightarrow> u8 list" where
  "mark_bytes 0 x f = f"
| "mark_bytes (Suc n) x f = mark_bytes n (drop_bit 8 x) (f[unat (x AND 0xff) := 1])"

definition mark_register :: "u32 \<Rightarrow> u8 list \<Rightarrow> u8 list" where
  "mark_register x f = (if x AND 0x80000000 \<noteq> 0 then f else mark_bytes 4 x f)"

definition leaf2_registers :: "cpu_raw_data_t \<Rightarrow> u32 list" where
  "leaf2_registers raw = (let r = basic_cpuid raw ! 2 in [EAX r, EBX r, ECX r, EDX r])"

definition oldstyle_flags :: "cpu_raw_data_t \<Rightarrow> u8 list" where
  "oldstyle_flags raw = fold mark_register (leaf2_registers raw) (replicate 256 0)"

definition oldstyle_descriptors :: "(u8 \<times> cache_type_t \<times> int \<times> int \<times> int) list" where
  "oldstyle_descriptors = [
     (0x06, L1I, 8, 4, 32),
     (0x08, L1I, 16, 4, 32),
     (0x0A, L1D, 8, 2, 32),
     (0x0C, L1D, 16, 4, 32),
     (0x22, L3, 512, 4, 64),
     (0x23, L3, 1024, 8, 64),
     (0x25, L3, 2048, 8, 64),
     (0x29, L3, 4096, 8, 64),
     (0x2C, L1D, 32, 8, 64),
     (0x30, L1I, 32, 8, 64),
     (0x39, L2, 128, 4, 64),
     (0x3A, L2, 192, 6, 64),
     (0x3B, L2, 128, 2, 64),
     (0x3C, L2, 256, 4, 64),
     (0x3D, L2, 384, 6, 64),
     (0x3E, L2, 512, 4, 64),
     (0x41, L2, 128, 4, 32),
     (0x42, L2, 256, 4, 32),
     (0x43, L2, 512, 4, 32),
     (0x44, L2, 1024, 4, 32),
     (0x45, L2, 2048, 4, 32),
     (0x46, L3, 4096, 4, 64),
     (0x47, L3, 8192, 8, 64),
     (0x4A, L3, 6144, 12, 64),
     (0x4B, L3, 8192, 16, 64),
     (0x4C, L3, 12288, 12, 64),
     (0x4D, L3, 16384, 16, 64),
     (0x4E, L2, 6144, 24, 64),
     (0x60, L1D, 16, 8, 64),
     (0x66, L1D, 8, 4, 64),
     (0x67, L1D, 16, 4, 64),
     (0x68, L1D, 32, 4, 64),
     (0x70, L1I, 12, 8, (-1)),
     (0x71, L1I, 16, 8, (-1)),
     (0x72, L1I, 32, 8, (-1)),
     (0x73, L1I, 64, 8, (-1)),
     (0x78, L2, 1024, 4, 64),
     (0x79, L2, 128, 8, 64),
     (0x7A, L2, 256, 8, 64),
     (0x7B, L2, 512, 8, 64),
     (0x7C, L2, 1024, 8, 64),
     (0x7D, L2, 2048, 8, 64),
     (0x7F, L2, 512, 2, 64),
     (0x82, L2, 256, 8, 32),
     (0x83, L2, 512, 8, 32),
     (0x84, L2, 1024, 8, 32),
     (0x85, L2, 2048, 8, 32),
     (0x86, L2, 512, 4, 64),
     (0x87, L2, 1024, 8, 64)]"

definition assign_descriptors :: "u8 list \<Rightarrow> cpu_id_t \<Rightarrow> cpu_id_t" where
  "assign_descriptors f data =
     fold (\<lambda>(code, c, size, assoc, line) data. assign_cache_data (f ! unat code) c size assoc line data)
       oldstyle_descriptors data"

definition descriptor_49 :: "u8 list \<Rightarrow> cpu_id_t \<Rightarrow> cpu_id_t" where
  "descriptor_49 f data =
     (if f ! 0x49 = 0 then data
      else if family (x86 data) = 0xf \<and> model (x86 data) = 0x6
      then data\<lparr>l3_cache := 4096, l3_assoc := 16, l3_cacheline := 64\<rparr>
      else data\<lparr>l2_cache := 4096, l2_assoc := 16, l2_cacheline := 64\<rparr>)"

definition descriptor_40 :: "u8 list \<Rightarrow> cpu_id_t \<Rightarrow> cpu_id_t" where
  "descriptor_40 f data =
     (if f ! 0x40 = 0 then data
      else if l2_cache data = -1 then data\<lparr>l2_cache := 0\<rparr> else data\<lparr>l3_cache := 0\<rparr>)"

definition decode_intel_oldstyle_cache_info :: "cpu_raw_data_t \<Rightarrow> cpu_id_t \<Rightarrow> cpu_id_t" where
  "decode_intel_oldstyle_cache_info raw data =
     (let f = oldstyle_flags raw in descriptor_40 f (descriptor_49 f (assign_descriptors f data)))"

section \<open>Topology\<close>

text \<open>
  The loop over the levels of leaf 11, which ends at the end of the array or at the first level
  without \<^verbatim>\<open>EAX\<close> or \<^verbatim>\<open>EBX\<close>, and collects \<^verbatim>\<open>num_smt\<close> and \<^verbatim>\<open>num_core\<close>.
\<close>

fun topology_levels :: "cpu_regs_t list \<Rightarrow> int \<times> int \<Rightarrow> int \<times> int" where
  "topology_levels [] (num_smt, num_core) = (num_smt, num_core)"
| "topology_levels (r # rs) (num_smt, num_core) =
     (if EAX r \<noteq> 0 \<and> EBX r \<noteq> 0 then
        topology_levels rs
          (if EXTRACTS_BITS (ECX r) 15 8 = 1 then (uint (EXTRACTS_BITS (EBX r) 15 0), num_core)
           else if EXTRACTS_BITS (ECX r) 15 8 = 2 then (num_smt, uint (EXTRACTS_BITS (EBX r) 15 0))
           else (num_smt, num_core))
      else (num_smt, num_core))"

definition decode_intel_extended_topology ::
    "cpu_raw_data_t \<Rightarrow> cpu_id_t \<Rightarrow> (bool \<times> cpu_id_t) option" where
  "decode_intel_extended_topology raw data =
     (case topology_levels (intel_fn11 raw) (-1, -1) of (num_smt, num_core) \<Rightarrow>
        if num_smt = -1 \<or> num_core = -1 then Some (False, data)
        else if num_smt = 0 then None
        else let cores = num_core div num_smt in
          Some (True, data\<lparr>num_logical_cpus := num_core,
            num_cores := (if cores \<le> 0 then 1 else cores)\<rparr>))"

section \<open>SGX\<close>

record cpu_epc_t =
  epc_start_addr :: u64
  epc_length :: u64

definition decode_epc :: "cpu_regs_t \<Rightarrow> cpu_epc_t" where
  "decode_epc regs =
     (if EAX regs AND 0xf = 1 then
        \<lparr>epc_start_addr = ucast (EAX regs AND 0xfffff000) OR
            push_bit 32 (ucast (EBX regs AND 0x000fffff)),
          epc_length = ucast (ECX regs AND 0xfffff000) OR
            push_bit 32 (ucast (EDX regs AND 0x000fffff))\<rparr>
      else \<lparr>epc_start_addr = 0, epc_length = 0\<rparr>)"

text \<open>
  \<^verbatim>\<open>cpuid_get_epc(index, raw)\<close>, with a null or valid \<^verbatim>\<open>raw\<close>; \<open>exec\<close> is \<^verbatim>\<open>cpu_exec_cpuid_ext\<close>.
\<close>

definition cpuid_get_epc ::
    "(cpu_regs_t \<Rightarrow> cpu_regs_t) \<Rightarrow> int \<Rightarrow> cpu_raw_data_t option \<Rightarrow> cpu_epc_t option" where
  "cpuid_get_epc exec index raw =
     (case raw of
        Some r \<Rightarrow>
          if index < int MAX_INTELFN12H_LEVEL - 2 then
            (if 2 + index < 0 then None
             else map_option decode_epc (regs_at (intel_fn12h r) (nat (2 + index))))
          else Some (decode_epc (exec \<lparr>EAX = 0x12, EBX = 0, ECX = word_of_int (2 + index), EDX = 0\<rparr>))
      | None \<Rightarrow>
          Some (decode_epc (exec \<lparr>EAX = 0x12, EBX = 0, ECX = word_of_int (2 + index), EDX = 0\<rparr>)))"

text \<open>
  The loop that counts the sections, with the number of remaining iterations: \<^verbatim>\<open>None\<close> for a read
  outside the array, -1 when no empty section was found.
\<close>

fun epc_loop :: "(int \<Rightarrow> cpu_epc_t option) \<Rightarrow> int \<Rightarrow> nat \<Rightarrow> int option" where
  "epc_loop get i 0 = Some (-1)"
| "epc_loop get i (Suc n) =
     (case get i of
        None \<Rightarrow> None
      | Some epc \<Rightarrow> if epc_length epc = 0 then Some i else epc_loop get (i + 1) n)"

definition sgx_leaf :: "cpu_raw_data_t \<Rightarrow> cpu_sgx_t \<Rightarrow> cpu_sgx_t" where
  "sgx_leaf raw s =
     (let r = basic_cpuid raw ! 0x12; r1 = intel_fn12h raw ! 1;
        s = (if EAX r AND 1 \<noteq> 0 then s\<lparr>sgx_flags := (sgx_flags s)(INTEL_SGX1 := True)\<rparr> else s);
        s = (if EAX r AND 2 \<noteq> 0 then s\<lparr>sgx_flags := (sgx_flags s)(INTEL_SGX2 := True)\<rparr> else s);
        s = (if sgx_flags s INTEL_SGX1 \<or> sgx_flags s INTEL_SGX2 then s\<lparr>sgx_present := 1\<rparr> else s)
      in s\<lparr>misc_select := EBX r,
           max_enclave_32bit := ucast (EDX r AND 0xff),
           max_enclave_64bit := ucast (drop_bit 8 (EDX r) AND 0xff),
           secs_attributes := ucast (EAX r1) OR push_bit 32 (ucast (EBX r1)),
           secs_xfrm := ucast (ECX r1) OR push_bit 32 (ucast (EDX r1))\<rparr>)"

definition decode_intel_sgx_features ::
    "(cpu_regs_t \<Rightarrow> cpu_regs_t) \<Rightarrow> cpu_raw_data_t \<Rightarrow> cpu_id_t \<Rightarrow> cpu_id_t option" where
  "decode_intel_sgx_features exec raw data =
     (if EAX (basic_cpuid raw ! 0) < 0x12 \<or> EAX (basic_cpuid raw ! 0x12) = 0 then Some data
      else do {
        n \<leftarrow> epc_loop (\<lambda>i. cpuid_get_epc exec i (Some raw)) 0 1000000;
        Some (data\<lparr>x86 := (x86 data)\<lparr>sgx := (sgx_leaf raw (sgx (x86 data)))\<lparr>
          num_epc_sections := (if n = -1 then 1000000 else n)\<rparr>\<rparr>\<rparr>)
      })"

section \<open>Purpose and identification\<close>

definition cpuid_identify_purpose_intel :: "cpu_raw_data_t \<Rightarrow> cpu_purpose_t" where
  "cpuid_identify_purpose_intel raw =
     (if EXTRACTS_BIT (EDX (basic_cpuid raw ! 0x7)) 15 = 1 then
        let core_type = EXTRACTS_BITS (EAX (basic_cpuid raw ! 0x1a)) 31 24 in
        if core_type = 0x20 then
          (if EXTRACTS_BITS (EAX (intel_fn4 raw ! 3)) 31 0 \<noteq> 0 then PURPOSE_EFFICIENCY
           else PURPOSE_LP_EFFICIENCY)
        else if core_type = 0x40 then PURPOSE_PERFORMANCE else PURPOSE_GENERAL
      else PURPOSE_GENERAL)"

definition intel_caches ::
    "cpu_raw_data_t \<Rightarrow> cpu_id_t \<Rightarrow> internal_id_info_t \<Rightarrow> (cpu_id_t \<times> internal_id_info_t) option" where
  "intel_caches raw data internal =
     (if EAX (basic_cpuid raw ! 0) \<ge> 4 then
        decode_deterministic_cache_info_x86 (intel_fn4 raw) (of_nat MAX_INTELFN4_LEVEL) data internal
      else if EAX (basic_cpuid raw ! 0) \<ge> 2
      then Some (decode_intel_oldstyle_cache_info raw data, internal)
      else Some (data, internal))"

definition intel_cores :: "cpu_raw_data_t \<Rightarrow> cpu_id_t \<Rightarrow> cpu_id_t option" where
  "intel_cores raw data =
     (if EAX (basic_cpuid raw ! 0) < 11 then Some (decode_number_of_cores_x86 raw data)
      else do {
        (done, data) \<leftarrow> decode_intel_extended_topology raw data;
        Some (if done then data else decode_number_of_cores_x86 raw data)
      })"

definition cpuid_identify_intel ::
    "(cpu_regs_t \<Rightarrow> cpu_regs_t) \<Rightarrow> cpu_raw_data_t \<Rightarrow> cpu_id_t \<Rightarrow> internal_id_info_t \<Rightarrow>
      (cpu_id_t \<times> internal_id_info_t) option" where
  "cpuid_identify_intel exec raw data internal = do {
     let data = load_intel_features raw data;
     (data, internal) \<leftarrow> intel_caches raw data internal;
     data \<leftarrow> intel_cores raw data;
     let data = decode_architecture_version_x86 data;
     let data = data\<lparr>purpose := cpuid_identify_purpose_intel raw\<rparr>;
     (s, data) \<leftarrow> match_cpu_codename cpudb_intel data;
     data \<leftarrow> (if flags data CPU_FEATURE_SGX then decode_intel_sgx_features exec raw data
       else Some data);
     Some (data, internal\<lparr>id_score := s\<rparr>)
   }"

definition cpuid_get_list_intel :: "(nat \<Rightarrow> bool) \<Rightarrow> cpu_error_t \<Rightarrow> cpu_list_t \<times> cpu_error_t" where
  "cpuid_get_list_intel alloc errno = generic_get_cpu_list alloc cpudb_intel errno"

section \<open>Properties\<close>

subsection \<open>Features\<close>

definition intel_sources :: "cpu_raw_data_t \<Rightarrow> (feature_map_t list \<times> u32) list" where
  "intel_sources raw =
     (let b = \<lambda>i. basic_cpuid raw ! i in
      (if EAX (b 0) \<ge> 1 then
         [(intel_matchtable_edx1, EDX (b 1)), (intel_matchtable_ecx1, ECX (b 1))] else []) @
      (if EAX (ext_cpuid raw ! 0) \<ge> 1 then [(intel_matchtable_edx81, EDX (ext_cpuid raw ! 1))] else []) @
      (if EAX (b 0) \<ge> 7 then [(intel_matchtable_ebx7, EBX (b 7))] else []))"

lemma load_intel_features_sources:
  "load_intel_features raw data =
     data\<lparr>flags := \<lambda>f. flags data f \<or> f \<in> features_from (intel_sources raw)\<rparr>"
  unfolding load_intel_features_def intel_sources_def Let_def match_features_flags
  by (cases "EAX (basic_cpuid raw ! 0) \<ge> 1"; cases "EAX (basic_cpuid raw ! 0) \<ge> 7";
      cases "EAX (ext_cpuid raw ! 0) \<ge> 1")
    (auto intro!: set_flag_cong)

subsection \<open>Cache descriptors\<close>

text \<open>The descriptors of leaf 2: the bytes of the registers whose top bit is clear.\<close>

definition reg_byte :: "u32 \<Rightarrow> nat \<Rightarrow> nat" where
  "reg_byte x i = unat (drop_bit (8 * i) x AND 0xff)"

definition descriptors :: "cpu_raw_data_t \<Rightarrow> nat set" where
  "descriptors raw =
     {reg_byte x i | x i. x \<in> set (leaf2_registers raw) \<and> \<not> bit x 31 \<and> i < 4}"

lemma reg_byte_less: "reg_byte x i < 256"
proof -
  have "drop_bit (8 * i) x AND 0xff = take_bit 8 (drop_bit (8 * i) x)"
    by (simp add: take_bit_eq_mask mask_eq_decr_exp)
  then show ?thesis
    using take_bit_nat_less_exp [of 8 "unat (drop_bit (8 * i) x)"]
    by (simp add: reg_byte_def unsigned_take_bit_eq)
qed

lemma length_mark_bytes [simp]: "length (mark_bytes n x f) = length f"
  by (induction n x f rule: mark_bytes.induct) simp_all

lemma mark_bytes_nth:
  assumes "length f = 256" and "k < 256"
  shows "mark_bytes n x f ! k = (if \<exists>i<n. reg_byte x i = k then 1 else f ! k)"
  using assms
proof (induction n x f rule: mark_bytes.induct)
  case (1 x f)
  then show ?case by simp
next
  case (2 n x f)
  have "(\<exists>i<Suc n. reg_byte x i = k) \<longleftrightarrow>
      unat (x AND 0xff) = k \<or> (\<exists>i<n. reg_byte (drop_bit 8 x) i = k)"
    by (simp add: Ex_less_Suc2 reg_byte_def add.commute)
  with 2 show ?case by (auto simp: nth_list_update)
qed

lemma top_bit_iff: "(x :: u32) AND 0x80000000 \<noteq> 0 \<longleftrightarrow> bit x 31"
  using and_exp_eq_0_iff_not_bit [of x 31] by simp

lemma mark_register_nth:
  assumes "length f = 256" and "k < 256"
  shows "mark_register x f ! k = (if \<not> bit x 31 \<and> (\<exists>i<4. reg_byte x i = k) then 1 else f ! k)"
    and "length (mark_register x f) = 256"
  using assms mark_bytes_nth [of f k 4 x] by (auto simp: mark_register_def top_bit_iff)

lemma fold_mark_register_nth:
  assumes "length f = 256" and "k < 256"
  shows "fold mark_register rs f ! k =
    (if \<exists>x \<in> set rs. \<not> bit x 31 \<and> (\<exists>i<4. reg_byte x i = k) then 1 else f ! k)"
  using assms(1)
  by (induction rs arbitrary: f) (auto simp: mark_register_nth [OF _ assms(2)])

lemma oldstyle_flags_nth:
  assumes "k < 256"
  shows "oldstyle_flags raw ! k \<noteq> 0 \<longleftrightarrow> k \<in> descriptors raw"
  using assms fold_mark_register_nth [of "replicate 256 0" k "leaf2_registers raw"]
  by (auto simp: oldstyle_flags_def descriptors_def)

text \<open>The last row of the table for a cache whose descriptor is present decides.\<close>

definition described ::
    "nat set \<Rightarrow> cache_type_t \<Rightarrow> (u8 \<times> cache_type_t \<times> int \<times> int \<times> int) list \<Rightarrow>
      int \<times> int \<times> int \<Rightarrow> int \<times> int \<times> int" where
  "described ds c table old =
     (case List.find (\<lambda>(code, c', _). unat code \<in> ds \<and> c' = c) (rev table) of
        Some (_, _, values) \<Rightarrow> values
      | None \<Rightarrow> old)"

lemma described_Cons:
  "described ds c ((code, c', v) # t) old =
     described ds c t (if unat code \<in> ds \<and> c' = c then v else old)"
  by (auto simp: described_def find_append split: option.splits)

lemma assign_table_cache_data:
  assumes "\<And>k. k < 256 \<Longrightarrow> f ! k \<noteq> 0 \<longleftrightarrow> k \<in> ds"
  shows "cache_data c (fold (\<lambda>(code, c, size, assoc, line) data.
      assign_cache_data (f ! unat (code :: u8)) c size assoc line data) t data) =
    described ds c t (cache_data c data)"
proof (induction t arbitrary: data)
  case Nil
  then show ?case by (simp add: described_def)
next
  case (Cons e t)
  obtain code c' s a l where e: "e = (code, c', s, a, l)" by (cases e)
  have "unat code < 256" by (rule order_less_le_trans [OF unsigned_less]) simp
  with Cons assms show ?case by (simp add: e described_Cons cache_data_assign)
qed

lemma assign_table_non_cache:
  "non_cache (fold (\<lambda>(code, c, size, assoc, line) data.
      assign_cache_data (f ! unat (code :: u8)) c size assoc line data) t data) = non_cache data"
  by (induction t arbitrary: data) (auto simp: non_cache_assign)

lemma oldstyle_non_cache:
  "non_cache (decode_intel_oldstyle_cache_info raw data) = non_cache data"
proof -
  have "non_cache (descriptor_40 f (descriptor_49 f a)) = non_cache a" for f a
    by (simp add: descriptor_40_def descriptor_49_def non_cache_def)
  then show ?thesis
    by (simp add: decode_intel_oldstyle_cache_info_def Let_def assign_descriptors_def
        assign_table_non_cache)
qed

text \<open>
  C37: the descriptors of leaf 2 set, for the level 1 caches, the size, associativity and line
  size of the last row of the table whose descriptor is present, whatever the order of the bytes
  in the registers. Descriptor 49h is the level 3 cache of a Xeon MP and the level 2 cache
  elsewhere, and 40h clears the size of L3, or that of L2 when no L2 was described. Nothing
  but cache data changes.
\<close>

theorem decode_intel_oldstyle_spec:
  "let d = decode_intel_oldstyle_cache_info raw data; ds = descriptors raw;
       row = (\<lambda>c. described ds c oldstyle_descriptors (cache_data c data));
       xeon_mp = (family (x86 data) = 15 \<and> model (x86 data) = 6);
       l2 = (if 0x49 \<in> ds \<and> \<not> xeon_mp then (4096, 16, 64) else row L2);
       l3 = (if 0x49 \<in> ds \<and> xeon_mp then (4096, 16, 64) else row L3)
   in cache_data L1I d = row L1I \<and> cache_data L1D d = row L1D \<and> cache_data L4 d = row L4 \<and>
      cache_data L2 d = (if 0x40 \<in> ds \<and> fst l2 = -1 then (0, snd l2) else l2) \<and>
      cache_data L3 d = (if 0x40 \<in> ds \<and> fst l2 \<noteq> -1 then (0, snd l3) else l3) \<and>
      non_cache d = non_cache data"
proof -
  define f where "f = oldstyle_flags raw"
  define a where "a = assign_descriptors f data"
  have bits: "f ! 0x49 \<noteq> 0 \<longleftrightarrow> 0x49 \<in> descriptors raw" "f ! 0x40 \<noteq> 0 \<longleftrightarrow> 0x40 \<in> descriptors raw"
    by (simp_all add: f_def oldstyle_flags_nth)
  have a: "cache_data c a = described (descriptors raw) c oldstyle_descriptors (cache_data c data)"
    for c
    unfolding a_def assign_descriptors_def
    by (rule assign_table_cache_data) (simp add: f_def oldstyle_flags_nth)
  have keep: "non_cache a = non_cache data"
    by (simp add: a_def assign_descriptors_def assign_table_non_cache)
  have x: "x86 a = x86 data" by (rule non_cache_fields [OF keep])
  have d: "decode_intel_oldstyle_cache_info raw data = descriptor_40 f (descriptor_49 f a)"
    by (simp add: decode_intel_oldstyle_cache_info_def f_def a_def Let_def)
  show ?thesis
    unfolding Let_def d a [symmetric] bits [symmetric] keep [symmetric] x [symmetric]
    by (simp add: descriptor_40_def descriptor_49_def cache_data_def non_cache_def)
qed

subsection \<open>Topology\<close>

text \<open>The count of the last level of a type, among the levels before the first empty one.\<close>

definition level_count :: "u64 \<Rightarrow> cpu_regs_t list \<Rightarrow> int \<Rightarrow> int" where
  "level_count type rs old =
     (case List.find (\<lambda>r. EXTRACTS_BITS (ECX r) 15 8 = type)
         (rev (takeWhile (\<lambda>r. EAX r \<noteq> 0 \<and> EBX r \<noteq> 0) rs)) of
        Some r \<Rightarrow> uint (EXTRACTS_BITS (EBX r) 15 0)
      | None \<Rightarrow> old)"

lemma level_count_Cons:
  "level_count type (r # rs) old =
     (if EAX r \<noteq> 0 \<and> EBX r \<noteq> 0 then
        level_count type rs
          (if EXTRACTS_BITS (ECX r) 15 8 = type then uint (EXTRACTS_BITS (EBX r) 15 0) else old)
      else old)"
  by (auto simp: level_count_def find_append split: option.splits)

lemma topology_levels_counts:
  "topology_levels rs (s, c) = (level_count 1 rs s, level_count 2 rs c)"
proof (induction rs arbitrary: s c)
  case Nil
  then show ?case by (simp add: level_count_def)
next
  case (Cons r rs)
  then show ?case by (simp add: level_count_Cons)
qed

lemma uint_field_range:
  "0 \<le> uint (EXTRACTS_BITS (r :: u32) 15 0) \<and> uint (EXTRACTS_BITS r 15 0) < 65536"
proof -
  have "unat (EXTRACTS_BITS r 15 0) < 65536" using EXTRACTS_BITS_less [of r 15 0] by simp
  then have "int (unat (EXTRACTS_BITS r 15 0)) < 65536" by linarith
  then show ?thesis by simp
qed

lemma level_count_range:
  "level_count type rs (-1) = -1 \<or> 0 \<le> level_count type rs (-1) \<and> level_count type rs (-1) < 65536"
  using uint_field_range by (auto simp: level_count_def split: option.splits)

definition zero_smt_levels :: "cpu_regs_t list" where
  "zero_smt_levels = [\<lparr>EAX = 1, EBX = 0x10000, ECX = 0x100, EDX = 0\<rparr>,
     \<lparr>EAX = 1, EBX = 4, ECX = 0x200, EDX = 0\<rparr>, regs_zero, regs_zero]"

lemma zero_smt_counts: "level_count 1 zero_smt_levels (-1) = 0 \<and> level_count 2 zero_smt_levels (-1) = 4"
  by (simp add: zero_smt_levels_def level_count_def EXTRACTS_BITS_def)

text \<open>
  \<^verbatim>\<open>decode_intel_extended_topology\<close> needs both a thread level and a core level; it then
  reports the count of the core level as logical processors and the quotient of the two, but at
  least 1 and at most 65535, as cores. It divides by zero exactly when the thread level counts
  no threads in its low 16 bits, which leaf 11 of a virtual machine can be made to report.
\<close>

theorem decode_intel_extended_topology_spec:
  "let smt = level_count 1 (intel_fn11 raw) (-1); core = level_count 2 (intel_fn11 raw) (-1);
       cores = max 1 (core div smt)
   in decode_intel_extended_topology raw data =
        (if smt = -1 \<or> core = -1 then Some (False, data)
         else if smt = 0 then None
         else Some (True, data\<lparr>num_logical_cpus := core, num_cores := cores\<rparr>)) \<and>
      (if smt > 0 then 1 \<le> cores \<and> cores \<le> 65535 else True) \<and>
      (\<exists>raw'. wf_raw raw' \<and> decode_intel_extended_topology raw' data = None)"
proof -
  define smt core where "smt = level_count 1 (intel_fn11 raw) (-1)"
    and "core = level_count 2 (intel_fn11 raw) (-1)"
  have "core div smt \<le> 65535" if "smt > 0"
  proof (cases "core \<ge> 0")
    case True
    then have "core div smt \<le> core" using that int_div_less_self [of core smt] by (cases "core = 0"; cases "smt = 1") auto
    then show ?thesis using level_count_range [of 2 "intel_fn11 raw"] by (auto simp: core_def)
  next
    case False
    then show ?thesis using that by (simp add: div_neg_pos_less0 order_less_imp_le order_trans [of _ 0])
  qed
  moreover have "decode_intel_extended_topology raw data =
        (if smt = -1 \<or> core = -1 then Some (False, data)
         else if smt = 0 then None
         else Some (True, data\<lparr>num_logical_cpus := core, num_cores := max 1 (core div smt)\<rparr>))"
    by (simp add: decode_intel_extended_topology_def topology_levels_counts Let_def smt_def core_def
        max_def)
  moreover have "wf_raw (raw_data_t_constructor\<lparr>intel_fn11 := zero_smt_levels\<rparr>)"
    using wf_raw_data_t_constructor by (simp add: wf_raw_def zero_smt_levels_def)
  moreover have "decode_intel_extended_topology
      (raw_data_t_constructor\<lparr>intel_fn11 := zero_smt_levels\<rparr>) data = None"
    by (simp add: decode_intel_extended_topology_def topology_levels_counts zero_smt_counts)
  ultimately show ?thesis
    unfolding Let_def smt_def [symmetric] core_def [symmetric] by auto
qed

subsection \<open>SGX\<close>

lemma unat_high_fields:
  fixes lo hi :: u32
  shows "unat (ucast (lo AND 0xfffff000) OR push_bit 32 (ucast (hi AND 0x000fffff)) :: u64) =
    unat lo div 4096 * 4096 + unat hi mod 2 ^ 20 * 2 ^ 32"
proof -
  have "unat lo < 2 ^ 32" by (rule order_less_le_trans [OF unsigned_less]) simp
  with div_times_less_eq_dividend [of "unat lo" 4096]
  have less: "unat lo div 4096 * 4096 < 2 ^ 32" by linarith
  have lo: "unat (lo AND 0xfffff000) = unat lo div 4096 * 4096"
  proof -
    have "lo AND 0xfffff000 = push_bit 12 (drop_bit 12 lo)"
    proof (rule bit_word_eqI)
      fix n assume "n < LENGTH(32)"
      moreover have "(0xfffff000 :: u32) = NOT (Bit_Operations.mask 12)" by (simp add: mask_eq_decr_exp)
      ultimately show "bit (lo AND 0xfffff000) n = bit (push_bit 12 (drop_bit 12 lo)) n"
        by (simp only: bit_simps) (auto simp: bit_simps)
    qed
    moreover have "unat (drop_bit 12 lo) = unat lo div 4096"
      by (simp only: unat_drop_bit_eq) (simp add: drop_bit_eq_div)
    ultimately show ?thesis
      using less by (simp add: unsigned_push_bit_eq push_bit_nat_def take_bit_nat_eq_self)
  qed
  have hi: "unat (hi AND 0x000fffff) = unat hi mod 2 ^ 20"
  proof -
    have "hi AND 0x000fffff = take_bit 20 hi" by (simp add: take_bit_eq_mask mask_eq_decr_exp)
    then show ?thesis by (simp only: unsigned_take_bit_eq) (simp only: take_bit_eq_mod)
  qed
  define a b where "a = unat lo div 4096 * 4096" and "b = unat hi mod 2 ^ 20"
  have a32: "a < 2 ^ 32" using less by (simp add: a_def)
  have b20: "b < 2 ^ 20" by (simp add: b_def)
  have ua: "unat (ucast (lo AND 0xfffff000) :: u64) = a"
    using a32 by (simp add: unsigned_ucast_eq lo a_def [symmetric] take_bit_nat_eq_self)
  have ub: "unat (push_bit 32 (ucast (hi AND 0x000fffff)) :: u64) = push_bit 32 b"
  proof -
    have "unat (ucast (hi AND 0x000fffff) :: u64) = b"
      using b20 by (simp only: unsigned_ucast_eq hi b_def [symmetric]) (simp add: take_bit_nat_eq_self)
    moreover have "push_bit 32 b < 2 ^ 64" using b20 by (simp add: push_bit_nat_def)
    ultimately show ?thesis
      by (simp only: unsigned_push_bit_eq) (simp add: take_bit_nat_eq_self)
  qed
  have "a AND push_bit 32 b = 0"
  proof (rule bit_eqI)
    fix n
    have "\<not> bit a n" if "32 \<le> n"
      using that a32 by (metis bit_take_bit_iff not_le take_bit_nat_eq_self)
    then show "bit (a AND push_bit 32 b) n = bit 0 n" by (auto simp: bit_simps)
  qed
  then have "a OR push_bit 32 b = a + push_bit 32 b" by (rule disjunctive_add_eq_or [symmetric])
  then show ?thesis
    by (simp only: unsigned_or_eq ua ub) (simp add: push_bit_nat_def a_def b_def)
qed

text \<open>
  a section of the enclave page cache is decoded to a page-aligned address and size below
  2^52, with bits 12 to 31 from the low register and 32 to 51 from the high one, and to the empty
  section when its type field is not 1.
\<close>

theorem decode_epc_spec:
  "let e = decode_epc r in
     (if EAX r AND 0xf = 1 then
        unat (epc_start_addr e) = unat (EAX r) div 4096 * 4096 + unat (EBX r) mod 2 ^ 20 * 2 ^ 32 \<and>
        unat (epc_length e) = unat (ECX r) div 4096 * 4096 + unat (EDX r) mod 2 ^ 20 * 2 ^ 32
      else epc_start_addr e = 0 \<and> epc_length e = 0) \<and>
     4096 dvd unat (epc_start_addr e) \<and> 4096 dvd unat (epc_length e) \<and>
     unat (epc_start_addr e) < 2 ^ 52 \<and> unat (epc_length e) < 2 ^ 52"
proof -
  have dvd: "4096 dvd unat lo div 4096 * 4096 + unat hi mod 2 ^ 20 * 2 ^ 32" for lo hi :: u32
  proof (rule dvd_add)
    have "(4096 :: nat) dvd 2 ^ 32" by simp
    then show "4096 dvd unat hi mod 2 ^ 20 * 2 ^ 32" by (rule dvd_mult)
  qed simp
  have less: "unat lo div 4096 * 4096 + unat hi mod 2 ^ 20 * 2 ^ 32 < 2 ^ 52" for lo hi :: u32
  proof -
    have "unat lo < 2 ^ 32" by (rule order_less_le_trans [OF unsigned_less]) simp
    moreover have "unat hi mod 2 ^ 20 < 2 ^ 20" by simp
    ultimately show ?thesis using div_times_less_eq_dividend [of "unat lo" 4096] by simp
  qed
  show ?thesis
    unfolding Let_def decode_epc_def
    using dvd less by (simp add: unat_high_fields)
qed

text \<open>The section at an index, as \<^verbatim>\<open>cpuid_get_epc\<close> reads it: two are stored, the others queried.\<close>

definition epc_section :: "(cpu_regs_t \<Rightarrow> cpu_regs_t) \<Rightarrow> cpu_raw_data_t \<Rightarrow> nat \<Rightarrow> cpu_epc_t" where
  "epc_section exec raw i = decode_epc
     (if i < 2 then intel_fn12h raw ! (2 + i)
      else exec \<lparr>EAX = 0x12, EBX = 0, ECX = of_nat (2 + i), EDX = 0\<rparr>)"

lemma cpuid_get_epc_section:
  assumes "wf_raw raw"
  shows "cpuid_get_epc exec (int i) (Some raw) = Some (epc_section exec raw i)"
  using wf_rawD(5) [OF assms]
  by (auto simp: cpuid_get_epc_def epc_section_def nat_add_distrib)

text \<open>The result of the counting loop from a section on.\<close>

definition epc_counted :: "(nat \<Rightarrow> cpu_epc_t) \<Rightarrow> nat \<Rightarrow> nat \<Rightarrow> int \<Rightarrow> bool" where
  "epc_counted sec i n k \<longleftrightarrow>
     (if k = -1 then \<forall>j \<in> {i..<i + n}. epc_length (sec j) \<noteq> 0
      else int i \<le> k \<and> k < int (i + n) \<and> epc_length (sec (nat k)) = 0 \<and>
        (\<forall>j \<in> {i..<nat k}. epc_length (sec j) \<noteq> 0))"

lemma epc_loop_counted:
  assumes "\<And>j. get (int j) = Some (sec j)"
  shows "\<exists>k. epc_loop get (int i) n = Some k \<and> epc_counted sec i n k"
proof (induction n arbitrary: i)
  case 0
  then show ?case by (simp add: epc_counted_def)
next
  case (Suc n)
  show ?case
  proof (cases "epc_length (sec i) = 0")
    case True
    then show ?thesis by (simp add: assms epc_counted_def)
  next
    case False
    obtain k where k: "epc_loop get (int (Suc i)) n = Some k" "epc_counted sec (Suc i) n k"
      using Suc.IH by blast
    have split: "{i..<m} = insert i {Suc i..<m}" if "i < m" for m using that by auto
    have "epc_counted sec i (Suc n) k"
    proof (cases "k = -1")
      case True
      with k(2) False split [of "i + Suc n"] show ?thesis by (simp add: epc_counted_def)
    next
      case neg: False
      with k(2) have "i < nat k" by (auto simp: epc_counted_def)
      with k(2) False neg split [of "nat k"] show ?thesis by (simp add: epc_counted_def)
    qed
    with k(1) False show ?thesis by (simp add: assms add.commute)
  qed
qed

lemma sgx_only_x86:
  assumes "wf_raw raw"
  shows "\<exists>d s. decode_intel_sgx_features exec raw data = Some d \<and> d = data\<lparr>x86 := s\<rparr>"
proof -
  define N :: nat where "N = 1000000"
  obtain k where "epc_loop (\<lambda>i. cpuid_get_epc exec i (Some raw)) 0 N = Some k"
    using epc_loop_counted [of "\<lambda>i. cpuid_get_epc exec i (Some raw)" "epc_section exec raw" 0 N]
      cpuid_get_epc_section [OF assms(1)] by auto
  then show ?thesis
    unfolding decode_intel_sgx_features_def N_def
    by (cases "EAX (basic_cpuid raw ! 0) < 0x12 \<or> EAX (basic_cpuid raw ! 0x12) = 0")
      (auto intro: exI [of _ "x86 data"])
qed

text \<open>
  with the SGX leaf present, \<^verbatim>\<open>decode_intel_sgx_features\<close> reports as number of sections the
  index of the first empty one, the stored and the queried sections taken together, or 1000000
  when the first million are all used; it says SGX is present when one of its versions is, and
  leaves the feature flags as they are.
\<close>

theorem decode_intel_sgx_features_spec:
  assumes "wf_raw raw" and "EAX (basic_cpuid raw ! 0) \<ge> 0x12" and "EAX (basic_cpuid raw ! 0x12) \<noteq> 0"
  shows "\<exists>d n. decode_intel_sgx_features exec raw data = Some d \<and>
    num_epc_sections (sgx (x86 d)) = int n \<and> n \<le> 1000000 \<and>
    (\<forall>i<n. epc_length (epc_section exec raw i) \<noteq> 0) \<and>
    (n = 1000000 \<or> epc_length (epc_section exec raw n) = 0) \<and>
    flags d = flags data \<and> cpu_codename d = cpu_codename data \<and>
    (sgx_present (sgx (x86 d)) = 1 \<or> sgx_present (sgx (x86 d)) = sgx_present (sgx (x86 data)))"
proof -
  define N :: nat where "N = 1000000"
  obtain k where k: "epc_loop (\<lambda>i. cpuid_get_epc exec i (Some raw)) 0 N = Some k"
    and c: "epc_counted (epc_section exec raw) 0 N k"
    using epc_loop_counted [of "\<lambda>i. cpuid_get_epc exec i (Some raw)" "epc_section exec raw" 0 N]
      cpuid_get_epc_section [OF assms(1)] by auto
  define n where "n = (if k = -1 then N else nat k)"
  have n: "int n = (if k = -1 then int N else k)" "n \<le> N"
    "\<forall>i<n. epc_length (epc_section exec raw i) \<noteq> 0"
    "n = N \<or> epc_length (epc_section exec raw n) = 0"
    using c by (auto simp: epc_counted_def n_def split: if_splits)
  have N: "int N = 1000000" by (simp add: N_def)
  define d where "d = data\<lparr>x86 := (x86 data)\<lparr>sgx :=
      (sgx_leaf raw (sgx (x86 data)))\<lparr>num_epc_sections := int n\<rparr>\<rparr>\<rparr>"
  have "\<not> EAX (basic_cpuid raw ! 0) < 0x12" using assms(2) by simp
  then have "decode_intel_sgx_features exec raw data = Some d"
    using k assms(3) unfolding decode_intel_sgx_features_def d_def n(1) N N_def by simp
  moreover have "num_epc_sections (sgx (x86 d)) = int n" "flags d = flags data"
    "cpu_codename d = cpu_codename data"
    "sgx_present (sgx (x86 d)) = 1 \<or> sgx_present (sgx (x86 d)) = sgx_present (sgx (x86 data))"
    by (simp_all add: d_def sgx_leaf_def Let_def)
  ultimately show ?thesis using n(2-4) [unfolded N_def] by blast
qed

text \<open>Version 1 and 2 with no section at all.\<close>

theorem decode_intel_sgx_features_spec_witness:
  "\<exists>d. decode_intel_sgx_features (\<lambda>r. r)
      (raw_data_t_constructor\<lparr>basic_cpuid := (replicate 32 regs_zero)
        [0 := \<lparr>EAX = 0x16, EBX = 0, ECX = 0, EDX = 0\<rparr>, 0x12 := \<lparr>EAX = 3, EBX = 0, ECX = 0, EDX = 0\<rparr>]\<rparr>)
      cpu_id_t_constructor = Some d \<and> num_epc_sections (sgx (x86 d)) = 0"
proof -
  let ?raw = "raw_data_t_constructor\<lparr>basic_cpuid := (replicate 32 regs_zero)
        [0 := \<lparr>EAX = 0x16, EBX = 0, ECX = 0, EDX = 0\<rparr>, 0x12 := \<lparr>EAX = 3, EBX = 0, ECX = 0, EDX = 0\<rparr>]\<rparr>"
  have "wf_raw ?raw" using wf_raw_data_t_constructor by (simp add: wf_raw_def)
  moreover have "EAX (basic_cpuid ?raw ! 0) \<ge> 0x12" by (simp add: word_le_nat_alt)
  moreover have "EAX (basic_cpuid ?raw ! 0x12) \<noteq> 0" by simp
  ultimately obtain d n where "decode_intel_sgx_features (\<lambda>r. r) ?raw cpu_id_t_constructor = Some d"
      "num_epc_sections (sgx (x86 d)) = int n"
      "\<forall>i<n. epc_length (epc_section (\<lambda>r. r) ?raw i) \<noteq> 0"
    using decode_intel_sgx_features_spec [of ?raw "\<lambda>r. r" cpu_id_t_constructor] by blast
  moreover have "epc_length (epc_section (\<lambda>r. r) ?raw 0) = 0"
    by (simp add: epc_section_def decode_epc_def raw_data_t_constructor_def)
  ultimately show ?thesis by (cases "n = 0") auto
qed

subsection \<open>The recognizer\<close>

lemma intel_arch_keeps [id_frame]:
  "flags (decode_architecture_version_x86 data) = flags data"
  "num_cores (decode_architecture_version_x86 data) = num_cores data"
  by (simp_all add: decode_architecture_version_x86_def)

text \<open>The inputs on which the recognizer runs into undefined behaviour.\<close>

definition zero_threads :: "cpu_raw_data_t \<Rightarrow> bool" where
  "zero_threads raw \<longleftrightarrow>
     level_count 1 (intel_fn11 raw) (-1) = 0 \<and> level_count 2 (intel_fn11 raw) (-1) \<noteq> -1"

definition intel_undefined :: "cpu_raw_data_t \<Rightarrow> bool" where
  "intel_undefined raw \<longleftrightarrow>
     EAX (basic_cpuid raw ! 0) \<ge> 4 \<and> overrun (intel_fn4 raw) MAX_INTELFN4_LEVEL 0 NUM_CACHE_TYPES \<or>
     EAX (basic_cpuid raw ! 0) \<ge> 11 \<and> zero_threads raw"

lemma intel_caches_result:
  assumes "wf_raw raw" and "length (cache_mask internal) = NUM_CACHE_TYPES"
  shows "case intel_caches raw data internal of
      None \<Rightarrow> EAX (basic_cpuid raw ! 0) \<ge> 4 \<and> overrun (intel_fn4 raw) MAX_INTELFN4_LEVEL 0 NUM_CACHE_TYPES
    | Some (d, i) \<Rightarrow> flags d = flags data \<and>
        \<not> (EAX (basic_cpuid raw ! 0) \<ge> 4 \<and>
          overrun (intel_fn4 raw) MAX_INTELFN4_LEVEL 0 NUM_CACHE_TYPES)"
proof (cases "EAX (basic_cpuid raw ! 0) \<ge> 4")
  case True
  have "unat (8 :: u8) = 8" by simp
  with True show ?thesis
    using cache_info_loop_result [of 8 "intel_fn4 raw" 0 data internal] wf_rawD [OF assms(1)] assms(2)
    by (auto simp: intel_caches_def decode_deterministic_cache_info_x86_def info_result_def
        intro: non_cache_fields split: option.splits)
next
  case False
  have keep: "non_cache (decode_intel_oldstyle_cache_info raw data) = non_cache data"
    by (rule oldstyle_non_cache)
  from False non_cache_fields(1) [OF keep] show ?thesis by (auto simp: intel_caches_def)
qed

lemma intel_cores_result:
  "case intel_cores raw data of
     None \<Rightarrow> EAX (basic_cpuid raw ! 0) \<ge> 11 \<and> zero_threads raw
   | Some d \<Rightarrow> num_cores d \<ge> 1 \<and> (\<forall>f. f = CPU_FEATURE_HT \<or> flags d f = flags data f) \<and>
       \<not> (EAX (basic_cpuid raw ! 0) \<ge> 11 \<and> zero_threads raw)"
  using decode_number_of_cores_facts [of raw data]
  by (auto simp: intel_cores_def decode_intel_extended_topology_def topology_levels_counts
      zero_threads_def Let_def not_le split: option.splits)

lemma cpuid_identify_intel_result:
  assumes "wf_raw raw" and "length (cache_mask internal) = NUM_CACHE_TYPES"
  shows "case cpuid_identify_intel exec raw data internal of
      None \<Rightarrow> intel_undefined raw
    | Some (d, i) \<Rightarrow> \<not> intel_undefined raw \<and> num_cores d \<ge> 1 \<and>
        purpose d = cpuid_identify_purpose_intel raw \<and>
        cpu_codename d \<in> me_name ` set cpudb_intel \<and> 0 \<le> id_score i \<and> id_score i \<le> 26 \<and>
        (\<forall>f. f = CPU_FEATURE_HT \<or>
           flags d f = (flags data f \<or> f \<in> features_from (intel_sources raw)))"
proof -
  define d0 where "d0 = load_intel_features raw data"
  have f0: "flags d0 = (\<lambda>f. flags data f \<or> f \<in> features_from (intel_sources raw))"
    by (simp add: d0_def load_intel_features_sources)
  show ?thesis
  proof (cases "intel_caches raw d0 internal")
    case None
    then have "cpuid_identify_intel exec raw data internal = None"
      by (simp add: cpuid_identify_intel_def Let_def d0_def)
    with None intel_caches_result [OF assms, of d0] show ?thesis by (auto simp: intel_undefined_def)
  next
    case (Some p1)
    obtain d1 i1 where p1: "p1 = (d1, i1)" by (cases p1)
    note caches = Some [unfolded p1]
    have f1: "flags d1 = flags d0" and ok1: "\<not> (EAX (basic_cpuid raw ! 0) \<ge> 4 \<and>
        overrun (intel_fn4 raw) MAX_INTELFN4_LEVEL 0 NUM_CACHE_TYPES)"
      using intel_caches_result [OF assms, of d0] caches by auto
    show ?thesis
    proof (cases "intel_cores raw d1")
      case None
      with caches have "cpuid_identify_intel exec raw data internal = None"
        by (simp add: cpuid_identify_intel_def Let_def d0_def)
      with None intel_cores_result [of raw d1] show ?thesis by (auto simp: intel_undefined_def)
    next
      case (Some d2)
      define d3 where "d3 = (decode_architecture_version_x86 d2)
        \<lparr>purpose := cpuid_identify_purpose_intel raw\<rparr>"
      have ok: "\<not> intel_undefined raw"
        using intel_cores_result [of raw d1] Some ok1 by (auto simp: intel_undefined_def)
      have d3: "num_cores d3 \<ge> 1" "purpose d3 = cpuid_identify_purpose_intel raw"
        "f = CPU_FEATURE_HT \<or> flags d3 f = flags d0 f" for f
        using intel_cores_result [of raw d1] Some f1 by (auto simp: d3_def intel_arch_keeps)
      obtain e where e: "e \<in> set cpudb_intel" "match_cpu_codename cpudb_intel d3 = Some (score e d3,
          d3\<lparr>cpu_codename := me_name e, technology_node := me_technology e\<rparr>)"
        using intel_db.match_selects [of d3] by blast
      define d4 where "d4 = d3\<lparr>cpu_codename := me_name e, technology_node := me_technology e\<rparr>"
      have unchanged: "\<exists>s. d4 = d4\<lparr>x86 := s\<rparr>" by (rule exI [of _ "x86 d4"]) simp
      obtain d5 where d5: "(if flags d4 CPU_FEATURE_SGX
          then decode_intel_sgx_features exec raw d4 else Some d4) = Some d5"
        and keep: "\<exists>s. d5 = d4\<lparr>x86 := s\<rparr>"
        using sgx_only_x86 [OF assms(1), of exec d4] unchanged
        by (cases "flags d4 CPU_FEATURE_SGX") auto
      have "cpuid_identify_intel exec raw data internal = Some (d5, i1\<lparr>id_score := score e d3\<rparr>)"
        using caches Some d5
        by (simp add: cpuid_identify_intel_def Let_def e(2) flip: d0_def d3_def d4_def split: if_splits)
      moreover have "num_cores d5 = num_cores d3" "purpose d5 = purpose d3"
        "cpu_codename d5 = me_name e" "flags d5 = flags d3"
        using keep by (auto simp: d4_def)
      ultimately show ?thesis
        using ok d3 e(1) intel_db.match_score_range [OF e(2)] f0 by auto
    qed
  qed
qed

text \<open>
  C24: on well-formed raw data \<^verbatim>\<open>cpuid_identify_intel\<close> fails exactly when it stores a cache mask
  outside its array or divides by a count of zero threads. Otherwise it reports at least one
  core, the purpose of the core, the codename of a row of \<^verbatim>\<open>cpudb_intel\<close> and a score between 0 and
  26, and, the hyper-threading flag apart, exactly the flags that were set before and the Intel
  features whose leaf is supported.
\<close>

theorem cpuid_identify_intel_total:
  assumes "wf_raw raw" and "length (cache_mask internal) = NUM_CACHE_TYPES"
  shows "case cpuid_identify_intel exec raw data internal of
      None \<Rightarrow> intel_undefined raw
    | Some (d, i) \<Rightarrow> \<not> intel_undefined raw \<and> num_cores d \<ge> 1 \<and>
        purpose d = cpuid_identify_purpose_intel raw \<and>
        cpu_codename d \<in> me_name ` set cpudb_intel \<and> 0 \<le> id_score i \<and> id_score i \<le> 26 \<and>
        (\<forall>f. f = CPU_FEATURE_HT \<or>
           flags d f = (flags data f \<or> f \<in> features_from (intel_sources raw)))"
  using assms by (rule cpuid_identify_intel_result)

text \<open>A processor of which only the vendor is known, and the largest number of leaves.\<close>

theorem cpuid_identify_intel_total_witness:
  "case cpuid_identify_intel (\<lambda>r. r) raw_data_t_constructor cpu_id_t_constructor
      \<lparr>id_score = 0, cache_mask = replicate 5 0\<rparr> of
     None \<Rightarrow> False
   | Some (d, i) \<Rightarrow> num_cores d \<ge> 1 \<and> purpose d = PURPOSE_GENERAL"
proof -
  have "EAX (basic_cpuid raw_data_t_constructor ! 0) = 0"
    and "EDX (basic_cpuid raw_data_t_constructor ! 7) = 0"
    by (simp_all add: raw_data_t_constructor_def)
  then have "\<not> intel_undefined raw_data_t_constructor"
    and "cpuid_identify_purpose_intel raw_data_t_constructor = PURPOSE_GENERAL"
    by (simp_all add: intel_undefined_def cpuid_identify_purpose_intel_def EXTRACTS_BIT_def)
  then show ?thesis
    using cpuid_identify_intel_total [of raw_data_t_constructor
        "\<lparr>id_score = 0, cache_mask = replicate 5 0\<rparr>" cpu_id_t_constructor "\<lambda>r. r"]
    by (auto split: option.splits)
qed

end
