(* ===== verification/Recog_Centaur.thy ===== *)
theory Recog_Centaur
  imports Recog_Intel
begin

text \<open>
  The Centaur and Zhaoxin recognizer (\<^verbatim>\<open>recog_centaur.c\<close>): deterministic caches, the generic core
  count, the level and the codename.
\<close>

section \<open>Identification\<close>

definition cpuid_identify_centaur ::
    "cpu_raw_data_t \<Rightarrow> cpu_id_t \<Rightarrow> internal_id_info_t \<Rightarrow> (cpu_id_t \<times> internal_id_info_t) option" where
  "cpuid_identify_centaur raw data internal = do {
     (data, internal) \<leftarrow>
       (if EAX (basic_cpuid raw ! 0) \<ge> 4 then
          decode_deterministic_cache_info_x86 (intel_fn4 raw) (of_nat MAX_INTELFN4_LEVEL) data internal
        else Some (data, internal));
     let data = decode_number_of_cores_x86 raw data;
     let data = decode_architecture_version_x86 data;
     (s, data) \<leftarrow> match_cpu_codename cpudb_centaur data;
     Some (data, internal\<lparr>id_score := s\<rparr>)
   }"

definition cpuid_get_list_centaur :: "(nat \<Rightarrow> bool) \<Rightarrow> cpu_error_t \<Rightarrow> cpu_list_t \<times> cpu_error_t" where
  "cpuid_get_list_centaur alloc errno = generic_get_cpu_list alloc cpudb_centaur errno"

section \<open>Properties\<close>

text \<open>The caches decode unless a subleaf of leaf 4 has no room for its mask.\<close>

definition leaf4_overrun :: "cpu_raw_data_t \<Rightarrow> bool" where
  "leaf4_overrun raw \<longleftrightarrow>
     EAX (basic_cpuid raw ! 0) \<ge> 4 \<and> overrun (intel_fn4 raw) MAX_INTELFN4_LEVEL 0 NUM_CACHE_TYPES"

lemma centaur_caches_result:
  assumes "wf_raw raw" and "length (cache_mask internal) = NUM_CACHE_TYPES"
  shows "case (if EAX (basic_cpuid raw ! 0) \<ge> 4 then
        decode_deterministic_cache_info_x86 (intel_fn4 raw) (of_nat MAX_INTELFN4_LEVEL) data internal
      else Some (data, internal)) of
      None \<Rightarrow> leaf4_overrun raw
    | Some (d, i) \<Rightarrow> \<not> leaf4_overrun raw \<and> flags d = flags data"
proof -
  have "unat (8 :: u8) = 8" by simp
  then show ?thesis
    using cache_info_loop_result [of 8 "intel_fn4 raw" 0 data internal] wf_rawD [OF assms(1)] assms(2)
    by (auto simp: decode_deterministic_cache_info_x86_def info_result_def leaf4_overrun_def
        intro: non_cache_fields split: option.splits)
qed

lemma cpuid_identify_centaur_result:
  assumes "wf_raw raw" and "length (cache_mask internal) = NUM_CACHE_TYPES"
  shows "case cpuid_identify_centaur raw data internal of
      None \<Rightarrow> leaf4_overrun raw
    | Some (d, i) \<Rightarrow> \<not> leaf4_overrun raw \<and> 1 \<le> num_cores d \<and> num_cores d \<le> 255 \<and>
        cpu_codename d \<in> me_name ` set cpudb_centaur \<and> 0 \<le> id_score i \<and> id_score i \<le> 26 \<and>
        (\<forall>f. f = CPU_FEATURE_HT \<or> flags d f = flags data f)"
proof (cases "if EAX (basic_cpuid raw ! 0) \<ge> 4 then
      decode_deterministic_cache_info_x86 (intel_fn4 raw) (of_nat MAX_INTELFN4_LEVEL) data internal
    else Some (data, internal)")
  case None
  then show ?thesis
    using centaur_caches_result [OF assms, of data] by (simp add: cpuid_identify_centaur_def)
next
  case (Some p)
  obtain d1 i1 where p: "p = (d1, i1)" by (cases p)
  have d1: "\<not> leaf4_overrun raw" "flags d1 = flags data"
    using centaur_caches_result [OF assms, of data] Some p by auto
  define d2 where "d2 = decode_architecture_version_x86 (decode_number_of_cores_x86 raw d1)"
  have d2: "1 \<le> num_cores d2" "num_cores d2 \<le> 255" "f = CPU_FEATURE_HT \<or> flags d2 f = flags data f" for f
    using decode_number_of_cores_facts [of raw d1] d1(2) by (auto simp: d2_def intel_arch_keeps Let_def)
  obtain e where e: "e \<in> set cpudb_centaur" "match_cpu_codename cpudb_centaur d2 = Some (score e d2,
      d2\<lparr>cpu_codename := me_name e, technology_node := me_technology e\<rparr>)"
    using centaur_db.match_selects [of d2] by blast
  have "cpuid_identify_centaur raw data internal =
      Some (d2\<lparr>cpu_codename := me_name e, technology_node := me_technology e\<rparr>,
        i1\<lparr>id_score := score e d2\<rparr>)"
    using Some unfolding cpuid_identify_centaur_def by (simp add: p e(2) flip: d2_def)
  then show ?thesis
    using d1 d2 e centaur_db.match_score_range [OF e(2)] by auto
qed

text \<open>
  on well-formed raw data \<^verbatim>\<open>cpuid_identify_centaur\<close> fails exactly when a cache mask is
  stored outside its array; otherwise it reports between 1 and 255 cores, the codename of a row of
  \<^verbatim>\<open>cpudb_centaur\<close> and a score between 0 and 26, and changes no feature flag but hyper-threading.
\<close>

theorem cpuid_identify_centaur_total:
  assumes "wf_raw raw" and "length (cache_mask internal) = NUM_CACHE_TYPES"
  shows "case cpuid_identify_centaur raw data internal of
      None \<Rightarrow> leaf4_overrun raw
    | Some (d, i) \<Rightarrow> \<not> leaf4_overrun raw \<and> 1 \<le> num_cores d \<and> num_cores d \<le> 255 \<and>
        cpu_codename d \<in> me_name ` set cpudb_centaur \<and> 0 \<le> id_score i \<and> id_score i \<le> 26 \<and>
        (\<forall>f. f = CPU_FEATURE_HT \<or> flags d f = flags data f)"
  using assms by (rule cpuid_identify_centaur_result)

theorem cpuid_identify_centaur_total_witness:
  "case cpuid_identify_centaur raw_data_t_constructor cpu_id_t_constructor
      \<lparr>id_score = 0, cache_mask = replicate 5 0\<rparr> of
     None \<Rightarrow> False
   | Some (d, i) \<Rightarrow> 1 \<le> num_cores d"
proof -
  have "EAX (basic_cpuid raw_data_t_constructor ! 0) = 0" by (simp add: raw_data_t_constructor_def)
  then have "\<not> leaf4_overrun raw_data_t_constructor" by (simp add: leaf4_overrun_def)
  then show ?thesis
    using cpuid_identify_centaur_total [of raw_data_t_constructor
        "\<lparr>id_score = 0, cache_mask = replicate 5 0\<rparr>" cpu_id_t_constructor]
    by (auto split: option.splits)
qed

end
