(* ===== verification/Raw_Arrays.thy ===== *)
theory Raw_Arrays
  imports Cpuid_Types
begin

text \<open>
  The three arrays the library grows with \<^verbatim>\<open>realloc\<close> (\<^verbatim>\<open>cpuid_main.c\<close>): raw data, the CPU types of
  a system, and the internal information about each type. The new size is given in the width of
  the counter, so a request for one element more than the counter can hold wraps to 0 and is
  ignored.

  Memory allocation is a parameter \<open>alloc\<close>: \<open>alloc n\<close> tells whether an array of \<open>n\<close> elements can
  be had. The error a failing \<^verbatim>\<open>realloc\<close> leaves in \<^verbatim>\<open>_libcpuid_errno\<close> is threaded through.
\<close>

section \<open>Growing\<close>

definition cpu_raw_data_array_t_constructor :: "bool \<Rightarrow> cpu_raw_data_array_t" where
  "cpu_raw_data_array_t_constructor affinity =
     \<lparr>with_affinity = affinity, num_raw = 0, raw_items = []\<rparr>"

definition cpuid_grow_raw_data_array ::
    "(nat \<Rightarrow> bool) \<Rightarrow> u16 \<Rightarrow> cpu_raw_data_array_t \<Rightarrow> cpu_error_t \<Rightarrow>
      cpu_raw_data_array_t \<times> cpu_error_t" where
  "cpuid_grow_raw_data_array alloc n a errno =
     (if n \<le> 0 \<or> n < num_raw a then (a, errno)
      else if \<not> alloc (unat n) then (a, ERR_NO_MEM)
      else (a\<lparr>num_raw := n, raw_items := raw_items a @
          replicate (unat n - unat (num_raw a)) raw_data_t_constructor\<rparr>, errno))"

definition cpuid_grow_system_id ::
    "(nat \<Rightarrow> bool) \<Rightarrow> u8 \<Rightarrow> system_id_t \<Rightarrow> cpu_error_t \<Rightarrow> system_id_t \<times> cpu_error_t" where
  "cpuid_grow_system_id alloc n s errno =
     (if n \<le> 0 \<or> n < num_cpu_types s then (s, errno)
      else if \<not> alloc (unat n) then (s, ERR_NO_MEM)
      else (s\<lparr>num_cpu_types := n, cpu_types := cpu_types s @
          replicate (unat n - unat (num_cpu_types s)) cpu_id_t_constructor\<rparr>, errno))"

text \<open>
  A new \<^typ>\<open>internal_type_info_t\<close>: C initialises only its two tables of instances. The other fields are what \<^verbatim>\<open>realloc\<close>
  left in the memory: \<^const>\<open>undefined\<close>, of which nothing is known.
\<close>

definition type_info_fresh :: internal_type_info_t where
  "type_info_fresh = \<lparr>ti_purpose = undefined, ti_package_id = undefined,
     ti_id_info = \<lparr>id_score = undefined, cache_mask = replicate NUM_CACHE_TYPES undefined\<rparr>,
     ti_core_instances = core_instances_t_constructor,
     ti_cache_instances = cache_instances_t_constructor\<rparr>"

definition cpuid_grow_type_info ::
    "(nat \<Rightarrow> bool) \<Rightarrow> u8 \<Rightarrow> internal_type_info_array_t \<Rightarrow> cpu_error_t \<Rightarrow>
      internal_type_info_array_t \<times> cpu_error_t" where
  "cpuid_grow_type_info alloc n a errno =
     (if n \<le> 0 \<or> n < ti_num a then (a, errno)
      else if \<not> alloc (unat n) then (a, ERR_NO_MEM)
      else (a\<lparr>ti_num := n, ti_data := ti_data a @
          replicate (unat n - unat (ti_num a)) type_info_fresh\<rparr>, errno))"

section \<open>Freeing\<close>

text \<open>The freed array is gone: its elements are no longer accessible, and the counter is 0.\<close>

definition cpuid_free_raw_data_array :: "cpu_raw_data_array_t \<Rightarrow> cpu_raw_data_array_t" where
  "cpuid_free_raw_data_array a = (if num_raw a \<le> 0 then a else a\<lparr>raw_items := [], num_raw := 0\<rparr>)"

definition cpuid_free_system_id :: "system_id_t \<Rightarrow> system_id_t" where
  "cpuid_free_system_id s =
     (if num_cpu_types s \<le> 0 then s else s\<lparr>cpu_types := [], num_cpu_types := 0\<rparr>)"

definition cpuid_free_type_info :: "internal_type_info_array_t \<Rightarrow> internal_type_info_array_t" where
  "cpuid_free_type_info a = (if ti_num a \<le> 0 then a else a\<lparr>ti_data := [], ti_num := 0\<rparr>)"

section \<open>The contract of a growable array\<close>

text \<open>
  What a caller may rely on: a counter of a given width, the elements, and an operation that
  grows the array. The counter tells the number of elements.
\<close>

locale growable =
  fixes count :: "'a \<Rightarrow> 'w::len word" and items :: "'a \<Rightarrow> 'b list" and fresh :: 'b
    and grow :: "(nat \<Rightarrow> bool) \<Rightarrow> 'w word \<Rightarrow> 'a \<Rightarrow> cpu_error_t \<Rightarrow> 'a \<times> cpu_error_t"
    and free :: "'a \<Rightarrow> 'a"
  assumes grow_refused: "n = 0 \<or> n < count a \<Longrightarrow> grow alloc n a errno = (a, errno)"
    and grow_no_memory:
      "n \<noteq> 0 \<Longrightarrow> count a \<le> n \<Longrightarrow> \<not> alloc (unat n) \<Longrightarrow> grow alloc n a errno = (a, ERR_NO_MEM)"
    and grow_count: "n \<noteq> 0 \<Longrightarrow> count a \<le> n \<Longrightarrow> alloc (unat n) \<Longrightarrow>
      count (fst (grow alloc n a errno)) = n"
    and grow_items: "n \<noteq> 0 \<Longrightarrow> count a \<le> n \<Longrightarrow> alloc (unat n) \<Longrightarrow>
      items (fst (grow alloc n a errno)) = items a @ replicate (unat n - unat (count a)) fresh"
    and free_items: "unat (count a) = length (items a) \<Longrightarrow> items (free a) = [] \<and> count (free a) = 0"
begin

definition wf_array :: "'a \<Rightarrow> bool" where
  "wf_array a \<longleftrightarrow> unat (count a) = length (items a)"

lemma wf_grow:
  assumes "wf_array a"
  shows "wf_array (fst (grow alloc n a errno))"
proof (cases "n = 0 \<or> n < count a \<or> \<not> alloc (unat n)")
  case True
  then have "fst (grow alloc n a errno) = a"
    using grow_refused [of n a alloc errno] grow_no_memory [of n a alloc errno]
    by (metis fst_conv not_less)
  then show ?thesis using assms by simp
next
  case False
  then have "n \<noteq> 0" "count a \<le> n" "alloc (unat n)" by auto
  moreover have "unat (count a) \<le> unat n" using \<open>count a \<le> n\<close> by (simp add: word_le_nat_alt)
  ultimately show ?thesis using assms by (simp add: wf_array_def grow_count grow_items)
qed

lemma wf_free: "wf_array a \<Longrightarrow> wf_array (free a)"
  by (simp add: wf_array_def free_items)

text \<open>One element more, as long as the counter does not wrap and there is memory.\<close>

lemma grow_one:
  assumes "wf_array a" and "length (items a) + 1 < 2 ^ LENGTH('w)" and "alloc (length (items a) + 1)"
  shows "items (fst (grow alloc (count a + 1) a errno)) = items a @ [fresh]"
    and "unat (count (fst (grow alloc (count a + 1) a errno))) = length (items a) + 1"
proof -
  have u: "unat (count a + 1) = length (items a) + 1"
    using assms(1,2) by (simp add: wf_array_def unat_word_ariths)
  then have "count a + 1 \<noteq> 0" by (metis Suc_eq_plus1 nat.distinct(1) unsigned_0)
  moreover have "count a \<le> count a + 1"
    using u assms(1) by (simp add: word_le_nat_alt wf_array_def)
  moreover have "alloc (unat (count a + 1))" using u assms(3) by simp
  ultimately show "items (fst (grow alloc (count a + 1) a errno)) = items a @ [fresh]"
    and "unat (count (fst (grow alloc (count a + 1) a errno))) = length (items a) + 1"
    using u assms(1) grow_items [of "count a + 1" a alloc errno] grow_count [of "count a + 1" a alloc errno]
    by (simp_all add: wf_array_def)
qed

text \<open>Without memory, or when the counter would wrap, nothing changes.\<close>

lemma grow_one_fails:
  assumes "wf_array a" and "length (items a) + 1 = 2 ^ LENGTH('w) \<or> \<not> alloc (length (items a) + 1)"
  shows "fst (grow alloc (count a + 1) a errno) = a"
proof (cases "count a + 1 = 0")
  case True
  then show ?thesis using grow_refused [of "count a + 1" a alloc errno] by simp
next
  case False
  then have u: "unat (count a + 1) = length (items a) + 1"
    using assms(1) unat_plus_simple [of "count a" 1]
    by (metis (no_types) Suc_eq_plus1 unatSuc wf_array_def add.commute)
  then have "count a \<le> count a + 1"
    using assms(1) by (simp add: word_le_nat_alt wf_array_def)
  moreover have "length (items a) + 1 < 2 ^ LENGTH('w)"
    using u unsigned_less [of "count a + 1"] by metis
  ultimately show ?thesis
    using False u assms(2) grow_no_memory [of "count a + 1" a alloc errno] by auto
qed

text \<open>How a caller finds out that there is one element more.\<close>

lemma grow_one_effective:
  assumes "wf_array a" and "grow alloc (count a + 1) a errno = (a', e')"
    and "unat (count a) < length (items a')"
  shows "items a' = items a @ [fresh] \<and> wf_array a'"
proof (cases "length (items a) + 1 < 2 ^ LENGTH('w) \<and> alloc (length (items a) + 1)")
  case True
  then show ?thesis
    using grow_one [OF assms(1), of alloc errno] wf_grow [OF assms(1), of alloc "count a + 1" errno]
      assms(2) by simp
next
  case False
  moreover have "length (items a) < 2 ^ LENGTH('w)"
    using assms(1) unsigned_less [of "count a"] unfolding wf_array_def by metis
  ultimately have "fst (grow alloc (count a + 1) a errno) = a"
    by (intro grow_one_fails [OF assms(1)]) linarith
  with assms show ?thesis by (simp add: wf_array_def)
qed

end

interpretation raw_array: growable num_raw raw_items raw_data_t_constructor
    cpuid_grow_raw_data_array cpuid_free_raw_data_array
  by unfold_locales
    (auto simp: cpuid_grow_raw_data_array_def cpuid_free_raw_data_array_def)

interpretation system_array: growable num_cpu_types cpu_types cpu_id_t_constructor
    cpuid_grow_system_id cpuid_free_system_id
  by unfold_locales (auto simp: cpuid_grow_system_id_def cpuid_free_system_id_def)

interpretation type_array: growable ti_num ti_data type_info_fresh
    cpuid_grow_type_info cpuid_free_type_info
  by unfold_locales (auto simp: cpuid_grow_type_info_def cpuid_free_type_info_def)

lemma unat_of_nat_less: "n < 2 ^ LENGTH('a) \<Longrightarrow> unat (of_nat n :: 'a::len word) = n"
  by (simp add: unsigned_of_nat take_bit_nat_eq_self)

section \<open>Properties\<close>

text \<open>
  What growing to \<open>n\<close> elements has to do, for an array \<open>a\<close> with \<open>num\<close> elements \<open>xs\<close> and the error \<open>e\<close> before, and
  \<open>a'\<close>, \<open>num'\<close>, \<open>xs'\<close>, \<open>e'\<close> after: a request for nothing or for less is ignored without an error; without memory
  only the error is set; otherwise there are exactly \<open>n\<close> elements, the old ones first, and the new ones are
  initialised.
\<close>

definition grows_to ::
    "bool \<Rightarrow> ('b \<Rightarrow> bool) \<Rightarrow> nat \<Rightarrow> 'a \<times> 'b list \<times> cpu_error_t \<Rightarrow> 'a \<times> nat \<times> 'b list \<times> cpu_error_t \<Rightarrow> bool" where
  "grows_to memory initialised n = (\<lambda>(a, xs, e) (a', num', xs', e').
     num' = length xs' \<and>
     (if n = 0 \<or> n < length xs then a' = a \<and> xs' = xs \<and> e' = e
      else if \<not> memory then a' = a \<and> xs' = xs \<and> e' = ERR_NO_MEM
      else length xs' = n \<and> take (length xs) xs' = xs \<and> list_all initialised (drop (length xs) xs') \<and> e' = e))"

text \<open>What is initialised of an element of each array: all of it, or the tables of instances.\<close>

definition type_info_initialised :: "internal_type_info_t \<Rightarrow> bool" where
  "type_info_initialised x \<longleftrightarrow>
     ti_core_instances x = core_instances_t_constructor \<and> ti_cache_instances x = cache_instances_t_constructor"

lemma unat_less_length: "unat c = length xs \<Longrightarrow> n < c \<longleftrightarrow> unat n < length xs"
  by (simp add: word_less_nat_alt)

lemmas grow_defs = cpuid_grow_raw_data_array_def cpuid_grow_system_id_def cpuid_grow_type_info_def

text \<open>
  C38: the three functions that grow an array do exactly this, for every size of the width of the counter. The
  callers ask for one element more than there are: when the counter has its largest value that request is 0, and
  nothing happens, not even an error.
\<close>

theorem grow_keeps_elements:
  assumes "unat (num_raw a) = length (raw_items a)"
    and "unat (num_cpu_types s) = length (cpu_types s)"
    and "unat (ti_num t) = length (ti_data t)"
  shows "(case cpuid_grow_raw_data_array alloc n a e of (a', e') \<Rightarrow>
      grows_to (alloc (unat n)) (\<lambda>x. x = raw_data_t_constructor) (unat n)
        (a, raw_items a, e) (a', unat (num_raw a'), raw_items a', e')) \<and>
    (case cpuid_grow_system_id alloc m s e of (s', e') \<Rightarrow>
      grows_to (alloc (unat m)) (\<lambda>x. x = cpu_id_t_constructor) (unat m)
        (s, cpu_types s, e) (s', unat (num_cpu_types s'), cpu_types s', e')) \<and>
    (case cpuid_grow_type_info alloc m t e of (t', e') \<Rightarrow>
      grows_to (alloc (unat m)) type_info_initialised (unat m)
        (t, ti_data t, e) (t', unat (ti_num t'), ti_data t', e')) \<and>
    (num_raw a = 65535 \<longrightarrow> cpuid_grow_raw_data_array alloc (num_raw a + 1) a e = (a, e)) \<and>
    (num_cpu_types s = 255 \<longrightarrow> cpuid_grow_system_id alloc (num_cpu_types s + 1) s e = (s, e)) \<and>
    (ti_num t = 255 \<longrightarrow> cpuid_grow_type_info alloc (ti_num t + 1) t e = (t, e))"
proof -
  have fresh: "type_info_initialised type_info_fresh"
    by (simp add: type_info_initialised_def type_info_fresh_def)
  have [simp]: "unat k = 0 \<longleftrightarrow> k = 0" for k :: "'w::len word" by (simp add: unat_eq_0)
  show ?thesis
    using assms unat_less_length [OF assms(1)] unat_less_length [OF assms(2)] unat_less_length [OF assms(3)] fresh
    by (auto simp: grow_defs grows_to_def list_all_iff)
qed

text \<open>One element more for an empty system, and a full one.\<close>

theorem grow_keeps_elements_witness:
  "cpu_types (fst (cpuid_grow_system_id (\<lambda>_. True) 1 system_id_t_constructor ERR_OK)) = [cpu_id_t_constructor] \<and>
   length (ti_data (fst (cpuid_grow_type_info (\<lambda>_. True) 1 type_info_array_t_constructor ERR_OK))) = 1"
  using grow_keeps_elements [of "cpu_raw_data_array_t_constructor True" system_id_t_constructor
      type_info_array_t_constructor "\<lambda>_. True" 1 ERR_OK 1]
  by (auto simp: cpu_raw_data_array_t_constructor_def system_id_t_constructor_def
      type_info_array_t_constructor_def grows_to_def length_Suc_conv split: prod.splits)

end
