(* ===== verification/Raw_Access.thy ===== *)
theory Raw_Access
  imports Raw_Arrays
begin

text \<open>
  Reading the raw CPUID data of the machine (\<^verbatim>\<open>cpuid_get_raw_data_core\<close>, \<^verbatim>\<open>cpuid_get_raw_data\<close> and
  \<^verbatim>\<open>cpuid_get_all_raw_data\<close> of \<^verbatim>\<open>cpuid_main.c\<close>), in their x86 variant on Linux.

  The operating system and the processor are the record \<open>os\<close>: what \<^verbatim>\<open>sched_setaffinity\<close> answers for
  one CPU (the new affinity, given the current one), whether \<^verbatim>\<open>sched_getaffinity\<close> and restoring succeed, whether the CPUID instruction exists,
  what it returns on the processors of an affinity, and the number of processors. The state of
  the calling thread is its affinity, the global \<^verbatim>\<open>saved_affinity\<close>, and \<^verbatim>\<open>_libcpuid_errno\<close>.
\<close>

record 'm os =
  os_pin :: "logical_cpu_t \<Rightarrow> 'm \<Rightarrow> 'm option"
  os_getaffinity_ok :: bool
  os_setaffinity_ok :: bool
  os_cpuid_present :: bool
  os_cpuid :: "'m \<Rightarrow> cpu_regs_t \<Rightarrow> cpu_regs_t"
  os_total_cpus :: int

record 'm thread =
  th_affinity :: 'm
  th_saved :: 'm
  th_errno :: cpu_error_t

section \<open>Affinity\<close>

definition set_cpu_affinity :: "'m os \<Rightarrow> logical_cpu_t \<Rightarrow> 'm thread \<Rightarrow> bool \<times> 'm thread" where
  "set_cpu_affinity os cpu th =
     (case os_pin os cpu (th_affinity th) of None \<Rightarrow> (False, th) | Some m \<Rightarrow> (True, th\<lparr>th_affinity := m\<rparr>))"

definition save_cpu_affinity :: "'m os \<Rightarrow> 'm thread \<Rightarrow> bool \<times> 'm thread" where
  "save_cpu_affinity os th =
     (if os_getaffinity_ok os then (True, th\<lparr>th_saved := th_affinity th\<rparr>) else (False, th))"

definition restore_cpu_affinity :: "'m os \<Rightarrow> 'm thread \<Rightarrow> bool \<times> 'm thread" where
  "restore_cpu_affinity os th =
     (if os_setaffinity_ok os then (True, th\<lparr>th_affinity := th_saved th\<rparr>) else (False, th))"

definition cpuid_set_error :: "cpu_error_t \<Rightarrow> 'm thread \<Rightarrow> cpu_error_t \<times> 'm thread" where
  "cpuid_set_error err th = (err, th\<lparr>th_errno := err\<rparr>)"

section \<open>One processor\<close>

text \<open>\<^verbatim>\<open>cpu_exec_cpuid\<close> on consecutive leaves, and \<^verbatim>\<open>cpu_exec_cpuid_ext\<close> on the subleaves of a leaf.\<close>

definition cpu_exec_cpuid :: "(cpu_regs_t \<Rightarrow> cpu_regs_t) \<Rightarrow> u32 \<Rightarrow> cpu_regs_t" where
  "cpu_exec_cpuid exec eax = exec \<lparr>EAX = eax, EBX = 0, ECX = 0, EDX = 0\<rparr>"

definition read_leaves :: "(cpu_regs_t \<Rightarrow> cpu_regs_t) \<Rightarrow> nat \<Rightarrow> u32 \<Rightarrow> cpu_regs_t list" where
  "read_leaves exec n first = map (\<lambda>i. cpu_exec_cpuid exec (first + of_nat i)) [0..<n]"

definition read_subleaves :: "(cpu_regs_t \<Rightarrow> cpu_regs_t) \<Rightarrow> nat \<Rightarrow> u32 \<Rightarrow> cpu_regs_t list" where
  "read_subleaves exec n leaf =
     map (\<lambda>i. exec \<lparr>EAX = leaf, EBX = 0, ECX = of_nat i, EDX = 0\<rparr>) [0..<n]"

definition fill_raw_data :: "(cpu_regs_t \<Rightarrow> cpu_regs_t) \<Rightarrow> cpu_raw_data_t \<Rightarrow> cpu_raw_data_t" where
  "fill_raw_data exec data = data\<lparr>
     basic_cpuid := read_leaves exec 32 0,
     ext_cpuid := read_leaves exec 32 0x80000000,
     intel_fn4 := read_subleaves exec MAX_INTELFN4_LEVEL 4,
     intel_fn11 := read_subleaves exec MAX_INTELFN11_LEVEL 11,
     intel_fn12h := read_subleaves exec MAX_INTELFN12H_LEVEL 0x12,
     intel_fn14h := read_subleaves exec MAX_INTELFN14H_LEVEL 0x14,
     amd_fn8000001dh := read_subleaves exec MAX_AMDFN8000001DH_LEVEL 0x8000001d,
     amd_fn80000026h := read_subleaves exec MAX_AMDFN80000026H_LEVEL 0x80000026\<rparr>"

text \<open>
  \<^verbatim>\<open>cpuid_get_raw_data_core(data, logical_cpu)\<close>. The affinity is saved after it has been set, and it
  is not restored on the path that finds no CPUID instruction.
\<close>

definition cpuid_get_raw_data_core ::
    "'m os \<Rightarrow> cpu_raw_data_t \<Rightarrow> logical_cpu_t \<Rightarrow> 'm thread \<Rightarrow>
      cpu_error_t \<times> cpu_raw_data_t \<times> 'm thread" where
  "cpuid_get_raw_data_core os data cpu th =
     (let (pinned, th) = (if cpu \<noteq> -1 then set_cpu_affinity os cpu th else (True, th));
        (affinity_saved, th) =
          (if cpu \<noteq> -1 \<and> pinned then save_cpu_affinity os th else (False, th))
      in if cpu \<noteq> -1 \<and> \<not> pinned \<and> cpu > 0
         then (ERR_INVCNB, data, th\<lparr>th_errno := ERR_INVCNB\<rparr>)
         else if \<not> os_cpuid_present os then (ERR_NO_CPUID, data, th\<lparr>th_errno := ERR_NO_CPUID\<rparr>)
         else
           let data = fill_raw_data (os_cpuid os (th_affinity th)) data;
             th = (if affinity_saved then snd (restore_cpu_affinity os th) else th)
           in (ERR_OK, data, th\<lparr>th_errno := ERR_OK\<rparr>))"

definition cpuid_get_raw_data ::
    "'m os \<Rightarrow> cpu_raw_data_t \<Rightarrow> 'm thread \<Rightarrow> cpu_error_t \<times> cpu_raw_data_t \<times> 'm thread" where
  "cpuid_get_raw_data os data th = cpuid_get_raw_data_core os data (-1) th"

section \<open>All processors\<close>

text \<open>
  The loop of \<^verbatim>\<open>cpuid_get_all_raw_data\<close> with its local \<^verbatim>\<open>logical_cpu\<close>: the element is stored even
  when the array could not grow, which is then outside of it.
\<close>

function all_raw_loop ::
    "'m os \<Rightarrow> (nat \<Rightarrow> bool) \<Rightarrow> logical_cpu_t \<Rightarrow> cpu_raw_data_array_t \<Rightarrow> 'm thread \<Rightarrow>
      (cpu_error_t \<times> cpu_raw_data_array_t \<times> 'm thread) option" where
  "all_raw_loop os alloc cpu data th =
     (let (r, raw_tmp, th) = cpuid_get_raw_data_core os raw_data_t_constructor cpu th in
      if r \<noteq> ERR_OK then Some (r, data, th)
      else
        let (data, errno) = cpuid_grow_raw_data_array alloc (cpu + 1) data (th_errno th) in
        if unat cpu < unat (num_raw data) then
          all_raw_loop os alloc (cpu + 1) (data\<lparr>raw_items := (raw_items data)[unat cpu := raw_tmp]\<rparr>)
            (th\<lparr>th_errno := errno\<rparr>)
        else None)"
  by pat_completeness auto
termination
proof (relation "measure (\<lambda>(os, alloc, cpu, data, th). 2 ^ 16 - unat cpu)", goal_cases)
  case (2 os alloc cpu data th x r y raw th' x' data' errno)
  have "unat (num_raw data') < 2 ^ 16" using unsigned_less [of "num_raw data'"] by simp
  then have "unat cpu + 1 < 2 ^ 16" using 2 by simp
  then have "unat (cpu + 1) = unat cpu + 1" by (simp add: unat_word_ariths)
  then show ?case using \<open>unat cpu + 1 < 2 ^ 16\<close> by simp
qed simp

declare all_raw_loop.simps [simp del]

definition cpuid_get_all_raw_data ::
    "'m os \<Rightarrow> (nat \<Rightarrow> bool) \<Rightarrow> cpu_raw_data_array_t option \<Rightarrow> 'm thread \<Rightarrow>
      (cpu_error_t \<times> cpu_raw_data_array_t option \<times> 'm thread) option" where
  "cpuid_get_all_raw_data os alloc data th =
     (case data of
        None \<Rightarrow> Some (ERR_HANDLE, None, th\<lparr>th_errno := ERR_HANDLE\<rparr>)
      | Some _ \<Rightarrow> do {
          (r, data, th) \<leftarrow> all_raw_loop os alloc 0 (cpu_raw_data_array_t_constructor True) th;
          let r = (if r = ERR_INVCNB then ERR_OK else r);
          Some (r, Some data, th\<lparr>th_errno := r\<rparr>)
        })"

section \<open>Properties\<close>

lemma wf_fill_raw_data: "wf_raw data \<Longrightarrow> wf_raw (fill_raw_data exec data)"
  by (simp add: wf_raw_def fill_raw_data_def read_leaves_def read_subleaves_def)

text \<open>
  what \<^verbatim>\<open>cpuid_get_raw_data_core\<close> returns, and the affinity it leaves the thread with:
  because it saves the affinity after pinning the thread, a thread pinned to a CPU stays pinned
  to it, whatever its affinity was before.
\<close>

theorem cpuid_get_raw_data_core_spec:
  "case cpuid_get_raw_data_core os data cpu th of (r, data', th') \<Rightarrow>
     r = (if cpu \<noteq> -1 \<and> cpu > 0 \<and> os_pin os cpu (th_affinity th) = None then ERR_INVCNB
          else if \<not> os_cpuid_present os then ERR_NO_CPUID else ERR_OK) \<and>
     th_errno th' = r \<and>
     th_affinity th' = (if cpu = -1 then th_affinity th
       else case os_pin os cpu (th_affinity th) of None \<Rightarrow> th_affinity th | Some m \<Rightarrow> m) \<and>
     data' = (if r = ERR_OK then fill_raw_data (os_cpuid os (th_affinity th')) data else data)"
  by (cases "os_pin os cpu (th_affinity th)")
    (simp_all add: cpuid_get_raw_data_core_def set_cpu_affinity_def save_cpu_affinity_def
      restore_cpu_affinity_def Let_def split: prod.splits)

lemma raw_core_pinned:
  assumes "os_cpuid_present os" and "os_pin os cpu (th_affinity th) = Some m" and "cpu \<noteq> -1"
  shows "\<exists>th'. cpuid_get_raw_data_core os data cpu th =
      (ERR_OK, fill_raw_data (os_cpuid os m) data, th') \<and> th_affinity th' = m"
  using assms
  by (auto simp: cpuid_get_raw_data_core_def set_cpu_affinity_def save_cpu_affinity_def
      restore_cpu_affinity_def)

lemma raw_core_no_cpu:
  assumes "os_pin os cpu (th_affinity th) = None" and "cpu \<noteq> -1" and "cpu > 0"
  shows "cpuid_get_raw_data_core os data cpu th = (ERR_INVCNB, data, th\<lparr>th_errno := ERR_INVCNB\<rparr>)"
  using assms by (simp add: cpuid_get_raw_data_core_def set_cpu_affinity_def)

lemma cpu_not_minus_1:
  assumes "c < 65535"
  shows "(of_nat c :: u16) \<noteq> -1"
proof
  assume "(of_nat c :: u16) = -1"
  then have "unat (of_nat (Suc c) :: u16) = 0" by simp
  then show False using assms unat_of_nat_less [of "Suc c", where 'a = 16] by simp
qed

text \<open>The machine: \<open>n\<close> processors that a thread can be pinned to.\<close>

definition machine :: "'m os \<Rightarrow> nat \<Rightarrow> (nat \<Rightarrow> 'm) \<Rightarrow> bool" where
  "machine os n m \<longleftrightarrow> os_cpuid_present os \<and>
     (\<forall>c a. os_pin os c a = (if unat c < n then Some (m (unat c)) else None))"

text \<open>One round of the loop that reads a processor.\<close>

lemma all_raw_loop_step:
  assumes core: "cpuid_get_raw_data_core os raw_data_t_constructor (of_nat c) th = (ERR_OK, raw, th1)"
    and "c < 65535" and "num_raw data = of_nat c" and "length (raw_items data) = c"
  shows "all_raw_loop os (\<lambda>_. True) (of_nat c) data th =
    all_raw_loop os (\<lambda>_. True) (of_nat (Suc c))
      (data\<lparr>num_raw := of_nat (Suc c), raw_items := raw_items data @ [raw]\<rparr>) th1"
proof -
  have u: "unat (of_nat c :: u16) = c" using assms(2) by (simp add: unat_of_nat_less)
  have u1: "unat (of_nat c + 1 :: u16) = c + 1"
    using u assms(2) by (simp add: unat_word_ariths)
  have s: "(of_nat c + 1 :: u16) = of_nat (Suc c)" by simp
  have grow: "cpuid_grow_raw_data_array (\<lambda>_. True) (of_nat c + 1) data e =
      (data\<lparr>num_raw := of_nat c + 1, raw_items := raw_items data @ [raw_data_t_constructor]\<rparr>, e)" for e
    using u u1 assms by (simp add: cpuid_grow_raw_data_array_def word_less_nat_alt word_le_nat_alt)
  have upd: "(raw_items data @ [raw_data_t_constructor])[c := raw] = raw_items data @ [raw]"
    using assms by (simp add: list_update_append)
  have "all_raw_loop os (\<lambda>_. True) (of_nat c) data th =
      all_raw_loop os (\<lambda>_. True) (of_nat c + 1)
        (data\<lparr>num_raw := of_nat c + 1, raw_items := raw_items data @ [raw]\<rparr>) th1"
    by (subst all_raw_loop.simps) (simp add: core grow u u1 upd)
  then show ?thesis unfolding s .
qed

lemma all_raw_loop_machine:
  assumes "machine os n m" and "n < 65535" and "1 \<le> n" and "c \<le> n"
    and "num_raw data = of_nat c" and "length (raw_items data) = c"
  shows "\<exists>th'. all_raw_loop os (\<lambda>_. True) (of_nat c) data th =
      Some (ERR_INVCNB, data\<lparr>num_raw := of_nat n, raw_items := raw_items data @
        map (\<lambda>i. fill_raw_data (os_cpuid os (m i)) raw_data_t_constructor) [c..<n]\<rparr>, th') \<and>
    th_affinity th' = (if c < n then m (n - 1) else th_affinity th)"
  using assms(4-)
proof (induction "n - c" arbitrary: c data th)
  case 0
  then have c: "c = n" by simp
  have u: "unat (of_nat n :: u16) = n" using assms(2) by (simp add: unat_of_nat_less)
  have "(of_nat n :: u16) \<noteq> -1" using assms(2) by (rule cpu_not_minus_1)
  moreover have "(of_nat n :: u16) > 0"
    using assms(3) u by (simp add: word_less_nat_alt)
  moreover have "os_pin os (of_nat n) (th_affinity th) = None" using assms(1) u by (simp add: machine_def)
  ultimately show ?case
    using 0 c by (subst all_raw_loop.simps) (simp add: raw_core_no_cpu)
next
  case (Suc k)
  then have c: "c < n" by simp
  then have u: "unat (of_nat c :: u16) = c" using assms(2) by (simp add: unat_of_nat_less)
  have ne: "(of_nat c :: u16) \<noteq> -1" using c assms(2) by (intro cpu_not_minus_1) simp
  have pin: "os_pin os (of_nat c) (th_affinity th) = Some (m c)" "os_cpuid_present os"
    using assms(1) u c by (simp_all add: machine_def)
  obtain th1 where core: "cpuid_get_raw_data_core os raw_data_t_constructor (of_nat c) th =
      (ERR_OK, fill_raw_data (os_cpuid os (m c)) raw_data_t_constructor, th1)"
    and a1: "th_affinity th1 = m c"
    using raw_core_pinned [OF pin(2,1) ne] by blast
  let ?raw = "fill_raw_data (os_cpuid os (m c)) raw_data_t_constructor"
  let ?data = "data\<lparr>num_raw := of_nat (Suc c), raw_items := raw_items data @ [?raw]\<rparr>"
  have step: "all_raw_loop os (\<lambda>_. True) (of_nat c) data th = all_raw_loop os (\<lambda>_. True) (of_nat (Suc c)) ?data th1"
    using all_raw_loop_step [OF core] c assms(2) Suc.prems by simp
  have IH: "\<exists>th'. all_raw_loop os (\<lambda>_. True) (of_nat (Suc c)) ?data th1 =
      Some (ERR_INVCNB, ?data\<lparr>num_raw := of_nat n, raw_items := raw_items ?data @
        map (\<lambda>i. fill_raw_data (os_cpuid os (m i)) raw_data_t_constructor) [Suc c..<n]\<rparr>, th') \<and>
      th_affinity th' =
        (if Suc c < n then m (n - 1) else th_affinity th1)"
    by (rule Suc.hyps(1)) (use Suc.hyps(2) Suc.prems c in simp_all)
  obtain th' where rest: "all_raw_loop os (\<lambda>_. True) (of_nat (Suc c)) ?data th1 =
      Some (ERR_INVCNB, ?data\<lparr>num_raw := of_nat n, raw_items := raw_items ?data @
        map (\<lambda>i. fill_raw_data (os_cpuid os (m i)) raw_data_t_constructor) [Suc c..<n]\<rparr>, th')"
    and a: "th_affinity th' =
      (if Suc c < n then m (n - 1) else th_affinity th1)"
    using IH by blast
  have "th_affinity th' = m (n - 1)"
    using a a1 c by (cases "Suc c < n") (auto simp: not_less intro: arg_cong [of _ _ m])
  with rest step c show ?case by (simp add: upt_conv_Cons)
qed

lemma all_raw_data_machine:
  assumes "machine os n m" and "1 \<le> n" and "n < 65535"
  shows "\<exists>th'. cpuid_get_all_raw_data os (\<lambda>_. True) (Some any) th = Some (ERR_OK,
      Some \<lparr>with_affinity = True, num_raw = of_nat n,
        raw_items = map (\<lambda>i. fill_raw_data (os_cpuid os (m i)) raw_data_t_constructor) [0..<n]\<rparr>, th') \<and>
    th_errno th' = ERR_OK \<and> th_affinity th' = m (n - 1)"
  using all_raw_loop_machine [OF assms(1,3,2), of 0 "cpu_raw_data_array_t_constructor True" th] assms(2)
  by (auto simp: cpuid_get_all_raw_data_def cpu_raw_data_array_t_constructor_def)

text \<open>
  C7: on a machine of \<open>n\<close> processors, fewer than 65535, and with enough memory,
  \<^verbatim>\<open>cpuid_get_all_raw_data\<close> ends, returns \<^verbatim>\<open>ERR_OK\<close> and exactly one entry for each processor, read
  on that processor, in order; the thread is left on the last one.
\<close>

theorem cpuid_get_all_raw_data_machine:
  assumes "machine os n m" and "1 \<le> n" and "n < 65535"
  shows "\<exists>th'. cpuid_get_all_raw_data os (\<lambda>_. True) (Some any) th = Some (ERR_OK,
      Some \<lparr>with_affinity = True, num_raw = of_nat n,
        raw_items = map (\<lambda>i. fill_raw_data (os_cpuid os (m i)) raw_data_t_constructor) [0..<n]\<rparr>, th') \<and>
    th_errno th' = ERR_OK \<and> th_affinity th' = m (n - 1)"
  by (rule all_raw_data_machine [OF assms])

definition sample_os :: "nat os" where
  "sample_os = \<lparr>os_pin = (\<lambda>c _. if unat c < 4 then Some (unat c) else None), os_getaffinity_ok = True,
     os_setaffinity_ok = True, os_cpuid_present = True, os_cpuid = (\<lambda>a r. r\<lparr>EDX := of_nat a\<rparr>),
     os_total_cpus = 4\<rparr>"

theorem cpuid_get_all_raw_data_machine_witness:
  "\<exists>data th. cpuid_get_all_raw_data sample_os (\<lambda>_. True)
      (Some (cpu_raw_data_array_t_constructor False)) \<lparr>th_affinity = 99, th_saved = 0, th_errno = ERR_OK\<rparr> =
      Some (ERR_OK, Some data, th) \<and> length (raw_items data) = 4 \<and> th_affinity th = 3"
proof -
  have "machine sample_os 4 (\<lambda>i. i)" by (simp add: machine_def sample_os_def)
  from cpuid_get_all_raw_data_machine [OF this, of "cpu_raw_data_array_t_constructor False"
      "\<lparr>th_affinity = 99, th_saved = 0, th_errno = ERR_OK\<rparr>"]
  show ?thesis by auto
qed

end
