(* ===== verification/Topology.thy ===== *)
theory Topology
  imports X86_Common "HOL-Library.Signed_Division"
begin

text \<open>
  The position of a logical processor in the system (\<^verbatim>\<open>cpu_ident_id\<close>, with its x86 and ARM
  variants, of \<^verbatim>\<open>cpuid_main.c\<close>) and the tables that count cores and caches by their ids
  (\<^verbatim>\<open>update_core_instances\<close>, \<^verbatim>\<open>update_cache_instances\<close>).

  The ids are \<^verbatim>\<open>int32_t\<close> bit patterns, kept as 32-bit words. Shifting -1 left is what compilers
  make of it, a two's complement shift. A read or write outside an array is \<^const>\<open>None\<close>.
\<close>

section \<open>x86\<close>

text \<open>The first loop: the shift of the last level. The bound is tested after the reads.\<close>

function core_shift_loop :: "cpu_regs_t list \<Rightarrow> nat \<Rightarrow> u8 \<Rightarrow> u8 option" where
  "core_shift_loop tab i shift =
     (case regs_at tab i of
        None \<Rightarrow> None
      | Some r \<Rightarrow>
          if EAX r \<noteq> 0 \<and> EBX r \<noteq> 0 \<and> i < MAX_INTELFN11_LEVEL then
            core_shift_loop tab (Suc i) (ucast (EXTRACTS_BITS (EAX r) 4 0))
          else Some shift)"
  by pat_completeness auto
termination
  by (relation "measure (\<lambda>(tab, i, s). length tab - i)") (auto simp: regs_at_def split: if_splits)

declare core_shift_loop.simps [simp del]

text \<open>\<open>(-1) << s\<close> for an \<^verbatim>\<open>int\<close> and its complement.\<close>

definition shift_ones :: "nat \<Rightarrow> u32" where
  "shift_ones s = push_bit s (-1)"

text \<open>The second loop: SMT and core ids, with the local variables \<^verbatim>\<open>level_type\<close> and \<^verbatim>\<open>smt_mask\<close>.\<close>

definition level_step ::
    "u8 \<Rightarrow> cpu_regs_t \<Rightarrow> u8 \<times> u32 \<times> internal_topology_t \<Rightarrow> u8 \<times> u32 \<times> internal_topology_t" where
  "level_step core_shift r = (\<lambda>(_, smt_mask, topology).
     let level_type = ucast (EXTRACTS_BITS (ECX r) 15 8);
       topology = topology\<lparr>apic_id := EDX r\<rparr>
     in if level_type = 1 then
          let smt_mask = NOT (shift_ones (unat (EXTRACTS_BITS (EAX r) 4 0))) in
          (level_type, smt_mask, topology\<lparr>smt_id := apic_id topology AND smt_mask\<rparr>)
        else if level_type = 2 then
          let core_mask = NOT (shift_ones (unat core_shift)) XOR smt_mask in
          (level_type, smt_mask, topology\<lparr>core_id := apic_id topology AND core_mask\<rparr>)
        else (level_type, smt_mask, topology))"

function level_loop ::
    "u8 \<Rightarrow> cpu_regs_t list \<Rightarrow> nat \<Rightarrow> u8 \<times> u32 \<times> internal_topology_t \<Rightarrow>
      (u8 \<times> u32 \<times> internal_topology_t) option" where
  "level_loop core_shift tab i s =
     (case regs_at tab i of
        None \<Rightarrow> None
      | Some r \<Rightarrow>
          if EAX r \<noteq> 0 \<and> EBX r \<noteq> 0 \<and> i < MAX_INTELFN11_LEVEL then
            level_loop core_shift tab (Suc i) (level_step core_shift r s)
          else Some s)"
  by pat_completeness auto
termination
  by (relation "measure (\<lambda>(c, tab, i, s). length tab - i)") (auto simp: regs_at_def split: if_splits)

declare level_loop.simps [simp del]

definition cpu_ident_id_x86 ::
    "cpu_raw_data_t \<Rightarrow> internal_topology_t \<Rightarrow> cpu_error_t \<Rightarrow>
      (bool \<times> internal_topology_t \<times> cpu_error_t) option" where
  "cpu_ident_id_x86 raw topology errno =
     (let v = fst (cpuid_vendor_identify (basic_cpuid raw ! 0));
        errno = (if v = VENDOR_UNKNOWN then ERR_CPU_UNKN else errno);
        is_apic_id_supported = (v = VENDOR_INTEL \<or> v = VENDOR_AMD)
      in if \<not> is_apic_id_supported \<or> EAX (basic_cpuid raw ! 0) < 11 \<or>
            EXTRACTS_BITS (EBX (basic_cpuid raw ! 11)) 15 0 = 0
         then Some (False, topology, errno)
         else do {
           mask_core_shift \<leftarrow> core_shift_loop (intel_fn11 raw) 0 0;
           (level_type, _, topology) \<leftarrow> level_loop mask_core_shift (intel_fn11 raw) 0 (0, 0, topology);
           let package_mask = shift_ones (unat mask_core_shift);
           Some (level_type > 0, topology\<lparr>package_id := apic_id topology AND package_mask\<rparr>, errno)
         })"

section \<open>ARM\<close>

definition cpu_ident_id_arm :: "cpu_raw_data_t \<Rightarrow> internal_topology_t \<Rightarrow> bool \<times> internal_topology_t" where
  "cpu_ident_id_arm raw topology =
     (let mpidr = arm_mpidr raw in
      if mpidr = 0 then (False, topology)
      else if EXTRACTS_BIT mpidr 30 \<noteq> 1 then
        (if EXTRACTS_BIT mpidr 24 = 1 then
           (True, topology\<lparr>smt_id := ucast (EXTRACTS_BITS mpidr 7 0),
             core_id := ucast (EXTRACTS_BITS mpidr 15 8),
             package_id := ucast (EXTRACTS_BITS mpidr 23 16)\<rparr>)
         else
           (True, topology\<lparr>smt_id := -1, core_id := ucast (EXTRACTS_BITS mpidr 7 0),
             package_id := ucast (EXTRACTS_BITS mpidr 15 8)\<rparr>))
      else (True, topology\<lparr>smt_id := -1, core_id := 0, package_id := -1\<rparr>))"

definition cpu_ident_id ::
    "logical_cpu_t \<Rightarrow> cpu_raw_data_t \<Rightarrow> cpu_error_t \<Rightarrow> (bool \<times> internal_topology_t \<times> cpu_error_t) option" where
  "cpu_ident_id cpu raw errno =
     (let topology = topology_t_constructor cpu in
      case cpuid_architecture_identify raw of
        ARCHITECTURE_X86 \<Rightarrow> cpu_ident_id_x86 raw topology errno
      | ARCHITECTURE_ARM \<Rightarrow>
          (case cpu_ident_id_arm raw topology of (ok, topology) \<Rightarrow> Some (ok, topology, errno))
      | _ \<Rightarrow> Some (False, topology, errno))"

section \<open>Counting instances\<close>

text \<open>
  One update of a table of 256 entries and its counter. The index is \<^verbatim>\<open>(uint32_t) (id % 256)\<close> of a
  signed id, outside the table for most negative ids.
\<close>

definition count_instance ::
    "u32 \<Rightarrow> internal_entry_id_t list \<times> u8 \<Rightarrow> (internal_entry_id_t list \<times> u8) option" where
  "count_instance ident = (\<lambda>(htable, instances).
     let index = unat (word_of_int (sint ident smod 256) :: u32) in
     if index \<ge> length htable then None
     else
       let e = htable ! index in
       if entry_id e = 0 \<or> entry_id e = ident then
         Some (htable[index := \<lparr>entry_num_logical_cpu = entry_num_logical_cpu e + 1, entry_id = ident\<rparr>],
           if entry_num_logical_cpu e = 0 then instances + 1 else instances)
       else Some (htable, instances))"

definition update_core_instances ::
    "internal_core_instances_t \<Rightarrow> internal_topology_t \<Rightarrow> internal_core_instances_t option" where
  "update_core_instances cores topology =
     map_option (\<lambda>(t, n). cores\<lparr>core_htable := t, core_count := n\<rparr>)
       (count_instance (core_id topology) (core_htable cores, core_count cores))"

text \<open>The loop over the cache types; \<open>level\<close> is a \<^verbatim>\<open>cache_type_t\<close> as a number.\<close>

definition update_cache_level ::
    "internal_id_info_t \<Rightarrow> nat \<Rightarrow> internal_cache_instances_t \<times> internal_topology_t \<Rightarrow>
      (internal_cache_instances_t \<times> internal_topology_t) option" where
  "update_cache_level id_info level = (\<lambda>(caches, topology).
     if cache_mask id_info ! level = 0
     then Some (caches, topology\<lparr>cache_id := (cache_id topology)[level := -1]\<rparr>)
     else
       let ident = apic_id topology AND cache_mask id_info ! level;
         topology = topology\<lparr>cache_id := (cache_id topology)[level := ident]\<rparr>
       in map_option (\<lambda>(t, n).
            (caches\<lparr>cache_htable := (cache_htable caches)[level := t],
               cache_counts := (cache_counts caches)[level := n]\<rparr>, topology))
            (count_instance ident (cache_htable caches ! level, cache_counts caches ! level)))"

fun update_cache_levels ::
    "internal_id_info_t \<Rightarrow> nat list \<Rightarrow> internal_cache_instances_t \<times> internal_topology_t \<Rightarrow>
      (internal_cache_instances_t \<times> internal_topology_t) option" where
  "update_cache_levels id_info [] s = Some s"
| "update_cache_levels id_info (level # levels) s = do {
     s \<leftarrow> update_cache_level id_info level s;
     update_cache_levels id_info levels s
   }"

definition update_cache_instances ::
    "internal_cache_instances_t \<Rightarrow> internal_topology_t \<Rightarrow> internal_id_info_t \<Rightarrow>
      (internal_cache_instances_t \<times> internal_topology_t) option" where
  "update_cache_instances caches topology id_info =
     update_cache_levels id_info [0..<NUM_CACHE_TYPES] (caches, topology)"

section \<open>Properties of the x86 ids\<close>

text \<open>A level that the loops take, and the raw data on which they run.\<close>

definition live_level :: "cpu_regs_t \<Rightarrow> bool" where
  "live_level r \<longleftrightarrow> EAX r \<noteq> 0 \<and> EBX r \<noteq> 0"

definition apic_supported :: "cpu_raw_data_t \<Rightarrow> bool" where
  "apic_supported raw \<longleftrightarrow>
     (let v = fst (cpuid_vendor_identify (basic_cpuid raw ! 0)) in
      (v = VENDOR_INTEL \<or> v = VENDOR_AMD) \<and> EAX (basic_cpuid raw ! 0) \<ge> 11 \<and>
      EXTRACTS_BITS (EBX (basic_cpuid raw ! 11)) 15 0 \<noteq> 0)"

lemma core_shift_loop_fold:
  assumes "length tab = 4" and "i \<le> 4"
  shows "core_shift_loop tab i s =
    (if list_all live_level (drop i tab) then None
     else Some (fold (\<lambda>r _. ucast (EXTRACTS_BITS (EAX r) 4 0)) (takeWhile live_level (drop i tab)) s))"
  using assms
proof (induction tab i s rule: core_shift_loop.induct)
  case (1 tab i s)
  show ?case
  proof (cases "i < 4")
    case False
    with 1 show ?thesis by (subst core_shift_loop.simps) simp
  next
    case True
    then have "drop i tab = tab ! i # drop (Suc i) tab"
      using 1 by (simp add: Cons_nth_drop_Suc)
    with 1 True show ?thesis
      by (subst core_shift_loop.simps) (auto simp: live_level_def [of "tab ! i"])
  qed
qed

lemma level_loop_fold:
  assumes "length tab = 4" and "i \<le> 4"
  shows "level_loop c tab i s =
    (if list_all live_level (drop i tab) then None
     else Some (fold (level_step c) (takeWhile live_level (drop i tab)) s))"
  using assms
proof (induction c tab i s rule: level_loop.induct)
  case (1 c tab i s)
  show ?case
  proof (cases "i < 4")
    case False
    with 1 show ?thesis by (subst level_loop.simps) simp
  next
    case True
    then have "drop i tab = tab ! i # drop (Suc i) tab"
      using 1 by (simp add: Cons_nth_drop_Suc)
    with 1 True show ?thesis
      by (subst level_loop.simps) (auto simp: live_level_def [of "tab ! i"])
  qed
qed

lemma ident_x86_fold:
  assumes "wf_raw raw" and "apic_supported raw"
  shows "cpu_ident_id_x86 raw topology errno =
    (let levels = takeWhile live_level (intel_fn11 raw);
       shift = fold (\<lambda>r _. ucast (EXTRACTS_BITS (EAX r) 4 0)) levels 0
     in if list_all live_level (intel_fn11 raw) then None
        else case fold (level_step shift) levels (0, 0, topology) of
          (level_type, _, t) \<Rightarrow> Some (level_type > 0,
            t\<lparr>package_id := apic_id t AND shift_ones (unat shift)\<rparr>, errno))"
proof -
  have sup: "\<not> (\<not> (fst (cpuid_vendor_identify (basic_cpuid raw ! 0)) = VENDOR_INTEL \<or>
        fst (cpuid_vendor_identify (basic_cpuid raw ! 0)) = VENDOR_AMD) \<or>
      EAX (basic_cpuid raw ! 0) < 11 \<or> EXTRACTS_BITS (EBX (basic_cpuid raw ! 11)) 15 0 = 0)"
    and known: "fst (cpuid_vendor_identify (basic_cpuid raw ! 0)) \<noteq> VENDOR_UNKNOWN"
    using assms(2) by (auto simp: apic_supported_def Let_def)
  show ?thesis
    unfolding cpu_ident_id_x86_def Let_def if_not_P [OF sup] if_not_P [OF known]
      core_shift_loop_fold [OF wf_rawD(4) [OF assms(1)] le0]
      level_loop_fold [OF wf_rawD(4) [OF assms(1)] le0]
    by (simp split: prod.split)
qed

text \<open>
  C32: the loops over leaf 11 read outside the array of four levels exactly when the topology
  is supported and all four levels are in use.
\<close>

theorem cpu_ident_id_x86_undefined:
  assumes "wf_raw raw"
  shows "cpu_ident_id_x86 raw topology errno = None \<longleftrightarrow>
    apic_supported raw \<and> list_all live_level (intel_fn11 raw)"
proof (cases "apic_supported raw")
  case True
  then show ?thesis
    using ident_x86_fold [OF assms True, of topology errno] by (simp add: Let_def split: prod.splits)
next
  case False
  then have "cpu_ident_id_x86 raw topology errno \<noteq> None"
    by (auto simp: apic_supported_def cpu_ident_id_x86_def Let_def not_less)
  with False show ?thesis by simp
qed

definition intel_leaf0 :: cpu_regs_t where
  "intel_leaf0 = \<lparr>EAX = 31, EBX = 0x756e6547, ECX = 0x6c65746e, EDX = 0x49656e69\<rparr>"

lemma intel_leaf0_vendor: "fst (cpuid_vendor_identify intel_leaf0) = VENDOR_INTEL"
  using vendor_GenuineIntel [of 31] by (simp add: intel_leaf0_def)

text \<open>An Intel processor of which leaf 11 describes the given levels.\<close>

definition intel_raw :: "cpu_regs_t list \<Rightarrow> cpu_raw_data_t" where
  "intel_raw levels = raw_data_t_constructor\<lparr>
     basic_cpuid := (replicate 32 regs_zero)[0 := intel_leaf0, 11 := \<lparr>EAX = 0, EBX = 1, ECX = 0, EDX = 0\<rparr>],
     intel_fn11 := levels\<rparr>"

lemma wf_intel_raw: "length levels = 4 \<Longrightarrow> wf_raw (intel_raw levels)"
  using wf_raw_data_t_constructor by (simp add: wf_raw_def intel_raw_def)

lemma intel_raw_supported: "apic_supported (intel_raw levels)"
  by (simp add: apic_supported_def intel_raw_def intel_leaf0_vendor Let_def EXTRACTS_BITS_def)
    (simp add: intel_leaf0_def word_le_nat_alt)

theorem cpu_ident_id_x86_undefined_witness:
  "cpu_ident_id_x86 (intel_raw (replicate 4 \<lparr>EAX = 1, EBX = 1, ECX = 0x100, EDX = 0\<rparr>))
     (topology_t_constructor 0) ERR_OK = None"
proof -
  let ?levels = "replicate 4 \<lparr>EAX = 1, EBX = 1, ECX = 0x100, EDX = 0\<rparr>"
  have "list_all live_level ?levels" unfolding list_all_iff by (auto simp: live_level_def)
  moreover have "intel_fn11 (intel_raw ?levels) = ?levels" by (simp add: intel_raw_def)
  ultimately show ?thesis
    using cpu_ident_id_x86_undefined [of "intel_raw ?levels" "topology_t_constructor 0" ERR_OK]
      wf_intel_raw [of ?levels] intel_raw_supported [of ?levels] by simp
qed

subsection \<open>The ids partition the APIC id\<close>

lemma not_shift_ones: "NOT (shift_ones s) = Bit_Operations.mask s"
  by (simp add: shift_ones_def mask_eq_decr_exp bit_eq_iff bit_simps)

lemma smt_part: "unat ((x :: u32) AND NOT (shift_ones s)) = unat x mod 2 ^ s"
proof -
  have "x AND NOT (shift_ones s) = take_bit s x"
    by (simp add: not_shift_ones take_bit_eq_mask)
  then show ?thesis by (simp only: unsigned_take_bit_eq) (simp only: take_bit_eq_mod)
qed

lemma unat_push_drop: "unat (push_bit s (drop_bit s (x :: u32))) = unat x div 2 ^ s * 2 ^ s"
proof -
  have "unat x < 2 ^ 32" by (rule order_less_le_trans [OF unsigned_less]) simp
  then have "unat x div 2 ^ s * 2 ^ s < 2 ^ 32"
    using div_times_less_eq_dividend [of "unat x" "2 ^ s"] by linarith
  then have "unat x div 2 ^ s * 2 ^ s = take_bit 32 (unat x div 2 ^ s * 2 ^ s)"
    by (simp only: take_bit_nat_eq_self)
  then show ?thesis
    by (simp only: unsigned_push_bit_eq unat_drop_bit_eq push_bit_nat_def drop_bit_nat_def)
      (simp add: push_bit_nat_def drop_bit_nat_def)
qed

lemma package_part: "unat ((x :: u32) AND shift_ones s) = unat x div 2 ^ s * 2 ^ s"
proof -
  have "x AND shift_ones s = push_bit s (drop_bit s x)"
    by (auto simp: shift_ones_def bit_eq_iff bit_simps)
  then show ?thesis by (simp only: unat_push_drop)
qed

lemma core_part:
  assumes "s0 \<le> s1"
  shows "unat ((x :: u32) AND (shift_ones s1 XOR shift_ones s0)) =
    unat x mod 2 ^ s1 div 2 ^ s0 * 2 ^ s0"
proof -
  have "x AND (shift_ones s1 XOR shift_ones s0) = push_bit s0 (drop_bit s0 (take_bit s1 x))"
    using assms by (auto simp: shift_ones_def bit_eq_iff bit_simps)
  then show ?thesis
    by (simp only: unat_push_drop unsigned_take_bit_eq) (simp only: take_bit_eq_mod)
qed

lemma shift_field:
  "unat (EXTRACTS_BITS (r :: u32) 4 0) = unat r mod 32"
  "unat (ucast (EXTRACTS_BITS (r :: u32) 4 0) :: u8) = unat r mod 32"
proof -
  show a: "unat (EXTRACTS_BITS r 4 0) = unat r mod 32" by (simp add: unat_EXTRACTS_BITS_32)
  have "unat r mod 32 < 2 ^ 8" by (rule order_less_trans [of _ 32]) simp_all
  then show "unat (ucast (EXTRACTS_BITS r 4 0) :: u8) = unat r mod 32"
    by (simp only: unsigned_ucast_eq a take_bit_nat_eq_self) (simp add: take_bit_nat_eq_self)
qed

text \<open>The usual contents of leaf 11: a thread level, a core level, and the end.\<close>

definition smt_core_levels :: "cpu_regs_t \<Rightarrow> cpu_regs_t \<Rightarrow> cpu_regs_t list \<Rightarrow> bool" where
  "smt_core_levels r0 r1 levels \<longleftrightarrow> (\<exists>e rest. levels = r0 # r1 # e # rest \<and>
     live_level r0 \<and> live_level r1 \<and> \<not> live_level e \<and>
     EXTRACTS_BITS (ECX r0) 15 8 = 1 \<and> EXTRACTS_BITS (ECX r1) 15 8 = 2 \<and> EDX r0 = EDX r1 \<and>
     unat (EAX r0) mod 32 \<le> unat (EAX r1) mod 32)"

lemma div_mod_split:
  assumes "s0 \<le> (s1 :: nat)"
  shows "x div 2 ^ s1 * 2 ^ s1 + x mod 2 ^ s1 div 2 ^ s0 * 2 ^ s0 + x mod 2 ^ s0 = (x :: nat)"
proof -
  have "x mod 2 ^ s0 = x mod 2 ^ s1 mod 2 ^ s0"
    using assms by (simp add: mod_mod_cancel le_imp_power_dvd)
  then show ?thesis
    using div_mult_mod_eq [of "x mod 2 ^ s1" "2 ^ s0"] div_mult_mod_eq [of x "2 ^ s1"]
    by linarith
qed

text \<open>
  C33: when leaf 11 of an Intel or AMD processor describes threads and cores, the thread, core and
  package ids are the low, middle and high bits of the APIC id, in place: they add up to it, so
  that two processors with the same three ids have the same APIC id.
\<close>

theorem cpu_ident_id_x86_ids:
  assumes "wf_raw raw" and "apic_supported raw" and "smt_core_levels r0 r1 (intel_fn11 raw)"
  defines "x \<equiv> unat (EDX r0)" and "s0 \<equiv> unat (EAX r0) mod 32" and "s1 \<equiv> unat (EAX r1) mod 32"
  shows "\<exists>t. cpu_ident_id_x86 raw topology errno = Some (True, t, errno) \<and>
    apic_id t = EDX r0 \<and>
    unat (smt_id t) = x mod 2 ^ s0 \<and>
    unat (core_id t) = x mod 2 ^ s1 div 2 ^ s0 * 2 ^ s0 \<and>
    unat (package_id t) = x div 2 ^ s1 * 2 ^ s1 \<and>
    unat (package_id t) + unat (core_id t) + unat (smt_id t) = unat (apic_id t)"
proof -
  obtain e rest where l: "intel_fn11 raw = r0 # r1 # e # rest"
    and live: "live_level r0" "live_level r1" "\<not> live_level e"
    and ty: "EXTRACTS_BITS (ECX r0) 15 8 = 1" "EXTRACTS_BITS (ECX r1) 15 8 = 2"
    and edx: "EDX r1 = EDX r0" and le: "s0 \<le> s1"
    using assms(3) by (auto simp: smt_core_levels_def s0_def s1_def)
  define c :: u8 where "c = ucast (EXTRACTS_BITS (EAX r1) 4 0)"
  have c: "unat c = s1" by (simp only: c_def shift_field s1_def)
  have s0: "unat (EXTRACTS_BITS (EAX r0) 4 0) = s0" by (simp only: shift_field s0_def)
  have tw: "takeWhile live_level (intel_fn11 raw) = [r0, r1]" using live by (simp add: l)
  have run: "level_step c r1 (level_step c r0 (0, 0, topology)) = (2, NOT (shift_ones s0),
      topology\<lparr>apic_id := EDX r0, smt_id := EDX r0 AND NOT (shift_ones s0),
        core_id := EDX r0 AND (shift_ones s1 XOR shift_ones s0)\<rparr>)"
    by (simp add: level_step_def ty c s0 edx Let_def)
  have "cpu_ident_id_x86 raw topology errno = Some (True,
      topology\<lparr>apic_id := EDX r0, smt_id := EDX r0 AND NOT (shift_ones s0),
        core_id := EDX r0 AND (shift_ones s1 XOR shift_ones s0),
        package_id := EDX r0 AND shift_ones s1\<rparr>, errno)"
    using ident_x86_fold [OF assms(1,2), of topology errno] live
    unfolding tw Let_def by (simp add: l c run flip: c_def)
  then show ?thesis
    using div_mod_split [OF le, of x]
    by (auto simp: smt_part core_part [OF le] package_part x_def)
qed

theorem cpu_ident_id_x86_ids_witness:
  "\<exists>t. cpu_ident_id_x86 (intel_raw [\<lparr>EAX = 1, EBX = 2, ECX = 0x100, EDX = 0x2b\<rparr>,
      \<lparr>EAX = 4, EBX = 16, ECX = 0x201, EDX = 0x2b\<rparr>, regs_zero, regs_zero])
      (topology_t_constructor 0) ERR_OK = Some (True, t, ERR_OK) \<and>
    unat (smt_id t) = 1 \<and> unat (core_id t) = 10 \<and> unat (package_id t) = 32"
proof -
  let ?r0 = "\<lparr>EAX = 1, EBX = 2, ECX = 0x100, EDX = 0x2b\<rparr> :: cpu_regs_t"
  let ?r1 = "\<lparr>EAX = 4, EBX = 16, ECX = 0x201, EDX = 0x2b\<rparr> :: cpu_regs_t"
  have "smt_core_levels ?r0 ?r1 (intel_fn11 (intel_raw [?r0, ?r1, regs_zero, regs_zero]))"
    by (simp add: smt_core_levels_def intel_raw_def live_level_def EXTRACTS_BITS_def)
  then show ?thesis
    using cpu_ident_id_x86_ids [of "intel_raw [?r0, ?r1, regs_zero, regs_zero]" ?r0 ?r1
        "topology_t_constructor 0" ERR_OK]
      wf_intel_raw [of "[?r0, ?r1, regs_zero, regs_zero]"]
      intel_raw_supported [of "[?r0, ?r1, regs_zero, regs_zero]"]
    by auto
qed

section \<open>Properties of the instance tables\<close>

definition slot :: "u32 \<Rightarrow> nat" where
  "slot i = unat i mod 256"

lemma unat_of_nat_less32: "n < 2 ^ 32 \<Longrightarrow> unat (of_nat n :: u32) = n"
  by (simp add: unsigned_of_nat take_bit_nat_eq_self)

lemma slot_less [simp]: "slot i < 256" "\<not> 256 \<le> slot i"
  by (simp_all add: slot_def not_le)

text \<open>The index of the code: the slot for a positive id, and outside the table for a negative one.\<close>

definition htable_index :: "u32 \<Rightarrow> nat" where
  "htable_index i = unat (word_of_int (sint i smod 256) :: u32)"

lemma sint_mod_256: "sint (i :: u32) mod 256 = int (slot i)"
proof -
  have "take_bit 8 (sint i) = take_bit 8 (uint i)"
    by (simp add: sint_uint take_bit_signed_take_bit)
  then have "sint i mod 256 = uint i mod 256" by (simp add: take_bit_eq_mod)
  then show ?thesis by (simp add: slot_def zmod_int)
qed

lemma index_slot:
  "htable_index i = (if bit i 31 \<and> slot i \<noteq> 0 then 2 ^ 32 - 256 + slot i else slot i)"
proof -
  have neg: "bit i 31 \<longleftrightarrow> sint i < 0" using bit_last_iff [of i] by simp
  have dvd: "256 dvd sint i \<longleftrightarrow> slot i = 0" using sint_mod_256 [of i] by (simp add: dvd_eq_mod_eq_0)
  have rem: "sint i smod 256 = int (slot i) - 256 * of_bool (bit i 31 \<and> slot i \<noteq> 0)"
    using neg dvd sint_mod_256 [of i]
    by (cases "sint i = 0") (auto simp: signed_modulo_int_eq_modulo_int sgn_if slot_def)
  show ?thesis
  proof (cases "bit i 31 \<and> slot i \<noteq> 0")
    case True
    define k where "k = 2 ^ 32 - 256 + slot i"
    have "int k = 2 ^ 32 - (256 - int (slot i))" by (simp add: k_def)
    with True have "sint i smod 256 = int k - 2 ^ 32" using rem by simp
    moreover have "word_of_int (int k - 2 ^ 32) = (of_nat k :: u32)"
      by (simp only: of_int_diff of_int_of_nat_eq) simp
    moreover have "unat (of_nat k :: u32) = k"
      using slot_less(1) [of i] by (intro unat_of_nat_less32) (simp add: k_def)
    ultimately have "htable_index i = k" by (simp only: htable_index_def)
    then show ?thesis using True by (simp add: k_def)
  next
    case False
    then have "sint i smod 256 = int (slot i)" using rem by auto
    moreover have "slot i < 2 ^ 32" by (rule order_less_trans [OF slot_less(1)]) simp
    ultimately show ?thesis using False by (simp add: htable_index_def unat_of_nat_less32)
  qed
qed

text \<open>A run of updates.\<close>

fun count_all :: "u32 list \<Rightarrow> internal_entry_id_t list \<times> u8 \<Rightarrow> (internal_entry_id_t list \<times> u8) option" where
  "count_all [] s = Some s"
| "count_all (i # ids) s = do { s \<leftarrow> count_instance i s; count_all ids s }"

text \<open>
  What a table holds after the ids \<open>seen\<close>: the entries in use are their slots, and the counter is
  the number of these slots.
\<close>

definition table_of :: "u32 list \<Rightarrow> internal_entry_id_t list \<times> u8 \<Rightarrow> bool" where
  "table_of seen = (\<lambda>(tab, n). length tab = 256 \<and> n = of_nat (card (slot ` set seen)) \<and>
     (\<forall>k<256. unat (entry_num_logical_cpu (tab ! k)) \<le> length seen \<and>
        (entry_num_logical_cpu (tab ! k) = 0 \<longleftrightarrow> k \<notin> slot ` set seen) \<and>
        (k \<notin> slot ` set seen \<longrightarrow> entry_id (tab ! k) = 0)))"

lemma table_of_empty: "table_of [] (replicate 256 entry_zero, 0)"
  by (simp add: table_of_def entry_zero_def)

lemma count_instance_step:
  assumes t: "table_of seen (tab, n)" and pos: "\<not> bit i 31" and len: "length seen < 65535"
  shows "\<exists>s. count_instance i (tab, n) = Some s \<and> table_of (i # seen) s"
proof -
  have idx: "unat (word_of_int (sint i smod 256) :: u32) = slot i"
    using index_slot [of i] pos by (simp add: htable_index_def)
  have l: "length tab = 256" and n: "n = of_nat (card (slot ` set seen))" using t by (simp_all add: table_of_def)
  define e where "e = tab ! slot i"
  have e: "unat (entry_num_logical_cpu e) \<le> length seen"
      "entry_num_logical_cpu e = 0 \<longleftrightarrow> slot i \<notin> slot ` set seen"
      "slot i \<notin> slot ` set seen \<Longrightarrow> entry_id e = 0"
    using t by (simp_all add: table_of_def e_def)
  have inc: "unat (entry_num_logical_cpu e + 1) = unat (entry_num_logical_cpu e) + 1"
    using e(1) len by (simp add: unat_word_ariths)
  then have nz: "entry_num_logical_cpu e + 1 \<noteq> 0" by (metis Suc_eq_plus1 nat.distinct(1) unsigned_0)
  show ?thesis
  proof (cases "entry_id e = 0 \<or> entry_id e = i")
    case True
    let ?tab = "tab[slot i := \<lparr>entry_num_logical_cpu = entry_num_logical_cpu e + 1, entry_id = i\<rparr>]"
    have "count_instance i (tab, n) = Some (?tab, if entry_num_logical_cpu e = 0 then n + 1 else n)"
      using True l unfolding count_instance_def by (simp add: idx e_def Let_def not_le)
    moreover have "table_of (i # seen) (?tab, if entry_num_logical_cpu e = 0 then n + 1 else n)"
    proof -
      have "(if entry_num_logical_cpu e = 0 then n + 1 else n) = of_nat (card (slot ` set (i # seen)))"
        using e(2) by (simp add: n card_insert_if add.commute)
      moreover have "unat (entry_num_logical_cpu (?tab ! k)) \<le> length (i # seen) \<and>
          (entry_num_logical_cpu (?tab ! k) = 0 \<longleftrightarrow> k \<notin> slot ` set (i # seen)) \<and>
          (k \<notin> slot ` set (i # seen) \<longrightarrow> entry_id (?tab ! k) = 0)" if "k < 256" for k
        using t that l nz inc e(1)
        by (cases "k = slot i") (auto simp: table_of_def nth_list_update)
      ultimately show ?thesis using l by (simp only: table_of_def) simp
    qed
    ultimately show ?thesis by blast
  next
    case False
    then have "count_instance i (tab, n) = Some (tab, n)"
      using l unfolding count_instance_def by (simp add: idx e_def Let_def not_le)
    moreover have "slot i \<in> slot ` set seen" using e(3) False by blast
    then have "table_of (i # seen) (tab, n)"
      using t by (auto simp: table_of_def insert_absorb le_SucI)
    ultimately show ?thesis by blast
  qed
qed

lemma count_all_table:
  assumes "\<forall>i \<in> set ids. \<not> bit i 31" and "length seen + length ids < 65536" and "table_of seen s"
  shows "\<exists>s'. count_all ids s = Some s' \<and> table_of (rev ids @ seen) s'"
  using assms
proof (induction ids arbitrary: seen s)
  case Nil
  then show ?case by simp
next
  case (Cons i ids)
  obtain tab n where s: "s = (tab, n)" by (cases s)
  obtain s1 where s1: "count_instance i s = Some s1" "table_of (i # seen) s1"
    using count_instance_step [of seen tab n i] Cons.prems s by auto
  obtain s' where "count_all ids s1 = Some s'" "table_of (rev ids @ i # seen) s'"
    using Cons.IH [of "i # seen" s1] Cons.prems s1 by auto
  with s1 show ?case by simp
qed

lemma count_all_from_empty:
  assumes "\<forall>i \<in> set ids. \<not> bit i 31" and "length ids < 65536"
  shows "\<exists>tab. count_all ids (replicate 256 entry_zero, 0) =
    Some (tab, of_nat (card (slot ` set ids))) \<and> length tab = 256"
  using count_all_table [OF assms(1), of "[]" "(replicate 256 entry_zero, 0)"] assms(2) table_of_empty
  by (auto simp: table_of_def)

fun update_cores ::
    "internal_core_instances_t \<Rightarrow> internal_topology_t list \<Rightarrow> internal_core_instances_t option" where
  "update_cores cores [] = Some cores"
| "update_cores cores (t # ts) = do { cores \<leftarrow> update_core_instances cores t; update_cores cores ts }"

lemma update_cores_count_all:
  "update_cores cores ts = map_option (\<lambda>(tab, n). cores\<lparr>core_htable := tab, core_count := n\<rparr>)
     (count_all (map core_id ts) (core_htable cores, core_count cores))"
proof (induction ts arbitrary: cores)
  case Nil
  then show ?case by simp
next
  case (Cons t ts)
  then show ?case
    by (cases "count_instance (core_id t) (core_htable cores, core_count cores)")
      (auto simp: update_core_instances_def comp_def split: option.splits)
qed

text \<open>
  C34: counting the cores of fewer than 65536 processors whose core ids are not negative gives the
  number of different core ids modulo 256, itself modulo 256, whatever the order of the
  processors: at most the number of cores, and less whenever two ids have the same slot.
\<close>

theorem update_core_instances_count:
  assumes "\<forall>t \<in> set ts. \<not> bit (core_id t) 31" and "length ts < 65536"
  shows "\<exists>c. update_cores core_instances_t_constructor ts = Some c \<and>
    unat (core_count c) = card ((\<lambda>t. unat (core_id t) mod 256) ` set ts) mod 256 \<and>
    unat (core_count c) \<le> card (core_id ` set ts)"
proof -
  have ids: "(\<lambda>t. unat (core_id t) mod 256) ` set ts = slot ` set (map core_id ts)"
    by (auto simp: slot_def)
  obtain tab where tab: "count_all (map core_id ts) (replicate 256 entry_zero, 0) =
      Some (tab, of_nat (card (slot ` set (map core_id ts))))"
    using count_all_from_empty [of "map core_id ts"] assms by auto
  have "card (slot ` set (map core_id ts)) mod 256 \<le> card (slot ` set (map core_id ts))" by simp
  also have "\<dots> \<le> card (set (map core_id ts))" by (rule card_image_le) simp
  finally have le: "card (slot ` set (map core_id ts)) mod 256 \<le> card (core_id ` set ts)" by simp
  have "unat (of_nat (card (slot ` set (map core_id ts))) :: u8) =
      card (slot ` set (map core_id ts)) mod 256"
    by (simp only: unsigned_of_nat take_bit_eq_mod) simp
  then show ?thesis
    using tab le ids by (auto simp: update_cores_count_all core_instances_t_constructor_def)
qed

text \<open>Two cores with the ids 0 and 256 count as one.\<close>

theorem update_core_instances_count_witness:
  "\<exists>c. update_cores core_instances_t_constructor
      [(topology_t_constructor 0)\<lparr>core_id := 0\<rparr>, (topology_t_constructor 1)\<lparr>core_id := 256\<rparr>] = Some c \<and>
    unat (core_count c) = 1"
  using update_core_instances_count [of
      "[(topology_t_constructor 0)\<lparr>core_id := 0\<rparr>, (topology_t_constructor 1)\<lparr>core_id := 256\<rparr>]"]
  by auto

text \<open>
  the update leaves the table exactly when the core id is negative and no multiple of 256, as
  is the id -1 of a processor for which no core level was found.
\<close>

theorem update_core_instances_undefined:
  assumes "length (core_htable cores) = CORES_HTABLE_SIZE"
  shows "update_core_instances cores topology = None \<longleftrightarrow>
    bit (core_id topology) 31 \<and> unat (core_id topology) mod 256 \<noteq> 0"
proof -
  have "count_instance (core_id topology) (core_htable cores, core_count cores) = None \<longleftrightarrow>
      256 \<le> htable_index (core_id topology)"
    using assms by (simp add: count_instance_def htable_index_def Let_def)
  moreover have "256 \<le> htable_index (core_id topology) \<longleftrightarrow>
      bit (core_id topology) 31 \<and> slot (core_id topology) \<noteq> 0"
    using index_slot [of "core_id topology"] by (auto simp: not_le)
  ultimately show ?thesis by (simp add: update_core_instances_def slot_def)
qed

theorem update_core_instances_undefined_witness:
  "update_core_instances core_instances_t_constructor (topology_t_constructor 0) = None"
proof -
  have "unat (-1 :: u32) mod 256 = 255" by (simp add: unsigned_minus_1_eq_mask mask_eq_exp_minus_1)
  then show ?thesis
    using update_core_instances_undefined [of core_instances_t_constructor "topology_t_constructor 0"]
    by (simp add: core_instances_t_constructor_def topology_t_constructor_def)
qed

end
