(* ===== verification/Arm_Tables.thy ===== *)
theory Arm_Tables
  imports Cpuid_Types
begin

text \<open>
  The tables of \<^verbatim>\<open>recog_arm.c\<close>, row by row: the part numbers of each implementer, the list of
  implementers, and the table of features with the ID register fields that announce them. The
  features come in pieces of at most 150 source lines, cut between two entries.
\<close>

section \<open>Implementers and parts\<close>

text \<open>A row with a negative id ends a table; it holds what is reported for an unknown id.\<close>

record arm_id_part =
  part_id :: int
  part_name :: string
  part_codename :: string
  part_technology :: string

record arm_hw_impl =
  hw_id :: int
  hw_vendor :: cpu_vendor_t
  hw_parts :: "arm_id_part list"
  hw_name :: string

abbreviation (input) arm_row :: "int \<Rightarrow> string \<Rightarrow> string \<Rightarrow> string \<Rightarrow> arm_id_part" where
  "arm_row i n c t \<equiv> \<lparr>part_id = i, part_name = n, part_codename = c, part_technology = t\<rparr>"

abbreviation (input) impl_row :: "int \<Rightarrow> cpu_vendor_t \<Rightarrow> arm_id_part list \<Rightarrow> string \<Rightarrow> arm_hw_impl" where
  "impl_row i v ps n \<equiv> \<lparr>hw_id = i, hw_vendor = v, hw_parts = ps, hw_name = n\<rparr>"

definition arm_part :: "arm_id_part list" where
  "arm_part = [
     arm_row 0x810 ''ARM810'' UNKN_STR UNKN_STR,
     arm_row 0x920 ''ARM920'' UNKN_STR UNKN_STR,
     arm_row 0x922 ''ARM922'' UNKN_STR UNKN_STR,
     arm_row 0x926 ''ARM926'' UNKN_STR UNKN_STR,
     arm_row 0x940 ''ARM940'' UNKN_STR UNKN_STR,
     arm_row 0x946 ''ARM946'' UNKN_STR UNKN_STR,
     arm_row 0x966 ''ARM966'' UNKN_STR UNKN_STR,
     arm_row 0xa20 ''ARM1020'' UNKN_STR UNKN_STR,
     arm_row 0xa22 ''ARM1022'' UNKN_STR UNKN_STR,
     arm_row 0xa26 ''ARM1026'' UNKN_STR UNKN_STR,
     arm_row 0xb02 ''ARM11 MPCore'' UNKN_STR UNKN_STR,
     arm_row 0xb36 ''ARM1136'' UNKN_STR UNKN_STR,
     arm_row 0xb56 ''ARM1156'' UNKN_STR UNKN_STR,
     arm_row 0xb76 ''ARM1176'' UNKN_STR UNKN_STR,
     arm_row 0xc05 ''Cortex-A5'' ''Sparrow'' ''40-28 nm'',
     arm_row 0xc07 ''Cortex-A7'' ''Kingfisher'' ''40-28 nm'',
     arm_row 0xc08 ''Cortex-A8'' ''Tiger'' ''65-45 nm'',
     arm_row 0xc09 ''Cortex-A9'' ''Falcon'' ''65-28 nm'',
     arm_row 0xc0d ''Cortex-A17'' ''Owl'' ''28 nm'',
     arm_row 0xc0f ''Cortex-A15'' ''Eagle'' ''32-20 nm'',
     arm_row 0xc0e ''Cortex-A17'' ''Owl'' ''28 nm'',
     arm_row 0xc14 ''Cortex-R4'' UNKN_STR UNKN_STR,
     arm_row 0xc15 ''Cortex-R5'' UNKN_STR UNKN_STR,
     arm_row 0xc17 ''Cortex-R7'' UNKN_STR UNKN_STR,
     arm_row 0xc18 ''Cortex-R8'' UNKN_STR UNKN_STR,
     arm_row 0xc20 ''Cortex-M0'' ''Swift'' UNKN_STR,
     arm_row 0xc21 ''Cortex-M1'' ''Proteus'' UNKN_STR,
     arm_row 0xc23 ''Cortex-M3'' ''Sandcat'' UNKN_STR,
     arm_row 0xc24 ''Cortex-M4'' ''Merlin'' UNKN_STR,
     arm_row 0xc27 ''Cortex-M7'' ''Pelican'' UNKN_STR,
     arm_row 0xc60 ''Cortex-M0+'' ''Flycatcher'' UNKN_STR,
     arm_row 0xd01 ''Cortex-A32'' ''Minerva'' ''28 nm'',
     arm_row 0xd02 ''Cortex-A34'' ''Metis'' UNKN_STR,
     arm_row 0xd03 ''Cortex-A53'' ''Apollo'' ''28-10 nm'',
     arm_row 0xd04 ''Cortex-A35'' ''Mercury'' ''28-10 nm'',
     arm_row 0xd05 ''Cortex-A55'' ''Ananke'' ''28-5 nm'',
     arm_row 0xd06 ''Cortex-A65'' ''Helios'' UNKN_STR,
     arm_row 0xd07 ''Cortex-A57'' ''Atlas'' ''28-14 nm'',
     arm_row 0xd08 ''Cortex-A72'' ''Maia'' ''28-16 nm'',
     arm_row 0xd09 ''Cortex-A73'' ''Artemis'' ''28-10 nm'',
     arm_row 0xd0a ''Cortex-A75'' ''Prometheus'' ''28-10 nm'',
     arm_row 0xd0b ''Cortex-A76'' ''Enyo'' ''10-7 nm'',
     arm_row 0xd0c ''Neoverse-N1'' ''Ares'' ''7 nm'',
     arm_row 0xd0d ''Cortex-A77'' ''Deimos'' ''7 nm'',
     arm_row 0xd0e ''Cortex-A76AE'' ''Enyo-AE'' UNKN_STR,
     arm_row 0xd13 ''Cortex-R52'' UNKN_STR UNKN_STR,
     arm_row 0xd15 ''Cortex-R82'' UNKN_STR UNKN_STR,
     arm_row 0xd16 ''Cortex-R52+'' UNKN_STR UNKN_STR,
     arm_row 0xd20 ''Cortex-M23'' ''Grebe'' UNKN_STR,
     arm_row 0xd21 ''Cortex-M33'' ''Teal'' UNKN_STR,
     arm_row 0xd22 ''Cortex-M55'' ''Yamin'' UNKN_STR,
     arm_row 0xd23 ''Cortex-M85'' UNKN_STR UNKN_STR,
     arm_row 0xd40 ''Neoverse-V1'' ''Zeus'' ''7 nm'',
     arm_row 0xd41 ''Cortex-A78'' ''Hercules'' ''5 nm'',
     arm_row 0xd42 ''Cortex-A78AE'' ''Hercules-AE'' UNKN_STR,
     arm_row 0xd43 ''Cortex-A65AE'' ''Helios-AE'' UNKN_STR,
     arm_row 0xd44 ''Cortex-X1'' ''Hera'' ''10-5 nm'',
     arm_row 0xd46 ''Cortex-A510'' ''Klein'' ''7-5 nm'',
     arm_row 0xd47 ''Cortex-A710'' ''Matterhorn'' ''7-5 nm'',
     arm_row 0xd48 ''Cortex-X2'' ''Matterhorn ELP'' UNKN_STR,
     arm_row 0xd49 ''Neoverse-N2'' ''Perseus'' ''5 nm'',
     arm_row 0xd4a ''Neoverse-E1'' ''Helios'' UNKN_STR,
     arm_row 0xd4b ''Cortex-A78C'' ''Hercules-C'' ''5 nm'',
     arm_row 0xd4c ''Cortex-X1C'' ''Hera-C'' UNKN_STR,
     arm_row 0xd4d ''Cortex-A715'' ''Makalu'' ''7-5 nm'',
     arm_row 0xd4e ''Cortex-X3'' ''Makalu ELP'' UNKN_STR,
     arm_row 0xd4f ''Neoverse-V2'' ''Demeter'' UNKN_STR,
     arm_row 0xd80 ''Cortex-A520'' ''Hayes'' ''3 nm'',
     arm_row 0xd81 ''Cortex-A720'' ''Hunter'' ''3 nm'',
     arm_row 0xd82 ''Cortex-X4'' ''Hunter ELP'' UNKN_STR,
     arm_row 0xd83 ''Neoverse-V3AE'' ''Autonome'' UNKN_STR,
     arm_row 0xd84 ''Neoverse-V3'' ''Poseidon'' UNKN_STR,
     arm_row 0xd85 ''Cortex-X925'' ''Blackhawk'' ''3 nm'',
     arm_row 0xd87 ''Cortex-A725'' ''Chaberton'' ''3 nm'',
     arm_row 0xd88 ''Cortex-A520AE'' ''Hayes-AE'' ''3 nm'',
     arm_row 0xd89 ''Cortex-A720AE'' ''Hunter-AE'' ''3 nm'',
     arm_row 0xd8e ''Neoverse-N3'' ''Hermes'' ''5 nm'',
     arm_row 0xd8f ''Cortex-A320'' ''IoT & AI'' UNKN_STR,
     arm_row (-1) UNKN_STR UNKN_STR UNKN_STR]"

definition brcm_part :: "arm_id_part list" where
  "brcm_part = [
     arm_row 0x0f ''Brahma-B15'' UNKN_STR UNKN_STR,
     arm_row 0x100 ''Brahma-B53'' UNKN_STR UNKN_STR,
     arm_row 0x516 ''ThunderX2'' UNKN_STR UNKN_STR,
     arm_row (-1) UNKN_STR UNKN_STR UNKN_STR]"

definition dec_part :: "arm_id_part list" where
  "dec_part = [
     arm_row 0xa10 ''SA110'' UNKN_STR UNKN_STR,
     arm_row 0xa11 ''SA1100'' UNKN_STR UNKN_STR,
     arm_row (-1) UNKN_STR UNKN_STR UNKN_STR]"

definition cavium_part :: "arm_id_part list" where
  "cavium_part = [
     arm_row 0x0a0 ''ThunderX'' UNKN_STR UNKN_STR,
     arm_row 0x0a1 ''ThunderX-88XX'' UNKN_STR UNKN_STR,
     arm_row 0x0a2 ''ThunderX-81XX'' UNKN_STR UNKN_STR,
     arm_row 0x0a3 ''ThunderX-83XX'' UNKN_STR UNKN_STR,
     arm_row 0x0af ''ThunderX2-99xx'' UNKN_STR UNKN_STR,
     arm_row 0x0b0 ''OcteonTX2'' UNKN_STR UNKN_STR,
     arm_row 0x0b1 ''OcteonTX2-98XX'' UNKN_STR UNKN_STR,
     arm_row 0x0b2 ''OcteonTX2-96XX'' UNKN_STR UNKN_STR,
     arm_row 0x0b3 ''OcteonTX2-95XX'' UNKN_STR UNKN_STR,
     arm_row 0x0b4 ''OcteonTX2-95XXN'' UNKN_STR UNKN_STR,
     arm_row 0x0b5 ''OcteonTX2-95XXMM'' UNKN_STR UNKN_STR,
     arm_row 0x0b6 ''OcteonTX2-95XXO'' UNKN_STR UNKN_STR,
     arm_row 0x0b8 ''ThunderX3-T110'' UNKN_STR UNKN_STR,
     arm_row (-1) UNKN_STR UNKN_STR UNKN_STR]"

definition apm_part :: "arm_id_part list" where
  "apm_part = [
     arm_row 0x000 ''X-Gene'' UNKN_STR UNKN_STR,
     arm_row (-1) UNKN_STR UNKN_STR UNKN_STR]"

definition qcom_part :: "arm_id_part list" where
  "qcom_part = [
     arm_row 0x001 ''Oryon'' UNKN_STR UNKN_STR,
     arm_row 0x00f ''Scorpion'' UNKN_STR ''65-45 nm'',
     arm_row 0x02d ''Scorpion'' UNKN_STR ''65-45 nm'',
     arm_row 0x04d ''Krait'' UNKN_STR ''28 nm'',
     arm_row 0x06f ''Krait'' UNKN_STR ''28 nm'',
     arm_row 0x201 ''Kryo'' UNKN_STR ''14 nm'',
     arm_row 0x205 ''Kryo'' UNKN_STR ''14 nm'',
     arm_row 0x211 ''Kryo'' UNKN_STR ''14 nm'',
     arm_row 0x800 ''Falkor-V1/Kryo'' UNKN_STR UNKN_STR,
     arm_row 0x801 ''Kryo-V2'' UNKN_STR ''14-6 nm'',
     arm_row 0x802 ''Kryo-3XX-Gold'' UNKN_STR ''10 nm'',
     arm_row 0x803 ''Kryo-3XX-Silver'' UNKN_STR ''10 nm'',
     arm_row 0x804 ''Kryo-4XX-Gold'' UNKN_STR ''11-7 nm'',
     arm_row 0x805 ''Kryo-4XX-Silver'' UNKN_STR ''8-7 nm'',
     arm_row 0xc00 ''Falkor'' UNKN_STR ''10 nm'',
     arm_row 0xc01 ''Saphira'' UNKN_STR ''8-7 nm'',
     arm_row (-1) UNKN_STR UNKN_STR UNKN_STR]"

definition samsung_part :: "arm_id_part list" where
  "samsung_part = [
     arm_row 0x001 ''Exynos M1'' UNKN_STR ''14 nm'',
     arm_row 0x002 ''Exynos M3'' UNKN_STR ''10 nm'',
     arm_row 0x003 ''Exynos M4'' UNKN_STR ''8 nm'',
     arm_row 0x004 ''Exynos M5'' UNKN_STR ''7 nm'',
     arm_row (-1) UNKN_STR UNKN_STR UNKN_STR]"

definition nvidia_part :: "arm_id_part list" where
  "nvidia_part = [
     arm_row 0x000 ''Denver'' UNKN_STR ''28 nm'',
     arm_row 0x003 ''Denver 2'' UNKN_STR ''16 nm'',
     arm_row 0x004 ''Carmel'' UNKN_STR ''12 nm'',
     arm_row (-1) UNKN_STR UNKN_STR UNKN_STR]"

definition marvell_part :: "arm_id_part list" where
  "marvell_part = [
     arm_row 0x131 ''Feroceon-88FR131'' UNKN_STR UNKN_STR,
     arm_row 0x581 ''PJ4/PJ4b'' UNKN_STR UNKN_STR,
     arm_row 0x584 ''PJ4B-MP'' UNKN_STR UNKN_STR,
     arm_row (-1) UNKN_STR UNKN_STR UNKN_STR]"

definition apple_part :: "arm_id_part list" where
  "apple_part = [
     arm_row 0x000 ''A6'' ''Swift'' ''32 nm'',
     arm_row 0x001 ''A7'' ''Cyclone'' ''28 nm'',
     arm_row 0x002 ''A8'' ''Typhoon'' ''20 nm'',
     arm_row 0x003 ''A8X'' ''Typhoon'' ''20 nm'',
     arm_row 0x004 ''A9'' ''Twister'' ''16 nm'',
     arm_row 0x005 ''A9X'' ''Twister'' ''16 nm'',
     arm_row 0x006 ''A10 Fusion'' ''Zephyr'' ''16 nm'',
     arm_row 0x007 ''A10 Fusion'' ''Hurricane'' ''16 nm'',
     arm_row 0x008 ''A11 Bionic'' ''Monsoon'' ''10 nm'',
     arm_row 0x009 ''A11 Bionic'' ''Mistral'' ''10 nm'',
     arm_row 0x00b ''A12'' ''Vortex'' ''TSMC N7'',
     arm_row 0x00c ''A12'' ''Tempest'' ''TSMC N7'',
     arm_row 0x00f ''M9'' ''Tempest'' ''TSMC N7'',
     arm_row 0x010 ''A12X Bionic'' ''Vortex'' ''TSMC N7'',
     arm_row 0x011 ''A12X Bionic'' ''Tempest'' ''TSMC N7'',
     arm_row 0x012 ''A13 Bionic'' ''Lightning'' ''TSMC N7P'',
     arm_row 0x013 ''A13 Bionic'' ''Thunder'' ''TSMC N7P'',
     arm_row 0x020 ''A14'' ''Icestorm'' ''TSMC N5'',
     arm_row 0x021 ''A14'' ''Firestorm'' ''TSMC N5'',
     arm_row 0x022 ''M1'' ''Icestorm'' ''TSMC N5'',
     arm_row 0x023 ''M1'' ''Firestorm'' ''TSMC N5'',
     arm_row 0x024 ''M1 Pro'' ''Icestorm'' ''TSMC N5'',
     arm_row 0x025 ''M1 Pro'' ''Firestorm'' ''TSMC N5'',
     arm_row 0x026 ''M10'' ''Thunder'' ''TSMC N7P'',
     arm_row 0x028 ''M1 Max'' ''Icestorm'' ''TSMC N5'',
     arm_row 0x029 ''M1 Max'' ''Firestorm'' ''TSMC N5'',
     arm_row 0x030 ''A15'' ''Blizzard'' ''TSMC N5P'',
     arm_row 0x031 ''A15'' ''Avalanche'' ''TSMC N5P'',
     arm_row 0x032 ''M2'' ''Blizzard'' ''TSMC N5P'',
     arm_row 0x033 ''M2'' ''Avalanche'' ''TSMC N5P'',
     arm_row 0x034 ''M2 Pro'' ''Blizzard'' ''TSMC N5P'',
     arm_row 0x035 ''M2 Pro'' ''Avalanche'' ''TSMC N5P'',
     arm_row 0x036 ''A16'' ''Sawtooth'' ''TSMC N4P'',
     arm_row 0x037 ''A16'' ''Everest'' ''TSMC N4P'',
     arm_row 0x038 ''M2 Max'' ''Blizzard'' ''TSMC N5P'',
     arm_row 0x039 ''M2 Max'' ''Avalanche'' ''TSMC N5P'',
     arm_row (-1) UNKN_STR UNKN_STR UNKN_STR]"

definition faraday_part :: "arm_id_part list" where
  "faraday_part = [
     arm_row 0x526 ''FA526'' UNKN_STR UNKN_STR,
     arm_row 0x626 ''FA626'' UNKN_STR UNKN_STR,
     arm_row (-1) UNKN_STR UNKN_STR UNKN_STR]"

definition intel_part :: "arm_id_part list" where
  "intel_part = [
     arm_row 0x200 ''i80200'' UNKN_STR UNKN_STR,
     arm_row 0x210 ''PXA250A'' UNKN_STR UNKN_STR,
     arm_row 0x212 ''PXA210A'' UNKN_STR UNKN_STR,
     arm_row 0x242 ''i80321-400'' UNKN_STR UNKN_STR,
     arm_row 0x243 ''i80321-600'' UNKN_STR UNKN_STR,
     arm_row 0x290 ''PXA250B/PXA26x'' UNKN_STR UNKN_STR,
     arm_row 0x292 ''PXA210B'' UNKN_STR UNKN_STR,
     arm_row 0x2c2 ''i80321-400-B0'' UNKN_STR UNKN_STR,
     arm_row 0x2c3 ''i80321-600-B0'' UNKN_STR UNKN_STR,
     arm_row 0x2d0 ''PXA250C/PXA255/PXA26x'' UNKN_STR UNKN_STR,
     arm_row 0x2d2 ''PXA210C'' UNKN_STR UNKN_STR,
     arm_row 0x411 ''PXA27x'' UNKN_STR UNKN_STR,
     arm_row 0x41c ''IPX425-533'' UNKN_STR UNKN_STR,
     arm_row 0x41d ''IPX425-400'' UNKN_STR UNKN_STR,
     arm_row 0x41f ''IPX425-266'' UNKN_STR UNKN_STR,
     arm_row 0x682 ''PXA32x'' UNKN_STR UNKN_STR,
     arm_row 0x683 ''PXA930/PXA935'' UNKN_STR UNKN_STR,
     arm_row 0x688 ''PXA30x'' UNKN_STR UNKN_STR,
     arm_row 0x689 ''PXA31x'' UNKN_STR UNKN_STR,
     arm_row 0xb11 ''SA1110'' UNKN_STR UNKN_STR,
     arm_row 0xc12 ''IPX1200'' UNKN_STR UNKN_STR,
     arm_row (-1) UNKN_STR UNKN_STR UNKN_STR]"

definition fujitsu_part :: "arm_id_part list" where
  "fujitsu_part = [
     arm_row 0x001 ''A64FX'' UNKN_STR ''7 nm'',
     arm_row 0x003 ''MONAKA'' UNKN_STR ''2 nm'',
     arm_row (-1) UNKN_STR UNKN_STR UNKN_STR]"

definition hisi_part :: "arm_id_part list" where
  "hisi_part = [
     arm_row 0xd01 ''TaiShan-v110'' UNKN_STR UNKN_STR,
     arm_row 0xd02 ''TaiShan-v120'' UNKN_STR UNKN_STR,
     arm_row 0xd40 ''Cortex-A76'' UNKN_STR UNKN_STR,
     arm_row 0xd41 ''Cortex-A77'' UNKN_STR UNKN_STR,
     arm_row (-1) UNKN_STR UNKN_STR UNKN_STR]"

definition ampere_part :: "arm_id_part list" where
  "ampere_part = [
     arm_row 0xac3 ''Ampere-1'' UNKN_STR UNKN_STR,
     arm_row 0xac4 ''Ampere-1a'' UNKN_STR UNKN_STR,
     arm_row (-1) UNKN_STR UNKN_STR UNKN_STR]"

definition ft_part :: "arm_id_part list" where
  "ft_part = [
     arm_row 0x303 ''FTC310'' UNKN_STR UNKN_STR,
     arm_row 0x660 ''FTC660'' UNKN_STR UNKN_STR,
     arm_row 0x661 ''FTC661'' UNKN_STR UNKN_STR,
     arm_row 0x662 ''FTC662'' UNKN_STR UNKN_STR,
     arm_row 0x663 ''FTC663'' UNKN_STR UNKN_STR,
     arm_row 0x664 ''FTC664'' UNKN_STR UNKN_STR,
     arm_row 0x862 ''FTC862'' UNKN_STR UNKN_STR,
     arm_row (-1) UNKN_STR UNKN_STR UNKN_STR]"

definition ms_part :: "arm_id_part list" where
  "ms_part = [
     arm_row 0xd49 ''Azure-Cobalt-100'' UNKN_STR UNKN_STR,
     arm_row (-1) UNKN_STR UNKN_STR UNKN_STR]"

definition unknown_part :: "arm_id_part list" where
  "unknown_part = [
     arm_row (-1) UNKN_STR UNKN_STR UNKN_STR]"

definition hw_implementer :: "arm_hw_impl list" where
  "hw_implementer = [
     impl_row 0x41 VENDOR_ARM arm_part ''ARM'',
     impl_row 0x42 VENDOR_BROADCOM brcm_part ''Broadcom'',
     impl_row 0x43 VENDOR_CAVIUM cavium_part ''Cavium'',
     impl_row 0x44 VENDOR_DEC dec_part ''DEC'',
     impl_row 0x46 VENDOR_FUJITSU fujitsu_part ''FUJITSU'',
     impl_row 0x48 VENDOR_HISILICON hisi_part ''HiSilicon'',
     impl_row 0x49 VENDOR_INFINEON unknown_part ''Infineon'',
     impl_row 0x4d VENDOR_FREESCALE unknown_part ''Motorola/Freescale'',
     impl_row 0x4e VENDOR_NVIDIA nvidia_part ''NVIDIA'',
     impl_row 0x50 VENDOR_APM apm_part ''APM'',
     impl_row 0x51 VENDOR_QUALCOMM qcom_part ''Qualcomm'',
     impl_row 0x53 VENDOR_SAMSUNG samsung_part ''Samsung'',
     impl_row 0x56 VENDOR_MARVELL marvell_part ''Marvell'',
     impl_row 0x61 VENDOR_APPLE apple_part ''Apple'',
     impl_row 0x66 VENDOR_FARADAY faraday_part ''Faraday'',
     impl_row 0x69 VENDOR_INTEL intel_part ''Intel'',
     impl_row 0x6d VENDOR_MICROSOFT ms_part ''Microsoft'',
     impl_row 0x70 VENDOR_PHYTIUM ft_part ''Phytium'',
     impl_row 0xc0 VENDOR_AMPERE ampere_part ''Ampere'',
     impl_row (-1) VENDOR_UNKNOWN unknown_part UNKN_STR]"

section \<open>Features\<close>

text \<open>The ID registers of \<^verbatim>\<open>cpu_raw_data_t\<close> that the table points to, with their index.\<close>

datatype arm_reg32 = ID_DFR nat | ID_ISAR nat | ID_MMFR nat | ID_PFR nat

datatype arm_reg64 =
    ID_AA64DFR nat | ID_AA64FPFR nat | ID_AA64ISAR nat | ID_AA64MMFR nat | ID_AA64PFR nat
  | ID_AA64SMFR nat | ID_AA64ZFR nat

record arm_feature_field_t =
  aarch32_reg :: "arm_reg32 option"
  aarch64_reg :: "arm_reg64 option"
  highbit :: nat
  lowbit :: nat
  field_value :: u8

text \<open>
  The fields of a feature stop at the sentinel, a field with two null registers. A version of -1
  is \<^const>\<open>FEATURE_LEVEL_UNKNOWN\<close>.
\<close>

record arm_feature_map_t =
  ver_optional :: cpu_feature_level_t
  ver_mandatory :: cpu_feature_level_t
  map_fields :: "arm_feature_field_t list"

abbreviation (input) MAX_IDENTIFY_FIELDS :: nat where "MAX_IDENTIFY_FIELDS \<equiv> 6"

abbreviation (input) f32 :: "arm_reg32 \<Rightarrow> nat \<Rightarrow> nat \<Rightarrow> u8 \<Rightarrow> arm_feature_field_t" where
  "f32 r h l v \<equiv> \<lparr>aarch32_reg = Some r, aarch64_reg = None, highbit = h, lowbit = l, field_value = v\<rparr>"

abbreviation (input) f64 :: "arm_reg64 \<Rightarrow> nat \<Rightarrow> nat \<Rightarrow> u8 \<Rightarrow> arm_feature_field_t" where
  "f64 r h l v \<equiv> \<lparr>aarch32_reg = None, aarch64_reg = Some r, highbit = h, lowbit = l, field_value = v\<rparr>"

abbreviation (input) fboth :: "arm_reg32 \<Rightarrow> arm_reg64 \<Rightarrow> nat \<Rightarrow> nat \<Rightarrow> u8 \<Rightarrow> arm_feature_field_t" where
  "fboth r q h l v \<equiv>
     \<lparr>aarch32_reg = Some r, aarch64_reg = Some q, highbit = h, lowbit = l, field_value = v\<rparr>"

abbreviation (input) fmap ::
    "cpu_feature_t \<Rightarrow> cpu_feature_level_t \<Rightarrow> cpu_feature_level_t \<Rightarrow> arm_feature_field_t list \<Rightarrow>
      cpu_feature_t \<times> arm_feature_map_t" where
  "fmap f opt man fs \<equiv> (f, \<lparr>ver_optional = opt, ver_mandatory = man, map_fields = fs\<rparr>)"

definition arm_features_1 :: "(cpu_feature_t \<times> arm_feature_map_t) list" where
  "arm_features_1 = [
     fmap CPU_FEATURE_SWAP FEATURE_LEVEL_UNKNOWN FEATURE_LEVEL_UNKNOWN
       [f32 (ID_ISAR 0) 3 0 1],
     fmap CPU_FEATURE_THUMB FEATURE_LEVEL_UNKNOWN FEATURE_LEVEL_UNKNOWN
       [f32 (ID_PFR 0) 7 4 1],
     fmap CPU_FEATURE_ADVMULTU FEATURE_LEVEL_UNKNOWN FEATURE_LEVEL_UNKNOWN
       [f32 (ID_ISAR 2) 23 20 1,
        f32 (ID_ISAR 2) 23 20 2],
     fmap CPU_FEATURE_ADVMULTS FEATURE_LEVEL_UNKNOWN FEATURE_LEVEL_UNKNOWN
       [f32 (ID_ISAR 2) 19 16 1,
        f32 (ID_ISAR 2) 19 16 2,
        f32 (ID_ISAR 2) 19 16 3],
     fmap CPU_FEATURE_JAZELLE FEATURE_LEVEL_UNKNOWN FEATURE_LEVEL_UNKNOWN
       [f32 (ID_PFR 0) 11 8 1,
        f32 (ID_PFR 0) 11 8 2],
     fmap CPU_FEATURE_DEBUGV6 FEATURE_LEVEL_ARM_V6 FEATURE_LEVEL_UNKNOWN
       [f32 (ID_DFR 0) 3 0 2],
     fmap CPU_FEATURE_DEBUGV6P1 FEATURE_LEVEL_ARM_V6 FEATURE_LEVEL_UNKNOWN
       [f32 (ID_DFR 0) 3 0 3],
     fmap CPU_FEATURE_THUMB2 FEATURE_LEVEL_ARM_V6 FEATURE_LEVEL_UNKNOWN
       [f32 (ID_PFR 0) 7 4 3],
     fmap CPU_FEATURE_DEBUGV7 FEATURE_LEVEL_ARM_V7_A FEATURE_LEVEL_UNKNOWN
       [f32 (ID_DFR 0) 3 0 4],
     fmap CPU_FEATURE_DEBUGV7P1 FEATURE_LEVEL_ARM_V7_A FEATURE_LEVEL_UNKNOWN
       [f32 (ID_DFR 0) 3 0 5],
     fmap CPU_FEATURE_THUMBEE FEATURE_LEVEL_ARM_V7_A FEATURE_LEVEL_UNKNOWN
       [f32 (ID_PFR 0) 15 12 1],
     fmap CPU_FEATURE_DIVIDE FEATURE_LEVEL_ARM_V7_A FEATURE_LEVEL_UNKNOWN
       [f32 (ID_ISAR 0) 27 24 1,
        f32 (ID_ISAR 0) 27 24 2],
     fmap CPU_FEATURE_LPAE FEATURE_LEVEL_ARM_V7_A FEATURE_LEVEL_UNKNOWN
       [f32 (ID_MMFR 0) 3 0 5],
     fmap CPU_FEATURE_PMUV1 FEATURE_LEVEL_ARM_V7_A FEATURE_LEVEL_UNKNOWN
       [f32 (ID_DFR 0) 31 28 1],
     fmap CPU_FEATURE_PMUV2 FEATURE_LEVEL_ARM_V7_A FEATURE_LEVEL_UNKNOWN
       [f32 (ID_DFR 0) 31 28 2],
     fmap CPU_FEATURE_AES FEATURE_LEVEL_ARM_V8_0_A FEATURE_LEVEL_UNKNOWN
       [f64 (ID_AA64ISAR 0) 7 4 1],
     fmap CPU_FEATURE_ASID16 FEATURE_LEVEL_ARM_V8_0_A FEATURE_LEVEL_UNKNOWN
       [f64 (ID_AA64MMFR 0) 7 4 2]]"

definition arm_features_2 :: "(cpu_feature_t \<times> arm_feature_map_t) list" where
  "arm_features_2 = [
     fmap CPU_FEATURE_ADVSIMD FEATURE_LEVEL_ARM_V8_0_A FEATURE_LEVEL_UNKNOWN
       [f64 (ID_AA64PFR 0) 23 20 0,
        f64 (ID_AA64PFR 0) 23 20 1],
     fmap CPU_FEATURE_CRC32 FEATURE_LEVEL_ARM_V8_0_A FEATURE_LEVEL_ARM_V8_1_A
       [fboth (ID_ISAR 5) (ID_AA64ISAR 0) 19 16 1],
     fmap CPU_FEATURE_CSV2_1P1 FEATURE_LEVEL_ARM_V8_0_A FEATURE_LEVEL_UNKNOWN
       [f64 (ID_AA64PFR 1) 35 32 1],
     fmap CPU_FEATURE_CSV2_1P2 FEATURE_LEVEL_ARM_V8_0_A FEATURE_LEVEL_UNKNOWN
       [f64 (ID_AA64PFR 1) 35 32 2],
     fmap CPU_FEATURE_CSV2_2 FEATURE_LEVEL_ARM_V8_0_A FEATURE_LEVEL_UNKNOWN
       [f64 (ID_AA64PFR 0) 59 56 2],
     fmap CPU_FEATURE_CSV2_3 FEATURE_LEVEL_ARM_V8_0_A FEATURE_LEVEL_UNKNOWN
       [f64 (ID_AA64PFR 0) 59 56 3],
     fmap CPU_FEATURE_DOUBLELOCK FEATURE_LEVEL_ARM_V8_0_A FEATURE_LEVEL_UNKNOWN
       [f64 (ID_AA64DFR 0) 39 36 0],
     fmap CPU_FEATURE_ETS2 FEATURE_LEVEL_ARM_V8_0_A FEATURE_LEVEL_ARM_V8_8_A
       [f64 (ID_AA64MMFR 1) 39 36 2,
        f32 (ID_MMFR 5) 3 0 2],
     fmap CPU_FEATURE_FP FEATURE_LEVEL_ARM_V8_0_A FEATURE_LEVEL_UNKNOWN
       [f64 (ID_AA64PFR 0) 19 16 0],
     fmap CPU_FEATURE_MIXEDEND FEATURE_LEVEL_ARM_V8_0_A FEATURE_LEVEL_UNKNOWN
       [f64 (ID_AA64MMFR 0) 11 8 1],
     fmap CPU_FEATURE_MIXEDENDEL0 FEATURE_LEVEL_ARM_V8_0_A FEATURE_LEVEL_UNKNOWN
       [f64 (ID_AA64MMFR 0) 19 16 1],
     fmap CPU_FEATURE_PMULL FEATURE_LEVEL_ARM_V8_0_A FEATURE_LEVEL_UNKNOWN
       [f64 (ID_AA64ISAR 0) 7 4 2],
     fmap CPU_FEATURE_PMUV3 FEATURE_LEVEL_ARM_V8_0_A FEATURE_LEVEL_UNKNOWN
       [f64 (ID_AA64DFR 0) 11 8 1,
        f32 (ID_DFR 0) 27 24 3],
     fmap CPU_FEATURE_SHA1 FEATURE_LEVEL_ARM_V8_0_A FEATURE_LEVEL_UNKNOWN
       [f64 (ID_AA64ISAR 0) 11 8 1],
     fmap CPU_FEATURE_SHA256 FEATURE_LEVEL_ARM_V8_0_A FEATURE_LEVEL_UNKNOWN
       [f64 (ID_AA64ISAR 0) 15 12 1],
     fmap CPU_FEATURE_NTLBPA FEATURE_LEVEL_ARM_V8_0_A FEATURE_LEVEL_UNKNOWN
       [f64 (ID_AA64MMFR 1) 51 48 1,
        f32 (ID_MMFR 5) 7 4 1],
     fmap CPU_FEATURE_HAFDBS FEATURE_LEVEL_ARM_V8_0_A FEATURE_LEVEL_UNKNOWN
       [f64 (ID_AA64MMFR 1) 3 0 1,
        f64 (ID_AA64MMFR 1) 3 0 2]]"

definition arm_features_3 :: "(cpu_feature_t \<times> arm_feature_map_t) list" where
  "arm_features_3 = [
     fmap CPU_FEATURE_HPDS FEATURE_LEVEL_ARM_V8_0_A FEATURE_LEVEL_ARM_V8_1_A
       [f64 (ID_AA64MMFR 1) 15 12 1],
     fmap CPU_FEATURE_LOR FEATURE_LEVEL_ARM_V8_0_A FEATURE_LEVEL_ARM_V8_1_A
       [f64 (ID_AA64MMFR 1) 19 16 1],
     fmap CPU_FEATURE_LSE FEATURE_LEVEL_ARM_V8_0_A FEATURE_LEVEL_ARM_V8_1_A
       [f64 (ID_AA64ISAR 0) 23 20 2],
     fmap CPU_FEATURE_PAN FEATURE_LEVEL_ARM_V8_0_A FEATURE_LEVEL_ARM_V8_1_A
       [f64 (ID_AA64MMFR 1) 23 20 1,
        f32 (ID_MMFR 3) 19 16 1],
     fmap CPU_FEATURE_PMUV3P1 FEATURE_LEVEL_ARM_V8_1_A FEATURE_LEVEL_UNKNOWN
       [f64 (ID_AA64DFR 0) 11 8 4,
        f32 (ID_DFR 0) 27 24 4],
     fmap CPU_FEATURE_RDM FEATURE_LEVEL_ARM_V8_0_A FEATURE_LEVEL_UNKNOWN
       [f64 (ID_AA64ISAR 0) 31 28 1,
        f32 (ID_ISAR 5) 27 24 1],
     fmap CPU_FEATURE_VHE FEATURE_LEVEL_ARM_V8_0_A FEATURE_LEVEL_UNKNOWN
       [f64 (ID_AA64MMFR 1) 11 8 1,
        fboth (ID_DFR 0) (ID_AA64DFR 0) 3 0 7],
     fmap CPU_FEATURE_VMID16 FEATURE_LEVEL_ARM_V8_0_A FEATURE_LEVEL_UNKNOWN
       [f64 (ID_AA64MMFR 1) 7 4 2],
     fmap CPU_FEATURE_AA32HPD FEATURE_LEVEL_ARM_V8_1_A FEATURE_LEVEL_UNKNOWN
       [f32 (ID_MMFR 4) 19 16 1],
     fmap CPU_FEATURE_AA32I8MM FEATURE_LEVEL_ARM_V8_1_A FEATURE_LEVEL_UNKNOWN
       [f32 (ID_ISAR 6) 27 24 1],
     fmap CPU_FEATURE_DPB FEATURE_LEVEL_ARM_V8_1_A FEATURE_LEVEL_ARM_V8_2_A
       [f64 (ID_AA64ISAR 1) 3 0 1],
     fmap CPU_FEATURE_DEBUGV8P2 FEATURE_LEVEL_ARM_V8_1_A FEATURE_LEVEL_ARM_V8_2_A
       [fboth (ID_DFR 0) (ID_AA64DFR 0) 3 0 8],
     fmap CPU_FEATURE_F32MM FEATURE_LEVEL_ARM_V8_2_A FEATURE_LEVEL_UNKNOWN
       [f64 (ID_AA64ZFR 0) 55 52 1],
     fmap CPU_FEATURE_F64MM FEATURE_LEVEL_ARM_V8_2_A FEATURE_LEVEL_UNKNOWN
       [f64 (ID_AA64ZFR 0) 59 56 1],
     fmap CPU_FEATURE_FP16 FEATURE_LEVEL_ARM_V8_2_A FEATURE_LEVEL_UNKNOWN
       [f64 (ID_AA64PFR 0) 23 20 1,
        f64 (ID_AA64PFR 0) 19 16 1],
     fmap CPU_FEATURE_HPDS2 FEATURE_LEVEL_ARM_V8_1_A FEATURE_LEVEL_UNKNOWN
       [f64 (ID_AA64MMFR 1) 15 12 2,
        f32 (ID_MMFR 4) 19 16 2],
     fmap CPU_FEATURE_I8MM FEATURE_LEVEL_ARM_V8_1_A FEATURE_LEVEL_ARM_V8_6_A
       [f64 (ID_AA64ISAR 1) 55 52 1,
        f64 (ID_AA64ZFR 0) 47 44 1]]"

definition arm_features_4 :: "(cpu_feature_t \<times> arm_feature_map_t) list" where
  "arm_features_4 = [
     fmap CPU_FEATURE_IESB FEATURE_LEVEL_ARM_V8_1_A FEATURE_LEVEL_UNKNOWN
       [f64 (ID_AA64MMFR 2) 15 12 1],
     fmap CPU_FEATURE_LPA FEATURE_LEVEL_ARM_V8_1_A FEATURE_LEVEL_UNKNOWN
       [f64 (ID_AA64MMFR 0) 3 0 6],
     fmap CPU_FEATURE_LSMAOC FEATURE_LEVEL_ARM_V8_1_A FEATURE_LEVEL_UNKNOWN
       [f64 (ID_AA64MMFR 2) 11 8 1,
        f32 (ID_MMFR 4) 23 20 1],
     fmap CPU_FEATURE_LVA FEATURE_LEVEL_ARM_V8_1_A FEATURE_LEVEL_UNKNOWN
       [f64 (ID_AA64MMFR 2) 19 16 1],
     fmap CPU_FEATURE_PAN2 FEATURE_LEVEL_ARM_V8_1_A FEATURE_LEVEL_ARM_V8_2_A
       [f64 (ID_AA64MMFR 1) 23 20 2,
        f32 (ID_MMFR 3) 19 16 2],
     fmap CPU_FEATURE_RAS FEATURE_LEVEL_ARM_V8_0_A FEATURE_LEVEL_ARM_V8_2_A
       [fboth (ID_PFR 0) (ID_AA64PFR 0) 31 28 1],
     fmap CPU_FEATURE_SHA3 FEATURE_LEVEL_ARM_V8_1_A FEATURE_LEVEL_UNKNOWN
       [f64 (ID_AA64ISAR 0) 35 32 1],
     fmap CPU_FEATURE_SHA512 FEATURE_LEVEL_ARM_V8_1_A FEATURE_LEVEL_UNKNOWN
       [f64 (ID_AA64ISAR 0) 15 12 2],
     fmap CPU_FEATURE_SM3 FEATURE_LEVEL_ARM_V8_1_A FEATURE_LEVEL_UNKNOWN
       [f64 (ID_AA64ISAR 0) 39 36 1],
     fmap CPU_FEATURE_SM4 FEATURE_LEVEL_ARM_V8_1_A FEATURE_LEVEL_UNKNOWN
       [f64 (ID_AA64ISAR 0) 43 40 1],
     fmap CPU_FEATURE_SPE FEATURE_LEVEL_ARM_V8_1_A FEATURE_LEVEL_UNKNOWN
       [f64 (ID_AA64DFR 0) 35 32 1],
     fmap CPU_FEATURE_SVE FEATURE_LEVEL_ARM_V8_2_A FEATURE_LEVEL_UNKNOWN
       [f64 (ID_AA64PFR 0) 35 32 1],
     fmap CPU_FEATURE_TTCNP FEATURE_LEVEL_ARM_V8_1_A FEATURE_LEVEL_ARM_V8_2_A
       [f64 (ID_AA64MMFR 2) 3 0 1,
        f32 (ID_MMFR 4) 15 12 1],
     fmap CPU_FEATURE_UAO FEATURE_LEVEL_ARM_V8_1_A FEATURE_LEVEL_ARM_V8_2_A
       [f64 (ID_AA64MMFR 2) 7 4 1],
     fmap CPU_FEATURE_XNX FEATURE_LEVEL_ARM_V8_1_A FEATURE_LEVEL_UNKNOWN
       [f64 (ID_AA64MMFR 1) 31 28 1,
        f32 (ID_MMFR 4) 11 8 1],
     fmap CPU_FEATURE_CCIDX FEATURE_LEVEL_ARM_V8_2_A FEATURE_LEVEL_UNKNOWN
       [f64 (ID_AA64MMFR 2) 23 20 1,
        f32 (ID_MMFR 4) 27 24 1],
     fmap CPU_FEATURE_CONSTPACFIELD FEATURE_LEVEL_ARM_V8_2_A FEATURE_LEVEL_UNKNOWN
       [f64 (ID_AA64ISAR 2) 27 24 1]]"

definition arm_features_5 :: "(cpu_feature_t \<times> arm_feature_map_t) list" where
  "arm_features_5 = [
     fmap CPU_FEATURE_EPAC FEATURE_LEVEL_ARM_V8_2_A FEATURE_LEVEL_UNKNOWN
       [f64 (ID_AA64ISAR 1) 11 8 2,
        f64 (ID_AA64ISAR 1) 7 4 2,
        f64 (ID_AA64ISAR 2) 15 12 2],
     fmap CPU_FEATURE_FCMA FEATURE_LEVEL_ARM_V8_2_A FEATURE_LEVEL_UNKNOWN
       [f64 (ID_AA64ISAR 1) 19 16 1,
        f32 (ID_ISAR 5) 31 28 1],
     fmap CPU_FEATURE_FPAC FEATURE_LEVEL_ARM_V8_2_A FEATURE_LEVEL_UNKNOWN
       [f64 (ID_AA64ISAR 1) 11 8 4,
        f64 (ID_AA64ISAR 1) 7 4 4,
        f64 (ID_AA64ISAR 2) 15 12 4],
     fmap CPU_FEATURE_FPACCOMBINE FEATURE_LEVEL_ARM_V8_2_A FEATURE_LEVEL_UNKNOWN
       [f64 (ID_AA64ISAR 1) 11 8 5,
        f64 (ID_AA64ISAR 1) 7 4 5,
        f64 (ID_AA64ISAR 2) 15 12 5],
     fmap CPU_FEATURE_JSCVT FEATURE_LEVEL_ARM_V8_2_A FEATURE_LEVEL_UNKNOWN
       [f64 (ID_AA64ISAR 1) 15 12 1,
        f32 (ID_ISAR 6) 3 0 1],
     fmap CPU_FEATURE_LRCPC FEATURE_LEVEL_ARM_V8_2_A FEATURE_LEVEL_ARM_V8_3_A
       [f64 (ID_AA64ISAR 1) 23 20 1],
     fmap CPU_FEATURE_PACIMP FEATURE_LEVEL_ARM_V8_2_A FEATURE_LEVEL_UNKNOWN
       [f64 (ID_AA64ISAR 1) 31 28 1],
     fmap CPU_FEATURE_PACQARMA3 FEATURE_LEVEL_ARM_V8_2_A FEATURE_LEVEL_UNKNOWN
       [f64 (ID_AA64ISAR 2) 11 8 1],
     fmap CPU_FEATURE_PACQARMA5 FEATURE_LEVEL_ARM_V8_2_A FEATURE_LEVEL_UNKNOWN
       [f64 (ID_AA64ISAR 1) 27 24 1],
     fmap CPU_FEATURE_PAUTH FEATURE_LEVEL_ARM_V8_2_A FEATURE_LEVEL_ARM_V8_3_A
       [f64 (ID_AA64ISAR 1) 11 8 1,
        f64 (ID_AA64ISAR 1) 7 4 1,
        f64 (ID_AA64ISAR 2) 15 12 1],
     fmap CPU_FEATURE_SPEV1P1 FEATURE_LEVEL_ARM_V8_2_A FEATURE_LEVEL_UNKNOWN
       [f64 (ID_AA64DFR 0) 35 32 2],
     fmap CPU_FEATURE_AMUV1 FEATURE_LEVEL_ARM_V8_3_A FEATURE_LEVEL_UNKNOWN
       [f64 (ID_AA64PFR 0) 47 44 1,
        f32 (ID_PFR 0) 23 20 1],
     fmap CPU_FEATURE_BBM FEATURE_LEVEL_ARM_V8_3_A FEATURE_LEVEL_ARM_V8_4_A
       [f64 (ID_AA64MMFR 2) 55 52 0,
        f64 (ID_AA64MMFR 2) 55 52 1,
        f64 (ID_AA64MMFR 2) 55 52 2],
     fmap CPU_FEATURE_DIT FEATURE_LEVEL_ARM_V8_3_A FEATURE_LEVEL_ARM_V8_4_A
       [f64 (ID_AA64PFR 0) 51 48 1,
        f32 (ID_PFR 0) 27 24 1],
     fmap CPU_FEATURE_DEBUGV8P4 FEATURE_LEVEL_ARM_V8_3_A FEATURE_LEVEL_ARM_V8_4_A
       [fboth (ID_DFR 0) (ID_AA64DFR 0) 3 0 9],
     fmap CPU_FEATURE_DOTPROD FEATURE_LEVEL_ARM_V8_1_A FEATURE_LEVEL_UNKNOWN
       [f64 (ID_AA64ISAR 0) 47 44 1,
        f32 (ID_ISAR 6) 7 4 1]]"

definition arm_features_6 :: "(cpu_feature_t \<times> arm_feature_map_t) list" where
  "arm_features_6 = [
     fmap CPU_FEATURE_DOUBLEFAULT FEATURE_LEVEL_ARM_V8_4_A FEATURE_LEVEL_UNKNOWN
       [f64 (ID_AA64PFR 0) 31 28 2],
     fmap CPU_FEATURE_FHM FEATURE_LEVEL_ARM_V8_1_A FEATURE_LEVEL_UNKNOWN
       [f64 (ID_AA64ISAR 0) 51 48 1,
        f32 (ID_ISAR 6) 11 8 1],
     fmap CPU_FEATURE_FLAGM FEATURE_LEVEL_ARM_V8_1_A FEATURE_LEVEL_ARM_V8_4_A
       [f64 (ID_AA64ISAR 0) 55 52 1],
     fmap CPU_FEATURE_IDST FEATURE_LEVEL_ARM_V8_3_A FEATURE_LEVEL_ARM_V8_4_A
       [f64 (ID_AA64MMFR 2) 39 36 1],
     fmap CPU_FEATURE_LRCPC2 FEATURE_LEVEL_ARM_V8_2_A FEATURE_LEVEL_ARM_V8_4_A
       [f64 (ID_AA64ISAR 1) 23 20 2],
     fmap CPU_FEATURE_LSE2 FEATURE_LEVEL_ARM_V8_2_A FEATURE_LEVEL_ARM_V8_4_A
       [f64 (ID_AA64MMFR 2) 35 32 1],
     fmap CPU_FEATURE_PMUV3P4 FEATURE_LEVEL_ARM_V8_3_A FEATURE_LEVEL_UNKNOWN
       [f64 (ID_AA64DFR 0) 11 8 5,
        f32 (ID_DFR 0) 27 24 5],
     fmap CPU_FEATURE_RASV1P1 FEATURE_LEVEL_ARM_V8_2_A FEATURE_LEVEL_UNKNOWN
       [fboth (ID_PFR 0) (ID_AA64PFR 0) 31 28 2],
     fmap CPU_FEATURE_S2FWB FEATURE_LEVEL_ARM_V8_3_A FEATURE_LEVEL_UNKNOWN
       [f64 (ID_AA64MMFR 2) 43 40 1],
     fmap CPU_FEATURE_SEL2 FEATURE_LEVEL_ARM_V8_3_A FEATURE_LEVEL_UNKNOWN
       [f64 (ID_AA64PFR 0) 39 36 1],
     fmap CPU_FEATURE_TLBIOS FEATURE_LEVEL_ARM_V8_3_A FEATURE_LEVEL_ARM_V8_4_A
       [f64 (ID_AA64ISAR 0) 59 56 1,
        f64 (ID_AA64ISAR 0) 59 56 2],
     fmap CPU_FEATURE_TLBIRANGE FEATURE_LEVEL_ARM_V8_3_A FEATURE_LEVEL_ARM_V8_4_A
       [f64 (ID_AA64ISAR 0) 59 56 2],
     fmap CPU_FEATURE_TRF FEATURE_LEVEL_ARM_V8_3_A FEATURE_LEVEL_UNKNOWN
       [f64 (ID_AA64DFR 0) 43 40 1,
        f32 (ID_DFR 0) 31 28 1],
     fmap CPU_FEATURE_TTL FEATURE_LEVEL_ARM_V8_3_A FEATURE_LEVEL_ARM_V8_4_A
       [f64 (ID_AA64MMFR 2) 51 48 1],
     fmap CPU_FEATURE_TTST FEATURE_LEVEL_ARM_V8_3_A FEATURE_LEVEL_UNKNOWN
       [f64 (ID_AA64MMFR 2) 31 28 1],
     fmap CPU_FEATURE_BTI FEATURE_LEVEL_ARM_V8_4_A FEATURE_LEVEL_ARM_V8_5_A
       [f64 (ID_AA64PFR 1) 3 0 1],
     fmap CPU_FEATURE_CSV2 FEATURE_LEVEL_ARM_V8_0_A FEATURE_LEVEL_ARM_V8_5_A
       [f64 (ID_AA64PFR 0) 59 56 1,
        f32 (ID_PFR 0) 19 16 1]]"

definition arm_features_7 :: "(cpu_feature_t \<times> arm_feature_map_t) list" where
  "arm_features_7 = [
     fmap CPU_FEATURE_CSV3 FEATURE_LEVEL_ARM_V8_0_A FEATURE_LEVEL_ARM_V8_5_A
       [f64 (ID_AA64PFR 0) 63 60 1],
     fmap CPU_FEATURE_DPB2 FEATURE_LEVEL_ARM_V8_1_A FEATURE_LEVEL_ARM_V8_5_A
       [f64 (ID_AA64ISAR 1) 3 0 2],
     fmap CPU_FEATURE_E0PD FEATURE_LEVEL_ARM_V8_4_A FEATURE_LEVEL_ARM_V8_5_A
       [f64 (ID_AA64MMFR 2) 63 60 1],
     fmap CPU_FEATURE_EVT FEATURE_LEVEL_ARM_V8_2_A FEATURE_LEVEL_UNKNOWN
       [f64 (ID_AA64MMFR 2) 59 56 1,
        f64 (ID_AA64MMFR 2) 59 56 2,
        f32 (ID_MMFR 4) 31 28 1,
        f32 (ID_MMFR 4) 31 28 2],
     fmap CPU_FEATURE_EXS FEATURE_LEVEL_ARM_V8_4_A FEATURE_LEVEL_UNKNOWN
       [f64 (ID_AA64MMFR 0) 47 44 1],
     fmap CPU_FEATURE_FRINTTS FEATURE_LEVEL_ARM_V8_4_A FEATURE_LEVEL_UNKNOWN
       [f64 (ID_AA64ISAR 1) 35 32 1],
     fmap CPU_FEATURE_FLAGM2 FEATURE_LEVEL_ARM_V8_4_A FEATURE_LEVEL_UNKNOWN
       [f64 (ID_AA64ISAR 0) 55 52 2],
     fmap CPU_FEATURE_MTE FEATURE_LEVEL_ARM_V8_4_A FEATURE_LEVEL_UNKNOWN
       [f64 (ID_AA64PFR 1) 11 8 1],
     fmap CPU_FEATURE_MTE2 FEATURE_LEVEL_ARM_V8_4_A FEATURE_LEVEL_UNKNOWN
       [f64 (ID_AA64PFR 1) 11 8 2],
     fmap CPU_FEATURE_PMUV3P5 FEATURE_LEVEL_ARM_V8_4_A FEATURE_LEVEL_UNKNOWN
       [f64 (ID_AA64DFR 0) 11 8 6,
        f32 (ID_DFR 0) 27 24 6],
     fmap CPU_FEATURE_RNG FEATURE_LEVEL_ARM_V8_4_A FEATURE_LEVEL_UNKNOWN
       [f64 (ID_AA64ISAR 0) 63 60 1],
     fmap CPU_FEATURE_RNG_TRAP FEATURE_LEVEL_ARM_V8_4_A FEATURE_LEVEL_UNKNOWN
       [f64 (ID_AA64PFR 1) 31 28 1],
     fmap CPU_FEATURE_SB FEATURE_LEVEL_ARM_V8_0_A FEATURE_LEVEL_ARM_V8_5_A
       [f64 (ID_AA64ISAR 1) 39 36 1,
        f32 (ID_ISAR 6) 15 12 1],
     fmap CPU_FEATURE_SPECRES FEATURE_LEVEL_ARM_V8_0_A FEATURE_LEVEL_ARM_V8_5_A
       [f64 (ID_AA64ISAR 1) 43 40 1,
        f32 (ID_ISAR 6) 19 16 1],
     fmap CPU_FEATURE_SSBS FEATURE_LEVEL_ARM_V8_0_A FEATURE_LEVEL_UNKNOWN
       [fboth (ID_PFR 2) (ID_AA64PFR 1) 7 4 1],
     fmap CPU_FEATURE_SSBS2 FEATURE_LEVEL_ARM_V8_0_A FEATURE_LEVEL_UNKNOWN
       [f64 (ID_AA64PFR 1) 7 4 2],
     fmap CPU_FEATURE_AA32BF16 FEATURE_LEVEL_ARM_V8_2_A FEATURE_LEVEL_UNKNOWN
       [f32 (ID_ISAR 6) 23 20 1]]"

definition arm_features_8 :: "(cpu_feature_t \<times> arm_feature_map_t) list" where
  "arm_features_8 = [
     fmap CPU_FEATURE_AMUV1P1 FEATURE_LEVEL_ARM_V8_5_A FEATURE_LEVEL_UNKNOWN
       [f64 (ID_AA64PFR 0) 47 44 2,
        f32 (ID_PFR 0) 23 20 2],
     fmap CPU_FEATURE_BF16 FEATURE_LEVEL_ARM_V8_2_A FEATURE_LEVEL_ARM_V8_6_A
       [f64 (ID_AA64ISAR 1) 47 44 1,
        f64 (ID_AA64ZFR 0) 23 20 1],
     fmap CPU_FEATURE_DGH FEATURE_LEVEL_ARM_V8_0_A FEATURE_LEVEL_UNKNOWN
       [f64 (ID_AA64ISAR 1) 51 48 1],
     fmap CPU_FEATURE_ECV FEATURE_LEVEL_ARM_V8_5_A FEATURE_LEVEL_ARM_V8_6_A
       [f64 (ID_AA64MMFR 0) 63 60 1,
        f64 (ID_AA64MMFR 0) 63 60 2],
     fmap CPU_FEATURE_FGT FEATURE_LEVEL_ARM_V8_5_A FEATURE_LEVEL_UNKNOWN
       [f64 (ID_AA64MMFR 0) 59 56 1],
     fmap CPU_FEATURE_HPMN0 FEATURE_LEVEL_ARM_V8_5_A FEATURE_LEVEL_UNKNOWN
       [f64 (ID_AA64DFR 0) 63 60 1,
        f32 (ID_DFR 0) 7 4 1],
     fmap CPU_FEATURE_MTPMU FEATURE_LEVEL_ARM_V8_5_A FEATURE_LEVEL_UNKNOWN
       [f64 (ID_AA64DFR 0) 51 48 1,
        f32 (ID_DFR 1) 3 0 1],
     fmap CPU_FEATURE_PAUTH2 FEATURE_LEVEL_ARM_V8_2_A FEATURE_LEVEL_ARM_V8_6_A
       [f64 (ID_AA64ISAR 1) 11 8 3,
        f64 (ID_AA64ISAR 1) 7 4 3,
        f64 (ID_AA64ISAR 2) 15 12 3],
     fmap CPU_FEATURE_TWED FEATURE_LEVEL_ARM_V8_5_A FEATURE_LEVEL_UNKNOWN
       [f64 (ID_AA64MMFR 1) 35 32 1],
     fmap CPU_FEATURE_AFP FEATURE_LEVEL_ARM_V8_6_A FEATURE_LEVEL_UNKNOWN
       [f64 (ID_AA64MMFR 1) 47 44 1],
     fmap CPU_FEATURE_EBF16 FEATURE_LEVEL_ARM_V8_2_A FEATURE_LEVEL_UNKNOWN
       [f64 (ID_AA64ISAR 1) 47 44 2,
        f64 (ID_AA64ZFR 0) 23 20 2],
     fmap CPU_FEATURE_HCX FEATURE_LEVEL_ARM_V8_6_A FEATURE_LEVEL_UNKNOWN
       [f64 (ID_AA64MMFR 1) 43 40 1],
     fmap CPU_FEATURE_LPA2 FEATURE_LEVEL_ARM_V8_6_A FEATURE_LEVEL_UNKNOWN
       [f64 (ID_AA64MMFR 0) 31 28 1,
        f64 (ID_AA64MMFR 0) 23 20 1],
     fmap CPU_FEATURE_LS64 FEATURE_LEVEL_ARM_V8_6_A FEATURE_LEVEL_UNKNOWN
       [f64 (ID_AA64ISAR 1) 63 60 1],
     fmap CPU_FEATURE_LS64_ACCDATA FEATURE_LEVEL_ARM_V8_6_A FEATURE_LEVEL_UNKNOWN
       [f64 (ID_AA64ISAR 1) 63 60 3],
     fmap CPU_FEATURE_LS64_V FEATURE_LEVEL_ARM_V8_6_A FEATURE_LEVEL_UNKNOWN
       [f64 (ID_AA64ISAR 1) 63 60 2],
     fmap CPU_FEATURE_MTE3 FEATURE_LEVEL_ARM_V8_5_A FEATURE_LEVEL_UNKNOWN
       [f64 (ID_AA64PFR 1) 11 8 3]]"

definition arm_features_9 :: "(cpu_feature_t \<times> arm_feature_map_t) list" where
  "arm_features_9 = [
     fmap CPU_FEATURE_MTE_ASYM_FAULT FEATURE_LEVEL_ARM_V8_7_A FEATURE_LEVEL_UNKNOWN
       [f64 (ID_AA64PFR 1) 11 8 3],
     fmap CPU_FEATURE_PAN3 FEATURE_LEVEL_ARM_V8_0_A FEATURE_LEVEL_ARM_V8_7_A
       [f64 (ID_AA64MMFR 1) 23 20 3],
     fmap CPU_FEATURE_PMUV3P7 FEATURE_LEVEL_ARM_V8_6_A FEATURE_LEVEL_UNKNOWN
       [f64 (ID_AA64DFR 0) 11 8 7,
        f32 (ID_DFR 0) 27 24 7],
     fmap CPU_FEATURE_RPRES FEATURE_LEVEL_ARM_V8_6_A FEATURE_LEVEL_UNKNOWN
       [f64 (ID_AA64ISAR 2) 7 4 1],
     fmap CPU_FEATURE_SPEV1P2 FEATURE_LEVEL_ARM_V8_6_A FEATURE_LEVEL_UNKNOWN
       [f64 (ID_AA64DFR 0) 35 32 3],
     fmap CPU_FEATURE_WFXT FEATURE_LEVEL_ARM_V8_6_A FEATURE_LEVEL_ARM_V8_7_A
       [f64 (ID_AA64ISAR 2) 3 0 2],
     fmap CPU_FEATURE_XS FEATURE_LEVEL_ARM_V8_6_A FEATURE_LEVEL_ARM_V8_7_A
       [f64 (ID_AA64ISAR 1) 59 56 1],
     fmap CPU_FEATURE_CMOW FEATURE_LEVEL_ARM_V8_7_A FEATURE_LEVEL_ARM_V8_8_A
       [f64 (ID_AA64MMFR 1) 59 56 1],
     fmap CPU_FEATURE_DEBUGV8P8 FEATURE_LEVEL_ARM_V8_7_A FEATURE_LEVEL_ARM_V8_8_A
       [fboth (ID_DFR 0) (ID_AA64DFR 0) 3 0 10],
     fmap CPU_FEATURE_HBC FEATURE_LEVEL_ARM_V8_7_A FEATURE_LEVEL_ARM_V8_8_A
       [f64 (ID_AA64ISAR 2) 23 20 1],
     fmap CPU_FEATURE_MOPS FEATURE_LEVEL_ARM_V8_7_A FEATURE_LEVEL_ARM_V8_8_A
       [f64 (ID_AA64ISAR 2) 19 16 1],
     fmap CPU_FEATURE_NMI FEATURE_LEVEL_ARM_V8_7_A FEATURE_LEVEL_ARM_V8_8_A
       [f64 (ID_AA64PFR 1) 39 36 1],
     fmap CPU_FEATURE_PMUV3P8 FEATURE_LEVEL_ARM_V8_7_A FEATURE_LEVEL_UNKNOWN
       [f64 (ID_AA64DFR 0) 11 8 8,
        f32 (ID_DFR 0) 27 24 8],
     fmap CPU_FEATURE_SCTLR2 FEATURE_LEVEL_ARM_V8_0_A FEATURE_LEVEL_ARM_V8_9_A
       [f64 (ID_AA64MMFR 3) 7 4 1],
     fmap CPU_FEATURE_SPEV1P3 FEATURE_LEVEL_ARM_V8_7_A FEATURE_LEVEL_UNKNOWN
       [f64 (ID_AA64DFR 0) 35 32 4],
     fmap CPU_FEATURE_TCR2 FEATURE_LEVEL_ARM_V8_0_A FEATURE_LEVEL_ARM_V8_9_A
       [f64 (ID_AA64MMFR 3) 3 0 1],
     fmap CPU_FEATURE_TIDCP1 FEATURE_LEVEL_ARM_V8_7_A FEATURE_LEVEL_ARM_V8_8_A
       [f64 (ID_AA64MMFR 1) 55 52 1]]"

definition arm_features_10 :: "(cpu_feature_t \<times> arm_feature_map_t) list" where
  "arm_features_10 = [
     fmap CPU_FEATURE_ADERR FEATURE_LEVEL_ARM_V8_8_A FEATURE_LEVEL_UNKNOWN
       [f64 (ID_AA64MMFR 3) 59 56 2,
        f64 (ID_AA64MMFR 3) 55 52 2],
     fmap CPU_FEATURE_AIE FEATURE_LEVEL_ARM_V8_8_A FEATURE_LEVEL_UNKNOWN
       [f64 (ID_AA64MMFR 3) 27 24 1],
     fmap CPU_FEATURE_ANERR FEATURE_LEVEL_ARM_V8_8_A FEATURE_LEVEL_UNKNOWN
       [f64 (ID_AA64MMFR 3) 47 44 2,
        f64 (ID_AA64MMFR 3) 43 40 2],
     fmap CPU_FEATURE_ATS1A FEATURE_LEVEL_ARM_V8_8_A FEATURE_LEVEL_UNKNOWN
       [f64 (ID_AA64ISAR 2) 63 60 1],
     fmap CPU_FEATURE_CLRBHB FEATURE_LEVEL_ARM_V8_0_A FEATURE_LEVEL_ARM_V8_9_A
       [fboth (ID_ISAR 6) (ID_AA64ISAR 2) 31 28 1],
     fmap CPU_FEATURE_CSSC FEATURE_LEVEL_ARM_V8_7_A FEATURE_LEVEL_UNKNOWN
       [f64 (ID_AA64ISAR 2) 55 52 1],
     fmap CPU_FEATURE_DEBUGV8P9 FEATURE_LEVEL_ARM_V8_8_A FEATURE_LEVEL_ARM_V8_9_A
       [fboth (ID_DFR 0) (ID_AA64DFR 0) 3 0 11],
     fmap CPU_FEATURE_DOUBLEFAULT2 FEATURE_LEVEL_ARM_V8_8_A FEATURE_LEVEL_UNKNOWN
       [f64 (ID_AA64PFR 1) 59 56 1],
     fmap CPU_FEATURE_ECBHB FEATURE_LEVEL_ARM_V8_0_A FEATURE_LEVEL_ARM_V8_9_A
       [f64 (ID_AA64MMFR 1) 63 60 1],
     fmap CPU_FEATURE_FGT2 FEATURE_LEVEL_ARM_V8_8_A FEATURE_LEVEL_UNKNOWN
       [f64 (ID_AA64MMFR 0) 59 56 2],
     fmap CPU_FEATURE_HAFT FEATURE_LEVEL_ARM_V8_7_A FEATURE_LEVEL_UNKNOWN
       [f64 (ID_AA64MMFR 1) 3 0 3],
     fmap CPU_FEATURE_LRCPC3 FEATURE_LEVEL_ARM_V8_2_A FEATURE_LEVEL_UNKNOWN
       [f64 (ID_AA64ISAR 1) 23 20 3],
     fmap CPU_FEATURE_MTE_PERM FEATURE_LEVEL_ARM_V8_7_A FEATURE_LEVEL_UNKNOWN
       [f64 (ID_AA64PFR 2) 3 0 1],
     fmap CPU_FEATURE_MTE_STORE_ONLY FEATURE_LEVEL_ARM_V8_7_A FEATURE_LEVEL_UNKNOWN
       [f64 (ID_AA64PFR 2) 7 4 1],
     fmap CPU_FEATURE_MTE_TAGGED_FAR FEATURE_LEVEL_ARM_V8_7_A FEATURE_LEVEL_UNKNOWN
       [f64 (ID_AA64PFR 2) 11 8 1],
     fmap CPU_FEATURE_PFAR FEATURE_LEVEL_ARM_V8_8_A FEATURE_LEVEL_UNKNOWN
       [f64 (ID_AA64PFR 1) 63 60 1],
     fmap CPU_FEATURE_PMUV3_ICNTR FEATURE_LEVEL_ARM_V8_8_A FEATURE_LEVEL_UNKNOWN
       [f64 (ID_AA64DFR 1) 39 36 1],
     fmap CPU_FEATURE_PMUV3_SS FEATURE_LEVEL_ARM_V8_8_A FEATURE_LEVEL_UNKNOWN
       [f64 (ID_AA64DFR 0) 19 16 1]]"

definition arm_features_11 :: "(cpu_feature_t \<times> arm_feature_map_t) list" where
  "arm_features_11 = [
     fmap CPU_FEATURE_PMUV3P9 FEATURE_LEVEL_ARM_V8_8_A FEATURE_LEVEL_UNKNOWN
       [f64 (ID_AA64DFR 0) 11 8 9,
        f32 (ID_DFR 0) 27 24 9],
     fmap CPU_FEATURE_PRFMSLC FEATURE_LEVEL_ARM_V8_0_A FEATURE_LEVEL_UNKNOWN
       [f64 (ID_AA64ISAR 2) 43 40 1],
     fmap CPU_FEATURE_RASV2 FEATURE_LEVEL_ARM_V8_8_A FEATURE_LEVEL_UNKNOWN
       [fboth (ID_PFR 0) (ID_AA64PFR 0) 31 28 3],
     fmap CPU_FEATURE_RPRFM FEATURE_LEVEL_ARM_V8_0_A FEATURE_LEVEL_UNKNOWN
       [f64 (ID_AA64ISAR 2) 51 48 1],
     fmap CPU_FEATURE_S1PIE FEATURE_LEVEL_ARM_V8_8_A FEATURE_LEVEL_UNKNOWN
       [f64 (ID_AA64MMFR 3) 11 8 1],
     fmap CPU_FEATURE_S1POE FEATURE_LEVEL_ARM_V8_8_A FEATURE_LEVEL_UNKNOWN
       [f64 (ID_AA64MMFR 3) 19 16 1],
     fmap CPU_FEATURE_S2PIE FEATURE_LEVEL_ARM_V8_8_A FEATURE_LEVEL_UNKNOWN
       [f64 (ID_AA64MMFR 3) 15 12 1],
     fmap CPU_FEATURE_S2POE FEATURE_LEVEL_ARM_V8_8_A FEATURE_LEVEL_UNKNOWN
       [f64 (ID_AA64MMFR 3) 23 20 1],
     fmap CPU_FEATURE_SPECRES2 FEATURE_LEVEL_ARM_V8_0_A FEATURE_LEVEL_ARM_V8_9_A
       [f64 (ID_AA64ISAR 1) 43 40 2,
        f32 (ID_ISAR 6) 19 16 2],
     fmap CPU_FEATURE_SPE_DPFZS FEATURE_LEVEL_ARM_V8_6_A FEATURE_LEVEL_UNKNOWN
       [f64 (ID_AA64DFR 1) 55 52 1],
     fmap CPU_FEATURE_SPEV1P4 FEATURE_LEVEL_ARM_V8_8_A FEATURE_LEVEL_UNKNOWN
       [f64 (ID_AA64DFR 0) 35 32 5],
     fmap CPU_FEATURE_SPMU FEATURE_LEVEL_ARM_V8_8_A FEATURE_LEVEL_UNKNOWN
       [f64 (ID_AA64DFR 1) 35 32 1],
     fmap CPU_FEATURE_THE FEATURE_LEVEL_ARM_V8_8_A FEATURE_LEVEL_UNKNOWN
       [f64 (ID_AA64DFR 1) 51 48 1],
     fmap CPU_FEATURE_SVE2 FEATURE_LEVEL_ARM_V9_0_A FEATURE_LEVEL_UNKNOWN
       [f64 (ID_AA64ZFR 0) 3 0 1],
     fmap CPU_FEATURE_SVE_AES FEATURE_LEVEL_ARM_V9_0_A FEATURE_LEVEL_UNKNOWN
       [f64 (ID_AA64ZFR 0) 7 4 1],
     fmap CPU_FEATURE_SVE_BITPERM FEATURE_LEVEL_ARM_V9_0_A FEATURE_LEVEL_UNKNOWN
       [f64 (ID_AA64ZFR 0) 19 16 1],
     fmap CPU_FEATURE_SVE_PMULL128 FEATURE_LEVEL_ARM_V9_0_A FEATURE_LEVEL_UNKNOWN
       [f64 (ID_AA64ZFR 0) 7 4 2],
     fmap CPU_FEATURE_SVE_SHA3 FEATURE_LEVEL_ARM_V9_0_A FEATURE_LEVEL_UNKNOWN
       [f64 (ID_AA64ZFR 0) 35 32 1]]"

definition arm_features_12 :: "(cpu_feature_t \<times> arm_feature_map_t) list" where
  "arm_features_12 = [
     fmap CPU_FEATURE_SVE_SM4 FEATURE_LEVEL_ARM_V9_0_A FEATURE_LEVEL_UNKNOWN
       [f64 (ID_AA64ZFR 0) 43 40 1],
     fmap CPU_FEATURE_TME FEATURE_LEVEL_ARM_V9_0_A FEATURE_LEVEL_UNKNOWN
       [f64 (ID_AA64ISAR 0) 27 24 1],
     fmap CPU_FEATURE_TRBE FEATURE_LEVEL_ARM_V9_0_A FEATURE_LEVEL_UNKNOWN
       [f64 (ID_AA64DFR 0) 47 44 1],
     fmap CPU_FEATURE_BRBE FEATURE_LEVEL_ARM_V9_1_A FEATURE_LEVEL_UNKNOWN
       [f64 (ID_AA64DFR 0) 55 52 1],
     fmap CPU_FEATURE_RME FEATURE_LEVEL_ARM_V9_1_A FEATURE_LEVEL_UNKNOWN
       [f64 (ID_AA64PFR 0) 55 52 1],
     fmap CPU_FEATURE_SME FEATURE_LEVEL_ARM_V9_2_A FEATURE_LEVEL_UNKNOWN
       [f64 (ID_AA64PFR 1) 27 24 1],
     fmap CPU_FEATURE_SME_F64F64 FEATURE_LEVEL_ARM_V9_2_A FEATURE_LEVEL_UNKNOWN
       [f64 (ID_AA64SMFR 0) 48 48 1],
     fmap CPU_FEATURE_SME_FA64 FEATURE_LEVEL_ARM_V9_2_A FEATURE_LEVEL_UNKNOWN
       [f64 (ID_AA64SMFR 0) 63 63 1],
     fmap CPU_FEATURE_SME_I16I64 FEATURE_LEVEL_ARM_V9_2_A FEATURE_LEVEL_UNKNOWN
       [f64 (ID_AA64SMFR 0) 55 52 15],
     fmap CPU_FEATURE_BRBEV1P1 FEATURE_LEVEL_ARM_V9_2_A FEATURE_LEVEL_UNKNOWN
       [f64 (ID_AA64DFR 0) 55 52 2],
     fmap CPU_FEATURE_MEC FEATURE_LEVEL_ARM_V9_2_A FEATURE_LEVEL_UNKNOWN
       [f64 (ID_AA64MMFR 3) 31 28 1],
     fmap CPU_FEATURE_SME2 FEATURE_LEVEL_ARM_V9_2_A FEATURE_LEVEL_UNKNOWN
       [f64 (ID_AA64SMFR 0) 59 56 1,
        f64 (ID_AA64PFR 1) 27 24 2],
     fmap CPU_FEATURE_ABLE FEATURE_LEVEL_ARM_V9_3_A FEATURE_LEVEL_UNKNOWN
       [f64 (ID_AA64DFR 1) 43 40 1],
     fmap CPU_FEATURE_BWE FEATURE_LEVEL_ARM_V9_3_A FEATURE_LEVEL_UNKNOWN
       [f64 (ID_AA64DFR 1) 43 40 1],
     fmap CPU_FEATURE_D128 FEATURE_LEVEL_ARM_V9_3_A FEATURE_LEVEL_UNKNOWN
       [f64 (ID_AA64MMFR 3) 35 32 1],
     fmap CPU_FEATURE_EBEP FEATURE_LEVEL_ARM_V9_3_A FEATURE_LEVEL_UNKNOWN
       [f64 (ID_AA64DFR 1) 51 48 1],
     fmap CPU_FEATURE_GCS FEATURE_LEVEL_ARM_V9_3_A FEATURE_LEVEL_UNKNOWN
       [f64 (ID_AA64PFR 1) 47 44 1]]"

definition arm_features_13 :: "(cpu_feature_t \<times> arm_feature_map_t) list" where
  "arm_features_13 = [
     fmap CPU_FEATURE_ITE FEATURE_LEVEL_ARM_V9_3_A FEATURE_LEVEL_UNKNOWN
       [f64 (ID_AA64DFR 1) 47 44 1],
     fmap CPU_FEATURE_LSE128 FEATURE_LEVEL_ARM_V9_3_A FEATURE_LEVEL_UNKNOWN
       [f64 (ID_AA64DFR 1) 23 20 3],
     fmap CPU_FEATURE_LVA3 FEATURE_LEVEL_ARM_V9_3_A FEATURE_LEVEL_UNKNOWN
       [f64 (ID_AA64MMFR 2) 19 16 2],
     fmap CPU_FEATURE_SEBEP FEATURE_LEVEL_ARM_V9_3_A FEATURE_LEVEL_UNKNOWN
       [f64 (ID_AA64DFR 0) 27 24 1],
     fmap CPU_FEATURE_SME2P1 FEATURE_LEVEL_ARM_V9_2_A FEATURE_LEVEL_UNKNOWN
       [f64 (ID_AA64SMFR 0) 59 56 2],
     fmap CPU_FEATURE_SME_F16F16 FEATURE_LEVEL_ARM_V9_2_A FEATURE_LEVEL_UNKNOWN
       [f64 (ID_AA64SMFR 0) 42 42 1],
     fmap CPU_FEATURE_SVE2P1 FEATURE_LEVEL_ARM_V9_2_A FEATURE_LEVEL_UNKNOWN
       [f64 (ID_AA64ZFR 0) 3 0 2],
     fmap CPU_FEATURE_SVE_B16B16 FEATURE_LEVEL_ARM_V9_2_A FEATURE_LEVEL_UNKNOWN
       [f64 (ID_AA64SMFR 0) 43 43 1,
        f64 (ID_AA64ZFR 0) 27 24 1],
     fmap CPU_FEATURE_SYSINSTR128 FEATURE_LEVEL_ARM_V9_3_A FEATURE_LEVEL_UNKNOWN
       [f64 (ID_AA64ISAR 2) 39 36 1],
     fmap CPU_FEATURE_SYSREG128 FEATURE_LEVEL_ARM_V9_3_A FEATURE_LEVEL_UNKNOWN
       [f64 (ID_AA64ISAR 2) 35 32 1],
     fmap CPU_FEATURE_TRBE_EXT FEATURE_LEVEL_ARM_V9_3_A FEATURE_LEVEL_UNKNOWN
       [f64 (ID_AA64DFR 0) 59 56 1],
     fmap CPU_FEATURE_ASID2 FEATURE_LEVEL_ARM_V9_4_A FEATURE_LEVEL_ARM_V9_5_A
       [f64 (ID_AA64MMFR 4) 11 8 1],
     fmap CPU_FEATURE_BWE2 FEATURE_LEVEL_ARM_V9_4_A FEATURE_LEVEL_UNKNOWN
       [f64 (ID_AA64DFR 2) 7 4 2],
     fmap CPU_FEATURE_CPA FEATURE_LEVEL_ARM_V9_4_A FEATURE_LEVEL_ARM_V9_5_A
       [f64 (ID_AA64ISAR 3) 3 0 1],
     fmap CPU_FEATURE_CPA2 FEATURE_LEVEL_ARM_V9_4_A FEATURE_LEVEL_UNKNOWN
       [f64 (ID_AA64ISAR 3) 3 0 1],
     fmap CPU_FEATURE_E2H0 FEATURE_LEVEL_ARM_V8_0_A FEATURE_LEVEL_UNKNOWN
       [f64 (ID_AA64MMFR 4) 27 24 0],
     fmap CPU_FEATURE_E3DSE FEATURE_LEVEL_ARM_V9_4_A FEATURE_LEVEL_UNKNOWN
       [f64 (ID_AA64MMFR 4) 39 36 1],
     fmap CPU_FEATURE_ETS3 FEATURE_LEVEL_ARM_V9_4_A FEATURE_LEVEL_ARM_V9_5_A
       [f64 (ID_AA64MMFR 1) 39 36 3,
        f32 (ID_MMFR 5) 3 0 3]]"

definition arm_features_14 :: "(cpu_feature_t \<times> arm_feature_map_t) list" where
  "arm_features_14 = [
     fmap CPU_FEATURE_FAMINMAX FEATURE_LEVEL_ARM_V9_2_A FEATURE_LEVEL_UNKNOWN
       [f64 (ID_AA64ISAR 3) 7 4 1],
     fmap CPU_FEATURE_FGWTE3 FEATURE_LEVEL_ARM_V9_4_A FEATURE_LEVEL_UNKNOWN
       [f64 (ID_AA64MMFR 4) 19 16 1],
     fmap CPU_FEATURE_FP8 FEATURE_LEVEL_ARM_V9_2_A FEATURE_LEVEL_UNKNOWN
       [f64 (ID_AA64FPFR 0) 31 31 1,
        f64 (ID_AA64FPFR 0) 1 1 1,
        f64 (ID_AA64FPFR 0) 0 0 1],
     fmap CPU_FEATURE_FP8DOT2 FEATURE_LEVEL_ARM_V9_2_A FEATURE_LEVEL_UNKNOWN
       [f64 (ID_AA64FPFR 0) 28 28 1],
     fmap CPU_FEATURE_FP8DOT4 FEATURE_LEVEL_ARM_V9_2_A FEATURE_LEVEL_UNKNOWN
       [f64 (ID_AA64FPFR 0) 29 29 1],
     fmap CPU_FEATURE_FP8FMA FEATURE_LEVEL_ARM_V9_2_A FEATURE_LEVEL_UNKNOWN
       [f64 (ID_AA64FPFR 0) 30 30 1],
     fmap CPU_FEATURE_FPMR FEATURE_LEVEL_ARM_V9_2_A FEATURE_LEVEL_UNKNOWN
       [f64 (ID_AA64PFR 2) 35 32 1],
     fmap CPU_FEATURE_HACDBS FEATURE_LEVEL_ARM_V9_4_A FEATURE_LEVEL_UNKNOWN
       [f64 (ID_AA64MMFR 4) 15 12 1],
     fmap CPU_FEATURE_HDBSS FEATURE_LEVEL_ARM_V9_4_A FEATURE_LEVEL_UNKNOWN
       [f64 (ID_AA64MMFR 1) 3 0 4],
     fmap CPU_FEATURE_LUT FEATURE_LEVEL_ARM_V9_2_A FEATURE_LEVEL_UNKNOWN
       [f64 (ID_AA64ISAR 2) 59 56 1],
     fmap CPU_FEATURE_PAUTH_LR FEATURE_LEVEL_ARM_V9_4_A FEATURE_LEVEL_UNKNOWN
       [f64 (ID_AA64ISAR 1) 7 3 6,
        f64 (ID_AA64ISAR 1) 11 8 6,
        f64 (ID_AA64ISAR 2) 15 12 6],
     fmap CPU_FEATURE_RME_GPC2 FEATURE_LEVEL_ARM_V9_4_A FEATURE_LEVEL_UNKNOWN
       [f64 (ID_AA64PFR 0) 55 52 2],
     fmap CPU_FEATURE_SME_F8F16 FEATURE_LEVEL_ARM_V9_2_A FEATURE_LEVEL_UNKNOWN
       [f64 (ID_AA64SMFR 0) 41 41 1],
     fmap CPU_FEATURE_SME_F8F32 FEATURE_LEVEL_ARM_V9_2_A FEATURE_LEVEL_UNKNOWN
       [f64 (ID_AA64SMFR 0) 40 40 1],
     fmap CPU_FEATURE_SME_LUTV2 FEATURE_LEVEL_ARM_V9_2_A FEATURE_LEVEL_UNKNOWN
       [f64 (ID_AA64SMFR 0) 60 60 1],
     fmap CPU_FEATURE_SPMU2 FEATURE_LEVEL_ARM_V9_4_A FEATURE_LEVEL_UNKNOWN
       [f64 (ID_AA64DFR 1) 35 32 2],
     fmap CPU_FEATURE_SSVE_FP8DOT2 FEATURE_LEVEL_ARM_V9_2_A FEATURE_LEVEL_UNKNOWN
       [f64 (ID_AA64SMFR 0) 28 28 1],
     fmap CPU_FEATURE_SSVE_FP8DOT4 FEATURE_LEVEL_ARM_V9_2_A FEATURE_LEVEL_UNKNOWN
       [f64 (ID_AA64SMFR 0) 29 29 1]]"

definition arm_features_15 :: "(cpu_feature_t \<times> arm_feature_map_t) list" where
  "arm_features_15 = [
     fmap CPU_FEATURE_SSVE_FP8FMA FEATURE_LEVEL_ARM_V9_2_A FEATURE_LEVEL_UNKNOWN
       [f64 (ID_AA64SMFR 0) 30 30 1],
     fmap CPU_FEATURE_STEP2 FEATURE_LEVEL_ARM_V9_4_A FEATURE_LEVEL_ARM_V9_5_A
       [f64 (ID_AA64DFR 2) 3 0 1],
     fmap CPU_FEATURE_TLBIW FEATURE_LEVEL_ARM_V9_4_A FEATURE_LEVEL_UNKNOWN
       [f64 (ID_AA64ISAR 3) 11 8 1]]"

definition arm_features :: "(cpu_feature_t \<times> arm_feature_map_t) list" where
  "arm_features = concat [arm_features_1, arm_features_2, arm_features_3,
     arm_features_4, arm_features_5, arm_features_6, arm_features_7,
     arm_features_8, arm_features_9, arm_features_10, arm_features_11, arm_features_12,
     arm_features_13, arm_features_14, arm_features_15]"

section \<open>What the operations rely on\<close>

fun reg32_ok :: "arm_reg32 \<Rightarrow> bool" where
  "reg32_ok (ID_DFR i) = (i < MAX_ARM_ID_DFR_REGS)"
| "reg32_ok (ID_ISAR i) = (i < MAX_ARM_ID_ISAR_REGS)"
| "reg32_ok (ID_MMFR i) = (i < MAX_ARM_ID_MMFR_REGS)"
| "reg32_ok (ID_PFR i) = (i < MAX_ARM_ID_PFR_REGS)"

fun reg64_ok :: "arm_reg64 \<Rightarrow> bool" where
  "reg64_ok (ID_AA64DFR i) = (i < MAX_ARM_ID_AA64DFR_REGS)"
| "reg64_ok (ID_AA64FPFR i) = (i < MAX_ARM_ID_AA64FPFR_REGS)"
| "reg64_ok (ID_AA64ISAR i) = (i < MAX_ARM_ID_AA64ISAR_REGS)"
| "reg64_ok (ID_AA64MMFR i) = (i < MAX_ARM_ID_AA64MMFR_REGS)"
| "reg64_ok (ID_AA64PFR i) = (i < MAX_ARM_ID_AA64PFR_REGS)"
| "reg64_ok (ID_AA64SMFR i) = (i < MAX_ARM_ID_AA64SMFR_REGS)"
| "reg64_ok (ID_AA64ZFR i) = (i < MAX_ARM_ID_AA64ZFR_REGS)"

text \<open>
  Registers inside their arrays, fields inside their registers, at most \<^verbatim>\<open>MAX_IDENTIFY_FIELDS\<close>
  of them, a feature inside the loop, a version that is not skipped, and no feature that is
  mandatory without being optional before: its presence would not be counted.
\<close>

definition arm_field_ok :: "arm_feature_field_t \<Rightarrow> bool" where
  "arm_field_ok f \<longleftrightarrow> lowbit f \<le> highbit f \<and>
     (case aarch32_reg f of None \<Rightarrow> True | Some r \<Rightarrow> reg32_ok r \<and> highbit f < 32) \<and>
     (case aarch64_reg f of None \<Rightarrow> True | Some r \<Rightarrow> reg64_ok r \<and> highbit f < 64)"

definition arm_row_ok :: "cpu_feature_t \<times> arm_feature_map_t \<Rightarrow> bool" where
  "arm_row_ok = (\<lambda>(f, m). f < NUM_CPU_FEATURES \<and> feature_level_code (ver_optional m) \<noteq> 0 \<and>
     (ver_mandatory m = FEATURE_LEVEL_UNKNOWN \<or> feature_level_code (ver_optional m) \<ge> 0) \<and>
     length (map_fields m) \<le> MAX_IDENTIFY_FIELDS \<and> list_all arm_field_ok (map_fields m))"

lemmas arm_row_defs = arm_row_ok_def arm_field_ok_def

lemma arm_rows_ok:
  "list_all arm_row_ok arm_features_1"
  "list_all arm_row_ok arm_features_2"
  "list_all arm_row_ok arm_features_3"
  "list_all arm_row_ok arm_features_4"
  "list_all arm_row_ok arm_features_5"
  "list_all arm_row_ok arm_features_6"
  "list_all arm_row_ok arm_features_7"
  "list_all arm_row_ok arm_features_8"
  "list_all arm_row_ok arm_features_9"
  "list_all arm_row_ok arm_features_10"
  "list_all arm_row_ok arm_features_11"
  "list_all arm_row_ok arm_features_12"
  "list_all arm_row_ok arm_features_13"
  "list_all arm_row_ok arm_features_14"
  "list_all arm_row_ok arm_features_15"
  by (simp_all add: arm_row_defs arm_features_1_def arm_features_2_def arm_features_3_def arm_features_4_def
      arm_features_5_def arm_features_6_def arm_features_7_def arm_features_8_def
      arm_features_9_def arm_features_10_def arm_features_11_def arm_features_12_def
      arm_features_13_def arm_features_14_def arm_features_15_def)

lemma arm_features_ok: "list_all arm_row_ok arm_features"
  by (simp add: arm_features_def arm_rows_ok)

fun ascending :: "nat \<Rightarrow> nat list \<Rightarrow> bool" where
  "ascending a [] = True"
| "ascending a (x # xs) = (a < x \<and> ascending x xs)"

lemma ascending_above: "ascending a xs \<Longrightarrow> y \<in> set xs \<Longrightarrow> a < y"
  by (induction xs arbitrary: a) (auto dest: order.strict_trans)

lemma ascending_distinct: "ascending a xs \<Longrightarrow> distinct xs"
  by (induction xs arbitrary: a) (auto dest: ascending_above)

lemma arm_features_keys_1:
  "distinct (map fst arm_features_1)" "list_all (\<lambda>k. k \<le> CPU_FEATURE_ASID16) (map fst arm_features_1)"
  by (simp_all add: arm_features_1_def)

lemma arm_features_keys_rest:
  "ascending CPU_FEATURE_ASID16 (map fst (arm_features_2 @ arm_features_3 @ arm_features_4 @ arm_features_5 @ arm_features_6 @
    arm_features_7 @ arm_features_8 @ arm_features_9 @ arm_features_10 @
    arm_features_11 @ arm_features_12 @ arm_features_13 @ arm_features_14 @
    arm_features_15))"
  by (simp add: arm_features_2_def arm_features_3_def arm_features_4_def arm_features_5_def
      arm_features_6_def arm_features_7_def arm_features_8_def arm_features_9_def
      arm_features_10_def arm_features_11_def arm_features_12_def arm_features_13_def
      arm_features_14_def arm_features_15_def)

lemma arm_features_distinct: "distinct (map fst arm_features)"
proof -
  define rest where "rest = arm_features_2 @ arm_features_3 @ arm_features_4 @ arm_features_5 @ arm_features_6 @
    arm_features_7 @ arm_features_8 @ arm_features_9 @ arm_features_10 @
    arm_features_11 @ arm_features_12 @ arm_features_13 @ arm_features_14 @
    arm_features_15"
  have asc: "ascending CPU_FEATURE_ASID16 (map fst rest)"
    unfolding rest_def by (rule arm_features_keys_rest)
  then have "\<forall>k \<in> set (map fst rest). CPU_FEATURE_ASID16 < k"
    by (blast dest: ascending_above)
  then have "set (map fst arm_features_1) \<inter> set (map fst rest) = {}"
    using arm_features_keys_1(2) unfolding list_all_iff by (meson disjoint_iff not_less)
  then have "distinct (map fst (arm_features_1 @ rest))"
    using arm_features_keys_1(1) ascending_distinct [OF asc]
    by (simp only: map_append distinct_append)
  then show ?thesis by (simp add: arm_features_def rest_def)
qed

lemma map_of_arm_features: "(f, m) \<in> set arm_features \<Longrightarrow> map_of arm_features f = Some m"
  using arm_features_distinct by (rule map_of_is_SomeI)

lemma length_arm_features: "length arm_features = 244"
  by (simp add: arm_features_def arm_features_1_def arm_features_2_def arm_features_3_def arm_features_4_def
      arm_features_5_def arm_features_6_def arm_features_7_def arm_features_8_def
      arm_features_9_def arm_features_10_def arm_features_11_def arm_features_12_def
      arm_features_13_def arm_features_14_def arm_features_15_def)

end
