(* ===== verification/Recog_Arm.thy ===== *)
theory Recog_Arm
  imports Arm_Tables Pattern_Match Cpu_Lists
begin

text \<open>
  \<^verbatim>\<open>recog_arm.c\<close>: implementer and part from \<^verbatim>\<open>MIDR\<close>, the purpose of a core, the features
  announced by the ID registers, with the counters \<^verbatim>\<open>arm_arch_extension_t\<close> of optional and
  mandatory features per architecture version, and the version itself.
\<close>

section \<open>Lookups in the tables\<close>

text \<open>
  The three lookups: the scan stops at the key or at a row with a negative id; \<^const>\<open>None\<close> stands
  for running past the end of a table without such a row.
\<close>

fun find_or_last :: "('r \<Rightarrow> int) \<Rightarrow> ('r \<Rightarrow> bool) \<Rightarrow> 'r list \<Rightarrow> 'r option" where
  "find_or_last row_id wanted [] = None"
| "find_or_last row_id wanted (r # rs) =
     (if row_id r < 0 \<or> wanted r then Some r else find_or_last row_id wanted rs)"

definition get_cpu_implementer_from_code :: "u8 \<Rightarrow> arm_hw_impl option" where
  "get_cpu_implementer_from_code code =
     find_or_last hw_id (\<lambda>i. hw_id i = uint code) hw_implementer"

definition get_cpu_implementer_from_vendor :: "cpu_vendor_t \<Rightarrow> arm_hw_impl option" where
  "get_cpu_implementer_from_vendor v = find_or_last hw_id (\<lambda>i. hw_vendor i = v) hw_implementer"

definition get_cpu_implementer_parts :: "arm_hw_impl \<Rightarrow> u16 \<Rightarrow> arm_id_part option" where
  "get_cpu_implementer_parts hw n = find_or_last part_id (\<lambda>p. part_id p = uint n) (hw_parts hw)"

section \<open>Purpose\<close>

definition purpose_of_name :: "string \<Rightarrow> cpu_purpose_t" where
  "purpose_of_name name =
     (if match_pattern name ''Cortex-X[012356789]'' \<noteq> 0 then PURPOSE_U_PERFORMANCE
      else if match_pattern name ''Cortex-A[67][012356789]'' \<noteq> 0 \<or>
          match_pattern name ''Cortex-A[5][6789]'' \<noteq> 0 then PURPOSE_PERFORMANCE
      else if match_pattern name ''Cortex-A[5][012345]'' \<noteq> 0 \<or>
          match_pattern name ''Cortex-A[3][0123456789]'' \<noteq> 0 then PURPOSE_EFFICIENCY
      else PURPOSE_GENERAL)"

definition cpuid_identify_purpose_arm :: "cpu_raw_data_t \<Rightarrow> cpu_purpose_t option" where
  "cpuid_identify_purpose_arm raw = do {
     hw \<leftarrow> get_cpu_implementer_from_code (ucast (EXTRACTS_BITS (arm_midr raw) 31 24));
     p \<leftarrow> get_cpu_implementer_parts hw (ucast (EXTRACTS_BITS (arm_midr raw) 15 4));
     Some (purpose_of_name (part_name p))
   }"

section \<open>Feature status\<close>

text \<open>
  The counters are \<^verbatim>\<open>uint8_t\<close>, in arrays indexed by architecture version: functions here, as the
  code only uses versions that are not negative.
\<close>

record arm_arch_feature_t =
  af_optional :: u8
  af_mandatory :: u8

record arm_arch_extension_t =
  ext_present :: "cpu_feature_level_t \<Rightarrow> arm_arch_feature_t"
  ext_total :: "cpu_feature_level_t \<Rightarrow> arm_arch_feature_t"

definition ext_zero :: arm_arch_extension_t where
  "ext_zero = \<lparr>ext_present = (\<lambda>_. \<lparr>af_optional = 0, af_mandatory = 0\<rparr>),
     ext_total = (\<lambda>_. \<lparr>af_optional = 0, af_mandatory = 0\<rparr>)\<rparr>"

definition bump_optional ::
    "cpu_feature_level_t \<Rightarrow> (cpu_feature_level_t \<Rightarrow> arm_arch_feature_t) \<Rightarrow>
      cpu_feature_level_t \<Rightarrow> arm_arch_feature_t" where
  "bump_optional l t = t(l := (t l)\<lparr>af_optional := af_optional (t l) + 1\<rparr>)"

definition bump_mandatory ::
    "cpu_feature_level_t \<Rightarrow> (cpu_feature_level_t \<Rightarrow> arm_arch_feature_t) \<Rightarrow>
      cpu_feature_level_t \<Rightarrow> arm_arch_feature_t" where
  "bump_mandatory l t = t(l := (t l)\<lparr>af_mandatory := af_mandatory (t l) + 1\<rparr>)"

definition set_feature_status ::
    "bool \<Rightarrow> cpu_feature_t \<Rightarrow> cpu_feature_level_t \<Rightarrow> cpu_feature_level_t \<Rightarrow>
      cpu_id_t \<times> arm_arch_extension_t \<Rightarrow> cpu_id_t \<times> arm_arch_extension_t" where
  "set_feature_status is_present feature optional_from mandatory_from = (\<lambda>(data, ext).
     let total = ext_total ext;
       total = (if feature_level_code optional_from \<ge> 0 then bump_optional optional_from total else total);
       total = (if feature_level_code mandatory_from \<ge> 0 then bump_mandatory mandatory_from total else total);
       ext = ext\<lparr>ext_total := total\<rparr>
     in if \<not> is_present then (data, ext)
        else
          let data = data\<lparr>flags := (flags data)(feature := True)\<rparr>
          in if feature_level_code optional_from \<ge> 0 then
               let present = bump_optional optional_from (ext_present ext);
                 present = (if feature_level_code mandatory_from \<ge> 0
                   then bump_mandatory mandatory_from present else present)
               in (data, ext\<lparr>ext_present := present\<rparr>)
             else (data, ext))"

section \<open>Features\<close>

fun read32 :: "cpu_raw_data_t \<Rightarrow> arm_reg32 \<Rightarrow> u32" where
  "read32 raw (ID_DFR i) = arm_id_dfr raw ! i"
| "read32 raw (ID_ISAR i) = arm_id_isar raw ! i"
| "read32 raw (ID_MMFR i) = arm_id_mmfr raw ! i"
| "read32 raw (ID_PFR i) = arm_id_pfr raw ! i"

fun read64 :: "cpu_raw_data_t \<Rightarrow> arm_reg64 \<Rightarrow> u64" where
  "read64 raw (ID_AA64DFR i) = arm_id_aa64dfr raw ! i"
| "read64 raw (ID_AA64FPFR i) = arm_id_aa64fpfr raw ! i"
| "read64 raw (ID_AA64ISAR i) = arm_id_aa64isar raw ! i"
| "read64 raw (ID_AA64MMFR i) = arm_id_aa64mmfr raw ! i"
| "read64 raw (ID_AA64PFR i) = arm_id_aa64pfr raw ! i"
| "read64 raw (ID_AA64SMFR i) = arm_id_aa64smfr raw ! i"
| "read64 raw (ID_AA64ZFR i) = arm_id_aa64zfr raw ! i"

definition is_aarch64_mode :: "cpu_raw_data_t \<Rightarrow> bool" where
  "is_aarch64_mode raw \<longleftrightarrow> arm_id_aa64afr raw ! 0 \<noteq> 0 \<or> arm_id_aa64dfr raw ! 0 \<noteq> 0 \<or>
     arm_id_aa64isar raw ! 0 \<noteq> 0 \<or> arm_id_aa64mmfr raw ! 0 \<noteq> 0 \<or> arm_id_aa64pfr raw ! 0 \<noteq> 0"

text \<open>The value of the register a field names in the given mode, if it names one.\<close>

definition field_reg :: "bool \<Rightarrow> cpu_raw_data_t \<Rightarrow> arm_feature_field_t \<Rightarrow> u64 option" where
  "field_reg is_aarch64 raw f =
     (if is_aarch64 then map_option (read64 raw) (aarch64_reg f)
      else map_option (\<lambda>r. ucast (read32 raw r)) (aarch32_reg f))"

fun match_fields :: "bool \<Rightarrow> cpu_raw_data_t \<Rightarrow> arm_feature_field_t list \<Rightarrow> bool \<Rightarrow> bool" where
  "match_fields is_aarch64 raw [] is_present = is_present"
| "match_fields is_aarch64 raw (f # fs) is_present =
     (case field_reg is_aarch64 raw f of
        None \<Rightarrow> is_present
      | Some v \<Rightarrow> match_fields is_aarch64 raw fs
          (is_present \<or> EXTRACTS_BITS v (highbit f) (lowbit f) = ucast (field_value f)))"

definition match_arm_features ::
    "bool \<Rightarrow> cpu_raw_data_t \<Rightarrow> cpu_feature_t \<Rightarrow> arm_feature_map_t \<Rightarrow>
      cpu_id_t \<times> arm_arch_extension_t \<Rightarrow> cpu_id_t \<times> arm_arch_extension_t" where
  "match_arm_features is_aarch64 raw feature m =
     set_feature_status (match_fields is_aarch64 raw (take MAX_IDENTIFY_FIELDS (map_fields m)) False)
       feature (ver_optional m) (ver_mandatory m)"

definition load_arm_feature_pauth ::
    "cpu_id_t \<times> arm_arch_extension_t \<Rightarrow> cpu_id_t \<times> arm_arch_extension_t" where
  "load_arm_feature_pauth s =
     set_feature_status
       (flags (fst s) CPU_FEATURE_PACIMP \<or> flags (fst s) CPU_FEATURE_PACQARMA3 \<or>
        flags (fst s) CPU_FEATURE_PACQARMA5)
       CPU_FEATURE_PAUTH FEATURE_LEVEL_ARM_V8_2_A FEATURE_LEVEL_ARM_V8_3_A s"

definition load_arm_feature_mpam ::
    "cpu_raw_data_t \<Rightarrow> cpu_id_t \<times> arm_arch_extension_t \<Rightarrow> cpu_id_t \<times> arm_arch_extension_t" where
  "load_arm_feature_mpam raw s =
     (let mpam = EXTRACTS_BITS (arm_id_aa64pfr raw ! 0) 43 40;
        mpam_frac = EXTRACTS_BITS (arm_id_aa64pfr raw ! 1) 19 16
      in if mpam \<noteq> 0 \<or> mpam_frac \<noteq> 0 then
           set_feature_status (mpam = 1 \<and> mpam_frac = 1) CPU_FEATURE_MPAMV1P1
             FEATURE_LEVEL_ARM_V8_5_A FEATURE_LEVEL_UNKNOWN
             (set_feature_status (mpam = 0 \<and> mpam_frac = 1) CPU_FEATURE_MPAMV0P1
               FEATURE_LEVEL_ARM_V8_5_A FEATURE_LEVEL_UNKNOWN
               (set_feature_status True CPU_FEATURE_MPAM
                 FEATURE_LEVEL_ARM_V8_2_A FEATURE_LEVEL_UNKNOWN s))
         else s)"

definition load_arm_feature_mte4 ::
    "cpu_raw_data_t \<Rightarrow> cpu_id_t \<times> arm_arch_extension_t \<Rightarrow> cpu_id_t \<times> arm_arch_extension_t" where
  "load_arm_feature_mte4 raw s =
     (let mte = EXTRACTS_BITS (arm_id_aa64pfr raw ! 1) 11 8;
        mte_frac = EXTRACTS_BITS (arm_id_aa64pfr raw ! 1) 43 40;
        mtex = EXTRACTS_BITS (arm_id_aa64pfr raw ! 1) 55 52;
        s = (if mte \<ge> 2 then
            set_feature_status (mtex = 1) CPU_FEATURE_MTE_NO_ADDRESS_TAGS
              FEATURE_LEVEL_ARM_V8_7_A FEATURE_LEVEL_UNKNOWN
              (set_feature_status (mtex = 1) CPU_FEATURE_MTE_CANONICAL_TAGS
                FEATURE_LEVEL_ARM_V8_7_A FEATURE_LEVEL_UNKNOWN
                (set_feature_status (mte_frac = 0) CPU_FEATURE_MTE_ASYNC
                  FEATURE_LEVEL_ARM_V8_5_A FEATURE_LEVEL_UNKNOWN s))
          else s)
      in set_feature_status
           (flags (fst s) CPU_FEATURE_MTE_CANONICAL_TAGS \<and>
            flags (fst s) CPU_FEATURE_MTE_NO_ADDRESS_TAGS \<and>
            flags (fst s) CPU_FEATURE_MTE_TAGGED_FAR \<and> flags (fst s) CPU_FEATURE_MTE_STORE_ONLY)
           CPU_FEATURE_MTE4 FEATURE_LEVEL_ARM_V8_7_A FEATURE_LEVEL_UNKNOWN s)"

text \<open>
  \<^verbatim>\<open>features_map\<close>: an entry the table does not initialise has version 0 and is skipped, as is a
  feature whose version is 0.
\<close>

definition match_feature ::
    "bool \<Rightarrow> cpu_raw_data_t \<Rightarrow> cpu_feature_t \<Rightarrow>
      cpu_id_t \<times> arm_arch_extension_t \<Rightarrow> cpu_id_t \<times> arm_arch_extension_t" where
  "match_feature is_aarch64 raw feature s =
     (case map_of arm_features feature of
        None \<Rightarrow> s
      | Some m \<Rightarrow>
          if feature_level_code (ver_optional m) \<noteq> 0
          then match_arm_features is_aarch64 raw feature m s else s)"

definition load_arm_features ::
    "cpu_raw_data_t \<Rightarrow> cpu_id_t \<times> arm_arch_extension_t \<Rightarrow> cpu_id_t \<times> arm_arch_extension_t" where
  "load_arm_features raw s =
     (let s = set_feature_status
            (feature_level (fst s) \<in> {FEATURE_LEVEL_ARM_V4T, FEATURE_LEVEL_ARM_V5T,
               FEATURE_LEVEL_ARM_V5TE, FEATURE_LEVEL_ARM_V5TEJ})
            CPU_FEATURE_THUMB FEATURE_LEVEL_UNKNOWN FEATURE_LEVEL_UNKNOWN s;
        s = set_feature_status (feature_level (fst s) = FEATURE_LEVEL_ARM_V5TEJ)
            CPU_FEATURE_JAZELLE FEATURE_LEVEL_UNKNOWN FEATURE_LEVEL_UNKNOWN s;
        s = fold (match_feature (is_aarch64_mode raw) raw) [0..<NUM_CPU_FEATURES] s
      in load_arm_feature_mte4 raw (load_arm_feature_mpam raw (load_arm_feature_pauth s)))"

section \<open>Architecture version\<close>

definition architecture_matchtable :: "(u8 \<times> cpu_feature_level_t) list" where
  "architecture_matchtable = [
     (0b0000, FEATURE_LEVEL_UNKNOWN),
     (0b0001, FEATURE_LEVEL_ARM_V4),
     (0b0010, FEATURE_LEVEL_ARM_V4T),
     (0b0011, FEATURE_LEVEL_ARM_V5),
     (0b0100, FEATURE_LEVEL_ARM_V5T),
     (0b0101, FEATURE_LEVEL_ARM_V5TE),
     (0b0110, FEATURE_LEVEL_ARM_V5TEJ),
     (0b0111, FEATURE_LEVEL_ARM_V6),
     (0b1000, FEATURE_LEVEL_UNKNOWN),
     (0b1001, FEATURE_LEVEL_UNKNOWN),
     (0b1010, FEATURE_LEVEL_UNKNOWN),
     (0b1011, FEATURE_LEVEL_UNKNOWN),
     (0b1100, FEATURE_LEVEL_ARM_V6_M),
     (0b1101, FEATURE_LEVEL_UNKNOWN),
     (0b1110, FEATURE_LEVEL_UNKNOWN)]"

definition decode_arm_architecture_version_by_midr ::
    "cpu_raw_data_t \<Rightarrow> cpu_id_t \<Rightarrow> bool \<times> cpu_id_t" where
  "decode_arm_architecture_version_by_midr raw data =
     (case map_of architecture_matchtable (ucast (EXTRACTS_BITS (arm_midr raw) 19 16)) of
        Some l \<Rightarrow> (True, data\<lparr>feature_level := l\<rparr>)
      | None \<Rightarrow> (False, data))"

text \<open>The versions before Armv8-A, from the debug model and the profile; the part before the lists.\<close>

definition arm_legacy_level :: "cpu_raw_data_t \<Rightarrow> cpu_feature_level_t" where
  "arm_legacy_level raw =
     (let copdbg = EXTRACTS_BITS (arm_id_dfr raw ! 0) 3 0;
        simd = EXTRACTS_BITS (arm_id_isar raw ! 3) 7 4;
        psr_m = EXTRACTS_BITS (arm_id_isar raw ! 4) 27 24;
        vmsa = EXTRACTS_BITS (arm_id_mmfr raw ! 0) 3 0;
        pmsa = EXTRACTS_BITS (arm_id_mmfr raw ! 0) 7 4;
        ras = EXTRACTS_BITS (arm_id_pfr raw ! 0) 31 28;
        mprogmod = EXTRACTS_BITS (arm_id_pfr raw ! 1) 11 8
      in if copdbg = 2 \<or> copdbg = 3 then
           (if psr_m = 1 then FEATURE_LEVEL_ARM_V6_M else FEATURE_LEVEL_ARM_V6)
         else if copdbg = 4 \<or> copdbg = 5 then
           (if psr_m = 1 then
              (if simd = 3 then FEATURE_LEVEL_ARM_V7E_M else FEATURE_LEVEL_ARM_V7_M)
            else if vmsa \<noteq> 0 then FEATURE_LEVEL_ARM_V7_A
            else if pmsa \<noteq> 0 then FEATURE_LEVEL_ARM_V7_R
            else FEATURE_LEVEL_UNKNOWN)
         else if psr_m = 1 \<and> mprogmod = 2 then
           (if ras = 2 then FEATURE_LEVEL_ARM_V8_1_M else FEATURE_LEVEL_ARM_V8_0_M)
         else if pmsa \<noteq> 0 then FEATURE_LEVEL_ARM_V8_0_R
         else FEATURE_LEVEL_UNKNOWN)"

definition architecture_arm_v8a :: "cpu_feature_level_t list" where
  "architecture_arm_v8a = [FEATURE_LEVEL_ARM_V8_0_A, FEATURE_LEVEL_ARM_V8_1_A,
     FEATURE_LEVEL_ARM_V8_2_A, FEATURE_LEVEL_ARM_V8_3_A, FEATURE_LEVEL_ARM_V8_4_A,
     FEATURE_LEVEL_ARM_V8_5_A, FEATURE_LEVEL_ARM_V8_6_A, FEATURE_LEVEL_ARM_V8_7_A,
     FEATURE_LEVEL_ARM_V8_8_A, FEATURE_LEVEL_ARM_V8_9_A]"

definition architecture_arm_v9a :: "cpu_feature_level_t list" where
  "architecture_arm_v9a = [FEATURE_LEVEL_ARM_V9_0_A, FEATURE_LEVEL_ARM_V9_1_A,
     FEATURE_LEVEL_ARM_V9_2_A, FEATURE_LEVEL_ARM_V9_3_A, FEATURE_LEVEL_ARM_V9_4_A]"

text \<open>The loop over a list of versions; the terminating \<^const>\<open>FEATURE_LEVEL_UNKNOWN\<close> is its end.\<close>

fun arm_level_loop ::
    "arm_arch_extension_t \<Rightarrow> cpu_feature_level_t list \<Rightarrow> cpu_feature_level_t \<Rightarrow> cpu_feature_level_t" where
  "arm_level_loop ext [] level = level"
| "arm_level_loop ext (l # ls) level =
     (if af_mandatory (ext_present ext l) < af_mandatory (ext_total ext l) then level
      else if af_mandatory (ext_total ext l) = 0 \<and> af_optional (ext_present ext l) = 0 then level
      else arm_level_loop ext ls l)"

definition has_features :: "arm_arch_extension_t \<Rightarrow> cpu_feature_level_t \<Rightarrow> bool" where
  "has_features ext l \<longleftrightarrow>
     af_optional (ext_present ext l) > 0 \<or> af_mandatory (ext_present ext l) > 0"

definition decode_arm_architecture_version_by_cpuid ::
    "cpu_raw_data_t \<Rightarrow> arm_arch_extension_t \<Rightarrow> cpu_id_t \<Rightarrow> cpu_id_t" where
  "decode_arm_architecture_version_by_cpuid raw ext data =
     data\<lparr>feature_level :=
       (if arm_legacy_level raw \<noteq> FEATURE_LEVEL_UNKNOWN then arm_legacy_level raw
        else if has_features ext FEATURE_LEVEL_ARM_V9_0_A
        then arm_level_loop ext architecture_arm_v9a FEATURE_LEVEL_UNKNOWN
        else if has_features ext FEATURE_LEVEL_ARM_V8_0_A
        then arm_level_loop ext architecture_arm_v8a FEATURE_LEVEL_UNKNOWN
        else FEATURE_LEVEL_UNKNOWN)\<rparr>"

section \<open>Identification\<close>

text \<open>\<^verbatim>\<open>snprintf(dst, n, "%s", s)\<close>.\<close>

definition c_snprintf :: "nat \<Rightarrow> string \<Rightarrow> string" where
  "c_snprintf n s = take (n - 1) s"

definition decode_midr :: "cpu_raw_data_t \<Rightarrow> arm_id_t" where
  "decode_midr raw = \<lparr>implementer = ucast (EXTRACTS_BITS (arm_midr raw) 31 24),
     variant = ucast (EXTRACTS_BITS (arm_midr raw) 23 20),
     part_num = ucast (EXTRACTS_BITS (arm_midr raw) 15 4),
     revision = ucast (EXTRACTS_BITS (arm_midr raw) 3 0)\<rparr>"

definition arm_names :: "arm_hw_impl \<Rightarrow> arm_id_part \<Rightarrow> cpu_id_t \<Rightarrow> cpu_id_t" where
  "arm_names hw part data = data\<lparr>
     vendor := hw_vendor hw,
     vendor_str := c_snprintf VENDOR_STR_MAX (hw_name hw),
     brand_str := c_snprintf BRAND_STR_MAX (part_name part),
     cpu_codename := c_snprintf CODENAME_STR_MAX (part_codename part),
     technology_node := c_snprintf TECHNOLOGY_STR_MAX (part_technology part)\<rparr>"

definition cpuid_identify_arm :: "cpu_raw_data_t \<Rightarrow> cpu_id_t \<Rightarrow> cpu_id_t option" where
  "cpuid_identify_arm raw data = do {
     let data = data\<lparr>arm := decode_midr raw\<rparr>;
     p \<leftarrow> cpuid_identify_purpose_arm raw;
     let data = data\<lparr>purpose := p\<rparr>;
     hw \<leftarrow> get_cpu_implementer_from_code (implementer (arm data));
     part \<leftarrow> get_cpu_implementer_parts hw (part_num (arm data));
     let data = arm_names hw part data;
     let (explicit, data) = decode_arm_architecture_version_by_midr raw data;
     let (data, ext) = load_arm_features raw (data, ext_zero);
     Some (if explicit then data else decode_arm_architecture_version_by_cpuid raw ext data)
   }"

section \<open>Lists of names\<close>

text \<open>
  The loop that appends the names of the parts: \<open>acc\<close> are the names stored so far, \<open>k\<close> is the
  number of allocations made before. \<^const>\<open>None\<close> is a failed \<^verbatim>\<open>strdup\<close>.
\<close>

fun arm_list_loop :: "(nat \<Rightarrow> bool) \<Rightarrow> nat \<Rightarrow> arm_id_part list \<Rightarrow> string list \<Rightarrow> string list option" where
  "arm_list_loop alloc k [] acc = Some acc"
| "arm_list_loop alloc k (p # ps) acc =
     (if c_strstr (part_name p) ''Unknown'' \<noteq> None then arm_list_loop alloc k ps acc
      else if part_name p \<in> set acc then arm_list_loop alloc k ps acc
      else if alloc k then arm_list_loop alloc (Suc k) ps (acc @ [part_name p])
      else None)"

text \<open>
  \<^verbatim>\<open>cpuid_get_list_arm(vendor, list)\<close> appends to what \<open>list\<close> holds; a list whose \<^verbatim>\<open>names\<close> do not
  agree with \<^verbatim>\<open>num_entries\<close>, as one that was never initialised, is undefined behaviour.
\<close>

definition cpuid_get_list_arm ::
    "(nat \<Rightarrow> bool) \<Rightarrow> cpu_vendor_t \<Rightarrow> cpu_list_t \<Rightarrow> cpu_error_t \<Rightarrow> (cpu_list_t \<times> cpu_error_t) option" where
  "cpuid_get_list_arm alloc v l errno = do {
     hw \<leftarrow> get_cpu_implementer_from_vendor v;
     let parts = takeWhile (\<lambda>p. part_id p \<ge> 0) (hw_parts hw);
     if parts = [] then Some (l, errno)
     else if \<not> wf_list l then None
     else if \<not> alloc 0 then Some (l, ERR_NO_MEM)
     else
       (case arm_list_loop alloc 1 parts (case names l of None \<Rightarrow> [] | Some ns \<Rightarrow> ns) of
          None \<Rightarrow> Some (\<lparr>num_entries = 0, names = None\<rparr>, ERR_NO_MEM)
        | Some ns \<Rightarrow> Some (\<lparr>num_entries = int (length ns), names = Some ns\<rparr>, errno))
   }"

end
