(* ===== verification/Arm_Versions.thy ===== *)
theory Arm_Versions
  imports Recog_Arm
begin

text \<open>
  How the features and the architecture version of an ARM processor come about. Loading the
  features is a sequence of calls of \<^const>\<open>set_feature_status\<close> that depends only on the registers;
  the counters count its elements without overflow, and the loops over the versions are read as
  conditions on the flags that are set in the end.
\<close>

section \<open>Calls of set_feature_status\<close>

text \<open>
  Loading the features is a sequence of calls of \<^const>\<open>set_feature_status\<close>. A call is a tuple of
  its arguments; the counters after a sequence of calls count its elements.
\<close>

type_synonym status_call = "bool \<times> cpu_feature_t \<times> cpu_feature_level_t \<times> cpu_feature_level_t"

definition status_call ::
    "status_call \<Rightarrow> cpu_id_t \<times> arm_arch_extension_t \<Rightarrow> cpu_id_t \<times> arm_arch_extension_t" where
  "status_call = (\<lambda>(p, f, opt, man). set_feature_status p f opt man)"

definition calls :: "(status_call \<Rightarrow> bool) \<Rightarrow> status_call list \<Rightarrow> u8" where
  "calls P cs = of_nat (length (filter P cs))"

definition counted :: "cpu_feature_level_t \<Rightarrow> bool" where
  "counted l \<longleftrightarrow> feature_level_code l \<ge> 0"

abbreviation (input) call_opt :: "status_call \<Rightarrow> cpu_feature_level_t" where
  "call_opt c \<equiv> fst (snd (snd c))"

abbreviation (input) call_man :: "status_call \<Rightarrow> cpu_feature_level_t" where
  "call_man c \<equiv> snd (snd (snd c))"

definition ext_of :: "status_call list \<Rightarrow> arm_arch_extension_t" where
  "ext_of cs = \<lparr>
     ext_present = (\<lambda>l. \<lparr>
       af_optional = calls (\<lambda>c. fst c \<and> call_opt c = l \<and> counted l) cs,
       af_mandatory = calls (\<lambda>c. (fst c \<and> counted (call_opt c)) \<and> call_man c = l \<and> counted l) cs\<rparr>),
     ext_total = (\<lambda>l. \<lparr>
       af_optional = calls (\<lambda>c. call_opt c = l \<and> counted l) cs,
       af_mandatory = calls (\<lambda>c. call_man c = l \<and> counted l) cs\<rparr>)\<rparr>"

lemma ext_of_Nil: "ext_of [] = ext_zero"
  by (simp add: ext_of_def ext_zero_def calls_def)

lemma calls_snoc: "calls P (cs @ [c]) = (if P c then calls P cs + 1 else calls P cs)"
  by (simp add: calls_def)

lemma flags_status:
  "fst (set_feature_status p f opt man s) =
     (fst s)\<lparr>flags := (\<lambda>g. flags (fst s) g \<or> (p \<and> g = f))\<rparr>"
  by (cases s) (auto simp: set_feature_status_def Let_def fun_eq_iff)

lemma ext_status:
  "snd (set_feature_status p f opt man (d, ext_of cs)) = ext_of (cs @ [(p, f, opt, man)])"
  by (cases p)
    (auto simp: set_feature_status_def Let_def ext_of_def calls_snoc bump_optional_def
      bump_mandatory_def counted_def fun_eq_iff)

lemma set_feature_status_calls:
  "set_feature_status p f opt man (d, ext_of cs) =
     (d\<lparr>flags := (\<lambda>g. flags d g \<or> (p \<and> g = f))\<rparr>, ext_of (cs @ [(p, f, opt, man)]))"
  by (simp add: prod_eq_iff flags_status ext_status)

section \<open>The calls of load_arm_features\<close>

text \<open>Presence of a feature: a field that is looked at has its value.\<close>

definition row_present :: "bool \<Rightarrow> cpu_raw_data_t \<Rightarrow> arm_feature_map_t \<Rightarrow> bool" where
  "row_present is_aarch64 raw m \<longleftrightarrow>
     (\<exists>f \<in> set (takeWhile (\<lambda>f. field_reg is_aarch64 raw f \<noteq> None) (map_fields m)).
        \<exists>v. field_reg is_aarch64 raw f = Some v \<and>
          EXTRACTS_BITS v (highbit f) (lowbit f) = ucast (field_value f))"

lemma match_fields_iff:
  "match_fields is_aarch64 raw fs b \<longleftrightarrow> b \<or>
     (\<exists>f \<in> set (takeWhile (\<lambda>f. field_reg is_aarch64 raw f \<noteq> None) fs).
        \<exists>v. field_reg is_aarch64 raw f = Some v \<and>
          EXTRACTS_BITS v (highbit f) (lowbit f) = ucast (field_value f))"
  by (induction fs arbitrary: b) (auto split: option.splits)

definition row_call :: "bool \<Rightarrow> cpu_raw_data_t \<Rightarrow> cpu_feature_t \<times> arm_feature_map_t \<Rightarrow> status_call" where
  "row_call is_aarch64 raw r =
     (row_present is_aarch64 raw (snd r), fst r, ver_optional (snd r), ver_mandatory (snd r))"

definition table_calls :: "bool \<Rightarrow> cpu_raw_data_t \<Rightarrow> cpu_feature_t list \<Rightarrow> status_call list" where
  "table_calls is_aarch64 raw fs =
     List.map_filter (\<lambda>f. map_option (\<lambda>m. row_call is_aarch64 raw (f, m)) (map_of arm_features f)) fs"

lemma match_feature_calls:
  "match_feature is_aarch64 raw f s = fold status_call (table_calls is_aarch64 raw [f]) s"
proof (cases "map_of arm_features f")
  case (Some m)
  then have "arm_row_ok (f, m)"
    using arm_features_ok by (auto simp: list_all_iff dest: map_of_SomeD)
  then have "feature_level_code (ver_optional m) \<noteq> 0" "take MAX_IDENTIFY_FIELDS (map_fields m) = map_fields m"
    by (simp_all add: arm_row_ok_def)
  with Some show ?thesis
    by (simp add: match_feature_def match_arm_features_def table_calls_def map_filter_simps
        row_call_def status_call_def match_fields_iff row_present_def)
qed (simp add: match_feature_def table_calls_def map_filter_simps)

lemma table_calls_Cons: "table_calls b raw (f # fs) = table_calls b raw [f] @ table_calls b raw fs"
  by (auto simp: table_calls_def map_filter_simps split: option.splits)

lemma match_features_calls:
  "fold (match_feature b raw) fs s = fold status_call (table_calls b raw fs) s"
proof (induction fs arbitrary: s)
  case Nil
  then show ?case by (simp add: table_calls_def map_filter_simps)
next
  case (Cons f fs)
  have "fold (match_feature b raw) (f # fs) s =
      fold status_call (table_calls b raw fs) (fold status_call (table_calls b raw [f]) s)"
    by (simp only: fold_simps match_feature_calls [of b raw f s] Cons.IH)
  then show ?case
    by (simp only: table_calls_Cons [of b raw f fs] fold_append comp_def)
qed

lemma set_table_calls:
  "set (table_calls b raw [0..<NUM_CPU_FEATURES]) = row_call b raw ` set arm_features"
proof -
  have "f < NUM_CPU_FEATURES" if "(f, m) \<in> set arm_features" for f m
    using arm_features_ok that by (auto simp: list_all_iff arm_row_ok_def)
  then show ?thesis
    by (force simp: table_calls_def map_filter_def row_call_def map_of_arm_features image_iff
        dest: map_of_SomeD)
qed

lemma length_table_calls: "length (table_calls b raw [0..<n]) \<le> 244"
proof -
  let ?fs = "filter (\<lambda>f. map_of arm_features f \<noteq> None) [0..<n]"
  have "length (table_calls b raw [0..<n]) = length ?fs"
    by (simp add: table_calls_def map_filter_def comp_def)
  also have "\<dots> = card (set ?fs)" by (rule distinct_card [symmetric]) simp
  also have "\<dots> \<le> card (fst ` set arm_features)"
    by (rule card_mono) (auto simp: map_of_eq_None_iff)
  also have "\<dots> \<le> length arm_features"
    using card_length [of "map fst arm_features"] by simp
  finally show ?thesis by (simp only: length_arm_features)
qed

definition mpam_calls :: "cpu_raw_data_t \<Rightarrow> status_call list" where
  "mpam_calls raw =
     (let mpam = EXTRACTS_BITS (arm_id_aa64pfr raw ! 0) 43 40;
        mpam_frac = EXTRACTS_BITS (arm_id_aa64pfr raw ! 1) 19 16
      in if mpam \<noteq> 0 \<or> mpam_frac \<noteq> 0 then
           [(True, CPU_FEATURE_MPAM, FEATURE_LEVEL_ARM_V8_2_A, FEATURE_LEVEL_UNKNOWN),
            (mpam = 0 \<and> mpam_frac = 1, CPU_FEATURE_MPAMV0P1, FEATURE_LEVEL_ARM_V8_5_A, FEATURE_LEVEL_UNKNOWN),
            (mpam = 1 \<and> mpam_frac = 1, CPU_FEATURE_MPAMV1P1, FEATURE_LEVEL_ARM_V8_5_A, FEATURE_LEVEL_UNKNOWN)]
         else [])"

definition mte_calls :: "cpu_raw_data_t \<Rightarrow> status_call list" where
  "mte_calls raw =
     (let mtex = EXTRACTS_BITS (arm_id_aa64pfr raw ! 1) 55 52
      in if EXTRACTS_BITS (arm_id_aa64pfr raw ! 1) 11 8 \<ge> 2 then
           [(EXTRACTS_BITS (arm_id_aa64pfr raw ! 1) 43 40 = 0, CPU_FEATURE_MTE_ASYNC,
              FEATURE_LEVEL_ARM_V8_5_A, FEATURE_LEVEL_UNKNOWN),
            (mtex = 1, CPU_FEATURE_MTE_CANONICAL_TAGS, FEATURE_LEVEL_ARM_V8_7_A, FEATURE_LEVEL_UNKNOWN),
            (mtex = 1, CPU_FEATURE_MTE_NO_ADDRESS_TAGS, FEATURE_LEVEL_ARM_V8_7_A, FEATURE_LEVEL_UNKNOWN)]
         else [])"

definition pauth_call :: "(cpu_feature_t \<Rightarrow> bool) \<Rightarrow> status_call" where
  "pauth_call fl = (fl CPU_FEATURE_PACIMP \<or> fl CPU_FEATURE_PACQARMA3 \<or> fl CPU_FEATURE_PACQARMA5,
     CPU_FEATURE_PAUTH, FEATURE_LEVEL_ARM_V8_2_A, FEATURE_LEVEL_ARM_V8_3_A)"

definition mte4_call :: "(cpu_feature_t \<Rightarrow> bool) \<Rightarrow> status_call" where
  "mte4_call fl = (fl CPU_FEATURE_MTE_CANONICAL_TAGS \<and> fl CPU_FEATURE_MTE_NO_ADDRESS_TAGS \<and>
     fl CPU_FEATURE_MTE_TAGGED_FAR \<and> fl CPU_FEATURE_MTE_STORE_ONLY,
     CPU_FEATURE_MTE4, FEATURE_LEVEL_ARM_V8_7_A, FEATURE_LEVEL_UNKNOWN)"

definition level_calls :: "cpu_feature_level_t \<Rightarrow> status_call list" where
  "level_calls level =
     [(level \<in> {FEATURE_LEVEL_ARM_V4T, FEATURE_LEVEL_ARM_V5T, FEATURE_LEVEL_ARM_V5TE,
         FEATURE_LEVEL_ARM_V5TEJ}, CPU_FEATURE_THUMB, FEATURE_LEVEL_UNKNOWN, FEATURE_LEVEL_UNKNOWN),
      (level = FEATURE_LEVEL_ARM_V5TEJ, CPU_FEATURE_JAZELLE, FEATURE_LEVEL_UNKNOWN, FEATURE_LEVEL_UNKNOWN)]"

lemma pauth_is_call: "load_arm_feature_pauth s = status_call (pauth_call (flags (fst s))) s"
  by (simp add: load_arm_feature_pauth_def pauth_call_def status_call_def)

lemma mpam_is_calls: "load_arm_feature_mpam raw s = fold status_call (mpam_calls raw) s"
  by (simp add: load_arm_feature_mpam_def mpam_calls_def status_call_def Let_def)

lemma mte4_is_calls:
  "load_arm_feature_mte4 raw s =
     (let s = fold status_call (mte_calls raw) s in status_call (mte4_call (flags (fst s))) s)"
  by (simp add: load_arm_feature_mte4_def mte_calls_def mte4_call_def status_call_def Let_def)

text \<open>
  All calls in order, in terms of the flags \<open>fl\<close> that they set in the end: no call after the one
  for pointer authentication or memory tagging changes the flags these read.
\<close>

definition arm_calls ::
    "cpu_raw_data_t \<Rightarrow> cpu_feature_level_t \<Rightarrow> (cpu_feature_t \<Rightarrow> bool) \<Rightarrow> status_call list" where
  "arm_calls raw level fl =
     level_calls level @ table_calls (is_aarch64_mode raw) raw [0..<NUM_CPU_FEATURES] @
     [pauth_call fl] @ mpam_calls raw @ mte_calls raw @ [mte4_call fl]"

definition called :: "status_call list \<Rightarrow> cpu_feature_t \<Rightarrow> bool" where
  "called cs g \<longleftrightarrow> (\<exists>c \<in> set cs. fst c \<and> fst (snd c) = g)"

lemma called_append: "called (xs @ ys) g \<longleftrightarrow> called xs g \<or> called ys g"
  by (auto simp: called_def)

lemma called_Cons: "called (c # cs) g \<longleftrightarrow> (fst c \<and> fst (snd c) = g) \<or> called cs g"
  by (simp add: called_def)

lemma called_Nil: "\<not> called [] g"
  by (simp add: called_def)

lemma fold_status_called:
  "fold status_call cs (d, ext_of cs0) =
     (d\<lparr>flags := (\<lambda>g. flags d g \<or> called cs g)\<rparr>, ext_of (cs0 @ cs))"
proof (induction cs arbitrary: d cs0)
  case Nil
  then show ?case by (simp add: called_Nil)
next
  case (Cons c cs)
  have step: "status_call c (d, ext_of cs0) =
      (d\<lparr>flags := (\<lambda>g. flags d g \<or> (fst c \<and> g = fst (snd c)))\<rparr>, ext_of (cs0 @ [c]))"
    by (cases c) (simp add: status_call_def set_feature_status_calls)
  have fl: "(\<lambda>g. (flags d g \<or> (fst c \<and> g = fst (snd c))) \<or> called cs g) =
      (\<lambda>g. flags d g \<or> called (c # cs) g)"
    by (auto simp: fun_eq_iff called_Cons)
  show ?case
    by (simp only: fold_simps step Cons.IH fl [symmetric]) simp
qed

lemma load_arm_features_calls:
  assumes "flags d = (\<lambda>_. False)"
  shows "\<exists>fl. load_arm_features raw (d, ext_zero) =
      (d\<lparr>flags := fl\<rparr>, ext_of (arm_calls raw (feature_level d) fl)) \<and>
    fl = called (arm_calls raw (feature_level d) fl)"
proof -
  define t where "t = level_calls (feature_level d) @
    table_calls (is_aarch64_mode raw) raw [0..<NUM_CPU_FEATURES]"
  define f0 where "f0 = called t"
  define p where "p = pauth_call f0 # mpam_calls raw @ mte_calls raw"
  define f1 where "f1 = called (t @ p)"
  define q where "q = mte4_call f1"
  define fl where "fl = called (t @ p @ [q])"
  have tab: "fold status_call t (d, ext_of []) = (d\<lparr>flags := f0\<rparr>, ext_of t)"
    by (simp add: fold_status_called assms f0_def)
  have "(\<lambda>g. called t g \<or> called p g) = f1" by (simp add: f1_def called_append fun_eq_iff)
  then have p_run: "fold status_call p (d\<lparr>flags := f0\<rparr>, ext_of t) = (d\<lparr>flags := f1\<rparr>, ext_of (t @ p))"
    by (simp only: fold_status_called) (simp add: f0_def)
  have "load_arm_features raw (d, ext_zero) =
      load_arm_feature_mte4 raw (load_arm_feature_mpam raw (load_arm_feature_pauth
        (fold status_call t (d, ext_of []))))"
    by (simp add: load_arm_features_def t_def level_calls_def status_call_def Let_def ext_of_Nil
        flags_status match_features_calls del: upt_rec_numeral)
  also have "\<dots> = load_arm_feature_mte4 raw (load_arm_feature_mpam raw
      (fold status_call [pauth_call f0] (d\<lparr>flags := f0\<rparr>, ext_of t)))"
    by (simp add: tab pauth_is_call)
  also have "\<dots> = (let s = fold status_call p (d\<lparr>flags := f0\<rparr>, ext_of t) in
      status_call (mte4_call (flags (fst s))) s)"
    by (simp only: mpam_is_calls mte4_is_calls p_def fold_append fold_simps comp_def)
  also have "\<dots> = fold status_call [q] (d\<lparr>flags := f1\<rparr>, ext_of (t @ p))"
    by (simp add: p_run Let_def q_def)
  also have "\<dots> = (d\<lparr>flags := fl\<rparr>, ext_of (t @ p @ [q]))"
    by (simp only: fold_status_called) (simp add: f1_def fl_def called_append fun_eq_iff)
  finally have run: "load_arm_features raw (d, ext_zero) = (d\<lparr>flags := fl\<rparr>, ext_of (t @ p @ [q]))" .
  have "fl g = f0 g" if "g \<in> {CPU_FEATURE_PACIMP, CPU_FEATURE_PACQARMA3, CPU_FEATURE_PACQARMA5}" for g
    using that
    by (auto simp: fl_def f0_def p_def q_def mte4_call_def pauth_call_def mpam_calls_def mte_calls_def
        called_append called_Cons called_Nil Let_def)
  then have p: "p = pauth_call fl # mpam_calls raw @ mte_calls raw"
    by (simp add: p_def pauth_call_def)
  have "fl g = f1 g" if "g \<noteq> CPU_FEATURE_MTE4" for g
    using that by (auto simp: fl_def f1_def q_def mte4_call_def called_append called_Cons called_Nil)
  then have q: "q = mte4_call fl" by (simp add: q_def mte4_call_def)
  have "t @ p @ [q] = arm_calls raw (feature_level d) fl"
    by (simp add: arm_calls_def t_def p q del: upt_rec_numeral)
  then show ?thesis using run fl_def by (intro exI [of _ fl]) simp
qed

section \<open>Counters\<close>

lemma length_arm_calls: "length (arm_calls raw level fl) < 256"
  using length_table_calls [of "is_aarch64_mode raw" raw NUM_CPU_FEATURES]
  by (simp add: arm_calls_def level_calls_def mpam_calls_def mte_calls_def Let_def del: upt_rec_numeral)

lemma unat_calls:
  assumes "length cs < 256"
  shows "unat (calls P cs) = length (filter P cs)"
proof -
  have "length (filter P cs) < 256" using length_filter_le [of P cs] assms by linarith
  then show ?thesis by (simp add: calls_def unsigned_of_nat take_bit_nat_eq_self_iff)
qed

lemma calls_eq_0: "length cs < 256 \<Longrightarrow> calls P cs = 0 \<longleftrightarrow> (\<forall>c \<in> set cs. \<not> P c)"
  using unat_calls [of cs P] by (metis filter_empty_conv length_0_conv unsigned_0 unsigned_eq_0_iff)

lemma calls_less:
  assumes "length cs < 256"
  shows "calls (\<lambda>c. P c \<and> Q c) cs < calls Q cs \<longleftrightarrow> (\<exists>c \<in> set cs. Q c \<and> \<not> P c)"
proof -
  have less: "length (filter P xs) < length xs \<longleftrightarrow> (\<exists>c \<in> set xs. \<not> P c)" for xs :: "status_call list"
    using length_filter_less [of _ xs P] by (metis filter_True nless_le)
  have "filter (\<lambda>c. P c \<and> Q c) cs = filter P (filter Q cs)" by (simp add: conj_commute)
  then have "unat (calls (\<lambda>c. P c \<and> Q c) cs) < unat (calls Q cs) \<longleftrightarrow> (\<exists>c \<in> set (filter Q cs). \<not> P c)"
    by (simp only: unat_calls [OF assms] less)
  then show ?thesis by (simp add: word_less_nat_alt Bex_def conj_assoc)
qed

definition compliant :: "status_call list \<Rightarrow> cpu_feature_level_t \<Rightarrow> bool" where
  "compliant cs l \<longleftrightarrow> (\<forall>c \<in> set cs. call_man c = l \<longrightarrow> fst c) \<and>
     ((\<exists>c \<in> set cs. call_man c = l) \<or> (\<exists>c \<in> set cs. fst c \<and> call_opt c = l))"

definition calls_ok :: "status_call list \<Rightarrow> bool" where
  "calls_ok cs \<longleftrightarrow> length cs < 256 \<and>
     (\<forall>c \<in> set cs. counted (call_man c) \<longrightarrow> counted (call_opt c))"

lemma calls_ok_arm: "calls_ok (arm_calls raw level fl)"
proof -
  have "counted (call_opt c)" if "c \<in> row_call b raw ` set arm_features" "counted (call_man c)" for c b
    using that arm_features_ok
    by (fastforce simp: row_call_def list_all_iff arm_row_ok_def counted_def)
  moreover have "counted (call_opt c)" if "c \<in> set (level_calls level @ [pauth_call fl] @
      mpam_calls raw @ mte_calls raw @ [mte4_call fl])" "counted (call_man c)" for c
    using that
    by (auto simp: level_calls_def mpam_calls_def mte_calls_def Let_def pauth_call_def mte4_call_def
        counted_def split: if_splits)
  ultimately show ?thesis
    using length_arm_calls [of raw level fl]
    unfolding calls_ok_def arm_calls_def set_append set_table_calls by (simp only:) blast
qed

lemma level_counters:
  assumes "calls_ok cs" and "counted l"
  shows level_test: "\<not> af_mandatory (ext_present (ext_of cs) l) < af_mandatory (ext_total (ext_of cs) l) \<and>
      \<not> (af_mandatory (ext_total (ext_of cs) l) = 0 \<and> af_optional (ext_present (ext_of cs) l) = 0) \<longleftrightarrow>
    compliant cs l"
    and has_features_iff: "has_features (ext_of cs) l \<longleftrightarrow>
      (\<exists>c \<in> set cs. fst c \<and> (call_opt c = l \<or> call_man c = l))"
proof -
  have len: "length cs < 256"
    and opt: "c \<in> set cs \<Longrightarrow> call_man c = l \<Longrightarrow> counted (call_opt c)" for c
    using assms by (auto simp: calls_ok_def)
  have less: "af_mandatory (ext_present (ext_of cs) l) < af_mandatory (ext_total (ext_of cs) l) \<longleftrightarrow>
      (\<exists>c \<in> set cs. call_man c = l \<and> \<not> fst c)"
    unfolding ext_of_def arm_arch_extension_t.simps arm_arch_feature_t.simps calls_less [OF len]
    using assms(2) opt by blast
  have total: "af_mandatory (ext_total (ext_of cs) l) = 0 \<longleftrightarrow> \<not> (\<exists>c \<in> set cs. call_man c = l)"
    using assms(2) by (simp add: ext_of_def calls_eq_0 [OF len])
  have present: "af_optional (ext_present (ext_of cs) l) = 0 \<longleftrightarrow>
      \<not> (\<exists>c \<in> set cs. fst c \<and> call_opt c = l)"
    using assms(2) by (auto simp: ext_of_def calls_eq_0 [OF len])
  have present_man: "af_mandatory (ext_present (ext_of cs) l) = 0 \<longleftrightarrow>
      \<not> (\<exists>c \<in> set cs. fst c \<and> call_man c = l)"
    using assms(2) opt by (auto simp: ext_of_def calls_eq_0 [OF len])
  show "\<not> af_mandatory (ext_present (ext_of cs) l) < af_mandatory (ext_total (ext_of cs) l) \<and>
      \<not> (af_mandatory (ext_total (ext_of cs) l) = 0 \<and> af_optional (ext_present (ext_of cs) l) = 0) \<longleftrightarrow>
    compliant cs l"
    unfolding compliant_def less total present by blast
  show "has_features (ext_of cs) l \<longleftrightarrow> (\<exists>c \<in> set cs. fst c \<and> (call_opt c = l \<or> call_man c = l))"
    unfolding has_features_def word_neq_0_conv [symmetric] present present_man by blast
qed

lemma arm_level_loop_takeWhile:
  assumes "calls_ok cs" and "\<forall>l \<in> set ls. counted l"
  shows "arm_level_loop (ext_of cs) ls level =
    (case takeWhile (compliant cs) ls of [] \<Rightarrow> level | x # xs \<Rightarrow> last (x # xs))"
  using assms(2)
proof (induction ls arbitrary: level)
  case (Cons l ls)
  with level_test [OF assms(1), of l] show ?case
    by (auto split: list.splits)
qed simp

section \<open>The versions in the table\<close>

lemmas arm_features_rows = arm_features_def arm_features_1_def arm_features_2_def
  arm_features_3_def arm_features_4_def arm_features_5_def arm_features_6_def arm_features_7_def
  arm_features_8_def arm_features_9_def arm_features_10_def arm_features_11_def
  arm_features_12_def arm_features_13_def arm_features_14_def arm_features_15_def

text \<open>The versions at which nothing is mandatory, and only rows of the table are optional.\<close>

definition optional_levels :: "cpu_feature_level_t list" where
  "optional_levels = FEATURE_LEVEL_ARM_V8_0_A # architecture_arm_v9a"

definition special_features :: "cpu_feature_t list" where
  "special_features = [CPU_FEATURE_THUMB, CPU_FEATURE_JAZELLE, CPU_FEATURE_PAUTH, CPU_FEATURE_MPAM,
     CPU_FEATURE_MPAMV0P1, CPU_FEATURE_MPAMV1P1, CPU_FEATURE_MTE_ASYNC,
     CPU_FEATURE_MTE_CANONICAL_TAGS, CPU_FEATURE_MTE_NO_ADDRESS_TAGS, CPU_FEATURE_MTE4]"

lemma arm_features_special:
  "list_all (\<lambda>(f, m). ver_optional m \<in> {FEATURE_LEVEL_UNKNOWN, FEATURE_LEVEL_ARM_V8_2_A} \<or>
     f \<notin> set special_features) arm_features"
  by (simp add: arm_features_rows special_features_def)

lemma no_mandatory: "list_all (\<lambda>(f, m). ver_mandatory m \<notin> set optional_levels) arm_features"
  by (simp add: arm_features_rows optional_levels_def architecture_arm_v9a_def)

lemma mandatory_v8_1:
  "map fst (filter (\<lambda>(f, m). ver_mandatory m = FEATURE_LEVEL_ARM_V8_1_A) arm_features) =
     [CPU_FEATURE_CRC32, CPU_FEATURE_HPDS, CPU_FEATURE_LOR, CPU_FEATURE_LSE, CPU_FEATURE_PAN]"
  by (simp add: arm_features_rows)

lemma mandatory_v8_1_opt:
  "list_all (\<lambda>(f, m). ver_mandatory m = FEATURE_LEVEL_ARM_V8_1_A \<longrightarrow>
     ver_optional m = FEATURE_LEVEL_ARM_V8_0_A) arm_features"
  by (simp add: arm_features_rows)

lemma pan_rows:
  "fmap CPU_FEATURE_PAN FEATURE_LEVEL_ARM_V8_0_A FEATURE_LEVEL_ARM_V8_1_A
     [f64 (ID_AA64MMFR 1) 23 20 1, f32 (ID_MMFR 3) 19 16 1] \<in> set arm_features"
  "fmap CPU_FEATURE_PAN2 FEATURE_LEVEL_ARM_V8_1_A FEATURE_LEVEL_ARM_V8_2_A
     [f64 (ID_AA64MMFR 1) 23 20 2, f32 (ID_MMFR 3) 19 16 2] \<in> set arm_features"
  by (simp_all add: arm_features_rows)

lemma set_arm_calls:
  "set (arm_calls raw level fl) = row_call (is_aarch64_mode raw) raw ` set arm_features \<union>
     set (level_calls level @ [pauth_call fl] @ mpam_calls raw @ mte_calls raw @ [mte4_call fl])"
  unfolding arm_calls_def set_append set_table_calls by blast

lemma special_call:
  assumes "c \<in> set (level_calls level @ [pauth_call fl] @ mpam_calls raw @ mte_calls raw @ [mte4_call fl])"
  shows "fst (snd c) \<in> set special_features" and "call_opt c \<notin> set optional_levels"
    and "call_man c \<in> {FEATURE_LEVEL_UNKNOWN, FEATURE_LEVEL_ARM_V8_3_A}"
  using assms
  by (auto simp: level_calls_def mpam_calls_def mte_calls_def Let_def pauth_call_def mte4_call_def
      special_features_def optional_levels_def architecture_arm_v9a_def split: if_splits)

text \<open>A feature of a row that no special call concerns is set exactly when the row is present.\<close>

lemma flag_of_row:
  assumes "fl = called (arm_calls raw level fl)" and "(f, m) \<in> set arm_features"
    and ns: "f \<notin> set special_features"
  shows "fl f \<longleftrightarrow> row_present (is_aarch64_mode raw) raw m"
proof -
  have "fl f \<longleftrightarrow> (\<exists>c \<in> set (arm_calls raw level fl). fst c \<and> fst (snd c) = f)"
    by (subst assms(1)) (simp add: called_def)
  also have "\<dots> \<longleftrightarrow> (\<exists>c \<in> row_call (is_aarch64_mode raw) raw ` set arm_features. fst c \<and> fst (snd c) = f)"
    unfolding set_arm_calls using special_call(1) ns by blast
  also have "\<dots> \<longleftrightarrow> row_present (is_aarch64_mode raw) raw m"
  proof -
    have "snd r = m" if "r \<in> set arm_features" "fst r = f" for r
      using map_of_arm_features [of f "snd r"] map_of_arm_features [OF assms(2)] that by (cases r) simp
    moreover have "(\<exists>c \<in> row_call (is_aarch64_mode raw) raw ` set arm_features. fst c \<and> fst (snd c) = f) \<longleftrightarrow>
        (\<exists>r \<in> set arm_features. row_present (is_aarch64_mode raw) raw (snd r) \<and> fst r = f)"
      by (simp only: row_call_def bex_simps fst_conv snd_conv)
    ultimately show ?thesis using assms(2) by (metis fst_conv snd_conv)
  qed
  finally show ?thesis .
qed

lemma not_special:
  assumes "r \<in> set arm_features" and "ver_optional (snd r) \<notin> {FEATURE_LEVEL_UNKNOWN, FEATURE_LEVEL_ARM_V8_2_A}"
  shows "fst r \<notin> set special_features"
  using arm_features_special assms by (auto simp: list_all_iff)

definition announces :: "(cpu_feature_t \<Rightarrow> bool) \<Rightarrow> cpu_feature_level_t \<Rightarrow> bool" where
  "announces fl l \<longleftrightarrow> (\<exists>r \<in> set arm_features. ver_optional (snd r) = l \<and> fl (fst r))"

lemma announces_calls:
  assumes fl: "fl = called (arm_calls raw level fl)" and "l \<in> set optional_levels"
  shows "(\<exists>c \<in> set (arm_calls raw level fl). fst c \<and> call_opt c = l) \<longleftrightarrow> announces fl l"
proof -
  have l: "l \<notin> {FEATURE_LEVEL_UNKNOWN, FEATURE_LEVEL_ARM_V8_2_A}"
    using assms(2) by (auto simp: optional_levels_def architecture_arm_v9a_def)
  have "(\<exists>c \<in> set (arm_calls raw level fl). fst c \<and> call_opt c = l) \<longleftrightarrow>
      (\<exists>c \<in> row_call (is_aarch64_mode raw) raw ` set arm_features. fst c \<and> call_opt c = l)"
    unfolding set_arm_calls using special_call(2) assms(2) by blast
  also have "\<dots> \<longleftrightarrow> announces fl l"
    using flag_of_row [OF fl] not_special l unfolding announces_def row_call_def by force
  finally show ?thesis .
qed

lemma no_mandatory_calls:
  assumes "l \<in> set optional_levels" and "c \<in> set (arm_calls raw level fl)"
  shows "call_man c \<noteq> l"
proof -
  have "call_man c \<noteq> l" if "c \<in> row_call b raw ` set arm_features" for b
    using that no_mandatory assms(1) by (auto simp: row_call_def list_all_iff)
  moreover have "l \<notin> {FEATURE_LEVEL_UNKNOWN, FEATURE_LEVEL_ARM_V8_3_A}"
    using assms(1) by (auto simp: optional_levels_def architecture_arm_v9a_def)
  ultimately show ?thesis
    using assms(2) special_call(3) unfolding set_arm_calls by blast
qed

lemma compliant_optional:
  assumes "fl = called (arm_calls raw level fl)" and "l \<in> set optional_levels"
  shows "compliant (arm_calls raw level fl) l \<longleftrightarrow> announces fl l"
  using announces_calls [OF assms] no_mandatory_calls [OF assms(2)]
  unfolding compliant_def by blast

lemma compliant_v8_1:
  assumes "fl = called (arm_calls raw level fl)"
  shows "compliant (arm_calls raw level fl) FEATURE_LEVEL_ARM_V8_1_A \<longleftrightarrow>
    fl CPU_FEATURE_CRC32 \<and> fl CPU_FEATURE_HPDS \<and> fl CPU_FEATURE_LOR \<and> fl CPU_FEATURE_LSE \<and>
    fl CPU_FEATURE_PAN"
proof -
  let ?rows = "filter (\<lambda>(f, m). ver_mandatory m = FEATURE_LEVEL_ARM_V8_1_A) arm_features"
  let ?cs = "arm_calls raw level fl"
  have man: "c \<in> set ?cs \<and> call_man c = FEATURE_LEVEL_ARM_V8_1_A \<longleftrightarrow>
      c \<in> row_call (is_aarch64_mode raw) raw ` set ?rows" for c
  proof -
    have "c \<in> row_call b raw ` set arm_features \<and> call_man c = FEATURE_LEVEL_ARM_V8_1_A \<longleftrightarrow>
        c \<in> row_call b raw ` set ?rows" for b
      by (auto simp: row_call_def)
    moreover have "call_man c \<noteq> FEATURE_LEVEL_ARM_V8_1_A"
      if "c \<in> set (level_calls level @ [pauth_call fl] @ mpam_calls raw @ mte_calls raw @ [mte4_call fl])"
      using special_call(3) [OF that] by auto
    ultimately show ?thesis unfolding set_arm_calls Un_iff by metis
  qed
  have row: "fst (row_call (is_aarch64_mode raw) raw r) \<longleftrightarrow> fl (fst r)" if "r \<in> set ?rows" for r
  proof -
    have "ver_optional (snd r) \<notin> {FEATURE_LEVEL_UNKNOWN, FEATURE_LEVEL_ARM_V8_2_A}"
      using that mandatory_v8_1_opt by (auto simp: list_all_iff)
    then have "fst r \<notin> set special_features" using that by (intro not_special) simp_all
    with that show ?thesis using flag_of_row [OF assms, of "fst r" "snd r"] by (auto simp: row_call_def)
  qed
  have "(\<forall>c \<in> set ?cs. call_man c = FEATURE_LEVEL_ARM_V8_1_A \<longrightarrow> fst c) \<longleftrightarrow>
      (\<forall>c. c \<in> set ?cs \<and> call_man c = FEATURE_LEVEL_ARM_V8_1_A \<longrightarrow> fst c)" by blast
  also have "\<dots> \<longleftrightarrow> (\<forall>r \<in> set ?rows. fst (row_call (is_aarch64_mode raw) raw r))"
    by (simp only: man) blast
  also have "\<dots> \<longleftrightarrow> (\<forall>r \<in> set ?rows. fl (fst r))" using row by blast
  also have "\<dots> \<longleftrightarrow> (\<forall>f \<in> set (map fst ?rows). fl f)" by simp
  finally have all: "(\<forall>c \<in> set ?cs. call_man c = FEATURE_LEVEL_ARM_V8_1_A \<longrightarrow> fst c) \<longleftrightarrow>
      (\<forall>f \<in> set (map fst ?rows). fl f)" .
  have "?rows \<noteq> []" using mandatory_v8_1 by (metis list.distinct(1) list.simps(8))
  then have "\<exists>c. c \<in> row_call (is_aarch64_mode raw) raw ` set ?rows" by (meson image_eqI list.set_sel(1))
  then have "\<exists>c \<in> set ?cs. call_man c = FEATURE_LEVEL_ARM_V8_1_A" unfolding man [symmetric] by blast
  then show ?thesis
    unfolding compliant_def all mandatory_v8_1 by auto
qed

text \<open>PAN and PAN2 are values 1 and 2 of one field; neither is read from an AArch32 register.\<close>

lemma compliantD: "compliant cs l \<Longrightarrow> c \<in> set cs \<Longrightarrow> call_man c = l \<Longrightarrow> fst c"
  by (simp add: compliant_def)

lemma v8_2_never_compliant:
  "\<not> (compliant (arm_calls raw level fl) FEATURE_LEVEL_ARM_V8_1_A \<and>
    compliant (arm_calls raw level fl) FEATURE_LEVEL_ARM_V8_2_A)"
proof
  let ?b = "is_aarch64_mode raw"
  assume c: "compliant (arm_calls raw level fl) FEATURE_LEVEL_ARM_V8_1_A \<and>
    compliant (arm_calls raw level fl) FEATURE_LEVEL_ARM_V8_2_A"
  have step: "fst (row_call ?b raw r)"
    if "r \<in> set arm_features" "ver_mandatory (snd r) \<in> {FEATURE_LEVEL_ARM_V8_1_A, FEATURE_LEVEL_ARM_V8_2_A}"
    for r
  proof -
    have m: "row_call ?b raw r \<in> set (arm_calls raw level fl)"
      using that(1) by (simp add: set_arm_calls)
    have "call_man (row_call ?b raw r) = ver_mandatory (snd r)" by (simp add: row_call_def)
    then show ?thesis
      using that(2) compliantD [OF conjunct1 [OF c] m] compliantD [OF conjunct2 [OF c] m]
      by (simp only: insert_iff empty_iff) blast
  qed
  have row: "row_present ?b raw m"
    if "(f, m) \<in> set arm_features" "ver_mandatory m \<in> {FEATURE_LEVEL_ARM_V8_1_A, FEATURE_LEVEL_ARM_V8_2_A}"
    for f m using step [of "(f, m)"] that by (simp add: row_call_def)
  have "row_present ?b raw \<lparr>ver_optional = FEATURE_LEVEL_ARM_V8_0_A, ver_mandatory = FEATURE_LEVEL_ARM_V8_1_A,
      map_fields = [f64 (ID_AA64MMFR 1) 23 20 1, f32 (ID_MMFR 3) 19 16 1]\<rparr>"
    by (rule row [OF pan_rows(1)]) simp
  moreover have "row_present ?b raw \<lparr>ver_optional = FEATURE_LEVEL_ARM_V8_1_A, ver_mandatory = FEATURE_LEVEL_ARM_V8_2_A,
      map_fields = [f64 (ID_AA64MMFR 1) 23 20 2, f32 (ID_MMFR 3) 19 16 2]\<rparr>"
    by (rule row [OF pan_rows(2)]) simp
  ultimately show False
    by (cases ?b) (simp_all add: row_present_def field_reg_def)
qed

lemma v8a_loop:
  assumes fl: "fl = called (arm_calls raw level fl)" and "announces fl FEATURE_LEVEL_ARM_V8_0_A"
  shows "arm_level_loop (ext_of (arm_calls raw level fl)) architecture_arm_v8a FEATURE_LEVEL_UNKNOWN =
    (if fl CPU_FEATURE_CRC32 \<and> fl CPU_FEATURE_HPDS \<and> fl CPU_FEATURE_LOR \<and> fl CPU_FEATURE_LSE \<and>
       fl CPU_FEATURE_PAN then FEATURE_LEVEL_ARM_V8_1_A else FEATURE_LEVEL_ARM_V8_0_A)"
proof -
  have c0: "compliant (arm_calls raw level fl) FEATURE_LEVEL_ARM_V8_0_A"
    using assms compliant_optional [OF fl] by (simp add: optional_levels_def)
  have "\<forall>l \<in> set architecture_arm_v8a. counted l" by (simp add: architecture_arm_v8a_def counted_def)
  then have "arm_level_loop (ext_of (arm_calls raw level fl)) architecture_arm_v8a FEATURE_LEVEL_UNKNOWN =
      (case takeWhile (compliant (arm_calls raw level fl)) architecture_arm_v8a of
         [] \<Rightarrow> FEATURE_LEVEL_UNKNOWN | x # xs \<Rightarrow> last (x # xs))"
    by (rule arm_level_loop_takeWhile [OF calls_ok_arm])
  also have "\<dots> = (if compliant (arm_calls raw level fl) FEATURE_LEVEL_ARM_V8_1_A
      then FEATURE_LEVEL_ARM_V8_1_A else FEATURE_LEVEL_ARM_V8_0_A)"
    using c0 v8_2_never_compliant [of raw level fl] by (simp add: architecture_arm_v8a_def)
  finally show ?thesis by (simp only: compliant_v8_1 [OF fl])
qed

lemma v9a_loop:
  assumes fl: "fl = called (arm_calls raw level fl)" and "announces fl FEATURE_LEVEL_ARM_V9_0_A"
  shows "arm_level_loop (ext_of (arm_calls raw level fl)) architecture_arm_v9a FEATURE_LEVEL_UNKNOWN =
    last (takeWhile (announces fl) architecture_arm_v9a)"
proof -
  have eq: "takeWhile (compliant (arm_calls raw level fl)) architecture_arm_v9a =
      takeWhile (announces fl) architecture_arm_v9a"
    by (rule takeWhile_cong) (simp_all add: compliant_optional [OF fl] optional_levels_def)
  have "\<forall>l \<in> set architecture_arm_v9a. counted l" by (simp add: architecture_arm_v9a_def counted_def)
  then have "arm_level_loop (ext_of (arm_calls raw level fl)) architecture_arm_v9a FEATURE_LEVEL_UNKNOWN =
      (case takeWhile (announces fl) architecture_arm_v9a of
         [] \<Rightarrow> FEATURE_LEVEL_UNKNOWN | x # xs \<Rightarrow> last (x # xs))"
    unfolding eq [symmetric] by (rule arm_level_loop_takeWhile [OF calls_ok_arm])
  moreover have "takeWhile (announces fl) architecture_arm_v9a \<noteq> []"
    using assms(2) by (simp add: architecture_arm_v9a_def)
  ultimately show ?thesis by (simp split: list.splits)
qed

lemma has_features_announces:
  assumes fl: "fl = called (arm_calls raw level fl)" and l: "l \<in> set optional_levels"
  shows "has_features (ext_of (arm_calls raw level fl)) l \<longleftrightarrow> announces fl l"
proof -
  have "counted l" using l by (auto simp: optional_levels_def architecture_arm_v9a_def counted_def)
  then show ?thesis
    using announces_calls [OF assms] no_mandatory_calls [OF l]
    by (subst has_features_iff [OF calls_ok_arm]) blast+
qed

text \<open>The version read from the features, for the flags \<open>fl\<close> they set.\<close>

definition arm_level_spec :: "cpu_raw_data_t \<Rightarrow> (cpu_feature_t \<Rightarrow> bool) \<Rightarrow> cpu_feature_level_t" where
  "arm_level_spec raw fl =
     (if arm_legacy_level raw \<noteq> FEATURE_LEVEL_UNKNOWN then arm_legacy_level raw
      else if announces fl FEATURE_LEVEL_ARM_V9_0_A
      then last (takeWhile (announces fl) architecture_arm_v9a)
      else if announces fl FEATURE_LEVEL_ARM_V8_0_A
      then (if fl CPU_FEATURE_CRC32 \<and> fl CPU_FEATURE_HPDS \<and> fl CPU_FEATURE_LOR \<and>
          fl CPU_FEATURE_LSE \<and> fl CPU_FEATURE_PAN
        then FEATURE_LEVEL_ARM_V8_1_A else FEATURE_LEVEL_ARM_V8_0_A)
      else FEATURE_LEVEL_UNKNOWN)"

lemma decode_by_cpuid_spec:
  assumes fl: "fl = called (arm_calls raw level fl)"
  shows "decode_arm_architecture_version_by_cpuid raw (ext_of (arm_calls raw level fl)) d =
    d\<lparr>feature_level := arm_level_spec raw fl\<rparr>"
proof -
  have l: "FEATURE_LEVEL_ARM_V8_0_A \<in> set optional_levels" "FEATURE_LEVEL_ARM_V9_0_A \<in> set optional_levels"
    by (simp_all add: optional_levels_def architecture_arm_v9a_def)
  show ?thesis
    unfolding decode_arm_architecture_version_by_cpuid_def arm_level_spec_def
      has_features_announces [OF fl l(1)] has_features_announces [OF fl l(2)]
    by (simp add: v8a_loop [OF fl] v9a_loop [OF fl])
qed

end
