(* ===== verification/Arm_Identify.thy ===== *)
theory Arm_Identify
  imports Arm_Versions
begin

text \<open>
  \<^verbatim>\<open>cpuid_identify_arm\<close> as a whole, over the calls and versions of \<^verbatim>\<open>Arm_Versions\<close>: the lookups in
  the tables of implementers and parts (locale \<open>sentinel_table\<close>), the flags, the purpose of a core,
  the architecture version, and the lists of names.
\<close>

section \<open>Lookups\<close>

text \<open>A table that ends with its only row of a negative id.\<close>

locale sentinel_table =
  fixes row_id :: "'r \<Rightarrow> int" and tab :: "'r list"
  assumes ends: "tab \<noteq> []" "row_id (last tab) < 0"
    and ids: "r \<in> set (butlast tab) \<Longrightarrow> 0 \<le> row_id r"
begin

lemma find_rows:
  "find_or_last row_id wanted (butlast tab @ [last tab]) =
     Some (case List.find wanted (butlast tab) of Some r \<Rightarrow> r | None \<Rightarrow> last tab)"
proof -
  have "find_or_last row_id wanted (rs @ [last tab]) =
      Some (case List.find wanted rs of Some r \<Rightarrow> r | None \<Rightarrow> last tab)"
    if "\<forall>r \<in> set rs. 0 \<le> row_id r" for rs
    using that by (induction rs) (auto simp: ends)
  then show ?thesis using ids by blast
qed

lemma find_total:
  "find_or_last row_id wanted tab =
     Some (case List.find wanted (butlast tab) of Some r \<Rightarrow> r | None \<Rightarrow> last tab)"
  using find_rows ends(1) by simp

lemma found:
  obtains r where "find_or_last row_id wanted tab = Some r" and "r \<in> set tab"
    and "if \<exists>x \<in> set (butlast tab). wanted x then wanted r \<and> r \<in> set (butlast tab) else r = last tab"
proof (cases "List.find wanted (butlast tab)")
  case None
  then have "\<not> (\<exists>x \<in> set (butlast tab). wanted x)" by (auto simp: find_None_iff)
  with None show ?thesis
    using ends(1) by (intro that [of "last tab"]) (simp_all add: find_total)
next
  case (Some r)
  then have "r \<in> set (butlast tab) \<and> wanted r" by (auto simp: find_Some_iff)
  then show ?thesis
    using Some by (intro that [of r]) (auto simp: find_total dest: in_set_butlastD)
qed

lemma rows_before_end: "takeWhile (\<lambda>r. 0 \<le> row_id r) tab = butlast tab"
proof -
  have "takeWhile (\<lambda>r. 0 \<le> row_id r) (butlast tab @ [last tab]) = butlast tab"
    using ids ends(2) by (subst takeWhile_append2) auto
  then show ?thesis using ends(1) by simp
qed

end

lemmas part_tables = arm_part_def brcm_part_def dec_part_def cavium_part_def apm_part_def
  qcom_part_def samsung_part_def nvidia_part_def marvell_part_def apple_part_def faraday_part_def
  intel_part_def fujitsu_part_def hisi_part_def ampere_part_def ft_part_def ms_part_def unknown_part_def

fun ends_once :: "('r \<Rightarrow> int) \<Rightarrow> 'r list \<Rightarrow> bool" where
  "ends_once row_id [] = False"
| "ends_once row_id [r] = (row_id r < 0)"
| "ends_once row_id (r # s # rs) = (0 \<le> row_id r \<and> ends_once row_id (s # rs))"

lemma ends_once_sentinel: "ends_once row_id tab \<Longrightarrow> sentinel_table row_id tab"
proof -
  have "tab \<noteq> [] \<and> row_id (last tab) < 0 \<and> (\<forall>r \<in> set (butlast tab). 0 \<le> row_id r)"
    if "ends_once row_id tab"
    using that by (induction row_id tab rule: ends_once.induct) auto
  then show "ends_once row_id tab \<Longrightarrow> sentinel_table row_id tab"
    by (auto intro: sentinel_table.intro)
qed

lemma part_tables_end:
  "ends_once part_id arm_part" "ends_once part_id brcm_part" "ends_once part_id dec_part"
  "ends_once part_id cavium_part" "ends_once part_id apm_part" "ends_once part_id qcom_part"
  "ends_once part_id samsung_part" "ends_once part_id nvidia_part" "ends_once part_id marvell_part"
  "ends_once part_id apple_part" "ends_once part_id faraday_part" "ends_once part_id intel_part"
  "ends_once part_id fujitsu_part" "ends_once part_id hisi_part" "ends_once part_id ampere_part"
  "ends_once part_id ft_part" "ends_once part_id ms_part" "ends_once part_id unknown_part"
  by (simp_all add: part_tables)

interpretation implementers: sentinel_table hw_id hw_implementer
  by (rule ends_once_sentinel) (simp add: hw_implementer_def)

interpretation arm_parts: sentinel_table part_id arm_part
  by (rule ends_once_sentinel) (rule part_tables_end)

lemma parts_of_implementer:
  assumes "hw \<in> set hw_implementer"
  shows "sentinel_table part_id (hw_parts hw)"
proof -
  have "list_all (\<lambda>hw. ends_once part_id (hw_parts hw)) hw_implementer"
    unfolding hw_implementer_def list.pred_inject arm_hw_impl.simps
    by (intro conjI part_tables_end list.pred_inject(1) TrueI)
  then have "ends_once part_id (hw_parts hw)" using assms by (simp only: list_all_iff)
  then show ?thesis by (rule ends_once_sentinel)
qed

section \<open>Identification as a whole\<close>

definition midr_level :: "cpu_raw_data_t \<Rightarrow> cpu_feature_level_t option" where
  "midr_level raw = map_of architecture_matchtable (ucast (EXTRACTS_BITS (arm_midr raw) 19 16))"

text \<open>The row of a table for an id, its last row for an unknown one.\<close>

definition row_for :: "('r \<Rightarrow> int) \<Rightarrow> 'r list \<Rightarrow> int \<Rightarrow> 'r \<Rightarrow> bool" where
  "row_for row_id tab i r \<longleftrightarrow> r \<in> set tab \<and>
     (if \<exists>x \<in> set (butlast tab). row_id x = i then row_id r = i else r = last tab)"

lemma find_row:
  assumes "sentinel_table row_id tab"
  obtains r where "find_or_last row_id (\<lambda>x. row_id x = i) tab = Some r" and "row_for row_id tab i r"
  using sentinel_table.found [OF assms, of "\<lambda>x. row_id x = i"]
  by (metis row_for_def)

definition arm_row_of :: "cpu_raw_data_t \<Rightarrow> arm_hw_impl \<Rightarrow> arm_id_part \<Rightarrow> bool" where
  "arm_row_of raw hw part \<longleftrightarrow>
     row_for hw_id hw_implementer (uint (implementer (decode_midr raw))) hw \<and>
     row_for part_id (hw_parts hw) (uint (part_num (decode_midr raw))) part"

lemma arm_row_found:
  obtains hw part where "arm_row_of raw hw part"
    and "get_cpu_implementer_from_code (implementer (decode_midr raw)) = Some hw"
    and "get_cpu_implementer_parts hw (part_num (decode_midr raw)) = Some part"
    and "cpuid_identify_purpose_arm raw = Some (purpose_of_name (part_name part))"
proof -
  obtain hw where hw: "get_cpu_implementer_from_code (implementer (decode_midr raw)) = Some hw"
    "row_for hw_id hw_implementer (uint (implementer (decode_midr raw))) hw"
    unfolding get_cpu_implementer_from_code_def by (rule find_row [OF implementers.sentinel_table_axioms])
  then have "sentinel_table part_id (hw_parts hw)"
    by (intro parts_of_implementer) (simp add: row_for_def)
  then obtain part where part: "get_cpu_implementer_parts hw (part_num (decode_midr raw)) = Some part"
    "row_for part_id (hw_parts hw) (uint (part_num (decode_midr raw))) part"
    unfolding get_cpu_implementer_parts_def by (rule find_row)
  with hw show thesis
    by (intro that [of hw part])
      (simp_all add: arm_row_of_def cpuid_identify_purpose_arm_def decode_midr_def)
qed

lemma cpuid_identify_arm_run:
  fixes raw :: cpu_raw_data_t and data :: cpu_id_t
  assumes "flags data = (\<lambda>_. False)"
  defines "level \<equiv> (case midr_level raw of None \<Rightarrow> feature_level data | Some l \<Rightarrow> l)"
  obtains hw part fl where "arm_row_of raw hw part" and "fl = called (arm_calls raw level fl)"
    and "cpuid_identify_arm raw data = Some ((arm_names hw part
      (data\<lparr>arm := decode_midr raw, purpose := purpose_of_name (part_name part)\<rparr>))\<lparr>flags := fl,
        feature_level := (case midr_level raw of None \<Rightarrow> arm_level_spec raw fl | Some l \<Rightarrow> l)\<rparr>)"
proof -
  obtain hw part where row: "arm_row_of raw hw part"
    and look: "get_cpu_implementer_from_code (implementer (decode_midr raw)) = Some hw"
      "get_cpu_implementer_parts hw (part_num (decode_midr raw)) = Some part"
      "cpuid_identify_purpose_arm raw = Some (purpose_of_name (part_name part))"
    by (rule arm_row_found)
  define d1 where "d1 = (arm_names hw part
      (data\<lparr>arm := decode_midr raw, purpose := purpose_of_name (part_name part)\<rparr>))\<lparr>feature_level := level\<rparr>"
  have "flags d1 = (\<lambda>_. False)" and l: "feature_level d1 = level"
    by (simp_all add: d1_def arm_names_def assms(1))
  then obtain fl where fl: "fl = called (arm_calls raw level fl)"
    and load: "load_arm_features raw (d1, ext_zero) = (d1\<lparr>flags := fl\<rparr>, ext_of (arm_calls raw level fl))"
    using load_arm_features_calls [of d1 raw] by auto
  have midr: "decode_arm_architecture_version_by_midr raw (arm_names hw part
      (data\<lparr>arm := decode_midr raw, purpose := purpose_of_name (part_name part)\<rparr>)) =
      (midr_level raw \<noteq> None, d1)"
    by (simp add: decode_arm_architecture_version_by_midr_def d1_def level_def arm_names_def
        flip: midr_level_def split: option.split)
  have "cpuid_identify_arm raw data = Some (if midr_level raw \<noteq> None then d1\<lparr>flags := fl\<rparr>
      else decode_arm_architecture_version_by_cpuid raw (ext_of (arm_calls raw level fl)) (d1\<lparr>flags := fl\<rparr>))"
    by (simp add: cpuid_identify_arm_def look Let_def midr load)
  then have "cpuid_identify_arm raw data = Some ((arm_names hw part
      (data\<lparr>arm := decode_midr raw, purpose := purpose_of_name (part_name part)\<rparr>))\<lparr>flags := fl,
        feature_level := (case midr_level raw of None \<Rightarrow> arm_level_spec raw fl | Some l \<Rightarrow> l)\<rparr>)"
    by (cases "midr_level raw") (simp add: decode_by_cpuid_spec [OF fl] d1_def, simp add: d1_def level_def)
  with row fl show thesis by (rule that)
qed

lemma cpuid_identify_arm_some:
  assumes "flags data = (\<lambda>_. False)"
  shows "\<exists>d. cpuid_identify_arm raw data = Some d \<and> affinity_mask d = affinity_mask data \<and>
    architecture d = architecture data"
proof -
  obtain hw part fl where run: "cpuid_identify_arm raw data = Some ((arm_names hw part
      (data\<lparr>arm := decode_midr raw, purpose := purpose_of_name (part_name part)\<rparr>))\<lparr>flags := fl,
        feature_level := (case midr_level raw of None \<Rightarrow> arm_level_spec raw fl | Some l \<Rightarrow> l)\<rparr>)"
    by (rule cpuid_identify_arm_run [OF assms])
  show ?thesis by (intro exI conjI, rule run) (simp_all add: arm_names_def)
qed

text \<open>
  \<^verbatim>\<open>cpuid_identify_arm\<close> always succeeds: it reports the implementer and the part of
  \<^verbatim>\<open>MIDR\<close>, or the unknown one of the table, with the name of the implementer cut to 15 characters,
  and the version that \<^verbatim>\<open>MIDR\<close> states when it states one.
\<close>

definition unreachable_versions :: "cpu_feature_level_t list" where
  "unreachable_versions = [FEATURE_LEVEL_ARM_V8_2_A, FEATURE_LEVEL_ARM_V8_3_A, FEATURE_LEVEL_ARM_V8_4_A,
     FEATURE_LEVEL_ARM_V8_5_A, FEATURE_LEVEL_ARM_V8_6_A, FEATURE_LEVEL_ARM_V8_7_A,
     FEATURE_LEVEL_ARM_V8_8_A, FEATURE_LEVEL_ARM_V8_9_A, FEATURE_LEVEL_ARM_V9_5_A]"

lemma reachable_levels:
  "arm_level_spec raw fl \<notin> set unreachable_versions"
  "midr_level raw \<notin> Some ` set unreachable_versions"
proof -
  have "last (takeWhile (announces fl) architecture_arm_v9a) \<in> set architecture_arm_v9a"
    if "announces fl FEATURE_LEVEL_ARM_V9_0_A"
    using that by (simp add: architecture_arm_v9a_def)
  then show "arm_level_spec raw fl \<notin> set unreachable_versions"
    by (auto simp: arm_level_spec_def arm_legacy_level_def Let_def architecture_arm_v9a_def
        unreachable_versions_def)
qed (auto simp: midr_level_def architecture_matchtable_def unreachable_versions_def split: if_splits)

lemma part_names_short:
  "list_all (\<lambda>hw. list_all (\<lambda>p. length (part_name p) < BRAND_STR_MAX \<and>
      length (part_codename p) < CODENAME_STR_MAX \<and> length (part_technology p) < TECHNOLOGY_STR_MAX)
    (hw_parts hw)) hw_implementer"
  unfolding hw_implementer_def part_tables by code_simp


text \<open>
  C25: \<^verbatim>\<open>cpuid_identify_arm\<close> always succeeds: it reports the row of the implementer and the row of
  the part that \<^verbatim>\<open>MIDR\<close> names, or the last rows of the tables for unknown ones, with only the name
  of the implementer cut, to 15 characters; and the architecture version of \<^verbatim>\<open>MIDR\<close> when it
  states one.
\<close>

theorem cpuid_identify_arm_total:
  assumes "flags data = (\<lambda>_. False)"
  shows "\<exists>hw part d. cpuid_identify_arm raw data = Some d \<and> arm_row_of raw hw part \<and>
    vendor d = hw_vendor hw \<and> vendor_str d = take 15 (hw_name hw) \<and>
    brand_str d = part_name part \<and> cpu_codename d = part_codename part \<and>
    technology_node d = part_technology part \<and> arm d = decode_midr raw \<and>
    purpose d = purpose_of_name (part_name part) \<and>
    (\<forall>l. midr_level raw = Some l \<longrightarrow> feature_level d = l) \<and>
    affinity_mask d = affinity_mask data"
proof -
  obtain hw part fl where row: "arm_row_of raw hw part" and run: "cpuid_identify_arm raw data = Some ((arm_names hw part
      (data\<lparr>arm := decode_midr raw, purpose := purpose_of_name (part_name part)\<rparr>))\<lparr>flags := fl,
        feature_level := (case midr_level raw of None \<Rightarrow> arm_level_spec raw fl | Some l \<Rightarrow> l)\<rparr>)"
    by (rule cpuid_identify_arm_run [OF assms(1)])
  have short: "length (part_name part) < BRAND_STR_MAX \<and> length (part_codename part) < CODENAME_STR_MAX \<and>
      length (part_technology part) < TECHNOLOGY_STR_MAX"
    using part_names_short row by (auto simp: list_all_iff arm_row_of_def row_for_def)
  show ?thesis
    by (intro exI [of _ hw] exI [of _ part] exI conjI, rule run)
      (use short in \<open>simp_all add: row arm_names_def c_snprintf_def\<close>)
qed

theorem cpuid_identify_arm_total_witness:
  "\<exists>d. cpuid_identify_arm (raw_data_t_constructor\<lparr>arm_midr := 0x4d000000\<rparr>) cpu_id_t_constructor = Some d \<and>
     vendor_str d = ''Motorola/Freesc'' \<and> brand_str d = UNKN_STR"
proof -
  let ?raw = "raw_data_t_constructor\<lparr>arm_midr := 0x4d000000\<rparr>"
  have "flags cpu_id_t_constructor = (\<lambda>_. False)" by (simp add: cpu_id_t_constructor_def)
  then obtain hw part d where d: "cpuid_identify_arm ?raw cpu_id_t_constructor = Some d"
    "arm_row_of ?raw hw part" "vendor_str d = take 15 (hw_name hw)" "brand_str d = part_name part"
    using cpuid_identify_arm_total [of cpu_id_t_constructor ?raw] by auto
  have "implementer (decode_midr ?raw) = 0x4d"
    by (simp add: decode_midr_def EXTRACTS_BITS_def)
  then have "row_for hw_id hw_implementer 0x4d hw" using d(2) by (simp add: arm_row_of_def)
  then have hw: "hw = impl_row 0x4d VENDOR_FREESCALE unknown_part ''Motorola/Freescale''"
    by (auto simp: row_for_def hw_implementer_def)
  then have "part \<in> set unknown_part" using d(2) by (simp add: arm_row_of_def row_for_def)
  then show ?thesis using d hw by (simp add: unknown_part_def)
qed

text \<open>
  C26: the architecture version of an ARM processor whose \<^verbatim>\<open>MIDR\<close> refers to the ID registers. Unless
  the debug model or the profile decides, it is the last version of the list from Armv9.0 up to
  which every version has an optional feature; without an Armv9.0 feature, it is Armv8.1 if the
  five features mandatory there are present, and otherwise Armv8.0 if some optional feature is.
\<close>

theorem arm_architecture_version:
  assumes "flags data = (\<lambda>_. False)" and "EXTRACTS_BITS (arm_midr raw) 19 16 = 15"
  shows "\<exists>d. cpuid_identify_arm raw data = Some d \<and> feature_level d =
    (if arm_legacy_level raw \<noteq> FEATURE_LEVEL_UNKNOWN then arm_legacy_level raw
     else if announces (flags d) FEATURE_LEVEL_ARM_V9_0_A
     then last (takeWhile (announces (flags d)) architecture_arm_v9a)
     else if announces (flags d) FEATURE_LEVEL_ARM_V8_0_A
     then (if \<forall>f \<in> {CPU_FEATURE_CRC32, CPU_FEATURE_HPDS, CPU_FEATURE_LOR, CPU_FEATURE_LSE, CPU_FEATURE_PAN}.
           flags d f then FEATURE_LEVEL_ARM_V8_1_A else FEATURE_LEVEL_ARM_V8_0_A)
     else FEATURE_LEVEL_UNKNOWN)"
proof -
  have midr: "midr_level raw = None"
    by (simp add: midr_level_def assms(2) architecture_matchtable_def)
  obtain hw part fl where row: "arm_row_of raw hw part" and run: "cpuid_identify_arm raw data = Some ((arm_names hw part
      (data\<lparr>arm := decode_midr raw, purpose := purpose_of_name (part_name part)\<rparr>))\<lparr>flags := fl,
        feature_level := (case midr_level raw of None \<Rightarrow> arm_level_spec raw fl | Some l \<Rightarrow> l)\<rparr>)"
    by (rule cpuid_identify_arm_run [OF assms(1)])
  show ?thesis
    by (intro exI conjI, rule run) (simp add: midr arm_level_spec_def)
qed

text \<open>
  An AArch64 processor with SVE2, an optional feature of Armv9.0, and nothing else is reported as
  Armv9.0 although it lacks LSE, mandatory from Armv8.1: compliance with Armv8.5, which the
  comment in the code asks for, is not checked.
\<close>

definition sve2_raw :: cpu_raw_data_t where
  "sve2_raw = raw_data_t_constructor\<lparr>arm_midr := 0xf0000, arm_id_aa64pfr := [1, 0, 0],
     arm_id_aa64zfr := [1]\<rparr>"

lemma sve2_rows:
  "fmap CPU_FEATURE_SVE2 FEATURE_LEVEL_ARM_V9_0_A FEATURE_LEVEL_UNKNOWN [f64 (ID_AA64ZFR 0) 3 0 1]
     \<in> set arm_features"
  "fmap CPU_FEATURE_LSE FEATURE_LEVEL_ARM_V8_0_A FEATURE_LEVEL_ARM_V8_1_A [f64 (ID_AA64ISAR 0) 23 20 2]
     \<in> set arm_features"
  "filter (\<lambda>(f, m). ver_optional m = FEATURE_LEVEL_ARM_V9_1_A) arm_features =
     [fmap CPU_FEATURE_BRBE FEATURE_LEVEL_ARM_V9_1_A FEATURE_LEVEL_UNKNOWN [f64 (ID_AA64DFR 0) 55 52 1],
      fmap CPU_FEATURE_RME FEATURE_LEVEL_ARM_V9_1_A FEATURE_LEVEL_UNKNOWN [f64 (ID_AA64PFR 0) 55 52 1]]"
  by (simp_all add: arm_features_rows)

lemma sve2_flags:
  assumes fl: "fl = called (arm_calls sve2_raw level fl)"
  shows "announces fl FEATURE_LEVEL_ARM_V9_0_A" and "\<not> announces fl FEATURE_LEVEL_ARM_V9_1_A"
    and "\<not> fl CPU_FEATURE_LSE" and "arm_legacy_level sve2_raw = FEATURE_LEVEL_UNKNOWN"
proof -
  note regs = sve2_raw_def raw_data_t_constructor_def row_present_def field_reg_def is_aarch64_mode_def
    EXTRACTS_BITS_def
  have "fl CPU_FEATURE_SVE2"
    by (subst flag_of_row [OF fl sve2_rows(1)]) (simp_all add: special_features_def regs)
  then show "announces fl FEATURE_LEVEL_ARM_V9_0_A"
    unfolding announces_def using sve2_rows(1) by force
  show "\<not> fl CPU_FEATURE_LSE"
    by (subst flag_of_row [OF fl sve2_rows(2)]) (simp_all add: special_features_def regs)
  have "\<not> fl (fst r)" if "r \<in> set (filter (\<lambda>(f, m). ver_optional m = FEATURE_LEVEL_ARM_V9_1_A) arm_features)" for r
  proof -
    have r: "(fst r, snd r) \<in> set arm_features" "fst r \<in> {CPU_FEATURE_BRBE, CPU_FEATURE_RME}"
      using that by (simp, unfold sve2_rows(3), auto)
    have "\<not> row_present (is_aarch64_mode sve2_raw) sve2_raw (snd r)"
      using that unfolding sve2_rows(3) by (auto simp: regs)
    then show ?thesis
      using flag_of_row [OF fl r(1)] r(2) by (auto simp: special_features_def)
  qed
  then show "\<not> announces fl FEATURE_LEVEL_ARM_V9_1_A"
    by (auto simp: announces_def)
  show "arm_legacy_level sve2_raw = FEATURE_LEVEL_UNKNOWN"
    by (simp add: arm_legacy_level_def Let_def regs)
qed

theorem arm_architecture_version_witness:
  "\<exists>d. cpuid_identify_arm sve2_raw cpu_id_t_constructor = Some d \<and>
     feature_level d = FEATURE_LEVEL_ARM_V9_0_A \<and> \<not> flags d CPU_FEATURE_LSE"
proof -
  have fl0: "flags cpu_id_t_constructor = (\<lambda>_. False)" by (simp add: cpu_id_t_constructor_def)
  have midr: "EXTRACTS_BITS (arm_midr sve2_raw) 19 16 = 15"
    by (simp add: sve2_raw_def EXTRACTS_BITS_def)
  obtain fl hw part d' where fl: "fl = called (arm_calls sve2_raw FEATURE_LEVEL_UNKNOWN fl)"
    and run: "cpuid_identify_arm sve2_raw cpu_id_t_constructor = Some d'" and "flags d' = fl"
    by (rule cpuid_identify_arm_run [OF fl0, of sve2_raw])
      (simp add: midr_level_def midr architecture_matchtable_def cpu_id_t_constructor_def)
  then show ?thesis
    using arm_architecture_version [OF fl0 midr] sve2_flags [OF fl]
    by (auto simp: architecture_arm_v9a_def)
qed

text \<open>
  no processor is ever reported as Armv8.2-A to Armv8.9-A, nor as Armv9.5-A: Armv8.1 asks for
  PAN and Armv8.2 for PAN2, which the table recognises by two values of the same field, and the
  list of Armv9 versions ends at Armv9.4.
\<close>

theorem arm_versions_unreachable:
  assumes "flags data = (\<lambda>_. False)"
  shows "\<exists>d. cpuid_identify_arm raw data = Some d \<and>
    feature_level d \<notin> set unreachable_versions"
proof -
  obtain hw part fl where row: "arm_row_of raw hw part" and run: "cpuid_identify_arm raw data = Some ((arm_names hw part
      (data\<lparr>arm := decode_midr raw, purpose := purpose_of_name (part_name part)\<rparr>))\<lparr>flags := fl,
        feature_level := (case midr_level raw of None \<Rightarrow> arm_level_spec raw fl | Some l \<Rightarrow> l)\<rparr>)"
    by (rule cpuid_identify_arm_run [OF assms(1)])
  show ?thesis
    by (intro exI conjI, rule run)
      (use reachable_levels(1) [of raw fl] reachable_levels(2) [of raw] in \<open>auto split: option.split\<close>)
qed

theorem arm_versions_unreachable_witness:
  "\<exists>d. cpuid_identify_arm raw_data_t_constructor cpu_id_t_constructor = Some d \<and>
     feature_level d \<noteq> FEATURE_LEVEL_ARM_V8_2_A"
  using arm_versions_unreachable [of cpu_id_t_constructor raw_data_t_constructor]
  by (auto simp: cpu_id_t_constructor_def unreachable_versions_def)

section \<open>Features\<close>

text \<open>
  C27: the flags that \<^verbatim>\<open>cpuid_identify_arm\<close> sets in empty ones: the features of the table with a
  field that matches, among the fields before the first one that names no register of the mode;
  Thumb and Jazelle by the version of \<^verbatim>\<open>MIDR\<close>; and the features read outside the table.
\<close>

theorem arm_flags:
  fixes raw :: cpu_raw_data_t and data :: cpu_id_t
  assumes "flags data = (\<lambda>_. False)"
  defines "mpam \<equiv> EXTRACTS_BITS (arm_id_aa64pfr raw ! 0) 43 40"
    and "mpam_frac \<equiv> EXTRACTS_BITS (arm_id_aa64pfr raw ! 1) 19 16"
    and "mte \<equiv> EXTRACTS_BITS (arm_id_aa64pfr raw ! 1) 11 8"
    and "mte_frac \<equiv> EXTRACTS_BITS (arm_id_aa64pfr raw ! 1) 43 40"
    and "mtex \<equiv> EXTRACTS_BITS (arm_id_aa64pfr raw ! 1) 55 52"
    and "level \<equiv> (case midr_level raw of None \<Rightarrow> feature_level data | Some l \<Rightarrow> l)"
  shows "\<exists>d. cpuid_identify_arm raw data = Some d \<and> (\<forall>f. flags d f \<longleftrightarrow>
    (\<exists>m. (f, m) \<in> set arm_features \<and> row_present (is_aarch64_mode raw) raw m) \<or>
    f = CPU_FEATURE_THUMB \<and> level \<in> {FEATURE_LEVEL_ARM_V4T, FEATURE_LEVEL_ARM_V5T,
      FEATURE_LEVEL_ARM_V5TE, FEATURE_LEVEL_ARM_V5TEJ} \<or>
    f = CPU_FEATURE_JAZELLE \<and> level = FEATURE_LEVEL_ARM_V5TEJ \<or>
    f = CPU_FEATURE_PAUTH \<and> (flags d CPU_FEATURE_PACIMP \<or> flags d CPU_FEATURE_PACQARMA3 \<or>
      flags d CPU_FEATURE_PACQARMA5) \<or>
    f = CPU_FEATURE_MPAM \<and> (mpam \<noteq> 0 \<or> mpam_frac \<noteq> 0) \<or>
    f = CPU_FEATURE_MPAMV0P1 \<and> mpam = 0 \<and> mpam_frac = 1 \<or>
    f = CPU_FEATURE_MPAMV1P1 \<and> mpam = 1 \<and> mpam_frac = 1 \<or>
    f = CPU_FEATURE_MTE_ASYNC \<and> 2 \<le> mte \<and> mte_frac = 0 \<or>
    f \<in> {CPU_FEATURE_MTE_CANONICAL_TAGS, CPU_FEATURE_MTE_NO_ADDRESS_TAGS} \<and> 2 \<le> mte \<and> mtex = 1 \<or>
    f = CPU_FEATURE_MTE4 \<and> flags d CPU_FEATURE_MTE_CANONICAL_TAGS \<and>
      flags d CPU_FEATURE_MTE_NO_ADDRESS_TAGS \<and> flags d CPU_FEATURE_MTE_TAGGED_FAR \<and>
      flags d CPU_FEATURE_MTE_STORE_ONLY)"
proof -
  obtain hw part fl where fl: "fl = called (arm_calls raw level fl)"
    and run: "cpuid_identify_arm raw data = Some ((arm_names hw part
      (data\<lparr>arm := decode_midr raw, purpose := purpose_of_name (part_name part)\<rparr>))\<lparr>flags := fl,
        feature_level := (case midr_level raw of None \<Rightarrow> arm_level_spec raw fl | Some l \<Rightarrow> l)\<rparr>)"
    unfolding level_def by (rule cpuid_identify_arm_run [OF assms(1)])
  have row: "called (table_calls (is_aarch64_mode raw) raw [0..<NUM_CPU_FEATURES]) f \<longleftrightarrow>
      (\<exists>m. (f, m) \<in> set arm_features \<and> row_present (is_aarch64_mode raw) raw m)" for f
    unfolding called_def set_table_calls by (force simp: row_call_def)
  have "fl f \<longleftrightarrow> called (level_calls level @ table_calls (is_aarch64_mode raw) raw [0..<NUM_CPU_FEATURES] @
     [pauth_call fl] @ mpam_calls raw @ mte_calls raw @ [mte4_call fl]) f" for f
    using fl unfolding arm_calls_def by (rule fun_cong)
  note flag = this [unfolded called_append row]
  have level: "called (level_calls level) f \<longleftrightarrow>
      f = CPU_FEATURE_THUMB \<and> level \<in> {FEATURE_LEVEL_ARM_V4T, FEATURE_LEVEL_ARM_V5T,
        FEATURE_LEVEL_ARM_V5TE, FEATURE_LEVEL_ARM_V5TEJ} \<or>
      f = CPU_FEATURE_JAZELLE \<and> level = FEATURE_LEVEL_ARM_V5TEJ" for f
    by (auto simp: level_calls_def called_Cons called_Nil)
  have pauth: "called [pauth_call fl] f \<longleftrightarrow>
      f = CPU_FEATURE_PAUTH \<and> (fl CPU_FEATURE_PACIMP \<or> fl CPU_FEATURE_PACQARMA3 \<or> fl CPU_FEATURE_PACQARMA5)" for f
    by (auto simp: pauth_call_def called_Cons called_Nil)
  have mpam: "called (mpam_calls raw) f \<longleftrightarrow> f = CPU_FEATURE_MPAM \<and> (mpam \<noteq> 0 \<or> mpam_frac \<noteq> 0) \<or>
      f = CPU_FEATURE_MPAMV0P1 \<and> mpam = 0 \<and> mpam_frac = 1 \<or>
      f = CPU_FEATURE_MPAMV1P1 \<and> mpam = 1 \<and> mpam_frac = 1" for f
    unfolding mpam_def mpam_frac_def by (auto simp: mpam_calls_def called_Cons called_Nil Let_def)
  have mte: "called (mte_calls raw) f \<longleftrightarrow> f = CPU_FEATURE_MTE_ASYNC \<and> 2 \<le> mte \<and> mte_frac = 0 \<or>
      f \<in> {CPU_FEATURE_MTE_CANONICAL_TAGS, CPU_FEATURE_MTE_NO_ADDRESS_TAGS} \<and> 2 \<le> mte \<and> mtex = 1" for f
    unfolding mte_def mte_frac_def mtex_def by (auto simp: mte_calls_def called_Cons called_Nil Let_def)
  have mte4: "called [mte4_call fl] f \<longleftrightarrow> f = CPU_FEATURE_MTE4 \<and> fl CPU_FEATURE_MTE_CANONICAL_TAGS \<and>
      fl CPU_FEATURE_MTE_NO_ADDRESS_TAGS \<and> fl CPU_FEATURE_MTE_TAGGED_FAR \<and>
      fl CPU_FEATURE_MTE_STORE_ONLY" for f
    by (auto simp: mte4_call_def called_Cons called_Nil)
  note flag = flag [unfolded level pauth mpam mte mte4]
  define d where "d = (arm_names hw part
      (data\<lparr>arm := decode_midr raw, purpose := purpose_of_name (part_name part)\<rparr>))\<lparr>flags := fl,
        feature_level := (case midr_level raw of None \<Rightarrow> arm_level_spec raw fl | Some l \<Rightarrow> l)\<rparr>"
  have d: "flags d = fl" by (simp add: d_def)
  show ?thesis
    apply (intro exI [of _ d] conjI allI)
    subgoal using run by (simp only: d_def)
    subgoal for f using flag [of f] unfolding d by argo
    done
qed

theorem arm_flags_witness:
  "\<exists>d. cpuid_identify_arm sve2_raw cpu_id_t_constructor = Some d \<and> flags d CPU_FEATURE_SVE2 \<and>
     \<not> flags d CPU_FEATURE_MPAM"
proof -
  have fl0: "flags cpu_id_t_constructor = (\<lambda>_. False)" by (simp add: cpu_id_t_constructor_def)
  have aa64: "is_aarch64_mode sve2_raw"
    by (simp add: is_aarch64_mode_def sve2_raw_def raw_data_t_constructor_def)
  have "row_present (is_aarch64_mode sve2_raw) sve2_raw \<lparr>ver_optional = FEATURE_LEVEL_ARM_V9_0_A,
      ver_mandatory = FEATURE_LEVEL_UNKNOWN, map_fields = [f64 (ID_AA64ZFR 0) 3 0 1]\<rparr>"
    using aa64
    by (simp add: row_present_def field_reg_def) (simp add: sve2_raw_def raw_data_t_constructor_def EXTRACTS_BITS_def)
  then have sve2: "\<exists>m. (CPU_FEATURE_SVE2, m) \<in> set arm_features \<and> row_present (is_aarch64_mode sve2_raw) sve2_raw m"
    using sve2_rows(1) by blast
  have "CPU_FEATURE_MPAM \<notin> fst ` set arm_features" by (simp add: arm_features_rows)
  then have mpam: "(CPU_FEATURE_MPAM, m) \<notin> set arm_features" for m by force
  have "EXTRACTS_BITS (arm_id_aa64pfr sve2_raw ! 0) 43 40 = 0"
    "EXTRACTS_BITS (arm_id_aa64pfr sve2_raw ! 1) 19 16 = 0"
    by (simp_all add: sve2_raw_def raw_data_t_constructor_def EXTRACTS_BITS_def)
  note zero = this
  show ?thesis
  proof (rule exE [OF arm_flags [OF fl0, of sve2_raw]], goal_cases)
    case (1 d)
    have "flags d CPU_FEATURE_SVE2"
      by (rule iffD2 [OF spec [OF conjunct2 [OF 1]]], rule disjI1, rule sve2)
    moreover have "\<not> flags d CPU_FEATURE_MPAM"
      by (subst spec [OF conjunct2 [OF 1]]) (simp add: mpam zero [simplified])
    ultimately show ?case using conjunct1 [OF 1] by (intro exI conjI)
  qed
qed

text \<open>
  The features with a field for an AArch32 register that stands behind one without: the scan of
  the fields ends before it.
\<close>

definition hidden_row :: "arm_feature_map_t \<Rightarrow> bool" where
  "hidden_row m \<longleftrightarrow> aarch32_reg (hd (map_fields m)) = None \<and>
     list_ex (\<lambda>f. aarch32_reg f \<noteq> None) (map_fields m)"

definition hidden_features :: "cpu_feature_t list" where
  "hidden_features = [CPU_FEATURE_ETS2, CPU_FEATURE_PMUV3, CPU_FEATURE_NTLBPA, CPU_FEATURE_PAN,
     CPU_FEATURE_PMUV3P1, CPU_FEATURE_RDM, CPU_FEATURE_VHE, CPU_FEATURE_HPDS2,
     CPU_FEATURE_LSMAOC, CPU_FEATURE_PAN2, CPU_FEATURE_TTCNP, CPU_FEATURE_XNX,
     CPU_FEATURE_CCIDX, CPU_FEATURE_FCMA, CPU_FEATURE_JSCVT, CPU_FEATURE_AMUV1, CPU_FEATURE_DIT,
     CPU_FEATURE_DOTPROD, CPU_FEATURE_FHM, CPU_FEATURE_PMUV3P4, CPU_FEATURE_TRF,
     CPU_FEATURE_CSV2, CPU_FEATURE_EVT, CPU_FEATURE_PMUV3P5, CPU_FEATURE_SB,
     CPU_FEATURE_SPECRES, CPU_FEATURE_AMUV1P1, CPU_FEATURE_HPMN0, CPU_FEATURE_MTPMU,
     CPU_FEATURE_PMUV3P7, CPU_FEATURE_PMUV3P8, CPU_FEATURE_PMUV3P9, CPU_FEATURE_SPECRES2,
     CPU_FEATURE_ETS3]"

lemma hidden_rows: "map fst (filter (\<lambda>(f, m). hidden_row m) arm_features) = hidden_features"
  by (simp add: arm_features_rows hidden_row_def hidden_features_def)

lemma hidden_not_special: "list_all (\<lambda>f. f \<notin> set special_features) hidden_features"
  by (simp add: hidden_features_def special_features_def)

lemma hidden_not_present:
  assumes "hidden_row m"
  shows "\<not> row_present False raw m"
  using assms by (cases "map_fields m") (simp_all add: hidden_row_def row_present_def field_reg_def)

text \<open>
  C28: from the AArch32 registers alone, 34 features are never detected, although the table gives
  a field of an AArch32 register for each of them: the field for AArch64 stands first, and a field
  without a register of the mode ends the scan.
\<close>

theorem arm_hidden_features:
  assumes "flags data = (\<lambda>_. False)" and "\<not> is_aarch64_mode raw"
  shows "\<exists>d. cpuid_identify_arm raw data = Some d \<and> length hidden_features = 34 \<and>
    (\<forall>f \<in> set hidden_features. \<not> flags d f \<and>
      (\<exists>m. (f, m) \<in> set arm_features \<and> list_ex (\<lambda>x. aarch32_reg x \<noteq> None) (map_fields m)))"
proof -
  obtain hw part fl level where fl: "fl = called (arm_calls raw level fl)"
    and run: "cpuid_identify_arm raw data = Some ((arm_names hw part
      (data\<lparr>arm := decode_midr raw, purpose := purpose_of_name (part_name part)\<rparr>))\<lparr>flags := fl,
        feature_level := (case midr_level raw of None \<Rightarrow> arm_level_spec raw fl | Some l \<Rightarrow> l)\<rparr>)"
    by (rule cpuid_identify_arm_run [OF assms(1)])
  have hid: "\<not> fl f \<and> (\<exists>m. (f, m) \<in> set arm_features \<and> list_ex (\<lambda>x. aarch32_reg x \<noteq> None) (map_fields m))"
    if "f \<in> set hidden_features" for f
  proof -
    have "f \<in> fst ` set (filter (\<lambda>(f, m). hidden_row m) arm_features)"
      using that by (simp only: hidden_rows flip: set_map)
    then obtain r where "f = fst r" "r \<in> set (filter (\<lambda>(f, m). hidden_row m) arm_features)"
      by (rule imageE)
    then obtain m where m: "(f, m) \<in> set arm_features" "hidden_row m"
      by (cases r) auto
    have "f \<notin> set special_features" using hidden_not_special that unfolding list_all_iff by blast
    then show ?thesis
      using flag_of_row [OF fl m(1)] hidden_not_present [OF m(2)] m assms(2) by (auto simp: hidden_row_def)
  qed
  have "length hidden_features = 34" by (simp add: hidden_features_def)
  then show ?thesis using run hid by auto
qed

theorem arm_hidden_features_witness:
  "\<exists>d. cpuid_identify_arm (raw_data_t_constructor\<lparr>arm_midr := 0xf0000, arm_id_isar := replicate 7 0x11111111\<rparr>)
      cpu_id_t_constructor = Some d \<and> \<not> flags d CPU_FEATURE_SB"
proof -
  have fl0: "flags cpu_id_t_constructor = (\<lambda>_. False)" by (simp add: cpu_id_t_constructor_def)
  have "\<not> is_aarch64_mode (raw_data_t_constructor\<lparr>arm_midr := 0xf0000, arm_id_isar := replicate 7 0x11111111\<rparr>)"
    by (simp add: is_aarch64_mode_def raw_data_t_constructor_def)
  from arm_hidden_features [OF fl0 this] show ?thesis
    by (auto simp: hidden_features_def)
qed

text \<open>The same with patterns as tokens.\<close>

definition token_purpose :: "string \<Rightarrow> cpu_purpose_t" where
  "token_purpose name =
     (let cortex = map PChar ''Cortex-''
      in if found_at (cortex @ [PChar (CHR ''X''), PSet ''012356789'']) name then PURPOSE_U_PERFORMANCE
         else if found_at (cortex @ [PChar (CHR ''A''), PSet ''67'', PSet ''012356789'']) name \<or>
            found_at (cortex @ [PChar (CHR ''A''), PSet ''5'', PSet ''6789'']) name then PURPOSE_PERFORMANCE
         else if found_at (cortex @ [PChar (CHR ''A''), PSet ''5'', PSet ''012345'']) name \<or>
            found_at (cortex @ [PChar (CHR ''A''), PSet ''3'', PSet ''0123456789'']) name then PURPOSE_EFFICIENCY
         else PURPOSE_GENERAL)"

lemma purpose_by_tokens:
  assumes "NUL \<notin> set name" and "CHR ''['' \<notin> set name"
  shows "purpose_of_name name = token_purpose name"
proof -
  have p: "parse_pattern ''Cortex-X[012356789]'' =
      Some (map PChar ''Cortex-'' @ [PChar (CHR ''X''), PSet ''012356789''])"
    "parse_pattern ''Cortex-A[67][012356789]'' =
      Some (map PChar ''Cortex-'' @ [PChar (CHR ''A''), PSet ''67'', PSet ''012356789''])"
    "parse_pattern ''Cortex-A[5][6789]'' =
      Some (map PChar ''Cortex-'' @ [PChar (CHR ''A''), PSet ''5'', PSet ''6789''])"
    "parse_pattern ''Cortex-A[5][012345]'' =
      Some (map PChar ''Cortex-'' @ [PChar (CHR ''A''), PSet ''5'', PSet ''012345''])"
    "parse_pattern ''Cortex-A[3][0123456789]'' =
      Some (map PChar ''Cortex-'' @ [PChar (CHR ''A''), PSet ''3'', PSet ''0123456789''])"
    by simp_all
  have nonempty: "''Cortex-X[012356789]'' \<noteq> []" "''Cortex-A[67][012356789]'' \<noteq> []"
    "''Cortex-A[5][6789]'' \<noteq> []" "''Cortex-A[5][012345]'' \<noteq> []" "''Cortex-A[3][0123456789]'' \<noteq> []"
    by simp_all
  have nul: "NUL \<notin> set ''Cortex-X[012356789]''" "NUL \<notin> set ''Cortex-A[67][012356789]''"
    "NUL \<notin> set ''Cortex-A[5][6789]''" "NUL \<notin> set ''Cortex-A[5][012345]''"
    "NUL \<notin> set ''Cortex-A[3][0123456789]''"
    by simp_all
  have m: "match_pattern name q \<noteq> 0 \<longleftrightarrow> found_at ts name"
    if "parse_pattern q = Some ts" "q \<noteq> []" "NUL \<notin> set q" for q ts
    using that assms by (intro match_pattern_found)
  show ?thesis
    unfolding purpose_of_name_def token_purpose_def Let_def
    by (simp only: m [OF p(1) nonempty(1) nul(1)] m [OF p(2) nonempty(2) nul(2)] m [OF p(3) nonempty(3) nul(3)]
        m [OF p(4) nonempty(4) nul(4)] m [OF p(5) nonempty(5) nul(5)])
qed

lemma names_ok:
  "list_all (\<lambda>hw. list_all (\<lambda>p. NUL \<notin> set (part_name p) \<and> CHR ''['' \<notin> set (part_name p)) (hw_parts hw)) hw_implementer"
  unfolding hw_implementer_def part_tables by code_simp

definition big_cores :: "string list" where
  "big_cores = [''Cortex-X1'', ''Cortex-X1C'', ''Cortex-X2'', ''Cortex-X3'', ''Cortex-X925'']"

definition performance_cores :: "string list" where
  "performance_cores = [''Cortex-A57'', ''Cortex-A65'', ''Cortex-A65AE'', ''Cortex-A72'', ''Cortex-A73'',
     ''Cortex-A75'', ''Cortex-A76'', ''Cortex-A76AE'', ''Cortex-A77'', ''Cortex-A78'', ''Cortex-A78AE'',
     ''Cortex-A78C'', ''Cortex-A710'', ''Cortex-A715'', ''Cortex-A720'', ''Cortex-A720AE'', ''Cortex-A725'']"

definition efficiency_cores :: "string list" where
  "efficiency_cores = [''Cortex-A32'', ''Cortex-A34'', ''Cortex-A35'', ''Cortex-A53'', ''Cortex-A55'',
     ''Cortex-A320'', ''Cortex-A510'', ''Cortex-A520'', ''Cortex-A520AE'']"

definition listed_purpose :: "string \<Rightarrow> cpu_purpose_t" where
  "listed_purpose name =
     (if name \<in> set big_cores then PURPOSE_U_PERFORMANCE
      else if name \<in> set performance_cores then PURPOSE_PERFORMANCE
      else if name \<in> set efficiency_cores then PURPOSE_EFFICIENCY
      else PURPOSE_GENERAL)"


lemma c_tolower_eq_letter:
  assumes "65 \<le> (of_char u :: nat)" and "(of_char u :: nat) \<le> 90" and "(of_char d :: nat) = of_char u + 32"
  shows "c_tolower c = d \<longleftrightarrow> c = d \<or> c = u"
proof (cases "65 \<le> (of_char c :: nat) \<and> (of_char c :: nat) \<le> 90")
  case True
  have d: "d = char_of ((of_char u :: nat) + 32)" using assms(3) by (metis char_of_char)
  have "c_tolower c = d \<longleftrightarrow> char_of ((of_char c :: nat) + 32) = d" using True by (simp add: c_tolower_def)
  also have "\<dots> \<longleftrightarrow> (of_char c :: nat) + 32 = of_char u + 32"
  proof
    assume "char_of ((of_char c :: nat) + 32) = d"
    then have "(of_char (char_of ((of_char c :: nat) + 32)) :: nat) = of_char d" by simp
    then show "(of_char c :: nat) + 32 = of_char u + 32" using True assms(3) by simp
  qed (simp add: d)
  also have "\<dots> \<longleftrightarrow> c = u" by simp
  finally show ?thesis using True assms by auto
next
  case False
  then show ?thesis using assms by (auto simp: c_tolower_def)
qed

lemma token_ok_letters:
  "token_ok (PChar (CHR ''C'')) c \<longleftrightarrow> c = CHR ''c'' \<or> c = CHR ''C''"
  "token_ok (PChar (CHR ''o'')) c \<longleftrightarrow> c = CHR ''o'' \<or> c = CHR ''O''"
  "token_ok (PChar (CHR ''r'')) c \<longleftrightarrow> c = CHR ''r'' \<or> c = CHR ''R''"
  "token_ok (PChar (CHR ''t'')) c \<longleftrightarrow> c = CHR ''t'' \<or> c = CHR ''T''"
  "token_ok (PChar (CHR ''e'')) c \<longleftrightarrow> c = CHR ''e'' \<or> c = CHR ''E''"
  "token_ok (PChar (CHR ''x'')) c \<longleftrightarrow> c = CHR ''x'' \<or> c = CHR ''X''"
  "token_ok (PChar (CHR ''X'')) c \<longleftrightarrow> c = CHR ''x'' \<or> c = CHR ''X''"
  "token_ok (PChar (CHR ''A'')) c \<longleftrightarrow> c = CHR ''a'' \<or> c = CHR ''A''"
  "token_ok (PChar (CHR ''-'')) c \<longleftrightarrow> c = CHR ''-''"
proof -
  have low: "c_tolower (CHR ''C'') = CHR ''c''" "c_tolower (CHR ''o'') = CHR ''o''" "c_tolower (CHR ''r'') = CHR ''r''"
    "c_tolower (CHR ''t'') = CHR ''t''" "c_tolower (CHR ''e'') = CHR ''e''" "c_tolower (CHR ''x'') = CHR ''x''"
    "c_tolower (CHR ''X'') = CHR ''x''" "c_tolower (CHR ''A'') = CHR ''a''" "c_tolower (CHR ''-'') = CHR ''-''"
    by code_simp+
  show "token_ok (PChar (CHR ''C'')) c \<longleftrightarrow> c = CHR ''c'' \<or> c = CHR ''C''"
    by (simp only: token_ok.simps low, rule c_tolower_eq_letter) simp_all
  show "token_ok (PChar (CHR ''o'')) c \<longleftrightarrow> c = CHR ''o'' \<or> c = CHR ''O''"
    by (simp only: token_ok.simps low, rule c_tolower_eq_letter) simp_all
  show "token_ok (PChar (CHR ''r'')) c \<longleftrightarrow> c = CHR ''r'' \<or> c = CHR ''R''"
    by (simp only: token_ok.simps low, rule c_tolower_eq_letter) simp_all
  show "token_ok (PChar (CHR ''t'')) c \<longleftrightarrow> c = CHR ''t'' \<or> c = CHR ''T''"
    by (simp only: token_ok.simps low, rule c_tolower_eq_letter) simp_all
  show "token_ok (PChar (CHR ''e'')) c \<longleftrightarrow> c = CHR ''e'' \<or> c = CHR ''E''"
    by (simp only: token_ok.simps low, rule c_tolower_eq_letter) simp_all
  show "token_ok (PChar (CHR ''x'')) c \<longleftrightarrow> c = CHR ''x'' \<or> c = CHR ''X''"
    by (simp only: token_ok.simps low, rule c_tolower_eq_letter) simp_all
  show "token_ok (PChar (CHR ''X'')) c \<longleftrightarrow> c = CHR ''x'' \<or> c = CHR ''X''"
    by (simp only: token_ok.simps low, rule c_tolower_eq_letter) simp_all
  show "token_ok (PChar (CHR ''A'')) c \<longleftrightarrow> c = CHR ''a'' \<or> c = CHR ''A''"
    by (simp only: token_ok.simps low, rule c_tolower_eq_letter) simp_all
  show "token_ok (PChar (CHR ''-'')) c \<longleftrightarrow> c = CHR ''-''"
    by (simp only: token_ok.simps low, rule c_tolower_eq_fixed) (simp_all only: low, simp)
qed

lemma c_tolower_digit: "c_isdigit d \<Longrightarrow> c_tolower d = d"
  by (simp add: c_isdigit_def c_tolower_def)

lemma token_ok_digits:
  assumes "list_all c_isdigit ds"
  shows "token_ok (PSet ds) c \<longleftrightarrow> c \<in> set ds"
proof -
  have "c_tolower x = c_tolower c \<longleftrightarrow> x = c" if "x \<in> set ds" for x
    using that assms c_tolower_eq_fixed [of x c] c_tolower_digit [of x]
    by (auto simp: list_all_iff c_isdigit_def)
  then show ?thesis by (auto simp: list_ex_iff)
qed

lemmas purpose_eval = token_purpose_def listed_purpose_def big_cores_def performance_cores_def
  efficiency_cores_def token_ok_letters token_ok_digits c_isdigit_def Let_def

lemma tokens_match_prefix: "tokens_match (ts @ us) s \<Longrightarrow> tokens_match ts s"
  by (induction ts s rule: tokens_match.induct) auto

lemma not_found_prefix: "\<not> found_at ts s \<Longrightarrow> \<not> found_at (ts @ us) s"
  using tokens_match_prefix by (induction s) fastforce+

definition is_cortex :: "string \<Rightarrow> bool" where
  "is_cortex = found_at (map PChar ''Cortex-'')"

lemma listed_cortex: "list_all is_cortex (big_cores @ performance_cores @ efficiency_cores)"
  by (simp add: is_cortex_def purpose_eval del: token_ok.simps)

lemma not_cortex:
  assumes "\<not> is_cortex name"
  shows "token_purpose name = listed_purpose name"
proof -
  have "name \<notin> set (big_cores @ performance_cores @ efficiency_cores)"
    using listed_cortex assms by (auto simp: list_all_iff)
  then have "listed_purpose name = PURPOSE_GENERAL" by (simp add: listed_purpose_def)
  moreover have "token_purpose name = PURPOSE_GENERAL"
    unfolding token_purpose_def Let_def using not_found_prefix [OF assms [unfolded is_cortex_def]] by simp
  ultimately show ?thesis by simp
qed

text \<open>The names that the patterns single out, in the two tables that have any.\<close>

lemma purposes:
  "list_all (\<lambda>p. token_purpose (part_name p) = listed_purpose (part_name p)) arm_part"
  "list_all (\<lambda>p. token_purpose (part_name p) = listed_purpose (part_name p)) hisi_part"
  by (simp add: purpose_eval arm_part_def del: token_ok.simps)
    (simp add: purpose_eval hisi_part_def del: token_ok.simps)

lemma other_parts:
  "list_all (\<lambda>p. \<not> is_cortex (part_name p)) brcm_part"
  "list_all (\<lambda>p. \<not> is_cortex (part_name p)) dec_part"
  "list_all (\<lambda>p. \<not> is_cortex (part_name p)) cavium_part"
  "list_all (\<lambda>p. \<not> is_cortex (part_name p)) apm_part"
  "list_all (\<lambda>p. \<not> is_cortex (part_name p)) qcom_part"
  "list_all (\<lambda>p. \<not> is_cortex (part_name p)) samsung_part"
  "list_all (\<lambda>p. \<not> is_cortex (part_name p)) nvidia_part"
  "list_all (\<lambda>p. \<not> is_cortex (part_name p)) marvell_part"
  "list_all (\<lambda>p. \<not> is_cortex (part_name p)) apple_part"
  "list_all (\<lambda>p. \<not> is_cortex (part_name p)) faraday_part"
  "list_all (\<lambda>p. \<not> is_cortex (part_name p)) intel_part"
  "list_all (\<lambda>p. \<not> is_cortex (part_name p)) fujitsu_part"
  "list_all (\<lambda>p. \<not> is_cortex (part_name p)) ampere_part"
  "list_all (\<lambda>p. \<not> is_cortex (part_name p)) ft_part"
  "list_all (\<lambda>p. \<not> is_cortex (part_name p)) ms_part"
  "list_all (\<lambda>p. \<not> is_cortex (part_name p)) unknown_part"
  by (simp_all add: is_cortex_def token_ok_letters part_tables del: token_ok.simps)

lemma other_purposes:
  "list_all (\<lambda>p. \<not> is_cortex (part_name p)) ps \<Longrightarrow>
    list_all (\<lambda>p. token_purpose (part_name p) = listed_purpose (part_name p)) ps"
  by (simp add: list_all_iff not_cortex)

lemma listed_purposes:
  "list_all (\<lambda>hw. list_all (\<lambda>p. token_purpose (part_name p) = listed_purpose (part_name p)) (hw_parts hw))
     hw_implementer"
  unfolding hw_implementer_def list.pred_inject arm_hw_impl.simps
  by (intro conjI purposes other_parts [THEN other_purposes] list.pred_inject(1) TrueI)

text \<open>
  the purpose of an ARM core follows from the name of its part: the listed cores are classed
  as biggest, performance or efficiency cores and every other one as general, so also the
  Cortex-X4, whose digit the first pattern leaves out.
\<close>

theorem cpuid_identify_purpose_arm_names:
  "\<exists>hw part. arm_row_of raw hw part \<and>
     cpuid_identify_purpose_arm raw = Some (listed_purpose (part_name part)) \<and>
     listed_purpose ''Cortex-X3'' = PURPOSE_U_PERFORMANCE \<and>
     listed_purpose ''Cortex-X4'' = PURPOSE_GENERAL"
proof -
  obtain hw part where row: "arm_row_of raw hw part"
    and p: "cpuid_identify_purpose_arm raw = Some (purpose_of_name (part_name part))"
    by (rule arm_row_found)
  then have part: "part \<in> set (hw_parts hw)" "hw \<in> set hw_implementer"
    by (simp_all add: arm_row_of_def row_for_def)
  then have "NUL \<notin> set (part_name part) \<and> CHR ''['' \<notin> set (part_name part)"
    and listed: "token_purpose (part_name part) = listed_purpose (part_name part)"
    using names_ok listed_purposes unfolding list_all_iff by blast+
  then have "purpose_of_name (part_name part) = listed_purpose (part_name part)"
    using purpose_by_tokens by metis
  moreover have "listed_purpose ''Cortex-X3'' = PURPOSE_U_PERFORMANCE" "listed_purpose ''Cortex-X4'' = PURPOSE_GENERAL"
    by (simp_all add: listed_purpose_def big_cores_def performance_cores_def efficiency_cores_def)
  ultimately show ?thesis using row p by auto
qed

section \<open>Lists of names\<close>

definition arm_known_names :: "arm_id_part list \<Rightarrow> string list" where
  "arm_known_names ps = filter (\<lambda>s. c_strstr s ''Unknown'' = None) (map part_name ps)"

lemma arm_list_loop_nub:
  "arm_list_loop alloc k ps acc = Some (acc @ filter (\<lambda>y. y \<notin> set acc) (nub (arm_known_names ps))) \<or>
   arm_list_loop alloc k ps acc = None \<and> (\<exists>n. \<not> alloc n)"
proof (induction ps arbitrary: k acc)
  case Nil
  then show ?case by (simp add: arm_known_names_def)
next
  case (Cons p ps)
  consider (skip) "\<not> (c_strstr (part_name p) ''Unknown'' = None \<and> part_name p \<notin> set acc)"
    | (fail) "c_strstr (part_name p) ''Unknown'' = None \<and> part_name p \<notin> set acc" "\<not> alloc k"
    | (new) "c_strstr (part_name p) ''Unknown'' = None \<and> part_name p \<notin> set acc" "alloc k"
    by blast
  then show ?case
  proof cases
    case skip
    then have "arm_list_loop alloc k (p # ps) acc = arm_list_loop alloc k ps acc"
      and "filter (\<lambda>y. y \<notin> set acc) (nub (arm_known_names (p # ps))) =
        filter (\<lambda>y. y \<notin> set acc) (nub (arm_known_names ps))"
      by (auto simp: arm_known_names_def intro!: filter_cong)
    with Cons.IH [of k acc] show ?thesis by simp
  next
    case new
    then have "arm_list_loop alloc k (p # ps) acc = arm_list_loop alloc (Suc k) ps (acc @ [part_name p])"
      and "acc @ filter (\<lambda>y. y \<notin> set acc) (nub (arm_known_names (p # ps))) =
        (acc @ [part_name p]) @ filter (\<lambda>y. y \<notin> set (acc @ [part_name p])) (nub (arm_known_names ps))"
      by (auto simp: arm_known_names_def intro!: filter_cong)
    with Cons.IH [of "Suc k" "acc @ [part_name p]"] show ?thesis by simp
  qed auto
qed

definition listed_names :: "cpu_list_t \<Rightarrow> string list" where
  "listed_names l = (case names l of None \<Rightarrow> [] | Some ns \<Rightarrow> ns)"

text \<open>
  \<^verbatim>\<open>cpuid_get_list_arm\<close> appends the distinct new names of the vendor's parts to the list it
  is given, which has to be a valid one; when memory is short it leaves that list or the empty
  one, with \<^const>\<open>ERR_NO_MEM\<close>. For a vendor without parts the list is left alone.
\<close>

theorem cpuid_get_list_arm_spec:
  "\<exists>hw \<in> set hw_implementer.
     (if v \<in> hw_vendor ` set (butlast hw_implementer) then hw_vendor hw = v else hw = last hw_implementer) \<and>
     (let parts = butlast (hw_parts hw); old = listed_names l;
        ns = old @ filter (\<lambda>n. n \<notin> set old) (nub (arm_known_names parts));
        r = cpuid_get_list_arm alloc v l errno in
      if parts = [] then r = Some (l, errno)
      else if \<not> wf_list l then r = None
      else r = Some (\<lparr>num_entries = int (length ns), names = Some ns\<rparr>, errno) \<or>
        (\<exists>n. \<not> alloc n) \<and> r \<in> {Some (l, ERR_NO_MEM), Some (\<lparr>num_entries = 0, names = None\<rparr>, ERR_NO_MEM)})"
proof -
  obtain hw where hw: "get_cpu_implementer_from_vendor v = Some hw" "hw \<in> set hw_implementer"
    and row: "if \<exists>x \<in> set (butlast hw_implementer). hw_vendor x = v
      then hw_vendor hw = v \<and> hw \<in> set (butlast hw_implementer) else hw = last hw_implementer"
    unfolding get_cpu_implementer_from_vendor_def by (rule implementers.found)
  have parts: "takeWhile (\<lambda>p. 0 \<le> part_id p) (hw_parts hw) = butlast (hw_parts hw)"
    by (rule sentinel_table.rows_before_end [OF parts_of_implementer [OF hw(2)]])
  define old where "old = listed_names l"
  have run: "cpuid_get_list_arm alloc v l errno =
      (if butlast (hw_parts hw) = [] then Some (l, errno)
       else if \<not> wf_list l then None
       else if \<not> alloc 0 then Some (l, ERR_NO_MEM)
       else (case arm_list_loop alloc 1 (butlast (hw_parts hw)) old of
          None \<Rightarrow> Some (\<lparr>num_entries = 0, names = None\<rparr>, ERR_NO_MEM)
        | Some ns \<Rightarrow> Some (\<lparr>num_entries = int (length ns), names = Some ns\<rparr>, errno)))"
    by (simp add: cpuid_get_list_arm_def hw(1) parts old_def listed_names_def Let_def)
  have "if v \<in> hw_vendor ` set (butlast hw_implementer) then hw_vendor hw = v else hw = last hw_implementer"
    using row by (auto simp: image_iff split: if_splits)
  then show ?thesis
    using arm_list_loop_nub [of alloc 1 "butlast (hw_parts hw)" old]
    by (intro bexI [OF _ hw(2)] conjI) (auto simp: run Let_def simp flip: old_def)
qed

end
