(* ===== verification/Identify.thy ===== *)
theory Identify
  imports Recog_Amd Recog_Centaur Arm_Identify Raw_Access Affinity_Mask
begin

text \<open>
  Identification of one processor (\<^verbatim>\<open>cpuid_main.c\<close>): \<^verbatim>\<open>cpu_ident_internal\<close>, which chooses the
  recognizer of the vendor, \<^verbatim>\<open>cpu_identify\<close>, \<^verbatim>\<open>cpu_ident_purpose\<close>, \<^verbatim>\<open>cpu_request_core_type\<close>,
  \<^verbatim>\<open>cpuid_get_vendor\<close> and \<^verbatim>\<open>cpuid_get_cpu_list\<close>.
\<close>

section \<open>One processor\<close>

definition ident_x86 ::
    "'m os \<Rightarrow> 'm \<Rightarrow> cpu_raw_data_t \<Rightarrow> cpu_id_t \<Rightarrow> internal_id_info_t \<Rightarrow>
      (cpu_error_t \<times> cpu_id_t \<times> internal_id_info_t) option" where
  "ident_x86 os aff raw data internal =
     (let (r, data) = cpuid_basic_identify (os_total_cpus os) raw data in
      if r \<noteq> ERR_OK then Some (r, data, internal)
      else
        (case vendor data of
           VENDOR_INTEL \<Rightarrow> map_option (Pair ERR_OK) (cpuid_identify_intel (os_cpuid os aff) raw data internal)
         | VENDOR_AMD \<Rightarrow> map_option (Pair ERR_OK) (cpuid_identify_amd raw data internal)
         | VENDOR_HYGON \<Rightarrow> map_option (Pair ERR_OK) (cpuid_identify_amd raw data internal)
         | VENDOR_CENTAUR \<Rightarrow> map_option (Pair ERR_OK) (cpuid_identify_centaur raw data internal)
         | _ \<Rightarrow> Some (ERR_OK, data, internal)))"

text \<open>
  \<^verbatim>\<open>cpu_ident_internal\<close>; a null \<open>raw\<close> is read from the machine first. The deprecated copies of
  fields (\<^verbatim>\<open>l1_assoc\<close>, \<^verbatim>\<open>family\<close> and so on) are left out. The previous contents of \<open>data\<close> do not
  matter: the constructor overwrites them.
\<close>

definition cpu_ident_internal ::
    "'m os \<Rightarrow> cpu_raw_data_t option \<Rightarrow> cpu_id_t \<Rightarrow> internal_id_info_t \<Rightarrow> 'm thread \<Rightarrow>
      (cpu_error_t \<times> cpu_id_t \<times> internal_id_info_t \<times> 'm thread) option" where
  "cpu_ident_internal os raw data internal th =
     (let (r, raw, th) = (case raw of
            Some raw \<Rightarrow> (ERR_OK, raw, th)
          | None \<Rightarrow> cpuid_get_raw_data os raw_data_t_constructor th)
      in if r \<noteq> ERR_OK then Some (r, data, internal, th\<lparr>th_errno := r\<rparr>)
         else do {
           let data = cpu_id_t_constructor;
           let internal = internal\<lparr>cache_mask := replicate NUM_CACHE_TYPES 0\<rparr>;
           let data = data\<lparr>architecture := cpuid_architecture_identify raw\<rparr>;
           (r, data, internal) \<leftarrow>
             (case architecture data of
                ARCHITECTURE_X86 \<Rightarrow> ident_x86 os (th_affinity th) raw data internal
              | ARCHITECTURE_ARM \<Rightarrow>
                  map_option (\<lambda>data. (ERR_OK, data, internal)) (cpuid_identify_arm raw data)
              | _ \<Rightarrow> Some (ERR_CPU_UNKN, data, internal));
           Some (r, data, internal, th\<lparr>th_errno := r\<rparr>)
         })"

definition throwaway :: internal_id_info_t where
  "throwaway = \<lparr>id_score = 0, cache_mask = replicate NUM_CACHE_TYPES 0\<rparr>"

definition cpu_identify ::
    "'m os \<Rightarrow> cpu_raw_data_t option \<Rightarrow> cpu_id_t \<Rightarrow> 'm thread \<Rightarrow>
      (cpu_error_t \<times> cpu_id_t \<times> 'm thread) option" where
  "cpu_identify os raw data th =
     map_option (\<lambda>(r, data, _, th). (r, data, th)) (cpu_ident_internal os raw data throwaway th)"

definition cpu_ident_purpose :: "cpu_raw_data_t \<Rightarrow> cpu_purpose_t option" where
  "cpu_ident_purpose raw =
     (case cpuid_architecture_identify raw of
        ARCHITECTURE_X86 \<Rightarrow>
          (case fst (cpuid_vendor_identify (basic_cpuid raw ! 0)) of
             VENDOR_AMD \<Rightarrow> cpuid_identify_purpose_amd raw
           | VENDOR_INTEL \<Rightarrow> Some (cpuid_identify_purpose_intel raw)
           | _ \<Rightarrow> Some PURPOSE_GENERAL)
      | ARCHITECTURE_ARM \<Rightarrow> cpuid_identify_purpose_arm raw
      | _ \<Rightarrow> Some PURPOSE_GENERAL)"

section \<open>A processor of a given purpose\<close>

text \<open>The loop of \<^verbatim>\<open>cpu_request_core_type\<close> over the elements of the raw array.\<close>

fun request_loop ::
    "'m os \<Rightarrow> cpu_purpose_t \<Rightarrow> cpu_raw_data_t list \<Rightarrow> cpu_id_t \<Rightarrow> 'm thread \<Rightarrow>
      (cpu_error_t \<times> cpu_id_t \<times> 'm thread) option" where
  "request_loop os wanted [] data th = Some (ERR_NOT_FOUND, data, th\<lparr>th_errno := ERR_NOT_FOUND\<rparr>)"
| "request_loop os wanted (raw # raws) data th = do {
     p \<leftarrow> cpu_ident_purpose raw;
     if p = wanted then do {
       (_, data, _, th) \<leftarrow> cpu_ident_internal os (Some raw) data throwaway th;
       Some (ERR_OK, data, th\<lparr>th_errno := ERR_OK\<rparr>)
     } else request_loop os wanted raws data th
   }"

definition cpu_request_core_type ::
    "'m os \<Rightarrow> (nat \<Rightarrow> bool) \<Rightarrow> cpu_purpose_t \<Rightarrow> cpu_raw_data_array_t option \<Rightarrow>
      cpu_id_t \<Rightarrow> 'm thread \<Rightarrow> (cpu_error_t \<times> cpu_id_t \<times> 'm thread) option" where
  "cpu_request_core_type os alloc wanted raw_array data th = do {
     (r, raw_array, th) \<leftarrow> (case raw_array of
         Some a \<Rightarrow> Some (ERR_OK, Some a, th)
       | None \<Rightarrow> cpuid_get_all_raw_data os alloc (Some (cpu_raw_data_array_t_constructor True)) th);
     if r \<noteq> ERR_OK then Some (r, data, th)
     else (case raw_array of
         None \<Rightarrow> None
       | Some a \<Rightarrow> request_loop os wanted (take (unat (num_raw a)) (raw_items a)) data th)
   }"

section \<open>Vendor and lists\<close>

text \<open>
  \<^verbatim>\<open>cpuid_get_cpu_list(vendor, list)\<close>. For Intel the ARM names are appended to the list of the x86
  ones, with the allocations \<open>alloc2\<close>; for the ARM vendors they are appended to whatever \<open>list\<close>
  holds.
\<close>

definition cpuid_get_cpu_list ::
    "(nat \<Rightarrow> bool) \<Rightarrow> (nat \<Rightarrow> bool) \<Rightarrow> cpu_vendor_t \<Rightarrow> cpu_list_t \<Rightarrow> cpu_error_t \<Rightarrow>
      (cpu_list_t \<times> cpu_error_t) option" where
  "cpuid_get_cpu_list alloc alloc2 v l errno =
     (case v of
        VENDOR_INTEL \<Rightarrow>
          (case cpuid_get_list_intel alloc errno of (l, errno) \<Rightarrow> cpuid_get_list_arm alloc2 v l errno)
      | VENDOR_AMD \<Rightarrow> Some (cpuid_get_list_amd alloc errno)
      | VENDOR_HYGON \<Rightarrow> Some (cpuid_get_list_amd alloc errno)
      | VENDOR_CYRIX \<Rightarrow> Some (make_list_from_string alloc
          ''Cx486,Cx5x86,6x86,6x86MX,M II,MediaGX,MediaGXi,MediaGXm'' errno)
      | VENDOR_NEXGEN \<Rightarrow> Some (make_list_from_string alloc ''Nx586'' errno)
      | VENDOR_TRANSMETA \<Rightarrow> Some (make_list_from_string alloc ''Crusoe,Efficeon'' errno)
      | VENDOR_UMC \<Rightarrow> Some (make_list_from_string alloc ''UMC x86 CPU'' errno)
      | VENDOR_CENTAUR \<Rightarrow> Some (cpuid_get_list_centaur alloc errno)
      | VENDOR_RISE \<Rightarrow> Some (make_list_from_string alloc ''Rise mP6'' errno)
      | VENDOR_SIS \<Rightarrow> Some (make_list_from_string alloc ''SiS mP6'' errno)
      | VENDOR_NSC \<Rightarrow> Some (make_list_from_string alloc
          ''Geode GXm,Geode GXLV,Geode GX1,Geode GX2'' errno)
      | VENDOR_UNKNOWN \<Rightarrow> Some (\<lparr>num_entries = 0, names = None\<rparr>, ERR_INVRANGE)
      | _ \<Rightarrow> cpuid_get_list_arm alloc2 v l errno)"

text \<open>\<^verbatim>\<open>cpuid_get_vendor\<close>, with its static variable \<open>cached\<close>.\<close>

definition cpuid_get_vendor :: "'m os \<Rightarrow> cpu_vendor_t \<Rightarrow> 'm thread \<Rightarrow> cpu_vendor_t \<times> 'm thread" where
  "cpuid_get_vendor os cached th =
     (if cached = VENDOR_UNKNOWN then
        (if \<not> os_cpuid_present os then (cached, th\<lparr>th_errno := ERR_NO_CPUID\<rparr>)
         else (fst (cpuid_vendor_identify (cpu_exec_cpuid (os_cpuid os (th_affinity th)) 0)), th))
      else (cached, th))"

section \<open>The contract of a recognizer\<close>

text \<open>The fields that basic identification sets and no recognizer changes.\<close>

definition identity ::
    "cpu_id_t \<Rightarrow> cpu_architecture_t \<times> cpu_vendor_t \<times> string \<times> string \<times> int \<times> cpu_affinity_mask_t" where
  "identity d = (architecture d, vendor d, vendor_str d, brand_str d, total_logical_cpus d,
     affinity_mask d)"

lemma identity_match_features [id_frame]: "identity (match_features tab reg d) = identity d"
  by (simp add: match_features_flags identity_def)

lemma identity_non_cache: "non_cache d = non_cache d' \<Longrightarrow> identity d = identity d'"
proof -
  assume "non_cache d = non_cache d'"
  then have "identity (non_cache d) = identity (non_cache d')" by simp
  then show ?thesis by (simp add: identity_def non_cache_def)
qed

lemma identity_deterministic:
  assumes "decode_deterministic_cache_info_x86 regs n d t = Some (d', t')" and "unat n \<le> length regs"
  shows "identity d' = identity d"
  using cache_info_loop_result [OF assms(2), of 0 d t] assms(1)
  by (auto simp: info_result_def decode_deterministic_cache_info_x86_def intro: identity_non_cache)

lemma identity_levels [id_frame]:
  "identity (decode_architecture_version_x86 d) = identity d"
  "identity (decode_number_of_cores_x86 raw d) = identity d"
  by (simp_all add: decode_architecture_version_x86_def decode_number_of_cores_x86_def identity_def Let_def)

lemma identity_amd [id_frame]:
  "identity (load_amd_features raw d) = identity d"
  "identity (decode_amd_cache_info raw d) = identity d"
  "identity (decode_amd_number_of_cores raw d) = identity d"
  by (simp_all add: load_amd_features_def load_amd_flags_sources load_amd_sse_size_def
      decode_amd_cache_info_def decode_amd_l1_def decode_amd_l2_l3_def
      decode_amd_number_of_cores_def identity_def Let_def)

lemma identity_intel [id_frame]:
  "identity (load_intel_features raw d) = identity d"
  "identity (decode_intel_oldstyle_cache_info raw d) = identity d"
  by (simp_all add: load_intel_features_sources identity_def)
    (use identity_non_cache [OF oldstyle_non_cache] in \<open>simp add: identity_def\<close>)

lemma identity_intel_cores: "intel_cores raw d = Some d' \<Longrightarrow> identity d' = identity d"
  by (auto simp: intel_cores_def decode_intel_extended_topology_def id_frame Let_def identity_def
      split: if_splits prod.splits)
    (use identity_levels(2) [of raw d] in \<open>simp add: identity_def\<close>)+

lemma identity_updates [id_frame]:
  "identity (d\<lparr>purpose := p\<rparr>) = identity d"
  "identity (d\<lparr>cpu_codename := n, technology_node := t\<rparr>) = identity d"
  by (simp_all add: identity_def)

text \<open>
  What \<^verbatim>\<open>cpu_ident_internal\<close> relies on when it calls the recognizer of a vendor: a recognizer that
  returns leaves the identity alone, and stores a codename of its table and a score.
\<close>

locale recognizer =
  fixes recognize :: "cpu_raw_data_t \<Rightarrow> cpu_id_t \<Rightarrow> internal_id_info_t \<Rightarrow>
      (cpu_id_t \<times> internal_id_info_t) option"
    and table :: "match_entry_t list"
  assumes keeps_identity:
      "wf_raw raw \<Longrightarrow> recognize raw data internal = Some (d, i) \<Longrightarrow> identity d = identity data"
    and names_from_table:
      "wf_raw raw \<Longrightarrow> recognize raw data internal = Some (d, i) \<Longrightarrow> cpu_codename d \<in> me_name ` set table"
    and score_in_range:
      "wf_raw raw \<Longrightarrow> recognize raw data internal = Some (d, i) \<Longrightarrow> 0 \<le> id_score i \<and> id_score i \<le> 26"
begin

text \<open>The outcome of the call in \<^verbatim>\<open>cpu_ident_internal\<close>.\<close>

lemma recognized:
  assumes "wf_raw raw" and "map_option (Pair ERR_OK) (recognize raw data internal) = Some (r, d, i)"
  shows "r = ERR_OK \<and> identity d = identity data \<and> cpu_codename d \<in> me_name ` set table \<and>
    0 \<le> id_score i \<and> id_score i \<le> 26"
proof -
  have rec: "recognize raw data internal = Some (d, i)" and "r = ERR_OK" using assms(2) by auto
  then show ?thesis
    using keeps_identity [OF assms(1) rec] names_from_table [OF assms(1) rec]
      score_in_range [OF assms(1) rec] by simp
qed

end

interpretation amd_rec: recognizer cpuid_identify_amd cpudb_amd
proof
  fix raw data internal d i
  assume wf: "wf_raw raw" and run: "cpuid_identify_amd raw data internal = Some (d, i)"
  have four: "unat (of_nat MAX_AMDFN8000001DH_LEVEL :: u8) \<le> length (amd_fn8000001dh raw)"
    using wf_rawD [OF wf] by simp
  obtain d2 s d3 where m: "match_cpu_codename cpudb_amd d2 = Some (s, d3)"
    and id2: "identity d2 = identity data" and d: "d = d3" "id_score i = s"
    using run identity_deterministic [OF _ four]
    by (auto simp: cpuid_identify_amd_def Let_def id_frame split: if_splits bind_splits)
  have "identity d3 = identity d2" "cpu_codename d3 \<in> me_name ` set cpudb_amd"
    using amd_db.match_selects [of d2] m by (auto simp: id_frame)
  then show "identity d = identity data" "cpu_codename d \<in> me_name ` set cpudb_amd"
    "0 \<le> id_score i \<and> id_score i \<le> 26"
    using id2 d amd_db.match_score_range [OF m] by simp_all
qed

interpretation centaur_rec: recognizer cpuid_identify_centaur cpudb_centaur
proof
  fix raw data internal d i
  assume wf: "wf_raw raw" and run: "cpuid_identify_centaur raw data internal = Some (d, i)"
  have eight: "unat (of_nat MAX_INTELFN4_LEVEL :: u8) \<le> length (intel_fn4 raw)"
    using wf_rawD [OF wf] by simp
  obtain d2 s d3 where m: "match_cpu_codename cpudb_centaur d2 = Some (s, d3)"
    and id2: "identity d2 = identity data" and d: "d = d3" "id_score i = s"
    using run identity_deterministic [OF _ eight]
    by (auto simp: cpuid_identify_centaur_def Let_def id_frame split: if_splits bind_splits)
  have "identity d3 = identity d2" "cpu_codename d3 \<in> me_name ` set cpudb_centaur"
    using centaur_db.match_selects [of d2] m by (auto simp: id_frame)
  then show "identity d = identity data" "cpu_codename d \<in> me_name ` set cpudb_centaur"
    "0 \<le> id_score i \<and> id_score i \<le> 26"
    using id2 d centaur_db.match_score_range [OF m] by simp_all
qed

lemma intel_caches_identity:
  assumes "wf_raw raw" and "intel_caches raw data internal = Some (d, i)"
  shows "identity d = identity data"
proof -
  have "unat (of_nat MAX_INTELFN4_LEVEL :: u8) \<le> length (intel_fn4 raw)"
    using wf_rawD [OF assms(1)] by simp
  from identity_deterministic [OF _ this] assms(2) show ?thesis
    by (auto simp: intel_caches_def id_frame split: if_splits)
qed

interpretation intel_rec: recognizer "cpuid_identify_intel exec" cpudb_intel for exec
proof
  fix raw data internal d i
  assume wf: "wf_raw raw" and run: "cpuid_identify_intel exec raw data internal = Some (d, i)"
  obtain d1 i1 d2 s d4 where c: "intel_caches raw (load_intel_features raw data) internal = Some (d1, i1)"
    and n: "intel_cores raw d1 = Some d2"
    and m: "match_cpu_codename cpudb_intel ((decode_architecture_version_x86 d2)
      \<lparr>purpose := cpuid_identify_purpose_intel raw\<rparr>) = Some (s, d4)"
    and x: "(if flags d4 CPU_FEATURE_SGX then decode_intel_sgx_features exec raw d4 else Some d4) = Some d"
    and i: "id_score i = s"
    using run by (auto simp: cpuid_identify_intel_def Let_def split: bind_splits)
  have "\<exists>x. d = d4\<lparr>x86 := x\<rparr>"
    using x sgx_only_x86 [OF wf, of exec d4]
    by (cases "flags d4 CPU_FEATURE_SGX") (auto intro: exI [of _ "x86 d4"])
  then have "identity d = identity d4" "cpu_codename d = cpu_codename d4"
    by (auto simp: identity_def)
  moreover have "identity d4 = identity d2" "cpu_codename d4 \<in> me_name ` set cpudb_intel"
    using intel_db.match_selects [of "(decode_architecture_version_x86 d2)
        \<lparr>purpose := cpuid_identify_purpose_intel raw\<rparr>"] m by (auto simp: id_frame)
  moreover have "identity d2 = identity data"
    using identity_intel_cores [OF n] intel_caches_identity [OF wf c] by (simp add: id_frame)
  ultimately show "identity d = identity data" "cpu_codename d \<in> me_name ` set cpudb_intel"
    "0 \<le> id_score i \<and> id_score i \<le> 26"
    using i intel_db.match_score_range [OF m] by simp_all
qed

section \<open>Properties\<close>

text \<open>The table of a vendor that has one.\<close>

definition vendor_table :: "cpu_vendor_t \<Rightarrow> match_entry_t list option" where
  "vendor_table v =
     (case v of
        VENDOR_INTEL \<Rightarrow> Some cpudb_intel
      | VENDOR_AMD \<Rightarrow> Some cpudb_amd
      | VENDOR_HYGON \<Rightarrow> Some cpudb_amd
      | VENDOR_CENTAUR \<Rightarrow> Some cpudb_centaur
      | _ \<Rightarrow> None)"

lemma vendor_table_unknown: "vendor_table VENDOR_UNKNOWN = None"
  by (simp add: vendor_table_def)

lemma ident_x86_ok:
  assumes "wf_raw raw" and "ident_x86 os aff raw data internal = Some (r, d, i)"
  shows "case cpuid_basic_identify (os_total_cpus os) raw data of (r0, d0) \<Rightarrow>
    r = r0 \<and> identity d = identity d0 \<and>
    (r = ERR_OK \<longrightarrow> (\<forall>t. vendor_table (vendor d) = Some t \<longrightarrow>
      cpu_codename d \<in> me_name ` set t \<and> 0 \<le> id_score i \<and> id_score i \<le> 26))"
proof -
  obtain r0 d0 where b: "cpuid_basic_identify (os_total_cpus os) raw data = (r0, d0)" by fastforce
  show ?thesis
  proof (cases "r0 = ERR_OK")
    case False
    with assms(2) b show ?thesis by (simp add: ident_x86_def)
  next
    case True
    have v: "identity d = identity d0 \<Longrightarrow> vendor d = vendor d0" by (simp add: identity_def)
    note rec = intel_rec.recognized [OF assms(1), of "os_cpuid os aff" d0 internal r d i]
      amd_rec.recognized [OF assms(1), of d0 internal r d i]
      centaur_rec.recognized [OF assms(1), of d0 internal r d i]
    show ?thesis
      using assms(2) b True v rec
      by (cases "vendor d0") (auto simp: ident_x86_def vendor_table_def)
  qed
qed

text \<open>The inputs on which the recognizer of the vendor runs into undefined behaviour.\<close>

definition x86_undefined :: "cpu_raw_data_t \<Rightarrow> bool" where
  "x86_undefined raw \<longleftrightarrow>
     (case fst (cpuid_vendor_identify (basic_cpuid raw ! 0)) of
        VENDOR_INTEL \<Rightarrow> intel_undefined raw
      | VENDOR_AMD \<Rightarrow> cpuid_identify_purpose_amd raw = None
      | VENDOR_HYGON \<Rightarrow> cpuid_identify_purpose_amd raw = None
      | VENDOR_CENTAUR \<Rightarrow> leaf4_overrun raw
      | _ \<Rightarrow> False)"

lemma intel_none_iff:
  assumes "wf_raw raw" and "length (cache_mask internal) = NUM_CACHE_TYPES"
  shows "cpuid_identify_intel exec raw data internal = None \<longleftrightarrow> intel_undefined raw"
  using cpuid_identify_intel_result [OF assms, of data exec] by (auto split: option.splits)

lemma centaur_none_iff:
  assumes "wf_raw raw" and "length (cache_mask internal) = NUM_CACHE_TYPES"
  shows "cpuid_identify_centaur raw data internal = None \<longleftrightarrow> leaf4_overrun raw"
  using cpuid_identify_centaur_result [OF assms, of data] by (auto split: option.splits)

lemma amd_none_iff:
  assumes "wf_raw raw" and "length (cache_mask internal) = NUM_CACHE_TYPES"
  shows "cpuid_identify_amd raw data internal = None \<longleftrightarrow> cpuid_identify_purpose_amd raw = None"
proof (cases "cpuid_identify_purpose_amd raw")
  case None
  then show ?thesis by (auto simp: cpuid_identify_amd_def Let_def split: bind_splits)
next
  case (Some p)
  then show ?thesis using cpuid_identify_amd_result [OF assms Some, of data] by auto
qed

lemma load_features_common_keeps:
  "architecture (load_features_common raw d) = architecture d"
  "affinity_mask (load_features_common raw d) = affinity_mask d"
  using load_features_common_frame [of raw d] by auto

lemma basic_identify_frame:
  "architecture (snd (cpuid_basic_identify n raw d)) = architecture d"
  "affinity_mask (snd (cpuid_basic_identify n raw d)) = affinity_mask d"
  by (simp_all add: cpuid_basic_identify_def decode_signature_def load_features_common_keeps Let_def
      split: prod.split)

lemma ident_x86_none_iff:
  assumes "wf_raw raw" and "length (cache_mask internal) = NUM_CACHE_TYPES"
  shows "ident_x86 os aff raw data internal = None \<longleftrightarrow> x86_undefined raw"
proof (cases "fst (cpuid_vendor_identify (basic_cpuid raw ! 0)) = VENDOR_UNKNOWN")
  case True
  then show ?thesis by (simp add: ident_x86_def basic_identify_unknown x86_undefined_def)
next
  case False
  obtain d where d: "cpuid_basic_identify (os_total_cpus os) raw data = (ERR_OK, d)"
    and v: "vendor d = fst (cpuid_vendor_identify (basic_cpuid raw ! 0))"
    by (rule basic_identify_known [OF False])
  show ?thesis
    using d intel_none_iff [OF assms] amd_none_iff [OF assms] centaur_none_iff [OF assms]
    by (cases "vendor d") (simp_all add: ident_x86_def x86_undefined_def v [symmetric])
qed

text \<open>
  C2: identifying an x86 processor from well-formed raw data runs into undefined behaviour exactly
  when the recognizer of its vendor does. Otherwise it fails, with \<^verbatim>\<open>ERR_CPU_UNKN\<close>, exactly when
  the vendor is unknown, and reports the vendor, an empty affinity mask, the number of CPUs of
  the system and, for a vendor with a table, a codename of that table.
\<close>

theorem cpu_identify_x86:
  assumes "wf_raw raw" and "cpuid_architecture_identify raw = ARCHITECTURE_X86"
  defines "v \<equiv> fst (cpuid_vendor_identify (basic_cpuid raw ! 0))"
  shows "case cpu_identify os (Some raw) data th of
      None \<Rightarrow> x86_undefined raw
    | Some (r, d, th') \<Rightarrow> \<not> x86_undefined raw \<and> th_errno th' = r \<and>
        r = (if v = VENDOR_UNKNOWN then ERR_CPU_UNKN else ERR_OK) \<and>
        architecture d = ARCHITECTURE_X86 \<and> vendor d = v \<and> cpus_of (affinity_mask d) = {} \<and>
        (v = VENDOR_UNKNOWN \<or> total_logical_cpus d = os_total_cpus os) \<and>
        (case vendor_table v of None \<Rightarrow> True | Some t \<Rightarrow> cpu_codename d \<in> me_name ` set t)"
proof -
  define d0 where "d0 = cpu_id_t_constructor\<lparr>architecture := ARCHITECTURE_X86\<rparr>"
  obtain r1 d1 where b: "cpuid_basic_identify (os_total_cpus os) raw d0 = (r1, d1)" by fastforce
  have r1: "r1 = (if v = VENDOR_UNKNOWN then ERR_CPU_UNKN else ERR_OK)" and v1: "vendor d1 = v"
    and t1: "v = VENDOR_UNKNOWN \<or> total_logical_cpus d1 = os_total_cpus os"
    using basic_identify_unknown [of raw "os_total_cpus os" d0]
      basic_identify_known [of raw "os_total_cpus os" d0] b
    by (cases "v = VENDOR_UNKNOWN"; auto simp: v_def)+
  have a1: "architecture d1 = ARCHITECTURE_X86" "affinity_mask d1 = init_affinity_mask"
    using basic_identify_frame [of "os_total_cpus os" raw d0] b
    by (simp_all add: d0_def cpu_id_t_constructor_def)
  have run: "cpu_identify os (Some raw) data th =
      map_option (\<lambda>(r, d, i). (r, d, th\<lparr>th_errno := r\<rparr>)) (ident_x86 os (th_affinity th) raw d0 throwaway)"
    using assms(2)
    by (cases "ident_x86 os (th_affinity th) raw d0 throwaway")
      (auto simp: cpu_identify_def cpu_ident_internal_def d0_def throwaway_def Let_def)
  have len: "length (cache_mask throwaway) = NUM_CACHE_TYPES" by (simp add: throwaway_def)
  show ?thesis
  proof (cases "ident_x86 os (th_affinity th) raw d0 throwaway")
    case None
    then show ?thesis using ident_x86_none_iff [OF assms(1) len, of os "th_affinity th" d0] by (simp add: run)
  next
    case (Some p)
    obtain r d i where p: "p = (r, d, i)" by (cases p)
    have ok: "r = r1" "identity d = identity d1"
      "r = ERR_OK \<longrightarrow> (\<forall>t. vendor_table (vendor d) = Some t \<longrightarrow> cpu_codename d \<in> me_name ` set t)"
      using ident_x86_ok [OF assms(1) Some [unfolded p]] b by auto
    have defined: "\<not> x86_undefined raw" using ident_x86_none_iff [OF assms(1) len, of os "th_affinity th" d0] Some by simp
    have "architecture d = ARCHITECTURE_X86" "vendor d = v" "affinity_mask d = init_affinity_mask"
      "total_logical_cpus d = total_logical_cpus d1"
      using ok(2) a1 v1 by (simp_all add: identity_def)
    moreover have "case vendor_table v of None \<Rightarrow> True | Some t \<Rightarrow> cpu_codename d \<in> me_name ` set t"
      using ok(1,3) r1 \<open>vendor d = v\<close>
      by (cases "v = VENDOR_UNKNOWN") (auto simp: vendor_table_unknown split: option.splits)
    ultimately show ?thesis
      using Some ok(1) r1 t1 defined by (auto simp: run p)
  qed
qed

text \<open>A processor that tells only its vendor.\<close>

definition amd_raw :: cpu_raw_data_t where
  "amd_raw = raw_data_t_constructor\<lparr>basic_cpuid := (replicate 32 regs_zero)
     [0 := \<lparr>EAX = 0, EBX = 0x68747541, ECX = 0x444d4163, EDX = 0x69746e65\<rparr>]\<rparr>"

lemma amd_raw_facts:
  "wf_raw amd_raw" "cpuid_architecture_identify amd_raw = ARCHITECTURE_X86"
  "fst (cpuid_vendor_identify (basic_cpuid amd_raw ! 0)) = VENDOR_AMD"
  "cpuid_identify_purpose_amd amd_raw = Some PURPOSE_GENERAL"
  using wf_raw_data_t_constructor vendor_AuthenticAMD
  by (simp_all add: amd_raw_def wf_raw_def cpuid_architecture_identify_def
      cpuid_identify_purpose_amd_def raw_data_t_constructor_def)

theorem cpu_identify_x86_witness:
  "\<exists>d th. cpu_identify sample_os (Some amd_raw) cpu_id_t_constructor
      \<lparr>th_affinity = 0, th_saved = 0, th_errno = ERR_OK\<rparr> = Some (ERR_OK, d, th) \<and>
    vendor d = VENDOR_AMD \<and> cpu_codename d \<in> me_name ` set cpudb_amd"
proof -
  have "\<not> x86_undefined amd_raw" by (simp add: x86_undefined_def amd_raw_facts)
  then show ?thesis
    using cpu_identify_x86 [OF amd_raw_facts(1,2), of sample_os cpu_id_t_constructor
        "\<lparr>th_affinity = 0, th_saved = 0, th_errno = ERR_OK\<rparr>"]
    by (auto simp: amd_raw_facts vendor_table_def split: option.splits)
qed

end
