(* ===== verification/System_Identify.thy ===== *)
theory System_Identify
  imports Identify Topology
begin

text \<open>
  Identification of all processors of a system (\<^verbatim>\<open>cpu_identify_all\<close> of \<^verbatim>\<open>cpuid_main.c\<close>): the loop over
  the raw data, which groups the logical CPUs by purpose and package into types and counts their
  cores and caches, and the loop over the types that stores the counters.
\<close>

section \<open>Finding the type\<close>

text \<open>\<^verbatim>\<open>cpuid_find_index_system_id\<close>: the index of the first type that fits, or -1.\<close>

definition cpuid_find_index_system_id ::
    "system_id_t \<Rightarrow> cpu_purpose_t \<Rightarrow> internal_type_info_array_t \<Rightarrow> u32 \<Rightarrow> bool \<Rightarrow> int" where
  "cpuid_find_index_system_id system wanted types pkg is_topology_supported =
     (case List.find
         (if is_topology_supported
          then (\<lambda>i. purpose (cpu_types system ! i) = wanted \<and> ti_package_id (ti_data types ! i) = pkg)
          else (\<lambda>i. purpose (cpu_types system ! i) = wanted))
         [0..<unat (num_cpu_types system)] of
        Some i \<Rightarrow> int i
      | None \<Rightarrow> -1)"

section \<open>The loop over the processors\<close>

text \<open>The local variables of the loop that outlive an iteration, the system, and the thread.\<close>

record 'm scan =
  sc_system :: system_id_t
  sc_types :: internal_type_info_array_t
  sc_caches :: internal_cache_instances_t
  sc_supported :: bool
  sc_package :: u32
  sc_thread :: "'m thread"

text \<open>Topology of the processor: needed with affinity, and only until it fails once.\<close>

definition scan_topology ::
    "bool \<Rightarrow> logical_cpu_t \<Rightarrow> cpu_raw_data_t \<Rightarrow> 'm scan \<Rightarrow> ('m scan \<times> internal_topology_t) option" where
  "scan_topology affinity cpu raw st =
     (if affinity \<and> sc_supported st then do {
        (ok, topology, errno) \<leftarrow> cpu_ident_id cpu raw (th_errno (sc_thread st));
        Some (st\<lparr>sc_supported := ok,
            sc_package := (if ok then package_id topology else sc_package st),
            sc_thread := (sc_thread st)\<lparr>th_errno := errno\<rparr>\<rparr>, topology)
      } else Some (st, topology_t_constructor cpu))"

text \<open>
  A new type at index \<open>n\<close>. The index is past the arrays when one of them could not grow, or when
  the eight bits of their counters are used up.
\<close>

definition scan_new_type ::
    "'m os \<Rightarrow> (nat \<Rightarrow> bool) \<Rightarrow> bool \<Rightarrow> cpu_raw_data_t \<Rightarrow> cpu_purpose_t \<Rightarrow> 'm scan \<Rightarrow>
      (cpu_error_t \<times> 'm scan) option" where
  "scan_new_type os alloc affinity raw p st =
     (let n = unat (num_cpu_types (sc_system st));
        (system, errno) = cpuid_grow_system_id alloc (num_cpu_types (sc_system st) + 1) (sc_system st)
          (th_errno (sc_thread st));
        (types, errno) = cpuid_grow_type_info alloc (ti_num (sc_types st) + 1) (sc_types st) errno
      in if length (cpu_types system) \<le> n \<or> length (ti_data types) \<le> n then None
         else do {
           (r, data, internal, th) \<leftarrow> cpu_ident_internal os (Some raw) (cpu_types system ! n)
             (ti_id_info (ti_data types ! n)) ((sc_thread st)\<lparr>th_errno := errno\<rparr>);
           let info = (ti_data types ! n)\<lparr>ti_id_info := internal\<rparr>;
           if r \<noteq> ERR_OK then
             Some (r, st\<lparr>sc_system := system\<lparr>cpu_types := (cpu_types system)[n := data]\<rparr>,
               sc_types := types\<lparr>ti_data := (ti_data types)[n := info]\<rparr>, sc_thread := th\<rparr>)
           else
             let info = info\<lparr>ti_purpose := p\<rparr>;
               info = (if sc_supported st then info\<lparr>ti_package_id := sc_package st\<rparr> else info);
               data = (if affinity then data\<lparr>num_logical_cpus := 0\<rparr> else data)
             in Some (ERR_OK, st\<lparr>sc_system := system\<lparr>cpu_types := (cpu_types system)[n := data]\<rparr>,
               sc_types := types\<lparr>ti_data := (ti_data types)[n := info]\<rparr>, sc_thread := th\<rparr>)
         })"

text \<open>The counters of the type at index \<open>n\<close>.\<close>

definition scan_count ::
    "bool \<Rightarrow> logical_cpu_t \<Rightarrow> internal_topology_t \<Rightarrow> nat \<Rightarrow> 'm scan \<Rightarrow> 'm scan option" where
  "scan_count affinity cpu topology n st =
     (if \<not> affinity then Some st
      else
        let data = cpu_types (sc_system st) ! n;
          data = data\<lparr>affinity_mask := set_affinity_mask_bit cpu (affinity_mask data),
            num_logical_cpus := num_logical_cpus data + 1\<rparr>;
          st = st\<lparr>sc_system := (sc_system st)\<lparr>cpu_types := (cpu_types (sc_system st))[n := data]\<rparr>\<rparr>;
          info = ti_data (sc_types st) ! n
        in if \<not> sc_supported st then Some st
           else do {
             cores \<leftarrow> update_core_instances (ti_core_instances info) topology;
             (caches, topology) \<leftarrow>
               update_cache_instances (ti_cache_instances info) topology (ti_id_info info);
             (all, topology) \<leftarrow> update_cache_instances (sc_caches st) topology (ti_id_info info);
             let info = info\<lparr>ti_core_instances := cores, ti_cache_instances := caches\<rparr>;
             Some (st\<lparr>sc_types := (sc_types st)\<lparr>ti_data := (ti_data (sc_types st))[n := info]\<rparr>,
               sc_caches := all\<rparr>)
           })"

definition scan_cpu ::
    "'m os \<Rightarrow> (nat \<Rightarrow> bool) \<Rightarrow> bool \<Rightarrow> logical_cpu_t \<Rightarrow> cpu_raw_data_t \<Rightarrow> 'm scan \<Rightarrow>
      (cpu_error_t \<times> 'm scan) option" where
  "scan_cpu os alloc affinity cpu raw st = do {
     p \<leftarrow> cpu_ident_purpose raw;
     (st, topology) \<leftarrow> scan_topology affinity cpu raw st;
     let i = cpuid_find_index_system_id (sc_system st) p (sc_types st) (sc_package st) (sc_supported st);
     let n = (if i < 0 then unat (num_cpu_types (sc_system st)) else nat i);
     (r, st) \<leftarrow> (if i < 0 then scan_new_type os alloc affinity raw p st else Some (ERR_OK, st));
     if r \<noteq> ERR_OK then Some (r, st)
     else do { st \<leftarrow> scan_count affinity cpu topology n st; Some (ERR_OK, st) }
   }"

text \<open>An element of the raw array that does not exist is \<^const>\<open>None\<close>.\<close>

definition raw_slots :: "cpu_raw_data_array_t \<Rightarrow> cpu_raw_data_t option list" where
  "raw_slots a = map (\<lambda>i. if i < length (raw_items a) then Some (raw_items a ! i) else None)
     [0..<unat (num_raw a)]"

fun scan_loop ::
    "'m os \<Rightarrow> (nat \<Rightarrow> bool) \<Rightarrow> bool \<Rightarrow> logical_cpu_t \<Rightarrow> cpu_raw_data_t option list \<Rightarrow>
      'm scan \<Rightarrow> (cpu_error_t \<times> 'm scan) option" where
  "scan_loop os alloc affinity cpu [] st = Some (ERR_OK, st)"
| "scan_loop os alloc affinity cpu (raw_opt # slots) st = do {
     raw \<leftarrow> raw_opt;
     (r, st) \<leftarrow> scan_cpu os alloc affinity cpu raw st;
     if r \<noteq> ERR_OK then Some (r, st) else scan_loop os alloc affinity (cpu + 1) slots st
   }"

section \<open>The loop over the types\<close>

text \<open>
  Without topology the cores are the logical CPUs divided by \<^verbatim>\<open>smt_divisor\<close>, an exact quotient held
  in a double; a type with no CPU would divide zero by zero.
\<close>

definition smt_cores :: "int \<Rightarrow> int \<Rightarrow> int option" where
  "smt_cores logical cores =
     (if cores > 0 \<and> logical mod cores = 0 then
        (if logical div cores = 0 then None else Some (logical div (logical div cores)))
      else Some logical)"

definition type_counters :: "bool \<Rightarrow> bool \<Rightarrow> internal_type_info_t \<Rightarrow> cpu_id_t \<Rightarrow> cpu_id_t option" where
  "type_counters affinity supported info data =
     (if \<not> affinity then Some data
      else if supported then
        let n = \<lambda>level. int (unat (cache_counts (ti_cache_instances info) ! level)) in
        Some (data\<lparr>num_cores := int (unat (core_count (ti_core_instances info))),
          l1_instruction_instances := n 0, l1_data_instances := n 1, l2_instances := n 2,
          l3_instances := n 3, l4_instances := n 4\<rparr>)
      else map_option (\<lambda>c. data\<lparr>num_cores := c\<rparr>) (smt_cores (num_logical_cpus data) (num_cores data)))"

definition finish_type ::
    "bool \<Rightarrow> bool \<Rightarrow> nat \<Rightarrow> internal_type_info_t \<Rightarrow> cpu_id_t \<Rightarrow> cpu_id_t option" where
  "finish_type affinity supported ncpus info data =
     map_option (\<lambda>data. data\<lparr>total_logical_cpus := int ncpus\<rparr>) (type_counters affinity supported info data)"

fun finish_types ::
    "bool \<Rightarrow> bool \<Rightarrow> nat \<Rightarrow> internal_type_info_t list \<Rightarrow> cpu_id_t list \<Rightarrow> cpu_id_t list option" where
  "finish_types affinity supported ncpus infos [] = Some []"
| "finish_types affinity supported ncpus infos (d # ds) =
     (case infos of
        [] \<Rightarrow> None
      | info # infos \<Rightarrow> do {
          d \<leftarrow> finish_type affinity supported ncpus info d;
          ds \<leftarrow> finish_types affinity supported ncpus infos ds;
          Some (d # ds)
        })"

definition scan_start :: "'m thread \<Rightarrow> 'm scan" where
  "scan_start th = \<lparr>sc_system = system_id_t_constructor, sc_types = type_info_array_t_constructor,
     sc_caches = cache_instances_t_constructor, sc_supported = True, sc_package = 0, sc_thread = th\<rparr>"

definition finish_system :: "bool \<Rightarrow> nat \<Rightarrow> 'm scan \<Rightarrow> system_id_t option" where
  "finish_system affinity ncpus st = do {
     ds \<leftarrow> finish_types affinity (sc_supported st) ncpus (ti_data (sc_types st)) (cpu_types (sc_system st));
     let system = (sc_system st)\<lparr>cpu_types := ds\<rparr>;
     let n = (\<lambda>level. int (unat (cache_counts (sc_caches st) ! level)));
     Some (if sc_supported st then
         system\<lparr>l1_instruction_total_instances := n 0, l1_data_total_instances := n 1,
           l2_total_instances := n 2, l3_total_instances := n 3, l4_total_instances := n 4\<rparr>
       else system)
   }"

definition cpu_identify_all ::
    "'m os \<Rightarrow> (nat \<Rightarrow> bool) \<Rightarrow> cpu_raw_data_array_t option \<Rightarrow> system_id_t option \<Rightarrow>
      'm thread \<Rightarrow> (cpu_error_t \<times> system_id_t option \<times> 'm thread) option" where
  "cpu_identify_all os alloc raw_array system th =
     (case system of
        None \<Rightarrow> Some (ERR_HANDLE, None, th\<lparr>th_errno := ERR_HANDLE\<rparr>)
      | Some s \<Rightarrow> do {
          (r, raw_array, th) \<leftarrow> (case raw_array of
              Some a \<Rightarrow> Some (ERR_OK, Some a, th)
            | None \<Rightarrow> cpuid_get_all_raw_data os alloc (Some (cpu_raw_data_array_t_constructor True)) th);
          if r \<noteq> ERR_OK then Some (r, Some s, th)
          else do {
            a \<leftarrow> raw_array;
            (r, st) \<leftarrow> scan_loop os alloc (with_affinity a) 0 (raw_slots a) (scan_start th);
            if r \<noteq> ERR_OK then Some (r, Some (sc_system st), sc_thread st)
            else do {
              s \<leftarrow> finish_system (with_affinity a) (unat (num_raw a)) st;
              Some (ERR_OK, Some s, (sc_thread st)\<lparr>th_errno := ERR_OK\<rparr>)
            }
          }
        })"

section \<open>The partition of the processors\<close>

text \<open>
  What the loop keeps: the types' affinity masks are disjoint, together they hold exactly the first
  \<open>k\<close> logical CPUs, and each type counts the CPUs of its mask.
\<close>

definition cpus_at :: "cpu_id_t list \<Rightarrow> nat \<Rightarrow> logical_cpu_t set" where
  "cpus_at ds i = cpus_of (affinity_mask (ds ! i))"

definition covers :: "nat \<Rightarrow> cpu_id_t list \<Rightarrow> bool" where
  "covers k ds \<longleftrightarrow>
     (\<forall>i<length ds. wf_mask (affinity_mask (ds ! i)) \<and>
        num_logical_cpus (ds ! i) = int (card (cpus_at ds i))) \<and>
     (\<forall>c. (\<exists>i<length ds. c \<in> cpus_at ds i) \<longleftrightarrow> unat c < k) \<and>
     (\<forall>i<length ds. \<forall>j<length ds. i \<noteq> j \<longrightarrow> cpus_at ds i \<inter> cpus_at ds j = {})"

lemma covers_start: "covers 0 []"
  by (simp add: covers_def)

lemma covers_append:
  assumes "covers k ds" and "affinity_mask d = init_affinity_mask" and "num_logical_cpus d = 0"
  shows "covers k (ds @ [d])"
proof -
  have at: "cpus_at (ds @ [d]) i = (if i < length ds then cpus_at ds i else {})" if "i \<le> length ds" for i
    using that assms(2) by (auto simp: cpus_at_def nth_append)
  have "wf_mask (affinity_mask ((ds @ [d]) ! i)) \<and>
      num_logical_cpus ((ds @ [d]) ! i) = int (card (cpus_at (ds @ [d]) i))" if "i \<le> length ds" for i
    using assms at [OF that] that by (cases "i < length ds") (simp_all add: covers_def nth_append)
  moreover have "(\<exists>i<length (ds @ [d]). c \<in> cpus_at (ds @ [d]) i) \<longleftrightarrow> unat c < k" for c
  proof -
    have "(\<exists>i<length (ds @ [d]). c \<in> cpus_at (ds @ [d]) i) \<longleftrightarrow>
        (\<exists>i<length ds. c \<in> cpus_at (ds @ [d]) i) \<or> c \<in> cpus_at (ds @ [d]) (length ds)"
      by (auto simp: less_Suc_eq)
    also have "\<dots> \<longleftrightarrow> (\<exists>i<length ds. c \<in> cpus_at ds i)"
      using at by (auto intro!: ex_cong1)
    finally show ?thesis using assms(1) by (simp add: covers_def)
  qed
  moreover have "cpus_at (ds @ [d]) i \<inter> cpus_at (ds @ [d]) j = {}"
    if "i \<le> length ds" "j \<le> length ds" "i \<noteq> j" for i j
    using assms(1) at that by (simp add: covers_def)
  ultimately show ?thesis by (simp add: covers_def less_Suc_eq_le)
qed

lemma covers_count:
  assumes cov: "covers k ds" and n: "n < length ds" and k: "unat cpu = k"
  defines "d \<equiv> ds ! n"
  shows "covers (Suc k) (ds[n := d\<lparr>affinity_mask := set_affinity_mask_bit cpu (affinity_mask d),
    num_logical_cpus := num_logical_cpus d + 1\<rparr>])"
    (is "covers _ ?ds")
proof -
  have wf: "wf_mask (affinity_mask (ds ! n))" using cov n by (simp add: covers_def)
  have fresh: "cpu \<notin> cpus_at ds i" if "i < length ds" for i
    using cov k that by (auto simp: covers_def)
  have at: "cpus_at ?ds i = (if i = n then insert cpu (cpus_at ds n) else cpus_at ds i)"
    if "i < length ds" for i
    using wf n that by (auto simp: cpus_at_def d_def nth_list_update)
  have "finite (cpus_at ds n)" by simp
  then have card: "card (insert cpu (cpus_at ds n)) = Suc (card (cpus_at ds n))"
    using fresh [OF n] by simp
  have "wf_mask (affinity_mask (?ds ! i)) \<and> num_logical_cpus (?ds ! i) = int (card (cpus_at ?ds i))"
    if "i < length ds" for i
    using cov n that at [OF that] card by (auto simp: covers_def d_def nth_list_update)
  moreover have "(\<exists>i<length ?ds. c \<in> cpus_at ?ds i) \<longleftrightarrow> unat c < Suc k" for c
  proof -
    have "(\<exists>i<length ds. c \<in> cpus_at ?ds i) \<longleftrightarrow> c = cpu \<or> (\<exists>i<length ds. c \<in> cpus_at ds i)"
      (is "?l \<longleftrightarrow> ?r")
    proof
      assume ?l
      then obtain i where "i < length ds" "c \<in> cpus_at ?ds i" by blast
      with at [of i] show ?r by (cases "i = n") auto
    next
      assume ?r
      then show ?l
      proof
        assume "c = cpu"
        then have "c \<in> cpus_at ?ds n" using at [OF n] by simp
        then show ?l using n by blast
      next
        assume "\<exists>i<length ds. c \<in> cpus_at ds i"
        then obtain i where i: "i < length ds" "c \<in> cpus_at ds i" by blast
        then have "c \<in> cpus_at ?ds i" using at [OF i(1)] by (cases "i = n") auto
        then show ?l using i(1) by blast
      qed
    qed
    moreover have "unat c < Suc k \<longleftrightarrow> c = cpu \<or> unat c < k" using k by (auto simp: less_Suc_eq word_unat_eq_iff)
    ultimately show ?thesis using cov by (simp add: covers_def)
  qed
  moreover have "cpus_at ?ds i \<inter> cpus_at ?ds j = {}"
    if "i < length ds" "j < length ds" "i \<noteq> j" for i j
  proof -
    have "cpus_at ds i \<inter> cpus_at ds j = {}" using cov that by (simp add: covers_def)
    then show ?thesis
      using fresh [OF that(1)] fresh [OF that(2)] that(3)
      unfolding at [OF that(1)] at [OF that(2)] by (cases "i = n"; cases "j = n") auto
  qed
  ultimately show ?thesis by (simp add: covers_def)
qed

text \<open>The counters of the types add up to the number of CPUs.\<close>

lemma covers_sum:
  assumes "covers k ds" and "k \<le> 65536"
  shows "(\<Sum>d\<leftarrow>ds. num_logical_cpus d) = int k"
proof -
  have fin: "finite (cpus_at ds i)" for i by simp
  have "(\<Sum>d\<leftarrow>ds. num_logical_cpus d) = (\<Sum>i<length ds. num_logical_cpus (ds ! i))"
    by (simp add: sum_list_sum_nth atLeast0LessThan)
  also have "\<dots> = (\<Sum>i<length ds. int (card (cpus_at ds i)))"
    using assms(1) by (intro sum.cong) (simp_all add: covers_def)
  also have "\<dots> = int (card (\<Union>i<length ds. cpus_at ds i))"
    using assms(1) by (subst card_UN_disjoint) (auto simp: covers_def)
  also have "(\<Union>i<length ds. cpus_at ds i) = {c. unat c < k}"
    using assms(1) by (auto simp: covers_def)
  also have "{c :: logical_cpu_t. unat c < k} = of_nat ` {..<k}"
  proof
    show "{c :: logical_cpu_t. unat c < k} \<subseteq> of_nat ` {..<k}"
    proof
      fix c :: logical_cpu_t assume "c \<in> {c. unat c < k}"
      then show "c \<in> of_nat ` {..<k}" by (intro image_eqI [of _ _ "unat c"]) simp_all
    qed
    show "of_nat ` {..<k} \<subseteq> {c :: logical_cpu_t. unat c < k}"
      using assms(2) by (auto simp: unat_of_nat_less)
  qed
  also have "card (of_nat ` {..<k} :: logical_cpu_t set) = k"
  proof -
    have "inj_on (of_nat :: nat \<Rightarrow> logical_cpu_t) {..<k}"
      by (rule inj_on_inverseI [where g = unat]) (use assms(2) in \<open>auto intro: unat_of_nat_less\<close>)
    then show ?thesis by (simp add: card_image)
  qed
  finally show ?thesis .
qed

section \<open>The invariant of the loop\<close>

definition scan_inv :: "bool \<Rightarrow> nat \<Rightarrow> 'm scan \<Rightarrow> bool" where
  "scan_inv affinity k st \<longleftrightarrow>
     system_array.wf_array (sc_system st) \<and> type_array.wf_array (sc_types st) \<and>
     length (ti_data (sc_types st)) = length (cpu_types (sc_system st)) \<and>
     (affinity \<longrightarrow> covers k (cpu_types (sc_system st)))"

lemma scan_inv_start: "scan_inv affinity 0 (scan_start th)"
  by (simp add: scan_inv_def scan_start_def system_array.wf_array_def type_array.wf_array_def
      system_id_t_constructor_def type_info_array_t_constructor_def covers_start)

lemma scan_inv_fields:
  "sc_system st = sc_system st' \<Longrightarrow> sc_types st = sc_types st' \<Longrightarrow>
   scan_inv affinity k st = scan_inv affinity k st'"
  by (simp add: scan_inv_def)

lemma scan_topology_keeps:
  assumes "scan_topology affinity cpu raw st = Some (st', t)"
  shows "sc_system st' = sc_system st" "sc_types st' = sc_types st" "sc_caches st' = sc_caches st"
  using assms by (auto simp: scan_topology_def split: if_splits bind_splits)

lemma find_index_less:
  assumes "0 \<le> cpuid_find_index_system_id system p types pkg b"
  shows "nat (cpuid_find_index_system_id system p types pkg b) < unat (num_cpu_types system)"
  using assms by (auto simp: cpuid_find_index_system_id_def find_Some_iff split: option.splits)

lemma ident_internal_mask:
  assumes "wf_raw raw"
    and "cpu_ident_internal os (Some raw) data internal th = Some (ERR_OK, d, i, th')"
  shows "affinity_mask d = init_affinity_mask"
proof -
  define d0 where "d0 = cpu_id_t_constructor\<lparr>architecture := cpuid_architecture_identify raw\<rparr>"
  have m0: "affinity_mask d0 = init_affinity_mask" by (simp add: d0_def cpu_id_t_constructor_def)
  show ?thesis
  proof (cases "cpuid_architecture_identify raw")
    case ARCHITECTURE_X86
    then obtain i0 where run: "ident_x86 os (th_affinity th) raw d0 i0 = Some (ERR_OK, d, i)"
      using assms(2) by (auto simp: cpu_ident_internal_def Let_def d0_def split: bind_splits)
    obtain d1 where b: "cpuid_basic_identify (os_total_cpus os) raw d0 = (ERR_OK, d1)"
      and "identity d = identity d1"
      using ident_x86_ok [OF assms(1) run] by (auto split: prod.splits)
    moreover have "affinity_mask d1 = init_affinity_mask"
      using basic_identify_frame(2) [of "os_total_cpus os" raw d0] b m0 by simp
    ultimately show ?thesis by (simp add: identity_def)
  next
    case ARCHITECTURE_ARM
    then have "cpuid_identify_arm raw d0 = Some d"
      using assms(2) by (auto simp: cpu_ident_internal_def Let_def d0_def split: bind_splits)
    moreover have "flags d0 = (\<lambda>_. False)" by (simp add: d0_def cpu_id_t_constructor_def)
    ultimately show ?thesis using m0 cpuid_identify_arm_some [of d0 raw] by auto
  next
    case ARCHITECTURE_UNKNOWN
    then show ?thesis using assms(2) by (simp add: cpu_ident_internal_def Let_def)
  qed
qed

lemma scan_new_type_inv:
  assumes inv: "scan_inv affinity k st" and "wf_raw raw"
    and run: "scan_new_type os alloc affinity raw p st = Some (ERR_OK, st')"
  shows "scan_inv affinity k st' \<and>
    length (cpu_types (sc_system st')) = Suc (unat (num_cpu_types (sc_system st)))"
proof -
  define n where "n = unat (num_cpu_types (sc_system st))"
  obtain system e1 where g1: "cpuid_grow_system_id alloc (num_cpu_types (sc_system st) + 1)
      (sc_system st) (th_errno (sc_thread st)) = (system, e1)" by fastforce
  obtain types e2 where g2: "cpuid_grow_type_info alloc (ti_num (sc_types st) + 1) (sc_types st) e1 =
      (types, e2)" by fastforce
  have room: "n < length (cpu_types system)" "n < length (ti_data types)"
    using run by (auto simp: scan_new_type_def g1 g2 n_def Let_def not_le split: if_splits)
  have n: "length (cpu_types (sc_system st)) = n" "length (ti_data (sc_types st)) = n"
    "unat (ti_num (sc_types st)) = n"
    using inv by (simp_all add: scan_inv_def system_array.wf_array_def type_array.wf_array_def n_def)
  have s: "cpu_types system = cpu_types (sc_system st) @ [cpu_id_t_constructor]"
    "system_array.wf_array system"
    using system_array.grow_one_effective [OF _ g1] inv room(1) by (simp_all add: scan_inv_def n_def)
  have t: "ti_data types = ti_data (sc_types st) @ [type_info_fresh]" "type_array.wf_array types"
    using type_array.grow_one_effective [OF _ g2] inv room(2) n by (simp_all add: scan_inv_def)
  obtain data internal th where
    ident: "cpu_ident_internal os (Some raw) (cpu_types system ! n) (ti_id_info (ti_data types ! n))
      ((sc_thread st)\<lparr>th_errno := e2\<rparr>) = Some (ERR_OK, data, internal, th)"
    and st': "sc_system st' = system\<lparr>cpu_types := (cpu_types system)[n :=
        if affinity then data\<lparr>num_logical_cpus := 0\<rparr> else data]\<rparr>"
      "length (ti_data (sc_types st')) = length (ti_data types)" "ti_num (sc_types st') = ti_num types"
    using run room
    by (auto simp: scan_new_type_def g1 g2 n_def Let_def not_le split: if_splits bind_splits prod.splits)
  have mask: "affinity_mask data = init_affinity_mask" by (rule ident_internal_mask [OF assms(2) ident])
  have types': "cpu_types (sc_system st') = cpu_types (sc_system st) @
      [if affinity then data\<lparr>num_logical_cpus := 0\<rparr> else data]"
    using st'(1) s(1) n(1) by (simp add: list_update_append)
  have "affinity \<longrightarrow> covers k (cpu_types (sc_system st'))"
    using inv mask by (auto simp: types' scan_inv_def intro: covers_append)
  then show ?thesis
    using s t st' n types'
    by (auto simp: scan_inv_def system_array.wf_array_def type_array.wf_array_def n_def)
qed

lemma scan_count_inv:
  assumes inv: "scan_inv affinity k st" and n: "n < length (cpu_types (sc_system st))" and k: "unat cpu = k"
    and run: "scan_count affinity cpu topology n st = Some st'"
  shows "scan_inv affinity (Suc k) st'"
proof (cases affinity)
  case False
  with run inv show ?thesis by (simp add: scan_count_def scan_inv_def)
next
  case True
  define d where "d = cpu_types (sc_system st) ! n"
  define ds where "ds = (cpu_types (sc_system st))[n := d\<lparr>
    affinity_mask := set_affinity_mask_bit cpu (affinity_mask d),
    num_logical_cpus := num_logical_cpus d + 1\<rparr>]"
  have "covers k (cpu_types (sc_system st))" using inv True by (simp add: scan_inv_def)
  then have "covers (Suc k) ds" unfolding ds_def d_def by (rule covers_count [OF _ n k])
  moreover have "sc_system st' = (sc_system st)\<lparr>cpu_types := ds\<rparr> \<and>
      ti_num (sc_types st') = ti_num (sc_types st) \<and>
      length (ti_data (sc_types st')) = length (ti_data (sc_types st))"
    using run True
    by (auto simp: scan_count_def Let_def ds_def d_def split: if_splits bind_splits)
  ultimately show ?thesis
    using inv True
    by (simp add: scan_inv_def system_array.wf_array_def type_array.wf_array_def ds_def)
qed

lemma scan_cpu_inv:
  assumes inv: "scan_inv affinity k st" and "wf_raw raw" and k: "unat cpu = k"
    and run: "scan_cpu os alloc affinity cpu raw st = Some (ERR_OK, st')"
  shows "scan_inv affinity (Suc k) st'"
proof -
  obtain p st1 t where topo: "scan_topology affinity cpu raw st = Some (st1, t)"
    and rest: "(let i = cpuid_find_index_system_id (sc_system st1) p (sc_types st1) (sc_package st1)
        (sc_supported st1);
       n = (if i < 0 then unat (num_cpu_types (sc_system st1)) else nat i)
     in do {
       (r, st) \<leftarrow> (if i < 0 then scan_new_type os alloc affinity raw p st1 else Some (ERR_OK, st1));
       if r \<noteq> ERR_OK then Some (r, st)
       else do { st \<leftarrow> scan_count affinity cpu t n st; Some (ERR_OK, st) }
     }) = Some (ERR_OK, st')"
    using run by (auto simp: scan_cpu_def split: bind_splits prod.splits)
  define i where "i = cpuid_find_index_system_id (sc_system st1) p (sc_types st1) (sc_package st1)
    (sc_supported st1)"
  have inv1: "scan_inv affinity k st1"
    using inv scan_topology_keeps(1,2) [OF topo] by (simp add: scan_inv_def)
  show ?thesis
  proof (cases "i < 0")
    case True
    then obtain st2 where new: "scan_new_type os alloc affinity raw p st1 = Some (ERR_OK, st2)"
      and count: "scan_count affinity cpu t (unat (num_cpu_types (sc_system st1))) st2 = Some st'"
      using rest by (auto simp: Let_def i_def [symmetric] split: bind_splits if_splits prod.splits)
    from scan_new_type_inv [OF inv1 assms(2) new] show ?thesis
      by (intro scan_count_inv [OF _ _ k count]) simp_all
  next
    case False
    then have "nat i < unat (num_cpu_types (sc_system st1))"
      unfolding i_def by (intro find_index_less) simp
    then have "nat i < length (cpu_types (sc_system st1))"
      using inv1 by (simp add: scan_inv_def system_array.wf_array_def)
    moreover have "scan_count affinity cpu t (nat i) st1 = Some st'"
      using rest False by (auto simp: Let_def i_def [symmetric] split: bind_splits if_splits)
    ultimately show ?thesis using inv1 k by (intro scan_count_inv)
  qed
qed

lemma scan_loop_inv:
  assumes "\<forall>raw. Some raw \<in> set slots \<longrightarrow> wf_raw raw"
    and "scan_inv affinity (unat cpu) st" and "unat cpu + length slots < 65536"
    and "scan_loop os alloc affinity cpu slots st = Some (ERR_OK, st')"
  shows "scan_inv affinity (unat cpu + length slots) st'"
  using assms
proof (induction slots arbitrary: cpu st)
  case Nil
  then show ?case by simp
next
  case (Cons x slots)
  obtain raw st1 where x: "x = Some raw" and step: "scan_cpu os alloc affinity cpu raw st = Some (ERR_OK, st1)"
    and rest: "scan_loop os alloc affinity (cpu + 1) slots st1 = Some (ERR_OK, st')"
    using Cons.prems(4) by (auto split: bind_splits if_splits prod.splits)
  have next_cpu: "unat (cpu + 1) = Suc (unat cpu)"
    using Cons.prems(3) by (simp add: unat_word_ariths)
  have "scan_inv affinity (unat (cpu + 1)) st1"
    using scan_cpu_inv [OF Cons.prems(2) _ refl step] Cons.prems(1) x by (simp add: next_cpu)
  from Cons.IH [OF _ this _ rest] show ?case
    using Cons.prems(1,3) by (simp add: next_cpu)
qed

section \<open>The result\<close>

lemma type_counters_keep:
  assumes "type_counters affinity supported info d = Some d'"
  shows "affinity_mask d' = affinity_mask d \<and> num_logical_cpus d' = num_logical_cpus d"
proof (cases affinity)
  case False
  with assms show ?thesis by (simp add: type_counters_def)
next
  case aff: True
  show ?thesis
  proof (cases supported)
    case True
    with assms aff have "d' = d\<lparr>num_cores := int (unat (core_count (ti_core_instances info))),
      l1_instruction_instances := int (unat (cache_counts (ti_cache_instances info) ! 0)),
      l1_data_instances := int (unat (cache_counts (ti_cache_instances info) ! 1)),
      l2_instances := int (unat (cache_counts (ti_cache_instances info) ! 2)),
      l3_instances := int (unat (cache_counts (ti_cache_instances info) ! 3)),
      l4_instances := int (unat (cache_counts (ti_cache_instances info) ! 4))\<rparr>"
      by (simp add: type_counters_def Let_def)
    then show ?thesis by simp
  next
    case False
    with assms aff obtain c where "d' = d\<lparr>num_cores := c\<rparr>" by (auto simp: type_counters_def)
    then show ?thesis by simp
  qed
qed

lemma finish_type_keeps:
  assumes "finish_type affinity supported ncpus info d = Some d'"
  shows "affinity_mask d' = affinity_mask d" "num_logical_cpus d' = num_logical_cpus d"
    "total_logical_cpus d' = int ncpus"
proof -
  obtain d1 where t: "type_counters affinity supported info d = Some d1"
    and d': "d' = d1\<lparr>total_logical_cpus := int ncpus\<rparr>"
    using assms by (auto simp: finish_type_def)
  from d' type_counters_keep [OF t]
  show "affinity_mask d' = affinity_mask d" "num_logical_cpus d' = num_logical_cpus d"
    "total_logical_cpus d' = int ncpus" by simp_all
qed

lemma finish_types_keeps:
  assumes "finish_types affinity supported ncpus infos ds = Some ds'"
  shows "length ds' = length ds \<and> map affinity_mask ds' = map affinity_mask ds \<and>
    map num_logical_cpus ds' = map num_logical_cpus ds \<and>
    (\<forall>d \<in> set ds'. total_logical_cpus d = int ncpus)"
  using assms
proof (induction affinity supported ncpus infos ds arbitrary: ds' rule: finish_types.induct)
  case (1 affinity supported ncpus infos)
  then show ?case by simp
next
  case (2 affinity supported ncpus infos d ds)
  obtain info infos' d1 ds1 where infos: "infos = info # infos'"
    and d1: "finish_type affinity supported ncpus info d = Some d1"
    and ds1: "finish_types affinity supported ncpus infos' ds = Some ds1" and ds': "ds' = d1 # ds1"
    using "2.prems" by (cases infos) (auto split: bind_splits)
  from "2.IH" [OF infos d1 ds1] show ?case
    using finish_type_keeps [OF d1] by (simp add: ds')
qed

lemma covers_map_cong:
  assumes "covers k ds" and "length ds' = length ds" and "map affinity_mask ds' = map affinity_mask ds"
    and "map num_logical_cpus ds' = map num_logical_cpus ds"
  shows "covers k ds'"
proof -
  have "affinity_mask (ds' ! i) = affinity_mask (ds ! i)"
    and "num_logical_cpus (ds' ! i) = num_logical_cpus (ds ! i)" if "i < length ds" for i
    using assms(2-4) that by (metis nth_map)+
  with assms(1,2) show ?thesis by (simp add: covers_def cpus_at_def cong: conj_cong)
qed

lemma identify_all_run:
  assumes "cpu_identify_all os alloc (Some a) (Some s0) th = Some (ERR_OK, Some s, th')"
  obtains st where "scan_loop os alloc (with_affinity a) 0 (raw_slots a) (scan_start th) =
      Some (ERR_OK, st)"
    and "finish_system (with_affinity a) (unat (num_raw a)) st = Some s"
  using assms by (auto simp: cpu_identify_all_def split: bind_splits if_splits prod.splits)

lemma finish_system_types:
  assumes "finish_system affinity ncpus st = Some s"
  obtains ds where "finish_types affinity (sc_supported st) ncpus (ti_data (sc_types st))
      (cpu_types (sc_system st)) = Some ds"
    and "cpu_types s = ds" and "num_cpu_types s = num_cpu_types (sc_system st)"
proof -
  obtain ds where ds: "finish_types affinity (sc_supported st) ncpus (ti_data (sc_types st))
      (cpu_types (sc_system st)) = Some ds"
    using assms by (auto simp: finish_system_def split: bind_splits)
  with assms have "cpu_types s = ds" "num_cpu_types s = num_cpu_types (sc_system st)"
    by (cases "sc_supported st"; auto simp: finish_system_def Let_def)+
  with ds show thesis by (rule that)
qed

text \<open>
  C1: when \<^verbatim>\<open>cpu_identify_all\<close> succeeds on raw data read with affinity, the types partition the
  processors: their affinity masks are disjoint and together hold exactly the logical CPUs below
  \<^verbatim>\<open>num_raw\<close>, each type counts the CPUs of its mask, and these counts add up to \<^verbatim>\<open>num_raw\<close>, which
  every type has as its total.
\<close>

theorem cpu_identify_all_partition:
  assumes "with_affinity a" and "\<forall>raw \<in> set (raw_items a). wf_raw raw"
    and "cpu_identify_all os alloc (Some a) (Some s0) th = Some (ERR_OK, Some s, th')"
  shows "covers (unat (num_raw a)) (cpu_types s) \<and>
    (\<Sum>d\<leftarrow>cpu_types s. num_logical_cpus d) = int (unat (num_raw a)) \<and>
    (\<forall>d \<in> set (cpu_types s). total_logical_cpus d = int (unat (num_raw a))) \<and>
    unat (num_cpu_types s) = length (cpu_types s)"
proof -
  obtain st where loop: "scan_loop os alloc (with_affinity a) 0 (raw_slots a) (scan_start th) =
      Some (ERR_OK, st)"
    and fin: "finish_system (with_affinity a) (unat (num_raw a)) st = Some s"
    by (rule identify_all_run [OF assms(3)])
  obtain ds where ds: "finish_types (with_affinity a) (sc_supported st) (unat (num_raw a))
      (ti_data (sc_types st)) (cpu_types (sc_system st)) = Some ds"
    and s: "cpu_types s = ds" "num_cpu_types s = num_cpu_types (sc_system st)"
    by (rule finish_system_types [OF fin])
  have n: "unat (num_raw a) < 65536" using unsigned_less [of "num_raw a"] by simp
  have raws: "\<forall>raw. Some raw \<in> set (raw_slots a) \<longrightarrow> wf_raw raw"
    using assms(2) by (auto simp: raw_slots_def split: if_splits)
  have "scan_inv (with_affinity a) (unat (num_raw a)) st"
    using scan_loop_inv [OF raws _ _ loop] n scan_inv_start [of "with_affinity a" th]
    by (simp add: raw_slots_def)
  then have cov: "covers (unat (num_raw a)) (cpu_types (sc_system st))"
    and len: "unat (num_cpu_types (sc_system st)) = length (cpu_types (sc_system st))"
    using assms(1) by (simp_all add: scan_inv_def system_array.wf_array_def)
  have keep: "length ds = length (cpu_types (sc_system st))"
      "map affinity_mask ds = map affinity_mask (cpu_types (sc_system st))"
      "map num_logical_cpus ds = map num_logical_cpus (cpu_types (sc_system st))"
      "\<forall>d \<in> set ds. total_logical_cpus d = int (unat (num_raw a))"
    using finish_types_keeps [OF ds] by auto
  have "covers (unat (num_raw a)) ds" by (rule covers_map_cong [OF cov keep(1-3)])
  then show ?thesis using covers_sum [of "unat (num_raw a)" ds] n keep len s by simp
qed

text \<open>One processor, of which only the vendor is known.\<close>

definition one_cpu :: cpu_raw_data_array_t where
  "one_cpu = \<lparr>with_affinity = True, num_raw = 1, raw_items = [amd_raw]\<rparr>"

lemma amd_raw_ident:
  "\<exists>d i th'. cpu_ident_internal sample_os (Some amd_raw) d0 i0 th = Some (ERR_OK, d, i, th')"
proof -
  define d1 where "d1 = cpu_id_t_constructor\<lparr>architecture := ARCHITECTURE_X86\<rparr>"
  define i1 where "i1 = i0\<lparr>cache_mask := replicate NUM_CACHE_TYPES 0\<rparr>"
  have "\<not> x86_undefined amd_raw" by (simp add: x86_undefined_def amd_raw_facts)
  then obtain r d i where run: "ident_x86 sample_os (th_affinity th) amd_raw d1 i1 = Some (r, d, i)"
    using ident_x86_none_iff [OF amd_raw_facts(1), of i1 sample_os "th_affinity th" d1]
    by (cases "ident_x86 sample_os (th_affinity th) amd_raw d1 i1") (auto simp: i1_def)
  obtain d2 where "cpuid_basic_identify (os_total_cpus sample_os) amd_raw d1 = (ERR_OK, d2)"
    using basic_identify_known [of amd_raw "os_total_cpus sample_os" d1] amd_raw_facts(3) by auto
  with ident_x86_ok [OF amd_raw_facts(1) run] have "r = ERR_OK" by simp
  with run show ?thesis
    by (simp add: cpu_ident_internal_def Let_def amd_raw_facts(2) d1_def i1_def)
qed

lemma smt_cores_one: "smt_cores 1 c \<noteq> None"
  by (cases "c = 1"; cases "c > 1") (auto simp: smt_cores_def)

text \<open>Without a supported topology, one processor makes one type.\<close>

lemma one_cpu_scan:
  "\<exists>st d. scan_cpu sample_os (\<lambda>_. True) affinity 0 amd_raw (scan_start th) = Some (ERR_OK, st) \<and>
    sc_supported st = (\<not> affinity) \<and> sc_caches st = cache_instances_t_constructor \<and>
    cpu_types (sc_system st) = [d] \<and> length (ti_data (sc_types st)) = 1 \<and>
    (affinity \<longrightarrow> num_logical_cpus d = 1)"
proof -
  have p: "cpu_ident_purpose amd_raw = Some PURPOSE_GENERAL"
    by (simp add: cpu_ident_purpose_def amd_raw_facts)
  have "EAX (basic_cpuid amd_raw ! 0) = 0" by (simp add: amd_raw_def)
  then have id: "cpu_ident_id 0 amd_raw e = Some (False, topology_t_constructor 0, e)" for e
    by (simp add: cpu_ident_id_def cpu_ident_id_x86_def amd_raw_facts Let_def)
  define st0 where "st0 = (scan_start th)\<lparr>sc_supported := \<not> affinity\<rparr>"
  have topo: "scan_topology affinity 0 amd_raw (scan_start th) = Some (st0, topology_t_constructor 0)"
    by (simp add: scan_topology_def id st0_def scan_start_def)
  have idx: "cpuid_find_index_system_id (sc_system st0) p' (sc_types st0) g b = -1" for p' g b
    by (simp add: cpuid_find_index_system_id_def st0_def scan_start_def system_id_t_constructor_def)
  have one: "unat (1 :: u8) = 1" by simp
  have g1: "cpuid_grow_system_id (\<lambda>_. True) 1 system_id_t_constructor e =
      (system_id_t_constructor\<lparr>num_cpu_types := 1, cpu_types := [cpu_id_t_constructor]\<rparr>, e)" for e
    by (simp add: cpuid_grow_system_id_def system_id_t_constructor_def)
  have g2: "cpuid_grow_type_info (\<lambda>_. True) 1 type_info_array_t_constructor e =
      (type_info_array_t_constructor\<lparr>ti_num := 1, ti_data := [type_info_fresh]\<rparr>, e)" for e
    by (simp add: cpuid_grow_type_info_def type_info_array_t_constructor_def)
  obtain d i th' where ident: "cpu_ident_internal sample_os (Some amd_raw) cpu_id_t_constructor
      (ti_id_info type_info_fresh) (th\<lparr>th_errno := th_errno th\<rparr>) = Some (ERR_OK, d, i, th')"
    using amd_raw_ident by blast
  have new: "\<exists>st1. scan_new_type sample_os (\<lambda>_. True) affinity amd_raw PURPOSE_GENERAL st0 =
      Some (ERR_OK, st1) \<and> sc_supported st1 = (\<not> affinity) \<and>
      sc_caches st1 = cache_instances_t_constructor \<and> length (ti_data (sc_types st1)) = 1 \<and>
      cpu_types (sc_system st1) = [if affinity then d\<lparr>num_logical_cpus := 0\<rparr> else d]"
  proof -
    have "num_cpu_types system_id_t_constructor = 0" "ti_num type_info_array_t_constructor = 0"
      by (simp_all add: system_id_t_constructor_def type_info_array_t_constructor_def)
    then show ?thesis
      using ident by (simp add: scan_new_type_def st0_def scan_start_def g1 g2 Let_def)
  qed
  then obtain st1 where st1: "scan_new_type sample_os (\<lambda>_. True) affinity amd_raw PURPOSE_GENERAL st0 =
      Some (ERR_OK, st1)" "sc_supported st1 = (\<not> affinity)"
      "sc_caches st1 = cache_instances_t_constructor" "length (ti_data (sc_types st1)) = 1"
      "cpu_types (sc_system st1) = [if affinity then d\<lparr>num_logical_cpus := 0\<rparr> else d]" by blast
  have n0: "unat (num_cpu_types (sc_system st0)) = 0"
    by (simp add: st0_def scan_start_def system_id_t_constructor_def)
  show ?thesis
    using st1 by (simp add: scan_cpu_def p topo idx n0 Let_def scan_count_def)
qed

lemma one_cpu_identified:
  "\<exists>s th'. cpu_identify_all sample_os (\<lambda>_. True) (Some (one_cpu\<lparr>with_affinity := affinity\<rparr>))
    (Some system_id_t_constructor) th = Some (ERR_OK, Some s, th')"
proof -
  define a where "a = one_cpu\<lparr>with_affinity := affinity\<rparr>"
  have slots: "raw_slots a = [Some amd_raw]" by (simp add: a_def raw_slots_def one_cpu_def)
  obtain st d where st: "scan_cpu sample_os (\<lambda>_. True) affinity 0 amd_raw (scan_start th) = Some (ERR_OK, st)"
    "sc_supported st = (\<not> affinity)" "cpu_types (sc_system st) = [d]" "length (ti_data (sc_types st)) = 1"
    "affinity \<longrightarrow> num_logical_cpus d = 1"
    using one_cpu_scan [of affinity th] by (elim exE conjE) (rule that; assumption)
  obtain info where "ti_data (sc_types st) = [info]" using st(4) by (auto simp: length_Suc_conv)
  moreover have "type_counters affinity (\<not> affinity) info d \<noteq> None"
    using st(5) smt_cores_one [of "num_cores d"] by (auto simp: type_counters_def)
  ultimately obtain s where fin: "finish_system affinity 1 st = Some s"
    using st(2,3) by (auto simp: finish_system_def finish_type_def Let_def)
  have a: "with_affinity a = affinity" "unat (num_raw a) = 1" by (simp_all add: a_def one_cpu_def)
  have loop: "scan_loop sample_os (\<lambda>_. True) affinity 0 [Some amd_raw] (scan_start th) = Some (ERR_OK, st)"
    by (simp add: st(1))
  have "cpu_identify_all sample_os (\<lambda>_. True) (Some a) (Some system_id_t_constructor) th =
      Some (ERR_OK, Some s, (sc_thread st)\<lparr>th_errno := ERR_OK\<rparr>)"
    by (simp add: cpu_identify_all_def slots a loop fin [unfolded One_nat_def] del: scan_loop.simps)
  then show ?thesis unfolding a_def by blast
qed

theorem cpu_identify_all_partition_witness:
  "\<exists>s th. cpu_identify_all sample_os (\<lambda>_. True) (Some one_cpu) (Some system_id_t_constructor)
      \<lparr>th_affinity = 0, th_saved = 0, th_errno = ERR_OK\<rparr> = Some (ERR_OK, Some s, th) \<and>
    (\<Sum>d\<leftarrow>cpu_types s. num_logical_cpus d) = 1"
proof -
  have "one_cpu\<lparr>with_affinity := True\<rparr> = one_cpu" by (simp add: one_cpu_def)
  then obtain s th where run: "cpu_identify_all sample_os (\<lambda>_. True) (Some one_cpu)
      (Some system_id_t_constructor) \<lparr>th_affinity = 0, th_saved = 0, th_errno = ERR_OK\<rparr> =
      Some (ERR_OK, Some s, th)"
    using one_cpu_identified [of True "\<lparr>th_affinity = 0, th_saved = 0, th_errno = ERR_OK\<rparr>"] by auto
  then have "(\<Sum>d\<leftarrow>cpu_types s. num_logical_cpus d) = 1"
    using cpu_identify_all_partition [OF _ _ run] amd_raw_facts(1) by (simp add: one_cpu_def)
  with run show ?thesis by blast
qed

subsection \<open>Without affinity\<close>

lemma scan_cpu_no_affinity:
  assumes "scan_cpu os alloc False cpu raw st = Some (r, st')"
  shows "sc_caches st' = sc_caches st \<and> sc_supported st' = sc_supported st"
  using assms
  by (auto simp: scan_cpu_def scan_topology_def scan_count_def scan_new_type_def Let_def
      split: bind_splits if_splits prod.splits)

lemma scan_loop_no_affinity:
  assumes "scan_loop os alloc False cpu slots st = Some (r, st')"
  shows "sc_caches st' = sc_caches st \<and> sc_supported st' = sc_supported st"
  using assms
proof (induction slots arbitrary: cpu st)
  case Nil
  then show ?case by simp
next
  case (Cons x slots)
  then obtain raw r1 st1 where step: "scan_cpu os alloc False cpu raw st = Some (r1, st1)"
    and rest: "(if r1 \<noteq> ERR_OK then Some (r1, st1)
      else scan_loop os alloc False (cpu + 1) slots st1) = Some (r, st')"
    by (auto split: bind_splits prod.splits)
  note keep = scan_cpu_no_affinity [OF step]
  show ?case
  proof (cases "r1 = ERR_OK")
    case True
    with rest have "scan_loop os alloc False (cpu + 1) slots st1 = Some (r, st')" by simp
    from Cons.IH [OF this] keep show ?thesis by simp
  next
    case False
    with rest keep show ?thesis by simp
  qed
qed

text \<open>
  for raw data read without affinity the topology is never looked at, yet
  \<^verbatim>\<open>is_topology_supported\<close> keeps its initial value: the grand totals of cache instances are then
  reported as 0, not as -1, the value for "unknown" that the constructor stores.
\<close>

theorem cpu_identify_all_no_affinity:
  assumes "\<not> with_affinity a"
    and "cpu_identify_all os alloc (Some a) (Some s0) th = Some (ERR_OK, Some s, th')"
  shows "l1_instruction_total_instances s = 0 \<and> l1_data_total_instances s = 0 \<and>
    l2_total_instances s = 0 \<and> l3_total_instances s = 0 \<and> l4_total_instances s = 0 \<and>
    l3_total_instances system_id_t_constructor = -1"
proof -
  obtain st where loop: "scan_loop os alloc False 0 (raw_slots a) (scan_start th) = Some (ERR_OK, st)"
    and fin: "finish_system False (unat (num_raw a)) st = Some s"
    using identify_all_run [OF assms(2)] assms(1) by auto
  have "sc_supported st" "sc_caches st = cache_instances_t_constructor"
    using scan_loop_no_affinity [OF loop] by (simp_all add: scan_start_def)
  then show ?thesis
    using fin by (auto simp: finish_system_def Let_def cache_instances_t_constructor_def
        system_id_t_constructor_def split: bind_splits)
qed

theorem cpu_identify_all_no_affinity_witness:
  "\<exists>s th. cpu_identify_all sample_os (\<lambda>_. True) (Some (one_cpu\<lparr>with_affinity := False\<rparr>))
      (Some system_id_t_constructor) \<lparr>th_affinity = 0, th_saved = 0, th_errno = ERR_OK\<rparr> =
      Some (ERR_OK, Some s, th) \<and> l3_total_instances s = 0"
proof -
  have "\<not> with_affinity (one_cpu\<lparr>with_affinity := False\<rparr>)" by simp
  then show ?thesis
    using one_cpu_identified [of False "\<lparr>th_affinity = 0, th_saved = 0, th_errno = ERR_OK\<rparr>"]
      cpu_identify_all_no_affinity by blast
qed

end
