(* ===== verification/C_Stdio.thy ===== *)
theory C_Stdio
  imports Prelude "HOL-Library.Sublist"
begin

text \<open>
  The formatted input and output of the C library, as far as \<^verbatim>\<open>cpuid_main.c\<close> uses it: \<^verbatim>\<open>fgets\<close>,
  \<^verbatim>\<open>sscanf\<close> and the conversions \<^verbatim>\<open>%d\<close>, \<^verbatim>\<open>%hi\<close>, \<^verbatim>\<open>%08x\<close> and \<^verbatim>\<open>%016lx\<close> of \<^verbatim>\<open>fprintf\<close>. Where the standard
  leaves the value of a number that does not fit open, the model is the one of glibc: the number is
  read by \<^verbatim>\<open>strtol\<close> or \<^verbatim>\<open>strtoul\<close>, which saturate at 64 bits, and cut to the width of its object.

  The second part has what a reader of a printed text needs: a printed number is read back.
\<close>

abbreviation (input) NL :: char where
  "NL \<equiv> CHR 0x0A"

section \<open>Output\<close>

definition digit_char :: "nat \<Rightarrow> char" where
  "digit_char d = ''0123456789abcdef'' ! d"

text \<open>The last \<open>k\<close> digits of a number.\<close>

fun fixed_digits :: "nat \<Rightarrow> nat \<Rightarrow> nat \<Rightarrow> string" where
  "fixed_digits base 0 n = []"
| "fixed_digits base (Suc k) n = fixed_digits base k (n div base) @ [digit_char (n mod base)]"

fun dec_digits :: "nat \<Rightarrow> string" where
  "dec_digits n = (if n < 10 then [digit_char n] else dec_digits (n div 10) @ [digit_char (n mod 10)])"

declare dec_digits.simps [simp del]

text \<open>\<^verbatim>\<open>%d\<close> and \<^verbatim>\<open>%hi\<close>; \<^verbatim>\<open>%08x\<close> and \<^verbatim>\<open>%016lx\<close>, whose arguments have no more digits.\<close>

definition print_int :: "int \<Rightarrow> string" where
  "print_int i = (if i < 0 then ''-'' else []) @ dec_digits (nat \<bar>i\<bar>)"

definition hex8 :: "u32 \<Rightarrow> string" where
  "hex8 w = fixed_digits 16 8 (unat w)"

definition hex16 :: "u64 \<Rightarrow> string" where
  "hex16 w = fixed_digits 16 16 (unat w)"

section \<open>Input\<close>

subsection \<open>Lines\<close>

text \<open>\<^verbatim>\<open>fgets(line, n + 1, f)\<close>: at most \<open>n\<close> characters, up to a newline and with it.\<close>

fun fgets :: "nat \<Rightarrow> string \<Rightarrow> string \<times> string" where
  "fgets 0 s = ([], s)"
| "fgets (Suc n) [] = ([], [])"
| "fgets (Suc n) (c # s) =
     (if c = NL then ([c], s) else (c # fst (fgets n s), snd (fgets n s)))"

lemma fgets_append: "fst (fgets n s) @ snd (fgets n s) = s"
  by (induction n s rule: fgets.induct) auto

lemma fgets_shorter: "s \<noteq> [] \<Longrightarrow> length (snd (fgets (Suc n) s)) < length s"
  using arg_cong [OF fgets_append [of n "tl s"], of length] by (cases s) auto

text \<open>What the calls of \<^verbatim>\<open>fgets(line, sizeof(line), f)\<close> with \<^verbatim>\<open>char line[100]\<close> deliver, up to the \<^verbatim>\<open>NULL\<close>.\<close>

function file_lines :: "string \<Rightarrow> string list" where
  "file_lines s = (if s = [] then [] else fst (fgets 99 s) # file_lines (snd (fgets 99 s)))"
  by pat_completeness auto
termination
  by (relation "measure length") (use fgets_shorter [of _ 98] in auto)

declare file_lines.simps [simp del]

text \<open>\<^verbatim>\<open>line[strcspn(line, "\n")] = '\0'\<close>, as a C string.\<close>

definition chomp :: "string \<Rightarrow> string" where
  "chomp l = takeWhile (\<lambda>c. c \<noteq> NL \<and> c \<noteq> NUL) l"

subsection \<open>Conversions\<close>

definition digit_val :: "char \<Rightarrow> nat" where
  "digit_val c =
     (let n = of_char c in
      if 48 \<le> n \<and> n \<le> 57 then n - 48
      else if 97 \<le> n \<and> n \<le> 102 then n - 87
      else if 65 \<le> n \<and> n \<le> 70 then n - 55
      else 16)"

definition is_digit :: "nat \<Rightarrow> char \<Rightarrow> bool" where
  "is_digit base c \<longleftrightarrow> digit_val c < base"

definition digits_value :: "nat \<Rightarrow> string \<Rightarrow> nat" where
  "digits_value base ds = foldl (\<lambda>v c. base * v + digit_val c) 0 ds"

definition read_sign :: "string \<Rightarrow> bool \<times> string" where
  "read_sign s =
     (if s \<noteq> [] \<and> hd s = CHR ''-'' then (True, tl s)
      else if s \<noteq> [] \<and> hd s = CHR ''+'' then (False, tl s)
      else (False, s))"

text \<open>
  The number at the start of a string in base 10, 16 or, for 0, in the base its prefix tells:
  sign, absolute value and the rest. A lone \<^verbatim>\<open>0x\<close> is the number 0.
\<close>

definition read_number :: "nat \<Rightarrow> string \<Rightarrow> (bool \<times> nat \<times> string) option" where
  "read_number base s =
     (let (neg, s) = read_sign s in
      if base \<in> {0, 16} \<and> length s \<ge> 2 \<and> s ! 0 = CHR ''0'' \<and> s ! 1 \<in> {CHR ''x'', CHR ''X''} then
        Some (neg, digits_value 16 (takeWhile (is_digit 16) (drop 2 s)), dropWhile (is_digit 16) (drop 2 s))
      else
        let b = (if base = 0 then (if s \<noteq> [] \<and> hd s = CHR ''0'' then 8 else 10) else base);
            ds = takeWhile (is_digit b) s
        in if ds = [] then None else Some (neg, digits_value b ds, dropWhile (is_digit b) s))"

definition c_strtoul :: "bool \<Rightarrow> nat \<Rightarrow> int" where
  "c_strtoul neg v =
     (if v \<ge> 2 ^ 64 then 2 ^ 64 - 1 else if neg then (- int v) mod 2 ^ 64 else int v)"

definition c_strtol :: "bool \<Rightarrow> nat \<Rightarrow> int" where
  "c_strtol neg v = (if neg then max (- (2 ^ 63)) (- int v) else min (2 ^ 63 - 1) (int v))"

text \<open>The conversions: their values are numbers in the range of the object, or strings.\<close>

datatype conversion =
    Dec                   \<comment> \<open>\<^verbatim>\<open>%d\<close>\<close>
  | Base0 nat             \<comment> \<open>\<^verbatim>\<open>%02i\<close>, with its width\<close>
  | UDec nat              \<comment> \<open>\<^verbatim>\<open>%hu\<close>, with the bits of the object\<close>
  | Hex nat               \<comment> \<open>\<^verbatim>\<open>%x\<close>, \<^verbatim>\<open>%lx\<close>\<close>
  | SkipHex               \<comment> \<open>\<^verbatim>\<open>%*x\<close>\<close>
  | Str                   \<comment> \<open>\<^verbatim>\<open>%s\<close>\<close>

datatype scanned = Num int | Chars string

fun convert :: "conversion \<Rightarrow> string \<Rightarrow> (scanned option \<times> string) option" where
  "convert Dec s = map_option
     (\<lambda>(neg, v, r). (Some (Num (signed_take_bit 31 (c_strtol neg v))), r)) (read_number 10 s)"
| "convert (Base0 w) s = map_option
     (\<lambda>(neg, v, r). (Some (Num (signed_take_bit 31 (c_strtol neg v))), r @ drop w s))
     (read_number 0 (take w s))"
| "convert (UDec bits) s = map_option
     (\<lambda>(neg, v, r). (Some (Num (take_bit bits (c_strtoul neg v))), r)) (read_number 10 s)"
| "convert (Hex bits) s = map_option
     (\<lambda>(neg, v, r). (Some (Num (take_bit bits (c_strtoul neg v))), r)) (read_number 16 s)"
| "convert SkipHex s = map_option (\<lambda>(neg, v, r). (None, r)) (read_number 16 s)"
| "convert Str s =
     (let cs = takeWhile (\<lambda>c. \<not> c_isspace c) s
      in if cs = [] then None else Some (Some (Chars cs), dropWhile (\<lambda>c. \<not> c_isspace c) s))"

subsection \<open>Formats\<close>

text \<open>A format is a list of texts and conversions; white space in a text matches any amount of it.\<close>

datatype directive = Text string | Conv conversion

fun match_text :: "string \<Rightarrow> string \<Rightarrow> string option" where
  "match_text [] s = Some s"
| "match_text (c # cs) s =
     (if c_isspace c then match_text cs (dropWhile c_isspace s)
      else case s of [] \<Rightarrow> None | x # xs \<Rightarrow> if x = c then match_text cs xs else None)"

text \<open>The values that \<^verbatim>\<open>sscanf\<close> assigns; it returns their number, or -1 for none at the end of the string.\<close>

fun sscanf :: "directive list \<Rightarrow> string \<Rightarrow> scanned list" where
  "sscanf [] s = []"
| "sscanf (Text t # fs) s = (case match_text t s of None \<Rightarrow> [] | Some r \<Rightarrow> sscanf fs r)"
| "sscanf (Conv c # fs) s =
     (case convert c (dropWhile c_isspace s) of
        None \<Rightarrow> []
      | Some (None, r) \<Rightarrow> sscanf fs r
      | Some (Some v, r) \<Rightarrow> v # sscanf fs r)"

section \<open>Reading back what was printed\<close>

subsection \<open>Digits\<close>

lemma digit_val_char: "d < 16 \<Longrightarrow> digit_val (digit_char d) = d"
proof -
  have "\<forall>d \<in> set [0..<16]. digit_val (digit_char d) = d" by code_simp
  then show "d < 16 \<Longrightarrow> digit_val (digit_char d) = d" by simp
qed

lemma digit_char_plain:
  assumes "d < 16"
  shows "\<not> c_isspace (digit_char d) \<and>
    digit_char d \<notin> {CHR ''-'', CHR ''+'', CHR ''x'', CHR ''X'', CHR '' '', CHR '']'', CHR ''='', NL, NUL}"
proof -
  have "\<forall>d \<in> set [0..<16]. \<not> c_isspace (digit_char d) \<and>
    digit_char d \<notin> {CHR ''-'', CHR ''+'', CHR ''x'', CHR ''X'', CHR '' '', CHR '']'', CHR ''='', NL, NUL}"
    by code_simp
  then show ?thesis using assms by simp
qed

lemma digits_plain:
  assumes "set ds \<subseteq> digit_char ` {..<base}" and "base \<le> 16" and "c \<in> set ds"
  shows "\<not> c_isspace c \<and>
    c \<notin> {CHR ''-'', CHR ''+'', CHR ''x'', CHR ''X'', CHR '' '', CHR '']'', CHR ''='', NL, NUL}"
proof -
  obtain d where "c = digit_char d" "d < base" using assms(1,3) by auto
  then show ?thesis using digit_char_plain [of d] assms(2) by simp
qed

lemma is_digit_char: "d < base \<Longrightarrow> base \<le> 16 \<Longrightarrow> is_digit base (digit_char d)"
  by (simp add: is_digit_def digit_val_char)

lemma length_fixed_digits [simp]: "length (fixed_digits base k n) = k"
  by (induction k arbitrary: n) auto

lemma set_fixed_digits: "0 < base \<Longrightarrow> set (fixed_digits base k n) \<subseteq> digit_char ` {..<base}"
  by (induction k arbitrary: n) auto

lemma length_dec_digits: "n < 10 ^ k \<Longrightarrow> 0 < k \<Longrightarrow> length (dec_digits n) \<le> k"
proof (induction n arbitrary: k rule: dec_digits.induct)
  case (1 n)
  show ?case
  proof (cases "n < 10")
    case True
    with "1.prems" show ?thesis by (simp add: dec_digits.simps [of n])
  next
    case False
    then obtain j where k: "k = Suc j" "0 < j" using "1.prems" by (cases k; cases "k - 1") auto
    then have "n div 10 < 10 ^ j" using "1.prems" by (simp add: less_mult_imp_div_less)
    with "1.IH" [OF False] k False show ?thesis by (simp add: dec_digits.simps [of n])
  qed
qed

lemma set_dec_digits: "set (dec_digits n) \<subseteq> digit_char ` {..<10}"
proof (induction n rule: dec_digits.induct)
  case (1 n)
  then show ?case by (cases "n < 10") (auto simp: dec_digits.simps [of n])
qed

lemma digits_value_snoc: "digits_value base (ds @ [c]) = base * digits_value base ds + digit_val c"
  by (simp add: digits_value_def)

lemma fixed_digits_value:
  assumes "0 < base" and "base \<le> 16"
  shows "digits_value base (fixed_digits base k n) = n mod base ^ k"
proof (induction k arbitrary: n)
  case 0
  then show ?case by (simp add: digits_value_def)
next
  case (Suc k)
  have "n mod base < 16" using assms by (meson mod_less_divisor order_less_le_trans)
  then show ?case
    by (simp add: digits_value_snoc Suc digit_val_char mod_mult2_eq)
qed

lemma dec_digits_value: "digits_value 10 (dec_digits n) = n"
proof (induction n rule: dec_digits.induct)
  case (1 n)
  show ?case
  proof (cases "n < 10")
    case True
    then show ?thesis by (simp add: dec_digits.simps [of n] digits_value_def digit_val_char)
  next
    case False
    then show ?thesis
      using "1.IH" by (simp add: dec_digits.simps [of n] digits_value_snoc digit_val_char)
  qed
qed

lemma dec_digits_not_Nil [simp]: "dec_digits n \<noteq> []"
  by (simp add: dec_digits.simps [of n])

text \<open>What follows a number must not continue it.\<close>

definition number_ends :: "string \<Rightarrow> bool" where
  "number_ends r \<longleftrightarrow> r = [] \<or> \<not> is_digit 16 (hd r)"

lemma number_ends_cases: "number_ends [] \<and> (number_ends (c # r) \<longleftrightarrow> \<not> is_digit 16 c)"
  by (simp add: number_ends_def)

lemma takeWhile_digits:
  assumes "set ds \<subseteq> digit_char ` {..<base}" and "base \<le> 16" and "number_ends r"
  shows "takeWhile (is_digit base) (ds @ r) = ds \<and> dropWhile (is_digit base) (ds @ r) = r"
proof -
  have "\<forall>c \<in> set ds. is_digit base c" using assms(1,2) is_digit_char by auto
  moreover have "\<forall>c. is_digit base c \<longrightarrow> is_digit 16 c" using assms(2) by (auto simp: is_digit_def)
  ultimately show ?thesis
    using assms(3) by (cases r) (auto simp: number_ends_def takeWhile_append dropWhile_append)
qed

lemma read_number_digits:
  assumes ds: "set ds \<subseteq> digit_char ` {..<base}" and "ds \<noteq> []" and "number_ends r"
    and base: "base = 10 \<or> base = 16 \<and> 2 \<le> length ds"
  shows "read_number base (ds @ r) = Some (False, digits_value base ds, r)"
    and "read_number base (CHR ''-'' # ds @ r) = Some (True, digits_value base ds, r)"
proof -
  have "base \<le> 16" using base by auto
  have plain: "c \<noteq> CHR ''-'' \<and> c \<noteq> CHR ''+'' \<and> c \<noteq> CHR ''x'' \<and> c \<noteq> CHR ''X''" if "c \<in> set ds" for c
    using digits_plain [OF ds \<open>base \<le> 16\<close> that] by simp
  have "hd ds \<in> set ds" using assms(2) by simp
  then have sign: "read_sign (ds @ r) = (False, ds @ r)" "read_sign (CHR ''-'' # ds @ r) = (True, ds @ r)"
    using plain [of "hd ds"] assms(2) by (simp_all add: read_sign_def)
  have "(ds @ r) ! 1 \<in> set ds" if "base = 16" using that base by (auto simp: nth_append)
  then have x: "\<not> (base \<in> {0, 16} \<and> length (ds @ r) \<ge> 2 \<and> (ds @ r) ! 0 = CHR ''0'' \<and>
      (ds @ r) ! 1 \<in> {CHR ''x'', CHR ''X''})"
    using base plain by auto
  have "base \<noteq> 0" using base by auto
  then show "read_number base (ds @ r) = Some (False, digits_value base ds, r)"
    and "read_number base (CHR ''-'' # ds @ r) = Some (True, digits_value base ds, r)"
    using takeWhile_digits [OF ds \<open>base \<le> 16\<close> assms(3)] assms(2) x
    by (simp_all only: read_number_def sign Let_def prod.case if_False)
qed

lemma drop_space_digits:
  assumes "set ds \<subseteq> digit_char ` {..<base}" and "ds \<noteq> []" and "base \<le> 16"
  shows "dropWhile c_isspace (ds @ r) = ds @ r"
proof -
  obtain d ds' where ds: "ds = d # ds'" using assms(2) by (cases ds) auto
  then have "\<not> c_isspace d" using digits_plain [OF assms(1,3), of d] by simp
  then show ?thesis by (simp add: ds)
qed

subsection \<open>Numbers\<close>

lemma c_isspace_chars: "c_isspace (CHR '' '')" "\<not> c_isspace (CHR ''-'')"
  by (simp_all add: c_isspace_def)

lemma sscanf_hex8:
  assumes "number_ends r"
  shows "sscanf (Conv (Hex 32) # fs) (hex8 w @ r) = Num (uint w) # sscanf fs r"
    and "sscanf (Conv (Hex 32) # fs) (CHR '' '' # hex8 w @ r) = Num (uint w) # sscanf fs r"
proof -
  have set: "set (hex8 w) \<subseteq> digit_char ` {..<16}" and len: "length (hex8 w) = 8"
    unfolding hex8_def by (rule set_fixed_digits) simp_all
  then have "hex8 w \<noteq> []" by auto
  have less: "unat w < 2 ^ 32" using unsigned_less [of w] by simp
  then have "digits_value 16 (hex8 w) = unat w" by (simp add: hex8_def fixed_digits_value)
  moreover have "take_bit 32 (int (unat w)) = uint w" by (simp add: bintr_uint)
  moreover have "unat w < 2 ^ 64" using less by simp
  ultimately have "convert (Hex 32) (hex8 w @ r) = Some (Some (Num (uint w)), r)"
    using read_number_digits(1) [OF set \<open>hex8 w \<noteq> []\<close> assms] len by (simp add: c_strtoul_def)
  then show "sscanf (Conv (Hex 32) # fs) (hex8 w @ r) = Num (uint w) # sscanf fs r"
    and "sscanf (Conv (Hex 32) # fs) (CHR '' '' # hex8 w @ r) = Num (uint w) # sscanf fs r"
    using drop_space_digits [OF set \<open>hex8 w \<noteq> []\<close>] by (simp_all add: c_isspace_chars del: convert.simps)
qed

lemma sscanf_hex16:
  assumes "number_ends r"
  shows "sscanf (Conv (Hex 64) # fs) (hex16 w @ r) = Num (uint w) # sscanf fs r"
proof -
  have set: "set (hex16 w) \<subseteq> digit_char ` {..<16}" and len: "length (hex16 w) = 16"
    unfolding hex16_def by (rule set_fixed_digits) simp_all
  then have "hex16 w \<noteq> []" by auto
  have less: "unat w < 2 ^ 64" using unsigned_less [of w] by simp
  then have "digits_value 16 (hex16 w) = unat w" by (simp add: hex16_def fixed_digits_value)
  moreover have "take_bit 64 (int (unat w)) = uint w" by (simp add: bintr_uint)
  ultimately have "convert (Hex 64) (hex16 w @ r) = Some (Some (Num (uint w)), r)"
    using read_number_digits(1) [OF set \<open>hex16 w \<noteq> []\<close> assms] len less by (simp add: c_strtoul_def)
  then show ?thesis using drop_space_digits [OF set \<open>hex16 w \<noteq> []\<close>] by (simp del: convert.simps)
qed

lemma sscanf_dec:
  assumes "number_ends r" and "n < 2 ^ 31"
  shows "sscanf (Conv Dec # fs) (dec_digits n @ r) = Num (int n) # sscanf fs r"
proof -
  have "signed_take_bit 31 (int n) = int n"
    using assms(2) by (simp add: signed_take_bit_int_eq_self_iff)
  then have "convert Dec (dec_digits n @ r) = Some (Some (Num (int n)), r)"
    using read_number_digits(1) [OF set_dec_digits dec_digits_not_Nil assms(1)] assms(2)
    by (simp add: c_strtol_def dec_digits_value)
  then show ?thesis
    using drop_space_digits [OF set_dec_digits dec_digits_not_Nil, of n r] by (simp del: convert.simps)
qed

text \<open>A 16-bit number printed as a signed one is read back as an unsigned one.\<close>

lemma sscanf_short:
  fixes w :: u16
  assumes "number_ends r"
  shows "sscanf (Conv (UDec 16) # fs) (print_int (sint w) @ r) = Num (uint w) # sscanf fs r"
proof -
  have range: "- (2 ^ 15) \<le> sint w" "sint w < 2 ^ 15"
    using sint_ge [of w] sint_less [of w] by simp_all
  have take: "take_bit 16 (sint w) = uint w" by (simp add: take_bit_int_def uint_sint)
  show ?thesis
  proof (cases "sint w < 0")
    case True
    have "take_bit 16 (take_bit 64 (sint w)) = uint w"
      by (simp only: take_bit_take_bit) (simp add: take)
    moreover have "- int (nat \<bar>sint w\<bar>) = sint w" using True by simp
    moreover have "nat \<bar>sint w\<bar> < 2 ^ 64" using range True by (simp add: nat_less_iff)
    ultimately have "take_bit 16 (c_strtoul True (nat \<bar>sint w\<bar>)) = uint w"
      by (simp only: c_strtoul_def take_bit_eq_mod if_True not_le [symmetric] if_False)
    then have "convert (UDec 16) (CHR ''-'' # dec_digits (nat \<bar>sint w\<bar>) @ r) = Some (Some (Num (uint w)), r)"
      using read_number_digits(2) [OF set_dec_digits dec_digits_not_Nil assms]
      by (simp add: dec_digits_value)
    then show ?thesis using True by (simp add: print_int_def c_isspace_chars del: convert.simps)
  next
    case False
    then have "int (nat \<bar>sint w\<bar>) = sint w" by simp
    moreover have "nat \<bar>sint w\<bar> < 2 ^ 64" using range False by (simp add: nat_less_iff)
    ultimately have "convert (UDec 16) (dec_digits (nat \<bar>sint w\<bar>) @ r) = Some (Some (Num (uint w)), r)"
      using read_number_digits(1) [OF set_dec_digits dec_digits_not_Nil assms] take False
      by (simp add: c_strtoul_def dec_digits_value)
    then show ?thesis
      using False drop_space_digits [OF set_dec_digits dec_digits_not_Nil, of "nat \<bar>sint w\<bar>" r]
      by (simp add: print_int_def del: convert.simps)
  qed
qed

subsection \<open>Texts and lines\<close>

definition plain_text :: "string \<Rightarrow> bool" where
  "plain_text t \<longleftrightarrow> (\<forall>c \<in> set t. \<not> c_isspace c)"

lemma match_plain: "plain_text t \<Longrightarrow> match_text t s = Some r \<longleftrightarrow> s = t @ r"
  by (induction t s rule: match_text.induct) (auto simp: plain_text_def split: list.splits)

lemma match_plain_append [simp]: "plain_text t \<Longrightarrow> match_text t (t @ s) = Some s"
  by (simp add: match_plain)

lemma match_other:
  assumes "plain_text t" and "\<not> prefix t u" and "\<not> prefix u t"
  shows "match_text t (u @ s) = None"
proof (rule ccontr)
  assume "match_text t (u @ s) \<noteq> None"
  then obtain r where "u @ s = t @ r" using match_plain [OF assms(1)] by blast
  then show False using assms(2,3) by (auto simp: prefix_def append_eq_append_conv2)
qed

text \<open>A text of lines that fit into the buffer is read line by line.\<close>

lemma fgets_line: "NL \<notin> set l \<Longrightarrow> length l < n \<Longrightarrow> fgets n (l @ NL # s) = (l @ [NL], s)"
proof (induction l arbitrary: n)
  case Nil
  then show ?case by (cases n) auto
next
  case (Cons c l)
  then show ?case by (cases n) auto
qed

definition unlines :: "string list \<Rightarrow> string" where
  "unlines ls = concat (map (\<lambda>l. l @ [NL]) ls)"

lemma file_lines_unlines:
  assumes "\<forall>l \<in> set ls. NL \<notin> set l \<and> length l < 99"
  shows "file_lines (unlines ls) = map (\<lambda>l. l @ [NL]) ls"
  using assms
proof (induction ls)
  case Nil
  then show ?case by (simp add: unlines_def file_lines.simps)
next
  case (Cons l ls)
  then show ?case
    using fgets_line [of l 99 "unlines ls"]
    by (simp add: unlines_def file_lines.simps [of "l @ NL # _"])
qed

lemma chomp_line: "NL \<notin> set l \<Longrightarrow> NUL \<notin> set l \<Longrightarrow> chomp (l @ [NL]) = l"
  by (auto simp: chomp_def takeWhile_append)

end
