(* ===== verification/Raw_Dump.thy ===== *)
theory Raw_Dump
  imports C_Stdio Raw_Arrays X86_Common
begin

text \<open>
  Raw dump files (\<^verbatim>\<open>cpuid_main.c\<close>): \<^verbatim>\<open>cpuid_serialize_raw_data_internal\<close> writes the raw data of one
  or all logical CPUs as text, \<^verbatim>\<open>cpuid_deserialize_raw_data_internal\<close> reads such a text back, or a
  report of the program AIDA64.

  The 24 groups of lines of a dump are the values of \<open>dump_field\<close>, in the order in which both
  functions have them. A line that the reader understands is a \<open>dump_store\<close>: a field, an index and a
  value. A file is the string of its characters; \<^const>\<open>None\<close> stands for one that \<^verbatim>\<open>fopen\<close> cannot open.
  \<^verbatim>\<open>VERSION\<close> is set by the build and is a parameter. Undefined behaviour is \<^const>\<open>None\<close>: a store outside
  an array or through a null pointer, a version too long for its buffer.
\<close>

section \<open>The lines of a dump\<close>

datatype x86_table = BASIC_CPUID | EXT_CPUID | INTEL_FN4 | INTEL_FN11 | INTEL_FN12H | INTEL_FN14H
  | AMD_FN8000001DH | AMD_FN80000026H

datatype arm_register = MIDR | MPIDR | REVIDR

datatype arm32_table = AFR | DFR | ISAR | MMFR | PFR

datatype arm64_table = AA64AFR | AA64DFR | AA64FPFR | AA64ISAR | AA64MMFR | AA64PFR | AA64SMFR
  | AA64ZFR

datatype dump_field = X86 x86_table | Arm arm_register | Arm32 arm32_table | Arm64 arm64_table

primrec x86_name :: "x86_table \<Rightarrow> string" where
  "x86_name BASIC_CPUID = ''basic_cpuid''"
| "x86_name EXT_CPUID = ''ext_cpuid''"
| "x86_name INTEL_FN4 = ''intel_fn4''"
| "x86_name INTEL_FN11 = ''intel_fn11''"
| "x86_name INTEL_FN12H = ''intel_fn12h''"
| "x86_name INTEL_FN14H = ''intel_fn14h''"
| "x86_name AMD_FN8000001DH = ''amd_fn8000001dh''"
| "x86_name AMD_FN80000026H = ''amd_fn80000026h''"

primrec x86_size :: "x86_table \<Rightarrow> nat" where
  "x86_size BASIC_CPUID = MAX_CPUID_LEVEL"
| "x86_size EXT_CPUID = MAX_EXT_CPUID_LEVEL"
| "x86_size INTEL_FN4 = MAX_INTELFN4_LEVEL"
| "x86_size INTEL_FN11 = MAX_INTELFN11_LEVEL"
| "x86_size INTEL_FN12H = MAX_INTELFN12H_LEVEL"
| "x86_size INTEL_FN14H = MAX_INTELFN14H_LEVEL"
| "x86_size AMD_FN8000001DH = MAX_AMDFN8000001DH_LEVEL"
| "x86_size AMD_FN80000026H = MAX_AMDFN80000026H_LEVEL"

primrec x86_get :: "x86_table \<Rightarrow> cpu_raw_data_t \<Rightarrow> cpu_regs_t list" where
  "x86_get BASIC_CPUID raw = basic_cpuid raw"
| "x86_get EXT_CPUID raw = ext_cpuid raw"
| "x86_get INTEL_FN4 raw = intel_fn4 raw"
| "x86_get INTEL_FN11 raw = intel_fn11 raw"
| "x86_get INTEL_FN12H raw = intel_fn12h raw"
| "x86_get INTEL_FN14H raw = intel_fn14h raw"
| "x86_get AMD_FN8000001DH raw = amd_fn8000001dh raw"
| "x86_get AMD_FN80000026H raw = amd_fn80000026h raw"

primrec x86_put :: "x86_table \<Rightarrow> cpu_regs_t list \<Rightarrow> cpu_raw_data_t \<Rightarrow> cpu_raw_data_t" where
  "x86_put BASIC_CPUID rs raw = raw\<lparr>basic_cpuid := rs\<rparr>"
| "x86_put EXT_CPUID rs raw = raw\<lparr>ext_cpuid := rs\<rparr>"
| "x86_put INTEL_FN4 rs raw = raw\<lparr>intel_fn4 := rs\<rparr>"
| "x86_put INTEL_FN11 rs raw = raw\<lparr>intel_fn11 := rs\<rparr>"
| "x86_put INTEL_FN12H rs raw = raw\<lparr>intel_fn12h := rs\<rparr>"
| "x86_put INTEL_FN14H rs raw = raw\<lparr>intel_fn14h := rs\<rparr>"
| "x86_put AMD_FN8000001DH rs raw = raw\<lparr>amd_fn8000001dh := rs\<rparr>"
| "x86_put AMD_FN80000026H rs raw = raw\<lparr>amd_fn80000026h := rs\<rparr>"

primrec arm_name :: "arm_register \<Rightarrow> string" where
  "arm_name MIDR = ''arm_midr''"
| "arm_name MPIDR = ''arm_mpidr''"
| "arm_name REVIDR = ''arm_revidr''"

primrec arm_get :: "arm_register \<Rightarrow> cpu_raw_data_t \<Rightarrow> u64" where
  "arm_get MIDR raw = arm_midr raw"
| "arm_get MPIDR raw = arm_mpidr raw"
| "arm_get REVIDR raw = arm_revidr raw"

primrec arm_put :: "arm_register \<Rightarrow> u64 \<Rightarrow> cpu_raw_data_t \<Rightarrow> cpu_raw_data_t" where
  "arm_put MIDR w raw = raw\<lparr>arm_midr := w\<rparr>"
| "arm_put MPIDR w raw = raw\<lparr>arm_mpidr := w\<rparr>"
| "arm_put REVIDR w raw = raw\<lparr>arm_revidr := w\<rparr>"

primrec arm32_name :: "arm32_table \<Rightarrow> string" where
  "arm32_name AFR = ''arm_id_afr''"
| "arm32_name DFR = ''arm_id_dfr''"
| "arm32_name ISAR = ''arm_id_isar''"
| "arm32_name MMFR = ''arm_id_mmfr''"
| "arm32_name PFR = ''arm_id_pfr''"

primrec arm32_get :: "arm32_table \<Rightarrow> cpu_raw_data_t \<Rightarrow> u32 list" where
  "arm32_get AFR raw = arm_id_afr raw"
| "arm32_get DFR raw = arm_id_dfr raw"
| "arm32_get ISAR raw = arm_id_isar raw"
| "arm32_get MMFR raw = arm_id_mmfr raw"
| "arm32_get PFR raw = arm_id_pfr raw"

primrec arm32_put :: "arm32_table \<Rightarrow> u32 list \<Rightarrow> cpu_raw_data_t \<Rightarrow> cpu_raw_data_t" where
  "arm32_put AFR ws raw = raw\<lparr>arm_id_afr := ws\<rparr>"
| "arm32_put DFR ws raw = raw\<lparr>arm_id_dfr := ws\<rparr>"
| "arm32_put ISAR ws raw = raw\<lparr>arm_id_isar := ws\<rparr>"
| "arm32_put MMFR ws raw = raw\<lparr>arm_id_mmfr := ws\<rparr>"
| "arm32_put PFR ws raw = raw\<lparr>arm_id_pfr := ws\<rparr>"

primrec arm64_name :: "arm64_table \<Rightarrow> string" where
  "arm64_name AA64AFR = ''arm_id_aa64afr''"
| "arm64_name AA64DFR = ''arm_id_aa64dfr''"
| "arm64_name AA64FPFR = ''arm_id_aa64fpfr''"
| "arm64_name AA64ISAR = ''arm_id_aa64isar''"
| "arm64_name AA64MMFR = ''arm_id_aa64mmfr''"
| "arm64_name AA64PFR = ''arm_id_aa64pfr''"
| "arm64_name AA64SMFR = ''arm_id_aa64smfr''"
| "arm64_name AA64ZFR = ''arm_id_aa64zfr''"

primrec arm64_get :: "arm64_table \<Rightarrow> cpu_raw_data_t \<Rightarrow> u64 list" where
  "arm64_get AA64AFR raw = arm_id_aa64afr raw"
| "arm64_get AA64DFR raw = arm_id_aa64dfr raw"
| "arm64_get AA64FPFR raw = arm_id_aa64fpfr raw"
| "arm64_get AA64ISAR raw = arm_id_aa64isar raw"
| "arm64_get AA64MMFR raw = arm_id_aa64mmfr raw"
| "arm64_get AA64PFR raw = arm_id_aa64pfr raw"
| "arm64_get AA64SMFR raw = arm_id_aa64smfr raw"
| "arm64_get AA64ZFR raw = arm_id_aa64zfr raw"

primrec arm64_put :: "arm64_table \<Rightarrow> u64 list \<Rightarrow> cpu_raw_data_t \<Rightarrow> cpu_raw_data_t" where
  "arm64_put AA64AFR ws raw = raw\<lparr>arm_id_aa64afr := ws\<rparr>"
| "arm64_put AA64DFR ws raw = raw\<lparr>arm_id_aa64dfr := ws\<rparr>"
| "arm64_put AA64FPFR ws raw = raw\<lparr>arm_id_aa64fpfr := ws\<rparr>"
| "arm64_put AA64ISAR ws raw = raw\<lparr>arm_id_aa64isar := ws\<rparr>"
| "arm64_put AA64MMFR ws raw = raw\<lparr>arm_id_aa64mmfr := ws\<rparr>"
| "arm64_put AA64PFR ws raw = raw\<lparr>arm_id_aa64pfr := ws\<rparr>"
| "arm64_put AA64SMFR ws raw = raw\<lparr>arm_id_aa64smfr := ws\<rparr>"
| "arm64_put AA64ZFR ws raw = raw\<lparr>arm_id_aa64zfr := ws\<rparr>"

definition x86_tables :: "x86_table list" where
  "x86_tables = [BASIC_CPUID, EXT_CPUID, INTEL_FN4, INTEL_FN11, INTEL_FN12H, INTEL_FN14H,
     AMD_FN8000001DH, AMD_FN80000026H]"

definition arm_registers :: "arm_register list" where
  "arm_registers = [MIDR, MPIDR, REVIDR]"

definition arm32_tables :: "arm32_table list" where
  "arm32_tables = [AFR, DFR, ISAR, MMFR, PFR]"

definition arm64_tables :: "arm64_table list" where
  "arm64_tables = [AA64AFR, AA64DFR, AA64FPFR, AA64ISAR, AA64MMFR, AA64PFR, AA64SMFR, AA64ZFR]"

definition dump_fields :: "dump_field list" where
  "dump_fields = map X86 x86_tables @ map Arm arm_registers @ map Arm32 arm32_tables @
     map Arm64 arm64_tables"

section \<open>Writing\<close>

datatype dump_store =
    Store_x86 x86_table nat cpu_regs_t
  | Store_arm arm_register u64
  | Store_arm32 arm32_table int u32
  | Store_arm64 arm64_table int u64

text \<open>The arguments of the calls of \<^verbatim>\<open>fprintf\<close> for one CPU, in their order.\<close>

definition x86_stores :: "cpu_raw_data_t \<Rightarrow> dump_store list" where
  "x86_stores raw = concat (map (\<lambda>t.
     map (\<lambda>i. Store_x86 t i (x86_get t raw ! i)) [0..<length (x86_get t raw)]) x86_tables)"

definition arm_stores :: "cpu_raw_data_t \<Rightarrow> dump_store list" where
  "arm_stores raw =
     map (\<lambda>t. Store_arm t (arm_get t raw)) arm_registers @
     concat (map (\<lambda>t. map (\<lambda>i. Store_arm32 t (int i) (arm32_get t raw ! i))
       [0..<length (arm32_get t raw)]) arm32_tables) @
     concat (map (\<lambda>t. map (\<lambda>i. Store_arm64 t (int i) (arm64_get t raw ! i))
       [0..<length (arm64_get t raw)]) arm64_tables)"

text \<open>The lines they write, without the newline.\<close>

primrec print_store :: "dump_store \<Rightarrow> string" where
  "print_store (Store_x86 t i r) = x86_name t @ ''['' @ dec_digits i @ '']='' @ hex8 (EAX r) @
     '' '' @ hex8 (EBX r) @ '' '' @ hex8 (ECX r) @ '' '' @ hex8 (EDX r)"
| "print_store (Store_arm t w) = arm_name t @ ''='' @ hex16 w"
| "print_store (Store_arm32 t i w) = arm32_name t @ print_int i @ ''='' @ hex8 w"
| "print_store (Store_arm64 t i w) = arm64_name t @ print_int i @ ''='' @ hex16 w"

definition cpu_lines :: "cpu_architecture_t \<Rightarrow> cpu_raw_data_t \<Rightarrow> string list" where
  "cpu_lines arch raw =
     (case arch of
        ARCHITECTURE_X86 \<Rightarrow> map print_store (x86_stores raw)
      | ARCHITECTURE_ARM \<Rightarrow> map print_store (arm_stores raw)
      | ARCHITECTURE_UNKNOWN \<Rightarrow> [])"

text \<open>
  The number of the CPU is printed with \<^verbatim>\<open>PRIi16\<close>, which is \<^verbatim>\<open>hi\<close>: the conversion takes its argument as a
  \<^verbatim>\<open>short\<close>, so that numbers from 32768 on come out negative.
\<close>

definition cpu_header :: "u16 \<Rightarrow> string" where
  "cpu_header cpu = ''_________________ Logical CPU #'' @ print_int (sint cpu) @
     '' _________________''"

fun cpu_sections :: "cpu_architecture_t \<Rightarrow> u16 \<Rightarrow> cpu_raw_data_t list \<Rightarrow> string list" where
  "cpu_sections arch cpu [] = []"
| "cpu_sections arch cpu (raw # raws) =
     [] # cpu_header cpu # cpu_lines arch raw @ cpu_sections arch (cpu + 1) raws"

text \<open>
  \<^verbatim>\<open>cpuid_serialize_raw_data_internal\<close>; one of its two pointers is \<^verbatim>\<open>NULL\<close> in every call.
  The results are the error and the text, if the file can be opened.
\<close>

definition cpuid_serialize_raw_data_internal ::
    "string \<Rightarrow> bool \<Rightarrow> cpu_raw_data_t + cpu_raw_data_array_t \<Rightarrow> (cpu_error_t \<times> string) option" where
  "cpuid_serialize_raw_data_internal VERSION writable src =
     (case src of
        Inl raw \<Rightarrow>
          Some (if \<not> writable then (ERR_OPEN, [])
            else (ERR_OK, unlines ((''version='' @ VERSION) #
              cpu_lines (cpuid_architecture_identify raw) raw)))
      | Inr a \<Rightarrow>
          if num_raw a = 0 \<or> length (raw_items a) < unat (num_raw a) then None
          else if \<not> writable then Some (ERR_OPEN, [])
          else Some (ERR_OK, unlines ((''version='' @ VERSION) #
            cpu_sections (cpuid_architecture_identify (raw_items a ! 0)) 0
              (take (unat (num_raw a)) (raw_items a)))))"

definition cpuid_serialize_raw_data ::
    "string \<Rightarrow> bool \<Rightarrow> cpu_raw_data_t \<Rightarrow> (cpu_error_t \<times> string) option" where
  "cpuid_serialize_raw_data VERSION writable data =
     cpuid_serialize_raw_data_internal VERSION writable (Inl data)"

definition cpuid_serialize_all_raw_data ::
    "string \<Rightarrow> bool \<Rightarrow> cpu_raw_data_array_t \<Rightarrow> (cpu_error_t \<times> string) option" where
  "cpuid_serialize_all_raw_data VERSION writable data =
     cpuid_serialize_raw_data_internal VERSION writable (Inr data)"

section \<open>Reading\<close>

subsection \<open>Lines of a dump\<close>

primrec field_format :: "dump_field \<Rightarrow> directive list" where
  "field_format (X86 t) = [Text (x86_name t @ ''[''), Conv Dec, Text '']='', Conv (Hex 32),
     Conv (Hex 32), Conv (Hex 32), Conv (Hex 32)]"
| "field_format (Arm t) = [Text (arm_name t @ ''=''), Conv (Hex 64)]"
| "field_format (Arm32 t) = [Text (arm32_name t), Conv Dec, Text ''='', Conv (Hex 32)]"
| "field_format (Arm64 t) = [Text (arm64_name t), Conv Dec, Text ''='', Conv (Hex 64)]"

text \<open>The condition of each branch on what was read, and the store it makes.\<close>

definition x86_regs :: "int \<Rightarrow> int \<Rightarrow> int \<Rightarrow> int \<Rightarrow> cpu_regs_t" where
  "x86_regs a b c d = \<lparr>EAX = of_int a, EBX = of_int b, ECX = of_int c, EDX = of_int d\<rparr>"

fun field_store :: "dump_field \<Rightarrow> scanned list \<Rightarrow> dump_store option" where
  "field_store (X86 t) [Num i, Num a, Num b, Num c, Num d] =
     (if 0 \<le> i \<and> i < int (x86_size t) then Some (Store_x86 t (nat i) (x86_regs a b c d)) else None)"
| "field_store (Arm t) [Num w] = Some (Store_arm t (of_int w))"
| "field_store (Arm32 t) [Num i, Num w] = Some (Store_arm32 t i (of_int w))"
| "field_store (Arm64 t) [Num i, Num w] = Some (Store_arm64 t i (of_int w))"
| "field_store _ _ = None"

text \<open>The \<^verbatim>\<open>else if\<close> chain: the first field that understands the line.\<close>

fun first_store :: "dump_field list \<Rightarrow> string \<Rightarrow> dump_store option" where
  "first_store [] line = None"
| "first_store (f # fs) line =
     (case field_store f (sscanf (field_format f) line) of
        Some s \<Rightarrow> Some s
      | None \<Rightarrow> first_store fs line)"

definition list_store :: "'a list \<Rightarrow> int \<Rightarrow> 'a \<Rightarrow> 'a list option" where
  "list_store xs i x = (if 0 \<le> i \<and> i < int (length xs) then Some (xs[nat i := x]) else None)"

primrec apply_store :: "dump_store \<Rightarrow> cpu_raw_data_t \<Rightarrow> cpu_raw_data_t option" where
  "apply_store (Store_x86 t i r) raw =
     map_option (\<lambda>rs. x86_put t rs raw) (list_store (x86_get t raw) (int i) r)"
| "apply_store (Store_arm t w) raw = Some (arm_put t w raw)"
| "apply_store (Store_arm32 t i w) raw =
     map_option (\<lambda>ws. arm32_put t ws raw) (list_store (arm32_get t raw) i w)"
| "apply_store (Store_arm64 t i w) raw =
     map_option (\<lambda>ws. arm64_put t ws raw) (list_store (arm64_get t raw) i w)"

subsection \<open>The state of the reader\<close>

text \<open>Where \<^verbatim>\<open>raw_ptr\<close> points: nowhere, to the single raw data, or to an element of the array.\<close>

datatype raw_target = No_raw | Single_raw | Item nat

record dump_state =
  is_header :: bool
  is_libcpuid_dump :: bool
  is_aida64_dump :: bool
  logical_cpu :: u16
  logical_cpu_offset :: u16
  raw_ptr :: raw_target
  single_raw :: cpu_raw_data_t
  raw_array :: cpu_raw_data_array_t
  dump_errno :: cpu_error_t

definition store_line :: "dump_store \<Rightarrow> dump_state \<Rightarrow> dump_state option" where
  "store_line s st =
     (case raw_ptr st of
        No_raw \<Rightarrow> None
      | Single_raw \<Rightarrow> map_option (\<lambda>r. st\<lparr>single_raw := r\<rparr>) (apply_store s (single_raw st))
      | Item k \<Rightarrow>
          if k < length (raw_items (raw_array st)) then
            map_option (\<lambda>r. st\<lparr>raw_array := (raw_array st)\<lparr>
                raw_items := (raw_items (raw_array st))[k := r]\<rparr>\<rparr>)
              (apply_store s (raw_items (raw_array st) ! k))
          else None)"

definition select_item :: "(nat \<Rightarrow> bool) \<Rightarrow> bool \<Rightarrow> u16 \<Rightarrow> dump_state \<Rightarrow> dump_state" where
  "select_item alloc affinity cpu st =
     (let (a, e) = cpuid_grow_raw_data_array alloc (cpu + 1) (raw_array st) (dump_errno st)
      in st\<lparr>raw_array := a\<lparr>with_affinity := affinity\<rparr>, raw_ptr := Item (unat cpu), dump_errno := e\<rparr>)"

subsection \<open>One line\<close>

definition aida64_starts :: "string list" where
  "aida64_starts = [
     ''------[ Versions ]------'',
     ''------[ Logical CPU #0 ]------'',
     ''------[ CPUID Registers / Logical CPU #0 ]------'',
     ''CPUID Registers (CPU #1):'']"

text \<open>The lines before the first known one; the flag tells that the line is done with.\<close>

definition header_line ::
    "(nat \<Rightarrow> bool) \<Rightarrow> bool \<Rightarrow> string \<Rightarrow> dump_state \<Rightarrow> (bool \<times> dump_state) option" where
  "header_line alloc use_raw_array line st =
     (case sscanf [Text ''version='', Conv Str] line of
        Chars v # _ \<Rightarrow>
          if length v \<ge> 8 then None
          else Some (True, st\<lparr>is_libcpuid_dump := True, is_aida64_dump := False\<rparr>)
      | _ \<Rightarrow>
          if length (sscanf (field_format (X86 BASIC_CPUID)) line) \<ge> 5 then
            let st = st\<lparr>is_header := False, is_libcpuid_dump := True, is_aida64_dump := False\<rparr>
            in Some (False, if use_raw_array then select_item alloc False 0 st else st)
          else if line \<in> set aida64_starts \<or> c_strstr line ''CPU#000 AffMask: 0x'' \<noteq> None then
            Some (False, st\<lparr>is_header := False, is_libcpuid_dump := False, is_aida64_dump := True\<rparr>)
          else Some (False, st))"

definition cpu_format :: "directive list" where
  "cpu_format = [Text ''_________________ Logical CPU #'', Conv (UDec 16), Text '' _________________'']"

definition libcpuid_line ::
    "(nat \<Rightarrow> bool) \<Rightarrow> bool \<Rightarrow> string \<Rightarrow> dump_state \<Rightarrow> dump_state option" where
  "libcpuid_line alloc use_raw_array line st =
     (case (if use_raw_array then sscanf cpu_format line else []) of
        Num n # _ \<Rightarrow>
          let cpu = of_int n
          in Some (select_item alloc True cpu (st\<lparr>logical_cpu := cpu, is_header := False\<rparr>))
      | _ \<Rightarrow>
          (case first_store dump_fields line of
             Some s \<Rightarrow> store_line s st
           | None \<Rightarrow> Some st))"

text \<open>Lines of a report of AIDA64: the start of a logical CPU, and one leaf.\<close>

definition aida64_cpu_formats :: "directive list list" where
  "aida64_cpu_formats = [
     [Text ''------[ Logical CPU #'', Conv (UDec 16), Text '' ]------''],
     [Text ''------[ CPUID Registers / Logical CPU #'', Conv (UDec 16), Text '' ]------''],
     [Text ''CPUID Registers (CPU #'', Conv (UDec 16)],
     [Text ''CPU#'', Conv (UDec 16), Text '' AffMask: 0x'', Conv SkipHex]]"

fun first_number :: "directive list list \<Rightarrow> string \<Rightarrow> int option" where
  "first_number [] line = None"
| "first_number (f # fs) line =
     (case sscanf f line of Num n # _ \<Rightarrow> Some n | _ \<Rightarrow> first_number fs line)"

definition aida64_leaf_format :: "string \<Rightarrow> directive list" where
  "aida64_leaf_format separator =
     [Text ''CPUID '', Conv (Hex 32), Text separator, Conv (Hex 32), Text ''-'', Conv (Hex 32),
      Text ''-'', Conv (Hex 32), Text ''-'', Conv (Hex 32), Text '' [SL '', Conv (Base0 2), Text '']'']"

definition ADDRESS_EXT_CPUID_START :: int where
  "ADDRESS_EXT_CPUID_START = 0x80000000"

definition ADDRESS_EXT_CPUID_END :: int where
  "ADDRESS_EXT_CPUID_END = ADDRESS_EXT_CPUID_START + int MAX_EXT_CPUID_LEVEL"

text \<open>The arrays a leaf is stored to when its subleaf is 0, and when a subleaf is stated.\<close>

definition leaf_store :: "int \<Rightarrow> cpu_regs_t \<Rightarrow> dump_state \<Rightarrow> dump_state option" where
  "leaf_store addr r st =
     (if addr < int MAX_CPUID_LEVEL then store_line (Store_x86 BASIC_CPUID (nat addr) r) st
      else if ADDRESS_EXT_CPUID_START \<le> addr \<and> addr < ADDRESS_EXT_CPUID_END
      then store_line (Store_x86 EXT_CPUID (nat (addr - ADDRESS_EXT_CPUID_START)) r) st
      else Some st)"

definition subleaf_table :: "int \<Rightarrow> x86_table option" where
  "subleaf_table addr =
     (if addr = 0x00000004 then Some INTEL_FN4
      else if addr = 0x0000000B then Some INTEL_FN11
      else if addr = 0x00000012 then Some INTEL_FN12H
      else if addr = 0x00000014 then Some INTEL_FN14H
      else if addr = 0x8000001D then Some AMD_FN8000001DH
      else if addr = 0x80000026 then Some AMD_FN80000026H
      else None)"

definition subleaf_store :: "int \<Rightarrow> int \<Rightarrow> cpu_regs_t \<Rightarrow> dump_state \<Rightarrow> dump_state option" where
  "subleaf_store addr subleaf r st =
     (case subleaf_table addr of
        None \<Rightarrow> Some st
      | Some t \<Rightarrow> if subleaf < 0 then None else store_line (Store_x86 t (nat subleaf) r) st)"

fun aida64_store :: "scanned list \<Rightarrow> dump_state \<Rightarrow> dump_state option" where
  "aida64_store [Num addr, Num a, Num b, Num c, Num d] st = leaf_store addr (x86_regs a b c d) st"
| "aida64_store [Num addr, Num a, Num b, Num c, Num d, Num subleaf] st = do {
     st \<leftarrow> (if subleaf = 0 then leaf_store addr (x86_regs a b c d) st else Some st);
     subleaf_store addr subleaf (x86_regs a b c d) st
   }"
| "aida64_store _ st = Some st"

definition aida64_line ::
    "(nat \<Rightarrow> bool) \<Rightarrow> bool \<Rightarrow> string \<Rightarrow> dump_state \<Rightarrow> dump_state option" where
  "aida64_line alloc use_raw_array line st =
     (case (if use_raw_array then first_number aida64_cpu_formats line else None) of
        Some n \<Rightarrow>
          let cpu = of_int n;
            off = (if num_raw (raw_array st) = 0 \<and> cpu \<ge> 1 then cpu else logical_cpu_offset st)
          in Some (select_item alloc True (cpu - off)
            (st\<lparr>logical_cpu := cpu - off, logical_cpu_offset := off\<rparr>))
      | None \<Rightarrow>
          let assigned = sscanf (aida64_leaf_format '': '') line;
            assigned = (if length assigned = 1 then sscanf (aida64_leaf_format '' '') line else assigned)
          in aida64_store assigned st)"

definition dump_line ::
    "(nat \<Rightarrow> bool) \<Rightarrow> bool \<Rightarrow> string \<Rightarrow> dump_state \<Rightarrow> dump_state option" where
  "dump_line alloc use_raw_array line st = do {
     (skip, st) \<leftarrow> (if is_header st then header_line alloc use_raw_array line st else Some (False, st));
     if skip then Some st
     else if is_libcpuid_dump st then libcpuid_line alloc use_raw_array line st
     else if is_aida64_dump st then aida64_line alloc use_raw_array line st
     else Some st
   }"

subsection \<open>The file\<close>

text \<open>The loop over the lines ends at the line that starts the results of a test.\<close>

fun dump_loop ::
    "(nat \<Rightarrow> bool) \<Rightarrow> bool \<Rightarrow> string list \<Rightarrow> dump_state \<Rightarrow> dump_state option" where
  "dump_loop alloc use_raw_array [] st = Some st"
| "dump_loop alloc use_raw_array (l # ls) st =
     (let line = chomp l in
      if line = [] then dump_loop alloc use_raw_array ls st
      else if line = replicate 80 (CHR ''-'') then Some st
      else do {
        st \<leftarrow> dump_line alloc use_raw_array line st;
        dump_loop alloc use_raw_array ls st
      })"

definition dump_start :: "raw_target \<Rightarrow> cpu_raw_data_t \<Rightarrow> cpu_raw_data_array_t \<Rightarrow> cpu_error_t \<Rightarrow> dump_state" where
  "dump_start target raw a errno = \<lparr>is_header = True, is_libcpuid_dump = True, is_aida64_dump = False,
     logical_cpu = 0, logical_cpu_offset = 0, raw_ptr = target, single_raw = raw, raw_array = a,
     dump_errno = errno\<rparr>"

text \<open>
  \<^verbatim>\<open>cpuid_deserialize_raw_data_internal\<close>; again one of its two pointers is \<^verbatim>\<open>NULL\<close>. It returns the
  error that it also leaves in \<^verbatim>\<open>_libcpuid_errno\<close>, and what the pointers point to.
\<close>

definition cpuid_deserialize_raw_data_internal ::
    "(nat \<Rightarrow> bool) \<Rightarrow> cpu_raw_data_t + cpu_raw_data_array_t \<Rightarrow> string option \<Rightarrow> cpu_error_t \<Rightarrow>
      (cpu_error_t \<times> (cpu_raw_data_t + cpu_raw_data_array_t)) option" where
  "cpuid_deserialize_raw_data_internal alloc dest file errno =
     (case file of
        None \<Rightarrow> Some (ERR_OPEN, dest)
      | Some text \<Rightarrow>
          (case dest of
             Inl raw \<Rightarrow> do {
               st \<leftarrow> dump_loop alloc False (file_lines text) (dump_start Single_raw raw
                 (cpu_raw_data_array_t_constructor False) errno);
               Some (ERR_OK, Inl (single_raw st))
             }
           | Inr a \<Rightarrow> do {
               st \<leftarrow> dump_loop alloc True (file_lines text) (dump_start No_raw raw_data_t_constructor
                 (cpu_raw_data_array_t_constructor False) errno);
               Some (if num_raw (raw_array st) = 0 then ERR_BADFMT else ERR_OK, Inr (raw_array st))
             }))"

definition cpuid_deserialize_raw_data ::
    "(nat \<Rightarrow> bool) \<Rightarrow> cpu_raw_data_t \<Rightarrow> string option \<Rightarrow> cpu_error_t \<Rightarrow>
      (cpu_error_t \<times> cpu_raw_data_t) option" where
  "cpuid_deserialize_raw_data alloc data file errno =
     map_option (\<lambda>(r, d). (r, projl d))
       (cpuid_deserialize_raw_data_internal alloc (Inl raw_data_t_constructor) file errno)"

definition cpuid_deserialize_all_raw_data ::
    "(nat \<Rightarrow> bool) \<Rightarrow> cpu_raw_data_array_t \<Rightarrow> string option \<Rightarrow> cpu_error_t \<Rightarrow>
      (cpu_error_t \<times> cpu_raw_data_array_t) option" where
  "cpuid_deserialize_all_raw_data alloc data file errno =
     map_option (\<lambda>(r, d). (r, projr d))
       (cpuid_deserialize_raw_data_internal alloc (Inr data) file errno)"

end
