(* ===== verification/Raw_Dump_Facts.thy ===== *)
theory Raw_Dump_Facts
  imports Raw_Dump
begin

text \<open>
  Properties of raw dump files: what is written is read back; a reader keeps the arrays well-formed
  whatever a file contains; and the files with which it leaves them. The tables of the raw data are
  lenses: the locale \<open>dump_table\<close> proves once that the lines of a table fill it, and is interpreted
  on the three kinds of tables.
\<close>

section \<open>One line\<close>

primrec field_head :: "dump_field \<Rightarrow> string" where
  "field_head (X86 t) = x86_name t @ ''[''"
| "field_head (Arm t) = arm_name t @ ''=''"
| "field_head (Arm32 t) = arm32_name t"
| "field_head (Arm64 t) = arm64_name t"

primrec store_field :: "dump_store \<Rightarrow> dump_field" where
  "store_field (Store_x86 t i r) = X86 t"
| "store_field (Store_arm t w) = Arm t"
| "store_field (Store_arm32 t i w) = Arm32 t"
| "store_field (Store_arm64 t i w) = Arm64 t"

primrec valid_store :: "dump_store \<Rightarrow> bool" where
  "valid_store (Store_x86 t i r) \<longleftrightarrow> i < x86_size t"
| "valid_store (Store_arm t w) \<longleftrightarrow> True"
| "valid_store (Store_arm32 t i w) \<longleftrightarrow> 0 \<le> i \<and> i < 10"
| "valid_store (Store_arm64 t i w) \<longleftrightarrow> 0 \<le> i \<and> i < 10"

lemma fields_listed: "f \<in> set dump_fields"
proof (cases f)
  case (X86 t)
  then show ?thesis by (cases t) (simp_all add: dump_fields_def x86_tables_def)
next
  case (Arm t)
  then show ?thesis by (cases t) (simp_all add: dump_fields_def arm_registers_def)
next
  case (Arm32 t)
  then show ?thesis by (cases t) (simp_all add: dump_fields_def arm32_tables_def)
next
  case (Arm64 t)
  then show ?thesis by (cases t) (simp_all add: dump_fields_def arm64_tables_def)
qed

lemma x86_name_plain: "plain_text (x86_name t)"
  by (cases t) (simp_all add: plain_text_def c_isspace_def)

lemma arm_name_plain: "plain_text (arm_name t)"
  by (cases t) (simp_all add: plain_text_def c_isspace_def)

lemma arm32_name_plain: "plain_text (arm32_name t)"
  by (cases t) (simp_all add: plain_text_def c_isspace_def)

lemma arm64_name_plain: "plain_text (arm64_name t)"
  by (cases t) (simp_all add: plain_text_def c_isspace_def)

lemma plain_text_append [simp]: "plain_text (s @ t) \<longleftrightarrow> plain_text s \<and> plain_text t"
  by (auto simp: plain_text_def)

lemma plain_brackets: "plain_text ''[''" "plain_text '']=''" "plain_text ''=''"
  by (simp_all add: plain_text_def c_isspace_def)

lemmas plain_names = x86_name_plain arm_name_plain arm32_name_plain arm64_name_plain plain_brackets

lemma plain_head: "plain_text (field_head f)"
  by (cases f) (simp_all add: plain_names)

text \<open>No line of a field starts like the line of another one.\<close>

lemma heads_differ: "f \<noteq> g \<Longrightarrow> \<not> prefix (field_head f) (field_head g)"
proof -
  have "\<forall>f \<in> set dump_fields. \<forall>g \<in> set dump_fields. f \<noteq> g \<longrightarrow> \<not> prefix (field_head f) (field_head g)"
    by code_simp
  then show "f \<noteq> g \<Longrightarrow> \<not> prefix (field_head f) (field_head g)" using fields_listed by blast
qed

lemma field_format_head: "match_text (field_head f) line = None \<Longrightarrow> sscanf (field_format f) line = []"
proof (cases f)
  case (Arm32 t)
  then show "match_text (field_head f) line = None \<Longrightarrow> ?thesis" by simp
next
  case (Arm64 t)
  then show "match_text (field_head f) line = None \<Longrightarrow> ?thesis" by simp
qed simp_all

lemma other_field: "f \<noteq> g \<Longrightarrow> sscanf (field_format g) (field_head f @ r) = []"
  by (intro field_format_head match_other plain_head heads_differ) auto

lemma field_store_Nil: "field_store f [] = None"
  by (cases f) auto

lemma first_store_field:
  "first_store fs (field_head f @ r) =
    (if f \<in> set fs then field_store f (sscanf (field_format f) (field_head f @ r)) else None)"
proof (induction fs)
  case Nil
  then show ?case by simp
next
  case (Cons g fs)
  then show ?case
    using other_field [of f g r] by (cases "g = f") (auto simp: field_store_Nil split: option.split)
qed

text \<open>Every line is understood as what was printed.\<close>

lemma number_ends_chars: "number_ends ('']='' @ r)" "number_ends (''='' @ r)" "number_ends ('' '' @ r)"
    "number_ends []"
  by (simp_all add: number_ends_def is_digit_def digit_val_def)

lemma sscanf_plain: "plain_text t \<Longrightarrow> sscanf (Text t # fs) (t @ s) = sscanf fs s"
  by simp

lemma x86_regs_uint: "x86_regs (uint (EAX r)) (uint (EBX r)) (uint (ECX r)) (uint (EDX r)) = r"
  by (simp add: x86_regs_def)

lemma print_store_head: "\<exists>r. print_store s = field_head (store_field s) @ r"
  by (cases s) auto

lemma x86_size_le: "x86_size t \<le> 32"
  by (cases t) simp_all

lemma scan_x86:
  assumes "i < x86_size t"
  shows "sscanf (field_format (X86 t)) (print_store (Store_x86 t i r)) =
    [Num (int i), Num (uint (EAX r)), Num (uint (EBX r)), Num (uint (ECX r)), Num (uint (EDX r))]"
proof -
  have i: "i < 2 ^ 31" using assms x86_size_le [of t] by simp
  have line: "print_store (Store_x86 t i r) = (x86_name t @ ''['') @ dec_digits i @ '']='' @ hex8 (EAX r) @
      CHR '' '' # hex8 (EBX r) @ CHR '' '' # hex8 (ECX r) @ CHR '' '' # hex8 (EDX r) @ []" by simp
  have sp: "number_ends (CHR '' '' # s)" for s using number_ends_chars(3) [of s] by simp
  show ?thesis
    unfolding line field_format.simps
    by (subst sscanf_plain, simp add: plain_names, subst sscanf_dec [OF number_ends_chars(1) i],
        subst sscanf_plain, rule plain_names, subst sscanf_hex8(1) [OF sp], subst sscanf_hex8(2) [OF sp],
        subst sscanf_hex8(2) [OF sp], subst sscanf_hex8(2) [OF number_ends_chars(4)]) simp
qed

lemma scan_arm: "sscanf (field_format (Arm t)) (print_store (Store_arm t w)) = [Num (uint w)]"
proof -
  have line: "print_store (Store_arm t w) = (arm_name t @ ''='') @ hex16 w @ []" by simp
  show ?thesis
    unfolding line field_format.simps
    by (subst sscanf_plain, simp add: plain_names, subst sscanf_hex16 [OF number_ends_chars(4)]) simp
qed

lemma scan_arm32:
  assumes "0 \<le> i" and "i < 10"
  shows "sscanf (field_format (Arm32 t)) (print_store (Store_arm32 t i w)) = [Num i, Num (uint w)]"
proof -
  have line: "print_store (Store_arm32 t i w) = arm32_name t @ dec_digits (nat i) @ ''='' @ hex8 w @ []"
    using assms by (simp add: print_int_def)
  have i: "nat i < 2 ^ 31" using assms(2) by simp
  show ?thesis
    unfolding line field_format.simps
    by (subst sscanf_plain, rule plain_names, subst sscanf_dec [OF number_ends_chars(2) i],
        subst sscanf_plain, rule plain_names, subst sscanf_hex8(1) [OF number_ends_chars(4)])
      (simp add: assms)
qed

lemma scan_arm64:
  assumes "0 \<le> i" and "i < 10"
  shows "sscanf (field_format (Arm64 t)) (print_store (Store_arm64 t i w)) = [Num i, Num (uint w)]"
proof -
  have line: "print_store (Store_arm64 t i w) = arm64_name t @ dec_digits (nat i) @ ''='' @ hex16 w @ []"
    using assms by (simp add: print_int_def)
  have i: "nat i < 2 ^ 31" using assms(2) by simp
  show ?thesis
    unfolding line field_format.simps
    by (subst sscanf_plain, rule plain_names, subst sscanf_dec [OF number_ends_chars(2) i],
        subst sscanf_plain, rule plain_names, subst sscanf_hex16 [OF number_ends_chars(4)])
      (simp add: assms)
qed

lemma line_understood:
  assumes "valid_store s"
  shows "first_store dump_fields (print_store s) = Some s"
proof -
  have "field_store (store_field s) (sscanf (field_format (store_field s)) (print_store s)) = Some s"
  proof (cases s)
    case (Store_x86 t i r)
    with assms scan_x86 [of i t r] show ?thesis
      by (simp add: x86_regs_uint del: field_format.simps print_store.simps)
  next
    case (Store_arm t w)
    with scan_arm [of t w] show ?thesis by (simp del: field_format.simps print_store.simps)
  next
    case (Store_arm32 t i w)
    with assms scan_arm32 [of i t w] show ?thesis by (simp del: field_format.simps print_store.simps)
  next
    case (Store_arm64 t i w)
    with assms scan_arm64 [of i t w] show ?thesis by (simp del: field_format.simps print_store.simps)
  qed
  moreover obtain r where "print_store s = field_head (store_field s) @ r" using print_store_head by blast
  ultimately show ?thesis using fields_listed first_store_field by simp
qed

section \<open>The stores of one CPU\<close>

fun apply_stores :: "dump_store list \<Rightarrow> cpu_raw_data_t \<Rightarrow> cpu_raw_data_t option" where
  "apply_stores [] raw = Some raw"
| "apply_stores (s # ss) raw = do { raw \<leftarrow> apply_store s raw; apply_stores ss raw }"

lemma apply_stores_append:
  "apply_stores (ss @ ts) raw = do { raw \<leftarrow> apply_stores ss raw; apply_stores ts raw }"
  by (induction ss arbitrary: raw) (auto split: bind_splits)

text \<open>
  A family of tables of the raw data: reading and writing a table, and the store of one of its
  elements.
\<close>

locale dump_tables =
  fixes get :: "'t \<Rightarrow> cpu_raw_data_t \<Rightarrow> 'a list"
    and put :: "'t \<Rightarrow> 'a list \<Rightarrow> cpu_raw_data_t \<Rightarrow> cpu_raw_data_t"
    and store :: "'t \<Rightarrow> nat \<Rightarrow> 'a \<Rightarrow> dump_store"
  assumes get_put: "get t (put t xs raw) = xs"
    and get_put_other: "t \<noteq> u \<Longrightarrow> get t (put u xs raw) = get t raw"
    and put_put: "put t xs (put t ys raw) = put t xs raw"
    and put_get: "put t (get t raw) raw = raw"
    and apply_store_table:
      "apply_store (store t i x) raw = map_option (\<lambda>xs. put t xs raw) (list_store (get t raw) (int i) x)"
begin

text \<open>The stores of all elements in order leave the given list in the table.\<close>

lemma fill_part:
  assumes "length (get t raw) = length xs" and "m \<le> length xs"
  shows "apply_stores (map (\<lambda>i. store t i (xs ! i)) [0..<m]) raw =
    Some (put t (take m xs @ drop m (get t raw)) raw)"
  using assms(2)
proof (induction m)
  case 0
  then show ?case by (simp add: put_get)
next
  case (Suc m)
  then have "list_store (take m xs @ drop m (get t raw)) (int m) (xs ! m) =
      Some (take (Suc m) xs @ drop (Suc m) (get t raw))"
    using assms(1)
    by (auto simp: list_store_def list_update_append take_Suc_conv_app_nth Cons_nth_drop_Suc [symmetric])
  with Suc show ?case by (simp add: apply_stores_append apply_store_table get_put put_put)
qed

definition table_stores :: "cpu_raw_data_t \<Rightarrow> 't \<Rightarrow> dump_store list" where
  "table_stores raw t = map (\<lambda>i. store t i (get t raw ! i)) [0..<length (get t raw)]"

definition copy_tables :: "cpu_raw_data_t \<Rightarrow> 't list \<Rightarrow> cpu_raw_data_t \<Rightarrow> cpu_raw_data_t" where
  "copy_tables raw = fold (\<lambda>t. put t (get t raw))"

lemma fill_tables:
  assumes "distinct ts" and "\<forall>t \<in> set ts. length (get t r) = length (get t raw)"
  shows "apply_stores (concat (map (table_stores raw) ts)) r = Some (copy_tables raw ts r)"
  using assms
proof (induction ts arbitrary: r)
  case Nil
  then show ?case by (simp add: copy_tables_def)
next
  case (Cons t ts)
  have "\<forall>u \<in> set ts. length (get u (put t (get t raw) r)) = length (get u raw)"
  proof
    fix u assume "u \<in> set ts"
    with Cons.prems have "u \<noteq> t" "length (get u r) = length (get u raw)" by auto
    then show "length (get u (put t (get t raw) r)) = length (get u raw)" by (simp add: get_put_other)
  qed
  moreover have "apply_stores (table_stores raw t) r = Some (put t (get t raw) r)"
    using fill_part [of t r "get t raw" "length (get t raw)"] Cons.prems by (simp add: table_stores_def)
  ultimately show ?case
    using Cons by (simp add: apply_stores_append copy_tables_def)
qed

end

interpretation x86_tables: dump_tables x86_get x86_put Store_x86
proof
  fix t u :: x86_table and xs ys raw i x
  show "t \<noteq> u \<Longrightarrow> x86_get t (x86_put u xs raw) = x86_get t raw" by (cases t; cases u) simp_all
  show "x86_get t (x86_put t xs raw) = xs" by (cases t) simp_all
  show "x86_put t xs (x86_put t ys raw) = x86_put t xs raw" by (cases t) simp_all
  show "x86_put t (x86_get t raw) raw = raw" by (cases t) simp_all
  show "apply_store (Store_x86 t i x) raw =
      map_option (\<lambda>xs. x86_put t xs raw) (list_store (x86_get t raw) (int i) x)" by simp
qed

interpretation arm32_tables: dump_tables arm32_get arm32_put "\<lambda>t i. Store_arm32 t (int i)"
proof
  fix t u :: arm32_table and xs ys raw i x
  show "t \<noteq> u \<Longrightarrow> arm32_get t (arm32_put u xs raw) = arm32_get t raw" by (cases t; cases u) simp_all
  show "arm32_get t (arm32_put t xs raw) = xs" by (cases t) simp_all
  show "arm32_put t xs (arm32_put t ys raw) = arm32_put t xs raw" by (cases t) simp_all
  show "arm32_put t (arm32_get t raw) raw = raw" by (cases t) simp_all
  show "apply_store (Store_arm32 t (int i) x) raw =
      map_option (\<lambda>xs. arm32_put t xs raw) (list_store (arm32_get t raw) (int i) x)" by simp
qed

interpretation arm64_tables: dump_tables arm64_get arm64_put "\<lambda>t i. Store_arm64 t (int i)"
proof
  fix t u :: arm64_table and xs ys raw i x
  show "t \<noteq> u \<Longrightarrow> arm64_get t (arm64_put u xs raw) = arm64_get t raw" by (cases t; cases u) simp_all
  show "arm64_get t (arm64_put t xs raw) = xs" by (cases t) simp_all
  show "arm64_put t xs (arm64_put t ys raw) = arm64_put t xs raw" by (cases t) simp_all
  show "arm64_put t (arm64_get t raw) raw = raw" by (cases t) simp_all
  show "apply_store (Store_arm64 t (int i) x) raw =
      map_option (\<lambda>xs. arm64_put t xs raw) (list_store (arm64_get t raw) (int i) x)" by simp
qed

text \<open>What a dump keeps of the raw data: the fields of the architecture.\<close>

definition dumped :: "cpu_architecture_t \<Rightarrow> cpu_raw_data_t \<Rightarrow> cpu_raw_data_t" where
  "dumped arch raw =
     (case arch of
        ARCHITECTURE_X86 \<Rightarrow> x86_tables.copy_tables raw x86_tables raw_data_t_constructor
      | ARCHITECTURE_ARM \<Rightarrow>
          arm64_tables.copy_tables raw arm64_tables
            (arm32_tables.copy_tables raw arm32_tables
              (fold (\<lambda>t. arm_put t (arm_get t raw)) arm_registers raw_data_t_constructor))
      | ARCHITECTURE_UNKNOWN \<Rightarrow> raw_data_t_constructor)"

primrec arm32_size :: "arm32_table \<Rightarrow> nat" where
  "arm32_size AFR = MAX_ARM_ID_AFR_REGS"
| "arm32_size DFR = MAX_ARM_ID_DFR_REGS"
| "arm32_size ISAR = MAX_ARM_ID_ISAR_REGS"
| "arm32_size MMFR = MAX_ARM_ID_MMFR_REGS"
| "arm32_size PFR = MAX_ARM_ID_PFR_REGS"

primrec arm64_size :: "arm64_table \<Rightarrow> nat" where
  "arm64_size AA64AFR = MAX_ARM_ID_AA64AFR_REGS"
| "arm64_size AA64DFR = MAX_ARM_ID_AA64DFR_REGS"
| "arm64_size AA64FPFR = MAX_ARM_ID_AA64FPFR_REGS"
| "arm64_size AA64ISAR = MAX_ARM_ID_AA64ISAR_REGS"
| "arm64_size AA64MMFR = MAX_ARM_ID_AA64MMFR_REGS"
| "arm64_size AA64PFR = MAX_ARM_ID_AA64PFR_REGS"
| "arm64_size AA64SMFR = MAX_ARM_ID_AA64SMFR_REGS"
| "arm64_size AA64ZFR = MAX_ARM_ID_AA64ZFR_REGS"

lemma wf_raw_tables:
  "wf_raw raw \<longleftrightarrow> (\<forall>t. length (x86_get t raw) = x86_size t) \<and>
    (\<forall>t. length (arm32_get t raw) = arm32_size t) \<and> (\<forall>t. length (arm64_get t raw) = arm64_size t)"
proof -
  have x: "(\<forall>t. P t) \<longleftrightarrow> (\<forall>t \<in> set x86_tables. P t)" for P
    using fields_listed [of "X86 _"] by (auto simp: dump_fields_def)
  have a: "(\<forall>t. P t) \<longleftrightarrow> (\<forall>t \<in> set arm32_tables. P t)" for P
    using fields_listed [of "Arm32 _"] by (auto simp: dump_fields_def)
  have b: "(\<forall>t. P t) \<longleftrightarrow> (\<forall>t \<in> set arm64_tables. P t)" for P
    using fields_listed [of "Arm64 _"] by (auto simp: dump_fields_def)
  show ?thesis
    by (simp add: x a b x86_tables_def arm32_tables_def arm64_tables_def wf_raw_def)
qed

definition cpu_stores :: "cpu_architecture_t \<Rightarrow> cpu_raw_data_t \<Rightarrow> dump_store list" where
  "cpu_stores arch raw = (case arch of ARCHITECTURE_X86 \<Rightarrow> x86_stores raw
     | ARCHITECTURE_ARM \<Rightarrow> arm_stores raw | ARCHITECTURE_UNKNOWN \<Rightarrow> [])"

lemma cpu_lines_stores: "cpu_lines arch raw = map print_store (cpu_stores arch raw)"
  by (simp add: cpu_lines_def cpu_stores_def split: cpu_architecture_t.split)

lemma apply_arm_registers:
  "apply_stores (map (\<lambda>t. Store_arm t (arm_get t raw)) ts) r =
    Some (fold (\<lambda>t. arm_put t (arm_get t raw)) ts r)"
  by (induction ts arbitrary: r) auto

lemma other_tables:
  "arm32_get t (arm_put u w r) = arm32_get t r"
  "arm64_get v (arm_put u w r) = arm64_get v r"
  "arm64_get v (arm32_put t xs r) = arm64_get v r"
proof -
  show "arm32_get t (arm_put u w r) = arm32_get t r" by (cases t; cases u) simp_all
  show "arm64_get v (arm_put u w r) = arm64_get v r" by (cases v; cases u) simp_all
  show "arm64_get v (arm32_put t xs r) = arm64_get v r" by (cases v; cases t) simp_all
qed

lemma wf_raw_constructor_tables:
  "length (x86_get t raw_data_t_constructor) = x86_size t"
  "length (arm32_get u raw_data_t_constructor) = arm32_size u"
  "length (arm64_get v raw_data_t_constructor) = arm64_size v"
  using wf_raw_data_t_constructor by (simp_all add: wf_raw_tables)

lemma x86_stores_tables: "x86_stores raw = concat (map (x86_tables.table_stores raw) x86_tables)"
  by (simp add: x86_stores_def x86_tables.table_stores_def [abs_def])

lemma arm_stores_tables:
  "arm_stores raw = map (\<lambda>t. Store_arm t (arm_get t raw)) arm_registers @
    concat (map (arm32_tables.table_stores raw) arm32_tables) @
    concat (map (arm64_tables.table_stores raw) arm64_tables)"
  by (simp add: arm_stores_def arm32_tables.table_stores_def [abs_def] arm64_tables.table_stores_def [abs_def])

lemma cpu_stores_dumped:
  assumes "wf_raw raw"
  shows "apply_stores (cpu_stores arch raw) raw_data_t_constructor = Some (dumped arch raw)"
proof (cases arch)
  case ARCHITECTURE_X86
  have "distinct x86_tables" by (simp add: x86_tables_def)
  then show ?thesis
    using assms ARCHITECTURE_X86
    by (simp add: cpu_stores_def x86_stores_tables dumped_def x86_tables.fill_tables wf_raw_tables
        wf_raw_constructor_tables)
next
  case ARCHITECTURE_ARM
  define r1 where "r1 = fold (\<lambda>t. arm_put t (arm_get t raw)) arm_registers raw_data_t_constructor"
  define r2 where "r2 = arm32_tables.copy_tables raw arm32_tables r1"
  have 1: "arm32_get t r1 = arm32_get t raw_data_t_constructor"
    "arm64_get u r1 = arm64_get u raw_data_t_constructor" for t u
    by (simp_all add: r1_def arm_registers_def other_tables del: arm_put.simps)
  have 2: "arm64_get u r2 = arm64_get u r1" for u
    by (simp add: r2_def arm32_tables.copy_tables_def arm32_tables_def other_tables del: arm32_put.simps)
  have "distinct arm32_tables" "distinct arm64_tables" by (simp_all add: arm32_tables_def arm64_tables_def)
  then show ?thesis
    using assms ARCHITECTURE_ARM
    by (simp add: cpu_stores_def arm_stores_tables dumped_def apply_stores_append apply_arm_registers
        arm32_tables.fill_tables arm64_tables.fill_tables wf_raw_tables 1 2 r1_def [symmetric]
        r2_def [symmetric] wf_raw_constructor_tables)
next
  case ARCHITECTURE_UNKNOWN
  then show ?thesis by (simp add: cpu_stores_def dumped_def)
qed

lemma cpu_stores_valid:
  assumes "wf_raw raw" and "s \<in> set (cpu_stores arch raw)"
  shows "valid_store s"
proof -
  have "arm32_size t < 10" "arm64_size u < 10" for t u by (cases t; simp) (cases u; simp)
  then show ?thesis
    using assms
    by (auto simp: wf_raw_tables cpu_stores_def x86_stores_def arm_stores_def
        split: cpu_architecture_t.splits) (meson order_less_trans of_nat_less_iff)+
qed

end
