(* ===== verification/Raw_Dump_Roundtrip.thy ===== *)
theory Raw_Dump_Roundtrip
  imports Raw_Dump_Facts
begin

text \<open>
  Raw dumps are read back: the lines of each CPU, the sections of all CPUs, the whole file. The
  reader's state is followed through the loop over the lines; \<open>ordinary\<close> are the lines that a dump
  consists of, apart from its first line and the empty ones.
\<close>

section \<open>Ordinary lines\<close>

definition ordinary :: "string \<Rightarrow> bool" where
  "ordinary l \<longleftrightarrow> l \<noteq> [] \<and> hd l \<notin> {CHR ''-'', CHR ''C'', CHR ''v''} \<and> set l \<inter> {CHR ''M'', NL, NUL} = {} \<and>
     length l < 99"

lemma digits_clean:
  assumes "set ds \<subseteq> digit_char ` {..<base}" and "base \<le> 16"
  shows "set ds \<inter> {CHR ''M'', NL, NUL} = {}"
proof -
  have "\<forall>d \<in> set [0..<16]. digit_char d \<notin> {CHR ''M'', NL, NUL}" by code_simp
  then have "digit_char d \<notin> {CHR ''M'', NL, NUL}" if "d < 16" for d using that by simp
  moreover have "\<exists>d < 16. c = digit_char d" if "c \<in> set ds" for c
    using that assms by (meson imageE lessThan_iff order_less_le_trans subsetD)
  ultimately have "c \<notin> {CHR ''M'', NL, NUL}" if "c \<in> set ds" for c using that by metis
  then show ?thesis by fast
qed

lemma hex8_clean: "set (hex8 w) \<inter> {CHR ''M'', NL, NUL} = {}" "length (hex8 w) = 8"
  unfolding hex8_def by (rule digits_clean [OF set_fixed_digits]) simp_all

lemma hex16_clean: "set (hex16 w) \<inter> {CHR ''M'', NL, NUL} = {}" "length (hex16 w) = 16"
  unfolding hex16_def by (rule digits_clean [OF set_fixed_digits]) simp_all

lemma dec_clean: "set (dec_digits n) \<inter> {CHR ''M'', NL, NUL} = {}"
  by (rule digits_clean [OF set_dec_digits]) simp

lemma head_ordinary:
  "field_head f \<noteq> [] \<and> hd (field_head f) \<notin> {CHR ''-'', CHR ''C'', CHR ''v'', CHR ''_''} \<and>
    set (field_head f) \<inter> {CHR ''M'', NL, NUL} = {} \<and> length (field_head f) \<le> 17"
proof -
  have "\<forall>f \<in> set dump_fields. field_head f \<noteq> [] \<and> hd (field_head f) \<notin> {CHR ''-'', CHR ''C'', CHR ''v'', CHR ''_''} \<and>
    set (field_head f) \<inter> {CHR ''M'', NL, NUL} = {} \<and> length (field_head f) \<le> 17" by code_simp
  then show ?thesis using fields_listed by blast
qed

lemma store_ordinary:
  assumes "valid_store s"
  shows "ordinary (print_store s) \<and> hd (print_store s) \<noteq> CHR ''_''"
proof -
  obtain r where line: "print_store s = field_head (store_field s) @ r"
    and r: "set r \<inter> {CHR ''M'', NL, NUL} = {}" "length r \<le> 70"
  proof (cases s)
    case (Store_x86 t i x)
    define r where "r = dec_digits i @ '']='' @ hex8 (EAX x) @
      '' '' @ hex8 (EBX x) @ '' '' @ hex8 (ECX x) @ '' '' @ hex8 (EDX x)"
    have "length (dec_digits i) \<le> 2"
      using assms Store_x86 x86_size_le [of t] by (intro length_dec_digits) simp_all
    then have "length r \<le> 70" by (simp add: r_def hex8_clean)
    moreover have "set r \<inter> {CHR ''M'', NL, NUL} = {}"
      using dec_clean [of i] hex8_clean(1) by (simp add: r_def Int_Un_distrib2)
    ultimately show thesis using that [of r] Store_x86 by (simp add: r_def)
  next
    case (Store_arm t w)
    then show thesis using that [of "hex16 w"] hex16_clean by simp
  next
    case (Store_arm32 t i w)
    define r where "r = dec_digits (nat i) @ ''='' @ hex8 w"
    have "length (dec_digits (nat i)) \<le> 1"
      using assms Store_arm32 by (intro length_dec_digits) (simp_all add: nat_less_iff)
    then have "length r \<le> 70" by (simp add: r_def hex8_clean)
    moreover have "set r \<inter> {CHR ''M'', NL, NUL} = {}"
      using dec_clean [of "nat i"] hex8_clean(1) by (simp add: r_def Int_Un_distrib2)
    ultimately show thesis using that [of r] Store_arm32 assms by (simp add: r_def print_int_def)
  next
    case (Store_arm64 t i w)
    define r where "r = dec_digits (nat i) @ ''='' @ hex16 w"
    have "length (dec_digits (nat i)) \<le> 1"
      using assms Store_arm64 by (intro length_dec_digits) (simp_all add: nat_less_iff)
    then have "length r \<le> 70" by (simp add: r_def hex16_clean)
    moreover have "set r \<inter> {CHR ''M'', NL, NUL} = {}"
      using dec_clean [of "nat i"] hex16_clean(1) by (simp add: r_def Int_Un_distrib2)
    ultimately show thesis using that [of r] Store_arm64 assms by (simp add: r_def print_int_def)
  qed
  show ?thesis
    using head_ordinary [of "store_field s"] r by (simp add: line ordinary_def Int_Un_distrib2)
qed

lemma cpu_header_ordinary: "ordinary (cpu_header cpu)"
proof -
  have "- (2 ^ 15) \<le> sint cpu" "sint cpu < 2 ^ 15" using sint_ge [of cpu] sint_less [of cpu] by simp_all
  then have len: "length (dec_digits (nat \<bar>sint cpu\<bar>)) \<le> 5" by (intro length_dec_digits) simp_all
  define ds where "ds = dec_digits (nat \<bar>sint cpu\<bar>)"
  show ?thesis
    using dec_clean [of "nat \<bar>sint cpu\<bar>"] len unfolding ordinary_def cpu_header_def print_int_def ds_def [symmetric]
    by (simp add: Int_Un_distrib2)
qed

section \<open>Steps of the reader\<close>

text \<open>The reader has taken the file for a dump of the library.\<close>

definition dump_mode :: "dump_state \<Rightarrow> bool" where
  "dump_mode st \<longleftrightarrow> is_libcpuid_dump st \<and> \<not> is_aida64_dump st"

lemma dump_mode_fields:
  "dump_mode st \<Longrightarrow> st\<lparr>is_header := h, is_libcpuid_dump := True, is_aida64_dump := False\<rparr> = st\<lparr>is_header := h\<rparr>"
  by (cases st) (simp add: dump_mode_def)

lemma c_strstr_missing: "c \<in> set p \<Longrightarrow> c \<notin> set s \<Longrightarrow> c_strstr s p = None"
proof (rule ccontr)
  assume "c \<in> set p" "c \<notin> set s" "c_strstr s p \<noteq> None"
  then obtain i t where "s = take i s @ p @ t" using c_strstr_Some by blast
  then have "set s = set (take i s) \<union> set p \<union> set t" by (metis Un_assoc set_append)
  then show False using \<open>c \<in> set p\<close> \<open>c \<notin> set s\<close> by blast
qed

lemma not_version: "ordinary l \<Longrightarrow> sscanf [Text ''version='', Conv Str] l = []"
  by (cases l) (auto simp: ordinary_def c_isspace_def)

lemma not_aida64:
  assumes "ordinary l"
  shows "l \<notin> set aida64_starts \<and> c_strstr l ''CPU#000 AffMask: 0x'' = None"
proof -
  have "CHR ''M'' \<notin> set l" using assms by (simp add: ordinary_def)
  then have "c_strstr l ''CPU#000 AffMask: 0x'' = None" by (rule c_strstr_missing [rotated]) simp
  moreover have "\<forall>a \<in> set aida64_starts. hd a \<in> {CHR ''-'', CHR ''C''}" by (simp add: aida64_starts_def)
  ultimately show ?thesis using assms by (auto simp: ordinary_def)
qed

lemma header_line_ordinary:
  assumes "ordinary l" and "dump_mode st"
  shows "header_line alloc u l st = Some (False,
    if length (sscanf (field_format (X86 BASIC_CPUID)) l) \<ge> 5
    then if u then select_item alloc False 0 (st\<lparr>is_header := False\<rparr>) else st\<lparr>is_header := False\<rparr>
    else st)"
  using not_aida64 [OF assms(1)]
  by (simp add: header_line_def not_version [OF assms(1)] dump_mode_fields [OF assms(2)] Let_def
      del: field_format.simps sscanf.simps)

lemma libcpuid_line_store:
  assumes "valid_store s"
  shows "libcpuid_line alloc u (print_store s) st = store_line s st"
proof -
  have "sscanf cpu_format (print_store s) = []"
    using store_ordinary [OF assms] unfolding cpu_format_def
    by (cases "print_store s") (auto simp: ordinary_def c_isspace_def)
  then show ?thesis by (simp add: libcpuid_line_def line_understood [OF assms])
qed

lemma dump_line_store:
  assumes "valid_store s" and "dump_mode st" and "u \<longrightarrow> \<not> is_header st"
  shows "\<exists>h. (\<not> is_header st \<longrightarrow> \<not> h) \<and> dump_line alloc u (print_store s) st = store_line s (st\<lparr>is_header := h\<rparr>)"
proof (cases "is_header st")
  case True
  define h where "h = (length (sscanf (field_format (X86 BASIC_CPUID)) (print_store s)) < 5)"
  have "header_line alloc u (print_store s) st = Some (False, st\<lparr>is_header := h\<rparr>)"
    using header_line_ordinary [OF conjunct1 [OF store_ordinary [OF assms(1)]] assms(2), of alloc u] True assms(3)
    by (auto simp: h_def simp del: field_format.simps print_store.simps)
  then show ?thesis
    using True assms(2) by (auto simp: dump_line_def dump_mode_def libcpuid_line_store [OF assms(1)] intro!: exI [of _ h])
next
  case False
  then have same: "st\<lparr>is_header := False\<rparr> = st" by (cases st) simp
  have "dump_line alloc u (print_store s) st = store_line s st"
    using False assms(2) by (simp add: dump_line_def dump_mode_def libcpuid_line_store [OF assms(1)])
  then show ?thesis by (intro exI [of _ False]) (simp only: same simp_thms)
qed

text \<open>The raw data the pointer refers to.\<close>

definition target_ok :: "dump_state \<Rightarrow> bool" where
  "target_ok st \<longleftrightarrow> (case raw_ptr st of No_raw \<Rightarrow> False | Single_raw \<Rightarrow> True
     | Item k \<Rightarrow> k < length (raw_items (raw_array st)))"

definition target_raw :: "dump_state \<Rightarrow> cpu_raw_data_t" where
  "target_raw st = (case raw_ptr st of Item k \<Rightarrow> raw_items (raw_array st) ! k | _ \<Rightarrow> single_raw st)"

definition target_put :: "cpu_raw_data_t \<Rightarrow> dump_state \<Rightarrow> dump_state" where
  "target_put raw st = (case raw_ptr st of
     Item k \<Rightarrow> st\<lparr>raw_array := (raw_array st)\<lparr>raw_items := (raw_items (raw_array st))[k := raw]\<rparr>\<rparr>
   | _ \<Rightarrow> st\<lparr>single_raw := raw\<rparr>)"

lemma store_line_target:
  "target_ok st \<Longrightarrow> store_line s st = map_option (\<lambda>r. target_put r st) (apply_store s (target_raw st))"
  by (auto simp: store_line_def target_ok_def target_raw_def target_put_def split: raw_target.splits)

lemma target_put_simps [simp]:
  "is_header (target_put r st) = is_header st" "dump_mode (target_put r st) = dump_mode st"
  "target_put r (st\<lparr>is_header := h\<rparr>) = (target_put r st)\<lparr>is_header := h\<rparr>"
  "target_ok (st\<lparr>is_header := h\<rparr>) = target_ok st" "target_raw (st\<lparr>is_header := h\<rparr>) = target_raw st"
  "dump_mode (st\<lparr>is_header := h\<rparr>) = dump_mode st"
  "target_put r (target_put r' st) = target_put r st"
  by (auto simp: target_put_def target_ok_def target_raw_def dump_mode_def split: raw_target.splits)

lemma target_put_ok [simp]:
  "target_ok st \<Longrightarrow> target_ok (target_put r st)" "target_ok st \<Longrightarrow> target_raw (target_put r st) = r"
  "target_ok st \<Longrightarrow> target_put (target_raw st) st = st"
  by (auto simp: target_put_def target_ok_def target_raw_def split: raw_target.splits)

lemma line_not_special:
  assumes "ordinary l"
  shows "chomp (l @ [NL]) = l" "l \<noteq> []" "l \<noteq> replicate 80 (CHR ''-'')"
proof -
  show "chomp (l @ [NL]) = l" using assms by (intro chomp_line) (simp_all add: ordinary_def)
  have "hd (replicate 80 (CHR ''-'')) = CHR ''-''" by (simp add: numeral_eq_Suc)
  then show "l \<noteq> []" "l \<noteq> replicate 80 (CHR ''-'')" using assms unfolding ordinary_def by auto
qed

lemma dump_loop_ordinary:
  "ordinary l \<Longrightarrow> dump_loop alloc u ((l @ [NL]) # ls) st =
    do { st \<leftarrow> dump_line alloc u l st; dump_loop alloc u ls st }"
  using line_not_special [of l] by (simp add: Let_def del: replicate.simps)

lemma dump_loop_stores:
  assumes "\<forall>s \<in> set ss. valid_store s" and "dump_mode st" and "u \<longrightarrow> \<not> is_header st" and "target_ok st"
    and "apply_stores ss (target_raw st) = Some raw"
  shows "\<exists>h. (\<not> is_header st \<longrightarrow> \<not> h) \<and>
    dump_loop alloc u (map (\<lambda>s. print_store s @ [NL]) ss @ ls) st =
    dump_loop alloc u ls ((target_put raw st)\<lparr>is_header := h\<rparr>)"
  using assms
proof (induction ss arbitrary: st)
  case Nil
  have "target_put raw st = st" using Nil by auto
  moreover have "st\<lparr>is_header := is_header st\<rparr> = st" by (cases st) simp
  ultimately show ?case by (intro exI [of _ "is_header st"]) (simp only: list.map append_Nil simp_thms)
next
  case (Cons s ss)
  obtain raw1 where raw1: "apply_store s (target_raw st) = Some raw1"
    and rest: "apply_stores ss raw1 = Some raw"
    using Cons.prems(5) by (auto split: bind_splits)
  obtain h where h: "\<not> is_header st \<longrightarrow> \<not> h"
    and step: "dump_line alloc u (print_store s) st = store_line s (st\<lparr>is_header := h\<rparr>)"
    using dump_line_store [of s st u alloc] Cons.prems by auto
  define st1 where "st1 = (target_put raw1 st)\<lparr>is_header := h\<rparr>"
  have step1: "dump_line alloc u (print_store s) st = Some st1"
    using Cons.prems(4) raw1 by (simp add: step store_line_target st1_def)
  have "\<exists>h'. (\<not> is_header st1 \<longrightarrow> \<not> h') \<and>
    dump_loop alloc u (map (\<lambda>s. print_store s @ [NL]) ss @ ls) st1 =
    dump_loop alloc u ls ((target_put raw st1)\<lparr>is_header := h'\<rparr>)"
    using Cons.prems h rest by (intro Cons.IH) (auto simp: st1_def)
  then obtain h' where "\<not> h \<longrightarrow> \<not> h'"
    and "dump_loop alloc u (map (\<lambda>s. print_store s @ [NL]) ss @ ls) st1 =
      dump_loop alloc u ls ((target_put raw st)\<lparr>is_header := h'\<rparr>)"
    by (auto simp: st1_def)
  then show ?case
    using h dump_loop_ordinary [OF conjunct1 [OF store_ordinary], of s alloc u] Cons.prems(1) step1
    by (intro exI [of _ h']) (auto simp del: print_store.simps dump_loop.simps)
qed

section \<open>All CPUs\<close>

lemma scan_cpu_header: "sscanf cpu_format (cpu_header cpu) = [Num (uint cpu)]"
proof -
  have lit: "match_text ''_________________ Logical CPU #'' (''_________________ Logical CPU #'' @ s) = Some s" for s
    by (simp add: c_isspace_def)
  have ends: "number_ends ('' _________________'' @ [])" by (simp add: number_ends_def is_digit_def digit_val_def)
  have "cpu_header cpu = ''_________________ Logical CPU #'' @ print_int (sint cpu) @ '' _________________'' @ []"
    by (simp add: cpu_header_def)
  then show ?thesis
    by (simp only: cpu_format_def sscanf.simps(2) lit option.case sscanf_short [OF ends])
      (simp add: c_isspace_def)
qed

lemma not_basic_header: "sscanf (field_format (X86 BASIC_CPUID)) (cpu_header cpu) = []"
  by (simp add: cpu_header_def c_isspace_def)

lemma dump_line_header:
  assumes "dump_mode st"
  shows "dump_line alloc True (cpu_header cpu) st =
    Some (select_item alloc True cpu (st\<lparr>logical_cpu := cpu, is_header := False\<rparr>))"
proof -
  have "header_line alloc True (cpu_header cpu) st = Some (False, st)"
    by (subst header_line_ordinary [OF cpu_header_ordinary assms]) (simp only: not_basic_header list.size, simp)
  then show ?thesis
    using assms by (simp add: dump_line_def dump_mode_def libcpuid_line_def scan_cpu_header Let_def)
qed

lemma select_next:
  assumes "num_raw (raw_array st) = cpu" and "unat cpu + 1 < 65536" and "alloc (unat cpu + 1)"
  shows "raw_array (select_item alloc b cpu st) = \<lparr>with_affinity = b, num_raw = cpu + 1,
      raw_items = raw_items (raw_array st) @ [raw_data_t_constructor]\<rparr> \<and>
    raw_ptr (select_item alloc b cpu st) = Item (unat cpu) \<and>
    is_header (select_item alloc b cpu st) = is_header st \<and>
    dump_mode (select_item alloc b cpu st) = dump_mode st"
proof -
  have u: "unat (cpu + 1) = unat cpu + 1" using assms(2) by (simp add: unat_word_ariths)
  then have "\<not> (cpu + 1 \<le> 0 \<or> cpu + 1 < cpu)" by (simp add: word_le_nat_alt word_less_nat_alt)
  then show ?thesis
    using assms(1,3) u by (simp add: select_item_def cpuid_grow_raw_data_array_def dump_mode_def)
qed

lemma sections_loop:
  assumes "dump_mode st" and "num_raw (raw_array st) = cpu"
    and "length (raw_items (raw_array st)) = unat cpu" and "unat cpu + length raws < 65536"
    and "\<forall>raw \<in> set raws. wf_raw raw" and "\<forall>n. alloc n"
  shows "\<exists>st'. dump_loop alloc True (map (\<lambda>l. l @ [NL]) (cpu_sections arch cpu raws)) st = Some st' \<and>
    raw_items (raw_array st') = raw_items (raw_array st) @ map (dumped arch) raws \<and>
    unat (num_raw (raw_array st')) = unat cpu + length raws \<and>
    with_affinity (raw_array st') = (raws \<noteq> [] \<or> with_affinity (raw_array st))"
  using assms
proof (induction raws arbitrary: st cpu)
  case Nil
  then show ?case by simp
next
  case (Cons raw raws)
  define st1 where "st1 = select_item alloc True cpu (st\<lparr>logical_cpu := cpu, is_header := False\<rparr>)"
  have cpu: "unat cpu + 1 < 65536" using Cons.prems(4) by simp
  have st1: "raw_array st1 = \<lparr>with_affinity = True, num_raw = cpu + 1,
      raw_items = raw_items (raw_array st) @ [raw_data_t_constructor]\<rparr>"
    "raw_ptr st1 = Item (unat cpu)" "\<not> is_header st1" "dump_mode st1"
    using select_next [of "st\<lparr>logical_cpu := cpu, is_header := False\<rparr>" cpu alloc True] Cons.prems(1,2,6) cpu
    by (simp_all add: st1_def dump_mode_def)
  have ok: "target_ok st1" and fresh: "target_raw st1 = raw_data_t_constructor"
    using Cons.prems(3) by (simp_all add: target_ok_def target_raw_def st1 nth_append)
  have wf: "wf_raw raw" using Cons.prems(5) by simp
  define st2 where "st2 = (target_put (dumped arch raw) st1)\<lparr>is_header := False\<rparr>"
  have lines: "dump_loop alloc True (map (\<lambda>s. print_store s @ [NL]) (cpu_stores arch raw) @ ls) st1 =
      dump_loop alloc True ls st2" for ls
    using dump_loop_stores [of "cpu_stores arch raw" st1 True "dumped arch raw" alloc ls]
      cpu_stores_valid [OF wf] cpu_stores_dumped [OF wf, of arch] st1 ok fresh
    by (auto simp: st2_def)
  have array2: "raw_array st2 = \<lparr>with_affinity = True, num_raw = cpu + 1,
      raw_items = raw_items (raw_array st) @ [dumped arch raw]\<rparr>"
    using Cons.prems(3) by (simp add: st2_def target_put_def st1 list_update_append)
  have u: "unat (cpu + 1) = unat cpu + 1" using cpu by (simp add: unat_word_ariths)
  have "\<exists>st'. dump_loop alloc True (map (\<lambda>l. l @ [NL]) (cpu_sections arch (cpu + 1) raws)) st2 = Some st' \<and>
    raw_items (raw_array st') = raw_items (raw_array st2) @ map (dumped arch) raws \<and>
    unat (num_raw (raw_array st')) = unat (cpu + 1) + length raws \<and>
    with_affinity (raw_array st') = (raws \<noteq> [] \<or> with_affinity (raw_array st2))"
    using Cons.prems(3-6) st1(4) u by (intro Cons.IH) (simp_all add: array2, simp add: st2_def)
  then obtain st' where rest:
      "dump_loop alloc True (map (\<lambda>l. l @ [NL]) (cpu_sections arch (cpu + 1) raws)) st2 = Some st'"
    and st': "raw_items (raw_array st') = raw_items (raw_array st) @ map (dumped arch) (raw # raws)"
      "unat (num_raw (raw_array st')) = unat cpu + length (raw # raws)" "with_affinity (raw_array st')"
    by (auto simp: array2 u)
  have "dump_loop alloc True (map (\<lambda>l. l @ [NL]) (cpu_sections arch cpu (raw # raws))) st =
      dump_loop alloc True (map (\<lambda>s. print_store s @ [NL]) (cpu_stores arch raw) @
        map (\<lambda>l. l @ [NL]) (cpu_sections arch (cpu + 1) raws)) st1"
    using dump_loop_ordinary [OF cpu_header_ordinary, of alloc True cpu]
      dump_line_header [OF Cons.prems(1), of alloc cpu]
    by (simp add: cpu_lines_stores comp_def st1_def [symmetric] chomp_def del: print_store.simps)
  with lines rest st' show ?case by auto
qed

section \<open>The file\<close>

text \<open>A version the buffer of the reader has room for.\<close>

definition version_ok :: "string \<Rightarrow> bool" where
  "version_ok v \<longleftrightarrow> 0 < length v \<and> length v < 8 \<and> (\<forall>c \<in> set v. \<not> c_isspace c \<and> c \<noteq> NUL)"

lemma version_chars:
  assumes "version_ok v"
  shows "NL \<notin> set v" "NUL \<notin> set v"
proof -
  have "c_isspace NL" by (simp add: c_isspace_def)
  then show "NL \<notin> set v" "NUL \<notin> set v" using assms unfolding version_ok_def by blast+
qed

lemma version_line:
  assumes "version_ok v"
  shows "dump_loop alloc u ((''version='' @ v @ [NL]) # ls) (dump_start t raw a e) =
    dump_loop alloc u ls (dump_start t raw a e)"
proof -
  have "takeWhile (\<lambda>c. \<not> c_isspace c) v = v" "dropWhile c_isspace v = v" "v \<noteq> []"
    using assms by (cases v; auto simp: version_ok_def takeWhile_eq_all_conv)+
  moreover have "match_text ''version='' (''version='' @ v) = Some v" by (simp add: c_isspace_def)
  ultimately have scan: "sscanf [Text ''version='', Conv Str] (''version='' @ v) = [Chars v]"
    by (simp only: sscanf.simps option.case convert.simps Let_def if_False prod.case)
  have chomp: "chomp (''version='' @ v @ [NL]) = ''version='' @ v"
    using chomp_line [of "''version='' @ v"] version_chars [OF assms] by simp
  have dashes: "''version='' @ v \<noteq> replicate 80 (CHR ''-'')" by (simp add: numeral_eq_Suc)
  have "dump_line alloc u (''version='' @ v) (dump_start t raw a e) = Some (dump_start t raw a e)"
    using assms unfolding dump_line_def header_line_def scan by (simp add: version_ok_def dump_start_def)
  then show ?thesis
    using dashes unfolding dump_loop.simps chomp Let_def by simp
qed

lemma ordinary_lines:
  assumes "\<forall>raw \<in> set raws. wf_raw raw"
  shows "\<forall>l \<in> set (cpu_sections arch cpu raws). NL \<notin> set l \<and> length l < 99"
  using assms
proof (induction raws arbitrary: cpu)
  case Nil
  then show ?case by simp
next
  case (Cons raw raws)
  have "NL \<notin> set l \<and> length l < 99" if "l \<in> set (cpu_lines arch raw)" for l
    using that cpu_stores_valid [of raw _ arch] store_ordinary Cons.prems
    by (auto simp: cpu_lines_stores ordinary_def simp del: print_store.simps)
  with Cons cpu_header_ordinary [of cpu] show ?case by (auto simp: ordinary_def)
qed

lemma version_short: "version_ok v \<Longrightarrow> NL \<notin> set (''version='' @ v) \<and> length (''version='' @ v) < 99"
  using version_chars [of v] by (simp add: version_ok_def)

end
