(* ===== verification/Raw_Dump_Properties.thy ===== *)
theory Raw_Dump_Properties
  imports Raw_Dump_Roundtrip
begin

text \<open>
  The properties of raw dump files: dumps of all CPUs and of one CPU are read back, the reader keeps
  the raw data well-formed, and the texts for which it is undefined or stores to the wrong place.
\<close>

section \<open>Reading back\<close>

text \<open>The raw data without the fields of the other architecture.\<close>

definition arch_fields :: "cpu_architecture_t \<Rightarrow> cpu_raw_data_t \<Rightarrow> cpu_raw_data_t" where
  "arch_fields arch raw =
     (case arch of
        ARCHITECTURE_X86 \<Rightarrow> raw\<lparr>arm_midr := 0, arm_mpidr := 0, arm_revidr := 0, arm_id_afr := [0],
          arm_id_dfr := [0, 0], arm_id_isar := replicate 7 0, arm_id_mmfr := replicate 6 0,
          arm_id_pfr := [0, 0, 0], arm_id_aa64afr := [0, 0], arm_id_aa64dfr := [0, 0, 0],
          arm_id_aa64fpfr := [0], arm_id_aa64isar := replicate 4 0, arm_id_aa64mmfr := replicate 5 0,
          arm_id_aa64pfr := [0, 0, 0], arm_id_aa64smfr := [0], arm_id_aa64zfr := [0]\<rparr>
      | ARCHITECTURE_ARM \<Rightarrow> raw\<lparr>basic_cpuid := replicate 32 regs_zero, ext_cpuid := replicate 32 regs_zero,
          intel_fn4 := replicate 8 regs_zero, intel_fn11 := replicate 4 regs_zero,
          intel_fn12h := replicate 4 regs_zero, intel_fn14h := replicate 4 regs_zero,
          amd_fn8000001dh := replicate 4 regs_zero, amd_fn80000026h := replicate 4 regs_zero\<rparr>
      | ARCHITECTURE_UNKNOWN \<Rightarrow> raw_data_t_constructor)"

lemma dumped_fields: "dumped arch raw = arch_fields arch raw"
proof (cases arch)
  case ARCHITECTURE_X86
  then show ?thesis
    by (simp add: dumped_def arch_fields_def x86_tables.copy_tables_def x86_tables_def
        raw_data_t_constructor_def numeral_eq_Suc)
next
  case ARCHITECTURE_ARM
  then show ?thesis
    by (simp add: dumped_def arch_fields_def arm32_tables.copy_tables_def arm32_tables_def
        arm64_tables.copy_tables_def arm64_tables_def arm_registers_def raw_data_t_constructor_def)
next
  case ARCHITECTURE_UNKNOWN
  then show ?thesis by (simp add: dumped_def arch_fields_def)
qed

lemma dump_start_facts:
  "dump_mode (dump_start t raw a e)" "is_header (dump_start t raw a e)" "raw_ptr (dump_start t raw a e) = t"
  "single_raw (dump_start t raw a e) = raw" "raw_array (dump_start t raw a e) = a"
  by (simp_all add: dump_start_def dump_mode_def)

lemma dump_read_back:
  assumes "version_ok VERSION" and "num_raw a \<noteq> 0" and "unat (num_raw a) = length (raw_items a)"
    and "\<forall>raw \<in> set (raw_items a). wf_raw raw" and "\<forall>n. alloc n"
  defines "arch \<equiv> cpuid_architecture_identify (raw_items a ! 0)"
  shows "\<exists>s. cpuid_serialize_all_raw_data VERSION True a = Some (ERR_OK, s) \<and>
    cpuid_deserialize_all_raw_data alloc b (Some s) e =
      Some (ERR_OK, \<lparr>with_affinity = True, num_raw = num_raw a,
        raw_items = map (arch_fields arch) (raw_items a)\<rparr>)"
proof -
  define ls where "ls = (''version='' @ VERSION) # cpu_sections arch 0 (raw_items a)"
  have ser: "cpuid_serialize_all_raw_data VERSION True a = Some (ERR_OK, unlines ls)"
    using assms(2,3)
    by (simp add: cpuid_serialize_all_raw_data_def cpuid_serialize_raw_data_internal_def ls_def arch_def)
  have lines: "file_lines (unlines ls) = map (\<lambda>l. l @ [NL]) ls"
    using version_short [OF assms(1)] ordinary_lines [OF assms(4)]
    by (intro file_lines_unlines) (simp add: ls_def)
  define st0 where "st0 = dump_start No_raw raw_data_t_constructor (cpu_raw_data_array_t_constructor False) e"
  have "unat (num_raw a) < 65536" using unsigned_less [of "num_raw a"] by simp
  then have len: "length (raw_items a) < 65536" by (simp only: assms(3))
  have "\<exists>st. dump_loop alloc True (map (\<lambda>l. l @ [NL]) (cpu_sections arch 0 (raw_items a))) st0 = Some st \<and>
    raw_items (raw_array st) = raw_items (raw_array st0) @ map (dumped arch) (raw_items a) \<and>
    unat (num_raw (raw_array st)) = unat (0 :: u16) + length (raw_items a) \<and>
    with_affinity (raw_array st) = (raw_items a \<noteq> [] \<or> with_affinity (raw_array st0))"
    using assms(4,5) len
    by (intro sections_loop) (simp_all add: st0_def dump_start_facts cpu_raw_data_array_t_constructor_def)
  then obtain st where loop: "dump_loop alloc True (map (\<lambda>l. l @ [NL]) (cpu_sections arch 0 (raw_items a))) st0 = Some st"
    and st: "raw_items (raw_array st) = map (dumped arch) (raw_items a)"
      "unat (num_raw (raw_array st)) = length (raw_items a)"
      "with_affinity (raw_array st) = (raw_items a \<noteq> [])"
    by (auto simp: st0_def dump_start_facts cpu_raw_data_array_t_constructor_def)
  have num: "num_raw (raw_array st) = num_raw a" using st(2) assms(3) by (simp add: word_unat_eq_iff)
  have "raw_items a \<noteq> []" using assms(2,3) by (auto simp: unat_eq_0)
  then have array: "raw_array st = \<lparr>with_affinity = True, num_raw = num_raw a,
      raw_items = map (arch_fields arch) (raw_items a)\<rparr>"
    using st(1,3) num by (cases "raw_array st") (simp add: dumped_fields)
  have "dump_loop alloc True (file_lines (unlines ls)) st0 = Some st"
    using version_line [OF assms(1), of alloc True "map (\<lambda>l. l @ [NL]) (cpu_sections arch 0 (raw_items a))"] loop
    unfolding lines by (simp add: ls_def st0_def del: dump_loop.simps)
  then have "cpuid_deserialize_all_raw_data alloc b (Some (unlines ls)) e = Some (ERR_OK, raw_array st)"
    using num assms(2)
    by (simp add: cpuid_deserialize_all_raw_data_def cpuid_deserialize_raw_data_internal_def st0_def)
  with ser array show ?thesis by simp
qed

text \<open>
  C3: the dump of all CPUs is read back: as many CPUs in the same order, each with the fields of the
  architecture of the first one; the array is marked as read with affinity, whatever it was.
\<close>

theorem raw_dump_roundtrip:
  assumes "version_ok VERSION" and "num_raw a \<noteq> 0" and "unat (num_raw a) = length (raw_items a)"
    and "\<forall>raw \<in> set (raw_items a). wf_raw raw" and "\<forall>n. alloc n"
  defines "arch \<equiv> cpuid_architecture_identify (raw_items a ! 0)"
  shows "\<exists>s. cpuid_serialize_all_raw_data VERSION True a = Some (ERR_OK, s) \<and>
    cpuid_deserialize_all_raw_data alloc b (Some s) e =
      Some (ERR_OK, \<lparr>with_affinity = True, num_raw = num_raw a,
        raw_items = map (arch_fields arch) (raw_items a)\<rparr>)"
  using dump_read_back [OF assms(1-5)] unfolding arch_def .

text \<open>An x86 processor of which only the first leaf is known, alone in an array.\<close>

definition one_leaf :: cpu_raw_data_t where
  "one_leaf = raw_data_t_constructor\<lparr>basic_cpuid := (replicate MAX_CPUID_LEVEL regs_zero)
     [0 := \<lparr>EAX = 1, EBX = 2, ECX = 3, EDX = 4\<rparr>]\<rparr>"

lemma one_leaf_facts:
  "wf_raw one_leaf" "cpuid_architecture_identify one_leaf = ARCHITECTURE_X86"
  "arch_fields ARCHITECTURE_X86 one_leaf = one_leaf"
  by (simp_all add: one_leaf_def wf_raw_def cpuid_architecture_identify_def arch_fields_def
      raw_data_t_constructor_def numeral_eq_Suc)

theorem raw_dump_roundtrip_witness:
  "\<exists>s. cpuid_serialize_all_raw_data ''0.8.1'' True
      \<lparr>with_affinity = True, num_raw = 1, raw_items = [one_leaf]\<rparr> = Some (ERR_OK, s) \<and>
    cpuid_deserialize_all_raw_data (\<lambda>_. True) (cpu_raw_data_array_t_constructor False) (Some s) ERR_OK =
      Some (ERR_OK, \<lparr>with_affinity = True, num_raw = 1, raw_items = [one_leaf]\<rparr>)"
proof -
  have "version_ok ''0.8.1''" by (simp add: version_ok_def c_isspace_def)
  then show ?thesis
    using raw_dump_roundtrip [of "''0.8.1''" "\<lparr>with_affinity = True, num_raw = 1, raw_items = [one_leaf]\<rparr>"
        "\<lambda>_. True" "cpu_raw_data_array_t_constructor False" ERR_OK]
    by (simp add: one_leaf_facts)
qed

section \<open>Dumps of one CPU\<close>

lemma cpu_lines_short:
  assumes "wf_raw raw"
  shows "\<forall>l \<in> set (cpu_lines arch raw). NL \<notin> set l \<and> length l < 99"
  using cpu_stores_valid [OF assms, of _ arch] store_ordinary
  by (auto simp: cpu_lines_stores ordinary_def simp del: print_store.simps)

lemma single_dump_lines:
  assumes "version_ok VERSION" and "wf_raw raw"
  defines "ls \<equiv> cpu_lines (cpuid_architecture_identify raw) raw"
  shows "cpuid_serialize_raw_data VERSION True raw = Some (ERR_OK, unlines ((''version='' @ VERSION) # ls))"
    and "dump_loop alloc u (file_lines (unlines ((''version='' @ VERSION) # ls))) (dump_start t r a e) =
      dump_loop alloc u (map (\<lambda>l. l @ [NL]) ls) (dump_start t r a e)"
proof -
  show "cpuid_serialize_raw_data VERSION True raw = Some (ERR_OK, unlines ((''version='' @ VERSION) # ls))"
    by (simp add: cpuid_serialize_raw_data_def cpuid_serialize_raw_data_internal_def ls_def)
  have "file_lines (unlines ((''version='' @ VERSION) # ls)) =
      map (\<lambda>l. l @ [NL]) ((''version='' @ VERSION) # ls)"
    using version_short [OF assms(1)] cpu_lines_short [OF assms(2)]
    by (intro file_lines_unlines) (simp add: ls_def)
  then show "dump_loop alloc u (file_lines (unlines ((''version='' @ VERSION) # ls))) (dump_start t r a e) =
      dump_loop alloc u (map (\<lambda>l. l @ [NL]) ls) (dump_start t r a e)"
    using version_line [OF assms(1)] by (simp del: dump_loop.simps)
qed

lemma single_dump_read:
  assumes "wf_raw raw"
  shows "\<exists>st. dump_loop alloc False (map (\<lambda>l. l @ [NL]) (cpu_lines arch raw))
      (dump_start Single_raw raw_data_t_constructor a e) = Some st \<and> single_raw st = dumped arch raw"
proof -
  define st0 where "st0 = dump_start Single_raw raw_data_t_constructor a e"
  have ok: "target_ok st0" "target_raw st0 = raw_data_t_constructor" "dump_mode st0"
    by (simp_all add: st0_def target_ok_def target_raw_def dump_start_facts)
  obtain h where "dump_loop alloc False (map (\<lambda>s. print_store s @ [NL]) (cpu_stores arch raw) @ []) st0 =
      dump_loop alloc False [] ((target_put (dumped arch raw) st0)\<lparr>is_header := h\<rparr>)"
    using dump_loop_stores [of "cpu_stores arch raw" st0 False "dumped arch raw" alloc "[]"]
      cpu_stores_valid [OF assms] cpu_stores_dumped [OF assms, of arch] ok by auto
  moreover have "single_raw (target_put (dumped arch raw) st0) = dumped arch raw"
    by (simp add: target_put_def st0_def dump_start_facts)
  ultimately show ?thesis by (simp add: cpu_lines_stores comp_def st0_def)
qed

text \<open>Reading it as a dump of all CPUs: the first leaf of an x86 CPU makes the array.\<close>

lemma first_leaf_line:
  assumes "valid_store (Store_x86 BASIC_CPUID i r)" and "dump_mode st" and "is_header st"
  shows "dump_line alloc True (print_store (Store_x86 BASIC_CPUID i r)) st =
    dump_line alloc True (print_store (Store_x86 BASIC_CPUID i r))
      (select_item alloc False 0 (st\<lparr>is_header := False\<rparr>))"
proof -
  define st1 where "st1 = select_item alloc False 0 (st\<lparr>is_header := False\<rparr>)"
  have "length (sscanf (field_format (X86 BASIC_CPUID)) (print_store (Store_x86 BASIC_CPUID i r))) = 5"
    using scan_x86 [of i BASIC_CPUID r] assms(1) by (simp del: field_format.simps print_store.simps)
  then have "header_line alloc True (print_store (Store_x86 BASIC_CPUID i r)) st = Some (False, st1)"
    using header_line_ordinary [OF conjunct1 [OF store_ordinary [OF assms(1)]] assms(2), of alloc True]
    by (simp add: st1_def del: field_format.simps print_store.simps)
  moreover have "is_libcpuid_dump st1" "\<not> is_header st1"
    using assms(2) by (simp_all add: st1_def select_item_def dump_mode_def split: prod.split)
  ultimately show ?thesis
    using assms(3) by (simp add: dump_line_def st1_def [symmetric] del: print_store.simps)
qed

lemma x86_stores_first:
  assumes "wf_raw raw"
  shows "\<exists>ss. cpu_stores ARCHITECTURE_X86 raw = Store_x86 BASIC_CPUID 0 (basic_cpuid raw ! 0) # ss"
proof -
  have "length (basic_cpuid raw) = 32" using assms by (simp add: wf_raw_def)
  then have "[0..<length (basic_cpuid raw)] = 0 # [1..<32]" by (simp add: upt_rec)
  then show ?thesis by (simp add: cpu_stores_def x86_stores_def x86_tables_def)
qed

lemma single_x86_read_as_array:
  assumes "wf_raw raw" and "\<forall>n. alloc n"
  shows "\<exists>st. dump_loop alloc True (map (\<lambda>l. l @ [NL]) (cpu_lines ARCHITECTURE_X86 raw))
      (dump_start No_raw r (cpu_raw_data_array_t_constructor False) e) = Some st \<and>
    raw_array st = \<lparr>with_affinity = False, num_raw = 1, raw_items = [dumped ARCHITECTURE_X86 raw]\<rparr>"
proof -
  define st0 where "st0 = dump_start No_raw r (cpu_raw_data_array_t_constructor False) e"
  define st1 where "st1 = select_item alloc False 0 (st0\<lparr>is_header := False\<rparr>)"
  have "raw_array st1 = \<lparr>with_affinity = False, num_raw = 0 + 1,
      raw_items = raw_items (raw_array st0) @ [raw_data_t_constructor]\<rparr> \<and>
    raw_ptr st1 = Item (unat (0 :: u16)) \<and> \<not> is_header st1 \<and> dump_mode st1"
    using select_next [of "st0\<lparr>is_header := False\<rparr>" 0 alloc False] assms(2)
    by (simp add: st1_def st0_def dump_start_facts cpu_raw_data_array_t_constructor_def)
  then have st1: "raw_array st1 = \<lparr>with_affinity = False, num_raw = 1, raw_items = [raw_data_t_constructor]\<rparr>"
      "raw_ptr st1 = Item 0" "\<not> is_header st1" "dump_mode st1"
    by (simp_all add: st0_def dump_start_facts cpu_raw_data_array_t_constructor_def)
  obtain ss where ss: "cpu_stores ARCHITECTURE_X86 raw = Store_x86 BASIC_CPUID 0 (basic_cpuid raw ! 0) # ss"
    using x86_stores_first [OF assms(1)] by blast
  let ?first = "Store_x86 BASIC_CPUID 0 (basic_cpuid raw ! 0)"
  have valid: "valid_store ?first" by simp
  have "dump_line alloc True (print_store ?first) st0 = dump_line alloc True (print_store ?first) st1"
    using first_leaf_line [OF valid, of st0 alloc] unfolding st1_def by (simp add: st0_def dump_start_facts)
  then have "dump_loop alloc True (map (\<lambda>s. print_store s @ [NL]) (cpu_stores ARCHITECTURE_X86 raw) @ []) st0 =
      dump_loop alloc True (map (\<lambda>s. print_store s @ [NL]) (cpu_stores ARCHITECTURE_X86 raw) @ []) st1"
    using dump_loop_ordinary [OF conjunct1 [OF store_ordinary [OF valid]], of alloc True]
    by (simp add: ss del: dump_loop.simps print_store.simps)
  moreover obtain h where "dump_loop alloc True (map (\<lambda>s. print_store s @ [NL]) (cpu_stores ARCHITECTURE_X86 raw) @ []) st1 =
      dump_loop alloc True [] ((target_put (dumped ARCHITECTURE_X86 raw) st1)\<lparr>is_header := h\<rparr>)"
    using dump_loop_stores [of "cpu_stores ARCHITECTURE_X86 raw" st1 True "dumped ARCHITECTURE_X86 raw" alloc "[]"]
      cpu_stores_valid [OF assms(1)] cpu_stores_dumped [OF assms(1), of ARCHITECTURE_X86] st1
    by (auto simp: target_ok_def target_raw_def)
  moreover have "raw_array (target_put (dumped ARCHITECTURE_X86 raw) st1) =
      \<lparr>with_affinity = False, num_raw = 1, raw_items = [dumped ARCHITECTURE_X86 raw]\<rparr>"
    by (simp add: target_put_def st1)
  ultimately show ?thesis by (simp add: cpu_lines_stores comp_def st0_def)
qed

text \<open>The first line of an ARM CPU goes through the null pointer.\<close>

lemma single_arm_read_as_array:
  "dump_loop alloc True (map (\<lambda>l. l @ [NL]) (cpu_lines ARCHITECTURE_ARM raw)) (dump_start No_raw r a e) = None"
proof -
  define st0 where "st0 = dump_start No_raw r a e"
  have valid: "valid_store (Store_arm MIDR (arm_midr raw))" by simp
  have "sscanf (field_format (X86 BASIC_CPUID)) (print_store (Store_arm MIDR (arm_midr raw))) = []"
    using other_field [of "Arm MIDR" "X86 BASIC_CPUID" "hex16 (arm_midr raw)"] by (simp del: field_format.simps)
  then have "header_line alloc True (print_store (Store_arm MIDR (arm_midr raw))) st0 = Some (False, st0)"
    using header_line_ordinary [OF conjunct1 [OF store_ordinary [OF valid]], of st0 alloc True]
    by (simp add: st0_def dump_start_facts del: field_format.simps print_store.simps)
  moreover have "store_line s st0 = None" for s by (simp add: store_line_def st0_def dump_start_facts)
  ultimately have "dump_line alloc True (print_store (Store_arm MIDR (arm_midr raw))) st0 = None"
    using libcpuid_line_store [OF valid, of alloc True st0]
    by (simp add: dump_line_def st0_def dump_start_def del: print_store.simps)
  then show ?thesis
    using dump_loop_ordinary [OF conjunct1 [OF store_ordinary [OF valid]], of alloc True]
    by (simp add: cpu_lines_stores cpu_stores_def arm_stores_def arm_registers_def st0_def
        del: dump_loop.simps print_store.simps)
qed

text \<open>
  C4: the dump of one CPU is read back with the fields of its architecture. Read as a dump of all
  CPUs, it gives an array of that CPU, marked as read without affinity, if it is an x86 CPU; if it is
  an ARM CPU, the reader stores through a null pointer.
\<close>

theorem raw_dump_single:
  assumes "version_ok VERSION" and "wf_raw raw" and "\<forall>n. alloc n"
  defines "arch \<equiv> cpuid_architecture_identify raw"
  shows "\<exists>s. cpuid_serialize_raw_data VERSION True raw = Some (ERR_OK, s) \<and>
    cpuid_deserialize_raw_data alloc r (Some s) e = Some (ERR_OK, arch_fields arch raw) \<and>
    (arch = ARCHITECTURE_X86 \<longrightarrow> cpuid_deserialize_all_raw_data alloc a (Some s) e =
      Some (ERR_OK, \<lparr>with_affinity = False, num_raw = 1, raw_items = [arch_fields arch raw]\<rparr>)) \<and>
    (arch = ARCHITECTURE_ARM \<longrightarrow> cpuid_deserialize_all_raw_data alloc a (Some s) e = None)"
proof -
  define s where "s = unlines ((''version='' @ VERSION) # cpu_lines arch raw)"
  note lines = single_dump_lines(2) [OF assms(1,2), folded arch_def, folded s_def]
  have "cpuid_serialize_raw_data VERSION True raw = Some (ERR_OK, s)"
    using single_dump_lines(1) [OF assms(1,2)] by (simp add: s_def arch_def)
  moreover have "cpuid_deserialize_raw_data alloc r (Some s) e = Some (ERR_OK, arch_fields arch raw)"
  proof -
    obtain st where "dump_loop alloc False (map (\<lambda>l. l @ [NL]) (cpu_lines arch raw))
      (dump_start Single_raw raw_data_t_constructor (cpu_raw_data_array_t_constructor False) e) = Some st"
      "single_raw st = dumped arch raw"
      using single_dump_read [OF assms(2)] by blast
    then show ?thesis
      by (simp add: cpuid_deserialize_raw_data_def cpuid_deserialize_raw_data_internal_def lines dumped_fields)
  qed
  moreover have "cpuid_deserialize_all_raw_data alloc a (Some s) e =
      Some (ERR_OK, \<lparr>with_affinity = False, num_raw = 1, raw_items = [arch_fields arch raw]\<rparr>)"
    if x86: "arch = ARCHITECTURE_X86"
  proof -
    obtain st where "dump_loop alloc True (map (\<lambda>l. l @ [NL]) (cpu_lines arch raw))
        (dump_start No_raw raw_data_t_constructor (cpu_raw_data_array_t_constructor False) e) = Some st"
      "raw_array st = \<lparr>with_affinity = False, num_raw = 1, raw_items = [dumped arch raw]\<rparr>"
      using single_x86_read_as_array [OF assms(2,3), of raw_data_t_constructor e] unfolding x86 by blast
    then show ?thesis
      by (simp add: cpuid_deserialize_all_raw_data_def cpuid_deserialize_raw_data_internal_def lines dumped_fields)
  qed
  moreover have "cpuid_deserialize_all_raw_data alloc a (Some s) e = None" if "arch = ARCHITECTURE_ARM"
    using single_arm_read_as_array [of alloc raw] that
    by (simp add: cpuid_deserialize_all_raw_data_def cpuid_deserialize_raw_data_internal_def lines)
  ultimately show ?thesis by blast
qed

theorem raw_dump_single_witness:
  "\<exists>s. cpuid_serialize_raw_data ''0.8.1'' True one_leaf = Some (ERR_OK, s) \<and>
    cpuid_deserialize_raw_data (\<lambda>_. True) raw_data_t_constructor (Some s) ERR_OK = Some (ERR_OK, one_leaf)"
proof -
  have "version_ok ''0.8.1''" by (simp add: version_ok_def c_isspace_def)
  then show ?thesis
    using raw_dump_single [of "''0.8.1''" one_leaf "\<lambda>_. True" raw_data_t_constructor ERR_OK]
    by (auto simp: one_leaf_facts)
qed

section \<open>Well-formedness\<close>

definition dump_wf :: "dump_state \<Rightarrow> bool" where
  "dump_wf st \<longleftrightarrow> wf_raw (single_raw st) \<and> raw_array.wf_array (raw_array st) \<and>
     (\<forall>raw \<in> set (raw_items (raw_array st)). wf_raw raw)"

lemma list_store_length: "list_store xs i x = Some ys \<Longrightarrow> length ys = length xs"
  by (auto simp: list_store_def split: if_splits)

lemma wf_puts:
  "wf_raw raw \<Longrightarrow> length xs = x86_size t \<Longrightarrow> wf_raw (x86_put t xs raw)"
  "wf_raw raw \<Longrightarrow> length ws = arm32_size t32 \<Longrightarrow> wf_raw (arm32_put t32 ws raw)"
  "wf_raw raw \<Longrightarrow> length vs = arm64_size t64 \<Longrightarrow> wf_raw (arm64_put t64 vs raw)"
  "wf_raw raw \<Longrightarrow> wf_raw (arm_put r w raw)"
proof -
  show "wf_raw raw \<Longrightarrow> length xs = x86_size t \<Longrightarrow> wf_raw (x86_put t xs raw)"
    by (cases t) (simp_all add: wf_raw_def)
  show "wf_raw raw \<Longrightarrow> length ws = arm32_size t32 \<Longrightarrow> wf_raw (arm32_put t32 ws raw)"
    by (cases t32) (simp_all add: wf_raw_def)
  show "wf_raw raw \<Longrightarrow> length vs = arm64_size t64 \<Longrightarrow> wf_raw (arm64_put t64 vs raw)"
    by (cases t64) (simp_all add: wf_raw_def)
  show "wf_raw raw \<Longrightarrow> wf_raw (arm_put r w raw)" by (cases r) (simp_all add: wf_raw_def)
qed

lemma wf_table_lengths:
  assumes "wf_raw raw"
  shows "length (x86_get t raw) = x86_size t" "length (arm32_get t32 raw) = arm32_size t32"
    "length (arm64_get t64 raw) = arm64_size t64"
  using assms by (simp_all add: wf_raw_tables)

lemma apply_store_wf: "apply_store s raw = Some raw' \<Longrightarrow> wf_raw raw \<Longrightarrow> wf_raw raw'"
  by (cases s) (auto simp: wf_puts wf_table_lengths dest!: list_store_length)

lemma store_line_wf: "store_line s st = Some st' \<Longrightarrow> dump_wf st \<Longrightarrow> dump_wf st'"
  by (auto simp: store_line_def dump_wf_def raw_array.wf_array_def apply_store_wf
      split: raw_target.splits if_splits dest!: set_update_subset_insert [THEN subsetD])

lemma select_item_wf: "dump_wf st \<Longrightarrow> dump_wf (select_item alloc b cpu st)"
proof -
  assume wf: "dump_wf st"
  define g where "g = cpuid_grow_raw_data_array alloc (cpu + 1) (raw_array st) (dump_errno st)"
  have "raw_array.wf_array (fst g)" using wf unfolding g_def dump_wf_def by (intro raw_array.wf_grow) simp
  moreover have "\<forall>raw \<in> set (raw_items (fst g)). wf_raw raw"
    using wf by (auto simp: g_def cpuid_grow_raw_data_array_def dump_wf_def)
  ultimately show ?thesis
    using wf by (cases g) (simp add: select_item_def g_def [symmetric] dump_wf_def raw_array.wf_array_def)
qed

lemma dump_wf_fields [simp]:
  "dump_wf (st\<lparr>is_header := h\<rparr>) = dump_wf st" "dump_wf (st\<lparr>is_libcpuid_dump := l\<rparr>) = dump_wf st"
  "dump_wf (st\<lparr>is_aida64_dump := i\<rparr>) = dump_wf st" "dump_wf (st\<lparr>logical_cpu := c\<rparr>) = dump_wf st"
  "dump_wf (st\<lparr>logical_cpu_offset := c\<rparr>) = dump_wf st"
  by (simp_all add: dump_wf_def)

lemma header_line_wf: "header_line alloc u l st = Some (b, st') \<Longrightarrow> dump_wf st \<Longrightarrow> dump_wf st'"
  by (auto simp: header_line_def Let_def select_item_wf
      split: list.splits scanned.splits if_splits simp del: sscanf.simps field_format.simps)

lemma libcpuid_line_wf: "libcpuid_line alloc u l st = Some st' \<Longrightarrow> dump_wf st \<Longrightarrow> dump_wf st'"
  by (auto simp: libcpuid_line_def Let_def select_item_wf intro: store_line_wf
      split: list.splits scanned.splits option.splits if_splits)

lemma aida64_store_wf:
  assumes "aida64_store vs st = Some st'" and "dump_wf st"
  shows "dump_wf st'"
proof -
  have leaf: "leaf_store addr r st = Some st' \<Longrightarrow> dump_wf st \<Longrightarrow> dump_wf st'" for addr r st st'
    by (auto simp: leaf_store_def intro: store_line_wf split: if_splits)
  have sub: "subleaf_store addr i r st = Some st' \<Longrightarrow> dump_wf st \<Longrightarrow> dump_wf st'" for addr i r st st'
    by (auto simp: subleaf_store_def intro: store_line_wf split: option.splits if_splits)
  show ?thesis
    using assms by (cases "(vs, st)" rule: aida64_store.cases)
      (auto split: bind_splits if_splits intro: leaf sub)
qed

lemma aida64_line_wf: "aida64_line alloc u l st = Some st' \<Longrightarrow> dump_wf st \<Longrightarrow> dump_wf st'"
  by (auto simp: aida64_line_def Let_def select_item_wf intro: aida64_store_wf
      split: option.splits if_splits simp del: sscanf.simps)

lemma dump_line_wf: "dump_line alloc u l st = Some st' \<Longrightarrow> dump_wf st \<Longrightarrow> dump_wf st'"
  by (auto simp: dump_line_def intro: libcpuid_line_wf aida64_line_wf header_line_wf
      split: bind_splits if_splits prod.splits)

lemma dump_loop_wf: "dump_loop alloc u ls st = Some st' \<Longrightarrow> dump_wf st \<Longrightarrow> dump_wf st'"
proof (induction ls arbitrary: st)
  case (Cons l ls)
  then show ?case
    by (auto simp: Let_def split: if_splits bind_splits intro: Cons.IH dump_line_wf)
qed simp

text \<open>
  C5: whatever a file contains and memory allows, the reader returns well-formed raw data when it
  returns: every table has the length of its C type and the counter is the length of the array. The
  error is \<^verbatim>\<open>ERR_BADFMT\<close> exactly for an empty array, and \<^verbatim>\<open>ERR_OPEN\<close>, with the data unchanged, for a
  file that cannot be opened.
\<close>

theorem deserialize_well_formed:
  "(\<forall>r a'. cpuid_deserialize_all_raw_data alloc a (Some s) e = Some (r, a') \<longrightarrow>
      unat (num_raw a') = length (raw_items a') \<and> (\<forall>raw \<in> set (raw_items a'). wf_raw raw) \<and>
      r = (if raw_items a' = [] then ERR_BADFMT else ERR_OK)) \<and>
    (\<forall>r raw'. cpuid_deserialize_raw_data alloc raw (Some s) e = Some (r, raw') \<longrightarrow>
      wf_raw raw' \<and> r = ERR_OK) \<and>
    cpuid_deserialize_all_raw_data alloc a None e = Some (ERR_OPEN, a)"
proof (intro conjI allI impI)
  have start: "dump_wf (dump_start t raw_data_t_constructor (cpu_raw_data_array_t_constructor False) e)" for t
    by (simp add: dump_wf_def dump_start_facts raw_array.wf_array_def cpu_raw_data_array_t_constructor_def)
  fix r a'
  assume run: "cpuid_deserialize_all_raw_data alloc a (Some s) e = Some (r, a')"
  obtain st where st: "dump_loop alloc True (file_lines s) (dump_start No_raw raw_data_t_constructor
      (cpu_raw_data_array_t_constructor False) e) = Some st"
    and a': "a' = raw_array st" and r: "r = (if num_raw a' = 0 then ERR_BADFMT else ERR_OK)"
    using run by (auto simp: cpuid_deserialize_all_raw_data_def cpuid_deserialize_raw_data_internal_def
        split: bind_splits)
  have wf: "dump_wf st" using dump_loop_wf [OF st start] .
  then have len: "unat (num_raw a') = length (raw_items a')"
    by (simp add: dump_wf_def a' raw_array.wf_array_def)
  then show "unat (num_raw a') = length (raw_items a')" .
  show "\<forall>raw \<in> set (raw_items a'). wf_raw raw" using wf by (simp add: dump_wf_def a')
  have "num_raw a' = 0 \<longleftrightarrow> raw_items a' = []" using len by (simp add: unat_eq_0 [symmetric])
  then show "r = (if raw_items a' = [] then ERR_BADFMT else ERR_OK)" using r by simp
next
  have start: "dump_wf (dump_start t raw_data_t_constructor (cpu_raw_data_array_t_constructor False) e)" for t
    by (simp add: dump_wf_def dump_start_facts raw_array.wf_array_def cpu_raw_data_array_t_constructor_def)
  fix r raw' assume run: "cpuid_deserialize_raw_data alloc raw (Some s) e = Some (r, raw')"
  obtain st where st: "dump_loop alloc False (file_lines s) (dump_start Single_raw raw_data_t_constructor
      (cpu_raw_data_array_t_constructor False) e) = Some st" and "raw' = single_raw st" "r = ERR_OK"
    using run by (auto simp: cpuid_deserialize_raw_data_def cpuid_deserialize_raw_data_internal_def
        split: bind_splits)
  then show "wf_raw raw'" "r = ERR_OK" using dump_loop_wf [OF st start] by (simp_all add: dump_wf_def)
next
  show "cpuid_deserialize_all_raw_data alloc a None e = Some (ERR_OPEN, a)"
    by (simp add: cpuid_deserialize_all_raw_data_def cpuid_deserialize_raw_data_internal_def)
qed

text \<open>A file with the header of one CPU only.\<close>

lemma header_only_read:
  "cpuid_deserialize_all_raw_data (\<lambda>_. True) a (Some (unlines [cpu_header 0])) e =
    Some (ERR_OK, \<lparr>with_affinity = True, num_raw = 1, raw_items = [raw_data_t_constructor]\<rparr>)"
proof -
  define st0 where "st0 = dump_start No_raw raw_data_t_constructor (cpu_raw_data_array_t_constructor False) e"
  define st1 where "st1 = select_item (\<lambda>_. True) True 0 (st0\<lparr>logical_cpu := 0, is_header := False\<rparr>)"
  have "file_lines (unlines [cpu_header 0]) = [cpu_header 0 @ [NL]]"
    using cpu_header_ordinary [of 0] file_lines_unlines [of "[cpu_header 0]"] by (simp add: ordinary_def)
  then have "dump_loop (\<lambda>_. True) True (file_lines (unlines [cpu_header 0])) st0 = Some st1"
    using dump_line_header [of st0 "\<lambda>_. True" 0] dump_loop_ordinary [OF cpu_header_ordinary, of "\<lambda>_. True" True 0 "[]" st0]
    by (simp add: st1_def st0_def dump_start_facts)
  moreover have "raw_array st1 = \<lparr>with_affinity = True, num_raw = 1, raw_items = [raw_data_t_constructor]\<rparr>"
    using select_next [of "st0\<lparr>logical_cpu := 0, is_header := False\<rparr>" 0 "\<lambda>_. True" True]
    by (simp add: st1_def st0_def dump_start_facts cpu_raw_data_array_t_constructor_def)
  ultimately show ?thesis
    by (simp add: cpuid_deserialize_all_raw_data_def cpuid_deserialize_raw_data_internal_def st0_def)
qed

theorem deserialize_well_formed_witness:
  "\<exists>r a'. cpuid_deserialize_all_raw_data (\<lambda>_. True) (cpu_raw_data_array_t_constructor False)
      (Some (unlines [cpu_header 0])) ERR_OK = Some (r, a') \<and>
    num_raw a' = 1 \<and> (\<forall>raw \<in> set (raw_items a'). wf_raw raw) \<and> r = ERR_OK"
  using deserialize_well_formed [of "\<lambda>_. True" "cpu_raw_data_array_t_constructor False"
      "unlines [cpu_header 0]" ERR_OK]
  by (simp add: header_only_read)

section \<open>Texts that are not read properly\<close>

lemma file_lines_first:
  "NL \<notin> set l \<Longrightarrow> length l < 99 \<Longrightarrow> file_lines (l @ NL # s) = (l @ [NL]) # file_lines s"
  using fgets_line [of l 99 s] by (simp add: file_lines.simps [of "l @ NL # s"])

text \<open>
  a library whose version has eight characters or more writes dumps that it cannot read: the
  version overruns the buffer of the reader.
\<close>

theorem raw_dump_long_version:
  assumes "8 \<le> length VERSION" and "length VERSION \<le> 90"
    and "\<forall>c \<in> set VERSION. \<not> c_isspace c \<and> c \<noteq> NUL"
    and "cpuid_serialize_raw_data_internal VERSION True src = Some (ERR_OK, s)"
  shows "cpuid_deserialize_raw_data_internal alloc dest (Some s) e = None"
proof -
  have "c_isspace NL" by (simp add: c_isspace_def)
  then have clean: "NL \<notin> set VERSION" "NUL \<notin> set VERSION" using assms(3) by blast+
  obtain ls where "s = unlines ((''version='' @ VERSION) # ls)"
    using assms(4) by (auto simp: cpuid_serialize_raw_data_internal_def split: sum.splits if_splits)
  then have lines: "file_lines s = (''version='' @ VERSION @ [NL]) # file_lines (unlines ls)"
    using file_lines_first [of "''version='' @ VERSION" "unlines ls"] assms(2) clean by (simp add: unlines_def)
  have "takeWhile (\<lambda>c. \<not> c_isspace c) VERSION = VERSION" "dropWhile c_isspace VERSION = VERSION"
    and "VERSION \<noteq> []"
    using assms(1,3) by (cases VERSION; auto simp: takeWhile_eq_all_conv)+
  moreover have "match_text ''version='' (''version='' @ VERSION) = Some VERSION" by (simp add: c_isspace_def)
  ultimately have scan: "sscanf [Text ''version='', Conv Str] (''version='' @ VERSION) = [Chars VERSION]"
    by (simp only: sscanf.simps option.case convert.simps Let_def if_False prod.case)
  have chomp: "chomp (''version='' @ VERSION @ [NL]) = ''version='' @ VERSION"
    using chomp_line [of "''version='' @ VERSION"] clean by simp
  have dashes: "''version='' @ VERSION \<noteq> replicate 80 (CHR ''-'')" by (simp add: numeral_eq_Suc)
  have "dump_line alloc u (''version='' @ VERSION) (dump_start t raw a e) = None" for u t raw a
    using assms(1) unfolding dump_line_def header_line_def scan by (simp add: dump_start_def)
  then have "dump_loop alloc u (file_lines s) (dump_start t raw a e) = None" for u t raw a
    using dashes unfolding lines dump_loop.simps chomp Let_def by simp
  then show ?thesis by (simp add: cpuid_deserialize_raw_data_internal_def split: sum.split)
qed

theorem raw_dump_long_version_witness:
  "\<exists>s. cpuid_serialize_raw_data_internal ''0.10.100'' True (Inl one_leaf) = Some (ERR_OK, s) \<and>
    cpuid_deserialize_raw_data_internal (\<lambda>_. True) (Inl raw_data_t_constructor) (Some s) ERR_OK = None"
proof -
  obtain s where "cpuid_serialize_raw_data_internal ''0.10.100'' True (Inl one_leaf) = Some (ERR_OK, s)"
    by (simp add: cpuid_serialize_raw_data_internal_def)
  moreover from this have "cpuid_deserialize_raw_data_internal (\<lambda>_. True) (Inl raw_data_t_constructor)
      (Some s) ERR_OK = None"
    by (rule raw_dump_long_version [rotated -1]) (simp_all add: c_isspace_def)
  ultimately show ?thesis by blast
qed

text \<open>A line of a report of AIDA64, with a subleaf of two decimal digits.\<close>

definition aida64_report :: "u32 \<Rightarrow> nat \<Rightarrow> cpu_regs_t \<Rightarrow> string" where
  "aida64_report addr sl r = ''CPUID '' @ hex8 addr @ '': '' @ hex8 (EAX r) @ ''-'' @ hex8 (EBX r) @ ''-'' @
     hex8 (ECX r) @ ''-'' @ hex8 (EDX r) @ '' [SL '' @ fixed_digits 10 2 sl @ '']''"

text \<open>\<^verbatim>\<open>%02i\<close> takes a leading zero for the mark of an octal number.\<close>

definition read_subleaf :: "nat \<Rightarrow> nat" where
  "read_subleaf sl = (if sl = 8 \<or> sl = 9 then 0 else sl)"

lemma scan_subleaf:
  assumes "sl < 100"
  shows "sscanf [Conv (Base0 2), Text '']''] (fixed_digits 10 2 sl @ '']'') = [Num (int (read_subleaf sl))]"
proof -
  have "\<forall>sl \<in> set [0..<100]. map_option (\<lambda>(neg, v, r). (neg, v)) (read_number 0 (fixed_digits 10 2 sl)) =
      Some (False, read_subleaf sl)" by code_simp
  then obtain r where num: "read_number 0 (fixed_digits 10 2 sl) = Some (False, read_subleaf sl, r)"
    using assms by fastforce
  have "set (fixed_digits 10 2 sl) \<subseteq> digit_char ` {..<10}" by (rule set_fixed_digits) simp
  then have "dropWhile c_isspace (fixed_digits 10 2 sl @ '']'') = fixed_digits 10 2 sl @ '']''"
    by (rule drop_space_digits) (auto simp: numeral_2_eq_2)
  moreover have "signed_take_bit 31 (c_strtol False (read_subleaf sl)) = int (read_subleaf sl)"
    using assms by (simp add: c_strtol_def read_subleaf_def signed_take_bit_int_eq_self_iff)
  ultimately show ?thesis using num by (simp split: option.split)
qed

lemma hex8_start: "dropWhile c_isspace (hex8 w @ r) = hex8 w @ r"
proof -
  have "hex8 w \<noteq> []" using hex8_clean(2) [of w] by auto
  moreover have "set (hex8 w) \<subseteq> digit_char ` {..<16}" unfolding hex8_def by (rule set_fixed_digits) simp
  ultimately show ?thesis using drop_space_digits [of "hex8 w" 16 r] by simp
qed

lemma number_ends_punct: "number_ends ('': '' @ r)" "number_ends (''-'' @ r)" "number_ends ('' [SL '' @ r)"
  by (simp_all add: number_ends_def is_digit_def digit_val_def)

lemma aida64_scan:
  assumes "sl < 100"
  shows "sscanf (aida64_leaf_format '': '') (aida64_report addr sl r) =
    [Num (uint addr), Num (uint (EAX r)), Num (uint (EBX r)), Num (uint (ECX r)), Num (uint (EDX r)),
     Num (int (read_subleaf sl))]"
proof -
  have start: "sscanf (Text ''CPUID '' # fs) (''CPUID '' @ hex8 w @ s) = sscanf fs (hex8 w @ s)" for fs w s
    by (simp add: c_isspace_def hex8_start)
  have colon: "sscanf (Text '': '' # fs) ('': '' @ hex8 w @ s) = sscanf fs (hex8 w @ s)" for fs w s
    by (simp add: c_isspace_def hex8_start)
  have dash: "sscanf (Text ''-'' # fs) (''-'' @ s) = sscanf fs s" for fs s by (simp add: c_isspace_def)
  have sl: "sscanf (Text '' [SL '' # fs) ('' [SL '' @ s) = sscanf fs s" if "dropWhile c_isspace s = s" for fs s
    using that by (simp add: c_isspace_def)
  have digits: "dropWhile c_isspace (fixed_digits 10 2 sl @ '']'') = fixed_digits 10 2 sl @ '']''"
    by (rule drop_space_digits [OF set_fixed_digits]) (auto simp: numeral_2_eq_2)
  show ?thesis
    unfolding aida64_report_def aida64_leaf_format_def
    by (simp only: start colon dash sscanf_hex8(1) [OF number_ends_punct(1)] sscanf_hex8(1) [OF number_ends_punct(2)]
        sscanf_hex8(1) [OF number_ends_punct(3)] sl [OF digits] scan_subleaf [OF assms])
qed

lemma hex8_not_R: "hd (hex8 w @ s) \<noteq> CHR ''R'' \<and> hex8 w @ s \<noteq> []"
proof -
  have "\<forall>d \<in> set [0..<16]. digit_char d \<noteq> CHR ''R''" by code_simp
  moreover have ne: "hex8 w \<noteq> []" using hex8_clean(2) [of w] by auto
  moreover have "set (hex8 w) \<subseteq> digit_char ` {..<16}" unfolding hex8_def by (rule set_fixed_digits) simp
  ultimately have "hd (hex8 w) \<noteq> CHR ''R''" using hd_in_set [OF ne] by fastforce
  with ne show ?thesis by simp
qed

lemma aida64_report_no_cpu: "first_number aida64_cpu_formats (aida64_report addr sl r) = None"
proof -
  obtain d ds where d: "hex8 addr @ '': '' @ hex8 (EAX r) @ ''-'' @ hex8 (EBX r) @ ''-'' @
     hex8 (ECX r) @ ''-'' @ hex8 (EDX r) @ '' [SL '' @ fixed_digits 10 2 sl @ '']'' = d # ds" and "d \<noteq> CHR ''R''"
    using hex8_not_R by (metis list.collapse)
  moreover have "dropWhile c_isspace (d # ds) = d # ds" unfolding d [symmetric] by (rule hex8_start)
  ultimately show ?thesis
    unfolding aida64_report_def d by (simp add: aida64_cpu_formats_def c_isspace_def)
qed

text \<open>
  a line of a report of AIDA64 is stored at its leaf and subleaf, except that the subleaves 8
  and 9, printed as \<^verbatim>\<open>08\<close> and \<^verbatim>\<open>09\<close>, are taken for the subleaf 0, whose registers they overwrite. A
  subleaf beyond the end of its table is stored outside of it.
\<close>

theorem aida64_subleaf:
  assumes "is_aida64_dump st" and "\<not> is_libcpuid_dump st" and "\<not> is_header st" and "sl < 100"
    and "dump_wf st"
  shows "dump_line alloc u (aida64_report addr sl r) st =
      (if sl = 8 \<or> sl = 9 then dump_line alloc u (aida64_report addr 0 r) st
       else if sl = 0 then leaf_store (uint addr) r st \<bind> subleaf_store (uint addr) 0 r
       else case subleaf_table (uint addr) of
         None \<Rightarrow> Some st
       | Some t \<Rightarrow> if sl < x86_size t then store_line (Store_x86 t sl r) st else None)"
proof -
  have line: "dump_line alloc u (aida64_report addr sl r) st =
      aida64_store [Num (uint addr), Num (uint (EAX r)), Num (uint (EBX r)), Num (uint (ECX r)),
        Num (uint (EDX r)), Num (int (read_subleaf sl))] st" if "sl < 100" for sl
    using assms(1-3) aida64_scan [OF that, of addr r]
    by (simp add: dump_line_def aida64_line_def aida64_report_no_cpu Let_def del: aida64_store.simps)
  have out: "store_line (Store_x86 t sl r) st = None" if "x86_size t \<le> sl" for t
    using that assms(5)
    by (auto simp: store_line_def list_store_def dump_wf_def wf_raw_tables split: raw_target.split)
  show ?thesis
    using line [OF assms(4)] line [of 0] out
    by (auto simp: read_subleaf_def x86_regs_uint subleaf_store_def split: option.split)
qed

theorem aida64_subleaf_witness:
  "dump_line (\<lambda>_. True) False (aida64_report 4 8 regs_zero)
      ((dump_start Single_raw raw_data_t_constructor (cpu_raw_data_array_t_constructor False) ERR_OK)
        \<lparr>is_header := False, is_libcpuid_dump := False, is_aida64_dump := True\<rparr>) =
    dump_line (\<lambda>_. True) False (aida64_report 4 0 regs_zero)
      ((dump_start Single_raw raw_data_t_constructor (cpu_raw_data_array_t_constructor False) ERR_OK)
        \<lparr>is_header := False, is_libcpuid_dump := False, is_aida64_dump := True\<rparr>)"
  by (subst aida64_subleaf)
    (simp_all add: dump_start_facts dump_wf_def raw_array.wf_array_def cpu_raw_data_array_t_constructor_def)

end
