(* ===== verification/Arm_Driver.thy ===== *)
theory Arm_Driver
  imports Raw_Access C_Stdio "HOL-Library.Multiset"
begin

text \<open>
  Reading the ARM identification registers through the kernel: the requests of
  \<^verbatim>\<open>libcpuid_arm_driver.h\<close>, the kernel module \<^verbatim>\<open>drivers/arm/linux/cpuid.c\<close> and its client
  \<^verbatim>\<open>rdcpuid.c\<close>, in their Linux variant.

  What is outside of the repository is a field of the record \<open>arm_os\<close>: the values of the registers
  (by the name that \<^verbatim>\<open>mrs\<close> or the coprocessor operands that \<^verbatim>\<open>mrc\<close> gives them) on each processor, what
  the kernel's helpers answer, and what the file system says of a path.
\<close>

section \<open>Requests\<close>

text \<open>The names of the registers, and the requests, in the order of the enumeration.\<close>

abbreviation (input) AARCH64_REG_MIDR_EL1 :: string where "AARCH64_REG_MIDR_EL1 \<equiv> ''S3_0_C0_C0_0''"
abbreviation (input) AARCH64_REG_MPIDR_EL1 :: string where "AARCH64_REG_MPIDR_EL1 \<equiv> ''S3_0_C0_C0_5''"
abbreviation (input) AARCH64_REG_REVIDR_EL1 :: string where "AARCH64_REG_REVIDR_EL1 \<equiv> ''S3_0_C0_C0_6''"
abbreviation (input) AARCH64_REG_ID_AFR0 :: string where "AARCH64_REG_ID_AFR0 \<equiv> ''S3_0_C0_C1_3''"
abbreviation (input) AARCH64_REG_ID_DFR0 :: string where "AARCH64_REG_ID_DFR0 \<equiv> ''S3_0_C0_C1_2''"
abbreviation (input) AARCH64_REG_ID_DFR1 :: string where "AARCH64_REG_ID_DFR1 \<equiv> ''S3_0_C0_C3_5''"
abbreviation (input) AARCH64_REG_ID_ISAR0 :: string where "AARCH64_REG_ID_ISAR0 \<equiv> ''S3_0_C0_C2_0''"
abbreviation (input) AARCH64_REG_ID_ISAR1 :: string where "AARCH64_REG_ID_ISAR1 \<equiv> ''S3_0_C0_C2_1''"
abbreviation (input) AARCH64_REG_ID_ISAR2 :: string where "AARCH64_REG_ID_ISAR2 \<equiv> ''S3_0_C0_C2_2''"
abbreviation (input) AARCH64_REG_ID_ISAR3 :: string where "AARCH64_REG_ID_ISAR3 \<equiv> ''S3_0_C0_C2_3''"
abbreviation (input) AARCH64_REG_ID_ISAR4 :: string where "AARCH64_REG_ID_ISAR4 \<equiv> ''S3_0_C0_C2_4''"
abbreviation (input) AARCH64_REG_ID_ISAR5 :: string where "AARCH64_REG_ID_ISAR5 \<equiv> ''S3_0_C0_C2_5''"
abbreviation (input) AARCH64_REG_ID_ISAR6 :: string where "AARCH64_REG_ID_ISAR6 \<equiv> ''S3_0_C0_C2_7''"
abbreviation (input) AARCH64_REG_ID_MMFR0 :: string where "AARCH64_REG_ID_MMFR0 \<equiv> ''S3_0_C0_C1_4''"
abbreviation (input) AARCH64_REG_ID_MMFR1 :: string where "AARCH64_REG_ID_MMFR1 \<equiv> ''S3_0_C0_C1_5''"
abbreviation (input) AARCH64_REG_ID_MMFR2 :: string where "AARCH64_REG_ID_MMFR2 \<equiv> ''S3_0_C0_C1_6''"
abbreviation (input) AARCH64_REG_ID_MMFR3 :: string where "AARCH64_REG_ID_MMFR3 \<equiv> ''S3_0_C0_C1_7''"
abbreviation (input) AARCH64_REG_ID_MMFR4 :: string where "AARCH64_REG_ID_MMFR4 \<equiv> ''S3_0_C0_C2_6''"
abbreviation (input) AARCH64_REG_ID_MMFR5 :: string where "AARCH64_REG_ID_MMFR5 \<equiv> ''S3_0_C0_C3_6''"
abbreviation (input) AARCH64_REG_ID_PFR0 :: string where "AARCH64_REG_ID_PFR0 \<equiv> ''S3_0_C0_C1_0''"
abbreviation (input) AARCH64_REG_ID_PFR1 :: string where "AARCH64_REG_ID_PFR1 \<equiv> ''S3_0_C0_C1_1''"
abbreviation (input) AARCH64_REG_ID_PFR2 :: string where "AARCH64_REG_ID_PFR2 \<equiv> ''S3_0_C0_C3_4''"
abbreviation (input) AARCH64_REG_ID_AA64AFR0_EL1 :: string where "AARCH64_REG_ID_AA64AFR0_EL1 \<equiv> ''S3_0_C0_C5_4''"
abbreviation (input) AARCH64_REG_ID_AA64AFR1_EL1 :: string where "AARCH64_REG_ID_AA64AFR1_EL1 \<equiv> ''S3_0_C0_C5_5''"
abbreviation (input) AARCH64_REG_ID_AA64DFR0_EL1 :: string where "AARCH64_REG_ID_AA64DFR0_EL1 \<equiv> ''S3_0_C0_C5_0''"
abbreviation (input) AARCH64_REG_ID_AA64DFR1_EL1 :: string where "AARCH64_REG_ID_AA64DFR1_EL1 \<equiv> ''S3_0_C0_C5_1''"
abbreviation (input) AARCH64_REG_ID_AA64DFR2_EL1 :: string where "AARCH64_REG_ID_AA64DFR2_EL1 \<equiv> ''S3_0_C0_C5_2''"
abbreviation (input) AARCH64_REG_ID_AA64FPFR0_EL1 :: string where "AARCH64_REG_ID_AA64FPFR0_EL1 \<equiv> ''S3_0_C0_C4_7''"
abbreviation (input) AARCH64_REG_ID_AA64ISAR0_EL1 :: string where "AARCH64_REG_ID_AA64ISAR0_EL1 \<equiv> ''S3_0_C0_C6_0''"
abbreviation (input) AARCH64_REG_ID_AA64ISAR1_EL1 :: string where "AARCH64_REG_ID_AA64ISAR1_EL1 \<equiv> ''S3_0_C0_C6_1''"
abbreviation (input) AARCH64_REG_ID_AA64ISAR2_EL1 :: string where "AARCH64_REG_ID_AA64ISAR2_EL1 \<equiv> ''S3_0_C0_C6_2''"
abbreviation (input) AARCH64_REG_ID_AA64ISAR3_EL1 :: string where "AARCH64_REG_ID_AA64ISAR3_EL1 \<equiv> ''S3_0_C0_C6_3''"
abbreviation (input) AARCH64_REG_ID_AA64MMFR0_EL1 :: string where "AARCH64_REG_ID_AA64MMFR0_EL1 \<equiv> ''S3_0_C0_C7_0''"
abbreviation (input) AARCH64_REG_ID_AA64MMFR1_EL1 :: string where "AARCH64_REG_ID_AA64MMFR1_EL1 \<equiv> ''S3_0_C0_C7_1''"
abbreviation (input) AARCH64_REG_ID_AA64MMFR2_EL1 :: string where "AARCH64_REG_ID_AA64MMFR2_EL1 \<equiv> ''S3_0_C0_C7_2''"
abbreviation (input) AARCH64_REG_ID_AA64MMFR3_EL1 :: string where "AARCH64_REG_ID_AA64MMFR3_EL1 \<equiv> ''S3_0_C0_C7_3''"
abbreviation (input) AARCH64_REG_ID_AA64MMFR4_EL1 :: string where "AARCH64_REG_ID_AA64MMFR4_EL1 \<equiv> ''S3_0_C0_C7_4''"
abbreviation (input) AARCH64_REG_ID_AA64PFR0_EL1 :: string where "AARCH64_REG_ID_AA64PFR0_EL1 \<equiv> ''S3_0_C0_C4_0''"
abbreviation (input) AARCH64_REG_ID_AA64PFR1_EL1 :: string where "AARCH64_REG_ID_AA64PFR1_EL1 \<equiv> ''S3_0_C0_C4_1''"
abbreviation (input) AARCH64_REG_ID_AA64PFR2_EL1 :: string where "AARCH64_REG_ID_AA64PFR2_EL1 \<equiv> ''S3_0_C0_C4_2''"
abbreviation (input) AARCH64_REG_ID_AA64SMFR0_EL1 :: string where "AARCH64_REG_ID_AA64SMFR0_EL1 \<equiv> ''S3_0_C0_C4_5''"
abbreviation (input) AARCH64_REG_ID_AA64ZFR0_EL1 :: string where "AARCH64_REG_ID_AA64ZFR0_EL1 \<equiv> ''S3_0_C0_C4_4''"

datatype reg_request_t =
  REQ_MIDR | REQ_MPIDR | REQ_REVIDR | REQ_ID_AFR0 | REQ_ID_DFR0 | REQ_ID_DFR1
  | REQ_ID_ISAR0 | REQ_ID_ISAR1 | REQ_ID_ISAR2 | REQ_ID_ISAR3 | REQ_ID_ISAR4 | REQ_ID_ISAR5
  | REQ_ID_ISAR6 | REQ_ID_MMFR0 | REQ_ID_MMFR1 | REQ_ID_MMFR2 | REQ_ID_MMFR3 | REQ_ID_MMFR4
  | REQ_ID_MMFR5 | REQ_ID_PFR0 | REQ_ID_PFR1 | REQ_ID_PFR2 | REQ_ID_AA64AFR0 | REQ_ID_AA64AFR1
  | REQ_ID_AA64DFR0 | REQ_ID_AA64DFR1 | REQ_ID_AA64DFR2 | REQ_ID_AA64FPFR0 | REQ_ID_AA64ISAR0 | REQ_ID_AA64ISAR1
  | REQ_ID_AA64ISAR2 | REQ_ID_AA64ISAR3 | REQ_ID_AA64MMFR0 | REQ_ID_AA64MMFR1 | REQ_ID_AA64MMFR2 | REQ_ID_AA64MMFR3
  | REQ_ID_AA64MMFR4 | REQ_ID_AA64PFR0 | REQ_ID_AA64PFR1 | REQ_ID_AA64PFR2 | REQ_ID_AA64SMFR0 | REQ_ID_AA64ZFR0

datatype reg_value = Value_32b | Value_64b

text \<open>
  The \<^verbatim>\<open>switch\<close> of \<^verbatim>\<open>__read_reg_on_cpu\<close>: the request, the member of the union that receives the value, the
  operands of \<^verbatim>\<open>mrc\<close> (AArch32) and the register of \<^verbatim>\<open>mrs\<close> (AArch64). The second list is compiled for AArch64
  only.
\<close>

definition sysregs_common :: "(reg_request_t \<times> reg_value \<times> string \<times> string) list" where
  "sysregs_common =
    [(REQ_MIDR, Value_64b, ''p15, 0, %0, c0, c0, 0'', AARCH64_REG_MIDR_EL1),
     (REQ_MPIDR, Value_64b, ''p15, 0, %0, c0, c0, 5'', AARCH64_REG_MPIDR_EL1),
     (REQ_REVIDR, Value_64b, ''p15, 0, %0, c0, c0, 6'', AARCH64_REG_REVIDR_EL1),
     (REQ_ID_AFR0, Value_32b, ''p15, 0, %0, c0, c1, 3'', AARCH64_REG_ID_AFR0),
     (REQ_ID_DFR0, Value_32b, ''p15, 0, %0, c0, c1, 2'', AARCH64_REG_ID_DFR0),
     (REQ_ID_DFR1, Value_32b, ''p15, 0, %0, c0, c3, 5'', AARCH64_REG_ID_DFR1),
     (REQ_ID_ISAR0, Value_32b, ''p15, 0, %0, c0, c2, 0'', AARCH64_REG_ID_ISAR0),
     (REQ_ID_ISAR1, Value_32b, ''p15, 0, %0, c0, c2, 1'', AARCH64_REG_ID_ISAR1),
     (REQ_ID_ISAR2, Value_32b, ''p15, 0, %0, c0, c2, 2'', AARCH64_REG_ID_ISAR2),
     (REQ_ID_ISAR3, Value_32b, ''p15, 0, %0, c0, c2, 3'', AARCH64_REG_ID_ISAR3),
     (REQ_ID_ISAR4, Value_32b, ''p15, 0, %0, c0, c2, 4'', AARCH64_REG_ID_ISAR4),
     (REQ_ID_ISAR5, Value_32b, ''p15, 0, %0, c0, c2, 5'', AARCH64_REG_ID_ISAR5),
     (REQ_ID_ISAR6, Value_32b, ''p15, 0, %0, c0, c2, 7'', AARCH64_REG_ID_ISAR6),
     (REQ_ID_MMFR0, Value_32b, ''p15, 0, %0, c0, c1, 4'', AARCH64_REG_ID_MMFR0),
     (REQ_ID_MMFR1, Value_32b, ''p15, 0, %0, c0, c1, 5'', AARCH64_REG_ID_MMFR1),
     (REQ_ID_MMFR2, Value_32b, ''p15, 0, %0, c0, c1, 6'', AARCH64_REG_ID_MMFR2),
     (REQ_ID_MMFR3, Value_32b, ''p15, 0, %0, c0, c1, 7'', AARCH64_REG_ID_MMFR3),
     (REQ_ID_MMFR4, Value_32b, ''p15, 0, %0, c0, c2, 6'', AARCH64_REG_ID_MMFR4),
     (REQ_ID_MMFR5, Value_32b, ''p15, 0, %0, c0, c3, 6'', AARCH64_REG_ID_MMFR5),
     (REQ_ID_PFR0, Value_32b, ''p15, 0, %0, c0, c1, 0'', AARCH64_REG_ID_PFR0),
     (REQ_ID_PFR1, Value_32b, ''p15, 0, %0, c0, c1, 1'', AARCH64_REG_ID_PFR1),
     (REQ_ID_PFR2, Value_32b, ''p15, 0, %0, c0, c3, 4'', AARCH64_REG_ID_PFR2)]"

definition sysregs_aa64 :: "(reg_request_t \<times> reg_value \<times> string \<times> string) list" where
  "sysregs_aa64 =
    [(REQ_ID_AA64AFR0, Value_64b, '''', AARCH64_REG_ID_AA64AFR0_EL1),
     (REQ_ID_AA64AFR1, Value_64b, '''', AARCH64_REG_ID_AA64AFR1_EL1),
     (REQ_ID_AA64DFR0, Value_64b, '''', AARCH64_REG_ID_AA64DFR0_EL1),
     (REQ_ID_AA64DFR1, Value_64b, '''', AARCH64_REG_ID_AA64DFR1_EL1),
     (REQ_ID_AA64DFR2, Value_64b, '''', AARCH64_REG_ID_AA64DFR2_EL1),
     (REQ_ID_AA64FPFR0, Value_64b, '''', AARCH64_REG_ID_AA64FPFR0_EL1),
     (REQ_ID_AA64ISAR0, Value_64b, '''', AARCH64_REG_ID_AA64ISAR0_EL1),
     (REQ_ID_AA64ISAR1, Value_64b, '''', AARCH64_REG_ID_AA64ISAR1_EL1),
     (REQ_ID_AA64ISAR2, Value_64b, '''', AARCH64_REG_ID_AA64ISAR2_EL1),
     (REQ_ID_AA64ISAR3, Value_64b, '''', AARCH64_REG_ID_AA64ISAR3_EL1),
     (REQ_ID_AA64MMFR0, Value_64b, '''', AARCH64_REG_ID_AA64MMFR0_EL1),
     (REQ_ID_AA64MMFR1, Value_64b, '''', AARCH64_REG_ID_AA64MMFR1_EL1),
     (REQ_ID_AA64MMFR2, Value_64b, '''', AARCH64_REG_ID_AA64MMFR2_EL1),
     (REQ_ID_AA64MMFR3, Value_64b, '''', AARCH64_REG_ID_AA64MMFR3_EL1),
     (REQ_ID_AA64MMFR4, Value_64b, '''', AARCH64_REG_ID_AA64MMFR4_EL1),
     (REQ_ID_AA64PFR0, Value_64b, '''', AARCH64_REG_ID_AA64PFR0_EL1),
     (REQ_ID_AA64PFR1, Value_64b, '''', AARCH64_REG_ID_AA64PFR1_EL1),
     (REQ_ID_AA64PFR2, Value_64b, '''', AARCH64_REG_ID_AA64PFR2_EL1),
     (REQ_ID_AA64SMFR0, Value_64b, '''', AARCH64_REG_ID_AA64SMFR0_EL1),
     (REQ_ID_AA64ZFR0, Value_64b, '''', AARCH64_REG_ID_AA64ZFR0_EL1)]"

definition sysregs :: "bool \<Rightarrow> (reg_request_t \<times> reg_value \<times> string \<times> string) list" where
  "sysregs aarch64 = sysregs_common @ (if aarch64 then sysregs_aa64 else [])"

text \<open>
  The value of a request as an \<^verbatim>\<open>int\<close>: the client computes with it (\<^verbatim>\<open>REQ_ID_ISAR0 + i\<close>). Both builds give the
  common requests the same numbers; \<^verbatim>\<open>NUM_REG_REQUESTS\<close> depends on the build.
\<close>

definition reg_requests :: "reg_request_t list" where
  "reg_requests =
    [REQ_MIDR, REQ_MPIDR, REQ_REVIDR, REQ_ID_AFR0, REQ_ID_DFR0, REQ_ID_DFR1, REQ_ID_ISAR0,
     REQ_ID_ISAR1, REQ_ID_ISAR2, REQ_ID_ISAR3, REQ_ID_ISAR4, REQ_ID_ISAR5, REQ_ID_ISAR6,
     REQ_ID_MMFR0, REQ_ID_MMFR1, REQ_ID_MMFR2, REQ_ID_MMFR3, REQ_ID_MMFR4, REQ_ID_MMFR5,
     REQ_ID_PFR0, REQ_ID_PFR1, REQ_ID_PFR2, REQ_ID_AA64AFR0, REQ_ID_AA64AFR1, REQ_ID_AA64DFR0,
     REQ_ID_AA64DFR1, REQ_ID_AA64DFR2, REQ_ID_AA64FPFR0, REQ_ID_AA64ISAR0, REQ_ID_AA64ISAR1,
     REQ_ID_AA64ISAR2, REQ_ID_AA64ISAR3, REQ_ID_AA64MMFR0, REQ_ID_AA64MMFR1, REQ_ID_AA64MMFR2,
     REQ_ID_AA64MMFR3, REQ_ID_AA64MMFR4, REQ_ID_AA64PFR0, REQ_ID_AA64PFR1, REQ_ID_AA64PFR2,
     REQ_ID_AA64SMFR0, REQ_ID_AA64ZFR0]"

fun index_of :: "'a \<Rightarrow> 'a list \<Rightarrow> int" where
  "index_of x [] = 0"
| "index_of x (y # ys) = (if x = y then 0 else 1 + index_of x ys)"

definition request_code :: "reg_request_t \<Rightarrow> int" where
  "request_code r = index_of r reg_requests"

abbreviation (input) REQ_INVALID :: int where "REQ_INVALID \<equiv> -1"

text \<open>\<^verbatim>\<open>struct read_reg_t\<close>: the union is its 64 bits; \<^verbatim>\<open>value_32b\<close> is their low half (little endian).\<close>

record read_reg_t =
  request :: int
  value_64b :: u64

definition value_32b :: "read_reg_t \<Rightarrow> u32" where
  "value_32b r = ucast (value_64b r)"

definition set_value_32b :: "u32 \<Rightarrow> read_reg_t \<Rightarrow> read_reg_t" where
  "set_value_32b v r = r\<lparr>value_64b := (value_64b r AND 0xFFFFFFFF00000000) OR ucast v\<rparr>"

section \<open>The machine\<close>

datatype open_result = Opened int | Open_EIO | Open_failed

text \<open>
  \<open>sysreg\<close> is the value a processor gives for a register; on AArch32 only its low half exists, and
  \<open>pair_high\<close> is what the second register of a pair holds when the assembler gets a 64-bit operand.
\<close>

record 'm arm_os =
  arm_base :: "'m os"
  arm_aarch64 :: bool
  sysreg :: "nat \<Rightarrow> string \<Rightarrow> u64"
  mrs :: "'m \<Rightarrow> string \<Rightarrow> u64"
  pair_high :: u32
  smp_call :: "nat \<Rightarrow> int"
  copy_from_user_ok :: bool
  copy_to_user_ok :: bool
  path_exists :: "string \<Rightarrow> bool"
  path_readable :: "string \<Rightarrow> bool"
  is_root :: bool
  modprobe_ok :: bool
  open_path :: "string \<Rightarrow> open_result"
  fd_minor :: "int \<Rightarrow> nat"
  fd_readable :: "int \<Rightarrow> bool"
  malloc_ok :: bool

section \<open>The kernel module\<close>

abbreviation (input) EBADF :: int where "EBADF \<equiv> 9"
abbreviation (input) EFAULT :: int where "EFAULT \<equiv> 14"
abbreviation (input) EBUSY :: int where "EBUSY \<equiv> 16"
abbreviation (input) ENOTTY :: int where "ENOTTY \<equiv> 25"

definition cpuid_read_sysreg :: "'m arm_os \<Rightarrow> nat \<Rightarrow> string \<Rightarrow> string \<Rightarrow> u64" where
  "cpuid_read_sysreg os cpu aarch32 aarch64 =
     (if arm_aarch64 os then sysreg os cpu aarch64
      else (push_bit 32 (ucast (pair_high os)) OR ucast (ucast (sysreg os cpu aarch32) :: u32)))"

definition read_reg_on_cpu :: "'m arm_os \<Rightarrow> nat \<Rightarrow> read_reg_t \<Rightarrow> read_reg_t" where
  "read_reg_on_cpu os cpu r =
     (let r = r\<lparr>value_64b := 0\<rparr> in
      case List.find (\<lambda>row. request_code (fst row) = request r) (sysregs (arm_aarch64 os)) of
        Some (_, Value_64b, a32, a64) \<Rightarrow> r\<lparr>value_64b := cpuid_read_sysreg os cpu a32 a64\<rparr>
      | Some (_, Value_32b, a32, a64) \<Rightarrow> set_value_32b (ucast (cpuid_read_sysreg os cpu a32 a64)) r
      | None \<Rightarrow> r\<lparr>request := REQ_INVALID\<rparr>)"

datatype ioctl_request = ARM_IOC_READ_REG | Other_ioctl

text \<open>
  \<^verbatim>\<open>cpuid_ioctl(file, ioc, arg)\<close> on the open file \<open>fd\<close>: its error, and the structure at \<^verbatim>\<open>arg\<close> afterwards.
\<close>

definition cpuid_ioctl ::
    "'m arm_os \<Rightarrow> int \<Rightarrow> ioctl_request \<Rightarrow> read_reg_t \<Rightarrow> int \<times> read_reg_t" where
  "cpuid_ioctl os fd ioc arg =
     (let cpu = fd_minor os fd in
      case ioc of
        ARM_IOC_READ_REG \<Rightarrow>
          if \<not> fd_readable os fd then (- EBADF, arg)
          else if \<not> copy_from_user_ok os then (- EFAULT, arg)
          else
            let err = smp_call os cpu in
            if err \<noteq> 0 then (err, arg)
            else if \<not> copy_to_user_ok os then (- EFAULT, arg)
            else (0, read_reg_on_cpu os cpu arg)
      | Other_ioctl \<Rightarrow> (- ENOTTY, arg))"

text \<open>
  Loading and unloading the module. Its state is what it has registered with the kernel; the hotplug
  state calls \<^verbatim>\<open>cpuid_device_create\<close> for every processor that is online when it is set up, and
  \<^verbatim>\<open>cpuid_device_destroy\<close> when it is removed.
\<close>

record cpuid_module =
  chrdev :: bool
  cpuid_class :: bool
  cpuhp_cpuid_state :: int
  hotplug :: bool
  minors :: "nat list"

definition cpuid_devnode :: "nat \<Rightarrow> string" where
  "cpuid_devnode minor = ''cpu/'' @ dec_digits minor @ ''/cpuid''"

definition cpuid_device_create :: "nat \<Rightarrow> cpuid_module \<Rightarrow> cpuid_module" where
  "cpuid_device_create cpu m = m\<lparr>minors := cpu # minors m\<rparr>"

definition cpuid_device_destroy :: "nat \<Rightarrow> cpuid_module \<Rightarrow> cpuid_module" where
  "cpuid_device_destroy cpu m = m\<lparr>minors := remove1 cpu (minors m)\<rparr>"

definition cpuid_init ::
    "bool \<Rightarrow> int \<Rightarrow> int \<Rightarrow> nat list \<Rightarrow> cpuid_module \<Rightarrow> int \<times> cpuid_module" where
  "cpuid_init chrdev_ok class_err setup online m =
     (if \<not> chrdev_ok then (- EBUSY, m)
      else
        let m = m\<lparr>chrdev := True\<rparr> in
        if class_err \<noteq> 0 then (class_err, m\<lparr>chrdev := False\<rparr>)
        else
          let m = m\<lparr>cpuid_class := True\<rparr> in
          if setup < 0 then (setup, m\<lparr>cpuid_class := False, chrdev := False\<rparr>)
          else (0, (fold cpuid_device_create online m)\<lparr>hotplug := True, cpuhp_cpuid_state := setup\<rparr>))"

definition cpuid_exit :: "nat list \<Rightarrow> cpuid_module \<Rightarrow> cpuid_module" where
  "cpuid_exit online m =
     (fold cpuid_device_destroy online m)\<lparr>hotplug := False, cpuid_class := False, chrdev := False\<rparr>"

section \<open>The client\<close>

abbreviation (input) CPUID_PATH_LEN :: nat where "CPUID_PATH_LEN \<equiv> 32"

definition load_driver :: "'m arm_os \<Rightarrow> string \<Rightarrow> bool" where
  "load_driver os path =
     (let file_exists = path_exists os path; file_readable = path_readable os path in
      if file_exists \<and> file_readable then True
      else if file_exists \<and> \<not> file_readable then False
      else if \<not> is_root os then False
      else modprobe_ok os)"

definition driver_path :: "u32 \<Rightarrow> string" where
  "driver_path core_num =
     take (CPUID_PATH_LEN - 1) (''/dev/cpu/'' @ dec_digits (unat core_num) @ ''/cpuid'')"

text \<open>A handle is the descriptor of the open file.\<close>

definition cpu_cpuid_driver_open_core ::
    "'m arm_os \<Rightarrow> u32 \<Rightarrow> 'm thread \<Rightarrow> int option \<times> 'm thread" where
  "cpu_cpuid_driver_open_core os core_num th =
     (if core_num \<ge> of_int (os_total_cpus (arm_base os)) then (None, snd (cpuid_set_error ERR_INVCNB th))
      else
        let path = driver_path core_num in
        if \<not> load_driver os path then (None, snd (cpuid_set_error ERR_NO_DRIVER th))
        else case open_path os path of
            Open_EIO \<Rightarrow> (None, snd (cpuid_set_error ERR_NO_CPUID th))
          | Open_failed \<Rightarrow> (None, snd (cpuid_set_error ERR_NO_DRIVER th))
          | Opened fd \<Rightarrow>
              if \<not> malloc_ok os then (None, snd (cpuid_set_error ERR_NO_MEM th)) else (Some fd, th))"

text \<open>
  The structure that is passed to the kernel is not initialised but for its request; the kernel overwrites the
  value (\<open>value_64b = 0\<close> here).
\<close>

definition cpu_read_arm_register_32b ::
    "'m arm_os \<Rightarrow> int option \<Rightarrow> int \<Rightarrow> u32 \<Rightarrow> 'm thread \<Rightarrow> cpu_error_t \<times> u32 \<times> 'm thread" where
  "cpu_read_arm_register_32b os driver req result th =
     (case driver of
        None \<Rightarrow> (ERR_HANDLE, result, snd (cpuid_set_error ERR_HANDLE th))
      | Some fd \<Rightarrow>
          if fd < 0 then (ERR_HANDLE, result, snd (cpuid_set_error ERR_HANDLE th))
          else
            let (err, read_reg) = cpuid_ioctl os fd ARM_IOC_READ_REG \<lparr>request = req, value_64b = 0\<rparr> in
            if err \<noteq> 0 then (ERR_IOCTL, result, snd (cpuid_set_error ERR_IOCTL th))
            else if request read_reg = REQ_INVALID then
              (ERR_REQUEST, result, snd (cpuid_set_error ERR_REQUEST th))
            else (ERR_OK, value_32b read_reg, th))"

definition cpu_read_arm_register_64b ::
    "'m arm_os \<Rightarrow> int option \<Rightarrow> int \<Rightarrow> u64 \<Rightarrow> 'm thread \<Rightarrow> cpu_error_t \<times> u64 \<times> 'm thread" where
  "cpu_read_arm_register_64b os driver req result th =
     (case driver of
        None \<Rightarrow> (ERR_HANDLE, result, snd (cpuid_set_error ERR_HANDLE th))
      | Some fd \<Rightarrow>
          if fd < 0 then (ERR_HANDLE, result, snd (cpuid_set_error ERR_HANDLE th))
          else
            let (err, read_reg) = cpuid_ioctl os fd ARM_IOC_READ_REG \<lparr>request = req, value_64b = 0\<rparr> in
            if err \<noteq> 0 then (ERR_IOCTL, result, snd (cpuid_set_error ERR_IOCTL th))
            else if request read_reg = REQ_INVALID then
              (ERR_REQUEST, result, snd (cpuid_set_error ERR_REQUEST th))
            else (ERR_OK, value_64b read_reg, th))"

section \<open>The path and the module\<close>

text \<open>The path that the client opens is the device file of the kernel module.\<close>

lemma driver_path_devnode: "driver_path core_num = ''/dev/'' @ cpuid_devnode (unat core_num)"
proof -
  have "length (dec_digits (unat core_num)) \<le> 10"
    using unsigned_less [of core_num, where 'a = nat] by (intro length_dec_digits) simp_all
  then show ?thesis by (simp add: driver_path_def cpuid_devnode_def)
qed

lemma minors_create: "minors (fold cpuid_device_create cpus m) = rev cpus @ minors m"
  by (induction cpus arbitrary: m) (simp_all add: cpuid_device_create_def)

lemma minors_destroy:
  "mset created = mset cpus \<Longrightarrow> minors m = created @ rest \<Longrightarrow> minors (fold cpuid_device_destroy cpus m) = rest"
proof (induction cpus arbitrary: created m)
  case (Cons cpu cpus)
  then have "cpu \<in> set created" by (metis list.set_intros(1) mset_eq_setD)
  then have "minors (cpuid_device_destroy cpu m) = remove1 cpu created @ rest"
    using Cons.prems by (simp add: cpuid_device_destroy_def remove1_append)
  moreover have "mset (remove1 cpu created) = mset cpus" using Cons.prems by simp
  ultimately have "minors (fold cpuid_device_destroy cpus (cpuid_device_destroy cpu m)) = rest"
    by (intro Cons.IH)
  then show ?case by simp
qed simp

lemma module_create:
  "fold cpuid_device_create cpus m = m\<lparr>minors := rev cpus @ minors m\<rparr>"
  by (induction cpus arbitrary: m) (simp_all add: cpuid_device_create_def)

definition module_unloaded :: "cpuid_module \<Rightarrow> bool" where
  "module_unloaded m \<longleftrightarrow> \<not> chrdev m \<and> \<not> cpuid_class m \<and> \<not> hotplug m \<and> minors m = []"

text \<open>
  loading the kernel module either fails and leaves nothing registered, or registers the character
  device, the class, the hotplug state and a device for exactly the processors that are online; unloading it
  takes all of it back.
\<close>

theorem module_load_unload:
  assumes "module_unloaded m" and "cpuid_init chrdev_ok class_err setup online m = (err, m')"
  shows "if chrdev_ok \<and> class_err = 0 \<and> setup \<ge> 0
    then err = 0 \<and> chrdev m' \<and> cpuid_class m' \<and> hotplug m' \<and> minors m' = rev online \<and>
      module_unloaded (cpuid_exit online m')
    else err \<noteq> 0 \<and> m' = m"
proof (cases "chrdev_ok \<and> class_err = 0 \<and> setup \<ge> 0")
  case True
  then have m': "err = 0"
      "m' = m\<lparr>chrdev := True, cpuid_class := True, minors := rev online, hotplug := True, cpuhp_cpuid_state := setup\<rparr>"
    using assms by (simp_all add: cpuid_init_def module_create module_unloaded_def)
  moreover have "minors (fold cpuid_device_destroy online m') = []"
    using m' by (intro minors_destroy [of "rev online"]) simp_all
  ultimately show ?thesis
    using True by (simp add: cpuid_exit_def module_unloaded_def)
next
  case False
  have "m\<lparr>chrdev := False\<rparr> = m" "m\<lparr>chrdev := False, cpuid_class := False\<rparr> = m"
    using assms(1) by (cases m; simp add: module_unloaded_def)+
  with False assms show ?thesis
    by (auto simp: cpuid_init_def Let_def split: if_splits)
qed

definition unloaded_module :: cpuid_module where
  "unloaded_module = \<lparr>chrdev = False, cpuid_class = False, cpuhp_cpuid_state = 0, hotplug = False, minors = []\<rparr>"

theorem module_load_unload_witness:
  "minors (snd (cpuid_init True 0 42 [0, 1, 2] unloaded_module)) = [2, 1, 0] \<and>
   snd (cpuid_init True 0 (-12) [0, 1, 2] unloaded_module) = unloaded_module"
proof -
  have "module_unloaded unloaded_module" by (simp add: module_unloaded_def unloaded_module_def)
  note load = module_load_unload [OF this surjective_pairing]
  show ?thesis
    using load [of True 0 42 "[0, 1, 2]"] load [of True 0 "-12" "[0, 1, 2]"] by simp
qed

section \<open>Reading one register\<close>

lemma request_codes: "map (\<lambda>row. request_code (fst row)) (sysregs True) = map int [0..<42]"
  by code_simp

lemma sysregs_lengths: "length sysregs_common = 22" "length (sysregs True) = 42"
  by (simp_all add: sysregs_def sysregs_common_def sysregs_aa64_def)

lemma length_sysregs: "length (sysregs a) = (if a then 42 else 22)"
  using sysregs_lengths by (simp add: sysregs_def)

lemma sysregs_take: "sysregs a = take (if a then 42 else 22) (sysregs True)"
  using sysregs_lengths by (simp add: sysregs_def)

lemma request_code_nth:
  assumes "i < length (sysregs a)"
  shows "request_code (fst (sysregs a ! i)) = int i"
proof -
  have "i < 42" using assms by (simp add: length_sysregs split: if_splits)
  then have "map (\<lambda>row. request_code (fst row)) (sysregs True) ! i = int i"
    by (simp only: request_codes) simp
  moreover have "sysregs a ! i = sysregs True ! i"
    using assms length_sysregs [of a] by (cases a) (simp_all add: sysregs_take [of False])
  ultimately show ?thesis using \<open>i < 42\<close> by (simp add: sysregs_lengths)
qed

text \<open>The \<^verbatim>\<open>switch\<close> finds the row whose position is the request.\<close>

lemma find_request:
  "List.find (\<lambda>row. request_code (fst row) = req) (sysregs a) =
     (if 0 \<le> req \<and> nat req < length (sysregs a) then Some (sysregs a ! nat req) else None)"
proof (cases "0 \<le> req \<and> nat req < length (sysregs a)")
  case True
  moreover have "request_code (fst (sysregs a ! j)) \<noteq> req" if "j < nat req" for j
    using True that request_code_nth [of j a] by simp
  moreover have "request_code (fst (sysregs a ! nat req)) = req"
    using True request_code_nth [of "nat req" a] by simp
  ultimately have "List.find (\<lambda>row. request_code (fst row) = req) (sysregs a) = Some (sysregs a ! nat req)"
    using True unfolding find_Some_iff by blast
  with True show ?thesis by simp
next
  case False
  then show ?thesis
    using request_code_nth [of _ a]
    by (auto simp: find_None_iff in_set_conv_nth simp del: split_paired_All split_paired_Ex)
      (metis fst_conv nat_int of_nat_0_le_iff)+
qed

definition driver_works :: "'m arm_os \<Rightarrow> int \<Rightarrow> nat \<Rightarrow> bool" where
  "driver_works os fd cpu \<longleftrightarrow> fd \<ge> 0 \<and> fd_minor os fd = cpu \<and> fd_readable os fd \<and>
     copy_from_user_ok os \<and> copy_to_user_ok os \<and> smp_call os cpu = 0"

text \<open>What a row of the table makes the kernel store.\<close>

fun row_value :: "'m arm_os \<Rightarrow> nat \<Rightarrow> reg_request_t \<times> reg_value \<times> string \<times> string \<Rightarrow> u64" where
  "row_value os cpu (_, Value_64b, a32, a64) = cpuid_read_sysreg os cpu a32 a64"
| "row_value os cpu (_, Value_32b, a32, a64) = ucast (ucast (cpuid_read_sysreg os cpu a32 a64) :: u32)"

lemma read_reg_on_cpu_row:
  "read_reg_on_cpu os cpu r =
     (if 0 \<le> request r \<and> nat (request r) < length (sysregs (arm_aarch64 os))
      then r\<lparr>value_64b := row_value os cpu (sysregs (arm_aarch64 os) ! nat (request r))\<rparr>
      else r\<lparr>request := REQ_INVALID, value_64b := 0\<rparr>)"
proof -
  obtain req v a32 a64 where row: "sysregs (arm_aarch64 os) ! nat (request r) = (req, v, a32, a64)"
    by (rule prod_cases4)
  then show ?thesis
    by (cases v) (simp_all add: read_reg_on_cpu_def find_request set_value_32b_def Let_def)
qed

lemma ioctl_works:
  assumes "driver_works os fd cpu"
  shows "cpuid_ioctl os fd ARM_IOC_READ_REG r = (0, read_reg_on_cpu os cpu r)"
  using assms by (simp add: cpuid_ioctl_def driver_works_def)

text \<open>
  with a working driver, the client gets for every request of the build the value of the register that
  the request names, on the processor of the device file, and for every other number \<^verbatim>\<open>ERR_REQUEST\<close>, with the
  caller's variable unchanged.
\<close>

theorem cpu_read_arm_register_64b_spec:
  assumes "driver_works os fd cpu"
  shows "cpu_read_arm_register_64b os (Some fd) req old th =
    (if 0 \<le> req \<and> req < int (length (sysregs (arm_aarch64 os)))
     then (ERR_OK, row_value os cpu (sysregs (arm_aarch64 os) ! nat req), th)
     else (ERR_REQUEST, old, th\<lparr>th_errno := ERR_REQUEST\<rparr>))"
  using assms
  by (auto simp: cpu_read_arm_register_64b_def ioctl_works read_reg_on_cpu_row driver_works_def
      cpuid_set_error_def nat_less_iff)

lemma sysregs_slices:
  "sysregs True ! 0 = (REQ_MIDR, Value_64b, ''p15, 0, %0, c0, c0, 0'', AARCH64_REG_MIDR_EL1)"
  "sysregs True ! 1 = (REQ_MPIDR, Value_64b, ''p15, 0, %0, c0, c0, 5'', AARCH64_REG_MPIDR_EL1)"
  "sysregs True ! 2 = (REQ_REVIDR, Value_64b, ''p15, 0, %0, c0, c0, 6'', AARCH64_REG_REVIDR_EL1)"
  by (simp_all add: sysregs_def sysregs_common_def)

text \<open>Four processors that differ in the revision their \<^verbatim>\<open>MIDR\<close> reports.\<close>

definition sample_arm_os :: "nat arm_os" where
  "sample_arm_os = \<lparr>arm_base = sample_os, arm_aarch64 = True,
     sysreg = (\<lambda>cpu name. if name = AARCH64_REG_MIDR_EL1 then 0x410fd080 + of_nat cpu else 7),
     mrs = (\<lambda>m name. if name = AARCH64_REG_MIDR_EL1 then 0x410fd080 + of_nat m
       else if name = AARCH64_REG_MPIDR_EL1 then 0x80000000 else 7),
     pair_high = 0, smp_call = (\<lambda>_. 0), copy_from_user_ok = True, copy_to_user_ok = True,
     path_exists = (\<lambda>_. True), path_readable = (\<lambda>_. True), is_root = True, modprobe_ok = True,
     open_path = (\<lambda>path. if path = ''/dev/cpu/2/cpuid'' then Opened 5 else Open_failed),
     fd_minor = (\<lambda>_. 2), fd_readable = (\<lambda>_. True), malloc_ok = True\<rparr>"

lemma sample_driver: "driver_works sample_arm_os 5 2"
  by (simp add: driver_works_def sample_arm_os_def)

theorem cpu_read_arm_register_64b_spec_witness:
  "cpu_read_arm_register_64b sample_arm_os (Some 5) 0 99 th = (ERR_OK, 0x410fd082, th) \<and>
   fst (cpu_read_arm_register_64b sample_arm_os (Some 5) 42 99 th) = ERR_REQUEST"
  unfolding cpu_read_arm_register_64b_spec [OF sample_driver]
  by (simp add: sample_arm_os_def length_sysregs sysregs_slices cpuid_read_sysreg_def)

lemma cpu_read_arm_register_32b_spec:
  assumes "driver_works os fd cpu"
  shows "cpu_read_arm_register_32b os (Some fd) req old th =
    (if 0 \<le> req \<and> req < int (length (sysregs (arm_aarch64 os)))
     then (ERR_OK, ucast (row_value os cpu (sysregs (arm_aarch64 os) ! nat req)), th)
     else (ERR_REQUEST, old, th\<lparr>th_errno := ERR_REQUEST\<rparr>))"
  using assms
  by (auto simp: cpu_read_arm_register_32b_def ioctl_works read_reg_on_cpu_row driver_works_def
      cpuid_set_error_def nat_less_iff value_32b_def)

end
