(* ===== verification/Arm_Access.thy ===== *)
theory Arm_Access
  imports Arm_Driver
begin

text \<open>
  Reading the raw data of an ARM processor: the AArch64 and AArch32 variants of
  \<^verbatim>\<open>cpuid_get_raw_data_core\<close> and \<^verbatim>\<open>cpuid_get_raw_data\<close> (\<^verbatim>\<open>cpuid_main.c\<close>), over the driver of \<open>Arm_Driver\<close>.
\<close>

section \<open>Through the driver\<close>

text \<open>The loops over the registers of one family; the code ignores what the calls return.\<close>

definition read_regs_32b ::
    "'m arm_os \<Rightarrow> int option \<Rightarrow> reg_request_t \<Rightarrow> nat \<Rightarrow> u32 list \<Rightarrow> 'm thread \<Rightarrow> u32 list \<times> 'm thread" where
  "read_regs_32b os drv first n regs th =
     fold (\<lambda>i (regs, th).
       let (_, v, th) = cpu_read_arm_register_32b os drv (request_code first + int i) (regs ! i) th
       in (regs[i := v], th)) [0..<n] (regs, th)"

definition read_regs_64b ::
    "'m arm_os \<Rightarrow> int option \<Rightarrow> reg_request_t \<Rightarrow> nat \<Rightarrow> u64 list \<Rightarrow> 'm thread \<Rightarrow> u64 list \<times> 'm thread" where
  "read_regs_64b os drv first n regs th =
     fold (\<lambda>i (regs, th).
       let (_, v, th) = cpu_read_arm_register_64b os drv (request_code first + int i) (regs ! i) th
       in (regs[i := v], th)) [0..<n] (regs, th)"

definition read_arm_common ::
    "'m arm_os \<Rightarrow> int option \<Rightarrow> cpu_raw_data_t \<Rightarrow> 'm thread \<Rightarrow> cpu_raw_data_t \<times> 'm thread" where
  "read_arm_common os drv data th =
    (let (_, v, th) = cpu_read_arm_register_64b os drv (request_code REQ_MIDR) (arm_midr data) th;
       data = data\<lparr>arm_midr := v\<rparr>;
       (_, v, th) = cpu_read_arm_register_64b os drv (request_code REQ_MPIDR) (arm_mpidr data) th;
       data = data\<lparr>arm_mpidr := v\<rparr>;
       (_, v, th) = cpu_read_arm_register_64b os drv (request_code REQ_REVIDR) (arm_revidr data) th;
       data = data\<lparr>arm_revidr := v\<rparr>;
       (a, th) = read_regs_32b os drv REQ_ID_AFR0 MAX_ARM_ID_AFR_REGS (arm_id_afr data) th;
       data = data\<lparr>arm_id_afr := a\<rparr>;
       (a, th) = read_regs_32b os drv REQ_ID_DFR0 MAX_ARM_ID_DFR_REGS (arm_id_dfr data) th;
       data = data\<lparr>arm_id_dfr := a\<rparr>;
       (a, th) = read_regs_32b os drv REQ_ID_ISAR0 MAX_ARM_ID_ISAR_REGS (arm_id_isar data) th;
       data = data\<lparr>arm_id_isar := a\<rparr>;
       (a, th) = read_regs_32b os drv REQ_ID_MMFR0 MAX_ARM_ID_MMFR_REGS (arm_id_mmfr data) th;
       data = data\<lparr>arm_id_mmfr := a\<rparr>;
       (a, th) = read_regs_32b os drv REQ_ID_PFR0 MAX_ARM_ID_PFR_REGS (arm_id_pfr data) th;
       data = data\<lparr>arm_id_pfr := a\<rparr>
     in (data, th))"

definition read_arm_aa64 ::
    "'m arm_os \<Rightarrow> int option \<Rightarrow> cpu_raw_data_t \<Rightarrow> 'm thread \<Rightarrow> cpu_raw_data_t \<times> 'm thread" where
  "read_arm_aa64 os drv data th =
     (let
        (a, th) = read_regs_64b os drv REQ_ID_AA64AFR0 MAX_ARM_ID_AA64AFR_REGS (arm_id_aa64afr data) th;
        data = data\<lparr>arm_id_aa64afr := a\<rparr>;
        (a, th) = read_regs_64b os drv REQ_ID_AA64DFR0 MAX_ARM_ID_AA64DFR_REGS (arm_id_aa64dfr data) th;
        data = data\<lparr>arm_id_aa64dfr := a\<rparr>;
        (a, th) = read_regs_64b os drv REQ_ID_AA64FPFR0 MAX_ARM_ID_AA64FPFR_REGS (arm_id_aa64fpfr data) th;
        data = data\<lparr>arm_id_aa64fpfr := a\<rparr>;
        (a, th) = read_regs_64b os drv REQ_ID_AA64ISAR0 MAX_ARM_ID_AA64ISAR_REGS (arm_id_aa64isar data) th;
        data = data\<lparr>arm_id_aa64isar := a\<rparr>;
        (a, th) = read_regs_64b os drv REQ_ID_AA64MMFR0 MAX_ARM_ID_AA64MMFR_REGS (arm_id_aa64mmfr data) th;
        data = data\<lparr>arm_id_aa64mmfr := a\<rparr>;
        (a, th) = read_regs_64b os drv REQ_ID_AA64PFR0 MAX_ARM_ID_AA64PFR_REGS (arm_id_aa64pfr data) th;
        data = data\<lparr>arm_id_aa64pfr := a\<rparr>;
        (a, th) = read_regs_64b os drv REQ_ID_AA64SMFR0 MAX_ARM_ID_AA64SMFR_REGS (arm_id_aa64smfr data) th;
        data = data\<lparr>arm_id_aa64smfr := a\<rparr>;
        (a, th) = read_regs_64b os drv REQ_ID_AA64ZFR0 MAX_ARM_ID_AA64ZFR_REGS (arm_id_aa64zfr data) th;
        data = data\<lparr>arm_id_aa64zfr := a\<rparr>
      in (data, th))"

definition read_arm_driver ::
    "'m arm_os \<Rightarrow> int option \<Rightarrow> cpu_raw_data_t \<Rightarrow> 'm thread \<Rightarrow> cpu_raw_data_t \<times> 'm thread" where
  "read_arm_driver os drv data th =
     (let (data, th) = read_arm_common os drv data th in
      if arm_aarch64 os then read_arm_aa64 os drv data th else (data, th))"

section \<open>With the MRS instruction\<close>

text \<open>\<open>exec\<close> is the instruction on the processor the thread runs on.\<close>

definition read_arm_mrs :: "(string \<Rightarrow> u64) \<Rightarrow> cpu_raw_data_t \<Rightarrow> cpu_raw_data_t" where
  "read_arm_mrs exec data = data\<lparr>
     arm_midr := exec AARCH64_REG_MIDR_EL1,
     arm_mpidr := exec AARCH64_REG_MPIDR_EL1,
     arm_revidr := exec AARCH64_REG_REVIDR_EL1,
     arm_id_aa64afr := (arm_id_aa64afr data)[0 := exec AARCH64_REG_ID_AA64AFR0_EL1, 1 := exec AARCH64_REG_ID_AA64AFR1_EL1],
     arm_id_aa64dfr := (arm_id_aa64dfr data)[0 := exec AARCH64_REG_ID_AA64DFR0_EL1, 1 := exec AARCH64_REG_ID_AA64DFR1_EL1, 2 := exec AARCH64_REG_ID_AA64DFR2_EL1],
     arm_id_aa64fpfr := (arm_id_aa64fpfr data)[0 := exec AARCH64_REG_ID_AA64FPFR0_EL1],
     arm_id_aa64isar := (arm_id_aa64isar data)[0 := exec AARCH64_REG_ID_AA64ISAR0_EL1, 1 := exec AARCH64_REG_ID_AA64ISAR1_EL1, 2 := exec AARCH64_REG_ID_AA64ISAR2_EL1, 3 := exec AARCH64_REG_ID_AA64ISAR3_EL1],
     arm_id_aa64mmfr := (arm_id_aa64mmfr data)[0 := exec AARCH64_REG_ID_AA64MMFR0_EL1, 1 := exec AARCH64_REG_ID_AA64MMFR1_EL1, 2 := exec AARCH64_REG_ID_AA64MMFR2_EL1, 3 := exec AARCH64_REG_ID_AA64MMFR3_EL1, 4 := exec AARCH64_REG_ID_AA64MMFR4_EL1],
     arm_id_aa64pfr := (arm_id_aa64pfr data)[0 := exec AARCH64_REG_ID_AA64PFR0_EL1, 1 := exec AARCH64_REG_ID_AA64PFR1_EL1, 2 := exec AARCH64_REG_ID_AA64PFR2_EL1],
     arm_id_aa64smfr := (arm_id_aa64smfr data)[0 := exec AARCH64_REG_ID_AA64SMFR0_EL1],
     arm_id_aa64zfr := (arm_id_aa64zfr data)[0 := exec AARCH64_REG_ID_AA64ZFR0_EL1]\<rparr>"

section \<open>One processor\<close>

text \<open>
  \<^verbatim>\<open>cpuid_get_raw_data_core(data, logical_cpu)\<close>: the affinity is handled as in the x86 variant. The number of
  the processor is also the one the driver is opened for, with \<open>-1\<close> as 65535.
\<close>

definition cpuid_get_raw_data_core_arm ::
    "'m arm_os \<Rightarrow> cpu_raw_data_t \<Rightarrow> logical_cpu_t \<Rightarrow> 'm thread \<Rightarrow>
      cpu_error_t \<times> cpu_raw_data_t \<times> 'm thread" where
  "cpuid_get_raw_data_core_arm os data cpu th =
     (let (pinned, th) = (if cpu \<noteq> -1 then set_cpu_affinity (arm_base os) cpu th else (True, th));
        (affinity_saved, th) =
          (if cpu \<noteq> -1 \<and> pinned then save_cpu_affinity (arm_base os) th else (False, th))
      in if cpu \<noteq> -1 \<and> \<not> pinned \<and> cpu > 0
         then (ERR_INVCNB, data, snd (cpuid_set_error ERR_INVCNB th))
         else
           let (handle, th) = cpu_cpuid_driver_open_core os (ucast cpu) th in
           if handle = None \<and> \<not> (arm_aarch64 os \<and> os_cpuid_present (arm_base os))
           then (ERR_NO_CPUID, data, snd (cpuid_set_error ERR_NO_CPUID th))
           else
             let (data, th) =
                   (if handle \<noteq> None then read_arm_driver os handle data th
                    else (read_arm_mrs (mrs os (th_affinity th)) data, th));
               th = (if affinity_saved then snd (restore_cpu_affinity (arm_base os) th) else th)
             in (ERR_OK, data, snd (cpuid_set_error ERR_OK th)))"

definition cpuid_get_raw_data_arm ::
    "'m arm_os \<Rightarrow> cpu_raw_data_t \<Rightarrow> 'm thread \<Rightarrow> cpu_error_t \<times> cpu_raw_data_t \<times> 'm thread" where
  "cpuid_get_raw_data_arm os data th = cpuid_get_raw_data_core_arm os data (-1) th"

section \<open>What the driver delivers\<close>

text \<open>The data of a processor whose registers are \<open>reg\<close>, by the names of the ARM manual.\<close>

definition aarch64_raw_data :: "(string \<Rightarrow> u64) \<Rightarrow> cpu_raw_data_t \<Rightarrow> cpu_raw_data_t" where
  "aarch64_raw_data reg data = data\<lparr>
     arm_midr := reg AARCH64_REG_MIDR_EL1,
     arm_mpidr := reg AARCH64_REG_MPIDR_EL1,
     arm_revidr := reg AARCH64_REG_REVIDR_EL1,
     arm_id_afr := map (\<lambda>r. ucast (reg r))
       [AARCH64_REG_ID_AFR0],
     arm_id_dfr := map (\<lambda>r. ucast (reg r))
       [AARCH64_REG_ID_DFR0, AARCH64_REG_ID_DFR1],
     arm_id_isar := map (\<lambda>r. ucast (reg r))
       [AARCH64_REG_ID_ISAR0, AARCH64_REG_ID_ISAR1, AARCH64_REG_ID_ISAR2, AARCH64_REG_ID_ISAR3,
        AARCH64_REG_ID_ISAR4, AARCH64_REG_ID_ISAR5, AARCH64_REG_ID_ISAR6],
     arm_id_mmfr := map (\<lambda>r. ucast (reg r))
       [AARCH64_REG_ID_MMFR0, AARCH64_REG_ID_MMFR1, AARCH64_REG_ID_MMFR2, AARCH64_REG_ID_MMFR3,
        AARCH64_REG_ID_MMFR4, AARCH64_REG_ID_MMFR5],
     arm_id_pfr := map (\<lambda>r. ucast (reg r))
       [AARCH64_REG_ID_PFR0, AARCH64_REG_ID_PFR1, AARCH64_REG_ID_PFR2],
     arm_id_aa64afr := map reg
       [AARCH64_REG_ID_AA64AFR0_EL1, AARCH64_REG_ID_AA64AFR1_EL1],
     arm_id_aa64dfr := map reg
       [AARCH64_REG_ID_AA64DFR0_EL1, AARCH64_REG_ID_AA64DFR1_EL1, AARCH64_REG_ID_AA64DFR2_EL1],
     arm_id_aa64fpfr := map reg
       [AARCH64_REG_ID_AA64FPFR0_EL1],
     arm_id_aa64isar := map reg
       [AARCH64_REG_ID_AA64ISAR0_EL1, AARCH64_REG_ID_AA64ISAR1_EL1, AARCH64_REG_ID_AA64ISAR2_EL1,
        AARCH64_REG_ID_AA64ISAR3_EL1],
     arm_id_aa64mmfr := map reg
       [AARCH64_REG_ID_AA64MMFR0_EL1, AARCH64_REG_ID_AA64MMFR1_EL1, AARCH64_REG_ID_AA64MMFR2_EL1,
        AARCH64_REG_ID_AA64MMFR3_EL1, AARCH64_REG_ID_AA64MMFR4_EL1],
     arm_id_aa64pfr := map reg
       [AARCH64_REG_ID_AA64PFR0_EL1, AARCH64_REG_ID_AA64PFR1_EL1, AARCH64_REG_ID_AA64PFR2_EL1],
     arm_id_aa64smfr := map reg
       [AARCH64_REG_ID_AA64SMFR0_EL1],
     arm_id_aa64zfr := map reg
       [AARCH64_REG_ID_AA64ZFR0_EL1]\<rparr>"

text \<open>The same without the registers of the AArch32 state.\<close>

definition without_aarch32 :: "cpu_raw_data_t \<Rightarrow> cpu_raw_data_t \<Rightarrow> cpu_raw_data_t" where
  "without_aarch32 data d = d\<lparr>
       arm_id_afr := arm_id_afr data,
       arm_id_dfr := arm_id_dfr data,
       arm_id_isar := arm_id_isar data,
       arm_id_mmfr := arm_id_mmfr data,
       arm_id_pfr := arm_id_pfr data\<rparr>"

lemma fold_reads:
  assumes "\<And>i old th. i < n \<Longrightarrow> read i old th = (ERR_OK, f i, th)" and "length regs = n"
  shows "fold (\<lambda>i (regs, th). let (_, v, th) = read i (regs ! i) th in (regs[i := v], th)) [0..<n] (regs, th) =
    (map f [0..<n], th)"
proof -
  have "fold (\<lambda>i (regs, th). let (_, v, th) = read i (regs ! i) th in (regs[i := v], th)) [0..<k] (regs, th) =
      (map f [0..<k] @ drop k regs, th)" if "k \<le> n" for k
    using that
  proof (induction k)
    case (Suc k)
    then show ?case
      using assms by (simp add: list_update_append Cons_nth_drop_Suc [symmetric])
  qed simp
  from this [of n] show ?thesis using assms(2) by simp
qed

lemma map_nth_slice: "k + n \<le> length xs \<Longrightarrow> map (\<lambda>i. f (xs ! (k + i))) [0..<n] = map f (take n (drop k xs))"
  by (rule nth_equalityI) simp_all

lemma read_regs_64b_works:
  assumes "driver_works os fd cpu" and "length regs = n" and "0 \<le> request_code first"
    and "nat (request_code first) + n \<le> length (sysregs (arm_aarch64 os))"
  shows "read_regs_64b os (Some fd) first n regs th =
    (map (row_value os cpu) (take n (drop (nat (request_code first)) (sysregs (arm_aarch64 os)))), th)"
  unfolding read_regs_64b_def map_nth_slice [OF assms(4), symmetric]
  using assms by (intro fold_reads)
    (auto simp: cpu_read_arm_register_64b_spec nat_add_distrib)

lemma read_regs_32b_works:
  assumes "driver_works os fd cpu" and "length regs = n" and "0 \<le> request_code first"
    and "nat (request_code first) + n \<le> length (sysregs (arm_aarch64 os))"
  shows "read_regs_32b os (Some fd) first n regs th =
    (map (\<lambda>row. ucast (row_value os cpu row))
       (take n (drop (nat (request_code first)) (sysregs (arm_aarch64 os)))), th)"
  unfolding read_regs_32b_def map_nth_slice [OF assms(4), symmetric]
  using assms by (intro fold_reads)
    (auto simp: cpu_read_arm_register_32b_spec nat_add_distrib)

lemma request_code_simps:
  "request_code REQ_MIDR = 0" "request_code REQ_MPIDR = 1" "request_code REQ_REVIDR = 2"
  "request_code REQ_ID_AFR0 = 3" "request_code REQ_ID_DFR0 = 4" "request_code REQ_ID_ISAR0 = 6"
  "request_code REQ_ID_MMFR0 = 13" "request_code REQ_ID_PFR0 = 19"
  "request_code REQ_ID_AA64AFR0 = 22" "request_code REQ_ID_AA64DFR0 = 24"
  "request_code REQ_ID_AA64FPFR0 = 27" "request_code REQ_ID_AA64ISAR0 = 28"
  "request_code REQ_ID_AA64MMFR0 = 32" "request_code REQ_ID_AA64PFR0 = 37"
  "request_code REQ_ID_AA64SMFR0 = 40" "request_code REQ_ID_AA64ZFR0 = 41"
  by (simp_all add: request_code_def reg_requests_def)

lemma ucast_u32_u64: "ucast (ucast (x :: u32) :: u64) = x"
  by (rule bit_word_eqI) (simp add: bit_simps)

lemma read_arm_common_works:
  assumes "driver_works os fd cpu" and "arm_aarch64 os" and "wf_raw data"
  shows "read_arm_common os (Some fd) data th =
    (let d = aarch64_raw_data (sysreg os cpu) data in
     (data\<lparr>arm_midr := arm_midr d, arm_mpidr := arm_mpidr d, arm_revidr := arm_revidr d,
        arm_id_afr := arm_id_afr d, arm_id_dfr := arm_id_dfr d, arm_id_isar := arm_id_isar d,
        arm_id_mmfr := arm_id_mmfr d, arm_id_pfr := arm_id_pfr d\<rparr>, th))"
  using assms(2) assms(3) [unfolded wf_raw_def]
  by (simp add: read_arm_common_def ucast_u32_u64 aarch64_raw_data_def cpu_read_arm_register_64b_spec [OF assms(1)]
      read_regs_32b_works [OF assms(1)] request_code_simps length_sysregs sysregs_slices
      cpuid_read_sysreg_def)
    (simp add: sysregs_def sysregs_common_def sysregs_aa64_def cpuid_read_sysreg_def ucast_u32_u64)

lemma read_arm_aa64_works:
  assumes "driver_works os fd cpu" and "arm_aarch64 os" and "wf_raw data"
  shows "read_arm_aa64 os (Some fd) data th =
    (let d = aarch64_raw_data (sysreg os cpu) data in
     (data\<lparr>arm_id_aa64afr := arm_id_aa64afr d, arm_id_aa64dfr := arm_id_aa64dfr d,
        arm_id_aa64fpfr := arm_id_aa64fpfr d, arm_id_aa64isar := arm_id_aa64isar d,
        arm_id_aa64mmfr := arm_id_aa64mmfr d, arm_id_aa64pfr := arm_id_aa64pfr d,
        arm_id_aa64smfr := arm_id_aa64smfr d, arm_id_aa64zfr := arm_id_aa64zfr d\<rparr>, th))"
  using assms(2) assms(3) [unfolded wf_raw_def]
  by (simp add: read_arm_aa64_def aarch64_raw_data_def
      read_regs_64b_works [OF assms(1)] request_code_simps length_sysregs)
    (simp add: sysregs_def sysregs_common_def sysregs_aa64_def cpuid_read_sysreg_def ucast_u32_u64)

lemma read_arm_driver_works:
  assumes "driver_works os fd cpu" and "arm_aarch64 os" and "wf_raw data"
  shows "read_arm_driver os (Some fd) data th = (aarch64_raw_data (sysreg os cpu) data, th)"
proof -
  have "wf_raw (fst (read_arm_common os (Some fd) data th))"
    using assms(3) by (simp add: read_arm_common_works [OF assms] wf_raw_def aarch64_raw_data_def Let_def)
  then show ?thesis
    using assms(2)
    by (simp add: read_arm_driver_def read_arm_common_works [OF assms] read_arm_aa64_works [OF assms(1,2)]
        Let_def aarch64_raw_data_def)
qed

lemma read_arm_mrs_works:
  assumes "wf_raw data"
  shows "read_arm_mrs reg data = without_aarch32 data (aarch64_raw_data reg data)"
  using assms
  by (auto simp: wf_raw_def read_arm_mrs_def without_aarch32_def aarch64_raw_data_def
      numeral_eq_Suc length_Suc_conv)

text \<open>A driver that the client can open for the processor \<open>cpu\<close>.\<close>

definition driver_available :: "'m arm_os \<Rightarrow> logical_cpu_t \<Rightarrow> int \<Rightarrow> bool" where
  "driver_available os cpu fd \<longleftrightarrow> (ucast cpu :: u32) < of_int (os_total_cpus (arm_base os)) \<and>
     load_driver os (driver_path (ucast cpu)) \<and> open_path os (driver_path (ucast cpu)) = Opened fd \<and>
     malloc_ok os \<and> driver_works os fd (unat cpu)"

lemma open_core_available:
  assumes "driver_available os cpu fd"
  shows "cpu_cpuid_driver_open_core os (ucast cpu) th = (Some fd, th)"
  using assms by (simp add: driver_available_def cpu_cpuid_driver_open_core_def not_le)

lemma open_core_missing:
  "cpu_cpuid_driver_open_core (os\<lparr>open_path := \<lambda>_. Open_failed\<rparr>) core th =
    (None, th\<lparr>th_errno :=
      if core \<ge> of_int (os_total_cpus (arm_base os)) then ERR_INVCNB else ERR_NO_DRIVER\<rparr>)"
  by (simp add: cpu_cpuid_driver_open_core_def cpuid_set_error_def Let_def)

text \<open>
  C10: on AArch64 the two ways to read a processor ask for the same registers. With a working driver, and with the MRS
  instruction when the driver cannot be opened, \<^verbatim>\<open>cpuid_get_raw_data_core\<close> returns \<^verbatim>\<open>ERR_OK\<close>, leaves the thread in
  the same state, and fills each field from the register that the ARM manual names for it: from the registers of
  the processor itself in the first case, and from what MRS answers to a program in the second, which need not be
  the same, for the kernel emulates the instruction and hides or changes some fields. The AArch32 registers are
  read by the driver only and keep their old values otherwise.
\<close>

theorem arm_driver_and_mrs_registers:
  assumes "arm_aarch64 os" and "os_cpuid_present (arm_base os)" and "wf_raw data"
    and "os_pin (arm_base os) cpu (th_affinity th) = Some m" and "cpu \<noteq> -1" and "driver_available os cpu fd"
  shows "\<exists>th'. cpuid_get_raw_data_core_arm os data cpu th =
      (ERR_OK, aarch64_raw_data (sysreg os (unat cpu)) data, th') \<and>
    cpuid_get_raw_data_core_arm (os\<lparr>open_path := \<lambda>_. Open_failed\<rparr>) data cpu th =
      (ERR_OK, without_aarch32 data (aarch64_raw_data (mrs os m) data), th')"
proof -
  have "driver_works os fd (unat cpu)" using assms(6) by (simp add: driver_available_def)
  then show ?thesis
    using assms(1-5)
    by (cases "os_getaffinity_ok (arm_base os)"; cases "os_setaffinity_ok (arm_base os)")
      (simp_all add: cpuid_get_raw_data_core_arm_def open_core_available [OF assms(6)] open_core_missing
        read_arm_driver_works read_arm_mrs_works set_cpu_affinity_def save_cpu_affinity_def
        restore_cpu_affinity_def cpuid_set_error_def)
qed

theorem arm_driver_and_mrs_registers_witness:
  "\<exists>d d' th th'. cpuid_get_raw_data_core_arm sample_arm_os raw_data_t_constructor 2
        \<lparr>th_affinity = 99, th_saved = 0, th_errno = ERR_OK\<rparr> = (ERR_OK, d, th) \<and>
     cpuid_get_raw_data_core_arm (sample_arm_os\<lparr>open_path := \<lambda>_. Open_failed\<rparr>) raw_data_t_constructor 2
        \<lparr>th_affinity = 99, th_saved = 0, th_errno = ERR_OK\<rparr> = (ERR_OK, d', th') \<and>
     arm_midr d = 0x410fd082 \<and> arm_midr d' = 0x410fd082 \<and> arm_mpidr d = 7 \<and> arm_mpidr d' = 0x80000000 \<and>
     arm_id_isar d = replicate 7 7 \<and> arm_id_isar d' = replicate 7 0"
proof -
  have avail: "driver_available sample_arm_os 2 5"
    using sample_driver
    by (simp add: driver_available_def load_driver_def) (simp add: sample_arm_os_def sample_os_def
        driver_path_def dec_digits.simps digit_char_def)
  let ?driver = "aarch64_raw_data (sysreg sample_arm_os (unat (2 :: logical_cpu_t))) raw_data_t_constructor"
    and ?mrs = "without_aarch32 raw_data_t_constructor (aarch64_raw_data (mrs sample_arm_os 2) raw_data_t_constructor)"
  obtain th' where runs: "cpuid_get_raw_data_core_arm sample_arm_os raw_data_t_constructor 2
        \<lparr>th_affinity = 99, th_saved = 0, th_errno = ERR_OK\<rparr> = (ERR_OK, ?driver, th')"
    "cpuid_get_raw_data_core_arm (sample_arm_os\<lparr>open_path := \<lambda>_. Open_failed\<rparr>) raw_data_t_constructor 2
        \<lparr>th_affinity = 99, th_saved = 0, th_errno = ERR_OK\<rparr> = (ERR_OK, ?mrs, th')"
    using arm_driver_and_mrs_registers [OF _ _ wf_raw_data_t_constructor _ _ avail, where m = 2 and th =
        "\<lparr>th_affinity = 99, th_saved = 0, th_errno = ERR_OK\<rparr>"]
    by (auto simp: sample_arm_os_def sample_os_def)
  have "replicate 7 (x :: u32) = [x, x, x, x, x, x, x]" for x by (simp add: numeral_eq_Suc)
  then have "arm_midr ?driver = 0x410fd082" "arm_mpidr ?driver = 7" "arm_id_isar ?driver = replicate 7 7"
    "arm_midr ?mrs = 0x410fd082" "arm_mpidr ?mrs = 0x80000000" "arm_id_isar ?mrs = replicate 7 0"
    by (simp_all add: aarch64_raw_data_def without_aarch32_def raw_data_t_constructor_def sample_arm_os_def)
  with runs show ?thesis by blast
qed

text \<open>
  \<^verbatim>\<open>cpuid_get_raw_data\<close>, which reads the current processor, never uses the driver: it asks for
  processor 65535, which the driver refuses. On AArch32 it therefore always fails with \<^verbatim>\<open>ERR_NO_CPUID\<close>, even
  where the driver works; on AArch64 it needs the MRS instruction.
\<close>

theorem cpuid_get_raw_data_arm_spec:
  assumes "0 \<le> os_total_cpus (arm_base os)" and "os_total_cpus (arm_base os) \<le> 65535"
  shows "cpuid_get_raw_data_arm os data th =
    (if arm_aarch64 os \<and> os_cpuid_present (arm_base os)
     then (ERR_OK, read_arm_mrs (mrs os (th_affinity th)) data, th\<lparr>th_errno := ERR_OK\<rparr>)
     else (ERR_NO_CPUID, data, th\<lparr>th_errno := ERR_NO_CPUID\<rparr>))"
proof -
  have u: "(ucast (- 1 :: u16) :: u32) = 65535" by code_simp
  have "(of_int (os_total_cpus (arm_base os)) :: u32) \<le> ucast (- 1 :: u16)"
  proof -
    have "(of_int (os_total_cpus (arm_base os)) :: u32) = of_nat (nat (os_total_cpus (arm_base os)))"
      using assms(1) by simp
    then show ?thesis
      using assms(2) by (simp only: word_le_nat_alt unat_of_nat u) (simp add: nat_le_iff le_trans [OF mod_less_eq_dividend])
  qed
  then show ?thesis
    by (simp add: cpuid_get_raw_data_arm_def cpuid_get_raw_data_core_arm_def cpu_cpuid_driver_open_core_def
        cpuid_set_error_def)
qed

theorem cpuid_get_raw_data_arm_spec_witness:
  "fst (cpuid_get_raw_data_arm (sample_arm_os\<lparr>arm_aarch64 := False\<rparr>) raw_data_t_constructor
      \<lparr>th_affinity = 2, th_saved = 0, th_errno = ERR_OK\<rparr>) = ERR_NO_CPUID \<and>
   arm_midr (fst (snd (cpuid_get_raw_data_arm sample_arm_os raw_data_t_constructor
      \<lparr>th_affinity = 2, th_saved = 0, th_errno = ERR_OK\<rparr>))) = 0x410fd082"
proof -
  have "os_total_cpus (arm_base sample_arm_os) = 4" by (simp add: sample_arm_os_def sample_os_def)
  then show ?thesis
    using cpuid_get_raw_data_arm_spec [of sample_arm_os] cpuid_get_raw_data_arm_spec [of "sample_arm_os\<lparr>arm_aarch64 := False\<rparr>"]
    by (simp add: sample_arm_os_def sample_os_def read_arm_mrs_def)
qed

end
