(* ===== verification/Clock.thy ===== *)
theory Clock
  imports Cpuid_Types C_Stdio "HOL-Library.Signed_Division"
begin

text \<open>
  Measuring the clock frequency (\<^verbatim>\<open>rdtsc.c\<close>, in its POSIX and Linux variant, and \<^verbatim>\<open>cpu_rdtsc\<close> of
  \<^verbatim>\<open>asm-bits.c\<close>), as far as it does not depend on the identified processor.

  The clocks are a parameter \<open>timer\<close>: what the \<open>n\<close>-th call of \<^verbatim>\<open>gettimeofday\<close> in the program returns,
  and the time-stamp counter right before it. The number of calls made so far is the state; time passes
  between the calls in any way. Loops that wait for the clock may run for ever: they are partial
  functions, \<^const>\<open>None\<close> stands for not returning, and a value that is returned is an \<open>outcome\<close>, which is
  \<open>Undefined\<close> where the signed arithmetic of C overflows or an array is left.
\<close>

section \<open>Results\<close>

datatype 'a outcome = Returns 'a | Undefined

definition c_int :: "int \<Rightarrow> int option" where
  "c_int i = (if - (2 ^ 31) \<le> i \<and> i < 2 ^ 31 then Some i else None)"

section \<open>Marks\<close>

record timer =
  timeval :: "nat \<Rightarrow> int \<times> int"
  tsc_regs :: "nat \<Rightarrow> u32 \<times> u32"

record cpu_mark_t =
  tsc :: u64
  sys_clock :: u64

definition sys_precise_clock :: "timer \<Rightarrow> nat \<Rightarrow> u64" where
  "sys_precise_clock t n =
     (let (tv_sec, tv_usec) = timeval t n in of_int tv_sec * 1000000 + of_int tv_usec)"

definition cpu_rdtsc :: "timer \<Rightarrow> nat \<Rightarrow> u64" where
  "cpu_rdtsc t n = (let (low_part, hi_part) = tsc_regs t n in ucast low_part + push_bit 32 (ucast hi_part))"

definition mark_t_subtract :: "cpu_mark_t \<Rightarrow> cpu_mark_t \<Rightarrow> cpu_mark_t" where
  "mark_t_subtract a b = \<lparr>tsc = tsc a - tsc b, sys_clock = sys_clock a - sys_clock b\<rparr>"

definition cpu_tsc_mark :: "timer \<Rightarrow> nat \<Rightarrow> cpu_mark_t" where
  "cpu_tsc_mark t n = \<lparr>tsc = cpu_rdtsc t n, sys_clock = sys_precise_clock t n\<rparr>"

definition cpu_tsc_unmark :: "timer \<Rightarrow> nat \<Rightarrow> cpu_mark_t \<Rightarrow> cpu_mark_t" where
  "cpu_tsc_unmark t n mark = mark_t_subtract (cpu_tsc_mark t n) mark"

definition cpu_clock_by_mark :: "cpu_mark_t \<Rightarrow> int" where
  "cpu_clock_by_mark mark =
     (if drop_bit 63 (tsc mark) \<noteq> 0 \<or> drop_bit 63 (sys_clock mark) \<noteq> 0 then - 1
      else if sys_clock mark = 0 then - 1
      else
        let result = tsc mark div sys_clock mark in
        if result > 0x7fffffff then - 1 else sint (ucast result :: u32))"

section \<open>Busy loops\<close>

definition busy_data :: "int list" where
  "busy_data = [32, 12, - 1, 5, 23, 0] @ replicate 36 0"

fun busy_add :: "int list \<Rightarrow> int \<Rightarrow> int option" where
  "busy_add [] s = Some s"
| "busy_add (d # ds) s = do { s \<leftarrow> c_int (s + d); busy_add ds s }"

primrec busy_rounds :: "nat \<Rightarrow> int \<Rightarrow> int option" where
  "busy_rounds 0 s = Some s"
| "busy_rounds (Suc j) s = do { s \<leftarrow> busy_add busy_data s; busy_rounds j s }"

primrec busy_outer :: "nat \<Rightarrow> int \<Rightarrow> int option" where
  "busy_outer 0 s = Some s"
| "busy_outer (Suc i) s = do { s \<leftarrow> busy_rounds 65536 s; busy_outer i s }"

definition busy_loop :: "int \<Rightarrow> int option" where
  "busy_loop amount = busy_outer (nat amount) 0"

text \<open>
  The loop of \<^verbatim>\<open>busy_loop_delay\<close>, with its variables \<open>a\<close> (the start), \<open>cycles\<close>, \<open>r\<close>, \<open>first\<close> and \<open>b\<close> (not
  initialised and not read in the first round). The number of milliseconds is compared as an unsigned
  number of 64 bits.
\<close>

partial_function (option) delay_loop ::
    "timer \<Rightarrow> u64 \<Rightarrow> u64 \<Rightarrow> int \<Rightarrow> int \<Rightarrow> bool \<Rightarrow> u64 \<Rightarrow> nat \<Rightarrow> (int \<times> nat) outcome option" where
  "delay_loop t ms a cycles r first b n =
     (let c = sys_precise_clock t n in
      if (c - a) div 1000 > ms then Some (Returns (r, Suc n))
      else
        case do { w \<leftarrow> busy_loop cycles; c_int (r + w) } of
          None \<Rightarrow> Some Undefined
        | Some r \<Rightarrow>
            if first then delay_loop t ms a cycles r False c (Suc n)
            else
              case (if c - b < 1000 then c_int (cycles * 2) else Some cycles) of
                None \<Rightarrow> Some Undefined
              | Some cycles \<Rightarrow>
                  delay_loop t ms a (if c - b > 10000 then cycles sdiv 2 else cycles) r False c (Suc n))"

definition busy_loop_delay :: "timer \<Rightarrow> int \<Rightarrow> nat \<Rightarrow> (int \<times> nat) outcome option" where
  "busy_loop_delay t milliseconds n =
     delay_loop t (of_int milliseconds) (sys_precise_clock t n) 0 0 True 0 (Suc n)"

section \<open>Measuring against the system clock\<close>

text \<open>The \<^verbatim>\<open>do\<close> loop of \<^verbatim>\<open>cpu_clock_measure\<close>: one measurement that lasts \<open>limit\<close> microseconds.\<close>

partial_function (option) measure_loop ::
    "timer \<Rightarrow> u64 \<Rightarrow> cpu_mark_t \<Rightarrow> cpu_mark_t \<Rightarrow> int \<Rightarrow> int \<Rightarrow> nat \<Rightarrow>
      (cpu_mark_t \<times> int \<times> int \<times> nat) outcome option" where
  "measure_loop t limit begin_k end_k cycles zero n =
     (case busy_loop cycles of
        None \<Rightarrow> Some Undefined
      | Some w \<Rightarrow>
          let zero = zero OR (1 AND w);
            temp = cpu_tsc_mark t n;
            temp2 = mark_t_subtract temp end_k
          in case (if sys_clock temp2 < limit div 8 then c_int (cycles * 2) else Some cycles) of
               None \<Rightarrow> Some Undefined
             | Some cycles \<Rightarrow>
                 if sys_clock temp - sys_clock begin_k < limit
                 then measure_loop t limit begin_k temp cycles zero (Suc n)
                 else Some (Returns (temp, cycles, zero, Suc n)))"

text \<open>The measurements, \<open>k\<close> of them: their results, and \<^verbatim>\<open>_zero\<close>.\<close>

primrec measure_rounds ::
    "nat \<Rightarrow> timer \<Rightarrow> u64 \<Rightarrow> int \<Rightarrow> int \<Rightarrow> nat \<Rightarrow> (int list \<times> int \<times> nat) outcome option" where
  "measure_rounds 0 t limit cycles zero n = Some (Returns ([], zero, n))"
| "measure_rounds (Suc k) t limit cycles zero n =
     (let begin_k = cpu_tsc_mark t n in
      case measure_loop t limit begin_k begin_k cycles zero (Suc n) of
        None \<Rightarrow> None
      | Some Undefined \<Rightarrow> Some Undefined
      | Some (Returns (end_k, cycles, zero, n)) \<Rightarrow>
          (case measure_rounds k t limit cycles zero n of
             None \<Rightarrow> None
           | Some Undefined \<Rightarrow> Some Undefined
           | Some (Returns (results, zero, n)) \<Rightarrow>
               Some (Returns (cpu_clock_by_mark (mark_t_subtract end_k begin_k) # results, zero, n))))"

text \<open>The two loops that look for the pair of results with the smallest difference.\<close>

definition pair_indices :: "(nat \<times> nat) list" where
  "pair_indices = [(i, j). i \<leftarrow> [0..<4], j \<leftarrow> [i + 1..<4]]"

fun best_pair_loop :: "int list \<Rightarrow> (nat \<times> nat) list \<Rightarrow> int \<Rightarrow> (nat \<times> nat) option \<Rightarrow> (nat \<times> nat) option option" where
  "best_pair_loop results [] mdiff best = Some best"
| "best_pair_loop results ((i, j) # pairs) mdiff best =
     do { diff \<leftarrow> c_int (results ! i - results ! j);
          diff \<leftarrow> (if diff < 0 then c_int (- diff) else Some diff);
          if diff < mdiff then best_pair_loop results pairs diff (Some (i, j))
          else best_pair_loop results pairs mdiff best }"

text \<open>\<^const>\<open>None\<close> as the best pair stands for the indices -1, which are outside \<^verbatim>\<open>results\<close>.\<close>

definition best_result :: "int list \<Rightarrow> int \<Rightarrow> int option" where
  "best_result results zero =
     do { best \<leftarrow> best_pair_loop results pair_indices 0x7fffffff None;
          (bi, bj) \<leftarrow> best;
          if results ! bi = - 1 then Some (- 1)
          else do { s \<leftarrow> c_int (results ! bi + results ! bj);
                    s \<leftarrow> c_int (s + zero);
                    Some (s sdiv 2) } }"

definition cpu_clock_measure :: "timer \<Rightarrow> int \<Rightarrow> bool \<Rightarrow> nat \<Rightarrow> (int \<times> nat) outcome option" where
  "cpu_clock_measure t millis quad_check n =
     (if millis < 1 then Some (Returns (- 1, n))
      else
        let limit = of_int millis * 1000;
          limit = (if quad_check then limit div 4 else limit)
        in case measure_rounds (if quad_check then 4 else 1) t limit 1 0 n of
             None \<Rightarrow> None
           | Some Undefined \<Rightarrow> Some Undefined
           | Some (Returns (results, zero, n)) \<Rightarrow>
               if \<not> quad_check then Some (Returns (results ! 0, n))
               else (case best_result results zero of
                       None \<Rightarrow> Some Undefined
                     | Some v \<Rightarrow> Some (Returns (v, n))))"

section \<open>What the operating system says\<close>

text \<open>The lines of \<^verbatim>\<open>/proc/cpuinfo\<close>, read with \<^verbatim>\<open>char line[1024]\<close>; \<^const>\<open>None\<close> when it cannot be opened.\<close>

function cpuinfo_lines :: "string \<Rightarrow> string list" where
  "cpuinfo_lines s = (if s = [] then [] else fst (fgets 1023 s) # cpuinfo_lines (snd (fgets 1023 s)))"
  by pat_completeness auto
termination
  by (relation "measure length") (use fgets_shorter [of _ 1022] in auto)

declare cpuinfo_lines.simps [simp del]

definition line_mhz :: "string \<Rightarrow> int option" where
  "line_mhz line =
     (if take 7 line = ''cpu MHz'' then
        (if CHR '':'' \<in> set line then
           case sscanf [Text '':'', Conv Dec, Text ''.''] (dropWhile (\<lambda>c. c \<noteq> CHR '':'') line) of
             [Num result] \<Rightarrow> Some result
           | _ \<Rightarrow> None
         else None)
      else None)"

fun first_mhz :: "string list \<Rightarrow> int" where
  "first_mhz [] = - 1"
| "first_mhz (l # ls) = (case line_mhz l of None \<Rightarrow> first_mhz ls | Some result \<Rightarrow> result)"

definition cpu_clock_by_os :: "string option \<Rightarrow> int" where
  "cpu_clock_by_os cpuinfo = (case cpuinfo of None \<Rightarrow> - 1 | Some f \<Rightarrow> first_mhz (cpuinfo_lines f))"

definition cpu_clock :: "string option \<Rightarrow> timer \<Rightarrow> nat \<Rightarrow> (int \<times> nat) outcome option" where
  "cpu_clock cpuinfo t n =
     (let result = cpu_clock_by_os cpuinfo in
      if result \<le> 0 then cpu_clock_measure t 200 True n else Some (Returns (result, n)))"

end
