(* ===== verification/Clock_Facts.thy ===== *)
theory Clock_Facts
  imports Clock
begin

text \<open>
  What the clock measurements return: the bounds of \<^verbatim>\<open>busy_loop\<close>, when the loops that wait for the clock
  end, and the frequency that is measured on a steady processor.
\<close>

section \<open>Marks\<close>

lemma top_bit_zero_iff: "drop_bit 63 (w :: u64) = 0 \<longleftrightarrow> unat w < 2 ^ 63"
  by (simp add: word_unat_eq_iff drop_bit_eq_div unat_div div_eq_0_iff)

lemma sint_small: "unat (w :: u64) \<le> 0x7fffffff \<Longrightarrow> sint (ucast w :: u32) = int (unat w)"
proof -
  assume small: "unat w \<le> 0x7fffffff"
  then have "unat (ucast w :: u32) = unat w"
    by (simp add: unsigned_ucast_eq take_bit_nat_eq_self_iff)
  then have u: "uint (ucast w :: u32) = int (unat w)" by (metis uint_nat)
  have "signed_take_bit 31 (int m) = int m" if "m \<le> 0x7fffffff" for m
    using that by (simp add: signed_take_bit_int_eq_self_iff)
  from this [OF small] show "sint (ucast w :: u32) = int (unat w)"
    unfolding sint_uint u by simp
qed

text \<open>
  \<^verbatim>\<open>cpu_clock_by_mark\<close> is the number of cycles per microsecond, rounded down, when both differences are
  positive as signed numbers and the quotient fits into an \<^verbatim>\<open>int\<close>, and -1 in all other cases.
\<close>

theorem cpu_clock_by_mark_spec:
  "cpu_clock_by_mark mark =
    (let d = unat (tsc mark); e = unat (sys_clock mark) in
     if 0 < e \<and> d < 2 ^ 63 \<and> e < 2 ^ 63 \<and> d div e < 2 ^ 31 then int (d div e) else - 1)"
proof -
  have "sys_clock mark = 0 \<longleftrightarrow> unat (sys_clock mark) = 0" by (simp add: unsigned_eq_0_iff)
  moreover have "tsc mark div sys_clock mark > 0x7fffffff \<longleftrightarrow>
      \<not> unat (tsc mark) div unat (sys_clock mark) < 2 ^ 31"
    by (simp add: word_less_nat_alt unat_div) linarith
  ultimately show ?thesis
    using sint_small [of "tsc mark div sys_clock mark"]
    by (auto simp: cpu_clock_by_mark_def top_bit_zero_iff unat_div Let_def)
qed

section \<open>Busy loops\<close>

lemma busy_add_data:
  "0 \<le> s \<Longrightarrow> busy_add busy_data s = (if s + 71 < 2 ^ 31 then Some (s + 71) else None)"
proof -
  have "busy_add (replicate n 0) s = (if s < 2 ^ 31 then Some s else None)" if "0 \<le> s" "0 < n" for n s
  proof -
    have "busy_add (replicate m 0) s = Some s" if "s < 2 ^ 31" for m
      using that \<open>0 \<le> s\<close> by (induction m) (simp_all add: c_int_def)
    then show ?thesis using that by (cases n) (auto simp: c_int_def)
  qed
  then show "0 \<le> s \<Longrightarrow> busy_add busy_data s = (if s + 71 < 2 ^ 31 then Some (s + 71) else None)"
    by (auto simp: busy_data_def c_int_def)
qed

lemma busy_rounds_sum:
  "0 \<le> s \<Longrightarrow> s < 2 ^ 31 \<Longrightarrow>
    busy_rounds j s = (if s + 71 * int j < 2 ^ 31 then Some (s + 71 * int j) else None)"
proof (induction j arbitrary: s)
  case (Suc j)
  then show ?case
    by (cases "s + 71 < 2 ^ 31") (simp_all add: busy_add_data algebra_simps)
qed simp

lemma busy_outer_sum:
  "0 \<le> s \<Longrightarrow> s < 2 ^ 31 \<Longrightarrow>
    busy_outer i s = (if s + 4653056 * int i < 2 ^ 31 then Some (s + 4653056 * int i) else None)"
proof (induction i arbitrary: s)
  case (Suc i)
  then show ?case
    by (cases "s + 4653056 < 2 ^ 31") (simp_all add: busy_rounds_sum algebra_simps)
qed simp

text \<open>
  \<^verbatim>\<open>busy_loop\<close> returns 4653056 for every round, an even number; from 462 rounds on its sum overflows.
\<close>

theorem busy_loop_spec:
  "busy_loop amount = (if amount \<le> 461 then Some (4653056 * max 0 amount) else None)"
  by (cases "amount \<le> 0") (auto simp: busy_loop_def busy_outer_sum)

section \<open>Waiting\<close>

lemma busy_loop_none: "busy_loop 0 = Some 0"
  by (simp add: busy_loop_spec)

text \<open>The test that ends the loop of \<^verbatim>\<open>busy_loop_delay\<close>, at the \<open>n\<close>-th reading of the clock.\<close>

definition delay_over :: "timer \<Rightarrow> u64 \<Rightarrow> u64 \<Rightarrow> nat \<Rightarrow> bool" where
  "delay_over t ms a n \<longleftrightarrow> (sys_precise_clock t n - a) div 1000 > ms"

lemma delay_loop_idle:
  "delay_loop t ms a 0 0 first b n =
    (if delay_over t ms a n then Some (Returns (0, Suc n))
     else delay_loop t ms a 0 0 False (sys_precise_clock t n) (Suc n))"
  by (subst delay_loop.simps) (simp add: delay_over_def busy_loop_none c_int_def Let_def)

lemma delay_loop_ends:
  assumes "delay_over t ms a (n + i)" and "\<And>j. j < i \<Longrightarrow> \<not> delay_over t ms a (n + j)"
  shows "delay_loop t ms a 0 0 first b n = Some (Returns (0, Suc (n + i)))"
  using assms
proof (induction i arbitrary: n first b)
  case 0
  then show ?case by (subst delay_loop_idle) simp
next
  case (Suc i)
  have "\<not> delay_over t ms a n" using Suc.prems(2) [of 0] by simp
  moreover have "\<not> delay_over t ms a (Suc n + j)" if "j < i" for j
    using Suc.prems(2) [of "Suc j"] that by simp
  ultimately show ?case
    using Suc.IH [of "Suc n" False "sys_precise_clock t n"] Suc.prems(1) by (subst delay_loop_idle) simp
qed

lemma delay_loop_returns:
  assumes "delay_loop t ms a cycles r first b n = Some res" and "cycles = 0" and "r = 0"
  shows "\<exists>i. delay_over t ms a (n + i)"
  using assms
proof (induction rule: delay_loop.raw_induct [rotated, consumes 1])
  case (1 delay_loop' t ms a cycles r first b n res)
  show ?case
  proof (cases "delay_over t ms a n")
    case True
    then show ?thesis by (intro exI [of _ 0]) simp
  next
    case False
    then have "delay_loop' t ms a 0 0 False (sys_precise_clock t n) (Suc n) = Some res"
      using "1.prems" "1.hyps"
      by (simp add: delay_over_def busy_loop_none c_int_def Let_def split: if_splits)
    from "1.IH" [OF this] obtain i where "delay_over t ms a (Suc n + i)" by auto
    then show ?thesis by (intro exI [of _ "Suc i"]) simp
  qed
qed

text \<open>
  \<^verbatim>\<open>busy_loop_delay\<close> returns if and only if the clock is once read more than the wanted number of
  milliseconds after the start (one has to pass whole), and then right after the first such reading. It
  always returns 0: \<^verbatim>\<open>cycles\<close> starts at 0 and is only doubled and halved, so that the loop reads the clock
  and never does the work it is to emulate. A negative number of milliseconds is a huge one.
\<close>

theorem busy_loop_delay_spec:
  "busy_loop_delay t milliseconds n =
    (let over = (\<lambda>i. delay_over t (of_int milliseconds) (sys_precise_clock t n) (Suc n + i)) in
     if \<exists>i. over i then Some (Returns (0, Suc (Suc n + (LEAST i. over i)))) else None)"
proof (cases "\<exists>i. delay_over t (of_int milliseconds) (sys_precise_clock t n) (Suc n + i)")
  case True
  let ?over = "\<lambda>i. delay_over t (of_int milliseconds) (sys_precise_clock t n) (Suc n + i)"
  have "?over (LEAST i. ?over i)" using True by (rule LeastI_ex)
  moreover have "\<not> ?over j" if "j < (LEAST i. ?over i)" for j using that by (rule not_less_Least)
  ultimately have "busy_loop_delay t milliseconds n = Some (Returns (0, Suc (Suc n + (LEAST i. ?over i))))"
    unfolding busy_loop_delay_def by (rule delay_loop_ends)
  with True show ?thesis by simp
next
  case False
  then have "busy_loop_delay t milliseconds n = None"
    using delay_loop_returns [of t "of_int milliseconds" "sys_precise_clock t n" 0 0 True 0 "Suc n"]
    by (cases "busy_loop_delay t milliseconds n") (auto simp: busy_loop_delay_def)
  with False show ?thesis by simp
qed

section \<open>The pair of closest results\<close>

definition distance :: "int list \<Rightarrow> nat \<times> nat \<Rightarrow> int" where
  "distance results p = \<bar>results ! fst p - results ! snd p\<bar>"

lemma best_pair_loop_min:
  assumes "\<forall>p \<in> set pairs. - 1 \<le> results ! fst p \<and> results ! fst p < 2 ^ 30 \<and>
    - 1 \<le> results ! snd p \<and> results ! snd p < 2 ^ 30"
  shows "best_pair_loop results pairs mdiff best =
    Some (if \<forall>p \<in> set pairs. mdiff \<le> distance results p then best
      else List.find (\<lambda>p. \<forall>q \<in> set pairs. distance results p \<le> distance results q) pairs)"
  using assms
proof (induction pairs arbitrary: mdiff best)
  case (Cons p pairs)
  obtain i j where p: "p = (i, j)" by (cases p)
  let ?d = "distance results"
  have run: "best_pair_loop results ((i, j) # pairs) mdiff best =
      (if ?d (i, j) < mdiff then best_pair_loop results pairs (?d (i, j)) (Some (i, j))
       else best_pair_loop results pairs mdiff best)"
    using Cons.prems p by (auto simp: c_int_def distance_def abs_if)
  have skip: "List.find (\<lambda>p. \<forall>q \<in> set ((i, j) # pairs). ?d p \<le> ?d q) ((i, j) # pairs) =
      List.find (\<lambda>p. \<forall>q \<in> set pairs. ?d p \<le> ?d q) pairs"
    if p0: "p0 \<in> set pairs" "?d p0 < ?d (i, j)" for p0
  proof -
    have "(\<forall>q \<in> set ((i, j) # pairs). ?d p \<le> ?d q) \<longleftrightarrow> (\<forall>q \<in> set pairs. ?d p \<le> ?d q)" for p
      using p0 by fastforce
    moreover have "\<not> (\<forall>q \<in> set pairs. ?d (i, j) \<le> ?d q)" using p0 by fastforce
    ultimately show ?thesis by (simp only: List.find.simps if_False list.set_intros)
  qed
  have IH: "best_pair_loop results pairs m b = Some (if \<forall>p \<in> set pairs. m \<le> ?d p then b
      else List.find (\<lambda>p. \<forall>q \<in> set pairs. ?d p \<le> ?d q) pairs)" for m b
    using Cons.prems by (intro Cons.IH) simp
  show ?case
  proof (cases "\<exists>p0 \<in> set pairs. ?d p0 < ?d (i, j)")
    case True
    then obtain p0 where p0: "p0 \<in> set pairs" "?d p0 < ?d (i, j)" by blast
    have "\<not> (\<forall>p \<in> set pairs. ?d (i, j) \<le> ?d p)" using p0 by fastforce
    then show ?thesis unfolding p run using IH skip [OF p0] p0
      by (auto simp del: List.find.simps best_pair_loop.simps)
  next
    case False
    then have "List.find (\<lambda>p. \<forall>q \<in> set ((i, j) # pairs). ?d p \<le> ?d q) ((i, j) # pairs) = Some (i, j)"
      by (simp add: not_less)
    with False show ?thesis unfolding p run using IH
      by (auto simp: not_less simp del: List.find.simps best_pair_loop.simps)
  qed
qed simp

lemma pair_indices_eq: "pair_indices = [(0, 1), (0, 2), (0, 3), (1, 2), (1, 3), (2, 3)]"
  by (simp add: pair_indices_def upt_rec)

definition closest_pair :: "int list \<Rightarrow> nat \<times> nat" where
  "closest_pair results =
     the (List.find (\<lambda>p. \<forall>q \<in> set pair_indices. distance results p \<le> distance results q) pair_indices)"

lemma closest_pair:
  "List.find (\<lambda>p. \<forall>q \<in> set pair_indices. distance results p \<le> distance results q) pair_indices =
     Some (closest_pair results)"
proof -
  obtain p where "p \<in> set pair_indices" "\<forall>q \<in> set pair_indices. distance results p \<le> distance results q"
    using arg_min_if_finite [of "set pair_indices" "distance results"]
    by (metis List.finite_set not_le pair_indices_eq list.distinct(1) set_empty)
  then have "List.find (\<lambda>p. \<forall>q \<in> set pair_indices. distance results p \<le> distance results q) pair_indices \<noteq> None"
    unfolding find_None_iff by blast
  then show ?thesis by (auto simp: closest_pair_def)
qed

text \<open>
  with four results in the range of frequencies, \<^verbatim>\<open>cpu_clock_measure\<close> takes the first of the pairs with the
  smallest difference: it never uses the index -1, and returns -1 when the first of the two is -1 and else
  their mean.
\<close>

theorem best_result_spec:
  assumes "length results = 4" and "\<And>r. r \<in> set results \<Longrightarrow> - 1 \<le> r \<and> r < 2 ^ 30"
  shows "case closest_pair results of (bi, bj) \<Rightarrow>
    bi < bj \<and> bj < 4 \<and>
    (\<forall>i j. i < j \<and> j < 4 \<longrightarrow> \<bar>results ! bi - results ! bj\<bar> \<le> \<bar>results ! i - results ! j\<bar>) \<and>
    best_result results 0 =
      Some (if results ! bi = - 1 then - 1 else (results ! bi + results ! bj) sdiv 2)"
proof -
  obtain bi bj where b: "closest_pair results = (bi, bj)" by fastforce
  have min: "(bi, bj) \<in> set pair_indices"
      "\<And>q. q \<in> set pair_indices \<Longrightarrow> distance results (bi, bj) \<le> distance results q"
    using closest_pair [of results] b by (auto simp: find_Some_iff in_set_conv_nth)
  have idx: "(i, j) \<in> set pair_indices \<longleftrightarrow> i < j \<and> j < 4" for i j
    by (auto simp: pair_indices_eq)
  have range: "- 1 \<le> results ! i \<and> results ! i < 2 ^ 30" if "i < 4" for i
    using assms that by (metis nth_mem)
  have dist: "distance results (bi, bj) < 0x7fffffff"
    using range [of bi] range [of bj] min(1) idx by (auto simp: distance_def)
  have "best_pair_loop results pair_indices 0x7fffffff None = Some (Some (bi, bj))"
    using min(1) dist closest_pair [of results] b range idx
    by (subst best_pair_loop_min) (auto simp: not_le)
  then have "best_result results 0 = Some (if results ! bi = - 1 then - 1 else (results ! bi + results ! bj) sdiv 2)"
    using range [of bi] range [of bj] min(1) idx by (auto simp: best_result_def c_int_def)
  then show ?thesis
    using min idx b by (auto simp: distance_def)
qed

section \<open>A steady clock\<close>

text \<open>
  The time \<open>T n\<close> of the \<open>n\<close>-th reading in microseconds, and \<open>f\<close> cycles of the processor for each of them;
  both counters may wrap.
\<close>

definition steady :: "timer \<Rightarrow> nat \<Rightarrow> (nat \<Rightarrow> nat) \<Rightarrow> bool" where
  "steady t f T \<longleftrightarrow> (\<forall>n. T n \<le> T (Suc n) \<and>
     sys_precise_clock t n = of_nat (T n) \<and> cpu_rdtsc t n = of_nat (f * T n))"

lemma steady_mono: "steady t f T \<Longrightarrow> m \<le> n \<Longrightarrow> T m \<le> T n"
  by (rule lift_Suc_mono_le) (simp_all add: steady_def)

lemma steady_difference:
  assumes "steady t f T" and "m \<le> n"
  shows "mark_t_subtract (cpu_tsc_mark t n) (cpu_tsc_mark t m) =
    \<lparr>tsc = of_nat (f * (T n - T m)), sys_clock = of_nat (T n - T m)\<rparr>"
  using assms steady_mono [OF assms]
  by (simp add: mark_t_subtract_def cpu_tsc_mark_def steady_def of_nat_diff algebra_simps)

lemma unat_of_nat_small64: "n < 2 ^ 64 \<Longrightarrow> unat (of_nat n :: u64) = n"
  by (simp add: unat_of_nat take_bit_nat_eq_self_iff)

lemma steady_clock:
  assumes "steady t f T" and "m \<le> n" and "0 < T n - T m" and "f < 2 ^ 31"
    and "T n - T m < 2 ^ 63" and "f * (T n - T m) < 2 ^ 63"
  shows "cpu_clock_by_mark (mark_t_subtract (cpu_tsc_mark t n) (cpu_tsc_mark t m)) = int f"
proof -
  let ?d = "T n - T m"
  have u: "unat (of_nat ?d :: u64) = ?d" "unat (of_nat (f * ?d) :: u64) = f * ?d"
    using assms(5,6) by (intro unat_of_nat_small64, simp)+
  show ?thesis
    unfolding steady_difference [OF assms(1,2)] cpu_clock_by_mark_spec cpu_mark_t.simps u
    using assms(3-6) by simp
qed

text \<open>
  A gap between two readings is short when it is less than an eighth of the wanted time \<open>limit\<close>: after such a gap the
  number of rounds is doubled. There are never more than 48 readings; up to eight of their gaps may be short, be it
  because the busy loop still has to be doubled or because two readings follow each other without a busy loop, as at the
  end of one of the four measurements and the start of the next. A round of the busy loop adds 2752512 numbers, which takes about a
  millisecond at 3 GHz: with the 400 ms of \<^verbatim>\<open>cpuid_tool\<close> a gap is long from 12.5 ms on, after four doublings.
\<close>

definition short_gap :: "(nat \<Rightarrow> nat) \<Rightarrow> nat \<Rightarrow> nat \<Rightarrow> bool" where
  "short_gap T limit m \<longleftrightarrow> T (Suc m) - T m < limit div 8"

definition few_short :: "(nat \<Rightarrow> nat) \<Rightarrow> nat \<Rightarrow> nat \<Rightarrow> bool" where
  "few_short T limit n \<longleftrightarrow> card {m \<in> {n..<n + 48}. short_gap T limit m} \<le> 8"

text \<open>The number of short and of long gaps from reading \<open>a\<close> to reading \<open>b\<close>.\<close>

definition shorts :: "(nat \<Rightarrow> nat) \<Rightarrow> nat \<Rightarrow> nat \<Rightarrow> nat \<Rightarrow> nat" where
  "shorts T limit a b = card {m \<in> {a..<b}. short_gap T limit m}"

definition longs :: "(nat \<Rightarrow> nat) \<Rightarrow> nat \<Rightarrow> nat \<Rightarrow> nat \<Rightarrow> nat" where
  "longs T limit a b = card {m \<in> {a..<b}. \<not> short_gap T limit m}"

lemma shorts_first:
  assumes "a < b"
  shows "shorts T limit a b = (if short_gap T limit a then 1 else 0) + shorts T limit (Suc a) b"
proof -
  have "{m \<in> {a..<b}. short_gap T limit m} =
      (if short_gap T limit a then insert a else id) {m \<in> {Suc a..<b}. short_gap T limit m}"
    using assms by (auto simp: Suc_le_eq le_less)
  then show ?thesis by (simp add: shorts_def)
qed

lemma longs_split: "longs T limit a c \<le> longs T limit a b + longs T limit b c"
proof -
  have "{m \<in> {a..<c}. \<not> short_gap T limit m} \<subseteq>
      {m \<in> {a..<b}. \<not> short_gap T limit m} \<union> {m \<in> {b..<c}. \<not> short_gap T limit m}" by auto
  then have "longs T limit a c \<le> card ({m \<in> {a..<b}. \<not> short_gap T limit m} \<union> {m \<in> {b..<c}. \<not> short_gap T limit m})"
    unfolding longs_def by (intro card_mono) auto
  also have "\<dots> \<le> longs T limit a b + longs T limit b c" unfolding longs_def by (rule card_Un_le)
  finally show ?thesis .
qed

lemma longs_le: "longs T limit a b \<le> b - a"
proof -
  have "longs T limit a b \<le> card {a..<b}" unfolding longs_def by (intro card_mono) auto
  then show ?thesis by simp
qed

lemma longs_shorts: "longs T limit a b + shorts T limit a b = b - a"
proof -
  have "longs T limit a b + shorts T limit a b =
      card ({m \<in> {a..<b}. \<not> short_gap T limit m} \<union> {m \<in> {a..<b}. short_gap T limit m})"
    unfolding longs_def shorts_def by (rule card_Un_disjoint [symmetric]) auto
  also have "{m \<in> {a..<b}. \<not> short_gap T limit m} \<union> {m \<in> {a..<b}. short_gap T limit m} = {a..<b}" by auto
  finally show ?thesis by simp
qed

text \<open>Every long gap adds to the time.\<close>

lemma longs_time:
  assumes "\<And>m. T m \<le> T (Suc m)" and "a \<le> b"
  shows "limit div 8 * longs T limit a b \<le> T b - T a"
  using assms(2)
proof (induction b rule: dec_induct)
  case (step b)
  have "{m \<in> {a..<Suc b}. \<not> short_gap T limit m} =
      (if short_gap T limit b then id else insert b) {m \<in> {a..<b}. \<not> short_gap T limit m}"
    using step.hyps by (auto simp: less_Suc_eq)
  then have "longs T limit a (Suc b) = longs T limit a b + (if short_gap T limit b then 0 else 1)"
    by (simp add: longs_def)
  moreover have "T a \<le> T b" using step.hyps(1) lift_Suc_mono_le [of T] assms(1) by blast
  ultimately show ?case
    using step.IH assms(1) [of b] by (auto simp: short_gap_def algebra_simps not_less)
qed (simp add: longs_def)

lemma measure_loop_step:
  fixes limit :: u64
  assumes "steady t f T" and "j \<le> 8" and "b \<le> n" and "T (Suc n) - T b < 2 ^ 64"
  defines "j' \<equiv> j + (if short_gap T (unat limit) n then 1 else 0)"
  shows "measure_loop t limit (cpu_tsc_mark t b) (cpu_tsc_mark t n) (2 ^ j) 0 (Suc n) =
    (if T (Suc n) - T b < unat limit
     then measure_loop t limit (cpu_tsc_mark t b) (cpu_tsc_mark t (Suc n)) (2 ^ j') 0 (Suc (Suc n))
     else Some (Returns (cpu_tsc_mark t (Suc n), 2 ^ j', 0, Suc (Suc n))))"
proof -
  have le: "T b \<le> T n" "T n \<le> T (Suc n)" using steady_mono [OF assms(1)] assms(3) by simp_all
  have u: "unat (of_nat (T (Suc n) - T b) :: u64) = T (Suc n) - T b"
      "unat (of_nat (T (Suc n) - T n) :: u64) = T (Suc n) - T n"
    using assms(4) le by (intro unat_of_nat_small64, simp)+
  have clk: "sys_clock (cpu_tsc_mark t (Suc n)) - sys_clock (cpu_tsc_mark t b) = of_nat (T (Suc n) - T b)"
    using assms(1) order_trans [OF le] by (simp add: steady_def cpu_tsc_mark_def of_nat_diff)
  have gap: "of_nat (T (Suc n) - T n) < limit div 8 \<longleftrightarrow> short_gap T (unat limit) n"
    unfolding word_less_nat_alt u by (simp add: short_gap_def unat_div)
  have short: "of_nat (T (Suc n) - T b) < limit \<longleftrightarrow> T (Suc n) - T b < unat limit"
    unfolding word_less_nat_alt u ..
  have "(2 :: int) ^ j \<le> 2 ^ 8" using assms(2) by (intro power_increasing) simp_all
  moreover have "(0 :: int) \<le> 2 ^ j" by simp
  then have "- 1073741824 \<le> (2 :: int) ^ j" by linarith
  ultimately have few: "(2 :: int) ^ j \<le> 256" "- 1073741824 \<le> (2 :: int) ^ j" by simp_all
  have even: "(1 :: int) AND (4653056 * 2 ^ j) = 0" by (simp add: one_and_eq)
  obtain w where w: "busy_loop (2 ^ j) = Some w" "(0 :: int) OR (1 AND w) = 0" "c_int (2 ^ j * 2) = Some (2 ^ Suc j)"
    using few even by (auto simp: busy_loop_spec c_int_def)
  show ?thesis
    by (subst measure_loop.simps)
      (cases "short_gap T (unat limit) n"; simp only: steady_difference [OF assms(1) le_SucI [OF order_refl]]
        cpu_mark_t.simps clk gap short w Let_def option.case if_True if_False j'_def; simp)
qed

lemma measure_loop_steady:
  fixes limit :: u64
  defines "lim \<equiv> unat limit"
  assumes steady: "steady t f T" and lim: "64 \<le> lim" "lim + D < 2 ^ 64"
    and gaps: "\<And>m. m < N \<Longrightarrow> T (Suc m) - T m \<le> D" and enough: "9 \<le> longs T lim b N"
  shows "b \<le> n \<Longrightarrow> n \<le> N \<Longrightarrow> T n - T b < lim \<Longrightarrow> j + shorts T lim n N \<le> 8 \<Longrightarrow>
    \<exists>m j'. n \<le> m \<and> m < N \<and>
      measure_loop t limit (cpu_tsc_mark t b) (cpu_tsc_mark t n) (2 ^ j) 0 (Suc n) =
        Some (Returns (cpu_tsc_mark t (Suc m), 2 ^ j', 0, Suc (Suc m))) \<and>
      T m - T b < lim \<and> lim \<le> T (Suc m) - T b \<and> T (Suc m) - T b < lim + D \<and> j' + shorts T lim (Suc m) N \<le> 8"
proof (induction "N - n" arbitrary: n j rule: less_induct)
  case less
  have mono: "T m \<le> T (Suc m)" for m using steady by (simp add: steady_def)
  have nine: "lim < 9 * (lim div 8)" using lim(1) by linarith
  have "b \<le> N" using less.prems(1,2) by simp
  then have "lim div 8 * longs T lim b N \<le> T N - T b" by (intro longs_time mono)
  then have "lim div 8 * 9 \<le> T N - T b"
    using mult_le_mono2 [OF enough, of "lim div 8"] by linarith
  then have "n \<noteq> N" using nine less.prems(3) by auto
  then have n: "n < N" using less.prems(2) by simp
  have le: "T b \<le> T n" "T n \<le> T (Suc n)" using steady_mono [OF steady] less.prems(1) by simp_all
  have bound: "T (Suc n) - T b < lim + D" using gaps [OF n] less.prems(3) le by linarith
  let ?j = "j + (if short_gap T lim n then 1 else 0)"
  have budget: "?j + shorts T lim (Suc n) N \<le> 8"
    using less.prems(4) shorts_first [OF n, of T lim] by simp
  have step: "measure_loop t limit (cpu_tsc_mark t b) (cpu_tsc_mark t n) (2 ^ j) 0 (Suc n) =
      (if T (Suc n) - T b < lim
       then measure_loop t limit (cpu_tsc_mark t b) (cpu_tsc_mark t (Suc n)) (2 ^ ?j) 0 (Suc (Suc n))
       else Some (Returns (cpu_tsc_mark t (Suc n), 2 ^ ?j, 0, Suc (Suc n))))"
    unfolding lim_def
    by (rule measure_loop_step [OF steady _ less.prems(1)]) (use less.prems(4) bound lim(2) in auto)
  show ?case
  proof (cases "T (Suc n) - T b < lim")
    case True
    have "N - Suc n < N - n" "b \<le> Suc n" "Suc n \<le> N" using n less.prems(1) by simp_all
    from less.hyps [OF this True budget] obtain m j' where "Suc n \<le> m" "m < N"
        "measure_loop t limit (cpu_tsc_mark t b) (cpu_tsc_mark t (Suc n)) (2 ^ ?j) 0 (Suc (Suc n)) =
          Some (Returns (cpu_tsc_mark t (Suc m), 2 ^ j', 0, Suc (Suc m)))"
        "T m - T b < lim" "lim \<le> T (Suc m) - T b" "T (Suc m) - T b < lim + D" "j' + shorts T lim (Suc m) N \<le> 8"
      by blast
    then show ?thesis using True by (intro exI [of _ m] exI [of _ j']) (simp add: step)
  next
    case False
    then show ?thesis using n bound less.prems(3) budget by (intro exI [of _ n] exI [of _ ?j]) (simp add: step)
  qed
qed

text \<open>Each measurement uses up at most ten long gaps: eight or nine of its own, and the one to the next.\<close>

lemma measure_rounds_steady:
  fixes limit :: u64
  defines "lim \<equiv> unat limit"
  assumes steady: "steady t f T" "f < 2 ^ 31" and lim: "64 \<le> lim" "lim + D < 2 ^ 63" "f * (lim + D) < 2 ^ 63"
    and gaps: "\<And>m. m < N \<Longrightarrow> T (Suc m) - T m \<le> D"
  shows "10 * k \<le> longs T lim n N \<Longrightarrow> j + shorts T lim n N \<le> 8 \<Longrightarrow>
    \<exists>n'. measure_rounds k t limit (2 ^ j) 0 n = Some (Returns (replicate k (int f), 0, n'))"
proof (induction k arbitrary: n j)
  case (Suc k)
  have n: "n \<le> N" and nine: "9 \<le> longs T lim n N" using Suc.prems(1) longs_le [of T lim n N] by simp_all
  obtain m j' where m: "n \<le> m" "m < N" "measure_loop t limit (cpu_tsc_mark t n) (cpu_tsc_mark t n) (2 ^ j) 0 (Suc n) =
      Some (Returns (cpu_tsc_mark t (Suc m), 2 ^ j', 0, Suc (Suc m)))"
      "T m - T n < lim" "lim \<le> T (Suc m) - T n" "T (Suc m) - T n < lim + D" "j' + shorts T lim (Suc m) N \<le> 8"
    using measure_loop_steady [OF steady(1), where limit = limit and D = D and N = N and b = n and n = n and j = j,
        folded lim_def] lim gaps nine n Suc.prems(2) by auto
  have "f * (T (Suc m) - T n) \<le> f * (lim + D)" using m(6) by (intro mult_left_mono) simp_all
  then have "f * (T (Suc m) - T n) < 2 ^ 63" using lim(3) by (rule order_le_less_trans)
  then have clock: "cpu_clock_by_mark (mark_t_subtract (cpu_tsc_mark t (Suc m)) (cpu_tsc_mark t n)) = int f"
    using steady(2) lim(1,2) m by (intro steady_clock [OF steady(1)]) simp_all
  have "lim div 8 * longs T lim n m \<le> T m - T n"
    using steady(1) m(1) by (intro longs_time) (simp_all add: steady_def)
  then have "lim div 8 * longs T lim n m < lim div 8 * 9" using m(4) lim(1) by linarith
  then have "longs T lim n m \<le> 8" by simp
  moreover have "longs T lim m (Suc (Suc m)) \<le> 2" using longs_le [of T lim m "Suc (Suc m)"] by simp
  ultimately have "longs T lim n (Suc (Suc m)) \<le> 10" using longs_split [of T lim n "Suc (Suc m)" m] by linarith
  then have left: "10 * k \<le> longs T lim (Suc (Suc m)) N"
    using longs_split [of T lim n N "Suc (Suc m)"] Suc.prems(1) by simp
  have "shorts T lim (Suc (Suc m)) N \<le> shorts T lim (Suc m) N"
    unfolding shorts_def by (intro card_mono) auto
  then have "j' + shorts T lim (Suc (Suc m)) N \<le> 8" using m(7) by simp
  from Suc.IH [OF left this] obtain n' where
      "measure_rounds k t limit (2 ^ j') 0 (Suc (Suc m)) = Some (Returns (replicate k (int f), 0, n'))" by blast
  then show ?case by (simp add: m(3) clock)
qed simp

lemma best_result_same:
  assumes "f < 2 ^ 30"
  shows "best_result (replicate 4 (int f)) 0 = Some (int f)"
proof -
  obtain bi bj where b: "closest_pair (replicate 4 (int f)) = (bi, bj)" by fastforce
  have "bi < bj \<and> bj < 4 \<and> best_result (replicate 4 (int f)) 0 =
      Some (if replicate 4 (int f) ! bi = - 1 then - 1 else (replicate 4 (int f) ! bi + replicate 4 (int f) ! bj) sdiv 2)"
    using best_result_spec [of "replicate 4 (int f)"] b assms by simp
  then show ?thesis by (simp add: signed_divide_int_def sgn_if)
qed

text \<open>
  C29: on a processor with a constant frequency of \<open>f\<close> MHz \<^verbatim>\<open>cpu_clock_measure\<close> returns and its result is \<open>f\<close>, with and
  without the quad check. What it needs of the clock is that at most eight of the next 48 gaps between readings are
  shorter than an eighth of the time of a measurement, so that the busy loop, which is doubled after each of them,
  never has more than 256 rounds (its sum overflows from 462 rounds on), and that no gap is longer than \<open>D\<close>, so that no
  counter overflows.
\<close>

theorem cpu_clock_measure_steady:
  fixes millis :: int and quad_check :: bool
  defines "limit \<equiv> nat millis * 1000 div (if quad_check then 4 else 1)"
  assumes "steady t f T" and "few_short T limit n" and "f < 2 ^ 30" and "1 \<le> millis" and "millis < 2 ^ 31"
    and "limit + D < 2 ^ 63" and "f * (limit + D) < 2 ^ 63" and "\<forall>m < n + 48. T (Suc m) - T m \<le> D"
  shows "\<exists>n'. cpu_clock_measure t millis quad_check n = Some (Returns (int f, n'))"
proof -
  define w :: u64 where "w = of_int millis * 1000"
  have "of_int millis = (of_nat (nat millis) :: u64)" using assms(5) by simp
  then have "w = of_nat (nat millis * 1000)" by (simp add: w_def)
  moreover have "nat millis * 1000 < 2 ^ 64" using assms(6) by (simp add: nat_less_iff)
  ultimately have w: "unat w = nat millis * 1000" by (simp only: unat_of_nat_small64)
  define lim where "lim = (if quad_check then w div 4 else w)"
  have u: "unat lim = limit" by (simp add: lim_def limit_def w unat_div)
  have big: "64 \<le> limit" using assms(5) by (simp add: limit_def) linarith
  let ?k = "if quad_check then 4 else 1 :: nat"
  have s: "shorts T limit n (n + 48) \<le> 8" using assms(3) by (simp add: shorts_def few_short_def)
  then have "10 * ?k \<le> longs T limit n (n + 48)" using longs_shorts [of T limit n "n + 48"] by simp
  then obtain n' where "measure_rounds ?k t lim 1 0 n = Some (Returns (replicate ?k (int f), 0, n'))"
    using measure_rounds_steady [of t f T lim D "n + 48" ?k n 0] assms u big s by auto
  then show ?thesis
    using assms(5) best_result_same [OF assms(4)]
    by (auto simp: cpu_clock_measure_def Let_def w_def [symmetric] lim_def numeral_eq_Suc split: if_splits)
qed

text \<open>
  A processor of 3000 MHz whose readings are one millisecond apart up to the eighth and eight from there on. A measurement that starts
  with the sixth reading doubles the busy loop.
\<close>

definition sample_time :: "nat \<Rightarrow> nat" where
  "sample_time n = (if n < 8 then 1000 * n else 7000 + 8000 * (n - 7))"

lemma sample_time_Suc: "sample_time (Suc n) = sample_time n + (if n < 7 then 1000 else 8000)"
  by (simp add: sample_time_def) linarith

definition sample_timer :: timer where
  "sample_timer = \<lparr>timeval = (\<lambda>n. (int (sample_time n) div 1000000, int (sample_time n) mod 1000000)),
     tsc_regs = (\<lambda>n. (of_nat (3000 * sample_time n), of_nat (3000 * sample_time n div 2 ^ 32)))\<rparr>"

lemma u64_halves: "ucast (of_nat x :: u32) + push_bit 32 (ucast (of_nat (x div 2 ^ 32) :: u32)) = (of_nat x :: u64)"
proof -
  have "ucast (of_nat x :: u32) + push_bit 32 (ucast (of_nat (x div 2 ^ 32) :: u32)) =
      (of_nat (x mod 2 ^ 32 + 2 ^ 32 * (x div 2 ^ 32 mod 2 ^ 32)) :: u64)"
    by (simp add: push_bit_eq_mult unsigned_of_nat take_bit_eq_mod)
  also have "x mod 2 ^ 32 + 2 ^ 32 * (x div 2 ^ 32 mod 2 ^ 32) = x mod 2 ^ 64"
    using mod_mult2_eq [of x "2 ^ 32" "2 ^ 32"] by simp
  also have "(of_nat (x mod 2 ^ 64) :: u64) = of_nat x"
    by (simp add: word_of_nat_eq_iff take_bit_eq_mod)
  finally show ?thesis .
qed

lemma sample_timer_steady: "steady sample_timer 3000 sample_time"
proof -
  have "sys_precise_clock sample_timer n = of_nat (sample_time n)" for n
  proof -
    have "sys_precise_clock sample_timer n = of_int (int (sample_time n) div 1000000 * 1000000 + int (sample_time n) mod 1000000)"
      unfolding of_int_add of_int_mult by (simp add: sys_precise_clock_def sample_timer_def)
    then show ?thesis by (simp only: div_mult_mod_eq of_int_of_nat_eq)
  qed
  moreover have "cpu_rdtsc sample_timer n = of_nat (3000 * sample_time n)" for n
    unfolding u64_halves [symmetric] by (simp only: cpu_rdtsc_def sample_timer_def timer.simps Let_def prod.case)
  ultimately show ?thesis by (simp only: steady_def) (simp add: sample_time_Suc)
qed

lemma sample_time_few_short: "few_short sample_time 50000 5"
proof -
  have "{m \<in> {5..<5 + 48}. short_gap sample_time 50000 m} \<subseteq> {5, 6}"
    by (auto simp: short_gap_def sample_time_Suc split: if_splits)
  then have "card {m \<in> {5..<5 + 48}. short_gap sample_time 50000 m} \<le> card {5, 6 :: nat}" by (intro card_mono) auto
  then show ?thesis by (simp add: few_short_def)
qed

theorem cpu_clock_measure_steady_witness:
  "\<exists>n. cpu_clock_measure sample_timer 200 True 5 = Some (Returns (3000, n))"
  using cpu_clock_measure_steady [OF sample_timer_steady, of 200 True 5 8000] sample_time_few_short
  by (simp add: sample_time_Suc)

theorem best_result_spec_witness:
  "closest_pair [2900, 3000, 2500, 3002] = (1, 3) \<and> best_result [2900, 3000, 2500, 3002] 0 = Some 3001"
proof -
  have "closest_pair [2900, 3000, 2500, 3002] = (1, 3)"
    by (simp add: closest_pair_def pair_indices_eq distance_def)
  moreover have "- 1 \<le> r \<and> r < 2 ^ 30" if "r \<in> set [2900, 3000, 2500, 3002]" for r :: int
    using that by auto
  ultimately show ?thesis
    using best_result_spec [of "[2900, 3000, 2500, 3002]"] by (simp add: signed_divide_int_def)
qed

section \<open>What the operating system says\<close>

lemma line_mhz_printed:
  assumes "v < 2 ^ 31"
  shows "line_mhz (''cpu MHz'' @ [CHR 0x09, CHR 0x09] @ '': '' @ dec_digits v @ ''.'' @ rest) = Some (int v)"
proof -
  have "number_ends (''.'' @ rest)" by (simp add: number_ends_def is_digit_def digit_val_def)
  from sscanf_dec [OF this assms, of "[Text ''.'']"]
  have "sscanf [Text '':'', Conv Dec, Text ''.''] ('': '' @ dec_digits v @ ''.'' @ rest) = [Num (int v)]"
    by (simp add: c_isspace_def)
  then show ?thesis by (simp add: line_mhz_def)
qed

lemma cpuinfo_lines_unlines:
  assumes "\<forall>l \<in> set ls. NL \<notin> set l \<and> length l < 1023"
  shows "cpuinfo_lines (unlines ls @ s) = map (\<lambda>l. l @ [NL]) ls @ cpuinfo_lines s"
  using assms
proof (induction ls)
  case (Cons l ls)
  then show ?case
    using fgets_line [of l 1023 "unlines ls @ s"]
    by (simp add: unlines_def cpuinfo_lines.simps [of "l @ NL # _"])
qed (simp add: unlines_def)

lemma first_mhz_skip:
  "\<forall>l \<in> set ls. line_mhz l = None \<Longrightarrow> first_mhz (ls @ ls') = first_mhz ls'"
  by (induction ls) simp_all

text \<open>
  \<^verbatim>\<open>cpu_clock\<close> returns the whole megahertz of the first line \<^verbatim>\<open>cpu MHz\<close> of \<^verbatim>\<open>/proc/cpuinfo\<close>, without measuring,
  whatever the other lines say, provided that no line is longer than the buffer.
\<close>

theorem cpu_clock_reported:
  assumes "\<forall>l \<in> set before. NL \<notin> set l \<and> length l < 1023 \<and> take 7 (l @ [NL]) \<noteq> ''cpu MHz''"
    and "0 < v" and "v < 2 ^ 31" and "NL \<notin> set frac" and "length frac < 900"
  defines "line \<equiv> ''cpu MHz'' @ [CHR 0x09, CHR 0x09] @ '': '' @ dec_digits v @ ''.'' @ frac"
  shows "cpu_clock (Some (unlines (before @ [line]) @ after)) t n = Some (Returns (int v, n))"
proof -
  have "length (dec_digits v) \<le> 10" using assms(3) by (intro length_dec_digits) simp_all
  moreover have "NL \<notin> set (dec_digits v)"
    using digits_plain [OF set_dec_digits [of v]] by auto
  ultimately have "cpuinfo_lines (unlines (before @ [line]) @ after) =
      map (\<lambda>l. l @ [NL]) (before @ [line]) @ cpuinfo_lines after"
    using assms(1,4,5) by (intro cpuinfo_lines_unlines) (auto simp: line_def)
  moreover have "first_mhz (map (\<lambda>l. l @ [NL]) before @ ls) = first_mhz ls" for ls
    using assms(1) by (intro first_mhz_skip) (auto simp: line_mhz_def)
  moreover have "line_mhz (line @ [NL]) = Some (int v)"
    using line_mhz_printed [OF assms(3), of "frac @ [NL]"] by (simp add: line_def)
  ultimately have "cpu_clock_by_os (Some (unlines (before @ [line]) @ after)) = int v"
    by (simp add: cpu_clock_by_os_def)
  then show ?thesis using assms(2) by (simp add: cpu_clock_def)
qed

theorem cpu_clock_reported_witness:
  "cpu_clock (Some (unlines [''processor : 0'', ''cpu MHz'' @ [CHR 0x09, CHR 0x09] @ '': 2893.202''])) sample_timer 0 =
    Some (Returns (2893, 0))"
  using cpu_clock_reported [where before = "[''processor : 0'']" and v = 2893 and frac = "''202''" and after = "[]" and t = sample_timer and n = 0]
  by (simp add: dec_digits.simps digit_char_def)

end
