(* ===== verification/Clock_Cpu.thy ===== *)
theory Clock_Cpu
  imports Clock_Facts Identify
begin

text \<open>
  The clock frequencies of \<^verbatim>\<open>rdtsc.c\<close> that depend on the processor: \<^verbatim>\<open>cpu_clock_by_ic\<close>, which counts SSE
  instructions, and \<^verbatim>\<open>cpu_clock_by_tsc\<close>, which reads CPUID leaves 15h and 16h, and the cached identification
  of \<^verbatim>\<open>libcpuid_util.c\<close> they share with \<^verbatim>\<open>rdmsr.c\<close>.
\<close>

section \<open>The cached identification\<close>

text \<open>The static \<^verbatim>\<open>id\<close> of \<^verbatim>\<open>get_cached_cpuid\<close> when it is filled with zero bytes and set to unknown.\<close>

definition cpu_id_unknown :: cpu_id_t where
  "cpu_id_unknown = \<lparr>
     architecture = ARCHITECTURE_UNKNOWN,
     feature_level = FEATURE_LEVEL_I386,
     vendor_str = [], brand_str = [],
     vendor = VENDOR_UNKNOWN,
     flags = (\<lambda>_. False),
     x86 = \<lparr>family = 0, model = 0, stepping = 0, ext_family = 0, ext_model = 0,
       sse_size = 0, sgx = sgx_zero\<rparr>,
     arm = \<lparr>implementer = 0, variant = 0, part_num = 0, revision = 0\<rparr>,
     num_cores = 0, num_logical_cpus = 0, total_logical_cpus = 0,
     l1_data_cache = 0, l1_instruction_cache = 0, l2_cache = 0, l3_cache = 0, l4_cache = 0,
     l1_data_assoc = 0, l1_instruction_assoc = 0, l2_assoc = 0, l3_assoc = 0, l4_assoc = 0,
     l1_data_cacheline = 0, l1_instruction_cacheline = 0, l2_cacheline = 0,
     l3_cacheline = 0, l4_cacheline = 0,
     l1_data_instances = 0, l1_instruction_instances = 0, l2_instances = 0,
     l3_instances = 0, l4_instances = 0,
     cpu_codename = [], detection_hints = (\<lambda>_. False),
     affinity_mask = init_affinity_mask,
     purpose = PURPOSE_GENERAL,
     technology_node = []\<rparr>"

text \<open>The cache is \<^const>\<open>None\<close> until it is initialised; then it never changes.\<close>

definition get_cached_cpuid ::
    "'m os \<Rightarrow> cpu_id_t option \<Rightarrow> 'm thread \<Rightarrow> (cpu_id_t \<times> cpu_id_t option \<times> 'm thread) option" where
  "get_cached_cpuid os cache th =
     (case cache of
        Some cid \<Rightarrow> Some (cid, cache, th)
      | None \<Rightarrow> do {
          (r, cid, th) \<leftarrow> cpu_identify os None cpu_id_unknown th;
          let cid = (if r \<noteq> ERR_OK then cpu_id_unknown else cid);
          Some (cid, Some cid, th)
        })"

section \<open>Counting instructions\<close>

definition adjust_march_ic_multiplier :: "cpu_id_t \<Rightarrow> int \<Rightarrow> int \<Rightarrow> int \<times> int" where
  "adjust_march_ic_multiplier cid numerator denom =
     (let numerator = (if sse_size (x86 cid) < 128 then 2 else numerator);
        (numerator, denom) =
          (if vendor cid = VENDOR_AMD \<and> ext_family (x86 cid) \<ge> 21 \<or> vendor cid = VENDOR_HYGON
           then (5, 7) else (numerator, denom))
      in if vendor cid = VENDOR_INTEL \<and> ext_model (x86 cid) \<ge> 94 then (5, 8) else (numerator, denom))"

text \<open>
  The loops of \<^verbatim>\<open>cpu_clock_by_ic\<close>. \<^verbatim>\<open>busy_sse_loop\<close> only takes time, which is what the clock shows. The first
  loop doubles the work until it takes \<open>limit\<close> microseconds.
\<close>

partial_function (option) ic_calibrate ::
    "timer \<Rightarrow> u64 \<Rightarrow> int \<Rightarrow> int \<Rightarrow> nat \<Rightarrow> (int \<times> int \<times> nat) outcome option" where
  "ic_calibrate t limit cycles_inner cycles_outer n =
     (case (if cycles_inner < 1000000000
            then map_option (\<lambda>i. (i, cycles_outer)) (c_int (cycles_inner * 2))
            else map_option (\<lambda>i. (cycles_inner, i)) (c_int (cycles_outer * 2))) of
        None \<Rightarrow> Some Undefined
      | Some (cycles_inner, cycles_outer) \<Rightarrow>
          (let t0 = sys_precise_clock t n; t1 = sys_precise_clock t (Suc n) in
           if t1 - t0 < limit then ic_calibrate t limit cycles_inner cycles_outer (Suc (Suc n))
           else Some (Returns (cycles_inner, cycles_outer, Suc (Suc n)))))"

partial_function (option) ic_count ::
    "timer \<Rightarrow> u64 \<Rightarrow> u64 \<Rightarrow> int \<Rightarrow> nat \<Rightarrow> (int \<times> u64 \<times> nat) outcome option" where
  "ic_count t limit t0 c n =
     (case c_int (c + 1) of
        None \<Rightarrow> Some Undefined
      | Some c \<Rightarrow>
          (let t1 = sys_precise_clock t n in
           if t1 - t0 < limit * 8 then ic_count t limit t0 c (Suc n)
           else Some (Returns (c, t1, Suc n))))"

definition ic_hz :: "int \<Rightarrow> int \<Rightarrow> int \<Rightarrow> int \<Rightarrow> int \<Rightarrow> u64 \<Rightarrow> u64 option" where
  "ic_hz cycles_inner cycles_outer num denom c td =
     (if td * of_int denom = 0 then None
      else Some ((of_int cycles_inner * 256 + 12) * of_int cycles_outer * of_int num * of_int c * 1000000
                 div (td * of_int denom)))"

primrec ic_runs ::
    "nat \<Rightarrow> timer \<Rightarrow> u64 \<Rightarrow> int \<times> int \<Rightarrow> int \<times> int \<Rightarrow> int \<Rightarrow> nat \<Rightarrow> (int \<times> nat) outcome option" where
  "ic_runs 0 t limit cycles mult max_value n = Some (Returns (max_value, n))"
| "ic_runs (Suc ri) t limit cycles mult max_value n =
     (let t0 = sys_precise_clock t n in
      case ic_count t limit t0 0 (Suc n) of
        None \<Rightarrow> None
      | Some Undefined \<Rightarrow> Some Undefined
      | Some (Returns (c, t1, n)) \<Rightarrow>
          (case ic_hz (fst cycles) (snd cycles) (fst mult) (snd mult) c (t1 - t0) of
             None \<Rightarrow> Some Undefined
           | Some hz \<Rightarrow>
               let cur_value = signed_take_bit 31 (uint (hz div 1000000))
               in ic_runs ri t limit cycles mult (if cur_value > max_value then cur_value else max_value) n))"

text \<open>\<open>cid\<close> is the cached identification.\<close>

definition cpu_clock_by_ic :: "cpu_id_t \<Rightarrow> timer \<Rightarrow> int \<Rightarrow> int \<Rightarrow> nat \<Rightarrow> (int \<times> nat) outcome option" where
  "cpu_clock_by_ic cid t millis runs n =
     (if millis \<le> 0 \<or> runs \<le> 0 then Some (Returns (- 2, n))
      else if \<not> flags cid CPU_FEATURE_SSE then Some (Returns (- 1, n))
      else
        let mult = adjust_march_ic_multiplier cid 1 1 in
        case c_int (millis * 125) of
          None \<Rightarrow> Some Undefined
        | Some ms \<Rightarrow>
            let limit = of_int ms in
            (case ic_calibrate t limit 128 1 n of
               None \<Rightarrow> None
             | Some Undefined \<Rightarrow> Some Undefined
             | Some (Returns (cycles_inner, cycles_outer, n)) \<Rightarrow>
                 ic_runs (nat runs) t limit (cycles_inner, cycles_outer) mult 0 n))"

section \<open>Leaves 15h and 16h\<close>

text \<open>The crystal clock of Intel processors that do not enumerate it, in kHz.\<close>

definition crystal_khz :: "int \<Rightarrow> int \<Rightarrow> u32" where
  "crystal_khz efam emod =
     (if efam = 0x6 then
        (if emod = 0x55 then 25000
         else if emod \<in> {0x4e, 0x5e, 0x8e, 0x9e} then 24000
         else if emod = 0x5c then 19200
         else 0)
      else 0)"

text \<open>The arithmetic of \<^verbatim>\<open>cpu_clock_by_tsc\<close>, on unsigned numbers of 32 bits.\<close>

definition tsc_mhz :: "cpu_id_t \<Rightarrow> cpu_raw_data_t \<Rightarrow> int" where
  "tsc_mhz cid raw =
     (if vendor cid \<noteq> VENDOR_INTEL \<or> EAX (basic_cpuid raw ! 0) < 0x15 then - 1
      else
        let denominator = EAX (basic_cpuid raw ! 0x15);
          numerator = EBX (basic_cpuid raw ! 0x15);
          nominal_freq_khz = ECX (basic_cpuid raw ! 0x15) div 1000
        in if numerator = 0 \<or> denominator = 0 then - 1
           else
             let nominal_freq_khz =
                   (if nominal_freq_khz = 0 then crystal_khz (ext_family (x86 cid)) (ext_model (x86 cid))
                    else nominal_freq_khz);
               nominal_freq_khz =
                   (if nominal_freq_khz = 0 \<and> EAX (basic_cpuid raw ! 0) \<ge> 0x16
                    then ucast (EXTRACTS_BITS (EAX (basic_cpuid raw ! 0x16)) 15 0) * 1000 * denominator div numerator
                    else nominal_freq_khz)
             in if nominal_freq_khz = 0 then - 1
                else sint ((nominal_freq_khz * numerator) div denominator div 1000))"

definition cpu_clock_by_tsc ::
    "'m os \<Rightarrow> cpu_raw_data_t option \<Rightarrow> 'm thread \<Rightarrow> (int \<times> 'm thread) option" where
  "cpu_clock_by_tsc os raw th =
     (let (r, raw, th) = (case raw of
            Some raw \<Rightarrow> (ERR_OK, raw, th)
          | None \<Rightarrow> cpuid_get_raw_data os raw_data_t_constructor th)
      in if r \<noteq> ERR_OK then Some (- 2, th)
         else do {
           (r, cid, th) \<leftarrow> cpu_identify os (Some raw) cpu_id_unknown th;
           Some (if r \<noteq> ERR_OK then - 2 else tsc_mhz cid raw, th)
         })"

section \<open>Properties\<close>

text \<open>The calibration leaves the number of rounds a power of two up to \<open>2 ^ 30\<close>: it cannot overflow.\<close>

lemma ic_calibrate_bounds:
  assumes "ic_calibrate t limit cycles_inner cycles_outer n = Some res"
    and "cycles_inner = 2 ^ k" and "7 \<le> k" and "k \<le> 30"
  shows "res = Undefined \<or> (\<exists>j outer m. res = Returns (2 ^ j, outer, m) \<and> 7 \<le> j \<and> j \<le> 30)"
  using assms
proof (induction arbitrary: k rule: ic_calibrate.raw_induct [rotated, consumes 1])
  case (1 ic_calibrate' t limit inner outer n res)
  have pow: "inner < 1000000000 \<longleftrightarrow> k < 30"
  proof -
    have "(2 :: int) ^ k \<le> 2 ^ 29" if "k < 30" using that by (intro power_increasing) simp_all
    moreover have "k = 30" if "\<not> k < 30" using that "1.prems"(3) by simp
    ultimately show ?thesis using "1.prems"(1) by (cases "k < 30") auto
  qed
  have double: "c_int (inner * 2) = Some (2 ^ Suc k)" if "k < 30"
  proof -
    have "(2 :: int) ^ Suc k \<le> 2 ^ 30" using that by (intro power_increasing) simp_all
    moreover have "(0 :: int) < 2 ^ k" by simp
    ultimately show ?thesis using "1.prems"(1) by (simp add: c_int_def mult.commute del: zero_less_power)
  qed
  show ?case
  proof (cases "k < 30")
    case True
    show ?thesis
    proof (cases "sys_precise_clock t (Suc n) - sys_precise_clock t n < limit")
      case less: True
      then have "ic_calibrate' t limit (2 ^ Suc k) outer (Suc (Suc n)) = Some res"
        using "1.hyps" True pow double by simp
      then show ?thesis using "1.IH" True "1.prems" by (metis Suc_leI le_SucI)
    next
      case False
      then have "res = Returns (2 ^ Suc k, outer, Suc (Suc n))"
        using "1.hyps" True pow double by simp
      then show ?thesis using True "1.prems" by (metis Suc_leI le_SucI)
    qed
  next
    case False
    then have k: "k = 30" using "1.prems" by simp
    have pow30: "\<exists>j. (2 :: int) ^ j = 1073741824 \<and> 7 \<le> j \<and> j \<le> 30" by (rule exI [of _ 30]) simp
    show ?thesis
    proof (cases "c_int (outer * 2)")
      case None
      then show ?thesis using "1.hyps" False pow by simp
    next
      case (Some outer')
      then show ?thesis
        using "1.hyps" "1.IH" [of t limit inner outer' "Suc (Suc n)" res k] False pow k "1.prems"
        using pow30 by (auto simp: Let_def split: if_splits)
    qed
  qed
qed

text \<open>The frequency is exact when the product fits into 64 bits.\<close>

lemma uint_of_int_64: "0 \<le> i \<Longrightarrow> i < 2 ^ 64 \<Longrightarrow> uint (of_int i :: u64) = i"
  by (simp add: unsigned_of_int take_bit_int_eq_self)

lemma sint_u32: "unat (w :: u32) < 2 ^ 31 \<Longrightarrow> sint w = int (unat w)"
proof -
  assume small: "unat w < 2 ^ 31"
  have "signed_take_bit 31 (int m) = int m" if "m < 2 ^ 31" for m
    using that by (simp add: signed_take_bit_int_eq_self_iff)
  from this [OF small] show "sint w = int (unat w)" unfolding sint_uint uint_nat by simp
qed

lemma ic_hz_exact:
  assumes "0 \<le> cycles_inner" "0 \<le> cycles_outer" "0 \<le> num" "0 \<le> c" "0 < denom" "0 < td"
    and "(cycles_inner * 256 + 12) * cycles_outer * num * c * 1000000 < 2 ^ 64"
    and "uint td * denom < 2 ^ 64"
  shows "\<exists>hz. ic_hz cycles_inner cycles_outer num denom c td = Some hz \<and>
    uint hz = (cycles_inner * 256 + 12) * cycles_outer * num * c * 1000000 div (uint td * denom)"
proof -
  let ?p = "(cycles_inner * 256 + 12) * cycles_outer * num * c * 1000000"
  have w: "(of_int cycles_inner * 256 + 12) * of_int cycles_outer * of_int num * of_int c * 1000000 = (of_int ?p :: u64)"
    "td * of_int denom = of_int (uint td * denom)"
    by simp_all
  have "uint (of_int ?p :: u64) = ?p" "uint (of_int (uint td * denom) :: u64) = uint td * denom"
    by (rule uint_of_int_64; use assms in simp)+
  moreover have "uint td * denom \<noteq> 0" using assms(5,6) by (simp add: word_less_def)
  ultimately show ?thesis
    unfolding ic_hz_def w by (auto simp: uint_div simp flip: uint_0_iff)
qed

text \<open>
  what \<^verbatim>\<open>cpu_clock_by_tsc\<close> computes for an identified Intel processor that enumerates the ratio and a
  crystal clock: the product of the kilohertz and the numerator is cut off at 32 bits. Where it fits, and the
  crystal clock is a whole number of kilohertz, the result is the documented frequency \<open>ECX * EBX / EAX\<close>, in
  megahertz rounded down.
\<close>

theorem cpu_clock_by_tsc_spec:
  fixes raw :: cpu_raw_data_t
  defines "den \<equiv> unat (EAX (basic_cpuid raw ! 0x15))" and "num \<equiv> unat (EBX (basic_cpuid raw ! 0x15))"
    and "hz \<equiv> unat (ECX (basic_cpuid raw ! 0x15))"
  assumes "cpu_identify os (Some raw) cpu_id_unknown th = Some (ERR_OK, cid, th')"
    and "vendor cid = VENDOR_INTEL" and "EAX (basic_cpuid raw ! 0) \<ge> 0x15"
    and "den \<noteq> 0" and "num \<noteq> 0" and "hz \<ge> 1000"
  shows "cpu_clock_by_tsc os (Some raw) th = Some (int (hz div 1000 * num mod 2 ^ 32 div den div 1000), th') \<and>
    (1000 dvd hz \<and> hz div 1000 * num < 2 ^ 32 \<longrightarrow>
     hz div 1000 * num mod 2 ^ 32 div den div 1000 = hz * num div (den * 1000000))"
proof -
  let ?khz = "ECX (basic_cpuid raw ! 0x15) div 1000" and ?num = "EBX (basic_cpuid raw ! 0x15)"
    and ?den = "EAX (basic_cpuid raw ! 0x15)"
  have khz: "unat ?khz = hz div 1000" by (simp add: hz_def unat_div)
  then have "?khz \<noteq> 0" using assms(9) by (auto simp: unat_eq_zero)
  moreover have "?num \<noteq> 0" "?den \<noteq> 0" using assms(7,8) by (auto simp: num_def den_def)
  ultimately have run: "cpu_clock_by_tsc os (Some raw) th = Some (sint (?khz * ?num div ?den div 1000), th')"
    using assms(4,5) leD [OF assms(6)] by (simp add: cpu_clock_by_tsc_def tsc_mhz_def Let_def)
  have u: "unat (?khz * ?num div ?den div 1000) = hz div 1000 * num mod 2 ^ 32 div den div 1000"
    by (simp add: unat_div unat_word_ariths hz_def num_def den_def)
  have "hz div 1000 * num mod 2 ^ 32 div den div 1000 \<le> hz div 1000 * num mod 2 ^ 32 div 1000"
    by (intro div_le_mono div_le_dividend)
  moreover have "hz div 1000 * num mod 2 ^ 32 < 2 ^ 32" by simp
  moreover have "x div 1000 < 2 ^ 31" if "x < 2 ^ 32" for x :: nat using that by simp
  ultimately have "hz div 1000 * num mod 2 ^ 32 div den div 1000 < 2 ^ 31" by (meson order_le_less_trans)
  then have "sint (?khz * ?num div ?den div 1000) = int (hz div 1000 * num mod 2 ^ 32 div den div 1000)"
    using sint_u32 [of "?khz * ?num div ?den div 1000"] unfolding u by blast
  moreover have "hz div 1000 * num mod 2 ^ 32 div den div 1000 = hz * num div (den * 1000000)"
    if kilo: "1000 dvd hz" and fits: "hz div 1000 * num < 2 ^ 32"
  proof -
    obtain k where k: "hz = 1000 * k" using kilo by (rule dvdE)
    have "hz div 1000 * num mod 2 ^ 32 div den div 1000 = k * num div (den * 1000)"
      using fits by (simp only: mod_less k) (simp add: div_mult2_eq [symmetric] ac_simps)
    also have "\<dots> = 1000 * (k * num) div (1000 * (den * 1000))" by (simp add: mult.commute)
    finally show ?thesis by (simp add: k ac_simps)
  qed
  ultimately show ?thesis by (simp add: run u)
qed

text \<open>A processor that tells only its vendor and its clocks.\<close>

lemma cpu_identify_known:
  assumes "wf_raw raw" and "cpuid_architecture_identify raw = ARCHITECTURE_X86" and "\<not> x86_undefined raw"
    and "fst (cpuid_vendor_identify (basic_cpuid raw ! 0)) \<noteq> VENDOR_UNKNOWN"
  shows "\<exists>d. cpu_identify os (Some raw) data th = Some (ERR_OK, d, th\<lparr>th_errno := ERR_OK\<rparr>) \<and>
    vendor d = fst (cpuid_vendor_identify (basic_cpuid raw ! 0))"
proof -
  define d1 where "d1 = cpu_id_t_constructor\<lparr>architecture := ARCHITECTURE_X86\<rparr>"
  define i1 where "i1 = throwaway\<lparr>cache_mask := replicate NUM_CACHE_TYPES 0\<rparr>"
  obtain r d i where run: "ident_x86 os (th_affinity th) raw d1 i1 = Some (r, d, i)"
    using ident_x86_none_iff [OF assms(1), of i1 os "th_affinity th" d1] assms(3)
    by (cases "ident_x86 os (th_affinity th) raw d1 i1") (auto simp: i1_def)
  obtain d2 where "cpuid_basic_identify (os_total_cpus os) raw d1 = (ERR_OK, d2)"
    and "vendor d2 = fst (cpuid_vendor_identify (basic_cpuid raw ! 0))"
    by (rule basic_identify_known [OF assms(4)])
  then have "r = ERR_OK" "vendor d = fst (cpuid_vendor_identify (basic_cpuid raw ! 0))"
    using ident_x86_ok [OF assms(1) run] by (simp_all add: identity_def)
  with run show ?thesis
    by (simp add: cpu_identify_def cpu_ident_internal_def Let_def assms(2) d1_def i1_def)
qed

definition crystal_raw :: cpu_raw_data_t where
  "crystal_raw = raw_data_t_constructor\<lparr>basic_cpuid := (replicate 32 regs_zero)
     [0 := \<lparr>EAX = 0x15, EBX = 0x756e6547, ECX = 0x6c65746e, EDX = 0x49656e69\<rparr>,
      0x15 := \<lparr>EAX = 2, EBX = 250, ECX = 24000000, EDX = 0\<rparr>]\<rparr>"

theorem cpu_clock_by_tsc_spec_witness:
  "\<exists>th. cpu_clock_by_tsc sample_os (Some crystal_raw) \<lparr>th_affinity = 0, th_saved = 0, th_errno = ERR_OK\<rparr> =
    Some (3000, th)"
proof -
  let ?th = "\<lparr>th_affinity = 0, th_saved = 0, th_errno = ERR_OK\<rparr>"
  have raw: "wf_raw crystal_raw" "cpuid_architecture_identify crystal_raw = ARCHITECTURE_X86"
      "fst (cpuid_vendor_identify (basic_cpuid crystal_raw ! 0)) = VENDOR_INTEL"
    using wf_raw_data_t_constructor vendor_GenuineIntel [of "0x15"]
    by (simp_all add: crystal_raw_def wf_raw_def cpuid_architecture_identify_def)
  have "\<not> overrun (intel_fn4 crystal_raw) MAX_INTELFN4_LEVEL 0 NUM_CACHE_TYPES"
    by (rule overrun_invalid) (simp add: crystal_raw_def raw_data_t_constructor_def valid_subleaf_def
        subleaf_level_def EXTRACTS_BITS_def)
  moreover have "\<not> zero_threads crystal_raw"
    by (simp add: zero_threads_def crystal_raw_def raw_data_t_constructor_def level_count_def)
  ultimately have "\<not> x86_undefined crystal_raw"
    by (simp add: x86_undefined_def raw(3) intel_undefined_def)
  then obtain d where "cpu_identify sample_os (Some crystal_raw) cpu_id_unknown ?th =
      Some (ERR_OK, d, ?th\<lparr>th_errno := ERR_OK\<rparr>)" "vendor d = VENDOR_INTEL"
    using cpu_identify_known [OF raw(1,2), of sample_os cpu_id_unknown ?th] raw(3) by auto
  then show ?thesis
    using cpu_clock_by_tsc_spec [of sample_os crystal_raw ?th d]
    by (simp add: crystal_raw_def word_le_nat_alt)
qed

end
