(* ===== verification/C_Double.thy ===== *)
theory C_Double
  imports Complex_Main Prelude
begin

text \<open>
  The type \<^verbatim>\<open>double\<close> of C as IEEE 754 binary64, as far as \<^verbatim>\<open>rdmsr.c\<close> uses it: conversions from integers,
  the four operations rounded to nearest, ties to even, and the conversion to \<^verbatim>\<open>int\<close>, which is undefined for
  infinities, NaN and values outside of its range. A finite number is its rational value; subnormal numbers,
  overflow of finite values and the sign of zero do not occur in the range of the values here
  (\<open>2 ^ -13\<close> to \<open>2 ^ 71\<close> in magnitude) and are left out.
\<close>

datatype double = Fin rat | Inf bool | NaN

section \<open>Rounding\<close>

fun bit_length :: "nat \<Rightarrow> nat" where
  "bit_length n = (if n = 0 then 0 else Suc (bit_length (n div 2)))"

declare bit_length.simps [simp del]

text \<open>The exponent of a number that is not 0: \<open>2 ^ e \<le> \<bar>x\<bar> < 2 ^ (e + 1)\<close>.\<close>

definition rat_exponent :: "rat \<Rightarrow> int" where
  "rat_exponent x =
     (let (a, b) = quotient_of \<bar>x\<bar>;
        e = int (bit_length (nat a)) - int (bit_length (nat b))
      in if 2 powi e \<le> \<bar>x\<bar> then e else e - 1)"

definition round_even :: "rat \<Rightarrow> int" where
  "round_even x =
     (let f = \<lfloor>x\<rfloor>; d = x - of_int f in
      if d < 1 / 2 then f else if d > 1 / 2 then f + 1 else if even f then f else f + 1)"

definition rnd :: "rat \<Rightarrow> rat" where
  "rnd x =
     (if x = 0 then 0
      else let ulp = 2 powi (rat_exponent x - 52) in of_int (round_even (x / ulp)) * ulp)"

section \<open>Operations\<close>

definition dbl_of_int :: "int \<Rightarrow> double" where
  "dbl_of_int i = Fin (rnd (of_int i))"

fun dbl_add :: "double \<Rightarrow> double \<Rightarrow> double" where
  "dbl_add (Fin x) (Fin y) = Fin (rnd (x + y))"
| "dbl_add NaN _ = NaN"
| "dbl_add _ NaN = NaN"
| "dbl_add (Inf s) (Inf s') = (if s = s' then Inf s else NaN)"
| "dbl_add (Inf s) (Fin y) = Inf s"
| "dbl_add (Fin x) (Inf s) = Inf s"

fun dbl_neg :: "double \<Rightarrow> double" where
  "dbl_neg (Fin x) = Fin (- x)"
| "dbl_neg (Inf s) = Inf (\<not> s)"
| "dbl_neg NaN = NaN"

definition dbl_sub :: "double \<Rightarrow> double \<Rightarrow> double" where
  "dbl_sub x y = dbl_add x (dbl_neg y)"

fun dbl_mul :: "double \<Rightarrow> double \<Rightarrow> double" where
  "dbl_mul (Fin x) (Fin y) = Fin (rnd (x * y))"
| "dbl_mul NaN _ = NaN"
| "dbl_mul _ NaN = NaN"
| "dbl_mul (Inf s) (Inf s') = Inf (s \<noteq> s')"
| "dbl_mul (Inf s) (Fin y) = (if y = 0 then NaN else Inf (s \<noteq> (y < 0)))"
| "dbl_mul (Fin x) (Inf s) = (if x = 0 then NaN else Inf (s \<noteq> (x < 0)))"

text \<open>A finite divisor 0 is taken as positive.\<close>

fun dbl_div :: "double \<Rightarrow> double \<Rightarrow> double" where
  "dbl_div (Fin x) (Fin y) =
     (if y = 0 then (if x = 0 then NaN else Inf (x < 0)) else Fin (rnd (x / y)))"
| "dbl_div NaN _ = NaN"
| "dbl_div _ NaN = NaN"
| "dbl_div (Inf s) (Inf s') = NaN"
| "dbl_div (Inf s) (Fin y) = Inf (s \<noteq> (y < 0))"
| "dbl_div (Fin x) (Inf s) = Fin 0"

text \<open>\<^verbatim>\<open>(int) x\<close>: the fraction is dropped; undefined when the result does not fit.\<close>

definition trunc :: "rat \<Rightarrow> int" where
  "trunc x = (if x < 0 then - \<lfloor>- x\<rfloor> else \<lfloor>x\<rfloor>)"

fun dbl_to_int :: "double \<Rightarrow> int option" where
  "dbl_to_int (Fin x) = (if - (2 ^ 31) \<le> trunc x \<and> trunc x < 2 ^ 31 then Some (trunc x) else None)"
| "dbl_to_int _ = None"

section \<open>Facts about rounding\<close>

lemma bit_length_bounds: "0 < n \<Longrightarrow> 2 ^ (bit_length n - 1) \<le> n \<and> n < 2 ^ bit_length n"
proof (induction n rule: bit_length.induct)
  case (1 n)
  show ?case
  proof (cases "n div 2 = 0")
    case True
    with 1 have "n = 1" by simp
    then show ?thesis by (simp add: bit_length.simps)
  next
    case False
    with 1 have IH: "2 ^ (bit_length (n div 2) - 1) \<le> n div 2" "n div 2 < 2 ^ bit_length (n div 2)" by simp_all
    have "0 < bit_length (n div 2)" using False by (subst bit_length.simps) simp
    then obtain k where k: "bit_length (n div 2) = Suc k" by (cases "bit_length (n div 2)") simp_all
    have "bit_length n = Suc (Suc k)" using 1 k by (subst bit_length.simps) simp
    moreover have "2 ^ k \<le> n div 2" "n div 2 < 2 * 2 ^ k" using IH by (simp_all add: k)
    ultimately show ?thesis by simp linarith
  qed
qed

lemma powi_nat_diff: "2 powi (int m - int n) = (2 :: rat) ^ m / 2 ^ n"
  by (simp add: power_int_diff)

lemma rat_exponent_bounds:
  assumes "x \<noteq> 0"
  shows "2 powi rat_exponent x \<le> \<bar>x\<bar> \<and> \<bar>x\<bar> < 2 powi (rat_exponent x + 1)"
proof -
  obtain a b where q: "quotient_of \<bar>x\<bar> = (a, b)" by fastforce
  then have x: "\<bar>x\<bar> = of_int a / of_int b" and b: "0 < b"
    by (simp_all add: quotient_of_div quotient_of_denom_pos)
  have "0 < \<bar>x\<bar>" using assms by simp
  then have a: "0 < a" using b unfolding x by (simp add: zero_less_divide_iff)
  define la lb where "la = bit_length (nat a)" and "lb = bit_length (nat b)"
  have na: "2 ^ (la - 1) \<le> nat a" "nat a < 2 ^ la" and nb: "2 ^ (lb - 1) \<le> nat b" "nat b < 2 ^ lb"
    using bit_length_bounds [of "nat a"] bit_length_bounds [of "nat b"] a b by (simp_all add: la_def lb_def)
  have la: "0 < la" "0 < lb" using na(2) nb(2) a b by (cases la; cases lb; simp)+
  have ia: "(2 :: rat) ^ (la - 1) \<le> of_int a" "of_int a < (2 :: rat) ^ la"
    and ib: "(2 :: rat) ^ (lb - 1) \<le> of_int b" "of_int b < (2 :: rat) ^ lb"
  proof -
    have "int (2 ^ (la - 1)) \<le> a" "a < int (2 ^ la)" "int (2 ^ (lb - 1)) \<le> b" "b < int (2 ^ lb)"
      using na nb a b by linarith+
    then have "of_int (int (2 ^ (la - 1))) \<le> (of_int a :: rat)" "of_int a < (of_int (int (2 ^ la)) :: rat)"
      "of_int (int (2 ^ (lb - 1))) \<le> (of_int b :: rat)" "of_int b < (of_int (int (2 ^ lb)) :: rat)"
      by (simp_all only: of_int_le_iff of_int_less_iff)
    then show "(2 :: rat) ^ (la - 1) \<le> of_int a" "of_int a < (2 :: rat) ^ la"
      "(2 :: rat) ^ (lb - 1) \<le> of_int b" "of_int b < (2 :: rat) ^ lb" by simp_all
  qed
  define e where "e = int la - int lb"
  have "2 powi (e - 1) = (2 :: rat) ^ (la - 1) / 2 ^ lb" "2 powi (e + 1) = (2 :: rat) ^ la / 2 ^ (lb - 1)"
  proof -
    have "e - 1 = int (la - 1) - int lb" "e + 1 = int la - int (lb - 1)" using la by (simp_all add: e_def)
    then show "2 powi (e - 1) = (2 :: rat) ^ (la - 1) / 2 ^ lb" "2 powi (e + 1) = (2 :: rat) ^ la / 2 ^ (lb - 1)"
      by (simp_all only: powi_nat_diff)
  qed
  moreover have "(2 :: rat) ^ (la - 1) / 2 ^ lb \<le> \<bar>x\<bar>" "\<bar>x\<bar> < 2 ^ la / 2 ^ (lb - 1)"
    unfolding x using ia ib a b by (auto intro!: frac_le frac_less)
  ultimately show ?thesis by (auto simp: rat_exponent_def q la_def [symmetric] lb_def [symmetric] e_def [symmetric])
qed

lemma round_even_error: "\<bar>of_int (round_even x) - x\<bar> \<le> 1 / 2"
proof -
  have "of_int \<lfloor>x\<rfloor> \<le> x" "x < of_int \<lfloor>x\<rfloor> + 1" by linarith+
  then show ?thesis by (auto simp: round_even_def Let_def abs_le_iff)
qed

lemma round_even_int: "round_even (of_int i) = i"
  by (simp add: round_even_def)

lemma rnd_0 [simp]: "rnd 0 = 0"
  by (simp add: rnd_def)

text \<open>The relative error of rounding.\<close>

lemma rnd_error: "\<bar>rnd x - x\<bar> \<le> \<bar>x\<bar> / 2 ^ 53"
proof (cases "x = 0")
  case True
  then show ?thesis by (simp add: rnd_def)
next
  case False
  define q :: rat where "q = 2 powi (rat_exponent x - 52)"
  have q: "0 < q" "q = 2 powi rat_exponent x / 2 ^ 52"
    by (simp_all add: q_def power_int_diff)
  have "rnd x - x = (of_int (round_even (x / q)) - x / q) * q"
    using False q(1) by (simp add: rnd_def q_def [symmetric] algebra_simps)
  then have "\<bar>rnd x - x\<bar> = \<bar>of_int (round_even (x / q)) - x / q\<bar> * q"
    using q(1) by (simp add: abs_mult)
  also have "\<dots> \<le> 1 / 2 * q"
    using round_even_error [of "x / q"] q(1) by (intro mult_right_mono) simp_all
  also have "\<dots> \<le> \<bar>x\<bar> / 2 ^ 53"
    using rat_exponent_bounds [OF False] by (simp add: q(2))
  finally show ?thesis .
qed

text \<open>Numbers of 53 bits are exact.\<close>

lemma rnd_exact:
  assumes "\<bar>m\<bar> < 2 ^ 53"
  shows "rnd (of_int m * 2 powi k) = of_int m * 2 powi k"
proof (cases "m = 0")
  case True
  then show ?thesis by (simp add: rnd_def)
next
  case False
  define x :: rat where "x = of_int m * 2 powi k"
  have "x \<noteq> 0" using False by (simp add: x_def)
  have "\<bar>of_int m :: rat\<bar> < 2 ^ 53"
    using assms by (metis of_int_abs of_int_less_iff of_int_numeral of_int_power)
  then have "\<bar>x\<bar> < 2 ^ 53 * 2 powi k"
    by (simp add: x_def abs_mult power_int_abs)
  also have "\<dots> = 2 powi (53 + k)" by (simp add: power_int_add)
  finally have "2 powi rat_exponent x < (2 :: rat) powi (53 + k)"
    using rat_exponent_bounds [OF \<open>x \<noteq> 0\<close>] by simp
  then have "rat_exponent x < 53 + k" using power_int_increasing [of "53 + k" "rat_exponent x" "2 :: rat"] by (meson not_le one_le_numeral)
  then have j: "k - (rat_exponent x - 52) = int (nat (k - (rat_exponent x - 52)))" by simp
  define j where "j = nat (k - (rat_exponent x - 52))"
  note j = j [folded j_def]
  have "x / 2 powi (rat_exponent x - 52) = of_int m * (2 powi k / 2 powi (rat_exponent x - 52))"
    by (simp add: x_def)
  also have "\<dots> = of_int m * 2 powi (k - (rat_exponent x - 52))" by (simp add: power_int_diff)
  also have "\<dots> = of_int (m * 2 ^ j)" by (simp only: j power_int_of_nat) simp
  finally have y: "x / 2 powi (rat_exponent x - 52) = of_int (m * 2 ^ j)" .
  have "rnd x = of_int (round_even (x / 2 powi (rat_exponent x - 52))) * 2 powi (rat_exponent x - 52)"
    using \<open>x \<noteq> 0\<close> by (simp add: rnd_def Let_def)
  also have "\<dots> = of_int (m * 2 ^ j) * 2 powi (rat_exponent x - 52)" by (simp only: y round_even_int)
  also have "\<dots> = x / 2 powi (rat_exponent x - 52) * 2 powi (rat_exponent x - 52)" by (simp only: y)
  also have "\<dots> = x" by simp
  finally show ?thesis by (simp add: x_def)
qed

lemma rnd_of_int: "\<bar>i\<bar> < 2 ^ 53 \<Longrightarrow> rnd (of_int i) = of_int i"
  using rnd_exact [of i 0] by simp

text \<open>Rounding a given number, with its exponent and its 53 bits.\<close>

lemma rat_exponent_unique:
  assumes "2 powi e \<le> \<bar>x\<bar>" and "\<bar>x\<bar> < 2 powi (e + 1)"
  shows "rat_exponent x = e"
proof -
  have "x \<noteq> 0" using assms(1) by (metis abs_zero not_le zero_less_numeral zero_less_power_int)
  note bounds = rat_exponent_bounds [OF this]
  have "\<not> e + 1 \<le> rat_exponent x" "\<not> rat_exponent x + 1 \<le> e"
    using power_int_increasing [of "e + 1" "rat_exponent x" "2 :: rat"]
      power_int_increasing [of "rat_exponent x + 1" e "2 :: rat"] bounds assms by auto
  then show ?thesis by simp
qed

lemma rnd_value:
  assumes "2 powi e \<le> x" and "x < 2 powi (e + 1)" and "\<bar>x / 2 powi (e - 52) - of_int i\<bar> < 1 / 2"
  shows "rnd x = of_int i * 2 powi (e - 52)"
proof -
  have pos: "0 < x" using assms(1) zero_less_power_int [of "2 :: rat" e] by linarith
  then have e: "rat_exponent x = e" using assms(1,2) by (intro rat_exponent_unique) simp_all
  have "\<bar>of_int (round_even (x / 2 powi (e - 52))) - x / 2 powi (e - 52)\<bar> \<le> (1 / 2 :: rat)"
    by (rule round_even_error)
  moreover have "\<bar>r - i\<bar> < 1" if "\<bar>r - y\<bar> \<le> 1 / 2" "\<bar>y - i\<bar> < 1 / 2" for r y i :: rat
    using that by linarith
  ultimately have "\<bar>of_int (round_even (x / 2 powi (e - 52)) - i) :: rat\<bar> < 1"
    using assms(3) by (simp only: of_int_diff)
  then have "\<bar>round_even (x / 2 powi (e - 52)) - i\<bar> < 1"
    by (metis of_int_abs of_int_less_1_iff)
  then have "round_even (x / 2 powi (e - 52)) = i" by simp
  with pos e show ?thesis by (simp add: rnd_def Let_def)
qed

end
