(* ===== verification/Msr.thy ===== *)
theory Msr
  imports C_Double Clock_Cpu Arm_Driver
begin

text \<open>
  Model-specific registers (\<^verbatim>\<open>rdmsr.c\<close>, in its Linux variant): opening the driver, reading registers and bit
  fields, and the information \<^verbatim>\<open>cpu_msrinfo\<close> derives from them.

  The registers are a parameter: what the \<open>k\<close>-th read of the program returns for a descriptor and an index,
  \<^const>\<open>None\<close> where \<^verbatim>\<open>pread\<close> does not deliver eight bytes (its buffer is then unchanged). Local variables that
  the code does not initialise hold \<open>junk\<close>. The static variables of the functions are fields of the state.
\<close>

section \<open>Reading registers\<close>

abbreviation (input) CPU_INVALID_VALUE :: int where "CPU_INVALID_VALUE \<equiv> 0x3fffffff"

definition error_code :: "cpu_error_t \<Rightarrow> int" where
  "error_code e = (case e of
     ERR_OK \<Rightarrow> 0 | ERR_NO_CPUID \<Rightarrow> - 1 | ERR_NO_RDTSC \<Rightarrow> - 2 | ERR_NO_MEM \<Rightarrow> - 3 | ERR_OPEN \<Rightarrow> - 4
   | ERR_BADFMT \<Rightarrow> - 5 | ERR_NOT_IMP \<Rightarrow> - 6 | ERR_CPU_UNKN \<Rightarrow> - 7 | ERR_NO_RDMSR \<Rightarrow> - 8
   | ERR_NO_DRIVER \<Rightarrow> - 9 | ERR_NO_PERMS \<Rightarrow> - 10 | ERR_EXTRACT \<Rightarrow> - 11 | ERR_HANDLE \<Rightarrow> - 12
   | ERR_INVMSR \<Rightarrow> - 13 | ERR_INVCNB \<Rightarrow> - 14 | ERR_HANDLE_R \<Rightarrow> - 15 | ERR_INVRANGE \<Rightarrow> - 16
   | ERR_NOT_FOUND \<Rightarrow> - 17 | ERR_IOCTL \<Rightarrow> - 18 | ERR_REQUEST \<Rightarrow> - 19)"

record 'm msr_env =
  env_os :: "'m os"
  env_timer :: timer
  msr_value :: "nat \<Rightarrow> int \<Rightarrow> u32 \<Rightarrow> u64 option"
  junk :: u64
  junk_raw :: cpu_raw_data_t
  dev_exists :: "string \<Rightarrow> bool"
  dev_readable :: "string \<Rightarrow> bool"
  dev_root :: bool
  dev_modprobe :: bool
  dev_open :: "string \<Rightarrow> open_result"
  dev_malloc :: bool

record 'm msr_state =
  ms_thread :: "'m thread"
  ms_reads :: nat
  ms_clock :: nat
  st_cached :: "cpu_id_t option"
  st_platform_info :: int
  st_intel_core :: int
  st_last_addr :: u32
  st_err :: int
  st_init :: bool
  st_id :: cpu_id_t
  st_internal :: internal_id_info_t
  st_cpu_clock :: int
  st_stock_speed :: int

definition msr_set_error :: "cpu_error_t \<Rightarrow> 'm msr_state \<Rightarrow> 'm msr_state" where
  "msr_set_error e s = s\<lparr>ms_thread := snd (cpuid_set_error e (ms_thread s))\<rparr>"

text \<open>A handle is \<^const>\<open>None\<close> for \<^verbatim>\<open>NULL\<close>, or the descriptor. The result is the error and \<^verbatim>\<open>*result\<close>.\<close>

definition cpu_rdmsr ::
    "'m msr_env \<Rightarrow> int option \<Rightarrow> u32 \<Rightarrow> u64 \<Rightarrow> 'm msr_state \<Rightarrow> cpu_error_t \<times> u64 \<times> 'm msr_state" where
  "cpu_rdmsr env handle msr_index result s =
     (case handle of
        None \<Rightarrow> (ERR_HANDLE, result, msr_set_error ERR_HANDLE s)
      | Some fd \<Rightarrow>
          if fd < 0 then (ERR_HANDLE, result, msr_set_error ERR_HANDLE s)
          else
            let ret = msr_value env (ms_reads s) fd msr_index; s = s\<lparr>ms_reads := Suc (ms_reads s)\<rparr> in
            (case ret of
               None \<Rightarrow> (ERR_INVMSR, result, msr_set_error ERR_INVMSR s)
             | Some v \<Rightarrow> (ERR_OK, v, s)))"

definition cpu_rdmsr_range ::
    "'m msr_env \<Rightarrow> int option \<Rightarrow> u32 \<Rightarrow> u8 \<Rightarrow> u8 \<Rightarrow> u64 \<Rightarrow> 'm msr_state \<Rightarrow>
      cpu_error_t \<times> u64 \<times> 'm msr_state" where
  "cpu_rdmsr_range env handle msr_index hi lo result s =
     (let bits = hi - lo + 1 in
      if hi > 63 \<or> lo > hi then (ERR_INVRANGE, result, msr_set_error ERR_INVRANGE s)
      else
        let (err, result, s) = cpu_rdmsr env handle msr_index result s in
        if err = ERR_OK \<and> bits < 64
        then (err, drop_bit (unat lo) result AND (push_bit (unat bits) 1 - 1), s)
        else (err, result, s))"

text \<open>A field that is read into an uninitialised variable, with the error as a number.\<close>

definition msr_field ::
    "'m msr_env \<Rightarrow> int option \<Rightarrow> u32 \<Rightarrow> u8 \<Rightarrow> u8 \<Rightarrow> 'm msr_state \<Rightarrow> int \<times> u64 \<times> 'm msr_state" where
  "msr_field env handle msr_index hi lo s =
     (let (err, v, s) = cpu_rdmsr_range env handle msr_index hi lo (junk env) s
      in (error_code err, v, s))"

section \<open>Opening the driver\<close>

abbreviation (input) MSR_PATH_LEN :: nat where "MSR_PATH_LEN \<equiv> 32"

definition msr_load_driver :: "'m msr_env \<Rightarrow> string \<Rightarrow> bool" where
  "msr_load_driver env path =
     (let file_exists = dev_exists env path; file_readable = dev_readable env path in
      if file_exists \<and> file_readable then True
      else if file_exists \<and> \<not> file_readable then False
      else if \<not> dev_root env then False
      else dev_modprobe env)"

definition rdmsr_supported :: "'m msr_env \<Rightarrow> 'm msr_state \<Rightarrow> (bool \<times> 'm msr_state) option" where
  "rdmsr_supported env s = do {
     (cid, cached, th) \<leftarrow> get_cached_cpuid (env_os env) (st_cached s) (ms_thread s);
     Some (flags cid CPU_FEATURE_MSR, s\<lparr>st_cached := cached, ms_thread := th\<rparr>) }"

definition msr_path :: "u32 \<Rightarrow> string" where
  "msr_path core_num = take (MSR_PATH_LEN - 1) (''/dev/cpu/'' @ dec_digits (unat core_num) @ ''/msr'')"

definition cpu_msr_driver_open_core ::
    "'m msr_env \<Rightarrow> u32 \<Rightarrow> 'm msr_state \<Rightarrow> (int option \<times> 'm msr_state) option" where
  "cpu_msr_driver_open_core env core_num s =
     (if core_num \<ge> of_int (os_total_cpus (env_os env)) then Some (None, msr_set_error ERR_INVCNB s)
      else do {
        (supported, s) \<leftarrow> rdmsr_supported env s;
        let path = msr_path core_num;
        Some (if \<not> supported then (None, msr_set_error ERR_NO_RDMSR s)
              else if \<not> msr_load_driver env path then (None, msr_set_error ERR_NO_DRIVER s)
              else case dev_open env path of
                  Open_EIO \<Rightarrow> (None, msr_set_error ERR_NO_RDMSR s)
                | Open_failed \<Rightarrow> (None, msr_set_error ERR_NO_DRIVER s)
                | Opened fd \<Rightarrow>
                    if \<not> dev_malloc env then (None, msr_set_error ERR_NO_MEM s) else (Some fd, s)) })"

definition cpu_msr_driver_open :: "'m msr_env \<Rightarrow> 'm msr_state \<Rightarrow> (int option \<times> 'm msr_state) option" where
  "cpu_msr_driver_open env s = cpu_msr_driver_open_core env 0 s"

section \<open>Supported processors\<close>

definition msr_platform_info :: "(int \<times> int) list" where
  "msr_platform_info =
    [(6, 92), (6, 122), (6, 26), (6, 30), (6, 37), (6, 44), (6, 42), (6, 45), (6, 58), (6, 62),
     (6, 60), (6, 63), (6, 69), (6, 70), (6, 61), (6, 71), (6, 79), (6, 78), (6, 85), (6, 94),
     (6, 142), (6, 158), (6, 102), (6, 142), (6, 158), (6, 85), (6, 142), (6, 165), (6, 106),
     (6, 108), (6, 126), (6, 167), (6, 138), (6, 150), (6, 156), (6, 140), (6, 151), (6, 154),
     (6, 190), (6, 183), (6, 186), (6, 191), (6, 143), (6, 207), (6, 170), (6, 198), (6, 189),
     (6, 85), (6, 87), (6, 133)]"

definition msr_perf_status :: "(int \<times> int) list" where
  "msr_perf_status =
    [(6, 42), (6, 45), (6, 58), (6, 62), (6, 60), (6, 63), (6, 69), (6, 70), (6, 61), (6, 71),
     (6, 79), (6, 78), (6, 85), (6, 94), (6, 142), (6, 158), (6, 102), (6, 142), (6, 158), (6, 85),
     (6, 142), (6, 165), (6, 106), (6, 108), (6, 126), (6, 167), (6, 138), (6, 150), (6, 156),
     (6, 140), (6, 151), (6, 154), (6, 190), (6, 183), (6, 186), (6, 191), (6, 143), (6, 207),
     (6, 170), (6, 85), (6, 87), (6, 133)]"

definition msr_platform_info_supported :: "cpu_id_t \<Rightarrow> 'm msr_state \<Rightarrow> bool \<times> 'm msr_state" where
  "msr_platform_info_supported cid s =
     (if st_platform_info s \<ge> 0 then (st_platform_info s \<noteq> 0, s)
      else if vendor cid = VENDOR_INTEL \<and>
          list_ex (\<lambda>(f, m). ext_family (x86 cid) = f \<and> ext_model (x86 cid) = m) msr_platform_info
      then (True, s\<lparr>st_platform_info := 1\<rparr>)
      else (False, s\<lparr>st_platform_info := 0\<rparr>))"

definition msr_intel_core_supported :: "cpu_id_t \<Rightarrow> 'm msr_state \<Rightarrow> bool \<times> 'm msr_state" where
  "msr_intel_core_supported cid s =
     (if st_intel_core s \<ge> 0 then (st_intel_core s \<noteq> 0, s)
      else if vendor cid = VENDOR_INTEL \<and>
          list_ex (\<lambda>(f, m). ext_family (x86 cid) = f \<and> ext_model (x86 cid) = m) msr_perf_status
      then (True, s\<lparr>st_intel_core := 1\<rparr>)
      else (False, s\<lparr>st_intel_core := 0\<rparr>))"

section \<open>AMD multipliers\<close>

abbreviation (input) MSR_PSTATE_L :: u32 where "MSR_PSTATE_L \<equiv> 0xC0010061"
abbreviation (input) MSR_PSTATE_S :: u32 where "MSR_PSTATE_S \<equiv> 0xC0010063"
abbreviation (input) MSR_PSTATE_0 :: u32 where "MSR_PSTATE_0 \<equiv> 0xC0010064"
abbreviation (input) MSR_PSTATE_7 :: u32 where "MSR_PSTATE_7 \<equiv> 0xC001006B"

definition amd_msr :: "u32 list" where
  "amd_msr = [MSR_PSTATE_L, MSR_PSTATE_S, MSR_PSTATE_0, 0xC0010065, 0xC0010066, 0xC0010067, 0xC0010068,
     0xC0010069, 0xC001006A, MSR_PSTATE_7]"

abbreviation (input) IA32_MPERF :: u32 where "IA32_MPERF \<equiv> 0xE7"
abbreviation (input) IA32_APERF :: u32 where "IA32_APERF \<equiv> 0xE8"
abbreviation (input) IA32_PERF_STATUS :: u32 where "IA32_PERF_STATUS \<equiv> 0x198"
abbreviation (input) IA32_THERM_STATUS :: u32 where "IA32_THERM_STATUS \<equiv> 0x19C"
abbreviation (input) MSR_EBL_CR_POWERON :: u32 where "MSR_EBL_CR_POWERON \<equiv> 0x2A"
abbreviation (input) MSR_TURBO_RATIO_LIMIT :: u32 where "MSR_TURBO_RATIO_LIMIT \<equiv> 0x1AD"
abbreviation (input) MSR_TEMPERATURE_TARGET :: u32 where "MSR_TEMPERATURE_TARGET \<equiv> 0x1A2"
abbreviation (input) MSR_PERF_STATUS :: u32 where "MSR_PERF_STATUS \<equiv> 0x198"
abbreviation (input) MSR_PLATFORM_INFO :: u32 where "MSR_PLATFORM_INFO \<equiv> 0xCE"

definition intel_msr :: "u32 list" where
  "intel_msr = [IA32_MPERF, IA32_APERF, IA32_PERF_STATUS, IA32_THERM_STATUS, MSR_EBL_CR_POWERON,
     MSR_TURBO_RATIO_LIMIT, MSR_TEMPERATURE_TARGET, MSR_PERF_STATUS, MSR_PLATFORM_INFO]"

definition divisor_t :: "(u64 \<times> rat) list" where
  "divisor_t = [(0x0, 1), (0x1, 3 / 2), (0x2, 2), (0x3, 3), (0x4, 4), (0x5, 6), (0x6, 8), (0x7, 12), (0x8, 16)]"

definition is_apu :: "cpu_id_t \<Rightarrow> bool" where
  "is_apu cid \<longleftrightarrow> c_strstr (brand_str cid) ''APU'' \<noteq> None \<or> c_strstr (brand_str cid) ''Radeon '' \<noteq> None"

text \<open>The formulas of the families, from the fields that were read.\<close>

definition multiplier_12h :: "u64 \<Rightarrow> u64 \<Rightarrow> double option" where
  "multiplier_12h CpuFid CpuDid =
     map_option (\<lambda>(_, d). dbl_div (dbl_of_int (uint (CpuFid + 0x10))) (Fin d))
       (List.find (\<lambda>(did, _). did = CpuDid) divisor_t)"

definition multiplier_14h :: "int \<Rightarrow> u64 \<Rightarrow> u64 \<Rightarrow> double option" where
  "multiplier_14h clk CpuDid CpuDidLSD = do {
     c \<leftarrow> c_int (clk + 5);
     c \<leftarrow> c_int (c sdiv 100 + 0x10);
     Some (dbl_div (dbl_of_int c)
       (dbl_add (dbl_add (dbl_of_int (uint CpuDid)) (dbl_mul (dbl_of_int (uint CpuDidLSD)) (Fin (1 / 4))))
         (Fin 1))) }"

definition multiplier_10h :: "u64 \<Rightarrow> double \<Rightarrow> u64 \<Rightarrow> u64 \<Rightarrow> double option" where
  "multiplier_10h magic_constant divisor CpuFid CpuDid =
     (if unat CpuDid \<ge> 64 then None
      else Some (dbl_div (dbl_div (dbl_of_int (uint (CpuFid + magic_constant)))
        (dbl_of_int (uint (push_bit (unat CpuDid) (1 :: u64))))) divisor))"

definition multiplier_17h :: "u64 \<Rightarrow> u64 \<Rightarrow> double" where
  "multiplier_17h CpuFid CpuDid = dbl_mul (dbl_div (dbl_of_int (uint CpuFid)) (dbl_of_int (uint CpuDid))) (Fin 2)"

text \<open>
  \<^verbatim>\<open>get_amd_multipliers\<close>: its error, \<^verbatim>\<open>*multiplier\<close> (\<^const>\<open>None\<close> when it is not written) and the state. Undefined
  are the overflow of an \<^verbatim>\<open>int\<close> and a shift by an uninitialised \<^verbatim>\<open>CpuDid\<close> of 64 or more.
\<close>

definition get_amd_multipliers ::
    "'m msr_env \<Rightarrow> int option \<Rightarrow> cpu_id_t \<Rightarrow> int \<Rightarrow> u32 \<Rightarrow> 'm msr_state \<Rightarrow>
      (int \<times> double option \<times> 'm msr_state) option" where
  "get_amd_multipliers env handle cid clk pstate s =
     (let fam = ext_family (x86 cid);
        magic_constant = (if fam = 0x11 then 0x8 else 0x10);
        divisor = (if is_apu cid then Fin 1 else Fin 2)
      in if pstate < MSR_PSTATE_0 \<or> MSR_PSTATE_7 < pstate then Some (1, None, s)
         else if fam = 0x12 then
           let (err, CpuFid, s) = msr_field env handle pstate 8 4 s;
             (err', CpuDid, s) = msr_field env handle pstate 3 0 s
           in Some (case multiplier_12h CpuFid CpuDid of
                  Some m \<Rightarrow> (err + err', Some m, s)
                | None \<Rightarrow> (err + err' + 1, None, s))
         else if fam = 0x14 then
           let (err, CpuDid, s) = msr_field env handle pstate 8 4 s;
             (err', CpuDidLSD, s) = msr_field env handle pstate 3 0 s
           in map_option (\<lambda>m. (err + err', Some m, s)) (multiplier_14h clk CpuDid CpuDidLSD)
         else if fam \<in> {0x10, 0x11, 0x15, 0x16} then
           let (err, CpuDid, s) = msr_field env handle pstate 8 6 s;
             (err', CpuFid, s) = msr_field env handle pstate 5 0 s
           in map_option (\<lambda>m. (err + err', Some m, s)) (multiplier_10h magic_constant divisor CpuFid CpuDid)
         else if fam \<in> {0x17, 0x18, 0x19} then
           let (err, CpuDid, s) = msr_field env handle pstate 13 8 s;
             (err', CpuFid, s) = msr_field env handle pstate 7 0 s
           in Some (err + err', Some (multiplier_17h CpuFid CpuDid), s)
         else Some (1, None, s))"

text \<open>The loop of \<^verbatim>\<open>get_amd_last_pstate_addr\<close>, with \<open>k = last_addr - MSR_PSTATE_0\<close>.\<close>

primrec last_pstate_loop ::
    "nat \<Rightarrow> 'm msr_env \<Rightarrow> int option \<Rightarrow> u64 \<Rightarrow> 'm msr_state \<Rightarrow> u32 \<times> 'm msr_state" where
  "last_pstate_loop 0 env handle reg s = (MSR_PSTATE_0, s)"
| "last_pstate_loop (Suc k) env handle reg s =
     (if reg = 0 then
        let (_, reg, s) = cpu_rdmsr_range env handle (MSR_PSTATE_0 + of_nat k) 63 63 reg s
        in last_pstate_loop k env handle reg s
      else (MSR_PSTATE_0 + of_nat (Suc k), s))"

definition get_amd_last_pstate_addr ::
    "'m msr_env \<Rightarrow> int option \<Rightarrow> 'm msr_state \<Rightarrow> u32 \<times> 'm msr_state" where
  "get_amd_last_pstate_addr env handle s =
     (if st_last_addr s \<noteq> 0 then (st_last_addr s, s)
      else
        let (addr, s) = last_pstate_loop 8 env handle 0 s
        in (addr, s\<lparr>st_last_addr := addr\<rparr>))"

section \<open>Information\<close>

text \<open>The results of the functions are \<^const>\<open>None\<close> where \<open>get_amd_multipliers\<close> is undefined.\<close>

definition invalid_double :: double where
  "invalid_double = dbl_div (dbl_of_int CPU_INVALID_VALUE) (Fin 100)"

definition amd_or_hygon :: "cpu_id_t \<Rightarrow> bool" where
  "amd_or_hygon cid \<longleftrightarrow> vendor cid = VENDOR_AMD \<or> vendor cid = VENDOR_HYGON"

text \<open>\<^verbatim>\<open>if (!err) return mult;\<close> and the value at the end of the function otherwise.\<close>

definition mult_or_invalid :: "int \<Rightarrow> double option \<Rightarrow> double" where
  "mult_or_invalid err m = (if err = 0 then (case m of Some d \<Rightarrow> d | None \<Rightarrow> invalid_double) else invalid_double)"

definition get_info_min_multiplier ::
    "'m msr_env \<Rightarrow> int option \<Rightarrow> cpu_id_t \<Rightarrow> int \<Rightarrow> 'm msr_state \<Rightarrow> (double \<times> 'm msr_state) option" where
  "get_info_min_multiplier env handle cid clk s =
     (let (supported, s) = msr_platform_info_supported cid s in
      if supported then
        let (err, reg, s) = msr_field env handle MSR_PLATFORM_INFO 47 40 s
        in Some (if err = 0 then dbl_of_int (uint reg) else invalid_double, s)
      else if amd_or_hygon cid then
        let (addr, s) = get_amd_last_pstate_addr env handle s in do {
          (err, mult, s) \<leftarrow> get_amd_multipliers env handle cid clk addr s;
          Some (mult_or_invalid err mult, s) }
      else Some (invalid_double, s))"

definition get_info_cur_multiplier ::
    "'m msr_env \<Rightarrow> int option \<Rightarrow> cpu_id_t \<Rightarrow> int \<Rightarrow> 'm msr_state \<Rightarrow> (double \<times> 'm msr_state) option" where
  "get_info_cur_multiplier env handle cid clk s =
     (if vendor cid = VENDOR_INTEL then
        let (supported, s) = msr_intel_core_supported cid s in
        if \<not> supported then
          let (err, reg, s) = cpu_rdmsr env handle MSR_EBL_CR_POWERON (junk env) s
          in Some (if err = ERR_OK then dbl_of_int (uint (drop_bit 22 reg AND 0x1f)) else invalid_double, s)
        else
          let (err, reg, s) = msr_field env handle IA32_PERF_STATUS 15 8 s
          in Some (if err = 0 then dbl_of_int (uint reg) else invalid_double, s)
      else if amd_or_hygon cid then
        let (err, reg, s) = msr_field env handle MSR_PSTATE_S 2 0 s in do {
          (err', mult, s) \<leftarrow> get_amd_multipliers env handle cid clk (MSR_PSTATE_0 + ucast reg) s;
          Some (mult_or_invalid (err + err') mult, s) }
      else Some (invalid_double, s))"

definition get_info_max_multiplier ::
    "'m msr_env \<Rightarrow> int option \<Rightarrow> cpu_id_t \<Rightarrow> int \<Rightarrow> 'm msr_state \<Rightarrow> (double \<times> 'm msr_state) option" where
  "get_info_max_multiplier env handle cid clk s =
     (if vendor cid = VENDOR_INTEL then
        let (supported, s) = msr_intel_core_supported cid s in
        if \<not> supported then
          let (err, reg, s) = cpu_rdmsr env handle IA32_PERF_STATUS (junk env) s
          in Some (if err = ERR_OK then dbl_of_int (uint (drop_bit 40 reg AND 0x1f)) else invalid_double, s)
        else
          let (err, reg, s) = msr_field env handle MSR_TURBO_RATIO_LIMIT 7 0 s
          in Some (if err = 0 then dbl_of_int (uint reg) else invalid_double, s)
      else if amd_or_hygon cid then do {
        (err, mult, s) \<leftarrow> get_amd_multipliers env handle cid clk MSR_PSTATE_0 s;
        Some (mult_or_invalid err mult, s) }
      else Some (invalid_double, s))"

text \<open>The difference of the temperatures is computed in 64 bits and cut to an \<^verbatim>\<open>int\<close>.\<close>

definition get_info_temperature ::
    "'m msr_env \<Rightarrow> int option \<Rightarrow> cpu_id_t \<Rightarrow> 'm msr_state \<Rightarrow> int \<times> 'm msr_state" where
  "get_info_temperature env handle cid s =
     (let (supported, s) = msr_intel_core_supported cid s in
      if supported then
        let (err1, DigitalReadout, s) = msr_field env handle IA32_THERM_STATUS 22 16 s;
          (err2, ReadingValid, s) = msr_field env handle IA32_THERM_STATUS 31 31 s;
          (err3, TemperatureTarget, s) = msr_field env handle MSR_TEMPERATURE_TARGET 23 16 s
        in (if err1 + err2 + err3 = 0 \<and> ReadingValid \<noteq> 0
            then signed_take_bit 31 (uint (TemperatureTarget - DigitalReadout)) else CPU_INVALID_VALUE, s)
      else (CPU_INVALID_VALUE, s))"

definition get_info_voltage ::
    "'m msr_env \<Rightarrow> int option \<Rightarrow> cpu_id_t \<Rightarrow> 'm msr_state \<Rightarrow> double \<times> 'm msr_state" where
  "get_info_voltage env handle cid s =
     (let (supported, s) = msr_intel_core_supported cid s in
      if supported then
        let (err, reg, s) = msr_field env handle MSR_PERF_STATUS 47 32 s
        in (if err = 0 then dbl_div (dbl_of_int (uint reg)) (dbl_of_int 8192) else invalid_double, s)
      else if amd_or_hygon cid then
        let VIDStep = (if ext_family (x86 cid) < 0x15 \<or> ext_family (x86 cid) = 0x15 \<and> ext_model (x86 cid) < 0x10
                       then Fin (rnd (125 / 10000)) else Fin (rnd (625 / 100000)));
          (err, reg, s) = msr_field env handle MSR_PSTATE_S 2 0 s;
          (err', CpuVid, s) =
            (if ext_family (x86 cid) < 0x17 then msr_field env handle (MSR_PSTATE_0 + ucast reg) 15 9 s
             else msr_field env handle (MSR_PSTATE_0 + ucast reg) 21 14 s)
        in (if err + err' = 0 \<and> MSR_PSTATE_0 + ucast reg \<le> MSR_PSTATE_7
            then dbl_sub (Fin (rnd (155 / 100))) (dbl_mul VIDStep (dbl_of_int (uint CpuVid)))
            else invalid_double, s)
      else (invalid_double, s))"

definition get_info_bus_clock ::
    "'m msr_env \<Rightarrow> int option \<Rightarrow> cpu_id_t \<Rightarrow> int \<Rightarrow> 'm msr_state \<Rightarrow> (double \<times> 'm msr_state) option" where
  "get_info_bus_clock env handle cid clk s =
     (let (supported, s) = msr_platform_info_supported cid s in
      if supported then
        let (err, reg, s) = msr_field env handle MSR_PLATFORM_INFO 15 8 s
        in Some (if err = 0 then dbl_div (dbl_of_int clk) (dbl_of_int (uint reg)) else invalid_double, s)
      else if amd_or_hygon cid then
        let (addr, s) = get_amd_last_pstate_addr env handle s;
          (err, reg, s) = msr_field env handle MSR_PSTATE_L 6 4 s
        in do {
          (err', mult, s) \<leftarrow> get_amd_multipliers env handle cid clk (addr - ucast reg) s;
          Some (case mult of
              Some m \<Rightarrow> if err + err' = 0 then dbl_div (dbl_of_int clk) m else invalid_double
            | None \<Rightarrow> invalid_double, s) }
      else Some (invalid_double, s))"

section \<open>Queries\<close>

datatype cpu_msrinfo_request_t =
  INFO_MPERF | INFO_APERF | INFO_MIN_MULTIPLIER | INFO_CUR_MULTIPLIER | INFO_MAX_MULTIPLIER
  | INFO_TEMPERATURE | INFO_THROTTLING | INFO_VOLTAGE | INFO_BCLK | INFO_BUS_CLOCK

definition perfmsr_measure ::
    "'m msr_env \<Rightarrow> int option \<Rightarrow> u32 \<Rightarrow> 'm msr_state \<Rightarrow> (int \<times> 'm msr_state) outcome option" where
  "perfmsr_measure env handle msr s =
     (let (err, x, s) = cpu_rdmsr env handle msr (junk env) s in
      if err \<noteq> ERR_OK then Some (Returns (CPU_INVALID_VALUE, s))
      else
        let a = sys_precise_clock (env_timer env) (ms_clock s) in
        case busy_loop_delay (env_timer env) 10 (Suc (ms_clock s)) of
          None \<Rightarrow> None
        | Some Undefined \<Rightarrow> Some Undefined
        | Some (Returns (_, n)) \<Rightarrow>
            (let (_, y, s) = cpu_rdmsr env handle msr (junk env) s;
               b = sys_precise_clock (env_timer env) n;
               s = s\<lparr>ms_clock := Suc n\<rparr>
             in Some (Returns
                  (if a \<ge> b \<or> x > y then CPU_INVALID_VALUE
                   else signed_take_bit 31 (uint ((y - x) div (b - a))), s))))"

text \<open>\<^verbatim>\<open>(int) (x * 100)\<close>.\<close>

definition times_100 :: "(double \<times> 'm msr_state) option \<Rightarrow> (int \<times> 'm msr_state) outcome option" where
  "times_100 r =
     (case r of
        None \<Rightarrow> Some Undefined
      | Some (x, s) \<Rightarrow>
          (case dbl_to_int (dbl_mul x (Fin 100)) of
             None \<Rightarrow> Some Undefined
           | Some i \<Rightarrow> Some (Returns (i, s))))"

text \<open>The first call identifies the processor and measures its clock; \<^verbatim>\<open>raw\<close> is a local variable.\<close>

definition msrinfo_init :: "'m msr_env \<Rightarrow> 'm msr_state \<Rightarrow> 'm msr_state outcome option" where
  "msrinfo_init env s =
     (if st_init s then Some (Returns s)
      else
        let (r, raw, th) = cpuid_get_raw_data (env_os env) (junk_raw env) (ms_thread s) in
        case cpu_ident_internal (env_os env) (Some raw) (st_id s) (st_internal s) th of
          None \<Rightarrow> Some Undefined
        | Some (r', cid, internal, th) \<Rightarrow>
            (case cpu_clock_measure (env_timer env) 250 True (ms_clock s) of
               None \<Rightarrow> None
             | Some Undefined \<Rightarrow> Some Undefined
             | Some (Returns (clock, n)) \<Rightarrow>
                 Some (Returns (s\<lparr>ms_thread := th, ms_clock := n, st_err := error_code r + error_code r',
                   st_id := cid, st_internal := internal, st_cpu_clock := clock, st_init := True\<rparr>))))"

definition cpu_msrinfo ::
    "'m msr_env \<Rightarrow> int option \<Rightarrow> cpu_msrinfo_request_t \<Rightarrow> 'm msr_state \<Rightarrow>
      (int \<times> 'm msr_state) outcome option" where
  "cpu_msrinfo env handle which s =
     (if handle = None then Some (Returns (CPU_INVALID_VALUE, msr_set_error ERR_HANDLE s))
      else case msrinfo_init env s of
          None \<Rightarrow> None
        | Some Undefined \<Rightarrow> Some Undefined
        | Some (Returns s) \<Rightarrow>
            if st_err s \<noteq> 0 then Some (Returns (CPU_INVALID_VALUE, s))
            else
              (case which of
                 INFO_MPERF \<Rightarrow> perfmsr_measure env handle IA32_MPERF s
               | INFO_APERF \<Rightarrow> perfmsr_measure env handle IA32_APERF s
               | INFO_MIN_MULTIPLIER \<Rightarrow> times_100 (get_info_min_multiplier env handle (st_id s) (st_cpu_clock s) s)
               | INFO_CUR_MULTIPLIER \<Rightarrow> times_100 (get_info_cur_multiplier env handle (st_id s) (st_cpu_clock s) s)
               | INFO_MAX_MULTIPLIER \<Rightarrow> times_100 (get_info_max_multiplier env handle (st_id s) (st_cpu_clock s) s)
               | INFO_TEMPERATURE \<Rightarrow> Some (Returns (get_info_temperature env handle (st_id s) s))
               | INFO_THROTTLING \<Rightarrow> Some (Returns (CPU_INVALID_VALUE, s))
               | INFO_VOLTAGE \<Rightarrow> times_100 (Some (get_info_voltage env handle (st_id s) s))
               | INFO_BCLK \<Rightarrow> times_100 (get_info_bus_clock env handle (st_id s) (st_cpu_clock s) s)
               | INFO_BUS_CLOCK \<Rightarrow> times_100 (get_info_bus_clock env handle (st_id s) (st_cpu_clock s) s)))"

section \<open>Dumping registers\<close>

text \<open>
  \<^verbatim>\<open>msr[%#08x]=\<close> and the eight bytes of a register; the field is at least eight characters wide with its prefix.
  \<^verbatim>\<open>reg\<close> keeps its previous value when a read fails.
\<close>

definition hex_digits :: "nat \<Rightarrow> string" where
  "hex_digits n = fixed_digits 16 (max 1 ((bit_length n + 3) div 4)) n"

definition print_msr_index :: "u32 \<Rightarrow> string" where
  "print_msr_index i =
     (let ds = hex_digits (unat i) in
      if i = 0 then replicate 8 (CHR ''0'') else ''0x'' @ replicate (6 - length ds) (CHR ''0'') @ ds)"

definition print_bytes :: "u64 \<Rightarrow> string" where
  "print_bytes reg =
     concat (map (\<lambda>j. fixed_digits 16 2 (unat (drop_bit (8 * j) reg AND 0xff)) @ '' '') (rev [0..<8]))"

fun msr_lines :: "'m msr_env \<Rightarrow> int option \<Rightarrow> u32 list \<Rightarrow> u64 \<Rightarrow> 'm msr_state \<Rightarrow> string list \<times> 'm msr_state" where
  "msr_lines env handle [] reg s = ([], s)"
| "msr_lines env handle (i # is) reg s =
     (let (_, reg, s) = cpu_rdmsr env handle i reg s;
        (ls, s) = msr_lines env handle is reg s
      in ((''msr['' @ print_msr_index i @ '']='' @ print_bytes reg) # ls, s))"

text \<open>
  \<^verbatim>\<open>msr_serialize_raw_data\<close> into a file, which is opened or not: the error, the lines that are written, and
  the state.
\<close>

definition msr_serialize_raw_data ::
    "'m msr_env \<Rightarrow> int option \<Rightarrow> bool \<Rightarrow> 'm msr_state \<Rightarrow> (cpu_error_t \<times> string list \<times> 'm msr_state) outcome option" where
  "msr_serialize_raw_data env handle opened s =
     (if handle = None then Some (Returns (ERR_HANDLE, [], msr_set_error ERR_HANDLE s))
      else if \<not> opened then Some (Returns (ERR_OPEN, [], msr_set_error ERR_OPEN s))
      else case get_cached_cpuid (env_os env) (st_cached s) (ms_thread s) of
          None \<Rightarrow> Some Undefined
        | Some (cid, cached, th) \<Rightarrow>
            let s = s\<lparr>st_cached := cached, ms_thread := th\<rparr> in
            if vendor cid = VENDOR_UNKNOWN then Some (Returns (th_errno th, [], s))
            else
              (case (if st_stock_speed s = 0 then cpu_clock_measure (env_timer env) 250 True (ms_clock s)
                     else Some (Returns (st_stock_speed s, ms_clock s))) of
                 None \<Rightarrow> None
               | Some Undefined \<Rightarrow> Some Undefined
               | Some (Returns (clock, n)) \<Rightarrow>
                   let s = s\<lparr>st_stock_speed := clock, ms_clock := n\<rparr>;
                     head = [''vendor_str='' @ vendor_str cid, ''brand_str='' @ brand_str cid,
                       ''cpu_clock_measure='' @ print_int clock @ ''MHz''];
                     dump = (\<lambda>msr. let (ls, s) = msr_lines env handle msr (junk env) s
                                  in Some (Returns (ERR_OK, head @ ls, msr_set_error ERR_OK s)))
                   in (case vendor cid of
                         VENDOR_HYGON \<Rightarrow> dump amd_msr
                       | VENDOR_AMD \<Rightarrow> dump amd_msr
                       | VENDOR_INTEL \<Rightarrow> dump intel_msr
                       | _ \<Rightarrow> Some (Returns (ERR_CPU_UNKN, head, msr_set_error ERR_CPU_UNKN s)))))"

end
