(* ===== verification/Msr_Facts.thy ===== *)
theory Msr_Facts
  imports Msr Clock_Facts
begin

text \<open>
  What the register reads of \<^verbatim>\<open>rdmsr.c\<close> and the queries of \<^verbatim>\<open>cpu_msrinfo\<close> deliver: bit fields, the multipliers
  of the AMD families with their rounding, the P-states, and the errors.
\<close>

section \<open>Fields\<close>

lemma unat_field_width:
  fixes hi lo :: u8
  assumes "lo \<le> hi" and "hi \<le> 63"
  shows "unat (hi - lo + 1) = unat hi - unat lo + 1"
proof -
  have "unat lo \<le> unat hi" "unat hi \<le> 63" using assms by (simp_all add: word_le_nat_alt)
  then show ?thesis using assms by (simp add: unat_word_ariths unat_sub)
qed

lemma field_mask: "n < 64 \<Longrightarrow> drop_bit l (v :: u64) AND (push_bit n 1 - 1) = take_bit n (drop_bit l v)"
  by (simp add: take_bit_eq_mask mask_eq_exp_minus_1 push_bit_eq_mult)

lemma field_all: "64 \<le> n \<Longrightarrow> take_bit n (v :: u64) = v"
  by (simp add: take_bit_word_eq_self)

lemma unat_field: "unat (take_bit n (drop_bit l (v :: u64))) = unat v div 2 ^ l mod 2 ^ n"
  by (simp only: unsigned_take_bit_eq unat_drop_bit_eq) (simp only: take_bit_eq_mod drop_bit_eq_div)

definition field_of :: "nat \<Rightarrow> nat \<Rightarrow> u64 \<Rightarrow> u64" where
  "field_of hi lo v = take_bit (hi - lo + 1) (drop_bit lo v)"

lemma cpu_rdmsr_range_ok:
  assumes "lo \<le> hi" and "hi \<le> 63" and "0 \<le> fd" and "msr_value env (ms_reads s) fd i = Some v"
  shows "cpu_rdmsr_range env (Some fd) i hi lo r s =
    (ERR_OK, field_of (unat hi) (unat lo) v, s\<lparr>ms_reads := Suc (ms_reads s)\<rparr>)"
proof -
  have w: "unat (hi - lo + 1) = unat hi - unat lo + 1" by (rule unat_field_width [OF assms(1,2)])
  have le: "unat lo \<le> unat hi" "unat hi \<le> 63" using assms by (simp_all add: word_le_nat_alt)
  have small: "hi - lo + 1 < 64 \<longleftrightarrow> unat hi - unat lo + 1 < 64" by (simp add: word_less_nat_alt w)
  have "drop_bit (unat lo) v AND (push_bit (unat (hi - lo + 1)) 1 - 1) = field_of (unat hi) (unat lo) v"
    if "hi - lo + 1 < 64"
    using that small by (simp only: w field_of_def field_mask)
  moreover have "v = field_of (unat hi) (unat lo) v" if "\<not> hi - lo + 1 < 64"
  proof -
    have "unat hi = 63" "unat lo = 0" using that le small by linarith+
    then show ?thesis by (simp add: field_of_def field_all)
  qed
  moreover have "\<not> (63 < hi \<or> hi < lo)" using assms by auto
  ultimately show ?thesis using assms(3,4)
    by (simp add: cpu_rdmsr_range_def cpu_rdmsr_def Let_def)
qed

lemma cpu_rdmsr_range_fails:
  assumes "lo \<le> hi" and "hi \<le> 63" and "0 \<le> fd" and "msr_value env (ms_reads s) fd i = None"
  shows "cpu_rdmsr_range env (Some fd) i hi lo r s =
    (ERR_INVMSR, r, msr_set_error ERR_INVMSR (s\<lparr>ms_reads := Suc (ms_reads s)\<rparr>))"
  using assms by (simp add: cpu_rdmsr_range_def cpu_rdmsr_def Let_def not_less)

lemma msr_field_ok:
  assumes "lo \<le> hi" and "hi \<le> 63" and "0 \<le> fd" and "msr_value env (ms_reads s) fd i = Some v"
  shows "msr_field env (Some fd) i hi lo s =
    (0, field_of (unat hi) (unat lo) v, s\<lparr>ms_reads := Suc (ms_reads s)\<rparr>)"
  by (simp add: msr_field_def cpu_rdmsr_range_ok [OF assms] error_code_def)

lemma msr_field_fails:
  assumes "lo \<le> hi" and "hi \<le> 63" and "0 \<le> fd" and "msr_value env (ms_reads s) fd i = None"
  shows "msr_field env (Some fd) i hi lo s =
    (- 13, junk env, msr_set_error ERR_INVMSR (s\<lparr>ms_reads := Suc (ms_reads s)\<rparr>))"
  by (simp add: msr_field_def cpu_rdmsr_range_fails [OF assms] error_code_def)

lemma field_of_unat: "unat (field_of hi lo v) = unat v div 2 ^ lo mod 2 ^ (hi - lo + 1)"
  by (simp only: field_of_def unat_field)

text \<open>C30: cpu_rdmsr_range reads nothing when the range is invalid or the handle is not open, and reports
  ERR_INVRANGE (first) or ERR_HANDLE; a register that cannot be read is reported as ERR_INVMSR; in these cases the
  caller's variable keeps its value and the library's error number is set. Otherwise exactly one register is read
  and the result is the number in its bits lowbit to highbit, also for the whole register.\<close>

theorem cpu_rdmsr_range_spec:
  fixes hi lo :: u8 and r :: u64
  defines "ok \<equiv> lo \<le> hi \<and> hi \<le> 63"
  shows "(\<not> ok \<longrightarrow> cpu_rdmsr_range env handle i hi lo r s = (ERR_INVRANGE, r, msr_set_error ERR_INVRANGE s)) \<and>
    (ok \<and> (handle = None \<or> (\<exists>fd < 0. handle = Some fd)) \<longrightarrow>
      cpu_rdmsr_range env handle i hi lo r s = (ERR_HANDLE, r, msr_set_error ERR_HANDLE s)) \<and>
    (\<forall>fd \<ge> 0. ok \<and> handle = Some fd \<longrightarrow>
      (case msr_value env (ms_reads s) fd i of
         None \<Rightarrow> cpu_rdmsr_range env handle i hi lo r s =
           (ERR_INVMSR, r, msr_set_error ERR_INVMSR (s\<lparr>ms_reads := Suc (ms_reads s)\<rparr>))
       | Some v \<Rightarrow> \<exists>f. cpu_rdmsr_range env handle i hi lo r s = (ERR_OK, f, s\<lparr>ms_reads := Suc (ms_reads s)\<rparr>) \<and>
           unat f = unat v div 2 ^ unat lo mod 2 ^ (unat hi - unat lo + 1)))"
proof (intro conjI allI impI)
  assume "\<not> ok"
  then show "cpu_rdmsr_range env handle i hi lo r s = (ERR_INVRANGE, r, msr_set_error ERR_INVRANGE s)"
    by (auto simp: ok_def cpu_rdmsr_range_def not_le)
next
  assume "ok \<and> (handle = None \<or> (\<exists>fd < 0. handle = Some fd))"
  then show "cpu_rdmsr_range env handle i hi lo r s = (ERR_HANDLE, r, msr_set_error ERR_HANDLE s)"
    by (auto simp: ok_def cpu_rdmsr_range_def cpu_rdmsr_def Let_def not_less [symmetric])
next
  fix fd :: int
  assume "0 \<le> fd" and "ok \<and> handle = Some fd"
  then show "case msr_value env (ms_reads s) fd i of
      None \<Rightarrow> cpu_rdmsr_range env handle i hi lo r s =
        (ERR_INVMSR, r, msr_set_error ERR_INVMSR (s\<lparr>ms_reads := Suc (ms_reads s)\<rparr>))
    | Some v \<Rightarrow> \<exists>f. cpu_rdmsr_range env handle i hi lo r s = (ERR_OK, f, s\<lparr>ms_reads := Suc (ms_reads s)\<rparr>) \<and>
        unat f = unat v div 2 ^ unat lo mod 2 ^ (unat hi - unat lo + 1)"
    by (auto simp: ok_def cpu_rdmsr_range_ok cpu_rdmsr_range_fails field_of_unat split: option.split)
qed

section \<open>Multipliers\<close>

lemma trunc_invalid: "dbl_to_int (dbl_mul invalid_double (Fin 100)) = Some CPU_INVALID_VALUE"
proof -
  have a: "rnd (1073741823 / 100) = of_int 5764607517665526 * 2 powi (23 - 52)"
    by (rule rnd_value) (simp_all add: power_int_def field_simps)
  have b: "rnd (72057593970819075 / 67108864) = of_int 9007199246352384 * 2 powi (29 - 52)"
    by (rule rnd_value) (simp_all add: power_int_def field_simps)
  have c: "rnd 1073741823 = 1073741823" "rnd 100 = 100"
    using rnd_of_int [of 1073741823] rnd_of_int [of 100] by simp_all
  have "rnd (1073741823 / 100) * 100 = 72057593970819075 / 67108864" "rnd (72057593970819075 / 67108864) = 1073741823"
    using a b by (simp_all add: power_int_def power_one_over)
  note d = this
  have "dbl_mul invalid_double (Fin 100) = Fin 1073741823"
    by (simp add: invalid_double_def dbl_of_int_def c d)
  then show ?thesis by (simp add: trunc_def)
qed

lemma zen_error:
  fixes x :: rat
  assumes "0 \<le> x" and "x \<le> 255"
  shows "\<bar>rnd (rnd (rnd x * 2) * 100) - 200 * x\<bar> < 1 / 64"
proof -
  define a b c where "a = rnd x" and "b = rnd (a * 2)" and "c = rnd (b * 100)"
  note error = rnd_error [THEN order_trans, of _ "1 / 2 ^ 20"]
  have 1: "\<bar>a - x\<bar> \<le> 1 / 1048576" using error [of x] assms by (simp add: a_def)
  then have a: "\<bar>a\<bar> \<le> 256" using assms by linarith
  have 2: "\<bar>b - a * 2\<bar> \<le> 1 / 1048576" using error [of "a * 2"] a by (simp add: b_def)
  then have b: "\<bar>b\<bar> \<le> 513" using a by linarith
  have 3: "\<bar>c - b * 100\<bar> \<le> 1 / 1048576" using error [of "b * 100"] b by (simp add: c_def)
  have "\<bar>c - 200 * x\<bar> < 1 / 64" using 1 2 3 by linarith
  then show ?thesis by (simp add: a_def b_def c_def)
qed

text \<open>The Zen formula, \<open>fid / did * 2 * 100\<close>, loses at most one.\<close>

lemma floor_between: "of_int n \<le> x \<Longrightarrow> x < of_int n + 1 \<Longrightarrow> \<lfloor>x\<rfloor> = n"
  by (rule floor_unique)

lemma trunc_nonneg: "0 \<le> x \<Longrightarrow> trunc x = \<lfloor>x\<rfloor>"
  by (simp add: trunc_def)

lemma zen_trunc:
  fixes fid did :: nat
  assumes "fid < 256" and "0 < did" and "did < 64"
  defines "N \<equiv> 200 * fid div did"
  defines "r \<equiv> rnd (rnd (rnd (of_nat fid / of_nat did) * 2) * 100)"
  shows "trunc r = int N \<or> did dvd 200 * fid \<and> trunc r = int N - 1"
proof (cases "fid = 0")
  case True
  then show ?thesis by (simp add: N_def r_def rnd_def trunc_def)
next
  case False
  have pos: "0 < (of_nat did :: rat)" using assms(2) by simp
  have "of_nat fid / of_nat did \<le> (255 / 1 :: rat)" using assms(1,2) by (intro frac_le) simp_all
  then have err: "\<bar>r - 200 * (of_nat fid / of_nat did)\<bar> < 1 / 64"
    unfolding r_def by (intro zen_error) simp_all
  define q where "q = 200 * fid mod did"
  have "200 * fid = N * did + q" by (simp add: N_def q_def)
  then have "(of_nat (200 * fid) :: rat) = of_nat (N * did + q)" by (simp only:)
  then have E: "200 * (of_nat fid / of_nat did :: rat) = of_nat N + of_nat q / of_nat did"
    using pos by (simp add: field_simps)
  show ?thesis
  proof (cases "did dvd 200 * fid")
    case True
    then have "q = 0" by (simp add: q_def)
    moreover have "0 < N"
      using True False assms(2) by (auto simp: N_def div_greater_zero_iff dest: dvd_imp_le)
    ultimately have "of_int (int N - 1) \<le> r" "r < of_int (int N) + 1" "0 \<le> r"
      using err E by (simp_all, linarith+)
    then have "\<lfloor>r\<rfloor> = int N \<or> \<lfloor>r\<rfloor> = int N - 1" by linarith
    with \<open>0 \<le> r\<close> True show ?thesis by (simp add: trunc_nonneg)
  next
    case False
    then have "1 \<le> q" "q + 1 \<le> did" using assms(2) by (simp_all add: q_def dvd_eq_mod_eq_0 Suc_le_eq)
    then have "(of_nat 1 :: rat) \<le> of_nat q" "(of_nat (q + 1) :: rat) \<le> of_nat did" by (simp_all only: of_nat_le_iff)
    then have "1 / of_nat did \<le> (of_nat q / of_nat did :: rat)" "of_nat q / of_nat did + 1 / of_nat did \<le> (1 :: rat)"
      using pos by (simp_all add: divide_le_eq flip: add_divide_distrib)
    moreover have "1 / 63 \<le> 1 / (of_nat did :: rat)" using assms(2,3) by (intro frac_le) simp_all
    ultimately have "1 / 63 \<le> (of_nat q / of_nat did :: rat)" "(of_nat q / of_nat did :: rat) + 1 / 63 \<le> 1"
      by linarith+
    then have "of_int (int N) \<le> r" "r < of_int (int N) + 1" using err E by (simp_all, linarith+)
    moreover from this(1) have "0 \<le> r" using of_nat_0_le_iff [of N, where ?'a = rat] by simp
    ultimately show ?thesis by (simp add: trunc_nonneg floor_between)
  qed
qed

text \<open>The formula of the families 10h to 16h is exact.\<close>

lemma rnd_dyadic: "m < 2 ^ 53 \<Longrightarrow> rnd (of_nat m / 2 ^ k) = of_nat m / 2 ^ k"
proof -
  assume "m < 2 ^ 53"
  then have "\<bar>int m\<bar> < 2 ^ 53" by simp
  then have "rnd (of_int (int m) * 2 powi (- int k)) = of_int (int m) * 2 powi (- int k)" by (rule rnd_exact)
  then show ?thesis by (simp add: power_int_minus divide_inverse)
qed

lemma multiplier_10h_exact:
  assumes "unat fid < 64" and "unat magic \<le> 16" and "unat did < 8" and "j \<le> 1"
  shows "\<exists>d. multiplier_10h magic (Fin (2 ^ j)) fid did = Some d \<and>
    dbl_to_int (dbl_mul d (Fin 100)) = Some (int (100 * (unat fid + unat magic) div 2 ^ (unat did + j)))"
proof -
  define m where "m = unat fid + unat magic"
  define k where "k = unat did"
  have m: "unat (fid + magic) = m" "m < 80" using assms(1,2) by (simp_all add: m_def unat_word_ariths)
  have "unat (push_bit k (1 :: u64)) = 2 ^ k"
  proof -
    have "k \<in> {0, 1, 2, 3, 4, 5, 6, 7}" using assms(3) by (auto simp: k_def)
    then show ?thesis by (auto simp: push_bit_eq_mult)
  qed
  then have u: "uint (push_bit k (1 :: u64)) = int (2 ^ k)" "uint (fid + magic) = int m"
    using m(1) by (simp_all only: uint_nat)
  have r: "rnd (of_nat m) = of_nat m" "rnd (2 ^ k) = 2 ^ k"
    using rnd_dyadic [of m 0] rnd_of_int [of "2 ^ k"] m(2) power_strict_increasing [of k 53 "2 :: int"] assms(3)
    by (simp_all add: k_def)
  then have D: "dbl_of_int (uint (push_bit (unat did) (1 :: u64))) = Fin (2 ^ k)"
    "dbl_of_int (uint (fid + magic)) = Fin (of_nat m)"
    using u by (simp_all only: dbl_of_int_def k_def of_int_of_nat_eq of_nat_power of_nat_numeral of_int_power of_int_numeral)
  have "multiplier_10h magic (Fin (2 ^ j)) fid did = Some (Fin (of_nat m / 2 ^ (k + j)))"
    unfolding multiplier_10h_def D
    using m(2) assms(3) rnd_dyadic [of m k] rnd_dyadic [of m "k + j"] by (simp add: power_add)
  moreover have "dbl_mul (Fin (of_nat m / 2 ^ (k + j))) (Fin 100) = Fin (of_nat (100 * m) / 2 ^ (k + j))"
    using m(2) rnd_dyadic [of "100 * m" "k + j"] by (simp add: mult.commute)
  moreover have "trunc (of_nat (100 * m) / 2 ^ (k + j)) = int (100 * m div 2 ^ (k + j))"
    using floor_divide_of_nat_eq [of "100 * m" "2 ^ (k + j)", where ?'a = rat] by (simp add: trunc_nonneg)
  moreover have "100 * m div 2 ^ (k + j) < 2 ^ 31"
    using m(2) div_le_dividend [of "100 * m" "2 ^ (k + j)"] by (intro le_less_trans [OF div_le_dividend]) simp
  ultimately show ?thesis by (simp add: m_def k_def)
qed

lemma multiplier_17h_int:
  fixes CpuFid CpuDid :: u64
  assumes "unat CpuFid < 256" and "unat CpuDid < 64"
  defines "N \<equiv> 200 * unat CpuFid div unat CpuDid"
  shows "dbl_to_int (dbl_mul (multiplier_17h CpuFid CpuDid) (Fin 100)) =
    (if CpuDid = 0 then None
     else Some (trunc (rnd (rnd (rnd (of_nat (unat CpuFid) / of_nat (unat CpuDid)) * 2) * 100))))"
proof -
  have D: "dbl_of_int (uint w) = Fin (of_nat (unat w))" if "unat w < 256" for w :: u64
    unfolding dbl_of_int_def uint_nat using that rnd_dyadic [of "unat w" 0] by simp
  show ?thesis
  proof (cases "CpuDid = 0")
    case True
    moreover have "dbl_of_int 0 = Fin 0" by (simp add: dbl_of_int_def)
    ultimately show ?thesis using assms(1) by (simp add: multiplier_17h_def D)
  next
    case False
    then have pos: "0 < unat CpuDid" by (simp add: unat_gt_0)
    define r where "r = rnd (rnd (rnd (of_nat (unat CpuFid) / of_nat (unat CpuDid)) * 2) * 100)"
    have "N < 2 ^ 31" unfolding N_def using assms(1) by (intro le_less_trans [OF div_le_dividend]) simp
    then have N: "int N < 2147483648" by simp
    have "trunc r = int N \<or> trunc r = int N - 1"
      using zen_trunc [OF assms(1) pos assms(2)] unfolding r_def N_def by blast
    then have "- 2147483648 \<le> trunc r \<and> trunc r < 2147483648"
      using N by linarith
    then have "dbl_to_int (Fin r) = Some (trunc r)" by simp
    moreover have "(of_nat (unat CpuDid) :: rat) \<noteq> 0" unfolding of_nat_eq_0_iff using pos by simp
    then have "dbl_mul (multiplier_17h CpuFid CpuDid) (Fin 100) = Fin r"
      using D [of CpuFid] D [of CpuDid] assms(1,2) by (simp add: multiplier_17h_def r_def)
    ultimately show ?thesis using False by (simp only: r_def if_False)
  qed
qed

section \<open>Queries of the multipliers\<close>

definition steady :: "'m msr_env \<Rightarrow> int \<Rightarrow> (u32 \<Rightarrow> u64) \<Rightarrow> bool" where
  "steady env fd regs \<longleftrightarrow> 0 \<le> fd \<and> (\<forall>k i. msr_value env k fd i = Some (regs i))"

lemma steady_field:
  "steady env fd regs \<Longrightarrow> lo \<le> hi \<Longrightarrow> hi \<le> 63 \<Longrightarrow> msr_field env (Some fd) i hi lo s =
    (0, field_of (unat hi) (unat lo) (regs i), s\<lparr>ms_reads := Suc (ms_reads s)\<rparr>)"
  by (simp add: steady_def msr_field_ok)

lemma steady_range:
  "steady env fd regs \<Longrightarrow> lo \<le> hi \<Longrightarrow> hi \<le> 63 \<Longrightarrow> cpu_rdmsr_range env (Some fd) i hi lo r s =
    (ERR_OK, field_of (unat hi) (unat lo) (regs i), s\<lparr>ms_reads := Suc (ms_reads s)\<rparr>)"
  by (simp add: steady_def cpu_rdmsr_range_ok)

text \<open>The P-states that are enabled, and the highest of them.\<close>

definition pstate_enabled :: "(u32 \<Rightarrow> u64) \<Rightarrow> nat \<Rightarrow> bool" where
  "pstate_enabled regs i = bit (regs (MSR_PSTATE_0 + of_nat i)) 63"

definition highest_pstate :: "(u32 \<Rightarrow> u64) \<Rightarrow> nat \<Rightarrow> nat" where
  "highest_pstate regs n = last (0 # filter (pstate_enabled regs) [0..<n])"

lemma highest_pstate_Suc:
  "highest_pstate regs (Suc n) = (if pstate_enabled regs n then n else highest_pstate regs n)"
  by (simp add: highest_pstate_def)

lemma highest_pstate_less: "highest_pstate regs (Suc n) \<le> n"
  by (induction n) (auto simp: highest_pstate_Suc [of _ "Suc _"] highest_pstate_def)

lemma enabled_field: "field_of 63 63 v = 0 \<longleftrightarrow> \<not> bit v 63"
  by (simp add: field_of_def bit_iff_odd_drop_bit take_bit_Suc odd_iff_mod_2_eq_one even_iff_mod_2_eq_zero)

lemma last_pstate_loop_found: "reg \<noteq> 0 \<Longrightarrow> last_pstate_loop k env h reg s = (MSR_PSTATE_0 + of_nat k, s)"
  by (cases k) simp_all

lemma last_pstate_loop_steady:
  assumes "steady env fd regs"
  shows "\<exists>r. last_pstate_loop k env (Some fd) 0 s =
    (MSR_PSTATE_0 + of_nat (highest_pstate regs k), s\<lparr>ms_reads := r\<rparr>)"
proof (induction k arbitrary: s)
  case 0
  then show ?case by (auto simp: highest_pstate_def intro: exI [of _ "ms_reads s"])
next
  case (Suc k)
  show ?case
  proof (cases "pstate_enabled regs k")
    case True
    then show ?thesis
      by (auto simp: steady_range [OF assms] highest_pstate_Suc last_pstate_loop_found enabled_field pstate_enabled_def)
  next
    case False
    then have z: "field_of 63 63 (regs (MSR_PSTATE_0 + of_nat k)) = 0"
      by (simp add: enabled_field pstate_enabled_def)
    from Suc.IH [of "s\<lparr>ms_reads := Suc (ms_reads s)\<rparr>"] False show ?thesis
      by (simp add: steady_range [OF assms] highest_pstate_Suc z)
  qed
qed

text \<open>The P-state a query is about: the one of the boost, the current one or the slowest one that is enabled.\<close>

definition query_pstate :: "cpu_msrinfo_request_t \<Rightarrow> (u32 \<Rightarrow> u64) \<Rightarrow> nat" where
  "query_pstate which regs =
     (case which of
        INFO_CUR_MULTIPLIER \<Rightarrow> unat (regs MSR_PSTATE_S) mod 8
      | INFO_MIN_MULTIPLIER \<Rightarrow> highest_pstate regs 8
      | _ \<Rightarrow> 0)"

abbreviation pstate_register :: "nat \<Rightarrow> u32" where
  "pstate_register k \<equiv> MSR_PSTATE_0 + of_nat k"

lemma pstate_register_range: "k < 8 \<Longrightarrow> \<not> (pstate_register k < MSR_PSTATE_0 \<or> MSR_PSTATE_7 < pstate_register k)"
proof -
  assume "k < 8"
  then have "k \<in> {0, 1, 2, 3, 4, 5, 6, 7}" by auto
  then show ?thesis by auto
qed

definition multiplier_query :: "cpu_msrinfo_request_t \<Rightarrow> bool" where
  "multiplier_query which \<longleftrightarrow> which \<in> {INFO_MIN_MULTIPLIER, INFO_CUR_MULTIPLIER, INFO_MAX_MULTIPLIER}"

lemma query_pstate_less: "query_pstate which regs < 8"
  using highest_pstate_less [of regs 7] by (cases which) (simp_all add: query_pstate_def)

lemma current_pstate: "ucast (field_of 2 0 v) = (of_nat (unat v mod 8) :: u32)"
proof -
  have "unat (field_of 2 0 v) = unat v mod 8" by (simp add: field_of_unat)
  then have "of_nat (unat (field_of 2 0 v)) = (of_nat (unat v mod 8) :: u32)" by (simp only:)
  then show ?thesis by simp
qed

text \<open>Every query of a multiplier is one call of \<open>get_amd_multipliers\<close> for its P-state.\<close>

definition amd_ready :: "(u32 \<Rightarrow> u64) \<Rightarrow> 'm msr_state \<Rightarrow> bool" where
  "amd_ready regs s \<longleftrightarrow> st_init s \<and> st_err s = 0 \<and> amd_or_hygon (st_id s) \<and> st_platform_info s \<le> 0 \<and>
     st_last_addr s \<in> {0, pstate_register (highest_pstate regs 8)}"

lemma amd_ready_reads [simp]: "amd_ready regs (s\<lparr>ms_reads := r\<rparr>) = amd_ready regs s"
  by (simp add: amd_ready_def)

lemma amd_vendor: "amd_or_hygon cid \<Longrightarrow> vendor cid \<noteq> VENDOR_INTEL"
  by (auto simp: amd_or_hygon_def)

lemma bind_multiplier:
  "Option.bind x (\<lambda>(err, m, s). Some (f err m, s)) = map_option (\<lambda>(err, m, s). (f err m, s)) x"
  by (cases x) auto

lemma last_pstate_steady:
  assumes "steady env fd regs" and "st_last_addr s \<in> {0, pstate_register (highest_pstate regs 8)}"
  shows "\<exists>r. get_amd_last_pstate_addr env (Some fd) s =
    (pstate_register (highest_pstate regs 8), s\<lparr>ms_reads := r, st_last_addr := pstate_register (highest_pstate regs 8)\<rparr>)"
proof (cases "st_last_addr s = 0")
  case True
  then show ?thesis using last_pstate_loop_steady [OF assms(1), of 8 s] by (auto simp: get_amd_last_pstate_addr_def)
next
  case False
  with assms(2) have "st_last_addr s = pstate_register (highest_pstate regs 8)" by simp
  with False show ?thesis
    by (intro exI [of _ "ms_reads s"]) (simp add: get_amd_last_pstate_addr_def)
qed

lemma amd_platform_info: "amd_or_hygon cid \<Longrightarrow> st_platform_info s \<le> 0 \<Longrightarrow>
    msr_platform_info_supported cid s = (False, s\<lparr>st_platform_info := 0\<rparr>)"
  by (auto simp: msr_platform_info_supported_def dest: amd_vendor)

lemma amd_query:
  assumes "steady env fd regs" and "amd_ready regs s" and "multiplier_query which"
  shows "\<exists>s'. st_id s' = st_id s \<and> amd_ready regs s' \<and> cpu_msrinfo env (Some fd) which s =
    times_100 (map_option (\<lambda>(err, m, s). (mult_or_invalid err m, s))
      (get_amd_multipliers env (Some fd) (st_id s) (st_cpu_clock s) (pstate_register (query_pstate which regs)) s'))"
proof -
  have ready: "st_init s" "st_err s = 0" "amd_or_hygon (st_id s)" "st_platform_info s \<le> 0"
    "st_last_addr s \<in> {0, pstate_register (highest_pstate regs 8)}"
    using assms(2) by (simp_all add: amd_ready_def)
  note info = cpu_msrinfo_def msrinfo_init_def ready(1-4) amd_vendor [OF ready(3)] query_pstate_def bind_multiplier
  consider "which = INFO_MAX_MULTIPLIER" | "which = INFO_CUR_MULTIPLIER" | "which = INFO_MIN_MULTIPLIER"
    using assms(3) by (auto simp: multiplier_query_def)
  then show ?thesis
  proof cases
    case 1
    then show ?thesis using assms(2) by (intro exI [of _ s]) (simp add: info get_info_max_multiplier_def)
  next
    case 2
    then show ?thesis using assms(2)
      by (intro exI [of _ "s\<lparr>ms_reads := Suc (ms_reads s)\<rparr>"])
        (simp add: info get_info_cur_multiplier_def steady_field [OF assms(1)] current_pstate)
  next
    case 3
    let ?s = "s\<lparr>st_platform_info := 0\<rparr>" and ?addr = "pstate_register (highest_pstate regs 8)"
    obtain r where "get_amd_last_pstate_addr env (Some fd) ?s = (?addr, ?s\<lparr>ms_reads := r, st_last_addr := ?addr\<rparr>)"
      using last_pstate_steady [OF assms(1), of ?s] ready(5) by auto
    moreover have "amd_ready regs (?s\<lparr>ms_reads := r, st_last_addr := ?addr\<rparr>)"
      using ready by (simp add: amd_ready_def)
    ultimately show ?thesis using 3
      by (intro exI [of _ "?s\<lparr>ms_reads := r, st_last_addr := ?addr\<rparr>"])
        (simp add: info get_info_min_multiplier_def amd_platform_info)
  qed
qed

lemma times_100_multiplier:
  "times_100 (map_option (\<lambda>(err, m, s). (mult_or_invalid err m, s)) (Some (0, Some d, s))) =
    (case dbl_to_int (dbl_mul d (Fin 100)) of None \<Rightarrow> Some Undefined | Some i \<Rightarrow> Some (Returns (i, s)))"
  by (simp add: times_100_def mult_or_invalid_def)

lemma field_7_0: "unat (field_of 7 0 v) = unat v mod 256"
  and field_13_8: "unat (field_of 13 8 v) = unat v div 256 mod 64"
  and field_8_6: "unat (field_of 8 6 v) = unat v div 64 mod 8"
  and field_5_0: "unat (field_of 5 0 v) = unat v mod 64"
  by (simp_all add: field_of_unat)

text \<open>C8: On AMD processors of the Zen families (17h to 19h), cpu_msrinfo computes each of the three multipliers as
  200 * CpuFid / CpuDfsId of the P-state the query is about (the boost state, the current state, or the highest
  enabled one), rounded down, except that an exact quotient can come out one too low, because the doubles on the way are rounded. With a divisor of
  0 the conversion of the infinite result is undefined. Afterwards the state is ready for the next query.\<close>

theorem zen_multiplier_queries:
  fixes regs :: "u32 \<Rightarrow> u64" and which :: cpu_msrinfo_request_t
  defines "v \<equiv> unat (regs (pstate_register (query_pstate which regs)))"
  defines "fid \<equiv> v mod 256" and "did \<equiv> v div 256 mod 64"
  assumes "steady env fd regs" and "amd_ready regs s" and "multiplier_query which"
    and "ext_family (x86 (st_id s)) \<in> {0x17, 0x18, 0x19}"
  shows "if did = 0 then cpu_msrinfo env (Some fd) which s = Some Undefined
    else \<exists>m s'. cpu_msrinfo env (Some fd) which s = Some (Returns (m, s')) \<and> amd_ready regs s' \<and> st_id s' = st_id s \<and>
      (m = int (200 * fid div did) \<or> did dvd 200 * fid \<and> m = int (200 * fid div did) - 1)"
proof -
  let ?p = "pstate_register (query_pstate which regs)"
  let ?fid = "field_of 7 0 (regs ?p)" and ?did = "field_of 13 8 (regs ?p)"
  have f: "unat ?fid = fid" "unat ?did = did" by (simp_all add: field_7_0 field_13_8 fid_def did_def v_def)
  have less: "fid < 256" "did < 64" by (simp_all add: fid_def did_def)
  obtain s' where s': "st_id s' = st_id s" "amd_ready regs s'" and q: "cpu_msrinfo env (Some fd) which s =
      times_100 (map_option (\<lambda>(err, m, s). (mult_or_invalid err m, s))
        (get_amd_multipliers env (Some fd) (st_id s) (st_cpu_clock s) ?p s'))"
    using amd_query [OF assms(4-6)] by blast
  have "get_amd_multipliers env (Some fd) (st_id s) (st_cpu_clock s) ?p s' =
      Some (0, Some (multiplier_17h ?fid ?did), s'\<lparr>ms_reads := Suc (Suc (ms_reads s'))\<rparr>)"
    using assms(7) pstate_register_range [OF query_pstate_less, of which regs]
    by (auto simp: get_amd_multipliers_def Let_def steady_field [OF assms(4)])
  with q have q: "cpu_msrinfo env (Some fd) which s =
      (case dbl_to_int (dbl_mul (multiplier_17h ?fid ?did) (Fin 100)) of None \<Rightarrow> Some Undefined
       | Some i \<Rightarrow> Some (Returns (i, s'\<lparr>ms_reads := Suc (Suc (ms_reads s'))\<rparr>)))"
    by (simp only: times_100_multiplier)
  note int = multiplier_17h_int [of ?fid ?did, unfolded f, OF less]
  show ?thesis
  proof (cases "did = 0")
    case True
    then have "?did = 0" using f(2) by (simp flip: unat_eq_zero)
    then show ?thesis using q int True by simp
  next
    case False
    then have "?did \<noteq> 0" using f(2) by auto
    then show ?thesis using q int False s' zen_trunc [OF less(1) _ less(2)] by simp
  qed
qed

text \<open>On AMD processors of the families 10h, 11h, 15h and 16h, the three multipliers are computed without any
  rounding error: 100 * (CpuFid + 10h) / 2 ^ CpuDid (08h for family 11h) of the P-state the query is about,
  rounded down, and half of it unless the brand string names an APU.\<close>

theorem k10_multiplier_queries:
  fixes regs :: "u32 \<Rightarrow> u64" and which :: cpu_msrinfo_request_t
  defines "v \<equiv> unat (regs (pstate_register (query_pstate which regs)))"
  defines "fid \<equiv> v mod 64" and "did \<equiv> v div 64 mod 8"
  assumes "steady env fd regs" and "amd_ready regs s" and "multiplier_query which"
    and "ext_family (x86 (st_id s)) \<in> {0x10, 0x11, 0x15, 0x16}"
  defines "magic \<equiv> (if ext_family (x86 (st_id s)) = 0x11 then 8 else 16)"
    and "halves \<equiv> (if is_apu (st_id s) then 0 else 1)"
  shows "\<exists>s'. cpu_msrinfo env (Some fd) which s =
      Some (Returns (int (100 * (fid + magic) div 2 ^ (did + halves)), s')) \<and> amd_ready regs s' \<and> st_id s' = st_id s"
proof -
  let ?p = "pstate_register (query_pstate which regs)"
  let ?fid = "field_of 5 0 (regs ?p)" and ?did = "field_of 8 6 (regs ?p)" and ?magic = "of_nat magic :: u64"
  have f: "unat ?fid = fid" "unat ?did = did" by (simp_all add: field_5_0 field_8_6 fid_def did_def v_def)
  have less: "unat ?fid < 64" "unat ?magic \<le> 16" "unat ?did < 8" "halves \<le> 1" "unat ?magic = magic"
    by (simp_all add: f fid_def did_def magic_def halves_def)
  obtain d where d: "multiplier_10h ?magic (Fin (2 ^ halves)) ?fid ?did = Some d"
    "dbl_to_int (dbl_mul d (Fin 100)) = Some (int (100 * (fid + magic) div 2 ^ (did + halves)))"
    using multiplier_10h_exact [OF less(1-4)] unfolding f less(5) by blast
  obtain s' where s': "st_id s' = st_id s" "amd_ready regs s'" and q: "cpu_msrinfo env (Some fd) which s =
      times_100 (map_option (\<lambda>(err, m, s). (mult_or_invalid err m, s))
        (get_amd_multipliers env (Some fd) (st_id s) (st_cpu_clock s) ?p s'))"
    using amd_query [OF assms(4-6)] by blast
  have "multiplier_10h (if ext_family (x86 (st_id s)) = 0x11 then 0x8 else 0x10)
      (if is_apu (st_id s) then Fin 1 else Fin 2) ?fid ?did = Some d"
    using d(1) by (simp add: magic_def halves_def split: if_splits)
  then have "get_amd_multipliers env (Some fd) (st_id s) (st_cpu_clock s) ?p s' =
      Some (0, Some d, s'\<lparr>ms_reads := Suc (Suc (ms_reads s'))\<rparr>)"
    using assms(7) pstate_register_range [OF query_pstate_less, of which regs]
    by (auto simp: get_amd_multipliers_def Let_def steady_field [OF assms(4)])
  with q have "cpu_msrinfo env (Some fd) which s =
      Some (Returns (int (100 * (fid + magic) div 2 ^ (did + halves)), s'\<lparr>ms_reads := Suc (Suc (ms_reads s'))\<rparr>))"
    by (simp only: times_100_multiplier d(2) option.case)
  with s' show ?thesis by auto
qed

section \<open>Examples\<close>

definition sample_msr_env :: "(u32 \<Rightarrow> u64) \<Rightarrow> nat msr_env" where
  "sample_msr_env regs = \<lparr>env_os = sample_os, env_timer = sample_timer, msr_value = \<lambda>_ _ i. Some (regs i), junk = 77,
     junk_raw = raw_data_t_constructor, dev_exists = \<lambda>_. True, dev_readable = \<lambda>_. True, dev_root = False,
     dev_modprobe = False, dev_open = \<lambda>_. Opened 3, dev_malloc = True\<rparr>"

definition sample_msr_state :: "int \<Rightarrow> nat msr_state" where
  "sample_msr_state fam = \<lparr>ms_thread = \<lparr>th_affinity = 0, th_saved = 0, th_errno = ERR_OK\<rparr>, ms_reads = 0, ms_clock = 0,
     st_cached = None, st_platform_info = - 1, st_intel_core = - 1, st_last_addr = 0, st_err = 0, st_init = True,
     st_id = cpu_id_unknown\<lparr>vendor := VENDOR_AMD, x86 := (x86 cpu_id_unknown)\<lparr>ext_family := fam\<rparr>\<rparr>,
     st_internal = throwaway, st_cpu_clock = 3000, st_stock_speed = 0\<rparr>"

lemma sample_steady: "steady (sample_msr_env regs) 3 regs"
  by (simp add: steady_def sample_msr_env_def)

lemma sample_ready: "amd_ready regs (sample_msr_state fam)"
  by (simp add: amd_ready_def sample_msr_state_def amd_or_hygon_def)

lemma sample_family: "ext_family (x86 (st_id (sample_msr_state fam))) = fam"
  by (simp add: sample_msr_state_def)

lemma sample_query: "multiplier_query INFO_CUR_MULTIPLIER" "query_pstate INFO_CUR_MULTIPLIER (\<lambda>_. w) = unat w mod 8"
  by (simp_all add: multiplier_query_def query_pstate_def)

theorem cpu_rdmsr_range_spec_witness:
  "\<exists>s'. cpu_rdmsr_range (sample_msr_env (\<lambda>_. 0x54)) (Some 3) 0xC0010064 8 6 0 (sample_msr_state 0x10) = (ERR_OK, 1, s')"
proof -
  obtain f where f: "cpu_rdmsr_range (sample_msr_env (\<lambda>_. 0x54)) (Some 3) 0xC0010064 8 6 0 (sample_msr_state 0x10) =
      (ERR_OK, f, (sample_msr_state 0x10)\<lparr>ms_reads := Suc (ms_reads (sample_msr_state 0x10))\<rparr>)" "unat f = 1"
    using cpu_rdmsr_range_spec [of 6 8 "sample_msr_env (\<lambda>_. 0x54)" "Some 3" "0xC0010064" 0 "sample_msr_state 0x10"]
    by (auto simp: sample_msr_env_def)
  from f(2) have "f = 1" by (simp add: word_unat_eq_iff)
  with f(1) show ?thesis by auto
qed

text \<open>A register with \<open>CpuFid = 23\<close> and \<open>CpuDfsId = 5\<close>, and one with \<open>CpuFid = 20\<close> and \<open>CpuDid = 1\<close>.\<close>

theorem zen_multiplier_queries_witness:
  "\<exists>m s'. cpu_msrinfo (sample_msr_env (\<lambda>_. 0x517)) (Some 3) INFO_CUR_MULTIPLIER (sample_msr_state 0x17) =
     Some (Returns (m, s')) \<and> (m = 920 \<or> m = 919)"
  using zen_multiplier_queries [OF sample_steady [where regs = "\<lambda>_. 0x517"] sample_ready [where fam = "0x17"] sample_query(1)]
  by (auto simp: sample_family)

theorem k10_multiplier_queries_witness:
  "\<exists>s'. cpu_msrinfo (sample_msr_env (\<lambda>_. 0x54)) (Some 3) INFO_CUR_MULTIPLIER (sample_msr_state 0x10) =
     Some (Returns (900, s'))"
  using k10_multiplier_queries [OF sample_steady [where regs = "\<lambda>_. 0x54"] sample_ready [where fam = "0x10"] sample_query(1)]
  by (auto simp: sample_family sample_msr_state_def is_apu_def cpu_id_unknown_def)

text \<open>The loss of the Zen formula does occur: 9.19 instead of 9.2.\<close>

lemma zen_loses_one: "dbl_to_int (dbl_mul (multiplier_17h 23 5) (Fin 100)) = Some 919"
proof -
  have a: "rnd (23 / 5) = of_int 5179139571476070 * 2 powi (2 - 52)"
    by (rule rnd_value) (simp_all add: power_int_def field_simps)
  have b: "rnd (2589569785738035 / 281474976710656) = of_int 5179139571476070 * 2 powi (3 - 52)"
    by (rule rnd_value) (simp_all add: power_int_def field_simps)
  have c: "rnd (64739244643450875 / 70368744177664) = of_int 8092405580431359 * 2 powi (9 - 52)"
    by (rule rnd_value) (simp_all add: power_int_def field_simps)
  have i: "rnd 23 = 23" "rnd 5 = 5" using rnd_of_int [of 23] rnd_of_int [of 5] by simp_all
  have r: "rnd (23 / 5) * 2 = 2589569785738035 / 281474976710656"
    "rnd (2589569785738035 / 281474976710656) * 100 = 64739244643450875 / 70368744177664"
    "rnd (64739244643450875 / 70368744177664) = 8092405580431359 / 8796093022208"
    unfolding a b c by (simp_all add: power_int_def power_one_over)
  have "\<lfloor>8092405580431359 / 8796093022208 :: rat\<rfloor> = 919" by (rule floor_unique) simp_all
  then have "trunc (8092405580431359 / 8796093022208) = 919" by (simp add: trunc_def)
  then show ?thesis by (simp add: multiplier_17h_def dbl_of_int_def i r)
qed

end
