(* ===== verification/Msr_Errors.thy ===== *)
theory Msr_Errors
  imports Msr_Facts
begin

text \<open>
  What the queries of \<^verbatim>\<open>rdmsr.c\<close> deliver when registers cannot be read, what \<^verbatim>\<open>msr_serialize_raw_data\<close> writes,
  and when the driver is opened.
\<close>

section \<open>Errors\<close>

text \<open>No register can be read, as on a processor that does not have them or in a virtual machine.\<close>

definition unreadable :: "'m msr_env \<Rightarrow> int \<Rightarrow> bool" where
  "unreadable env fd \<longleftrightarrow> 0 \<le> fd \<and> (\<forall>k i. msr_value env k fd i = None)"

lemma unreadable_field:
  "unreadable env fd \<Longrightarrow> lo \<le> hi \<Longrightarrow> hi \<le> 63 \<Longrightarrow> msr_field env (Some fd) i hi lo s =
    (- 13, junk env, msr_set_error ERR_INVMSR (s\<lparr>ms_reads := Suc (ms_reads s)\<rparr>))"
  by (simp add: unreadable_def msr_field_fails)

lemma unreadable_rdmsr:
  "unreadable env fd \<Longrightarrow> cpu_rdmsr env (Some fd) i r s =
    (ERR_INVMSR, r, msr_set_error ERR_INVMSR (s\<lparr>ms_reads := Suc (ms_reads s)\<rparr>))"
  by (simp add: unreadable_def cpu_rdmsr_def)

text \<open>The formulas of get_amd_multipliers are still evaluated, on variables that were never set.\<close>

definition junk_undefined :: "'m msr_env \<Rightarrow> cpu_id_t \<Rightarrow> int \<Rightarrow> bool" where
  "junk_undefined env cid clk \<longleftrightarrow> amd_or_hygon cid \<and>
     (ext_family (x86 cid) \<in> {0x10, 0x11, 0x15, 0x16} \<and> 64 \<le> unat (junk env) \<or>
      ext_family (x86 cid) = 0x14 \<and> multiplier_14h clk (junk env) (junk env) = None)"

lemma unreadable_multipliers:
  assumes "unreadable env fd" and "amd_or_hygon cid" and "\<not> junk_undefined env cid clk"
  shows "\<exists>e m s'. get_amd_multipliers env (Some fd) cid clk p s = Some (e, m, s') \<and> e \<in> {1, - 26, - 25}"
  using assms(2,3)
  by (auto simp: get_amd_multipliers_def Let_def unreadable_field [OF assms(1)] junk_undefined_def
      multiplier_10h_def split: option.splits)

lemma invalid_multiplier: "e \<noteq> 0 \<Longrightarrow> mult_or_invalid e m = invalid_double"
  by (simp add: mult_or_invalid_def)

lemma times_100_invalid: "times_100 (Some (invalid_double, s)) = Some (Returns (CPU_INVALID_VALUE, s))"
  by (simp only: times_100_def option.case prod.case trunc_invalid)

lemma unreadable_bind:
  assumes "unreadable env fd" and "amd_or_hygon cid" and "\<not> junk_undefined env cid clk"
    and "\<And>e m s'. e \<in> {1, - 26, - 25} \<Longrightarrow> f (e, m, s') = Some (invalid_double, s')"
  shows "\<exists>s'. Option.bind (get_amd_multipliers env (Some fd) cid clk p s) f = Some (invalid_double, s')"
  using unreadable_multipliers [OF assms(1-3), of p s] assms(4) by fastforce

lemma unreadable_min:
  assumes "unreadable env fd" and "\<not> junk_undefined env cid clk"
  shows "\<exists>s'. get_info_min_multiplier env (Some fd) cid clk s = Some (invalid_double, s')"
proof (cases "msr_platform_info_supported cid s")
  case (Pair b s1)
  then show ?thesis
    by (cases "get_amd_last_pstate_addr env (Some fd) s1")
      (auto simp: get_info_min_multiplier_def Let_def unreadable_field [OF assms(1)]
        intro!: unreadable_bind [OF assms(1) _ assms(2)] invalid_multiplier)
qed

lemma unreadable_cur:
  assumes "unreadable env fd" and "\<not> junk_undefined env cid clk"
  shows "\<exists>s'. get_info_cur_multiplier env (Some fd) cid clk s = Some (invalid_double, s')"
proof (cases "msr_intel_core_supported cid s")
  case (Pair b s1)
  then show ?thesis
    by (auto simp: get_info_cur_multiplier_def Let_def unreadable_field [OF assms(1)] unreadable_rdmsr [OF assms(1)]
        intro!: unreadable_bind [OF assms(1) _ assms(2)] invalid_multiplier)
qed

lemma unreadable_max:
  assumes "unreadable env fd" and "\<not> junk_undefined env cid clk"
  shows "\<exists>s'. get_info_max_multiplier env (Some fd) cid clk s = Some (invalid_double, s')"
proof (cases "msr_intel_core_supported cid s")
  case (Pair b s1)
  then show ?thesis
    by (auto simp: get_info_max_multiplier_def Let_def unreadable_field [OF assms(1)] unreadable_rdmsr [OF assms(1)]
        intro!: unreadable_bind [OF assms(1) _ assms(2)] invalid_multiplier)
qed

lemma unreadable_bus:
  assumes "unreadable env fd" and "\<not> junk_undefined env cid clk"
  shows "\<exists>s'. get_info_bus_clock env (Some fd) cid clk s = Some (invalid_double, s')"
proof (cases "msr_platform_info_supported cid s")
  case (Pair b s1)
  then show ?thesis
    by (cases "get_amd_last_pstate_addr env (Some fd) s1")
      (auto simp: get_info_bus_clock_def Let_def unreadable_field [OF assms(1)]
        intro!: unreadable_bind [OF assms(1) _ assms(2)] split: option.split)
qed

lemma unreadable_voltage:
  assumes "unreadable env fd"
  shows "\<exists>s'. get_info_voltage env (Some fd) cid s = (invalid_double, s')"
  by (cases "msr_intel_core_supported cid s")
    (auto simp: get_info_voltage_def Let_def unreadable_field [OF assms])

lemma unreadable_temperature:
  assumes "unreadable env fd"
  shows "\<exists>s'. get_info_temperature env (Some fd) cid s = (CPU_INVALID_VALUE, s')"
  by (cases "msr_intel_core_supported cid s")
    (auto simp: get_info_temperature_def Let_def unreadable_field [OF assms])

text \<open>C9: The errors of cpu_msrinfo. Without a handle it returns CPU_INVALID_VALUE and sets ERR_HANDLE. When the
  identification failed in the first call, every later call fails and reads nothing, whatever the handle. When no
  register can be read, every request delivers exactly CPU_INVALID_VALUE, which survives the division and the
  multiplication by 100 in doubles; except that AMD processors of the families 10h to 16h evaluate their formula on variables that were never
  set, which can be undefined.\<close>

theorem cpu_msrinfo_errors:
  "cpu_msrinfo env None which s = Some (Returns (CPU_INVALID_VALUE, msr_set_error ERR_HANDLE s)) \<and>
   (st_init s \<and> st_err s \<noteq> 0 \<longrightarrow> cpu_msrinfo env (Some fd) which s = Some (Returns (CPU_INVALID_VALUE, s))) \<and>
   (st_init s \<and> st_err s = 0 \<and> unreadable env fd \<and> \<not> junk_undefined env (st_id s) (st_cpu_clock s) \<longrightarrow>
     (\<exists>s'. cpu_msrinfo env (Some fd) which s = Some (Returns (CPU_INVALID_VALUE, s'))))"
proof (intro conjI impI)
  assume "st_init s \<and> st_err s = 0 \<and> unreadable env fd \<and> \<not> junk_undefined env (st_id s) (st_cpu_clock s)"
  then have ready: "st_init s" "st_err s = 0" and u: "unreadable env fd"
    and j: "\<not> junk_undefined env (st_id s) (st_cpu_clock s)" by simp_all
  show "\<exists>s'. cpu_msrinfo env (Some fd) which s = Some (Returns (CPU_INVALID_VALUE, s'))"
    using unreadable_min [OF u j, of s] unreadable_cur [OF u j, of s] unreadable_max [OF u j, of s]
      unreadable_bus [OF u j, of s] unreadable_voltage [OF u, of "st_id s" s] unreadable_temperature [OF u, of "st_id s" s]
    by (cases which) (auto simp: cpu_msrinfo_def msrinfo_init_def ready times_100_invalid
        perfmsr_measure_def unreadable_rdmsr [OF u])
qed (simp_all add: cpu_msrinfo_def msrinfo_init_def)

section \<open>Dumps\<close>

text \<open>What the variable of the register holds after some reads: the value of the last one that succeeded.\<close>

definition last_read :: "u64 \<Rightarrow> u64 option list \<Rightarrow> u64" where
  "last_read reg reads = last (reg # map the (filter (\<lambda>x. x \<noteq> None) reads))"

lemma last_read_Cons: "last_read reg (x # xs) = last_read (case x of None \<Rightarrow> reg | Some v \<Rightarrow> v) xs"
  by (cases x) (simp_all add: last_read_def)

definition msr_line :: "u32 \<Rightarrow> u64 \<Rightarrow> string" where
  "msr_line i reg = ''msr['' @ print_msr_index i @ '']='' @ print_bytes reg"

lemma msr_lines_nth:
  assumes "0 \<le> fd"
  shows "\<exists>ls s'. msr_lines env (Some fd) is reg s = (ls, s') \<and> length ls = length is \<and>
    (\<forall>k < length is. ls ! k = msr_line (is ! k)
      (last_read reg (map (\<lambda>j. msr_value env (ms_reads s + j) fd (is ! j)) [0..<Suc k])))"
proof (induction "is" arbitrary: reg s)
  case (Cons i "is")
  let ?x = "msr_value env (ms_reads s) fd i"
  let ?reg = "case ?x of None \<Rightarrow> reg | Some v \<Rightarrow> v"
  obtain e s1 where rd: "cpu_rdmsr env (Some fd) i reg s = (e, ?reg, s1)" "ms_reads s1 = Suc (ms_reads s)"
    using assms by (cases ?x) (simp_all add: cpu_rdmsr_def msr_set_error_def)
  obtain ls s2 where IH: "msr_lines env (Some fd) is ?reg s1 = (ls, s2)" "length ls = length is"
    "\<And>k. k < length is \<Longrightarrow> ls ! k = msr_line (is ! k)
      (last_read ?reg (map (\<lambda>j. msr_value env (ms_reads s1 + j) fd (is ! j)) [0..<Suc k]))"
    using Cons.IH [of ?reg s1] by blast
  have reads: "map (\<lambda>j. msr_value env (ms_reads s + j) fd ((i # is) ! j)) [0..<Suc (Suc k)] =
      ?x # map (\<lambda>j. msr_value env (ms_reads s1 + j) fd (is ! j)) [0..<Suc k]" for k
    by (simp only: upt_conv_Cons [of 0] map_Suc_upt [symmetric] list.map) (simp add: rd(2))
  have "(msr_line i ?reg # ls) ! k = msr_line ((i # is) ! k)
      (last_read reg (map (\<lambda>j. msr_value env (ms_reads s + j) fd ((i # is) ! j)) [0..<Suc k]))"
    if "k < length (i # is)" for k
  proof (cases k)
    case 0
    then show ?thesis by (simp add: last_read_Cons) (simp add: last_read_def)
  next
    case (Suc k')
    then show ?thesis using IH(3) [of k'] that unfolding Suc reads last_read_Cons by simp
  qed
  with rd IH show ?case by (simp add: msr_line_def)
qed simp

definition vendor_msrs :: "cpu_vendor_t \<Rightarrow> u32 list" where
  "vendor_msrs v = (if v = VENDOR_INTEL then intel_msr else amd_msr)"

text \<open>For the processors of Intel, AMD and Hygon, msr_serialize_raw_data succeeds and writes the vendor, the
  brand, the clock, and one line for every register of the vendor's table, in its order, with the eight bytes of the last register
  that could be read: a register that cannot be read is written with the value of an earlier one, or of a variable
  that was never set, and nothing in the dump tells it from one that was read. For other vendors that are known
  the first three lines are written and ERR_CPU_UNKN is returned.\<close>

theorem msr_serialize_raw_data_spec:
  assumes "0 \<le> fd"
    and "get_cached_cpuid (env_os env) (st_cached s) (ms_thread s) = Some (cid, cached, th)"
    and "vendor cid \<noteq> VENDOR_UNKNOWN"
    and "(if st_stock_speed s = 0 then cpu_clock_measure (env_timer env) 250 True (ms_clock s)
          else Some (Returns (st_stock_speed s, ms_clock s))) = Some (Returns (clk, n))"
  defines "head \<equiv> [''vendor_str='' @ vendor_str cid, ''brand_str='' @ brand_str cid,
      ''cpu_clock_measure='' @ print_int clk @ ''MHz'']"
  shows "if vendor cid \<in> {VENDOR_INTEL, VENDOR_AMD, VENDOR_HYGON} then
      \<exists>ls s'. msr_serialize_raw_data env (Some fd) True s = Some (Returns (ERR_OK, head @ ls, s')) \<and>
        length ls = length (vendor_msrs (vendor cid)) \<and>
        (\<forall>k < length ls. ls ! k = msr_line (vendor_msrs (vendor cid) ! k) (last_read (junk env)
          (map (\<lambda>j. msr_value env (ms_reads s + j) fd (vendor_msrs (vendor cid) ! j)) [0..<Suc k])))
    else \<exists>s'. msr_serialize_raw_data env (Some fd) True s = Some (Returns (ERR_CPU_UNKN, head, s'))"
proof -
  let ?s = "s\<lparr>st_cached := cached, ms_thread := th, st_stock_speed := clk, ms_clock := n\<rparr>"
  have run: "msr_serialize_raw_data env (Some fd) True s =
      (if vendor cid = VENDOR_INTEL \<or> vendor cid = VENDOR_AMD \<or> vendor cid = VENDOR_HYGON
       then let (ls, s) = msr_lines env (Some fd) (vendor_msrs (vendor cid)) (junk env) ?s
            in Some (Returns (ERR_OK, head @ ls, msr_set_error ERR_OK s))
       else Some (Returns (ERR_CPU_UNKN, head, msr_set_error ERR_CPU_UNKN ?s)))"
  proof (cases "st_stock_speed s = 0")
    case True
    with assms(3,4) show ?thesis
      by (cases "vendor cid") (simp_all add: msr_serialize_raw_data_def assms(2) vendor_msrs_def head_def)
  next
    case False
    with assms(3,4) show ?thesis
      by (cases "vendor cid") (simp_all add: msr_serialize_raw_data_def assms(2) vendor_msrs_def head_def)
  qed
  show ?thesis
  proof (cases "vendor cid \<in> {VENDOR_INTEL, VENDOR_AMD, VENDOR_HYGON}")
    case True
    obtain ls s' where ls: "msr_lines env (Some fd) (vendor_msrs (vendor cid)) (junk env) ?s = (ls, s')"
      "length ls = length (vendor_msrs (vendor cid))"
      "\<forall>k < length (vendor_msrs (vendor cid)). ls ! k = msr_line (vendor_msrs (vendor cid) ! k) (last_read (junk env)
        (map (\<lambda>j. msr_value env (ms_reads ?s + j) fd (vendor_msrs (vendor cid) ! j)) [0..<Suc k]))"
      using msr_lines_nth [OF assms(1)] by blast
    then have "msr_serialize_raw_data env (Some fd) True s = Some (Returns (ERR_OK, head @ ls, msr_set_error ERR_OK s'))"
      using True by (simp add: run)
    with ls True show ?thesis by simp
  next
    case False
    then show ?thesis by (simp add: run)
  qed
qed

section \<open>Opening\<close>

text \<open>
  A handle is delivered exactly when the processor exists and supports MSRs, the device is there and readable (or
  a user that is root loads the module), it can be opened and memory is available. Otherwise \<^verbatim>\<open>NULL\<close> is returned
  and the error number is set; the checks are made in this order.
\<close>

theorem cpu_msr_driver_open_core_spec:
  fixes core :: u32
  assumes "get_cached_cpuid (env_os env) (st_cached s) (ms_thread s) = Some (cid, cached, th)"
  defines "path \<equiv> msr_path core"
  defines "loaded \<equiv> (if dev_exists env path then dev_readable env path else dev_root env \<and> dev_modprobe env)"
  shows "map_option (\<lambda>(h, s'). (h, th_errno (ms_thread s'))) (cpu_msr_driver_open_core env core s) =
    Some (if of_int (os_total_cpus (env_os env)) \<le> core then (None, ERR_INVCNB)
      else if \<not> flags cid CPU_FEATURE_MSR then (None, ERR_NO_RDMSR)
      else if \<not> loaded then (None, ERR_NO_DRIVER)
      else case dev_open env path of
          Open_EIO \<Rightarrow> (None, ERR_NO_RDMSR)
        | Open_failed \<Rightarrow> (None, ERR_NO_DRIVER)
        | Opened fd \<Rightarrow> if dev_malloc env then (Some fd, th_errno th) else (None, ERR_NO_MEM))"
  using assms(1)
  by (auto simp: cpu_msr_driver_open_core_def rdmsr_supported_def msr_load_driver_def loaded_def path_def
      msr_set_error_def cpuid_set_error_def Let_def split: open_result.split)

section \<open>Examples\<close>

definition sample_cached_state :: "cpu_vendor_t \<Rightarrow> nat msr_state" where
  "sample_cached_state v = (sample_msr_state 0x17)
     \<lparr>st_cached := Some (cpu_id_unknown\<lparr>vendor := v, flags := (\<lambda>f. f = CPU_FEATURE_MSR)\<rparr>), st_stock_speed := 3000\<rparr>"

theorem cpu_msrinfo_errors_witness:
  "\<exists>s'. cpu_msrinfo ((sample_msr_env (\<lambda>_. 0))\<lparr>msr_value := \<lambda>_ _ _. None\<rparr>) (Some 3) INFO_VOLTAGE (sample_msr_state 0x17) =
     Some (Returns (0x3fffffff, s'))"
proof -
  let ?env = "(sample_msr_env (\<lambda>_. 0))\<lparr>msr_value := \<lambda>_ _ _. None\<rparr>" and ?s = "sample_msr_state 0x17"
  have "unreadable ?env 3" "st_init ?s" "st_err ?s = 0" "\<not> junk_undefined ?env (st_id ?s) (st_cpu_clock ?s)"
    by (simp_all add: unreadable_def sample_msr_state_def junk_undefined_def)
  then show ?thesis using cpu_msrinfo_errors [of ?env INFO_VOLTAGE ?s 3] by blast
qed

theorem msr_serialize_raw_data_spec_witness:
  "\<exists>ls s'. msr_serialize_raw_data ((sample_msr_env (\<lambda>_. 0))\<lparr>msr_value := \<lambda>k _ _. if k = 0 then Some 0x54 else None\<rparr>)
      (Some 3) True (sample_cached_state VENDOR_INTEL) = Some (Returns (ERR_OK, ls, s')) \<and>
     length ls = 12 \<and> ls ! 4 = ''msr[0x0000e8]=00 00 00 00 00 00 00 54 ''"
proof -
  let ?env = "(sample_msr_env (\<lambda>_. 0))\<lparr>msr_value := \<lambda>k _ _. if k = 0 then Some 0x54 else None\<rparr>"
    and ?s = "sample_cached_state VENDOR_INTEL"
  let ?cid = "cpu_id_unknown\<lparr>vendor := VENDOR_INTEL, flags := (\<lambda>f. f = CPU_FEATURE_MSR)\<rparr>"
  have len: "length intel_msr = 9" by (simp add: intel_msr_def)
  obtain ls s' where ls: "msr_serialize_raw_data ?env (Some 3) True ?s = Some (Returns (ERR_OK,
      [''vendor_str='' @ vendor_str ?cid, ''brand_str='' @ brand_str ?cid, ''cpu_clock_measure='' @ print_int 3000 @ ''MHz''] @ ls, s'))"
    "length ls = 9" "ls ! 1 = msr_line (intel_msr ! 1) (last_read 77 [Some 0x54, None])"
    using msr_serialize_raw_data_spec [of 3 ?env ?s ?cid "Some ?cid" "ms_thread ?s" 3000 0]
    by (auto simp: get_cached_cpuid_def sample_cached_state_def sample_msr_state_def vendor_msrs_def len sample_msr_env_def)
  moreover have "msr_line (intel_msr ! 1) (last_read 77 [Some 0x54, None]) = ''msr[0x0000e8]=00 00 00 00 00 00 00 54 ''"
    by (simp add: msr_line_def intel_msr_def last_read_def) code_simp
  ultimately show ?thesis by auto
qed

theorem cpu_msr_driver_open_core_spec_witness:
  "map_option (\<lambda>(h, s'). (h, th_errno (ms_thread s')))
      (cpu_msr_driver_open_core (sample_msr_env (\<lambda>_. 0)) 1 (sample_cached_state VENDOR_AMD)) = Some (Some 3, ERR_OK)"
proof -
  let ?s = "sample_cached_state VENDOR_AMD"
  let ?cid = "cpu_id_unknown\<lparr>vendor := VENDOR_AMD, flags := (\<lambda>f. f = CPU_FEATURE_MSR)\<rparr>"
  have "get_cached_cpuid (env_os (sample_msr_env (\<lambda>_. 0))) (st_cached ?s) (ms_thread ?s) = Some (?cid, Some ?cid, ms_thread ?s)"
    by (simp add: get_cached_cpuid_def sample_cached_state_def)
  then show ?thesis
    by (rule trans [OF cpu_msr_driver_open_core_spec])
      (simp add: sample_msr_env_def sample_os_def sample_cached_state_def sample_msr_state_def word_le_nat_alt)
qed

end
