(* ===== verification/Tool_Options.thy ===== *)
theory Tool_Options
  imports Prelude "HOL-Library.Sublist"
begin

text \<open>
  The command line of \<^verbatim>\<open>cpuid_tool\<close> (\<^verbatim>\<open>src/cpuid_tool/cpuid_tool.c\<close>): the table of queries, the parser and the
  question whether a processor has to be identified.

  The global variables of the parser are a record. The two file names are buffers of 256 characters that
  \<^verbatim>\<open>strncpy\<close> fills: a name of 256 characters or more leaves the buffer without a terminating NUL. Arguments have no
  NUL; a command line has less than \<open>2 ^ 31\<close> characters, so that the number of verbose flags fits an \<^verbatim>\<open>int\<close>.
\<close>

section \<open>Options\<close>

datatype output_data_switch =
    NEED_CPUID_PRESENT | NEED_ARCHITECTURE | NEED_FEATURE_LEVEL | NEED_PURPOSE | NEED_VENDOR_STR |
    NEED_VENDOR_ID | NEED_BRAND_STRING | NEED_FAMILY | NEED_MODEL | NEED_STEPPING | NEED_EXT_FAMILY |
    NEED_EXT_MODEL | NEED_IMPLEMENTER | NEED_VARIANT | NEED_PART_NUM | NEED_REVISION | NEED_NUM_CORES |
    NEED_NUM_LOGICAL | NEED_TOTAL_CPUS | NEED_AFFI_MASK | NEED_L1D_SIZE | NEED_L1I_SIZE | NEED_L2_SIZE |
    NEED_L3_SIZE | NEED_L4_SIZE | NEED_L1D_ASSOC | NEED_L1I_ASSOC | NEED_L2_ASSOC | NEED_L3_ASSOC |
    NEED_L4_ASSOC | NEED_L1D_CACHELINE | NEED_L1I_CACHELINE | NEED_L2_CACHELINE | NEED_L3_CACHELINE |
    NEED_L4_CACHELINE | NEED_L1D_INSTANCES | NEED_L1I_INSTANCES | NEED_L2_INSTANCES | NEED_L3_INSTANCES |
    NEED_L4_INSTANCES | NEED_CODENAME | NEED_TECHNOLOGY | NEED_FEATURES | NEED_CLOCK | NEED_CLOCK_OS |
    NEED_CLOCK_RDTSC | NEED_CLOCK_IC | NEED_RDMSR | NEED_RDMSR_RAW | NEED_SSE_UNIT_SIZE

abbreviation (input) RAW_DATA_FILE_MAX :: nat where "RAW_DATA_FILE_MAX \<equiv> 256"
abbreviation (input) OUT_FILE_MAX :: nat where "OUT_FILE_MAX \<equiv> 256"
abbreviation (input) MAX_REQUESTS :: nat where "MAX_REQUESTS \<equiv> 64"

record tool_opts =
  raw_data_file :: string
  out_file :: string
  need_input :: bool
  need_output :: bool
  need_quiet :: bool
  need_report :: bool
  need_clockreport :: bool
  need_timed_clockreport :: bool
  verbose_level :: int
  need_version :: bool
  need_cpulist :: bool
  need_sgx :: bool
  need_hypervisor :: bool
  need_identify :: bool
  requests :: "output_data_switch list"

definition no_opts :: tool_opts where
  "no_opts = \<lparr>raw_data_file = [], out_file = [], need_input = False, need_output = False, need_quiet = False,
     need_report = False, need_clockreport = False, need_timed_clockreport = False, verbose_level = 0,
     need_version = False, need_cpulist = False, need_sgx = False, need_hypervisor = False, need_identify = False,
     requests = []\<rparr>"

definition matchtable :: "(output_data_switch \<times> string \<times> bool) list" where
  "matchtable =
   [(NEED_CPUID_PRESENT, ''--cpuid'', False), (NEED_ARCHITECTURE, ''--architecture'', True),
    (NEED_FEATURE_LEVEL, ''--feature-level'', True), (NEED_PURPOSE, ''--purpose'', True),
    (NEED_VENDOR_STR, ''--vendorstr'', True), (NEED_VENDOR_ID, ''--vendorid'', True),
    (NEED_BRAND_STRING, ''--brandstr'', True), (NEED_FAMILY, ''--family'', True),
    (NEED_MODEL, ''--model'', True), (NEED_STEPPING, ''--stepping'', True),
    (NEED_EXT_FAMILY, ''--extfamily'', True), (NEED_EXT_MODEL, ''--extmodel'', True),
    (NEED_IMPLEMENTER, ''--implementer'', True), (NEED_VARIANT, ''--variant'', True),
    (NEED_PART_NUM, ''--part-num'', True), (NEED_REVISION, ''--revision'', True),
    (NEED_NUM_CORES, ''--cores'', True), (NEED_NUM_LOGICAL, ''--logical'', True),
    (NEED_TOTAL_CPUS, ''--total-cpus'', True), (NEED_AFFI_MASK, ''--affi-mask'', True),
    (NEED_L1D_SIZE, ''--l1d-cache'', True), (NEED_L1I_SIZE, ''--l1i-cache'', True),
    (NEED_L2_SIZE, ''--cache'', True), (NEED_L2_SIZE, ''--l2-cache'', True),
    (NEED_L3_SIZE, ''--l3-cache'', True), (NEED_L4_SIZE, ''--l4-cache'', True),
    (NEED_L1D_ASSOC, ''--l1d-assoc'', True), (NEED_L1I_ASSOC, ''--l1i-assoc'', True),
    (NEED_L2_ASSOC, ''--l2-assoc'', True), (NEED_L3_ASSOC, ''--l3-assoc'', True),
    (NEED_L4_ASSOC, ''--l4-assoc'', True), (NEED_L1D_CACHELINE, ''--l1d-cacheline'', True),
    (NEED_L1I_CACHELINE, ''--l1i-cacheline'', True), (NEED_L2_CACHELINE, ''--l2-cacheline'', True),
    (NEED_L3_CACHELINE, ''--l3-cacheline'', True), (NEED_L4_CACHELINE, ''--l4-cacheline'', True),
    (NEED_L1D_INSTANCES, ''--l1d-instances'', True), (NEED_L1I_INSTANCES, ''--l1i-instances'', True),
    (NEED_L2_INSTANCES, ''--l2-instances'', True), (NEED_L3_INSTANCES, ''--l3-instances'', True),
    (NEED_L4_INSTANCES, ''--l4-instances'', True), (NEED_CODENAME, ''--codename'', True),
    (NEED_TECHNOLOGY, ''--technology'', True), (NEED_FEATURES, ''--flags'', True),
    (NEED_CLOCK, ''--clock'', False), (NEED_CLOCK_OS, ''--clock-os'', False),
    (NEED_CLOCK_RDTSC, ''--clock-rdtsc'', True), (NEED_CLOCK_IC, ''--clock-ic'', True),
    (NEED_RDMSR, ''--rdmsr'', False), (NEED_RDMSR_RAW, ''--rdmsr-raw'', False),
    (NEED_SSE_UNIT_SIZE, ''--sse-size'', True)]"

section \<open>The parser\<close>

text \<open>The steps for one argument give the message of an error, or the options and whether the argument is known.\<close>

definition parse_load :: "string \<Rightarrow> tool_opts \<Rightarrow> string + (tool_opts \<times> bool)" where
  "parse_load arg op =
     (if \<not> prefix ''--load='' arg then Inr (op, False)
      else if need_input op then Inl ''Too many `--load' options!''
      else if need_output op then Inl ''Cannot have both `--load' and `--save' options!''
      else if length arg \<le> 7 then Inl ''--load: bad file specification!''
      else Inr (op\<lparr>need_input := True, raw_data_file := c_strncpy RAW_DATA_FILE_MAX (drop 7 arg)\<rparr>, True))"

definition parse_save :: "string \<Rightarrow> tool_opts \<Rightarrow> string + (tool_opts \<times> bool)" where
  "parse_save arg op =
     (if \<not> prefix ''--save='' arg then Inr (op, False)
      else if need_output op then Inl ''Too many `--save' options!''
      else if need_input op then Inl ''Cannot have both `--load' and `--save' options!''
      else if length arg \<le> 7 then Inl ''--save: bad file specification!''
      else Inr (op\<lparr>need_output := True, raw_data_file := c_strncpy RAW_DATA_FILE_MAX (drop 7 arg)\<rparr>, True))"

definition parse_outfile :: "string \<Rightarrow> tool_opts \<Rightarrow> string + (tool_opts \<times> bool)" where
  "parse_outfile arg op =
     (if \<not> prefix ''--outfile='' arg then Inr (op, False)
      else if length arg \<le> 10 then Inl ''--output: bad file specification!''
      else Inr (op\<lparr>out_file := c_strncpy RAW_DATA_FILE_MAX (drop 10 arg)\<rparr>, True))"

definition parse_flags :: "string \<Rightarrow> tool_opts \<Rightarrow> tool_opts \<times> bool" where
  "parse_flags arg op =
     (if arg = ''--report'' \<or> arg = ''--all'' then (op\<lparr>need_report := True\<rparr>, True)
      else if arg = ''--clock'' then (op\<lparr>need_clockreport := True\<rparr>, True)
      else if arg = ''--clock-rdtsc'' then (op\<lparr>need_clockreport := True, need_timed_clockreport := True\<rparr>, True)
      else if arg = ''--quiet'' then (op\<lparr>need_quiet := True\<rparr>, True)
      else if arg = ''--verbose'' then (op\<lparr>verbose_level := verbose_level op + 1\<rparr>, True)
      else if arg = ''--version'' then (op\<lparr>need_version := True\<rparr>, True)
      else if arg = ''--cpulist'' then (op\<lparr>need_cpulist := True\<rparr>, True)
      else if arg = ''--sgx'' then (op\<lparr>need_sgx := True, need_identify := True\<rparr>, True)
      else if arg = ''--hypervisor'' then (op\<lparr>need_hypervisor := True, need_identify := True\<rparr>, True)
      else (op, False))"

definition parse_verbose :: "string \<Rightarrow> tool_opts \<Rightarrow> tool_opts \<times> bool" where
  "parse_verbose arg op =
     (if prefix ''-v'' arg then
        let num_vs = 1 + length (takeWhile (\<lambda>c. c = CHR ''v'') (drop 1 arg)) in
        if num_vs = length arg then (op\<lparr>verbose_level := verbose_level op + int (num_vs - 1)\<rparr>, True)
        else (op, False)
      else (op, False))"

definition switch_of :: "string \<Rightarrow> output_data_switch option" where
  "switch_of arg = map_option fst (List.find (\<lambda>(_, synopsis, _). synopsis = arg) matchtable)"

definition parse_request :: "string \<Rightarrow> tool_opts \<Rightarrow> string + (tool_opts \<times> bool)" where
  "parse_request arg op =
     (case switch_of arg of
        None \<Rightarrow> Inr (op, False)
      | Some sw \<Rightarrow>
          if length (requests op) \<ge> MAX_REQUESTS then Inl ''Too many requests!''
          else Inr (op\<lparr>requests := requests op @ [sw]\<rparr>, True))"

datatype parse_result = Parsed tool_opts | Help | Bad string | Unrecognized string

fun parse_then :: "string + (tool_opts \<times> bool) \<Rightarrow> (tool_opts \<Rightarrow> bool \<Rightarrow> parse_result) \<Rightarrow> parse_result" where
  "parse_then (Inl msg) k = Bad msg"
| "parse_then (Inr (op, recog)) k = k op recog"

definition parse_arg :: "string \<Rightarrow> tool_opts \<Rightarrow> parse_result" where
  "parse_arg arg op =
     (if arg = ''-h'' \<or> arg = ''--help'' then Help
      else parse_then (parse_load arg op) (\<lambda>op r1.
        parse_then (parse_save arg op) (\<lambda>op r2.
        parse_then (parse_outfile arg op) (\<lambda>op r3.
          let (op, r4) = parse_flags arg op; (op, r5) = parse_verbose arg op in
          parse_then (parse_request arg op) (\<lambda>op r6.
            if r1 \<or> r2 \<or> r3 \<or> r4 \<or> r5 \<or> r6 then Parsed op else Unrecognized arg)))))"

fun parse_loop :: "string list \<Rightarrow> tool_opts \<Rightarrow> parse_result" where
  "parse_loop [] op = Parsed op"
| "parse_loop (arg # args) op =
     (case parse_arg arg op of Parsed op' \<Rightarrow> parse_loop args op' | r \<Rightarrow> r)"

text \<open>
  \<^verbatim>\<open>parse_cmdline\<close> on \<^verbatim>\<open>argv\<close>, whose first element is the program. The results \<^const>\<open>Parsed\<close>, \<^const>\<open>Help\<close> and
  the others stand for the numbers 1, 0 and -1 it returns.
\<close>

definition parse_cmdline :: "string list \<Rightarrow> parse_result" where
  "parse_cmdline argv =
     (if length argv = 1 then
        Parsed (no_opts\<lparr>need_output := True, raw_data_file := c_strncpy RAW_DATA_FILE_MAX ''raw.txt'',
          out_file := c_strncpy OUT_FILE_MAX ''report.txt'', need_report := True, verbose_level := 1\<rparr>)
      else parse_loop (drop 1 argv) no_opts)"

definition parse_code :: "parse_result \<Rightarrow> int" where
  "parse_code r = (case r of Parsed _ \<Rightarrow> 1 | Help \<Rightarrow> 0 | _ \<Rightarrow> - 1)"

definition check_need_raw_data :: "tool_opts \<Rightarrow> bool" where
  "check_need_raw_data op \<longleftrightarrow> need_output op \<or> need_report op \<or> need_identify op \<or>
     list_ex (\<lambda>q. list_ex (\<lambda>(sw, _, ident_required). q = sw \<and> ident_required) matchtable) (requests op)"

section \<open>What the parser accepts\<close>

text \<open>The kinds of arguments.\<close>

definition is_load :: "string \<Rightarrow> bool" where "is_load arg \<longleftrightarrow> prefix ''--load='' arg"
definition is_save :: "string \<Rightarrow> bool" where "is_save arg \<longleftrightarrow> prefix ''--save='' arg"
definition is_outfile :: "string \<Rightarrow> bool" where "is_outfile arg \<longleftrightarrow> prefix ''--outfile='' arg"
definition is_help :: "string \<Rightarrow> bool" where "is_help arg \<longleftrightarrow> arg = ''-h'' \<or> arg = ''--help''"

definition is_flag :: "string \<Rightarrow> bool" where
  "is_flag arg \<longleftrightarrow> arg \<in> set [''--report'', ''--all'', ''--clock'', ''--clock-rdtsc'', ''--quiet'', ''--verbose'', ''--version'',
     ''--cpulist'', ''--sgx'', ''--hypervisor'']"

definition is_v :: "string \<Rightarrow> bool" where
  "is_v arg \<longleftrightarrow> (\<exists>n > 0. arg = CHR ''-'' # replicate n (CHR ''v''))"

definition verbosity :: "string \<Rightarrow> int" where
  "verbosity arg = (if arg = ''--verbose'' then 1 else if is_v arg then int (length arg - 1) else 0)"

definition known :: "string \<Rightarrow> bool" where
  "known arg \<longleftrightarrow> is_load arg \<or> is_save arg \<or> is_outfile arg \<or> is_flag arg \<or> is_v arg \<or> switch_of arg \<noteq> None"

definition add_arg :: "string \<Rightarrow> tool_opts \<Rightarrow> tool_opts" where
  "add_arg arg op = \<lparr>
     raw_data_file = (if is_load arg \<or> is_save arg then take 256 (drop 7 arg) else raw_data_file op),
     out_file = (if is_outfile arg then take 256 (drop 10 arg) else out_file op),
     need_input = (need_input op \<or> is_load arg),
     need_output = (need_output op \<or> is_save arg),
     need_quiet = (need_quiet op \<or> arg = ''--quiet''),
     need_report = (need_report op \<or> arg = ''--report'' \<or> arg = ''--all''),
     need_clockreport = (need_clockreport op \<or> arg = ''--clock'' \<or> arg = ''--clock-rdtsc''),
     need_timed_clockreport = (need_timed_clockreport op \<or> arg = ''--clock-rdtsc''),
     verbose_level = verbose_level op + verbosity arg,
     need_version = (need_version op \<or> arg = ''--version''),
     need_cpulist = (need_cpulist op \<or> arg = ''--cpulist''),
     need_sgx = (need_sgx op \<or> arg = ''--sgx''),
     need_hypervisor = (need_hypervisor op \<or> arg = ''--hypervisor''),
     need_identify = (need_identify op \<or> arg = ''--sgx'' \<or> arg = ''--hypervisor''),
     requests = requests op @ (case switch_of arg of None \<Rightarrow> [] | Some q \<Rightarrow> [q])\<rparr>"

definition fits :: "string \<Rightarrow> tool_opts \<Rightarrow> bool" where
  "fits arg op \<longleftrightarrow> known arg \<and> \<not> is_help arg \<and>
     (is_load arg \<or> is_save arg \<longrightarrow> \<not> need_input op \<and> \<not> need_output op \<and> 7 < length arg) \<and>
     (is_outfile arg \<longrightarrow> 10 < length arg) \<and>
     (switch_of arg \<noteq> None \<longrightarrow> length (requests op) < 64)"

lemma switch_of_file:
  "switch_of (CHR ''-'' # CHR ''-'' # CHR ''l'' # CHR ''o'' # CHR ''a'' # xs) = None"
  "switch_of (CHR ''-'' # CHR ''-'' # CHR ''s'' # CHR ''a'' # xs) = None"
  "switch_of (CHR ''-'' # CHR ''-'' # CHR ''o'' # xs) = None"
  "switch_of (CHR ''-'' # CHR ''v'' # xs) = None"
  by (simp_all add: switch_of_def matchtable_def)

lemma switch_of_flag:
  "switch_of ''--report'' = None" "switch_of ''--all'' = None" "switch_of ''--quiet'' = None"
  "switch_of ''--verbose'' = None" "switch_of ''--version'' = None" "switch_of ''--cpulist'' = None"
  "switch_of ''--sgx'' = None" "switch_of ''--hypervisor'' = None"
  "switch_of ''--clock'' = Some NEED_CLOCK" "switch_of ''--clock-rdtsc'' = Some NEED_CLOCK_RDTSC"
  by (simp_all add: switch_of_def matchtable_def)

lemma v_length: "prefix ''-v'' arg \<Longrightarrow>
    Suc (length (takeWhile (\<lambda>c. c = CHR ''v'') (drop 1 arg))) = length arg \<longleftrightarrow> is_v arg"
proof -
  assume "prefix ''-v'' arg"
  then obtain r where arg: "arg = CHR ''-'' # CHR ''v'' # r" by (auto simp: prefix_def)
  have "length (takeWhile (\<lambda>c. c = CHR ''v'') r) = length r \<longleftrightarrow> (\<exists>n. r = replicate n (CHR ''v''))"
  proof
    assume "length (takeWhile (\<lambda>c. c = CHR ''v'') r) = length r"
    then have "takeWhile (\<lambda>c. c = CHR ''v'') r = r"
      by (metis append_Nil2 length_append takeWhile_dropWhile_id add_cancel_left_right length_0_conv)
    then have "\<forall>c \<in> set r. c = CHR ''v''" by (metis set_takeWhileD)
    then show "\<exists>n. r = replicate n (CHR ''v'')" by (metis replicate_eqI)
  qed (auto simp: takeWhile_replicate)
  also have "\<dots> \<longleftrightarrow> is_v arg"
    by (auto simp: arg is_v_def gr0_conv_Suc)
  finally show ?thesis by (simp add: arg)
qed

lemma not_v: "is_v arg \<Longrightarrow> prefix ''-v'' arg" "\<not> is_v (CHR ''-'' # CHR ''-'' # xs)"
  by (auto simp: is_v_def gr0_conv_Suc)

lemmas parse = parse_arg_def parse_load_def parse_save_def parse_outfile_def parse_flags_def parse_verbose_def
  parse_request_def c_strncpy_def

lemmas kinds = fits_def add_arg_def is_load_def is_save_def is_outfile_def known_def is_help_def verbosity_def

lemma not_kinds:
  "\<not> is_load arg \<Longrightarrow> parse_load arg op = Inr (op, False)"
  "\<not> is_save arg \<Longrightarrow> parse_save arg op = Inr (op, False)"
  "\<not> is_outfile arg \<Longrightarrow> parse_outfile arg op = Inr (op, False)"
  "\<not> is_flag arg \<Longrightarrow> parse_flags arg op = (op, False)"
  "\<not> is_v arg \<Longrightarrow> parse_verbose arg op = (op, False)"
  using v_length [of arg]
  by (simp_all add: is_load_def parse_load_def is_save_def parse_save_def is_outfile_def parse_outfile_def
      is_flag_def parse_flags_def parse_verbose_def)

lemma parse_arg_Parsed: "parse_arg arg op = Parsed op' \<longleftrightarrow> fits arg op \<and> op' = add_arg arg op"
proof -
  consider (load_arg) "is_load arg" | (save_arg) "is_save arg"
    | (out_arg) "is_outfile arg" | (flag_arg) "is_flag arg" | (help_arg) "is_help arg" | (v_arg) "is_v arg"
    | (request) q where "\<not> is_load arg" "\<not> is_save arg" "\<not> is_outfile arg" "\<not> is_flag arg" "\<not> is_v arg"
        "\<not> is_help arg" "switch_of arg = Some q"
    | (unknown) "\<not> known arg" "\<not> is_help arg"
    unfolding known_def by blast
  then show ?thesis
  proof cases
    case load_arg
    then obtain xs where "arg = ''--load='' @ xs" by (auto simp: is_load_def prefix_def)
    then show ?thesis by (auto simp: parse switch_of_file kinds not_v)
  next
    case save_arg
    then obtain xs where "arg = ''--save='' @ xs" by (auto simp: is_save_def prefix_def)
    then show ?thesis by (auto simp: parse switch_of_file kinds not_v)
  next
    case out_arg
    then obtain xs where "arg = ''--outfile='' @ xs" by (auto simp: is_outfile_def prefix_def)
    then show ?thesis by (auto simp: parse switch_of_file kinds not_v)
  next
    case flag_arg
    then have "arg = ''--report'' \<or> arg = ''--all'' \<or> arg = ''--clock'' \<or> arg = ''--clock-rdtsc'' \<or> arg = ''--quiet'' \<or>
        arg = ''--verbose'' \<or> arg = ''--version'' \<or> arg = ''--cpulist'' \<or> arg = ''--sgx'' \<or> arg = ''--hypervisor''"
      by (simp only: is_flag_def list.set insert_iff empty_iff simp_thms)
    then show ?thesis
      by (cases op) (elim disjE; simp add: parse kinds is_flag_def not_v switch_of_flag eq_commute [of op'])
  next
    case help_arg
    then show ?thesis by (auto simp: parse kinds)
  next
    case v_arg
    moreover from this obtain xs where "arg = ''-v'' @ xs" using not_v(1) by (auto simp: prefix_def)
    ultimately show ?thesis using v_length [of arg] by (auto simp: parse switch_of_file kinds)
  next
    case request
    then have "verbosity arg = 0" "arg \<noteq> ''--quiet''" "arg \<noteq> ''--report''" "arg \<noteq> ''--all''" "arg \<noteq> ''--clock''"
      "arg \<noteq> ''--clock-rdtsc''" "arg \<noteq> ''--version''" "arg \<noteq> ''--cpulist''" "arg \<noteq> ''--sgx''" "arg \<noteq> ''--hypervisor''"
      by (simp_all add: verbosity_def is_flag_def)
    with request show ?thesis
      by (cases op) (simp add: parse_arg_def not_kinds is_help_def [symmetric] parse_request_def fits_def known_def
          add_arg_def eq_commute [of op'])
  next
    case unknown
    then show ?thesis
      by (simp add: parse_arg_def not_kinds is_help_def [symmetric] parse_request_def fits_def known_def)
  qed
qed

lemma parse_loop_append:
  "parse_loop (xs @ ys) op = (case parse_loop xs op of Parsed op' \<Rightarrow> parse_loop ys op' | r \<Rightarrow> r)"
  by (induction xs arbitrary: op) (auto split: parse_result.split)

text \<open>A command line, described without its order of processing.\<close>

definition is_file :: "string \<Rightarrow> bool" where "is_file arg \<longleftrightarrow> is_load arg \<or> is_save arg"
definition is_request :: "string \<Rightarrow> bool" where "is_request arg \<longleftrightarrow> switch_of arg \<noteq> None"

definition acceptable :: "string list \<Rightarrow> bool" where
  "acceptable args \<longleftrightarrow>
     (\<forall>arg \<in> set args. known arg \<and> \<not> is_help arg \<and> (is_file arg \<longrightarrow> 7 < length arg) \<and> (is_outfile arg \<longrightarrow> 10 < length arg)) \<and>
     length (filter is_file args) \<le> 1 \<and> length (filter is_request args) \<le> 64"

definition last_value :: "(string \<Rightarrow> bool) \<Rightarrow> nat \<Rightarrow> string list \<Rightarrow> string" where
  "last_value P n args = (case filter P args of [] \<Rightarrow> [] | xs \<Rightarrow> take 256 (drop n (last xs)))"

definition opts_of :: "string list \<Rightarrow> tool_opts" where
  "opts_of args = \<lparr>
     raw_data_file = last_value is_file 7 args, out_file = last_value is_outfile 10 args,
     need_input = list_ex is_load args, need_output = list_ex is_save args,
     need_quiet = (''--quiet'' \<in> set args),
     need_report = (''--report'' \<in> set args \<or> ''--all'' \<in> set args),
     need_clockreport = (''--clock'' \<in> set args \<or> ''--clock-rdtsc'' \<in> set args),
     need_timed_clockreport = (''--clock-rdtsc'' \<in> set args),
     verbose_level = sum_list (map verbosity args),
     need_version = (''--version'' \<in> set args), need_cpulist = (''--cpulist'' \<in> set args),
     need_sgx = (''--sgx'' \<in> set args), need_hypervisor = (''--hypervisor'' \<in> set args),
     need_identify = (''--sgx'' \<in> set args \<or> ''--hypervisor'' \<in> set args),
     requests = List.map_filter switch_of args\<rparr>"

lemma last_value_snoc: "last_value P n (args @ [arg]) = (if P arg then take 256 (drop n arg) else last_value P n args)"
  by (cases "filter P args") (auto simp: last_value_def)

lemma opts_of_snoc: "opts_of (args @ [arg]) = add_arg arg (opts_of args)"
  by (auto simp: opts_of_def add_arg_def last_value_snoc is_file_def map_filter_def split: option.split)

lemma length_requests: "length (List.map_filter switch_of args) = length (filter is_request args)"
  by (simp add: map_filter_def is_request_def [abs_def] comp_def del: not_None_eq)

lemma acceptable_snoc: "acceptable (args @ [arg]) \<longleftrightarrow> acceptable args \<and> fits arg (opts_of args)"
proof -
  have "\<not> need_input (opts_of args) \<and> \<not> need_output (opts_of args) \<longleftrightarrow> filter is_file args = []"
    by (auto simp: opts_of_def is_file_def list_ex_iff filter_empty_conv)
  moreover have "length (requests (opts_of args)) = length (filter is_request args)"
    by (simp add: opts_of_def length_requests)
  ultimately show ?thesis
    by (auto simp: acceptable_def fits_def is_file_def is_request_def)
qed

lemma parse_loop_snoc:
  "parse_loop (args @ [arg]) op = Parsed op' \<longleftrightarrow>
     (\<exists>op1. parse_loop args op = Parsed op1 \<and> parse_arg arg op1 = Parsed op')"
  by (auto simp: parse_loop_append split: parse_result.split)

lemma parse_loop_Parsed: "parse_loop args no_opts = Parsed op \<longleftrightarrow> acceptable args \<and> op = opts_of args"
proof (induction args arbitrary: op rule: rev_induct)
  case Nil
  then show ?case by (auto simp: acceptable_def opts_of_def no_opts_def last_value_def map_filter_simps)
next
  case (snoc arg args)
  then show ?case by (simp add: parse_loop_snoc parse_arg_Parsed acceptable_snoc opts_of_snoc)
qed

text \<open>Started without arguments, cpuid_tool behaves as its usage message says: exactly as with the options
  --save=raw.txt --outfile=report.txt --report --verbose.\<close>

theorem parse_cmdline_default:
  "parse_cmdline [prog] =
   parse_cmdline [prog, ''--save=raw.txt'', ''--outfile=report.txt'', ''--report'', ''--verbose'']"
  by (simp add: parse_cmdline_def parse_arg_def parse_load_def parse_save_def parse_outfile_def parse_flags_def
      parse_verbose_def parse_request_def switch_of_def matchtable_def c_strncpy_def no_opts_def)

text \<open>C12: parse_cmdline accepts a non-empty command line exactly when every argument is known and is not a help switch,
  at most one of --load and --save occurs, with a file name, --outfile has a file name, and there are at most 64
  queries. The options are then those of the command line, whatever the order of the arguments, with the last
  --outfile, the queries in the order in which they were given, and the sum of the verbose flags.\<close>

theorem parse_cmdline_spec:
  "parse_cmdline (prog # arg # args) = Parsed op \<longleftrightarrow> acceptable (arg # args) \<and> op = opts_of (arg # args)"
  by (simp add: parse_cmdline_def parse_loop_Parsed del: parse_loop.simps)

end
