(* ===== verification/Tool_Report.thy ===== *)
theory Tool_Report
  imports Tool_Options Msr_Errors Raw_Dump_Properties Code_Tables
begin

text \<open>
  What \<^verbatim>\<open>cpuid_tool\<close> prints: the queries (\<^verbatim>\<open>print_info\<close>), the report of a type of processor, the list of known
  processors, SGX and hypervisor.

  The output is a log of texts with their streams, one entry for each line or group of lines that is written
  together. \<open>Fout\<close> is the file \<^verbatim>\<open>fout\<close>, which is the standard output unless the user names another. The state of
  the library is that of \<^verbatim>\<open>Msr\<close>: the thread, the clock and all static variables.
\<close>

section \<open>Running and printing\<close>

datatype stream = Fout | Stdout | Stderr | Dump string

record 'm tool_env =
  te_msr :: "'m msr_env"
  te_alloc :: "nat \<Rightarrow> bool"
  te_cpuinfo :: "string option"
  te_read :: "string \<Rightarrow> string option"
  te_write :: "string \<Rightarrow> bool"
  te_version :: string
  te_list :: cpu_list_t

record 'm tool_state =
  lib :: "'m msr_state"
  written :: "(stream \<times> string) list"
  stdout_closed :: bool

definition run :: "'a outcome option \<Rightarrow> ('a \<Rightarrow> 'b outcome option) \<Rightarrow> 'b outcome option" where
  "run x f = (case x of None \<Rightarrow> None | Some Undefined \<Rightarrow> Some Undefined | Some (Returns a) \<Rightarrow> f a)"

definition returns :: "'a \<Rightarrow> 'a outcome option" where
  "returns a = Some (Returns a)"

definition defined :: "'a option \<Rightarrow> 'a outcome option" where
  "defined x = Some (case x of None \<Rightarrow> Undefined | Some a \<Rightarrow> Returns a)"

lemma run_simps [simp]:
  "run (returns a) f = f a" "run None f = None" "run (Some Undefined) f = Some Undefined"
  "run (Some (Returns a)) f = f a" "defined (Some a) = returns a" "defined None = Some Undefined"
  by (simp_all add: run_def returns_def defined_def)

text \<open>Writing to a standard output that was closed is undefined.\<close>

definition fout_is_stdout :: "tool_opts \<Rightarrow> bool" where
  "fout_is_stdout op \<longleftrightarrow> out_file op = [] \<or> out_file op = ''-''"

definition emit :: "tool_opts \<Rightarrow> stream \<Rightarrow> string \<Rightarrow> 'm tool_state \<Rightarrow> 'm tool_state outcome option" where
  "emit op st text s =
     (if stdout_closed s \<and> (st = Stdout \<or> st = Fout \<and> fout_is_stdout op) then Some Undefined
      else returns (s\<lparr>written := written s @ [(st, text)]\<rparr>))"

definition line :: "string \<Rightarrow> string" where "line l = l @ [NL]"

definition lib_error :: "'m tool_state \<Rightarrow> string" where
  "lib_error s = cpuid_error (th_errno (ms_thread (lib s)))"

section \<open>Conversions\<close>

text \<open>\<^verbatim>\<open>%02X\<close>, and \<^verbatim>\<open>%.2lf\<close> of an integer that is divided by \<^verbatim>\<open>100.0\<close>.\<close>

definition hex_upper :: "char \<Rightarrow> char" where
  "hex_upper c = (case c of CHR ''a'' \<Rightarrow> CHR ''A'' | CHR ''b'' \<Rightarrow> CHR ''B'' | CHR ''c'' \<Rightarrow> CHR ''C''
     | CHR ''d'' \<Rightarrow> CHR ''D'' | CHR ''e'' \<Rightarrow> CHR ''E'' | CHR ''f'' \<Rightarrow> CHR ''F'' | _ \<Rightarrow> c)"

definition print_02X :: "int \<Rightarrow> string" where
  "print_02X i =
     (let ds = map hex_upper (hex_digits (unat (word_of_int i :: u32)))
      in replicate (2 - length ds) (CHR ''0'') @ ds)"

definition print_2lf :: "rat \<Rightarrow> string" where
  "print_2lf x =
     (let i = nat \<bar>round_even (x * 100)\<bar>
      in (if x < 0 then ''-'' else []) @ dec_digits (i div 100) @ ''.'' @ fixed_digits 10 2 (i mod 100))"

definition print_centi :: "int \<Rightarrow> string" where
  "print_centi v = print_2lf (rnd (of_int v / 100))"

definition vendor_code :: "cpu_vendor_t \<Rightarrow> int" where
  "vendor_code v = (case v of
     VENDOR_INTEL \<Rightarrow> 0 | VENDOR_AMD \<Rightarrow> 1 | VENDOR_CYRIX \<Rightarrow> 2 | VENDOR_NEXGEN \<Rightarrow> 3 | VENDOR_TRANSMETA \<Rightarrow> 4
   | VENDOR_UMC \<Rightarrow> 5 | VENDOR_CENTAUR \<Rightarrow> 6 | VENDOR_RISE \<Rightarrow> 7 | VENDOR_SIS \<Rightarrow> 8 | VENDOR_NSC \<Rightarrow> 9 | VENDOR_HYGON \<Rightarrow> 10
   | VENDOR_ARM \<Rightarrow> 11 | VENDOR_BROADCOM \<Rightarrow> 12 | VENDOR_CAVIUM \<Rightarrow> 13 | VENDOR_DEC \<Rightarrow> 14 | VENDOR_FUJITSU \<Rightarrow> 15
   | VENDOR_HISILICON \<Rightarrow> 16 | VENDOR_INFINEON \<Rightarrow> 17 | VENDOR_FREESCALE \<Rightarrow> 18 | VENDOR_NVIDIA \<Rightarrow> 19 | VENDOR_APM \<Rightarrow> 20
   | VENDOR_QUALCOMM \<Rightarrow> 21 | VENDOR_SAMSUNG \<Rightarrow> 22 | VENDOR_MARVELL \<Rightarrow> 23 | VENDOR_APPLE \<Rightarrow> 24 | VENDOR_FARADAY \<Rightarrow> 25
   | VENDOR_MICROSOFT \<Rightarrow> 26 | VENDOR_PHYTIUM \<Rightarrow> 27 | VENDOR_AMPERE \<Rightarrow> 28 | VENDOR_UNKNOWN \<Rightarrow> - 1)"

section \<open>Queries\<close>

definition features_text :: "cpu_id_t \<Rightarrow> string" where
  "features_text d =
     concat (map (\<lambda>i. if flags d i then '' '' @ cpu_feature_str i else []) [0..<NUM_CPU_FEATURES]) @ [NL]"

definition sse_text :: "cpu_id_t \<Rightarrow> string" where
  "sse_text d = (if detection_hints d CPU_HINT_SSE_SIZE_AUTH then ''authoritative'' else ''non-authoritative'')"

text \<open>The queries that print fields of the identified processor; \<^const>\<open>None\<close> when \<^verbatim>\<open>affinity_mask_str\<close> is undefined.\<close>

fun data_text :: "output_data_switch \<Rightarrow> cpu_id_t \<Rightarrow> string option" where
  "data_text NEED_ARCHITECTURE d = Some (cpu_architecture_str (architecture d) @ [NL])"
| "data_text NEED_FEATURE_LEVEL d = Some (cpu_feature_level_str (feature_level d) @ [NL])"
| "data_text NEED_PURPOSE d = Some (cpu_purpose_str (purpose d) @ [NL])"
| "data_text NEED_VENDOR_STR d = Some (vendor_str d @ [NL])"
| "data_text NEED_VENDOR_ID d = Some (print_int (vendor_code (vendor d)) @ [NL])"
| "data_text NEED_BRAND_STRING d = Some (brand_str d @ [NL])"
| "data_text NEED_FAMILY d = Some (print_int (family (x86 d)) @ [NL])"
| "data_text NEED_MODEL d = Some (print_int (model (x86 d)) @ [NL])"
| "data_text NEED_STEPPING d = Some (print_int (stepping (x86 d)) @ [NL])"
| "data_text NEED_EXT_FAMILY d = Some (print_int (ext_family (x86 d)) @ [NL])"
| "data_text NEED_EXT_MODEL d = Some (print_int (ext_model (x86 d)) @ [NL])"
| "data_text NEED_IMPLEMENTER d = Some (print_int (uint (implementer (arm d))) @ [NL])"
| "data_text NEED_VARIANT d = Some (print_int (uint (variant (arm d))) @ [NL])"
| "data_text NEED_PART_NUM d = Some (print_int (uint (part_num (arm d))) @ [NL])"
| "data_text NEED_REVISION d = Some (print_int (uint (revision (arm d))) @ [NL])"
| "data_text NEED_NUM_CORES d = Some (print_int (num_cores d) @ [NL])"
| "data_text NEED_NUM_LOGICAL d = Some (print_int (num_logical_cpus d) @ [NL])"
| "data_text NEED_L1D_SIZE d = Some (print_int (l1_data_cache d) @ [NL])"
| "data_text NEED_L1I_SIZE d = Some (print_int (l1_instruction_cache d) @ [NL])"
| "data_text NEED_L2_SIZE d = Some (print_int (l2_cache d) @ [NL])"
| "data_text NEED_L3_SIZE d = Some (print_int (l3_cache d) @ [NL])"
| "data_text NEED_L4_SIZE d = Some (print_int (l4_cache d) @ [NL])"
| "data_text NEED_L1D_ASSOC d = Some (print_int (l1_data_assoc d) @ [NL])"
| "data_text NEED_L1I_ASSOC d = Some (print_int (l1_instruction_assoc d) @ [NL])"
| "data_text NEED_L2_ASSOC d = Some (print_int (l2_assoc d) @ [NL])"
| "data_text NEED_L3_ASSOC d = Some (print_int (l3_assoc d) @ [NL])"
| "data_text NEED_L4_ASSOC d = Some (print_int (l4_assoc d) @ [NL])"
| "data_text NEED_L1D_CACHELINE d = Some (print_int (l1_data_cacheline d) @ [NL])"
| "data_text NEED_L1I_CACHELINE d = Some (print_int (l1_instruction_cacheline d) @ [NL])"
| "data_text NEED_L2_CACHELINE d = Some (print_int (l2_cacheline d) @ [NL])"
| "data_text NEED_L3_CACHELINE d = Some (print_int (l3_cacheline d) @ [NL])"
| "data_text NEED_L4_CACHELINE d = Some (print_int (l4_cacheline d) @ [NL])"
| "data_text NEED_L1D_INSTANCES d = Some (print_int (l1_data_instances d) @ [NL])"
| "data_text NEED_L1I_INSTANCES d = Some (print_int (l1_instruction_instances d) @ [NL])"
| "data_text NEED_L2_INSTANCES d = Some (print_int (l2_instances d) @ [NL])"
| "data_text NEED_L3_INSTANCES d = Some (print_int (l3_instances d) @ [NL])"
| "data_text NEED_L4_INSTANCES d = Some (print_int (l4_instances d) @ [NL])"
| "data_text NEED_CODENAME d = Some (cpu_codename d @ [NL])"
| "data_text NEED_TECHNOLOGY d = Some (technology_node d @ [NL])"
| "data_text NEED_AFFI_MASK d = map_option (\<lambda>m. ''0x'' @ m @ [NL]) (affinity_mask_str (affinity_mask d))"
| "data_text NEED_FEATURES d = Some (features_text d)"
| "data_text NEED_SSE_UNIT_SIZE d = Some (print_int (sse_size (x86 d)) @ '' ('' @ sse_text d @ '')'' @ [NL])"
| "data_text _ d = Some []"

definition int_line :: "int \<Rightarrow> string" where "int_line i = print_int i @ [NL]"

text \<open>A clock in megahertz, which advances the clock of the library.\<close>

definition print_clock ::
    "tool_opts \<Rightarrow> stream \<Rightarrow> (int \<Rightarrow> string) \<Rightarrow> (int \<times> nat) outcome option \<Rightarrow> 'm tool_state \<Rightarrow> 'm tool_state outcome option" where
  "print_clock op st text clk s = run clk (\<lambda>(v, n). emit op st (text v) (s\<lparr>lib := (lib s)\<lparr>ms_clock := n\<rparr>\<rparr>))"

text \<open>The lines of \<^verbatim>\<open>--rdmsr\<close>, each for a value that is not \<^verbatim>\<open>CPU_INVALID_VALUE\<close>.\<close>

definition rdmsr_rows :: "(cpu_msrinfo_request_t \<times> (int \<Rightarrow> string)) list" where
  "rdmsr_rows =
    [(INFO_MPERF, \<lambda>v. ''  MSR.mperf  : '' @ print_int v @ '' MHz''),
     (INFO_APERF, \<lambda>v. ''  MSR.aperf  : '' @ print_int v @ '' MHz''),
     (INFO_MIN_MULTIPLIER, \<lambda>v. ''  min. multi.: '' @ print_centi v),
     (INFO_CUR_MULTIPLIER, \<lambda>v. ''  cur. multi.: '' @ print_centi v),
     (INFO_MAX_MULTIPLIER, \<lambda>v. ''  max. multi.: '' @ print_centi v),
     (INFO_TEMPERATURE, \<lambda>v. ''  temperature: '' @ print_int v @ '' degrees Celsius''),
     (INFO_THROTTLING, \<lambda>v. ''  throttling : '' @ (if v \<noteq> 0 then ''yes'' else ''no'')),
     (INFO_VOLTAGE, \<lambda>v. ''  core volt. : '' @ print_centi v @ '' Volts''),
     (INFO_BUS_CLOCK, \<lambda>v. ''  bus clock  : '' @ print_centi v @ '' MHz'')]"

fun print_rdmsr ::
    "'m tool_env \<Rightarrow> tool_opts \<Rightarrow> int option \<Rightarrow> (cpu_msrinfo_request_t \<times> (int \<Rightarrow> string)) list \<Rightarrow>
      'm tool_state \<Rightarrow> 'm tool_state outcome option" where
  "print_rdmsr env op handle [] s = returns s"
| "print_rdmsr env op handle ((which, text) # rows) s =
     run (cpu_msrinfo (te_msr env) handle which (lib s)) (\<lambda>(v, l).
     run (if v \<noteq> CPU_INVALID_VALUE then emit op Fout (line (text v)) (s\<lparr>lib := l\<rparr>) else returns (s\<lparr>lib := l\<rparr>)) (\<lambda>s.
     print_rdmsr env op handle rows s))"

definition with_driver ::
    "'m tool_env \<Rightarrow> tool_opts \<Rightarrow> (int option \<Rightarrow> 'm tool_state \<Rightarrow> 'm tool_state outcome option) \<Rightarrow>
      'm tool_state \<Rightarrow> 'm tool_state outcome option" where
  "with_driver env op body s =
     run (defined (cpu_msr_driver_open (te_msr env) (lib s))) (\<lambda>(handle, l).
       if handle = None
       then emit op Fout (line (''Cannot open MSR driver: '' @ lib_error (s\<lparr>lib := l\<rparr>))) (s\<lparr>lib := l\<rparr>)
       else body handle (s\<lparr>lib := l\<rparr>))"

text \<open>\<^verbatim>\<open>msr_serialize_raw_data\<close> writes to the standard output and closes it for vendors without registers.\<close>

definition print_rdmsr_raw ::
    "'m tool_env \<Rightarrow> tool_opts \<Rightarrow> int option \<Rightarrow> 'm tool_state \<Rightarrow> 'm tool_state outcome option" where
  "print_rdmsr_raw env op handle s =
     run (msr_serialize_raw_data (te_msr env) handle True (lib s)) (\<lambda>(r, ls, l).
     run (if ls = [] then returns (s\<lparr>lib := l\<rparr>) else emit op Stdout (unlines ls) (s\<lparr>lib := l\<rparr>)) (\<lambda>s.
     returns (s\<lparr>stdout_closed := (stdout_closed s \<or> r \<noteq> ERR_OK \<or>
       (\<exists>cid. st_cached l = Some cid \<and> vendor cid = VENDOR_UNKNOWN))\<rparr>)))"

definition print_info ::
    "'m tool_env \<Rightarrow> tool_opts \<Rightarrow> output_data_switch \<Rightarrow> cpu_id_t option \<Rightarrow> 'm tool_state \<Rightarrow> 'm tool_state outcome option" where
  "print_info env op query data s =
     (let env' = te_msr env; t = env_timer env'; n = ms_clock (lib s) in
      if data = None \<and> check_need_raw_data op then
        emit op Stderr (line ''print_info: raw data is required but not provided.'') s
      else
        (case query of
           NEED_CPUID_PRESENT \<Rightarrow> emit op Fout (int_line (if os_cpuid_present (env_os env') then 1 else 0)) s
         | NEED_TOTAL_CPUS \<Rightarrow> emit op Fout (int_line (os_total_cpus (env_os env'))) s
         | NEED_CLOCK \<Rightarrow> print_clock op Fout int_line (cpu_clock (te_cpuinfo env) t n) s
         | NEED_CLOCK_OS \<Rightarrow> emit op Fout (int_line (cpu_clock_by_os (te_cpuinfo env))) s
         | NEED_CLOCK_RDTSC \<Rightarrow> print_clock op Fout int_line (cpu_clock_measure t 400 True n) s
         | NEED_CLOCK_IC \<Rightarrow>
             run (defined (get_cached_cpuid (env_os env') (st_cached (lib s)) (ms_thread (lib s)))) (\<lambda>(cid, cached, th).
               print_clock op Fout int_line (cpu_clock_by_ic cid t 25 16 n)
                 (s\<lparr>lib := (lib s)\<lparr>st_cached := cached, ms_thread := th\<rparr>\<rparr>))
         | NEED_RDMSR \<Rightarrow> with_driver env op (\<lambda>handle. print_rdmsr env op handle rdmsr_rows) s
         | NEED_RDMSR_RAW \<Rightarrow> with_driver env op (print_rdmsr_raw env op) s
         | _ \<Rightarrow>
             (case data of
                None \<Rightarrow> Some Undefined
              | Some d \<Rightarrow> run (defined (data_text query d)) (\<lambda>text. emit op Fout text s))))"

fun print_infos ::
    "'m tool_env \<Rightarrow> tool_opts \<Rightarrow> output_data_switch list \<Rightarrow> cpu_id_t option \<Rightarrow> 'm tool_state \<Rightarrow> 'm tool_state outcome option" where
  "print_infos env op [] data s = returns s"
| "print_infos env op (q # qs) data s =
     run (print_info env op q data s) (\<lambda>s. print_infos env op qs data s)"

end
