(* ===== verification/Tool_Main.thy ===== *)
theory Tool_Main
  imports Tool_Report System_Identify
begin

text \<open>
  The report of \<^verbatim>\<open>cpuid_tool\<close>, its lists, and its function \<^verbatim>\<open>main\<close> as a whole: from the command line and the state of
  the machine to the exit code and everything that is written.
\<close>

section \<open>The report\<close>

definition dec_hex :: "int \<Rightarrow> string" where
  "dec_hex i = print_int i @ '' ('' @ print_02X i @ ''h)''"

definition report_signature :: "cpu_id_t \<Rightarrow> string list" where
  "report_signature d =
     (case architecture d of
        ARCHITECTURE_X86 \<Rightarrow>
          [''  family     : '' @ dec_hex (family (x86 d)), ''  model      : '' @ dec_hex (model (x86 d)),
           ''  stepping   : '' @ dec_hex (stepping (x86 d)), ''  ext_family : '' @ dec_hex (ext_family (x86 d)),
           ''  ext_model  : '' @ dec_hex (ext_model (x86 d))]
      | ARCHITECTURE_ARM \<Rightarrow>
          [''  implementer: '' @ dec_hex (uint (implementer (arm d))), ''  variant    : '' @ dec_hex (uint (variant (arm d))),
           ''  part_num   : '' @ dec_hex (uint (part_num (arm d))), ''  revision   : '' @ dec_hex (uint (revision (arm d)))]
      | ARCHITECTURE_UNKNOWN \<Rightarrow> [])"

definition report_caches :: "cpu_id_t \<Rightarrow> string list" where
  "report_caches d =
     (if architecture d \<noteq> ARCHITECTURE_X86 then []
      else
        [''  L1 D cache : '' @ print_int (l1_data_cache d) @ '' KB'',
         ''  L1 I cache : '' @ print_int (l1_instruction_cache d) @ '' KB'',
         ''  L2 cache   : '' @ print_int (l2_cache d) @ '' KB'',
         ''  L3 cache   : '' @ print_int (l3_cache d) @ '' KB'',
         ''  L4 cache   : '' @ print_int (l4_cache d) @ '' KB'',
         ''  L1D assoc. : '' @ print_int (l1_data_assoc d) @ ''-way'',
         ''  L1I assoc. : '' @ print_int (l1_instruction_assoc d) @ ''-way'',
         ''  L2 assoc.  : '' @ print_int (l2_assoc d) @ ''-way'',
         ''  L3 assoc.  : '' @ print_int (l3_assoc d) @ ''-way'',
         ''  L4 assoc.  : '' @ print_int (l4_assoc d) @ ''-way'',
         ''  L1D line sz: '' @ print_int (l1_data_cacheline d) @ '' bytes'',
         ''  L1I line sz: '' @ print_int (l1_instruction_cacheline d) @ '' bytes'',
         ''  L2 line sz : '' @ print_int (l2_cacheline d) @ '' bytes'',
         ''  L3 line sz : '' @ print_int (l3_cacheline d) @ '' bytes'',
         ''  L4 line sz : '' @ print_int (l4_cacheline d) @ '' bytes'',
         ''  L1D inst.  : '' @ print_int (l1_data_instances d),
         ''  L1I inst.  : '' @ print_int (l1_instruction_instances d),
         ''  L2 inst.   : '' @ print_int (l2_instances d),
         ''  L3 inst.   : '' @ print_int (l3_instances d),
         ''  L4 inst.   : '' @ print_int (l4_instances d),
         ''  SSE units  : '' @ print_int (sse_size (x86 d)) @ '' bits ('' @ sse_text d @ '')''])"

definition report_type :: "nat \<Rightarrow> cpu_id_t \<Rightarrow> string option" where
  "report_type k d = map_option (\<lambda>mask.
     concat (map line (
       [''CPU Info for type #'' @ print_int (int k) @ '':'', ''------------------'',
        ''  arch       : '' @ cpu_architecture_str (architecture d),
        ''  feat_level : '' @ cpu_feature_level_str (feature_level d),
        ''  purpose    : '' @ cpu_purpose_str (purpose d),
        ''  vendor_str : `'' @ vendor_str d @ [CHR 0x27],
        ''  vendor id  : '' @ print_int (vendor_code (vendor d)),
        ''  brand_str  : `'' @ brand_str d @ [CHR 0x27]] @
       report_signature d @
       [''  num_cores  : '' @ print_int (num_cores d),
        ''  num_logical: '' @ print_int (num_logical_cpus d),
        ''  tot_logical: '' @ print_int (total_logical_cpus d),
        ''  affi_mask  : 0x'' @ mask] @
       report_caches d @
       [''  code name  : `'' @ cpu_codename d @ [CHR 0x27],
        ''  technology : `'' @ technology_node d @ [CHR 0x27]])) @
     ''  features   :'' @ features_text d)
     (affinity_mask_str (affinity_mask d))"

fun report_types :: "tool_opts \<Rightarrow> nat \<Rightarrow> cpu_id_t list \<Rightarrow> 'm tool_state \<Rightarrow> 'm tool_state outcome option" where
  "report_types op k [] s = returns s"
| "report_types op k (d # ds) s =
     run (defined (report_type k d)) (\<lambda>text. run (emit op Fout text s) (report_types op (Suc k) ds))"

section \<open>Lists\<close>

definition cpu_vendors :: "(string \<times> cpu_vendor_t) list" where
  "cpu_vendors =
     [(''Intel'', VENDOR_INTEL),
      (''AMD/Hygon'', VENDOR_AMD),
      (''Cyrix'', VENDOR_CYRIX),
      (''NexGen'', VENDOR_NEXGEN),
      (''Transmeta'', VENDOR_TRANSMETA),
      (''UMC'', VENDOR_UMC),
      (''Centaur/VIA'', VENDOR_CENTAUR),
      (''Rise'', VENDOR_RISE),
      (''SiS'', VENDOR_SIS),
      (''NSC'', VENDOR_NSC),
      (''ARM'', VENDOR_ARM),
      (''Broadcom'', VENDOR_BROADCOM),
      (''Cavium'', VENDOR_CAVIUM),
      (''DEC'', VENDOR_DEC),
      (''FUJITSU'', VENDOR_FUJITSU),
      (''HiSilicon'', VENDOR_HISILICON),
      (''Infineon'', VENDOR_INFINEON),
      (''Motorola/Freescale'', VENDOR_FREESCALE),
      (''NVIDIA'', VENDOR_NVIDIA),
      (''APM'', VENDOR_APM),
      (''Qualcomm'', VENDOR_QUALCOMM),
      (''Samsung'', VENDOR_SAMSUNG),
      (''Marvell'', VENDOR_MARVELL),
      (''Apple'', VENDOR_APPLE),
      (''Faraday'', VENDOR_FARADAY),
      (''Microsoft'', VENDOR_MICROSOFT),
      (''Phytium'', VENDOR_PHYTIUM),
      (''Ampere'', VENDOR_AMPERE)]"

text \<open>\<open>l\<close> is the variable \<^verbatim>\<open>list\<close>, which every iteration passes on.\<close>

fun print_cpulist ::
    "'m tool_env \<Rightarrow> tool_opts \<Rightarrow> (string \<times> cpu_vendor_t) list \<Rightarrow> cpu_list_t \<Rightarrow> 'm tool_state \<Rightarrow> 'm tool_state outcome option" where
  "print_cpulist env op [] l s = returns s"
| "print_cpulist env op ((name, v) # vs) l s =
     run (emit op Fout (line (''-----'' @ name @ ''-----'')) s) (\<lambda>s.
     run (defined (cpuid_get_cpu_list (te_alloc env) (te_alloc env) v l (th_errno (ms_thread (lib s))))) (\<lambda>(l, errno).
     let s = s\<lparr>lib := (lib s)\<lparr>ms_thread := (ms_thread (lib s))\<lparr>th_errno := errno\<rparr>\<rparr>\<rparr> in
     run (if num_entries l \<le> 0 then returns s
          else case names l of
              None \<Rightarrow> Some Undefined
            | Some xs \<Rightarrow> if int (length xs) < num_entries l then Some Undefined
                else emit op Fout (unlines (take (nat (num_entries l)) xs)) s) (\<lambda>s.
     print_cpulist env op vs (cpuid_free_cpu_list l) s)))"

definition present :: "bool \<Rightarrow> string" where
  "present b = (if b then ''1 (present)'' else ''0 (absent)'')"

text \<open>\<^verbatim>\<open>%-8d\<close>\<close>

definition pad8 :: "string \<Rightarrow> string" where "pad8 t = t @ replicate (8 - length t) (CHR '' '')"

fun epc_lines :: "(cpu_regs_t \<Rightarrow> cpu_regs_t) \<Rightarrow> cpu_raw_data_t \<Rightarrow> nat list \<Rightarrow> string list option" where
  "epc_lines exec raw [] = Some []"
| "epc_lines exec raw (i # is) = do {
     epc \<leftarrow> cpuid_get_epc exec (int i) (Some raw);
     ls \<leftarrow> epc_lines exec raw is;
     Some ((''    SGX EPC section #'' @ pad8 (print_int (int i)) @ '': start = '' @ hex_digits (unat (epc_start_addr epc)) @
       '', size = '' @ print_int (uint (epc_length epc))) # ls) }"

definition sgx_text :: "(cpu_regs_t \<Rightarrow> cpu_regs_t) \<Rightarrow> cpu_raw_data_t \<Rightarrow> cpu_id_t \<Rightarrow> string option" where
  "sgx_text exec raw d =
     (let g = sgx (x86 d);
        head = ''SGX: '' @ print_int (sint (sgx_present g)) @ '' ('' @
          (if sgx_present g \<noteq> 0 then ''present'' else ''absent'') @ '')''
      in if sgx_present g = 0 then Some (line head)
         else do {
           ls \<leftarrow> epc_lines exec raw [0..<nat (num_epc_sections g)];
           Some (unlines ([head,
             ''SGX max enclave size (32-bit): 2^'' @ print_int (uint (max_enclave_32bit g)),
             ''SGX max enclave size (64-bit): 2^'' @ print_int (uint (max_enclave_64bit g)),
             ''SGX1 extensions              : '' @ present (sgx_flags g INTEL_SGX1),
             ''SGX2 extensions              : '' @ present (sgx_flags g INTEL_SGX2),
             ''SGX MISCSELECT               : '' @ hex8 (misc_select g),
             ''SGX SECS.ATTRIBUTES mask     : '' @ hex16 (secs_attributes g),
             ''SGX SECS.XSAVE feature mask  : '' @ hex16 (secs_xfrm g),
             ''SGX EPC sections count       : '' @ print_int (num_epc_sections g)] @ ls)) })"

definition hypervisors_vendors :: "(string \<times> hypervisor_vendor_t) list" where
  "hypervisors_vendors =
     [(''none'', HYPERVISOR_NONE), (''FreeBSD bhyve'', HYPERVISOR_BHYVE), (''Microsoft Hyper-V '', HYPERVISOR_HYPERV),
      (''KVM'', HYPERVISOR_KVM), (''Parallels'', HYPERVISOR_PARALLELS), (''QEMU'', HYPERVISOR_QEMU),
      (''VirtualBox'', HYPERVISOR_VIRTUALBOX), (''VMware'', HYPERVISOR_VMWARE), (''Xen'', HYPERVISOR_XEN)]"

definition hypervisor_text :: "(cpu_regs_t \<Rightarrow> cpu_regs_t) \<Rightarrow> cpu_id_t \<Rightarrow> string" where
  "hypervisor_text exec d =
     (let h = hypervisor_of (exec \<lparr>EAX = 0x40000000, EBX = 0, ECX = 0, EDX = 0\<rparr>) d
      in line (''Hypervisor vendor: '' @
           (case List.find (\<lambda>(_, h'). h' = h) hypervisors_vendors of None \<Rightarrow> ''unknown'' | Some (name, _) \<Rightarrow> name)) @
         (if h = HYPERVISOR_NONE
          then line ''Caution: no hypervisor detected from CPUID bits, but a hypervisor may be hidden.'' @
            line ''Refer to https://github.com/anrieff/libcpuid/issues/90#issuecomment-296568713''
          else []))"

section \<open>The program\<close>

text \<open>A name that fills its buffer is not terminated: reading it as a string is undefined.\<close>

definition terminated :: "string \<Rightarrow> string outcome option" where
  "terminated buf = (if length buf < RAW_DATA_FILE_MAX then returns buf else Some Undefined)"

definition set_thread :: "'m thread \<Rightarrow> 'm tool_state \<Rightarrow> 'm tool_state" where
  "set_thread th s = s\<lparr>lib := (lib s)\<lparr>ms_thread := th\<rparr>\<rparr>"

definition set_errno :: "cpu_error_t \<Rightarrow> 'm tool_state \<Rightarrow> 'm tool_state" where
  "set_errno e s = set_thread ((ms_thread (lib s))\<lparr>th_errno := e\<rparr>) s"

text \<open>A message unless the user wants none, and the exit code -1.\<close>

definition fail :: "tool_opts \<Rightarrow> string \<Rightarrow> 'm tool_state \<Rightarrow> (int \<times> 'm tool_state) outcome option" where
  "fail op msg s =
     run (if need_quiet op then returns s else emit op Stderr msg s) (\<lambda>s. returns (- 1, s))"

definition stdio_name :: "string \<Rightarrow> string" where
  "stdio_name name = (if name = ''-'' then [] else name)"

definition file_text :: "string \<Rightarrow> string \<Rightarrow> string" where
  "file_text std name = (if name = ''-'' then std else ''file `'' @ name @ [CHR 0x27])"

text \<open>
  Opening the file of the output empties it, so that a dump with the same name is empty when it is read. Whether
  two different names stand for the same file is left to \<^const>\<open>te_read\<close>, what a file holds when it is read.
\<close>

definition file_read :: "'m tool_env \<Rightarrow> tool_opts \<Rightarrow> string \<Rightarrow> string option" where
  "file_read env op name =
     (if \<not> fout_is_stdout op \<and> out_file op = name then Some [] else te_read env (stdio_name name))"

text \<open>The raw data: from a file, from the machine when it is needed, or none.\<close>

definition get_raw ::
    "'m tool_env \<Rightarrow> tool_opts \<Rightarrow> 'm tool_state \<Rightarrow>
      ((int \<times> 'm tool_state) + (cpu_raw_data_array_t \<times> 'm tool_state)) outcome option" where
  "get_raw env op s =
     (let none = \<lparr>with_affinity = False, num_raw = 0, raw_items = []\<rparr>; th = ms_thread (lib s) in
      if need_input op then
        run (terminated (raw_data_file op)) (\<lambda>name.
        run (defined (cpuid_deserialize_all_raw_data (te_alloc env) none (file_read env op name) (th_errno th))) (\<lambda>(r, a).
          let s = set_errno r s in
          if r \<noteq> ERR_OK then
            run (fail op (line (''Cannot deserialize raw data from '' @ file_text ''stdin'' name) @
              line (''Error: '' @ lib_error s)) s) (\<lambda>x. returns (Inl x))
          else returns (Inr (a, s))))
      else if check_need_raw_data op then
        run (defined (cpuid_get_all_raw_data (env_os (te_msr env)) (te_alloc env) (Some none) th)) (\<lambda>(r, a, th).
          let s = set_thread th s in
          if r \<noteq> ERR_OK then
            run (fail op (line ''Cannot obtain raw CPU data!'' @ line (''Error: '' @ lib_error s)) s) (\<lambda>x. returns (Inl x))
          else returns (Inr (case a of Some a \<Rightarrow> a | None \<Rightarrow> none, s)))
      else returns (Inr (none, s)))"

definition write_raw ::
    "'m tool_env \<Rightarrow> tool_opts \<Rightarrow> cpu_raw_data_array_t \<Rightarrow> 'm tool_state \<Rightarrow>
      ((int \<times> 'm tool_state) + 'm tool_state) outcome option" where
  "write_raw env op a s =
     (if \<not> need_output op then returns (Inr s)
      else
        run (terminated (raw_data_file op)) (\<lambda>name.
        run (defined (cpuid_serialize_all_raw_data (te_version env) (name = ''-'' \<or> te_write env name) a)) (\<lambda>(r, text).
          let s = set_errno r s in
          if r \<noteq> ERR_OK then
            run (fail op (line (''Cannot serialize raw data to '' @ file_text ''stdout'' name) @
              line (''Error: '' @ lib_error s)) s) (\<lambda>x. returns (Inl x))
          else run (emit op (if name = ''-'' then Stdout else Dump name) text s) (\<lambda>s. returns (Inr s)))))"

definition identify ::
    "'m tool_env \<Rightarrow> cpu_raw_data_array_t \<Rightarrow> system_id_t \<Rightarrow> 'm tool_state \<Rightarrow>
      (cpu_error_t \<times> system_id_t \<times> 'm tool_state) outcome option" where
  "identify env a data s =
     run (defined (cpu_identify_all (env_os (te_msr env)) (te_alloc env) (Some a) (Some data) (ms_thread (lib s)))) (\<lambda>(r, d, th).
       returns (r, case d of Some d \<Rightarrow> d | None \<Rightarrow> data, set_thread th s))"

definition types_of :: "system_id_t \<Rightarrow> cpu_id_t list outcome option" where
  "types_of data =
     (if length (cpu_types data) < unat (num_cpu_types data) then Some Undefined
      else returns (take (unat (num_cpu_types data)) (cpu_types data)))"

definition write_report ::
    "'m tool_env \<Rightarrow> tool_opts \<Rightarrow> cpu_raw_data_array_t \<Rightarrow> system_id_t \<Rightarrow> 'm tool_state \<Rightarrow>
      (system_id_t \<times> 'm tool_state) outcome option" where
  "write_report env op a data s =
     (if \<not> need_report op then returns (data, s)
      else
        let t = env_timer (te_msr env) in
        run (if verbose_level op \<ge> 1 then
               run (terminated (out_file op)) (\<lambda>name.
                 emit op Stdout (line (''Writing decoded CPU report to `'' @ name @ [CHR 0x27])) s)
             else returns s) (\<lambda>s.
        run (identify env a data s) (\<lambda>(r, data, s).
        run (if r \<noteq> ERR_OK then emit op Fout (line (''Error identifying the CPU: '' @ lib_error s)) s
             else if num_cpu_types data = 0
             then emit op Fout (line ''The cpu_types array is empty: there is nothing to report'') s
             else run (emit op Fout (line ''CPUID is present'') s) (\<lambda>s.
               run (types_of data) (\<lambda>ds. report_types op 0 ds s))) (\<lambda>s.
        run (if need_clockreport op then
               print_clock op Fout (\<lambda>v. line (''  cpu clock  : '' @ print_int v @ '' MHz''))
                 (if need_timed_clockreport op then cpu_clock_measure t 400 True (ms_clock (lib s))
                  else cpu_clock (te_cpuinfo env) t (ms_clock (lib s))) s
             else returns s) (\<lambda>s.
        returns (data, s))))))"

definition only_clock_queries :: "tool_opts \<Rightarrow> bool" where
  "only_clock_queries op \<longleftrightarrow> list_all (\<lambda>q. q = NEED_CLOCK \<or> q = NEED_CLOCK_RDTSC) (requests op)"

fun query_types ::
    "'m tool_env \<Rightarrow> tool_opts \<Rightarrow> bool \<Rightarrow> nat \<Rightarrow> cpu_id_t list \<Rightarrow> 'm tool_state \<Rightarrow> 'm tool_state outcome option" where
  "query_types env op separate k [] s = returns s"
| "query_types env op separate k (d # ds) s =
     run (if separate \<and> k > 0 then emit op Fout (line (replicate 80 (CHR ''-''))) s else returns s) (\<lambda>s.
     run (print_infos env op (requests op) (Some d) s) (\<lambda>s.
     query_types env op separate (Suc k) ds s))"

definition run_queries ::
    "'m tool_env \<Rightarrow> tool_opts \<Rightarrow> cpu_raw_data_array_t \<Rightarrow> system_id_t \<Rightarrow> 'm tool_state \<Rightarrow>
      ((int \<times> 'm tool_state) + (system_id_t \<times> 'm tool_state)) outcome option" where
  "run_queries env op a data s =
     (if \<not> ((\<not> need_report op \<or> \<not> only_clock_queries op) \<and> requests op \<noteq> [] \<or> need_identify op)
      then returns (Inr (data, s))
      else if check_need_raw_data op then
        run (identify env a data s) (\<lambda>(r, data, s).
        if r \<noteq> ERR_OK then
          run (fail op (line (''Error identifying the CPU: '' @ lib_error s)) s) (\<lambda>x. returns (Inl x))
        else
          run (types_of data) (\<lambda>ds.
          run (query_types env op (with_affinity a) 0 ds s) (\<lambda>s. returns (Inr (data, s)))))
      else run (print_infos env op (requests op) None s) (\<lambda>s. returns (Inr (data, s))))"

definition final_lists ::
    "'m tool_env \<Rightarrow> tool_opts \<Rightarrow> cpu_raw_data_array_t \<Rightarrow> system_id_t \<Rightarrow> 'm tool_state \<Rightarrow> 'm tool_state outcome option" where
  "final_lists env op a data s =
     (let exec = os_cpuid (env_os (te_msr env)) (th_affinity (ms_thread (lib s)));
        on_first = (\<lambda>wanted text s.
          if \<not> wanted then returns s
          else case (raw_items a, cpu_types data) of
              (raw # _, d # _) \<Rightarrow> run (defined (text raw d)) (\<lambda>t. emit op Fout t s)
            | _ \<Rightarrow> Some Undefined)
      in run (if need_cpulist op then print_cpulist env op cpu_vendors (te_list env) s else returns s) (\<lambda>s.
         run (on_first (need_sgx op) (sgx_text exec) s) (\<lambda>s.
         on_first (need_hypervisor op) (\<lambda>_ d. Some (hypervisor_text exec d)) s)))"

definition no_system :: system_id_t where
  "no_system = \<lparr>num_cpu_types = 0, cpu_types = [], l1_data_total_instances = 0, l1_instruction_total_instances = 0,
     l2_total_instances = 0, l3_total_instances = 0, l4_total_instances = 0\<rparr>"

definition continue_with :: "(int \<times> 's) + 'a \<Rightarrow> ('a \<Rightarrow> (int \<times> 's) outcome option) \<Rightarrow> (int \<times> 's) outcome option" where
  "continue_with x f = (case x of Inl r \<Rightarrow> returns r | Inr a \<Rightarrow> f a)"

definition open_out :: "'m tool_env \<Rightarrow> tool_opts \<Rightarrow> 'm tool_state \<Rightarrow> ((int \<times> 'm tool_state) + 'm tool_state) outcome option" where
  "open_out env op s =
     (if fout_is_stdout op then returns (Inr s)
      else run (terminated (out_file op)) (\<lambda>name.
        if te_write env name then returns (Inr s)
        else run (fail op (line (''Cannot open `'' @ name @ [CHR 0x27] @ '' for writing!'')) s) (\<lambda>x. returns (Inl x))))"

definition main_with :: "'m tool_env \<Rightarrow> tool_opts \<Rightarrow> 'm tool_state \<Rightarrow> (int \<times> 'm tool_state) outcome option" where
  "main_with env op s =
     run (open_out env op s) (\<lambda>x. continue_with x (\<lambda>s.
     run (if need_version op then emit op Fout (line (te_version env)) s else returns s) (\<lambda>s.
     run (get_raw env op s) (\<lambda>x. continue_with x (\<lambda>(a, s).
     run (write_raw env op a s) (\<lambda>x. continue_with x (\<lambda>s.
     run (write_report env op a no_system s) (\<lambda>(data, s).
     run (run_queries env op a data s) (\<lambda>x. continue_with x (\<lambda>(data, s).
     run (final_lists env op a data s) (\<lambda>s. returns (0, s))))))))))))"

section \<open>Usage\<close>

text \<open>The queries, in lines of at most 80 characters; the last one has no comma.\<close>

fun usage_queries :: "string list \<Rightarrow> nat \<Rightarrow> string" where
  "usage_queries [] fill = []"
| "usage_queries (q # qs) fill =
     (let l = length q; wrapped = fill + l > 76; fill = (if wrapped then 2 else fill)
      in (if wrapped then NL # ''  '' else []) @ q @
         (if qs = [] then [] else '', '' @ usage_queries qs (fill + l + 2)))"

definition usage_text :: string where
  "usage_text = concat (map line
     [''Usage: cpuid_tool [options]'',
      [],
      ''Options:'',
      ''  -h, --help       - Show this help'',
      ''  --load=<file>    - Load raw CPUID data from file'',
      ''  --save=<file>    - Acquire raw CPUID data and write it to file'',
      ''  --report, --all  - Report all decoded CPU info (w/o clock)'',
      ''  --clock          - in conjunction to --report: print CPU clock as well'',
      ''  --clock-rdtsc    - same as --clock, but use RDTSC for clock detection'',
      ''  --cpulist        - list all known CPUs'',
      ''  --sgx            - list SGX leaf data, if SGX is supported.'',
      ''  --hypervisor     - print hypervisor vendor if detected.'',
      ''  --quiet          - disable warnings'',
      ''  --outfile=<file> - redirect all output to this file, instead of stdout'',
      ''  --verbose, -v    - be extra verbose (more keys increase verbosiness level)'',
      ''  --version        - print library version'',
      []]) @
     ''Query switches (generate 1 line of output per switch; in order of appearance):'' @
     usage_queries (map (fst \<circ> snd) matchtable) 80 @ [NL, NL] @ concat (map line
     [''If `-'' @ [CHR 0x27] @ '' is used for <file>, then stdin/stdout will be used instead of files.'',
      ''When no options are present, the program behaves as if it was invoked with'',
      ''  cpuid_tool '' @ [CHR 0x22] @ ''--save=raw.txt --outfile=report.txt --report --verbose'' @ [CHR 0x22]])"

section \<open>The whole program\<close>

definition parse_message :: "parse_result \<Rightarrow> (stream \<times> string) list" where
  "parse_message r =
     (let hint = line ''Use -h to get a list of supported options'' in
      case r of
        Parsed op \<Rightarrow> []
      | Help \<Rightarrow> [(Stdout, usage_text)]
      | Bad msg \<Rightarrow> [(Stderr, line (''Error: '' @ msg) @ line [] @ hint)]
      | Unrecognized arg \<Rightarrow> [(Stderr, line (''Unrecognized option: `'' @ arg @ [CHR 0x27]) @ line [] @ hint)])"

definition tool_main :: "'m tool_env \<Rightarrow> string list \<Rightarrow> 'm tool_state \<Rightarrow> (int \<times> 'm tool_state) outcome option" where
  "tool_main env argv s =
     (case parse_cmdline argv of
        Parsed op \<Rightarrow> main_with env op s
      | r \<Rightarrow> returns (parse_code r, s\<lparr>written := written s @ parse_message r\<rparr>))"

end
