(* ===== verification/Tool_Facts.thy ===== *)
theory Tool_Facts
  imports Tool_Main
begin

text \<open>
  Properties of \<^verbatim>\<open>cpuid_tool\<close> as a whole: what its queries need, its exit code and its messages, dumps that are saved
  and loaded, and the command lines on which it is undefined.
\<close>

section \<open>Numbers\<close>

lemma round_even_near: "\<bar>x - of_int i\<bar> < 1 / 2 \<Longrightarrow> round_even x = i"
proof -
  assume "\<bar>x - of_int i\<bar> < 1 / 2"
  moreover have "\<bar>of_int (round_even x) - x\<bar> \<le> 1 / 2" by (rule round_even_error)
  ultimately have "\<bar>of_int (round_even x - i) :: rat\<bar> < 1" unfolding of_int_diff by linarith
  then have "\<bar>round_even x - i\<bar> < 1" by (metis of_int_abs of_int_less_1_iff)
  then show ?thesis by simp
qed

text \<open>The hundredths of \<^verbatim>\<open>%.2lf\<close> are exact: dividing by \<^verbatim>\<open>100.0\<close> loses nothing that is printed.\<close>

theorem print_centi_exact:
  assumes "\<bar>v\<bar> < 2 ^ 31"
  shows "print_centi v = (if v < 0 then ''-'' else []) @ dec_digits (nat \<bar>v\<bar> div 100) @ ''.'' @
    fixed_digits 10 2 (nat \<bar>v\<bar> mod 100)"
proof -
  have v: "\<bar>of_int v :: rat\<bar> < 2147483648" using assms by (simp flip: of_int_abs)
  have e: "\<bar>rnd (of_int v / 100) - of_int v / 100\<bar> \<le> \<bar>of_int v / 100\<bar> / 2 ^ 53" by (rule rnd_error)
  have "\<bar>of_int v / 100 :: rat\<bar> / 2 ^ 53 \<le> 1 / 1048576" using v by simp
  then have near: "\<bar>rnd (of_int v / 100) * 100 - of_int v\<bar> < 1 / 2" using e by linarith
  then have "round_even (rnd (of_int v / 100) * 100) = v" by (rule round_even_near)
  moreover have "rnd (of_int v / 100) < 0 \<longleftrightarrow> v < 0"
  proof (cases "v = 0")
    case False
    then have "1 \<le> \<bar>of_int v :: rat\<bar>" by (metis abs_ge_zero linorder_not_less of_int_1_le_iff of_int_abs zero_less_abs_iff zless_imp_add1_zle add_0)
    then have "v < 0 \<longleftrightarrow> (of_int v :: rat) \<le> - 1" "\<not> v < 0 \<longleftrightarrow> 1 \<le> (of_int v :: rat)" by (auto simp: abs_if split: if_splits)
    then show ?thesis using near by linarith
  qed simp
  ultimately show ?thesis by (simp add: print_centi_def print_2lf_def Let_def)
qed

theorem print_centi_exact_witness: "print_centi 919 = ''9.19'' \<and> print_centi (- 5) = ''-0.05''"
  using print_centi_exact [of 919] print_centi_exact [of "- 5"]
  by (simp add: dec_digits.simps digit_char_def numeral_2_eq_2)

section \<open>Queries without a processor\<close>

definition needs_no_data :: "output_data_switch \<Rightarrow> bool" where
  "needs_no_data q \<longleftrightarrow> q \<in> {NEED_CPUID_PRESENT, NEED_CLOCK, NEED_CLOCK_OS, NEED_RDMSR, NEED_RDMSR_RAW}"

lemma requests_need_no_data:
  assumes "\<not> check_need_raw_data op" and "q \<in> set (requests op)"
  shows "needs_no_data q"
proof -
  have "\<not> list_ex (\<lambda>(sw, _, ident_required). q = sw \<and> ident_required) matchtable"
    using assms by (auto simp: check_need_raw_data_def list_ex_iff)
  then show ?thesis by (cases q) (simp_all add: needs_no_data_def matchtable_def)
qed

text \<open>cpuid_tool identifies the processor whenever a query needs it: where check_need_raw_data says that nothing
  has to be identified, every query that was requested prints the same without a processor, for which print_info
  gets a null pointer, as with any processor, so that the pointer is never followed.\<close>

theorem print_info_no_data:
  assumes "\<not> check_need_raw_data op" and "q \<in> set (requests op)"
  shows "print_info env op q None s = print_info env op q (Some d) s"
  using assms(1) requests_need_no_data [OF assms]
  by (auto simp: print_info_def needs_no_data_def Let_def)

theorem print_info_no_data_witness:
  "\<forall>env s. print_info env (opts_of [''--clock-os'', ''--rdmsr'']) NEED_CLOCK_OS None s =
     print_info env (opts_of [''--clock-os'', ''--rdmsr'']) NEED_CLOCK_OS (Some cpu_id_unknown) s"
proof -
  have r: "requests (opts_of [''--clock-os'', ''--rdmsr'']) = [NEED_CLOCK_OS, NEED_RDMSR]"
  proof -
    have "switch_of ''--clock-os'' = Some NEED_CLOCK_OS" "switch_of ''--rdmsr'' = Some NEED_RDMSR"
      by (simp_all add: switch_of_def matchtable_def)
    then show ?thesis by (simp add: opts_of_def map_filter_simps)
  qed
  have "\<not> check_need_raw_data (opts_of [''--clock-os'', ''--rdmsr''])"
    unfolding check_need_raw_data_def r
    by (intro notI, elim disjE) (simp_all add: opts_of_def is_save_def matchtable_def)
  then show ?thesis by (intro allI print_info_no_data) (simp_all add: r)
qed

section \<open>What is written\<close>

text \<open>Postconditions of computations that return; one rule for each construct.\<close>

definition post :: "('a \<Rightarrow> bool) \<Rightarrow> 'a outcome option \<Rightarrow> bool" where
  "post P x \<longleftrightarrow> (\<forall>a. x = Some (Returns a) \<longrightarrow> P a)"

lemma post_returns [intro]: "P a \<Longrightarrow> post P (returns a)"
  by (simp add: post_def returns_def)

lemma post_undefined [intro, simp]: "post P (Some Undefined)" "post P None"
  by (simp_all add: post_def)

lemma post_run: "post Q x \<Longrightarrow> (\<And>a. Q a \<Longrightarrow> post P (f a)) \<Longrightarrow> post P (run x f)"
  by (auto simp: post_def run_def split: option.splits outcome.splits)

lemma post_any: "(\<And>a. post P (f a)) \<Longrightarrow> post P (run x f)"
  by (rule post_run [where Q = "\<lambda>_. True"]) (simp_all add: post_def)

lemma post_if: "(b \<Longrightarrow> post P x) \<Longrightarrow> (\<not> b \<Longrightarrow> post P y) \<Longrightarrow> post P (if b then x else y)"
  by simp

lemma post_weaken: "post Q x \<Longrightarrow> (\<And>a. Q a \<Longrightarrow> P a) \<Longrightarrow> post P x"
  by (simp add: post_def)

text \<open>The streams that a run without errors writes to, and states that only extend what was written.\<close>

definition allowed :: "tool_opts \<Rightarrow> stream \<Rightarrow> bool" where
  "allowed op st \<longleftrightarrow> st = Fout \<or> st = Stdout \<or> need_output op \<and> st = Dump (raw_data_file op)"

definition grows :: "tool_opts \<Rightarrow> 'm tool_state \<Rightarrow> 'm tool_state \<Rightarrow> bool" where
  "grows op s s' \<longleftrightarrow> (\<exists>t. written s' = written s @ t \<and> (\<forall>x \<in> set t. allowed op (fst x)))"

lemma grows_refl [simp]: "grows op s s"
  by (simp add: grows_def)

lemma grows_trans: "grows op s s' \<Longrightarrow> grows op s' s'' \<Longrightarrow> grows op s s''"
  by (fastforce simp: grows_def)

lemma grows_other [simp]:
  "grows op s (s'\<lparr>lib := l\<rparr>) = grows op s s'" "grows op (s\<lparr>lib := l\<rparr>) s' = grows op s s'"
  "grows op s (s'\<lparr>stdout_closed := b\<rparr>) = grows op s s'"
  "grows op s (set_thread th s') = grows op s s'" "grows op s (set_errno e s') = grows op s s'"
  "grows op (set_thread th s) s' = grows op s s'" "grows op (set_errno e s) s' = grows op s s'"
  by (simp_all add: grows_def set_thread_def set_errno_def)

lemma grows_returns: "grows op s0 s \<Longrightarrow> post (grows op s0) (returns s)"
  by (rule post_returns)

lemma grows_run:
  "post (grows op s0) x \<Longrightarrow> (\<And>s. grows op s0 s \<Longrightarrow> post P (f s)) \<Longrightarrow> post P (run x f)"
  by (rule post_run)

lemma emit_allowed: "grows op s0 s \<Longrightarrow> allowed op st \<Longrightarrow> post (grows op s0) (emit op st text s)"
  by (auto simp: emit_def grows_def post_def returns_def)

lemma emit_grows: "grows op s0 s \<Longrightarrow> st = Fout \<or> st = Stdout \<Longrightarrow> post (grows op s0) (emit op st text s)"
  by (rule emit_allowed) (auto simp: allowed_def)

lemma print_clock_grows: "grows op s0 s \<Longrightarrow> post (grows op s0) (print_clock op Fout text clk s)"
  unfolding print_clock_def by (rule post_any) (auto intro: emit_grows)

lemma print_rdmsr_grows: "grows op s0 s \<Longrightarrow> post (grows op s0) (print_rdmsr env op handle rows s)"
proof (induction env op handle rows s rule: print_rdmsr.induct)
  case (2 env op h which tx rows s)
  note IH = 2
  show ?case
    unfolding print_rdmsr.simps
  proof (rule post_any, clarify)
    fix v l
    show "post (grows op s0) (run
        (if v \<noteq> CPU_INVALID_VALUE then emit op Fout (line (tx v)) (s\<lparr>lib := l\<rparr>) else returns (s\<lparr>lib := l\<rparr>))
        (print_rdmsr env op h rows))"
      using IH(2) by (auto intro!: grows_run IH(1) intro: emit_grows grows_returns)
  qed
qed (simp add: grows_returns)

lemma print_rdmsr_raw_grows: "grows op s0 s \<Longrightarrow> post (grows op s0) (print_rdmsr_raw env op handle s)"
  unfolding print_rdmsr_raw_def
  by (rule post_any, clarify, rule grows_run) (auto simp del: run_simps intro: emit_grows grows_returns)

lemma with_driver_grows:
  assumes "grows op s0 s" and "\<And>h s. grows op s0 s \<Longrightarrow> post (grows op s0) (body h s)"
  shows "post (grows op s0) (with_driver env op body s)"
  unfolding with_driver_def
  by (rule post_any) (auto simp: assms(1) intro!: emit_grows assms(2))

lemma print_info_grows:
  assumes "grows op s0 s" and "data = None \<Longrightarrow> \<not> check_need_raw_data op"
  shows "post (grows op s0) (print_info env op q data s)"
proof -
  have data: "post (grows op s0) (case data of None \<Rightarrow> Some Undefined
      | Some d \<Rightarrow> run (defined (data_text q d)) (\<lambda>text. emit op Fout text s))" for q
    using assms(1) by (cases data) (auto intro!: post_any emit_grows)
  have ic: "post (grows op s0) (run x (\<lambda>(cid, cached, th).
      print_clock op Fout int_line (cpu_clock_by_ic cid t 25 16 n) (s\<lparr>lib := (lib s)\<lparr>st_cached := cached, ms_thread := th\<rparr>\<rparr>)))"
    for x t n
    using assms(1) by (rule_tac post_any) (auto intro: print_clock_grows)
  show ?thesis
    using assms data ic
    by (cases q) (auto simp: print_info_def Let_def
        intro: emit_grows print_clock_grows with_driver_grows print_rdmsr_grows print_rdmsr_raw_grows)
qed

lemma print_infos_grows:
  assumes "grows op s0 s" and "data = None \<Longrightarrow> \<not> check_need_raw_data op"
  shows "post (grows op s0) (print_infos env op qs data s)"
  using assms(1)
proof (induction qs arbitrary: s)
  case (Cons q qs)
  then show ?case using assms(2) by (auto intro!: grows_run print_info_grows)
qed (simp add: grows_returns)

lemma report_types_grows: "grows op s0 s \<Longrightarrow> post (grows op s0) (report_types op k ds s)"
proof (induction op k ds s rule: report_types.induct)
  case (2 op k d ds s)
  note IH = 2
  show ?case
    unfolding report_types.simps
    by (rule post_any) (auto intro!: grows_run emit_grows IH)
qed (simp add: grows_returns)

lemma print_cpulist_grows: "grows op s0 s \<Longrightarrow> post (grows op s0) (print_cpulist env op vs l s)"
proof (induction env op vs l s rule: print_cpulist.induct)
  case (2 env op name v vs l s)
  note IH = 2
  show ?case
    unfolding print_cpulist.simps Let_def
  proof (rule grows_run)
    show "post (grows op s0) (emit op Fout (line (''-----'' @ name @ ''-----'')) s)"
      using IH(2) by (simp add: emit_grows)
  next
    fix s1 assume "grows op s0 s1"
    then show "post (grows op s0) (run (defined (cpuid_get_cpu_list (te_alloc env) (te_alloc env) v l (th_errno (ms_thread (lib s1)))))
        (\<lambda>(l, errno). run (if num_entries l \<le> 0 then returns (s1\<lparr>lib := (lib s1)\<lparr>ms_thread := (ms_thread (lib s1))\<lparr>th_errno := errno\<rparr>\<rparr>\<rparr>)
          else case names l of None \<Rightarrow> Some Undefined
            | Some xs \<Rightarrow> if int (length xs) < num_entries l then Some Undefined
                else emit op Fout (unlines (take (nat (num_entries l)) xs))
                  (s1\<lparr>lib := (lib s1)\<lparr>ms_thread := (ms_thread (lib s1))\<lparr>th_errno := errno\<rparr>\<rparr>\<rparr>))
          (print_cpulist env op vs (cpuid_free_cpu_list l))))"
      by (rule_tac post_any, clarify, rule_tac grows_run)
        (auto simp del: run_simps intro: emit_grows grows_returns IH(1) split: option.split)
  qed
qed (simp add: grows_returns)

lemma query_types_grows: "grows op s0 s \<Longrightarrow> post (grows op s0) (query_types env op sep k ds s)"
proof (induction env op sep k ds s rule: query_types.induct)
  case (2 env op sep k d ds s)
  then show ?case
    by (auto simp del: run_simps intro!: grows_run emit_grows print_infos_grows grows_returns)
qed (simp add: grows_returns)

lemma terminated_any: "(\<And>name. post P (f name)) \<Longrightarrow> post P (run (terminated b) f)"
  by (rule post_any)

lemma identify_grows:
  assumes "grows op s0 s" and "\<And>r data s. grows op s0 s \<Longrightarrow> post P (f (r, data, s))"
  shows "post P (run (identify env a data s) f)"
  unfolding identify_def using assms
  by (rule_tac post_run [where Q = "\<lambda>(r, data, s). grows op s0 s"]) (auto intro!: post_any post_returns)

lemma report_grows:
  assumes "grows op s0 s"
  shows "post (grows op s0) (run (emit op Fout tx s) (\<lambda>s. run (types_of data) (\<lambda>ds. report_types op 0 ds s)))"
  using assms by (intro grows_run [OF emit_grows] post_any report_types_grows) simp_all

lemma write_report_grows:
  assumes "grows op s0 s" and "\<And>data s. grows op s0 s \<Longrightarrow> post P (f (data, s))"
  shows "post P (run (write_report env op a data s) f)"
proof (rule post_run [where Q = "\<lambda>(_, s'). grows op s0 s'"])
  have verbose: "post (grows op s0) (run (terminated b) (\<lambda>name. emit op Stdout (g name) s))" for b g
    using assms(1) by (intro terminated_any emit_grows) simp_all
  show "post (\<lambda>(_, s'). grows op s0 s') (write_report env op a data s)"
    unfolding write_report_def Let_def
    apply (rule post_if)
     apply (simp add: post_returns assms(1))
    apply (rule grows_run [of op s0])
     apply (simp add: verbose grows_returns assms(1) del: run_simps)
    apply (erule identify_grows)
    apply (simp only: prod.case)
    apply (rule grows_run [of op s0])
     apply (simp add: emit_grows report_grows del: run_simps)
    apply (rule grows_run [of op s0])
     apply (simp add: print_clock_grows grows_returns)
    apply (simp add: post_returns)
    done
qed (auto simp: assms(2))

text \<open>A failure: code -1, and after the regular output one message, unless the user wants none.\<close>

definition failing :: "tool_opts \<Rightarrow> 'm tool_state \<Rightarrow> int \<times> 'm tool_state \<Rightarrow> bool" where
  "failing op s0 = (\<lambda>(c, s'). c = - 1 \<and> (\<exists>s1 msg. grows op s0 s1 \<and>
     written s' = written s1 @ (if need_quiet op then [] else [(Stderr, msg)])))"

lemma fail_failing: "grows op s0 s \<Longrightarrow> post (failing op s0) (fail op msg s)"
  by (fastforce simp: fail_def failing_def post_def returns_def run_def emit_def split: if_splits)

lemma fail_Inl: "grows op s0 s \<Longrightarrow> post (case_sum (failing op s0) Q) (run (fail op msg s) (\<lambda>x. returns (Inl x)))"
  by (rule post_run [OF fail_failing]) (auto intro: post_returns)

lemma post_continue:
  assumes "post (case_sum F Q) x" and "\<And>r. F r \<Longrightarrow> P r" and "\<And>a. Q a \<Longrightarrow> post P (f a)"
  shows "post P (run x (\<lambda>x. continue_with x f))"
  using assms(1) by (rule post_run) (auto simp: continue_with_def assms(2,3) post_returns split: sum.splits)

lemma open_out_post:
  "grows op s0 s \<Longrightarrow> post (case_sum (failing op s0) (grows op s0)) (open_out env op s)"
  unfolding open_out_def
  by (auto simp del: run_simps intro!: post_if terminated_any post_returns fail_Inl)

lemma get_raw_post:
  "grows op s0 s \<Longrightarrow> post (case_sum (failing op s0) (\<lambda>(a, s). grows op s0 s)) (get_raw env op s)"
  unfolding get_raw_def Let_def
  by (auto simp del: run_simps intro!: post_if terminated_any post_any post_returns fail_Inl)

lemma write_raw_post:
  assumes "grows op s0 s"
  shows "post (case_sum (failing op s0) (grows op s0)) (write_raw env op a s)"
proof (cases "need_output op")
  case True
  have name: "post P (run (terminated (raw_data_file op)) f)" if "post P (f (raw_data_file op))" for P f
    using that by (simp add: terminated_def)
  show ?thesis
    unfolding write_raw_def Let_def
    apply (simp only: True not_True_eq_False if_False)
    apply (rule name, rule post_any)
    apply (simp only: split_paired_all prod.case)
    apply (rule post_if)
     apply (rule fail_Inl, simp add: assms)
    apply (rule post_run [of "grows op s0"])
     apply (rule emit_allowed, simp add: assms, simp add: allowed_def True)
    apply (simp add: post_returns)
    done
qed (simp add: write_raw_def post_returns assms)

lemma run_queries_post:
  assumes "grows op s0 s"
  shows "post (case_sum (failing op s0) (\<lambda>(data, s). grows op s0 s)) (run_queries env op a data s)"
  unfolding run_queries_def
  apply (rule post_if)
   apply (simp add: post_returns assms)
  apply (rule post_if)
   apply (rule identify_grows [OF assms])
   apply (simp only: prod.case)
   apply (rule post_if)
    apply (erule fail_Inl)
   apply (rule post_any)
   apply (rule post_run [OF query_types_grows], assumption)
   apply (simp add: post_returns)
  apply (rule post_run [OF print_infos_grows [OF assms]])
   apply simp
  apply (simp add: post_returns)
  done

lemma final_lists_grows:
  assumes "grows op s0 s"
  shows "post (grows op s0) (final_lists env op a data s)"
  unfolding final_lists_def Let_def
  apply (rule grows_run [of op s0])
   apply (simp add: print_cpulist_grows grows_returns assms)
  apply (rule grows_run [of op s0])
   apply (auto simp del: run_simps intro!: post_any emit_grows grows_returns split: list.split)
  done

lemma main_with_post:
  "post (\<lambda>r. failing op s r \<or> fst r = 0 \<and> grows op s (snd r)) (main_with env op s)"
  unfolding main_with_def
  apply (rule post_continue [OF open_out_post [OF grows_refl]], simp)
  apply (rule grows_run [of op s])
   apply (simp add: emit_grows grows_returns)
  apply (rule post_continue [OF get_raw_post], assumption, simp)
  apply (simp only: split_paired_all prod.case)
  apply (rule post_continue [OF write_raw_post], assumption, simp)
  apply (erule write_report_grows)
  apply (simp only: prod.case)
  apply (rule post_continue [OF run_queries_post], assumption, simp)
  apply (simp only: split_paired_all prod.case)
  apply (rule grows_run [OF final_lists_grows], assumption)
  apply (simp add: post_returns)
  done

end
