(* ===== verification/Tool_Runs.thy ===== *)
theory Tool_Runs
  imports Tool_Facts
begin

text \<open>
  Whole runs of \<^verbatim>\<open>cpuid_tool\<close>: its exit code and messages, dumps that are saved and loaded, and the command lines on
  which it is undefined.
\<close>

section \<open>The exit code\<close>

definition sample_tool_env :: "nat tool_env" where
  "sample_tool_env = \<lparr>te_msr = (sample_msr_env (\<lambda>_. 0))\<lparr>env_os := sample_os\<lparr>os_cpuid := \<lambda>a r. r\<lparr>EAX := 1, EDX := of_nat a\<rparr>\<rparr>\<rparr>,
     te_alloc = (\<lambda>_. True), te_cpuinfo = None, te_read = (\<lambda>_. None), te_write = (\<lambda>_. True), te_version = ''0.8.1'',
     te_list = \<lparr>num_entries = 0, names = None\<rparr>\<rparr>"

definition sample_tool_state :: "nat tool_state" where
  "sample_tool_state = \<lparr>lib = sample_msr_state 0x17, written = [], stdout_closed = False\<rparr>"

text \<open>C13: When cpuid_tool runs to its end on a command line that parse_cmdline accepts, it returns 0 having written only
  to its output, to the standard output and, with --save, to the file that was named; or it returns -1, and then
  exactly one message on the standard error follows that output, or none with --quiet. (Warnings of the library
  itself are not part of the model.)\<close>

theorem tool_main_result:
  assumes "parse_cmdline argv = Parsed op" and "tool_main env argv s = Some (Returns (c, s'))"
  shows "\<exists>t msg. (\<forall>(st, _) \<in> set t. st = Fout \<or> st = Stdout \<or> need_output op \<and> st = Dump (raw_data_file op)) \<and>
    (c = 0 \<and> written s' = written s @ t \<or>
     c = - 1 \<and> written s' = written s @ t @ (if need_quiet op then [] else [(Stderr, msg)]))"
proof -
  have "failing op s (c, s') \<or> c = 0 \<and> grows op s s'"
    using main_with_post [of op s env] assms by (simp add: post_def tool_main_def)
  then show ?thesis
    by (fastforce simp: failing_def grows_def allowed_def split: if_splits)
qed


lemma parse_one_file:
  "parse_cmdline [prog, ''--load='' @ c # f] = Parsed (no_opts\<lparr>need_input := True, raw_data_file := take 256 (c # f)\<rparr>)"
  "parse_cmdline [prog, ''--save='' @ c # f] = Parsed (no_opts\<lparr>need_output := True, raw_data_file := take 256 (c # f)\<rparr>)"
  by (simp_all add: parse_cmdline_def parse switch_of_file no_opts_def)

theorem tool_main_result_witness:
  "\<exists>t msg s'. tool_main sample_tool_env [''cpuid_tool'', ''--load=raw.txt''] sample_tool_state = Some (Returns (- 1, s')) \<and>
     written s' = t @ [(Stderr, msg)]"
proof -
  let ?argv = "[''cpuid_tool'', ''--load=raw.txt'']"
  let ?op = "no_opts\<lparr>need_input := True, raw_data_file := ''raw.txt''\<rparr>"
  have p: "parse_cmdline ?argv = Parsed ?op" using parse_one_file(1) [of "''cpuid_tool''" "CHR ''r''" "''aw.txt''"] by simp
  obtain s' where run: "tool_main sample_tool_env ?argv sample_tool_state = Some (Returns (- 1, s'))"
    unfolding tool_main_def p
    by (simp add: main_with_def open_out_def fout_is_stdout_def no_opts_def continue_with_def get_raw_def terminated_def
        file_read_def stdio_name_def sample_tool_env_def sample_tool_state_def cpuid_deserialize_all_raw_data_def
        cpuid_deserialize_raw_data_internal_def fail_def emit_def Let_def set_errno_def set_thread_def)
      (simp add: returns_def)
  obtain t msg where "written s' = written sample_tool_state @ t @ [(Stderr, msg)]"
    using tool_main_result [OF p run] by (auto simp: no_opts_def)
  with run show ?thesis by auto
qed

section \<open>The arrays\<close>

text \<open>What reading the machine returns: as many items as it counts, and at least one.\<close>

lemma grow_raw_wf:
  assumes "raw_array.wf_array a" and "\<forall>raw \<in> set (raw_items a). wf_raw raw"
    and "cpuid_grow_raw_data_array alloc n a e = (a', e')"
  shows "raw_array.wf_array a'" and "\<forall>raw \<in> set (raw_items a'). wf_raw raw"
  using assms raw_array.wf_grow [OF assms(1), of alloc n e]
  by (auto simp: cpuid_grow_raw_data_array_def split: if_splits)

definition usable :: "cpu_raw_data_array_t \<Rightarrow> bool" where
  "usable a \<longleftrightarrow> raw_array.wf_array a \<and> (\<forall>raw \<in> set (raw_items a). wf_raw raw)"

lemma raw_core_wf: "cpuid_get_raw_data_core os raw_data_t_constructor cpu th = (r, raw, th') \<Longrightarrow> wf_raw raw"
  using cpuid_get_raw_data_core_spec [where os = os and data = raw_data_t_constructor and cpu = cpu and th = th]
  by (auto intro: wf_fill_raw_data split: if_splits)

lemma all_raw_loop_usable:
  assumes "all_raw_loop os alloc cpu a th = Some (r, a', th')" and "usable a" and "cpu = 0 \<or> raw_items a \<noteq> []"
    and "r = ERR_OK \<or> r = ERR_INVCNB"
  shows "usable a' \<and> raw_items a' \<noteq> []"
  using assms
proof (induction os alloc cpu a th rule: all_raw_loop.induct)
  case (1 os alloc cpu a th)
  obtain r1 raw th1 where core: "cpuid_get_raw_data_core os raw_data_t_constructor cpu th = (r1, raw, th1)"
    using prod_cases3 by blast
  show ?case
  proof (cases "r1 = ERR_OK")
    case False
    then have res: "r = r1" "a' = a" using "1.prems"(1) core by (simp_all add: all_raw_loop.simps [of os alloc cpu])
    have "cpu \<noteq> 0"
      using cpuid_get_raw_data_core_spec [where os = os and data = raw_data_t_constructor and cpu = cpu and th = th] core "1.prems"(4) res(1) False
      by (auto split: if_splits)
    then show ?thesis using "1.prems"(2,3) res by simp
  next
    case True
    obtain a1 e1 where grow: "cpuid_grow_raw_data_array alloc (cpu + 1) a (th_errno th1) = (a1, e1)" by fastforce
    have a1: "raw_array.wf_array a1" "\<forall>raw \<in> set (raw_items a1). wf_raw raw"
      using "1.prems"(2) grow_raw_wf [OF _ _ grow] unfolding usable_def by fast+
    have in_range: "unat cpu < unat (num_raw a1)"
      using "1.prems"(1) core grow True by (auto simp: all_raw_loop.simps [of os alloc cpu] split: if_splits)
    let ?a2 = "a1\<lparr>raw_items := (raw_items a1)[unat cpu := raw]\<rparr>"
    have "wf_raw raw" by (rule raw_core_wf [OF core])
    then have a2: "usable ?a2"
      using a1 by (auto simp: usable_def raw_array.wf_array_def dest!: set_update_subset_insert [THEN subsetD])
    have "raw_items ?a2 \<noteq> []" using in_range a1(1) by (auto simp: raw_array.wf_array_def)
    moreover obtain th2 where "all_raw_loop os alloc (cpu + 1) ?a2 th2 = Some (r, a', th')"
      and "th2 = th1\<lparr>th_errno := e1\<rparr>"
      using "1.prems"(1) core grow True in_range by (simp add: all_raw_loop.simps [of os alloc cpu])
    ultimately show ?thesis
      using "1.IH" [OF core [symmetric] refl refl] a2 True grow in_range "1.prems"(4) by (simp add: Let_def)
  qed
qed


lemma post_defined: "(\<And>a. x = Some a \<Longrightarrow> post P (f a)) \<Longrightarrow> post P (run (defined x) f)"
  by (cases x) auto

lemma post_Inl: "post (case_sum (\<lambda>_. True) Q) (run x (\<lambda>y. returns (Inl y)))"
  by (rule post_any) (simp add: post_returns)

lemma deserialize_usable:
  assumes "cpuid_deserialize_all_raw_data alloc b src e = Some (ERR_OK, a)"
  shows "usable a \<and> raw_items a \<noteq> []"
proof -
  obtain tx st where
    loop: "dump_loop alloc True (file_lines tx)
      (dump_start No_raw raw_data_t_constructor (cpu_raw_data_array_t_constructor False) e) = Some st"
    and a: "num_raw (raw_array st) \<noteq> 0" "a = raw_array st"
    using assms
    by (auto simp: cpuid_deserialize_all_raw_data_def cpuid_deserialize_raw_data_internal_def
        split: option.splits bind_splits if_splits)
  have "dump_wf (dump_start No_raw raw_data_t_constructor (cpu_raw_data_array_t_constructor False) e)"
    by (simp add: dump_wf_def dump_start_def cpu_raw_data_array_t_constructor_def raw_array.wf_array_def)
  then have "dump_wf st" by (rule dump_loop_wf [OF loop])
  then show ?thesis using a by (auto simp: dump_wf_def usable_def raw_array.wf_array_def simp flip: unat_eq_0)
qed

lemma get_all_usable:
  assumes "cpuid_get_all_raw_data os alloc (Some b) th = Some (ERR_OK, r, th')"
  shows "\<exists>a. r = Some a \<and> usable a \<and> raw_items a \<noteq> []"
proof -
  obtain r1 a th1 where loop: "all_raw_loop os alloc 0 (cpu_raw_data_array_t_constructor True) th = Some (r1, a, th1)"
    and r: "r = Some a" "r1 = ERR_OK \<or> r1 = ERR_INVCNB"
    using assms by (auto simp: cpuid_get_all_raw_data_def Let_def split: bind_splits if_splits)
  have "usable (cpu_raw_data_array_t_constructor True)"
    by (simp add: usable_def cpu_raw_data_array_t_constructor_def raw_array.wf_array_def)
  then show ?thesis using all_raw_loop_usable [OF loop _ _ r(2)] r(1) by simp
qed

lemma get_raw_usable:
  assumes "need_input op \<or> check_need_raw_data op"
  shows "post (case_sum (\<lambda>_. True) (\<lambda>(a, s). usable a \<and> raw_items a \<noteq> [])) (get_raw env op s)"
proof (cases "need_input op")
  case True
  show ?thesis
    unfolding get_raw_def Let_def
    apply (simp only: True if_True)
    apply (rule terminated_any)
    apply (rule post_defined)
    apply (simp only: split_paired_all prod.case)
    apply (rule post_if)
     apply (rule post_Inl)
    apply (rule post_returns)
    apply (auto dest: deserialize_usable)
    done
next
  case False
  with assms have need: "check_need_raw_data op" by simp
  show ?thesis
    unfolding get_raw_def Let_def
    apply (simp only: False need if_True if_False)
    apply (rule post_defined)
    apply (simp only: split_paired_all prod.case)
    apply (rule post_if)
     apply (rule post_Inl)
    apply (rule post_returns)
    apply (auto dest: get_all_usable)
    done
qed

lemma scan_count_length:
  "scan_count affinity cpu t n st = Some st' \<Longrightarrow>
    length (cpu_types (sc_system st')) = length (cpu_types (sc_system st))"
  by (auto simp: scan_count_def Let_def split: if_splits bind_splits)

lemma scan_cpu_nonempty:
  assumes "scan_inv affinity k st" and "wf_raw raw"
    and "scan_cpu os alloc affinity cpu raw st = Some (ERR_OK, st')"
  shows "cpu_types (sc_system st') \<noteq> []"
proof -
  obtain p st1 t where topo: "scan_topology affinity cpu raw st = Some (st1, t)"
    and rest: "(let i = cpuid_find_index_system_id (sc_system st1) p (sc_types st1) (sc_package st1)
        (sc_supported st1);
       n = (if i < 0 then unat (num_cpu_types (sc_system st1)) else nat i)
     in do {
       (r, st) \<leftarrow> (if i < 0 then scan_new_type os alloc affinity raw p st1 else Some (ERR_OK, st1));
       if r \<noteq> ERR_OK then Some (r, st)
       else do { st \<leftarrow> scan_count affinity cpu t n st; Some (ERR_OK, st) }
     }) = Some (ERR_OK, st')"
    using assms(3) by (auto simp: scan_cpu_def split: bind_splits prod.splits)
  define i where "i = cpuid_find_index_system_id (sc_system st1) p (sc_types st1) (sc_package st1)
    (sc_supported st1)"
  have inv1: "scan_inv affinity k st1"
    using assms(1) scan_topology_keeps(1,2) [OF topo] by (simp add: scan_inv_def)
  show ?thesis
  proof (cases "i < 0")
    case True
    then obtain st2 where new: "scan_new_type os alloc affinity raw p st1 = Some (ERR_OK, st2)"
      and count: "scan_count affinity cpu t (unat (num_cpu_types (sc_system st1))) st2 = Some st'"
      using rest by (auto simp: Let_def i_def [symmetric] split: bind_splits if_splits prod.splits)
    from scan_new_type_inv [OF inv1 assms(2) new] show ?thesis using scan_count_length [OF count] by auto
  next
    case False
    then have "nat i < unat (num_cpu_types (sc_system st1))"
      unfolding i_def by (intro find_index_less) simp
    moreover have "scan_count affinity cpu t (nat i) st1 = Some st'"
      using rest False by (auto simp: Let_def i_def [symmetric] split: bind_splits if_splits)
    ultimately show ?thesis using inv1 scan_count_length by (fastforce simp: scan_inv_def system_array.wf_array_def)
  qed
qed

lemma scan_loop_nonempty:
  assumes "\<forall>raw. Some raw \<in> set slots \<longrightarrow> wf_raw raw" and "slots \<noteq> []"
    and "scan_inv affinity (unat cpu) st" and "unat cpu + length slots < 65536"
    and "scan_loop os alloc affinity cpu slots st = Some (ERR_OK, st')"
  shows "cpu_types (sc_system st') \<noteq> []"
  using assms
proof (induction slots arbitrary: cpu st)
  case (Cons x slots)
  obtain raw st1 where x: "x = Some raw" and step: "scan_cpu os alloc affinity cpu raw st = Some (ERR_OK, st1)"
    and rest: "scan_loop os alloc affinity (cpu + 1) slots st1 = Some (ERR_OK, st')"
    using Cons.prems(5) by (auto split: bind_splits if_splits prod.splits)
  have wf: "wf_raw raw" using Cons.prems(1) x by simp
  show ?case
  proof (cases "slots = []")
    case True
    then show ?thesis using scan_cpu_nonempty [OF Cons.prems(3) wf step] rest by simp
  next
    case False
    have next_cpu: "unat (cpu + 1) = Suc (unat cpu)" using Cons.prems(4) by (simp add: unat_word_ariths)
    have "scan_inv affinity (unat (cpu + 1)) st1"
      using scan_cpu_inv [OF Cons.prems(3) wf refl step] by (simp add: next_cpu)
    from Cons.IH [OF _ False this _ rest] show ?thesis using Cons.prems(1,4) by (simp add: next_cpu)
  qed
qed simp

lemma identify_all_some: "cpu_identify_all os alloc a (Some s0) th = Some (r, d, th') \<Longrightarrow> d \<noteq> None"
  by (auto simp: cpu_identify_all_def split: bind_splits if_splits option.splits) metis+

lemma identify_all_types:
  assumes "usable a" and "raw_items a \<noteq> []"
    and "cpu_identify_all os alloc (Some a) (Some s0) th = Some (ERR_OK, Some s, th')"
  shows "cpu_types s \<noteq> [] \<and> unat (num_cpu_types s) = length (cpu_types s)"
proof -
  obtain st where loop: "scan_loop os alloc (with_affinity a) 0 (raw_slots a) (scan_start th) = Some (ERR_OK, st)"
    and fin: "finish_system (with_affinity a) (unat (num_raw a)) st = Some s"
    by (rule identify_all_run [OF assms(3)])
  obtain ds where ds: "finish_types (with_affinity a) (sc_supported st) (unat (num_raw a))
      (ti_data (sc_types st)) (cpu_types (sc_system st)) = Some ds"
    and s: "cpu_types s = ds" "num_cpu_types s = num_cpu_types (sc_system st)"
    by (rule finish_system_types [OF fin])
  have n: "unat (num_raw a) < 65536" using unsigned_less [of "num_raw a"] by simp
  have raws: "\<forall>raw. Some raw \<in> set (raw_slots a) \<longrightarrow> wf_raw raw" and "raw_slots a \<noteq> []"
    using assms(1,2) by (auto simp: raw_slots_def usable_def raw_array.wf_array_def split: if_splits)
  then have "cpu_types (sc_system st) \<noteq> []"
    using scan_loop_nonempty [OF raws _ _ _ loop] n scan_inv_start [of "with_affinity a" th]
    by (simp add: raw_slots_def)
  moreover have "scan_inv (with_affinity a) (unat (num_raw a)) st"
    using scan_loop_inv [OF raws _ _ loop] n scan_inv_start [of "with_affinity a" th]
    by (simp add: raw_slots_def)
  moreover have "length ds = length (cpu_types (sc_system st))" using finish_types_keeps [OF ds] by auto
  ultimately show ?thesis using s by (auto simp: scan_inv_def system_array.wf_array_def)
qed


text \<open>C14: The list accesses of main are within bounds: whatever is loaded from a file or read from the machine, when main
  gets past its queries with a processor to identify, as --sgx and --hypervisor ask for, then the elements raw[0]
  and cpu_types[0] that it goes on to read exist, and so do all the num_cpu_types types of its loops.\<close>

theorem tool_types_exist:
  assumes "get_raw env op s = Some (Returns (Inr (a, s1)))" and "need_identify op"
    and "run_queries env op a data s2 = Some (Returns (Inr (data', s3)))"
  shows "raw_items a \<noteq> [] \<and> unat (num_raw a) = length (raw_items a) \<and>
    cpu_types data' \<noteq> [] \<and> unat (num_cpu_types data') = length (cpu_types data')"
proof -
  have need: "check_need_raw_data op" using assms(2) by (simp add: check_need_raw_data_def)
  have a: "usable a" "raw_items a \<noteq> []"
    using get_raw_usable [of op env s] need assms(1) by (auto simp: post_def)
  have "post (case_sum (\<lambda>_. True) (\<lambda>(d, s). cpu_types d \<noteq> [] \<and> unat (num_cpu_types d) = length (cpu_types d)))
      (run_queries env op a data s2)"
    unfolding run_queries_def identify_def
    apply (simp only: assms(2) need if_True if_False simp_thms)
    apply (rule post_run [of "\<lambda>(r, d, s). r = ERR_OK \<longrightarrow> cpu_types d \<noteq> [] \<and> unat (num_cpu_types d) = length (cpu_types d)"])
     apply (rule post_defined)
     apply (simp only: split_paired_all prod.case)
     apply (rule post_returns)
    subgoal for r d th 
      using identify_all_types [OF a, of "env_os (te_msr env)" "te_alloc env" data "ms_thread (lib s2)"]
      by (auto split: option.splits dest: identify_all_some)
    apply (simp only: split_paired_all prod.case)
    apply (rule post_if)
     apply (rule post_Inl)
    apply (rule post_any)
    apply (rule post_any)
    apply (simp add: post_returns)
    done
  then show ?thesis using a assms(3) by (auto simp: post_def usable_def raw_array.wf_array_def)
qed


text \<open>A dump of one processor, with \<^verbatim>\<open>--sgx\<close>.\<close>

lemma query_types_no_requests:
  "requests op = [] \<Longrightarrow> \<not> stdout_closed s \<Longrightarrow> \<exists>s'. query_types env op sep k ds s = returns s'"
  by (induction ds arbitrary: k s) (auto simp: emit_def)

theorem tool_types_exist_witness:
  "\<exists>dump a s1 data s2. let env = sample_tool_env\<lparr>te_msr := sample_msr_env (\<lambda>_. 0), te_read := \<lambda>_. Some dump\<rparr>;
       op = no_opts\<lparr>need_input := True, raw_data_file := ''cpu.txt'', need_sgx := True, need_identify := True\<rparr>
     in get_raw env op sample_tool_state = Some (Returns (Inr (a, s1))) \<and>
        run_queries env op a no_system s1 = Some (Returns (Inr (data, s2))) \<and> cpu_types data \<noteq> []"
proof -
  let ?op = "no_opts\<lparr>need_input := True, raw_data_file := ''cpu.txt'', need_sgx := True, need_identify := True\<rparr>"
  have again: "\<exists>dump. cpuid_serialize_all_raw_data ''0.8.1'' True one_cpu = Some (ERR_OK, dump) \<and>
      cpuid_deserialize_all_raw_data (\<lambda>_. True) b (Some dump) e = Some (ERR_OK, one_cpu)" for b e
    using dump_read_back [of "''0.8.1''" one_cpu "\<lambda>_. True" b e] amd_raw_facts(1,2)
    by (simp add: one_cpu_def version_ok_def c_isspace_def arch_fields_def amd_raw_def raw_data_t_constructor_def
        numeral_eq_Suc)
  obtain dump where "cpuid_serialize_all_raw_data ''0.8.1'' True one_cpu = Some (ERR_OK, dump)"
    using again by blast
  then have reload: "cpuid_deserialize_all_raw_data (\<lambda>_. True) b (Some dump) e = Some (ERR_OK, one_cpu)" for b e
    using again [of b e] by simp
  let ?env = "sample_tool_env\<lparr>te_msr := sample_msr_env (\<lambda>_. 0), te_read := \<lambda>_. Some dump\<rparr>"
  let ?s1 = "set_errno ERR_OK sample_tool_state"
  have got: "get_raw ?env ?op sample_tool_state = Some (Returns (Inr (one_cpu, ?s1)))"
    by (simp add: get_raw_def terminated_def no_opts_def file_read_def fout_is_stdout_def stdio_name_def reload Let_def
        sample_tool_env_def) (simp add: returns_def)
  have one: "one_cpu\<lparr>with_affinity := True\<rparr> = one_cpu" by (simp add: one_cpu_def)
  obtain d th' where ident: "cpu_identify_all sample_os (\<lambda>_. True) (Some one_cpu) (Some no_system) (ms_thread (lib ?s1)) =
      Some (ERR_OK, Some d, th')"
    using one_cpu_identified [of True "ms_thread (lib ?s1)"] unfolding one by (auto simp: cpu_identify_all_def)
  have "usable one_cpu" "raw_items one_cpu \<noteq> []"
    using amd_raw_facts(1) by (simp_all add: usable_def one_cpu_def raw_array.wf_array_def)
  from identify_all_types [OF this ident] have d: "unat (num_cpu_types d) = length (cpu_types d)" by simp
  have "requests ?op = []" "\<not> stdout_closed (set_thread th' ?s1)"
    by (simp_all add: no_opts_def set_thread_def set_errno_def sample_tool_state_def)
  from query_types_no_requests [OF this]
  obtain s2 where "query_types ?env ?op True 0 (cpu_types d) (set_thread th' ?s1) = returns s2" by blast
  then have "run_queries ?env ?op one_cpu no_system ?s1 = Some (Returns (Inr (d, s2)))"
    using ident d
    by (simp add: run_queries_def no_opts_def check_need_raw_data_def identify_def types_of_def sample_tool_env_def
        sample_msr_env_def one_cpu_def) (simp add: returns_def)
  moreover from tool_types_exist [OF got _ this] have "cpu_types d \<noteq> []" by simp
  ultimately show ?thesis using got unfolding Let_def by blast
qed

section \<open>Saving and loading\<close>

text \<open>
  Without the options for the file of raw data, the rest of \<^verbatim>\<open>main\<close> neither looks at them nor reads a file.
\<close>

abbreviation (input) loading :: "string \<Rightarrow> tool_opts \<Rightarrow> tool_opts" where
  "loading f op \<equiv> op\<lparr>need_input := True, raw_data_file := f\<rparr>"

lemma loading_emit [simp]: "emit (loading f op) = emit op"
  by (intro ext) (simp add: emit_def fout_is_stdout_def)

lemma loading_need [simp]: "check_need_raw_data (loading f op) = check_need_raw_data op"
  by (simp add: check_need_raw_data_def)

lemma loading_print_rdmsr [simp]:
  "print_rdmsr (env\<lparr>te_read := rd\<rparr>) (loading f op) h rows = print_rdmsr env op h rows"
proof (induction rows)
  case (Cons row rows)
  then show ?case by (cases row) (auto intro!: ext cong: if_cong)
qed (simp add: fun_eq_iff)

lemma loading_print_info [simp]:
  "print_info (env\<lparr>te_read := rd\<rparr>) (loading f op) q d = print_info env op q d"
  by (intro ext)
    (simp add: print_info_def print_clock_def with_driver_def print_rdmsr_raw_def Let_def
      cong: if_cong option.case_cong output_data_switch.case_cong)

lemma loading_print_infos [simp]:
  "print_infos (env\<lparr>te_read := rd\<rparr>) (loading f op) qs d = print_infos env op qs d"
  by (induction qs) (auto intro!: ext)

lemma loading_query_types [simp]:
  "query_types (env\<lparr>te_read := rd\<rparr>) (loading f op) sep k ds = query_types env op sep k ds"
  by (induction ds arbitrary: k) (auto intro!: ext cong: if_cong)

lemma loading_report_types [simp]: "report_types (loading f op) k ds = report_types op k ds"
  by (induction ds arbitrary: k) (auto intro!: ext)

lemma loading_print_cpulist [simp]:
  "print_cpulist (env\<lparr>te_read := rd\<rparr>) (loading f op) vs l = print_cpulist env op vs l"
proof (induction vs arbitrary: l)
  case (Cons v vs)
  then show ?case by (cases v) (auto intro!: ext simp: Let_def cong: if_cong option.case_cong)
qed (simp add: fun_eq_iff)

lemma loading_rest:
  "open_out (env\<lparr>te_read := rd\<rparr>) (loading f op) s = open_out env op s"
  "write_report (env\<lparr>te_read := rd\<rparr>) (loading f op) a data s = write_report env op a data s"
  "run_queries (env\<lparr>te_read := rd\<rparr>) (loading f op) a data s = run_queries env op a data s"
  "final_lists (env\<lparr>te_read := rd\<rparr>) (loading f op) a data s = final_lists env op a data s"
  by (simp_all add: open_out_def fout_is_stdout_def fail_def write_report_def identify_def print_clock_def
      only_clock_queries_def run_queries_def final_lists_def Let_def cong: if_cong list.case_cong)

lemma x86_dumped:
  "arch_fields ARCHITECTURE_X86 (fill_raw_data exec raw_data_t_constructor) = fill_raw_data exec raw_data_t_constructor"
  by (simp add: arch_fields_def fill_raw_data_def raw_data_t_constructor_def numeral_eq_Suc)


lemma opts_of_load:
  assumes "\<not> list_ex is_file args" and "length f < 256"
  shows "opts_of ((''--load='' @ f) # args) = loading f (opts_of args)" and "\<not> need_output (opts_of args)"
    and "\<not> need_input (opts_of args)"
proof -
  have "filter is_file args = []" "\<not> list_ex is_load args" "\<not> list_ex is_save args"
    using assms(1) by (auto simp: list_ex_iff is_file_def filter_empty_conv)
  then show "opts_of ((''--load='' @ f) # args) = loading f (opts_of args)" "\<not> need_output (opts_of args)"
    "\<not> need_input (opts_of args)"
    using assms(2)
    by (simp_all add: opts_of_def last_value_def is_file_def is_load_def is_save_def is_outfile_def verbosity_def
        not_v switch_of_file map_filter_simps)
qed

lemma acceptable_load:
  assumes "acceptable args" and "\<not> list_ex is_file args" and "f \<noteq> []"
  shows "acceptable ((''--load='' @ f) # args)"
proof -
  have "filter is_file args = []" using assms(2) by (auto simp: list_ex_iff filter_empty_conv)
  then show ?thesis
    using assms(1,3)
    by (auto simp: acceptable_def is_file_def is_load_def is_save_def is_outfile_def known_def is_help_def is_request_def
        switch_of_file)
qed

lemma parse_acceptable: "acceptable args \<Longrightarrow> args \<noteq> [] \<Longrightarrow> parse_cmdline (prog # args) = Parsed (opts_of args)"
  by (cases args) (simp_all add: parse_cmdline_def parse_loop_Parsed del: parse_loop.simps)

lemma no_args: "\<not> check_need_raw_data (opts_of [])"
  by (simp add: check_need_raw_data_def opts_of_def map_filter_simps)

text \<open>What a machine of \<open>n\<close> x86 processors is read as, and its dump.\<close>

definition machine_array :: "'m os \<Rightarrow> nat \<Rightarrow> (nat \<Rightarrow> 'm) \<Rightarrow> cpu_raw_data_array_t" where
  "machine_array os n m = \<lparr>with_affinity = True, num_raw = of_nat n,
     raw_items = map (\<lambda>i. fill_raw_data (os_cpuid os (m i)) raw_data_t_constructor) [0..<n]\<rparr>"

lemma machine_dump:
  assumes "1 \<le> n" and "n < 65535" and "version_ok v"
    and "cpuid_architecture_identify (fill_raw_data (os_cpuid os (m 0)) raw_data_t_constructor) = ARCHITECTURE_X86"
  shows "\<exists>dump. cpuid_serialize_all_raw_data v True (machine_array os n m) = Some (ERR_OK, dump) \<and>
    (\<forall>b e. cpuid_deserialize_all_raw_data (\<lambda>_. True) b (Some dump) e = Some (ERR_OK, machine_array os n m))"
proof -
  let ?a = "machine_array os n m"
  have n: "unat (of_nat n :: u16) = n" using assms(2) by (simp add: unat_of_nat_less)
  then have num: "(of_nat n :: u16) \<noteq> 0" using assms(1) by (metis not_one_le_zero unsigned_0)
  have arch: "cpuid_architecture_identify (raw_items ?a ! 0) = ARCHITECTURE_X86"
    using assms(1,4) by (simp add: machine_array_def)
  have wf: "\<forall>r \<in> set (raw_items ?a). wf_raw r" by (auto simp: machine_array_def wf_fill_raw_data)
  have same: "map (arch_fields ARCHITECTURE_X86) (raw_items ?a) = raw_items ?a"
    by (auto simp: machine_array_def x86_dumped)
  have a: "num_raw ?a \<noteq> 0" "unat (num_raw ?a) = length (raw_items ?a)"
    "\<lparr>with_affinity = True, num_raw = num_raw ?a, raw_items = raw_items ?a\<rparr> = ?a"
    using n num by (simp_all add: machine_array_def)
  have again: "\<exists>dump. cpuid_serialize_all_raw_data v True ?a = Some (ERR_OK, dump) \<and>
      cpuid_deserialize_all_raw_data (\<lambda>_. True) b (Some dump) e = Some (ERR_OK, ?a)" for b e
    using dump_read_back [OF assms(3) a(1,2) wf, of "\<lambda>_. True" b e] by (simp add: arch same a(3))
  then obtain dump where "cpuid_serialize_all_raw_data v True ?a = Some (ERR_OK, dump)" by blast
  then show ?thesis using again by simp
qed

text \<open>Two runs that get the same raw data go on in the same way.\<close>

lemma emit_thread:
  "emit op Fout v (set_thread th s) = (if stdout_closed s \<and> fout_is_stdout op then Some Undefined
     else returns (set_thread th (s\<lparr>written := written s @ [(Fout, v)]\<rparr>)))"
  by (cases s) (simp add: emit_def set_thread_def)

lemma main_loading:
  assumes get: "\<And>t. ms_thread (lib t) = ms_thread (lib s) \<Longrightarrow> get_raw env op t = returns (Inr (a, set_thread th t))"
    and load: "\<And>t. get_raw (env\<lparr>te_read := rd\<rparr>) (loading f op) t = returns (Inr (a, set_errno ERR_OK t))"
    and "th_errno th = ERR_OK" and writable: "te_write env = (\<lambda>_. True)" and "\<not> need_output op"
  shows "main_with (env\<lparr>te_read := rd\<rparr>) (loading f op) (set_thread th s) = main_with env op s"
proof -
  have errno: "set_errno ERR_OK (set_thread th t) = set_thread th t" for t :: "'a tool_state"
    using assms(3) by (simp add: set_errno_def set_thread_def)
  have out: "open_out env op t = (if fout_is_stdout op \<or> length (out_file op) < 256 then returns (Inr t) else Some Undefined)" for t
    by (simp add: open_out_def terminated_def writable)
  have raw: "write_raw e (loading f op) a t = returns (Inr t)" "write_raw env op a t = returns (Inr t)" for e t
    using assms(5) by (simp_all add: write_raw_def)
  have emit: "emit op Fout v s = (if stdout_closed s \<and> fout_is_stdout op then Some Undefined
      else returns (s\<lparr>written := written s @ [(Fout, v)]\<rparr>))" for v
    by (simp add: emit_def)
  define t where "t = (if need_version op then s\<lparr>written := written s @ [(Fout, line (te_version env))]\<rparr> else s)"
  have got: "get_raw env op t = returns (Inr (a, set_thread th t))" by (rule get) (simp add: t_def)
  show ?thesis
    unfolding main_with_def loading_rest out
    using got by (auto simp: t_def continue_with_def emit emit_thread errno load raw loading_rest split: if_splits)
qed

text \<open>C11: A dump stands for the machine: on a machine of x86 processors, \<open>cpuid_tool --save=f\<close> returns 0 and writes
  one text to the file f; and whatever else is asked for, \<open>cpuid_tool --load=f\<close> on this file ends like a run on
  the machine itself, with the same exit code, output and state of the library.\<close>

theorem tool_save_load:
  assumes machine: "machine (env_os (te_msr env)) n m" "1 \<le> n" "n < 65535" and "te_alloc env = (\<lambda>_. True)"
    and x86: "cpuid_architecture_identify (fill_raw_data (os_cpuid (env_os (te_msr env)) (m 0)) raw_data_t_constructor) =
      ARCHITECTURE_X86"
    and "version_ok (te_version env)" and writable: "te_write env = (\<lambda>_. True)"
    and f: "f \<noteq> []" "f \<noteq> ''-''" "length f < 256"
    and args: "acceptable args" "\<not> list_ex is_file args" "check_need_raw_data (opts_of args)" "out_file (opts_of args) \<noteq> f"
  shows "\<exists>dump s'. tool_main env [prog, ''--save='' @ f] s = Some (Returns (0, s')) \<and>
    written s' = written s @ [(Dump f, dump)] \<and>
    tool_main (env\<lparr>te_read := (te_read env)(f := Some dump)\<rparr>) (prog # (''--load='' @ f) # args) (s'\<lparr>written := written s\<rparr>) =
    tool_main env (prog # args) s"
proof -
  define a where "a = machine_array (env_os (te_msr env)) n m"
  define none where "none = \<lparr>with_affinity = False, num_raw = 0 :: u16, raw_items = []\<rparr>"
  obtain th where read: "cpuid_get_all_raw_data (env_os (te_msr env)) (\<lambda>_. True) (Some none) (ms_thread (lib s)) =
      Some (ERR_OK, Some a, th)" and errno: "th_errno th = ERR_OK"
    using all_raw_data_machine [OF machine, of none "ms_thread (lib s)"] by (auto simp: a_def machine_array_def)
  obtain dump where dump: "cpuid_serialize_all_raw_data (te_version env) True a = Some (ERR_OK, dump)"
    and reload: "\<And>b e. cpuid_deserialize_all_raw_data (\<lambda>_. True) b (Some dump) e = Some (ERR_OK, a)"
    using machine_dump [where os = "env_os (te_msr env)" and m = m, OF machine(2,3) assms(6) x86] unfolding a_def by blast
  note off = opts_of_load [OF args(2) f(3)]
  have get: "get_raw env o' t = returns (Inr (a, set_thread th t))"
    if "ms_thread (lib t) = ms_thread (lib s)" "\<not> need_input o'" "check_need_raw_data o'" for t o'
    using that read by (simp add: get_raw_def none_def assms(4) Let_def)
  let ?env = "env\<lparr>te_read := (te_read env)(f := Some dump)\<rparr>"
  have load: "get_raw ?env (loading f (opts_of args)) t = returns (Inr (a, set_errno ERR_OK t))" for t
    using f args(4) by (simp add: get_raw_def terminated_def file_read_def stdio_name_def assms(4) reload Let_def)
  let ?save = "no_opts\<lparr>need_output := True, raw_data_file := f\<rparr>"
  let ?s' = "(set_thread th s)\<lparr>written := written s @ [(Dump f, dump)]\<rparr>"
  have "parse_cmdline [prog, ''--save='' @ f] = Parsed ?save"
    using f(1,3) parse_one_file(2) [of prog "hd f" "tl f"] by simp
  moreover have "get_raw env ?save s = returns (Inr (a, set_thread th s))"
    by (rule get) (simp_all add: no_opts_def check_need_raw_data_def)
  ultimately have save: "tool_main env [prog, ''--save='' @ f] s = Some (Returns (0, ?s'))"
    using f dump errno
    by (simp add: tool_main_def main_with_def open_out_def fout_is_stdout_def no_opts_def continue_with_def
        write_raw_def terminated_def writable emit_def write_report_def run_queries_def final_lists_def Let_def)
      (simp add: returns_def set_thread_def set_errno_def)
  have "main_with ?env (loading f (opts_of args)) (set_thread th s) = main_with env (opts_of args) s"
    using get off(2,3) args(3) load errno writable by (intro main_loading) simp_all
  moreover have "args \<noteq> []" using args(3) no_args by auto
  ultimately have "tool_main ?env (prog # (''--load='' @ f) # args) (?s'\<lparr>written := written s\<rparr>) = tool_main env (prog # args) s"
    using acceptable_load [OF args(1,2) f(1)] args(1) off(1)
    by (simp add: tool_main_def parse_acceptable set_thread_def)
  with save show ?thesis by (intro exI [of _ dump] exI [of _ ?s']) simp
qed

text \<open>One x86 processor, and the queries of its family and of its vendor.\<close>

lemma sample_machine: "machine (env_os (te_msr sample_tool_env)) 4 (\<lambda>i. i)"
  by (simp add: machine_def sample_tool_env_def sample_os_def)

theorem tool_save_load_witness:
  "\<exists>dump s'. tool_main sample_tool_env [''cpuid_tool'', ''--save=cpu.txt''] sample_tool_state = Some (Returns (0, s')) \<and>
     written s' = [(Dump ''cpu.txt'', dump)] \<and>
     tool_main (sample_tool_env\<lparr>te_read := (te_read sample_tool_env)(''cpu.txt'' := Some dump)\<rparr>)
       [''cpuid_tool'', ''--load=cpu.txt'', ''--family'', ''--vendorstr''] (s'\<lparr>written := []\<rparr>) =
     tool_main sample_tool_env [''cpuid_tool'', ''--family'', ''--vendorstr''] sample_tool_state"
proof -
  let ?args = "[''--family'', ''--vendorstr'']"
  have sw: "switch_of ''--family'' = Some NEED_FAMILY" "switch_of ''--vendorstr'' = Some NEED_VENDOR_STR"
    by (simp_all add: switch_of_def matchtable_def)
  have args: "acceptable ?args" "\<not> list_ex is_file ?args" "check_need_raw_data (opts_of ?args)" "out_file (opts_of ?args) \<noteq> ''cpu.txt''"
    by (simp_all add: acceptable_def known_def sw is_help_def is_file_def is_load_def is_save_def is_outfile_def
        check_need_raw_data_def opts_of_def map_filter_simps matchtable_def last_value_def)
  have x86: "cpuid_architecture_identify
      (fill_raw_data (os_cpuid (env_os (te_msr sample_tool_env)) 0) raw_data_t_constructor) = ARCHITECTURE_X86"
    by (simp add: cpuid_architecture_identify_def fill_raw_data_def read_leaves_def cpu_exec_cpuid_def sample_tool_env_def)
  have "te_alloc sample_tool_env = (\<lambda>_. True)" "version_ok (te_version sample_tool_env)" "te_write sample_tool_env = (\<lambda>_. True)"
    by (simp_all add: sample_tool_env_def version_ok_def c_isspace_def)
  from tool_save_load [OF sample_machine _ _ this(1) x86 this(2,3) _ _ _ args, of "''cpuid_tool''" sample_tool_state]
  show ?thesis by (simp add: sample_tool_state_def)
qed

section \<open>Long file names\<close>

text \<open>C15: A file name of 256 characters or more fills the buffer of cpuid_tool, for which strncpy then writes no
  terminating NUL: loading from such a file reads past the end of the buffer, and the behaviour is undefined.\<close>

theorem tool_long_name:
  assumes "256 \<le> length f" and "\<not> stdout_closed s"
  shows "tool_main env [prog, ''--load='' @ f] s = Some Undefined"
proof -
  obtain c g where f: "f = c # g" using assms(1) by (cases f) auto
  then have "length (take 256 (c # g)) = 256" using assms(1) by simp
  then show ?thesis
    unfolding f tool_main_def parse_one_file
    by (simp add: main_with_def open_out_def fout_is_stdout_def no_opts_def continue_with_def get_raw_def terminated_def Let_def)
qed

theorem tool_long_name_witness:
  "tool_main sample_tool_env [''cpuid_tool'', ''--load='' @ replicate 256 (CHR ''a'')] sample_tool_state = Some Undefined"
  by (rule tool_long_name) (simp_all add: sample_tool_state_def)

end
