(* ===== verification/Affinity_Platforms.thy ===== *)
theory Affinity_Platforms
  imports Raw_Access
begin

text \<open>
  The number of processors and the affinity of the thread on the systems other than Linux (\<^verbatim>\<open>cpuid_main.c\<close>). Each
  system has a record of what its system calls answer, and its \<^verbatim>\<open>save_cpu_affinity\<close>, \<^verbatim>\<open>restore_cpu_affinity\<close> and
  \<^verbatim>\<open>set_cpu_affinity\<close> on the state of the thread, whose affinity has the type of that system.
\<close>

section \<open>macOS\<close>

text \<open>The affinity is a tag; \<^verbatim>\<open>host_info\<close> gives the number of processors or fails.\<close>

record mac_os =
  mac_host_info :: "int option"
  mac_policy_get :: bool
  mac_policy_set :: bool

definition get_total_cpus_mac :: "mac_os \<Rightarrow> int" where
  "get_total_cpus_mac os = (case mac_host_info os of None \<Rightarrow> 1 | Some n \<Rightarrow> n)"

definition save_cpu_affinity_mac :: "mac_os \<Rightarrow> int thread \<Rightarrow> bool \<times> int thread" where
  "save_cpu_affinity_mac os th = (if mac_policy_get os then (True, th\<lparr>th_saved := th_affinity th\<rparr>) else (False, th))"

definition restore_cpu_affinity_mac :: "mac_os \<Rightarrow> int thread \<Rightarrow> bool \<times> int thread" where
  "restore_cpu_affinity_mac os th = (if mac_policy_set os then (True, th\<lparr>th_affinity := th_saved th\<rparr>) else (False, th))"

definition set_cpu_affinity_mac :: "mac_os \<Rightarrow> logical_cpu_t \<Rightarrow> int thread \<Rightarrow> bool \<times> int thread" where
  "set_cpu_affinity_mac os cpu th =
     (if uint cpu \<ge> get_total_cpus_mac os then (False, th)
      else if mac_policy_set os then (True, th\<lparr>th_affinity := uint cpu + 1\<rparr>) else (False, th))"

section \<open>Windows with processor groups\<close>

text \<open>An affinity is a group and a mask of its processors; \<open>win_groups\<close> has the size of each active group.\<close>

record win_os =
  win_groups :: "nat list"
  win_get_affinity :: bool
  win_set_affinity :: "nat \<times> u64 \<Rightarrow> bool"

fun find_group :: "nat \<Rightarrow> nat \<Rightarrow> nat list \<Rightarrow> nat \<Rightarrow> (nat \<times> nat) option" where
  "find_group i total_processors [] cpu = None"
| "find_group i total_processors (processors # rest) cpu =
     (if total_processors + processors > cpu then Some (i, cpu - total_processors)
      else find_group (Suc i) (total_processors + processors) rest cpu)"

definition save_cpu_affinity_win :: "win_os \<Rightarrow> (nat \<times> u64) thread \<Rightarrow> bool \<times> (nat \<times> u64) thread" where
  "save_cpu_affinity_win os th = (if win_get_affinity os then (True, th\<lparr>th_saved := th_affinity th\<rparr>) else (False, th))"

definition restore_cpu_affinity_win :: "win_os \<Rightarrow> (nat \<times> u64) thread \<Rightarrow> bool \<times> (nat \<times> u64) thread" where
  "restore_cpu_affinity_win os th =
     (if snd (th_saved th) = 0 then (False, th)
      else if win_set_affinity os (th_saved th) then (True, th\<lparr>th_affinity := th_saved th\<rparr>) else (False, th))"

text \<open>\<^verbatim>\<open>1ULL << number\<close>: Windows has at most 64 processors in a group; a shift by more is undefined.\<close>

definition set_cpu_affinity_win ::
    "win_os \<Rightarrow> logical_cpu_t \<Rightarrow> (nat \<times> u64) thread \<Rightarrow> (bool \<times> (nat \<times> u64) thread) option" where
  "set_cpu_affinity_win os cpu th =
     (case find_group 0 0 (win_groups os) (unat cpu) of
        None \<Rightarrow> Some (False, th)
      | Some (g, number) \<Rightarrow>
          if number \<ge> 64 then None
          else
            let aff = (g, push_bit number 1 :: u64) in
            Some (if win_set_affinity os aff then (True, th\<lparr>th_affinity := aff\<rparr>) else (False, th)))"

section \<open>Windows without processor groups\<close>

text \<open>
  \<^verbatim>\<open>DWORD_PTR\<close> has \<open>'w\<close> bits. \<^verbatim>\<open>SetThreadAffinityMask\<close> returns the old mask, or 0 when it fails; \<open>xp_last_error\<close> says
  whether \<^verbatim>\<open>GetLastError\<close> is then \<^verbatim>\<open>ERROR_INVALID_PARAMETER\<close>.
\<close>

record 'm xp_os =
  xp_set_mask :: "'m \<Rightarrow> bool"
  xp_invalid_parameter :: "'m \<Rightarrow> bool"

definition set_thread_affinity_mask :: "'w::len word xp_os \<Rightarrow> 'w word \<Rightarrow> 'w word thread \<Rightarrow> 'w word \<times> 'w word thread" where
  "set_thread_affinity_mask os m th = (if xp_set_mask os m then (th_affinity th, th\<lparr>th_affinity := m\<rparr>) else (0, th))"

text \<open>The loop that tries one processor after the other, \<open>k\<close> of them left.\<close>

fun save_loop_xp :: "'w::len word xp_os \<Rightarrow> nat \<Rightarrow> 'w word \<Rightarrow> 'w word thread \<Rightarrow> bool \<times> 'w word thread" where
  "save_loop_xp os 0 m th = (False, th)"
| "save_loop_xp os (Suc k) m th =
     (let (old, th) = set_thread_affinity_mask os m th; th = th\<lparr>th_saved := old\<rparr> in
      if old \<noteq> 0 then let (r, th) = set_thread_affinity_mask os old th in (r \<noteq> 0, th)
      else if \<not> xp_invalid_parameter os m then (False, th)
      else save_loop_xp os k (push_bit 1 m) th)"

definition save_cpu_affinity_xp :: "'w::len word xp_os \<Rightarrow> 'w word thread \<Rightarrow> bool \<times> 'w word thread" where
  "save_cpu_affinity_xp os th = save_loop_xp os LENGTH('w) 1 th"

definition restore_cpu_affinity_xp :: "'w::len word xp_os \<Rightarrow> 'w word thread \<Rightarrow> bool \<times> 'w word thread" where
  "restore_cpu_affinity_xp os th =
     (if th_saved th = 0 then (False, th)
      else let (r, th) = set_thread_affinity_mask os (th_saved th) th in (r \<noteq> 0, th))"

text \<open>
  \<^verbatim>\<open>return -1\<close> in a function that returns a \<^verbatim>\<open>bool\<close> is true. The shift is done with 64 bits before it is converted;
  a shift by 64 is undefined.
\<close>

definition set_cpu_affinity_xp ::
    "'w::len word xp_os \<Rightarrow> logical_cpu_t \<Rightarrow> 'w word thread \<Rightarrow> (bool \<times> 'w word thread) option" where
  "set_cpu_affinity_xp os cpu th =
     (if unat cpu > LENGTH('w) then Some (True, th)
      else if unat cpu \<ge> 64 then None
      else let (r, th) = set_thread_affinity_mask os (ucast (push_bit (unat cpu) 1 :: u64)) th in Some (r \<noteq> 0, th))"

section \<open>Solaris\<close>

text \<open>The affinity is the processor the thread is bound to, -1 for none. \<^verbatim>\<open>processorid_t\<close> has 32 bits.\<close>

record sun_os =
  sun_online :: int
  sun_query :: bool
  sun_bind :: "int \<Rightarrow> bool"

definition save_cpu_affinity_sun :: "sun_os \<Rightarrow> int thread \<Rightarrow> bool \<times> int thread" where
  "save_cpu_affinity_sun os th = (if sun_query os then (True, th\<lparr>th_saved := th_affinity th\<rparr>) else (False, th))"

definition restore_cpu_affinity_sun :: "sun_os \<Rightarrow> int thread \<Rightarrow> bool \<times> int thread" where
  "restore_cpu_affinity_sun os th =
     (if sun_bind os (th_saved th) then (True, th\<lparr>th_affinity := th_saved th\<rparr>) else (False, th))"

definition set_cpu_affinity_sun :: "sun_os \<Rightarrow> logical_cpu_t \<Rightarrow> int thread \<Rightarrow> bool \<times> int thread" where
  "set_cpu_affinity_sun os cpu th =
     (if unat cpu > 32 then (True, th)
      else if sun_bind os (uint cpu) then (True, th\<lparr>th_affinity := uint cpu\<rparr>) else (False, th))"

section \<open>The BSDs\<close>

text \<open>
  \<^verbatim>\<open>sysctl\<close> gives the number of processors or fails. FreeBSD and DragonFly pin a thread like Linux, with sets of
  processors; \<open>bsd_set\<close> is what their call answers for one set, and \<open>bsd_setsize\<close> how many bits a set has: \<^verbatim>\<open>CPU_SET\<close>
  does not compare its argument with it.
\<close>

record bsd_os =
  bsd_sysctl_ncpu :: "int option"
  bsd_get :: bool
  bsd_set :: "nat set \<Rightarrow> bool"
  bsd_setsize :: nat

definition get_total_cpus_bsd :: "int option \<Rightarrow> int" where
  "get_total_cpus_bsd ncpus = (case ncpus of None \<Rightarrow> 1 | Some n \<Rightarrow> n)"

definition save_cpu_affinity_bsd :: "bsd_os \<Rightarrow> nat set thread \<Rightarrow> bool \<times> nat set thread" where
  "save_cpu_affinity_bsd os th = (if bsd_get os then (True, th\<lparr>th_saved := th_affinity th\<rparr>) else (False, th))"

definition restore_cpu_affinity_bsd :: "bsd_os \<Rightarrow> nat set thread \<Rightarrow> bool \<times> nat set thread" where
  "restore_cpu_affinity_bsd os th =
     (if bsd_set os (th_saved th) then (True, th\<lparr>th_affinity := th_saved th\<rparr>) else (False, th))"

definition set_cpu_affinity_bsd :: "bsd_os \<Rightarrow> logical_cpu_t \<Rightarrow> nat set thread \<Rightarrow> (bool \<times> nat set thread) option" where
  "set_cpu_affinity_bsd os cpu th =
     (if unat cpu \<ge> bsd_setsize os then None
      else Some (if bsd_set os {unat cpu} then (True, th\<lparr>th_affinity := {unat cpu}\<rparr>) else (False, th)))"

text \<open>
  NetBSD allocates its sets: \<open>th_saved\<close> is \<^const>\<open>None\<close> for the null pointer. A user other than root needs a
  permission that \<^verbatim>\<open>sysctlbyname\<close> reads or fails to read. The null pointer of a failed allocation is dereferenced
  when the affinity is saved.
\<close>

record netbsd_os =
  net_sysctl_ncpu :: "int option"
  net_root :: bool
  net_user_set :: "int option"
  net_create :: bool
  net_cpuset_set :: "nat \<Rightarrow> bool"
  net_get :: bool
  net_set :: "nat set option \<Rightarrow> bool"

definition save_cpu_affinity_netbsd ::
    "netbsd_os \<Rightarrow> nat set option thread \<Rightarrow> (bool \<times> nat set option thread) option" where
  "save_cpu_affinity_netbsd os th =
     (if Option.is_none (th_saved th) \<and> \<not> net_create os then None
      else if net_get os then Some (True, th\<lparr>th_saved := th_affinity th\<rparr>)
      else Some (False, if Option.is_none (th_saved th) then th\<lparr>th_saved := Some {}\<rparr> else th))"

definition restore_cpu_affinity_netbsd :: "netbsd_os \<Rightarrow> nat set option thread \<Rightarrow> bool \<times> nat set option thread" where
  "restore_cpu_affinity_netbsd os th =
     (if Option.is_none (th_saved th) then (False, th)
      else
        let ret = net_set os (th_saved th);
          th = (if ret then th\<lparr>th_affinity := th_saved th\<rparr> else th)
        in (\<not> ret, th\<lparr>th_saved := None\<rparr>))"

definition set_cpu_affinity_netbsd ::
    "netbsd_os \<Rightarrow> logical_cpu_t \<Rightarrow> nat set option thread \<Rightarrow> bool \<times> nat set option thread" where
  "set_cpu_affinity_netbsd os cpu th =
     (if uint cpu \<ge> get_total_cpus_bsd (net_sysctl_ncpu os) then (False, th)
      else if \<not> net_root os \<and> net_user_set os \<in> {None, Some 0} then (False, th)
      else if \<not> net_create os then (False, th)
      else if \<not> net_cpuset_set os (unat cpu) then (False, th)
      else if net_set os (Some {unat cpu}) then (True, th\<lparr>th_affinity := Some {unat cpu}\<rparr>)
      else (False, th))"

section \<open>Other systems\<close>

definition get_total_cpus_unknown :: int where "get_total_cpus_unknown = 1"

definition save_cpu_affinity_unknown :: "'m thread \<Rightarrow> bool \<times> 'm thread" where
  "save_cpu_affinity_unknown th = (False, th)"

definition restore_cpu_affinity_unknown :: "'m thread \<Rightarrow> bool \<times> 'm thread" where
  "restore_cpu_affinity_unknown th = (False, th)"

definition set_cpu_affinity_unknown :: "logical_cpu_t \<Rightarrow> 'm thread \<Rightarrow> bool \<times> 'm thread" where
  "set_cpu_affinity_unknown cpu th = (False, th)"


section \<open>Properties\<close>

lemma find_group_None: "t \<le> c \<Longrightarrow> find_group i t counts c = None \<longleftrightarrow> t + sum_list counts \<le> c"
  by (induction counts arbitrary: i t) auto

lemma find_group_Some:
  "t \<le> c \<Longrightarrow> find_group i t counts c = Some (g, k) \<Longrightarrow>
     i \<le> g \<and> g - i < length counts \<and> k < counts ! (g - i) \<and> t + sum_list (take (g - i) counts) + k = c"
proof (induction counts arbitrary: i t)
  case (Cons p counts)
  show ?case
  proof (cases "t + p > c")
    case True
    then show ?thesis using Cons.prems by auto
  next
    case False
    then have "find_group (Suc i) (t + p) counts c = Some (g, k)" using Cons.prems by simp
    from Cons.IH [OF _ this] False
    have g: "Suc i \<le> g" "g - Suc i < length counts" "k < counts ! (g - Suc i)"
      "t + p + sum_list (take (g - Suc i) counts) + k = c" by simp_all
    then have "g - i = Suc (g - Suc i)" by simp
    then show ?thesis using g by simp
  qed
qed simp

text \<open>
  On Windows with processor groups of at most 64 processors, set_cpu_affinity numbers the processors through all
  groups, in order: it asks for exactly the processor of that number, alone in the mask of its group, and fails
  without a change when there is none.
\<close>

theorem set_cpu_affinity_win_spec:
  assumes "\<forall>p \<in> set (win_groups os). p \<le> 64"
  shows "if unat cpu < sum_list (win_groups os)
    then \<exists>g k. g < length (win_groups os) \<and> k < win_groups os ! g \<and> sum_list (take g (win_groups os)) + k = unat cpu \<and>
      set_cpu_affinity_win os cpu th =
        Some (if win_set_affinity os (g, push_bit k 1) then (True, th\<lparr>th_affinity := (g, push_bit k 1)\<rparr>) else (False, th))
    else set_cpu_affinity_win os cpu th = Some (False, th)"
proof (cases "unat cpu < sum_list (win_groups os)")
  case True
  then obtain g k where found: "find_group 0 0 (win_groups os) (unat cpu) = Some (g, k)"
    using find_group_None [of 0 "unat cpu" 0 "win_groups os"]
    by (cases "find_group 0 0 (win_groups os) (unat cpu)") auto
  from find_group_Some [OF _ this]
  have g: "g < length (win_groups os)" "k < win_groups os ! g" "sum_list (take g (win_groups os)) + k = unat cpu"
    by simp_all
  moreover have "k < 64" using g(1,2) assms by (meson nth_mem less_le_trans)
  ultimately show ?thesis
    using True found by (simp add: set_cpu_affinity_win_def Let_def) blast
next
  case False
  then have "find_group 0 0 (win_groups os) (unat cpu) = None" by (simp add: find_group_None)
  then show ?thesis using False by (simp add: set_cpu_affinity_win_def)
qed

definition two_groups :: win_os where
  "two_groups = \<lparr>win_groups = [64, 8], win_get_affinity = True, win_set_affinity = \<lambda>_. True\<rparr>"

theorem set_cpu_affinity_win_spec_witness:
  "set_cpu_affinity_win two_groups 66 \<lparr>th_affinity = (0, 1), th_saved = (0, 0), th_errno = ERR_OK\<rparr> =
     Some (True, \<lparr>th_affinity = (1, 4), th_saved = (0, 0), th_errno = ERR_OK\<rparr>)"
proof -
  let ?th = "\<lparr>th_affinity = (0, 1), th_saved = (0, 0), th_errno = ERR_OK\<rparr>"
  have "\<forall>p \<in> set (win_groups two_groups). p \<le> 64" by (simp add: two_groups_def)
  from set_cpu_affinity_win_spec [OF this, of 66 ?th]
  obtain g k where g: "g < 2" "k < [64, 8] ! g" "sum_list (take g [64, 8]) + k = 66"
    and run: "set_cpu_affinity_win two_groups 66 ?th = Some (True, ?th\<lparr>th_affinity := (g, push_bit k 1)\<rparr>)"
    by (auto simp: two_groups_def)
  have "g = 1 \<and> k = 2" using g by (cases g) auto
  then show ?thesis using run by simp
qed

text \<open>Saving the affinity on an old Windows finds out the old mask by setting another, and sets it back.\<close>

lemma save_loop_xp_keeps:
  assumes "save_loop_xp os k m th = (True, th')" and "th_affinity th \<noteq> 0"
  shows "th_saved th' = th_affinity th \<and> th_affinity th' = th_affinity th \<and> th_errno th' = th_errno th"
  using assms
proof (induction k arbitrary: m th)
  case (Suc k)
  show ?case
  proof (cases "xp_set_mask os m")
    case True
    then show ?thesis
      using Suc.prems by (auto simp: set_thread_affinity_mask_def Let_def split: if_splits)
  next
    case False
    then have "save_loop_xp os k (push_bit 1 m) (th\<lparr>th_saved := 0\<rparr>) = (True, th')"
      using Suc.prems by (simp add: set_thread_affinity_mask_def Let_def mult.commute split: if_splits)
    from Suc.IH [OF this] Suc.prems(2) show ?thesis by simp
  qed
qed simp

lemma save_cpu_affinity_xp_keeps:
  assumes "save_cpu_affinity_xp os th = (True, th')" and "th_affinity th \<noteq> 0"
  shows "th' = th\<lparr>th_saved := th_affinity th\<rparr>"
  using save_loop_xp_keeps [OF assms(1) [unfolded save_cpu_affinity_xp_def] assms(2)]
  by (cases th; cases th') simp

text \<open>On Solaris, where pinning succeeds for every processor above 32, nothing ends the loop over the processors.\<close>

lemma sun_loop_undefined:
  assumes pins: "set_cpu_affinity os = set_cpu_affinity_sun sun" and bind: "\<forall>c \<in> {0..32}. sun_bind sun c"
    and "os_cpuid_present os" and "c \<le> 65535" and "num_raw data = of_nat c" and "length (raw_items data) = c"
  shows "all_raw_loop os (\<lambda>_. True) (of_nat c) data th = None"
  using assms(4-)
proof (induction "65535 - c" arbitrary: c data th)
  case 0
  then have c: "of_nat c = (65535 :: u16)" "num_raw data = 65535" by simp_all
  obtain raw th1 where "cpuid_get_raw_data_core os raw_data_t_constructor 65535 th = (ERR_OK, raw, th1)"
    using assms(3) by (simp add: cpuid_get_raw_data_core_def)
  then show ?case
    unfolding c(1) by (subst all_raw_loop.simps) (simp add: c(2) cpuid_grow_raw_data_array_def)
next
  case (Suc k)
  then have c: "c < 65535" by simp
  then have u: "unat (of_nat c :: u16) = c" by (simp add: unat_of_nat_less)
  then have ui: "uint (of_nat c :: u16) = int c" using uint_nat [of "of_nat c :: u16"] by simp
  have "fst (set_cpu_affinity os (of_nat c) th)"
    unfolding pins using bind u ui by (auto simp: set_cpu_affinity_sun_def)
  then have "os_pin os (of_nat c) (th_affinity th) \<noteq> None"
    by (auto simp: set_cpu_affinity_def split: option.splits)
  then obtain raw th1 where "cpuid_get_raw_data_core os raw_data_t_constructor (of_nat c) th = (ERR_OK, raw, th1)"
    using cpuid_get_raw_data_core_spec [where os = os and data = raw_data_t_constructor and cpu = "of_nat c" and th = th] assms(3)
    by (auto split: prod.splits)
  note step = all_raw_loop_step [OF this c Suc.prems(2,3)]
  show ?case
    unfolding step by (rule Suc.hyps(1)) (use Suc.hyps(2) Suc.prems c in simp_all)
qed

text \<open>
  C19: On a Solaris machine of more than 32 processors, whatever their number, cpuid_get_all_raw_data never stops
  before its 16-bit counter wraps, and then stores outside its array: set_cpu_affinity says -1, that is true, for
  every processor above 32, whether it exists or not.
\<close>

theorem sun_many_processors:
  assumes "set_cpu_affinity os = set_cpu_affinity_sun sun" and "\<forall>c \<in> {0..32}. sun_bind sun c"
    and "os_cpuid_present os"
  shows "cpuid_get_all_raw_data os (\<lambda>_. True) (Some any) th = None"
  using sun_loop_undefined [OF assms, of 0 "cpu_raw_data_array_t_constructor True" th]
  by (simp add: cpuid_get_all_raw_data_def cpu_raw_data_array_t_constructor_def)

definition sun_33 :: sun_os where
  "sun_33 = \<lparr>sun_online = 33, sun_query = True, sun_bind = \<lambda>c. c = - 1 \<or> 0 \<le> c \<and> c \<le> 32\<rparr>"

definition os_33 :: "int os" where
  "os_33 = \<lparr>os_pin = \<lambda>c a. if unat c > 32 then Some a else Some (uint c), os_getaffinity_ok = True,
     os_setaffinity_ok = True, os_cpuid_present = True, os_cpuid = \<lambda>a r. r\<lparr>EDX := of_int a\<rparr>, os_total_cpus = 33\<rparr>"

theorem sun_many_processors_witness:
  "cpuid_get_all_raw_data os_33 (\<lambda>_. True) (Some (cpu_raw_data_array_t_constructor True))
     \<lparr>th_affinity = - 1, th_saved = - 1, th_errno = ERR_OK\<rparr> = None"
proof (rule sun_many_processors)
  show "set_cpu_affinity os_33 = set_cpu_affinity_sun sun_33"
  proof (intro ext)
    fix cpu :: logical_cpu_t and th :: "int thread"
    have "uint cpu \<le> 32" if "\<not> 32 < unat cpu"
      using that uint_nat [of cpu] by linarith
    then show "set_cpu_affinity os_33 cpu th = set_cpu_affinity_sun sun_33 cpu th"
      by (simp add: set_cpu_affinity_def set_cpu_affinity_sun_def os_33_def sun_33_def)
  qed
qed (simp_all add: sun_33_def os_33_def)

end
