(* ===== verification/Arm_Freebsd.thy ===== *)
theory Arm_Freebsd
  imports Arm_Driver
begin

text \<open>
  The kernel module for FreeBSD (\<^verbatim>\<open>drivers/arm/freebsd/cpuid.c\<close>). It reads the same registers as the module for
  Linux, but moves the calling thread to the processor itself.

  The thread is its \<^verbatim>\<open>td_oncpu\<close> and the processor it is bound to. \<^verbatim>\<open>sched_bind\<close> binds the thread and moves it there,
  \<^verbatim>\<open>sched_unbind\<close> only takes the binding away. The kernel is a record: the number of processors, which of them
  \<^verbatim>\<open>pmc_cpu_is_disabled\<close> names, and whether it was built with \<^verbatim>\<open>INVARIANTS\<close>: a \<^verbatim>\<open>KASSERT\<close> that fails is then a panic,
  here \<^const>\<open>None\<close>, and otherwise has no effect.
\<close>

section \<open>Threads\<close>

record fbsd_thread =
  td_oncpu :: nat
  td_bound :: "nat option"

record fbsd_kernel =
  mp_maxid :: nat
  pmc_cpu_is_disabled :: "nat \<Rightarrow> bool"
  invariants :: bool

definition sched_bind :: "nat \<Rightarrow> fbsd_thread \<Rightarrow> fbsd_thread" where
  "sched_bind cpu td = td\<lparr>td_oncpu := cpu, td_bound := Some cpu\<rparr>"

definition sched_unbind :: "fbsd_thread \<Rightarrow> fbsd_thread" where
  "sched_unbind td = td\<lparr>td_bound := None\<rparr>"

definition kassert :: "fbsd_kernel \<Rightarrow> bool \<Rightarrow> unit option" where
  "kassert k b = (if invariants k \<and> \<not> b then None else Some ())"

definition cpu_enabled :: "fbsd_kernel \<Rightarrow> nat \<Rightarrow> bool" where
  "cpu_enabled k cpu \<longleftrightarrow> \<not> pmc_cpu_is_disabled k cpu"

definition cpu_sched_is_bound :: "fbsd_thread \<Rightarrow> bool" where
  "cpu_sched_is_bound td \<longleftrightarrow> td_bound td \<noteq> None"

definition set_cpu :: "fbsd_kernel \<Rightarrow> nat \<Rightarrow> fbsd_thread \<Rightarrow> fbsd_thread option" where
  "set_cpu k cpu td = do {
     _ \<leftarrow> kassert k (cpu \<le> mp_maxid k \<and> cpu_enabled k cpu);
     let td = sched_bind cpu td;
     _ \<leftarrow> kassert k (td_oncpu td = cpu);
     Some td
   }"

definition restore_cpu :: "fbsd_kernel \<Rightarrow> nat \<Rightarrow> bool \<Rightarrow> fbsd_thread \<Rightarrow> fbsd_thread option" where
  "restore_cpu k oldcpu is_bound td = do {
     _ \<leftarrow> kassert k (oldcpu \<le> mp_maxid k \<and> cpu_enabled k oldcpu);
     Some (if \<not> is_bound then sched_unbind td else sched_bind oldcpu td)
   }"

section \<open>Reading a register\<close>

text \<open>The registers are those of the processor on which the thread runs.\<close>

definition read_reg_freebsd ::
    "'m arm_os \<Rightarrow> fbsd_kernel \<Rightarrow> nat \<Rightarrow> read_reg_t \<Rightarrow> fbsd_thread \<Rightarrow> (read_reg_t \<times> fbsd_thread) option" where
  "read_reg_freebsd os k cpu r td = do {
     _ \<leftarrow> kassert k (cpu \<le> mp_maxid k);
     let oldcpu = td_oncpu td;
     let is_bound = cpu_sched_is_bound td;
     td \<leftarrow> set_cpu k cpu td;
     let r = r\<lparr>value_64b := 0\<rparr>;
     let r = (case List.find (\<lambda>row. request_code (fst row) = request r) (sysregs (arm_aarch64 os)) of
         Some (_, Value_64b, a32, a64) \<Rightarrow> r\<lparr>value_64b := cpuid_read_sysreg os (td_oncpu td) a32 a64\<rparr>
       | Some (_, Value_32b, a32, a64) \<Rightarrow> set_value_32b (ucast (cpuid_read_sysreg os (td_oncpu td) a32 a64)) r
       | None \<Rightarrow> r\<lparr>request := REQ_INVALID\<rparr>);
     td \<leftarrow> restore_cpu k oldcpu is_bound td;
     Some (r, td)
   }"

abbreviation (input) ENXIO :: int where "ENXIO \<equiv> 6"
abbreviation (input) EINVAL :: int where "EINVAL \<equiv> 22"

text \<open>\<open>unit\<close> is \<^verbatim>\<open>dev2unit(dev)\<close>. The kernel copies the structure in and out.\<close>

definition cpuid_ioctl_freebsd ::
    "'m arm_os \<Rightarrow> fbsd_kernel \<Rightarrow> nat \<Rightarrow> ioctl_request \<Rightarrow> read_reg_t \<Rightarrow> fbsd_thread \<Rightarrow>
      (int \<times> read_reg_t \<times> fbsd_thread) option" where
  "cpuid_ioctl_freebsd os k unit cmd data td =
     (if unit > mp_maxid k \<or> \<not> cpu_enabled k unit then Some (ENXIO, data, td)
      else case cmd of
          ARM_IOC_READ_REG \<Rightarrow> map_option (\<lambda>(r, td). (0, r, td)) (read_reg_freebsd os k unit data td)
        | Other_ioctl \<Rightarrow> Some (EINVAL, data, td))"

section \<open>The module\<close>

text \<open>
  \<^verbatim>\<open>cpuid_devs\<close> is an array of \<open>mp_maxid + 1\<close> devices, each there or a null pointer; the devices that exist in the
  kernel are a list. \<open>present\<close> has the processors of \<^verbatim>\<open>CPU_FOREACH\<close>.
\<close>

datatype mod_event = MOD_LOAD | MOD_UNLOAD | MOD_SHUTDOWN | MOD_QUIESCE

record fbsd_module =
  cpuid_devs :: "bool list option"
  devices :: "nat list"

abbreviation (input) EOPNOTSUPP :: int where "EOPNOTSUPP \<equiv> 45"

fun load_devices :: "fbsd_kernel \<Rightarrow> nat list \<Rightarrow> bool list \<Rightarrow> nat list \<Rightarrow> (bool list \<times> nat list) option" where
  "load_devices k [] devs made = Some (devs, made)"
| "load_devices k (cpu # cpus) devs made =
     (if \<not> cpu_enabled k cpu then load_devices k cpus devs made
      else if cpu \<ge> length devs then None
      else load_devices k cpus (devs[cpu := True]) (cpu # made))"

fun unload_devices :: "nat list \<Rightarrow> bool list \<Rightarrow> nat list \<Rightarrow> nat list option" where
  "unload_devices [] devs made = Some made"
| "unload_devices (cpu # cpus) devs made =
     (if cpu \<ge> length devs then None
      else unload_devices cpus devs (if devs ! cpu then remove1 cpu made else made))"

definition cpuid_modevent ::
    "fbsd_kernel \<Rightarrow> nat list \<Rightarrow> mod_event \<Rightarrow> fbsd_module \<Rightarrow> (int \<times> fbsd_module) option" where
  "cpuid_modevent k present event m =
     (case event of
        MOD_LOAD \<Rightarrow> do {
          (devs, made) \<leftarrow> load_devices k present (replicate (mp_maxid k + 1) False) (devices m);
          Some (0, m\<lparr>cpuid_devs := Some devs, devices := made\<rparr>) }
      | MOD_UNLOAD \<Rightarrow> do {
          devs \<leftarrow> cpuid_devs m;
          made \<leftarrow> unload_devices present devs (devices m);
          Some (0, m\<lparr>cpuid_devs := None, devices := made\<rparr>) }
      | MOD_SHUTDOWN \<Rightarrow> Some (0, m)
      | MOD_QUIESCE \<Rightarrow> Some (EOPNOTSUPP, m))"

section \<open>Properties\<close>

definition td_ok :: "fbsd_kernel \<Rightarrow> fbsd_thread \<Rightarrow> bool" where
  "td_ok k td \<longleftrightarrow> td_oncpu td \<le> mp_maxid k \<and> cpu_enabled k (td_oncpu td) \<and>
     (\<forall>cpu. td_bound td = Some cpu \<longrightarrow> td_oncpu td = cpu)"

text \<open>
  C16: The module for FreeBSD agrees with the module for Linux: for a processor that exists and is enabled it stores
  the same value of the register of the request, and the same answer for a number that is no request. The thread
  keeps its binding, a bound thread also its processor, and no assertion fails.
\<close>

theorem freebsd_agrees_with_linux:
  assumes "td_ok k td" and "unit \<le> mp_maxid k" and "cpu_enabled k unit" and "driver_works os fd unit"
  shows "\<exists>td'. cpuid_ioctl_freebsd os k unit ARM_IOC_READ_REG r td =
      Some (fst (cpuid_ioctl os fd ARM_IOC_READ_REG r), snd (cpuid_ioctl os fd ARM_IOC_READ_REG r), td') \<and>
    td_bound td' = td_bound td \<and> (td_bound td \<noteq> None \<longrightarrow> td' = td)"
  using assms
  by (cases "td_bound td"; cases td)
    (auto simp: cpuid_ioctl_freebsd_def read_reg_freebsd_def ioctl_works read_reg_on_cpu_def td_ok_def kassert_def
      set_cpu_def restore_cpu_def sched_bind_def sched_unbind_def cpu_sched_is_bound_def Let_def
      split: option.split reg_value.split prod.split)

theorem freebsd_agrees_with_linux_witness:
  "\<exists>r td'. cpuid_ioctl_freebsd sample_arm_os \<lparr>mp_maxid = 3, pmc_cpu_is_disabled = \<lambda>_. False, invariants = True\<rparr> 2
      ARM_IOC_READ_REG \<lparr>request = 0, value_64b = 99\<rparr> \<lparr>td_oncpu = 1, td_bound = Some 1\<rparr> =
      Some (0, r, \<lparr>td_oncpu = 1, td_bound = Some 1\<rparr>) \<and> value_64b r = 0x410fd082"
proof -
  let ?k = "\<lparr>mp_maxid = 3, pmc_cpu_is_disabled = \<lambda>_. False, invariants = True\<rparr>"
    and ?td = "\<lparr>td_oncpu = 1, td_bound = Some 1\<rparr>" and ?r = "\<lparr>request = 0, value_64b = 99\<rparr>"
  have "td_ok ?k ?td" "2 \<le> mp_maxid ?k" "cpu_enabled ?k 2"
    by (simp_all add: td_ok_def cpu_enabled_def)
  from freebsd_agrees_with_linux [OF this sample_driver, of ?r]
  have run: "cpuid_ioctl_freebsd sample_arm_os ?k 2 ARM_IOC_READ_REG ?r ?td =
      Some (0, read_reg_on_cpu sample_arm_os 2 ?r, ?td)"
    by (simp add: ioctl_works [OF sample_driver])
  have "value_64b (read_reg_on_cpu sample_arm_os 2 ?r) = 0x410fd082"
    unfolding read_reg_on_cpu_row
    by (simp add: sample_arm_os_def length_sysregs sysregs_slices cpuid_read_sysreg_def)
  with run show ?thesis by blast
qed

text \<open>Loading makes a device for exactly the enabled processors; unloading takes them back.\<close>

lemma load_devices_spec:
  assumes "\<forall>cpu \<in> set cpus. cpu < length devs"
  shows "load_devices k cpus devs made =
    Some (map (\<lambda>i. devs ! i \<or> i \<in> set cpus \<and> cpu_enabled k i) [0..<length devs], rev (filter (cpu_enabled k) cpus) @ made)"
  using assms
proof (induction cpus arbitrary: devs made)
  case Nil
  then show ?case by (simp add: map_nth)
next
  case (Cons cpu cpus)
  show ?case
  proof (cases "cpu_enabled k cpu")
    case True
    have "load_devices k (cpu # cpus) devs made = load_devices k cpus (devs[cpu := True]) (cpu # made)"
      using True Cons.prems by simp
    also have "\<dots> = Some (map (\<lambda>i. devs[cpu := True] ! i \<or> i \<in> set cpus \<and> cpu_enabled k i) [0..<length devs],
        rev (filter (cpu_enabled k) cpus) @ cpu # made)"
      using Cons.IH [of "devs[cpu := True]" "cpu # made"] Cons.prems by simp
    also have "map (\<lambda>i. devs[cpu := True] ! i \<or> i \<in> set cpus \<and> cpu_enabled k i) [0..<length devs] =
        map (\<lambda>i. devs ! i \<or> i \<in> set (cpu # cpus) \<and> cpu_enabled k i) [0..<length devs]"
      using True Cons.prems by (auto simp: nth_list_update)
    finally show ?thesis using True by simp
  next
    case False
    then have "load_devices k (cpu # cpus) devs made = load_devices k cpus devs made" by simp
    also have "\<dots> = Some (map (\<lambda>i. devs ! i \<or> i \<in> set cpus \<and> cpu_enabled k i) [0..<length devs],
        rev (filter (cpu_enabled k) cpus) @ made)"
      using Cons.IH [of devs made] Cons.prems by simp
    finally show ?thesis using False by auto
  qed
qed

lemma unload_devices_spec:
  assumes "\<forall>cpu \<in> set cpus. cpu < length devs" and "mset made = mset (filter (\<lambda>cpu. devs ! cpu) cpus)"
  shows "unload_devices cpus devs made = Some []"
  using assms
proof (induction cpus arbitrary: made)
  case (Cons cpu cpus)
  then show ?case by (cases "devs ! cpu") (auto simp: mset_remove1)
qed simp

theorem freebsd_module_load_unload:
  assumes "\<forall>cpu \<in> set present. cpu \<le> mp_maxid k" and "devices m = []"
  shows "\<exists>devs. cpuid_modevent k present MOD_LOAD m =
      Some (0, m\<lparr>cpuid_devs := Some devs, devices := rev (filter (cpu_enabled k) present)\<rparr>) \<and>
    cpuid_modevent k present MOD_UNLOAD (m\<lparr>cpuid_devs := Some devs, devices := rev (filter (cpu_enabled k) present)\<rparr>) =
      Some (0, m\<lparr>cpuid_devs := None\<rparr>)"
proof -
  define N where "N = mp_maxid k + 1"
  define devs where "devs = map (\<lambda>i. i \<in> set present \<and> cpu_enabled k i) [0..<N]"
  have less: "\<forall>cpu \<in> set present. cpu < N" using assms(1) by (auto simp: N_def)
  have "map (\<lambda>i. replicate N False ! i \<or> i \<in> set present \<and> cpu_enabled k i) [0..<N] = devs"
    by (auto simp: devs_def)
  then have load: "load_devices k present (replicate N False) [] = Some (devs, rev (filter (cpu_enabled k) present))"
    using less load_devices_spec [of present "replicate N False" k "[]"] by simp
  have "filter (\<lambda>cpu. devs ! cpu) present = filter (cpu_enabled k) present"
    using less by (auto simp: devs_def intro!: filter_cong)
  then have "unload_devices present devs (rev (filter (cpu_enabled k) present)) = Some []"
    using less by (intro unload_devices_spec) (auto simp: devs_def)
  with load assms(2) show ?thesis
    by (intro exI [of _ devs]) (simp add: cpuid_modevent_def N_def)
qed

end
