(* ===== verification/Msr_Windows.thy ===== *)
theory Msr_Windows
  imports Msr_Errors
begin

text \<open>
  Reading model-specific registers on other systems than Linux (\<^verbatim>\<open>rdmsr.c\<close>): on FreeBSD through \<^verbatim>\<open>/dev/cpuctl\<close>, on
  Windows through a kernel driver that the library carries with it, installs as a service and talks to
  (\<^verbatim>\<open>src/drivers/x86/windows/msr/Kernel/TmpRdr.c\<close>).

  The answers of the Windows API are the record \<open>win_api\<close>. The state has the handles that are open, how often a
  handle was closed that was not open, and the structures that were allocated and not freed. The images of the
  compiled driver are data; only whether a file with them can be written matters.
\<close>

section \<open>FreeBSD\<close>

definition msr_path_freebsd :: "u32 \<Rightarrow> string" where
  "msr_path_freebsd core_num = take (MSR_PATH_LEN - 1) (''/dev/cpuctl'' @ dec_digits (unat core_num))"

text \<open>As on Linux, with the module \<^verbatim>\<open>cpuctl\<close> to load; the descriptor stays open when there is no memory.\<close>

definition cpu_msr_driver_open_core_freebsd ::
    "'m msr_env \<Rightarrow> u32 \<Rightarrow> 'm msr_state \<Rightarrow> (int option \<times> 'm msr_state) option" where
  "cpu_msr_driver_open_core_freebsd env core_num s =
     (if core_num \<ge> of_int (os_total_cpus (env_os env)) then Some (None, msr_set_error ERR_INVCNB s)
      else do {
        (supported, s) \<leftarrow> rdmsr_supported env s;
        let path = msr_path_freebsd core_num;
        Some (if \<not> supported then (None, msr_set_error ERR_NO_RDMSR s)
              else if \<not> msr_load_driver env path then (None, msr_set_error ERR_NO_DRIVER s)
              else case dev_open env path of
                  Open_EIO \<Rightarrow> (None, msr_set_error ERR_NO_RDMSR s)
                | Open_failed \<Rightarrow> (None, msr_set_error ERR_NO_DRIVER s)
                | Opened fd \<Rightarrow>
                    if \<not> dev_malloc env then (None, msr_set_error ERR_NO_MEM s) else (Some fd, s)) })"

text \<open>\<open>msr_value\<close> is what the \<^verbatim>\<open>ioctl\<close> returns; the variable of the caller is left alone when it fails.\<close>

definition cpu_rdmsr_freebsd ::
    "'m msr_env \<Rightarrow> int option \<Rightarrow> u32 \<Rightarrow> u64 \<Rightarrow> 'm msr_state \<Rightarrow> cpu_error_t \<times> u64 \<times> 'm msr_state" where
  "cpu_rdmsr_freebsd env handle msr_index result s =
     (case handle of
        None \<Rightarrow> (ERR_HANDLE, result, msr_set_error ERR_HANDLE s)
      | Some fd \<Rightarrow>
          if fd < 0 then (ERR_HANDLE, result, msr_set_error ERR_HANDLE s)
          else
            let ret = msr_value env (ms_reads s) fd msr_index; s = s\<lparr>ms_reads := Suc (ms_reads s)\<rparr> in
            (case ret of
               None \<Rightarrow> (ERR_INVMSR, result, msr_set_error ERR_INVMSR s)
             | Some v \<Rightarrow> (ERR_OK, v, s)))"

text \<open>
  On Linux and FreeBSD, closing gives back the descriptor and the structure; the state is the descriptors that are open
  and the structures that are allocated.
\<close>

definition cpu_msr_driver_close :: "int option \<Rightarrow> int set \<times> nat \<Rightarrow> int set \<times> nat" where
  "cpu_msr_driver_close drv s =
     (case drv of
        None \<Rightarrow> s
      | Some fd \<Rightarrow> if fd \<ge> 0 then (fst s - {fd}, snd s - 1) else s)"

section \<open>The kernel driver for Windows\<close>

abbreviation (input) STATUS_SUCCESS :: u32 where "STATUS_SUCCESS \<equiv> 0"
abbreviation (input) STATUS_UNSUCCESSFUL :: u32 where "STATUS_UNSUCCESSFUL \<equiv> 0xC0000001"

datatype ioctl_code = IOCTL_PROCVIEW_RDMSR | Other_control_code

text \<open>The request: its status, how many bytes it returns, and the buffer that is input and output.\<close>

record irp =
  io_status :: u32
  io_information :: nat
  system_buffer :: u64

text \<open>\<open>readmsr\<close> is \<^verbatim>\<open>__readmsr\<close>: \<^const>\<open>None\<close> for a register that does not exist, which stops the system.\<close>

definition dispatch_ioctl ::
    "(u32 \<Rightarrow> u64 option) \<Rightarrow> ioctl_code \<Rightarrow> nat \<Rightarrow> nat \<Rightarrow> irp \<Rightarrow> (u32 \<times> irp) option" where
  "dispatch_ioctl readmsr code input_length output_length i =
     (if code = IOCTL_PROCVIEW_RDMSR \<and> output_length \<ge> 8 then do {
        let reg = (if input_length = 4 then ucast (system_buffer i) else 0x19c);
        v \<leftarrow> readmsr reg;
        Some (STATUS_SUCCESS, i\<lparr>system_buffer := v, io_information := 8\<rparr>)
      }
      else Some (STATUS_UNSUCCESSFUL, i\<lparr>io_status := STATUS_UNSUCCESSFUL, io_information := 0\<rparr>))"

text \<open>
  Loading and unloading the driver: the device, its symbolic link, and the handlers. The results are those of
  \<^verbatim>\<open>IoCreateDevice\<close> and \<^verbatim>\<open>IoCreateSymbolicLink\<close>.
\<close>

record tmprdr =
  device_object :: bool
  symbolic_link :: bool
  handlers :: bool

definition driver_entry :: "u32 \<Rightarrow> u32 \<Rightarrow> tmprdr \<Rightarrow> u32 \<times> tmprdr" where
  "driver_entry create_device create_link d =
     (if create_device \<noteq> STATUS_SUCCESS then (create_device, d)
      else
        let d = d\<lparr>device_object := True\<rparr> in
        if create_link \<noteq> STATUS_SUCCESS then (create_link, d\<lparr>device_object := False\<rparr>)
        else (STATUS_SUCCESS, d\<lparr>symbolic_link := True, handlers := True\<rparr>))"

definition dispatch_create_close :: "irp \<Rightarrow> u32 \<times> irp" where
  "dispatch_create_close i = (STATUS_SUCCESS, i\<lparr>io_status := STATUS_SUCCESS, io_information := 0\<rparr>)"

definition unload_driver :: "tmprdr \<Rightarrow> tmprdr" where
  "unload_driver d = d\<lparr>device_object := False, symbolic_link := False\<rparr>"

section \<open>Windows\<close>

datatype win_handle = Manager_handle | Service_handle | Device_handle | Event_handle
datatype win_file = No_file | Invalid_file | File
datatype create_result = Service_created | Service_exists | Access_denied | Create_failed
datatype start_result = Service_started | Already_running | Start_failed
datatype service_state = SERVICE_RUNNING | SERVICE_STOPPED | Pending

record win_api =
  temp_path :: "string option"
  temp_writable :: bool
  scm_opens :: bool
  create_service :: create_result
  service_opens :: bool
  config_size :: bool
  config_read :: bool
  start_service :: start_result
  query_status :: "nat \<Rightarrow> (service_state \<times> nat) option"
  device_opens :: bool
  event_created :: bool
  service_stops :: bool
  readmsr :: "u32 \<Rightarrow> u64 option"

record msr_driver =
  scManager :: bool
  scDriver :: bool
  hhDriver :: win_file
  hEvent :: bool
  errorcode :: int

record win_state =
  handles :: "win_handle list"
  bad_closes :: nat
  allocated :: nat
  service_deleted :: bool
  queries :: nat
  slept :: nat

definition open_handle :: "win_handle \<Rightarrow> win_state \<Rightarrow> win_state" where
  "open_handle h s = s\<lparr>handles := h # handles s\<rparr>"

definition close_handle :: "win_handle \<Rightarrow> win_state \<Rightarrow> win_state" where
  "close_handle h s =
     (if h \<in> set (handles s) then s\<lparr>handles := remove1 h (handles s)\<rparr> else s\<lparr>bad_closes := bad_closes s + 1\<rparr>)"

definition delete_service :: "win_state \<Rightarrow> win_state" where
  "delete_service s = s\<lparr>service_deleted := True\<rparr>"

text \<open>The pause between two questions for the state of the service, in milliseconds.\<close>

definition wait_hint :: "nat \<Rightarrow> nat" where
  "wait_hint hint =
     (let w = hint div 10; w = (if w < 1000 then 1000 else w) in if w > 10000 then 10000 else w)"

text \<open>\<^verbatim>\<open>hService\<close> is never null here. The loop may wait for ever.\<close>

partial_function (option) wait_for_service_state ::
    "win_api \<Rightarrow> service_state \<Rightarrow> win_state \<Rightarrow> (bool \<times> win_state) option" where
  "wait_for_service_state api desired s =
     (let status = query_status api (queries s); s = s\<lparr>queries := Suc (queries s)\<rparr> in
      case status of
        None \<Rightarrow> Some (False, s)
      | Some (state, hint) \<Rightarrow>
          if state = desired then Some (True, s)
          else wait_for_service_state api desired (s\<lparr>slept := slept s + wait_hint hint\<rparr>))"

text \<open>\<^verbatim>\<open>GetTempPath\<close> fills at most 261 characters; appending the name of the file may leave the buffer.\<close>

abbreviation (input) MAX_PATH :: nat where "MAX_PATH \<equiv> 260"

definition extract_driver :: "win_api \<Rightarrow> bool option" where
  "extract_driver api =
     (case temp_path api of
        None \<Rightarrow> Some False
      | Some path \<Rightarrow>
          if length (path @ ''TmpRdr.sys'') > MAX_PATH then None
          else Some (temp_writable api))"

text \<open>The label \<^verbatim>\<open>clean_up\<close> of \<^verbatim>\<open>load_driver\<close>, and the parts of the function before it.\<close>

definition clean_up :: "msr_driver \<Rightarrow> win_state \<Rightarrow> bool \<times> msr_driver \<times> win_state" where
  "clean_up drv s =
     (let (drv, s) = (if scManager drv then (drv\<lparr>scManager := False\<rparr>, close_handle Manager_handle s) else (drv, s));
        (drv, s) = (if scDriver drv then (drv\<lparr>scDriver := False\<rparr>, close_handle Service_handle (delete_service s)) else (drv, s))
      in (False, drv, s))"

text \<open>The first result is false for \<^verbatim>\<open>goto clean_up\<close>.\<close>

definition obtain_service :: "win_api \<Rightarrow> msr_driver \<Rightarrow> win_state \<Rightarrow> bool \<times> msr_driver \<times> win_state" where
  "obtain_service api drv s =
     (case create_service api of
        Service_created \<Rightarrow> (True, drv\<lparr>scDriver := True\<rparr>, open_handle Service_handle s)
      | Service_exists \<Rightarrow>
          if \<not> service_opens api then (True, drv, s)
          else
            let drv = drv\<lparr>scDriver := True\<rparr>; s = open_handle Service_handle s
            in (config_size api \<and> config_read api, drv, s)
      | Access_denied \<Rightarrow> (True, drv\<lparr>errorcode := error_code ERR_NO_PERMS\<rparr>, s)
      | Create_failed \<Rightarrow> (True, drv, s))"

definition start_failed :: "msr_driver \<Rightarrow> win_state \<Rightarrow> bool \<times> msr_driver \<times> win_state" where
  "start_failed drv s =
     clean_up (drv\<lparr>scDriver := False\<rparr>) (close_handle Manager_handle (delete_service s))"

definition open_device :: "win_api \<Rightarrow> msr_driver \<Rightarrow> win_state \<Rightarrow> bool \<times> msr_driver \<times> win_state" where
  "open_device api drv s =
     (let s = close_handle Manager_handle s;
        (file, s) = (if device_opens api then (File, open_handle Device_handle s) else (Invalid_file, s));
        (event, s) = (if event_created api then (True, open_handle Event_handle s) else (False, s))
      in (True, drv\<lparr>hhDriver := file, hEvent := event\<rparr>, s))"

definition load_driver_win :: "win_api \<Rightarrow> msr_driver \<Rightarrow> win_state \<Rightarrow> (bool \<times> msr_driver \<times> win_state) option" where
  "load_driver_win api drv s =
     (if \<not> scm_opens api then Some (clean_up drv s)
      else
        let drv = drv\<lparr>scManager := True\<rparr>; s = open_handle Manager_handle s;
          (go_on, drv, s) = obtain_service api drv s
        in if \<not> go_on \<or> \<not> scDriver drv then Some (clean_up drv s)
           else case start_service api of
               Start_failed \<Rightarrow> Some (start_failed drv s)
             | Already_running \<Rightarrow> Some (open_device api drv s)
             | Service_started \<Rightarrow> do {
                 (running, s) \<leftarrow> wait_for_service_state api SERVICE_RUNNING s;
                 Some (if running then open_device api drv s else start_failed drv s) })"

definition no_driver :: msr_driver where
  "no_driver = \<lparr>scManager = False, scDriver = False, hhDriver = No_file, hEvent = False, errorcode = 0\<rparr>"

text \<open>\<^verbatim>\<open>errorcode\<close> is 0 or one error.\<close>

definition driver_error :: "msr_driver \<Rightarrow> cpu_error_t" where
  "driver_error drv = (if errorcode drv \<noteq> 0 then ERR_NO_PERMS else ERR_NO_DRIVER)"

definition cpu_msr_driver_open_win ::
    "win_api \<Rightarrow> 'm msr_env \<Rightarrow> 'm msr_state \<Rightarrow> win_state \<Rightarrow>
      (msr_driver option \<times> 'm msr_state \<times> win_state) outcome option" where
  "cpu_msr_driver_open_win api env s w =
     (case rdmsr_supported env s of
        None \<Rightarrow> Some Undefined
      | Some (supported, s) \<Rightarrow>
          if \<not> supported then Some (Returns (None, msr_set_error ERR_NO_RDMSR s, w))
          else if \<not> dev_malloc env then Some (Returns (None, msr_set_error ERR_NO_MEM s, w))
          else
            let w = w\<lparr>allocated := allocated w + 1\<rparr> in
            case extract_driver api of
              None \<Rightarrow> Some Undefined
            | Some False \<Rightarrow> Some (Returns (None, msr_set_error ERR_EXTRACT s, w\<lparr>allocated := allocated w - 1\<rparr>))
            | Some True \<Rightarrow> do {
                (status, drv, w) \<leftarrow> load_driver_win api no_driver w;
                Some (Returns (if \<not> status
                  then (None, msr_set_error (driver_error drv) s, w\<lparr>allocated := allocated w - 1\<rparr>)
                  else (Some drv, s, w))) })"

text \<open>The processor is ignored.\<close>

definition cpu_msr_driver_open_core_win ::
    "win_api \<Rightarrow> 'm msr_env \<Rightarrow> u32 \<Rightarrow> 'm msr_state \<Rightarrow> win_state \<Rightarrow>
      (msr_driver option \<times> 'm msr_state \<times> win_state) outcome option" where
  "cpu_msr_driver_open_core_win api env core_num s w = cpu_msr_driver_open_win api env s w"

text \<open>
  The answers of \<^verbatim>\<open>DeviceIoControl\<close> and \<^verbatim>\<open>GetOverlappedResult\<close> are ignored: \<^verbatim>\<open>msrdata\<close> is then not initialised. The
  system passes the index to the driver and its buffer back.
\<close>

definition cpu_rdmsr_win ::
    "win_api \<Rightarrow> 'm msr_env \<Rightarrow> msr_driver option \<Rightarrow> u32 \<Rightarrow> u64 \<Rightarrow> 'm msr_state \<Rightarrow> (cpu_error_t \<times> u64 \<times> 'm msr_state) option" where
  "cpu_rdmsr_win api env driver msr_index result s =
     (case driver of
        None \<Rightarrow> Some (ERR_HANDLE, result, msr_set_error ERR_HANDLE s)
      | Some drv \<Rightarrow>
          if hhDriver drv \<noteq> File then Some (ERR_OK, junk env, s)
          else do {
            (status, i) \<leftarrow> dispatch_ioctl (readmsr api) IOCTL_PROCVIEW_RDMSR 4 8
              \<lparr>io_status = STATUS_SUCCESS, io_information = 0, system_buffer = ucast msr_index\<rparr>;
            Some (ERR_OK, if status = STATUS_SUCCESS then system_buffer i else junk env, s) })"

text \<open>Closing the event and the device, and then stopping the service; the handle of the service stays open.\<close>

definition closed_device :: "msr_driver \<Rightarrow> win_state \<Rightarrow> msr_driver \<times> win_state" where
  "closed_device drv s =
     (let s = (if hEvent drv then close_handle Event_handle s else s);
        s = (if hhDriver drv \<noteq> No_file then close_handle Device_handle s else s)
      in (drv\<lparr>hhDriver := No_file, hEvent := False\<rparr>, s))"

definition cpu_msr_driver_close_win ::
    "win_api \<Rightarrow> msr_driver option \<Rightarrow> win_state \<Rightarrow> (msr_driver option \<times> win_state) option" where
  "cpu_msr_driver_close_win api driver s =
     (case driver of
        None \<Rightarrow> Some (None, s)
      | Some drv \<Rightarrow>
          if \<not> scDriver drv then Some (Some drv, s)
          else
            let (drv, s) = closed_device drv s
            in if \<not> service_stops api then Some (Some drv, s)
               else do {
                 (stopped, s) \<leftarrow> wait_for_service_state api SERVICE_STOPPED s;
                 Some (Some drv, if stopped then delete_service s else s) })"

section \<open>Systems without support\<close>

definition cpu_msr_driver_open_unsupported :: "'m msr_state \<Rightarrow> int option \<times> 'm msr_state" where
  "cpu_msr_driver_open_unsupported s = (None, msr_set_error ERR_NOT_IMP s)"

definition cpu_rdmsr_unsupported :: "u64 \<Rightarrow> 'm msr_state \<Rightarrow> cpu_error_t \<times> u64 \<times> 'm msr_state" where
  "cpu_rdmsr_unsupported result s = (ERR_NOT_IMP, result, msr_set_error ERR_NOT_IMP s)"

definition cpu_msr_driver_close_unsupported :: "'m msr_state \<Rightarrow> cpu_error_t \<times> 'm msr_state" where
  "cpu_msr_driver_close_unsupported s = (ERR_NOT_IMP, msr_set_error ERR_NOT_IMP s)"

definition cpu_rdmsr_range_unsupported :: "u64 \<Rightarrow> 'm msr_state \<Rightarrow> cpu_error_t \<times> u64 \<times> 'm msr_state" where
  "cpu_rdmsr_range_unsupported result s = (ERR_NOT_IMP, result, msr_set_error ERR_NOT_IMP s)"

definition cpu_msrinfo_unsupported :: "'m msr_state \<Rightarrow> cpu_error_t \<times> 'm msr_state" where
  "cpu_msrinfo_unsupported s = (ERR_NOT_IMP, msr_set_error ERR_NOT_IMP s)"

definition msr_serialize_raw_data_unsupported :: "'m msr_state \<Rightarrow> cpu_error_t \<times> 'm msr_state" where
  "msr_serialize_raw_data_unsupported s = (ERR_NOT_IMP, msr_set_error ERR_NOT_IMP s)"

section \<open>Waiting for the service\<close>

text \<open>The answers that end the loop.\<close>

definition wait_ends :: "win_api \<Rightarrow> service_state \<Rightarrow> nat \<Rightarrow> bool" where
  "wait_ends api desired n = (case query_status api n of None \<Rightarrow> True | Some (state, _) \<Rightarrow> state = desired)"

lemma wait_stops:
  "wait_ends api desired (queries s) \<Longrightarrow>
   wait_for_service_state api desired s =
     Some (query_status api (queries s) \<noteq> None, s\<lparr>queries := Suc (queries s)\<rparr>)"
  by (subst wait_for_service_state.simps) (auto simp: wait_ends_def split: option.splits)

lemma wait_goes_on:
  assumes "\<not> wait_ends api desired (queries s)"
  obtains d where "wait_for_service_state api desired s =
     wait_for_service_state api desired (s\<lparr>queries := Suc (queries s), slept := slept s + d\<rparr>)"
proof -
  obtain st hint where q: "query_status api (queries s) = Some (st, hint)" "st \<noteq> desired"
    using assms by (auto simp: wait_ends_def split: option.splits)
  have "wait_for_service_state api desired s =
     wait_for_service_state api desired (s\<lparr>queries := Suc (queries s), slept := slept s + wait_hint hint\<rparr>)"
    by (subst wait_for_service_state.simps) (simp add: q)
  then show thesis by (rule that)
qed

text \<open>What the loop leaves alone, and how it ended.\<close>

lemma wait_result:
  assumes "wait_for_service_state api desired s = Some r"
  shows "handles (snd r) = handles s \<and> bad_closes (snd r) = bad_closes s \<and> allocated (snd r) = allocated s \<and>
    service_deleted (snd r) = service_deleted s \<and> queries s < queries (snd r) \<and>
    wait_ends api desired (queries (snd r) - 1) \<and>
    (fst r \<longleftrightarrow> query_status api (queries (snd r) - 1) \<noteq> None)"
  using assms
proof (induction rule: wait_for_service_state.raw_induct [rotated, consumes 1])
  case (1 rec api desired s r)
  show ?case
  proof (cases "wait_ends api desired (queries s)")
    case True
    then show ?thesis
      using 1(2) by (auto simp: wait_ends_def split: option.splits)
  next
    case False
    then obtain st hint where "query_status api (queries s) = Some (st, hint)" "st \<noteq> desired"
      by (auto simp: wait_ends_def split: option.splits)
    then show ?thesis
      using 1(1) [of api desired "s\<lparr>queries := Suc (queries s), slept := slept s + wait_hint hint\<rparr>" r] 1(2)
      by simp
  qed
qed

text \<open>It returns when, and only when, one of the coming answers ends it.\<close>

lemma wait_returns_iff:
  "(\<exists>r. wait_for_service_state api desired s = Some r) \<longleftrightarrow> (\<exists>n\<ge>queries s. wait_ends api desired n)"
proof
  assume "\<exists>r. wait_for_service_state api desired s = Some r"
  then obtain r where r: "wait_for_service_state api desired s = Some r" by auto
  show "\<exists>n\<ge>queries s. wait_ends api desired n"
    using wait_result [OF r] by (intro exI [of _ "queries (snd r) - 1"]) auto
next
  assume "\<exists>n\<ge>queries s. wait_ends api desired n"
  then obtain n where n: "queries s \<le> n" "wait_ends api desired n" by blast
  then show "\<exists>r. wait_for_service_state api desired s = Some r"
  proof (induction "n - queries s" arbitrary: s)
    case 0
    then show ?case using wait_stops [of api desired s] by simp
  next
    case (Suc k)
    show ?case
    proof (cases "wait_ends api desired (queries s)")
      case True
      then show ?thesis by (simp add: wait_stops)
    next
      case False
      then obtain d where "wait_for_service_state api desired s =
          wait_for_service_state api desired (s\<lparr>queries := Suc (queries s), slept := slept s + d\<rparr>)"
        by (rule wait_goes_on)
      then show ?thesis using Suc by simp
    qed
  qed
qed

section \<open>Loading the driver\<close>

lemmas win_handle_simps = open_handle_def close_handle_def delete_service_def

lemma win_allocated [simp]:
  "allocated (open_handle h s) = allocated s" "allocated (close_handle h s) = allocated s"
  "allocated (delete_service s) = allocated s"
  by (simp_all add: win_handle_simps)

text \<open>When \<^verbatim>\<open>load_driver\<close> has a service that it can start.\<close>

definition service_obtained :: "win_api \<Rightarrow> bool" where
  "service_obtained api \<longleftrightarrow> scm_opens api \<and>
     (create_service api = Service_created \<or>
      create_service api = Service_exists \<and> service_opens api \<and> config_size api \<and> config_read api)"

text \<open>What obtaining the service gives when it succeeds and when it does not.\<close>

lemma obtain_service_ok:
  "service_obtained api \<Longrightarrow>
   obtain_service api drv s = (True, drv\<lparr>scDriver := True\<rparr>, open_handle Service_handle s)"
  by (auto simp: service_obtained_def obtain_service_def Let_def)

lemma obtain_service_failed:
  assumes "scm_opens api" and "\<not> service_obtained api" and "\<not> scDriver drv"
  shows "case obtain_service api drv s of (go_on, drv', s') \<Rightarrow>
    (\<not> go_on \<or> \<not> scDriver drv') \<and> scManager drv' = scManager drv \<and> bad_closes s' = bad_closes s \<and>
    handles s' = (if scDriver drv' then [Service_handle] else []) @ handles s"
  using assms
  by (cases "create_service api") (auto simp: service_obtained_def obtain_service_def Let_def open_handle_def)

lemma clean_up_returns: "\<exists>drv' s'. clean_up drv s = (False, drv', s')"
  by (simp add: clean_up_def)

lemma clean_up_handles:
  assumes "handles s = (if scDriver drv then [Service_handle] else []) @ [Manager_handle]" and "bad_closes s = 0"
    and "scManager drv"
  shows "\<exists>drv' s'. clean_up drv s = (False, drv', s') \<and> handles s' = [] \<and> bad_closes s' = 0"
  using assms by (auto simp: clean_up_def win_handle_simps)

lemma load_without_service:
  assumes no: "\<not> service_obtained api" and h: "handles s = []" "bad_closes s = 0"
  shows "\<exists>drv s'. load_driver_win api no_driver s = Some (False, drv, s') \<and> handles s' = [] \<and> bad_closes s' = 0"
proof (cases "scm_opens api")
  case False
  then show ?thesis using h by (simp add: load_driver_win_def clean_up_def no_driver_def)
next
  case True
  let ?d = "no_driver\<lparr>scManager := True\<rparr>" and ?s = "open_handle Manager_handle s"
  have "\<not> scDriver ?d" by (simp add: no_driver_def)
  then obtain go_on d s' where o: "obtain_service api ?d ?s = (go_on, d, s')" "\<not> go_on \<or> \<not> scDriver d"
      "scManager d = scManager ?d" "bad_closes s' = bad_closes ?s"
      "handles s' = (if scDriver d then [Service_handle] else []) @ handles ?s"
    using obtain_service_failed [OF True no, of ?d ?s] by (auto split: prod.splits)
  have "load_driver_win api no_driver s = Some (clean_up d s')"
    using True o(1,2) by (auto simp: load_driver_win_def Let_def)
  then show ?thesis
    using clean_up_handles [of s' d] o(3-5) h by (auto simp: open_handle_def)
qed

text \<open>The driver and the state at the start of the service.\<close>

definition with_service :: "win_state \<Rightarrow> win_state" where
  "with_service s = open_handle Service_handle (open_handle Manager_handle s)"

definition service_driver :: msr_driver where
  "service_driver = no_driver\<lparr>scManager := True, scDriver := True\<rparr>"

lemma service_driver_started [simp]: "scDriver service_driver"
  by (simp add: service_driver_def)

lemma load_with_service:
  assumes "service_obtained api"
  shows "load_driver_win api no_driver s =
    (case start_service api of
        Start_failed \<Rightarrow> Some (start_failed service_driver (with_service s))
      | Already_running \<Rightarrow> Some (open_device api service_driver (with_service s))
      | Service_started \<Rightarrow> do {
          (running, s) \<leftarrow> wait_for_service_state api SERVICE_RUNNING (with_service s);
          Some (if running then open_device api service_driver s else start_failed service_driver s) })"
  using assms
proof -
  have "scm_opens api" using assms by (simp add: service_obtained_def)
  then show ?thesis
    by (simp add: load_driver_win_def obtain_service_ok [OF assms] service_driver_def with_service_def Let_def
        split: start_result.split cong: if_cong)
qed

lemma start_failed_handles:
  assumes "handles s = [Service_handle, Manager_handle]" and "bad_closes s = 0"
  shows "\<exists>drv s'. start_failed service_driver s = (False, drv, s') \<and> handles s' = [Service_handle] \<and> bad_closes s' = 1"
  using assms by (simp add: start_failed_def clean_up_def service_driver_def no_driver_def win_handle_simps)

text \<open>The handles of a driver that was loaded.\<close>

definition loaded_handles :: "win_api \<Rightarrow> win_handle list" where
  "loaded_handles api =
     (if event_created api then [Event_handle] else []) @ (if device_opens api then [Device_handle] else []) @
     [Service_handle]"

lemma open_device_handles:
  assumes "handles s = [Service_handle, Manager_handle]" and "bad_closes s = 0"
  shows "\<exists>s'. open_device api service_driver s =
      (True, service_driver\<lparr>hhDriver := if device_opens api then File else Invalid_file, hEvent := event_created api\<rparr>, s') \<and>
    handles s' = loaded_handles api \<and> bad_closes s' = 0"
  using assms
  by (simp add: open_device_def loaded_handles_def service_driver_def no_driver_def win_handle_simps)

lemma with_service_handles:
  assumes "handles s = []" and "bad_closes s = 0"
  shows "handles (with_service s) = [Service_handle, Manager_handle]" "bad_closes (with_service s) = 0"
    "queries (with_service s) = queries s"
  using assms by (simp_all add: with_service_def win_handle_simps)

text \<open>The two ends of loading once there is a service.\<close>

lemma load_service_cases:
  assumes svc: "service_obtained api" and h: "handles s = []" "bad_closes s = 0"
    and load: "load_driver_win api no_driver s = Some r"
  shows "\<exists>s'. handles s' = [Service_handle, Manager_handle] \<and> bad_closes s' = 0 \<and>
    (r = start_failed service_driver s' \<or> r = open_device api service_driver s')"
proof (cases "start_service api")
  case Service_started
  then obtain q where w: "wait_for_service_state api SERVICE_RUNNING (with_service s) = Some q"
    and r: "r = (if fst q then open_device api service_driver (snd q) else start_failed service_driver (snd q))"
    using load by (auto simp: load_with_service [OF svc] bind_eq_Some_conv)
  then show ?thesis
    using wait_result [OF w] with_service_handles [OF h] by (intro exI [of _ "snd q"]) auto
qed (use load with_service_handles [OF h] in \<open>auto simp: load_with_service [OF svc]\<close>)

text \<open>
  C18: what loading the Windows driver does with its handles. When there is no service to start, every handle that was
  opened is closed again. When the service is there and starts, the handle of the service manager is closed and those of
  the service, the device and the event are kept. When the service does not start, the error path is wrong: the handle of
  the service manager is closed twice and that of the service is never closed.
\<close>

theorem windows_load_handles:
  assumes "handles s = []" and "bad_closes s = 0"
    and "load_driver_win api no_driver s = Some (ok, drv, s')"
  shows "(handles s', bad_closes s') =
      (if ok then (loaded_handles api, 0) else if service_obtained api then ([Service_handle], 1) else ([], 0)) \<and>
    (ok \<longrightarrow> service_obtained api \<and> scDriver drv \<and> (hhDriver drv = File \<longleftrightarrow> device_opens api))"
proof (cases "service_obtained api")
  case False
  then show ?thesis
    using load_without_service [OF False assms(1,2)] assms(3) by auto
next
  case True
  obtain t where t: "handles t = [Service_handle, Manager_handle]" "bad_closes t = 0"
    and r: "(ok, drv, s') = start_failed service_driver t \<or> (ok, drv, s') = open_device api service_driver t"
    using load_service_cases [OF True assms] by blast
  show ?thesis
    using r start_failed_handles [OF t] open_device_handles [OF t, of api] True by (auto split: if_splits)
qed

text \<open>A system on which the service is created but does not start.\<close>

definition sample_win :: win_api where
  "sample_win = \<lparr>temp_path = Some ''C:/'', temp_writable = True, scm_opens = True, create_service = Service_created,
     service_opens = True, config_size = True, config_read = True, start_service = Start_failed,
     query_status = (\<lambda>n. None), device_opens = True, event_created = True, service_stops = True,
     readmsr = (\<lambda>i. if i = 0x198 then Some 0x2600 else None)\<rparr>"

definition win_start :: win_state where
  "win_start = \<lparr>handles = [], bad_closes = 0, allocated = 0, service_deleted = False, queries = 0, slept = 0\<rparr>"

theorem windows_load_handles_witness:
  "\<exists>drv s'. load_driver_win sample_win no_driver win_start = Some (False, drv, s') \<and> handles s' = [Service_handle] \<and>
    bad_closes s' = 1"
proof -
  have svc: "service_obtained sample_win" by (simp add: service_obtained_def sample_win_def)
  have load: "\<exists>drv s'. load_driver_win sample_win no_driver win_start = Some (False, drv, s')"
    using start_failed_handles [of "with_service win_start"] with_service_handles [of win_start]
    by (auto simp: load_with_service [OF svc] win_start_def) (simp add: sample_win_def)
  then obtain drv s' where l: "load_driver_win sample_win no_driver win_start = Some (False, drv, s')" by blast
  show ?thesis
    using windows_load_handles [OF _ _ l] svc l by (auto simp: win_start_def)
qed

text \<open>Loading returns when the start of the service does not have to be awaited, or is answered at some time.\<close>

lemma windows_load_returns:
  "load_driver_win api no_driver s \<noteq> None \<longleftrightarrow>
   (service_obtained api \<and> start_service api = Service_started \<longrightarrow>
     (\<exists>n\<ge>queries s. wait_ends api SERVICE_RUNNING n))"
proof (cases "service_obtained api")
  case False
  have "load_driver_win api no_driver s \<noteq> None"
  proof (cases "scm_opens api")
    case True
    have "\<not> scDriver (no_driver\<lparr>scManager := True\<rparr>)" by (simp add: no_driver_def)
    from obtain_service_failed [OF True False this, of "open_handle Manager_handle s"] show ?thesis
      using True clean_up_returns by (fastforce simp: load_driver_win_def Let_def)
  qed (simp add: load_driver_win_def)
  then show ?thesis using False by simp
next
  case True
  then show ?thesis
    using wait_returns_iff [of api SERVICE_RUNNING "with_service s"]
    by (cases "start_service api"; cases "wait_for_service_state api SERVICE_RUNNING (with_service s)")
      (auto simp: load_with_service with_service_def open_handle_def, (metis prod_cases3)+)
qed

section \<open>A whole session\<close>

text \<open>
  What is read from a driver. If the device was opened, the index goes through the request to the kernel driver and the
  answer back; a register that does not exist stops the system, for the kernel driver has no handler for the exception.
\<close>

lemma windows_rdmsr_reads:
  "cpu_rdmsr_win api env driver msr_index result s =
    (case driver of
       None \<Rightarrow> Some (ERR_HANDLE, result, msr_set_error ERR_HANDLE s)
     | Some drv \<Rightarrow>
         if hhDriver drv = File
         then map_option (\<lambda>v. (ERR_OK, v, s)) (readmsr api msr_index)
         else Some (ERR_OK, junk env, s))"
proof -
  have "ucast (ucast msr_index :: u64) = msr_index"
    by (rule bit_word_eqI) (simp add: bit_simps)
  then show ?thesis
    by (auto simp: cpu_rdmsr_win_def dispatch_ioctl_def map_conv_bind_option o_def split: option.splits)
qed

text \<open>Opening gives the driver that was loaded.\<close>

lemma windows_open_cases:
  assumes "cpu_msr_driver_open_win api env s w = Some (Returns (Some drv, s', w'))"
  shows "load_driver_win api no_driver (w\<lparr>allocated := allocated w + 1\<rparr>) = Some (True, drv, w')"
  using assms
  by (auto simp: cpu_msr_driver_open_win_def bind_eq_Some_conv Let_def split: option.splits if_splits bool.splits)

text \<open>Loading does not allocate.\<close>

lemma load_allocated:
  assumes "load_driver_win api no_driver s = Some r" and "service_obtained api"
  shows "allocated (snd (snd r)) = allocated s"
proof -
  have [simp]: "allocated (snd (snd (open_device api d t))) = allocated t"
    "allocated (snd (snd (start_failed d t))) = allocated t" for d t
    by (simp_all add: open_device_def start_failed_def clean_up_def Let_def)
  show ?thesis
    using assms
    by (auto simp: load_with_service with_service_def open_handle_def bind_eq_Some_conv
        split: start_result.splits if_splits dest!: wait_result)
qed

lemma windows_close_keeps:
  assumes "cpu_msr_driver_close_win api (Some drv) s = Some (drv', s')" and "scDriver drv"
  shows "drv' = Some (fst (closed_device drv s)) \<and> handles s' = handles (snd (closed_device drv s)) \<and>
    bad_closes s' = bad_closes (snd (closed_device drv s)) \<and> allocated s' = allocated s"
proof -
  obtain d t where cd: "closed_device drv s = (d, t)" by (cases "closed_device drv s")
  then have "allocated t = allocated s" by (auto simp: closed_device_def Let_def)
  then show ?thesis
    using assms
    by (auto simp: cpu_msr_driver_close_win_def cd bind_eq_Some_conv delete_service_def split: if_splits dest!: wait_result)
qed

text \<open>
  C17: a whole session on Windows: opening the driver, reading registers, and closing it. With the device open, each
  reading gives the value of the register. Without it, opening succeeded all the same, each reading succeeds with a
  variable that was never set, and closing closes a handle that is none. In both cases the handle of the service and the
  structure of the driver are left behind when the driver is closed.
\<close>

theorem windows_session:
  assumes "handles w = []" and "bad_closes w = 0"
    and "cpu_msr_driver_open_win api env s w = Some (Returns (Some drv, s1, w1))"
    and "cpu_msr_driver_close_win api (Some drv) w1 = Some (drv2, w2)"
  shows "(\<forall>i r s. cpu_rdmsr_win api env (Some drv) i r s =
      (if device_opens api then map_option (\<lambda>v. (ERR_OK, v, s)) (readmsr api i) else Some (ERR_OK, junk env, s))) \<and>
    handles w2 = [Service_handle] \<and> allocated w2 = allocated w + 1 \<and>
    bad_closes w2 = (if device_opens api then 0 else 1)"
proof -
  let ?w = "w\<lparr>allocated := allocated w + 1\<rparr>"
  note load = windows_open_cases [OF assms(3)]
  have w: "handles ?w = []" "bad_closes ?w = 0" using assms(1,2) by simp_all
  have svc: "service_obtained api"
    using load load_without_service [OF _ w] by fastforce
  obtain t where t: "handles t = [Service_handle, Manager_handle]" "bad_closes t = 0"
    and r: "(True, drv, w1) = start_failed service_driver t \<or> (True, drv, w1) = open_device api service_driver t"
    using load_service_cases [OF svc w load] by blast
  have o: "drv = service_driver\<lparr>hhDriver := if device_opens api then File else Invalid_file, hEvent := event_created api\<rparr>"
    "handles w1 = loaded_handles api" "bad_closes w1 = 0"
    using r start_failed_handles [OF t] open_device_handles [OF t, of api] by auto
  have sc: "scDriver drv" by (simp add: o(1) service_driver_def)
  have a: "allocated w1 = allocated w + 1" using load_allocated [OF load svc] by simp
  show ?thesis
    using windows_close_keeps [OF assms(4) sc] a o(2,3)
    by (auto simp: windows_rdmsr_reads o(1) closed_device_def loaded_handles_def close_handle_def)
qed

theorem windows_session_witness:
  "\<exists>drv s1 w1 w2. let api = sample_win\<lparr>start_service := Already_running, service_stops := False\<rparr>;
      env = sample_msr_env (\<lambda>_. 0) in
    cpu_msr_driver_open_win api env (sample_cached_state VENDOR_INTEL) win_start = Some (Returns (Some drv, s1, w1)) \<and>
    cpu_msr_driver_close_win api (Some drv) w1 = Some (Some (drv\<lparr>hhDriver := No_file, hEvent := False\<rparr>), w2) \<and>
    cpu_rdmsr_win api env (Some drv) 0x198 0 s1 = Some (ERR_OK, 0x2600, s1) \<and> handles w2 = [Service_handle]"
proof -
  let ?api = "sample_win\<lparr>start_service := Already_running, service_stops := False\<rparr>" and ?env = "sample_msr_env (\<lambda>_. 0)"
    and ?s = "sample_cached_state VENDOR_INTEL"
  let ?w = "win_start\<lparr>allocated := 1\<rparr>"
  have svc: "service_obtained ?api" by (simp add: service_obtained_def sample_win_def)
  have w: "handles ?w = []" "bad_closes ?w = 0" by (simp_all add: win_start_def)
  obtain drv w1 where load: "load_driver_win ?api no_driver ?w = Some (True, drv, w1)" "drv = service_driver\<lparr>hhDriver := File, hEvent := True\<rparr>"
    using open_device_handles [OF with_service_handles(1,2) [OF w], of ?api]
    by (auto simp: load_with_service [OF svc]) (simp add: sample_win_def)
  have sup: "rdmsr_supported ?env ?s = Some (True, ?s)"
    by (simp add: rdmsr_supported_def get_cached_cpuid_def sample_cached_state_def)
  have env: "dev_malloc ?env" "extract_driver ?api = Some True" "win_start\<lparr>allocated := allocated win_start + 1\<rparr> = ?w"
    by (simp_all add: sample_msr_env_def extract_driver_def sample_win_def win_start_def)
  have op: "cpu_msr_driver_open_win ?api ?env ?s win_start = Some (Returns (Some drv, ?s, w1))"
    unfolding cpu_msr_driver_open_win_def sup Let_def env(2,3) using env(1) load(1) by simp
  have cl: "cpu_msr_driver_close_win ?api (Some drv) w1 =
      Some (Some (drv\<lparr>hhDriver := No_file, hEvent := False\<rparr>), snd (closed_device drv w1))"
    by (simp add: cpu_msr_driver_close_win_def closed_device_def load(2) Let_def)
  show ?thesis
    using windows_session [OF _ _ op cl] op cl by (auto simp: win_start_def sample_win_def Let_def)
qed

end
