(* ===== verification/Asm_Bits.thy ===== *)
theory Asm_Bits
  imports Cpuid_Types
begin

text \<open>
  The assembly code of \<^verbatim>\<open>asm-bits.c\<close> for x86, on a machine with the registers, flags, stack and memory that it uses.

  Programs are lists of instructions with the destination first. The variants for the compilers of GNU and Microsoft
  are the same instructions, but for the frame of \<^verbatim>\<open>exec_cpuid\<close>. What a processor does is the record \<open>cpu_model\<close>: which
  bits of the flags \<^verbatim>\<open>popf\<close> can change, the arithmetic flags of a result, what \<^verbatim>\<open>cpuid\<close> answers, and the sum of four
  packed floating-point numbers. \<^verbatim>\<open>cpu_rdtsc\<close> is in \<^verbatim>\<open>Clock\<close>, with the readings of the counter.
\<close>

section \<open>The machine\<close>

text \<open>
  The state also counts the instructions and the additions that were executed: \<^verbatim>\<open>cpu_clock_by_ic\<close> computes a frequency
  from the additions of the busy loop.
\<close>

datatype reg32 = Eax | Ebx | Ecx | Edx | Edi

text \<open>\<open>At r d\<close> is the word in memory at the address in \<open>r\<close> plus \<open>d\<close>; \<open>Var\<close> is a variable of the C function.\<close>

datatype operand = Reg reg32 | Imm u32 | Var string | At reg32 u32

datatype instr =
    Mov operand operand | Xor operand operand | Push reg32 | Pop reg32 | Pushf | Popf | Cpuid
  | Xorps nat nat | Addps nat nat | Dec reg32

record cpu_model =
  popf_writable :: u32
  arith_flags :: "u32 \<Rightarrow> u32"
  cpuid_answer :: "cpu_regs_t \<Rightarrow> cpu_regs_t"
  addps :: "128 word \<Rightarrow> 128 word \<Rightarrow> 128 word"

record machine =
  mregs :: "reg32 \<Rightarrow> u32"
  mflags :: u32
  mstack :: "u32 list"
  mvars :: "string \<Rightarrow> u32"
  mmem :: "u32 \<Rightarrow> u32"
  mxmm :: "nat \<Rightarrow> 128 word"
  mretired :: nat
  madditions :: nat

definition fetch :: "operand \<Rightarrow> machine \<Rightarrow> u32" where
  "fetch a s =
     (case a of Reg r \<Rightarrow> mregs s r | Imm v \<Rightarrow> v | Var x \<Rightarrow> mvars s x | At r d \<Rightarrow> mmem s (mregs s r + d))"

definition put :: "operand \<Rightarrow> u32 \<Rightarrow> machine \<Rightarrow> machine option" where
  "put a v s =
     (case a of
        Reg r \<Rightarrow> Some (s\<lparr>mregs := (mregs s)(r := v)\<rparr>)
      | Imm _ \<Rightarrow> None
      | Var x \<Rightarrow> Some (s\<lparr>mvars := (mvars s)(x := v)\<rparr>)
      | At r d \<Rightarrow> Some (s\<lparr>mmem := (mmem s)(mregs s r + d := v)\<rparr>))"

text \<open>
  The arithmetic flags are those of \<open>mask\<close>. Bit 6 is the zero flag; the others are the processor's. \<^verbatim>\<open>dec\<close> leaves the
  carry flag alone.
\<close>

abbreviation (input) ARITH_FLAGS :: u32 where "ARITH_FLAGS \<equiv> 0x8d5"
abbreviation (input) ZERO_FLAG :: u32 where "ZERO_FLAG \<equiv> 0x40"

definition new_flags :: "cpu_model \<Rightarrow> u32 \<Rightarrow> u32" where
  "new_flags cpu v = (if v = 0 then arith_flags cpu v OR ZERO_FLAG else arith_flags cpu v AND NOT ZERO_FLAG)"

definition set_flags :: "cpu_model \<Rightarrow> u32 \<Rightarrow> u32 \<Rightarrow> machine \<Rightarrow> machine" where
  "set_flags cpu m v s = s\<lparr>mflags := (mflags s AND NOT m) OR (new_flags cpu v AND m)\<rparr>"

text \<open>\<^verbatim>\<open>pushf\<close> stores the flags without \<^verbatim>\<open>VM\<close> and \<^verbatim>\<open>RF\<close>.\<close>

abbreviation (input) PUSHF_MASK :: u32 where "PUSHF_MASK \<equiv> 0xfcffff"

definition cpuid_regs :: "(reg32 \<Rightarrow> u32) \<Rightarrow> cpu_regs_t" where
  "cpuid_regs f = \<lparr>EAX = f Eax, EBX = f Ebx, ECX = f Ecx, EDX = f Edx\<rparr>"

definition with_cpuid_regs :: "cpu_regs_t \<Rightarrow> (reg32 \<Rightarrow> u32) \<Rightarrow> reg32 \<Rightarrow> u32" where
  "with_cpuid_regs r f = f(Eax := EAX r, Ebx := EBX r, Ecx := ECX r, Edx := EDX r)"

fun effect :: "cpu_model \<Rightarrow> instr \<Rightarrow> machine \<Rightarrow> machine option" where
  "effect cpu (Mov a b) s = put a (fetch b s) s"
| "effect cpu (Xor a b) s =
     (let v = fetch a s XOR fetch b s in map_option (set_flags cpu ARITH_FLAGS v) (put a v s))"
| "effect cpu (Push r) s = Some (s\<lparr>mstack := mregs s r # mstack s\<rparr>)"
| "effect cpu (Pop r) s =
     (case mstack s of [] \<Rightarrow> None | v # st \<Rightarrow> Some (s\<lparr>mregs := (mregs s)(r := v), mstack := st\<rparr>))"
| "effect cpu Pushf s = Some (s\<lparr>mstack := (mflags s AND PUSHF_MASK) # mstack s\<rparr>)"
| "effect cpu Popf s =
     (case mstack s of
        [] \<Rightarrow> None
      | v # st \<Rightarrow>
          Some (s\<lparr>mflags := (mflags s AND NOT (popf_writable cpu)) OR (v AND popf_writable cpu), mstack := st\<rparr>))"
| "effect cpu Cpuid s = Some (s\<lparr>mregs := with_cpuid_regs (cpuid_answer cpu (cpuid_regs (mregs s))) (mregs s)\<rparr>)"
| "effect cpu (Xorps i j) s = Some (s\<lparr>mxmm := (mxmm s)(i := mxmm s i XOR mxmm s j)\<rparr>)"
| "effect cpu (Addps i j) s =
     Some (s\<lparr>mxmm := (mxmm s)(i := addps cpu (mxmm s i) (mxmm s j)), madditions := Suc (madditions s)\<rparr>)"
| "effect cpu (Dec r) s =
     (let v = mregs s r - 1 in Some (set_flags cpu (ARITH_FLAGS AND NOT 1) v (s\<lparr>mregs := (mregs s)(r := v)\<rparr>)))"

definition retire :: "machine \<Rightarrow> machine" where
  "retire s = s\<lparr>mretired := Suc (mretired s)\<rparr>"

fun exec :: "cpu_model \<Rightarrow> instr list \<Rightarrow> machine \<Rightarrow> machine option" where
  "exec cpu [] s = Some s"
| "exec cpu (i # is) s = do { s \<leftarrow> effect cpu i s; exec cpu is (retire s) }"

section \<open>Is there a CPUID instruction?\<close>

datatype platform = Platform_x64 | Platform_x86 | Platform_other

definition flag_test :: "instr list" where
  "flag_test =
     [Pushf, Pop Eax, Mov (Reg Ecx) (Reg Eax), Xor (Reg Eax) (Imm 0x200000), Push Eax, Popf,
      Pushf, Pop Eax, Xor (Reg Eax) (Reg Ecx), Mov (Var ''result'') (Reg Eax), Push Ecx, Popf]"

definition cpuid_exists_by_eflags :: "cpu_model \<Rightarrow> platform \<Rightarrow> machine \<Rightarrow> (bool \<times> machine) option" where
  "cpuid_exists_by_eflags cpu p s =
     (case p of
        Platform_x64 \<Rightarrow> Some (True, s)
      | Platform_x86 \<Rightarrow> map_option (\<lambda>s. (mvars s ''result'' \<noteq> 0, s)) (exec cpu flag_test s)
      | Platform_other \<Rightarrow> Some (False, s))"

section \<open>Executing CPUID\<close>

text \<open>The compilers of GNU put the four words in their registers; that of Microsoft is given the address of the array.\<close>

definition exec_cpuid_gnu :: "cpu_model \<Rightarrow> cpu_regs_t \<Rightarrow> machine \<Rightarrow> cpu_regs_t \<times> machine" where
  "exec_cpuid_gnu cpu r s =
     (let s = s\<lparr>mregs := with_cpuid_regs (cpuid_answer cpu (cpuid_regs (with_cpuid_regs r (mregs s)))) (mregs s)\<rparr>
      in (cpuid_regs (mregs s), s))"

definition cpuid_frame :: "instr list" where
  "cpuid_frame =
     [Push Ebx, Push Ecx, Push Edx, Push Edi, Mov (Reg Edi) (Var ''regs''),
      Mov (Reg Eax) (At Edi 0), Mov (Reg Ebx) (At Edi 4), Mov (Reg Ecx) (At Edi 8), Mov (Reg Edx) (At Edi 12),
      Cpuid,
      Mov (At Edi 0) (Reg Eax), Mov (At Edi 4) (Reg Ebx), Mov (At Edi 8) (Reg Ecx), Mov (At Edi 12) (Reg Edx),
      Pop Edi, Pop Edx, Pop Ecx, Pop Ebx]"

definition exec_cpuid_msvc :: "cpu_model \<Rightarrow> u32 \<Rightarrow> machine \<Rightarrow> machine option" where
  "exec_cpuid_msvc cpu regs s = exec cpu cpuid_frame (s\<lparr>mvars := (mvars s)(''regs'' := regs)\<rparr>)"

section \<open>The busy loop\<close>

definition sse_clear :: "instr list" where
  "sse_clear = map (\<lambda>i. Xorps i i) [0..<8]"

text \<open>One of the 32 equal groups of eight additions.\<close>

definition sse_round :: "instr list" where
  "sse_round = [Addps 0 1, Addps 1 2, Addps 2 3, Addps 3 4, Addps 4 5, Addps 5 6, Addps 6 7, Addps 7 0]"

definition sse_body :: "instr list" where
  "sse_body = concat (replicate 32 sse_round) @ [Dec Eax]"

text \<open>\<^verbatim>\<open>jnz\<close> goes back as long as the zero flag is not set.\<close>

partial_function (option) sse_loop :: "cpu_model \<Rightarrow> machine \<Rightarrow> machine option" where
  "sse_loop cpu s = do {
     s \<leftarrow> exec cpu sse_body s;
     let s = retire s;
     if mflags s AND ZERO_FLAG \<noteq> 0 then Some s else sse_loop cpu s }"

text \<open>The argument is put in EAX by the compiler of GNU, and by an instruction in the variant for that of Microsoft.\<close>

datatype compiler = Gnu | Microsoft

definition busy_sse_loop :: "cpu_model \<Rightarrow> compiler \<Rightarrow> u32 \<Rightarrow> machine \<Rightarrow> machine option" where
  "busy_sse_loop cpu c cycles s = do {
     s \<leftarrow> (case c of
         Gnu \<Rightarrow> Some (s\<lparr>mregs := (mregs s)(Eax := cycles)\<rparr>)
       | Microsoft \<Rightarrow> exec cpu [Mov (Reg Eax) (Var ''cycles'')] (s\<lparr>mvars := (mvars s)(''cycles'' := cycles)\<rparr>));
     s \<leftarrow> exec cpu sse_clear s;
     sse_loop cpu s }"

section \<open>The flag test\<close>

text \<open>What is documented of \<^verbatim>\<open>popf\<close>: it changes the arithmetic flags and never those that \<^verbatim>\<open>pushf\<close> does not store.\<close>

definition popf_documented :: "cpu_model \<Rightarrow> bool" where
  "popf_documented cpu \<longleftrightarrow>
     popf_writable cpu AND NOT PUSHF_MASK = 0 \<and> ARITH_FLAGS AND NOT (popf_writable cpu) = 0"

lemma and_not_zero_iff: "(a :: 'a::len word) AND NOT b = 0 \<longleftrightarrow> (\<forall>n < LENGTH('a). bit a n \<longrightarrow> bit b n)"
  by (auto simp: bit_eq_iff bit_simps dest: bit_imp_le_length)

text \<open>The flags through the test: \<open>w\<close> is writable, \<open>m\<close> is what is pushed, \<open>f\<close> and \<open>g\<close> are arithmetic flags.\<close>

lemma flags_toggled:
  fixes e w m a f g i :: "'a::len word"
  assumes "w AND NOT m = 0" and "a AND NOT w = 0"
  defines "e1 \<equiv> (((e AND NOT a) OR (f AND a)) AND NOT w) OR (((e AND m) XOR i) AND w)"
  shows "(e1 AND m) XOR (e AND m) = w AND i"
    and "(((e1 AND NOT a) OR (g AND a)) AND NOT w) OR ((e AND m) AND w) = e"
proof -
  have w: "bit w n \<Longrightarrow> bit m n" and a: "bit a n \<Longrightarrow> bit w n" for n
    using assms(1,2) by (auto simp: and_not_zero_iff dest: bit_imp_le_length)
  show "(e1 AND m) XOR (e AND m) = w AND i"
    unfolding e1_def by (rule bit_word_eqI) (use w a in \<open>auto simp: bit_simps\<close>)
  show "(((e1 AND NOT a) OR (g AND a)) AND NOT w) OR ((e AND m) AND w) = e"
    unfolding e1_def by (rule bit_word_eqI) (use w a in \<open>auto simp: bit_simps\<close>)
qed

text \<open>
  C21: on a 32-bit processor the flag test of \<^verbatim>\<open>cpuid_exists_by_eflags\<close> returns, and says that CPUID is there exactly if the
  program can change bit 21 of the flags. It leaves the flags, the stack and the memory as they were, and of the
  registers it changes only EAX and ECX.
\<close>

theorem cpuid_exists_by_eflags_spec:
  assumes "popf_documented cpu"
  shows "\<exists>s'. cpuid_exists_by_eflags cpu Platform_x86 s = Some (bit (popf_writable cpu) 21, s') \<and>
    mflags s' = mflags s \<and> mstack s' = mstack s \<and> mmem s' = mmem s \<and> mxmm s' = mxmm s \<and>
    (\<forall>r. r \<noteq> Eax \<and> r \<noteq> Ecx \<longrightarrow> mregs s' r = mregs s r)"
proof -
  let ?w = "popf_writable cpu"
  have doc: "?w AND NOT PUSHF_MASK = 0" "ARITH_FLAGS AND NOT ?w = 0"
    using assms by (simp_all only: popf_documented_def)
  have id: "?w AND 0x200000 \<noteq> 0 \<longleftrightarrow> bit ?w 21"
    using bit_iff_and_push_bit_not_eq_0 [of ?w 21] by (simp add: push_bit_eq_mult)
  show ?thesis
    using flags_toggled [OF doc] id
    by (simp add: cpuid_exists_by_eflags_def flag_test_def Let_def put_def fetch_def set_flags_def retire_def)
qed

text \<open>A processor of the 486 kind with CPUID; all its flags but the reserved ones can be changed.\<close>

definition sample_cpu :: cpu_model where
  "sample_cpu = \<lparr>popf_writable = 0x244dd5, arith_flags = (\<lambda>_. 0), cpuid_answer = (\<lambda>r. r\<lparr>EAX := EAX r + 1, EBX := 7\<rparr>),
     addps = (\<lambda>_ _. 0)\<rparr>"

definition sample_machine :: machine where
  "sample_machine = \<lparr>mregs = (\<lambda>_. 5), mflags = 0x246, mstack = [9], mvars = (\<lambda>_. 0), mmem = (\<lambda>a. a), mxmm = (\<lambda>_. 1),
     mretired = 0, madditions = 0\<rparr>"

theorem cpuid_exists_by_eflags_spec_witness:
  "\<exists>s'. cpuid_exists_by_eflags sample_cpu Platform_x86 sample_machine = Some (True, s') \<and> mflags s' = 0x246 \<and> mstack s' = [9]"
proof -
  have "popf_documented sample_cpu" by (simp add: popf_documented_def sample_cpu_def)
  from cpuid_exists_by_eflags_spec [OF this, of sample_machine] show ?thesis
    by (auto simp: sample_cpu_def sample_machine_def)
qed

section \<open>The two frames of CPUID\<close>

text \<open>The array in memory.\<close>

definition regs_at :: "u32 \<Rightarrow> (u32 \<Rightarrow> u32) \<Rightarrow> cpu_regs_t" where
  "regs_at p m = \<lparr>EAX = m p, EBX = m (p + 4), ECX = m (p + 8), EDX = m (p + 12)\<rparr>"

definition store_regs :: "u32 \<Rightarrow> cpu_regs_t \<Rightarrow> (u32 \<Rightarrow> u32) \<Rightarrow> u32 \<Rightarrow> u32" where
  "store_regs p r m = m(p := EAX r, p + 4 := EBX r, p + 8 := ECX r, p + 12 := EDX r)"

lemma exec_append: "exec cpu (xs @ ys) s = (do { s \<leftarrow> exec cpu xs s; exec cpu ys s })"
  by (induction xs arbitrary: s) (auto split: option.splits Option.bind_splits)

text \<open>Before and after the instruction itself.\<close>

definition frame_enter :: "instr list" where "frame_enter = take 9 cpuid_frame"

definition frame_leave :: "instr list" where "frame_leave = drop 10 cpuid_frame"

lemma cpuid_frame_parts: "cpuid_frame = frame_enter @ [Cpuid] @ frame_leave"
  by (simp add: frame_enter_def frame_leave_def cpuid_frame_def)

lemma cpuid_regs_back [simp]: "cpuid_regs (with_cpuid_regs r f) = r" "with_cpuid_regs r f Edi = f Edi"
  by (simp_all add: cpuid_regs_def with_cpuid_regs_def)

lemma frame_enter_spec:
  "\<exists>t. exec cpu frame_enter s = Some t \<and> cpuid_regs (mregs t) = regs_at (mvars s ''regs'') (mmem s) \<and>
    mregs t Edi = mvars s ''regs'' \<and> mmem t = mmem s \<and> mflags t = mflags s \<and>
    mstack t = mregs s Edi # mregs s Edx # mregs s Ecx # mregs s Ebx # mstack s"
  by (simp add: frame_enter_def cpuid_frame_def put_def fetch_def retire_def cpuid_regs_def regs_at_def)

lemma frame_leave_spec:
  assumes "mstack s = d # c # b # a # st"
  shows "\<exists>t. exec cpu frame_leave s = Some t \<and> mmem t = store_regs (mregs s Edi) (cpuid_regs (mregs s)) (mmem s) \<and>
    mregs t = (mregs s)(Edi := d, Edx := c, Ecx := b, Ebx := a) \<and> mflags t = mflags s \<and> mstack t = st"
  using assms
  by (simp add: frame_leave_def cpuid_frame_def put_def fetch_def retire_def cpuid_regs_def store_regs_def)

text \<open>
  the two variants of \<^verbatim>\<open>exec_cpuid\<close> give the same: the array is replaced by what the instruction answers to it. That for
  the compiler of Microsoft changes no other memory, and gives the stack and all registers but EAX back.
\<close>

theorem exec_cpuid_variants_agree:
  "\<exists>s'. exec_cpuid_msvc cpu p s = Some s' \<and>
    mmem s' = store_regs p (fst (exec_cpuid_gnu cpu (regs_at p (mmem s)) s)) (mmem s) \<and>
    fst (exec_cpuid_gnu cpu r t) = cpuid_answer cpu r \<and>
    mstack s' = mstack s \<and> mflags s' = mflags s \<and> (\<forall>r. r \<noteq> Eax \<longrightarrow> mregs s' r = mregs s r)"
proof -
  let ?s = "s\<lparr>mvars := (mvars s)(''regs'' := p)\<rparr>"
  obtain t where t: "exec cpu frame_enter ?s = Some t" "cpuid_regs (mregs t) = regs_at p (mmem s)" "mregs t Edi = p"
      "mstack t = mregs s Edi # mregs s Edx # mregs s Ecx # mregs s Ebx # mstack s" "mmem t = mmem s" "mflags t = mflags s"
    using frame_enter_spec [of cpu ?s] by auto
  let ?u = "retire (t\<lparr>mregs := with_cpuid_regs (cpuid_answer cpu (cpuid_regs (mregs t))) (mregs t)\<rparr>)"
  obtain u where u: "exec cpu frame_leave ?u = Some u"
      "mmem u = store_regs (mregs ?u Edi) (cpuid_regs (mregs ?u)) (mmem ?u)" "mstack u = mstack s" "mflags u = mflags ?u"
      "mregs u = (mregs ?u)(Edi := mregs s Edi, Edx := mregs s Edx, Ecx := mregs s Ecx, Ebx := mregs s Ebx)"
    using frame_leave_spec [of ?u "mregs s Edi" "mregs s Edx" "mregs s Ecx" "mregs s Ebx" "mstack s" cpu] t(4)
    by (auto simp: retire_def)
  have kept: "mregs u r = mregs s r" if "r \<noteq> Eax" for r
    using that by (cases r) (simp_all add: u(5))
  have "exec_cpuid_msvc cpu p s = Some u"
    using t(1) u(1) by (simp add: exec_cpuid_msvc_def cpuid_frame_parts exec_append)
  then show ?thesis
    using t u(2-4) kept by (simp add: exec_cpuid_gnu_def retire_def Let_def)
qed

section \<open>The busy loop\<close>

text \<open>The registers of the SSE unit are zero.\<close>

definition xmm_zero :: "machine \<Rightarrow> bool" where
  "xmm_zero s \<longleftrightarrow> (\<forall>i < 8. mxmm s i = 0)"

lemma exec_additions:
  assumes "xmm_zero s" and "addps cpu 0 0 = 0" and "\<forall>(i, j) \<in> set ps. i < 8 \<and> j < 8"
  shows "exec cpu (map (\<lambda>(i, j). Addps i j) ps) s =
    Some (s\<lparr>mretired := mretired s + length ps, madditions := madditions s + length ps\<rparr>)"
  using assms
proof (induction ps arbitrary: s)
  case (Cons p ps)
  obtain i j where p: "p = (i, j)" "i < 8" "j < 8" using Cons.prems(3) by (cases p) auto
  then have "(mxmm s)(i := addps cpu (mxmm s i) (mxmm s j)) = mxmm s"
    using Cons.prems(1,2) by (auto simp: xmm_zero_def)
  moreover have "xmm_zero (retire (s\<lparr>madditions := Suc (madditions s)\<rparr>))"
    using Cons.prems(1) by (simp add: xmm_zero_def retire_def)
  ultimately show ?case
    using Cons.IH [of "retire (s\<lparr>madditions := Suc (madditions s)\<rparr>)"] Cons.prems p(1) by (simp add: retire_def)
qed simp

definition sse_pairs :: "(nat \<times> nat) list" where
  "sse_pairs = concat (replicate 32 [(0, 1), (1, 2), (2, 3), (3, 4), (4, 5), (5, 6), (6, 7), (7, 0)])"

lemma sse_body_pairs: "sse_body = map (\<lambda>(i, j). Addps i j) sse_pairs @ [Dec Eax]"
  by (simp add: sse_body_def sse_pairs_def sse_round_def map_concat)

lemma sse_pairs_256: "length sse_pairs = 256"
  by (simp add: sse_pairs_def length_concat sum_list_replicate)

lemma sse_pairs_range: "\<forall>(i, j) \<in> set sse_pairs. i < 8 \<and> j < 8"
  by (auto simp: sse_pairs_def)

lemma exec_sse_body:
  assumes "xmm_zero s" and "addps cpu 0 0 = 0"
  shows "exec cpu sse_body s = Some (set_flags cpu (ARITH_FLAGS AND NOT 1) (mregs s Eax - 1)
    (s\<lparr>mregs := (mregs s)(Eax := mregs s Eax - 1), mretired := mretired s + 257,
      madditions := madditions s + 256\<rparr>))"
  unfolding sse_body_pairs exec_append exec_additions [OF assms sse_pairs_range]
  by (simp add: sse_pairs_256 set_flags_def retire_def Let_def)

lemma unat_pred: "x \<noteq> 0 \<Longrightarrow> unat (x - 1) + 1 = unat (x :: u32)"
  by (simp add: unat_minus_one unat_gt_0)

lemma and_bit_6: "(x :: u32) AND ZERO_FLAG \<noteq> 0 \<longleftrightarrow> bit x 6"
  using bit_iff_and_push_bit_not_eq_0 [of x 6] by (simp add: push_bit_eq_mult)

text \<open>The zero flag tells whether the counter has come to zero.\<close>

lemma zero_flag_set:
  "mflags (set_flags cpu (ARITH_FLAGS AND NOT 1) v s) AND ZERO_FLAG \<noteq> 0 \<longleftrightarrow> v = 0"
proof -
  have merge: "bit (e AND NOT m OR f AND m) 6 \<longleftrightarrow> bit f 6" if "bit m 6" for e f m :: u32
    using that by (simp add: bit_simps)
  have m6: "bit (ARITH_FLAGS AND NOT 1 :: u32) 6" by simp
  have "bit (new_flags cpu v) 6 \<longleftrightarrow> v = 0"
    by (simp add: new_flags_def bit_simps)
  then show ?thesis
    unfolding and_bit_6 set_flags_def using merge [OF m6, of "mflags s" "new_flags cpu v"] by simp
qed

definition rounds_left :: "u32 \<Rightarrow> nat" where
  "rounds_left v = (if v = 0 then 2 ^ 32 else unat v)"

text \<open>What the loop has done when it ends: \<open>n\<close> rounds of 258 instructions.\<close>

definition looped :: "machine \<Rightarrow> nat \<Rightarrow> machine \<Rightarrow> bool" where
  "looped s n s' \<longleftrightarrow> mregs s' = (mregs s)(Eax := 0) \<and> mretired s' = mretired s + 258 * n \<and>
     madditions s' = madditions s + 256 * n \<and>
     mxmm s' = mxmm s \<and> mstack s' = mstack s \<and> mmem s' = mmem s"

lemma sse_loop_ends:
  assumes "xmm_zero s" and "addps cpu 0 0 = 0"
  shows "\<exists>s'. sse_loop cpu s = Some s' \<and> looped s (unat (mregs s Eax - 1) + 1) s'"
  using assms(1)
proof (induction "unat (mregs s Eax - 1)" arbitrary: s rule: less_induct)
  case less
  let ?v = "mregs s Eax - 1"
  let ?t = "retire (set_flags cpu (ARITH_FLAGS AND NOT 1) ?v (s\<lparr>mregs := (mregs s)(Eax := ?v), mretired := mretired s + 257,
      madditions := madditions s + 256\<rparr>))"
  have flag: "mflags ?t AND ZERO_FLAG \<noteq> 0 \<longleftrightarrow> ?v = 0"
    using zero_flag_set by (simp add: retire_def)
  have loop: "sse_loop cpu s = (if ?v = 0 then Some ?t else sse_loop cpu ?t)"
    by (subst sse_loop.simps) (simp only: exec_sse_body [OF less.prems assms(2)] bind.bind_lunit Let_def flag)
  have t: "mregs ?t = (mregs s)(Eax := ?v)" "mretired ?t = mretired s + 258" "madditions ?t = madditions s + 256" "mxmm ?t = mxmm s" "mstack ?t = mstack s"
    "mmem ?t = mmem s"
    by (simp_all add: retire_def set_flags_def)
  show ?case
  proof (cases "?v = 0")
    case True
    then show ?thesis using loop t by (auto simp: looped_def)
  next
    case False
    note dec = unat_pred [OF False]
    then have "\<exists>s'. sse_loop cpu ?t = Some s' \<and> looped ?t (unat (mregs ?t Eax - 1) + 1) s'"
      using less.prems t by (intro less.hyps) (simp_all add: xmm_zero_def)
    then show ?thesis using loop False t dec by (auto simp: looped_def)
  qed
qed

text \<open>
  C20: if the sum of zeros is zero, \<^verbatim>\<open>busy_sse_loop\<close> always returns, after as many rounds as it is told; for the argument 0
  these are 2 to the power of 32. It executes 256 additions in each round, the factor of the rounds in the formula of
  \<^verbatim>\<open>cpu_clock_by_ic\<close>, which adds 12 to the product for everything else; together with the decrement and the jump, and with the instructions
  before the loop, these are 258 instructions for each round and 8 or, in the variant for the compiler of
  Microsoft, 9 more. It leaves the registers of the SSE unit and EAX zero, although the variant for the compilers
  of GNU names neither as changed.
\<close>

theorem busy_sse_loop_spec:
  assumes "addps cpu 0 0 = 0"
  shows "\<exists>s'. busy_sse_loop cpu c cycles s = Some s' \<and>
    madditions s' = madditions s + 256 * rounds_left cycles \<and>
    mretired s' = mretired s + (if c = Gnu then 8 else 9) + 258 * rounds_left cycles \<and>
    xmm_zero s' \<and> mregs s' = (mregs s)(Eax := 0) \<and> mstack s' = mstack s \<and> mmem s' = mmem s"
proof -
  have upt: "[0..<8] = [0, 1, 2, 3, 4, 5, 6, 7 :: nat]" by (simp add: upt_rec)
  have clear: "\<exists>t. exec cpu sse_clear u = Some t \<and> xmm_zero t \<and> mregs t = mregs u \<and> mretired t = mretired u + 8 \<and>
      madditions t = madditions u \<and> mstack t = mstack u \<and> mmem t = mmem u" for u
    by (simp add: sse_clear_def upt retire_def xmm_zero_def less_Suc_eq numeral_eq_Suc)
  obtain u where enter: "busy_sse_loop cpu c cycles s = do { t \<leftarrow> exec cpu sse_clear u; sse_loop cpu t }"
      "mregs u = (mregs s)(Eax := cycles)" "mretired u = mretired s + (if c = Gnu then 0 else 1)"
      "madditions u = madditions s" "mstack u = mstack s" "mmem u = mmem s"
    by (cases c) (simp_all add: busy_sse_loop_def put_def fetch_def retire_def)
  obtain t where t: "exec cpu sse_clear u = Some t" "xmm_zero t" "mregs t = mregs u" "mretired t = mretired u + 8"
      "madditions t = madditions u" "mstack t = mstack u" "mmem t = mmem u"
    using clear [of u] by blast
  obtain s' where loop: "sse_loop cpu t = Some s'" "looped t (unat (cycles - 1) + 1) s'"
    using sse_loop_ends [OF t(2) assms] t(3) enter(2) by auto
  have "unat (cycles - 1) + 1 = rounds_left cycles"
    using unat_pred [of cycles]
    by (cases "cycles = 0") (simp_all add: rounds_left_def unsigned_minus_1_eq_mask mask_eq_exp_minus_1)
  then show ?thesis
    using t enter loop by (auto simp: looped_def xmm_zero_def)
qed

theorem busy_sse_loop_spec_witness:
  "\<exists>s'. busy_sse_loop sample_cpu Gnu 3 sample_machine = Some s' \<and> mretired s' = 782 \<and> madditions s' = 768"
proof -
  have "addps sample_cpu 0 0 = 0" by (simp add: sample_cpu_def)
  from busy_sse_loop_spec [OF this, of Gnu 3 sample_machine] show ?thesis
    by (auto simp: sample_machine_def rounds_left_def)
qed

end
