(* ===== verification/Platform_Variants.thy ===== *)
theory Platform_Variants
  imports Arm_Driver Clock C_Double
begin

text \<open>
  What is left of the library's parts for a single system, and its messages: the clocks of \<^verbatim>\<open>rdtsc.c\<close> on Windows, macOS
  and OpenBSD, the client of the ARM driver on systems without one (\<^verbatim>\<open>rdcpuid.c\<close>), and \<^verbatim>\<open>warnf\<close>, \<^verbatim>\<open>debugf\<close> and
  \<^verbatim>\<open>debug_print_lbits\<close> of \<^verbatim>\<open>libcpuid_util.c\<close>. The other theories leave messages out, for no result depends on them.
\<close>

section \<open>Clocks\<close>

text \<open>The counter and its frequency as doubles; the conversion is undefined outside of 64 bits.\<close>

definition dbl_to_u64 :: "double \<Rightarrow> u64 option" where
  "dbl_to_u64 x =
     (case x of Fin r \<Rightarrow> if 0 \<le> trunc r \<and> trunc r < 2 ^ 64 then Some (of_int (trunc r)) else None | _ \<Rightarrow> None)"

definition sys_precise_clock_win :: "int \<Rightarrow> int \<Rightarrow> u64 option" where
  "sys_precise_clock_win counter freq =
     dbl_to_u64 (dbl_div (dbl_mul (dbl_of_int counter) (Fin 1000000)) (dbl_of_int freq))"

text \<open>The value of the registry, the number of Hz of \<^verbatim>\<open>sysctlbyname\<close>, and the number of MHz of \<^verbatim>\<open>sysctl\<close>, if they are there.\<close>

definition cpu_clock_by_os_win :: "u32 option \<Rightarrow> int" where
  "cpu_clock_by_os_win mhz = (case mhz of None \<Rightarrow> - 1 | Some v \<Rightarrow> sint v)"

definition cpu_clock_by_os_mac :: "64 word option \<Rightarrow> int" where
  "cpu_clock_by_os_mac hz = (case hz of None \<Rightarrow> - 1 | Some v \<Rightarrow> sint (of_int (sint v sdiv 1000000) :: u32))"

definition cpu_clock_by_os_openbsd :: "u32 option \<Rightarrow> int" where
  "cpu_clock_by_os_openbsd mhz = (case mhz of None \<Rightarrow> - 1 | Some v \<Rightarrow> sint v)"

section \<open>The client of the ARM driver\<close>

text \<open>The descriptors that are open, and how many structures are allocated.\<close>

definition cpu_cpuid_driver_close :: "int option \<Rightarrow> int set \<times> nat \<Rightarrow> int set \<times> nat" where
  "cpu_cpuid_driver_close drv s =
     (case drv of
        None \<Rightarrow> s
      | Some fd \<Rightarrow> if fd \<ge> 0 then (fst s - {fd}, snd s - 1) else s)"

definition cpu_cpuid_driver_open_core_unsupported :: "'m thread \<Rightarrow> int option \<times> 'm thread" where
  "cpu_cpuid_driver_open_core_unsupported th = (None, snd (cpuid_set_error ERR_NOT_IMP th))"

definition cpu_read_arm_register_32b_unsupported :: "u32 \<Rightarrow> 'm thread \<Rightarrow> cpu_error_t \<times> u32 \<times> 'm thread" where
  "cpu_read_arm_register_32b_unsupported result th = (ERR_NOT_IMP, result, snd (cpuid_set_error ERR_NOT_IMP th))"

definition cpu_read_arm_register_64b_unsupported :: "u64 \<Rightarrow> 'm thread \<Rightarrow> cpu_error_t \<times> u64 \<times> 'm thread" where
  "cpu_read_arm_register_64b_unsupported result th = (ERR_NOT_IMP, result, snd (cpuid_set_error ERR_NOT_IMP th))"

definition cpu_cpuid_driver_close_unsupported :: "'m thread \<Rightarrow> cpu_error_t \<times> 'm thread" where
  "cpu_cpuid_driver_close_unsupported th = cpuid_set_error ERR_NOT_IMP th"

section \<open>Messages\<close>

text \<open>
  A handler has a name of any type; \<open>calls\<close> are the calls of handlers so far. \<open>no_warn\<close> says whether the environment has
  \<^verbatim>\<open>LIBCPUID_NO_WARN\<close>. The argument of \<^verbatim>\<open>warnf\<close> and \<^verbatim>\<open>debugf\<close> is the formatted text, which is cut to the buffer.
\<close>

record 'h messages =
  warn_fun :: "'h option"
  verboselevel :: int
  no_warn :: bool
  calls :: "('h \<times> string) list"

definition call_handler :: "'h \<Rightarrow> string \<Rightarrow> 'h messages \<Rightarrow> 'h messages" where
  "call_handler h msg s = s\<lparr>calls := calls s @ [(h, take 1023 msg)]\<rparr>"

definition cpuid_set_warn_function :: "'h option \<Rightarrow> 'h messages \<Rightarrow> 'h option \<times> 'h messages" where
  "cpuid_set_warn_function new_fn s = (warn_fun s, s\<lparr>warn_fun := new_fn\<rparr>)"

definition cpuid_set_verbosiness_level :: "int \<Rightarrow> 'h messages \<Rightarrow> 'h messages" where
  "cpuid_set_verbosiness_level level s = s\<lparr>verboselevel := level\<rparr>"

definition warnf :: "string \<Rightarrow> 'h messages \<Rightarrow> 'h messages" where
  "warnf msg s =
     (if no_warn s then s else case warn_fun s of None \<Rightarrow> s | Some h \<Rightarrow> call_handler h msg s)"

definition debugf :: "int \<Rightarrow> string \<Rightarrow> 'h messages \<Rightarrow> 'h messages" where
  "debugf level msg s =
     (case warn_fun s of
        None \<Rightarrow> s
      | Some h \<Rightarrow> if level > verboselevel s then s else call_handler h msg s)"

text \<open>The loop of \<^verbatim>\<open>debug_print_lbits\<close>, with its variable \<open>first\<close>; the function starts it with \<^verbatim>\<open>first = 0\<close>.\<close>

fun lbits_loop :: "int \<Rightarrow> u64 \<Rightarrow> nat list \<Rightarrow> bool \<Rightarrow> 'h messages \<Rightarrow> 'h messages" where
  "lbits_loop level m [] first s = s"
| "lbits_loop level m (i # is) first s =
     (if bit m i then
        let s = (if first then s else debugf level '' + '' s);
          s = debugf level (''LBIT('' @ dec_digits i @ '')'') s
        in lbits_loop level m is False s
      else lbits_loop level m is first s)"

definition debug_print_lbits :: "int \<Rightarrow> u64 \<Rightarrow> 'h messages \<Rightarrow> 'h messages" where
  "debug_print_lbits level m s = debugf level [CHR 10] (lbits_loop level m [0..<64] False s)"

section \<open>Properties\<close>

text \<open>
  On Windows the clock is exact, its microseconds rounded down, as long as the counter times a million has at most 53
  bits. With the usual 10 MHz these are the first fifteen minutes; after that the product is rounded first.
\<close>

lemma windows_clock_exact:
  assumes "0 \<le> counter" and "0 < freq" and "counter * 1000000 < 2 ^ 53" and "freq < 2 ^ 53"
  shows "sys_precise_clock_win counter freq = Some (of_int (counter * 1000000 div freq))"
proof -
  let ?a = "counter * 1000000"
  define q :: rat where "q = of_int ?a / of_int freq"
  have rounded: "rnd (of_int counter) = of_int counter" "rnd (of_int freq) = of_int freq"
    "rnd (of_int counter * 1000000) = of_int ?a"
    using assms rnd_of_int [of ?a] by (auto intro!: rnd_of_int)
  have le: "?a div freq \<le> ?a" using zdiv_mono2 [of ?a 1 freq] assms(1,2) by simp
  have pos: "0 \<le> ?a div freq" using assms(1,2) by (simp add: pos_imp_zdiv_nonneg_iff)
  have fl: "\<lfloor>q\<rfloor> = ?a div freq" unfolding q_def by (rule floor_divide_of_int_eq)
  have q0: "0 \<le> q" using assms by (simp add: q_def)
  have "q / 2 ^ 53 < 1 / of_int freq"
    using assms by (simp add: q_def divide_simps)
  then have err: "\<bar>rnd q - q\<bar> < 1 / of_int freq"
    using rnd_error [of q] q0 by simp
  have rem: "q - of_int (?a div freq) = of_int (?a mod freq) / of_int freq"
    using assms(2) by (simp add: q_def field_simps flip: of_int_mult of_int_add)
  have up: "rnd q < of_int (?a div freq) + 1"
  proof -
    have "?a mod freq \<le> freq - 1" using assms(2) by simp
    then have "(of_int (?a mod freq) :: rat) \<le> of_int freq - 1"
      by (metis of_int_1 of_int_diff of_int_le_iff)
    then have "q - of_int (?a div freq) \<le> 1 - 1 / of_int freq"
      unfolding rem using assms(2) by (simp add: field_simps)
    then show ?thesis using err by linarith
  qed
  have low: "of_int (?a div freq) \<le> rnd q"
  proof (cases "?a mod freq = 0")
    case True
    have "q = of_int (?a div freq)" using True rem by simp
    moreover have "\<bar>?a div freq\<bar> < 2 ^ 53" using assms(3) le pos by linarith
    ultimately show ?thesis by (simp only: rnd_of_int)
  next
    case False
    then have "1 \<le> ?a mod freq" using assms(2) pos_mod_sign [of freq ?a] by linarith
    then have "(1 :: rat) \<le> of_int (?a mod freq)" by simp
    then have "1 / of_int freq \<le> q - of_int (?a div freq)"
      unfolding rem using assms(2) by (simp add: divide_right_mono)
    then show ?thesis using err by linarith
  qed
  have "\<lfloor>rnd q\<rfloor> = ?a div freq" using up low by (simp add: floor_eq_iff)
  moreover have "?a div freq < 2 ^ 64" using le
    by (rule order.strict_trans1 [OF _ order.strict_trans [OF assms(3)]]) simp
  moreover have "\<not> rnd q < 0"
  proof -
    have "(0 :: rat) \<le> of_int (?a div freq)" using pos by (simp only: of_int_0_le_iff)
    then show ?thesis using low by linarith
  qed
  moreover note pos
  ultimately have "dbl_to_u64 (Fin (rnd q)) = Some (of_int (?a div freq))"
    by (simp add: dbl_to_u64_def trunc_def)
  then show ?thesis
    using assms(2) rounded by (simp add: sys_precise_clock_win_def dbl_of_int_def q_def)
qed

text \<open>
  With a handler and enough verbosity, \<^verbatim>\<open>debug_print_lbits\<close> writes the set bits in ascending order, each with a plus sign before
  it, the first one too, for \<^verbatim>\<open>first\<close> is never true.
\<close>

lemma debugf_on:
  "warn_fun s = Some h \<Longrightarrow> level \<le> verboselevel s \<Longrightarrow> debugf level msg s = s\<lparr>calls := calls s @ [(h, take 1023 msg)]\<rparr>"
  by (simp add: debugf_def call_handler_def)

lemma debug_print_lbits_calls:
  assumes "warn_fun s = Some h" and "level \<le> verboselevel s"
  shows "calls (debug_print_lbits level m s) =
    calls s @ concat (map (\<lambda>i. [(h, '' + ''), (h, ''LBIT('' @ dec_digits i @ '')'')]) (filter (bit m) [0..<64])) @ [(h, [CHR 10])]"
proof -
  have whole: "take 1023 (''LBIT('' @ dec_digits i @ '')'') = ''LBIT('' @ dec_digits i @ '')''" if "i < 64" for i
  proof -
    have "length (dec_digits i) \<le> 2" using that by (intro length_dec_digits) simp_all
    then show ?thesis by simp
  qed
  have "lbits_loop level m is False s = s\<lparr>calls := calls s @
      concat (map (\<lambda>i. [(h, '' + ''), (h, ''LBIT('' @ dec_digits i @ '')'')]) (filter (bit m) is))\<rparr>"
    if "\<forall>i \<in> set is. i < 64" for "is"
    using assms that
  proof (induction "is" arbitrary: s)
    case (Cons i "is")
    then show ?case
      using Cons.IH [of "s\<lparr>calls := calls s @ [(h, '' + ''), (h, ''LBIT('' @ dec_digits i @ '')'')]\<rparr>"]
      by (simp add: debugf_on whole del: take_append take_Cons_numeral take_Suc_Cons append.simps)
  qed simp
  then show ?thesis
    using assms by (simp add: debug_print_lbits_def debugf_on)
qed

end
