(* ===== verification/Spec2Isabelle.thy ===== *)
theory Spec2Isabelle
  imports Code_Tables Codename_Match Cpu_Lists Affinity_Mask Cache_Info X86_Common X86_Levels
    Match_Tables Table_Names Recog_Amd Recog_Intel Recog_Centaur Raw_Arrays Raw_Access Topology Identify
    System_Identify Raw_Dump_Properties Arm_Access Clock_Cpu Msr_Errors
    Tool_Runs Affinity_Platforms Arm_Freebsd Msr_Windows Asm_Bits Platform_Variants
begin

text \<open>
  A verification development of libcpuid, the C library that identifies processors.

  The library reads raw processor registers (\<^verbatim>\<open>cpu_raw_data_t\<close>: the CPUID leaves of an x86
  processor or the ID registers of an ARM one), once per logical CPU, with the calling thread
  pinned to it, and decodes them to \<^verbatim>\<open>cpu_id_t\<close>: vendor, family and model, feature flags,
  caches, core counts, architecture level and a codename from a table per vendor. For a whole
  machine it groups the logical CPUs by type (\<^verbatim>\<open>system_id_t\<close>). Paths below without a directory are under
  \<^verbatim>\<open>src/libcpuid/\<close>.

  Theories, in the order of their imports:
  \<^item> \<^verbatim>\<open>Prelude\<close>: words, \<^verbatim>\<open>EXTRACTS_BIT(S)\<close>, C strings as character lists without the
    terminating NUL, generic lemmas.
  \<^item> \<^verbatim>\<open>Feature_Ids\<close>, \<^verbatim>\<open>Cpuid_Types\<close>: \<^verbatim>\<open>libcpuid.h\<close> and \<^verbatim>\<open>libcpuid_internal.h\<close>: every
    structure is a record, every enumeration a datatype, the feature constants are numbers.
  \<^item> \<^verbatim>\<open>Code_Tables\<close>: the names of enumeration values (\<^verbatim>\<open>cpu_feature_str\<close> and its kind).
  \<^item> \<^verbatim>\<open>Pattern_Match\<close>, \<^verbatim>\<open>String_Util\<close>, \<^verbatim>\<open>Codename_Match\<close>, \<^verbatim>\<open>Cpu_Lists\<close>, \<^verbatim>\<open>Affinity_Mask\<close>,
    \<^verbatim>\<open>Cache_Info\<close>: the groups of functions of \<^verbatim>\<open>libcpuid_util.c\<close>, with the list and mask
    printing functions of \<^verbatim>\<open>cpuid_main.c\<close>.
  \<^item> \<^verbatim>\<open>X86_Common\<close>: vendor, signature, brand string, generic features, core counts and
    hypervisor (\<^verbatim>\<open>cpuid_main.c\<close>, \<^verbatim>\<open>libcpuid_util.c\<close>); \<^verbatim>\<open>X86_Levels\<close>: the x86-64 levels.
  \<^item> \<^verbatim>\<open>Match_Tables\<close>: the rows of \<^verbatim>\<open>cpudb_amd\<close>, \<^verbatim>\<open>cpudb_intel\<close> and \<^verbatim>\<open>cpudb_centaur\<close>, with a
    locale \<open>match_db\<close> of what the matcher needs of a table, interpreted on all three; \<^verbatim>\<open>Table_Names\<close>: which
    rows can be selected.
  \<^item> \<^verbatim>\<open>Recog_Amd\<close>, \<^verbatim>\<open>Recog_Intel\<close>, \<^verbatim>\<open>Recog_Centaur\<close>: the recognizers (\<^verbatim>\<open>recog_*.c\<close>).
  \<^item> \<^verbatim>\<open>Arm_Tables\<close>, \<^verbatim>\<open>Recog_Arm\<close>: the tables and the recognizer of \<^verbatim>\<open>recog_arm.c\<close>.
    \<^verbatim>\<open>Arm_Versions\<close> counts the features per version: the recognizer is a sequence of calls of
    \<^verbatim>\<open>set_feature_status\<close>, and the counters and flags are functions of that sequence.
    \<^verbatim>\<open>Arm_Identify\<close> has the properties, over a locale \<open>sentinel_table\<close> of tables that end with an
    entry of id -1, interpreted on the implementers and on the parts of each of them.
  \<^item> \<^verbatim>\<open>Raw_Arrays\<close>: the arrays that grow by one (locale \<open>growable\<close>, three interpretations);
    \<^verbatim>\<open>Raw_Access\<close>: reading the leaves with the thread pinned to a CPU; \<^verbatim>\<open>Topology\<close>: thread, core
    and package ids from the APIC id and the counting of cores and caches in hash tables;
    \<^verbatim>\<open>Identify\<close>: one processor (locale \<open>recognizer\<close>, interpreted on the x86 recognizers);
    \<^verbatim>\<open>System_Identify\<close>: \<^verbatim>\<open>cpu_identify_all\<close>.
  \<^item> \<^verbatim>\<open>C_Stdio\<close>: \<^verbatim>\<open>fgets\<close>, \<^verbatim>\<open>sscanf\<close> and the conversions of \<^verbatim>\<open>fprintf\<close>; \<^verbatim>\<open>Raw_Dump\<close>: writing and reading
    raw dump files (\<^verbatim>\<open>cpuid_(de)serialize_raw_data_internal\<close>). \<^verbatim>\<open>Raw_Dump_Facts\<close> has the lines and the
    tables they fill (locale \<open>dump_tables\<close>, interpreted on the x86 and both kinds of ARM tables),
    \<^verbatim>\<open>Raw_Dump_Roundtrip\<close> follows the reader through a dump, \<^verbatim>\<open>Raw_Dump_Properties\<close> concludes.
  \<^item> \<^verbatim>\<open>Arm_Driver\<close>: the kernel module \<^verbatim>\<open>src/drivers/arm/linux/cpuid.c\<close> and its client \<^verbatim>\<open>rdcpuid.c\<close>;
    \<^verbatim>\<open>Arm_Access\<close>: reading an ARM processor through it or with the MRS instruction; \<^verbatim>\<open>Arm_Freebsd\<close>: the
    module \<^verbatim>\<open>src/drivers/arm/freebsd/cpuid.c\<close>, which moves the thread to the processor, compared with that for Linux.
  \<^item> \<^verbatim>\<open>Affinity_Platforms\<close>: the functions of \<^verbatim>\<open>cpuid_main.c\<close> that count processors and pin threads on macOS, Windows,
    Solaris, the BSDs and unknown systems, each with a record of the answers of its system calls. \<^verbatim>\<open>Raw_Access\<close> has
    those of Linux; a system joins it through the field \<open>os_pin\<close>.
  \<^item> \<^verbatim>\<open>Clock\<close>, \<^verbatim>\<open>Clock_Facts\<close>: the measurements of \<^verbatim>\<open>rdtsc.c\<close> against a stream of clock readings, and what
    they return; \<^verbatim>\<open>Clock_Cpu\<close>: the frequencies that depend on the identified processor, and
    \<^verbatim>\<open>get_cached_cpuid\<close>.
  \<^item> \<^verbatim>\<open>C_Double\<close>: the doubles of C as rounded rational numbers; \<^verbatim>\<open>Msr\<close>: the model-specific registers
    (\<^verbatim>\<open>rdmsr.c\<close>) and what \<^verbatim>\<open>cpu_msrinfo\<close> computes from them, with its static variables in a record;
    \<^verbatim>\<open>Msr_Facts\<close>: bit fields and the AMD multipliers; \<^verbatim>\<open>Msr_Errors\<close>: registers that cannot be read, dumps,
    opening. \<^verbatim>\<open>Msr_Windows\<close>: opening and reading on FreeBSD and on Windows, with the kernel driver
    \<^verbatim>\<open>src/drivers/x86/windows/msr/Kernel/TmpRdr.c\<close>; the handles that are open are part of its state.
  \<^item> \<^verbatim>\<open>Asm_Bits\<close>: the inline assembly of \<^verbatim>\<open>asm-bits.c\<close> as lists of instructions, on a machine with the registers,
    flags, stack and memory they use; \<^verbatim>\<open>Platform_Variants\<close>: the clocks of other systems, the client of the ARM driver
    where there is none, and the messages with their handler.
  \<^item> \<^verbatim>\<open>Tool_Options\<close>, \<^verbatim>\<open>Tool_Report\<close>, \<^verbatim>\<open>Tool_Main\<close>: the program \<^verbatim>\<open>src/cpuid_tool/cpuid_tool.c\<close>: its command line, what
    it prints, and \<^verbatim>\<open>main\<close>, which composes reading or loading raw data, saving it, identifying the system and
    the queries; its output is a log of texts with their streams. \<^verbatim>\<open>Tool_Facts\<close> has postconditions of what is
    written, \<^verbatim>\<open>Tool_Runs\<close> the properties of whole runs.

  Effects. A pointer argument that is written is an argument and a result; \<^verbatim>\<open>NULL\<close> is \<^const>\<open>None\<close>
  where the code tests for it. A function is an option exactly when the C function can run into
  undefined behaviour (an index outside an array, a division by zero), which is then
  \<^const>\<open>None\<close>: the theorems say for which inputs this happens. \<^verbatim>\<open>_libcpuid_errno\<close> and the affinity
  of the thread are in the record \<^verbatim>\<open>thread\<close>; \<^verbatim>\<open>realloc\<close> and \<^verbatim>\<open>malloc\<close> succeed as the parameter
  \<open>alloc\<close> says. Messages to the debug log are left out but in
  \<^verbatim>\<open>Platform_Variants\<close>.

  Parameters that stand for code outside the repository: the record \<^verbatim>\<open>os\<close> (the system calls
  behind the affinity functions, the CPUID instruction on a CPU, the number of processors) and the
  record \<^verbatim>\<open>arm_os\<close> (the ARM registers of each CPU, the functions of the kernel, the file system), the
  record \<^verbatim>\<open>timer\<close> (the readings of the system clock and of the time-stamp counter), the record \<^verbatim>\<open>msr_env\<close> (what
  each read of a model-specific register returns, the device files, and what uninitialised variables hold),
  the record \<^verbatim>\<open>tool_env\<close> (the files the program reads and can write, and the version of the library), and
  the records of the other systems (\<^verbatim>\<open>mac_os\<close>, \<^verbatim>\<open>win_os\<close>, \<^verbatim>\<open>xp_os\<close>, \<^verbatim>\<open>sun_os\<close>, \<^verbatim>\<open>bsd_os\<close>, \<^verbatim>\<open>netbsd_os\<close>, \<^verbatim>\<open>fbsd_kernel\<close>
  and \<^verbatim>\<open>win_api\<close>: what their calls answer), and the record \<^verbatim>\<open>cpu_model\<close> (the processor that executes the assembly).

  Termination and bounds: every loop but those that wait for a clock is a total function; these, the
  wait for a Windows service, and the loop of \<^verbatim>\<open>busy_sse_loop\<close> (which always ends), are partial functions whose result \<^const>\<open>None\<close> stands for running for ever, and the theorems say
  when they return. The loops over leaves end at the length
  of their array, \<^verbatim>\<open>cpuid_get_all_raw_data\<close> at the first CPU the thread cannot be pinned to, at
  the latest when the 16-bit counter would wrap; no fuel is used.

  What the theorems show: the contract of each decoder against an independent description of
  the leaf it reads (bit fields, sets of descriptors, documented levels), the exact inputs on
  which the code leaves its arrays or divides by zero, that masks refine sets of CPUs, that
  identification of one x86 processor fails only for an unknown vendor and always finds a row
  of its table, which ARM versions and features are reported for which registers, that raw dumps are
  read back, that \<^verbatim>\<open>cpu_identify_all\<close> partitions the logical CPUs among the types, which command lines the
  program accepts, how its runs end, that a saved dump stands for the machine it was read on, that the kernel modules
  agree, and which handles and memory the driver for Windows leaves behind.

  Not modelled: \<^verbatim>\<open>msrdriver.c\<close>, whose arrays hold the images of the compiled driver for Windows and no code. The
  variants of the functions that read \<^verbatim>\<open>cpuctl\<close> devices on FreeBSD are only written out where they differ from Linux.
\<close>

end
